(* ===== verification/Prelude.thy ===== *)
theory Prelude
  imports Complex_Main "HOL-Library.AList"
begin

text \<open>
  Shared vocabulary of the development. A Python call that may raise is a value of
  \<open>'e + 'a\<close>: \<open>Inl\<close> holds the exception, \<open>Inr\<close> the result. \<open>bindR\<close> sequences two such
  calls and stops at the first exception; the loops of the code that may raise are
  \<open>mapR\<close>, \<open>foldR\<close>, \<open>anyR\<close> and \<open>filterR\<close>. Dictionaries are association lists in
  insertion order, read with \<open>map_of\<close> and written with \<open>AList.update\<close>, which replaces
  a present key in place and appends a new one, as Python's dict does.
\<close>

named_theorems res_simps \<open>rules that evaluate or invert computations that may raise\<close>

section \<open>Computations that may raise\<close>

definition bindR :: "'e + 'a \<Rightarrow> ('a \<Rightarrow> 'e + 'b) \<Rightarrow> 'e + 'b" where
  "bindR m f = (case m of Inl e \<Rightarrow> Inl e | Inr x \<Rightarrow> f x)"

lemma bindR_Inr [simp]: "bindR (Inr x) f = f x"
  and bindR_Inl [simp]: "bindR (Inl e) f = Inl e"
  by (simp_all add: bindR_def)

lemma bindR_eq_Inr [simp, res_simps]: "bindR m f = Inr y \<longleftrightarrow> (\<exists>x. m = Inr x \<and> f x = Inr y)"
  by (cases m) auto

lemma bindR_unit_eq_Inr [simp, res_simps]:
  "bindR (m :: 'e + unit) f = Inr y \<longleftrightarrow> m = Inr () \<and> f () = Inr y"
  by (cases m) auto

lemma ex_Inr_bool [simp]:
  "(\<exists>b. m = Inr b \<and> b) \<longleftrightarrow> m = Inr True" "(\<exists>b. m = Inr b \<and> \<not> b) \<longleftrightarrow> m = Inr False"
  "(\<exists>b. m = Inr b \<and> b \<and> P) \<longleftrightarrow> m = Inr True \<and> P"
  "(\<exists>b. m = Inr b \<and> \<not> b \<and> P) \<longleftrightarrow> m = Inr False \<and> P"
  by (metis (full_types))+

lemma bindR_eq_Inl [res_simps]:
  "bindR m f = Inl e \<longleftrightarrow> m = Inl e \<or> (\<exists>x. m = Inr x \<and> f x = Inl e)"
  by (cases m) auto

lemma bindR_assoc: "bindR (bindR m f) g = bindR m (\<lambda>x. bindR (f x) g)"
  by (cases m) simp_all

lemma bindR_cong [fundef_cong]:
  "m = m' \<Longrightarrow> (\<And>x. m' = Inr x \<Longrightarrow> f x = f' x) \<Longrightarrow> bindR m f = bindR m' f'"
  by (cases m') simp_all

lemma if_raise_eq_Inr [simp, res_simps]:
  "(if b then Inl e else r) = Inr y \<longleftrightarrow> \<not> b \<and> r = Inr y"
  "(if b then r else Inl e) = Inr y \<longleftrightarrow> b \<and> r = Inr y"
  by auto

text \<open>Branch on a condition that itself may raise.\<close>

definition ifR :: "'e + bool \<Rightarrow> 'e + 'a \<Rightarrow> 'e + 'a \<Rightarrow> 'e + 'a" where
  "ifR c t f = bindR c (\<lambda>b. if b then t else f)"

lemma ifR_simps [simp]:
  "ifR (Inr True) t f = t" "ifR (Inr False) t f = f" "ifR (Inl e) t f = Inl e"
  by (simp_all add: ifR_def)

lemma ifR_Inr: "ifR (Inr b) t f = (if b then t else f)"
  by simp

lemma ifR_eq_Inr [simp, res_simps]:
  "ifR c t f = Inr y \<longleftrightarrow> (c = Inr True \<and> t = Inr y) \<or> (c = Inr False \<and> f = Inr y)"
  by (cases c) (simp_all add: ifR_Inr split: if_splits)

text \<open>Python's \<open>and\<close> and \<open>or\<close> on conditions: the second operand runs only when needed.\<close>

definition andR :: "'e + bool \<Rightarrow> 'e + bool \<Rightarrow> 'e + bool" where
  "andR a b = ifR a b (Inr False)"

definition orR :: "'e + bool \<Rightarrow> 'e + bool \<Rightarrow> 'e + bool" where
  "orR a b = ifR a (Inr True) b"

lemma andR_simps [simp]:
  "andR (Inr True) b = b" "andR (Inr False) b = Inr False" "andR (Inl e) b = Inl e"
  by (simp_all add: andR_def)

lemma orR_simps [simp]:
  "orR (Inr True) b = Inr True" "orR (Inr False) b = b" "orR (Inl e) b = Inl e"
  by (simp_all add: orR_def)

lemma andR_True [res_simps]: "andR a b = Inr True \<longleftrightarrow> a = Inr True \<and> b = Inr True"
  by (cases a) (auto simp: andR_def)

lemma orR_False [res_simps]: "orR a b = Inr False \<longleftrightarrow> a = Inr False \<and> b = Inr False"
  by (cases a) (auto simp: orR_def)

section \<open>Loops that may raise\<close>

fun mapR :: "('a \<Rightarrow> 'e + 'b) \<Rightarrow> 'a list \<Rightarrow> 'e + 'b list" where
  "mapR f [] = Inr []"
| "mapR f (x # xs) = bindR (f x) (\<lambda>y. bindR (mapR f xs) (\<lambda>ys. Inr (y # ys)))"

fun foldR :: "('s \<Rightarrow> 'a \<Rightarrow> 'e + 's) \<Rightarrow> 's \<Rightarrow> 'a list \<Rightarrow> 'e + 's" where
  "foldR f s [] = Inr s"
| "foldR f s (x # xs) = bindR (f s x) (\<lambda>s'. foldR f s' xs)"

fun anyR :: "('a \<Rightarrow> 'e + bool) \<Rightarrow> 'a list \<Rightarrow> 'e + bool" where
  "anyR p [] = Inr False"
| "anyR p (x # xs) = orR (p x) (anyR p xs)"

fun filterR :: "('a \<Rightarrow> 'e + bool) \<Rightarrow> 'a list \<Rightarrow> 'e + 'a list" where
  "filterR p [] = Inr []"
| "filterR p (x # xs) =
     bindR (p x) (\<lambda>b. bindR (filterR p xs) (\<lambda>ys. Inr (if b then x # ys else ys)))"

text \<open>A loop whose body only checks: it returns when no iteration raises.\<close>

fun eachR :: "('a \<Rightarrow> 'e + unit) \<Rightarrow> 'a list \<Rightarrow> 'e + unit" where
  "eachR f [] = Inr ()"
| "eachR f (x # xs) = bindR (f x) (\<lambda>_. eachR f xs)"

lemma eachR_eq_Inr [simp, res_simps]: "eachR f xs = Inr u \<longleftrightarrow> (\<forall>x \<in> set xs. f x = Inr ())"
  by (induction xs) auto

lemma mapR_eq_Inr: "mapR f xs = Inr ys \<longleftrightarrow> list_all2 (\<lambda>x y. f x = Inr y) xs ys"
  by (induction xs arbitrary: ys) (auto simp: list_all2_Cons1)

lemma mapR_in: "mapR f xs = Inr ys \<Longrightarrow> x \<in> set xs \<Longrightarrow> \<exists>y \<in> set ys. f x = Inr y"
  and mapR_out: "mapR f xs = Inr ys \<Longrightarrow> y \<in> set ys \<Longrightarrow> \<exists>x \<in> set xs. f x = Inr y"
  by (induction xs arbitrary: ys) auto

lemma mapR_pure [simp]: "mapR (\<lambda>x. Inr (g x)) xs = Inr (map g xs)"
  by (induction xs) auto

lemma anyR_True: "anyR p xs = Inr True \<Longrightarrow> \<exists>x \<in> set xs. p x = Inr True"
proof (induction xs)
  case (Cons x xs)
  then show ?case by (cases "p x") (auto simp: orR_def ifR_Inr split: if_splits)
qed simp

lemma anyR_pure [simp]: "anyR (\<lambda>x. Inr (p x)) xs = Inr (\<exists>x \<in> set xs. p x)"
proof (induction xs)
  case (Cons x xs)
  then show ?case by (cases "p x") auto
qed simp

lemma filterR_pure [simp]: "filterR (\<lambda>x. Inr (p x)) xs = Inr (filter p xs)"
  by (induction xs) auto

lemma filterR_set: "filterR p xs = Inr ys \<Longrightarrow> set ys = {x \<in> set xs. p x = Inr True}"
  by (induction xs arbitrary: ys) (auto split: if_splits)

lemma foldR_invariant:
  assumes "foldR f s xs = Inr s'" and "P s"
    and "\<And>s x s'. x \<in> set xs \<Longrightarrow> P s \<Longrightarrow> f s x = Inr s' \<Longrightarrow> P s'"
  shows "P s'"
  using assms by (induction xs arbitrary: s) auto

text \<open>
  Checks that return a reason: \<open>None\<close> lets the code go on, \<open>Some r\<close> makes it return \<open>r\<close>.
  \<open>firstR\<close> is such a check in a loop, \<open>thenR\<close> two of them in sequence.
\<close>

definition thenR :: "'e + 'r option \<Rightarrow> 'e + 'r option \<Rightarrow> 'e + 'r option" where
  "thenR a b = bindR a (\<lambda>r. case r of None \<Rightarrow> b | Some v \<Rightarrow> Inr (Some v))"

lemma thenR_simps [simp]:
  "thenR (Inr None) b = b" "thenR (Inr (Some v)) b = Inr (Some v)" "thenR (Inl e) b = Inl e"
  by (simp_all add: thenR_def)

lemma thenR_None [simp]: "thenR a b = Inr None \<longleftrightarrow> a = Inr None \<and> b = Inr None"
  by (cases a) (auto simp: thenR_def split: option.splits)

fun firstR :: "('a \<Rightarrow> 'e + 'r option) \<Rightarrow> 'a list \<Rightarrow> 'e + 'r option" where
  "firstR f [] = Inr None"
| "firstR f (x # xs) = thenR (f x) (firstR f xs)"

lemma firstR_None [simp]: "firstR f xs = Inr None \<longleftrightarrow> (\<forall>x \<in> set xs. f x = Inr None)"
  by (induction xs) auto

lemma if_reason_None [simp]:
  "(if b then Inr (Some r) else c) = Inr None \<longleftrightarrow> \<not> b \<and> c = Inr None"
  "(if b then c else Inr (Some r)) = Inr None \<longleftrightarrow> b \<and> c = Inr None"
  by auto

section \<open>Association lists\<close>

lemma map_of_alist_update [simp]: "map_of (AList.update k v xs) = (map_of xs)(k \<mapsto> v)"
  by (rule update_conv')

lemma map_of_alist_delete [simp]: "map_of (AList.delete k xs) = (map_of xs)(k := None)"
  by (rule delete_conv')

lemma alist_update_nonempty [simp]: "AList.update k v xs \<noteq> []"
  by (cases xs) auto

lemma keys_update: "fst ` set (AList.update k v xs) = insert k (fst ` set xs)"
  by (simp add: dom_update dom_map_of_conv_image_fst [symmetric] del: map_of_alist_update)
     (simp add: dom_map_of_conv_image_fst update_conv')

text \<open>Building a dictionary entry by entry: every key looks up one of the entries.\<close>

lemma map_of_fold_update:
  "map_of (fold (\<lambda>(k, v). AList.update k v) kvs acc) k = Some v \<Longrightarrow> (k, v) \<in> set kvs \<or> map_of acc k = Some v"
proof (induction kvs arbitrary: acc)
  case (Cons x kvs)
  from Cons.IH [of "AList.update (fst x) (snd x) acc"] Cons.prems show ?case
    by (cases x) (auto split: if_splits)
qed simp

text \<open>Remove repeated elements, keeping the first occurrence of each.\<close>

fun dedup_from :: "'a list \<Rightarrow> 'a list \<Rightarrow> 'a list" where
  "dedup_from seen [] = []"
| "dedup_from seen (x # xs) =
     (if x \<in> set seen then dedup_from seen xs else x # dedup_from (x # seen) xs)"

lemma set_dedup_from: "set (dedup_from seen xs) = set xs - set seen"
  by (induction xs arbitrary: seen) auto

lemma distinct_dedup_from: "distinct (dedup_from seen xs)"
  by (induction xs arbitrary: seen) (auto simp: set_dedup_from)

lemma find_SomeD: "find P xs = Some x \<Longrightarrow> P x \<and> x \<in> set xs"
  by (auto simp: find_Some_iff)

lemma update_fresh: "k \<notin> fst ` set al \<Longrightarrow> AList.update k v al = al @ [(k, v)]"
  by (induction al) auto

end
