(* ===== verification/Errors.thy ===== *)
theory Errors
  imports Prelude
begin

text \<open>
  Exceptions. \<open>ErrorCode\<close>, the exit codes and \<open>GatewayError\<close> model
  \<open>core/commands/errors.py\<close>; the other constructors of \<open>pyexc\<close> are the built-in
  exceptions the modelled code can raise. A \<open>GatewayError\<close> carries its code and its JSON
  pointer (the empty pointer for \<open>None\<close>); its human-readable message, which no code
  reads back, is not modelled. A \<open>ValueError\<close> carries its message, because callers
  report it.
\<close>

datatype ErrorCode =
    INVALID_SCHEMA | UNAUTHORIZED | HUMAN_AUTH_REQUIRED | CONFLICT | INVALID_TRANSITION
  | INVARIANT_VIOLATION | NOT_FOUND | ALREADY_EXISTS | IDEMPOTENCY_MISMATCH
  | UNSUPPORTED_CONTRACT | CAPABILITY_NOT_ENFORCEABLE | TRANSACTION_RECOVERY_REQUIRED
  | INTERNAL_ERROR

datatype pyexc =
    GatewayError ErrorCode string
  | KeyError string
  | TypeError
  | AttributeError
  | ValueError string
  | FileNotFoundError string
  | YAMLError
  | FencingError
  | PermissionError
  | WorkspaceError
  | GitWorkspaceError string
  | IndexError
  | ExecutionGatewayError string string string

type_synonym 'a res = "pyexc + 'a"

abbreviation gateway_error :: "ErrorCode \<Rightarrow> string \<Rightarrow> 'a res" where
  "gateway_error c p \<equiv> Inl (GatewayError c p)"

definition EXIT_OK :: int where "EXIT_OK = 0"
definition EXIT_SCHEMA :: int where "EXIT_SCHEMA = 3"
definition EXIT_UNAUTHORIZED :: int where "EXIT_UNAUTHORIZED = 4"
definition EXIT_CONFLICT :: int where "EXIT_CONFLICT = 5"
definition EXIT_UNSUPPORTED :: int where "EXIT_UNSUPPORTED = 6"
definition EXIT_RECOVERY :: int where "EXIT_RECOVERY = 7"
definition EXIT_INTERNAL :: int where "EXIT_INTERNAL = 10"

lemmas exit_defs = EXIT_OK_def EXIT_SCHEMA_def EXIT_UNAUTHORIZED_def EXIT_CONFLICT_def
  EXIT_UNSUPPORTED_def EXIT_RECOVERY_def EXIT_INTERNAL_def

definition exit_code_for :: "ErrorCode \<Rightarrow> int" where
  "exit_code_for error_code =
     (if error_code = INVALID_SCHEMA then EXIT_SCHEMA
      else if error_code \<in> {UNAUTHORIZED, HUMAN_AUTH_REQUIRED} then EXIT_UNAUTHORIZED
      else if error_code \<in> {CONFLICT, IDEMPOTENCY_MISMATCH} then EXIT_CONFLICT
      else if error_code \<in> {UNSUPPORTED_CONTRACT, CAPABILITY_NOT_ENFORCEABLE} then EXIT_UNSUPPORTED
      else if error_code \<in> {INVALID_TRANSITION, INVARIANT_VIOLATION, NOT_FOUND, ALREADY_EXISTS}
        then EXIT_SCHEMA
      else if error_code = TRANSACTION_RECOVERY_REQUIRED then EXIT_RECOVERY
      else EXIT_INTERNAL)"

lemma exit_code_nonzero: "exit_code_for c \<noteq> EXIT_OK"
  by (simp add: exit_code_for_def exit_defs)

lemma exit_code_internal: "exit_code_for c = EXIT_INTERNAL \<longleftrightarrow> c = INTERNAL_ERROR"
  by (cases c) (simp_all add: exit_code_for_def exit_defs)

end
