(* ===== verification/PyValue.thy ===== *)
theory PyValue
  imports Errors "HOL-Library.List_Lexorder" "HOL-Library.Char_ord"
begin

text \<open>
  The JSON and YAML documents the code passes around, as the Python values it handles:
  \<open>None\<close>, booleans, integers (unbounded), floats, strings (the bytes of their UTF-8 form),
  lists and dictionaries with string keys in insertion order. Floats are exact rationals:
  the code only compares and adds them, and rounding, infinities and NaN are not modelled.
  Each operation below is one Python operation on such values, with the exception it
  raises on a value of the wrong type.
\<close>

datatype json =
    JNull
  | JBool bool
  | JInt int
  | JFloat rat
  | JStr string
  | JList "json list"
  | JObj "(string \<times> json) list"

type_synonym obj = "(string \<times> json) list"

section \<open>Truth, types and equality\<close>

fun truthy :: "json \<Rightarrow> bool" where
  "truthy JNull = False"
| "truthy (JBool b) = b"
| "truthy (JInt i) = (i \<noteq> 0)"
| "truthy (JFloat q) = (q \<noteq> 0)"
| "truthy (JStr s) = (s \<noteq> [])"
| "truthy (JList xs) = (xs \<noteq> [])"
| "truthy (JObj kvs) = (kvs \<noteq> [])"

definition por :: "json \<Rightarrow> json \<Rightarrow> json" where
  "por a b = (if truthy a then a else b)"

fun is_dict :: "json \<Rightarrow> bool" where
  "is_dict (JObj _) = True" | "is_dict _ = False"

fun is_list :: "json \<Rightarrow> bool" where
  "is_list (JList _) = True" | "is_list _ = False"

fun is_str :: "json \<Rightarrow> bool" where
  "is_str (JStr _) = True" | "is_str _ = False"

text \<open>\<open>isinstance(x, int)\<close> holds for booleans as well, \<open>bool\<close> being a subclass of \<open>int\<close>.\<close>

fun is_int :: "json \<Rightarrow> bool" where
  "is_int (JInt _) = True" | "is_int (JBool _) = True" | "is_int _ = False"

fun is_bool :: "json \<Rightarrow> bool" where
  "is_bool (JBool _) = True" | "is_bool _ = False"

text \<open>The numeric value of a number; booleans count as 0 and 1.\<close>

fun num_of :: "json \<Rightarrow> rat option" where
  "num_of (JBool b) = Some (if b then 1 else 0)"
| "num_of (JInt i) = Some (of_int i)"
| "num_of (JFloat q) = Some q"
| "num_of _ = None"

text \<open>\<open>==\<close>: numbers compare by value, lists by position, dictionaries by key.\<close>

fun py_eq :: "json \<Rightarrow> json \<Rightarrow> bool"
  and py_eq_list :: "json list \<Rightarrow> json list \<Rightarrow> bool"
  and py_eq_obj :: "obj \<Rightarrow> obj \<Rightarrow> bool" where
  "py_eq JNull b = (b = JNull)"
| "py_eq (JStr s) b = (b = JStr s)"
| "py_eq (JList xs) b = (case b of JList ys \<Rightarrow> py_eq_list xs ys | _ \<Rightarrow> False)"
| "py_eq (JObj xs) b =
     (case b of JObj ys \<Rightarrow> length xs = length ys \<and> py_eq_obj xs ys | _ \<Rightarrow> False)"
| "py_eq (JBool x) b = (num_of b = Some (if x then 1 else 0))"
| "py_eq (JInt x) b = (num_of b = Some (of_int x))"
| "py_eq (JFloat x) b = (num_of b = Some x)"
| "py_eq_list [] ys = (ys = [])"
| "py_eq_list (x # xs) ys = (case ys of [] \<Rightarrow> False | y # ys' \<Rightarrow> py_eq x y \<and> py_eq_list xs ys')"
| "py_eq_obj [] ys = True"
| "py_eq_obj ((k, v) # xs) ys =
     ((case map_of ys k of None \<Rightarrow> False | Some w \<Rightarrow> py_eq v w) \<and> py_eq_obj xs ys)"

lemma py_eq_str_right [simp]: "py_eq b (JStr s) \<longleftrightarrow> b = JStr s"
  by (cases b) auto

lemma py_eq_null_right [simp]: "py_eq b JNull \<longleftrightarrow> b = JNull"
  by (cases b) auto

lemma py_eq_int_int [simp]: "py_eq (JInt i) (JInt j) \<longleftrightarrow> i = j"
  by auto

section \<open>Dictionaries\<close>

definition oget :: "obj \<Rightarrow> string \<Rightarrow> json" where
  "oget ob k = (case map_of ob k of None \<Rightarrow> JNull | Some v \<Rightarrow> v)"

definition ohas :: "obj \<Rightarrow> string \<Rightarrow> bool" where
  "ohas ob k = (map_of ob k \<noteq> None)"

text \<open>\<open>x.get(k)\<close> and \<open>x.get(k, d)\<close>.\<close>

fun jget :: "json \<Rightarrow> string \<Rightarrow> json res" where
  "jget (JObj ob) k = Inr (oget ob k)"
| "jget _ k = Inl AttributeError"

fun jget_or :: "json \<Rightarrow> string \<Rightarrow> json \<Rightarrow> json res" where
  "jget_or (JObj ob) k d = Inr (case map_of ob k of None \<Rightarrow> d | Some v \<Rightarrow> v)"
| "jget_or _ k d = Inl AttributeError"

text \<open>\<open>x[k]\<close> with a string key.\<close>

fun jitem :: "json \<Rightarrow> string \<Rightarrow> json res" where
  "jitem (JObj ob) k = (case map_of ob k of None \<Rightarrow> Inl (KeyError k) | Some v \<Rightarrow> Inr v)"
| "jitem _ k = Inl TypeError"

text \<open>\<open>x[k] = v\<close>, \<open>x.setdefault(k, v)\<close> (the updated dictionary), \<open>x.pop(k, None)\<close>, \<open>del x[k]\<close>.\<close>

fun jset :: "json \<Rightarrow> string \<Rightarrow> json \<Rightarrow> json res" where
  "jset (JObj ob) k v = Inr (JObj (AList.update k v ob))"
| "jset _ k v = Inl TypeError"

definition osetdefault :: "string \<Rightarrow> json \<Rightarrow> obj \<Rightarrow> obj" where
  "osetdefault k v ob = (if ohas ob k then ob else ob @ [(k, v)])"

definition opop :: "string \<Rightarrow> obj \<Rightarrow> obj" where
  "opop k ob = AList.delete k ob"

text \<open>\<open>dict(x)\<close> and the items of a dictionary; a value without \<open>keys\<close> raises.\<close>

fun as_obj :: "json \<Rightarrow> obj res" where
  "as_obj (JObj ob) = Inr ob"
| "as_obj _ = Inl AttributeError"

lemma oget_update [simp]: "oget (AList.update k v ob) k' = (if k = k' then v else oget ob k')"
  by (simp add: oget_def)

lemma ohas_update [simp]: "ohas (AList.update k v ob) k' \<longleftrightarrow> k = k' \<or> ohas ob k'"
  by (simp add: ohas_def)

lemma oget_Nil [simp]: "oget [] k = JNull"
  by (simp add: oget_def)

lemma oget_Cons [simp]: "oget ((k', v) # ob) k = (if k = k' then v else oget ob k)"
  by (simp add: oget_def)

lemma ohas_Nil [simp]: "ohas [] k = False"
  and ohas_Cons [simp]: "ohas ((k', v) # ob) k \<longleftrightarrow> k = k' \<or> ohas ob k"
  by (auto simp: ohas_def)

lemma map_of_osetdefault: "map_of (osetdefault k v ob) k' =
    (if k = k' \<and> \<not> ohas ob k then Some v else map_of ob k')"
  by (auto simp: osetdefault_def ohas_def map_add_def split: option.splits)

lemma oget_osetdefault [simp]:
  "oget (osetdefault k v ob) k' = (if k = k' \<and> \<not> ohas ob k then v else oget ob k')"
  by (auto simp: oget_def map_of_osetdefault)

lemma ohas_osetdefault [simp]: "ohas (osetdefault k v ob) k' \<longleftrightarrow> k = k' \<or> ohas ob k'"
  by (simp add: ohas_def map_of_osetdefault) (auto simp: ohas_def)

lemma oget_opop [simp]: "oget (opop k ob) k' = (if k = k' then JNull else oget ob k')"
  by (simp add: oget_def opop_def)

lemma jget_eq_Inr [res_simps]: "jget j k = Inr v \<longleftrightarrow> (\<exists>ob. j = JObj ob \<and> v = oget ob k)"
  by (cases j) auto

lemma jitem_eq_Inr [res_simps]: "jitem j k = Inr v \<longleftrightarrow> (\<exists>ob. j = JObj ob \<and> map_of ob k = Some v)"
  by (cases j) (auto split: option.splits)

lemma jset_eq_Inr [res_simps]:
  "jset j k v = Inr j' \<longleftrightarrow> (\<exists>ob. j = JObj ob \<and> j' = JObj (AList.update k v ob))"
  by (cases j) auto

lemma as_obj_eq_Inr [res_simps]: "as_obj j = Inr ob \<longleftrightarrow> j = JObj ob"
  by (cases j) auto

section \<open>Sequences and membership\<close>

text \<open>Iterating a value: a list gives its elements, a dictionary its keys, a string its
  characters; other values raise.\<close>

fun jiter :: "json \<Rightarrow> json list res" where
  "jiter (JList xs) = Inr xs"
| "jiter (JObj ob) = Inr (map (\<lambda>(k, _). JStr k) ob)"
| "jiter (JStr s) = Inr (map (\<lambda>c. JStr [c]) s)"
| "jiter _ = Inl TypeError"

fun infix_of :: "string \<Rightarrow> string \<Rightarrow> bool" where
  "infix_of p [] = (p = [])"
| "infix_of p (c # s) = (take (length p) (c # s) = p \<or> infix_of p s)"

text \<open>\<open>v in x\<close> for a list, a dictionary or a string.\<close>

definition mem_list :: "json \<Rightarrow> json list \<Rightarrow> bool" where
  "mem_list v xs = (\<exists>x \<in> set xs. py_eq x v)"

fun hashable :: "json \<Rightarrow> bool" where
  "hashable (JList _) = False" | "hashable (JObj _) = False" | "hashable _ = True"

text \<open>\<open>d.get(k)\<close> with a computed key: a key that is not a string is in no document, an
  unhashable one raises.\<close>

definition key_of :: "json \<Rightarrow> string option res" where
  "key_of k = (case k of JStr s \<Rightarrow> Inr (Some s) | _ \<Rightarrow> if hashable k then Inr None else Inl TypeError)"

definition dict_get :: "json \<Rightarrow> json \<Rightarrow> json res" where
  "dict_get d k =
     (case d of
        JObj ob \<Rightarrow> bindR (key_of k) (\<lambda>key. Inr (case key of None \<Rightarrow> JNull | Some s \<Rightarrow> oget ob s))
      | _ \<Rightarrow> Inl AttributeError)"

lemma key_of_JStr [simp]: "key_of (JStr s) = Inr (Some s)"
  by (simp add: key_of_def)

lemma dict_get_JObj [simp]: "dict_get (JObj ob) (JStr s) = Inr (oget ob s)"
  by (simp add: dict_get_def)

lemma dict_get_JStr_Inr [res_simps]: "dict_get d (JStr s) = Inr v \<longleftrightarrow> (\<exists>ob. d = JObj ob \<and> v = oget ob s)"
  by (cases d) (auto simp: dict_get_def)

fun jin :: "json \<Rightarrow> json \<Rightarrow> bool res" where
  "jin v (JList xs) = Inr (mem_list v xs)"
| "jin v (JObj ob) =
     (case v of JStr k \<Rightarrow> Inr (ohas ob k) | _ \<Rightarrow> if hashable v then Inr False else Inl TypeError)"
| "jin v (JStr s) = (case v of JStr p \<Rightarrow> Inr (infix_of p s) | _ \<Rightarrow> Inl TypeError)"
| "jin v _ = Inl TypeError"

text \<open>\<open>v in S\<close> for a set of strings: an unhashable \<open>v\<close> raises.\<close>

definition in_strs :: "json \<Rightarrow> string list \<Rightarrow> bool res" where
  "in_strs v S = (if hashable v then Inr (\<exists>s \<in> set S. v = JStr s) else Inl TypeError)"

text \<open>\<open>set(xs)\<close> of an iterable, as the list of its distinct elements.\<close>

definition jset_of :: "json \<Rightarrow> json list res" where
  "jset_of x = bindR (jiter x) (\<lambda>xs. if list_all hashable xs then Inr xs else Inl TypeError)"

lemma in_strs_JStr [simp]: "in_strs (JStr s) S = Inr (s \<in> set S)"
  by (auto simp: in_strs_def)

lemma in_strs_JNull [simp]: "in_strs JNull S = Inr False"
  by (simp add: in_strs_def)

lemma in_strs_True [res_simps]: "in_strs v S = Inr True \<longleftrightarrow> (\<exists>s \<in> set S. v = JStr s)"
  by (auto simp: in_strs_def)

lemma mem_list_JStr [simp]: "mem_list (JStr s) xs \<longleftrightarrow> JStr s \<in> set xs"
  by (auto simp: mem_list_def)

section \<open>Text of a value\<close>

fun nat_text :: "nat \<Rightarrow> string" where
  "nat_text n = (if n < 10 then [char_of (48 + n)]
                 else nat_text (n div 10) @ [char_of (48 + n mod 10)])"

declare nat_text.simps [simp del]

definition int_text :: "int \<Rightarrow> string" where
  "int_text i = (if i < 0 then ''-'' @ nat_text (nat (- i)) else nat_text (nat i))"

text \<open>A float prints as its decimal expansion (17 places at most, no exponent form).\<close>

fun frac_text :: "nat \<Rightarrow> rat \<Rightarrow> string" where
  "frac_text 0 q = []"
| "frac_text (Suc n) q =
     (if q = 0 then []
      else nat_text (nat \<lfloor>10 * q\<rfloor>) @ frac_text n (10 * q - of_int \<lfloor>10 * q\<rfloor>))"

definition float_text :: "rat \<Rightarrow> string" where
  "float_text q =
     (let a = \<bar>q\<bar>; f = a - of_int \<lfloor>a\<rfloor>
      in (if q < 0 then ''-'' else []) @ int_text \<lfloor>a\<rfloor> @ ''.'' @
         (if f = 0 then ''0'' else frac_text 17 f))"

definition hex_digit :: "nat \<Rightarrow> char" where
  "hex_digit n = char_of (if n < 10 then 48 + n else 87 + n)"

text \<open>\<open>repr\<close> of a string: single quotes unless it holds a single but no double quote.\<close>

definition repr_char :: "char \<Rightarrow> char \<Rightarrow> string" where
  "repr_char q c =
     (let n = of_char c :: nat
      in if c = q \<or> n = 92 then [char_of (92 :: nat), c]
         else if n = 10 then [char_of (92 :: nat), CHR ''n'']
         else if n = 13 then [char_of (92 :: nat), CHR ''r'']
         else if n = 9 then [char_of (92 :: nat), CHR ''t'']
         else if n < 32 \<or> n = 127
           then [char_of (92 :: nat), CHR ''x'', hex_digit (n div 16), hex_digit (n mod 16)]
         else [c])"

definition repr_str :: "string \<Rightarrow> string" where
  "repr_str s =
     (let sq = char_of (39 :: nat); dq = char_of (34 :: nat);
          q = (if sq \<in> set s \<and> dq \<notin> set s then dq else sq)
      in [q] @ concat (map (repr_char q) s) @ [q])"

fun intersperse :: "string \<Rightarrow> string list \<Rightarrow> string" where
  "intersperse sep [] = []"
| "intersperse sep [x] = x"
| "intersperse sep (x # y # zs) = x @ sep @ intersperse sep (y # zs)"

fun py_repr :: "json \<Rightarrow> string"
  and repr_items :: "json list \<Rightarrow> string list"
  and repr_pairs :: "obj \<Rightarrow> string list" where
  "py_repr JNull = ''None''"
| "py_repr (JBool b) = (if b then ''True'' else ''False'')"
| "py_repr (JInt i) = int_text i"
| "py_repr (JFloat q) = float_text q"
| "py_repr (JStr s) = repr_str s"
| "py_repr (JList xs) = ''['' @ intersperse '', '' (repr_items xs) @ '']''"
| "py_repr (JObj ob) = ''{'' @ intersperse '', '' (repr_pairs ob) @ ''}''"
| "repr_items [] = []"
| "repr_items (x # xs) = py_repr x # repr_items xs"
| "repr_pairs [] = []"
| "repr_pairs ((k, v) # ob) = (repr_str k @ '': '' @ py_repr v) # repr_pairs ob"

text \<open>\<open>str(x)\<close>, also what an f-string interpolates.\<close>

definition py_str :: "json \<Rightarrow> string" where
  "py_str j = (case j of JStr s \<Rightarrow> s | _ \<Rightarrow> py_repr j)"

lemma py_str_JStr [simp]: "py_str (JStr s) = s"
  by (simp add: py_str_def)

section \<open>Numbers\<close>

fun digits_value :: "nat \<Rightarrow> string \<Rightarrow> nat option" where
  "digits_value acc [] = Some acc"
| "digits_value acc (c # s) =
     (let n = of_char c :: nat
      in if 48 \<le> n \<and> n \<le> 57 then digits_value (10 * acc + (n - 48)) s else None)"

definition is_space :: "char \<Rightarrow> bool" where
  "is_space c = ((of_char c :: nat) \<in> {9, 10, 11, 12, 13, 28, 29, 30, 31, 32})"

definition strip :: "string \<Rightarrow> string" where
  "strip s = rev (dropWhile is_space (rev (dropWhile is_space s)))"

text \<open>\<open>int(text)\<close> for a decimal numeral with optional sign and surrounding blanks.\<close>

definition int_of_text :: "string \<Rightarrow> int option" where
  "int_of_text s =
     (case strip s of
        [] \<Rightarrow> None
      | c # ds \<Rightarrow>
          (let (sgn, body) = (if c = CHR ''-'' then (-1, ds)
                              else if c = CHR ''+'' then (1, ds) else (1, c # ds))
           in if body = [] then None else map_option (\<lambda>n. sgn * int n) (digits_value 0 body)))"

text \<open>\<open>float(text)\<close> for a decimal numeral with an optional fraction.\<close>

definition float_of_text :: "string \<Rightarrow> rat option" where
  "float_of_text s =
     (let t = strip s; neg = (take 1 t = ''-'');
          u = (if take 1 t = ''-'' \<or> take 1 t = ''+'' then drop 1 t else t);
          ip = takeWhile (\<lambda>c. c \<noteq> CHR ''.'') u; fp = drop (Suc (length ip)) u
      in if ip = [] \<and> fp = [] then None
         else case (digits_value 0 ip, digits_value 0 fp) of
           (Some a, Some b) \<Rightarrow>
             Some ((if neg then -1 else 1) * (of_nat a + of_nat b / 10 ^ length fp))
         | _ \<Rightarrow> None)"

fun py_int :: "json \<Rightarrow> int res" where
  "py_int (JBool b) = Inr (if b then 1 else 0)"
| "py_int (JInt i) = Inr i"
| "py_int (JFloat q) = Inr (if 0 \<le> q then \<lfloor>q\<rfloor> else \<lceil>q\<rceil>)"
| "py_int (JStr s) = (case int_of_text s of None \<Rightarrow> Inl (ValueError ''invalid literal for int()'')
                                       | Some i \<Rightarrow> Inr i)"
| "py_int _ = Inl TypeError"

fun py_float :: "json \<Rightarrow> rat res" where
  "py_float (JBool b) = Inr (if b then 1 else 0)"
| "py_float (JInt i) = Inr (of_int i)"
| "py_float (JFloat q) = Inr q"
| "py_float (JStr s) =
     (case float_of_text s of None \<Rightarrow> Inl (ValueError ''could not convert string to float'')
                         | Some q \<Rightarrow> Inr q)"
| "py_float _ = Inl TypeError"

text \<open>\<open>a >= b\<close>: numbers by value, strings lexicographically; mixed kinds raise.\<close>

definition py_ge :: "json \<Rightarrow> json \<Rightarrow> bool res" where
  "py_ge a b =
     (case (num_of a, num_of b) of
        (Some x, Some y) \<Rightarrow> Inr (x \<ge> y)
      | _ \<Rightarrow> (case (a, b) of (JStr s, JStr t) \<Rightarrow> Inr (t \<le> s) | _ \<Rightarrow> Inl TypeError))"

text \<open>\<open>a + 1\<close> on a number.\<close>

fun py_succ :: "json \<Rightarrow> json res" where
  "py_succ (JInt i) = Inr (JInt (i + 1))"
| "py_succ (JBool b) = Inr (JInt (if b then 2 else 1))"
| "py_succ (JFloat q) = Inr (JFloat (q + 1))"
| "py_succ _ = Inl TypeError"

text \<open>\<open>len(x)\<close>.\<close>

fun py_len :: "json \<Rightarrow> nat res" where
  "py_len (JList xs) = Inr (length xs)"
| "py_len (JObj ob) = Inr (length ob)"
| "py_len (JStr s) = Inr (length s)"
| "py_len _ = Inl TypeError"

lemma py_ge_int [simp]: "py_ge (JInt a) (JInt b) = Inr (a \<ge> b)"
  by (simp add: py_ge_def)

text \<open>\<open>sorted\<close> of a set of strings, and \<open>", ".join\<close>.\<close>

definition sorted_strs :: "string list \<Rightarrow> string list" where
  "sorted_strs xs = sort (remdups xs)"

lemma set_sorted_strs [simp]: "set (sorted_strs xs) = set xs"
  by (simp add: sorted_strs_def)

lemma sorted_strs_Nil [simp]: "sorted_strs xs = [] \<longleftrightarrow> xs = []"
  by (metis set_sorted_strs set_empty)

lemma sorted_strs_sorted: "sorted (sorted_strs xs) \<and> distinct (sorted_strs xs)"
  by (simp add: sorted_strs_def)

end
