(* ===== verification/PyText.thy ===== *)
theory PyText
  imports PyValue
begin

text \<open>
  The string operations the code uses: \<open>lower\<close>, \<open>replace\<close> of a character, \<open>startswith\<close>,
  \<open>lstrip\<close>, \<open>find\<close>, \<open>join\<close>, and the shell patterns of the standard module \<open>fnmatch\<close>
  (\<open>fnmatchcase\<close>; on the POSIX systems modelled here \<open>fnmatch\<close> is the same function).
\<close>

section \<open>Plain string operations\<close>

definition lower_char :: "char \<Rightarrow> char" where
  "lower_char c = (let n = of_char c :: nat in if 65 \<le> n \<and> n \<le> 90 then char_of (n + 32) else c)"

definition lower :: "string \<Rightarrow> string" where
  "lower s = map lower_char s"

definition startswith :: "string \<Rightarrow> string \<Rightarrow> bool" where
  "startswith s p = (take (length p) s = p)"

definition endswith :: "string \<Rightarrow> string \<Rightarrow> bool" where
  "endswith s p = startswith (rev s) (rev p)"

definition replace_char :: "char \<Rightarrow> char \<Rightarrow> string \<Rightarrow> string" where
  "replace_char a b s = map (\<lambda>c. if c = a then b else c) s"

definition lstrip_char :: "char \<Rightarrow> string \<Rightarrow> string" where
  "lstrip_char a s = dropWhile (\<lambda>c. c = a) s"

text \<open>\<open>s.find(c)\<close> when it is not \<open>-1\<close>.\<close>

fun find_char :: "char \<Rightarrow> string \<Rightarrow> nat option" where
  "find_char a [] = None"
| "find_char a (c # s) = (if c = a then Some 0 else map_option Suc (find_char a s))"

lemma startswith_iff: "startswith s p \<longleftrightarrow> (\<exists>r. s = p @ r)"
  unfolding startswith_def by (metis append_eq_conv_conj append_take_drop_id)

lemma startswith_append [simp]: "startswith (p @ r) p"
  by (simp add: startswith_def)

lemma find_char_Some: "find_char a s = Some n \<Longrightarrow> n < length s \<and> s ! n = a \<and> a \<notin> set (take n s)"
proof (induction s arbitrary: n)
  case (Cons c s)
  then show ?case by (cases n) (auto split: if_splits)
qed simp

lemma find_char_None: "find_char a s = None \<longleftrightarrow> a \<notin> set s"
  by (induction s) auto

lemma lower_char_idem [simp]: "lower_char (lower_char c) = lower_char c"
proof (cases "65 \<le> (of_char c :: nat) \<and> (of_char c :: nat) \<le> 90")
  case True
  then have "of_char (char_of ((of_char c :: nat) + 32)) = (of_char c :: nat) + 32"
    by simp
  with True show ?thesis by (simp add: lower_char_def Let_def)
qed (auto simp: lower_char_def Let_def)

lemma lower_idem [simp]: "lower (lower s) = lower s"
  by (simp add: lower_def)

lemma lower_eq_Nil [simp]: "lower s = [] \<longleftrightarrow> s = []"
  by (simp add: lower_def)

section \<open>Shell patterns\<close>

text \<open>
  A pattern is a sequence of tokens: \<open>*\<close>, \<open>?\<close>, a bracket expression with its character
  ranges (possibly negated), or a literal character. A bracket without a closing \<open>]\<close> is a
  literal \<open>[\<close>; a \<open>]\<close> right after the opening (or after its \<open>!\<close>) is a member of the set; a
  range whose bounds are out of order is empty.
\<close>

datatype glob =
    GStar
  | GAny
  | GSet bool "(char \<times> char) list"
  | GLit char

text \<open>Split \<open>stuff]rest\<close> at the closing bracket.\<close>

definition bracket_body :: "string \<Rightarrow> (string \<times> string) option" where
  "bracket_body s =
     (let n0 = (if take 1 s = ''!'' then 1 else 0);
          n1 = (if take 1 (drop n0 s) = '']'' then Suc n0 else n0)
      in case find_char (CHR '']'') (drop n1 s) of
           None \<Rightarrow> None
         | Some k \<Rightarrow> Some (take (n1 + k) s, drop (Suc (n1 + k)) s))"

fun bracket_ranges :: "string \<Rightarrow> (char \<times> char) list" where
  "bracket_ranges [] = []"
| "bracket_ranges [a] = [(a, a)]"
| "bracket_ranges [a, b] = [(a, a), (b, b)]"
| "bracket_ranges (a # b # c # s) =
     (if b = CHR ''-'' then (if a \<le> c then [(a, c)] else []) @ bracket_ranges s
      else (a, a) # bracket_ranges (b # c # s))"

definition bracket_glob :: "string \<Rightarrow> glob" where
  "bracket_glob stuff =
     (if stuff = ''!'' then GAny
      else if take 1 stuff = ''!'' then GSet True (bracket_ranges (drop 1 stuff))
      else GSet False (bracket_ranges stuff))"

lemma bracket_body_shorter: "bracket_body s = Some (b, r) \<Longrightarrow> length r < length s"
  by (auto simp: bracket_body_def Let_def split: option.splits dest!: find_char_Some)

function glob_parse :: "string \<Rightarrow> glob list" where
  "glob_parse [] = []"
| "glob_parse (c # s) =
     (if c = CHR ''*'' then GStar # glob_parse s
      else if c = CHR ''?'' then GAny # glob_parse s
      else if c = CHR ''['' then
        (case bracket_body s of
           None \<Rightarrow> GLit c # glob_parse s
         | Some (b, r) \<Rightarrow> bracket_glob b # glob_parse r)
      else GLit c # glob_parse s)"
  by pat_completeness auto
termination
  by (relation "measure length") (auto dest: bracket_body_shorter)

fun glob_char :: "glob \<Rightarrow> char \<Rightarrow> bool" where
  "glob_char GAny c = True"
| "glob_char (GLit a) c = (c = a)"
| "glob_char (GSet neg rs) c = ((\<exists>(lo, hi) \<in> set rs. lo \<le> c \<and> c \<le> hi) \<noteq> neg)"
| "glob_char GStar c = False"

fun glob_match :: "glob list \<Rightarrow> string \<Rightarrow> bool" where
  "glob_match [] s = (s = [])"
| "glob_match (GStar # ts) [] = glob_match ts []"
| "glob_match (GStar # ts) (c # s) = (glob_match ts (c # s) \<or> glob_match (GStar # ts) s)"
| "glob_match (t # ts) [] = False"
| "glob_match (t # ts) (c # s) = (glob_char t c \<and> glob_match ts s)"

definition fnmatchcase :: "string \<Rightarrow> string \<Rightarrow> bool" where
  "fnmatchcase name pat = glob_match (glob_parse pat) name"

text \<open>Characters that a pattern treats specially.\<close>

definition glob_special :: "char \<Rightarrow> bool" where
  "glob_special c = (c \<in> {CHR ''*'', CHR ''?'', CHR ''[''})"

lemma glob_parse_literal: "\<not> glob_special c \<Longrightarrow> glob_parse (c # s) = GLit c # glob_parse s"
  by (simp add: glob_special_def)

lemma glob_parse_append_literal:
  "\<forall>c \<in> set p. \<not> glob_special c \<Longrightarrow> glob_parse (p @ s) = map GLit p @ glob_parse s"
  by (induction p) (auto simp: glob_special_def)

lemma glob_match_literal: "glob_match (map GLit p @ ts) s \<longleftrightarrow> (\<exists>r. s = p @ r \<and> glob_match ts r)"
proof (induction p arbitrary: s)
  case (Cons a p)
  then show ?case by (cases s) auto
qed simp

lemma fnmatchcase_literal: "\<forall>c \<in> set p. \<not> glob_special c \<Longrightarrow> fnmatchcase s p \<longleftrightarrow> s = p"
  using glob_parse_append_literal [of p "[]"] glob_match_literal [of p "[]" s]
  by (simp add: fnmatchcase_def)

lemma fnmatchcase_prefix:
  "\<forall>c \<in> set p. \<not> glob_special c \<Longrightarrow>
   fnmatchcase s (p @ q) \<longleftrightarrow> (\<exists>r. s = p @ r \<and> fnmatchcase r q)"
  by (simp add: fnmatchcase_def glob_parse_append_literal glob_match_literal)

lemma glob_match_star_all [simp]: "glob_match [GStar] s"
  by (induction s) auto

lemma glob_match_star_append: "glob_match ts s \<Longrightarrow> glob_match (GStar # ts) (p @ s)"
proof (induction p)
  case Nil
  then show ?case by (cases s) auto
qed simp

end
