(* ===== verification/CheckRegistry.thy ===== *)
theory CheckRegistry
  imports PyText Errors
begin

text \<open>
  The registry of the checks an agent may report (\<open>core/execution_gateway/check_registry.py\<close>):
  canonical checks with explicit aliases, acceptance criteria (\<open>AC-*\<close>) that stand for
  themselves, and compact ranges of them. A rejection carries its structured code.
\<close>

section \<open>The checks\<close>

record check_definition =
  canonical_id :: string
  aliases :: "string list"
  category :: string
  authorized_roles :: "string list"
  procedures :: "string list"
  evidence_type :: string
  blocking :: bool
  independent_verification :: "string option"

definition CHECKS :: "check_definition list" where
  "CHECKS =
     [\<lparr>canonical_id = ''implementation'', aliases = [''implementation'', ''implement'', ''impl''], category = ''implementation'',
        authorized_roles = [''backend-developer'', ''frontend-developer''],
        procedures = [''implement-work-unit'', ''implement-approved-design'', ''adapt-approved-design'', ''frontend-design'',
          ''create-frontend-design''],
        evidence_type = ''diff_and_artifact'', blocking = True, independent_verification = Some ''diff_scope''\<rparr>,
      \<lparr>canonical_id = ''tests'', aliases = [''tests'', ''test'', ''pytest'', ''unit-tests'', ''unit_tests'', ''mvn-test'',
          ''mvn-test-failsafe'', ''mvn_test_failsafe'', ''qa'', ''webapp-testing''], category = ''verification'',
        authorized_roles = [''qa-test''], procedures = [''webapp-testing'', ''design-verification''],
        evidence_type = ''command_transcript'', blocking = True, independent_verification = Some ''unit_test''\<rparr>,
      \<lparr>canonical_id = ''code_review'', aliases = [''code_review'', ''code-review'', ''codereview'', ''review'', ''code review''],
        category = ''review'', authorized_roles = [''code-reviewer''], procedures = [''webapp-testing'', ''challenge-requirements''],
        evidence_type = ''review_report'', blocking = True, independent_verification = None\<rparr>,
      \<lparr>canonical_id = ''security_review'', aliases = [''security_review'', ''security-review'', ''security review''],
        category = ''security'', authorized_roles = [''security-reviewer''], procedures = [''security-review''],
        evidence_type = ''security_report'', blocking = True, independent_verification = None\<rparr>,
      \<lparr>canonical_id = ''audit'', aliases = [''audit'', ''audit_release'', ''audit-release'', ''audit release''],
        category = ''audit'', authorized_roles = [''auditor''], procedures = [''audit-release''],
        evidence_type = ''audit_report'', blocking = True, independent_verification = None\<rparr>,
      \<lparr>canonical_id = ''integration_review'', aliases = [''integration_review'', ''integration-review'', ''integration review''],
        category = ''integration'', authorized_roles = [''integration-steward''], procedures = [''integrate-work-units''],
        evidence_type = ''integration_report'', blocking = True, independent_verification = None\<rparr>,
      \<lparr>canonical_id = ''lint'', aliases = [''lint'', ''linter'', ''ruff'', ''eslint''], category = ''verification'',
        authorized_roles = [''backend-developer'', ''frontend-developer'', ''qa-test''],
        procedures = [''implement-work-unit'', ''webapp-testing''],
        evidence_type = ''command_transcript'', blocking = True, independent_verification = Some ''lint''\<rparr>,
      \<lparr>canonical_id = ''build'', aliases = [''build'', ''compile''], category = ''verification'',
        authorized_roles = [''backend-developer'', ''frontend-developer'', ''qa-test''],
        procedures = [''implement-work-unit'', ''webapp-testing''],
        evidence_type = ''command_transcript'', blocking = True, independent_verification = Some ''build''\<rparr>]"

text \<open>\<open>re.sub(r"[^a-z0-9]+", "-", name.lower()).strip("-")\<close>: the alphanumeric runs, joined.\<close>

definition is_ascii_digit :: "char \<Rightarrow> bool" where
  "is_ascii_digit c \<longleftrightarrow> c \<in> set ''0123456789''"

definition is_alnum_lower :: "char \<Rightarrow> bool" where
  "is_alnum_lower c \<longleftrightarrow> is_ascii_digit c \<or> c \<in> set ''abcdefghijklmnopqrstuvwxyz''"

fun alnum_runs :: "string \<Rightarrow> string list" where
  "alnum_runs [] = [[]]"
| "alnum_runs (c # s) =
     (if is_alnum_lower c then (case alnum_runs s of [] \<Rightarrow> [[c]] | r # rs \<Rightarrow> (c # r) # rs) else [] # alnum_runs s)"

definition normalize_token :: "string \<Rightarrow> string" where
  "normalize_token name = intersperse ''-'' (filter (\<lambda>r. r \<noteq> []) (alnum_runs (lower name)))"

text \<open>\<open>None\<close> stands for the \<open>RuntimeError\<close> of an ambiguous alias, which fails the import of the module.\<close>

definition add_alias :: "string \<Rightarrow> (string \<times> string) list option \<Rightarrow> string \<Rightarrow> (string \<times> string) list option" where
  "add_alias canonical mapping alias_name =
     Option.bind mapping (\<lambda>m. let token = normalize_token alias_name in
       if token = [] then Some m
       else (case map_of m token of
          Some existing \<Rightarrow> if existing \<noteq> canonical then None else Some (AList.update token canonical m)
        | None \<Rightarrow> Some (AList.update token canonical m)))"

definition build_alias_map :: "(string \<times> string) list option" where
  "build_alias_map = foldl (\<lambda>m d. foldl (add_alias (canonical_id d)) m (aliases d)) (Some []) CHECKS"

definition ALIAS_TO_CANONICAL :: "(string \<times> string) list" where
  "ALIAS_TO_CANONICAL = (case build_alias_map of Some m \<Rightarrow> m | None \<Rightarrow> [])"

definition get_check :: "string \<Rightarrow> check_definition option" where
  "get_check i = find (\<lambda>d. canonical_id d = i) CHECKS"

section \<open>Normalising reported names\<close>

definition is_word_char :: "char \<Rightarrow> bool" where
  "is_word_char c \<longleftrightarrow> is_alnum_lower (lower_char c)"

text \<open>\<open>^(AC-[A-Za-z0-9][A-Za-z0-9._-]*)\<close>.\<close>

definition leading_ac_id :: "string \<Rightarrow> string option" where
  "leading_ac_id raw =
     (if startswith raw ''AC-'' then
        (case drop 3 raw of
           [] \<Rightarrow> None
         | c # s \<Rightarrow> if is_word_char c then Some (''AC-'' @ c # takeWhile (\<lambda>x. is_word_char x \<or> x \<in> set ''._-'') s) else None)
      else None)"

definition normalize_check_name :: "string \<Rightarrow> string option" where
  "normalize_check_name name =
     (let raw = strip name in
      if raw = [] then None
      else (case leading_ac_id raw of
          Some i \<Rightarrow> Some i
        | None \<Rightarrow> map_of ALIAS_TO_CANONICAL (normalize_token raw)))"

section \<open>Ranges of acceptance criteria\<close>

text \<open>
  \<open>^(AC-.+-)(\d+)\.\.(\d+)(?:\D|$)\<close> with the prefix of the given length: the digits before and after
  the two dots. The expression is greedy, so the longest prefix that matches is taken.
\<close>

definition range_at :: "string \<Rightarrow> nat \<Rightarrow> (string \<times> string \<times> string) option" where
  "range_at name n =
     (let prefix = take n name; rest = drop n name;
          start_text = takeWhile is_ascii_digit rest; rest1 = drop (length start_text) rest;
          end_text = takeWhile is_ascii_digit (drop 2 rest1)
      in if 5 \<le> n \<and> n \<le> length name \<and> startswith prefix ''AC-'' \<and> last prefix = CHR ''-''
            \<and> CHR ''\<newline>'' \<notin> set (drop 3 prefix) \<and> start_text \<noteq> [] \<and> startswith rest1 ''..'' \<and> end_text \<noteq> []
         then Some (prefix, start_text, end_text) else None)"

definition ac_range :: "string \<Rightarrow> (string \<times> string \<times> string) option" where
  "ac_range name =
     (case List.map_filter (range_at name) (rev [0..<Suc (length name)]) of [] \<Rightarrow> None | r # _ \<Rightarrow> Some r)"

definition digits_nat :: "string \<Rightarrow> nat" where
  "digits_nat t = (case digits_value 0 t of Some n \<Rightarrow> n | None \<Rightarrow> 0)"

definition zero_padded :: "nat \<Rightarrow> string \<Rightarrow> string" where
  "zero_padded width t = replicate (width - length t) (CHR ''0'') @ t"

definition expand_range :: "string \<Rightarrow> string list" where
  "expand_range name =
     (case ac_range name of
        None \<Rightarrow> []
      | Some (prefix, start_text, end_text) \<Rightarrow>
          (let first = digits_nat start_text; final = digits_nat end_text in
           if final < first \<or> final - first > 100 then []
           else map (\<lambda>index. prefix @ zero_padded (max (length start_text) (length end_text)) (nat_text index)) [first..<Suc final]))"

definition expand_ac_ranges :: "string list \<Rightarrow> string list" where
  "expand_ac_ranges names = concat (map expand_range names)"

section \<open>Required checks\<close>

text \<open>A name that starts with the id of a criterion and goes on with a separator.\<close>

definition names_criterion :: "string \<Rightarrow> string \<Rightarrow> bool" where
  "names_criterion name item \<longleftrightarrow> name = item
     \<or> startswith name item \<and> (length name = length item \<or> name ! length item \<in> set '' :_-./'')"

definition satisfied_by :: "string \<Rightarrow> string list" where
  "satisfied_by raw = (case normalize_check_name raw of None \<Rightarrow> [] | Some canonical \<Rightarrow> canonical # expand_range canonical)"

definition resolve_required_checks :: "string list \<Rightarrow> string list \<Rightarrow> string list \<times> string list \<times> string list" where
  "resolve_required_checks reported_names required =
     (let satisfied = concat (map satisfied_by reported_names) in
      (satisfied, filter (\<lambda>raw. normalize_check_name raw = None) reported_names,
       filter (\<lambda>item. item \<notin> set satisfied
                 \<and> \<not> (startswith item ''AC-'' \<and> list_ex (\<lambda>name. names_criterion name item) satisfied)) required))"

datatype check_code = check_role_unauthorized | check_procedure_mismatch | check_evidence_type_mismatch | unknown_check_alias

definition require_unique_alias :: "string \<Rightarrow> check_code + string" where
  "require_unique_alias alias_name =
     (case normalize_check_name alias_name of None \<Rightarrow> Inl unknown_check_alias | Some canonical \<Rightarrow> Inr canonical)"

definition assert_check_authorized :: "string \<Rightarrow> string \<Rightarrow> string \<Rightarrow> string option \<Rightarrow> check_code + check_definition" where
  "assert_check_authorized i role_id procedure_id reported_type =
     (case get_check i of
        None \<Rightarrow> if startswith i ''AC-''
          then Inr \<lparr>canonical_id = i, aliases = [i], category = ''acceptance'', authorized_roles = [role_id],
                     procedures = [procedure_id],
                     evidence_type = (case reported_type of Some t \<Rightarrow> if t = [] then ''acceptance'' else t | None \<Rightarrow> ''acceptance''),
                     blocking = True, independent_verification = None\<rparr>
          else Inl unknown_check_alias
      | Some d \<Rightarrow>
          if role_id \<notin> set (authorized_roles d) then Inl check_role_unauthorized
          else if procedures d \<noteq> [] \<and> procedure_id \<notin> set (procedures d) then Inl check_procedure_mismatch
          else if (case reported_type of Some t \<Rightarrow> t \<noteq> [] \<and> t \<noteq> evidence_type d | None \<Rightarrow> False)
            then Inl check_evidence_type_mismatch
          else Inr d)"

definition registry_blocking :: "string \<Rightarrow> bool \<Rightarrow> bool" where
  "registry_blocking i fallback = (case get_check i of None \<Rightarrow> fallback | Some d \<Rightarrow> blocking d)"

section \<open>What a name stands for\<close>

lemma alias_map: "build_alias_map = Some
   [(''implementation'', ''implementation''), (''implement'', ''implementation''), (''impl'', ''implementation''),
    (''tests'', ''tests''), (''test'', ''tests''), (''pytest'', ''tests''), (''unit-tests'', ''tests''), (''mvn-test'',
    ''tests''), (''mvn-test-failsafe'', ''tests''), (''qa'', ''tests''), (''webapp-testing'', ''tests''),
    (''code-review'', ''code_review''), (''codereview'', ''code_review''), (''review'', ''code_review''),
    (''security-review'', ''security_review''), (''audit'', ''audit''), (''audit-release'', ''audit''), (''integration-review'',
    ''integration_review''), (''lint'', ''lint''), (''linter'', ''lint''), (''ruff'', ''lint''), (''eslint'',
    ''lint''), (''build'', ''build''), (''compile'', ''build'')]"
  by code_simp

lemma normalize_registered:
  "leading_ac_id (strip name) = None \<Longrightarrow> strip name \<noteq> [] \<Longrightarrow>
    normalize_check_name name = map_of (the build_alias_map) (normalize_token (strip name))"
  by (simp add: normalize_check_name_def ALIAS_TO_CANONICAL_def alias_map)

lemma registered_tokens: "\<forall>d \<in> set CHECKS. \<forall>a \<in> insert (canonical_id d) (set (aliases d)).
    leading_ac_id (strip a) = None \<and> strip a \<noteq> [] \<and>
    map_of [(''implementation'', ''implementation''), (''implement'', ''implementation''), (''impl'', ''implementation''),
    (''tests'', ''tests''), (''test'', ''tests''), (''pytest'', ''tests''), (''unit-tests'', ''tests''), (''mvn-test'',
    ''tests''), (''mvn-test-failsafe'', ''tests''), (''qa'', ''tests''), (''webapp-testing'', ''tests''),
    (''code-review'', ''code_review''), (''codereview'', ''code_review''), (''review'', ''code_review''),
    (''security-review'', ''security_review''), (''audit'', ''audit''), (''audit-release'', ''audit''), (''integration-review'',
    ''integration_review''), (''lint'', ''lint''), (''linter'', ''lint''), (''ruff'', ''lint''), (''eslint'',
    ''lint''), (''build'', ''build''), (''compile'', ''build'')] (normalize_token (strip a)) = Some (canonical_id d)"
  by code_simp

text \<open>
  The registry is unambiguous: the map of aliases can be built, and every canonical id and every
  alias of a check normalizes to that check and no other.
\<close>

theorem registered_names_are_unambiguous:
  "build_alias_map \<noteq> None \<and> distinct (map canonical_id CHECKS) \<and>
    (\<forall>d \<in> set CHECKS. \<forall>a \<in> insert (canonical_id d) (set (aliases d)). normalize_check_name a = Some (canonical_id d))"
proof (intro conjI ballI)
  show "build_alias_map \<noteq> None" by (simp add: alias_map)
  show "distinct (map canonical_id CHECKS)" by code_simp
  fix d a assume "d \<in> set CHECKS" "a \<in> insert (canonical_id d) (set (aliases d))"
  from registered_tokens [rule_format, OF this] show "normalize_check_name a = Some (canonical_id d)"
    by (simp only: normalize_registered alias_map option.sel not_False_eq_True)
qed

lemma in_map_filter: "y \<in> set (List.map_filter f xs) \<longleftrightarrow> (\<exists>x \<in> set xs. f x = Some y)"
  by (induction xs) (auto simp: List.map_filter_simps split: option.splits)

lemma range_names:
  assumes "x \<in> set (expand_range name)"
  shows "startswith x ''AC-''"
proof -
  obtain prefix a b n where r: "ac_range name = Some (prefix, a, b)" "x = prefix @ n"
    using assms unfolding expand_range_def by (cases "ac_range name") (auto simp: Let_def split: if_split_asm)
  then have "(prefix, a, b) \<in> set (List.map_filter (range_at name) (rev [0..<Suc (length name)]))"
    unfolding ac_range_def by (cases "List.map_filter (range_at name) (rev [0..<Suc (length name)])") simp_all
  then obtain k where "range_at name k = Some (prefix, a, b)" unfolding in_map_filter by blast
  then have "startswith prefix ''AC-''" by (auto simp: range_at_def Let_def split: if_splits)
  then show ?thesis using r(2) by (auto simp: startswith_iff)
qed

text \<open>The names a range stands for.\<close>

lemma expand_range_iff:
  "x \<in> set (expand_range name) \<longleftrightarrow> (\<exists>prefix a b n. ac_range name = Some (prefix, a, b) \<and> digits_nat a \<le> n \<and> n \<le> digits_nat b
     \<and> digits_nat b \<le> digits_nat a + 100 \<and> x = prefix @ zero_padded (max (length a) (length b)) (nat_text n))"
proof (cases "ac_range name")
  case (Some found)
  obtain prefix a b where found: "found = (prefix, a, b)" by (cases found)
  have "set [digits_nat a..<Suc (digits_nat b)] = {n. digits_nat a \<le> n \<and> n \<le> digits_nat b}" by auto
  then show ?thesis using Some unfolding found by (auto simp: expand_range_def Let_def simp del: upt_Suc)
qed (simp add: expand_range_def)

text \<open>
  C29. A required check is missing exactly when no reported name stands for it. For a check that is no
  acceptance criterion, a name stands for it only by normalizing to it: neither an unknown name nor a
  range of criteria can do. For an acceptance criterion the name may also go on after a separator, and
  a range of at most 101 criteria stands for those between its bounds.
\<close>

theorem check_is_missing_iff_unreported:
  "item \<in> set (snd (snd (resolve_required_checks names required))) \<longleftrightarrow> item \<in> set required
    \<and> (\<forall>raw \<in> set names. \<forall>c. normalize_check_name raw = Some c \<longrightarrow> c \<noteq> item
       \<and> (startswith item ''AC-'' \<longrightarrow> \<not> names_criterion c item
          \<and> (\<forall>prefix a b n. ac_range c = Some (prefix, a, b) \<and> digits_nat a \<le> n \<and> n \<le> digits_nat b \<and> digits_nat b \<le> digits_nat a + 100
               \<longrightarrow> \<not> names_criterion (prefix @ zero_padded (max (length a) (length b)) (nat_text n)) item)))"
  (is "?missing \<longleftrightarrow> _ \<and> ?unreported")
proof -
  have own: "names_criterion item item" by (simp add: names_criterion_def)
  have ranges: "(\<forall>x \<in> set (expand_range c). \<not> names_criterion x item) \<longleftrightarrow> (\<forall>prefix a b n. ac_range c = Some (prefix, a, b)
      \<and> digits_nat a \<le> n \<and> n \<le> digits_nat b \<and> digits_nat b \<le> digits_nat a + 100
      \<longrightarrow> \<not> names_criterion (prefix @ zero_padded (max (length a) (length b)) (nat_text n)) item)" for c
    unfolding Ball_def expand_range_iff by blast
  have each: "(\<forall>x \<in> set (satisfied_by raw). x \<noteq> item \<and> \<not> (startswith item ''AC-'' \<and> names_criterion x item)) \<longleftrightarrow>
      (\<forall>c. normalize_check_name raw = Some c \<longrightarrow> c \<noteq> item \<and> (startswith item ''AC-'' \<longrightarrow> \<not> names_criterion c item
        \<and> (\<forall>x \<in> set (expand_range c). \<not> names_criterion x item)))" for raw
    using own range_names by (cases "normalize_check_name raw") (auto simp: satisfied_by_def)
  have "?missing \<longleftrightarrow> item \<in> set required \<and> (\<forall>raw \<in> set names. \<forall>x \<in> set (satisfied_by raw).
      x \<noteq> item \<and> \<not> (startswith item ''AC-'' \<and> names_criterion x item))"
    by (auto simp: resolve_required_checks_def Let_def list_ex_iff)
  then show ?thesis unfolding each ranges .
qed

theorem check_is_missing_iff_unreported_witness:
  "snd (snd (resolve_required_checks [''Unit Tests'', ''AC-WU-01..03'', ''looks fine''] [''tests'', ''audit'', ''AC-WU-02'']))
    = [''audit''] \<and> ''audit'' \<in> set (snd (snd (resolve_required_checks [''Unit Tests'', ''AC-WU-01..03'', ''looks fine'']
        [''tests'', ''audit'', ''AC-WU-02''])))"
proof -
  let ?names = "[''Unit Tests'', ''AC-WU-01..03'', ''looks fine'']"
  have names: "normalize_check_name ''Unit Tests'' = Some ''tests''" "normalize_check_name ''AC-WU-01..03'' = Some ''AC-WU-01..03''"
    "normalize_check_name ''looks fine'' = None" by code_simp+
  have "\<not> startswith ''audit'' ''AC-''" by (simp add: startswith_def)
  then have "''audit'' \<in> set (snd (snd (resolve_required_checks ?names [''tests'', ''audit'', ''AC-WU-02''])))"
    unfolding check_is_missing_iff_unreported using names by simp
  moreover have "snd (snd (resolve_required_checks ?names [''tests'', ''audit'', ''AC-WU-02''])) = [''audit'']" by code_simp
  ultimately show ?thesis by simp
qed

end
