(* ===== verification/PyTime.thy ===== *)
theory PyTime
  imports PyText "HOL-Library.Monad_Syntax"
begin

text \<open>
  The part of Python's \<open>datetime\<close> the code uses: \<open>datetime.now(UTC)\<close> (an input of the
  model), \<open>isoformat\<close> of an aware UTC time, \<open>fromisoformat\<close> with the grammar documented
  for the oldest supported version (3.10), \<open>replace(tzinfo=UTC)\<close>, comparison and
  difference. A time is a count of microseconds since the start of year 1, with a flag
  that says whether it is aware (then the count is in UTC); comparing an aware with a naive
  time raises \<open>TypeError\<close>.
\<close>

datatype datetime = Datetime (dt_aware: bool) (dt_micros: int)

section \<open>The calendar\<close>

definition is_leap :: "nat \<Rightarrow> bool" where
  "is_leap y = (4 dvd y \<and> (\<not> 100 dvd y \<or> 400 dvd y))"

definition days_in_month :: "nat \<Rightarrow> nat \<Rightarrow> nat" where
  "days_in_month y m =
     (if m = 2 then (if is_leap y then 29 else 28) else if m \<in> {4, 6, 9, 11} then 30 else 31)"

definition days_in_year :: "nat \<Rightarrow> nat" where
  "days_in_year y = (if is_leap y then 366 else 365)"

text \<open>Days before January 1st of year \<open>Suc n\<close>.\<close>

fun days_before_year :: "nat \<Rightarrow> nat" where
  "days_before_year n = n * 365 + n div 4 - n div 100 + n div 400"

declare days_before_year.simps [simp del]

fun days_before_month :: "nat \<Rightarrow> nat \<Rightarrow> nat" where
  "days_before_month y 0 = 0"
| "days_before_month y (Suc 0) = 0"
| "days_before_month y (Suc (Suc m)) = days_before_month y (Suc m) + days_in_month y (Suc m)"

definition ymd2ord :: "nat \<Rightarrow> nat \<Rightarrow> nat \<Rightarrow> nat" where
  "ymd2ord y m d = days_before_year (y - 1) + days_before_month y m + d"

lemma days_before_year_0 [simp]: "days_before_year 0 = 0"
  by (simp add: days_before_year.simps)

lemma days_before_year_Suc: "days_before_year (Suc n) = days_before_year n + days_in_year (Suc n)"
proof -
  have step: "Suc n div k = n div k + (if k dvd Suc n then 1 else 0)" if "0 < k" for k :: nat
    using that by (simp add: div_Suc dvd_eq_mod_eq_0)
  have le: "n div 100 \<le> n" "n div 400 \<le> n" by simp_all
  have dvd: "400 dvd Suc n \<Longrightarrow> 100 dvd Suc n" "100 dvd Suc n \<Longrightarrow> 4 dvd Suc n"
    by (auto elim: dvd_trans [rotated])
  have s: "Suc n div 4 = n div 4 + (if 4 dvd Suc n then 1 else 0)"
    "Suc n div 100 = n div 100 + (if 100 dvd Suc n then 1 else 0)"
    "Suc n div 400 = n div 400 + (if 400 dvd Suc n then 1 else 0)"
    by (rule step, simp)+
  show ?thesis
    unfolding days_before_year.simps days_in_year_def is_leap_def s
    using le dvd
    by (cases "4 dvd Suc n"; cases "100 dvd Suc n"; cases "400 dvd Suc n") simp_all
qed

lemma days_before_year_mono: "m \<le> n \<Longrightarrow> days_before_year m \<le> days_before_year n"
  by (induction n) (auto simp: days_before_year_Suc le_Suc_eq)

lemma days_before_year_ge: "n \<le> days_before_year n"
  by (induction n) (auto simp: days_before_year_Suc days_in_year_def)

lemma days_before_year_le: "days_before_year n \<le> 366 * n"
  by (induction n) (auto simp: days_before_year_Suc days_in_year_def)

lemma days_before_month_year: "days_before_month y 12 + days_in_month y 12 = days_in_year y"
  by (simp add: numeral_eq_Suc days_in_month_def days_in_year_def)

text \<open>The years before the one that holds day \<open>ord\<close>, counting up from \<open>y\<close>.\<close>

function find_year :: "nat \<Rightarrow> nat \<Rightarrow> nat" where
  "find_year y ord = (if days_before_year (Suc y) < ord then find_year (Suc y) ord else y)"
  by pat_completeness auto
termination
proof (relation "measure (\<lambda>(y, ord). ord - y)", goal_cases)
  case (2 y ord)
  with days_before_year_ge [of "Suc y"] show ?case by simp
qed simp

declare find_year.simps [simp del]

lemma find_year_bounds:
  "days_before_year y < ord \<Longrightarrow>
   days_before_year (find_year y ord) < ord \<and> ord \<le> days_before_year (Suc (find_year y ord))"
proof (induction y ord rule: find_year.induct)
  case (1 y ord)
  then show ?case by (cases "days_before_year (Suc y) < ord") (simp_all add: find_year.simps [of y ord])
qed

fun find_month :: "nat \<Rightarrow> nat \<Rightarrow> nat \<Rightarrow> nat \<Rightarrow> nat \<times> nat" where
  "find_month y m 0 doy = (m, doy)"
| "find_month y m (Suc n) doy =
     (if days_in_month y m < doy then find_month y (Suc m) n (doy - days_in_month y m) else (m, doy))"

lemma find_month_correct:
  assumes "find_month y m n doy = (m', d)" and "1 \<le> m" and "1 \<le> doy"
    and "days_before_month y m + doy \<le> days_before_month y (m + n) + days_in_month y (m + n)"
  shows "m \<le> m' \<and> m' \<le> m + n \<and> 1 \<le> d \<and> d \<le> days_in_month y m' \<and>
         days_before_month y m' + d = days_before_month y m + doy"
  using assms
proof (induction n arbitrary: m doy)
  case 0
  then show ?case by auto
next
  case (Suc n)
  have next_m: "days_before_month y (Suc m) = days_before_month y m + days_in_month y m"
    using Suc.prems(2) by (cases m) auto
  show ?case
  proof (cases "days_in_month y m < doy")
    case True
    with Suc.prems next_m have
      "Suc m \<le> m' \<and> m' \<le> Suc m + n \<and> 1 \<le> d \<and> d \<le> days_in_month y m' \<and>
       days_before_month y m' + d = days_before_month y (Suc m) + (doy - days_in_month y m)"
      by (intro Suc.IH) auto
    with True next_m show ?thesis by auto
  next
    case False
    with Suc.prems show ?thesis by auto
  qed
qed

definition ord2ymd :: "nat \<Rightarrow> nat \<times> nat \<times> nat" where
  "ord2ymd ord =
     (let n = find_year ((ord - 1) div 366) ord;
          (m, d) = find_month (Suc n) 1 11 (ord - days_before_year n)
      in (Suc n, m, d))"

definition max_ordinal :: nat where "max_ordinal = 3652059"

lemma ord2ymd_correct:
  assumes "1 \<le> ord" and "ord \<le> max_ordinal" and "ord2ymd ord = (y, m, d)"
  shows "1 \<le> y \<and> y \<le> 9999 \<and> 1 \<le> m \<and> m \<le> 12 \<and> 1 \<le> d \<and> d \<le> days_in_month y m \<and>
         ymd2ord y m d = ord"
proof -
  define n where "n = find_year ((ord - 1) div 366) ord"
  obtain m' d' where md: "find_month (Suc n) 1 11 (ord - days_before_year n) = (m', d')"
    by (metis surj_pair)
  have out: "y = Suc n" "m = m'" "d = d'"
    using assms(3) md by (auto simp: ord2ymd_def n_def Let_def)
  have "days_before_year ((ord - 1) div 366) < ord"
    using days_before_year_le [of "(ord - 1) div 366"] assms(1)
      div_times_less_eq_dividend [of "ord - 1" 366] by linarith
  then have b: "days_before_year n < ord" "ord \<le> days_before_year (Suc n)"
    unfolding n_def by (auto dest: find_year_bounds)
  have "n < 9999"
  proof (rule ccontr)
    assume "\<not> n < 9999"
    then have "days_before_year 9999 \<le> days_before_year n" by (intro days_before_year_mono) simp
    with b(1) assms(2) show False by (simp add: days_before_year.simps max_ordinal_def)
  qed
  have "days_before_month (Suc n) 1 + (ord - days_before_year n)
      \<le> days_before_month (Suc n) (1 + 11) + days_in_month (Suc n) (1 + 11)"
    using b days_before_month_year [of "Suc n"] days_before_year_Suc [of n] by simp
  from find_month_correct [OF md _ _ this] b(1)
  have "1 \<le> m'" "m' \<le> 12" "1 \<le> d'" "d' \<le> days_in_month (Suc n) m'"
    "days_before_month (Suc n) m' + d' = ord - days_before_year n"
    by auto
  with \<open>n < 9999\<close> b(1) show ?thesis by (simp add: out ymd2ord_def)
qed

section \<open>Reading and printing digits\<close>

fun pad :: "nat \<Rightarrow> nat \<Rightarrow> string" where
  "pad 0 n = []"
| "pad (Suc k) n = pad k (n div 10) @ [char_of (48 + n mod 10)]"

fun take_digits :: "nat \<Rightarrow> string \<Rightarrow> nat \<Rightarrow> (nat \<times> string) option" where
  "take_digits 0 s acc = Some (acc, s)"
| "take_digits (Suc k) [] acc = None"
| "take_digits (Suc k) (c # s) acc =
     (let n = of_char c :: nat
      in if 48 \<le> n \<and> n \<le> 57 then take_digits k s (10 * acc + (n - 48)) else None)"

lemma take_digits_Suc:
  "take_digits (Suc k) s acc =
     (case take_digits k s acc of None \<Rightarrow> None | Some (a, r) \<Rightarrow> take_digits 1 r a)"
proof (induction k arbitrary: s acc)
  case (Suc k)
  then show ?case by (cases s) (simp_all add: Let_def)
qed simp

lemma take_digits_one:
  assumes "n < 10"
  shows "take_digits 1 (char_of (48 + n) # r) acc = Some (10 * acc + n, r)"
proof -
  have "of_char (char_of (48 + n)) = (48 + n :: nat)"
    using assms by simp
  with assms show ?thesis by (simp add: Let_def del: of_char_of)
qed

lemma take_digits_pad:
  "n < 10 ^ k \<Longrightarrow> take_digits k (pad k n @ r) acc = Some (acc * 10 ^ k + n, r)"
proof (induction k arbitrary: n r)
  case (Suc k)
  have "n div 10 < 10 ^ k" using Suc.prems by simp
  then have "take_digits k (pad k (n div 10) @ char_of (48 + n mod 10) # r) acc
      = Some (acc * 10 ^ k + n div 10, char_of (48 + n mod 10) # r)"
    by (rule Suc.IH)
  moreover have "take_digits 1 (char_of (48 + n mod 10) # r) (acc * 10 ^ k + n div 10)
      = Some (10 * (acc * 10 ^ k + n div 10) + n mod 10, r)"
    by (rule take_digits_one) simp
  ultimately show ?case
    by (simp only: pad.simps append_assoc append.simps take_digits_Suc)
       (simp add: algebra_simps)
qed simp

text \<open>One expected character.\<close>

fun expect :: "char \<Rightarrow> string \<Rightarrow> string option" where
  "expect c [] = None"
| "expect c (d # s) = (if c = d then Some s else None)"

section \<open>fromisoformat\<close>

definition parse_date :: "string \<Rightarrow> (nat \<times> string) option" where
  "parse_date s = do {
     (y, s) \<leftarrow> take_digits 4 s 0;
     s \<leftarrow> expect (CHR ''-'') s;
     (m, s) \<leftarrow> take_digits 2 s 0;
     s \<leftarrow> expect (CHR ''-'') s;
     (d, s) \<leftarrow> take_digits 2 s 0;
     if 1 \<le> y \<and> 1 \<le> m \<and> m \<le> 12 \<and> 1 \<le> d \<and> d \<le> days_in_month y m
     then Some (ymd2ord y m d, s) else None }"

definition parse_fraction :: "string \<Rightarrow> (nat \<times> string) option" where
  "parse_fraction s =
     (case s of
        c # r \<Rightarrow>
          if c = CHR ''.'' then
            (case take_digits 6 r 0 of
               Some p \<Rightarrow> Some p
             | None \<Rightarrow> map_option (\<lambda>(n, t). (1000 * n, t)) (take_digits 3 r 0))
          else Some (0, s)
      | [] \<Rightarrow> Some (0, []))"

text \<open>\<open>HH[:MM[:SS[.fff[fff]]]]\<close>, as microseconds since midnight.\<close>

definition parse_clock :: "string \<Rightarrow> (nat \<times> string) option" where
  "parse_clock s = do {
     (h, s) \<leftarrow> take_digits 2 s 0;
     (if 24 \<le> h then None
      else case expect (CHR '':'') s of
        None \<Rightarrow> Some (h * 3600000000, s)
      | Some s \<Rightarrow> do {
          (m, s) \<leftarrow> take_digits 2 s 0;
          (if 60 \<le> m then None
           else case expect (CHR '':'') s of
             None \<Rightarrow> Some (h * 3600000000 + m * 60000000, s)
           | Some s \<Rightarrow> do {
               (sec, s) \<leftarrow> take_digits 2 s 0;
               (us, s) \<leftarrow> parse_fraction s;
               if 60 \<le> sec then None
               else Some (h * 3600000000 + m * 60000000 + sec * 1000000 + us, s) }) }) }"

definition fromisoformat :: "string \<Rightarrow> datetime option" where
  "fromisoformat s = do {
     (ord, r) \<leftarrow> parse_date s;
     (case r of
        [] \<Rightarrow> Some (Datetime False ((int ord - 1) * 86400000000))
      | _ # r \<Rightarrow> do {
          (us, r) \<leftarrow> parse_clock r;
          (let local = (int ord - 1) * 86400000000 + int us
           in case r of
                [] \<Rightarrow> Some (Datetime False local)
              | sg # r \<Rightarrow>
                  if sg \<noteq> CHR ''+'' \<and> sg \<noteq> CHR ''-'' then None
                  else do {
                    (off, r) \<leftarrow> parse_clock r;
                    if r \<noteq> [] then None
                    else Some (Datetime True
                           (if sg = CHR ''+'' then local - int off else local + int off)) }) }) }"

section \<open>isoformat\<close>

definition iso_clock :: "nat \<Rightarrow> string" where
  "iso_clock us =
     (let h = us div 3600000000; m = us div 60000000 mod 60; s = us div 1000000 mod 60;
          f = us mod 1000000
      in pad 2 h @ '':'' @ pad 2 m @ '':'' @ pad 2 s @ (if f = 0 then [] else ''.'' @ pad 6 f))"

text \<open>\<open>isoformat\<close> of an aware UTC time given by its microseconds.\<close>

definition isoformat :: "int \<Rightarrow> string" where
  "isoformat t =
     (let ord = Suc (nat (t div 86400000000)); us = nat (t mod 86400000000);
          (y, m, d) = ord2ymd ord
      in pad 4 y @ ''-'' @ pad 2 m @ ''-'' @ pad 2 d @ ''T'' @ iso_clock us @ ''+00:00'')"

text \<open>The compact stamp \<open>%Y%m%dT%H%M%SZ\<close> used in identifiers.\<close>

definition stamp :: "int \<Rightarrow> string" where
  "stamp t =
     (let ord = Suc (nat (t div 86400000000)); us = nat (t mod 86400000000);
          (y, m, d) = ord2ymd ord
      in pad 4 y @ pad 2 m @ pad 2 d @ ''T'' @ pad 2 (us div 3600000000)
         @ pad 2 (us div 60000000 mod 60) @ pad 2 (us div 1000000 mod 60) @ ''Z'')"

definition in_range :: "int \<Rightarrow> bool" where
  "in_range t = (0 \<le> t \<and> t < int max_ordinal * 86400000000)"

lemma expect_same [simp]: "expect c (c # s) = Some s"
  by simp

lemma parse_clock_iso_clock:
  assumes "us < 86400000000" and "CHR ''.'' \<noteq> c"
  shows "parse_clock (iso_clock us @ c # r) = Some (us, c # r)"
proof -
  define h m s f where hmsf: "h = us div 3600000000" "m = us div 60000000 mod 60"
    "s = us div 1000000 mod 60" "f = us mod 1000000"
  have b: "h < 24" "m < 60" "s < 60" "f < 1000000"
    using assms(1) by (auto simp: hmsf)
  have sum: "h * 3600000000 + m * 60000000 + s * 1000000 + f = us"
  proof -
    have q: "us div 60000000 = us div 1000000 div 60" "us div 3600000000 = us div 1000000 div 60 div 60"
      by (simp_all add: div_mult2_eq [symmetric])
    have "x = x div 60 * 60 + x mod 60" for x :: nat by simp
    from this [of "us div 1000000"] this [of "us div 1000000 div 60"]
    have "us div 1000000 = h * 3600 + m * 60 + s"
      unfolding hmsf q by linarith
    moreover have "us = us div 1000000 * 1000000 + f" by (simp add: hmsf)
    ultimately show ?thesis by linarith
  qed
  have dh: "take_digits 2 (pad 2 h @ t) 0 = Some (h, t)" for t
    using take_digits_pad [of h 2 t 0] b by simp
  have dm: "take_digits 2 (pad 2 m @ t) 0 = Some (m, t)" for t
    using take_digits_pad [of m 2 t 0] b by simp
  have ds: "take_digits 2 (pad 2 s @ t) 0 = Some (s, t)" for t
    using take_digits_pad [of s 2 t 0] b by simp
  have frac: "parse_fraction ((if f = 0 then [] else ''.'' @ pad 6 f) @ c # r) = Some (f, c # r)"
  proof (cases "f = 0")
    case True
    then show ?thesis using assms(2) by (simp add: parse_fraction_def)
  next
    case False
    then show ?thesis using take_digits_pad [of f 6 "c # r" 0] b by (simp add: parse_fraction_def)
  qed
  have str_eq: "iso_clock us @ c # r = pad 2 h @ CHR '':'' # pad 2 m @ CHR '':'' # pad 2 s @
      ((if f = 0 then [] else ''.'' @ pad 6 f) @ c # r)"
    by (simp add: iso_clock_def hmsf Let_def)
  show ?thesis
    unfolding str_eq parse_clock_def using b sum by (simp add: dh dm ds frac)
qed

lemma take_digits_zeros: "take_digits 2 (CHR ''0'' # CHR ''0'' # r) 0 = Some (0, r)"
  by (simp add: numeral_2_eq_2 Let_def)

lemma fromisoformat_parts:
  assumes "parse_date s = Some (n, c # r)" and "parse_clock r = Some (us, CHR ''+'' # q)"
    and "parse_clock q = Some (off, [])"
  shows "fromisoformat s = Some (Datetime True ((int n - 1) * 86400000000 + int us - int off))"
  using assms by (simp add: fromisoformat_def Let_def)

lemma fromisoformat_isoformat:
  assumes "in_range t"
  shows "fromisoformat (isoformat t) = Some (Datetime True t)"
proof -
  define ord us where ou: "ord = Suc (nat (t div 86400000000))" "us = nat (t mod 86400000000)"
  obtain y m d where ymd: "ord2ymd ord = (y, m, d)" by (metis surj_pair)
  have t: "(int ord - 1) * 86400000000 + int us = t"
    using assms by (simp add: ou in_range_def pos_imp_zdiv_nonneg_iff)
  have us: "us < 86400000000" by (simp add: ou nat_less_iff)
  have "nat (t div 86400000000) < max_ordinal"
    using assms by (simp add: in_range_def max_ordinal_def nat_less_iff) linarith
  then have "1 \<le> ord" "ord \<le> max_ordinal" by (auto simp: ou)
  from ord2ymd_correct [OF this ymd] have c: "1 \<le> y" "y \<le> 9999" "1 \<le> m" "m \<le> 12" "1 \<le> d"
    "d \<le> days_in_month y m" "ymd2ord y m d = ord" by auto
  have "d \<le> 31" using c(6) by (auto simp: days_in_month_def split: if_splits)
  have dy: "take_digits 4 (pad 4 y @ r) 0 = Some (y, r)"
    and dm: "take_digits 2 (pad 2 m @ r) 0 = Some (m, r)"
    and dd: "take_digits 2 (pad 2 d @ r) 0 = Some (d, r)" for r
    using take_digits_pad [of y 4 r 0] take_digits_pad [of m 2 r 0] take_digits_pad [of d 2 r 0]
      c \<open>d \<le> 31\<close> by simp_all
  have date: "parse_date (pad 4 y @ CHR ''-'' # pad 2 m @ CHR ''-'' # pad 2 d @ r) = Some (ord, r)" for r
    using c by (simp add: parse_date_def dy dm dd)
  have str_eq: "isoformat t = pad 4 y @ CHR ''-'' # pad 2 m @ CHR ''-'' # pad 2 d @
      CHR ''T'' # (iso_clock us @ ''+00:00'')"
    by (simp add: isoformat_def ou [symmetric] ymd Let_def)
  have "CHR ''.'' \<noteq> CHR ''+''" by code_simp
  note parse_clock_iso_clock [OF us this, of "''00:00''"]
  moreover have "parse_clock ''00:00'' = Some (0, [])"
    by (simp add: parse_clock_def take_digits_zeros parse_fraction_def)
  ultimately have "fromisoformat (isoformat t)
      = Some (Datetime True ((int ord - 1) * 86400000000 + int us - int 0))"
    unfolding str_eq by (rule fromisoformat_parts [OF date])
  with t show ?thesis by simp
qed

section \<open>Comparing times\<close>

text \<open>\<open>value.replace("Z", "+00:00")\<close>.\<close>

definition replace_Z :: "string \<Rightarrow> string" where
  "replace_Z s = concat (map (\<lambda>c. if c = CHR ''Z'' then ''+00:00'' else [c]) s)"

definition assume_utc :: "datetime \<Rightarrow> datetime" where
  "assume_utc t = Datetime True (dt_micros t)"

text \<open>\<open>a - b\<close> in microseconds.\<close>

definition dt_diff :: "datetime \<Rightarrow> datetime \<Rightarrow> int res" where
  "dt_diff a b = (if dt_aware a \<noteq> dt_aware b then Inl TypeError
                  else Inr (dt_micros a - dt_micros b))"

definition parse_iso :: "string \<Rightarrow> datetime res" where
  "parse_iso s = (case fromisoformat s of
     None \<Rightarrow> Inl (ValueError ''Invalid isoformat string'') | Some t \<Rightarrow> Inr t)"

lemma pad_no_Z: "CHR ''Z'' \<notin> set (pad k n)"
proof (induction k arbitrary: n)
  case (Suc k)
  have "char_of (48 + n mod 10) \<noteq> CHR ''Z''"
  proof
    assume "char_of (48 + n mod 10) = CHR ''Z''"
    then have "of_char (char_of (48 + n mod 10)) = (of_char (CHR ''Z'') :: nat)"
      by (rule arg_cong)
    moreover have "of_char (char_of (48 + n mod 10)) = (48 + n mod 10 :: nat)"
      by (subst of_char_of) (simp add: mod_less_divisor)
    ultimately show False by simp
  qed
  with Suc show ?case by auto
qed simp

lemma replace_Z_id: "CHR ''Z'' \<notin> set s \<Longrightarrow> replace_Z s = s"
  by (induction s) (auto simp: replace_Z_def)

lemma iso_clock_no_Z: "CHR ''Z'' \<notin> set (iso_clock us)"
  using pad_no_Z by (auto simp: iso_clock_def Let_def)

lemma isoformat_no_Z: "CHR ''Z'' \<notin> set (isoformat t)"
  using pad_no_Z iso_clock_no_Z by (auto simp: isoformat_def Let_def split: prod.split)

lemma replace_Z_isoformat [simp]: "replace_Z (isoformat t) = isoformat t"
  by (intro replace_Z_id isoformat_no_Z)

text \<open>\<open>datetime.fromisoformat(s.replace("Z", "+00:00"))\<close>, a naive time being read as UTC.\<close>

definition parse_instant :: "string \<Rightarrow> datetime option" where
  "parse_instant s = map_option assume_utc (fromisoformat (replace_Z s))"

lemma parse_instant_isoformat [simp]:
  "in_range t \<Longrightarrow> parse_instant (isoformat t) = Some (Datetime True t)"
  by (simp add: parse_instant_def fromisoformat_isoformat assume_utc_def)

lemma isoformat_not_Nil [simp]: "isoformat t \<noteq> []"
  by (simp add: isoformat_def Let_def split: prod.split)

section \<open>Clocks\<close>

text \<open>
  What the code relies on when it stores a time as text and compares it later: the reader
  gives back the time that was written. Deadlines follow.
\<close>

locale clock =
  fixes show_time :: "int \<Rightarrow> string" and read_time :: "string \<Rightarrow> int option"
    and valid :: "int \<Rightarrow> bool"
  assumes read_show: "valid t \<Longrightarrow> read_time (show_time t) = Some t"
begin

definition passed :: "string \<Rightarrow> string \<Rightarrow> bool" where
  "passed now expiry =
     (case (read_time now, read_time expiry) of (Some a, Some b) \<Rightarrow> b \<le> a | _ \<Rightarrow> True)"

lemma show_inj: "valid s \<Longrightarrow> valid t \<Longrightarrow> show_time s = show_time t \<Longrightarrow> s = t"
  using read_show by (metis option.inject)

lemma passed_show: "valid s \<Longrightarrow> valid t \<Longrightarrow> passed (show_time s) (show_time t) \<longleftrightarrow> t \<le> s"
  by (simp add: passed_def read_show)

lemma passed_stays:
  "valid s \<Longrightarrow> valid s' \<Longrightarrow> s \<le> s' \<Longrightarrow> passed (show_time s) x \<Longrightarrow> passed (show_time s') x"
  by (auto simp: passed_def read_show split: option.splits)

lemma unparsable_passed: "read_time x = None \<Longrightarrow> passed now x"
  by (simp add: passed_def split: option.splits)

end

interpretation utc: clock isoformat "\<lambda>s. map_option dt_micros (parse_instant s)" in_range
  by unfold_locales simp

end
