(* ===== verification/PyJson.thy ===== *)
theory PyJson
  imports PyValue
begin

text \<open>
  \<open>json.dumps\<close>, as far as the code uses it: the item and key separators, and keys sorted or in
  insertion order. Strings are the bytes of their UTF-8 form, printed as they are
  (\<open>ensure_ascii=False\<close>); the text is only ever hashed, by a function that is a parameter.
  \<open>canonical_json\<close> is \<open>canonical_json_bytes\<close> of \<open>contracts/bundle_hash.py\<close>.
\<close>

definition json_char :: "char \<Rightarrow> string" where
  "json_char c =
     (let n = of_char c :: nat; bs = char_of (92 :: nat)
      in if n = 34 \<or> n = 92 then [bs, c]
         else if n = 8 then [bs, CHR ''b''] else if n = 9 then [bs, CHR ''t'']
         else if n = 10 then [bs, CHR ''n''] else if n = 12 then [bs, CHR ''f'']
         else if n = 13 then [bs, CHR ''r'']
         else if n < 32 then [bs, CHR ''u'', CHR ''0'', CHR ''0'', hex_digit (n div 16), hex_digit (n mod 16)]
         else [c])"

definition json_string :: "string \<Rightarrow> string" where
  "json_string s = [char_of (34 :: nat)] @ concat (map json_char s) @ [char_of (34 :: nat)]"

fun json_dumps :: "bool \<Rightarrow> string \<Rightarrow> string \<Rightarrow> json \<Rightarrow> string"
  and dump_items :: "bool \<Rightarrow> string \<Rightarrow> string \<Rightarrow> json list \<Rightarrow> string list"
  and dump_pairs :: "bool \<Rightarrow> string \<Rightarrow> string \<Rightarrow> obj \<Rightarrow> (string \<times> string) list" where
  "json_dumps srt isep ksep JNull = ''null''"
| "json_dumps srt isep ksep (JBool b) = (if b then ''true'' else ''false'')"
| "json_dumps srt isep ksep (JInt i) = int_text i"
| "json_dumps srt isep ksep (JFloat q) = float_text q"
| "json_dumps srt isep ksep (JStr s) = json_string s"
| "json_dumps srt isep ksep (JList xs) = ''['' @ intersperse isep (dump_items srt isep ksep xs) @ '']''"
| "json_dumps srt isep ksep (JObj ob) =
     (let ps = dump_pairs srt isep ksep ob; qs = (if srt then sort_key fst ps else ps)
      in ''{'' @ intersperse isep (map (\<lambda>(k, t). json_string k @ ksep @ t) qs) @ ''}'')"
| "dump_items srt isep ksep [] = []"
| "dump_items srt isep ksep (x # xs) = json_dumps srt isep ksep x # dump_items srt isep ksep xs"
| "dump_pairs srt isep ksep [] = []"
| "dump_pairs srt isep ksep ((k, v) # ob) = (k, json_dumps srt isep ksep v) # dump_pairs srt isep ksep ob"

definition canonical_json :: "json \<Rightarrow> string" where
  "canonical_json v = json_dumps True '','' '':'' v"

lemma dump_pairs_map: "dump_pairs srt isep ksep ob = map (\<lambda>(k, v). (k, json_dumps srt isep ksep v)) ob"
  by (induction ob) auto

lemma dump_items_map: "dump_items srt isep ksep xs = map (json_dumps srt isep ksep) xs"
  by (induction xs) auto

text \<open>Sorted keys make the text independent of insertion order.\<close>

lemma sort_key_fst_unique:
  assumes "set xs = set ys" and "distinct (map fst xs)" and "distinct (map fst ys)"
  shows "sort_key fst xs = sort_key fst ys"
proof (rule map_sorted_distinct_set_unique)
  show "inj_on fst (set (sort_key fst xs) \<union> set (sort_key fst ys))"
    using assms by (simp add: distinct_map)
  show "distinct (map fst (sort_key fst xs))" "distinct (map fst (sort_key fst ys))"
    using assms by (simp_all add: distinct_map)
qed (use assms in simp_all)

lemma canonical_json_insertion_order:
  assumes "set xs = set ys" and "distinct (map fst xs)" and "distinct (map fst ys)"
  shows "canonical_json (JObj xs) = canonical_json (JObj ys)"
proof -
  have m: "map fst (dump_pairs srt isep ksep xs) = map fst xs" for srt isep ksep xs
    by (induction xs) auto
  have "sort_key fst (dump_pairs True '','' '':'' xs) = sort_key fst (dump_pairs True '','' '':'' ys)"
    by (rule sort_key_fst_unique) (use assms in \<open>simp_all only: m, simp add: dump_pairs_map\<close>)
  then show ?thesis by (simp add: canonical_json_def Let_def)
qed

end
