(* ===== verification/Transaction.thy ===== *)
theory Transaction
  imports PyJson
begin

text \<open>
  The transaction journal (\<open>core/persistence/transaction.py\<close>, with the named crash points of
  \<open>failpoints.py\<close> and the atomic replacement of \<open>atomic.py\<close>). The disk holds the workspace
  files and one directory per transaction: staged contents, staged events, a journal. A
  commit is a list of atomic replacements, so a crash is a prefix of that list; each named
  failpoint is such a prefix. Recovery returns the disk it leaves, also when it raises.

  Contents are of any type \<open>'c\<close>; \<open>h\<close> is SHA-256 of a content and \<open>ht\<close> of a text, both
  parameters. The times a journal records are never read back and are left out.
\<close>

section \<open>The disk\<close>

record journal_write =
  jw_path :: string
  jw_before :: "string option"
  jw_after :: string

record journal =
  j_id :: string
  j_status :: string
  j_writes :: "journal_write list"
  j_events :: "journal_write list"
  j_hash :: string
  j_recovered :: bool

datatype journal_file = Journal journal | Unreadable

record 'c tx_dir =
  stages :: "(nat \<times> 'c) list"
  event_stages :: "(nat \<times> 'c) list"
  jfile :: "journal_file option"

record 'c disk =
  files :: "(string \<times> 'c) list"
  tx_dirs :: "(string \<times> 'c tx_dir) list"

record 'c planned_write =
  relative_path :: string
  content :: 'c
  before_hash :: "string option"

record 'c transaction =
  transaction_id :: string
  planned :: "'c planned_write list"
  planned_domain_events :: "'c planned_write list"

definition empty_tx :: "'c tx_dir" where
  "empty_tx = \<lparr>stages = [], event_stages = [], jfile = None\<rparr>"

definition tx_of :: "'c disk \<Rightarrow> string \<Rightarrow> 'c tx_dir" where
  "tx_of d i = (case map_of (tx_dirs d) i of None \<Rightarrow> empty_tx | Some t \<Rightarrow> t)"

definition put_tx :: "string \<Rightarrow> 'c tx_dir \<Rightarrow> 'c disk \<Rightarrow> 'c disk" where
  "put_tx i t d = d\<lparr>tx_dirs := AList.update i t (tx_dirs d)\<rparr>"

definition put_file :: "string \<Rightarrow> 'c \<Rightarrow> 'c disk \<Rightarrow> 'c disk" where
  "put_file p c d = d\<lparr>files := AList.update p c (files d)\<rparr>"

section \<open>Planning\<close>

definition begin_transaction :: "string \<Rightarrow> 'c disk \<Rightarrow> 'c transaction \<times> 'c disk" where
  "begin_transaction i d =
     (\<lparr>transaction_id = i, planned = [], planned_domain_events = []\<rparr>, put_tx i (tx_of d i) d)"

definition plan_write ::
  "('c \<Rightarrow> string) \<Rightarrow> 'c disk \<Rightarrow> string \<Rightarrow> 'c \<Rightarrow> 'c transaction \<Rightarrow> 'c transaction" where
  "plan_write h d path new_content tx =
     tx\<lparr>planned := planned tx @
         [\<lparr>relative_path = path, content = new_content,
           before_hash = map_option h (map_of (files d) path)\<rparr>]\<rparr>"

definition plan_domain_event ::
  "'c disk \<Rightarrow> string \<Rightarrow> 'c \<Rightarrow> 'c transaction \<Rightarrow> 'c transaction res" where
  "plan_domain_event d path event tx =
     (if map_of (files d) path \<noteq> None then gateway_error ALREADY_EXISTS ''/domain_events''
      else Inr (tx\<lparr>planned_domain_events := planned_domain_events tx @
                   [\<lparr>relative_path = path, content = event, before_hash = None\<rparr>]\<rparr>))"

section \<open>Committing\<close>

definition journal_write_json :: "journal_write \<Rightarrow> json" where
  "journal_write_json w =
     JObj [(''relative_path'', JStr (jw_path w)),
           (''before_hash'', case jw_before w of None \<Rightarrow> JNull | Some s \<Rightarrow> JStr s),
           (''after_hash'', JStr (jw_after w))]"

definition journal_integrity_hash ::
  "(string \<Rightarrow> string) \<Rightarrow> journal_write list \<Rightarrow> journal_write list \<Rightarrow> string" where
  "journal_integrity_hash ht writes domain_events =
     ht (json_dumps True '', '' '': ''
           (JObj [(''writes'', JList (map journal_write_json writes)),
                  (''domain_events'', JList (map journal_write_json domain_events))]))"

definition build_journal_write :: "('c \<Rightarrow> string) \<Rightarrow> 'c planned_write \<Rightarrow> journal_write" where
  "build_journal_write h item =
     \<lparr>jw_path = relative_path item, jw_before = before_hash item, jw_after = h (content item)\<rparr>"

definition journal_for ::
  "('c \<Rightarrow> string) \<Rightarrow> (string \<Rightarrow> string) \<Rightarrow> 'c transaction \<Rightarrow> string \<Rightarrow> journal" where
  "journal_for h ht tx status =
     (let writes = map (build_journal_write h) (planned tx);
          domain_events = map (build_journal_write h) (planned_domain_events tx)
      in \<lparr>j_id = transaction_id tx, j_status = status, j_writes = writes, j_events = domain_events,
          j_hash = journal_integrity_hash ht writes domain_events, j_recovered = False\<rparr>)"

text \<open>One atomic replacement of a file.\<close>

datatype 'c op =
    WriteStage nat 'c
  | WriteEventStage nat 'c
  | WriteJournal journal
  | CopyStage nat string
  | CopyEventStage nat string

fun exec_op :: "string \<Rightarrow> 'c disk \<Rightarrow> 'c op \<Rightarrow> 'c disk res" where
  "exec_op i d (WriteStage n c) =
     (let t = tx_of d i in Inr (put_tx i (t\<lparr>stages := AList.update n c (stages t)\<rparr>) d))"
| "exec_op i d (WriteEventStage n c) =
     (let t = tx_of d i in Inr (put_tx i (t\<lparr>event_stages := AList.update n c (event_stages t)\<rparr>) d))"
| "exec_op i d (WriteJournal j) = Inr (put_tx i ((tx_of d i)\<lparr>jfile := Some (Journal j)\<rparr>) d)"
| "exec_op i d (CopyStage n p) =
     (case map_of (stages (tx_of d i)) n of
        None \<Rightarrow> Inl (FileNotFoundError p) | Some c \<Rightarrow> Inr (put_file p c d))"
| "exec_op i d (CopyEventStage n p) =
     (case map_of (event_stages (tx_of d i)) n of
        None \<Rightarrow> Inl (FileNotFoundError p) | Some c \<Rightarrow> Inr (put_file p c d))"

definition stage_ops :: "'c transaction \<Rightarrow> 'c op list" where
  "stage_ops tx =
     map (\<lambda>(n, w). WriteStage n (content w)) (List.enumerate 0 (planned tx)) @
     map (\<lambda>(n, w). WriteEventStage n (content w)) (List.enumerate 0 (planned_domain_events tx))"

definition copy_ops :: "'c transaction \<Rightarrow> 'c op list" where
  "copy_ops tx =
     map (\<lambda>(n, w). CopyStage n (relative_path w)) (List.enumerate 0 (planned tx)) @
     map (\<lambda>(n, w). CopyEventStage n (relative_path w)) (List.enumerate 0 (planned_domain_events tx))"

definition commit_ops ::
  "('c \<Rightarrow> string) \<Rightarrow> (string \<Rightarrow> string) \<Rightarrow> 'c transaction \<Rightarrow> 'c op list" where
  "commit_ops h ht tx =
     stage_ops tx @ [WriteJournal (journal_for h ht tx ''prepared'')] @
     copy_ops tx @ [WriteJournal (journal_for h ht tx ''committed'')]"

definition commit ::
  "('c \<Rightarrow> string) \<Rightarrow> (string \<Rightarrow> string) \<Rightarrow> 'c transaction \<Rightarrow> 'c disk \<Rightarrow> 'c disk res" where
  "commit h ht tx d =
     (if planned tx = [] \<and> planned_domain_events tx = [] then gateway_error INTERNAL_ERROR []
      else foldR (exec_op (transaction_id tx)) d (commit_ops h ht tx))"

text \<open>The disk when the process dies after \<open>k\<close> replacements.\<close>

definition crash_after ::
  "nat \<Rightarrow> ('c \<Rightarrow> string) \<Rightarrow> (string \<Rightarrow> string) \<Rightarrow> 'c transaction \<Rightarrow> 'c disk \<Rightarrow> 'c disk res" where
  "crash_after k h ht tx d = foldR (exec_op (transaction_id tx)) d (take k (commit_ops h ht tx))"

datatype failpoint =
    BEFORE_JOURNAL | AFTER_JOURNAL | AFTER_STAGING nat | AFTER_REPLACE nat
  | BEFORE_DOMAIN_EVENTS | AFTER_DOMAIN_EVENTS

text \<open>How many replacements were made when the code reaches a failpoint.\<close>

definition failpoint_step :: "'c transaction \<Rightarrow> failpoint \<Rightarrow> nat" where
  "failpoint_step tx fp =
     (let n = length (planned tx); m = length (planned_domain_events tx)
      in case fp of
           BEFORE_JOURNAL \<Rightarrow> 0
         | AFTER_JOURNAL \<Rightarrow> n + m + 1
         | AFTER_STAGING i \<Rightarrow> n + m + 1 + i
         | AFTER_REPLACE i \<Rightarrow> n + m + 1 + Suc i
         | BEFORE_DOMAIN_EVENTS \<Rightarrow> n + m + 1 + n
         | AFTER_DOMAIN_EVENTS \<Rightarrow> n + m + 1 + n + m)"

section \<open>Recovery\<close>

definition verify_journal_integrity :: "(string \<Rightarrow> string) \<Rightarrow> journal \<Rightarrow> unit res" where
  "verify_journal_integrity ht j =
     (if j_hash j = [] then Inr ()
      else if journal_integrity_hash ht (j_writes j) (j_events j) \<noteq> j_hash j
        then gateway_error TRANSACTION_RECOVERY_REQUIRED ''/integrity_hash''
      else Inr ())"

definition verify_stage ::
  "('c \<Rightarrow> string) \<Rightarrow> string \<Rightarrow> (nat \<times> 'c) list \<Rightarrow> nat \<times> journal_write \<Rightarrow> unit res" where
  "verify_stage h section st = (\<lambda>(index, w).
     case map_of st index of
       None \<Rightarrow> Inr ()
     | Some c \<Rightarrow>
         if h c \<noteq> jw_after w
         then gateway_error TRANSACTION_RECOVERY_REQUIRED
                (''/'' @ section @ ''/'' @ nat_text index @ ''/after_hash'')
         else Inr ())"

definition verify_staging_hashes :: "('c \<Rightarrow> string) \<Rightarrow> journal \<Rightarrow> 'c tx_dir \<Rightarrow> unit res" where
  "verify_staging_hashes h j t =
     bindR (eachR (verify_stage h ''writes'' (stages t)) (List.enumerate 0 (j_writes j))) (\<lambda>_.
       eachR (verify_stage h ''domain_events'' (event_stages t)) (List.enumerate 0 (j_events j)))"

definition target_matches_hash :: "('c \<Rightarrow> string) \<Rightarrow> 'c disk \<Rightarrow> string \<Rightarrow> string \<Rightarrow> bool" where
  "target_matches_hash h d target expected_hash =
     (case map_of (files d) target of None \<Rightarrow> False | Some c \<Rightarrow> h c = expected_hash)"

text \<open>What recovery does to one target: the new disk, or the error it raises.\<close>

definition apply_pending_write ::
  "('c \<Rightarrow> string) \<Rightarrow> 'c tx_dir \<Rightarrow> 'c disk \<Rightarrow> nat \<times> journal_write \<Rightarrow> 'c disk res" where
  "apply_pending_write h t d = (\<lambda>(index, w).
     if target_matches_hash h d (jw_path w) (jw_after w) then Inr d
     else if (case (map_of (files d) (jw_path w), jw_before w) of
                (Some c, Some b) \<Rightarrow> b \<noteq> [] \<and> h c \<noteq> b | _ \<Rightarrow> False)
       then gateway_error TRANSACTION_RECOVERY_REQUIRED (''/writes/'' @ nat_text index)
     else case map_of (stages t) index of
            Some c \<Rightarrow> Inr (put_file (jw_path w) c d)
          | None \<Rightarrow> gateway_error TRANSACTION_RECOVERY_REQUIRED (''/writes/'' @ nat_text index))"

definition apply_pending_domain_event ::
  "('c \<Rightarrow> string) \<Rightarrow> 'c tx_dir \<Rightarrow> 'c disk \<Rightarrow> nat \<times> journal_write \<Rightarrow> 'c disk res" where
  "apply_pending_domain_event h t d = (\<lambda>(index, w).
     if map_of (files d) (jw_path w) \<noteq> None
     then if target_matches_hash h d (jw_path w) (jw_after w) then Inr d
          else gateway_error TRANSACTION_RECOVERY_REQUIRED (''/domain_events/'' @ nat_text index)
     else case map_of (event_stages t) index of
            Some c \<Rightarrow> Inr (put_file (jw_path w) c d)
          | None \<Rightarrow> gateway_error TRANSACTION_RECOVERY_REQUIRED (''/domain_events/'' @ nat_text index))"

text \<open>A loop over targets that keeps the disk it reached when an iteration raises.\<close>

fun run_each :: "('d \<Rightarrow> 'a \<Rightarrow> 'd res) \<Rightarrow> 'd \<Rightarrow> 'a list \<Rightarrow> 'd \<times> pyexc option" where
  "run_each f d [] = (d, None)"
| "run_each f d (x # xs) = (case f d x of Inl e \<Rightarrow> (d, Some e) | Inr d' \<Rightarrow> run_each f d' xs)"

definition apply_pending ::
  "('c \<Rightarrow> string) \<Rightarrow> journal \<Rightarrow> 'c tx_dir \<Rightarrow> 'c disk \<Rightarrow> 'c disk \<times> pyexc option" where
  "apply_pending h j t d =
     (case run_each (apply_pending_write h t) d (List.enumerate 0 (j_writes j)) of
        (d', Some e) \<Rightarrow> (d', Some e)
      | (d', None) \<Rightarrow>
          run_each (apply_pending_domain_event h t) d' (List.enumerate 0 (j_events j)))"

definition recover_tx ::
  "('c \<Rightarrow> string) \<Rightarrow> (string \<Rightarrow> string) \<Rightarrow> string \<Rightarrow> 'c disk \<Rightarrow> 'c disk \<times> string list res" where
  "recover_tx h ht i d =
     (let t = tx_of d i in
      case jfile t of
        None \<Rightarrow> (d, Inr [])
      | Some Unreadable \<Rightarrow>
          (put_tx i (t\<lparr>jfile := None\<rparr>) d, Inr [''removed invalid journal journal.json''])
      | Some (Journal j) \<Rightarrow>
          if j_status j = ''committed'' then (d, Inr [])
          else if j_status j \<noteq> ''prepared'' then
            (put_tx i (t\<lparr>jfile := None\<rparr>) d, Inr [''removed unknown-status journal '' @ j_id j])
          else case bindR (verify_journal_integrity ht j) (\<lambda>_. verify_staging_hashes h j t) of
              Inl e \<Rightarrow> (d, Inl e)
            | Inr _ \<Rightarrow>
                (case apply_pending h j t d of
                   (d', Some e) \<Rightarrow> (d', Inl e)
                 | (d', None) \<Rightarrow>
                     (put_tx i ((tx_of d' i)\<lparr>jfile :=
                        Some (Journal (j\<lparr>j_status := ''committed'', j_recovered := True\<rparr>))\<rparr>) d',
                      Inr [''recovered transaction '' @ j_id j])))"

fun recover_each ::
  "('c \<Rightarrow> string) \<Rightarrow> (string \<Rightarrow> string) \<Rightarrow> string list \<Rightarrow> string list \<Rightarrow> 'c disk \<Rightarrow>
   'c disk \<times> string list res" where
  "recover_each h ht [] messages d = (d, Inr messages)"
| "recover_each h ht (i # is) messages d =
     (case recover_tx h ht i d of
        (d', Inl e) \<Rightarrow> (d', Inl e)
      | (d', Inr ms) \<Rightarrow> recover_each h ht is (messages @ ms) d')"

definition recover_transactions ::
  "('c \<Rightarrow> string) \<Rightarrow> (string \<Rightarrow> string) \<Rightarrow> 'c disk \<Rightarrow> 'c disk \<times> string list res" where
  "recover_transactions h ht d = recover_each h ht (sorted_strs (map fst (tx_dirs d))) [] d"

end
