(* ===== verification/Workspace.thy ===== *)
theory Workspace
  imports PyTime PyJson Transaction
begin

text \<open>
  What a command handler sees: the documents under \<open>.ai-team/\<close> (a path, relative to that
  directory, to a parsed YAML or JSON document), the clock, the hash and the JSON-schema
  validator (a third-party package, hence a parameter), and the reply it gives: what the
  receipt shows and the documents it planned to write, in order. All times a command takes
  from the clock are one time \<open>now\<close>. Identifiers become paths by string concatenation, as in
  the source; \<open>is_file\<close> is a path being present.
\<close>

datatype dfile = Doc json | Garbled

type_synonym store = "(string \<times> dfile) list"

record env =
  now :: int
  sha :: "string \<Rightarrow> string"
  schema_error :: "string \<Rightarrow> json \<Rightarrow> string option"
  uuid :: string

record reply =
  r_affected :: "json list"
  r_details :: json
  r_events :: "string list"
  r_writes :: "(string \<times> json) list"

definition is_file :: "store \<Rightarrow> string \<Rightarrow> bool" where
  "is_file s p = (map_of s p \<noteq> None)"

definition read_yaml :: "store \<Rightarrow> string \<Rightarrow> json res" where
  "read_yaml s p =
     (case map_of s p of
        None \<Rightarrow> Inl (FileNotFoundError p) | Some Garbled \<Rightarrow> Inl YAMLError | Some (Doc j) \<Rightarrow> Inr j)"

text \<open>\<open>json.loads\<close> of a text that is not JSON raises a \<open>ValueError\<close>.\<close>

definition read_json :: "store \<Rightarrow> string \<Rightarrow> json res" where
  "read_json s p =
     (case map_of s p of
        None \<Rightarrow> Inl (FileNotFoundError p) | Some Garbled \<Rightarrow> Inl (ValueError ''JSONDecodeError'')
      | Some (Doc j) \<Rightarrow> Inr j)"

definition read_yaml_or :: "json \<Rightarrow> store \<Rightarrow> string \<Rightarrow> json res" where
  "read_yaml_or d s p = (if is_file s p then read_yaml s p else Inr d)"

text \<open>\<open>sorted(directory.glob("*.yaml"))\<close>: the files right under the directory, by name.\<close>

definition glob_yaml :: "store \<Rightarrow> string \<Rightarrow> string list" where
  "glob_yaml s dir =
     sort (filter (\<lambda>p. startswith p (dir @ ''/'') \<and> endswith p ''.yaml'' \<and>
                       CHR ''/'' \<notin> set (drop (Suc (length dir)) p)) (remdups (map fst s)))"

definition validate_against_schema :: "env \<Rightarrow> json \<Rightarrow> string \<Rightarrow> string \<Rightarrow> unit res" where
  "validate_against_schema env payload schema_name root_path =
     (case schema_error env schema_name payload of
        None \<Rightarrow> Inr () | Some pointer \<Rightarrow> gateway_error INVALID_SCHEMA (root_path @ pointer))"

definition now_iso :: "env \<Rightarrow> json" where
  "now_iso env = JStr (isoformat (now env))"

definition set_keys :: "(string \<times> json) list \<Rightarrow> obj \<Rightarrow> obj" where
  "set_keys kvs ob = fold (\<lambda>(k, v). AList.update k v) kvs ob"

definition set_defaults :: "(string \<times> json) list \<Rightarrow> obj \<Rightarrow> obj" where
  "set_defaults kvs ob = fold (\<lambda>(k, v). osetdefault k v) kvs ob"

definition run_path :: "json \<Rightarrow> string" where
  "run_path i = ''runs/'' @ py_str i @ ''.yaml''"

definition lease_path :: "json \<Rightarrow> string" where
  "lease_path i = ''runs/leases/'' @ py_str i @ ''.yaml''"

definition work_unit_path :: "json \<Rightarrow> string" where
  "work_unit_path i = ''work-units/'' @ py_str i @ ''.yaml''"

definition grant_path :: "json \<Rightarrow> string" where
  "grant_path i = ''run-authorization-grants/'' @ py_str i @ ''.json''"

definition event_path :: "string \<Rightarrow> string" where
  "event_path i = ''events/'' @ i @ ''.yaml''"

text \<open>\<open>if not path.is_file(): raise NOT_FOUND\<close>, then the parsed document.\<close>

definition load_or_not_found :: "store \<Rightarrow> string \<Rightarrow> string \<Rightarrow> json res" where
  "load_or_not_found s p pointer =
     (if is_file s p then read_yaml s p else gateway_error NOT_FOUND pointer)"

definition reply_of :: "json list \<Rightarrow> (string \<times> json) list \<Rightarrow> reply" where
  "reply_of aff ws = \<lparr>r_affected = aff, r_details = JNull, r_events = [], r_writes = ws\<rparr>"

text \<open>The store after the planned writes were committed.\<close>

definition apply_writes :: "(string \<times> json) list \<Rightarrow> store \<Rightarrow> store" where
  "apply_writes ws s = fold (\<lambda>(p, j). AList.update p (Doc j)) ws s"

section \<open>Lemmas\<close>

lemma map_of_set_keys_other: "k \<notin> fst ` set kvs \<Longrightarrow> map_of (set_keys kvs ob) k = map_of ob k"
  by (induction kvs arbitrary: ob) (auto simp: set_keys_def)

lemma oget_set_keys_Nil [simp]: "set_keys [] ob = ob"
  and set_keys_Cons [simp]: "set_keys ((k, v) # kvs) ob = set_keys kvs (AList.update k v ob)"
  by (simp_all add: set_keys_def)

lemma set_defaults_Nil [simp]: "set_defaults [] ob = ob"
  and set_defaults_Cons [simp]: "set_defaults ((k, v) # kvs) ob = set_defaults kvs (osetdefault k v ob)"
  by (simp_all add: set_defaults_def)

lemma apply_writes_Nil [simp]: "apply_writes [] s = s"
  and apply_writes_Cons [simp]: "apply_writes ((p, j) # ws) s = apply_writes ws (AList.update p (Doc j) s)"
  by (simp_all add: apply_writes_def)

lemma map_of_apply_writes_other: "p \<notin> fst ` set ws \<Longrightarrow> map_of (apply_writes ws s) p = map_of s p"
  by (induction ws arbitrary: s) (auto simp: apply_writes_def)

lemma read_yaml_Inr [res_simps]: "read_yaml s p = Inr j \<longleftrightarrow> map_of s p = Some (Doc j)"
  by (auto simp: read_yaml_def split: option.splits dfile.splits)

lemma read_json_Inr [res_simps]: "read_json s p = Inr j \<longleftrightarrow> map_of s p = Some (Doc j)"
  by (auto simp: read_json_def split: option.splits dfile.splits)

lemma load_or_not_found_Inr [res_simps]:
  "load_or_not_found s p ptr = Inr j \<longleftrightarrow> map_of s p = Some (Doc j)"
  by (auto simp: load_or_not_found_def is_file_def res_simps)

lemma validate_schema_Inr [res_simps]:
  "validate_against_schema env d n r = Inr u \<longleftrightarrow> schema_error env n d = None"
  by (auto simp: validate_against_schema_def split: option.splits)

lemma set_glob_yaml: "p \<in> set (glob_yaml s dir) \<Longrightarrow> map_of s p \<noteq> None"
  by (auto simp: glob_yaml_def map_of_eq_None_iff)

end
