(* ===== verification/Leases.thy ===== *)
theory Leases
  imports PyValue
begin

text \<open>
  What a Run document records about its workers, and the bounds on them:
  lease epochs (\<open>core/domain/run/fencing.py\<close>), the number of leases held
  (\<open>parallelism.py\<close>), the bounds of the convergence loop (\<open>convergence.py\<close>), the blocking
  preflight checks (\<open>preflight.py\<close>) and the stop conditions (\<open>stop_conditions.py\<close>).
\<close>

section \<open>Lease epochs\<close>

definition leases_by_work_unit :: "json \<Rightarrow> json res" where
  "leases_by_work_unit run_document =
     bindR (jget run_document ''leases_by_work_unit'') (\<lambda>l. Inr (por l (JObj [])))"

definition current_lease :: "json \<Rightarrow> json \<Rightarrow> json res" where
  "current_lease run_document work_unit_id =
     bindR (leases_by_work_unit run_document) (\<lambda>l. dict_get l work_unit_id)"

definition current_epoch :: "json \<Rightarrow> json \<Rightarrow> json res" where
  "current_epoch run_document work_unit_id =
     bindR (current_lease run_document work_unit_id) (\<lambda>lease.
       if lease = JNull then Inl FencingError
       else bindR (jget lease ''epoch'') (\<lambda>epoch.
         if is_int epoch then Inr epoch else Inl FencingError))"

definition is_epoch_current :: "json \<Rightarrow> json \<Rightarrow> json \<Rightarrow> bool res" where
  "is_epoch_current run_document work_unit_id epoch =
     (case current_epoch run_document work_unit_id of
        Inl FencingError \<Rightarrow> Inr False
      | Inl e \<Rightarrow> Inl e
      | Inr c \<Rightarrow> Inr (py_eq c epoch))"

definition next_epoch :: "json \<Rightarrow> json \<Rightarrow> json res" where
  "next_epoch run_document work_unit_id =
     bindR (current_lease run_document work_unit_id) (\<lambda>lease.
       if lease = JNull then Inr (JInt 1)
       else bindR (current_epoch run_document work_unit_id) py_succ)"

section \<open>Parallelism\<close>

definition DEFAULT_MAXIMUM_PARALLEL_WORKERS :: int where "DEFAULT_MAXIMUM_PARALLEL_WORKERS = 4"

definition active_worker_count :: "json \<Rightarrow> nat res" where
  "active_worker_count run_document =
     bindR (jget run_document ''leases_by_work_unit'') (\<lambda>l. py_len (por l (JObj [])))"

section \<open>The convergence loop\<close>

definition REMEDIATION_STEP :: string where "REMEDIATION_STEP = ''remediation''"
definition DEFAULT_MAXIMUM_ATTEMPTS_PER_STEP :: int where "DEFAULT_MAXIMUM_ATTEMPTS_PER_STEP = 3"
definition DEFAULT_MAXIMUM_REMEDIATION_CYCLES :: int where "DEFAULT_MAXIMUM_REMEDIATION_CYCLES = 2"
definition REPEATED_FAILURE_THRESHOLD :: nat where "REPEATED_FAILURE_THRESHOLD = 2"

definition NON_SUCCESS_STATUSES :: "string list" where
  "NON_SUCCESS_STATUSES = [''failed'', ''blocked'', ''cancelled'', ''timed_out'']"

definition attempts_for_step :: "json list \<Rightarrow> json \<Rightarrow> json \<Rightarrow> json list res" where
  "attempts_for_step attempts work_unit_id step =
     filterR (\<lambda>attempt.
       andR (bindR (jget attempt ''work_unit_id'') (\<lambda>w. Inr (py_eq w work_unit_id)))
            (bindR (jget attempt ''step'') (\<lambda>s. Inr (py_eq s step)))) attempts"

definition counts_as_failure :: "json \<Rightarrow> bool res" where
  "counts_as_failure a =
     andR (bindR (jget a ''status'') (\<lambda>s. in_strs s NON_SUCCESS_STATUSES))
          (bindR (jget a ''summary'') (\<lambda>s. Inr (truthy s)))"

text \<open>\<open>len({x, ...}) == 1\<close> for a list of values: all of them hash, and equal the first.\<close>

definition one_value :: "json list \<Rightarrow> bool res" where
  "one_value xs =
     (if list_all hashable xs
      then Inr (case xs of [] \<Rightarrow> False | x # ys \<Rightarrow> list_all (py_eq x) ys) else Inl TypeError)"

definition repeated_identical_failure :: "json list \<Rightarrow> bool res" where
  "repeated_identical_failure attempts =
     bindR (filterR counts_as_failure attempts) (\<lambda>failed.
       if length failed < REPEATED_FAILURE_THRESHOLD then Inr False
       else bindR (mapR (\<lambda>a. jitem a ''summary'')
                    (drop (length failed - REPEATED_FAILURE_THRESHOLD) failed)) one_value)"

definition convergence_exhaustion_reason :: "json list \<Rightarrow> json \<Rightarrow> json \<Rightarrow> json \<Rightarrow> string option res" where
  "convergence_exhaustion_reason step_attempts step maximum_attempts_per_step
     maximum_remediation_cycles =
     thenR (bindR (repeated_identical_failure step_attempts) (\<lambda>b.
              Inr (if b then Some ''identical_failure_repeated'' else None)))
    (thenR (if step = JStr REMEDIATION_STEP
            then bindR (py_ge (JInt (int (length step_attempts))) maximum_remediation_cycles) (\<lambda>b.
              Inr (if b then Some ''remediation_cycles_exhausted'' else None))
            else Inr None)
           (bindR (py_ge (JInt (int (length step_attempts))) maximum_attempts_per_step) (\<lambda>b.
              Inr (if b then Some ''step_attempts_exhausted'' else None))))"

section \<open>Preflight and stop conditions\<close>

definition BLOCKING_PREFLIGHT_STATUSES :: "string list" where
  "BLOCKING_PREFLIGHT_STATUSES = [''fail'', ''blocked'', ''manual'']"

definition preflight_status :: "json \<Rightarrow> json res" where
  "preflight_status entry = (if is_dict entry then jget entry ''status'' else Inr entry)"

definition blocking_preflight_checks :: "json \<Rightarrow> string list res" where
  "blocking_preflight_checks preflight =
     bindR (as_obj preflight) (\<lambda>items.
     bindR (filterR (\<lambda>(name, entry).
              bindR (preflight_status entry) (\<lambda>s. in_strs s BLOCKING_PREFLIGHT_STATUSES)) items)
       (\<lambda>blocking. Inr (sort (map fst blocking))))"

definition GLOBAL_STOP_CONDITIONS :: "string list" where
  "GLOBAL_STOP_CONDITIONS =
     [''budget_exhausted'', ''preflight_failed'', ''kill_switch'', ''authorization_violation'',
      ''state_corruption'', ''fencing_conflict'', ''forbidden_secret_access'',
      ''out_of_workspace_write'', ''protected_environment_target'',
      ''repeated_systemic_failure'', ''worker_isolation_unguaranteed'',
      ''no_dispatchable_work'', ''cross_area_dependency'', ''orchestrator_process_failure'',
      ''stalled_no_progress'']"

section \<open>Lemmas\<close>

lemma filterR_length: "filterR p xs = Inr ys \<Longrightarrow> length ys \<le> length xs"
  by (induction xs arbitrary: ys) (auto split: if_splits)

lemma current_lease_JObj:
  "current_lease (JObj ob) (JStr w) = Inr l \<longleftrightarrow>
   (\<exists>ls. por (oget ob ''leases_by_work_unit'') (JObj []) = JObj ls \<and> l = oget ls w)"
  by (auto simp: current_lease_def leases_by_work_unit_def jget_eq_Inr dict_get_JStr_Inr)

lemma current_epoch_is_int: "current_epoch r w = Inr e \<Longrightarrow> is_int e"
  by (auto simp: current_epoch_def split: if_splits)

lemma py_succ_int: "is_int e \<Longrightarrow> \<exists>i. py_succ e = Inr (JInt i) \<and> num_of e = Some (of_int (i - 1))"
  by (cases e) (auto intro: exI [where x = 1])

text \<open>The next epoch differs from the current one, so a write under the old lease is stale.\<close>

lemma next_epoch_greater:
  assumes "current_epoch r w = Inr e"
  shows "\<exists>i. next_epoch r w = Inr (JInt i) \<and> num_of e = Some (of_int (i - 1)) \<and> \<not> py_eq (JInt i) e"
proof -
  obtain l where l: "current_lease r w = Inr l" "l \<noteq> JNull"
    using assms by (auto simp: current_epoch_def split: if_splits)
  obtain i where "py_succ e = Inr (JInt i)" "num_of e = Some (of_int (i - 1))"
    using py_succ_int current_epoch_is_int [OF assms] by blast
  with l assms show ?thesis by (auto simp: next_epoch_def)
qed

lemma convergence_None_iff:
  "convergence_exhaustion_reason as step ma mr = Inr None \<longleftrightarrow>
     repeated_identical_failure as = Inr False \<and>
     (step = JStr REMEDIATION_STEP \<longrightarrow> py_ge (JInt (int (length as))) mr = Inr False) \<and>
     py_ge (JInt (int (length as))) ma = Inr False"
  by (auto simp: convergence_exhaustion_reason_def split: if_splits)

lemma py_ge_int_left_False: "py_ge (JInt i) m = Inr False \<longleftrightarrow> (\<exists>q. num_of m = Some q \<and> of_int i < q)"
  by (auto simp: py_ge_def not_le split: option.splits json.splits)

lemma blocking_preflight_set:
  "blocking_preflight_checks (JObj ob) = Inr names \<Longrightarrow>
   set names = {n. \<exists>e s. (n, e) \<in> set ob \<and> preflight_status e = Inr (JStr s)
                    \<and> s \<in> set BLOCKING_PREFLIGHT_STATUSES}"
  unfolding blocking_preflight_checks_def
  by (auto simp: in_strs_True dest!: filterR_set) force+

lemma convergence_allows_only_below_bounds:
  assumes "convergence_exhaustion_reason step_attempts step (JInt max_attempts) (JInt max_cycles)
             = Inr None"
  shows "int (length step_attempts) < max_attempts \<and>
    (step = JStr REMEDIATION_STEP \<longrightarrow> int (length step_attempts) < max_cycles) \<and>
    repeated_identical_failure step_attempts = Inr False"
  using assms by (auto simp: convergence_None_iff)

end
