(* ===== verification/ExecutionCeiling.thy ===== *)
theory ExecutionCeiling
  imports PyValue
begin

text \<open>
  The execution ceiling of a Work Unit (\<open>core/domain/run/execution_ceiling.py\<close>): what an
  agent may do without a human, one state per dimension. A check returns \<open>None\<close> or the
  reason it found. The source iterates over a frozenset of pinned dimensions; only the
  dimension named in the message depends on that order, and the list below has the order
  in which the source writes them.
\<close>

definition CEILING_DIMENSIONS :: "string list" where
  "CEILING_DIMENSIONS =
     [''analysis'', ''sandbox_implementation'', ''verification'', ''integration_branch_merge'',
      ''protected_branch_merge'', ''staging_deployment'', ''production_action'']"

definition CEILING_STATES :: "string list" where
  "CEILING_STATES = [''allowed'', ''conditional'', ''forbidden'']"

definition ALWAYS_FORBIDDEN_DIMENSIONS :: "string list" where
  "ALWAYS_FORBIDDEN_DIMENSIONS =
     [''protected_branch_merge'', ''staging_deployment'', ''production_action'']"

definition STATE_RANK :: "(string \<times> int) list" where
  "STATE_RANK = [(''allowed'', 0), (''conditional'', 1), (''forbidden'', 2)]"

definition DEFAULT_EXECUTION_CEILING :: obj where
  "DEFAULT_EXECUTION_CEILING =
     [(''analysis'', JStr ''allowed''), (''sandbox_implementation'', JStr ''allowed''),
      (''verification'', JStr ''allowed''), (''integration_branch_merge'', JStr ''conditional''),
      (''protected_branch_merge'', JStr ''forbidden''), (''staging_deployment'', JStr ''forbidden''),
      (''production_action'', JStr ''forbidden'')]"

definition validate_execution_ceiling :: "json \<Rightarrow> string option res" where
  "validate_execution_ceiling ceil =
     thenR
       (firstR (\<lambda>dimension.
          bindR (jget ceil dimension) (\<lambda>state.
          bindR (in_strs state CEILING_STATES) (\<lambda>ok.
            if ok then Inr None
            else Inr (Some (''execution_ceiling.'' @ dimension @ '' must be one of '' @
                            py_repr (JList (map JStr (sorted_strs CEILING_STATES))))))))
          CEILING_DIMENSIONS)
       (firstR (\<lambda>dimension.
          bindR (jget ceil dimension) (\<lambda>state.
            if state = JStr ''forbidden'' then Inr None
            else Inr (Some (''execution_ceiling.'' @ dimension @
                            '' must be forbidden for every unattended preset''))))
          ALWAYS_FORBIDDEN_DIMENSIONS)"

definition workflow_capabilities :: "(string \<times> string) list" where
  "workflow_capabilities =
     [(''review'', ''verification''), (''security_review'', ''verification''),
      (''audit'', ''verification''), (''remediation'', ''sandbox_implementation''),
      (''integration_review'', ''integration_branch_merge'')]"

definition capability_for_step :: "json \<Rightarrow> string option res" where
  "capability_for_step step =
     bindR (key_of step) (\<lambda>key. Inr (case key of
       None \<Rightarrow> None
     | Some s \<Rightarrow> if s \<in> set CEILING_DIMENSIONS then Some s else map_of workflow_capabilities s))"

definition is_step_permitted :: "json \<Rightarrow> json \<Rightarrow> bool \<Rightarrow> (bool \<times> json) res" where
  "is_step_permitted ceil step conditional_authorized =
     bindR (capability_for_step step) (\<lambda>capability. case capability of
        None \<Rightarrow> Inr (True, JNull)
      | Some dimension \<Rightarrow>
          bindR (jget_or ceil dimension (JStr ''forbidden'')) (\<lambda>state.
            Inr (state = JStr ''allowed'' \<or> (state = JStr ''conditional'' \<and> conditional_authorized),
                 state)))"

text \<open>\<open>_STATE_RANK.get(state, -1)\<close>, which raises on an unhashable state.\<close>

definition state_rank :: "json \<Rightarrow> int res" where
  "state_rank v =
     (case v of JStr s \<Rightarrow> Inr (case map_of STATE_RANK s of None \<Rightarrow> - 1 | Some r \<Rightarrow> r)
              | _ \<Rightarrow> if hashable v then Inr (- 1) else Inl TypeError)"

definition can_tighten :: "json \<Rightarrow> json \<Rightarrow> bool res" where
  "can_tighten current_state new_state =
     bindR (state_rank new_state) (\<lambda>n. bindR (state_rank current_state) (\<lambda>c. Inr (n > c)))"

section \<open>Lemmas\<close>

lemmas ceiling_tables = CEILING_DIMENSIONS_def CEILING_STATES_def ALWAYS_FORBIDDEN_DIMENSIONS_def

text \<open>A valid ceiling is a dictionary with a known state in every dimension and
  \<open>forbidden\<close> in the pinned ones.\<close>

definition ceiling_ok :: "json \<Rightarrow> bool" where
  "ceiling_ok ceil = (\<exists>ob. ceil = JObj ob
     \<and> (\<forall>d \<in> set CEILING_DIMENSIONS. \<exists>s \<in> set CEILING_STATES. oget ob d = JStr s)
     \<and> (\<forall>d \<in> set ALWAYS_FORBIDDEN_DIMENSIONS. oget ob d = JStr ''forbidden''))"

lemma validate_ceiling_None:
  "validate_execution_ceiling ceil = Inr None \<longleftrightarrow> ceiling_ok ceil"
proof (cases ceil)
  case (JObj ob)
  then show ?thesis
    by (auto simp: validate_execution_ceiling_def ceiling_ok_def in_strs_True)
qed (simp_all add: validate_execution_ceiling_def ceiling_ok_def CEILING_DIMENSIONS_def)

lemma default_ceiling_ok: "ceiling_ok (JObj DEFAULT_EXECUTION_CEILING)"
  by (simp add: ceiling_ok_def DEFAULT_EXECUTION_CEILING_def ceiling_tables)

lemma capability_is_dimension:
  assumes "capability_for_step step = Inr (Some d)"
  shows "d \<in> set CEILING_DIMENSIONS"
proof -
  have "(k, d) \<in> set workflow_capabilities \<Longrightarrow> d \<in> set CEILING_DIMENSIONS" for k
    by (auto simp: workflow_capabilities_def CEILING_DIMENSIONS_def)
  then show ?thesis
    using assms map_of_SomeD
    by (fastforce simp: capability_for_step_def split: if_splits option.splits)
qed

lemma state_rank_JStr: "s \<in> set CEILING_STATES \<Longrightarrow> \<exists>r. state_rank (JStr s) = Inr r \<and> 0 \<le> r \<and> r \<le> 2"
  by (auto simp: state_rank_def STATE_RANK_def CEILING_STATES_def)

lemma state_rank_range: "state_rank v = Inr r \<Longrightarrow> - 1 \<le> r \<and> r \<le> 2"
  by (auto simp: state_rank_def STATE_RANK_def split: json.splits if_splits)

lemma state_rank_known:
  "state_rank v = Inr r \<Longrightarrow> 0 \<le> r \<Longrightarrow> \<exists>s \<in> set CEILING_STATES. v = JStr s"
  by (auto simp: state_rank_def STATE_RANK_def CEILING_STATES_def split: json.splits if_splits)

lemma state_rank_forbidden: "state_rank v = Inr 2 \<longleftrightarrow> v = JStr ''forbidden''"
  by (auto simp: state_rank_def STATE_RANK_def split: json.splits if_splits)

lemma can_tighten_iff:
  "can_tighten c n = Inr True \<longleftrightarrow> (\<exists>i j. state_rank c = Inr i \<and> state_rank n = Inr j \<and> i < j)"
  by (auto simp: can_tighten_def)

text \<open>Tightening leads to a known state, and never away from \<open>forbidden\<close>.\<close>

lemma can_tighten_known: "can_tighten c n = Inr True \<Longrightarrow> \<exists>s \<in> set CEILING_STATES. n = JStr s"
  using state_rank_known state_rank_range by (fastforce simp: can_tighten_iff)

lemma can_tighten_not_forbidden: "can_tighten c n = Inr True \<Longrightarrow> c \<noteq> JStr ''forbidden''"
  by (auto simp: can_tighten_iff state_rank_forbidden [symmetric] dest: state_rank_range)

lemma can_tighten_trans:
  "can_tighten a b = Inr True \<Longrightarrow> can_tighten b c = Inr True \<Longrightarrow> can_tighten a c = Inr True"
  by (force simp: can_tighten_iff)

lemma ceiling_ok_tightened:
  assumes "ceiling_ok (JObj ob)" and "can_tighten (oget ob d) new = Inr True"
  shows "ceiling_ok (JObj (AList.update d new ob))"
  using assms can_tighten_known [OF assms(2)] can_tighten_not_forbidden [OF assms(2)]
  by (auto simp: ceiling_ok_def)

lemma pinned_step_blocked:
  assumes "validate_execution_ceiling ceil = Inr None"
    and "capability_for_step step = Inr (Some d)" and "d \<in> set ALWAYS_FORBIDDEN_DIMENSIONS"
  shows "is_step_permitted ceil step conditional_authorized = Inr (False, JStr ''forbidden'')"
proof -
  from assms(1) obtain ob where "ceil = JObj ob" "oget ob d = JStr ''forbidden''"
    using assms(3) by (auto simp: validate_ceiling_None ceiling_ok_def)
  then show ?thesis
    using assms(2) by (auto simp: is_step_permitted_def oget_def split: option.splits)
qed

section \<open>Properties\<close>

text \<open>
  Whatever condition the caller supplies, a ceiling that passed validation never permits
  a step that stands for a pinned capability (merging to a protected branch, deploying to
  staging, acting in production): the answer is no, with the state \<open>forbidden\<close>.
\<close>

theorem validated_ceiling_blocks_pinned_steps:
  assumes "validate_execution_ceiling ceil = Inr None"
    and "capability_for_step step = Inr (Some d)" and "d \<in> set ALWAYS_FORBIDDEN_DIMENSIONS"
  shows "is_step_permitted ceil step conditional_authorized = Inr (False, JStr ''forbidden'')"
  by (rule pinned_step_blocked [OF assms])

theorem validated_ceiling_blocks_pinned_steps_witness:
  "is_step_permitted (JObj DEFAULT_EXECUTION_CEILING) (JStr ''staging_deployment'') True
     = Inr (False, JStr ''forbidden'')"
  by (rule validated_ceiling_blocks_pinned_steps [where d = "''staging_deployment''"])
     (simp_all add: validate_ceiling_None default_ceiling_ok capability_for_step_def ceiling_tables)

end
