(* ===== verification/AutonomyPolicy.thy ===== *)
theory AutonomyPolicy
  imports ExecutionCeiling PyJson
begin

text \<open>
  The effective autonomy policy of an unattended Run (\<open>core/domain/run/autonomy_policy.py\<close>):
  the preset a project selects, the policy document a preset and its overrides resolve to,
  the invariants every resolved policy is checked against, and the timeout of a step.
  \<open>ValueError\<close> carries its message; a set's iteration order never shows in a result.
\<close>

definition UNATTENDED_PRESETS :: "string list" where
  "UNATTENDED_PRESETS =
     [''unattended_conservative'', ''unattended_extended'', ''unattended_maximal'', ''custom'']"

definition NAMED_AUTONOMY_PRESETS :: "string list" where
  "NAMED_AUTONOMY_PRESETS = ''supervised_copilots'' # UNATTENDED_PRESETS"

definition LEGACY_LEVEL_PRESET :: "(rat \<times> string) list" where
  "LEGACY_LEVEL_PRESET =
     [(1, ''supervised_copilots''), (2, ''supervised_copilots''), (3, ''unattended_conservative'')]"

definition WINDOWS :: "(string \<times> int) list" where
  "WINDOWS =
     [(''unattended_conservative'', 8), (''unattended_extended'', 10), (''unattended_maximal'', 12),
      (''custom'', 12)]"

definition DEFAULT_TIMEOUTS_SECONDS_BY_STEP :: obj where
  "DEFAULT_TIMEOUTS_SECONDS_BY_STEP =
     [(''sandbox_implementation'', JInt 5400), (''remediation'', JInt 3600),
      (''verification'', JInt 1800), (''review'', JInt 1200), (''security_review'', JInt 1200),
      (''audit'', JInt 1200), (''integration_review'', JInt 1800)]"

definition DEFAULT_UNKNOWN_STEP_TIMEOUT_SECONDS :: int where
  "DEFAULT_UNKNOWN_STEP_TIMEOUT_SECONDS = 600"

definition HARD_MAX_TIMEOUT_SECONDS :: int where "HARD_MAX_TIMEOUT_SECONDS = 7200"

definition is_unattended_preset :: "json \<Rightarrow> bool" where
  "is_unattended_preset value = (py_str (por value (JStr [])) \<in> set UNATTENDED_PRESETS)"

section \<open>The project's preset\<close>

text \<open>\<open>LEGACY_LEVEL_PRESET\<close> looked up with any value: numbers match by value, and an
  unhashable value raises.\<close>

definition legacy_preset :: "json \<Rightarrow> string option res" where
  "legacy_preset level =
     (if \<not> hashable level then Inl TypeError
      else Inr (case num_of level of None \<Rightarrow> None | Some q \<Rightarrow> map_of LEGACY_LEVEL_PRESET q))"

definition resolve_project_preset :: "json \<Rightarrow> string res" where
  "resolve_project_preset autonomy =
     bindR (jget autonomy ''preset'') (\<lambda>preset.
     bindR (jget autonomy ''level'') (\<lambda>level.
       if preset \<noteq> JNull then
         bindR (in_strs preset NAMED_AUTONOMY_PRESETS) (\<lambda>named.
           if \<not> named then Inl (ValueError (''unsupported autonomy preset: '' @ py_str preset))
           else if level = JNull then Inr (py_str preset)
           else bindR (legacy_preset level) (\<lambda>mapped. case mapped of
               None \<Rightarrow> Inl (ValueError (''legacy autonomy.level must be in 1..3 when set with preset, got ''
                               @ py_repr level))
             | Some m \<Rightarrow>
                 if JStr m \<noteq> preset then
                   Inl (ValueError (''autonomy.preset '' @ py_repr preset
                     @ '' diverges from legacy autonomy.level '' @ py_str level @ '' (maps to ''
                     @ repr_str m @ ''); remove level or align them''))
                 else Inr (py_str preset)))
       else bindR (legacy_preset level) (\<lambda>mapped. case mapped of
           None \<Rightarrow> Inl (ValueError ''autonomy.preset or a legacy autonomy.level in 1..3 is required'')
         | Some m \<Rightarrow> Inr m)))"

section \<open>Overrides\<close>

fun merge_policy :: "obj \<Rightarrow> obj \<Rightarrow> obj"
  and merge_value :: "json \<Rightarrow> json \<Rightarrow> json" where
  "merge_policy merged [] = merged"
| "merge_policy merged ((key, value) # overrides) =
     merge_policy (AList.update key (merge_value (oget merged key) value) merged) overrides"
| "merge_value (JObj base) (JObj over) = JObj (merge_policy base over)"
| "merge_value _ value = value"

section \<open>Invariants of a policy\<close>

definition sub_dict :: "json \<Rightarrow> string \<Rightarrow> json res" where
  "sub_dict d key = bindR (jget d key) (\<lambda>v. Inr (por v (JObj [])))"

definition raise_unless :: "bool \<Rightarrow> string \<Rightarrow> unit res" where
  "raise_unless b msg = (if b then Inr () else Inl (ValueError msg))"

lemma raise_unless_Inr [simp]: "raise_unless b msg = Inr u \<longleftrightarrow> b"
  by (simp add: raise_unless_def)

definition must_equal :: "json \<Rightarrow> string \<Rightarrow> json \<Rightarrow> string \<Rightarrow> unit res" where
  "must_equal d key v msg = bindR (jget d key) (\<lambda>x. raise_unless (py_eq x v) msg)"

text \<open>\<open>x.get(key) is b\<close> for a boolean \<open>b\<close>: identity, so \<open>1\<close> does not do.\<close>

definition must_be :: "json \<Rightarrow> string \<Rightarrow> bool \<Rightarrow> string \<Rightarrow> unit res" where
  "must_be d key b msg = bindR (jget d key) (\<lambda>x. raise_unless (x = JBool b) msg)"

definition positive_number :: "json \<Rightarrow> bool" where
  "positive_number v = (case num_of v of None \<Rightarrow> False | Some q \<Rightarrow> 0 < q)"

definition check_timeout :: "string \<times> json \<Rightarrow> unit res" where
  "check_timeout = (\<lambda>(step_name, seconds).
     bindR (raise_unless (step_name \<noteq> []) ''timeout step names must be non-empty strings'') (\<lambda>_.
     bindR (raise_unless (positive_number seconds)
              (''timeout for '' @ repr_str step_name @ '' must be a positive number'')) (\<lambda>_.
     raise_unless (case num_of seconds of None \<Rightarrow> False | Some q \<Rightarrow> q \<le> of_int HARD_MAX_TIMEOUT_SECONDS)
       (''timeout for '' @ repr_str step_name @ '' exceeds hard max ''
          @ int_text HARD_MAX_TIMEOUT_SECONDS @ ''s''))))"

definition check_environments :: "json \<Rightarrow> unit res" where
  "check_environments policy =
     bindR (sub_dict policy ''environments'') (\<lambda>environments.
     bindR (jget environments ''allowed'') (\<lambda>a. bindR (jset_of (por a (JList []))) (\<lambda>allowed.
     bindR (raise_unless (JStr ''staging'' \<notin> set allowed \<and> JStr ''production'' \<notin> set allowed)
              ''staging and production can never be allowed unattended'') (\<lambda>_.
     bindR (jget environments ''forbidden'') (\<lambda>f. bindR (jset_of (por f (JList []))) (\<lambda>forbidden.
       raise_unless (JStr ''staging'' \<in> set forbidden \<and> JStr ''production'' \<in> set forbidden)
         ''staging and production must be explicitly forbidden''))))))"

definition check_decision_menu :: "json \<Rightarrow> unit res" where
  "check_decision_menu policy =
     bindR (sub_dict policy ''decision_menu'') (\<lambda>decision_menu.
     bindR (must_equal decision_menu ''resolution_mode'' (JStr ''agent_proposes_core_validates'')
              ''decision resolution must remain agent_proposes_core_validates'') (\<lambda>_.
       must_equal decision_menu ''unmatched_or_unvalidated_fork_behavior''
         (JStr ''block_dependent_subgraph'')
         ''unmatched decisions must block their dependent subgraph''))"

definition check_execution :: "json \<Rightarrow> unit res" where
  "check_execution policy =
     bindR (sub_dict policy ''execution'') (\<lambda>execution.
     bindR (must_equal execution ''worker_lease_fencing'' (JStr ''required'')
              ''worker lease fencing is required'') (\<lambda>_.
     bindR (must_equal execution ''maximum_parallel_critical_wu'' (JInt 1)
              ''critical Work Unit parallelism must remain one'') (\<lambda>_.
     bindR (sub_dict execution ''timeouts_seconds_by_step'') (\<lambda>timeouts.
     bindR (case timeouts of
              JObj items \<Rightarrow> eachR check_timeout items
            | _ \<Rightarrow> Inl (ValueError ''execution.timeouts_seconds_by_step must be an object'')) (\<lambda>_.
     bindR (jget execution ''default_timeout_seconds'') (\<lambda>default_timeout.
       raise_unless (default_timeout = JNull \<or> positive_number default_timeout)
         ''execution.default_timeout_seconds must be a positive number''))))))"

definition check_ceiling :: "json \<Rightarrow> unit res" where
  "check_ceiling policy =
     bindR (sub_dict policy ''execution_ceiling_default'') (\<lambda>c.
     bindR (validate_execution_ceiling c) (\<lambda>violation. case violation of
       None \<Rightarrow> Inr () | Some msg \<Rightarrow> Inl (ValueError msg)))"

definition check_decisions :: "json \<Rightarrow> unit res" where
  "check_decisions policy =
     bindR (sub_dict policy ''decisions'') (\<lambda>decisions.
       eachR (\<lambda>fld. must_equal decisions fld (JStr ''human_only'')
                      (''decisions.'' @ fld @ '' must remain human_only''))
         [''product_decisions'', ''constitution_changes'', ''production_actions''])"

definition check_human_feedback :: "json \<Rightarrow> unit res" where
  "check_human_feedback policy =
     bindR (sub_dict policy ''human_feedback'') (\<lambda>human_feedback.
     bindR (must_equal human_feedback ''visual_checkpoints'' (JStr ''non_blocking'')
              ''formative visual checkpoints must remain non-blocking unattended'') (\<lambda>_.
     bindR (must_equal human_feedback ''pending_feedback_behavior''
              (JStr ''reconcile_before_next_affected_dispatch'')
              ''received human feedback must be reconciled before affected dispatch'') (\<lambda>_.
     bindR (must_be human_feedback ''continue_unaffected_work'' True
              ''unaffected work must continue during human feedback reconciliation'') (\<lambda>_.
       must_be human_feedback ''may_reduce_execution_ceiling'' False
         ''formative human feedback cannot implicitly reduce execution ceiling''))))"

definition validate_invariants :: "json \<Rightarrow> unit res" where
  "validate_invariants policy =
     bindR (check_environments policy) (\<lambda>_.
     bindR (check_decision_menu policy) (\<lambda>_.
     bindR (check_execution policy) (\<lambda>_.
     bindR (check_ceiling policy) (\<lambda>_.
     bindR (check_decisions policy) (\<lambda>_.
     bindR (must_equal policy ''global_stop_behavior'' (JStr ''immediate_alert_plus_stop'')
              ''global stop behavior must remain immediate_alert_plus_stop'') (\<lambda>_.
       check_human_feedback policy))))))"

section \<open>Resolving a policy\<close>

definition jstrs :: "string list \<Rightarrow> json" where
  "jstrs xs = JList (map JStr xs)"

definition base_policy :: "string \<Rightarrow> json \<Rightarrow> json \<Rightarrow> json \<Rightarrow> obj" where
  "base_policy preset workers attempts cycles =
     (let window = JInt (the (map_of WINDOWS preset));
          full = preset \<in> {''unattended_maximal'', ''custom''} in
     [(''autonomy'', JObj [(''preset'', JStr preset), (''unattended_window_hours'', window)]),
      (''eligibility'', JObj
        [(''maximum_risk_class'', JStr ''critical''),
         (''risk_reclassification'', JObj
            [(''escalation'', JStr ''automatic_immediate''),
             (''de_escalation'', JStr ''requires_human_validation'')])]),
      (''decision_menu'', JObj
        [(''ref'', JStr ''decision-menu.yaml''),
         (''coverage_required'', JStr
            (if full then ''exhaustive_for_anticipated_forks''
             else if preset = ''unattended_extended'' then ''substantial_for_anticipated_forks''
             else ''bounded_for_anticipated_forks'')),
         (''unmatched_or_unvalidated_fork_behavior'', JStr ''block_dependent_subgraph''),
         (''resolution_mode'', JStr ''agent_proposes_core_validates'')]),
      (''execution_ceiling_default'', JObj DEFAULT_EXECUTION_CEILING),
      (''decisions'', JObj
        [(''reversible_technical_choices'', JStr ''delegated''),
         (''shared_contract_changes'', JStr ''bounded''),
         (''product_decisions'', JStr ''human_only''),
         (''constitution_changes'', JStr ''human_only''),
         (''production_actions'', JStr ''human_only''),
         (''ambiguity'', JStr ''block_dependent_subgraph'')]),
      (''roles'', JObj
        [(''agents'', JObj
           [(''force'', jstrs [''security-reviewer'', ''auditor'', ''mandate-matcher'',
                              ''integration-steward'']),
            (''force_pre_g1'', jstrs
               (if preset \<in> {''unattended_extended'', ''unattended_maximal'', ''custom''}
                then [''requirements-challenger''] else []))]),
         (''core_components'', JObj [(''force'', jstrs [''run-reliability-controller''])])]),
      (''execution'', JObj
        [(''maximum_parallel_workers'', workers),
         (''maximum_parallel_critical_wu'', JInt 1),
         (''heartbeat_seconds'', JInt 60),
         (''stalled_after_minutes'', JInt 15),
         (''maximum_attempts_per_step'', attempts),
         (''maximum_remediation_cycles'', cycles),
         (''worker_lease_fencing'', JStr ''required''),
         (''timeouts_seconds_by_step'', JObj DEFAULT_TIMEOUTS_SECONDS_BY_STEP),
         (''default_timeout_seconds'', JInt DEFAULT_UNKNOWN_STEP_TIMEOUT_SECONDS)]),
      (''preflight'', JObj [(''forbid_manual_confirmation_states'', JBool True)]),
      (''budgets'', JObj
        [(''maximum_wall_time_hours'', window),
         (''maximum_changed_files_per_work_unit'', JInt 30),
         (''maximum_changed_files_per_critical_work_unit'', JInt 10),
         (''maximum_new_dependencies'', JInt 0)]),
      (''environments'', JObj
        [(''allowed'', jstrs [''development'', ''test'']),
         (''forbidden'', jstrs [''staging'', ''production''])]),
      (''global_stop_conditions'', jstrs
        [''budget_exhausted'', ''preflight_failed'', ''kill_switch'', ''authorization_violation'',
         ''state_corruption'', ''fencing_conflict'', ''forbidden_secret_access'',
         ''out_of_workspace_write'', ''protected_environment_target'',
         ''repeated_systemic_failure'', ''worker_isolation_unguaranteed'',
         ''no_dispatchable_work'', ''orchestrator_process_failure'', ''stalled_no_progress'']),
      (''global_stop_behavior'', JStr ''immediate_alert_plus_stop''),
      (''human_feedback'', JObj
        [(''visual_checkpoints'', JStr ''non_blocking''),
         (''pending_feedback_behavior'', JStr ''reconcile_before_next_affected_dispatch''),
         (''continue_unaffected_work'', JBool True),
         (''may_reduce_execution_ceiling'', JBool False)]),
      (''completion'', JObj
        [(''target'', JStr
            (if full then ''verified_release_candidate''
             else if preset = ''unattended_extended'' then ''verified_integration_branch''
             else ''verified_work_unit_branch'')),
         (''morning_report'', JBool True)])])"

definition resolve_effective_policy ::
  "string \<Rightarrow> json \<Rightarrow> json \<Rightarrow> json \<Rightarrow> json \<Rightarrow> json res" where
  "resolve_effective_policy preset workers attempts cycles overrides =
     (if preset \<notin> set UNATTENDED_PRESETS
        then Inl (ValueError (''unsupported unattended preset: '' @ preset))
      else if preset = ''custom'' \<and> \<not> truthy overrides
        then Inl (ValueError ''custom unattended preset requires explicit policy overrides'')
      else
        bindR (if truthy overrides then as_obj overrides else Inr []) (\<lambda>over.
        let policy = JObj (merge_policy (base_policy preset workers attempts cycles) over) in
        bindR (validate_invariants policy) (\<lambda>_. Inr policy)))"

definition effective_policy_hash :: "(string \<Rightarrow> string) \<Rightarrow> json \<Rightarrow> string" where
  "effective_policy_hash sha policy = ''sha256:'' @ sha (canonical_json policy)"

definition clamp :: "rat \<Rightarrow> rat \<Rightarrow> rat" where
  "clamp t bound = max 1 (min t bound)"

definition resolve_step_timeout_seconds :: "json \<Rightarrow> string \<Rightarrow> rat option \<Rightarrow> rat res" where
  "resolve_step_timeout_seconds policy step grant_remaining =
     bindR (sub_dict (por policy (JObj [])) ''execution'') (\<lambda>execution.
     bindR (sub_dict execution ''timeouts_seconds_by_step'') (\<lambda>by_step.
     bindR (jget_or execution ''default_timeout_seconds''
              (JInt DEFAULT_UNKNOWN_STEP_TIMEOUT_SECONDS)) (\<lambda>dflt.
     bindR (jget_or by_step step dflt) (\<lambda>raw.
     bindR (py_float raw) (\<lambda>timeout.
       let t = clamp timeout (of_int HARD_MAX_TIMEOUT_SECONDS)
       in Inr (case grant_remaining of None \<Rightarrow> t | Some r \<Rightarrow> clamp t r))))))"

section \<open>Lemmas\<close>

lemma sub_dict_Inr: "sub_dict d k = Inr v \<longleftrightarrow> (\<exists>ob. d = JObj ob \<and> v = por (oget ob k) (JObj []))"
  by (auto simp: sub_dict_def jget_eq_Inr)

lemma must_equal_Inr [simp]:
  "must_equal d k v msg = Inr u \<longleftrightarrow> (\<exists>ob. d = JObj ob \<and> py_eq (oget ob k) v)"
  by (auto simp: must_equal_def jget_eq_Inr)

lemma must_be_Inr [simp]:
  "must_be d k b msg = Inr u \<longleftrightarrow> (\<exists>ob. d = JObj ob \<and> oget ob k = JBool b)"
  by (auto simp: must_be_def jget_eq_Inr)

lemma check_timeout_Inr:
  "check_timeout (s, v) = Inr u \<longleftrightarrow>
   s \<noteq> [] \<and> (\<exists>q. num_of v = Some q \<and> 0 < q \<and> q \<le> of_int HARD_MAX_TIMEOUT_SECONDS)"
  by (auto simp: check_timeout_def positive_number_def split: option.splits)

lemma por_not_dict: "por v (JObj []) = JObj ob \<Longrightarrow> oget ob k \<noteq> JNull \<Longrightarrow> v = JObj ob"
  by (auto simp: por_def split: if_splits)

lemma oget_present: "oget ob k = v \<Longrightarrow> v \<noteq> JNull \<Longrightarrow> map_of ob k = Some v"
  by (auto simp: oget_def split: option.splits)

text \<open>The value at a path of keys, \<open>JNull\<close> where there is none.\<close>

fun jpath :: "json \<Rightarrow> string list \<Rightarrow> json" where
  "jpath v [] = v"
| "jpath (JObj ob) (k # ks) = jpath (oget ob k) ks"
| "jpath v (k # ks) = JNull"

lemma jpath_JNull [simp]: "jpath JNull ks = JNull"
  by (cases ks) auto

lemma jpath_por: "jpath (por v (JObj [])) (k # ks) = jpath v (k # ks)"
  by (cases v) (auto simp: por_def)

lemma must_equal_at:
  assumes "sub_dict policy key = Inr d" and "must_equal d k v msg = Inr ()"
  shows "py_eq (jpath policy [key, k]) v"
proof -
  obtain pb where p: "policy = JObj pb" "d = por (oget pb key) (JObj [])"
    using assms(1) by (auto simp: sub_dict_Inr)
  obtain ob where "d = JObj ob" "py_eq (oget ob k) v" using assms(2) by auto
  then have "py_eq (jpath d [k]) v" by simp
  then show ?thesis by (simp add: p jpath_por)
qed

lemma must_be_at:
  assumes "sub_dict policy key = Inr d" and "must_be d k b msg = Inr ()"
  shows "jpath policy [key, k] = JBool b"
proof -
  obtain pb where p: "policy = JObj pb" "d = por (oget pb key) (JObj [])"
    using assms(1) by (auto simp: sub_dict_Inr)
  have "jpath d [k] = JBool b" using assms(2) by auto
  then show ?thesis by (simp add: p jpath_por)
qed

lemma jget_at:
  assumes "sub_dict policy key = Inr d" and "jget d k = Inr v"
  shows "v = jpath policy [key, k]"
proof -
  obtain pb where p: "policy = JObj pb" "d = por (oget pb key) (JObj [])"
    using assms(1) by (auto simp: sub_dict_Inr)
  have "jpath d [k] = v" using assms(2) by (auto simp: jget_eq_Inr)
  then show ?thesis by (simp add: p jpath_por)
qed

text \<open>What the check of a policy enforces.\<close>

definition excluded_from :: "json \<Rightarrow> string \<Rightarrow> bool" where
  "excluded_from xs env = (\<exists>ys. jset_of (por xs (JList [])) = Inr ys \<and> JStr env \<notin> set ys)"

definition listed_in :: "json \<Rightarrow> string \<Rightarrow> bool" where
  "listed_in xs env = (\<exists>ys. jset_of (por xs (JList [])) = Inr ys \<and> JStr env \<in> set ys)"

definition timeouts_bounded :: "json \<Rightarrow> bool" where
  "timeouts_bounded timeouts =
     (\<exists>items. por timeouts (JObj []) = JObj items \<and>
        (\<forall>(step, v) \<in> set items. step \<noteq> [] \<and> (\<exists>q. num_of v = Some q \<and> 0 < q \<and> q \<le> 7200)))"

definition policy_safe :: "json \<Rightarrow> bool" where
  "policy_safe policy \<longleftrightarrow>
     (\<forall>env \<in> {''staging'', ''production''}.
        excluded_from (jpath policy [''environments'', ''allowed'']) env \<and>
        listed_in (jpath policy [''environments'', ''forbidden'']) env) \<and>
     jpath policy [''execution'', ''worker_lease_fencing''] = JStr ''required'' \<and>
     py_eq (jpath policy [''execution'', ''maximum_parallel_critical_wu'']) (JInt 1) \<and>
     timeouts_bounded (jpath policy [''execution'', ''timeouts_seconds_by_step'']) \<and>
     (jpath policy [''execution'', ''default_timeout_seconds''] = JNull \<or>
        positive_number (jpath policy [''execution'', ''default_timeout_seconds''])) \<and>
     ceiling_ok (jpath policy [''execution_ceiling_default'']) \<and>
     (\<forall>d \<in> {''product_decisions'', ''constitution_changes'', ''production_actions''}.
        jpath policy [''decisions'', d] = JStr ''human_only'') \<and>
     jpath policy [''decision_menu'', ''resolution_mode''] = JStr ''agent_proposes_core_validates'' \<and>
     jpath policy [''decision_menu'', ''unmatched_or_unvalidated_fork_behavior''] = JStr ''block_dependent_subgraph'' \<and>
     jpath policy [''global_stop_behavior''] = JStr ''immediate_alert_plus_stop'' \<and>
     jpath policy [''human_feedback'', ''visual_checkpoints''] = JStr ''non_blocking'' \<and>
     jpath policy [''human_feedback'', ''pending_feedback_behavior''] = JStr ''reconcile_before_next_affected_dispatch'' \<and>
     jpath policy [''human_feedback'', ''continue_unaffected_work''] = JBool True \<and>
     jpath policy [''human_feedback'', ''may_reduce_execution_ceiling''] = JBool False"

lemma check_environments_safe:
  assumes "check_environments policy = Inr ()" and "env \<in> {''staging'', ''production''}"
  shows "excluded_from (jpath policy [''environments'', ''allowed'']) env \<and>
         listed_in (jpath policy [''environments'', ''forbidden'']) env"
proof -
  obtain d a al f fl where d: "sub_dict policy ''environments'' = Inr d"
    "jget d ''allowed'' = Inr a" "jset_of (por a (JList [])) = Inr al"
    "JStr ''staging'' \<notin> set al \<and> JStr ''production'' \<notin> set al"
    "jget d ''forbidden'' = Inr f" "jset_of (por f (JList [])) = Inr fl"
    "JStr ''staging'' \<in> set fl \<and> JStr ''production'' \<in> set fl"
    using assms(1) unfolding check_environments_def bindR_eq_Inr raise_unless_Inr by blast
  have "a = jpath policy [''environments'', ''allowed'']" "f = jpath policy [''environments'', ''forbidden'']"
    using jget_at d(1,2,5) by blast+
  with d(3,4,6,7) assms(2) show ?thesis
    by (auto simp: excluded_from_def listed_in_def)
qed

lemma check_execution_safe:
  assumes "check_execution policy = Inr ()"
  shows "jpath policy [''execution'', ''worker_lease_fencing''] = JStr ''required'' \<and>
     py_eq (jpath policy [''execution'', ''maximum_parallel_critical_wu'']) (JInt 1) \<and>
     timeouts_bounded (jpath policy [''execution'', ''timeouts_seconds_by_step'']) \<and>
     (jpath policy [''execution'', ''default_timeout_seconds''] = JNull \<or>
        positive_number (jpath policy [''execution'', ''default_timeout_seconds'']))"
proof -
  obtain d t w where d: "sub_dict policy ''execution'' = Inr d"
    "must_equal d ''worker_lease_fencing'' (JStr ''required'') ''worker lease fencing is required'' = Inr ()"
    "must_equal d ''maximum_parallel_critical_wu'' (JInt 1) ''critical Work Unit parallelism must remain one'' = Inr ()"
    "sub_dict d ''timeouts_seconds_by_step'' = Inr t"
    "(case t of JObj items \<Rightarrow> eachR check_timeout items
       | _ \<Rightarrow> Inl (ValueError ''execution.timeouts_seconds_by_step must be an object'')) = Inr ()"
    "jget d ''default_timeout_seconds'' = Inr w" "w = JNull \<or> positive_number w"
    using assms unfolding check_execution_def bindR_unit_eq_Inr bindR_eq_Inr raise_unless_Inr by blast
  obtain items where items: "t = JObj items" "\<forall>x \<in> set items. check_timeout x = Inr ()"
    using d(5) by (cases t) auto
  obtain db where db: "d = JObj db" "t = por (oget db ''timeouts_seconds_by_step'') (JObj [])"
    using d(4) by (auto simp: sub_dict_Inr)
  have "jpath policy [''execution'', ''timeouts_seconds_by_step''] = oget db ''timeouts_seconds_by_step''"
    using jget_at [OF d(1)] db(1) by fastforce
  then have "timeouts_bounded (jpath policy [''execution'', ''timeouts_seconds_by_step''])"
    using items db by (auto simp: timeouts_bounded_def check_timeout_Inr HARD_MAX_TIMEOUT_SECONDS_def)
  moreover have "py_eq (jpath policy [''execution'', ''worker_lease_fencing'']) (JStr ''required'')"
    "py_eq (jpath policy [''execution'', ''maximum_parallel_critical_wu'']) (JInt 1)"
    using must_equal_at [OF d(1)] d(2,3) by blast+
  moreover have "w = jpath policy [''execution'', ''default_timeout_seconds'']" by (rule jget_at [OF d(1,6)])
  ultimately show ?thesis using d(7) by simp
qed

lemma check_ceiling_safe:
  assumes "check_ceiling policy = Inr ()"
  shows "ceiling_ok (jpath policy [''execution_ceiling_default''])"
proof -
  obtain pb where p: "policy = JObj pb"
    and v: "validate_execution_ceiling (por (oget pb ''execution_ceiling_default'') (JObj [])) = Inr None"
    using assms by (auto simp: check_ceiling_def sub_dict_Inr split: option.splits)
  then have ok: "ceiling_ok (por (oget pb ''execution_ceiling_default'') (JObj []))"
    by (simp add: validate_ceiling_None)
  moreover have "\<not> ceiling_ok (JObj [])"
    by (simp add: ceiling_ok_def ceiling_tables)
  ultimately show ?thesis by (auto simp: p por_def split: if_splits)
qed

lemma check_decisions_safe:
  assumes "check_decisions policy = Inr ()"
    and "d \<in> {''product_decisions'', ''constitution_changes'', ''production_actions''}"
  shows "jpath policy [''decisions'', d] = JStr ''human_only''"
proof -
  obtain s where s: "sub_dict policy ''decisions'' = Inr s"
    "must_equal s d (JStr ''human_only'') (''decisions.'' @ d @ '' must remain human_only'') = Inr ()"
    using assms unfolding check_decisions_def bindR_unit_eq_Inr bindR_eq_Inr eachR_eq_Inr by auto
  from must_equal_at [OF s] show ?thesis by simp
qed

lemma check_decision_menu_safe:
  assumes "check_decision_menu policy = Inr ()"
  shows "jpath policy [''decision_menu'', ''resolution_mode''] = JStr ''agent_proposes_core_validates'' \<and>
    jpath policy [''decision_menu'', ''unmatched_or_unvalidated_fork_behavior''] = JStr ''block_dependent_subgraph''"
proof -
  obtain s where s: "sub_dict policy ''decision_menu'' = Inr s"
    "must_equal s ''resolution_mode'' (JStr ''agent_proposes_core_validates'')
       ''decision resolution must remain agent_proposes_core_validates'' = Inr ()"
    "must_equal s ''unmatched_or_unvalidated_fork_behavior'' (JStr ''block_dependent_subgraph'')
       ''unmatched decisions must block their dependent subgraph'' = Inr ()"
    using assms unfolding check_decision_menu_def bindR_unit_eq_Inr bindR_eq_Inr by blast
  from must_equal_at [OF s(1,2)] must_equal_at [OF s(1,3)] show ?thesis by simp
qed

lemma check_human_feedback_safe:
  assumes "check_human_feedback policy = Inr ()"
  shows "jpath policy [''human_feedback'', ''visual_checkpoints''] = JStr ''non_blocking'' \<and>
     jpath policy [''human_feedback'', ''pending_feedback_behavior''] = JStr ''reconcile_before_next_affected_dispatch'' \<and>
     jpath policy [''human_feedback'', ''continue_unaffected_work''] = JBool True \<and>
     jpath policy [''human_feedback'', ''may_reduce_execution_ceiling''] = JBool False"
proof -
  obtain s m1 m2 m3 m4 where s: "sub_dict policy ''human_feedback'' = Inr s" and
    c: "must_equal s ''visual_checkpoints'' (JStr ''non_blocking'') m1 = Inr ()"
      "must_equal s ''pending_feedback_behavior'' (JStr ''reconcile_before_next_affected_dispatch'') m2 = Inr ()"
      "must_be s ''continue_unaffected_work'' True m3 = Inr ()"
      "must_be s ''may_reduce_execution_ceiling'' False m4 = Inr ()"
    using assms unfolding check_human_feedback_def bindR_unit_eq_Inr bindR_eq_Inr by blast
  show ?thesis
    using must_equal_at [OF s c(1)] must_equal_at [OF s c(2)] must_be_at [OF s c(3)] must_be_at [OF s c(4)] by simp
qed

lemma validate_invariants_safe:
  assumes "validate_invariants policy = Inr ()"
  shows "policy_safe policy"
proof -
  have c: "check_environments policy = Inr ()" "check_decision_menu policy = Inr ()"
    "check_execution policy = Inr ()" "check_ceiling policy = Inr ()" "check_decisions policy = Inr ()"
    "check_human_feedback policy = Inr ()"
    "jpath policy [''global_stop_behavior''] = JStr ''immediate_alert_plus_stop''"
    using assms by (auto simp: validate_invariants_def)
  show ?thesis
    unfolding policy_safe_def
    using check_environments_safe [OF c(1)] check_execution_safe [OF c(3)] check_ceiling_safe [OF c(4)]
      check_decisions_safe [OF c(5)] check_decision_menu_safe [OF c(2)] check_human_feedback_safe [OF c(6)] c(7)
    by blast
qed

lemma resolve_effective_policy_valid:
  "resolve_effective_policy preset w a c overrides = Inr policy \<Longrightarrow>
   validate_invariants policy = Inr () \<and> is_dict policy"
  by (auto simp: resolve_effective_policy_def Let_def)

lemma validate_default_ceiling:
  "validate_execution_ceiling (JObj DEFAULT_EXECUTION_CEILING) = Inr None"
  by (simp add: validate_ceiling_None default_ceiling_ok)

lemma default_ceiling_not_Nil [simp]: "DEFAULT_EXECUTION_CEILING \<noteq> []"
  by (simp add: DEFAULT_EXECUTION_CEILING_def)

text \<open>Every preset resolves as it stands; \<open>custom\<close> wants overrides.\<close>

lemma base_policy_valid:
  "preset \<in> set UNATTENDED_PRESETS \<Longrightarrow>
   validate_invariants (JObj (base_policy preset workers attempts cycles)) = Inr ()"
  by (auto simp: validate_invariants_def check_environments_def check_decision_menu_def
      check_execution_def check_ceiling_def check_decisions_def check_human_feedback_def
      base_policy_def Let_def sub_dict_def por_def jset_of_def jstrs_def
      validate_default_ceiling DEFAULT_TIMEOUTS_SECONDS_BY_STEP_def
      check_timeout_Inr HARD_MAX_TIMEOUT_SECONDS_def positive_number_def
      DEFAULT_UNKNOWN_STEP_TIMEOUT_SECONDS_def)

lemma resolve_named_preset:
  "preset \<in> {''unattended_conservative'', ''unattended_extended'', ''unattended_maximal''} \<Longrightarrow>
   resolve_effective_policy preset workers attempts cycles JNull
     = Inr (JObj (base_policy preset workers attempts cycles))"
  using base_policy_valid [of preset workers attempts cycles]
  by (auto simp: resolve_effective_policy_def UNATTENDED_PRESETS_def)

section \<open>Properties\<close>



lemma clamp_bounds: "1 \<le> clamp t b \<and> clamp t b \<le> max 1 b \<and> clamp t b \<le> max 1 t"
  by (auto simp: clamp_def)

text \<open>
  The timeout of a step is always between one second and the hard maximum of 7200 seconds,
  whatever the policy document says, and never exceeds the time left on the grant (down to
  one second).
\<close>

theorem step_timeout_bounded:
  assumes "resolve_step_timeout_seconds policy step remaining = Inr t"
  shows "1 \<le> t \<and> t \<le> of_int HARD_MAX_TIMEOUT_SECONDS \<and> (\<forall>r. remaining = Some r \<longrightarrow> t \<le> max 1 r)"
proof -
  obtain x where t: "t = (case remaining of None \<Rightarrow> clamp x (of_int HARD_MAX_TIMEOUT_SECONDS)
      | Some r \<Rightarrow> clamp (clamp x (of_int HARD_MAX_TIMEOUT_SECONDS)) r)"
    using assms by (auto simp: resolve_step_timeout_seconds_def Let_def)
  define c where "c = clamp x (of_int HARD_MAX_TIMEOUT_SECONDS)"
  have c: "1 \<le> c" "c \<le> of_int HARD_MAX_TIMEOUT_SECONDS"
    by (simp_all add: c_def clamp_def HARD_MAX_TIMEOUT_SECONDS_def)
  then have "max 1 c = c" by simp
  then have "1 \<le> clamp c r \<and> clamp c r \<le> max 1 r \<and> clamp c r \<le> of_int HARD_MAX_TIMEOUT_SECONDS" for r
    using clamp_bounds [of c r] c(2) by auto
  with t c show ?thesis by (cases remaining) (auto simp: c_def [symmetric])
qed

theorem step_timeout_bounded_witness:
  "resolve_step_timeout_seconds JNull ''audit'' (Some 30) = Inr 30 \<and>
   (1 :: rat) \<le> 30 \<and> 30 \<le> (of_int HARD_MAX_TIMEOUT_SECONDS :: rat) \<and> 30 \<le> max 1 (30 :: rat)"
proof -
  have r: "resolve_step_timeout_seconds JNull ''audit'' (Some 30) = Inr 30"
    by (simp add: resolve_step_timeout_seconds_def sub_dict_def por_def clamp_def
        HARD_MAX_TIMEOUT_SECONDS_def DEFAULT_UNKNOWN_STEP_TIMEOUT_SECONDS_def)
  from step_timeout_bounded [OF this] r show ?thesis by simp
qed

text \<open>
  An override that sets the default step timeout to null is accepted by the invariant check,
  and the resolved policy then has no timeout for a step outside its table: the lookup raises.
\<close>

theorem null_default_timeout_accepted_then_raises:
  "\<exists>policy. resolve_effective_policy ''unattended_extended'' (JInt 4) (JInt 3) (JInt 2)
              (JObj [(''execution'', JObj [(''default_timeout_seconds'', JNull)])]) = Inr policy \<and>
     (\<forall>step remaining. step \<notin> fst ` set DEFAULT_TIMEOUTS_SECONDS_BY_STEP \<longrightarrow>
        resolve_step_timeout_seconds policy step remaining = Inl TypeError)"
proof -
  define over where "over = [(''execution'', JObj [(''default_timeout_seconds'', JNull)])]"
  define execution where "execution =
    [(''maximum_parallel_workers'', JInt 4), (''maximum_parallel_critical_wu'', JInt 1),
     (''heartbeat_seconds'', JInt 60), (''stalled_after_minutes'', JInt 15),
     (''maximum_attempts_per_step'', JInt 3), (''maximum_remediation_cycles'', JInt 2),
     (''worker_lease_fencing'', JStr ''required''),
     (''timeouts_seconds_by_step'', JObj DEFAULT_TIMEOUTS_SECONDS_BY_STEP),
     (''default_timeout_seconds'', JNull)]"
  define base where "base = base_policy ''unattended_extended'' (JInt 4) (JInt 3) (JInt 2)"
  have over_nonempty: "over \<noteq> []" by (simp add: over_def)
  have merged: "merge_policy base over = AList.update ''execution'' (JObj execution) base"
    by (simp add: base_def over_def execution_def base_policy_def Let_def)
  have "validate_invariants (JObj (AList.update ''execution'' (JObj execution) base)) = Inr ()"
    by (simp add: validate_invariants_def check_environments_def check_decision_menu_def
      check_execution_def check_ceiling_def check_decisions_def check_human_feedback_def
      base_def base_policy_def Let_def sub_dict_def por_def jset_of_def jstrs_def execution_def
      validate_default_ceiling DEFAULT_TIMEOUTS_SECONDS_BY_STEP_def
      check_timeout_Inr HARD_MAX_TIMEOUT_SECONDS_def positive_number_def)
  then have "resolve_effective_policy ''unattended_extended'' (JInt 4) (JInt 3) (JInt 2) (JObj over)
      = Inr (JObj (AList.update ''execution'' (JObj execution) base))"
    by (simp add: resolve_effective_policy_def UNATTENDED_PRESETS_def merged base_def [symmetric] over_nonempty Let_def)
  moreover have "resolve_step_timeout_seconds (JObj (AList.update ''execution'' (JObj execution) base)) step remaining
      = Inl TypeError" if "step \<notin> fst ` set DEFAULT_TIMEOUTS_SECONDS_BY_STEP" for step remaining
    using that
    by (simp add: resolve_step_timeout_seconds_def sub_dict_def por_def execution_def map_of_eq_None_iff [THEN iffD2])
  ultimately show ?thesis by (auto simp: over_def)
qed

theorem null_default_timeout_accepted_then_raises_witness:
  "\<exists>policy. resolve_effective_policy ''unattended_extended'' (JInt 4) (JInt 3) (JInt 2)
              (JObj [(''execution'', JObj [(''default_timeout_seconds'', JNull)])]) = Inr policy \<and>
     resolve_step_timeout_seconds policy ''custom_step'' None = Inl TypeError"
proof -
  have "''custom_step'' \<notin> fst ` set DEFAULT_TIMEOUTS_SECONDS_BY_STEP"
    by (simp add: DEFAULT_TIMEOUTS_SECONDS_BY_STEP_def)
  then show ?thesis using null_default_timeout_accepted_then_raises by blast
qed

end
