(* ===== verification/Envelope.thy ===== *)
theory Envelope
  imports PyText PyValue
begin

text \<open>
  Parsing of command envelopes (\<open>core/commands/envelope.py\<close>): the common fields, then one
  validator per command type, then the human authorization some commands need. A validator
  takes the raw envelope and raises the first error it finds, with its JSON pointer; the
  helpers below are the checks the validators repeat.
\<close>

section \<open>The repeated checks\<close>

definition need :: "bool \<Rightarrow> string \<Rightarrow> unit res" where
  "need b pointer = (if b then Inr () else gateway_error INVALID_SCHEMA pointer)"

definition target_kind :: "json \<Rightarrow> string \<Rightarrow> unit res" where
  "target_kind raw k =
     bindR (jitem raw ''target'') (\<lambda>t.
        bindR (jget t ''kind'') (\<lambda>v.
        need (v = JStr k) ''/target/kind''))"

definition no_expected_revision :: "json \<Rightarrow> unit res" where
  "no_expected_revision raw =
     bindR (jitem raw ''target'') (\<lambda>t.
        bindR (jin (JStr ''expected_revision'') t) (\<lambda>b.
        need (\<not> b) ''/target/expected_revision''))"

definition has_expected_revision :: "json \<Rightarrow> unit res" where
  "has_expected_revision raw =
     bindR (jitem raw ''target'') (\<lambda>t.
        bindR (jin (JStr ''expected_revision'') t) (\<lambda>b.
        need b ''/target/expected_revision''))"

definition payload_object :: "json \<Rightarrow> unit res" where
  "payload_object raw = bindR (jitem raw ''payload'') (\<lambda>p.
 need (is_dict p) ''/payload'')"

text \<open>\<open>payload.get(field)\<close> is truthy, for a payload known to be a dictionary or not.\<close>

definition payload_field :: "json \<Rightarrow> string \<Rightarrow> unit res" where
  "payload_field raw fld =
     bindR (jitem raw ''payload'') (\<lambda>p.
        bindR (jget p fld) (\<lambda>v.
        need (truthy v) (''/payload/'' @ fld)))"

definition payload_fields :: "json \<Rightarrow> string list \<Rightarrow> unit res" where
  "payload_fields raw fields = eachR (payload_field raw) fields"

text \<open>\<open>if not isinstance(payload, dict) or not payload.get(field)\<close>.\<close>

definition object_with :: "json \<Rightarrow> string \<Rightarrow> unit res" where
  "object_with raw fld =
     bindR (jitem raw ''payload'') (\<lambda>p.
        (if \<not> is_dict p then gateway_error INVALID_SCHEMA (''/payload/'' @ fld) else
        bindR (jget p fld) (\<lambda>v.
        need (truthy v) (''/payload/'' @ fld))))"

definition payload_int :: "json \<Rightarrow> string \<Rightarrow> unit res" where
  "payload_int raw fld =
     bindR (jitem raw ''payload'') (\<lambda>p.
        bindR (jget p fld) (\<lambda>v.
        need (is_int v) (''/payload/'' @ fld)))"

text \<open>\<open>payload[field] != target["id"]\<close>.\<close>

definition matches_target_id :: "json \<Rightarrow> string \<Rightarrow> unit res" where
  "matches_target_id raw fld =
     bindR (jitem raw ''payload'') (\<lambda>p.
        bindR (jitem p fld) (\<lambda>v.
        bindR (jitem raw ''target'') (\<lambda>t.
        bindR (jitem t ''id'') (\<lambda>i.
        need (py_eq v i) (''/payload/'' @ fld)))))"

definition has_human_authorization :: "json \<Rightarrow> unit res" where
  "has_human_authorization raw =
     bindR (jin (JStr ''human_authorization'') raw) (\<lambda>b.
 (if b then Inr () else gateway_error HUMAN_AUTH_REQUIRED ''/human_authorization''))"

text \<open>\<open>str(auth.get("granted_by") or "").strip()\<close> starts with \<open>human:\<close>.\<close>

definition granted_by_human :: "json \<Rightarrow> unit res" where
  "granted_by_human auth =
     bindR (jget auth ''granted_by'') (\<lambda>g.
 (if startswith (strip (py_str (por g (JStr [])))) ''human:'' then Inr ()
         else gateway_error HUMAN_AUTH_REQUIRED ''/human_authorization/granted_by''))"

definition human_authorization_of :: "json \<Rightarrow> json res" where
  "human_authorization_of raw =
     bindR (jget raw ''human_authorization'') (\<lambda>a. Inr (por a (JObj [])))"

section \<open>The validators\<close>

definition validate_register_ensemble :: "json \<Rightarrow> unit res" where
  "validate_register_ensemble raw =
     bindR (target_kind raw ''ensemble'') (\<lambda>_.
        bindR (no_expected_revision raw) (\<lambda>_.
        object_with raw ''id''))"

definition validate_register_member :: "json \<Rightarrow> unit res" where
  "validate_register_member raw =
     bindR (target_kind raw ''ensemble'') (\<lambda>_.
        bindR (has_expected_revision raw) (\<lambda>_.
        bindR (payload_object raw) (\<lambda>_.
        payload_fields raw [''id'', ''kind'', ''path''])))"

definition validate_pin_composition :: "json \<Rightarrow> unit res" where
  "validate_pin_composition raw =
     bindR (target_kind raw ''composition'') (\<lambda>_.
        bindR (no_expected_revision raw) (\<lambda>_.
        bindR (object_with raw ''id'') (\<lambda>_.
        payload_field raw ''ensemble_id'')))"

definition validate_set_active_ensemble :: "json \<Rightarrow> unit res" where
  "validate_set_active_ensemble raw =
     bindR (target_kind raw ''ensemble'') (\<lambda>_.
 payload_object raw)"

definition validate_update_project_profile :: "json \<Rightarrow> unit res" where
  "validate_update_project_profile raw =
     bindR (target_kind raw ''project_profile'') (\<lambda>_.
        bindR (jitem raw ''target'') (\<lambda>t.
        bindR (jget t ''expected_revision'') (\<lambda>rev.
        bindR (need (is_int rev) ''/target/expected_revision'') (\<lambda>_.
        bindR (payload_object raw) (\<lambda>_.
        bindR (jitem raw ''payload'') (\<lambda>p.
        bindR (jget p ''changes'') (\<lambda>changes.
        bindR (need (is_dict changes \<and> truthy changes) ''/payload/changes'') (\<lambda>_.
        bindR (payload_field raw ''reason'') (\<lambda>_.
        bindR (human_authorization_of raw) (\<lambda>authorization.
        bindR (jin (JStr ''human_authorization'') raw) (\<lambda>present.
        (if \<not> present then Inr () else
        bindR (jget authorization ''granted_by'') (\<lambda>g.
        need (truthy g) ''/human_authorization/granted_by'')))))))))))))"

definition validate_register_design_artifact :: "json \<Rightarrow> unit res" where
  "validate_register_design_artifact raw =
     bindR (target_kind raw ''design_artifact'') (\<lambda>_.
        bindR (object_with raw ''design_artifact_id'') (\<lambda>_.
        bindR (matches_target_id raw ''design_artifact_id'') (\<lambda>_.
        bindR (jitem raw ''payload'') (\<lambda>p.
        bindR (jget p ''authority_level'') (\<lambda>level.
        (if py_str (por level (JStr ''advisory'')) \<noteq> ''authoritative'' then Inr () else
        bindR (has_human_authorization raw) (\<lambda>_.
        bindR (human_authorization_of raw) (\<lambda>auth.
        bindR (granted_by_human auth) (\<lambda>_.
        bindR (jget auth ''authorization_id'') (\<lambda>i.
        need (truthy i) ''/human_authorization/authorization_id''))))))))))"

definition validate_set_design_artifact_authority :: "json \<Rightarrow> unit res" where
  "validate_set_design_artifact_authority raw =
     bindR (target_kind raw ''design_artifact'') (\<lambda>_.
        bindR (payload_object raw) (\<lambda>_.
        bindR (jitem raw ''payload'') (\<lambda>p.
        bindR (jget p ''design_artifact_id'') (\<lambda>i.
        bindR (jget p ''authority_level'') (\<lambda>level.
        bindR (need (truthy i \<and> truthy level) ''/payload'') (\<lambda>_.
        bindR (has_human_authorization raw) (\<lambda>_.
        bindR (human_authorization_of raw) (\<lambda>auth.
        granted_by_human auth))))))))"

definition validate_create_work_unit :: "json \<Rightarrow> unit res" where
  "validate_create_work_unit raw =
     bindR (target_kind raw ''work_unit'') (\<lambda>_.
        bindR (no_expected_revision raw) (\<lambda>_.
        bindR (object_with raw ''id'') (\<lambda>_.
        matches_target_id raw ''id'')))"

definition validate_transition_work_unit :: "json \<Rightarrow> unit res" where
  "validate_transition_work_unit raw =
     bindR (target_kind raw ''work_unit'') (\<lambda>_.
        bindR (has_expected_revision raw) (\<lambda>_.
        object_with raw ''to_status''))"

definition validate_record_observation :: "json \<Rightarrow> unit res" where
  "validate_record_observation raw =
     bindR (target_kind raw ''observation'') (\<lambda>_.
 object_with raw ''symptom'')"

definition validate_transition_observation :: "json \<Rightarrow> unit res" where
  "validate_transition_observation raw =
     bindR (target_kind raw ''observation'') (\<lambda>_.
        bindR (has_expected_revision raw) (\<lambda>_.
        object_with raw ''to_status''))"

definition validate_register_evidence :: "json \<Rightarrow> unit res" where
  "validate_register_evidence raw =
     bindR (target_kind raw ''evidence'') (\<lambda>_.
 object_with raw ''id'')"

definition validate_create_decision_request :: "json \<Rightarrow> unit res" where
  "validate_create_decision_request raw =
     bindR (target_kind raw ''decision_request'') (\<lambda>_.
        bindR (no_expected_revision raw) (\<lambda>_.
        bindR (object_with raw ''id'') (\<lambda>_.
        bindR (matches_target_id raw ''id'') (\<lambda>_.
        payload_field raw ''question''))))"

definition validate_resolve_decision_request :: "json \<Rightarrow> unit res" where
  "validate_resolve_decision_request raw =
     bindR (target_kind raw ''decision_request'') (\<lambda>_.
        bindR (has_expected_revision raw) (\<lambda>_.
        bindR (object_with raw ''to_status'') (\<lambda>_.
        has_human_authorization raw)))"

definition validate_register_finding :: "json \<Rightarrow> unit res" where
  "validate_register_finding raw =
     bindR (target_kind raw ''finding'') (\<lambda>_.
        bindR (object_with raw ''id'') (\<lambda>_.
        matches_target_id raw ''id''))"

definition validate_record_gate_decision :: "json \<Rightarrow> unit res" where
  "validate_record_gate_decision raw =
     bindR (target_kind raw ''gate_decision'') (\<lambda>_.
        bindR (jitem raw ''payload'') (\<lambda>p.
        (if \<not> is_dict p then gateway_error INVALID_SCHEMA ''/payload/gate'' else
        bindR (jget p ''gate'') (\<lambda>g.
        bindR (jget p ''status'') (\<lambda>st.
        bindR (need (truthy g \<and> truthy st) ''/payload/gate'') (\<lambda>_.
        bindR (payload_field raw ''by'') (\<lambda>_.
        has_human_authorization raw)))))))"

definition validate_record_acceptance :: "json \<Rightarrow> unit res" where
  "validate_record_acceptance raw =
     bindR (target_kind raw ''acceptance'') (\<lambda>_.
        bindR (object_with raw ''id'') (\<lambda>_.
        bindR (matches_target_id raw ''id'') (\<lambda>_.
        has_human_authorization raw)))"

definition validate_record_human_feedback :: "json \<Rightarrow> unit res" where
  "validate_record_human_feedback raw =
     bindR (target_kind raw ''human_feedback'') (\<lambda>_.
        bindR (no_expected_revision raw) (\<lambda>_.
        bindR (jitem raw ''payload'') (\<lambda>p.
        (if \<not> is_dict p then gateway_error INVALID_SCHEMA ''/payload/id'' else
        bindR (jget p ''id'') (\<lambda>i.
        bindR (jitem raw ''target'') (\<lambda>t.
        bindR (jitem t ''id'') (\<lambda>ti.
        bindR (need (py_eq i ti) ''/payload/id'') (\<lambda>_.
        payload_fields raw
          [''work_unit'', ''surface'', ''observed_revision'', ''comment'', ''submitted_by'']))))))))"

definition validate_reconcile_human_feedback :: "json \<Rightarrow> unit res" where
  "validate_reconcile_human_feedback raw =
     bindR (target_kind raw ''human_feedback'') (\<lambda>_.
        bindR (has_expected_revision raw) (\<lambda>_.
        bindR (object_with raw ''to_status'') (\<lambda>_.
        bindR (jitem raw ''payload'') (\<lambda>p.
        bindR (jget p ''reconciliation'') (\<lambda>r.
        need (is_dict r) ''/payload/reconciliation'')))))"

definition validate_register_release_candidate :: "json \<Rightarrow> unit res" where
  "validate_register_release_candidate raw =
     bindR (target_kind raw ''release_candidate'') (\<lambda>_.
        bindR (object_with raw ''id'') (\<lambda>_.
        matches_target_id raw ''id''))"

definition validate_generate_retrospective :: "json \<Rightarrow> unit res" where
  "validate_generate_retrospective raw =
     bindR (target_kind raw ''retrospective'') (\<lambda>_.
        bindR (jitem raw ''payload'') (\<lambda>p.
        (if \<not> is_dict p then gateway_error INVALID_SCHEMA ''/payload/scope'' else
        bindR (jget p ''scope'') (\<lambda>sc.
        bindR (in_strs sc [''work_unit'', ''project'']) (\<lambda>known.
        bindR (need known ''/payload/scope'') (\<lambda>_.
        (if sc \<noteq> JStr ''work_unit'' then Inr () else
        payload_field raw ''work_unit_id'')))))))"

definition validate_review_retrospective :: "json \<Rightarrow> unit res" where
  "validate_review_retrospective raw =
     bindR (target_kind raw ''retrospective'') (\<lambda>_.
        bindR (has_expected_revision raw) (\<lambda>_.
        bindR (jitem raw ''target'') (\<lambda>t.
        bindR (jget t ''expected_revision'') (\<lambda>rev.
        bindR (need (is_int rev \<and> (case num_of rev of None \<Rightarrow> False | Some q \<Rightarrow> \<not> q < 1))
          ''/target/expected_revision'') (\<lambda>_.
        payload_object raw)))))"

definition validate_open_run :: "json \<Rightarrow> unit res" where
  "validate_open_run raw =
     bindR (target_kind raw ''run'') (\<lambda>_.
        bindR (no_expected_revision raw) (\<lambda>_.
        bindR (object_with raw ''id'') (\<lambda>_.
        bindR (matches_target_id raw ''id'') (\<lambda>_.
        bindR (payload_field raw ''work_unit_ids'') (\<lambda>_.
        bindR (jitem raw ''payload'') (\<lambda>p.
        bindR (jget p ''preflight'') (\<lambda>preflight.
        bindR (need (is_dict preflight \<and> truthy preflight) ''/payload/preflight'') (\<lambda>_.
        bindR (jget raw ''run_authorization'') (\<lambda>ra.
        bindR (jget (por ra (JObj [])) ''grant_id'') (\<lambda>g.
        (if truthy g then Inr ()
         else gateway_error HUMAN_AUTH_REQUIRED ''/run_authorization/grant_id'')))))))))))"

definition validate_acquire_worker_lease :: "json \<Rightarrow> unit res" where
  "validate_acquire_worker_lease raw =
     bindR (target_kind raw ''worker_lease'') (\<lambda>_.
        bindR (object_with raw ''id'') (\<lambda>_.
        bindR (matches_target_id raw ''id'') (\<lambda>_.
        payload_fields raw [''run_id'', ''work_unit_id'', ''worker_id''])))"

definition validate_record_execution_attempt :: "json \<Rightarrow> unit res" where
  "validate_record_execution_attempt raw =
     bindR (target_kind raw ''execution_attempt'') (\<lambda>_.
        bindR (payload_object raw) (\<lambda>_.
        bindR (payload_fields raw [''run_id'', ''work_unit_id'', ''worker_lease_id'', ''step'', ''status'']) (\<lambda>_.
        payload_int raw ''epoch'')))"

definition validate_write_checkpoint :: "json \<Rightarrow> unit res" where
  "validate_write_checkpoint raw =
     bindR (target_kind raw ''checkpoint'') (\<lambda>_.
        bindR (payload_object raw) (\<lambda>_.
        bindR (payload_fields raw [''run_id'', ''worker_lease_id'']) (\<lambda>_.
        payload_int raw ''epoch'')))"

definition validate_close_run :: "json \<Rightarrow> unit res" where
  "validate_close_run raw =
     bindR (target_kind raw ''run'') (\<lambda>_.
        bindR (has_expected_revision raw) (\<lambda>_.
        bindR (object_with raw ''status'') (\<lambda>_.
        bindR (jitem raw ''payload'') (\<lambda>p.
        bindR (jitem p ''status'') (\<lambda>st.
        bindR (in_strs st [''stopped'', ''failed'']) (\<lambda>stopping.
        (if \<not> stopping then Inr () else
        payload_field raw ''stop_condition'')))))))"

definition validate_issue_run_authorization_grant :: "json \<Rightarrow> unit res" where
  "validate_issue_run_authorization_grant raw =
     bindR (target_kind raw ''run_authorization_grant'') (\<lambda>_.
        bindR (no_expected_revision raw) (\<lambda>_.
        bindR (object_with raw ''id'') (\<lambda>_.
        bindR (matches_target_id raw ''id'') (\<lambda>_.
        bindR (payload_fields raw [''work_unit_ids'', ''excluded_actions'', ''expires_at'']) (\<lambda>_.
        bindR (jitem raw ''payload'') (\<lambda>p.
        bindR (jget p ''maximum_uses'') (\<lambda>m.
        bindR (need (is_int m \<and> (case num_of m of None \<Rightarrow> False | Some q \<Rightarrow> \<not> q < 1)) ''/payload/maximum_uses'') (\<lambda>_.
        payload_field raw ''issuing_authority''))))))))"

definition validate_revoke_run_authorization_grant :: "json \<Rightarrow> unit res" where
  "validate_revoke_run_authorization_grant raw =
     bindR (target_kind raw ''run_authorization_grant'') (\<lambda>_.
        bindR (has_expected_revision raw) (\<lambda>_.
        object_with raw ''reason''))"

definition validate_register_mission_artifact :: "json \<Rightarrow> unit res" where
  "validate_register_mission_artifact raw =
     bindR (target_kind raw ''mission_artifact'') (\<lambda>_.
        bindR (no_expected_revision raw) (\<lambda>_.
        bindR (object_with raw ''id'') (\<lambda>_.
        bindR (matches_target_id raw ''id'') (\<lambda>_.
        bindR (payload_field raw ''kind'') (\<lambda>_.
        bindR (jitem raw ''payload'') (\<lambda>p.
        bindR (jget p ''content'') (\<lambda>c.
        need (is_dict c) ''/payload/content'')))))))"

definition validate_record_mission_artifact_challenge :: "json \<Rightarrow> unit res" where
  "validate_record_mission_artifact_challenge raw =
     bindR (target_kind raw ''mission_artifact'') (\<lambda>_.
        bindR (has_expected_revision raw) (\<lambda>_.
        object_with raw ''outcome''))"

definition validate_resolve_run_decision :: "json \<Rightarrow> unit res" where
  "validate_resolve_run_decision raw =
     bindR (target_kind raw ''run_decision'') (\<lambda>_.
        bindR (no_expected_revision raw) (\<lambda>_.
        bindR (payload_object raw) (\<lambda>_.
        bindR (payload_fields raw [''run_id'', ''work_unit_id'', ''proposed_entry_id'']) (\<lambda>_.
        bindR (jitem raw ''payload'') (\<lambda>p.
        bindR (jget p ''trigger'') (\<lambda>trigger.
        (if \<not> is_dict trigger then gateway_error INVALID_SCHEMA ''/payload/trigger/type'' else
        bindR (jget trigger ''type'') (\<lambda>ty.
        need (truthy ty) ''/payload/trigger/type''))))))))"

definition validate_tighten_execution_ceiling :: "json \<Rightarrow> unit res" where
  "validate_tighten_execution_ceiling raw =
     bindR (target_kind raw ''run'') (\<lambda>_.
        bindR (has_expected_revision raw) (\<lambda>_.
        bindR (payload_object raw) (\<lambda>_.
        payload_fields raw [''work_unit_id'', ''dimension'', ''new_state'', ''reason''])))"

definition validate_escalate_work_unit_risk :: "json \<Rightarrow> unit res" where
  "validate_escalate_work_unit_risk raw =
     bindR (jitem raw ''target'') (\<lambda>t.
        bindR (jget t ''kind'') (\<lambda>k.
        (if k \<noteq> JStr ''run'' then gateway_error INVALID_SCHEMA ''/target'' else
        bindR (jin (JStr ''expected_revision'') t) (\<lambda>b.
        bindR (need b ''/target'') (\<lambda>_.
        payload_fields raw [''work_unit_id'', ''new_risk_class'', ''reason''])))))"

definition validate_record_integration_merge :: "json \<Rightarrow> unit res" where
  "validate_record_integration_merge raw =
     bindR (target_kind raw ''integration_merge'') (\<lambda>_.
        bindR (payload_object raw) (\<lambda>_.
        bindR (payload_fields raw [''run_id'', ''work_unit_id'', ''worker_lease_id'']) (\<lambda>_.
        bindR (payload_int raw ''epoch'') (\<lambda>_.
        bindR (payload_int raw ''conflict_resolution_attempts'') (\<lambda>_.
        bindR (jitem raw ''payload'') (\<lambda>p.
        bindR (jget p ''revalidation_passed'') (\<lambda>r.
        need (is_bool r) ''/payload/revalidation_passed'')))))))"

text \<open>The heartbeat validator looks at the kind of the target only.\<close>

definition validate_record_worker_heartbeat :: "json \<Rightarrow> unit res" where
  "validate_record_worker_heartbeat raw = target_kind raw ''worker_lease''"

definition validate_release_worker_lease :: "json \<Rightarrow> unit res" where
  "validate_release_worker_lease raw =
     bindR (target_kind raw ''worker_lease'') (\<lambda>_.
        bindR (payload_object raw) (\<lambda>_.
        bindR (payload_fields raw [''run_id'', ''work_unit_id'']) (\<lambda>_.
        bindR (payload_int raw ''epoch'') (\<lambda>_.
        bindR (object_with raw ''run_id'') (\<lambda>_.
        payload_int raw ''epoch'')))))"

definition validate_export_feedback :: "json \<Rightarrow> unit res" where
  "validate_export_feedback raw =
     bindR (target_kind raw ''feedback_export'') (\<lambda>_.
 payload_object raw)"

definition validate_submit_feedback :: "json \<Rightarrow> unit res" where
  "validate_submit_feedback raw =
     bindR (target_kind raw ''feedback_export'') (\<lambda>_.
 payload_object raw)"

section \<open>Parsing\<close>

definition REQUIRED_ENVELOPE_FIELDS :: "string list" where
  "REQUIRED_ENVELOPE_FIELDS =
     [''protocol_version'', ''command_id'', ''idempotency_key'', ''correlation_id'', ''type'',
      ''issued_at'', ''actor'', ''target'', ''payload'']"

definition COMMANDS_REQUIRING_HUMAN_AUTH :: "string list" where
  "COMMANDS_REQUIRING_HUMAN_AUTH =
     [''RecordGateDecision'', ''RecordAcceptance'', ''RecordHumanFeedback'',
      ''ResolveDecisionRequest'', ''IssueRunAuthorizationGrant'', ''RevokeRunAuthorizationGrant'',
      ''UpdateProjectProfile'', ''SetDesignArtifactAuthority'']"

definition IMMUTABLE_UPDATE_COMMANDS :: "string list" where
  "IMMUTABLE_UPDATE_COMMANDS = [''UpdateEvidence'', ''DeleteEvidence'']"

text \<open>The chain of \<open>elif\<close>s, as a table; a type that is not in it has no validator.\<close>

definition envelope_validators :: "(string \<times> (json \<Rightarrow> unit res)) list" where
  "envelope_validators =
     [(''CreateWorkUnit'', validate_create_work_unit),
      (''TransitionWorkUnit'', validate_transition_work_unit),
      (''RecordObservation'', validate_record_observation),
      (''TransitionObservation'', validate_transition_observation),
      (''RegisterEvidence'', validate_register_evidence),
      (''CreateDecisionRequest'', validate_create_decision_request),
      (''ResolveDecisionRequest'', validate_resolve_decision_request),
      (''RegisterFinding'', validate_register_finding),
      (''RecordGateDecision'', validate_record_gate_decision),
      (''RecordAcceptance'', validate_record_acceptance),
      (''RecordHumanFeedback'', validate_record_human_feedback),
      (''ReconcileHumanFeedback'', validate_reconcile_human_feedback),
      (''RegisterReleaseCandidate'', validate_register_release_candidate),
      (''GenerateRetrospective'', validate_generate_retrospective),
      (''ReviewRetrospective'', validate_review_retrospective),
      (''ExportFeedback'', validate_export_feedback),
      (''SubmitFeedback'', validate_submit_feedback),
      (''OpenRun'', validate_open_run),
      (''AcquireWorkerLease'', validate_acquire_worker_lease),
      (''RecordExecutionAttempt'', validate_record_execution_attempt),
      (''WriteCheckpoint'', validate_write_checkpoint),
      (''CloseRun'', validate_close_run),
      (''IssueRunAuthorizationGrant'', validate_issue_run_authorization_grant),
      (''RevokeRunAuthorizationGrant'', validate_revoke_run_authorization_grant),
      (''ResolveRunDecision'', validate_resolve_run_decision),
      (''TightenExecutionCeiling'', validate_tighten_execution_ceiling),
      (''EscalateWorkUnitRisk'', validate_escalate_work_unit_risk),
      (''RecordIntegrationMerge'', validate_record_integration_merge),
      (''RecordWorkerHeartbeat'', validate_record_worker_heartbeat),
      (''ReleaseWorkerLease'', validate_release_worker_lease),
      (''RegisterMissionArtifact'', validate_register_mission_artifact),
      (''RecordMissionArtifactChallenge'', validate_record_mission_artifact_challenge),
      (''UpdateProjectProfile'', validate_update_project_profile),
      (''RegisterDesignArtifact'', validate_register_design_artifact),
      (''SetDesignArtifactAuthority'', validate_set_design_artifact_authority),
      (''RegisterEnsemble'', validate_register_ensemble),
      (''RegisterMember'', validate_register_member),
      (''PinComposition'', validate_pin_composition),
      (''SetActiveEnsemble'', validate_set_active_ensemble)]"

definition check_required_fields :: "json \<Rightarrow> unit res" where
  "check_required_fields raw =
     eachR (\<lambda>fld. bindR (jin (JStr fld) raw) (\<lambda>b. need b (''/'' @ fld))) REQUIRED_ENVELOPE_FIELDS"

definition check_actor :: "json \<Rightarrow> unit res" where
  "check_actor raw =
     bindR (jitem raw ''actor'') (\<lambda>actor.
        (if \<not> is_dict actor then gateway_error INVALID_SCHEMA ''/actor/kind'' else
        bindR (jget actor ''kind'') (\<lambda>ak.
        bindR (need (ak = JStr ''role'') ''/actor/kind'') (\<lambda>_.
        bindR (jget actor ''role_id'') (\<lambda>role.
        need (truthy role) ''/actor/role_id'')))))"

definition check_target :: "json \<Rightarrow> unit res" where
  "check_target raw =
     bindR (jitem raw ''target'') (\<lambda>target.
        (if \<not> is_dict target then gateway_error INVALID_SCHEMA ''/target'' else
        bindR (jget target ''kind'') (\<lambda>tk.
        bindR (jget target ''id'') (\<lambda>ti.
        need (truthy tk \<and> truthy ti) ''/target''))))"

definition check_immutable :: "json \<Rightarrow> unit res" where
  "check_immutable raw =
     bindR (jitem raw ''type'') (\<lambda>ty.
        bindR (in_strs ty IMMUTABLE_UPDATE_COMMANDS) (\<lambda>immutable.
        (if immutable then gateway_error UNSUPPORTED_CONTRACT ''/type'' else Inr ())))"

definition run_validator :: "json \<Rightarrow> unit res" where
  "run_validator raw =
     bindR (jitem raw ''type'') (\<lambda>ty.
        bindR (key_of ty) (\<lambda>key.
        (case key of
           None \<Rightarrow> Inr ()
         | Some s \<Rightarrow> (case map_of envelope_validators s of None \<Rightarrow> Inr () | Some v \<Rightarrow> v raw))))"

definition check_human_authorization :: "json \<Rightarrow> unit res" where
  "check_human_authorization raw =
     bindR (jitem raw ''type'') (\<lambda>ty.
        bindR (in_strs ty COMMANDS_REQUIRING_HUMAN_AUTH) (\<lambda>human.
        bindR (jin (JStr ''human_authorization'') raw) (\<lambda>present.
        (if human \<and> \<not> present then gateway_error HUMAN_AUTH_REQUIRED ''/human_authorization''
         else Inr ()))))"

definition parse_envelope :: "json \<Rightarrow> json res" where
  "parse_envelope raw =
     (if \<not> is_dict raw then gateway_error INVALID_SCHEMA [] else
        bindR (check_required_fields raw) (\<lambda>_.
        bindR (jitem raw ''protocol_version'') (\<lambda>pv.
        bindR (need (pv = JStr ''1.0'') ''/protocol_version'') (\<lambda>_.
        bindR (check_actor raw) (\<lambda>_.
        bindR (check_target raw) (\<lambda>_.
        bindR (check_immutable raw) (\<lambda>_.
        bindR (run_validator raw) (\<lambda>_.
        bindR (check_human_authorization raw) (\<lambda>_.
        Inr raw)))))))))"

section \<open>Lemmas\<close>

lemma need_Inr [simp]: "need b p = Inr u \<longleftrightarrow> b"
  by (simp add: need_def)

lemma jin_key_Inr [res_simps]:
  "jin (JStr k) (JObj ob) = Inr b \<longleftrightarrow> b = ohas ob k"
  by auto

end
