(* ===== verification/LeaseCommands.thy ===== *)
theory LeaseCommands
  imports Workspace Leases AutonomyPolicy Envelope
begin

text \<open>
  The commands of a worker that holds a lease on a Work Unit of a Run
  (\<open>core/commands/handlers/\<close>): \<open>acquire_worker_lease\<close>, \<open>release_worker_lease\<close>,
  \<open>record_worker_heartbeat\<close>, \<open>write_checkpoint\<close> and \<open>record_integration_merge\<close>. A handler
  takes the environment, the store and the parsed envelope, and returns its reply or raises.
\<close>

section \<open>Shared checks\<close>

text \<open>\<open>envelope["target"]["id"]\<close> and \<open>envelope["payload"][k]\<close>.\<close>

definition target_id :: "json \<Rightarrow> json res" where
  "target_id envelope = bindR (jitem envelope ''target'') (\<lambda>t. jitem t ''id'')"

definition payload_item :: "json \<Rightarrow> string \<Rightarrow> json res" where
  "payload_item envelope k = bindR (jitem envelope ''payload'') (\<lambda>p. jitem p k)"

text \<open>\<open>is_unattended_preset(run.get("autonomy_preset")) and run.get("status") != "active"\<close>.\<close>

definition run_inactive :: "json \<Rightarrow> bool res" where
  "run_inactive run_document =
     bindR (jget run_document ''autonomy_preset'') (\<lambda>preset.
        bindR (jget run_document ''status'') (\<lambda>status.
        Inr (is_unattended_preset preset \<and> status \<noteq> JStr ''active'')))"

text \<open>\<open>work_unit_id in (run.get("work_unit_ids") or [])\<close>.\<close>

definition in_run :: "json \<Rightarrow> json \<Rightarrow> bool res" where
  "in_run run_document work_unit_id =
     bindR (jget run_document ''work_unit_ids'') (\<lambda>ids.
 jin work_unit_id (por ids (JList [])))"

text \<open>The lease id and the epoch a worker writes under must be the current ones.\<close>

definition check_fence :: "json \<Rightarrow> json \<Rightarrow> json \<Rightarrow> json \<Rightarrow> unit res" where
  "check_fence run_document work_unit_id epoch lease_id =
     bindR (is_epoch_current run_document work_unit_id epoch) (\<lambda>current.
        (if \<not> current then gateway_error CONFLICT ''/payload/epoch'' else
        bindR (current_lease run_document work_unit_id) (\<lambda>lease.
        (if lease = JNull then gateway_error CONFLICT ''/payload/worker_lease_id'' else
        bindR (jget lease ''lease_id'') (\<lambda>held.
        (if \<not> py_eq held lease_id then gateway_error CONFLICT ''/payload/worker_lease_id'' else
        Inr ()))))))"

definition iso_value :: "json \<Rightarrow> datetime res" where
  "iso_value v = (case v of JStr s \<Rightarrow> parse_iso s | _ \<Rightarrow> Inl TypeError)"

section \<open>AcquireWorkerLease\<close>

definition lease_is_fresh :: "json \<Rightarrow> int \<Rightarrow> bool res" where
  "lease_is_fresh lease t =
     bindR (jget lease ''heartbeat_at'') (\<lambda>heartbeat_at.
        bindR (jget_or lease ''stalled_after_minutes'' (JInt 15)) (\<lambda>stalled_after_minutes.
        (if \<not> truthy heartbeat_at then Inr False else
        bindR (iso_value heartbeat_at) (\<lambda>heartbeat.
        bindR (dt_diff (Datetime True t) heartbeat) (\<lambda>age.
        (case num_of stalled_after_minutes of
           None \<Rightarrow> Inl TypeError
         | Some minutes \<Rightarrow> Inr (of_int age < minutes * 60000000)))))))"

definition is_critical :: "json \<Rightarrow> bool res" where
  "is_critical work_unit =
     bindR (jget work_unit ''risk'') (\<lambda>risk.
        bindR (jget (por risk (JObj [])) ''class'') (\<lambda>c.
        Inr (c = JStr ''critical'')))"

text \<open>The superseded lease document of a reassignment, or the checks a new lease must pass.\<close>

definition supersede_lease :: "env \<Rightarrow> store \<Rightarrow> json \<Rightarrow> json \<Rightarrow> (string \<times> json) res" where
  "supersede_lease env s existing_lease lease_id =
     bindR (jitem existing_lease ''lease_id'') (\<lambda>existing_lease_id.
        bindR (read_yaml s (lease_path existing_lease_id)) (\<lambda>old.
        bindR (lease_is_fresh old (now env)) (\<lambda>fresh.
        (if fresh then gateway_error CONFLICT ''/payload/work_unit_id'' else
        bindR (jset old ''status'' (JStr ''superseded'')) (\<lambda>old1.
        bindR (jset old1 ''superseded_by'' lease_id) (\<lambda>old2.
        Inr (lease_path existing_lease_id, old2)))))))"

definition critical_lease_held :: "store \<Rightarrow> json \<Rightarrow> bool res" where
  "critical_lease_held s run_document =
     bindR (jget run_document ''leases_by_work_unit'') (\<lambda>leases.
        bindR (jiter (por leases (JObj []))) (\<lambda>ids.
        anyR (\<lambda>leased_id. bindR (read_yaml_or (JObj []) s (work_unit_path leased_id)) is_critical) ids))"

definition check_new_lease :: "store \<Rightarrow> json \<Rightarrow> json \<Rightarrow> unit res" where
  "check_new_lease s run_document work_unit_id =
     bindR (jget_or run_document ''maximum_parallel_workers'' (JInt DEFAULT_MAXIMUM_PARALLEL_WORKERS)) (\<lambda>maximum.
        bindR (active_worker_count run_document) (\<lambda>count.
        ifR (py_ge (JInt (int count)) maximum) (gateway_error CONFLICT ''/payload/work_unit_id'') (
        bindR (read_yaml_or (JObj []) s (work_unit_path work_unit_id)) (\<lambda>work_unit.
        bindR (is_critical work_unit) (\<lambda>critical.
        (if \<not> critical then Inr () else
        ifR (critical_lease_held s run_document) (gateway_error CONFLICT ''/payload/work_unit_id'') (
        Inr ())))))))"

definition put_lease :: "json \<Rightarrow> json \<Rightarrow> json \<Rightarrow> json \<Rightarrow> json \<Rightarrow> json res" where
  "put_lease run_document work_unit_id lease_id epoch updated_at =
     bindR (as_obj run_document) (\<lambda>ob.
        (let ob1 = osetdefault ''leases_by_work_unit'' (JObj []) ob in
        bindR ((case work_unit_id of JStr k \<Rightarrow> Inr k | _ \<Rightarrow> Inl TypeError)) (\<lambda>key.
        bindR (jset (oget ob1 ''leases_by_work_unit'') key
                    (JObj [(''lease_id'', lease_id), (''epoch'', epoch)])) (\<lambda>leases.
        Inr (JObj (set_keys [(''leases_by_work_unit'', leases), (''updated_at'', updated_at)] ob1))))))"

definition handle_acquire_worker_lease :: "env \<Rightarrow> store \<Rightarrow> json \<Rightarrow> reply res" where
  "handle_acquire_worker_lease env s envelope =
     bindR (target_id envelope) (\<lambda>lease_id.
        bindR (jitem envelope ''payload'') (\<lambda>payload.
        bindR (payload_item envelope ''run_id'') (\<lambda>run_id.
        bindR (payload_item envelope ''work_unit_id'') (\<lambda>work_unit_id.
        bindR (payload_item envelope ''worker_id'') (\<lambda>worker_id.
        bindR (jget_or payload ''stalled_after_minutes'' (JInt 15)) (\<lambda>stalled_after_minutes.
        bindR (load_or_not_found s (run_path run_id) ''/payload/run_id'') (\<lambda>run_document.
        bindR (in_run run_document work_unit_id) (\<lambda>member.
        (if \<not> member then gateway_error UNAUTHORIZED ''/payload/work_unit_id'' else
        bindR (run_inactive run_document) (\<lambda>inactive.
        (if inactive then gateway_error INVARIANT_VIOLATION ''/payload/run_id'' else
        (if is_file s (lease_path lease_id) then gateway_error ALREADY_EXISTS ''/target/id'' else
        bindR (current_lease run_document work_unit_id) (\<lambda>existing_lease.
        bindR ((if existing_lease \<noteq> JNull
                       then bindR (supersede_lease env s existing_lease lease_id) (\<lambda>w. Inr [w])
                       else bindR (check_new_lease s run_document work_unit_id) (\<lambda>_. Inr []))) (\<lambda>superseded.
        bindR (next_epoch run_document work_unit_id) (\<lambda>epoch.
        (let lease_document = JObj
          [(''id'', lease_id), (''run_id'', run_id), (''work_unit_id'', work_unit_id),
           (''worker_id'', worker_id), (''epoch'', epoch), (''status'', JStr ''active''),
           (''heartbeat_at'', now_iso env), (''stalled_after_minutes'', stalled_after_minutes),
           (''created_at'', now_iso env), (''superseded_by'', JNull)] in
        bindR (validate_against_schema env lease_document ''worker-lease.schema.json'' []) (\<lambda>_.
        bindR (put_lease run_document work_unit_id lease_id epoch (now_iso env)) (\<lambda>run1.
        bindR (jget run1 ''revision'') (\<lambda>revision.
        Inr (reply_of
          [JObj [(''kind'', JStr ''worker_lease''), (''id'', lease_id), (''epoch'', epoch),
                 (''status'', JStr ''active'')],
           JObj [(''kind'', JStr ''run''), (''id'', run_id), (''revision'', revision)]]
          (superseded @ [(lease_path lease_id, lease_document), (run_path run_id, run1)])))))))))))))))))))))"

section \<open>ReleaseWorkerLease\<close>

definition drop_lease :: "json \<Rightarrow> json \<Rightarrow> json \<Rightarrow> json res" where
  "drop_lease run_document work_unit_id updated_at =
     bindR (as_obj run_document) (\<lambda>ob.
        bindR (jitem run_document ''leases_by_work_unit'') (\<lambda>leases.
        bindR (as_obj leases) (\<lambda>lob.
        bindR ((case work_unit_id of JStr k \<Rightarrow> Inr k | _ \<Rightarrow> Inl TypeError)) (\<lambda>key.
        (if \<not> ohas lob key then Inl (KeyError key) else
        Inr (JObj (set_keys [(''leases_by_work_unit'', JObj (opop key lob)), (''updated_at'', updated_at)] ob)))))))"

definition handle_release_worker_lease :: "env \<Rightarrow> store \<Rightarrow> json \<Rightarrow> reply res" where
  "handle_release_worker_lease env s envelope =
     bindR (target_id envelope) (\<lambda>lease_id.
        bindR (jitem envelope ''payload'') (\<lambda>payload.
        bindR (payload_item envelope ''run_id'') (\<lambda>run_id.
        bindR (payload_item envelope ''work_unit_id'') (\<lambda>work_unit_id.
        bindR (payload_item envelope ''epoch'') (\<lambda>epoch.
        bindR (load_or_not_found s (run_path run_id) ''/payload/run_id'') (\<lambda>run_document.
        bindR (current_lease run_document work_unit_id) (\<lambda>current.
        (if current = JNull then gateway_error CONFLICT ''/payload/epoch'' else
        bindR (jget current ''lease_id'') (\<lambda>held.
        (if \<not> py_eq held lease_id then gateway_error CONFLICT ''/payload/epoch'' else
        bindR (jget current ''epoch'') (\<lambda>held_epoch.
        (if \<not> py_eq held_epoch epoch then gateway_error CONFLICT ''/payload/epoch'' else
        bindR (load_or_not_found s (lease_path lease_id) ''/target/id'') (\<lambda>lease_document.
        bindR (jget lease_document ''status'') (\<lambda>status.
        (if status \<noteq> JStr ''active'' then gateway_error CONFLICT ''/target/id'' else
        bindR (jget_or payload ''reason'' (JStr ''workflow step completed'')) (\<lambda>reason.
        bindR (as_obj lease_document) (\<lambda>lob.
        (let lease1 = JObj (set_keys [(''status'', JStr ''released''), (''released_at'', now_iso env),
                                     (''release_reason'', reason)] lob) in
        bindR (validate_against_schema env lease1 ''worker-lease.schema.json'' []) (\<lambda>_.
        bindR (drop_lease run_document work_unit_id (now_iso env)) (\<lambda>run1.
        bindR (jget run1 ''revision'') (\<lambda>revision.
        Inr (reply_of
          [JObj [(''kind'', JStr ''worker_lease''), (''id'', lease_id), (''status'', JStr ''released'')],
           JObj [(''kind'', JStr ''run''), (''id'', run_id), (''revision'', revision)]]
          [(lease_path lease_id, lease1), (run_path run_id, run1)]))))))))))))))))))))))"

section \<open>RecordWorkerHeartbeat\<close>

definition handle_record_worker_heartbeat :: "env \<Rightarrow> store \<Rightarrow> json \<Rightarrow> reply res" where
  "handle_record_worker_heartbeat env s envelope =
     bindR (target_id envelope) (\<lambda>lease_id.
        bindR (jitem envelope ''payload'') (\<lambda>payload.
        bindR (payload_item envelope ''run_id'') (\<lambda>run_id.
        bindR (payload_item envelope ''epoch'') (\<lambda>epoch.
        bindR (load_or_not_found s (run_path run_id) ''/payload/run_id'') (\<lambda>run_document.
        bindR (run_inactive run_document) (\<lambda>inactive.
        (if inactive then gateway_error INVARIANT_VIOLATION [] else
        bindR (load_or_not_found s (lease_path lease_id) ''/target/id'') (\<lambda>lease_document.
        bindR (jitem lease_document ''work_unit_id'') (\<lambda>work_unit_id.
        bindR (current_lease run_document work_unit_id) (\<lambda>current.
        bindR (jget lease_document ''status'') (\<lambda>status.
        (if status \<noteq> JStr ''active'' \<or> current = JNull then gateway_error CONFLICT ''/target/id'' else
        bindR (jget current ''lease_id'') (\<lambda>held.
        (if \<not> py_eq held lease_id then gateway_error CONFLICT ''/target/id'' else
        bindR (is_epoch_current run_document work_unit_id epoch) (\<lambda>fresh.
        (if \<not> fresh then gateway_error CONFLICT ''/payload/epoch'' else
        bindR (jset lease_document ''heartbeat_at'' (now_iso env)) (\<lambda>lease1.
        Inr (reply_of
          [JObj [(''kind'', JStr ''worker_lease''), (''id'', lease_id), (''heartbeat_at'', now_iso env)]]
          [(lease_path lease_id, lease1)]))))))))))))))))))"

section \<open>WriteCheckpoint\<close>

definition handle_write_checkpoint :: "env \<Rightarrow> store \<Rightarrow> json \<Rightarrow> reply res" where
  "handle_write_checkpoint env s envelope =
     bindR (target_id envelope) (\<lambda>work_unit_id.
        bindR (jitem envelope ''payload'') (\<lambda>payload.
        bindR (payload_item envelope ''run_id'') (\<lambda>run_id.
        bindR (payload_item envelope ''epoch'') (\<lambda>epoch.
        bindR (load_or_not_found s (run_path run_id) ''/payload/run_id'') (\<lambda>run_document.
        bindR (run_inactive run_document) (\<lambda>inactive.
        (if inactive then gateway_error INVARIANT_VIOLATION [] else
        bindR (payload_item envelope ''worker_lease_id'') (\<lambda>worker_lease_id.
        bindR (check_fence run_document work_unit_id epoch worker_lease_id) (\<lambda>_.
        bindR (jget payload ''last_commit'') (\<lambda>last_commit.
        bindR (jget payload ''last_validated_workflow_state'') (\<lambda>workflow_state.
        bindR (jget_or payload ''executed_commands'' (JList [])) (\<lambda>executed.
        bindR (jget_or payload ''artifacts'' (JList [])) (\<lambda>artifacts.
        bindR (jget payload ''pending_decision'') (\<lambda>pending.
        bindR (jget payload ''next_step'') (\<lambda>next_step.
        bindR (jget payload ''verification_status'') (\<lambda>verification.
        (let document = JObj
          [(''work_unit_id'', work_unit_id), (''run_id'', run_id),
           (''worker_lease_id'', worker_lease_id), (''epoch'', epoch), (''last_commit'', last_commit),
           (''last_validated_workflow_state'', workflow_state), (''executed_commands'', executed),
           (''artifacts'', artifacts), (''pending_decision'', pending), (''next_step'', next_step),
           (''verification_status'', verification), (''updated_at'', now_iso env)] in
        bindR (validate_against_schema env document ''checkpoint.schema.json'' []) (\<lambda>_.
        Inr (reply_of
          [JObj [(''kind'', JStr ''checkpoint''), (''id'', work_unit_id), (''epoch'', epoch)]]
          [(''runs/checkpoints/'' @ py_str work_unit_id @ ''.yaml'', document)])))))))))))))))))))"

section \<open>RecordIntegrationMerge\<close>

definition merge_path :: "json \<Rightarrow> string" where
  "merge_path i = ''runs/integration-merges/'' @ py_str i @ ''.yaml''"

text \<open>\<open>(run.get("execution_ceilings_by_work_unit") or {}).get(work_unit_id, DEFAULT)\<close>.\<close>

definition ceiling_of :: "json \<Rightarrow> json \<Rightarrow> json res" where
  "ceiling_of run_document work_unit_id =
     bindR (jget run_document ''execution_ceilings_by_work_unit'') (\<lambda>ceilings.
        bindR (as_obj (por ceilings (JObj []))) (\<lambda>ob.
        bindR (key_of work_unit_id) (\<lambda>key.
        Inr (case key of None \<Rightarrow> JObj DEFAULT_EXECUTION_CEILING
           | Some k \<Rightarrow> if ohas ob k then oget ob k else JObj DEFAULT_EXECUTION_CEILING))))"

definition handle_record_integration_merge :: "env \<Rightarrow> store \<Rightarrow> json \<Rightarrow> reply res" where
  "handle_record_integration_merge env s envelope =
     bindR (target_id envelope) (\<lambda>merge_id.
        bindR (jitem envelope ''payload'') (\<lambda>payload.
        bindR (payload_item envelope ''run_id'') (\<lambda>run_id.
        bindR (payload_item envelope ''work_unit_id'') (\<lambda>work_unit_id.
        bindR (payload_item envelope ''epoch'') (\<lambda>epoch.
        bindR (payload_item envelope ''conflict_resolution_attempts'') (\<lambda>attempts.
        bindR (load_or_not_found s (run_path run_id) ''/payload/run_id'') (\<lambda>run_document.
        bindR (run_inactive run_document) (\<lambda>inactive.
        (if inactive then gateway_error INVARIANT_VIOLATION [] else
        bindR (payload_item envelope ''worker_lease_id'') (\<lambda>worker_lease_id.
        bindR (check_fence run_document work_unit_id epoch worker_lease_id) (\<lambda>_.
        (if is_file s (merge_path merge_id) then gateway_error ALREADY_EXISTS ''/target/id'' else
        bindR (ceiling_of run_document work_unit_id) (\<lambda>ceil.
        bindR (jitem ceil ''integration_branch_merge'') (\<lambda>state.
        (if state = JStr ''forbidden'' then gateway_error UNAUTHORIZED ''/payload/work_unit_id'' else
        bindR (jget_or run_document ''maximum_attempts_per_step''
          (JInt DEFAULT_MAXIMUM_ATTEMPTS_PER_STEP)) (\<lambda>maximum_attempts.
        ifR (py_ge attempts maximum_attempts
         ) (gateway_error INVARIANT_VIOLATION ''/payload/conflict_resolution_attempts'') (
        bindR (payload_item envelope ''revalidation_passed'') (\<lambda>passed.
        (if \<not> truthy passed then gateway_error INVARIANT_VIOLATION ''/payload/revalidation_passed'' else
        bindR (jitem run_document ''integration_branch'') (\<lambda>branch.
        bindR (jget_or payload ''revalidation_evidence'' (JList [])) (\<lambda>evidence.
        (let document = JObj
          [(''id'', merge_id), (''run_id'', run_id), (''work_unit_id'', work_unit_id),
           (''worker_lease_id'', worker_lease_id), (''epoch'', epoch), (''integration_branch'', branch),
           (''conflict_resolution_attempts'', attempts), (''revalidation_passed'', JBool True),
           (''revalidation_evidence'', evidence), (''merged_at'', now_iso env)] in
        bindR (validate_against_schema env document ''integration-merge.schema.json'' []) (\<lambda>_.
        Inr (reply_of
          [JObj [(''kind'', JStr ''integration_merge''), (''id'', merge_id), (''work_unit_id'', work_unit_id)]]
          [(merge_path merge_id, document)]))))))))))))))))))))))))"

section \<open>Lemmas\<close>

lemma jitem_jpath: "jitem j k = Inr v \<Longrightarrow> jpath j (k # ks) = jpath v ks"
  by (cases j) (auto simp: oget_def split: option.splits)

lemma jget_jpath: "jget j k = Inr v \<Longrightarrow> jpath j (k # ks) = jpath v ks"
  by (cases j) auto

lemma jitem_twice:
  assumes "bindR (jitem e k) (\<lambda>t. jitem t l) = Inr v"
  shows "v = jpath e [k, l]"
proof -
  obtain t where t: "jitem e k = Inr t" "jitem t l = Inr v" using assms by auto
  show ?thesis
    using jitem_jpath [OF t(1), of "[l]"] jitem_jpath [OF t(2), of "[]"] by simp
qed

lemma target_id_path: "target_id e = Inr v \<Longrightarrow> v = jpath e [''target'', ''id'']"
  unfolding target_id_def by (rule jitem_twice)

lemma payload_item_path: "payload_item e k = Inr v \<Longrightarrow> v = jpath e [''payload'', k]"
  unfolding payload_item_def by (rule jitem_twice)

lemma run_path_not_lease: "CHR ''/'' \<notin> set rid \<Longrightarrow> run_path (JStr rid) \<noteq> lease_path i"
proof
  assume no: "CHR ''/'' \<notin> set rid" and "run_path (JStr rid) = lease_path i"
  then have "rid @ ''.yaml'' = ''leases/'' @ py_str i @ ''.yaml''"
    by (simp add: run_path_def lease_path_def)
  moreover have "CHR ''/'' \<in> set (''leases/'' @ py_str i @ ''.yaml'')" by simp
  ultimately have "CHR ''/'' \<in> set (rid @ ''.yaml'')" by simp
  with no show False by simp
qed

text \<open>What a successful acquisition did: the run it read, the lease it superseded if any, the
  lease and the run it wrote.\<close>

lemma acquire_success:
  assumes "handle_acquire_worker_lease env s e = Inr r"
    and "jpath e [''target'', ''id''] = JStr lid" and "jpath e [''payload'', ''run_id''] = JStr rid"
    and "jpath e [''payload'', ''work_unit_id''] = JStr wu"
  shows "\<exists>run existing sup epoch ldoc run1 minutes. map_of s (run_path (JStr rid)) = Some (Doc run) \<and>
    in_run run (JStr wu) = Inr True \<and> run_inactive run = Inr False \<and>
    \<not> is_file s (lease_path (JStr lid)) \<and> current_lease run (JStr wu) = Inr existing \<and>
    (existing \<noteq> JNull \<longrightarrow> (\<exists>w. supersede_lease env s existing (JStr lid) = Inr w \<and> sup = [w])) \<and>
    (existing = JNull \<longrightarrow> check_new_lease s run (JStr wu) = Inr () \<and> sup = []) \<and>
    next_epoch run (JStr wu) = Inr epoch \<and>
    put_lease run (JStr wu) (JStr lid) epoch (now_iso env) = Inr run1 \<and>
    jget_or (jpath e [''payload'']) ''stalled_after_minutes'' (JInt 15) = Inr minutes \<and>
    ldoc = JObj [(''id'', JStr lid), (''run_id'', JStr rid), (''work_unit_id'', JStr wu),
      (''worker_id'', jpath e [''payload'', ''worker_id'']), (''epoch'', epoch), (''status'', JStr ''active''),
      (''heartbeat_at'', now_iso env), (''stalled_after_minutes'', minutes),
      (''created_at'', now_iso env), (''superseded_by'', JNull)] \<and>
    r_writes r = sup @ [(lease_path (JStr lid), ldoc), (run_path (JStr rid), run1)]"
proof -
  obtain payload run existing sup epoch run1 minutes where h:
    "target_id e = Inr (JStr lid)" "jitem e ''payload'' = Inr payload"
    "payload_item e ''run_id'' = Inr (JStr rid)" "payload_item e ''work_unit_id'' = Inr (JStr wu)"
    "payload_item e ''worker_id'' = Inr (jpath e [''payload'', ''worker_id''])"
    "jget_or payload ''stalled_after_minutes'' (JInt 15) = Inr minutes"
    "map_of s (run_path (JStr rid)) = Some (Doc run)" "in_run run (JStr wu) = Inr True"
    "run_inactive run = Inr False" "\<not> is_file s (lease_path (JStr lid))"
    "current_lease run (JStr wu) = Inr existing"
    "(if existing \<noteq> JNull then bindR (supersede_lease env s existing (JStr lid)) (\<lambda>w. Inr [w])
      else bindR (check_new_lease s run (JStr wu)) (\<lambda>_. Inr [])) = Inr sup"
    "next_epoch run (JStr wu) = Inr epoch"
    "put_lease run (JStr wu) (JStr lid) epoch (now_iso env) = Inr run1"
    "r_writes r = sup @ [(lease_path (JStr lid), JObj [(''id'', JStr lid), (''run_id'', JStr rid),
      (''work_unit_id'', JStr wu), (''worker_id'', jpath e [''payload'', ''worker_id'']), (''epoch'', epoch),
      (''status'', JStr ''active''), (''heartbeat_at'', now_iso env), (''stalled_after_minutes'', minutes),
      (''created_at'', now_iso env), (''superseded_by'', JNull)]), (run_path (JStr rid), run1)]"
    using assms(1) unfolding handle_acquire_worker_lease_def bindR_unit_eq_Inr bindR_eq_Inr Let_def
      if_raise_eq_Inr load_or_not_found_Inr
    apply (elim exE conjE)
    subgoal premises p for lease_id payload run_id work_unit_id worker_id minutes run member inactive existing sup epoch run1 rev
    proof -
      note p
      have ids: "lease_id = JStr lid" "run_id = JStr rid" "work_unit_id = JStr wu"
        "worker_id = jpath e [''payload'', ''worker_id'']"
        using target_id_path payload_item_path assms(2-4)
          \<open>target_id e = Inr lease_id\<close> \<open>payload_item e ''run_id'' = Inr run_id\<close>
          \<open>payload_item e ''work_unit_id'' = Inr work_unit_id\<close> \<open>payload_item e ''worker_id'' = Inr worker_id\<close>
        by metis+
      show ?thesis
        by (rule that [of payload minutes run existing sup epoch run1])
           (use p [unfolded ids] in \<open>simp_all add: reply_of_def, auto\<close>)
    qed
    done
  have "jpath e [''payload''] = payload"
    using jitem_jpath [OF h(2), of "[]"] by simp
  with h show ?thesis by (cases "existing = JNull") auto
qed

text \<open>The run document after a lease was put: its other fields and other leases are unchanged.\<close>

lemma put_lease_shape:
  assumes "put_lease run (JStr wu) l ep t = Inr run1"
  shows "\<exists>ob lob. run = JObj ob \<and> oget (osetdefault ''leases_by_work_unit'' (JObj []) ob) ''leases_by_work_unit'' = JObj lob \<and>
    run1 = JObj (AList.update ''updated_at'' t (AList.update ''leases_by_work_unit''
      (JObj (AList.update wu (JObj [(''lease_id'', l), (''epoch'', ep)]) lob))
      (osetdefault ''leases_by_work_unit'' (JObj []) ob)))"
  using assms by (auto simp: put_lease_def res_simps Let_def)

lemma put_lease_jget:
  assumes "put_lease run (JStr wu) l ep t = Inr run1" and "k \<noteq> ''leases_by_work_unit''" and "k \<noteq> ''updated_at''"
  shows "jget run1 k = jget run k"
  using put_lease_shape [OF assms(1)] assms(2,3) by auto

lemma put_lease_checks:
  assumes "put_lease run (JStr wu) l ep t = Inr run1"
  shows "in_run run1 w = in_run run w" and "run_inactive run1 = run_inactive run"
  using put_lease_jget [OF assms] by (simp_all add: in_run_def run_inactive_def)

lemma put_lease_current:
  assumes "put_lease run (JStr wu) l ep t = Inr run1"
  shows "current_lease run1 (JStr wu) = Inr (JObj [(''lease_id'', l), (''epoch'', ep)])"
    and "w \<noteq> wu \<Longrightarrow> current_lease run1 (JStr w) = current_lease run (JStr w)"
proof -
  obtain ob lob where o: "run = JObj ob"
    "oget (osetdefault ''leases_by_work_unit'' (JObj []) ob) ''leases_by_work_unit'' = JObj lob"
    "run1 = JObj (AList.update ''updated_at'' t (AList.update ''leases_by_work_unit''
      (JObj (AList.update wu (JObj [(''lease_id'', l), (''epoch'', ep)]) lob))
      (osetdefault ''leases_by_work_unit'' (JObj []) ob)))"
    using put_lease_shape [OF assms] by blast
  then show "current_lease run1 (JStr wu) = Inr (JObj [(''lease_id'', l), (''epoch'', ep)])"
    by (simp add: current_lease_def leases_by_work_unit_def por_def)
  have "por (oget ob ''leases_by_work_unit'') (JObj []) = JObj lob"
    using o(2) by (cases "ohas ob ''leases_by_work_unit''") (auto simp: por_def, auto simp: ohas_def oget_def)
  with o show "w \<noteq> wu \<Longrightarrow> current_lease run1 (JStr w) = current_lease run (JStr w)"
    by (simp add: current_lease_def leases_by_work_unit_def por_def)
qed

lemma lease_is_fresh_isoformat:
  assumes "in_range t" and "oget ob ''heartbeat_at'' = JStr (isoformat t)"
    and "jget_or (JObj ob) ''stalled_after_minutes'' (JInt 15) = Inr (JInt m)"
  shows "lease_is_fresh (JObj ob) t2 = Inr (t2 - t < m * 60000000)"
proof -
  have "(of_int (t2 - t) < (of_int m :: rat) * 60000000) = (t2 - t < m * 60000000)"
    by (metis of_int_less_iff of_int_mult of_int_numeral)
  then show ?thesis
    using assms by (simp add: lease_is_fresh_def iso_value_def parse_iso_def fromisoformat_isoformat dt_diff_def)
qed

text \<open>An acquisition of a lease, with the identifiers it names.\<close>

definition acquire_command :: "json \<Rightarrow> string \<Rightarrow> string \<Rightarrow> string \<Rightarrow> json \<Rightarrow> bool" where
  "acquire_command e lid rid wu worker \<longleftrightarrow>
     target_id e = Inr (JStr lid) \<and> payload_item e ''run_id'' = Inr (JStr rid) \<and>
     payload_item e ''work_unit_id'' = Inr (JStr wu) \<and> payload_item e ''worker_id'' = Inr worker"

lemma acquire_command_paths:
  "acquire_command e lid rid wu w \<Longrightarrow> jpath e [''target'', ''id''] = JStr lid \<and>
     jpath e [''payload'', ''run_id''] = JStr rid \<and> jpath e [''payload'', ''work_unit_id''] = JStr wu"
  unfolding acquire_command_def by (metis target_id_path payload_item_path)

lemma acquire_command_payload:
  assumes "acquire_command e lid rid wu w"
  shows "\<exists>ob. jitem e ''payload'' = Inr (JObj ob)"
  using assms by (auto simp: acquire_command_def payload_item_def res_simps)

text \<open>What later commands find in the store once a lease was acquired.\<close>

lemma acquired_store:
  assumes "handle_acquire_worker_lease env s e = Inr r" and "acquire_command e lid rid wu w"
    and "CHR ''/'' \<notin> set rid"
  shows "\<exists>run run1 ep ldoc existing m. map_of s (run_path (JStr rid)) = Some (Doc run) \<and>
    map_of (apply_writes (r_writes r) s) (run_path (JStr rid)) = Some (Doc run1) \<and>
    map_of (apply_writes (r_writes r) s) (lease_path (JStr lid)) = Some (Doc (JObj ldoc)) \<and>
    (\<forall>i. map_of (apply_writes (r_writes r) s) (work_unit_path i) = map_of s (work_unit_path i)) \<and>
    oget ldoc ''heartbeat_at'' = JStr (isoformat (now env)) \<and>
    jget_or (jpath e [''payload'']) ''stalled_after_minutes'' (JInt 15) = Inr m \<and>
    jget_or (JObj ldoc) ''stalled_after_minutes'' (JInt 15) = Inr m \<and>
    in_run run (JStr wu) = Inr True \<and> run_inactive run = Inr False \<and>
    current_lease run (JStr wu) = Inr existing \<and>
    (existing = JNull \<longrightarrow> check_new_lease s run (JStr wu) = Inr ()) \<and>
    next_epoch run (JStr wu) = Inr ep \<and>
    put_lease run (JStr wu) (JStr lid) ep (now_iso env) = Inr run1"
proof -
  have paths: "jpath e [''target'', ''id''] = JStr lid" "jpath e [''payload'', ''run_id''] = JStr rid"
    "jpath e [''payload'', ''work_unit_id''] = JStr wu"
    using acquire_command_paths [OF assms(2)] by simp_all
  obtain run existing sup ep ldoc run1 m where a: "map_of s (run_path (JStr rid)) = Some (Doc run)"
    "in_run run (JStr wu) = Inr True" "run_inactive run = Inr False" "next_epoch run (JStr wu) = Inr ep"
    "current_lease run (JStr wu) = Inr existing"
    "existing \<noteq> JNull \<longrightarrow> (\<exists>w. supersede_lease env s existing (JStr lid) = Inr w \<and> sup = [w])"
    "existing = JNull \<longrightarrow> check_new_lease s run (JStr wu) = Inr () \<and> sup = []"
    "put_lease run (JStr wu) (JStr lid) ep (now_iso env) = Inr run1"
    "r_writes r = sup @ [(lease_path (JStr lid), JObj ldoc), (run_path (JStr rid), run1)]"
    "oget ldoc ''heartbeat_at'' = JStr (isoformat (now env))"
    "jget_or (jpath e [''payload'']) ''stalled_after_minutes'' (JInt 15) = Inr m"
    "jget_or (JObj ldoc) ''stalled_after_minutes'' (JInt 15) = Inr m"
    using acquire_success [OF assms(1) paths] by (elim exE conjE) (auto simp: now_iso_def)
  have "fst ` set sup \<subseteq> range lease_path"
    using a(6,7) by (cases "existing = JNull") (auto simp: supersede_lease_def)
  moreover have "work_unit_path i \<noteq> lease_path k" "work_unit_path i \<noteq> run_path k" for i k
    by (simp_all add: work_unit_path_def lease_path_def run_path_def)
  ultimately have "work_unit_path i \<notin> fst ` set (r_writes r)" for i
    by (auto simp: a(9))
  then have wu: "\<forall>i. map_of (apply_writes (r_writes r) s) (work_unit_path i) = map_of s (work_unit_path i)"
    by (simp add: map_of_apply_writes_other)
  have "lease_path (JStr lid) \<noteq> run_path (JStr rid)" using run_path_not_lease [OF assms(3)] by metis
  then have "map_of (apply_writes (r_writes r) s) (run_path (JStr rid)) = Some (Doc run1)"
    "map_of (apply_writes (r_writes r) s) (lease_path (JStr lid)) = Some (Doc (JObj ldoc))"
    by (simp_all add: apply_writes_def a(9))
  with a wu show ?thesis by blast
qed

section \<open>Properties\<close>

lemma fresh_lease_blocks:
  assumes "map_of s (run_path (JStr rid)) = Some (Doc run)" and "acquire_command e lid2 rid wu w"
    and "current_lease run (JStr wu) = Inr (JObj [(''lease_id'', JStr lid), (''epoch'', ep)])"
    and "map_of s (lease_path (JStr lid)) = Some (Doc (JObj lease))" and "lease_is_fresh (JObj lease) (now env) = Inr True"
  shows "\<exists>err. handle_acquire_worker_lease env s e = Inl err"
    and "in_run run (JStr wu) = Inr True \<Longrightarrow> run_inactive run = Inr False \<Longrightarrow> \<not> is_file s (lease_path (JStr lid2)) \<Longrightarrow>
      handle_acquire_worker_lease env s e = gateway_error CONFLICT ''/payload/work_unit_id''"
proof -
  have held: "supersede_lease env s (JObj [(''lease_id'', JStr lid), (''epoch'', ep)]) (JStr lid2)
      = gateway_error CONFLICT ''/payload/work_unit_id''"
    using assms(4,5) by (simp add: supersede_lease_def read_yaml_def)
  show "\<exists>err. handle_acquire_worker_lease env s e = Inl err"
  proof (cases "handle_acquire_worker_lease env s e")
    case (Inr r)
    have paths: "jpath e [''target'', ''id''] = JStr lid2" "jpath e [''payload'', ''run_id''] = JStr rid"
      "jpath e [''payload'', ''work_unit_id''] = JStr wu" using acquire_command_paths [OF assms(2)] by simp_all
    from acquire_success [OF Inr paths] assms(1,3) held show ?thesis by auto
  qed simp
  obtain p where "jitem e ''payload'' = Inr (JObj p)" using acquire_command_payload [OF assms(2)] by blast
  then show "handle_acquire_worker_lease env s e = gateway_error CONFLICT ''/payload/work_unit_id''"
    if "in_run run (JStr wu) = Inr True" "run_inactive run = Inr False" "\<not> is_file s (lease_path (JStr lid2))"
    using that assms(1-3) held
    by (simp add: handle_acquire_worker_lease_def acquire_command_def load_or_not_found_def is_file_def read_yaml_def)
qed

text \<open>
  C5. A fresh lease is exclusive within its Run. Once a worker acquired the lease of a Work Unit of a Run,
  and in every later state in which the Run still records that lease, every other acquisition for that
  Work Unit in that Run is refused until as many minutes have passed since the last heartbeat as the
  lease gives a silent worker, whoever asks and under whatever lease id; while the Run is active and
  still lists the Work Unit, a new lease id is refused with CONFLICT.
\<close>

theorem fresh_lease_is_exclusive:
  assumes "handle_acquire_worker_lease env s e = Inr r" and "acquire_command e lid rid wu w"
    and "acquire_command e2 lid2 rid wu w2" and "CHR ''/'' \<notin> set rid"
    and "map_of (apply_writes (r_writes r) s) (run_path (JStr rid)) = Some (Doc run1)"
    and "map_of s2 (run_path (JStr rid)) = Some (Doc run2)" and "current_lease run2 (JStr wu) = current_lease run1 (JStr wu)"
    and "map_of s2 (lease_path (JStr lid)) = Some (Doc (JObj lease))" and "oget lease ''heartbeat_at'' = JStr (isoformat beat)"
    and "jget_or (JObj lease) ''stalled_after_minutes'' (JInt 15) = Inr (JInt m)"
    and "in_range beat" and "now env2 - beat < m * 60000000"
  shows "(\<exists>err. handle_acquire_worker_lease env2 s2 e2 = Inl err)
    \<and> (in_run run2 (JStr wu) = Inr True \<and> run_inactive run2 = Inr False \<and> \<not> is_file s2 (lease_path (JStr lid2)) \<longrightarrow>
         handle_acquire_worker_lease env2 s2 e2 = gateway_error CONFLICT ''/payload/work_unit_id'')"
proof -
  obtain run ep where "put_lease run (JStr wu) (JStr lid) ep (now_iso env) = Inr run1"
    using acquired_store [OF assms(1,2,4)] assms(5) by auto
  from put_lease_current(1) [OF this]
  have held: "current_lease run2 (JStr wu) = Inr (JObj [(''lease_id'', JStr lid), (''epoch'', ep)])" using assms(7) by simp
  have "lease_is_fresh (JObj lease) (now env2) = Inr True"
    using lease_is_fresh_isoformat [OF assms(11,9,10)] assms(12) by simp
  from fresh_lease_blocks [OF assms(6,3) held assms(8) this] show ?thesis by blast
qed

text \<open>A run with two Work Units, and the commands on it.\<close>

definition demo_env :: "int \<Rightarrow> env" where
  "demo_env t = \<lparr>now = t, sha = id, schema_error = (\<lambda>_ _. None), uuid = ''u''\<rparr>"

definition demo_run :: json where
  "demo_run = JObj
     [(''id'', JStr ''R''), (''work_unit_ids'', JList [JStr ''A'', JStr ''B'']),
      (''status'', JStr ''active''), (''revision'', JInt 1)]"

definition demo_store :: store where
  "demo_store = [(''runs/R.yaml'', Doc demo_run)]"

definition demo_acquire :: "string \<Rightarrow> string \<Rightarrow> json" where
  "demo_acquire lid wu = JObj
     [(''type'', JStr ''AcquireWorkerLease''),
      (''target'', JObj [(''kind'', JStr ''worker_lease''), (''id'', JStr lid)]),
      (''payload'', JObj [(''id'', JStr lid), (''run_id'', JStr ''R''), (''work_unit_id'', JStr wu),
         (''worker_id'', JStr ''w''), (''stalled_after_minutes'', JInt 15)])]"

lemma demo_acquire_command: "acquire_command (demo_acquire lid wu) lid ''R'' wu (JStr ''w'')"
  by (simp add: acquire_command_def demo_acquire_def target_id_def payload_item_def)

lemmas acquire_eval = handle_acquire_worker_lease_def demo_acquire_def target_id_def payload_item_def
  load_or_not_found_def is_file_def read_yaml_def read_yaml_or_def run_path_def lease_path_def work_unit_path_def
  in_run_def por_def run_inactive_def is_unattended_preset_def UNATTENDED_PRESETS_def
  current_lease_def leases_by_work_unit_def check_new_lease_def DEFAULT_MAXIMUM_PARALLEL_WORKERS_def
  active_worker_count_def is_critical_def next_epoch_def validate_against_schema_def put_lease_def
  supersede_lease_def reply_of_def

text \<open>The store after the acquisition, and a heartbeat one minute later.\<close>

lemma demo_acquire_accepted:
  "\<exists>r run1 lease. handle_acquire_worker_lease (demo_env 0) demo_store (demo_acquire ''L1'' ''A'') = Inr r \<and>
       map_of (apply_writes (r_writes r) demo_store) (run_path (JStr ''R'')) = Some (Doc run1) \<and>
       in_run run1 (JStr ''A'') = Inr True \<and> run_inactive run1 = Inr False \<and>
       map_of (apply_writes (r_writes r) demo_store) (lease_path (JStr ''L1'')) = Some (Doc (JObj lease)) \<and>
       jget_or (JObj lease) ''stalled_after_minutes'' (JInt 15) = Inr (JInt 15) \<and>
       \<not> is_file (apply_writes (r_writes r) demo_store) (lease_path (JStr ''L2''))"
  by (simp add: acquire_eval demo_env_def demo_store_def demo_run_def now_iso_def osetdefault_def Let_def)

definition demo_beat :: "obj \<Rightarrow> json" where
  "demo_beat lease = JObj (AList.update ''heartbeat_at'' (JStr (isoformat 60000000)) lease)"

theorem fresh_lease_is_exclusive_witness:
  "\<exists>r lease. handle_acquire_worker_lease (demo_env 0) demo_store (demo_acquire ''L1'' ''A'') = Inr r \<and>
     handle_acquire_worker_lease (demo_env 900000001)
       (AList.update (lease_path (JStr ''L1'')) (Doc (demo_beat lease)) (apply_writes (r_writes r) demo_store))
       (demo_acquire ''L2'' ''A'') = gateway_error CONFLICT ''/payload/work_unit_id''"
proof -
  obtain r run1 lease where r: "handle_acquire_worker_lease (demo_env 0) demo_store (demo_acquire ''L1'' ''A'') = Inr r"
      "map_of (apply_writes (r_writes r) demo_store) (run_path (JStr ''R'')) = Some (Doc run1)"
      "in_run run1 (JStr ''A'') = Inr True" "run_inactive run1 = Inr False"
      "map_of (apply_writes (r_writes r) demo_store) (lease_path (JStr ''L1'')) = Some (Doc (JObj lease))"
      "jget_or (JObj lease) ''stalled_after_minutes'' (JInt 15) = Inr (JInt 15)"
      "\<not> is_file (apply_writes (r_writes r) demo_store) (lease_path (JStr ''L2''))"
    using demo_acquire_accepted by blast
  let ?s = "AList.update (lease_path (JStr ''L1'')) (Doc (demo_beat lease)) (apply_writes (r_writes r) demo_store)"
  let ?lease = "AList.update ''heartbeat_at'' (JStr (isoformat 60000000)) lease"
  have apart: "lease_path (JStr ''L1'') \<noteq> run_path (JStr ''R'')" "lease_path (JStr ''L1'') \<noteq> lease_path (JStr ''L2'')"
    by (simp_all add: lease_path_def run_path_def)
  have s: "map_of ?s (run_path (JStr ''R'')) = Some (Doc run1)" "\<not> is_file ?s (lease_path (JStr ''L2''))"
      "map_of ?s (lease_path (JStr ''L1'')) = Some (Doc (JObj ?lease))"
    using r(2,7) apart by (simp_all add: is_file_def demo_beat_def)
  have l: "oget ?lease ''heartbeat_at'' = JStr (isoformat 60000000)"
      "jget_or (JObj ?lease) ''stalled_after_minutes'' (JInt 15) = Inr (JInt 15)"
    using r(6) by simp_all
  have t: "in_range 60000000" "now (demo_env 900000001) - 60000000 < 15 * 60000000" "CHR ''/'' \<notin> set ''R''"
    by (simp_all add: in_range_def max_ordinal_def demo_env_def)
  from fresh_lease_is_exclusive [OF r(1) demo_acquire_command demo_acquire_command t(3) r(2) s(1) refl s(3) l t(1,2)] r(1,3,4) s(2)
  show ?thesis by blast
qed

text \<open>What the fence checks: the lease id and the epoch recorded in the run.\<close>

lemma check_fence_Inr:
  assumes "check_fence run w ep l = Inr u"
  shows "\<exists>lob. current_lease run w = Inr (JObj lob) \<and> py_eq (oget lob ''epoch'') ep \<and>
    py_eq (oget lob ''lease_id'') l \<and> is_int (oget lob ''epoch'')"
proof -
  obtain lease held where l: "is_epoch_current run w ep = Inr True" "current_lease run w = Inr lease"
    "lease \<noteq> JNull" "jget lease ''lease_id'' = Inr held" "py_eq held l"
    using assms by (auto simp: check_fence_def)
  obtain c where c: "current_epoch run w = Inr c" "py_eq c ep"
    using l(1) by (auto simp: is_epoch_current_def split: sum.splits pyexc.splits)
  then have "jget lease ''epoch'' = Inr c" "is_int c"
    using l(2,3) by (auto simp: current_epoch_def split: if_splits)
  with l c show ?thesis by (auto simp: jget_eq_Inr)
qed

lemma checkpoint_success:
  assumes "handle_write_checkpoint env s e = Inr r"
  shows "\<exists>run doc. map_of s (run_path (jpath e [''payload'', ''run_id''])) = Some (Doc run) \<and>
    check_fence run (jpath e [''target'', ''id'']) (jpath e [''payload'', ''epoch''])
      (jpath e [''payload'', ''worker_lease_id'']) = Inr () \<and>
    r_writes r = [(''runs/checkpoints/'' @ py_str (jpath e [''target'', ''id'']) @ ''.yaml'', doc)]"
  using assms unfolding handle_write_checkpoint_def bindR_unit_eq_Inr bindR_eq_Inr Let_def
    if_raise_eq_Inr load_or_not_found_Inr
  apply (elim exE conjE)
  apply (drule target_id_path | drule payload_item_path)+
  apply (auto simp: reply_of_def)
  done

lemma merge_success:
  assumes "handle_record_integration_merge env s e = Inr r"
  shows "\<exists>run doc. map_of s (run_path (jpath e [''payload'', ''run_id''])) = Some (Doc run) \<and>
    check_fence run (jpath e [''payload'', ''work_unit_id'']) (jpath e [''payload'', ''epoch''])
      (jpath e [''payload'', ''worker_lease_id'']) = Inr () \<and>
    r_writes r = [(merge_path (jpath e [''target'', ''id'']), doc)] \<and>
    truthy (jpath e [''payload'', ''revalidation_passed''])"
  using assms unfolding handle_record_integration_merge_def bindR_unit_eq_Inr bindR_eq_Inr Let_def
    if_raise_eq_Inr ifR_eq_Inr load_or_not_found_Inr
  apply (elim exE conjE disjE)
   apply simp
  apply (drule target_id_path | drule payload_item_path)+
  apply (auto simp: reply_of_def)
  done

text \<open>
  C6. A superseded worker can no longer write. After a lease was acquired for a Work Unit, a
  checkpoint or an integration merge for that Work Unit under any other lease id is refused,
  whatever epoch it claims, and so writes nothing.
\<close>

theorem superseded_lease_cannot_write:
  assumes "handle_acquire_worker_lease env s e = Inr r" and "acquire_command e lid rid wu w"
    and "CHR ''/'' \<notin> set rid" and "jpath e2 [''payload'', ''run_id''] = JStr rid"
    and "jpath e2 [''payload'', ''worker_lease_id''] = JStr old" and "old \<noteq> lid"
  shows "(jpath e2 [''target'', ''id''] = JStr wu \<longrightarrow>
            (\<exists>err. handle_write_checkpoint env2 (apply_writes (r_writes r) s) e2 = Inl err)) \<and>
         (jpath e2 [''payload'', ''work_unit_id''] = JStr wu \<longrightarrow>
            (\<exists>err. handle_record_integration_merge env2 (apply_writes (r_writes r) s) e2 = Inl err))"
proof -
  let ?s = "apply_writes (r_writes r) s"
  obtain run run1 ep where a: "map_of ?s (run_path (JStr rid)) = Some (Doc run1)"
    "put_lease run (JStr wu) (JStr lid) ep (now_iso env) = Inr run1"
    using acquired_store [OF assms(1-3)] by blast
  have fence: "check_fence run1 (JStr wu) epoch (JStr old) \<noteq> Inr ()" for epoch
    using check_fence_Inr [of run1 "JStr wu" epoch "JStr old"] put_lease_current(1) [OF a(2)] assms(6) by auto
  have "\<exists>err. handle_write_checkpoint env2 ?s e2 = Inl err" if "jpath e2 [''target'', ''id''] = JStr wu"
  proof (cases "handle_write_checkpoint env2 ?s e2")
    case (Inr r2)
    from checkpoint_success [OF this] show ?thesis using a(1) assms(4,5) that fence by auto
  qed simp
  moreover have "\<exists>err. handle_record_integration_merge env2 ?s e2 = Inl err"
    if "jpath e2 [''payload'', ''work_unit_id''] = JStr wu"
  proof (cases "handle_record_integration_merge env2 ?s e2")
    case (Inr r2)
    from merge_success [OF this] show ?thesis using a(1) assms(4,5) that fence by auto
  qed simp
  ultimately show ?thesis by blast
qed

definition demo_checkpoint :: "string \<Rightarrow> json" where
  "demo_checkpoint lid = JObj
     [(''target'', JObj [(''kind'', JStr ''checkpoint''), (''id'', JStr ''A'')]),
      (''payload'', JObj [(''run_id'', JStr ''R''), (''worker_lease_id'', JStr lid), (''epoch'', JInt 1)])]"

theorem superseded_lease_cannot_write_witness:
  "\<exists>r err. handle_acquire_worker_lease (demo_env 0) demo_store (demo_acquire ''L1'' ''A'') = Inr r \<and>
     handle_write_checkpoint (demo_env 1) (apply_writes (r_writes r) demo_store) (demo_checkpoint ''L0'') = Inl err"
proof -
  obtain r where r: "handle_acquire_worker_lease (demo_env 0) demo_store (demo_acquire ''L1'' ''A'') = Inr r"
    using demo_acquire_accepted by blast
  show ?thesis
    using superseded_lease_cannot_write [OF r demo_acquire_command, of "demo_checkpoint ''L0''" "''L0''" "demo_env 1"] r
    by (auto simp: demo_checkpoint_def)
qed

lemma length_alist_update:
  "length (AList.update k v xs) = (if k \<in> fst ` set xs then length xs else Suc (length xs))"
  by (induction xs) auto

lemma ohas_keys: "ohas ob k \<longleftrightarrow> k \<in> fst ` set ob"
  by (simp add: ohas_def) (metis map_of_eq_None_iff not_None_eq)

text \<open>The leases of a run document.\<close>

lemma put_lease_leases:
  assumes "put_lease run (JStr wu) l ep t = Inr run1"
  shows "\<exists>lob. leases_by_work_unit run = Inr (JObj lob) \<and>
    leases_by_work_unit run1 = Inr (JObj (AList.update wu (JObj [(''lease_id'', l), (''epoch'', ep)]) lob))"
proof -
  obtain ob lob where o: "run = JObj ob"
    "oget (osetdefault ''leases_by_work_unit'' (JObj []) ob) ''leases_by_work_unit'' = JObj lob"
    "run1 = JObj (AList.update ''updated_at'' t (AList.update ''leases_by_work_unit''
      (JObj (AList.update wu (JObj [(''lease_id'', l), (''epoch'', ep)]) lob))
      (osetdefault ''leases_by_work_unit'' (JObj []) ob)))"
    using put_lease_shape [OF assms] by blast
  have "por (oget ob ''leases_by_work_unit'') (JObj []) = JObj lob"
    using o(2) by (cases "ohas ob ''leases_by_work_unit''") (auto simp: por_def, auto simp: ohas_def oget_def)
  with o show ?thesis by (simp add: leases_by_work_unit_def por_def)
qed

lemma active_worker_count_leases:
  "leases_by_work_unit run = Inr (JObj lob) \<Longrightarrow> active_worker_count run = Inr (length lob)"
  by (auto simp: leases_by_work_unit_def active_worker_count_def)

lemma current_lease_leases:
  "leases_by_work_unit run = Inr (JObj lob) \<Longrightarrow> current_lease run (JStr w) = Inr (oget lob w)"
  by (simp add: current_lease_def)

text \<open>
  C40. The number of workers of a Run stays within its maximum: if it was at most the maximum, it
  still is after any successful acquisition, a reassignment included.
\<close>

theorem acquire_respects_parallelism:
  assumes "handle_acquire_worker_lease env s e = Inr r" and "acquire_command e lid rid wu w"
    and "CHR ''/'' \<notin> set rid"
    and "map_of s (run_path (JStr rid)) = Some (Doc run)" and "active_worker_count run = Inr n"
    and "jget_or run ''maximum_parallel_workers'' (JInt DEFAULT_MAXIMUM_PARALLEL_WORKERS) = Inr (JInt m)"
    and "int n \<le> m"
  shows "\<exists>run1 n1. map_of (apply_writes (r_writes r) s) (run_path (JStr rid)) = Some (Doc run1) \<and>
     active_worker_count run1 = Inr n1 \<and> int n1 \<le> m"
proof -
  obtain existing ep run1 where a: "current_lease run (JStr wu) = Inr existing"
    "existing = JNull \<longrightarrow> check_new_lease s run (JStr wu) = Inr ()"
    "put_lease run (JStr wu) (JStr lid) ep (now_iso env) = Inr run1"
    "map_of (apply_writes (r_writes r) s) (run_path (JStr rid)) = Some (Doc run1)"
    using acquired_store [OF assms(1-3)] assms(4) by (elim exE conjE) simp
  obtain lob where lob: "leases_by_work_unit run = Inr (JObj lob)"
    "leases_by_work_unit run1 = Inr (JObj (AList.update wu (JObj [(''lease_id'', JStr lid), (''epoch'', ep)]) lob))"
    using put_lease_leases [OF a(3)] by blast
  have n: "n = length lob" using active_worker_count_leases [OF lob(1)] assms(5) by simp
  show ?thesis
  proof (cases "existing = JNull")
    case True
    then have "int n < m" using a(2) assms(5,6) by (auto simp: check_new_lease_def)
    then show ?thesis
      using a(4) active_worker_count_leases [OF lob(2)] n by (auto simp: length_alist_update)
  next
    case False
    then have "ohas lob wu" using a(1) current_lease_leases [OF lob(1)] by (auto simp: ohas_def oget_def split: option.splits)
    then show ?thesis
      using a(4) active_worker_count_leases [OF lob(2)] n assms(7) by (auto simp: length_alist_update ohas_keys)
  qed
qed

theorem acquire_respects_parallelism_witness:
  "\<exists>r run1 n1. handle_acquire_worker_lease (demo_env 0) demo_store (demo_acquire ''L1'' ''A'') = Inr r \<and>
     map_of (apply_writes (r_writes r) demo_store) (run_path (JStr ''R'')) = Some (Doc run1) \<and>
     active_worker_count run1 = Inr n1 \<and> int n1 \<le> 4"
proof -
  obtain r where r: "handle_acquire_worker_lease (demo_env 0) demo_store (demo_acquire ''L1'' ''A'') = Inr r"
    using demo_acquire_accepted by blast
  have "active_worker_count demo_run = Inr 0"
    by (simp add: active_worker_count_def demo_run_def por_def)
  from acquire_respects_parallelism [OF r demo_acquire_command _ _ this, of 4] r show ?thesis
    by (auto simp: demo_store_def run_path_def demo_run_def DEFAULT_MAXIMUM_PARALLEL_WORKERS_def)
qed

text \<open>The leased Work Units of a run that the store says are critical.\<close>

definition critical_leased :: "store \<Rightarrow> json \<Rightarrow> string set" where
  "critical_leased s run = {wu. \<exists>lob. leases_by_work_unit run = Inr (JObj lob) \<and> ohas lob wu \<and>
     bindR (read_yaml_or (JObj []) s (work_unit_path (JStr wu))) is_critical = Inr True}"

lemma anyR_False: "anyR p xs = Inr False \<longleftrightarrow> (\<forall>x \<in> set xs. p x = Inr False)"
  by (induction xs) (auto simp: res_simps)

lemma critical_lease_held_False:
  assumes "critical_lease_held s run = Inr False"
  shows "critical_leased s run = {}"
proof -
  obtain ids l where l: "jget run ''leases_by_work_unit'' = Inr l" "jiter (por l (JObj [])) = Inr ids"
    "\<forall>x \<in> set ids. bindR (read_yaml_or (JObj []) s (work_unit_path x)) is_critical = Inr False"
    using assms by (auto simp: critical_lease_held_def anyR_False)
  have "JStr wu \<in> set ids" if "leases_by_work_unit run = Inr (JObj lob)" "ohas lob wu" for lob wu
    using that l(1,2) by (auto simp: leases_by_work_unit_def ohas_keys)
  with l(3) show ?thesis by (fastforce simp: critical_leased_def)
qed

text \<open>
  At most one critical Work Unit of a Run holds a lease: if that is so before a successful
  acquisition, it is so after it.
\<close>

theorem at_most_one_critical_lease:
  assumes "handle_acquire_worker_lease env s e = Inr r" and "acquire_command e lid rid wu w"
    and "CHR ''/'' \<notin> set rid" and "map_of s (run_path (JStr rid)) = Some (Doc run)"
    and "\<forall>a \<in> critical_leased s run. \<forall>b \<in> critical_leased s run. a = b"
  shows "\<exists>run1. map_of (apply_writes (r_writes r) s) (run_path (JStr rid)) = Some (Doc run1) \<and>
     (\<forall>a \<in> critical_leased (apply_writes (r_writes r) s) run1.
      \<forall>b \<in> critical_leased (apply_writes (r_writes r) s) run1. a = b)"
proof -
  let ?s = "apply_writes (r_writes r) s"
  obtain existing ep run1 where a: "current_lease run (JStr wu) = Inr existing"
    "existing = JNull \<longrightarrow> check_new_lease s run (JStr wu) = Inr ()"
    "put_lease run (JStr wu) (JStr lid) ep (now_iso env) = Inr run1"
    "map_of ?s (run_path (JStr rid)) = Some (Doc run1)"
    "\<forall>i. map_of ?s (work_unit_path i) = map_of s (work_unit_path i)"
    using acquired_store [OF assms(1-3)] assms(4) by (elim exE conjE) simp
  obtain lob where lob: "leases_by_work_unit run = Inr (JObj lob)"
    "leases_by_work_unit run1 = Inr (JObj (AList.update wu (JObj [(''lease_id'', JStr lid), (''epoch'', ep)]) lob))"
    using put_lease_leases [OF a(3)] by blast
  have same: "read_yaml_or (JObj []) ?s (work_unit_path i) = read_yaml_or (JObj []) s (work_unit_path i)" for i
    using a(5) by (simp add: read_yaml_or_def is_file_def read_yaml_def)
  have sub: "critical_leased ?s run1 \<subseteq> insert wu (critical_leased s run)"
    using lob by (auto simp: critical_leased_def same)
  have "critical_leased ?s run1 \<subseteq> critical_leased s run \<or> critical_leased s run = {}"
  proof (cases "existing = JNull")
    case False
    then have "ohas lob wu" using a(1) current_lease_leases [OF lob(1)] by (auto simp: ohas_def oget_def split: option.splits)
    then show ?thesis using lob by (auto simp: critical_leased_def same)
  next
    case True
    then obtain d c where d: "read_yaml_or (JObj []) s (work_unit_path (JStr wu)) = Inr d" "is_critical d = Inr c"
      "c \<longrightarrow> critical_lease_held s run = Inr False"
      using a(2) by (fastforce simp: check_new_lease_def)
    show ?thesis
    proof (cases c)
      case True
      then show ?thesis using d(3) critical_lease_held_False by blast
    next
      case False
      then have "wu \<notin> critical_leased ?s run1" using d(1,2) by (auto simp: critical_leased_def same)
      then show ?thesis using sub by blast
    qed
  qed
  then have "\<forall>x \<in> critical_leased ?s run1. \<forall>y \<in> critical_leased ?s run1. x = y"
    using sub assms(5) by blast
  with a(4) show ?thesis by blast
qed

theorem at_most_one_critical_lease_witness:
  "\<exists>r run1. handle_acquire_worker_lease (demo_env 0) demo_store (demo_acquire ''L1'' ''A'') = Inr r \<and>
     map_of (apply_writes (r_writes r) demo_store) (run_path (JStr ''R'')) = Some (Doc run1) \<and>
     (\<forall>a \<in> critical_leased (apply_writes (r_writes r) demo_store) run1.
      \<forall>b \<in> critical_leased (apply_writes (r_writes r) demo_store) run1. a = b)"
proof -
  obtain r where r: "handle_acquire_worker_lease (demo_env 0) demo_store (demo_acquire ''L1'' ''A'') = Inr r"
    using demo_acquire_accepted by blast
  have "critical_leased demo_store demo_run = {}"
    by (auto simp: critical_leased_def leases_by_work_unit_def demo_run_def por_def)
  with at_most_one_critical_lease [OF r demo_acquire_command, of demo_run] r show ?thesis
    by (auto simp: demo_store_def run_path_def)
qed

end
