(* ===== verification/HumanAuthorization.thy ===== *)
theory HumanAuthorization
  imports LeaseCommands
begin

text \<open>
  Human authorizations (\<open>core/commands/human_authorization.py\<close>): the Core issues a record for one
  command on one target, a command submits it, and consuming it makes it unusable.
\<close>

definition authorization_path :: "json \<Rightarrow> string" where
  "authorization_path i = ''authorizations/'' @ py_str i @ ''.json''"

text \<open>The same value of \<open>get(key)\<close> on both sides.\<close>

definition same_key :: "json \<Rightarrow> json \<Rightarrow> string \<Rightarrow> bool res" where
  "same_key a b key = bindR (jget a key) (\<lambda>x.
                         bindR (jget b key) (\<lambda>y.
                         Inr (py_eq x y)))"

definition same_target :: "json \<Rightarrow> json \<Rightarrow> bool res" where
  "same_target issued submitted =
     (if is_dict issued
        then andR (same_key issued submitted ''kind'') (same_key issued submitted ''id'')
        else Inr False)"

definition load_authorization :: "store \<Rightarrow> string \<Rightarrow> json res" where
  "load_authorization s p =
     (case read_json s p of
        Inl _ \<Rightarrow> gateway_error UNAUTHORIZED ''/human_authorization/authorization_id''
      | Inr j \<Rightarrow> Inr j)"

definition validate_preissued_human_authorization :: "store \<Rightarrow> json \<Rightarrow> json res" where
  "validate_preissued_human_authorization s envelope =
     bindR (jget envelope ''human_authorization'') (\<lambda>submitted.
        (if \<not> is_dict submitted then gateway_error HUMAN_AUTH_REQUIRED ''/human_authorization'' else
        bindR (jget submitted ''authorization_id'') (\<lambda>auth.
        (let auth_id = py_str (por auth (JStr [])) in
        (let p = authorization_path (JStr auth_id) in
        (if auth_id = [] \<or> \<not> is_file s p then           gateway_error HUMAN_AUTH_REQUIRED ''/human_authorization/authorization_id'' else
        bindR (load_authorization s p) (\<lambda>record_doc.
        (if \<not> is_dict record_doc then           gateway_error UNAUTHORIZED ''/human_authorization/authorization_id'' else
        bindR (jget record_doc ''authorization_id'') (\<lambda>recorded_id.
        (if recorded_id \<noteq> JStr auth_id then           gateway_error UNAUTHORIZED ''/human_authorization/authorization_id'' else
        bindR (jget record_doc ''consumed_at'') (\<lambda>consumed_at.
        (if truthy consumed_at then           gateway_error UNAUTHORIZED ''/human_authorization/authorization_id'' else
        bindR (jget record_doc ''actor'') (\<lambda>actor.
        (if \<not> is_dict actor then gateway_error UNAUTHORIZED ''/human_authorization/granted_by'' else
        bindR (jget actor ''kind'') (\<lambda>actor_kind.
        (if actor_kind \<noteq> JStr ''human'' then           gateway_error UNAUTHORIZED ''/human_authorization/granted_by'' else
        bindR (jget record_doc ''granted_by'') (\<lambda>recorded_by.
        bindR (jget actor ''id'') (\<lambda>actor_id.
        (let granted_by = py_str (por (por recorded_by actor_id) (JStr [])) in
        bindR (jget submitted ''granted_by'') (\<lambda>submitted_by.
        (if \<not> startswith granted_by ''human:'' \<or> submitted_by \<noteq> JStr granted_by then           gateway_error UNAUTHORIZED ''/human_authorization/granted_by'' else
        bindR (jget record_doc ''command_type'') (\<lambda>recorded_type.
        bindR (jget envelope ''type'') (\<lambda>command_type.
        (if \<not> py_eq recorded_type command_type then           gateway_error UNAUTHORIZED ''/human_authorization/scope'' else
        bindR (jget record_doc ''target'') (\<lambda>target.
        bindR (jget envelope ''target'') (\<lambda>submitted_target.
        bindR (same_target target (por submitted_target (JObj []))) (\<lambda>same.
        (if \<not> same then gateway_error UNAUTHORIZED ''/human_authorization/scope'' else
        Inr record_doc))))))))))))))))))))))))))))"

text \<open>The write that consuming plans: the record, or what was submitted, marked as consumed.\<close>

definition consume_human_authorization :: "env \<Rightarrow> store \<Rightarrow> json \<Rightarrow> (string \<times> json) res" where
  "consume_human_authorization env s envelope =
     bindR (jitem envelope ''human_authorization'') (\<lambda>auth.
        bindR (jitem auth ''authorization_id'') (\<lambda>auth_id.
        (let p = authorization_path auth_id in
        bindR ((if is_file s p then read_json s p else Inr auth)) (\<lambda>record_doc.
        bindR (jset record_doc ''consumed_at'' (now_iso env)) (\<lambda>consumed.
        Inr (p, consumed))))))"

end
