(* ===== verification/Grant.thy ===== *)
theory Grant
  imports PyTime PyJson
begin

text \<open>
  What bounds an unattended Run: the authorization grant
  (\<open>core/domain/run/authorization_grant.py\<close>), the pre-approved decisions of a decision menu
  (\<open>decision_menu.py\<close>) and the mission artifacts a grant relies on
  (\<open>mission_artifact.py\<close>). \<open>sha256\<close> is a parameter \<open>sha\<close>, given the text it hashes.
\<close>

section \<open>Deadlines\<close>

text \<open>\<open>now >= expiry\<close>; a malformed time counts as expired.\<close>

definition deadline_passed :: "string \<Rightarrow> string \<Rightarrow> bool" where
  "deadline_passed now_iso expires =
     (case (parse_instant now_iso, parse_instant expires) of
        (Some now, Some expiry) \<Rightarrow> dt_micros now \<ge> dt_micros expiry
      | _ \<Rightarrow> True)"

section \<open>Grants\<close>

definition MINIMUM_EXCLUDED_ACTIONS :: "string list" where
  "MINIMUM_EXCLUDED_ACTIONS =
     [''RecordGateDecision'', ''RecordAcceptance'', ''ResolveDecisionRequest'',
      ''ModifyConstitution'', ''ProductionAction'']"

definition is_revoked :: "json \<Rightarrow> bool res" where
  "is_revoked grant = bindR (jget grant ''revoked_at'') (\<lambda>r. Inr (truthy r))"

definition is_expired :: "json \<Rightarrow> string \<Rightarrow> bool res" where
  "is_expired grant now_iso =
     bindR (jget grant ''expires_at'') (\<lambda>expires_at.
       if \<not> truthy expires_at then Inr False
       else Inr (deadline_passed now_iso (py_str expires_at)))"

definition is_exhausted :: "json \<Rightarrow> bool res" where
  "is_exhausted grant =
     bindR (jget_or grant ''uses_count'' (JInt 0)) (\<lambda>u.
     bindR (jget_or grant ''maximum_uses'' (JInt 1)) (\<lambda>m. py_ge u m))"

definition excludes_action :: "json \<Rightarrow> string \<Rightarrow> bool res" where
  "excludes_action grant command_type =
     bindR (jget grant ''excluded_actions'') (\<lambda>x. jin (JStr command_type) (por x (JList [])))"

definition unusable_reason :: "json \<Rightarrow> string \<Rightarrow> string \<Rightarrow> string option res" where
  "unusable_reason grant now_iso command_type =
     ifR (is_revoked grant) (Inr (Some ''revoked''))
    (ifR (is_expired grant now_iso) (Inr (Some ''expired''))
    (ifR (excludes_action grant command_type) (Inr (Some ''excluded_action'')) (Inr None)))"

section \<open>The decision menu\<close>

definition condition_value_matches :: "json \<Rightarrow> json \<Rightarrow> bool" where
  "condition_value_matches expected observed =
     (case expected of
        JList xs \<Rightarrow> if is_list observed then py_eq observed expected else mem_list observed xs
      | _ \<Rightarrow> py_eq observed expected)"

definition trigger_field_mismatch :: "json \<Rightarrow> string \<times> json \<Rightarrow> bool res" where
  "trigger_field_mismatch observed_trigger = (\<lambda>(key, expected).
     if key \<in> {''type'', ''conditions''} then Inr False
     else bindR (jget observed_trigger key) (\<lambda>v. Inr (\<not> py_eq v expected)))"

definition condition_mismatch :: "json \<Rightarrow> string \<times> json \<Rightarrow> bool res" where
  "condition_mismatch observed_trigger = (\<lambda>(key, expected).
     bindR (jget observed_trigger ''conditions'') (\<lambda>observed_conditions.
       case observed_conditions of
         JObj oc \<Rightarrow> if ohas oc key then Inr (\<not> condition_value_matches expected (oget oc key))
                    else bindR (jget observed_trigger key) (\<lambda>v. Inr (\<not> condition_value_matches expected v))
       | _ \<Rightarrow> bindR (jget observed_trigger key) (\<lambda>v. Inr (\<not> condition_value_matches expected v))))"

definition trigger_matches :: "json \<Rightarrow> json \<Rightarrow> bool res" where
  "trigger_matches entry_trigger observed_trigger =
     bindR (jget entry_trigger ''type'') (\<lambda>t.
     bindR (jget observed_trigger ''type'') (\<lambda>u.
       if \<not> py_eq t u then Inr False
       else bindR (as_obj entry_trigger) (\<lambda>fields.
            ifR (anyR (trigger_field_mismatch observed_trigger) fields) (Inr False)
              (bindR (as_obj (por (oget fields ''conditions'') (JObj []))) (\<lambda>conditions.
               ifR (anyR (condition_mismatch observed_trigger) conditions) (Inr False) (Inr True))))))"

definition scope_covers :: "json \<Rightarrow> json \<Rightarrow> bool res" where
  "scope_covers patterns value =
     (if \<not> truthy patterns then Inr True
      else if value = JNull then Inr False
      else bindR (jiter patterns) (anyR (\<lambda>pattern.
             case (value, pattern) of
               (JStr v, JStr p) \<Rightarrow> Inr (fnmatchcase v p)
             | _ \<Rightarrow> Inl TypeError)))"

definition evidence_missing :: "json \<Rightarrow> json \<Rightarrow> bool res" where
  "evidence_missing required evidence =
     bindR (jset_of (por required (JList []))) (\<lambda>req.
     bindR (jset_of (por evidence (JList []))) (\<lambda>ev.
       Inr (\<exists>r \<in> set req. \<not> mem_list r ev)))"

definition validate_entry_usable ::
  "json \<Rightarrow> json \<Rightarrow> json \<Rightarrow> json \<Rightarrow> string \<Rightarrow> json \<Rightarrow> string option res" where
  "validate_entry_usable entry trigger work_unit_id environment now_iso evidence =
     bindR (jget entry ''trigger'') (\<lambda>et.
     bindR (trigger_matches (por et (JObj [])) trigger) (\<lambda>matches.
       if \<not> matches then Inr (Some ''trigger_mismatch'')
       else bindR (jget entry ''scope'') (\<lambda>sc0.
       let sc = por sc0 (JObj []) in
       bindR (jget sc ''work_units'') (\<lambda>work_units.
       bindR (scope_covers work_units work_unit_id) (\<lambda>in_scope.
       if \<not> in_scope then Inr (Some ''out_of_scope_work_unit'')
       else bindR (jget sc ''environments'') (\<lambda>envs.
       bindR (if truthy envs then scope_covers envs environment else Inr True) (\<lambda>in_env.
       if \<not> in_env then Inr (Some ''out_of_scope_environment'')
       else bindR (jget entry ''expires_at'') (\<lambda>expires_at.
       if truthy expires_at \<and> deadline_passed now_iso (py_str expires_at)
         then Inr (Some ''expired'')
       else ifR (is_exhausted entry) (Inr (Some ''maximum_uses_reached''))
         (bindR (jget entry ''required_evidence'') (\<lambda>required.
          ifR (evidence_missing required evidence) (Inr (Some ''missing_required_evidence''))
            (Inr None)))))))))))"

section \<open>Mission artifacts\<close>

definition MISSION_ARTIFACT_KINDS :: "string list" where
  "MISSION_ARTIFACT_KINDS =
     [''mission_contract'', ''acceptance_oracle'', ''decision_menu'', ''tradeoff_policy'',
      ''execution_envelope'', ''delivery_contract'']"

definition REQUIRED_CONTENT_FIELDS_BY_KIND :: "(string \<times> string list) list" where
  "REQUIRED_CONTENT_FIELDS_BY_KIND =
     [(''mission_contract'',
        [''problem'', ''users'', ''observable_objective'', ''scope_include'', ''scope_exclude'',
         ''business_rules'', ''invariants'']),
      (''acceptance_oracle'',
        [''nominal_scenarios'', ''error_scenarios'', ''boundary_scenarios'', ''forbidden_outcomes'']),
      (''decision_menu'', [''entries'', ''anticipated_forks'', ''coverage_percent'']),
      (''tradeoff_policy'', [''priority_order'']),
      (''execution_envelope'',
        [''environments'', ''network'', ''allowed_dependencies'', ''accessible_secrets'',
         ''allowed_paths'', ''allowed_commands'', ''budgets'', ''execution_ceilings_by_work_unit'']),
      (''delivery_contract'',
        [''deliverable_definition'', ''rollback_criteria'', ''required_evidence''])]"

definition CHALLENGE_OUTCOMES :: "string list" where
  "CHALLENGE_OUTCOMES = [''approved'', ''changes_requested'']"

definition missing_content_fields :: "string \<Rightarrow> json \<Rightarrow> string list res" where
  "missing_content_fields kind content =
     filterR (\<lambda>fld. bindR (jin (JStr fld) content) (\<lambda>b. Inr (\<not> b)))
       (case map_of REQUIRED_CONTENT_FIELDS_BY_KIND kind of None \<Rightarrow> [] | Some fs \<Rightarrow> fs)"

definition can_challenge :: "json \<Rightarrow> json \<Rightarrow> bool" where
  "can_challenge authored_by_role challenger_role = (\<not> py_eq authored_by_role challenger_role)"

definition is_approved :: "json \<Rightarrow> bool res" where
  "is_approved artifact = bindR (jget artifact ''challenge_status'') (\<lambda>s. Inr (s = JStr ''approved''))"

definition compute_artifact_hash :: "(string \<Rightarrow> string) \<Rightarrow> json \<Rightarrow> string res" where
  "compute_artifact_hash sha artifact =
     bindR (jitem artifact ''id'') (\<lambda>i.
     bindR (jitem artifact ''kind'') (\<lambda>k.
     bindR (jitem artifact ''revision'') (\<lambda>r.
     bindR (jitem artifact ''content'') (\<lambda>c.
       Inr (''sha256:'' @ sha (canonical_json (JObj
         [(''id'', i), (''kind'', k), (''revision'', r), (''content'', c)])))))))"

text \<open>
  The artifacts sorted by their \<open>id\<close> (a string), each contributing its canonical text.
\<close>

definition artifact_key :: "json \<Rightarrow> (string \<times> json) res" where
  "artifact_key artifact =
     bindR (jitem artifact ''id'') (\<lambda>i. case i of JStr s \<Rightarrow> Inr (s, artifact) | _ \<Rightarrow> Inl TypeError)"

definition compute_mission_contract_hash :: "(string \<Rightarrow> string) \<Rightarrow> json list \<Rightarrow> string res" where
  "compute_mission_contract_hash sha artifacts =
     bindR (mapR artifact_key artifacts) (\<lambda>keyed.
     bindR (mapR (\<lambda>(i, artifact). bindR (jitem artifact ''content'') (\<lambda>c.
              Inr (canonical_json (JObj [(''id'', JStr i), (''content'', c)])))) (sort_key fst keyed))
       (\<lambda>parts. Inr (''sha256:'' @ sha (concat parts))))"

section \<open>Lemmas\<close>

lemma deadline_passed_clock: "deadline_passed now x = utc.passed now x"
  by (simp add: deadline_passed_def utc.passed_def split: option.splits)

lemma deadline_passed_isoformat [simp]:
  "in_range s \<Longrightarrow> in_range t \<Longrightarrow> deadline_passed (isoformat s) (isoformat t) \<longleftrightarrow> t \<le> s"
  by (simp add: deadline_passed_clock utc.passed_show)

lemma is_exhausted_False:
  "is_exhausted (JObj ob) = Inr False \<Longrightarrow> oget ob ''uses_count'' = JInt u \<Longrightarrow>
   oget ob ''maximum_uses'' = JInt m \<Longrightarrow> u < m"
  by (auto simp: is_exhausted_def oget_def split: option.splits)

lemma unusable_reason_None:
  "unusable_reason grant now_iso command_type = Inr None \<longleftrightarrow>
     is_revoked grant = Inr False \<and> is_expired grant now_iso = Inr False \<and>
     excludes_action grant command_type = Inr False"
  by (simp add: unusable_reason_def)

lemma is_expired_iff:
  "in_range now \<Longrightarrow> in_range t \<Longrightarrow> oget ob ''expires_at'' = JStr (isoformat t) \<Longrightarrow>
   is_expired (JObj ob) (isoformat now) = Inr (t \<le> now)"
  by (simp add: is_expired_def)

lemma validate_entry_usable_None:
  assumes "validate_entry_usable (JObj ob) trigger w env now_iso ev = Inr None"
  shows "trigger_matches (por (oget ob ''trigger'') (JObj [])) trigger = Inr True \<and>
         is_exhausted (JObj ob) = Inr False \<and>
         (truthy (oget ob ''expires_at'') \<longrightarrow>
            \<not> deadline_passed now_iso (py_str (oget ob ''expires_at''))) \<and>
         evidence_missing (oget ob ''required_evidence'') ev = Inr False"
  using assms by (auto simp: validate_entry_usable_def Let_def)

section \<open>Properties\<close>

text \<open>
  A grant stops authorizing for good: once the code finds it expired at some time, it
  finds it expired at every later time, and then it refuses every command with a reason;
  an unreadable expiry counts as expired.
\<close>

theorem grant_expiry_is_final:
  assumes "is_expired grant (isoformat now) = Inr True"
    and "in_range now" and "in_range later" and "now \<le> later"
  shows "\<exists>reason. unusable_reason grant (isoformat later) command_type = Inr (Some reason)
           \<and> reason \<in> {''revoked'', ''expired''}"
proof -
  obtain ob where ob: "grant = JObj ob" "truthy (oget ob ''expires_at'')"
      "utc.passed (isoformat now) (py_str (oget ob ''expires_at''))"
    using assms(1) by (auto simp: is_expired_def jget_eq_Inr deadline_passed_clock split: if_splits)
  then have "is_expired grant (isoformat later) = Inr True"
    using utc.passed_stays [OF assms(2-4) ob(3)] by (simp add: is_expired_def deadline_passed_clock)
  with ob(1) show ?thesis
    by (cases "truthy (oget ob ''revoked_at'')") (simp_all add: unusable_reason_def is_revoked_def)
qed

theorem grant_expiry_is_final_witness:
  "\<exists>reason. unusable_reason (JObj [(''expires_at'', JStr (isoformat 5))]) (isoformat 7) ''OpenRun''
     = Inr (Some reason) \<and> reason \<in> {''revoked'', ''expired''}"
  by (rule grant_expiry_is_final [where now = 6])
     (simp_all add: is_expired_iff [where t = 5] in_range_def max_ordinal_def)

end
