(* ===== verification/StatusMachine.thy ===== *)
theory StatusMachine
  imports PyValue "HOL-Library.Product_Lexorder"
begin

text \<open>
  The normative status machines: Work Units (\<open>domain/work_unit/state_machine.py\<close>), Runs
  (\<open>domain/run/state_machine.py\<close>), Decision Requests
  (\<open>domain/decisions/state_machine.py\<close>) and the worker attempt protocol of the
  supervisor (\<open>supervisor/protocol.py\<close>). The first three modules have the same shape, a
  table from a status to its permitted successors; the locale \<open>status_machine\<close> states
  what such a table promises, and each table is an interpretation of it.
\<close>

section \<open>Tables of transitions\<close>

type_synonym table = "(string \<times> string list) list"

definition table_targets :: "table \<Rightarrow> string \<Rightarrow> string list" where
  "table_targets tb s = (case map_of tb s of None \<Rightarrow> [] | Some ts \<Rightarrow> ts)"

text \<open>A status read from a document may be any value; only a string can be a key, and an
  unhashable value raises.\<close>

definition table_allows :: "table \<Rightarrow> json \<Rightarrow> json \<Rightarrow> bool res" where
  "table_allows tb from to =
     (if \<not> hashable from \<or> \<not> hashable to then Inl TypeError
      else Inr (case (from, to) of (JStr s, JStr t) \<Rightarrow> t \<in> set (table_targets tb s) | _ \<Rightarrow> False))"

definition table_permitted :: "table \<Rightarrow> (string \<times> string) list" where
  "table_permitted tb = sort (concat (map (\<lambda>(s, ts). map (Pair s) ts) tb))"

definition table_forbidden :: "table \<Rightarrow> (string \<times> string) list" where
  "table_forbidden tb =
     sort (filter (\<lambda>(s, t). s \<noteq> t \<and> t \<notin> set (table_targets tb s))
             (List.product (map fst tb) (map fst tb)))"

lemma table_allows_str [simp]:
  "table_allows tb (JStr s) (JStr t) = Inr (t \<in> set (table_targets tb s))"
  by (simp add: table_allows_def)

lemma table_allows_True [res_simps]:
  "table_allows tb a b = Inr True \<longleftrightarrow>
     (\<exists>s t. a = JStr s \<and> b = JStr t \<and> t \<in> set (table_targets tb s))"
  by (auto simp: table_allows_def split: json.splits)

text \<open>Moves of a machine, and the statuses a sequence of moves goes through.\<close>

inductive move :: "table \<Rightarrow> string \<Rightarrow> string \<Rightarrow> bool" for tb where
  move: "t \<in> set (table_targets tb s) \<Longrightarrow> move tb s t"

inductive_simps move_iff: "move tb s t"

fun trace :: "table \<Rightarrow> string \<Rightarrow> string list \<Rightarrow> bool" where
  "trace tb s [] = True"
| "trace tb s (t # ts) = (move tb s t \<and> trace tb t ts)"

lemma trace_avoids:
  assumes "trace tb s ts" and "s \<in> S" and "x \<notin> set ts"
    and "\<And>u v. u \<in> S \<Longrightarrow> move tb u v \<Longrightarrow> v \<in> S \<or> v = x"
  shows "set ts \<subseteq> S"
  using assms(1-3)
proof (induction ts arbitrary: s)
  case (Cons t ts)
  then have "move tb s t" "trace tb t ts" "t \<noteq> x" "x \<notin> set ts" by auto
  with Cons.prems(2) assms(4) have "t \<in> S" by blast
  with Cons.IH \<open>trace tb t ts\<close> \<open>x \<notin> set ts\<close> show ?case by simp
qed simp

locale status_machine =
  fixes tb :: table
  assumes distinct_keys: "distinct (map fst tb)"
    and closed: "\<And>s ts t. (s, ts) \<in> set tb \<Longrightarrow> t \<in> set ts \<Longrightarrow> t \<in> fst ` set tb"
    and irreflexive: "\<And>s ts. (s, ts) \<in> set tb \<Longrightarrow> s \<notin> set ts"
begin

lemma targets_iff: "t \<in> set (table_targets tb s) \<longleftrightarrow> (\<exists>ts. (s, ts) \<in> set tb \<and> t \<in> set ts)"
  using distinct_keys by (auto simp: table_targets_def split: option.splits dest: map_of_SomeD)

lemma permitted_iff: "(s, t) \<in> set (table_permitted tb) \<longleftrightarrow> t \<in> set (table_targets tb s)"
  unfolding targets_iff by (auto simp: table_permitted_def)

lemma forbidden_iff:
  "(s, t) \<in> set (table_forbidden tb) \<longleftrightarrow>
     s \<in> fst ` set tb \<and> t \<in> fst ` set tb \<and> s \<noteq> t \<and> t \<notin> set (table_targets tb s)"
  by (auto simp: table_forbidden_def)

lemma no_self_move: "\<not> move tb s s"
  unfolding move_iff targets_iff using irreflexive by blast

lemma permitted_forbidden_partition:
  "set (table_permitted tb) \<union> set (table_forbidden tb) =
     {(s, t). s \<in> fst ` set tb \<and> t \<in> fst ` set tb \<and> s \<noteq> t}"
  "set (table_permitted tb) \<inter> set (table_forbidden tb) = {}"
proof -
  have per: "s \<in> fst ` set tb \<and> t \<in> fst ` set tb \<and> s \<noteq> t"
    if "t \<in> set (table_targets tb s)" for s t
    using that closed irreflexive unfolding targets_iff by force
  have "(s, t) \<in> set (table_permitted tb) \<or> (s, t) \<in> set (table_forbidden tb) \<longleftrightarrow>
      s \<in> fst ` set tb \<and> t \<in> fst ` set tb \<and> s \<noteq> t" for s t
    unfolding forbidden_iff permitted_iff using per [of t s] by blast
  then have iff: "(s, t) \<in> set (table_permitted tb) \<union> set (table_forbidden tb) \<longleftrightarrow>
      s \<in> fst ` set tb \<and> t \<in> fst ` set tb \<and> s \<noteq> t" for s t
    by (simp only: Un_iff)
  show "set (table_permitted tb) \<union> set (table_forbidden tb) =
     {(s, t). s \<in> fst ` set tb \<and> t \<in> fst ` set tb \<and> s \<noteq> t}"
    by (rule set_eqI, rule prod.induct) (simp only: iff mem_Collect_eq case_prod_conv)
  show "set (table_permitted tb) \<inter> set (table_forbidden tb) = {}"
    by (auto simp: forbidden_iff permitted_iff)
qed

lemma trace_closed: "trace tb s ts \<Longrightarrow> set ts \<subseteq> fst ` set tb"
proof (induction ts arbitrary: s)
  case (Cons t ts)
  then have "t \<in> fst ` set tb" using closed by (auto simp: move_iff targets_iff)
  with Cons show ?case by auto
qed simp

end

section \<open>Work Units\<close>

definition wu_NORMATIVE_TRANSITIONS :: table where
  "wu_NORMATIVE_TRANSITIONS =
     [(''draft'', [''ready'', ''cancelled'']),
      (''ready'', [''in_progress'', ''cancelled'']),
      (''in_progress'',
        [''verification'', ''waiting_decision'', ''blocked'', ''ready'', ''cancelled'']),
      (''waiting_decision'', [''in_progress'', ''blocked'', ''cancelled'']),
      (''blocked'', [''in_progress'', ''ready'', ''cancelled'']),
      (''verification'',
        [''review'', ''in_progress'', ''remediation_required'', ''done'', ''cancelled'']),
      (''review'',
        [''audit'', ''verification'', ''remediation_required'', ''done'', ''cancelled'']),
      (''audit'',
        [''human_test'', ''verification'', ''remediation_required'', ''done'', ''cancelled'']),
      (''human_test'',
        [''done'', ''remediation_required'', ''verification'', ''cancelled'']),
      (''remediation_required'', [''in_progress'', ''blocked'', ''verification'', ''cancelled'']),
      (''done'', []),
      (''cancelled'', [])]"

definition wu_allowed_targets :: "string \<Rightarrow> string list" where
  "wu_allowed_targets from_status = table_targets wu_NORMATIVE_TRANSITIONS from_status"

definition wu_is_transition_allowed :: "json \<Rightarrow> json \<Rightarrow> bool res" where
  "wu_is_transition_allowed from_status to_status =
     table_allows wu_NORMATIVE_TRANSITIONS from_status to_status"

definition wu_iter_permitted_transitions :: "(string \<times> string) list" where
  "wu_iter_permitted_transitions = table_permitted wu_NORMATIVE_TRANSITIONS"

definition wu_iter_forbidden_transitions :: "(string \<times> string) list" where
  "wu_iter_forbidden_transitions = table_forbidden wu_NORMATIVE_TRANSITIONS"

lemma wu_targets_simps:
  "wu_allowed_targets ''draft'' = [''ready'', ''cancelled'']"
  "wu_allowed_targets ''ready'' = [''in_progress'', ''cancelled'']"
  "wu_allowed_targets ''done'' = []"
  "wu_allowed_targets ''cancelled'' = []"
  by (simp_all add: wu_allowed_targets_def table_targets_def wu_NORMATIVE_TRANSITIONS_def)

interpretation wu: status_machine wu_NORMATIVE_TRANSITIONS
  by unfold_locales (auto simp: wu_NORMATIVE_TRANSITIONS_def)

section \<open>Runs\<close>

definition run_NORMATIVE_TRANSITIONS :: table where
  "run_NORMATIVE_TRANSITIONS =
     [(''pending'', [''active'', ''stopped'']),
      (''active'', [''completed'', ''stopped'', ''failed'']),
      (''completed'', []),
      (''stopped'', []),
      (''failed'', [])]"

definition run_allowed_targets :: "string \<Rightarrow> string list" where
  "run_allowed_targets from_status = table_targets run_NORMATIVE_TRANSITIONS from_status"

definition run_is_transition_allowed :: "json \<Rightarrow> json \<Rightarrow> bool res" where
  "run_is_transition_allowed from_status to_status =
     table_allows run_NORMATIVE_TRANSITIONS from_status to_status"

definition run_iter_permitted_transitions :: "(string \<times> string) list" where
  "run_iter_permitted_transitions = table_permitted run_NORMATIVE_TRANSITIONS"

definition run_iter_forbidden_transitions :: "(string \<times> string) list" where
  "run_iter_forbidden_transitions = table_forbidden run_NORMATIVE_TRANSITIONS"

interpretation rn: status_machine run_NORMATIVE_TRANSITIONS
  by unfold_locales (auto simp: run_NORMATIVE_TRANSITIONS_def)

section \<open>Decision Requests\<close>

definition decision_NORMATIVE_TRANSITIONS :: table where
  "decision_NORMATIVE_TRANSITIONS =
     [(''pending_human'', [''decided'', ''cancelled'']),
      (''decided'', []),
      (''cancelled'', [])]"

definition decision_is_transition_allowed :: "json \<Rightarrow> json \<Rightarrow> bool res" where
  "decision_is_transition_allowed from_status to_status =
     table_allows decision_NORMATIVE_TRANSITIONS from_status to_status"

definition decision_iter_permitted_transitions :: "(string \<times> string) list" where
  "decision_iter_permitted_transitions = table_permitted decision_NORMATIVE_TRANSITIONS"

definition decision_iter_forbidden_transitions :: "(string \<times> string) list" where
  "decision_iter_forbidden_transitions = table_forbidden decision_NORMATIVE_TRANSITIONS"

interpretation dn: status_machine decision_NORMATIVE_TRANSITIONS
  by unfold_locales (auto simp: decision_NORMATIVE_TRANSITIONS_def)

section \<open>Worker attempts\<close>

datatype WorkerAttemptState =
    QUEUED | LEASED | STARTING | RUNNING | SUCCEEDED | FAILED | TIMED_OUT | CANCELLED | ORPHANED

definition TERMINAL_STATES :: "WorkerAttemptState list" where
  "TERMINAL_STATES = [SUCCEEDED, FAILED, TIMED_OUT, CANCELLED, ORPHANED]"

definition ACTIVE_STATES :: "WorkerAttemptState list" where
  "ACTIVE_STATES = [QUEUED, LEASED, STARTING, RUNNING]"

definition attempt_is_terminal :: "WorkerAttemptState \<Rightarrow> bool" where
  "attempt_is_terminal st = (st \<in> set TERMINAL_STATES)"

fun attempt_targets :: "WorkerAttemptState \<Rightarrow> WorkerAttemptState list" where
  "attempt_targets QUEUED = [LEASED, CANCELLED]"
| "attempt_targets LEASED = [STARTING, CANCELLED, ORPHANED]"
| "attempt_targets STARTING = [RUNNING, FAILED, TIMED_OUT, CANCELLED, ORPHANED]"
| "attempt_targets RUNNING = [SUCCEEDED, FAILED, TIMED_OUT, CANCELLED, ORPHANED]"
| "attempt_targets _ = []"

definition attempt_can_transition :: "WorkerAttemptState \<Rightarrow> WorkerAttemptState \<Rightarrow> bool" where
  "attempt_can_transition current nxt =
     (if current = nxt then True else nxt \<in> set (attempt_targets current))"

lemma attempt_terminal_iff_stuck: "attempt_is_terminal st \<longleftrightarrow> attempt_targets st = []"
  by (cases st) (simp_all add: attempt_is_terminal_def TERMINAL_STATES_def)

lemma attempt_states_partition:
  "set TERMINAL_STATES \<union> set ACTIVE_STATES = UNIV" "set TERMINAL_STATES \<inter> set ACTIVE_STATES = {}"
proof -
  have "st \<in> set TERMINAL_STATES \<union> set ACTIVE_STATES" for st
    by (cases st) (simp_all add: TERMINAL_STATES_def ACTIVE_STATES_def)
  then show "set TERMINAL_STATES \<union> set ACTIVE_STATES = UNIV" by blast
  show "set TERMINAL_STATES \<inter> set ACTIVE_STATES = {}"
    by (simp add: TERMINAL_STATES_def ACTIVE_STATES_def)
qed

section \<open>What the machines guarantee\<close>

text \<open>Statuses a Work Unit can have before it has been verified.\<close>

definition wu_pre_verification :: "string list" where
  "wu_pre_verification =
     [''draft'', ''ready'', ''in_progress'', ''waiting_decision'', ''blocked'', ''cancelled'']"

lemma wu_pre_verification_closed:
  "s \<in> set wu_pre_verification \<Longrightarrow> move wu_NORMATIVE_TRANSITIONS s t \<Longrightarrow>
   t \<in> set wu_pre_verification \<or> t = ''verification''"
  by (auto simp: move_iff wu_pre_verification_def wu_NORMATIVE_TRANSITIONS_def table_targets_def)

text \<open>
  A Work Unit that starts as a draft and ends as done went through verification: no
  sequence of permitted transitions reaches \<open>done\<close> around it.
\<close>

theorem wu_done_only_after_verification:
  assumes "trace wu_NORMATIVE_TRANSITIONS ''draft'' ts" and "''done'' \<in> set ts"
  shows "''verification'' \<in> set ts"
proof (rule ccontr)
  assume nv: "''verification'' \<notin> set ts"
  have "set ts \<subseteq> set wu_pre_verification"
    by (rule trace_avoids [OF assms(1) _ nv wu_pre_verification_closed])
       (simp_all add: wu_pre_verification_def)
  with assms(2) show False by (auto simp: wu_pre_verification_def)
qed

theorem wu_done_only_after_verification_witness:
  "''verification'' \<in> set [''ready'', ''in_progress'', ''verification'', ''done'']"
proof -
  have "trace wu_NORMATIVE_TRANSITIONS ''draft''
          [''ready'', ''in_progress'', ''verification'', ''done'']"
    by (simp add: move_iff table_targets_def wu_NORMATIVE_TRANSITIONS_def)
  from wu_done_only_after_verification [OF this] show ?thesis by simp
qed

text \<open>
  For each of the three tables the listed permitted and forbidden transitions are
  disjoint and together are exactly the ordered pairs of distinct statuses, and a
  transition is accepted exactly when it is listed as permitted.
\<close>

theorem transition_tables_partition:
  "set wu_iter_permitted_transitions \<union> set wu_iter_forbidden_transitions =
     {(s, t). s \<in> fst ` set wu_NORMATIVE_TRANSITIONS \<and> t \<in> fst ` set wu_NORMATIVE_TRANSITIONS \<and> s \<noteq> t}
   \<and> set wu_iter_permitted_transitions \<inter> set wu_iter_forbidden_transitions = {}
   \<and> set run_iter_permitted_transitions \<union> set run_iter_forbidden_transitions =
     {(s, t). s \<in> fst ` set run_NORMATIVE_TRANSITIONS \<and> t \<in> fst ` set run_NORMATIVE_TRANSITIONS \<and> s \<noteq> t}
   \<and> set run_iter_permitted_transitions \<inter> set run_iter_forbidden_transitions = {}
   \<and> set decision_iter_permitted_transitions \<union> set decision_iter_forbidden_transitions =
     {(s, t). s \<in> fst ` set decision_NORMATIVE_TRANSITIONS
        \<and> t \<in> fst ` set decision_NORMATIVE_TRANSITIONS \<and> s \<noteq> t}
   \<and> set decision_iter_permitted_transitions \<inter> set decision_iter_forbidden_transitions = {}
   \<and> (\<forall>s t. wu_is_transition_allowed (JStr s) (JStr t) = Inr True \<longleftrightarrow>
             (s, t) \<in> set wu_iter_permitted_transitions)
   \<and> (\<forall>s t. run_is_transition_allowed (JStr s) (JStr t) = Inr True \<longleftrightarrow>
             (s, t) \<in> set run_iter_permitted_transitions)
   \<and> (\<forall>s t. decision_is_transition_allowed (JStr s) (JStr t) = Inr True \<longleftrightarrow>
             (s, t) \<in> set decision_iter_permitted_transitions)"
  unfolding wu_iter_permitted_transitions_def wu_iter_forbidden_transitions_def
    run_iter_permitted_transitions_def run_iter_forbidden_transitions_def
    decision_iter_permitted_transitions_def decision_iter_forbidden_transitions_def
    wu_is_transition_allowed_def run_is_transition_allowed_def decision_is_transition_allowed_def
  by (intro conjI allI wu.permitted_forbidden_partition rn.permitted_forbidden_partition
        dn.permitted_forbidden_partition)
     (simp_all add: wu.permitted_iff rn.permitted_iff dn.permitted_iff)

end
