(* ===== verification/RunCommands.thy ===== *)
theory RunCommands
  imports HumanAuthorization Grant StatusMachine
begin

text \<open>
  The commands that steer a Run and its Work Units (\<open>core/commands/handlers/\<close>):
  \<open>transition_work_unit\<close> with the Definition of Done (\<open>core/domain/work_unit/\<close>),
  \<open>tighten_execution_ceiling\<close>, \<open>escalate_work_unit_risk\<close>, \<open>revoke_run_authorization_grant\<close>
  and \<open>resolve_run_decision\<close>. The visual conformance check of the design authority is a
  parameter of the Definition of Done.
\<close>

section \<open>Shared steps\<close>

text \<open>\<open>document.get("revision", 1)\<close>, which must be the revision the command expects.\<close>

definition check_revision :: "json \<Rightarrow> json \<Rightarrow> json res" where
  "check_revision document expected_revision =
     bindR (jget_or document ''revision'' (JInt 1)) (\<lambda>current.
        (if \<not> py_eq expected_revision current then gateway_error CONFLICT ''/target/expected_revision'' else
        Inr current))"

definition expected_revision :: "json \<Rightarrow> json res" where
  "expected_revision envelope = bindR (jitem envelope ''target'') (\<lambda>t. jitem t ''expected_revision'')"

text \<open>Three assignments to a document.\<close>

definition jset3 :: "json \<Rightarrow> string \<times> json \<Rightarrow> string \<times> json \<Rightarrow> string \<times> json \<Rightarrow> json res" where
  "jset3 j a b c =
     bindR (jset j (fst a) (snd a)) (\<lambda>j1.
        bindR (jset j1 (fst b) (snd b)) (\<lambda>j2.
        jset j2 (fst c) (snd c)))"

text \<open>The lease document of a Work Unit that has to wait, released with a reason.\<close>

definition release_lease :: "env \<Rightarrow> store \<Rightarrow> json \<Rightarrow> string \<Rightarrow> (string \<times> json) list res" where
  "release_lease env s lease_ref reason =
     bindR (jitem lease_ref ''lease_id'') (\<lambda>lease_id.
        (if \<not> is_file s (lease_path lease_id) then Inr [] else
        bindR (read_yaml s (lease_path lease_id)) (\<lambda>lease.
        bindR (jset3 lease (''status'', JStr ''released'') (''released_at'', now_iso env)
                    (''release_reason'', JStr reason)) (\<lambda>lease1.
        Inr [(lease_path lease_id, lease1)]))))"

section \<open>Definition of Done\<close>

definition current_revision :: "json \<Rightarrow> json res" where
  "current_revision document =
     bindR (jget_or document ''revision'' (JInt 1)) (\<lambda>revision.
        (if \<not> is_int revision then Inl (ValueError ''revision must be integer'') else
        Inr revision))"

text \<open>\<open>document.get("outcomes", {}).get(key)\<close>.\<close>

definition outcome :: "json \<Rightarrow> string \<Rightarrow> json res" where
  "outcome document key =
     bindR (jget_or document ''outcomes'' (JObj [])) (\<lambda>outcomes.
 jget outcomes key)"

text \<open>One prerequisite: missing when it is required and its outcome is not an accepted one.\<close>

definition missing_outcome ::
  "json \<Rightarrow> json \<Rightarrow> string \<Rightarrow> string \<Rightarrow> string list \<Rightarrow> string \<Rightarrow> string list res" where
  "missing_outcome document req flag key accepted label =
     bindR (jget req flag) (\<lambda>required.
        (if \<not> truthy required then Inr [] else
        bindR (outcome document key) (\<lambda>v.
        Inr (if \<exists>a \<in> set accepted. v = JStr a then [] else [label]))))"

definition design_mode :: "json \<Rightarrow> string res" where
  "design_mode document =
     bindR (jget document ''design_binding'') (\<lambda>b.
        (let binding = por b (JObj []) in
        bindR (jget binding ''design_mode'') (\<lambda>mode.
        bindR ((if truthy mode then Inr JNull else jget binding ''mode'')) (\<lambda>fallback.
        Inr (py_str (por (por mode fallback) (JStr [])))))))"

definition missing_done_prerequisites :: "(json \<Rightarrow> json res) option \<Rightarrow> json \<Rightarrow> string list res" where
  "missing_done_prerequisites conformance document =
     bindR (jget_or document ''required_verification'' (JObj [])) (\<lambda>req.
        bindR (jget document ''evidence'') (\<lambda>evidence.
        bindR (missing_outcome document req ''review'' ''review_status'' [''approved''] ''approved review'') (\<lambda>review.
        bindR (missing_outcome document req ''audit'' ''audit_status'' [''passed''] ''required audit'') (\<lambda>audit.
        bindR (missing_outcome document req ''human_acceptance'' ''human_acceptance''
                        [''passed'', ''accepted''] ''human acceptance'') (\<lambda>acceptance.
        bindR (jget_or document ''outcomes'' (JObj [])) (\<lambda>outcomes.
        bindR (jget_or outcomes ''critical_open_items'' (JList [])) (\<lambda>critical.
        bindR ((case conformance of
            None \<Rightarrow> Inr []
          | Some check \<Rightarrow> bindR (design_mode document) (\<lambda>mode.
              if mode \<notin> {''conform'', ''adapt''} then Inr []
              else bindR (check document) (\<lambda>result. bindR (jget result ''ok'') (\<lambda>ok.
                Inr (if truthy ok then [] else [''valid visual conformance report''])))))) (\<lambda>visual.
        Inr ((if truthy evidence then [] else [''evidence'']) @ review @ audit @ acceptance
             @ (if truthy critical then [''resolution/decision for critical open items''] else [])
             @ visual)))))))))"

section \<open>TransitionWorkUnit\<close>

text \<open>A \<open>RevisionError\<close> becomes an \<open>INVALID_SCHEMA\<close> error of the gateway.\<close>

definition work_unit_revision :: "json \<Rightarrow> json res" where
  "work_unit_revision document =
     (case current_revision document of
        Inl (ValueError _) \<Rightarrow> gateway_error INVALID_SCHEMA ''/revision''
      | r \<Rightarrow> r)"

definition handle_transition_work_unit ::
  "(json \<Rightarrow> json res) \<Rightarrow> env \<Rightarrow> store \<Rightarrow> json \<Rightarrow> reply res" where
  "handle_transition_work_unit conformance env s envelope =
     bindR (target_id envelope) (\<lambda>work_unit_id.
        bindR (expected_revision envelope) (\<lambda>expected.
        bindR (payload_item envelope ''to_status'') (\<lambda>to_status.
        bindR (load_or_not_found s (work_unit_path work_unit_id) ''/target/id'') (\<lambda>document.
        bindR (jget document ''id'') (\<lambda>own_id.
        (if \<not> py_eq own_id work_unit_id then gateway_error INVARIANT_VIOLATION ''/target/id'' else
        bindR (work_unit_revision document) (\<lambda>current.
        (if \<not> py_eq expected current then gateway_error CONFLICT ''/target/expected_revision'' else
        bindR (jget document ''status'') (\<lambda>current_status.
        bindR (wu_is_transition_allowed current_status to_status) (\<lambda>allowed.
        (if \<not> allowed then gateway_error INVALID_TRANSITION ''/payload/to_status'' else
        bindR ((if to_status = JStr ''done''
                    then missing_done_prerequisites (Some conformance) document else Inr [])) (\<lambda>missing.
        (if missing \<noteq> [] then gateway_error INVARIANT_VIOLATION ''/payload/to_status'' else
        bindR (py_succ current) (\<lambda>next_revision.
        bindR (jset3 document (''status'', to_status) (''revision'', next_revision)
                       (''updated_at'', now_iso env)) (\<lambda>document1.
        Inr (reply_of
          [JObj [(''kind'', JStr ''work_unit''), (''id'', work_unit_id), (''revision'', next_revision),
                 (''status'', to_status)]]
          [(work_unit_path work_unit_id, document1)]))))))))))))))))"

section \<open>TightenExecutionCeiling\<close>

definition escalation_id :: "env \<Rightarrow> json \<Rightarrow> json \<Rightarrow> string" where
  "escalation_id env work_unit_id dimension =
     ''ESCALATION-'' @ stamp (now env) @ ''-'' @ py_str work_unit_id @ ''-'' @ py_str dimension"

definition escalation_path :: "string \<Rightarrow> string" where
  "escalation_path i = ''runs/escalations/'' @ i @ ''.yaml''"

text \<open>The run document after \<open>ceilings[work_unit_id][dimension] = new_state\<close>.\<close>

definition set_ceiling :: "json \<Rightarrow> json \<Rightarrow> string \<Rightarrow> json \<Rightarrow> json res" where
  "set_ceiling document work_unit_id dimension new_state =
     bindR (jget document ''execution_ceilings_by_work_unit'') (\<lambda>ceilings.
        bindR (dict_get ceilings work_unit_id) (\<lambda>ceil.
        bindR (jset ceil dimension new_state) (\<lambda>ceil1.
        bindR (jset ceilings (py_str work_unit_id) ceil1) (\<lambda>ceilings1.
        jset document ''execution_ceilings_by_work_unit'' ceilings1))))"

definition handle_tighten_execution_ceiling :: "env \<Rightarrow> store \<Rightarrow> json \<Rightarrow> reply res" where
  "handle_tighten_execution_ceiling env s envelope =
     bindR (target_id envelope) (\<lambda>run_id.
        bindR (expected_revision envelope) (\<lambda>expected.
        bindR (payload_item envelope ''work_unit_id'') (\<lambda>work_unit_id.
        bindR (payload_item envelope ''dimension'') (\<lambda>dimension.
        bindR (payload_item envelope ''new_state'') (\<lambda>new_state.
        bindR (load_or_not_found s (run_path run_id) ''/target/id'') (\<lambda>document.
        bindR (check_revision document expected) (\<lambda>current.
        (if dimension \<notin> JStr ` set CEILING_DIMENSIONS then gateway_error INVALID_SCHEMA ''/payload/dimension'' else
        bindR (in_strs new_state CEILING_STATES) (\<lambda>known.
        (if \<not> known then gateway_error INVALID_SCHEMA ''/payload/new_state'' else
        bindR (jget document ''execution_ceilings_by_work_unit'') (\<lambda>c.
        bindR (dict_get (por c (JObj [])) work_unit_id) (\<lambda>ceil.
        (if ceil = JNull then gateway_error NOT_FOUND ''/payload/work_unit_id'' else
        bindR (jitem ceil (py_str dimension)) (\<lambda>current_state.
        bindR (can_tighten current_state new_state) (\<lambda>tighter.
        (if \<not> tighter then gateway_error INVARIANT_VIOLATION ''/payload/new_state'' else
        bindR (set_ceiling document work_unit_id (py_str dimension) new_state) (\<lambda>document1.
        bindR (py_succ current) (\<lambda>next_revision.
        bindR (jset document1 ''revision'' next_revision) (\<lambda>document2.
        bindR (jset document2 ''updated_at'' (now_iso env)) (\<lambda>document3.
        bindR (payload_item envelope ''reason'') (\<lambda>reason.
        (let eid = escalation_id env work_unit_id dimension in
        (let escalation = JObj
          [(''id'', JStr eid), (''run_id'', run_id), (''work_unit_id'', work_unit_id),
           (''dimension'', dimension), (''previous_state'', current_state), (''new_state'', new_state),
           (''reason'', reason), (''escalated_at'', now_iso env)] in
        bindR (validate_against_schema env escalation ''execution-ceiling-escalation.schema.json'' []) (\<lambda>_.
        Inr \<lparr>r_affected = [JObj [(''kind'', JStr ''run''), (''id'', run_id), (''revision'', next_revision)]],
             r_details = JObj
               [(''work_unit_id'', work_unit_id), (''dimension'', dimension),
                (''previous_state'', current_state), (''new_state'', new_state), (''reason'', reason)],
             r_events = [eid],
             r_writes = [(run_path run_id, document3), (escalation_path eid, escalation)]\<rparr>))))))))))))))))))))))))"

section \<open>EscalateWorkUnitRisk\<close>

definition RISK_ORDER :: "(string \<times> int) list" where
  "RISK_ORDER = [(''low'', 0), (''medium'', 1), (''high'', 2), (''critical'', 3)]"

definition risk_rank :: "json \<Rightarrow> int option res" where
  "risk_rank c = bindR (key_of c) (\<lambda>k. Inr (case k of None \<Rightarrow> None | Some r \<Rightarrow> map_of RISK_ORDER r))"

definition ACTIVE_CRITICAL_STATUSES :: "string list" where
  "ACTIVE_CRITICAL_STATUSES =
     [''in_progress'', ''verification'', ''review'', ''audit'', ''remediation_required'']"

definition risk_class :: "json \<Rightarrow> json res" where
  "risk_class work_unit =
     bindR (jget work_unit ''risk'') (\<lambda>risk.
 jget (por risk (JObj [])) ''class'')"

text \<open>Another Work Unit of the Run that is critical and active or leased.\<close>

definition blocks_critical :: "store \<Rightarrow> json \<Rightarrow> json \<Rightarrow> json \<Rightarrow> bool res" where
  "blocks_critical s leases work_unit_id other_id =
     (if py_eq other_id work_unit_id \<or> \<not> is_file s (work_unit_path other_id) then Inr False else
        bindR (read_yaml s (work_unit_path other_id)) (\<lambda>doc.
        (let other = por doc (JObj []) in
        bindR (risk_class other) (\<lambda>c.
        (if c \<noteq> JStr ''critical'' then Inr False else
        bindR (jget other ''status'') (\<lambda>status.
        orR (in_strs status ACTIVE_CRITICAL_STATUSES) (jin other_id leases)))))))"

definition critical_conflict :: "store \<Rightarrow> json \<Rightarrow> json \<Rightarrow> json \<Rightarrow> bool res" where
  "critical_conflict s run work_unit_id new_class =
     bindR (jget run ''leases_by_work_unit'') (\<lambda>leases.
        (if new_class \<noteq> JStr ''critical'' then Inr False else
        bindR (jget run ''work_unit_ids'') (\<lambda>ids.
        bindR (jiter (por ids (JList []))) (\<lambda>others.
        anyR (blocks_critical s (por leases (JObj [])) work_unit_id) others))))"

definition maximum_risk_class :: "json \<Rightarrow> json res" where
  "maximum_risk_class run =
     bindR (jget run ''effective_autonomy_policy'') (\<lambda>policy.
        bindR (jget (por policy (JObj [])) ''eligibility'') (\<lambda>eligibility.
        jget_or (por eligibility (JObj [])) ''maximum_risk_class'' (JStr ''critical'')))"

text \<open>\<open>xs.append(v)\<close>.\<close>

fun jappend :: "json \<Rightarrow> json \<Rightarrow> json res" where
  "jappend (JList xs) v = Inr (JList (xs @ [v]))"
| "jappend _ v = Inl AttributeError"

text \<open>\<open>work_unit["risk"]["class"] = new_class\<close>, and the reason added to its list of reasons.\<close>

definition raise_risk :: "json \<Rightarrow> json \<Rightarrow> json \<Rightarrow> json res" where
  "raise_risk work_unit new_class reason =
     bindR (as_obj work_unit) (\<lambda>ob.
        (let ob1 = osetdefault ''risk'' (JObj []) ob in
        bindR (jset (oget ob1 ''risk'') ''class'' new_class) (\<lambda>risk.
        bindR (as_obj risk) (\<lambda>rob.
        (let rob1 = osetdefault ''reasons'' (JList []) rob in
        bindR (jappend (oget rob1 ''reasons'') reason) (\<lambda>reasons.
        jset (JObj ob1) ''risk'' (JObj (AList.update ''reasons'' reasons rob1))))))))"

text \<open>
  \<open>(run.get("leases_by_work_unit") or {}).pop(work_unit_id, None)\<close>: what was there, and the run
  without it.
\<close>

definition pop_lease :: "json \<Rightarrow> json \<Rightarrow> (json \<times> json) res" where
  "pop_lease run work_unit_id =
     bindR (as_obj run) (\<lambda>ob.
        (let leases = oget ob ''leases_by_work_unit'' in
        (if \<not> truthy leases then Inr (JNull, run) else
        bindR ((case leases of JObj l \<Rightarrow> Inr l | JList _ \<Rightarrow> Inl TypeError | _ \<Rightarrow> Inl AttributeError)) (\<lambda>lob.
        bindR (key_of work_unit_id) (\<lambda>key.
        Inr (case key of None \<Rightarrow> (JNull, run)
             | Some k \<Rightarrow> (oget lob k, JObj (AList.update ''leases_by_work_unit'' (JObj (opop k lob)) ob))))))))"

text \<open>A paused Work Unit waits for a decision and loses its lease; one that is over stays as it is.\<close>

definition pause_work_unit ::
  "env \<Rightarrow> store \<Rightarrow> json \<Rightarrow> json \<Rightarrow> json \<Rightarrow> (json \<times> json \<times> (string \<times> json) list) res" where
  "pause_work_unit env s work_unit run work_unit_id =
     bindR (jget work_unit ''status'') (\<lambda>status.
        bindR (in_strs status [''done'', ''cancelled'']) (\<lambda>over.
        (if over then Inr (work_unit, run, []) else
        bindR (jset work_unit ''status'' (JStr ''waiting_decision'')) (\<lambda>work_unit1.
        bindR (pop_lease run work_unit_id) (\<lambda>(lease_ref, run1).
        bindR ((if truthy lease_ref then release_lease env s lease_ref ''risk escalation requires human review''
               else Inr [])) (\<lambda>ws.
        Inr (work_unit1, run1, ws)))))))"

text \<open>\<open>document["revision"] = int(document.get("revision", 1)) + 1\<close> and the time of the update.\<close>

definition bump :: "env \<Rightarrow> json \<Rightarrow> (json \<times> json) res" where
  "bump env document =
     bindR (jget_or document ''revision'' (JInt 1)) (\<lambda>r.
        bindR (py_int r) (\<lambda>i.
        bindR (jset document ''revision'' (JInt (i + 1))) (\<lambda>document1.
        bindR (jset document1 ''updated_at'' (now_iso env)) (\<lambda>document2.
        Inr (JInt (i + 1), document2)))))"

definition handle_escalate_work_unit_risk :: "env \<Rightarrow> store \<Rightarrow> json \<Rightarrow> reply res" where
  "handle_escalate_work_unit_risk env s envelope =
     bindR (target_id envelope) (\<lambda>run_id.
        bindR (expected_revision envelope) (\<lambda>expected.
        bindR (payload_item envelope ''work_unit_id'') (\<lambda>work_unit_id.
        bindR (payload_item envelope ''new_risk_class'') (\<lambda>new_class.
        bindR (load_or_not_found s (run_path run_id) ''/target/id'') (\<lambda>run.
        bindR (jget run ''revision'') (\<lambda>current.
        (if \<not> py_eq current expected then gateway_error CONFLICT ''/target/expected_revision'' else
        bindR (in_run run work_unit_id) (\<lambda>member.
        (if \<not> member then gateway_error UNAUTHORIZED ''/payload/work_unit_id'' else
        bindR (risk_rank new_class) (\<lambda>new_rank.
        (if new_rank = None then gateway_error INVALID_SCHEMA ''/payload/new_risk_class'' else
        bindR (load_or_not_found s (work_unit_path work_unit_id) ''/payload/work_unit_id'') (\<lambda>work_unit.
        bindR (risk_class work_unit) (\<lambda>previous_class.
        bindR (risk_rank previous_class) (\<lambda>old_rank.
        (if old_rank = None \<or> the new_rank \<le> the old_rank then           gateway_error INVARIANT_VIOLATION ''/payload/new_risk_class'' else
        bindR (payload_item envelope ''reason'') (\<lambda>reason.
        bindR (raise_risk work_unit new_class reason) (\<lambda>work_unit1.
        bindR (maximum_risk_class run) (\<lambda>maximum.
        (let exceeds_maximum = (the new_rank > (case map_of RISK_ORDER (py_str maximum) of None \<Rightarrow> 3 | Some r \<Rightarrow> r)) in
        bindR (critical_conflict s run work_unit_id new_class) (\<lambda>conflict.
        (let paused = (exceeds_maximum \<or> conflict) in
        bindR ((if paused then pause_work_unit env s work_unit1 run work_unit_id else Inr (work_unit1, run, []))) (\<lambda>(work_unit2, run1, lease_writes).
        bindR (bump env work_unit2) (\<lambda>(wu_revision, work_unit3).
        bindR (bump env run1) (\<lambda>(run_revision, run2).
        bindR (jitem envelope ''actor'') (\<lambda>actor.
        bindR (jitem actor ''role_id'') (\<lambda>role_id.
        (let event_id = ''EVT-'' @ stamp (now env) @ ''-RISK-'' @ py_str work_unit_id in
        (let event = JObj
          [(''id'', JStr event_id), (''type'', JStr ''RISK_ESCALATION''), (''work_unit'', work_unit_id),
           (''created_at'', now_iso env), (''created_by_role'', role_id),
           (''summary'', JStr (''Risk escalated from '' @ py_str previous_class @ '' to '' @ py_str new_class @ ''.'')),
           (''details'', JObj
              [(''run_id'', run_id), (''previous_risk_class'', previous_class), (''new_risk_class'', new_class),
               (''reason'', reason), (''paused'', JBool paused)]),
           (''affected_nodes'', JList [JObj [(''kind'', JStr ''work_unit''), (''id'', work_unit_id)]]),
           (''requires_human'', JBool paused),
           (''status'', JStr (if paused then ''open'' else ''resolved''))] in
        Inr \<lparr>r_affected =
               [JObj [(''kind'', JStr ''work_unit''), (''id'', work_unit_id), (''revision'', wu_revision)],
                JObj [(''kind'', JStr ''run''), (''id'', run_id), (''revision'', run_revision)]],
             r_details = JObj
               [(''previous_risk_class'', previous_class), (''new_risk_class'', new_class), (''paused'', JBool paused)],
             r_events = [event_id],
             r_writes = lease_writes
               @ [(work_unit_path work_unit_id, work_unit3), (run_path run_id, run2), (event_path event_id, event)]\<rparr>))))))))))))))))))))))))))))"

section \<open>RevokeRunAuthorizationGrant\<close>

definition handle_revoke_run_authorization_grant :: "env \<Rightarrow> store \<Rightarrow> json \<Rightarrow> reply res" where
  "handle_revoke_run_authorization_grant env s envelope =
     bindR (target_id envelope) (\<lambda>grant_id.
        bindR (expected_revision envelope) (\<lambda>expected.
        bindR (jitem envelope ''payload'') (\<lambda>payload.
        (if \<not> is_file s (grant_path grant_id) then gateway_error NOT_FOUND ''/target/id'' else
        bindR (read_json s (grant_path grant_id)) (\<lambda>document.
        bindR (check_revision document expected) (\<lambda>current.
        bindR (jget document ''revoked_at'') (\<lambda>revoked_at.
        (if truthy revoked_at then gateway_error CONFLICT ''/target/id'' else
        bindR (jitem payload ''reason'') (\<lambda>reason.
        bindR (py_succ current) (\<lambda>next_revision.
        bindR (jset3 document (''revoked_at'', now_iso env) (''revoked_reason'', reason)
                       (''revision'', next_revision)) (\<lambda>document1.
        bindR (consume_human_authorization env s envelope) (\<lambda>consumed.
        Inr (reply_of
          [JObj [(''kind'', JStr ''run_authorization_grant''), (''id'', grant_id), (''revision'', next_revision)]]
          [(grant_path grant_id, document1), consumed])))))))))))))"

section \<open>ResolveRunDecision\<close>

definition decision_path :: "json \<Rightarrow> string" where
  "decision_path i = ''runs/decisions/'' @ py_str i @ ''.yaml''"

text \<open>The index of the first menu entry with an id, in a list whose items must be documents.\<close>

fun find_entry :: "json \<Rightarrow> json list \<Rightarrow> nat option res" where
  "find_entry entry_id [] = Inr None"
| "find_entry entry_id (item # items) =
     bindR (jget item ''id'') (\<lambda>i.
       if py_eq i entry_id then Inr (Some 0)
       else bindR (find_entry entry_id items) (\<lambda>n. Inr (map_option Suc n)))"

text \<open>A Work Unit in status \<open>from\<close> moves on to \<open>to\<close>; any other stays as it is.\<close>

definition move_work_unit ::
  "env \<Rightarrow> store \<Rightarrow> json \<Rightarrow> string \<Rightarrow> string \<Rightarrow> (string \<times> json) list res" where
  "move_work_unit env s work_unit_id from_status to_status =
     (if \<not> is_file s (work_unit_path work_unit_id) then Inr [] else
        bindR (read_yaml s (work_unit_path work_unit_id)) (\<lambda>work_unit.
        bindR (jget work_unit ''status'') (\<lambda>status.
        (if status \<noteq> JStr from_status then Inr [] else
        bindR (jget_or work_unit ''revision'' (JInt 1)) (\<lambda>r.
        bindR (py_succ r) (\<lambda>next_revision.
        bindR (jset3 work_unit (''status'', JStr to_status) (''revision'', next_revision)
                        (''updated_at'', now_iso env)) (\<lambda>work_unit1.
        Inr [(work_unit_path work_unit_id, work_unit1)])))))))"

text \<open>One more use of the matched entry: the grant document with its count raised.\<close>

definition use_entry :: "json \<Rightarrow> json list \<Rightarrow> nat \<Rightarrow> json res" where
  "use_entry grant_document entries i =
     bindR (jget_or (entries ! i) ''uses_count'' (JInt 0)) (\<lambda>uses.
        bindR (py_succ uses) (\<lambda>uses1.
        bindR (jset (entries ! i) ''uses_count'' uses1) (\<lambda>entry1.
        jset grant_document ''decision_menu'' (JList (entries[i := entry1])))))"

text \<open>An unmatched fork: the lease of the Work Unit is released and leaves the run document.\<close>

definition drop_for_decision :: "env \<Rightarrow> store \<Rightarrow> json \<Rightarrow> json \<Rightarrow> json \<Rightarrow> (string \<times> json) list res" where
  "drop_for_decision env s run_id run_document work_unit_id =
     bindR (jget run_document ''leases_by_work_unit'') (\<lambda>leases.
        bindR (dict_get (por leases (JObj [])) work_unit_id) (\<lambda>lease_ref.
        (if \<not> truthy lease_ref then Inr [] else
        bindR (release_lease env s lease_ref ''decision requires human authority'') (\<lambda>ws.
        bindR (drop_lease run_document work_unit_id (now_iso env)) (\<lambda>run1.
        Inr (ws @ [(run_path run_id, run1)]))))))"

definition handle_resolve_run_decision :: "env \<Rightarrow> store \<Rightarrow> json \<Rightarrow> reply res" where
  "handle_resolve_run_decision env s envelope =
     bindR (target_id envelope) (\<lambda>decision_id.
        bindR (jitem envelope ''payload'') (\<lambda>payload.
        bindR (payload_item envelope ''run_id'') (\<lambda>run_id.
        bindR (payload_item envelope ''work_unit_id'') (\<lambda>work_unit_id.
        bindR (payload_item envelope ''trigger'') (\<lambda>trigger.
        bindR (payload_item envelope ''proposed_entry_id'') (\<lambda>proposed_entry_id.
        bindR (jget payload ''evidence'') (\<lambda>e.
        (let evidence = por e (JList []) in
        (if is_file s (decision_path decision_id) then gateway_error ALREADY_EXISTS ''/target/id'' else
        bindR (load_or_not_found s (run_path run_id) ''/payload/run_id'') (\<lambda>run_document.
        bindR (jitem run_document ''run_authorization_grant_id'') (\<lambda>grant_id.
        bindR (read_json s (grant_path grant_id)) (\<lambda>grant_document.
        bindR (jget grant_document ''decision_menu'') (\<lambda>menu.
        bindR (jiter (por menu (JList []))) (\<lambda>entries.
        bindR (find_entry proposed_entry_id entries) (\<lambda>found.
        bindR (in_run run_document work_unit_id) (\<lambda>member.
        (if \<not> member then gateway_error UNAUTHORIZED ''/payload/work_unit_id'' else
        bindR (jget payload ''environment'') (\<lambda>environment.
        bindR ((case found of
            None \<Rightarrow> Inr (Some ''entry_not_found'')
          | Some i \<Rightarrow> validate_entry_usable (entries ! i) trigger work_unit_id environment
                        (isoformat (now env)) evidence)) (\<lambda>reason.
        bindR (jget grant_document ''decision_menu_version'') (\<lambda>version.
        bindR ((if reason \<noteq> None then Inr JNull
                      else bindR (jget (entries ! the found) ''authorized_option'') (\<lambda>o1.
                           jget (por o1 (JObj [])) ''option_id''))) (\<lambda>option_id.
        (let reason_json = (case reason of None \<Rightarrow> JNull | Some r \<Rightarrow> JStr r) in
        (let document = JObj
          [(''id'', decision_id), (''run_id'', run_id), (''work_unit_id'', work_unit_id),
           (''trigger'', trigger), (''proposed_entry_id'', proposed_entry_id), (''evidence'', evidence),
           (''decision_menu_version'', version), (''authorized_option_id'', option_id),
           (''resolved'', JBool (reason = None)), (''rejection_reason'', reason_json),
           (''resolved_at'', now_iso env)] in
        bindR (validate_against_schema env document ''run-decision.schema.json'' []) (\<lambda>_.
        bindR ((if reason = None
               then bindR (use_entry grant_document entries (the found)) (\<lambda>grant1.
                    bindR (move_work_unit env s work_unit_id ''waiting_decision'' ''in_progress'') (\<lambda>w.
                    Inr ((grant_path grant_id, grant1) # w)))
               else bindR (move_work_unit env s work_unit_id ''in_progress'' ''waiting_decision'') (\<lambda>w.
                    bindR (drop_for_decision env s run_id run_document work_unit_id) (\<lambda>d.
                    Inr (w @ d))))) (\<lambda>ws.
        Inr \<lparr>r_affected = [JObj [(''kind'', JStr ''run_decision''), (''id'', decision_id),
                                 (''resolved'', JBool (reason = None))]],
             r_details = JObj [(''resolved'', JBool (reason = None)), (''rejection_reason'', reason_json)],
             r_events = [],
             r_writes = (decision_path decision_id, document) # ws\<rparr>)))))))))))))))))))))))))"

section \<open>Lemmas\<close>

end
