(* ===== verification/AttemptCommands.thy ===== *)
theory AttemptCommands
  imports RunCommands ExecutionCeiling
begin

text \<open>
  The recording of execution attempts (\<open>core/commands/handlers/record_execution_attempt.py\<close>) and
  the classification of their failures (\<open>core/domain/run/failure_taxonomy.py\<close>). Spend and
  durations are computed in exact arithmetic where the code uses floats.
\<close>

section \<open>Failure taxonomy\<close>

definition SYSTEMIC_FAILURE_SCOPES :: "string list" where
  "SYSTEMIC_FAILURE_SCOPES = [''adapter'', ''host'', ''run'']"

definition FAILURE_CODES :: "string list" where
  "FAILURE_CODES =
     [''agent_timeout'', ''orphan_started'', ''adapter_exception'', ''evidence_gate'', ''execution_boundary'',
      ''handoff_invalid'', ''agent_failed'', ''agent_blocked'', ''integration_gate'', ''unknown'']"

record failure =
  failure_code :: string
  failure_scope :: string
  retryability :: string

text \<open>The text that is searched: summary and limitations, joined by blanks, in lower case.\<close>

definition failure_text :: "json \<Rightarrow> json list \<Rightarrow> string" where
  "failure_text summary limitations =
     lower (intersperse '' '' (py_str (por summary (JStr [])) # map py_str limitations))"

definition classify_attempt_failure :: "string \<Rightarrow> json \<Rightarrow> json list \<Rightarrow> failure option" where
  "classify_attempt_failure status summary limitations =
     (if status \<notin> {''failed'', ''timed_out'', ''blocked'', ''cancelled''} then None
      else let msg = failure_text summary limitations in
      Some
       (if infix_of ''orphan'' msg \<or> infix_of ''interrupted'' msg
          then \<lparr>failure_code = ''orphan_started'', failure_scope = ''run'', retryability = ''retryable''\<rparr>
        else if status = ''timed_out''
          then \<lparr>failure_code = ''agent_timeout'', failure_scope = ''work_unit'', retryability = ''retryable''\<rparr>
        else if infix_of ''evidence gate'' msg
          then \<lparr>failure_code = ''evidence_gate'', failure_scope = ''work_unit'',
                retryability = ''retryable_after_change''\<rparr>
        else if infix_of ''execution boundary'' msg \<or> infix_of ''out-of-scope'' msg
              \<or> infix_of ''out-of-envelope'' msg
          then \<lparr>failure_code = ''execution_boundary'', failure_scope = ''work_unit'',
                retryability = ''non_retryable''\<rparr>
        else if infix_of ''governed json handoff'' msg \<or> infix_of ''handoff'' msg
          then \<lparr>failure_code = ''handoff_invalid'', failure_scope = ''work_unit'', retryability = ''retryable''\<rparr>
        else if infix_of ''integration gate'' msg
          then \<lparr>failure_code = ''integration_gate'', failure_scope = ''work_unit'',
                retryability = ''retryable_after_change''\<rparr>
        else if status = ''blocked'' \<and> infix_of ''adapter execution failed'' msg
          then \<lparr>failure_code = ''adapter_exception'', failure_scope = ''adapter'',
                retryability = ''retryable_after_change''\<rparr>
        else if status = ''blocked''
          then \<lparr>failure_code = ''agent_blocked'', failure_scope = ''adapter'',
                retryability = ''retryable_after_change''\<rparr>
        else if status = ''failed''
          then \<lparr>failure_code = ''agent_failed'', failure_scope = ''work_unit'', retryability = ''retryable''\<rparr>
        else \<lparr>failure_code = ''unknown'', failure_scope = ''work_unit'',
               retryability = ''retryable_after_change''\<rparr>))"

text \<open>\<open>str(attempt.get(key) or "")\<close>.\<close>

definition get_text :: "json \<Rightarrow> string \<Rightarrow> string res" where
  "get_text d k = bindR (jget d k) (\<lambda>v. Inr (py_str (por v (JStr []))))"

definition systemic_failure_signature :: "json \<Rightarrow> string list option res" where
  "systemic_failure_signature attempt =
     bindR (get_text attempt ''status'') (\<lambda>status.
        (if status \<notin> {''failed'', ''timed_out'', ''blocked''} then Inr None else
        bindR (get_text attempt ''failure_scope'') (\<lambda>scope.
        bindR (get_text attempt ''failure_code'') (\<lambda>code.
        (if scope \<in> set SYSTEMIC_FAILURE_SCOPES \<and> code \<noteq> [] then Inr (Some [''taxonomy'', code, scope]) else
        bindR (get_text attempt ''step'') (\<lambda>step.
        (if status = ''timed_out'' \<and> step \<in> {''sandbox_implementation'', ''remediation''} then Inr None else
        (if code \<noteq> [] \<or> scope \<noteq> [] then Inr None else
        bindR (get_text attempt ''summary'') (\<lambda>summary.
        Inr (Some [''legacy'', step, summary]))))))))))"

section \<open>RecordExecutionAttempt\<close>

definition attempt_path :: "json \<Rightarrow> string" where
  "attempt_path i = ''runs/execution-attempts/'' @ py_str i @ ''.yaml''"

text \<open>The attempts of a Run, in the order of their files.\<close>

definition load_run_attempts :: "store \<Rightarrow> json \<Rightarrow> json list res" where
  "load_run_attempts s run_id =
     bindR (mapR (read_yaml s) (glob_yaml s ''runs/execution-attempts'')) (\<lambda>documents.
 filterR (\<lambda>d. bindR (jget d ''run_id'') (\<lambda>r. Inr (py_eq r run_id))) documents)"

definition immutable_fields :: "string list" where
  "immutable_fields =
     [''run_id'', ''execution_id'', ''work_unit_id'', ''worker_lease_id'', ''epoch'', ''step'']"

definition check_immutable_fields :: "json \<Rightarrow> json \<Rightarrow> unit res" where
  "check_immutable_fields existing payload =
     eachR (\<lambda>fld. bindR (jget existing fld) (\<lambda>a.
                       bindR (jget payload fld) (\<lambda>b.
                       (if \<not> py_eq a b then gateway_error CONFLICT (''/payload/'' @ fld) else
                       Inr ())))) immutable_fields"

definition lease_still_current :: "json \<Rightarrow> json \<Rightarrow> json \<Rightarrow> bool res" where
  "lease_still_current run_document work_unit_id existing =
     bindR (current_lease run_document work_unit_id) (\<lambda>lease.
        (if lease = JNull then Inr False else
        bindR (jget lease ''lease_id'') (\<lambda>held.
        bindR (jget existing ''worker_lease_id'') (\<lambda>worker_lease_id.
        (if \<not> py_eq held worker_lease_id then Inr False else
        bindR (jget existing ''epoch'') (\<lambda>e.
        bindR (py_int (por e (JInt 0))) (\<lambda>epoch.
        is_epoch_current run_document work_unit_id (JInt epoch))))))))"

text \<open>A recovery may only finish a started attempt whose lease is no longer current.\<close>

definition check_orphan_recovery :: "json \<Rightarrow> json \<Rightarrow> json \<Rightarrow> json \<Rightarrow> json \<Rightarrow> unit res" where
  "check_orphan_recovery run_document work_unit_id existing payload actor_role =
     (if actor_role \<noteq> JStr ''control-plane'' then gateway_error UNAUTHORIZED ''/payload/orphan_recovery'' else
        (if existing = JNull then gateway_error INVARIANT_VIOLATION ''/target/id'' else
        bindR (jget existing ''status'') (\<lambda>existing_status.
        (if existing_status \<noteq> JStr ''started'' then gateway_error INVARIANT_VIOLATION ''/target/id'' else
        bindR (jget payload ''status'') (\<lambda>status.
        bindR (in_strs status [''timed_out'', ''cancelled'']) (\<lambda>final.
        (if \<not> final then gateway_error INVARIANT_VIOLATION ''/payload/status'' else
        bindR (check_immutable_fields existing payload) (\<lambda>_.
        bindR (lease_still_current run_document work_unit_id existing) (\<lambda>current.
        (if current then gateway_error INVARIANT_VIOLATION ''/payload/orphan_recovery'' else
        Inr ()))))))))))"

definition check_attempt_revision :: "json \<Rightarrow> json \<Rightarrow> unit res" where
  "check_attempt_revision envelope existing =
     bindR (jitem envelope ''target'') (\<lambda>target.
        bindR (jget target ''expected_revision'') (\<lambda>expected.
        bindR (jget existing ''revision'') (\<lambda>current.
        (if \<not> py_eq expected current then gateway_error CONFLICT ''/target/expected_revision'' else
        Inr ()))))"

text \<open>An attempt that was started may be completed once, without changing what it is about.\<close>

definition check_completion :: "json \<Rightarrow> json \<Rightarrow> json \<Rightarrow> unit res" where
  "check_completion envelope existing payload =
     bindR (jget existing ''status'') (\<lambda>existing_status.
        (if existing_status \<noteq> JStr ''started'' then gateway_error ALREADY_EXISTS ''/target/id'' else
        bindR (jitem payload ''status'') (\<lambda>status.
        (if status = JStr ''started'' then gateway_error ALREADY_EXISTS ''/target/id'' else
        bindR (check_attempt_revision envelope existing) (\<lambda>_.
        check_immutable_fields existing payload)))))"

definition check_ceiling_permits :: "json \<Rightarrow> json \<Rightarrow> json \<Rightarrow> json \<Rightarrow> unit res" where
  "check_ceiling_permits envelope run_document work_unit_id step =
     bindR (ceiling_of run_document work_unit_id) (\<lambda>ceil.
        bindR ((if step \<noteq> JStr ''integration_review'' then Inr False
          else bindR (jitem envelope ''actor'') (\<lambda>actor. bindR (jitem actor ''role_id'') (\<lambda>role_id.
               Inr (role_id = JStr ''integration-steward''))))) (\<lambda>by_steward.
        bindR (is_step_permitted ceil step by_steward) (\<lambda>(permitted, state).
        (if \<not> permitted then gateway_error UNAUTHORIZED ''/payload/step'' else
        Inr ()))))"

text \<open>\<open>max(0, int((ended - started).total_seconds() * 1000))\<close>; a \<open>ValueError\<close> gives \<open>None\<close>.\<close>

definition duration_between :: "json \<Rightarrow> json \<Rightarrow> json res" where
  "duration_between started_at ended_at =
     (case bindR (parse_iso (replace_Z (py_str ended_at))) (\<lambda>ended.
              bindR (parse_iso (replace_Z (py_str started_at))) (\<lambda>started.
              bindR (dt_diff ended started) (\<lambda>elapsed.
              Inr (JInt (max 0 (elapsed div 1000)))))) of
        Inl (ValueError _) \<Rightarrow> Inr JNull
      | r \<Rightarrow> r)"

definition attempt_duration :: "json \<Rightarrow> json \<Rightarrow> json \<Rightarrow> json res" where
  "attempt_duration payload started_at ended_at =
     bindR (jget payload ''duration_ms'') (\<lambda>duration_ms.
        (if duration_ms = JNull \<and> ended_at \<noteq> JNull then duration_between started_at ended_at else
        Inr duration_ms))"

text \<open>Fields of the payload, each with the value it has when absent.\<close>

definition optional_fields :: "json \<Rightarrow> (string \<times> json) list \<Rightarrow> (string \<times> json) list res" where
  "optional_fields payload = mapR (\<lambda>(k, d). bindR (jget_or payload k d) (\<lambda>v. Inr (k, v)))"

definition attempt_document ::
  "env \<Rightarrow> json \<Rightarrow> json \<Rightarrow> json \<Rightarrow> json \<Rightarrow> json \<Rightarrow> json \<Rightarrow> json \<Rightarrow> json res" where
  "attempt_document env attempt_id existing payload run_id work_unit_id epoch step =
     bindR (jitem payload ''status'') (\<lambda>status.
        bindR (jget_or payload ''ended_at'' (if status = JStr ''started'' then JNull else now_iso env)) (\<lambda>ended_at.
        bindR (jget_or (por existing (JObj [])) ''started_at'' (now_iso env)) (\<lambda>earlier.
        bindR (jget_or payload ''started_at'' earlier) (\<lambda>started_at.
        bindR (attempt_duration payload started_at ended_at) (\<lambda>duration_ms.
        bindR (jget_or (por existing (JObj [])) ''revision'' (JInt 0)) (\<lambda>r.
        bindR (py_succ r) (\<lambda>revision.
        bindR (jget payload ''execution_id'') (\<lambda>execution_id.
        bindR (jitem payload ''worker_lease_id'') (\<lambda>worker_lease_id.
        bindR (optional_fields payload
          [(''summary'', JNull), (''checks'', JList []), (''artifacts'', JList []), (''workspace'', JObj []),
           (''contract'', JObj []), (''requested_commands'', JList []), (''usage'', JObj []),
           (''provider'', JObj []), (''failure_code'', JNull), (''failure_scope'', JNull),
           (''retryability'', JNull)]) (\<lambda>others.
        Inr (JObj
          ([(''id'', attempt_id), (''revision'', revision), (''run_id'', run_id),
            (''execution_id'', execution_id), (''work_unit_id'', work_unit_id),
            (''worker_lease_id'', worker_lease_id), (''epoch'', epoch), (''step'', step),
            (''status'', status), (''started_at'', started_at), (''ended_at'', ended_at),
            (''duration_ms'', duration_ms)] @ others))))))))))))"

text \<open>The grant with the usage of a finished attempt added, and whether it is exhausted.\<close>

definition charge_grant :: "json \<Rightarrow> json \<Rightarrow> (json \<times> bool) res" where
  "charge_grant grant_document document =
     bindR (jget document ''usage'') (\<lambda>u.
        (let usage = por u (JObj []) in
        bindR (jget_or grant_document ''spend_used'' (JInt 0)) (\<lambda>s0.
        bindR (py_float s0) (\<lambda>spent.
        bindR (jget_or usage ''cost'' (JInt 0)) (\<lambda>c0.
        bindR (py_float (por c0 (JInt 0))) (\<lambda>cost.
        bindR (jset grant_document ''spend_used'' (JFloat (spent + cost))) (\<lambda>grant1.
        bindR (jget_or grant1 ''tokens_used'' (JInt 0)) (\<lambda>t0.
        bindR (py_int t0) (\<lambda>tokens.
        bindR (jget_or usage ''total_tokens'' (JInt 0)) (\<lambda>n0.
        bindR (py_int (por n0 (JInt 0))) (\<lambda>total.
        bindR (jset grant1 ''tokens_used'' (JInt (tokens + total))) (\<lambda>grant2.
        bindR (jget grant2 ''maximum_spend'') (\<lambda>maximum_spend.
        bindR ((if maximum_spend = JNull then Inr False
                      else bindR (py_float maximum_spend) (\<lambda>m. Inr (spent + cost \<ge> m)))) (\<lambda>spend_out.
        bindR (jget grant2 ''maximum_tokens'') (\<lambda>maximum_tokens.
        bindR ((if maximum_tokens = JNull then Inr False
                       else bindR (py_int maximum_tokens) (\<lambda>m. Inr (tokens + total \<ge> m)))) (\<lambda>tokens_out.
        Inr (grant2, spend_out \<or> tokens_out)))))))))))))))))"

definition convergence_event :: "env \<Rightarrow> json \<Rightarrow> json \<Rightarrow> json \<Rightarrow> string \<Rightarrow> string \<times> json" where
  "convergence_event env run_id work_unit_id step reason =
     (let event_id = ''EVT-'' @ stamp (now env) @ ''-CONVERGENCE-'' @ py_str work_unit_id in
      (event_id, JObj
        [(''id'', JStr event_id), (''type'', JStr ''BLOCKER''), (''work_unit'', work_unit_id),
         (''created_at'', now_iso env), (''created_by_role'', JStr ''run-reliability-controller''),
         (''summary'', JStr (''Convergence loop exhausted for step '' @ py_repr step @ '' on work unit ''
            @ py_repr work_unit_id @ '': '' @ reason @ ''.'')),
         (''details'', JObj [(''run_id'', run_id), (''work_unit_id'', work_unit_id), (''step'', step),
                            (''reason'', JStr reason)]),
         (''affected_nodes'', JList [JObj [(''kind'', JStr ''work_unit''), (''id'', work_unit_id)]]),
         (''requires_human'', JBool True), (''status'', JStr ''open'')]))"

text \<open>Who may record: the holder of the current lease, or the control plane as a recovery.\<close>

definition check_may_record ::
  "json \<Rightarrow> json \<Rightarrow> json \<Rightarrow> json \<Rightarrow> json \<Rightarrow> json \<Rightarrow> bool res" where
  "check_may_record envelope run_document work_unit_id existing payload epoch =
     bindR (jget payload ''orphan_recovery'') (\<lambda>o1.
        bindR (jget envelope ''actor'') (\<lambda>actor.
        bindR (jget (por actor (JObj [])) ''role_id'') (\<lambda>actor_role.
        bindR ((if truthy o1
         then bindR (check_orphan_recovery run_document work_unit_id existing payload actor_role) (\<lambda>_.
              check_attempt_revision envelope existing)
         else bindR (bindR (jitem payload ''worker_lease_id'') (check_fence run_document work_unit_id epoch)) (\<lambda>_.
              if existing = JNull then Inr () else check_completion envelope existing payload))) (\<lambda>_.
        Inr (truthy o1)))))"

text \<open>The earlier attempts at this step; a completion does not count the attempt it completes.\<close>

definition prior_attempts :: "store \<Rightarrow> json \<Rightarrow> json \<Rightarrow> json \<Rightarrow> json \<Rightarrow> json \<Rightarrow> json list res" where
  "prior_attempts s run_id work_unit_id step existing attempt_id =
     bindR (load_run_attempts s run_id) (\<lambda>attempts.
        bindR (attempts_for_step attempts work_unit_id step) (\<lambda>step_attempts.
        (if existing = JNull then Inr step_attempts else
        filterR (\<lambda>a. bindR (jget a ''id'') (\<lambda>i. Inr (\<not> py_eq i attempt_id))) step_attempts)))"

definition convergence_reason :: "json \<Rightarrow> json list \<Rightarrow> json \<Rightarrow> string option res" where
  "convergence_reason run_document step_attempts step =
     bindR (jget_or run_document ''maximum_attempts_per_step''
                              (JInt DEFAULT_MAXIMUM_ATTEMPTS_PER_STEP)) (\<lambda>maximum_attempts.
        bindR (jget_or run_document ''maximum_remediation_cycles''
                            (JInt DEFAULT_MAXIMUM_REMEDIATION_CYCLES)) (\<lambda>maximum_cycles.
        convergence_exhaustion_reason step_attempts step maximum_attempts maximum_cycles))"

text \<open>What a finished attempt adds: the charged grant, and whether its budget is exhausted.\<close>

definition charge_finished :: "store \<Rightarrow> json \<Rightarrow> json \<Rightarrow> ((string \<times> json) list \<times> bool) res" where
  "charge_finished s run_document document =
     bindR (jget document ''status'') (\<lambda>status.
        (if status = JStr ''started'' then Inr ([], False) else
        bindR (jitem run_document ''run_authorization_grant_id'') (\<lambda>grant_id.
        bindR (read_json s (grant_path grant_id)) (\<lambda>grant_document.
        bindR (charge_grant grant_document document) (\<lambda>(grant1, exhausted).
        Inr ([(grant_path grant_id, grant1)], exhausted))))))"

definition attempt_details :: "bool \<Rightarrow> string option \<Rightarrow> obj" where
  "attempt_details budget_exhausted exhaustion =
     (if budget_exhausted then [(''global_stop_condition'', JStr ''budget_exhausted'')] else [])
     @ (case exhaustion of None \<Rightarrow> []
        | Some r \<Rightarrow> [(''convergence_exhausted'', JBool True), (''convergence_exhaustion_reason'', JStr r)])"

definition handle_record_execution_attempt :: "env \<Rightarrow> store \<Rightarrow> json \<Rightarrow> reply res" where
  "handle_record_execution_attempt env s envelope =
     bindR (target_id envelope) (\<lambda>attempt_id.
        bindR (jitem envelope ''payload'') (\<lambda>payload.
        bindR (payload_item envelope ''run_id'') (\<lambda>run_id.
        bindR (payload_item envelope ''work_unit_id'') (\<lambda>work_unit_id.
        bindR (payload_item envelope ''epoch'') (\<lambda>epoch.
        bindR (payload_item envelope ''step'') (\<lambda>step.
        bindR (load_or_not_found s (run_path run_id) ''/payload/run_id'') (\<lambda>run_document.
        bindR (run_inactive run_document) (\<lambda>inactive.
        (if inactive then gateway_error INVARIANT_VIOLATION ''/payload/run_id'' else
        bindR (in_run run_document work_unit_id) (\<lambda>member.
        (if \<not> member then gateway_error UNAUTHORIZED ''/payload/work_unit_id'' else
        bindR (read_yaml_or JNull s (attempt_path attempt_id)) (\<lambda>existing.
        bindR (check_may_record envelope run_document work_unit_id existing payload epoch) (\<lambda>recovery.
        bindR (check_ceiling_permits envelope run_document work_unit_id step) (\<lambda>_.
        bindR (prior_attempts s run_id work_unit_id step existing attempt_id) (\<lambda>prior.
        bindR (convergence_reason run_document prior step) (\<lambda>exhausted_before.
        (if exhausted_before \<noteq> None then gateway_error INVARIANT_VIOLATION ''/payload/step'' else
        bindR (attempt_document env attempt_id existing payload run_id work_unit_id epoch step) (\<lambda>document.
        bindR (validate_against_schema env document ''execution-attempt.schema.json'' []) (\<lambda>_.
        bindR (charge_finished s run_document document) (\<lambda>(grant_writes, budget_exhausted).
        bindR (jget document ''status'') (\<lambda>status.
        bindR (jget document ''revision'') (\<lambda>revision.
        bindR (convergence_reason run_document
                    (prior @ (if status = JStr ''started'' then [] else [document])) step) (\<lambda>reason.
        (let exhaustion = (if status = JStr ''started'' then None else reason) in
        (let events = (case exhaustion of None \<Rightarrow> []
                      | Some r \<Rightarrow> [convergence_event env run_id work_unit_id step r]) in
        Inr \<lparr>r_affected = [JObj [(''kind'', JStr ''execution_attempt''), (''id'', attempt_id),
                                 (''revision'', revision), (''status'', status)]],
             r_details = por (JObj (attempt_details budget_exhausted exhaustion)) JNull,
             r_events = map fst events,
             r_writes = (attempt_path attempt_id, document) # grant_writes
               @ map (\<lambda>(i, ev). (event_path i, ev)) events\<rparr>)))))))))))))))))))))))))"

end
