(* ===== verification/Readiness.thy ===== *)
theory Readiness
  imports Grant AutonomyPolicy
begin

text \<open>
  The definition of unattended-ready (\<open>core/domain/run/unattended_readiness.py\<close>): the gaps that keep
  a Run from starting unattended, and the report over them. Work Unit documents come as an
  association list from id to document, \<open>None\<close> for a Work Unit that was not found. Percentages
  are exact rationals.
\<close>

section \<open>Numbers in text\<close>

text \<open>\<open>round(q)\<close>: to the nearest integer, halves to the even one.\<close>

definition round_half_even :: "rat \<Rightarrow> int" where
  "round_half_even q =
     (let f = \<lfloor>q\<rfloor>; d = q - of_int f in
      if d < 1 / 2 then f else if d > 1 / 2 then f + 1 else if even f then f else f + 1)"

definition round2 :: "rat \<Rightarrow> rat" where
  "round2 q = of_int (round_half_even (q * 100)) / 100"

text \<open>\<open>f"{q:g}"\<close>: six significant digits, without trailing zeros.\<close>

definition strip_zeros :: "string \<Rightarrow> string" where
  "strip_zeros s = rev (dropWhile (\<lambda>c. c = CHR ''0'') (rev s))"

fun shifts_to_one :: "nat \<Rightarrow> rat \<Rightarrow> nat" where
  "shifts_to_one 0 a = 0"
| "shifts_to_one (Suc n) a = (if a \<ge> 1 then 0 else Suc (shifts_to_one n (10 * a)))"

definition decimal_exponent :: "rat \<Rightarrow> int" where
  "decimal_exponent a =
     (if a \<ge> 1 then int (length (nat_text (nat \<lfloor>a\<rfloor>))) - 1
      else - int (shifts_to_one (length (nat_text (nat (snd (quotient_of a))))) a))"

definition scale10 :: "rat \<Rightarrow> int \<Rightarrow> rat" where
  "scale10 a e = (if 0 \<le> e then a * 10 ^ nat e else a / 10 ^ nat (- e))"

definition with_point :: "string \<Rightarrow> nat \<Rightarrow> string" where
  "with_point digits n =
     (let fraction = strip_zeros (drop n digits) in
      take n digits @ (if fraction = [] then [] else ''.'' @ fraction))"

definition format_g :: "rat \<Rightarrow> string" where
  "format_g q =
     (if q = 0 then ''0'' else
      let a = \<bar>q\<bar>;
          e0 = decimal_exponent a;
          m0 = round_half_even (scale10 a (5 - e0));
          e = (if m0 = 1000000 then e0 + 1 else e0);
          digits = nat_text (nat (if m0 = 1000000 then 100000 else m0))
      in (if q < 0 then ''-'' else []) @
         (if e < -4 \<or> e \<ge> 6
          then with_point digits 1 @ ''e'' @ (if e < 0 then ''-'' else ''+'')
               @ (if \<bar>e\<bar> < 10 then ''0'' else []) @ int_text \<bar>e\<bar>
          else if e < 0
          then ''0.'' @ replicate (nat (- e - 1)) (CHR ''0'') @ strip_zeros digits
          else with_point digits (nat e + 1)))"

section \<open>Gaps\<close>

definition REQUIRED_ARTIFACT_KINDS_BY_PRESET :: "(string \<times> string list) list" where
  "REQUIRED_ARTIFACT_KINDS_BY_PRESET =
     [(''unattended_conservative'', [''mission_contract'', ''execution_envelope'', ''delivery_contract'']),
      (''unattended_extended'',
        [''mission_contract'', ''acceptance_oracle'', ''decision_menu'', ''execution_envelope'',
         ''delivery_contract'']),
      (''unattended_maximal'',
        [''mission_contract'', ''acceptance_oracle'', ''decision_menu'', ''tradeoff_policy'',
         ''execution_envelope'', ''delivery_contract'']),
      (''custom'',
        [''mission_contract'', ''acceptance_oracle'', ''decision_menu'', ''tradeoff_policy'',
         ''execution_envelope'', ''delivery_contract''])]"

definition work_unit_readiness_gaps :: "string \<Rightarrow> json \<Rightarrow> bool \<Rightarrow> string list res" where
  "work_unit_readiness_gaps work_unit_id work_unit has_explicit_ceiling =
     (if work_unit = JNull then Inr [work_unit_id @ '': work unit not found''] else
        bindR (jget work_unit ''risk'') (\<lambda>risk.
        bindR (jget (por risk (JObj [])) ''class'') (\<lambda>cls.
        bindR (jget work_unit ''scope'') (\<lambda>sc.
        bindR (jget (por sc (JObj [])) ''include'') (\<lambda>include.
        Inr ((if truthy cls then [] else [work_unit_id @ '': missing risk.class''])
           @ (if truthy include then []
              else [work_unit_id @ '': scope.include is empty (scope not closed)''])
           @ (if has_explicit_ceiling then []
              else [work_unit_id @ '': no explicit execution_ceiling declared for this run''])))))))"

definition required_kinds :: "string \<Rightarrow> string list" where
  "required_kinds preset =
     (case map_of REQUIRED_ARTIFACT_KINDS_BY_PRESET preset of None \<Rightarrow> [] | Some ks \<Rightarrow> sort ks)"

text \<open>The kind of an artifact, which is used as a dictionary key.\<close>

definition artifact_kind :: "json \<Rightarrow> json res" where
  "artifact_kind artifact =
     bindR (jitem artifact ''kind'') (\<lambda>kind.
        (if \<not> hashable kind then Inl TypeError else
        Inr kind))"

definition APPROVAL_PRESETS :: "string list" where
  "APPROVAL_PRESETS = [''unattended_extended'', ''unattended_maximal'', ''custom'']"

definition kind_gap :: "string \<Rightarrow> (json \<times> json) list \<Rightarrow> string \<Rightarrow> string list res" where
  "kind_gap preset by_kind kind =
     (let candidates = map snd (filter (\<lambda>(k, _). k = JStr kind) by_kind) in
      if candidates = [] then Inr [''missing mission artifact of kind '' @ repr_str kind]
      else if preset \<notin> set APPROVAL_PRESETS then Inr []
      else bindR (anyR is_approved candidates) (\<lambda>approved.
        Inr (if approved then []
             else [''mission artifact of kind '' @ repr_str kind
                   @ '' exists but has not been approved by an independent challenge''])))"

definition mission_artifact_gaps :: "string \<Rightarrow> json list \<Rightarrow> string list res" where
  "mission_artifact_gaps preset mission_artifacts =
     bindR (mapR artifact_kind mission_artifacts) (\<lambda>kinds.
        bindR (mapR (kind_gap preset (zip kinds mission_artifacts)) (required_kinds preset)) (\<lambda>gaps.
        Inr (concat gaps)))"

definition budget_gaps :: "json \<Rightarrow> string list res" where
  "budget_gaps grant =
     bindR (jget grant ''maximum_spend'') (\<lambda>maximum_spend.
        (if maximum_spend \<noteq> JNull then Inr [] else
        bindR (jget grant ''maximum_duration_hours'') (\<lambda>maximum_duration_hours.
        Inr (if maximum_duration_hours \<noteq> JNull then []
             else [''grant has no explicit budget (maximum_spend and maximum_duration_hours both unset)'']))))"

text \<open>\<open>next((item for item in artifacts if item.get("kind") == kind), None)\<close>.\<close>

fun first_of_kind :: "string \<Rightarrow> json list \<Rightarrow> json res" where
  "first_of_kind kind [] = Inr JNull"
| "first_of_kind kind (item # items) =
     bindR (jget item ''kind'') (\<lambda>k. if k = JStr kind then Inr item else first_of_kind kind items)"

definition content_of :: "json \<Rightarrow> json res" where
  "content_of artifact =
     bindR (jget (por artifact (JObj [])) ''content'') (\<lambda>c. Inr (por c (JObj [])))"

definition coverage_of :: "json \<Rightarrow> rat res" where
  "coverage_of content =
     bindR (jget content ''coverage_percent'') (\<lambda>c. py_float (por c (JInt 0)))"

definition decision_menu_gaps :: "string \<Rightarrow> json list \<Rightarrow> string list res" where
  "decision_menu_gaps preset mission_artifacts =
     (if preset = ''unattended_conservative'' then Inr [] else
        bindR (first_of_kind ''decision_menu'' mission_artifacts) (\<lambda>menu.
        (if menu = JNull then Inr [''decision menu coverage is unavailable''] else
        bindR (jget menu ''content'') (\<lambda>c.
        (let content = por c (JObj []) in
        bindR (jget content ''anticipated_forks'') (\<lambda>a.
        bindR (py_int (por a (JInt 0))) (\<lambda>anticipated.
        bindR (jget content ''entries'') (\<lambda>entries.
        bindR (coverage_of content) (\<lambda>coverage.
        bindR ((if anticipated = 0 then Inr 0 else py_len (por entries (JList [])))) (\<lambda>count.
        (if anticipated \<noteq> 0 \<and> int count < anticipated
          then Inr [''decision menu does not cover every anticipated fork''] else
        (let required = (if preset \<in> {''unattended_maximal'', ''custom''} then 100 else 80) in
        Inr (if coverage < required
             then [''decision menu coverage '' @ format_g coverage @ ''% is below required ''
                   @ format_g required @ ''%'']
             else [])))))))))))))"

section \<open>The report\<close>

definition gaps_of_work_unit :: "json \<Rightarrow> string \<times> json \<Rightarrow> string list res" where
  "gaps_of_work_unit ceilings = (\<lambda>(work_unit_id, work_unit).
     bindR (jin (JStr work_unit_id) ceilings) (work_unit_readiness_gaps work_unit_id work_unit))"

definition completion_targets :: "(string \<times> string) list" where
  "completion_targets =
     [(''unattended_conservative'', ''verified_work_unit_branch''),
      (''unattended_extended'', ''verified_integration_branch''),
      (''unattended_maximal'', ''verified_release_candidate''),
      (''custom'', ''constitution_bounded_custom_target'')]"

definition necessarily_human :: "string list" where
  "necessarily_human =
     [''product_decisions'', ''constitution_changes'', ''protected_branch_merge'', ''production_actions'',
      ''G2'', ''G3'', ''G4'']"

definition readiness_gaps ::
  "string \<Rightarrow> (string \<times> json) list \<Rightarrow> json \<Rightarrow> json \<Rightarrow> json list \<Rightarrow> string list res" where
  "readiness_gaps preset work_unit_documents ceilings grant mission_artifacts =
     bindR (mapR (gaps_of_work_unit ceilings) work_unit_documents) (\<lambda>unit_gaps.
        bindR (mission_artifact_gaps preset mission_artifacts) (\<lambda>artifact_gaps.
        bindR (decision_menu_gaps preset mission_artifacts) (\<lambda>menu_gaps.
        bindR (budget_gaps grant) (\<lambda>grant_gaps.
        Inr (concat unit_gaps @ artifact_gaps @ menu_gaps @ grant_gaps)))))"

definition build_unattended_readiness_report ::
  "string \<Rightarrow> (string \<times> json) list \<Rightarrow> json \<Rightarrow> json \<Rightarrow> json list \<Rightarrow> json res" where
  "build_unattended_readiness_report preset work_unit_documents execution_ceilings_by_work_unit grant
     mission_artifacts =
     (let ceilings = por execution_ceilings_by_work_unit (JObj []) in
        bindR (readiness_gaps preset work_unit_documents ceilings grant mission_artifacts) (\<lambda>gaps.
        bindR (filterR (\<lambda>wu. bindR (gaps_of_work_unit ceilings wu) (\<lambda>g. Inr (g = [])))
                            work_unit_documents) (\<lambda>eligible_units.
        (let eligible = length eligible_units in
        (let total = length work_unit_documents in
        bindR (first_of_kind ''decision_menu'' mission_artifacts) (\<lambda>decision_artifact.
        bindR (content_of decision_artifact) (\<lambda>decision_content.
        bindR (coverage_of decision_content) (\<lambda>coverage.
        bindR (first_of_kind ''execution_envelope'' mission_artifacts) (\<lambda>execution_artifact.
        bindR (content_of execution_artifact) (\<lambda>execution_content.
        bindR (jget execution_content ''manual_confirmation_commands'') (\<lambda>mc.
        bindR (jiter (por mc (JList []))) (\<lambda>manual_commands.
        Inr (JObj
          [(''preset'', JStr preset), (''ready'', JBool (gaps = [])), (''gaps'', JList (map JStr gaps)),
           (''work_unit_ids'', JList (map JStr (sort (map fst work_unit_documents)))),
           (''eligible_work_units_percent'',
              JFloat (round2 (if total = 0 then 0 else of_nat eligible / of_nat total * 100))),
           (''anticipated_fork_coverage_percent'', JFloat coverage),
           (''commands_requiring_manual_confirmation'', JList manual_commands),
           (''estimated_blocking_probability_percent'', JFloat (max 0 (min 100 (100 - coverage)))),
           (''maximum_realistic_delivery_target'',
              (case map_of completion_targets preset of None \<Rightarrow> JNull | Some t \<Rightarrow> JStr t)),
           (''decisions_remaining_human'', JList (map JStr necessarily_human))])))))))))))))"

section \<open>Lemmas\<close>

text \<open>What it takes for a Work Unit, an artifact kind and a grant to leave no gap.\<close>

definition unit_is_ready :: "json \<Rightarrow> string \<times> json \<Rightarrow> bool" where
  "unit_is_ready ceilings = (\<lambda>(work_unit_id, work_unit).
     (\<exists>ob risk sc. work_unit = JObj ob
        \<and> por (oget ob ''risk'') (JObj []) = JObj risk \<and> truthy (oget risk ''class'')
        \<and> por (oget ob ''scope'') (JObj []) = JObj sc \<and> truthy (oget sc ''include''))
     \<and> jin (JStr work_unit_id) ceilings = Inr True)"

lemma unit_without_gaps: "gaps_of_work_unit ceilings wu = Inr [] \<Longrightarrow> unit_is_ready ceilings wu"
  by (cases wu)
     (auto simp: gaps_of_work_unit_def unit_is_ready_def work_unit_readiness_gaps_def jget_eq_Inr
           split: if_splits)

lemma kind_without_gap:
  assumes "kind_gap preset by_kind kind = Inr []"
  shows "\<exists>a. (JStr kind, a) \<in> set by_kind
           \<and> (preset \<in> set APPROVAL_PRESETS \<longrightarrow> is_approved a = Inr True)"
proof -
  let ?cs = "map snd (filter (\<lambda>(k, _). k = JStr kind) by_kind)"
  have ne: "?cs \<noteq> []" using assms by (auto simp: kind_gap_def)
  show ?thesis
  proof (cases "preset \<in> set APPROVAL_PRESETS")
    case True
    then have "anyR is_approved ?cs = Inr True"
      using assms ne by (auto simp: kind_gap_def Let_def split: if_splits)
    then obtain a where "a \<in> set ?cs" "is_approved a = Inr True" using anyR_True by blast
    then show ?thesis by force
  next
    case False
    obtain a where "a \<in> set ?cs" using ne by (metis list.set_sel(1))
    with False show ?thesis by force
  qed
qed

lemma mapR_concat_Nil:
  assumes "mapR f xs = Inr yss" "concat yss = []" "x \<in> set xs"
  shows "f x = Inr []"
  using assms by (induction xs arbitrary: yss) auto

lemma artifact_of_kind:
  assumes "mapR artifact_kind arts = Inr kinds" "(k, a) \<in> set (zip kinds arts)"
  shows "a \<in> set arts \<and> jitem a ''kind'' = Inr k"
  using assms
proof (induction arts arbitrary: kinds)
  case (Cons x xs)
  then show ?case by (cases kinds) (auto simp: artifact_kind_def)
qed simp

text \<open>
  What a decision menu must cover: an entry for every anticipated fork, and the percentage of the preset;
  the conservative preset needs none.
\<close>

definition menu_covers :: "string \<Rightarrow> json list \<Rightarrow> bool" where
  "menu_covers preset artifacts =
     (preset = ''unattended_conservative'' \<or>
      (\<exists>menu body anticipated coverage. first_of_kind ''decision_menu'' artifacts = Inr menu \<and> menu \<noteq> JNull
        \<and> jget menu ''content'' = Inr body
        \<and> bindR (jget (por body (JObj [])) ''anticipated_forks'') (\<lambda>a. py_int (por a (JInt 0))) = Inr anticipated
        \<and> (anticipated = 0 \<or> (\<exists>count. bindR (jget (por body (JObj [])) ''entries'') (\<lambda>es. py_len (por es (JList []))) = Inr count
             \<and> anticipated \<le> int count))
        \<and> coverage_of (por body (JObj [])) = Inr coverage
        \<and> (if preset \<in> {''unattended_maximal'', ''custom''} then 100 else 80) \<le> coverage))"

lemma gap_or_none: "(if b then Inr [g] else r) = Inr [] \<longleftrightarrow> \<not> b \<and> r = Inr []" "Inr (if b then [g] else []) = Inr [] \<longleftrightarrow> \<not> b"
  by auto

lemma menu_without_gap:
  assumes "decision_menu_gaps preset artifacts = Inr []"
  shows "menu_covers preset artifacts"
proof (cases "preset = ''unattended_conservative''")
  case False
  from assms False obtain menu body a anticipated es coverage count where m:
      "first_of_kind ''decision_menu'' artifacts = Inr menu" "menu \<noteq> JNull" "jget menu ''content'' = Inr body"
      "jget (por body (JObj [])) ''anticipated_forks'' = Inr a" "py_int (por a (JInt 0)) = Inr anticipated"
      "jget (por body (JObj [])) ''entries'' = Inr es" "coverage_of (por body (JObj [])) = Inr coverage"
      "(if anticipated = 0 then Inr 0 else py_len (por es (JList []))) = Inr count" "\<not> (anticipated \<noteq> 0 \<and> int count < anticipated)"
      "\<not> coverage < (if preset \<in> {''unattended_maximal'', ''custom''} then 100 else 80)"
    unfolding decision_menu_gaps_def Let_def if_not_P [OF False] bindR_eq_Inr gap_or_none by blast
  have "anticipated = 0 \<or> (\<exists>count. bindR (jget (por body (JObj [])) ''entries'') (\<lambda>es. py_len (por es (JList []))) = Inr count
      \<and> anticipated \<le> int count)" using m(6,8,9) by auto
  moreover have "bindR (jget (por body (JObj [])) ''anticipated_forks'') (\<lambda>a. py_int (por a (JInt 0))) = Inr anticipated"
    using m(4,5) by simp
  moreover have "(if preset \<in> {''unattended_maximal'', ''custom''} then 100 else 80) \<le> coverage" using m(10) by simp
  ultimately show ?thesis unfolding menu_covers_def using m(1-3,7) by blast
qed (simp add: menu_covers_def)

text \<open>A readiness that leaves no gap: every Work Unit closed, every required artifact there, the menu complete.\<close>

definition run_is_ready ::
  "string \<Rightarrow> (string \<times> json) list \<Rightarrow> json \<Rightarrow> json \<Rightarrow> json list \<Rightarrow> bool" where
  "run_is_ready preset units ceilings grant artifacts =
     ((\<forall>wu \<in> set units. unit_is_ready ceilings wu)
      \<and> (\<forall>kind \<in> set (required_kinds preset). \<exists>a \<in> set artifacts. jitem a ''kind'' = Inr (JStr kind)
           \<and> (preset \<in> set APPROVAL_PRESETS \<longrightarrow> is_approved a = Inr True))
      \<and> menu_covers preset artifacts
      \<and> (jget grant ''maximum_spend'' \<noteq> Inr JNull \<or> jget grant ''maximum_duration_hours'' \<noteq> Inr JNull))"

lemma no_gaps_ready:
  assumes "readiness_gaps preset units ceilings grant artifacts = Inr []"
  shows "run_is_ready preset units ceilings grant artifacts"
proof -
  obtain ug ag where parts: "mapR (gaps_of_work_unit ceilings) units = Inr ug" "concat ug = []"
      "mission_artifact_gaps preset artifacts = Inr []" "budget_gaps grant = Inr []" "decision_menu_gaps preset artifacts = Inr []"
    using assms by (auto simp: readiness_gaps_def simp del: concat_eq_Nil_conv)
  have u: "\<forall>wu \<in> set units. unit_is_ready ceilings wu"
    using mapR_concat_Nil [OF parts(1,2)] unit_without_gaps by blast
  obtain kinds gs where k: "mapR artifact_kind artifacts = Inr kinds"
      "mapR (kind_gap preset (zip kinds artifacts)) (required_kinds preset) = Inr gs" "concat gs = []"
    using parts(3) by (auto simp: mission_artifact_gaps_def simp del: concat_eq_Nil_conv)
  have a: "\<forall>kind \<in> set (required_kinds preset). \<exists>a \<in> set artifacts. jitem a ''kind'' = Inr (JStr kind)
           \<and> (preset \<in> set APPROVAL_PRESETS \<longrightarrow> is_approved a = Inr True)"
    using mapR_concat_Nil [OF k(2,3)] kind_without_gap artifact_of_kind [OF k(1)] by metis
  have b: "jget grant ''maximum_spend'' \<noteq> Inr JNull \<or> jget grant ''maximum_duration_hours'' \<noteq> Inr JNull"
    using parts(4) by (auto simp: budget_gaps_def split: if_splits)
  show ?thesis using u a b menu_without_gap [OF parts(5)] by (simp add: run_is_ready_def)
qed

lemma report_ready:
  assumes "build_unattended_readiness_report preset units ceilings grant artifacts = Inr report"
    and "jitem report ''ready'' = Inr (JBool True)"
  shows "readiness_gaps preset units (por ceilings (JObj [])) grant artifacts = Inr []"
  using assms by (auto simp: build_unattended_readiness_report_def Let_def)

end
