(* ===== verification/MorningReport.thy ===== *)
theory MorningReport
  imports PyValue
begin

text \<open>
  The morning report of a Run (\<open>core/domain/run/morning_report.py\<close>): a summary of the records that
  were persisted, grouped by structural filters. Work Unit documents are an association list from
  id to document, \<open>None\<close> where no document was found.
\<close>

section \<open>Fields of records\<close>

definition DONE_STATUSES :: "string list" where "DONE_STATUSES = [''human_test'', ''done'']"
definition PAUSED_STATUSES :: "string list" where "PAUSED_STATUSES = [''waiting_decision'', ''blocked'']"
definition CANCELLED_STATUSES :: "string list" where "CANCELLED_STATUSES = [''cancelled'']"

text \<open>A dictionary whose values are \<open>d.get(source)\<close>, under the names on the left.\<close>

definition pick :: "json \<Rightarrow> (string \<times> string) list \<Rightarrow> obj res" where
  "pick d fields = mapR (\<lambda>(name, source). bindR (jget d source) (\<lambda>v. Inr (name, v))) fields"

definition has_value :: "json \<Rightarrow> string \<Rightarrow> json \<Rightarrow> bool res" where
  "has_value d k v = bindR (jget d k) (\<lambda>x. Inr (py_eq x v))"

definition attempts_for_work_unit :: "json list \<Rightarrow> json \<Rightarrow> json list res" where
  "attempts_for_work_unit attempts work_unit_id =
     filterR (\<lambda>a. has_value a ''work_unit_id'' work_unit_id) attempts"

definition evidence_of :: "json \<Rightarrow> json res" where
  "evidence_of d = bindR (jget d ''evidence'') (\<lambda>e. Inr (por e (JList [])))"

definition is_resolved :: "json \<Rightarrow> bool res" where
  "is_resolved d = bindR (jget d ''resolved'') (\<lambda>r. Inr (truthy r))"

section \<open>Work Units\<close>

datatype report_line = Completed json | Paused json | Cancelled json | NotFound json | Unlisted

definition pending_decision :: "json \<Rightarrow> json res" where
  "pending_decision d =
     bindR (jitem d ''id'') (\<lambda>i.
        bindR (pick d [(''trigger'', ''trigger''), (''proposed_entry_id'', ''proposed_entry_id''),
                          (''rejection_reason'', ''rejection_reason'')]) (\<lambda>fields.
        bindR (evidence_of d) (\<lambda>evidence.
        Inr (JObj ((''decision_id'', i) # fields @ [(''evidence'', evidence)])))))"

definition report_line_of :: "(string \<times> json) list \<Rightarrow> json list \<Rightarrow> json list \<Rightarrow> json \<Rightarrow> report_line res" where
  "report_line_of work_unit_documents attempts decisions work_unit_id =
     bindR (dict_get (JObj work_unit_documents) work_unit_id) (\<lambda>wu_document.
        (if wu_document = JNull then Inr (NotFound work_unit_id) else
        bindR (jget wu_document ''status'') (\<lambda>status.
        bindR (attempts_for_work_unit attempts work_unit_id) (\<lambda>wu_attempts.
        bindR (in_strs status DONE_STATUSES) (\<lambda>done.
        bindR (in_strs status PAUSED_STATUSES) (\<lambda>paused.
        bindR (in_strs status CANCELLED_STATUSES) (\<lambda>cancelled.
        (let head = [(''work_unit_id'', work_unit_id), (''status'', status)] in
        (if done then bindR (filterR (\<lambda>a. has_value a ''status'' (JStr ''succeeded'')) wu_attempts) (\<lambda>succeeded.
                         bindR (mapR (\<lambda>a. jitem a ''id'') succeeded) (\<lambda>ids.
                         Inr (Completed (JObj (head @ [(''successful_attempts'', JList ids)])))))
         else if paused then bindR (filterR (\<lambda>d. andR (has_value d ''work_unit_id'' work_unit_id)
                                                  (bindR (is_resolved d) (\<lambda>r. Inr (\<not> r)))) decisions) (\<lambda>own.
                         bindR (mapR pending_decision own) (\<lambda>pending.
                         Inr (Paused (JObj (head @ [(''pending_decisions'', JList pending)])))))
         else if cancelled then bindR (jget wu_document ''outcomes'') (\<lambda>o1.
                         bindR (jget (por o1 (JObj [])) ''review_status'') (\<lambda>reason.
                         Inr (Cancelled (JObj (head @ [(''reason'', reason)])))))
         else Inr Unlisted)))))))))"

section \<open>Decisions, escalations, anomalies\<close>

definition automatic_resolution :: "json \<Rightarrow> json res" where
  "automatic_resolution d =
     bindR (jitem d ''id'') (\<lambda>i.
        bindR (pick d [(''work_unit_id'', ''work_unit_id''), (''proposed_entry_id'', ''proposed_entry_id''),
                          (''authorized_option_id'', ''authorized_option_id''),
                          (''decision_menu_version'', ''decision_menu_version'')]) (\<lambda>fields.
        bindR (evidence_of d) (\<lambda>evidence.
        bindR (jget d ''resolved_at'') (\<lambda>resolved_at.
        Inr (JObj ((''decision_id'', i) # fields @ [(''evidence'', evidence), (''resolved_at'', resolved_at)]))))))"

definition ceiling_escalation :: "json \<Rightarrow> json res" where
  "ceiling_escalation e =
     bindR (pick e (map (\<lambda>k. (k, k)) [''work_unit_id'', ''dimension'', ''previous_state'', ''new_state'',
                                      ''reason'', ''escalated_at'']))
       (\<lambda>fields. Inr (JObj fields))"

definition event_detail :: "json \<Rightarrow> string \<Rightarrow> json res" where
  "event_detail event k =
     bindR (jget event ''details'') (\<lambda>d. jget (por d (JObj [])) k)"

definition risk_escalation :: "json \<Rightarrow> json res" where
  "risk_escalation event =
     bindR (jget event ''work_unit'') (\<lambda>work_unit.
        bindR (event_detail event ''previous_risk_class'') (\<lambda>previous.
        bindR (event_detail event ''new_risk_class'') (\<lambda>new.
        bindR (event_detail event ''reason'') (\<lambda>reason.
        bindR (jget event ''created_at'') (\<lambda>created_at.
        Inr (JObj [(''work_unit_id'', work_unit), (''previous_risk_class'', previous),
                   (''new_risk_class'', new), (''reason'', reason), (''escalated_at'', created_at)]))))))"

definition fencing_reassignment :: "json \<Rightarrow> json res" where
  "fencing_reassignment lease =
     bindR (pick lease [(''work_unit_id'', ''work_unit_id''), (''superseded_lease_id'', ''id''),
                        (''superseded_by'', ''superseded_by'')]) (\<lambda>fields. Inr (JObj fields))"

definition blocker_event :: "json \<Rightarrow> json res" where
  "blocker_event event =
     bindR (pick event [(''event_id'', ''id''), (''work_unit'', ''work_unit''), (''summary'', ''summary''),
                        (''details'', ''details'')]) (\<lambda>fields. Inr (JObj fields))"

text \<open>A list comprehension with a filter.\<close>

definition collect_if :: "(json \<Rightarrow> bool res) \<Rightarrow> (json \<Rightarrow> json res) \<Rightarrow> json list \<Rightarrow> json list res" where
  "collect_if p f xs = bindR (filterR p xs) (mapR f)"

section \<open>The report\<close>

record records =
  rec_attempts :: "json list"
  rec_leases :: "json list"
  rec_decisions :: "json list"
  rec_escalations :: "json list"
  rec_events :: "json list"
  rec_integration_merges :: "json list"
  rec_release_candidates :: "json list"

definition build_morning_report :: "json \<Rightarrow> (string \<times> json) list \<Rightarrow> records \<Rightarrow> json res" where
  "build_morning_report run_document work_unit_documents rs =
     bindR (jget run_document ''work_unit_ids'') (\<lambda>w.
        bindR (jiter (por w (JList []))) (\<lambda>ids.
        bindR (mapR (report_line_of work_unit_documents (rec_attempts rs) (rec_decisions rs)) ids) (\<lambda>lines.
        bindR (collect_if is_resolved automatic_resolution (rec_decisions rs)) (\<lambda>resolutions.
        bindR (mapR ceiling_escalation (rec_escalations rs)) (\<lambda>tightened.
        bindR (collect_if (\<lambda>ev. has_value ev ''type'' (JStr ''RISK_ESCALATION'')) risk_escalation (rec_events rs)) (\<lambda>raised.
        bindR (collect_if (\<lambda>l. has_value l ''status'' (JStr ''superseded'')) fencing_reassignment (rec_leases rs)) (\<lambda>reassigned.
        bindR (collect_if (\<lambda>ev. has_value ev ''type'' (JStr ''BLOCKER'')) blocker_event (rec_events rs)) (\<lambda>blockers.
        bindR (pick run_document [(''run_id'', ''id''), (''status'', ''status''),
                                         (''stop_condition'', ''stop_condition'')]) (\<lambda>run_fields.
        Inr (JObj (run_fields @
          [(''completed_work_units'', JList [j. Completed j \<leftarrow> lines]),
           (''paused_work_units'', JList [j. Paused j \<leftarrow> lines]),
           (''cancelled_work_units'', JList [j. Cancelled j \<leftarrow> lines]),
           (''unknown_work_units'', JList [j. NotFound j \<leftarrow> lines]),
           (''automatic_decision_resolutions'', JList resolutions),
           (''risk_escalations'', JList (tightened @ raised)),
           (''anomalies'', JObj [(''fencing_reassignments'', JList reassigned),
                                (''blocker_events'', JList blockers)]),
           (''integration_merges'', JList (rec_integration_merges rs)),
           (''release_candidates'', JList (rec_release_candidates rs))])))))))))))"

end
