(* ===== verification/RunLifecycle.thy ===== *)
theory RunLifecycle
  imports AttemptCommands Readiness MorningReport
begin

text \<open>
  Opening and closing a Run (\<open>core/commands/handlers/open_run.py\<close> and \<open>close_run.py\<close>). Ids that
  become dictionary keys are strings, as the schemas demand; another value raises a
  \<open>TypeError\<close> here.
\<close>

section \<open>Loading documents\<close>

definition str_key :: "json \<Rightarrow> string res" where
  "str_key k = (case k of JStr s \<Rightarrow> Inr s | _ \<Rightarrow> Inl TypeError)"

definition load_work_unit :: "store \<Rightarrow> json \<Rightarrow> (string \<times> json) res" where
  "load_work_unit s work_unit_id =
     bindR (read_yaml_or JNull s (work_unit_path work_unit_id)) (\<lambda>doc.
        bindR (str_key work_unit_id) (\<lambda>key.
        Inr (key, doc)))"

definition load_work_units :: "store \<Rightarrow> json list \<Rightarrow> (string \<times> json) list res" where
  "load_work_units s ids =
     bindR (mapR (load_work_unit s) ids) (\<lambda>kvs. Inr (fold (\<lambda>(k, v). AList.update k v) kvs []))"

section \<open>OpenRun\<close>

definition mission_artifact_path :: "json \<Rightarrow> string" where
  "mission_artifact_path i = ''mission-artifacts/'' @ py_str i @ ''.json''"

text \<open>The ceiling of a Work Unit: the default one, overridden by what the command requests.\<close>

definition resolve_ceiling :: "json \<Rightarrow> json \<Rightarrow> (string \<times> json) res" where
  "resolve_ceiling requested_ceilings work_unit_id =
     bindR (dict_get requested_ceilings work_unit_id) (\<lambda>requested.
        bindR (as_obj (por requested (JObj []))) (\<lambda>overrides.
        (let ceiling = JObj (set_keys overrides DEFAULT_EXECUTION_CEILING) in
        bindR (validate_execution_ceiling ceiling) (\<lambda>violation.
        (if violation \<noteq> None then gateway_error INVARIANT_VIOLATION ''/payload/execution_ceilings_by_work_unit'' else
        bindR (str_key work_unit_id) (\<lambda>key.
        Inr (key, ceiling)))))))"

definition resolve_ceilings :: "json \<Rightarrow> json list \<Rightarrow> obj res" where
  "resolve_ceilings requested_ceilings ids =
     bindR (mapR (resolve_ceiling requested_ceilings) ids)
       (\<lambda>kvs. Inr (fold (\<lambda>(k, v). AList.update k v) kvs []))"

text \<open>The preset of the Run: requested, or of its grant, or of the project profile.\<close>

definition profile_preset :: "store \<Rightarrow> json res" where
  "profile_preset s =
     (if \<not> is_file s ''project-profile.yaml'' then Inr JNull else
        bindR (read_yaml s ''project-profile.yaml'') (\<lambda>doc.
        bindR (jget (por doc (JObj [])) ''autonomy'') (\<lambda>autonomy.
        (case resolve_project_preset (por autonomy (JObj [])) of
           Inl (ValueError _) \<Rightarrow> gateway_error INVARIANT_VIOLATION ''/payload/autonomy_preset''
         | Inl e \<Rightarrow> Inl e
         | Inr p \<Rightarrow> Inr (JStr p)))))"

definition run_preset :: "store \<Rightarrow> json \<Rightarrow> json \<Rightarrow> json res" where
  "run_preset s payload grant_document =
     bindR (jget payload ''autonomy_preset'') (\<lambda>requested.
        bindR ((if truthy requested then Inr JNull else jget grant_document ''autonomy_preset'')) (\<lambda>granted.
        (let preset = por requested granted in
        (if preset = JNull then profile_preset s else
        Inr preset))))"

text \<open>A mission artifact of the grant: still there, and unchanged since the grant was issued.\<close>

definition load_granted_artifact :: "env \<Rightarrow> store \<Rightarrow> json \<Rightarrow> json \<Rightarrow> json res" where
  "load_granted_artifact env s grant_document artifact_id =
     (if \<not> is_file s (mission_artifact_path artifact_id)
          then gateway_error INVARIANT_VIOLATION ''/run_authorization/grant_id'' else
        bindR (read_json s (mission_artifact_path artifact_id)) (\<lambda>artifact.
        bindR (jget grant_document ''mission_artifact_hashes'') (\<lambda>h.
        bindR (dict_get (por h (JObj [])) artifact_id) (\<lambda>expected_hash.
        bindR (compute_artifact_hash (sha env) artifact) (\<lambda>actual.
        (if expected_hash \<noteq> JStr actual
          then gateway_error INVARIANT_VIOLATION ''/run_authorization/grant_id'' else
        Inr artifact))))))"

definition authorized_ceilings :: "json list \<Rightarrow> json res" where
  "authorized_ceilings mission_artifacts =
     bindR (first_of_kind ''execution_envelope'' mission_artifacts) (\<lambda>execution_artifact.
        (if execution_artifact = JNull then Inr JNull else
        bindR (jget execution_artifact ''content'') (\<lambda>content.
        jget (por content (JObj [])) ''execution_ceilings_by_work_unit'')))"

text \<open>What an unattended Run needs; the effective policy of the grant and its hash.\<close>

definition check_unattended ::
  "env \<Rightarrow> store \<Rightarrow> json \<Rightarrow> json list \<Rightarrow> json \<Rightarrow> string \<Rightarrow> (json \<times> json) res" where
  "check_unattended env s grant_document ids requested_ceilings preset =
     bindR (jget grant_document ''autonomy_preset'') (\<lambda>granted.
        (if JStr preset \<noteq> granted then gateway_error UNAUTHORIZED ''/payload/autonomy_preset'' else
        bindR (load_work_units s ids) (\<lambda>work_units.
        bindR (jget grant_document ''mission_artifact_ids'') (\<lambda>a.
        bindR (jiter (por a (JList []))) (\<lambda>artifact_ids.
        bindR (mapR (load_granted_artifact env s grant_document) artifact_ids) (\<lambda>mission_artifacts.
        bindR (authorized_ceilings mission_artifacts) (\<lambda>authorized.
        (if authorized = JNull \<or> \<not> py_eq requested_ceilings authorized
          then gateway_error UNAUTHORIZED ''/payload/execution_ceilings_by_work_unit'' else
        bindR (build_unattended_readiness_report preset work_units requested_ceilings grant_document
                       mission_artifacts) (\<lambda>readiness.
        bindR (jitem readiness ''ready'') (\<lambda>ready.
        (if \<not> truthy ready then gateway_error INVARIANT_VIOLATION ''/payload/autonomy_preset'' else
        bindR (jitem grant_document ''effective_autonomy_policy'') (\<lambda>policy.
        bindR (jitem grant_document ''effective_autonomy_policy_hash'') (\<lambda>policy_hash.
        Inr (policy, policy_hash))))))))))))))"

definition check_preflight :: "json \<Rightarrow> unit res" where
  "check_preflight preflight =
     bindR (blocking_preflight_checks preflight) (\<lambda>blocking.
        (if blocking \<noteq> [] then gateway_error INVARIANT_VIOLATION ''/payload/preflight'' else
        Inr ()))"

definition new_run_document :: "env \<Rightarrow> json \<Rightarrow> obj \<Rightarrow> obj" where
  "new_run_document env run_id payload =
     set_defaults
       [(''closed_at'', JNull), (''closed_reason'', JNull), (''stop_condition'', JNull),
        (''maximum_attempts_per_step'', JInt DEFAULT_MAXIMUM_ATTEMPTS_PER_STEP),
        (''maximum_remediation_cycles'', JInt DEFAULT_MAXIMUM_REMEDIATION_CYCLES),
        (''maximum_parallel_workers'', JInt DEFAULT_MAXIMUM_PARALLEL_WORKERS),
        (''integration_branch'', JStr (''integration/'' @ py_str run_id))]
       (set_keys [(''revision'', JInt 1), (''created_at'', now_iso env), (''updated_at'', now_iso env)]
          (set_defaults [(''status'', JStr ''pending''), (''leases_by_work_unit'', JObj [])]
             (set_keys [(''id'', run_id)] payload)))"

definition count_use :: "json \<Rightarrow> json res" where
  "count_use grant_document =
     bindR (jget_or grant_document ''uses_count'' (JInt 0)) (\<lambda>used.
        bindR (py_succ used) (\<lambda>uses.
        jset grant_document ''uses_count'' uses))"

definition handle_open_run :: "env \<Rightarrow> store \<Rightarrow> json \<Rightarrow> reply res" where
  "handle_open_run env s envelope =
     bindR (target_id envelope) (\<lambda>run_id.
        bindR (jitem envelope ''payload'') (\<lambda>payload.
        (if is_file s (run_path run_id) then gateway_error ALREADY_EXISTS ''/target/id'' else
        bindR (jitem payload ''preflight'') (\<lambda>preflight.
        bindR (check_preflight preflight) (\<lambda>_.
        bindR (as_obj payload) (\<lambda>fields.
        (let document = new_run_document env run_id fields in
        bindR (jget payload ''execution_ceilings_by_work_unit'') (\<lambda>r.
        (let requested_ceilings = por r (JObj []) in
        bindR (jitem (JObj document) ''work_unit_ids'') (\<lambda>w.
        bindR (jiter w) (\<lambda>ids.
        bindR (resolve_ceilings requested_ceilings ids) (\<lambda>resolved_ceilings.
        (let document1 = set_keys [(''execution_ceilings_by_work_unit'', JObj resolved_ceilings)] document in
        bindR (jitem (JObj document1) ''status'') (\<lambda>status.
        bindR (in_strs status [''pending'', ''active'']) (\<lambda>initial.
        (if \<not> initial then gateway_error INVALID_SCHEMA ''/payload/status'' else
        bindR (jitem envelope ''run_authorization'') (\<lambda>ra.
        bindR (jitem ra ''grant_id'') (\<lambda>grant_id.
        bindR (read_json s (grant_path grant_id)) (\<lambda>grant_document.
        bindR (run_preset s payload grant_document) (\<lambda>autonomy_preset.
        bindR (in_strs autonomy_preset UNATTENDED_PRESETS) (\<lambda>unattended.
        bindR ((if unattended
           then check_unattended env s grant_document ids requested_ceilings (py_str autonomy_preset)
           else Inr (JNull, JNull))) (\<lambda>(policy, policy_hash).
        bindR (count_use grant_document) (\<lambda>grant1.
        (let document2 = set_keys
           [(''effective_autonomy_policy'', policy), (''effective_autonomy_policy_hash'', policy_hash),
            (''autonomy_preset'', por autonomy_preset (JStr ''supervised_copilots'')),
            (''run_authorization_grant_id'', grant_id)] document1 in
        bindR (validate_against_schema env (JObj document2) ''run.schema.json'' []) (\<lambda>_.
        Inr (reply_of
          [JObj [(''kind'', JStr ''run''), (''id'', run_id), (''revision'', JInt 1), (''status'', status)]]
          [(grant_path grant_id, grant1), (run_path run_id, JObj document2)]))))))))))))))))))))))))))"

section \<open>CloseRun\<close>

definition STOPPING_STATUSES :: "string list" where
  "STOPPING_STATUSES = [''stopped'', ''failed'']"

text \<open>A lease of a stopped Run: revoked when it is there and active.\<close>

definition revoke_lease :: "env \<Rightarrow> store \<Rightarrow> json \<Rightarrow> json \<Rightarrow> (string \<times> json) list res" where
  "revoke_lease env s stop_condition lease_ref =
     bindR (jitem lease_ref ''lease_id'') (\<lambda>lease_id.
        (if \<not> is_file s (lease_path lease_id) then Inr [] else
        bindR (read_yaml s (lease_path lease_id)) (\<lambda>lease.
        bindR (jget lease ''status'') (\<lambda>status.
        (if status \<noteq> JStr ''active'' then Inr [] else
        bindR (jset3 lease (''status'', JStr ''revoked'') (''released_at'', now_iso env)
                    (''release_reason'', JStr (''run stopped: '' @ py_str stop_condition))) (\<lambda>lease1.
        Inr [(lease_path lease_id, lease1)]))))))"

definition revoke_leases :: "env \<Rightarrow> store \<Rightarrow> json \<Rightarrow> json \<Rightarrow> (string \<times> json) list res" where
  "revoke_leases env s stop_condition document =
     bindR (jget document ''leases_by_work_unit'') (\<lambda>l.
        bindR (as_obj (por l (JObj []))) (\<lambda>refs.
        bindR (mapR (revoke_lease env s stop_condition) (map snd refs)) (\<lambda>revoked.
        Inr (concat revoked))))"

text \<open>The readable dictionaries of a directory; damaged files are skipped.\<close>

definition yaml_item :: "store \<Rightarrow> string \<Rightarrow> json option" where
  "yaml_item s p =
     (case read_yaml s p of
        Inr j \<Rightarrow> (if is_dict (por j (JObj [])) then Some (por j (JObj [])) else None)
      | Inl _ \<Rightarrow> None)"

definition load_yaml_dir :: "store \<Rightarrow> json \<Rightarrow> string \<Rightarrow> json list res" where
  "load_yaml_dir s run_id relative =
     filterR (\<lambda>item. if relative = ''events'' then Inr True else has_value item ''run_id'' run_id)
       (List.map_filter (yaml_item s) (glob_yaml s relative))"

definition event_of_run :: "json \<Rightarrow> json \<Rightarrow> bool res" where
  "event_of_run run_id event =
     bindR (event_detail event ''run_id'') (\<lambda>own.
        (if py_eq own run_id then Inr True else
        bindR (jget event ''type'') (\<lambda>ty.
        in_strs ty [''BLOCKER'', ''RISK_ESCALATION''])))"

definition records_of_run :: "store \<Rightarrow> json \<Rightarrow> records res" where
  "records_of_run s run_id =
     bindR (load_yaml_dir s run_id ''runs/execution-attempts'') (\<lambda>run_attempts.
        bindR (load_yaml_dir s run_id ''runs/leases'') (\<lambda>run_leases.
        bindR (load_yaml_dir s run_id ''runs/decisions'') (\<lambda>run_decisions.
        bindR (load_yaml_dir s run_id ''events'') (\<lambda>all_events.
        bindR (filterR (event_of_run run_id) all_events) (\<lambda>run_events.
        bindR (load_yaml_dir s run_id ''runs/integration-merges'') (\<lambda>merges.
        bindR (load_yaml_dir s run_id ''runs/release-candidates'') (\<lambda>candidates.
        Inr \<lparr>rec_attempts = run_attempts, rec_leases = run_leases, rec_decisions = run_decisions, rec_escalations = [],
             rec_events = run_events, rec_integration_merges = merges, rec_release_candidates = candidates\<rparr>)))))))"

definition morning_report_path :: "json \<Rightarrow> string" where
  "morning_report_path run_id = ''runs/morning-reports/'' @ py_str run_id @ ''.json''"

definition stop_event :: "env \<Rightarrow> json \<Rightarrow> json \<Rightarrow> json \<Rightarrow> string \<times> json" where
  "stop_event env run_id stop_condition reason =
     (let event_id = ''EVT-'' @ stamp (now env) @ ''-RUN-STOP-'' @ py_str run_id in
      (event_id, JObj
        [(''id'', JStr event_id), (''type'', JStr ''BLOCKER''), (''work_unit'', JNull),
         (''created_at'', now_iso env), (''created_by_role'', JStr ''run-reliability-controller''),
         (''summary'', JStr (''Run '' @ py_str run_id @ '' stopped entirely: '' @ py_str stop_condition @ ''.'')),
         (''details'', JObj [(''run_id'', run_id), (''stop_condition'', stop_condition), (''reason'', reason)]),
         (''affected_nodes'', JList [JObj [(''kind'', JStr ''run''), (''id'', run_id)]]),
         (''requires_human'', JBool True), (''status'', JStr ''open'')]))"

text \<open>The Run document with its final status.\<close>

definition close_document ::
  "env \<Rightarrow> json \<Rightarrow> json \<Rightarrow> json \<Rightarrow> json \<Rightarrow> json \<Rightarrow> json res" where
  "close_document env document to_status revision reason stop_condition =
     bindR (as_obj document) (\<lambda>ob.
 Inr (JObj (set_keys
          [(''status'', to_status), (''revision'', revision), (''closed_at'', now_iso env),
           (''closed_reason'', reason), (''stop_condition'', stop_condition),
           (''updated_at'', now_iso env)] ob)))"

definition handle_close_run :: "env \<Rightarrow> store \<Rightarrow> json \<Rightarrow> reply res" where
  "handle_close_run env s envelope =
     bindR (target_id envelope) (\<lambda>run_id.
        bindR (expected_revision envelope) (\<lambda>expected.
        bindR (jitem envelope ''payload'') (\<lambda>payload.
        bindR (payload_item envelope ''status'') (\<lambda>to_status.
        bindR (load_or_not_found s (run_path run_id) ''/target/id'') (\<lambda>document.
        bindR (jget document ''id'') (\<lambda>own_id.
        (if \<not> py_eq own_id run_id then gateway_error INVARIANT_VIOLATION ''/target/id'' else
        bindR (check_revision document expected) (\<lambda>current.
        bindR (jget document ''status'') (\<lambda>current_status.
        bindR (run_is_transition_allowed current_status to_status) (\<lambda>allowed.
        (if \<not> allowed then gateway_error INVALID_TRANSITION ''/payload/status'' else
        bindR (jget payload ''stop_condition'') (\<lambda>stop_condition.
        bindR (in_strs to_status STOPPING_STATUSES) (\<lambda>stopping.
        bindR ((if stopping then in_strs stop_condition GLOBAL_STOP_CONDITIONS else Inr True)) (\<lambda>recognized.
        (if \<not> recognized then gateway_error INVALID_SCHEMA ''/payload/stop_condition'' else
        bindR (py_succ current) (\<lambda>revision.
        bindR (jget payload ''reason'') (\<lambda>reason.
        bindR (close_document env document to_status revision reason
                       (if stopping then stop_condition else JNull)) (\<lambda>document1.
        bindR ((if stopping then revoke_leases env s stop_condition document1 else Inr [])) (\<lambda>revoked.
        bindR (jget document1 ''work_unit_ids'') (\<lambda>w.
        bindR (jiter (por w (JList []))) (\<lambda>ids.
        bindR (load_work_units s ids) (\<lambda>work_units.
        bindR (records_of_run s run_id) (\<lambda>records_read.
        bindR (build_morning_report document1 work_units records_read) (\<lambda>morning_report.
        (let domain_events = (if stopping then [stop_event env run_id stop_condition reason] else []) in
        Inr \<lparr>r_affected = [JObj [(''kind'', JStr ''run''), (''id'', run_id), (''revision'', revision),
                                 (''status'', to_status)]],
             r_details = JNull, r_events = map fst domain_events,
             r_writes = revoked @ [(run_path run_id, document1), (morning_report_path run_id, morning_report)]
               @ map (\<lambda>(i, ev). (event_path i, ev)) domain_events\<rparr>)))))))))))))))))))))))))"

end
