(* ===== verification/PathPolicy.thy ===== *)
theory PathPolicy
  imports PyText PyValue
begin

text \<open>
  Which paths a worker may change: the control-plane prefixes and the sanitizing of granted
  patterns (\<open>core/domain/run/path_policy.py\<close>) and the classification of the files a worker
  changed against the scope of its Work Unit (\<open>core/orchestrator/boundary.py\<close>).
\<close>

section \<open>Control-plane paths\<close>

definition PROTECTED_PATH_PREFIXES :: "string list" where
  "PROTECTED_PATH_PREFIXES =
     [''.ai-team/constitution/'', ''.ai-team/schemas/'', ''.ai-team/contracts/'',
      ''.ai-team/run-authorization-grants/'', ''.ai-team/runs/'', ''.ai-team/state/'',
      ''.ai-team/supervisor/'']"

definition CONTROL_PLANE_ONLY_PATH_PREFIXES :: "string list" where
  "CONTROL_PLANE_ONLY_PATH_PREFIXES = PROTECTED_PATH_PREFIXES @ [''.ai-team/work-units/'']"

fun drop_dot_slash :: "string \<Rightarrow> string" where
  "drop_dot_slash (a # b # s) =
     (if a = CHR ''.'' \<and> b = CHR ''/'' then drop_dot_slash s else a # b # s)"
| "drop_dot_slash s = s"

definition normalize_repo_path :: "string \<Rightarrow> string" where
  "normalize_repo_path path =
     lstrip_char (CHR ''/'') (drop_dot_slash (replace_char (char_of (92 :: nat)) (CHR ''/'') path))"

text \<open>The part of a pattern before its first wildcard.\<close>

definition wildcard_positions :: "string \<Rightarrow> nat list" where
  "wildcard_positions pattern = List.map_filter (\<lambda>c. find_char c pattern) ''*?[''"

definition static_prefix :: "string \<Rightarrow> string" where
  "static_prefix pattern =
     (case wildcard_positions pattern of [] \<Rightarrow> pattern | n # ns \<Rightarrow> take (fold min ns n) pattern)"

definition overlaps_control_plane :: "string \<Rightarrow> bool" where
  "overlaps_control_plane pattern =
     list_ex (\<lambda>prefix. startswith (static_prefix pattern) prefix
                \<or> fnmatchcase (prefix @ ''__boundary_probe__'') pattern)
       CONTROL_PLANE_ONLY_PATH_PREFIXES"

fun sanitize_loop :: "string list \<Rightarrow> json list \<Rightarrow> string list" where
  "sanitize_loop sanitized [] = sanitized"
| "sanitize_loop sanitized (raw_pattern # rest) =
     (let pattern = strip (normalize_repo_path (py_str raw_pattern)) in
      if pattern = [] \<or> overlaps_control_plane pattern \<or> pattern \<in> set sanitized
      then sanitize_loop sanitized rest
      else sanitize_loop (sanitized @ [pattern]) rest)"

definition sanitize_allowed_paths :: "json list \<Rightarrow> string list" where
  "sanitize_allowed_paths patterns = sanitize_loop [] patterns"

section \<open>Changed files\<close>

definition path_is_allowed :: "string \<Rightarrow> string list \<Rightarrow> bool" where
  "path_is_allowed path patterns =
     list_ex (\<lambda>raw_pattern.
       let normalized = normalize_repo_path path; pattern = normalize_repo_path raw_pattern in
       pattern \<noteq> []
       \<and> (endswith pattern ''/'' \<and> startswith normalized pattern \<or> fnmatchcase normalized pattern))
       patterns"

text \<open>\<open>s.split("/")\<close>.\<close>

fun split_slash :: "string \<Rightarrow> string list" where
  "split_slash [] = [[]]"
| "split_slash (c # s) =
     (if c = CHR ''/'' then [] # split_slash s
      else (case split_slash s of [] \<Rightarrow> [[c]] | p # ps \<Rightarrow> (c # p) # ps))"

definition is_path_scope_pattern :: "string \<Rightarrow> bool" where
  "is_path_scope_pattern pattern =
     (let text = strip (replace_char (char_of (92 :: nat)) (CHR ''/'') pattern) in
      if text = [] then False
      else if CHR '' '' \<in> set text \<and> \<not> list_ex (\<lambda>ch. ch \<in> set text) ''*?[]'' then False
      else if list_ex (\<lambda>ch. ch \<in> set text) (char_of (92 :: nat) # ''/*?[]'') then True
      else if startswith text ''.'' then True
      else if CHR ''.'' \<in> set (last (split_slash text)) then True
      else text = lower text)"

definition path_scope_patterns :: "json list \<Rightarrow> string list" where
  "path_scope_patterns entries = filter is_path_scope_pattern (map py_str entries)"

definition BUILD_OUTPUT_DIR_NAMES :: "string list" where
  "BUILD_OUTPUT_DIR_NAMES =
     [''target'', ''node_modules'', ''__pycache__'', ''.pytest_cache'', ''.mypy_cache'', ''.ruff_cache'',
      ''surefire-reports'', ''.gradle'', ''.next'', ''.nuxt'', ''.output'', ''.turbo'', ''.parcel-cache'',
      ''.vite'', ''.angular'', ''.svelte-kit'', ''coverage'', ''.nyc_output'', ''storybook-static'']"

definition PACKAGED_BINARY_SUFFIXES :: "string list" where
  "PACKAGED_BINARY_SUFFIXES =
     [''.jar'', ''.war'', ''.ear'', ''.whl'', ''.egg'', ''.nupkg'', ''.apk'', ''.aab'', ''.wasm'', ''.so'',
      ''.dylib'', ''.dll'', ''.exe'', ''.o'', ''.a'', ''.lib'', ''.pyc'', ''.pyo'', ''.class'']"

definition is_build_output_path :: "string \<Rightarrow> bool" where
  "is_build_output_path path =
     list_ex (\<lambda>part. part \<noteq> [] \<and> part \<noteq> ''.'' \<and> part \<noteq> ''..'' \<and> part \<in> set BUILD_OUTPUT_DIR_NAMES)
       (split_slash (normalize_repo_path path))"

text \<open>\<open>Path(p).name\<close>: the last component; empty and \<open>.\<close> components do not count.\<close>

definition path_name :: "string \<Rightarrow> string" where
  "path_name p = (case rev (filter (\<lambda>part. part \<noteq> [] \<and> part \<noteq> ''.'') (split_slash p)) of
     [] \<Rightarrow> [] | n # _ \<Rightarrow> n)"

definition is_packaged_binary_path :: "string \<Rightarrow> bool" where
  "is_packaged_binary_path path =
     (let name = lower (path_name (normalize_repo_path path)) in
      list_ex (\<lambda>suffix. endswith name suffix) PACKAGED_BINARY_SUFFIXES)"

definition governed_output_patterns :: "string \<Rightarrow> string list" where
  "governed_output_patterns work_unit_id =
     (let wu = strip work_unit_id in
      [''.ai-team/evidence/'' @ wu @ ''/**'', ''.ai-team/evidence/'' @ wu @ ''/*'',
       ''.ai-team/evidence/'' @ wu @ ''/'', ''.ai-team/runtime-results/**'',
       ''.ai-team/runtime-results/*''])"

definition is_forbidden_governance_mutation :: "string \<Rightarrow> bool" where
  "is_forbidden_governance_mutation path =
     list_ex (\<lambda>prefix. startswith (normalize_repo_path path) prefix) CONTROL_PLANE_ONLY_PATH_PREFIXES"

definition is_governed_output :: "string \<Rightarrow> string \<Rightarrow> bool" where
  "is_governed_output path work_unit_id = path_is_allowed path (governed_output_patterns work_unit_id)"

datatype path_class =
    forbidden_governance | ignored_build_output | allowed_governed | forbidden_exclude
  | forbidden_scope | forbidden_envelope | forbidden_role_scope | allowed_product

text \<open>Entries that are blank do not restrict; without a role scope that axis does not apply.\<close>

definition non_blank :: "json list \<Rightarrow> string list" where
  "non_blank xs = filter (\<lambda>s. strip s \<noteq> []) (map py_str xs)"

definition classify_changed_path ::
  "string \<Rightarrow> string \<Rightarrow> json list \<Rightarrow> json list \<Rightarrow> json list \<Rightarrow> json list option \<Rightarrow> path_class" where
  "classify_changed_path path work_unit_id scope_include scope_exclude allowed_paths role_write_paths =
     (let include = path_scope_patterns scope_include;
          exclude = path_scope_patterns scope_exclude;
          envelope = non_blank allowed_paths;
          role_scope = map_option non_blank role_write_paths
      in if is_forbidden_governance_mutation path then forbidden_governance
         else if is_build_output_path path then ignored_build_output
         else if is_governed_output path work_unit_id then allowed_governed
         else if exclude \<noteq> [] \<and> path_is_allowed path exclude then forbidden_exclude
         else if include \<noteq> [] \<and> \<not> path_is_allowed path include then forbidden_scope
         else if envelope \<noteq> [] \<and> \<not> path_is_allowed path envelope then forbidden_envelope
         else (case role_scope of
                 Some rs \<Rightarrow> if \<not> path_is_allowed path rs then forbidden_role_scope else allowed_product
               | None \<Rightarrow> allowed_product))"

text \<open>The files of a class, as the message lists them.\<close>

definition files_of :: "(string \<Rightarrow> path_class) \<Rightarrow> path_class \<Rightarrow> string list \<Rightarrow> string list" where
  "files_of kind k files = filter (\<lambda>path. kind path = k) files"

definition report_files :: "string \<Rightarrow> string list \<Rightarrow> (string \<times> string) option" where
  "report_files label files =
     (if files = [] then None
      else Some (label @ '' writes detected: '' @ py_repr (JList (map JStr files)), ''out_of_workspace_write''))"

definition boundary_error_for_changed_files ::
  "string list \<Rightarrow> string \<Rightarrow> json \<Rightarrow> json list \<Rightarrow> json list option \<Rightarrow> (string \<times> string) option res" where
  "boundary_error_for_changed_files files work_unit_id wu_document allowed_paths role_write_paths =
     bindR (jget wu_document ''scope'') (\<lambda>sc.
     bindR (jget (por sc (JObj [])) ''include'') (\<lambda>inc.
     bindR (jget (por sc (JObj [])) ''exclude'') (\<lambda>exc.
     bindR (if files = [] then Inr [] else jiter (por inc (JList []))) (\<lambda>scope_include.
     bindR (if files = [] then Inr [] else jiter (por exc (JList []))) (\<lambda>scope_exclude.
       let kind = (\<lambda>path. classify_changed_path path work_unit_id scope_include scope_exclude
                            allowed_paths role_write_paths)
       in thenR (Inr (report_files ''forbidden governance'' (files_of kind forbidden_governance files)))
         (thenR (Inr (report_files ''scope.exclude'' (files_of kind forbidden_exclude files)))
         (thenR (Inr (report_files ''out-of-scope'' (files_of kind forbidden_scope files)))
         (thenR (Inr (report_files ''out-of-envelope'' (files_of kind forbidden_envelope files)))
                (Inr (report_files ''out-of-role-scope'' (files_of kind forbidden_role_scope files)))))))))))"

section \<open>Lemmas\<close>

lemma map_filter_in: "n \<in> set (List.map_filter f xs) \<longleftrightarrow> (\<exists>x \<in> set xs. f x = Some n)"
  by (induction xs) (auto simp: List.map_filter_simps split: option.splits)

lemma fold_min_le: "fold min ns (n :: nat) \<le> n \<and> (\<forall>m \<in> set ns. fold min ns n \<le> m)"
proof (induction ns arbitrary: n)
  case (Cons a ns)
  from Cons.IH [of "min a n"] show ?case by auto
qed simp

text \<open>The static prefix holds no wildcard, and is the whole pattern when it has none.\<close>

lemma static_prefix_split:
  "\<exists>rest. pattern = static_prefix pattern @ rest"
proof (cases "wildcard_positions pattern")
  case (Cons n ns)
  then show ?thesis
    by (auto simp: static_prefix_def intro: exI [of _ "drop (fold min ns n) pattern"])
qed (simp add: static_prefix_def)

lemma wildcard_position_le:
  assumes "glob_special c" and "c \<in> set pattern"
  shows "\<exists>m \<in> set (wildcard_positions pattern). find_char c pattern = Some m"
proof -
  obtain m where m: "find_char c pattern = Some m"
    using assms(2) find_char_None by (cases "find_char c pattern") auto
  have "c \<in> set ''*?[''" using assms(1) by (auto simp: glob_special_def)
  then have "m \<in> set (wildcard_positions pattern)"
    unfolding wildcard_positions_def map_filter_in using m by blast
  with m show ?thesis by blast
qed

lemma static_prefix_literal: "\<forall>c \<in> set (static_prefix pattern). \<not> glob_special c"
proof (intro ballI notI)
  fix c assume c: "c \<in> set (static_prefix pattern)" and special: "glob_special c"
  have "c \<in> set pattern" using static_prefix_split c by (metis UnI1 set_append)
  from wildcard_position_le [OF special this] obtain m
    where m: "m \<in> set (wildcard_positions pattern)" "find_char c pattern = Some m" by blast
  then obtain n ns where ns: "wildcard_positions pattern = n # ns"
    by (cases "wildcard_positions pattern") auto
  have "fold min ns n \<le> m" using m(1) fold_min_le [of ns n] unfolding ns by auto
  then have "c \<notin> set (take (fold min ns n) pattern)"
    using find_char_Some [OF m(2)] set_take_subset_set_take by (metis subsetD)
  then show False using c ns by (simp add: static_prefix_def)
qed

lemma sanitize_loop_props:
  assumes "distinct acc" "\<forall>p \<in> set acc. p \<noteq> [] \<and> \<not> overlaps_control_plane p"
  shows "distinct (sanitize_loop acc ps)
    \<and> (\<forall>p \<in> set (sanitize_loop acc ps). p \<noteq> [] \<and> \<not> overlaps_control_plane p)"
  using assms
proof (induction ps arbitrary: acc)
  case (Cons x ps)
  define p where "p = strip (normalize_repo_path (py_str x))"
  show ?case
  proof (cases "p = [] \<or> overlaps_control_plane p \<or> p \<in> set acc")
    case True
    then show ?thesis using Cons.IH [OF Cons.prems] by (simp add: p_def)
  next
    case False
    then have "distinct (acc @ [p])" "\<forall>q \<in> set (acc @ [p]). q \<noteq> [] \<and> \<not> overlaps_control_plane q"
      using Cons.prems by auto
    from Cons.IH [OF this] False show ?thesis by (simp add: p_def)
  qed
qed simp

lemma sanitized_pattern: "p \<in> set (sanitize_allowed_paths ps) \<Longrightarrow> p \<noteq> [] \<and> \<not> overlaps_control_plane p"
  using sanitize_loop_props [of "[]" ps] by (simp add: sanitize_allowed_paths_def)

lemma pattern_match_static:
  "fnmatchcase path p \<Longrightarrow> \<exists>r. path = static_prefix p @ r"
  using static_prefix_split [of p] fnmatchcase_prefix [OF static_prefix_literal] by metis

lemma report_files_None [simp]: "report_files l xs = None \<longleftrightarrow> xs = []"
  by (simp add: report_files_def)

lemma files_of_Nil [simp]: "files_of kind k files = [] \<longleftrightarrow> (\<forall>f \<in> set files. kind f \<noteq> k)"
  by (auto simp: files_of_def filter_empty_conv)

lemma classify_governance: "is_forbidden_governance_mutation path \<Longrightarrow>
    classify_changed_path path w inc exc al ro = forbidden_governance"
  by (simp add: classify_changed_path_def Let_def)

lemma path_is_allowed_Nil [simp]: "\<not> path_is_allowed path []"
  by (simp add: path_is_allowed_def)

section \<open>Properties\<close>

text \<open>
  A sanitized pattern reaches a control-plane path only through a wildcard inside the protected
  prefix itself: when it matches a path under such a prefix, what stands before its first wildcard
  is a proper prefix of that prefix. In particular a pattern without wildcards matches none.
\<close>

theorem sanitized_pattern_reaches_control_plane_by_wildcard:
  assumes "p \<in> set (sanitize_allowed_paths patterns)"
    and "prefix \<in> set CONTROL_PLANE_ONLY_PATH_PREFIXES"
    and "startswith path prefix" and "fnmatchcase path p"
  shows "\<exists>r. r \<noteq> [] \<and> prefix = static_prefix p @ r \<and> static_prefix p \<noteq> p
            \<and> \<not> fnmatchcase (prefix @ ''__boundary_probe__'') p"
proof -
  have clean: "\<not> startswith (static_prefix p) prefix"
      "\<not> fnmatchcase (prefix @ ''__boundary_probe__'') p"
    using sanitized_pattern [OF assms(1)] assms(2)
    by (auto simp: overlaps_control_plane_def list_ex_iff)
  obtain r where r: "path = static_prefix p @ r" using pattern_match_static [OF assms(4)] by blast
  obtain q where q: "path = prefix @ q" using assms(3) by (auto simp: startswith_iff)
  have "\<exists>u. u \<noteq> [] \<and> prefix = static_prefix p @ u"
  proof -
    have "\<not> (\<exists>u. static_prefix p = prefix @ u)" using clean(1) by (auto simp: startswith_iff)
    then show ?thesis using r q by (metis append_Nil2 append_eq_append_conv2)
  qed
  then obtain u where u: "u \<noteq> []" "prefix = static_prefix p @ u" by blast
  have "static_prefix p \<noteq> p"
  proof
    assume "static_prefix p = p"
    then have "path = p"
      using assms(4) static_prefix_literal [of p] fnmatchcase_literal by metis
    then show False using u q \<open>static_prefix p = p\<close> by simp
  qed
  with u clean(2) show ?thesis by blast
qed

theorem sanitized_pattern_reaches_control_plane_by_wildcard_witness:
  "\<exists>r. r \<noteq> [] \<and> ''.ai-team/runs/'' = static_prefix ''.ai-team/r*s/x.yaml'' @ r
     \<and> static_prefix ''.ai-team/r*s/x.yaml'' \<noteq> ''.ai-team/r*s/x.yaml''
     \<and> \<not> fnmatchcase (''.ai-team/runs/'' @ ''__boundary_probe__'') ''.ai-team/r*s/x.yaml''"
  by (rule sanitized_pattern_reaches_control_plane_by_wildcard
        [of _ "[JStr ''.ai-team/r*s/x.yaml'']" _ "''.ai-team/runs/x.yaml''"])
     (code_simp | simp)+

text \<open>
  Normalizing is not idempotent, and the sanitizer runs it before it strips blanks: a pattern
  with a leading blank passes the sanitizer, and the boundary, which normalizes it once more, then
  lets it match a Run document.
\<close>

theorem blank_prefixed_pattern_escapes_sanitizer:
  "sanitize_allowed_paths [JStr '' ./.ai-team/runs/x''] = [''./.ai-team/runs/x'']
   \<and> path_is_allowed ''.ai-team/runs/x'' (sanitize_allowed_paths [JStr '' ./.ai-team/runs/x''])"
  by (rule conjI; code_simp)



end
