(* ===== verification/AreaFilter.thy ===== *)
theory AreaFilter
  imports PyText
begin

text \<open>
  The area filter of a run authorization grant (\<open>domain/run/area_filter.py\<close>): which
  Work Units a grant may dispatch by their \<open>zone.area\<close>, and when a Work Unit waits only
  for Work Units outside the filter.
\<close>

section \<open>Definitions\<close>

definition FILTERABLE_AREAS :: "string list" where
  "FILTERABLE_AREAS =
     [''frontend'', ''backend'', ''fullstack'', ''mobile'', ''infra'', ''data'']"

definition AREA_FILTER_DEPENDENCY_POLICIES :: "string list" where
  "AREA_FILTER_DEPENDENCY_POLICIES = [''skip_blocked'', ''stop_on_cross_area_dependency'']"

definition DEFAULT_AREA_FILTER_DEPENDENCY_POLICY :: string where
  "DEFAULT_AREA_FILTER_DEPENDENCY_POLICY = ''skip_blocked''"

definition work_unit_area :: "json \<Rightarrow> string res" where
  "work_unit_area work_unit =
     (if \<not> truthy work_unit then Inr ''unknown''
      else bindR (jget work_unit ''zone'') (\<lambda>zone.
           bindR (jget (por zone (JObj [])) ''area'') (\<lambda>a.
           let area = lower (py_str (por a (JStr ''unknown'')))
           in Inr (if area = [] then ''unknown'' else area))))"

definition grant_allowed_areas :: "json \<Rightarrow> string list option res" where
  "grant_allowed_areas grant =
     bindR (jget grant ''allowed_areas'') (\<lambda>raw.
       case raw of
         JList items \<Rightarrow> Inr (Some (map (\<lambda>item. lower (py_str item)) items))
       | _ \<Rightarrow> Inr None)"

definition area_filter_active :: "json \<Rightarrow> bool res" where
  "area_filter_active grant =
     bindR (grant_allowed_areas grant) (\<lambda>allowed. Inr (allowed \<noteq> None))"

definition area_filter_dependency_policy :: "json \<Rightarrow> string res" where
  "area_filter_dependency_policy grant =
     bindR (jget grant ''area_filter_dependency_policy'') (\<lambda>raw.
       Inr (if raw = JNull then DEFAULT_AREA_FILTER_DEPENDENCY_POLICY else py_str raw))"

definition is_area_eligible :: "json \<Rightarrow> json \<Rightarrow> bool res" where
  "is_area_eligible work_unit grant =
     bindR (grant_allowed_areas grant) (\<lambda>allowed.
       case allowed of
         None \<Rightarrow> Inr True
       | Some areas \<Rightarrow>
           bindR (work_unit_area work_unit) (\<lambda>area.
             if area = ''unknown'' \<or> area \<notin> set FILTERABLE_AREAS then Inr False
             else Inr (area \<in> set areas)))"

definition area_ineligibility_reason :: "json \<Rightarrow> json \<Rightarrow> string option res" where
  "area_ineligibility_reason work_unit grant =
     bindR (is_area_eligible work_unit grant) (\<lambda>ok.
       Inr (if ok then None else Some ''area_filter_mismatch''))"

fun normalize_areas_loop :: "string list \<Rightarrow> json list \<Rightarrow> string list res" where
  "normalize_areas_loop normalized [] = Inr normalized"
| "normalize_areas_loop normalized (item # raw) =
     (let area = lower (py_str item)
      in if area = ''unknown'' then Inl (ValueError ''allowed_areas must not include unknown'')
         else if area \<notin> set FILTERABLE_AREAS
           then Inl (ValueError (''unsupported area in allowed_areas: '' @ repr_str area))
         else normalize_areas_loop
                (if area \<in> set normalized then normalized else normalized @ [area]) raw)"

definition normalize_allowed_areas_payload :: "json \<Rightarrow> string list option res" where
  "normalize_allowed_areas_payload raw =
     (case raw of
        JNull \<Rightarrow> Inr None
      | JList items \<Rightarrow>
          if items = [] then Inl (ValueError ''allowed_areas must be non-empty when present'')
          else bindR (normalize_areas_loop [] items) (\<lambda>areas. Inr (Some areas))
      | _ \<Rightarrow> Inl (ValueError ''allowed_areas must be an array when present''))"

definition normalize_dependency_policy_payload :: "json \<Rightarrow> bool \<Rightarrow> string option res" where
  "normalize_dependency_policy_payload raw filter_active =
     (if \<not> filter_active then
        if raw \<noteq> JNull
          then Inl (ValueError ''area_filter_dependency_policy requires allowed_areas'')
          else Inr None
      else if raw = JNull then Inr (Some DEFAULT_AREA_FILTER_DEPENDENCY_POLICY)
      else let policy = py_str raw
           in if policy \<notin> set AREA_FILTER_DEPENDENCY_POLICIES
              then Inl (ValueError (''unsupported area_filter_dependency_policy: '' @ repr_str policy))
              else Inr (Some policy))"

definition dependency_ids :: "json \<Rightarrow> string list res" where
  "dependency_ids work_unit =
     bindR (jget work_unit ''dependencies'') (\<lambda>deps.
     bindR (jiter (por deps (JList []))) (\<lambda>items.
     bindR (mapR (\<lambda>d. if is_str d then Inr d else jget d ''id'') items) (\<lambda>ids.
       Inr (map py_str (filter truthy ids)))))"

definition dependency_satisfied :: "json \<Rightarrow> bool res" where
  "dependency_satisfied dependency_document =
     (if dependency_document = JNull then Inr False
      else bindR (jget dependency_document ''status'') (\<lambda>status.
             in_strs status [''human_test'', ''done'']))"

fun cross_area_loop :: "json \<Rightarrow> obj \<Rightarrow> bool \<Rightarrow> string list \<Rightarrow> bool res" where
  "cross_area_loop grant docs unsatisfied_outside [] = Inr unsatisfied_outside"
| "cross_area_loop grant docs unsatisfied_outside (dependency_id # rest) =
     ifR (dependency_satisfied (oget docs dependency_id))
       (cross_area_loop grant docs unsatisfied_outside rest)
       (ifR (is_area_eligible (oget docs dependency_id) grant)
          (Inr False)
          (cross_area_loop grant docs True rest))"

definition blocked_solely_by_cross_area_dependency :: "json \<Rightarrow> json \<Rightarrow> obj \<Rightarrow> bool res" where
  "blocked_solely_by_cross_area_dependency work_unit grant work_unit_documents =
     bindR (area_filter_active grant) (\<lambda>active.
       if \<not> active then Inr False
       else ifR (is_area_eligible work_unit grant)
              (bindR (dependency_ids work_unit) (\<lambda>ids.
                 cross_area_loop grant work_unit_documents False ids))
              (Inr False))"

section \<open>Normalisation of a requested filter\<close>

lemma normalize_areas_loop_sound:
  "normalize_areas_loop acc items = Inr areas \<Longrightarrow> set acc \<subseteq> set FILTERABLE_AREAS \<Longrightarrow> distinct acc \<Longrightarrow>
   set areas \<subseteq> set FILTERABLE_AREAS \<and> distinct areas \<and>
   set areas = set acc \<union> (\<lambda>item. lower (py_str item)) ` set items"
  by (induction acc items rule: normalize_areas_loop.induct)
     (auto simp: Let_def split: if_splits)

lemma normalize_areas_loop_fixpoint:
  "set areas \<subseteq> set FILTERABLE_AREAS \<Longrightarrow> distinct (acc @ areas) \<Longrightarrow>
   normalize_areas_loop acc (map JStr areas) = Inr (acc @ areas)"
proof (induction areas arbitrary: acc)
  case (Cons a areas)
  then have "a \<in> set FILTERABLE_AREAS" by simp
  then have "lower a = a" and "a \<noteq> ''unknown''"
    by (auto simp: FILTERABLE_AREAS_def lower_def lower_char_def)
  with Cons show ?case by (simp add: Let_def)
qed simp

text \<open>
  A requested area filter that is accepted is normalised to a non-empty list of
  distinct filterable areas, exactly the lower-cased areas of the request, and normalising
  it again changes nothing.
\<close>

theorem normalize_allowed_areas_sound:
  assumes "normalize_allowed_areas_payload (JList items) = Inr (Some areas)"
  shows "areas \<noteq> [] \<and> distinct areas \<and> set areas \<subseteq> set FILTERABLE_AREAS \<and>
         set areas = (\<lambda>item. lower (py_str item)) ` set items \<and>
         normalize_allowed_areas_payload (JList (map JStr areas)) = Inr (Some areas)"
proof -
  from assms have ne: "items \<noteq> []" and loop: "normalize_areas_loop [] items = Inr areas"
    by (auto simp: normalize_allowed_areas_payload_def split: if_splits)
  from normalize_areas_loop_sound [OF loop]
  have *: "set areas \<subseteq> set FILTERABLE_AREAS" "distinct areas"
    "set areas = (\<lambda>item. lower (py_str item)) ` set items" by auto
  with ne have "areas \<noteq> []" by auto
  with * show ?thesis
    using normalize_areas_loop_fixpoint [of areas "[]"]
    by (simp add: normalize_allowed_areas_payload_def)
qed

theorem normalize_allowed_areas_sound_witness:
  "normalize_allowed_areas_payload (JList (map JStr [''backend'', ''data''])) =
     Inr (Some [''backend'', ''data''])"
proof -
  have "normalize_allowed_areas_payload (JList [JStr ''Backend'', JStr ''data'', JStr ''BACKEND'']) =
      Inr (Some [''backend'', ''data''])"
    by code_simp
  from normalize_allowed_areas_sound [OF this] show ?thesis by blast
qed

section \<open>Waiting for another area\<close>

text \<open>A dependency that is satisfied, and one that is not but lies outside the filter.\<close>

definition dep_satisfied :: "obj \<Rightarrow> string \<Rightarrow> bool" where
  "dep_satisfied docs d = (dependency_satisfied (oget docs d) = Inr True)"

definition dep_outside :: "json \<Rightarrow> obj \<Rightarrow> string \<Rightarrow> bool" where
  "dep_outside grant docs d =
     (dependency_satisfied (oget docs d) = Inr False \<and> is_area_eligible (oget docs d) grant = Inr False)"

lemma cross_area_loop_True:
  "cross_area_loop grant docs b ids = Inr True \<longleftrightarrow>
     (\<forall>d \<in> set ids. dep_satisfied docs d \<or> dep_outside grant docs d) \<and>
     (b \<or> (\<exists>d \<in> set ids. dep_outside grant docs d))"
proof (induction ids arbitrary: b)
  case (Cons d ids)
  show ?case
    using Cons.IH by (auto simp: dep_satisfied_def dep_outside_def)
qed simp

lemma missing_dependency_is_outside:
  assumes "grant_allowed_areas grant = Inr (Some areas)" and "oget docs d = JNull"
  shows "dep_outside grant docs d"
  using assms by (simp add: dep_outside_def dependency_satisfied_def is_area_eligible_def
      work_unit_area_def)

text \<open>
  A Work Unit counts as blocked solely by cross-area dependencies exactly when the grant
  filters areas, the Work Unit itself is inside the filter, none of its unsatisfied
  dependencies is inside, and at least one is unsatisfied.
\<close>

theorem blocked_solely_by_cross_area_iff:
  assumes "grant_allowed_areas grant = Inr (Some areas)"
    and "is_area_eligible work_unit grant = Inr e"
    and "dependency_ids work_unit = Inr ids"
  shows "blocked_solely_by_cross_area_dependency work_unit grant docs = Inr True \<longleftrightarrow>
           e \<and> (\<forall>d \<in> set ids. dep_satisfied docs d \<or> dep_outside grant docs d)
             \<and> (\<exists>d \<in> set ids. dep_outside grant docs d)"
  using assms
  by (cases e) (simp_all add: blocked_solely_by_cross_area_dependency_def area_filter_active_def
      cross_area_loop_True)

theorem blocked_solely_by_cross_area_iff_witness:
  "blocked_solely_by_cross_area_dependency
     (JObj [(''zone'', JObj [(''area'', JStr ''backend'')]),
            (''dependencies'', JList [JStr ''WU-1'', JStr ''WU-2''])])
     (JObj [(''allowed_areas'', JList [JStr ''backend''])])
     [(''WU-1'', JObj [(''status'', JStr ''done'')])] = Inr True"
    (is "blocked_solely_by_cross_area_dependency ?wu ?g ?docs = _")
proof -
  have g: "grant_allowed_areas ?g = Inr (Some [''backend''])"
    by (simp add: grant_allowed_areas_def lower_def lower_char_def)
  have e: "is_area_eligible ?wu ?g = Inr True"
    by (simp add: is_area_eligible_def g work_unit_area_def por_def lower_def lower_char_def
        FILTERABLE_AREAS_def)
  have d: "dependency_ids ?wu = Inr [''WU-1'', ''WU-2'']"
    by (simp add: dependency_ids_def por_def)
  have "dep_satisfied ?docs ''WU-1''"
    by (simp add: dep_satisfied_def dependency_satisfied_def)
  moreover have "dep_outside ?g ?docs ''WU-2''"
    by (rule missing_dependency_is_outside [OF g]) simp
  ultimately show ?thesis
    unfolding blocked_solely_by_cross_area_iff [OF g e d] by simp
qed

end
