(* ===== verification/RunAuthorization.thy ===== *)
theory RunAuthorization
  imports HumanAuthorization Grant AreaFilter
begin

text \<open>
  The authorization of a command before its handler runs: the grant a Run is bound to
  (\<open>core/commands/run_authorization.py\<close>) and the role of the actor
  (\<open>core/commands/authorization.py\<close>). The active contract bundle is a parameter: its role
  documents by file name, or the exception that its resolution raises.
\<close>

section \<open>Run authorization grants\<close>

definition PROTECTED_ENVIRONMENTS :: "string list" where
  "PROTECTED_ENVIRONMENTS = [''staging'', ''production'']"

definition REQUIRED_UNATTENDED_COMMANDS :: "string list" where
  "REQUIRED_UNATTENDED_COMMANDS =
     [''OpenRun'', ''AcquireWorkerLease'', ''RecordExecutionAttempt'', ''WriteCheckpoint'', ''CloseRun'',
      ''ResolveRunDecision'', ''TightenExecutionCeiling'', ''EscalateWorkUnitRisk'',
      ''RecordWorkerHeartbeat'', ''ReleaseWorkerLease'', ''TransitionWorkUnit'']"

definition RUN_SCOPED_COMMANDS :: "string list" where
  "RUN_SCOPED_COMMANDS =
     [''OpenRun'', ''AcquireWorkerLease'', ''RecordExecutionAttempt'', ''WriteCheckpoint'', ''CloseRun'',
      ''ResolveRunDecision'', ''TightenExecutionCeiling'', ''EscalateWorkUnitRisk'',
      ''RecordIntegrationMerge'', ''RecordWorkerHeartbeat'', ''ReleaseWorkerLease'',
      ''TransitionWorkUnit'', ''RegisterReleaseCandidate'']"

definition TARGET_IS_RUN_ID_COMMANDS :: "string list" where
  "TARGET_IS_RUN_ID_COMMANDS = [''CloseRun'', ''TightenExecutionCeiling'', ''EscalateWorkUnitRisk'']"

text \<open>\<open>None\<close> (here \<open>JNull\<close>) for a grant without a file.\<close>

definition load_grant :: "store \<Rightarrow> json \<Rightarrow> json res" where
  "load_grant s grant_id =
     (if is_file s (grant_path grant_id) then read_json s (grant_path grant_id) else Inr JNull)"

text \<open>\<open>v in set(xs)\<close>, \<open>set(xs or [])\<close>, and \<open>sorted\<close> of a set, which compares its elements.\<close>

definition in_set :: "json \<Rightarrow> json list \<Rightarrow> bool res" where
  "in_set v xs = (if hashable v then Inr (mem_list v xs) else Inl TypeError)"

definition get_set :: "json \<Rightarrow> string \<Rightarrow> json list res" where
  "get_set d k = bindR (jget d k) (\<lambda>v.
 jset_of (por v (JList [])))"

definition sort_set :: "json list \<Rightarrow> json list res" where
  "sort_set xs =
     (let ys = remdups xs in
      if length ys \<le> 1 then Inr ys
      else if list_all is_str ys then Inr (map JStr (sort (map py_str ys)))
      else if list_all (\<lambda>y. num_of y \<noteq> None) ys then Inr (sort_key (\<lambda>y. the (num_of y)) ys)
      else Inl TypeError)"

definition check_work_unit_area :: "store \<Rightarrow> json \<Rightarrow> json \<Rightarrow> unit res" where
  "check_work_unit_area s grant work_unit_id =
     (if \<not> is_file s (work_unit_path work_unit_id) then           gateway_error UNAUTHORIZED ''/payload/work_unit_ids'' else
        bindR (read_yaml s (work_unit_path work_unit_id)) (\<lambda>doc.
        bindR (is_area_eligible (por doc (JObj [])) grant) (\<lambda>eligible.
        (if \<not> eligible then gateway_error UNAUTHORIZED ''/payload/work_unit_ids'' else
        Inr ()))))"

definition authorize_open_run :: "env \<Rightarrow> store \<Rightarrow> json \<Rightarrow> unit res" where
  "authorize_open_run env s envelope =
     bindR (jget envelope ''run_authorization'') (\<lambda>ra.
        bindR (jget (por ra (JObj [])) ''grant_id'') (\<lambda>grant_id.
        bindR (load_grant s grant_id) (\<lambda>grant.
        (if grant = JNull then gateway_error NOT_FOUND ''/run_authorization/grant_id'' else
        bindR (unusable_reason grant (isoformat (now env)) ''OpenRun'') (\<lambda>reason.
        (if reason \<noteq> None then gateway_error UNAUTHORIZED ''/run_authorization/grant_id'' else
        bindR (is_exhausted grant) (\<lambda>exhausted.
        (if exhausted then gateway_error UNAUTHORIZED ''/run_authorization/grant_id'' else
        bindR (jget envelope ''payload'') (\<lambda>payload.
        bindR (get_set (por payload (JObj [])) ''work_unit_ids'') (\<lambda>work_unit_ids.
        bindR (get_set grant ''work_unit_ids'') (\<lambda>granted_ids.
        bindR (sort_set (filter (\<lambda>w. \<not> mem_list w granted_ids) work_unit_ids)) (\<lambda>uncovered.
        (if uncovered \<noteq> [] then gateway_error UNAUTHORIZED ''/payload/work_unit_ids'' else
        bindR (jget grant ''allowed_areas'') (\<lambda>areas.
        (if areas = JNull then Inr () else
        bindR (sort_set work_unit_ids) (\<lambda>ids.
        eachR (check_work_unit_area s grant) ids))))))))))))))))"

text \<open>The Run a command belongs to, by its target or its payload.\<close>

definition command_run_id :: "json \<Rightarrow> string \<Rightarrow> json \<Rightarrow> json res" where
  "command_run_id envelope command_type payload =
     (if command_type \<in> set TARGET_IS_RUN_ID_COMMANDS then target_id envelope else jget payload ''run_id'')"

text \<open>
  Whether a Run went beyond its budget: its maximum duration, spend and tokens, in this order.
  The first that is exceeded decides (an emergency close goes through, anything else is refused).
\<close>

definition duration_exceeded :: "env \<Rightarrow> json \<Rightarrow> json \<Rightarrow> bool res" where
  "duration_exceeded env grant run_document =
     bindR (jget grant ''maximum_duration_hours'') (\<lambda>hours.
        (if hours = JNull then Inr False else
        bindR (jget run_document ''created_at'') (\<lambda>opened_at.
        (if \<not> truthy opened_at then Inr False else
        bindR (iso_value opened_at) (\<lambda>opened.
        bindR (dt_diff (Datetime True (now env)) opened) (\<lambda>elapsed.
        bindR (py_float hours) (\<lambda>h.
        Inr (of_int elapsed \<ge> h * 3600 * 1000000))))))))"

definition spend_exceeded :: "json \<Rightarrow> bool res" where
  "spend_exceeded grant =
     bindR (jget grant ''maximum_spend'') (\<lambda>maximum_spend.
        (if maximum_spend = JNull then Inr False else
        bindR (jget_or grant ''spend_used'' (JInt 0)) (\<lambda>used.
        bindR (py_float used) (\<lambda>u.
        bindR (py_float maximum_spend) (\<lambda>m.
        Inr (u \<ge> m))))))"

definition tokens_exceeded :: "json \<Rightarrow> bool res" where
  "tokens_exceeded grant =
     bindR (jget grant ''maximum_tokens'') (\<lambda>maximum_tokens.
        (if maximum_tokens = JNull then Inr False else
        bindR (jget_or grant ''tokens_used'' (JInt 0)) (\<lambda>used.
        bindR (py_int used) (\<lambda>u.
        bindR (py_int maximum_tokens) (\<lambda>m.
        Inr (u \<ge> m))))))"

definition budget_exceeded :: "env \<Rightarrow> json \<Rightarrow> json \<Rightarrow> bool res" where
  "budget_exceeded env grant run_document =
     orR (duration_exceeded env grant run_document) (orR (spend_exceeded grant) (tokens_exceeded grant))"

text \<open>The scope of a usable grant: commands, environment, Work Unit.\<close>

definition check_grant_scope :: "json \<Rightarrow> json \<Rightarrow> string \<Rightarrow> unit res" where
  "check_grant_scope grant payload command_type =
     bindR (get_set grant ''allowed_commands'') (\<lambda>allowed_commands.
        (if allowed_commands \<noteq> [] \<and> \<not> mem_list (JStr command_type) allowed_commands then           gateway_error UNAUTHORIZED ''/type'' else
        bindR (jget payload ''environment'') (\<lambda>environment.
        bindR ((if \<not> truthy environment then Inr True
          else bindR (get_set grant ''allowed_environments'') (\<lambda>allowed_environments.
               bindR (in_strs environment PROTECTED_ENVIRONMENTS) (\<lambda>is_protected.
               bindR (in_set environment allowed_environments) (\<lambda>is_allowed.
               Inr (\<not> is_protected \<and> is_allowed)))))) (\<lambda>environment_ok.
        (if \<not> environment_ok then gateway_error UNAUTHORIZED ''/payload/environment'' else
        bindR (jget payload ''work_unit_id'') (\<lambda>work_unit_id.
        bindR ((if \<not> truthy work_unit_id then Inr True
          else bindR (get_set grant ''work_unit_ids'') (in_set work_unit_id))) (\<lambda>covered.
        (if \<not> covered then gateway_error UNAUTHORIZED ''/payload/work_unit_id'' else
        Inr ()))))))))"

definition emergency_close :: "json \<Rightarrow> string \<Rightarrow> bool res" where
  "emergency_close payload command_type =
     (if command_type = ''CloseRun''
      then bindR (jget payload ''status'') (\<lambda>st. in_strs st [''stopped'', ''failed'']) else Inr False)"

definition authorize_existing_run_command :: "env \<Rightarrow> store \<Rightarrow> json \<Rightarrow> string \<Rightarrow> unit res" where
  "authorize_existing_run_command env s envelope command_type =
     bindR (jget envelope ''payload'') (\<lambda>p.
        (let payload = por p (JObj []) in
        bindR (command_run_id envelope command_type payload) (\<lambda>run_id.
        (if \<not> truthy run_id \<or> \<not> is_file s (run_path run_id) then Inr () else
        bindR (read_yaml s (run_path run_id)) (\<lambda>run_document.
        bindR (jget run_document ''run_authorization_grant_id'') (\<lambda>grant_id.
        (if \<not> truthy grant_id then gateway_error INVARIANT_VIOLATION ''/payload/run_id'' else
        bindR (load_grant s grant_id) (\<lambda>grant.
        (if grant = JNull then gateway_error INVARIANT_VIOLATION ''/payload/run_id'' else
        bindR (unusable_reason grant (isoformat (now env)) command_type) (\<lambda>reason.
        bindR (emergency_close payload command_type) (\<lambda>emergency.
        (if reason \<noteq> None \<and> emergency then Inr () else
        (if reason \<noteq> None then gateway_error UNAUTHORIZED ''/payload/run_id'' else
        bindR (check_grant_scope grant payload command_type) (\<lambda>_.
        bindR (budget_exceeded env grant run_document) (\<lambda>exceeded.
        (if exceeded \<and> \<not> emergency then gateway_error UNAUTHORIZED ''/payload/run_id'' else
        Inr ()))))))))))))))))"

definition authorize_run_grant :: "env \<Rightarrow> store \<Rightarrow> json \<Rightarrow> unit res" where
  "authorize_run_grant env s envelope =
     bindR (jitem envelope ''type'') (\<lambda>command_type.
        bindR (in_strs command_type RUN_SCOPED_COMMANDS) (\<lambda>scoped.
        (if \<not> scoped then Inr () else
        (if command_type = JStr ''OpenRun'' then authorize_open_run env s envelope else
        authorize_existing_run_command env s envelope (py_str command_type)))))"

section \<open>Roles\<close>

definition STRICT_DESIGN_HUMAN_COMMANDS :: "string list" where
  "STRICT_DESIGN_HUMAN_COMMANDS = [''SetDesignArtifactAuthority'']"

definition SUPPLEMENTAL_ROLE_COMMANDS :: "(string \<times> string list) list" where
  "SUPPLEMENTAL_ROLE_COMMANDS =
     [(''control-plane'',
        [''ResolveDecisionRequest'', ''RecordGateDecision'', ''RecordAcceptance'',
        ''RecordHumanFeedback'', ''ReconcileHumanFeedback'', ''ExportFeedback'',
        ''SubmitFeedback'', ''OpenRun'', ''AcquireWorkerLease'', ''RecordExecutionAttempt'',
        ''WriteCheckpoint'', ''CloseRun'', ''IssueRunAuthorizationGrant'',
        ''RevokeRunAuthorizationGrant'', ''ResolveRunDecision'', ''TightenExecutionCeiling'',
        ''EscalateWorkUnitRisk'', ''RecordIntegrationMerge'', ''RecordWorkerHeartbeat'',
        ''ReleaseWorkerLease'', ''UpdateProjectProfile'', ''RegisterEnsemble'',
        ''RegisterMember'', ''PinComposition'', ''SetActiveEnsemble'',
        ''RegisterDesignArtifact'', ''SetDesignArtifactAuthority'',
        ''CreateDesignReferenceSet'', ''CompileDesignContract'', ''BindDesignToWorkUnit'',
        ''RecordVisualConformance'', ''ReconcileDesignRevision'']),
      (''backend-developer'',
        [''RegisterEvidence'']),
      (''frontend-developer'',
        [''RegisterEvidence'']),
      (''qa-test'',
        [''RegisterEvidence'']),
      (''visual-qa'',
        [''RegisterEvidence'', ''RecordVisualConformance'']),
      (''product-designer'',
        [''RegisterDesignArtifact'', ''CreateDesignReferenceSet'', ''CompileDesignContract'',
        ''BindDesignToWorkUnit'']),
      (''design-system-steward'',
        [''RegisterDesignArtifact'', ''CompileDesignContract'', ''RecordVisualConformance'']),
      (''auditor'',
        [''RegisterFinding'', ''RecordMissionArtifactChallenge'']),
      (''requirements-challenger'',
        [''RecordMissionArtifactChallenge'']),
      (''mandate-matcher'',
        [''ResolveRunDecision'']),
      (''integration-steward'',
        [''RecordExecutionAttempt'', ''RecordIntegrationMerge'']),
      (''code-reviewer'',
        [''RegisterFinding'']),
      (''security-reviewer'',
        [''RegisterFinding'']),
      (''release-agent'',
        [''RegisterReleaseCandidate'']),
      (''product-analyst'',
        [''RegisterMissionArtifact''])]"

type_synonym role_docs = "(string \<times> json) list"

text \<open>\<open>doc["role_id"]\<close> of every role document.\<close>

definition load_role_ids :: "role_docs \<Rightarrow> json list res" where
  "load_role_ids roles =
     bindR (mapR (\<lambda>(_, doc). jitem doc ''role_id'') roles) (\<lambda>ids.
 jset_of (JList ids))"

definition allowed_commands_for_role :: "role_docs \<Rightarrow> json \<Rightarrow> json list res" where
  "allowed_commands_for_role roles role_id =
     bindR ((case map_of roles (py_str role_id) of
           None \<Rightarrow> Inl (FileNotFoundError (py_str role_id)) | Some d \<Rightarrow> Inr d)) (\<lambda>doc.
        bindR (jitem doc ''writes'') (\<lambda>writes.
        bindR (jitem writes ''authoritative_governance_commands'') (\<lambda>authoritative.
        bindR (jset_of authoritative) (\<lambda>allowed.
        bindR (jitem doc ''writes'') (\<lambda>writes2.
        bindR (jitem writes2 ''non_authoritative_signal_commands'') (\<lambda>non_authoritative.
        bindR (jset_of non_authoritative) (\<lambda>signals.
        bindR (key_of role_id) (\<lambda>key.
        (let extra = (case key of None \<Rightarrow> [] | Some k \<Rightarrow>
            (case map_of SUPPLEMENTAL_ROLE_COMMANDS k of None \<Rightarrow> [] | Some cs \<Rightarrow> cs)) in
        Inr (allowed @ signals @ map JStr extra))))))))))"

text \<open>A registered design artifact needs a human when it is to be authoritative.\<close>

definition requires_design_human :: "json \<Rightarrow> json \<Rightarrow> bool res" where
  "requires_design_human envelope command_type =
     orR (in_strs command_type STRICT_DESIGN_HUMAN_COMMANDS)
       (if command_type \<noteq> JStr ''RegisterDesignArtifact'' then Inr False
        else bindR (jget envelope ''payload'') (\<lambda>payload.
                bindR (jget (por payload (JObj [])) ''authority_level'') (\<lambda>level.
                Inr (py_str (por level (JStr ''advisory'')) = ''authoritative''))))"

text \<open>An authorization that a command submits must not be consumed already.\<close>

definition check_not_consumed :: "store \<Rightarrow> json \<Rightarrow> unit res" where
  "check_not_consumed s envelope =
     bindR (jget envelope ''human_authorization'') (\<lambda>auth.
        (if \<not> truthy auth then Inr () else
        bindR (jget auth ''authorization_id'') (\<lambda>auth_id.
        (if \<not> truthy auth_id then gateway_error INVALID_SCHEMA ''/human_authorization/authorization_id'' else
        (if \<not> is_file s (authorization_path auth_id) then Inr () else
        bindR (read_json s (authorization_path auth_id)) (\<lambda>record_doc.
        bindR (jget record_doc ''consumed_at'') (\<lambda>consumed_at.
        (if truthy consumed_at then gateway_error UNAUTHORIZED ''/human_authorization/authorization_id'' else
        Inr ()))))))))"

definition authorize_command :: "role_docs res \<Rightarrow> env \<Rightarrow> store \<Rightarrow> json \<Rightarrow> unit res" where
  "authorize_command active_bundle env s envelope =
     bindR (jitem envelope ''actor'') (\<lambda>actor.
        bindR (jitem actor ''role_id'') (\<lambda>role_id.
        bindR (jitem envelope ''type'') (\<lambda>command_type.
        bindR ((case active_bundle of
            Inl _ \<Rightarrow> gateway_error UNSUPPORTED_CONTRACT ''/actor/bundle_version'' | Inr b \<Rightarrow> Inr b)) (\<lambda>roles.
        bindR (load_role_ids roles) (\<lambda>known_roles.
        bindR (in_set role_id known_roles) (\<lambda>known.
        (if \<not> known then gateway_error UNAUTHORIZED ''/actor/role_id'' else
        bindR (allowed_commands_for_role roles role_id) (\<lambda>allowed.
        bindR (in_set command_type allowed) (\<lambda>may.
        (if \<not> may then gateway_error UNAUTHORIZED ''/type'' else
        bindR (authorize_run_grant env s envelope) (\<lambda>_.
        bindR (requires_design_human envelope command_type) (\<lambda>needs_human.
        bindR ((if needs_human then bindR (validate_preissued_human_authorization s envelope) (\<lambda>_. Inr ())
         else Inr ())) (\<lambda>_.
        check_not_consumed s envelope)))))))))))))"

end
