(* ===== verification/GrantCommands.thy ===== *)
theory GrantCommands
  imports RunLifecycle PathPolicy RunAuthorization
begin

text \<open>
  Issuing a Run authorization grant
  (\<open>core/commands/handlers/issue_run_authorization_grant.py\<close>).
\<close>

section \<open>The decision menu\<close>

definition menu_pointer :: "nat \<Rightarrow> string" where
  "menu_pointer i = ''/payload/decision_menu/'' @ nat_text i @ ''/id''"

text \<open>The loop over the raw entries, with the ids seen and the entries built so far.\<close>

fun normalize_menu :: "nat \<Rightarrow> json list \<Rightarrow> json list \<Rightarrow> json list \<Rightarrow> json list res" where
  "normalize_menu i seen menu [] = Inr menu"
| "normalize_menu i seen menu (raw_entry # rest) =
     bindR (jget raw_entry ''id'') (\<lambda>entry_id.
        (if \<not> truthy entry_id then gateway_error INVALID_SCHEMA (menu_pointer i) else
        bindR (in_set entry_id seen) (\<lambda>duplicate.
        (if duplicate then gateway_error INVARIANT_VIOLATION (menu_pointer i) else
        bindR (as_obj raw_entry) (\<lambda>fields.
        (let entry = JObj (set_keys [(''uses_count'', JInt 0)] (set_defaults [(''scope'', JObj [])] fields)) in
        normalize_menu (Suc i) (entry_id # seen) (menu @ [entry]) rest))))))"

definition normalized_decision_menu :: "json \<Rightarrow> json list res" where
  "normalized_decision_menu raw_entries = bindR (jiter raw_entries) (normalize_menu 0 [] [])"

section \<open>Mission artifacts\<close>

definition load_bound_artifact :: "store \<Rightarrow> json \<Rightarrow> json \<Rightarrow> json res" where
  "load_bound_artifact s autonomy_preset artifact_id =
     (if \<not> is_file s (mission_artifact_path artifact_id)
          then gateway_error NOT_FOUND ''/payload/mission_artifact_ids'' else
        bindR (read_json s (mission_artifact_path artifact_id)) (\<lambda>artifact.
        bindR ((if autonomy_preset \<noteq> JStr ''unattended_conservative'' then is_approved artifact else Inr True)) (\<lambda>approved.
        (if \<not> approved then gateway_error INVARIANT_VIOLATION ''/payload/mission_artifact_ids'' else
        Inr artifact))))"

text \<open>The menu of the approved artifact replaces the one of the payload, which must not differ.\<close>

definition bound_decision_menu :: "json \<Rightarrow> json list \<Rightarrow> json list \<Rightarrow> json list res" where
  "bound_decision_menu payload mission_artifacts decision_menu =
     bindR (first_of_kind ''decision_menu'' mission_artifacts) (\<lambda>decision_artifact.
        (if decision_artifact = JNull then Inr decision_menu else
        bindR (jget decision_artifact ''content'') (\<lambda>content.
        bindR (jget (por content (JObj [])) ''entries'') (\<lambda>es.
        (let artifact_entries = por es (JList []) in
        bindR (jget payload ''decision_menu'') (\<lambda>supplied_entries.
        (if supplied_entries \<noteq> JNull \<and> \<not> py_eq supplied_entries artifact_entries
          then gateway_error INVARIANT_VIOLATION ''/payload/decision_menu'' else
        normalized_decision_menu artifact_entries)))))))"

definition set_minus :: "json list \<Rightarrow> json list \<Rightarrow> json list" where
  "set_minus xs ys = filter (\<lambda>x. \<not> mem_list x ys) xs"

definition same_set :: "json list \<Rightarrow> json list \<Rightarrow> bool" where
  "same_set xs ys = (set_minus xs ys = [] \<and> set_minus ys xs = [])"

definition check_execution_artifact :: "json \<Rightarrow> json \<Rightarrow> json \<Rightarrow> unit res" where
  "check_execution_artifact payload autonomy_preset execution_artifact =
     (if execution_artifact = JNull then Inr () else
        bindR (jget execution_artifact ''content'') (\<lambda>c.
        (let content = por c (JObj []) in
        bindR (jget content ''execution_ceilings_by_work_unit'') (\<lambda>artifact_ceilings.
        bindR (jitem payload ''work_unit_ids'') (\<lambda>w.
        bindR (jset_of w) (\<lambda>work_unit_ids.
        bindR (jset_of (por artifact_ceilings (JObj []))) (\<lambda>with_ceiling.
        bindR (sort_set (set_minus work_unit_ids with_ceiling)) (\<lambda>missing_ceilings.
        (if missing_ceilings \<noteq> [] then gateway_error INVARIANT_VIOLATION ''/payload/mission_artifact_ids'' else
        bindR (get_set content ''environments'') (\<lambda>artifact_environments.
        bindR (get_set payload ''allowed_environments'') (\<lambda>supplied_environments.
        (if autonomy_preset \<noteq> JNull \<and> \<not> same_set supplied_environments artifact_environments
          then gateway_error INVARIANT_VIOLATION ''/payload/allowed_environments'' else
        Inr ()))))))))))))"

section \<open>Unattended grants\<close>

definition required_commands :: "string \<Rightarrow> string list" where
  "required_commands preset =
     REQUIRED_UNATTENDED_COMMANDS
     @ (if preset \<in> {''unattended_extended'', ''unattended_maximal'', ''custom''}
        then [''RecordIntegrationMerge''] else [])
     @ (if preset \<in> {''unattended_maximal'', ''custom''} then [''RegisterReleaseCandidate''] else [])"

text \<open>\<open>v is None or v <= 0\<close>, which raises for a value that is no number.\<close>

definition not_positive :: "json \<Rightarrow> bool res" where
  "not_positive v =
     (if v = JNull then Inr True
      else case num_of v of None \<Rightarrow> Inl TypeError | Some q \<Rightarrow> Inr (q \<le> 0))"

definition grant_policy :: "json \<Rightarrow> string \<Rightarrow> json res" where
  "grant_policy payload preset =
     bindR (jget payload ''effective_autonomy_policy_overrides'') (\<lambda>overrides.
 (case resolve_effective_policy preset (JInt 4) (JInt 3) (JInt 2) overrides of
           Inl (ValueError _) \<Rightarrow>
             gateway_error INVARIANT_VIOLATION ''/payload/effective_autonomy_policy_overrides''
         | r \<Rightarrow> r))"

definition check_unattended_payload :: "json \<Rightarrow> string \<Rightarrow> unit res" where
  "check_unattended_payload payload preset =
     bindR (get_set payload ''allowed_environments'') (\<lambda>environments.
        (if environments = [] \<or> set_minus environments [JStr ''development'', JStr ''test''] \<noteq> []
          then gateway_error INVARIANT_VIOLATION ''/payload/allowed_environments'' else
        bindR (jget payload ''allowed_commands'') (\<lambda>listed.
        (if \<not> truthy listed then gateway_error INVARIANT_VIOLATION ''/payload/allowed_commands'' else
        bindR (jset_of listed) (\<lambda>commands.
        (if set_minus (map JStr (required_commands preset)) commands \<noteq> []
          then gateway_error INVARIANT_VIOLATION ''/payload/allowed_commands'' else
        bindR (jget payload ''maximum_duration_hours'') (\<lambda>maximum_duration.
        bindR (not_positive maximum_duration) (\<lambda>unbounded.
        (if unbounded then gateway_error INVARIANT_VIOLATION ''/payload/maximum_duration_hours'' else
        bindR (jget payload ''maximum_spend'') (\<lambda>maximum_spend.
        bindR (jget payload ''maximum_tokens'') (\<lambda>maximum_tokens.
        (if maximum_spend = JNull \<and> maximum_tokens = JNull
          then gateway_error INVARIANT_VIOLATION ''/payload/maximum_spend'' else
        Inr ()))))))))))))"

text \<open>The effective policy and its hash; both are \<open>None\<close> without a preset.\<close>

definition resolve_grant_policy :: "env \<Rightarrow> json \<Rightarrow> json \<Rightarrow> (json \<times> json) res" where
  "resolve_grant_policy env payload autonomy_preset =
     (if autonomy_preset = JNull then Inr (JNull, JNull) else
        bindR (in_strs autonomy_preset UNATTENDED_PRESETS) (\<lambda>known.
        (if \<not> known then gateway_error INVALID_SCHEMA ''/payload/autonomy_preset'' else
        (let preset = py_str autonomy_preset in
        bindR (grant_policy payload preset) (\<lambda>policy.
        bindR (check_unattended_payload payload preset) (\<lambda>_.
        Inr (policy, JStr (effective_policy_hash (sha env) policy))))))))"

section \<open>The area filter\<close>

definition grant_areas :: "json \<Rightarrow> (string list option \<times> string option) res" where
  "grant_areas payload =
     (case bindR (jget payload ''allowed_areas'') (\<lambda>raw.
              bindR (normalize_allowed_areas_payload raw) (\<lambda>areas.
              bindR (jget payload ''area_filter_dependency_policy'') (\<lambda>raw_policy.
              bindR (normalize_dependency_policy_payload raw_policy (areas \<noteq> None)) (\<lambda>area_policy.
              Inr (areas, area_policy))))) of
        Inl (ValueError _) \<Rightarrow> gateway_error INVALID_SCHEMA ''/payload/allowed_areas''
      | r \<Rightarrow> r)"

definition check_area :: "store \<Rightarrow> string list \<Rightarrow> json \<Rightarrow> unit res" where
  "check_area s areas work_unit_id =
     (if \<not> is_file s (work_unit_path work_unit_id)
          then gateway_error NOT_FOUND ''/payload/work_unit_ids'' else
        bindR (read_yaml s (work_unit_path work_unit_id)) (\<lambda>doc.
        bindR (is_area_eligible (por doc (JObj [])) (JObj [(''allowed_areas'', JList (map JStr areas))])) (\<lambda>eligible.
        (if \<not> eligible then gateway_error INVARIANT_VIOLATION ''/payload/work_unit_ids'' else
        Inr ()))))"

definition check_areas :: "store \<Rightarrow> json \<Rightarrow> string list option \<Rightarrow> unit res" where
  "check_areas s payload allowed_areas =
     (case allowed_areas of None \<Rightarrow> Inr ()
      | Some areas \<Rightarrow> bindR (jitem payload ''work_unit_ids'') (\<lambda>w.
                         bindR (jiter w) (\<lambda>ids.
                         eachR (check_area s areas) ids)))"

section \<open>IssueRunAuthorizationGrant\<close>

text \<open>\<open>(artifact.get("content") or {}).get(key) or []\<close> of the execution envelope.\<close>

definition envelope_list :: "json \<Rightarrow> string \<Rightarrow> json list res" where
  "envelope_list execution_artifact key =
     (if execution_artifact = JNull then Inr [] else
        bindR (jget execution_artifact ''content'') (\<lambda>c.
        bindR (jget (por c (JObj [])) key) (\<lambda>v.
        jiter (por v (JList [])))))"

definition artifact_hash_entry :: "env \<Rightarrow> json \<Rightarrow> (string \<times> json) res" where
  "artifact_hash_entry env artifact =
     bindR (jitem artifact ''id'') (\<lambda>i.
        bindR (compute_artifact_hash (sha env) artifact) (\<lambda>h.
        bindR (str_key i) (\<lambda>key.
        Inr (key, JStr h))))"

definition grant_document ::
  "env \<Rightarrow> json \<Rightarrow> json \<Rightarrow> json list \<Rightarrow> json list \<Rightarrow> json list \<Rightarrow> json \<Rightarrow> json \<Rightarrow> json \<times> json
     \<Rightarrow> obj res" where
  "grant_document env grant_id payload excluded_actions decision_menu mission_artifacts execution_artifact
     autonomy_preset policy =
     bindR (jitem payload ''issuing_authority'') (\<lambda>issuing_authority.
        bindR (jitem payload ''work_unit_ids'') (\<lambda>work_unit_ids.
        bindR (optional_fields payload [(''allowed_commands'', JList []), (''allowed_environments'', JList [])]) (\<lambda>commands.
        bindR (envelope_list execution_artifact ''allowed_commands'') (\<lambda>shell.
        bindR (envelope_list execution_artifact ''allowed_paths'') (\<lambda>paths.
        bindR (envelope_list execution_artifact ''accessible_secrets'') (\<lambda>secrets.
        bindR (optional_fields payload
          [(''maximum_spend'', JNull), (''maximum_duration_hours'', JNull), (''maximum_tokens'', JNull)]) (\<lambda>limits.
        bindR (jitem payload ''expires_at'') (\<lambda>expires_at.
        bindR (jitem payload ''maximum_uses'') (\<lambda>maximum_uses.
        bindR (sort_set excluded_actions) (\<lambda>excluded.
        bindR (jget payload ''mission_artifact_ids'') (\<lambda>ids.
        bindR ((if mission_artifacts = [] then Inr JNull
          else bindR (compute_mission_contract_hash (sha env) mission_artifacts) (\<lambda>h. Inr (JStr h)))) (\<lambda>contract_hash.
        bindR (mapR (artifact_hash_entry env) mission_artifacts) (\<lambda>hashes.
        Inr ([(''id'', grant_id), (''revision'', JInt 1), (''issued_at'', now_iso env),
              (''issuing_authority'', issuing_authority), (''work_unit_ids'', work_unit_ids)] @ commands @
             [(''allowed_shell_commands'', JList shell),
              (''allowed_paths'', JList (map JStr (sanitize_allowed_paths paths))),
              (''accessible_secrets'', JList secrets)] @ limits @
             [(''spend_used'', JFloat 0), (''tokens_used'', JInt 0), (''expires_at'', expires_at),
              (''maximum_uses'', maximum_uses), (''uses_count'', JInt 0),
              (''excluded_actions'', JList excluded), (''revoked_at'', JNull), (''revoked_reason'', JNull),
              (''decision_menu'', JList decision_menu),
              (''decision_menu_version'',
                 JStr (''sha256:'' @ sha env (canonical_json (JList decision_menu)))),
              (''mission_artifact_ids'', por ids (JList [])), (''mission_contract_hash'', contract_hash),
              (''mission_artifact_hashes'', JObj (fold (\<lambda>(k, v). AList.update k v) hashes [])),
              (''autonomy_preset'', autonomy_preset), (''effective_autonomy_policy'', fst policy),
              (''effective_autonomy_policy_hash'', snd policy)]))))))))))))))"

definition check_issuing_authority :: "json \<Rightarrow> json \<Rightarrow> unit res" where
  "check_issuing_authority envelope payload =
     bindR (jget envelope ''human_authorization'') (\<lambda>auth.
        bindR (get_text (por auth (JObj [])) ''granted_by'') (\<lambda>human_authority.
        bindR ((if human_authority = [] then Inr JNull else jget payload ''issuing_authority'')) (\<lambda>issuing_authority.
        (if human_authority \<noteq> [] \<and> human_authority \<noteq> py_str issuing_authority
          then gateway_error UNAUTHORIZED ''/payload/issuing_authority'' else
        Inr ()))))"

definition handle_issue_run_authorization_grant :: "env \<Rightarrow> store \<Rightarrow> json \<Rightarrow> reply res" where
  "handle_issue_run_authorization_grant env s envelope =
     bindR (target_id envelope) (\<lambda>grant_id.
        bindR (jitem envelope ''payload'') (\<lambda>payload.
        bindR (jget payload ''autonomy_preset'') (\<lambda>autonomy_preset.
        bindR (check_issuing_authority envelope payload) (\<lambda>_.
        (if is_file s (grant_path grant_id) then gateway_error ALREADY_EXISTS ''/target/id'' else
        bindR (get_set payload ''excluded_actions'') (\<lambda>excluded_actions.
        (if set_minus (map JStr MINIMUM_EXCLUDED_ACTIONS) excluded_actions \<noteq> []
          then gateway_error INVARIANT_VIOLATION ''/payload/excluded_actions'' else
        bindR (jget payload ''decision_menu'') (\<lambda>menu.
        bindR (normalized_decision_menu (por menu (JList []))) (\<lambda>payload_menu.
        bindR (jget payload ''mission_artifact_ids'') (\<lambda>m.
        bindR (jiter (por m (JList []))) (\<lambda>artifact_ids.
        bindR (mapR (load_bound_artifact s autonomy_preset) artifact_ids) (\<lambda>mission_artifacts.
        bindR (bound_decision_menu payload mission_artifacts payload_menu) (\<lambda>decision_menu.
        bindR (first_of_kind ''execution_envelope'' mission_artifacts) (\<lambda>execution_artifact.
        bindR (check_execution_artifact payload autonomy_preset execution_artifact) (\<lambda>_.
        bindR (resolve_grant_policy env payload autonomy_preset) (\<lambda>policy.
        bindR (grant_areas payload) (\<lambda>(allowed_areas, area_policy).
        bindR (check_areas s payload allowed_areas) (\<lambda>_.
        bindR (grant_document env grant_id payload excluded_actions decision_menu mission_artifacts
                      execution_artifact autonomy_preset policy) (\<lambda>document.
        (let document1 = (case allowed_areas of None \<Rightarrow> document
           | Some areas \<Rightarrow> document @
               [(''allowed_areas'', JList (map JStr areas)),
                (''area_filter_dependency_policy'',
                   (case area_policy of None \<Rightarrow> JNull | Some p \<Rightarrow> JStr p))]) in
        bindR (validate_against_schema env (JObj document1) ''run-authorization-grant.schema.json'' []) (\<lambda>_.
        bindR (consume_human_authorization env s envelope) (\<lambda>consumed.
        Inr (reply_of
          [JObj [(''kind'', JStr ''run_authorization_grant''), (''id'', grant_id), (''revision'', JInt 1)]]
          [(grant_path grant_id, JObj document1), consumed])))))))))))))))))))))))"

end
