(* ===== verification/Ensemble.thy ===== *)
theory Ensemble
  imports Workspace
begin

text \<open>
  The active ensemble of a workspace: its members and the composition that pins their revisions
  (\<open>core/workspace.py\<close>, \<open>core/ensemble_composition.py\<close>, \<open>core/ensemble_compile.py\<close>,
  \<open>core/code_revision.py\<close>) and the modes in which commands are refused
  (\<open>core/workspace_mode.py\<close>). Git and the file system outside \<open>.ai-team/\<close> are
  inputs: the HEAD of a member's checkout (\<open>None\<close> when git refuses) and whether a member's
  checkout is the instance root.
\<close>

section \<open>Members\<close>

record workspace =
  active_ensemble_id :: "string option"
  discovered_member_id :: "string option"
  repository_kind :: "string option"
  member_head :: "string \<Rightarrow> string option res"
  at_instance_root :: "string \<Rightarrow> bool res"

definition ensemble_dir :: "workspace \<Rightarrow> string option" where
  "ensemble_dir ws = map_option (\<lambda>i. ''ensembles/'' @ i) (active_ensemble_id ws)"

definition ensemble_members_path :: "workspace \<Rightarrow> string option" where
  "ensemble_members_path ws = map_option (\<lambda>d. d @ ''/members.yaml'') (ensemble_dir ws)"

text \<open>The parsed members file; \<open>None\<close> without an active ensemble or without the file.\<close>

definition members_document :: "workspace \<Rightarrow> store \<Rightarrow> json option res" where
  "members_document ws s =
     (case ensemble_members_path ws of
        None \<Rightarrow> Inr None
      | Some p \<Rightarrow> if \<not> is_file s p then Inr None
                  else bindR (read_yaml s p) (\<lambda>j. Inr (Some (por j (JObj [])))))"

definition declared_members :: "workspace \<Rightarrow> store \<Rightarrow> json list res" where
  "declared_members ws s =
     (case members_document ws s of
        Inl _ \<Rightarrow> Inl WorkspaceError
      | Inr None \<Rightarrow> Inr []
      | Inr (Some document) \<Rightarrow>
          (if \<not> is_dict document then Inl WorkspaceError else
             bindR (jget document ''members'') (\<lambda>m.
             bindR (jiter (por m (JList []))) (\<lambda>entries.
             filterR (\<lambda>entry. if is_dict entry then bindR (jget entry ''id'') (\<lambda>i. Inr (is_str i)) else Inr False)
               entries))))"

definition declared_member_ids :: "workspace \<Rightarrow> store \<Rightarrow> string list res" where
  "declared_member_ids ws s =
     bindR (declared_members ws s) (\<lambda>members.
     bindR (mapR (\<lambda>entry. jitem entry ''id'') members) (\<lambda>ids. Inr (map py_str ids)))"

section \<open>Modes\<close>

definition FRAMEWORK_SOURCE_KIND :: string where
  "FRAMEWORK_SOURCE_KIND = ''framework_source''"

definition ENSEMBLE_SETUP_COMMAND_TYPES :: "string list" where
  "ENSEMBLE_SETUP_COMMAND_TYPES =
     [''RegisterEnsemble'', ''RegisterMember'', ''SetActiveEnsemble'', ''PinComposition'',
      ''ApplyProfilePatch'', ''SetAutonomyPreset'']"

definition FEEDBACK_COMMAND_TYPES :: "string list" where
  "FEEDBACK_COMMAND_TYPES =
     [''RecordObservation'', ''GenerateRetrospective'', ''ExportFeedback'', ''SubmitFeedback'']"

definition GATEWAY_COMMANDS_WITHOUT_OUT_OF_TREE :: "string list" where
  "GATEWAY_COMMANDS_WITHOUT_OUT_OF_TREE = ENSEMBLE_SETUP_COMMAND_TYPES @ FEEDBACK_COMMAND_TYPES"

definition is_framework_source :: "workspace \<Rightarrow> bool" where
  "is_framework_source ws = (repository_kind ws = Some FRAMEWORK_SOURCE_KIND)"

definition ensure_feedback_allowed :: "workspace \<Rightarrow> unit res" where
  "ensure_feedback_allowed ws =
     (if is_framework_source ws then gateway_error UNSUPPORTED_CONTRACT ''/workspace'' else Inr ())"

definition ensure_client_cycle_allowed :: "workspace \<Rightarrow> unit res" where
  "ensure_client_cycle_allowed ws =
     (if is_framework_source ws then gateway_error UNSUPPORTED_CONTRACT ''/workspace''
      else if discovered_member_id ws \<noteq> None then gateway_error UNSUPPORTED_CONTRACT ''/workspace''
      else Inr ())"

text \<open>A member counts when its checkout is elsewhere, or cannot be resolved.\<close>

definition is_out_of_tree :: "workspace \<Rightarrow> string \<Rightarrow> bool" where
  "is_out_of_tree ws member_id = (member_id \<noteq> [] \<and> at_instance_root ws member_id \<noteq> Inr True)"

definition ensure_out_of_tree_ensemble_ready :: "workspace \<Rightarrow> store \<Rightarrow> unit res" where
  "ensure_out_of_tree_ensemble_ready ws s =
     (if active_ensemble_id ws = None then gateway_error UNSUPPORTED_CONTRACT ''/workspace'' else
        bindR (declared_member_ids ws s) (\<lambda>member_ids.
        (if \<not> list_ex (is_out_of_tree ws) member_ids then gateway_error UNSUPPORTED_CONTRACT ''/workspace'' else
        Inr ())))"

section \<open>Code revisions\<close>

definition normalize_code_revision :: "json \<Rightarrow> json res" where
  "normalize_code_revision value =
     (case value of
        JNull \<Rightarrow> Inr JNull
      | JStr text \<Rightarrow>
          if strip text = [] then Inl (ValueError ''code_revision string must be non-empty'')
          else Inr (JObj [(''kind'', JStr ''git_commit''), (''sha'', JStr text)])
      | JObj ob \<Rightarrow>
          (let kind = oget ob ''kind'' in
           if kind = JStr ''git_commit'' then
             (let hex = oget ob ''sha''; member_id = oget ob ''member_id'' in
              if \<not> is_str hex \<or> strip (py_str hex) = []
                then Inl (ValueError ''git_commit code_revision requires sha'')
              else if member_id \<noteq> JNull \<and> (\<not> is_str member_id \<or> \<not> truthy member_id)
                then Inl (ValueError ''member_id must be a non-empty string'')
              else Inr (JObj ([(''kind'', JStr ''git_commit''), (''sha'', hex)]
                 @ (if member_id = JNull then [] else [(''member_id'', member_id)]))))
           else if kind = JStr ''composition'' then
             (let composition_id = oget ob ''composition_id''; members = oget ob ''members'' in
              if \<not> is_str composition_id \<or> \<not> startswith (py_str composition_id) ''CR-''
                then Inl (ValueError ''composition code_revision requires composition_id CR-*'')
              else if members \<noteq> JNull \<and> (\<not> is_dict members \<or> \<not> truthy members)
                then Inl (ValueError ''composition members must be a non-empty object'')
              else Inr (JObj ([(''kind'', JStr ''composition''), (''composition_id'', composition_id)]
                 @ (if members = JNull then [] else [(''members'', members)]))))
           else Inl (ValueError (''unsupported code_revision kind: '' @ py_repr kind)))
      | _ \<Rightarrow> Inl TypeError)"

section \<open>Compositions\<close>

definition PRODUCT_EVIDENCE_TYPES :: "string list" where
  "PRODUCT_EVIDENCE_TYPES = [''e2e'', ''visual'']"

definition PRODUCT_GATES :: "string list" where "PRODUCT_GATES = [''G3'', ''G4'']"

definition requires_product_composition :: "workspace \<Rightarrow> store \<Rightarrow> bool res" where
  "requires_product_composition ws s = bindR (declared_members ws s) (\<lambda>ms. Inr (length ms \<ge> 2))"

definition current_composition_id :: "workspace \<Rightarrow> store \<Rightarrow> string option res" where
  "current_composition_id ws s =
     bindR (members_document ws s) (\<lambda>document. case document of
         Some (JObj ob) \<Rightarrow>
           (case oget ob ''current_composition'' of
              JStr v \<Rightarrow> Inr (if strip v = [] then None else Some (strip v)) | _ \<Rightarrow> Inr None)
       | _ \<Rightarrow> Inr None)"

definition load_composition :: "workspace \<Rightarrow> store \<Rightarrow> string \<Rightarrow> json res" where
  "load_composition ws s composition_id =
     (case ensemble_dir ws of
        None \<Rightarrow> gateway_error INVARIANT_VIOLATION ''/workspace''
      | Some directory \<Rightarrow>
          (let p = directory @ ''/compositions/'' @ composition_id @ ''.yaml'' in
             (if \<not> is_file s p then gateway_error NOT_FOUND ''/composition_id'' else
             bindR (read_yaml s p) (\<lambda>j.
             (if \<not> is_dict (por j (JObj [])) then gateway_error INVARIANT_VIOLATION ''/composition_id'' else
             Inr (por j (JObj [])))))))"

definition require_current_composition :: "workspace \<Rightarrow> store \<Rightarrow> json res" where
  "require_current_composition ws s =
     bindR (requires_product_composition ws s) (\<lambda>multi.
        (if \<not> multi then gateway_error INVARIANT_VIOLATION ''/workspace'' else
        bindR (current_composition_id ws s) (\<lambda>composition_id.
        (case composition_id of
           None \<Rightarrow> gateway_error INVARIANT_VIOLATION ''/composition_id''
         | Some i \<Rightarrow> load_composition ws s i))))"

text \<open>A member is stale when its pin is no full SHA, git refuses, or HEAD moved on.\<close>

definition is_stale :: "workspace \<Rightarrow> obj \<Rightarrow> string \<Rightarrow> bool res" where
  "is_stale ws pins member_id =
     (case oget pins member_id of
        JStr pinned \<Rightarrow>
          if length pinned \<noteq> 40 then Inr True
          else bindR (member_head ws member_id) (\<lambda>live. Inr (live \<noteq> Some (lower pinned)))
      | _ \<Rightarrow> Inr True)"

definition composition_head_mismatches :: "workspace \<Rightarrow> store \<Rightarrow> json \<Rightarrow> string list res" where
  "composition_head_mismatches ws s composition =
     bindR (jget composition ''members'') (\<lambda>m.
 (case por m (JObj []) of
           JObj pins \<Rightarrow>
             bindR (declared_member_ids ws s) (\<lambda>declared.
                bindR (filterR (is_stale ws pins) (sorted_strs declared)) (\<lambda>mismatched.
                Inr (mismatched @ sorted_strs (filter (\<lambda>k. k \<notin> set declared) (map fst pins)))))
         | _ \<Rightarrow> Inr [''<members>'']))"

definition assert_composition_live :: "workspace \<Rightarrow> store \<Rightarrow> json \<Rightarrow> json res" where
  "assert_composition_live ws s composition =
     bindR ((if truthy composition then Inr composition else require_current_composition ws s)) (\<lambda>document.
        bindR (composition_head_mismatches ws s document) (\<lambda>mismatched.
        (if mismatched \<noteq> [] then gateway_error INVARIANT_VIOLATION ''/composition_id'' else
        Inr document)))"

definition enforce_product_gate_composition :: "workspace \<Rightarrow> store \<Rightarrow> string \<Rightarrow> json res" where
  "enforce_product_gate_composition ws s gate =
     bindR ((if gate \<notin> set PRODUCT_GATES then Inr False else requires_product_composition ws s)) (\<lambda>multi.
        (if \<not> multi then Inr JNull else
        bindR (require_current_composition ws s) (\<lambda>document.
        (if gate = ''G4'' then bindR (assert_composition_live ws s document) (\<lambda>_. Inr document) else
        Inr document))))"

text \<open>The document with its composition filled in.\<close>

definition enforce_release_candidate_composition :: "workspace \<Rightarrow> store \<Rightarrow> json \<Rightarrow> json res" where
  "enforce_release_candidate_composition ws s document =
     bindR (requires_product_composition ws s) (\<lambda>multi.
        (if \<not> multi then Inr document else
        bindR (require_current_composition ws s) (\<lambda>composition.
        bindR (jitem composition ''id'') (\<lambda>composition_id.
        bindR (jget document ''composition_id'') (\<lambda>declared.
        (if declared = JNull then jset document ''composition_id'' composition_id else
        (if \<not> py_eq declared composition_id then gateway_error INVARIANT_VIOLATION ''/payload/composition_id'' else
        Inr document)))))))"

definition checked_code_revision :: "json \<Rightarrow> json res" where
  "checked_code_revision payload =
     bindR (jget payload ''code_revision'') (\<lambda>value.
 (case normalize_code_revision value of
           Inl (ValueError _) \<Rightarrow> gateway_error INVALID_SCHEMA ''/payload/code_revision''
         | Inl TypeError \<Rightarrow> gateway_error INVALID_SCHEMA ''/payload/code_revision''
         | r \<Rightarrow> r))"

definition is_composition :: "json \<Rightarrow> bool res" where
  "is_composition revision =
     (if revision = JNull then Inr False
      else bindR (jget revision ''kind'') (\<lambda>k. Inr (k = JStr ''composition'')))"

definition enforce_product_evidence_composition :: "workspace \<Rightarrow> store \<Rightarrow> json \<Rightarrow> unit res" where
  "enforce_product_evidence_composition ws s payload =
     bindR (requires_product_composition ws s) (\<lambda>multi.
        (if \<not> multi then Inr () else
        bindR (jget payload ''type'') (\<lambda>ty.
        (let evidence_type = py_str (por ty (JStr [])) in
        bindR (checked_code_revision payload) (\<lambda>revision.
        bindR (is_composition revision) (\<lambda>composed.
        (if evidence_type \<notin> set PRODUCT_EVIDENCE_TYPES \<and> \<not> composed then Inr () else
        (if \<not> composed then gateway_error INVARIANT_VIOLATION ''/payload/code_revision'' else
        bindR (require_current_composition ws s) (\<lambda>composition.
        bindR (jget revision ''composition_id'') (\<lambda>cited_id.
        bindR (jget composition ''id'') (\<lambda>current_id.
        (if \<not> py_eq cited_id current_id
          then gateway_error INVARIANT_VIOLATION ''/payload/code_revision/composition_id'' else
        bindR (jget revision ''members'') (\<lambda>cited.
        bindR (jget composition ''members'') (\<lambda>m.
        bindR ((if cited = JNull then Inr True
                 else bindR (as_obj cited) (\<lambda>c. bindR (as_obj (por m (JObj []))) (\<lambda>pins.
                        Inr (py_eq (JObj c) (JObj pins)))))) (\<lambda>same.
        (if \<not> same then gateway_error INVARIANT_VIOLATION ''/payload/code_revision/members'' else
        bindR (assert_composition_live ws s composition) (\<lambda>_.
        Inr ())))))))))))))))))"

section \<open>Work Units of an ensemble\<close>

definition enforce_ensemble_work_unit :: "workspace \<Rightarrow> store \<Rightarrow> json \<Rightarrow> unit res" where
  "enforce_ensemble_work_unit ws s document =
     bindR (declared_member_ids ws s) (\<lambda>member_ids.
        (if length member_ids < 2 then Inr () else
        bindR (jget document ''kind'') (\<lambda>kind.
        bindR (jget document ''member_id'') (\<lambda>member_id.
        (if kind = JStr ''integration'' then
           (if truthy member_id then gateway_error INVARIANT_VIOLATION ''/payload/member_id'' else
              bindR (jget document ''scope'') (\<lambda>sc.
              bindR (jget (por sc (JObj [])) ''include'') (\<lambda>includes.
              (if truthy includes then gateway_error INVARIANT_VIOLATION ''/payload/scope/include'' else
              Inr ()))))
         else (case member_id of
                 JStr m \<Rightarrow> if m \<in> set member_ids then Inr ()
                           else gateway_error INVARIANT_VIOLATION ''/payload/member_id''
               | _ \<Rightarrow> gateway_error INVARIANT_VIOLATION ''/payload/member_id''))))))"

definition member_work_unit :: "string \<Rightarrow> string \<Rightarrow> json" where
  "member_work_unit ensemble_id member_id = JObj
     [(''id'', JStr (''WU-'' @ ensemble_id @ ''-'' @ member_id)),
      (''title'', JStr (ensemble_id @ '' '' @ member_id)), (''member_id'', JStr member_id),
      (''kind'', JStr ''product''),
      (''objective'', JObj [(''result'',
         JStr (''Deliver the '' @ member_id @ '' change for ensemble '' @ ensemble_id @ ''.''))]),
      (''scope'', JObj [(''include'', JList [JStr ''.'']), (''exclude'', JList [])]),
      (''expected_behavior'', JStr (''Member '' @ member_id @ '' remains independently releasable.'')),
      (''acceptance_criteria'', JList [JStr (''member '' @ member_id @ '' verifies on its own Git'')]),
      (''dependencies'', JList []),
      (''risk'', JObj [(''class'', JStr ''low''), (''reasons'', JList [JStr ''bounded member scope''])]),
      (''required_verification'', JObj [(''unit_tests'', JBool True)])]"

definition integration_work_unit :: "string \<Rightarrow> string list \<Rightarrow> json" where
  "integration_work_unit ensemble_id member_wu_ids = JObj
     [(''id'', JStr (''WU-'' @ ensemble_id @ ''-integration'')), (''kind'', JStr ''integration''),
      (''title'', JStr (ensemble_id @ '' integration'')),
      (''objective'', JObj [(''result'', JStr (''Integrate declared members of '' @ ensemble_id
         @ '' without writing product code.''))]),
      (''scope'', JObj [(''include'', JList []), (''exclude'', JList [JStr ''**''])]),
      (''expected_behavior'', JStr ''No product file is written in any member Git.''),
      (''acceptance_criteria'', JList
         [JStr ''no product write in a member repository'', JStr ''depends on every member Work Unit'']),
      (''dependencies'', JList (map JStr member_wu_ids)),
      (''risk'', JObj [(''class'', JStr ''medium''), (''reasons'', JList [JStr ''cross-member integration''])]),
      (''required_verification'', JObj [(''unit_tests'', JBool True)])]"

definition plan_ensemble_work_units :: "workspace \<Rightarrow> store \<Rightarrow> json list res" where
  "plan_ensemble_work_units ws s =
     bindR (declared_member_ids ws s) (\<lambda>members.
 (case active_ensemble_id ws of
           Some ensemble_id \<Rightarrow>
             if ensemble_id = [] \<or> length members < 2
             then Inl (ValueError ''an active ensemble with at least two members is required'')
             else Inr (map (member_work_unit ensemble_id) members
                   @ [integration_work_unit ensemble_id
                        (map (\<lambda>m. ''WU-'' @ ensemble_id @ ''-'' @ m) members)])
         | None \<Rightarrow> Inl (ValueError ''an active ensemble with at least two members is required'')))"

section \<open>Lemmas\<close>

text \<open>The planned Work Units are the ones the ensemble rule accepts.\<close>

lemma planned_units_accepted:
  assumes "plan_ensemble_work_units ws s = Inr units" and "u \<in> set units"
  shows "enforce_ensemble_work_unit ws s u = Inr ()"
proof -
  obtain members i where m: "declared_member_ids ws s = Inr members" "active_ensemble_id ws = Some i"
      "2 \<le> length members"
      "units = map (member_work_unit i) members
         @ [integration_work_unit i (map (\<lambda>m. ''WU-'' @ i @ ''-'' @ m) members)]"
    using assms(1) by (auto simp: plan_ensemble_work_units_def split: option.splits if_splits)
  show ?thesis
    using assms(2) m
    by (auto simp: enforce_ensemble_work_unit_def member_work_unit_def integration_work_unit_def por_def)
       (rule exI [where x = "JObj [(''include'', JList []), (''exclude'', JList [JStr ''**''])]"], simp)
qed

lemma filterR_empty: "filterR p xs = Inr [] \<Longrightarrow> x \<in> set xs \<Longrightarrow> p x = Inr False"
  by (induction xs) (auto split: if_splits)

lemma is_stale_False:
  assumes "is_stale ws pins m = Inr False"
  shows "\<exists>p. oget pins m = JStr p \<and> member_head ws m = Inr (Some (lower p))"
  using assms by (cases "oget pins m") (auto simp: is_stale_def split: if_splits)

text \<open>A composition that is live pins exactly the HEAD of every declared member.\<close>

lemma live_composition_pins_heads:
  assumes "composition_head_mismatches ws s composition = Inr []"
  shows "\<exists>ids pins. declared_member_ids ws s = Inr ids \<and> jget composition ''members'' \<noteq> Inl AttributeError
    \<and> (\<forall>m \<in> set ids. \<exists>p. oget pins m = JStr p \<and> member_head ws m = Inr (Some (lower p)))
    \<and> fst ` set pins \<subseteq> set ids"
proof -
  obtain m where m: "jget composition ''members'' = Inr m"
    using assms by (auto simp: composition_head_mismatches_def)
  obtain pins where pins: "por m (JObj []) = JObj pins"
    using assms m by (cases "por m (JObj [])") (auto simp: composition_head_mismatches_def)
  obtain ids where p: "jget composition ''members'' = Inr m" "por m (JObj []) = JObj pins"
      "declared_member_ids ws s = Inr ids" "filterR (is_stale ws pins) (sorted_strs ids) = Inr []"
      "filter (\<lambda>k. k \<notin> set ids) (map fst pins) = []"
    using assms m pins by (auto simp: composition_head_mismatches_def)
  have "is_stale ws pins k = Inr False" if "k \<in> set ids" for k
    using p(4) that filterR_empty [of "is_stale ws pins" "sorted_strs ids"] by auto
  then have "\<exists>q. oget pins k = JStr q \<and> member_head ws k = Inr (Some (lower q))" if "k \<in> set ids" for k
    using that is_stale_False by blast
  moreover have "jget composition ''members'' \<noteq> Inl AttributeError" using p(1) by simp
  moreover have "fst ` set pins \<subseteq> set ids" using p(5) by (auto simp: filter_empty_conv)
  ultimately show ?thesis using p(3) by blast
qed

end
