(* ===== verification/RecordCommands.thy ===== *)
theory RecordCommands
  imports RunLifecycle Ensemble
begin

text \<open>
  The commands that record governance documents (\<open>core/commands/handlers/\<close>): Work Units,
  decision requests and their resolution, findings, evidence, acceptance, release candidates,
  mission artifacts and their challenge (with \<open>core/domain/decisions/option_ids.py\<close> and
  \<open>core/domain/work_unit/paths.py\<close>).
\<close>

section \<open>Finding a Work Unit\<close>

datatype wu_lookup = Found string | Ambiguous string | Missing

definition file_name :: "string \<Rightarrow> string \<Rightarrow> string" where
  "file_name dir p = drop (Suc (length dir)) p"

definition has_id :: "store \<Rightarrow> json \<Rightarrow> string \<Rightarrow> bool" where
  "has_id s i p =
     (case read_yaml s p of Inr (JObj ob) \<Rightarrow> py_eq (oget ob ''id'') i | _ \<Rightarrow> False)"

definition find_work_unit_path :: "store \<Rightarrow> json \<Rightarrow> wu_lookup" where
  "find_work_unit_path s work_unit_id =
     (let dir = ''work-units'';
          prefix_matches = filter (\<lambda>p. fnmatchcase (file_name dir p) (py_str work_unit_id @ ''-*.yaml''))
                             (glob_yaml s dir)
      in if is_file s (work_unit_path work_unit_id) then Found (work_unit_path work_unit_id)
         else if length prefix_matches = 1 then Found (hd prefix_matches)
         else if length prefix_matches > 1 then
           Ambiguous (''multiple files match '' @ [char_of (39 :: nat)] @ py_str work_unit_id @ ''-*.yaml''
             @ [char_of (39 :: nat)] @ '': '' @ py_repr (JList (map (JStr \<circ> file_name dir) prefix_matches)))
         else (case filter (has_id s work_unit_id) (glob_yaml s dir) of [] \<Rightarrow> Missing | p # _ \<Rightarrow> Found p))"

section \<open>Shared steps\<close>

definition object_payload :: "json \<Rightarrow> json res" where
  "object_payload envelope =
     bindR (jitem envelope ''payload'') (\<lambda>payload.
        (if \<not> is_dict payload then gateway_error INVALID_SCHEMA ''/payload'' else
        Inr payload))"

text \<open>\<open>payload.get("id") != target id\<close>.\<close>

definition check_payload_id :: "json \<Rightarrow> json \<Rightarrow> unit res" where
  "check_payload_id payload i =
     bindR (jget payload ''id'') (\<lambda>own.
        (if \<not> py_eq own i then gateway_error INVARIANT_VIOLATION ''/payload/id'' else
        Inr ()))"

text \<open>\<open>payload.get("id")\<close> as a non-empty string.\<close>

definition required_id :: "json \<Rightarrow> json res" where
  "required_id payload =
     bindR (jget payload ''id'') (\<lambda>i.
        (if \<not> truthy i \<or> \<not> is_str i then gateway_error INVALID_SCHEMA ''/payload/id'' else
        Inr i))"

definition first_revision :: "env \<Rightarrow> (string \<times> json) list" where
  "first_revision env = [(''revision'', JInt 1), (''created_at'', now_iso env), (''updated_at'', now_iso env)]"

section \<open>CreateWorkUnit\<close>

definition default_outcomes :: json where
  "default_outcomes = JObj
     [(''review_status'', JStr ''pending''), (''audit_status'', JStr ''not_required''),
      (''critical_open_items'', JList []), (''defects'', JList []), (''audit_findings'', JList []),
      (''human_acceptance'', JNull)]"

definition handle_create_work_unit :: "workspace \<Rightarrow> env \<Rightarrow> store \<Rightarrow> json \<Rightarrow> reply res" where
  "handle_create_work_unit ws env s envelope =
     bindR (target_id envelope) (\<lambda>work_unit_id.
        bindR (object_payload envelope) (\<lambda>payload.
        bindR (check_payload_id payload work_unit_id) (\<lambda>_.
        (if is_file s (work_unit_path work_unit_id) then gateway_error ALREADY_EXISTS ''/target/id'' else
        bindR (as_obj payload) (\<lambda>fields.
        (let document = set_keys (first_revision env)
          (set_defaults [(''status'', JStr ''draft''), (''events'', JList []), (''evidence'', JList []),
                         (''outcomes'', default_outcomes)] (set_keys [(''id'', work_unit_id)] fields)) in
        bindR (jitem (JObj document) ''status'') (\<lambda>status.
        bindR (in_strs status [''draft'', ''ready'']) (\<lambda>initial.
        (if \<not> initial then gateway_error INVALID_SCHEMA ''/payload/status'' else
        bindR (enforce_ensemble_work_unit ws s (JObj document)) (\<lambda>_.
        bindR (validate_against_schema env (JObj document) ''work-unit.schema.json'' []) (\<lambda>_.
        Inr (reply_of
          [JObj [(''kind'', JStr ''work_unit''), (''id'', work_unit_id), (''revision'', JInt 1), (''status'', status)]]
          [(work_unit_path work_unit_id, JObj document)]))))))))))))"

section \<open>Decision requests\<close>

definition decision_request_path :: "json \<Rightarrow> string" where
  "decision_request_path i = ''decisions/'' @ py_str i @ ''.yaml''"

definition handle_create_decision_request :: "env \<Rightarrow> store \<Rightarrow> json \<Rightarrow> reply res" where
  "handle_create_decision_request env s envelope =
     bindR (target_id envelope) (\<lambda>decision_id.
        bindR (object_payload envelope) (\<lambda>payload.
        bindR (check_payload_id payload decision_id) (\<lambda>_.
        (if is_file s (decision_request_path decision_id) then gateway_error ALREADY_EXISTS ''/target/id'' else
        bindR (as_obj payload) (\<lambda>fields.
        (let document = opop ''decision'' (set_keys
          ([(''id'', decision_id), (''status'', JStr ''pending_human'')] @ first_revision env) fields) in
        bindR (validate_against_schema env (JObj document) ''decision.schema.json'' []) (\<lambda>_.
        Inr (reply_of
          [JObj [(''kind'', JStr ''decision_request''), (''id'', decision_id), (''revision'', JInt 1),
                 (''status'', JStr ''pending_human'')]]
          [(decision_request_path decision_id, JObj document)]))))))))"

definition option_id :: "json \<Rightarrow> string list" where
  "option_id opt =
     (case opt of
        JStr i \<Rightarrow> [i]
      | JObj ob \<Rightarrow> if truthy (oget ob ''id'') then [py_str (oget ob ''id'')] else []
      | _ \<Rightarrow> [])"

definition option_ids :: "json list \<Rightarrow> string list" where
  "option_ids options = remdups (concat (map option_id options))"

text \<open>The decided option, which must be one of the declared ones when any are.\<close>

definition check_decision :: "json \<Rightarrow> json \<Rightarrow> json res" where
  "check_decision payload options =
     bindR (jget payload ''decision'') (\<lambda>decision.
        (if \<not> is_dict decision then gateway_error INVALID_SCHEMA ''/payload/decision'' else
        bindR (jget decision ''selected_option'') (\<lambda>selected.
        (if \<not> truthy selected then gateway_error INVALID_SCHEMA ''/payload/decision/selected_option'' else
        bindR (jiter (por options (JList []))) (\<lambda>declared.
        (let allowed_options = option_ids declared in
        bindR ((if allowed_options = [] then Inr True else in_strs selected allowed_options)) (\<lambda>among.
        (if \<not> among then gateway_error INVARIANT_VIOLATION ''/payload/decision/selected_option'' else
        Inr decision))))))))"

definition apply_resolution :: "json \<Rightarrow> json \<Rightarrow> json \<Rightarrow> obj \<Rightarrow> obj res" where
  "apply_resolution to_status payload options document =
     (if to_status = JStr ''decided''
      then bindR (check_decision payload options) (\<lambda>decision. Inr (set_keys [(''decision'', decision)] document))
      else bindR (jget payload ''reason'') (\<lambda>reason.
             Inr (if truthy reason then set_keys [(''cancellation_reason'', reason)] (opop ''decision'' document)
                  else opop ''decision'' document)))"

definition handle_resolve_decision_request :: "env \<Rightarrow> store \<Rightarrow> json \<Rightarrow> reply res" where
  "handle_resolve_decision_request env s envelope =
     bindR (target_id envelope) (\<lambda>decision_id.
        bindR (expected_revision envelope) (\<lambda>expected.
        bindR (object_payload envelope) (\<lambda>payload.
        bindR (jget payload ''to_status'') (\<lambda>to_status.
        bindR (in_strs to_status [''decided'', ''cancelled'']) (\<lambda>final.
        (if \<not> final then gateway_error INVALID_SCHEMA ''/payload/to_status'' else
        bindR (load_or_not_found s (decision_request_path decision_id) ''/target/id'') (\<lambda>document.
        bindR (jget document ''id'') (\<lambda>own_id.
        (if \<not> py_eq own_id decision_id then gateway_error INVARIANT_VIOLATION ''/target/id'' else
        bindR (work_unit_revision document) (\<lambda>current.
        (if \<not> py_eq expected current then gateway_error CONFLICT ''/target/expected_revision'' else
        bindR (jget document ''status'') (\<lambda>current_status.
        bindR (decision_is_transition_allowed current_status to_status) (\<lambda>allowed.
        (if \<not> allowed then gateway_error INVALID_TRANSITION ''/payload/to_status'' else
        bindR (jget document ''question'') (\<lambda>question.
        bindR (jget document ''options'') (\<lambda>options.
        bindR (as_obj document) (\<lambda>fields.
        bindR (apply_resolution to_status payload options fields) (\<lambda>resolved.
        bindR (py_succ current) (\<lambda>revision.
        (let document1 = set_keys
          [(''status'', to_status), (''question'', question), (''options'', options), (''revision'', revision),
           (''updated_at'', now_iso env)] resolved in
        bindR (consume_human_authorization env s envelope) (\<lambda>consumed.
        Inr (reply_of
          [JObj [(''kind'', JStr ''decision_request''), (''id'', decision_id), (''revision'', revision),
                 (''status'', to_status)]]
          [consumed, (decision_request_path decision_id, JObj document1)]))))))))))))))))))))))"

section \<open>Findings, evidence, acceptance\<close>

definition finding_path :: "json \<Rightarrow> string" where
  "finding_path i = ''findings/'' @ py_str i @ ''.yaml''"

text \<open>The Work Unit a finding names; no name, no Work Unit.\<close>

definition finding_work_unit :: "store \<Rightarrow> json \<Rightarrow> string option res" where
  "finding_work_unit s work_unit_id =
     (if \<not> truthy work_unit_id then Inr None
      else (case find_work_unit_path s work_unit_id of
              Ambiguous _ \<Rightarrow> gateway_error INVALID_SCHEMA ''/payload/work_unit''
            | Missing \<Rightarrow> gateway_error NOT_FOUND ''/payload/work_unit''
            | Found p \<Rightarrow> Inr (Some p)))"

definition setdefault_value :: "json \<Rightarrow> string \<Rightarrow> json \<Rightarrow> json res" where
  "setdefault_value d k v = bindR (as_obj d) (\<lambda>ob. Inr (if ohas ob k then oget ob k else v))"

text \<open>The Work Unit with the finding among its audit findings, written when it was not there.\<close>

definition reference_finding :: "store \<Rightarrow> string \<Rightarrow> json \<Rightarrow> (string \<times> json) list res" where
  "reference_finding s p finding_id =
     bindR (read_yaml s p) (\<lambda>work_unit.
        bindR (setdefault_value work_unit ''outcomes'' (JObj [])) (\<lambda>outcomes.
        bindR (setdefault_value outcomes ''audit_findings'' (JList [])) (\<lambda>audit_findings.
        bindR (jin finding_id audit_findings) (\<lambda>known.
        (if known then Inr [] else
        bindR (jappend audit_findings finding_id) (\<lambda>findings1.
        bindR (jset outcomes ''audit_findings'' findings1) (\<lambda>outcomes1.
        bindR (jset work_unit ''outcomes'' outcomes1) (\<lambda>work_unit1.
        Inr [(p, work_unit1)]))))))))"

definition handle_register_finding :: "env \<Rightarrow> store \<Rightarrow> json \<Rightarrow> reply res" where
  "handle_register_finding env s envelope =
     bindR (object_payload envelope) (\<lambda>payload.
        bindR (required_id payload) (\<lambda>finding_id.
        bindR (jitem envelope ''target'') (\<lambda>target.
        bindR (jget target ''id'') (\<lambda>own.
        (if \<not> py_eq own finding_id then gateway_error INVARIANT_VIOLATION ''/payload/id'' else
        bindR (jget payload ''work_unit'') (\<lambda>work_unit_id.
        bindR (finding_work_unit s work_unit_id) (\<lambda>path.
        (if is_file s (finding_path finding_id) then gateway_error ALREADY_EXISTS ''/payload/id'' else
        bindR (as_obj payload) (\<lambda>fields.
        (let document = set_keys (first_revision env)
          (set_defaults [(''status'', JStr ''open''), (''remediation_required'', JBool False)] fields) in
        bindR (validate_against_schema env (JObj document) ''finding.schema.json'' []) (\<lambda>_.
        bindR ((case path of None \<Rightarrow> Inr [] | Some p \<Rightarrow> reference_finding s p finding_id)) (\<lambda>referenced.
        Inr (reply_of
          ([JObj [(''kind'', JStr ''finding''), (''id'', finding_id), (''status'', oget document ''status'')]]
           @ (if path = None then [] else
              [JObj [(''kind'', JStr ''work_unit''), (''id'', work_unit_id), (''referenced_finding'', finding_id)]]))
          ((finding_path finding_id, JObj document) # referenced))))))))))))))"

definition evidence_path :: "json \<Rightarrow> string" where
  "evidence_path i = ''evidence/'' @ py_str i @ ''.yaml''"

definition handle_register_evidence :: "workspace \<Rightarrow> env \<Rightarrow> store \<Rightarrow> json \<Rightarrow> reply res" where
  "handle_register_evidence ws env s envelope =
     bindR (object_payload envelope) (\<lambda>payload.
        bindR (required_id payload) (\<lambda>evidence_id.
        (if is_file s (evidence_path evidence_id) then gateway_error ALREADY_EXISTS ''/payload/id'' else
        bindR (validate_against_schema env payload ''evidence.schema.json'' ''/payload'') (\<lambda>_.
        bindR (enforce_product_evidence_composition ws s payload) (\<lambda>_.
        Inr (reply_of [JObj [(''kind'', JStr ''evidence''), (''id'', evidence_id)]]
          [(evidence_path evidence_id, payload)]))))))"

definition acceptance_path :: "json \<Rightarrow> string" where
  "acceptance_path i = ''acceptance/'' @ py_str i @ ''.yaml''"

definition handle_record_acceptance :: "env \<Rightarrow> store \<Rightarrow> json \<Rightarrow> reply res" where
  "handle_record_acceptance env s envelope =
     bindR (target_id envelope) (\<lambda>acceptance_id.
        bindR (object_payload envelope) (\<lambda>payload.
        bindR (check_payload_id payload acceptance_id) (\<lambda>_.
        (if is_file s (acceptance_path acceptance_id) then gateway_error ALREADY_EXISTS ''/target/id'' else
        bindR (as_obj payload) (\<lambda>fields.
        (let document = set_keys ((''id'', acceptance_id) # first_revision env) fields in
        bindR (validate_against_schema env (JObj document) ''acceptance.schema.json'' []) (\<lambda>_.
        bindR (consume_human_authorization env s envelope) (\<lambda>consumed.
        bindR (jget_or (JObj document) ''human_result'' (JObj [])) (\<lambda>human_result.
        bindR (jget human_result ''status'') (\<lambda>status.
        Inr (reply_of [JObj [(''kind'', JStr ''acceptance''), (''id'', acceptance_id), (''status'', status)]]
          [consumed, (acceptance_path acceptance_id, JObj document)])))))))))))"

definition release_candidate_path :: "json \<Rightarrow> string" where
  "release_candidate_path i = ''release-candidates/'' @ py_str i @ ''.yaml''"

definition handle_register_release_candidate :: "workspace \<Rightarrow> env \<Rightarrow> store \<Rightarrow> json \<Rightarrow> reply res" where
  "handle_register_release_candidate ws env s envelope =
     bindR (target_id envelope) (\<lambda>candidate_id.
        bindR (object_payload envelope) (\<lambda>payload.
        bindR (check_payload_id payload candidate_id) (\<lambda>_.
        (if is_file s (release_candidate_path candidate_id) then gateway_error ALREADY_EXISTS ''/target/id'' else
        bindR (as_obj payload) (\<lambda>fields.
        (let document = set_keys (first_revision env)
          (set_defaults [(''status'', JStr ''draft'')] (set_keys [(''id'', candidate_id)] fields)) in
        bindR (enforce_release_candidate_composition ws s (JObj document)) (\<lambda>document1.
        bindR (validate_against_schema env document1 ''release-candidate.schema.json'' []) (\<lambda>_.
        Inr (reply_of
          [JObj [(''kind'', JStr ''release_candidate''), (''id'', candidate_id),
                 (''status'', oget document ''status'')]]
          [(release_candidate_path candidate_id, document1)])))))))))"

section \<open>Mission artifacts\<close>

definition handle_register_mission_artifact :: "env \<Rightarrow> store \<Rightarrow> json \<Rightarrow> reply res" where
  "handle_register_mission_artifact env s envelope =
     bindR (target_id envelope) (\<lambda>artifact_id.
        bindR (payload_item envelope ''kind'') (\<lambda>kind.
        bindR (in_strs kind MISSION_ARTIFACT_KINDS) (\<lambda>known.
        (if \<not> known then gateway_error INVALID_SCHEMA ''/payload/kind'' else
        (if is_file s (mission_artifact_path artifact_id) then gateway_error ALREADY_EXISTS ''/target/id'' else
        bindR (payload_item envelope ''content'') (\<lambda>content.
        bindR (missing_content_fields (py_str kind) content) (\<lambda>missing.
        (if missing \<noteq> [] then gateway_error INVARIANT_VIOLATION ''/payload/content'' else
        bindR (jitem envelope ''actor'') (\<lambda>actor.
        bindR (jitem actor ''role_id'') (\<lambda>role_id.
        (let document = JObj
          [(''id'', artifact_id), (''kind'', kind), (''revision'', JInt 1), (''authored_by_role'', role_id),
           (''content'', content), (''challenge_status'', JStr ''pending''), (''challenged_by_role'', JNull),
           (''challenged_at'', JNull), (''challenge_findings'', JList []), (''created_at'', now_iso env),
           (''updated_at'', now_iso env)] in
        bindR (validate_against_schema env document ''mission-artifact.schema.json'' []) (\<lambda>_.
        Inr (reply_of [JObj [(''kind'', JStr ''mission_artifact''), (''id'', artifact_id), (''revision'', JInt 1)]]
          [(mission_artifact_path artifact_id, document)])))))))))))))"

definition handle_record_mission_artifact_challenge :: "env \<Rightarrow> store \<Rightarrow> json \<Rightarrow> reply res" where
  "handle_record_mission_artifact_challenge env s envelope =
     bindR (target_id envelope) (\<lambda>artifact_id.
        bindR (expected_revision envelope) (\<lambda>expected.
        bindR (jitem envelope ''payload'') (\<lambda>payload.
        bindR (payload_item envelope ''outcome'') (\<lambda>verdict.
        bindR (in_strs verdict CHALLENGE_OUTCOMES) (\<lambda>known.
        (if \<not> known then gateway_error INVALID_SCHEMA ''/payload/outcome'' else
        (if \<not> is_file s (mission_artifact_path artifact_id) then gateway_error NOT_FOUND ''/target/id'' else
        bindR (read_json s (mission_artifact_path artifact_id)) (\<lambda>document.
        bindR (check_revision document expected) (\<lambda>current.
        bindR (jitem envelope ''actor'') (\<lambda>actor.
        bindR (jitem actor ''role_id'') (\<lambda>challenger_role.
        bindR (jitem document ''authored_by_role'') (\<lambda>author.
        (if \<not> can_challenge author challenger_role then gateway_error INVARIANT_VIOLATION ''/actor/role_id'' else
        bindR (jget_or payload ''findings'' (JList [])) (\<lambda>findings.
        bindR (py_succ current) (\<lambda>revision.
        bindR (as_obj document) (\<lambda>fields.
        (let document1 = JObj (set_keys
          [(''challenge_status'', verdict), (''challenged_by_role'', challenger_role),
           (''challenged_at'', now_iso env), (''challenge_findings'', findings),
           (''updated_at'', now_iso env), (''revision'', revision)] fields) in
        Inr (reply_of
          [JObj [(''kind'', JStr ''mission_artifact''), (''id'', artifact_id), (''revision'', revision)]]
          [(mission_artifact_path artifact_id, document1)]))))))))))))))))))"

end
