(* ===== verification/GateDecisions.thy ===== *)
theory GateDecisions
  imports RecordCommands
begin

text \<open>
  Gate decisions (\<open>core/commands/handlers/record_gate_decision.py\<close>, \<open>core/domain/gates/\<close>). The
  design readiness of a Work Unit and the visual conformance check, of the design authority, are
  parameters: functions from the Work Unit document to the result document.
\<close>

section \<open>Tables\<close>

definition G4_COMPLETION_STATUSES :: "string list" where
  "G4_COMPLETION_STATUSES = [''approved'', ''passed'', ''accepted'']"

definition GATE_STATUS_BY_GATE :: "(string \<times> string list) list" where
  "GATE_STATUS_BY_GATE =
     [(''G0'', [''passed'', ''failed'', ''rejected'', ''changes_requested'']),
      (''G1'', [''approved'', ''rejected'', ''changes_requested'']),
      (''G2'', [''approved'', ''rejected'', ''changes_requested'', ''not_required'']),
      (''G3'', [''approved'', ''rejected'', ''changes_requested'', ''not_required'', ''passed'', ''failed'']),
      (''G4'', [''approved'', ''rejected'', ''changes_requested'', ''passed'', ''failed'', ''partial'',
               ''partially_accepted'', ''not_required'', ''accepted'', ''remediation_required''])]"

definition HUMAN_ACCEPTANCE_BY_GATE_STATUS :: "(string \<times> string) list" where
  "HUMAN_ACCEPTANCE_BY_GATE_STATUS =
     [(''approved'', ''accepted''), (''passed'', ''accepted''), (''accepted'', ''accepted''),
      (''rejected'', ''rejected''), (''failed'', ''rejected''), (''partial'', ''partially_accepted''),
      (''partially_accepted'', ''partially_accepted''), (''changes_requested'', ''partially_accepted''),
      (''remediation_required'', ''remediation_required''), (''not_required'', ''accepted'')]"

definition generate_gate_decision_id :: "env \<Rightarrow> string \<Rightarrow> string" where
  "generate_gate_decision_id env gate =
     ''gate-'' @ lower gate @ ''-'' @ butlast (stamp (now env)) @ pad 6 (nat (now env mod 1000000)) @ ''-'' @ take 8 (uuid env)"

section \<open>The Work Units a gate looks at\<close>

text \<open>\<open>info.get("status") not in {"done", "cancelled"}\<close>.\<close>

definition is_open_work_unit :: "string \<times> json \<Rightarrow> bool res" where
  "is_open_work_unit = (\<lambda>(_, info). bindR (jget info ''status'') (\<lambda>status.
     bindR (in_strs status [''done'', ''cancelled'']) (\<lambda>closed.
     Inr (\<not> closed))))"

definition work_units_to_verify :: "json \<Rightarrow> json list \<Rightarrow> json list res" where
  "work_units_to_verify project_state explicit_ids =
     (if explicit_ids \<noteq> [] then Inr explicit_ids else bindR (jget_or project_state ''work_units'' (JObj [])) (\<lambda>work_units.
        bindR (as_obj work_units) (\<lambda>entries.
        bindR (filterR is_open_work_unit entries) (\<lambda>still_open.
        Inr (map JStr (sorted_strs (map fst still_open)))))))"

text \<open>
  One Work Unit of a check: a failure is what the failing document would list, \<open>Inr []\<close> is a pass.
  A Work Unit that is ambiguous or has no file fails.
\<close>

definition missing_for_g4 :: "(json \<Rightarrow> json res) \<Rightarrow> store \<Rightarrow> json \<Rightarrow> string list res" where
  "missing_for_g4 conformance s work_unit_id =
     (case find_work_unit_path s work_unit_id of
        Ambiguous reason \<Rightarrow> Inr [reason]
      | Missing \<Rightarrow> Inr [''work unit file not found'']
      | Found p \<Rightarrow> bindR (read_yaml s p) (\<lambda>document.
          missing_done_prerequisites (Some conformance) document))"

definition verify_g4_preconditions ::
  "(json \<Rightarrow> json res) \<Rightarrow> store \<Rightarrow> json list \<Rightarrow> (json list \<times> json list) res" where
  "verify_g4_preconditions conformance s work_unit_ids = bindR (mapR (\<lambda>i. bindR (missing_for_g4 conformance s i) (\<lambda>missing. Inr (i, missing))) work_unit_ids) (\<lambda>results.
     Inr (map (\<lambda>(i, _). JObj [(''work_unit_id'', i), (''status'', JStr ''preconditions_satisfied'')])
            (filter (\<lambda>(_, missing). missing = []) results),
          map (\<lambda>(i, missing). JObj [(''work_unit_id'', i), (''missing'', JList (map JStr missing))])
            (filter (\<lambda>(_, missing). missing \<noteq> []) results)))"

text \<open>\<open>i.get("severity") == "blocking"\<close> for the issues of a readiness that is not ok.\<close>

definition g1_failure :: "(json \<Rightarrow> json res) \<Rightarrow> store \<Rightarrow> json \<Rightarrow> json list res" where
  "g1_failure design_readiness s work_unit_id =
     (case find_work_unit_path s work_unit_id of
        Ambiguous reason \<Rightarrow>
          Inr [JObj [(''work_unit_id'', work_unit_id), (''issues'', JList [JStr reason])]]
      | Missing \<Rightarrow>
          Inr [JObj [(''work_unit_id'', work_unit_id), (''issues'', JList [JStr ''work unit file not found''])]]
      | Found p \<Rightarrow> bindR (read_yaml s p) (\<lambda>document.
          bindR (design_readiness (por document (JObj []))) (\<lambda>readiness.
          bindR (jget readiness ''ok'') (\<lambda>ok.
          (if truthy ok then Inr [] else
          bindR (jget readiness ''issues'') (\<lambda>issues.
          bindR (jiter (por issues (JList []))) (\<lambda>listed.
          bindR (filterR (\<lambda>i. bindR (jget i ''severity'') (\<lambda>v. Inr (v = JStr ''blocking''))) listed) (\<lambda>blocking.
          Inr [JObj [(''work_unit_id'', work_unit_id),
                     (''issues'', if blocking \<noteq> [] then JList blocking else por issues (JList []))]]))))))))"

definition check_g1 :: "(json \<Rightarrow> json res) \<Rightarrow> store \<Rightarrow> json \<Rightarrow> json list \<Rightarrow> unit res" where
  "check_g1 design_readiness s project_state work_unit_ids = bindR (work_units_to_verify project_state work_unit_ids) (\<lambda>to_check.
     bindR (mapR (g1_failure design_readiness s) to_check) (\<lambda>failures.
     (if concat failures \<noteq> [] then gateway_error INVARIANT_VIOLATION ''/payload/gate'' else
     Inr ())))"

definition check_g4 :: "(json \<Rightarrow> json res) \<Rightarrow> store \<Rightarrow> json \<Rightarrow> json list \<Rightarrow> json list res" where
  "check_g4 conformance s project_state work_unit_ids = bindR (work_units_to_verify project_state work_unit_ids) (\<lambda>to_verify.
     bindR (verify_g4_preconditions conformance s to_verify) (\<lambda>(verified, failures).
     (if failures \<noteq> [] then gateway_error INVARIANT_VIOLATION ''/payload/gate'' else
     Inr verified)))"

section \<open>What an acceptance clears\<close>

definition is_word_char :: "char \<Rightarrow> bool" where
  "is_word_char c \<longleftrightarrow> c \<in> set ''abcdefghijklmnopqrstuvwxyz0123456789_''"

text \<open>\<open>re.search(r"\bg4\b", text)\<close> on a lower-case text; \<open>inside\<close> says that a word character came before.\<close>

fun has_word_g4 :: "bool \<Rightarrow> string \<Rightarrow> bool" where
  "has_word_g4 inside [] = False"
| "has_word_g4 inside (c # cs) =
     (\<not> inside \<and> startswith (c # cs) ''g4'' \<and> (drop 1 cs = [] \<or> \<not> is_word_char (hd (drop 1 cs)))
      \<or> has_word_g4 (is_word_char c) cs)"

definition about_acceptance :: "json \<Rightarrow> bool" where
  "about_acceptance item =
     (let txt = lower (py_str item) in
      infix_of ''human_acceptance'' txt \<or> infix_of ''human acceptance'' txt \<or> has_word_g4 False txt)"

definition accept_work_unit :: "json \<Rightarrow> json \<Rightarrow> json res" where
  "accept_work_unit human_acceptance_value document = bindR (setdefault_value document ''outcomes'' (JObj [])) (\<lambda>outcomes.
     bindR (jset outcomes ''human_acceptance'' human_acceptance_value) (\<lambda>outcomes1.
     bindR (jget outcomes1 ''critical_open_items'') (\<lambda>items.
     bindR (jiter (por items (JList []))) (\<lambda>listed.
     bindR (jset outcomes1 ''critical_open_items'' (JList (filter (\<lambda>i. \<not> about_acceptance i) listed))) (\<lambda>outcomes2.
     jset document ''outcomes'' outcomes2)))))"

definition accept_work_unit_by_id :: "store \<Rightarrow> json \<Rightarrow> json \<Rightarrow> (json \<times> string \<times> json) list res" where
  "accept_work_unit_by_id s human_acceptance_value work_unit_id =
     (case find_work_unit_path s work_unit_id of
        Found p \<Rightarrow> bindR (read_yaml s p) (\<lambda>document.
          bindR (accept_work_unit human_acceptance_value (por document (JObj []))) (\<lambda>document1.
          Inr [(JObj [(''kind'', JStr ''work_unit''), (''id'', work_unit_id),
                      (''human_acceptance'', human_acceptance_value)], p, document1)]))
      | _ \<Rightarrow> Inr [])"

section \<open>RecordGateDecision\<close>

fun split_comma :: "string \<Rightarrow> string list" where
  "split_comma [] = [[]]"
| "split_comma (c # cs) =
     (if c = CHR '','' then [] # split_comma cs
      else (case split_comma cs of [] \<Rightarrow> [[c]] | w # ws \<Rightarrow> (c # w) # ws))"

definition gate_work_unit_ids :: "json \<Rightarrow> json list res" where
  "gate_work_unit_ids payload = bindR (jget payload ''work_unit_ids'') (\<lambda>ids.
     (case por ids (JList []) of
        JStr t \<Rightarrow> Inr (map JStr (filter (\<lambda>w. w \<noteq> []) (map strip (split_comma t))))
      | v \<Rightarrow> jiter v))"

definition check_gate_status :: "json \<Rightarrow> json \<Rightarrow> unit res" where
  "check_gate_status gate status = bindR (in_strs gate (map fst GATE_STATUS_BY_GATE)) (\<lambda>known.
     (if \<not> known then gateway_error INVALID_SCHEMA ''/payload/gate'' else
     bindR (in_strs status (the (map_of GATE_STATUS_BY_GATE (py_str gate)))) (\<lambda>allowed.
     (if \<not> allowed then gateway_error INVALID_SCHEMA ''/payload/status'' else
     Inr ()))))"

definition next_phase :: "string \<Rightarrow> string \<Rightarrow> obj \<Rightarrow> obj" where
  "next_phase gate status state =
     (if gate = ''G1'' \<and> status = ''approved'' then set_keys [(''phase'', JStr ''execution'')] state
      else if gate = ''G0'' \<and> status \<in> {''rejected'', ''failed'', ''changes_requested''}
        then set_keys [(''phase'', JStr ''readiness_blocked'')] state
      else if gate = ''G4'' \<and> status \<in> set G4_COMPLETION_STATUSES
        then set_keys [(''phase'', JStr ''completed'')] state
      else state)"

definition decide_gate :: "env \<Rightarrow> string \<Rightarrow> string \<Rightarrow> json \<Rightarrow> json \<Rightarrow> json \<Rightarrow> json res" where
  "decide_gate env gate status by note project_state = bindR (as_obj project_state) (\<lambda>fields.
     bindR (setdefault_value project_state ''gates'' (JObj [])) (\<lambda>gates.
     bindR (setdefault_value gates gate (JObj [])) (\<lambda>previous.
     bindR (jset gates gate (JObj [(''status'', JStr status), (''by'', by), (''at'', now_iso env), (''note'', note)])) (\<lambda>gates1.
     Inr (JObj (set_keys [(''last_updated'', now_iso env)]
       (next_phase gate status (set_keys [(''gates'', gates1)] fields))))))))"

definition project_state_path :: string where
  "project_state_path = ''state/project-state.yaml''"

definition gate_decision :: "env \<Rightarrow> string \<Rightarrow> string \<Rightarrow> json \<Rightarrow> json \<Rightarrow> json" where
  "gate_decision env gate status by note = JObj
     [(''id'', JStr (generate_gate_decision_id env gate)), (''gate'', JStr gate), (''status'', JStr status),
      (''by'', by), (''at'', now_iso env), (''note'', note)]"

definition gate_preconditions ::
  "(json \<Rightarrow> json res) \<Rightarrow> (json \<Rightarrow> json res) \<Rightarrow> store \<Rightarrow> string \<Rightarrow> string \<Rightarrow> json \<Rightarrow> json list
     \<Rightarrow> json list res" where
  "gate_preconditions design_readiness conformance s gate status project_state work_unit_ids = bindR ((if gate = ''G1'' \<and> status = ''approved''
               then check_g1 design_readiness s project_state work_unit_ids else Inr ())) (\<lambda>ready.
     (if gate = ''G4'' \<and> status \<in> set G4_COMPLETION_STATUSES
      then check_g4 conformance s project_state work_unit_ids else Inr []))"

definition gate_acceptances :: "store \<Rightarrow> string \<Rightarrow> string \<Rightarrow> json list \<Rightarrow> (json \<times> string \<times> json) list res" where
  "gate_acceptances s gate status work_unit_ids =
     (if gate = ''G4'' then bindR (mapR (accept_work_unit_by_id s
          (JStr (case map_of HUMAN_ACCEPTANCE_BY_GATE_STATUS status of None \<Rightarrow> status | Some v \<Rightarrow> v))) work_unit_ids) (\<lambda>accepted.
        Inr (concat accepted))
      else Inr [])"

definition handle_record_gate_decision ::
  "(json \<Rightarrow> json res) \<Rightarrow> (json \<Rightarrow> json res) \<Rightarrow> workspace \<Rightarrow> env \<Rightarrow> store \<Rightarrow> json \<Rightarrow> reply res" where
  "handle_record_gate_decision design_readiness conformance ws env s envelope = bindR (object_payload envelope) (\<lambda>payload.
     bindR (jget payload ''gate'') (\<lambda>g.
     bindR (jget payload ''status'') (\<lambda>st.
     bindR (jget payload ''by'') (\<lambda>by.
     bindR (check_gate_status g st) (\<lambda>allowed.
     (if \<not> truthy by then gateway_error INVALID_SCHEMA ''/payload/by'' else
     (let gate = py_str g in
     (let status = py_str st in
     (if \<not> is_file s project_state_path then gateway_error NOT_FOUND ''/payload/gate'' else
     bindR (read_yaml s project_state_path) (\<lambda>project_state.
     bindR (gate_work_unit_ids payload) (\<lambda>work_unit_ids.
     bindR (enforce_product_gate_composition ws s gate) (\<lambda>composition.
     bindR (gate_preconditions design_readiness conformance s gate status project_state work_unit_ids) (\<lambda>verified.
     bindR (jget_or payload ''note'' (JStr [])) (\<lambda>note.
     (let decision = gate_decision env gate status by note in
     bindR (validate_against_schema env decision ''gate-decision.schema.json'' []) (\<lambda>valid.
     bindR (decide_gate env gate status by note project_state) (\<lambda>project_state1.
     bindR (consume_human_authorization env s envelope) (\<lambda>consumed.
     bindR (gate_acceptances s gate status work_unit_ids) (\<lambda>accepted.
     bindR (jget project_state1 ''phase'') (\<lambda>phase.
     bindR ((if composition = JNull then Inr [] else
       bindR (jget composition ''id'') (\<lambda>i. Inr [(''composition_id'', i)]))) (\<lambda>composition_id.
     Inr (\<lparr>r_affected =
        [JObj [(''kind'', JStr ''gate_decision''), (''id'', JStr (generate_gate_decision_id env gate)),
               (''gate'', JStr gate), (''status'', JStr status)],
         JObj [(''kind'', JStr ''project_state''), (''phase'', phase)]] @ map fst accepted,
       r_details = (let details = (if verified = [] then [] else [(''preconditions_verified'', JList verified)]) @ composition_id
                    in if details = [] then JNull else JObj details),
       r_events = [],
       r_writes =
        [consumed, (decision_request_path (JStr (generate_gate_decision_id env gate)), decision),
         (project_state_path, project_state1)] @ map snd accepted\<rparr>))))))))))))))))))))))"

end
