(* ===== verification/TransactionRecovery.thy ===== *)
theory TransactionRecovery
  imports Transaction
begin

text \<open>
  Recovery makes a commit atomic: wherever the process dies, recovery leaves the files as they
  were before the transaction, or with every planned write and event applied.
\<close>

section \<open>Loops that establish a fact at every element\<close>

lemma foldR_append: "foldR f s (xs @ ys) = bindR (foldR f s xs) (\<lambda>s'. foldR f s' ys)"
  by (induction xs arbitrary: s) (simp_all add: bindR_assoc)

lemma foldR_establish:
  assumes "\<And>x s. x \<in> set xs \<Longrightarrow> P s \<Longrightarrow>
      \<exists>s'. f s x = Inr s' \<and> P s' \<and> R x s' \<and> (\<forall>y. R y s \<longrightarrow> R y s')"
    and "P s"
  shows "\<exists>s'. foldR f s xs = Inr s' \<and> P s' \<and> (\<forall>x \<in> set xs. R x s') \<and> (\<forall>y. R y s \<longrightarrow> R y s')"
  using assms
proof (induction xs arbitrary: s)
  case (Cons x xs)
  have "\<exists>s'. f s x = Inr s' \<and> P s' \<and> R x s' \<and> (\<forall>y. R y s \<longrightarrow> R y s')"
    by (rule Cons.prems(1)) (simp_all add: Cons.prems(2))
  then obtain s1 where s1: "f s x = Inr s1" "P s1" "R x s1" "\<And>y. R y s \<Longrightarrow> R y s1"
    by blast
  have "\<exists>s'. foldR f s1 xs = Inr s' \<and> P s' \<and> (\<forall>x \<in> set xs. R x s') \<and> (\<forall>y. R y s1 \<longrightarrow> R y s')"
    by (rule Cons.IH [OF Cons.prems(1) s1(2)]) simp_all
  then obtain s2 where s2: "foldR f s1 xs = Inr s2" "P s2" "\<And>y. y \<in> set xs \<Longrightarrow> R y s2"
      "\<And>y. R y s1 \<Longrightarrow> R y s2"
    by blast
  have "foldR f s (x # xs) = Inr s2" by (simp add: s1(1) s2(1))
  moreover have "\<forall>z \<in> set (x # xs). R z s2" using s2(3) s2(4) [OF s1(3)] by auto
  moreover have "\<forall>y. R y s \<longrightarrow> R y s2" using s1(4) s2(4) by blast
  ultimately have "foldR f s (x # xs) = Inr s2 \<and> P s2 \<and> (\<forall>z \<in> set (x # xs). R z s2) \<and> (\<forall>y. R y s \<longrightarrow> R y s2)"
    using s2(2) by blast
  then show ?case by blast
qed simp

lemma foldR_keeps:
  assumes "\<And>x s. x \<in> set xs \<Longrightarrow> P s \<Longrightarrow> \<exists>s'. f s x = Inr s' \<and> P s'" and "P s"
  shows "\<exists>s'. foldR f s xs = Inr s' \<and> P s'"
  using foldR_establish [of xs P f "\<lambda>_ _. True"] assms by auto

lemma run_each_foldR: "foldR f d xs = Inr d' \<Longrightarrow> run_each f d xs = (d', None)"
  by (induction xs arbitrary: d) auto

section \<open>Reading the disk\<close>

lemma tx_of_put_tx [simp]: "tx_of (put_tx i t d) j = (if i = j then t else tx_of d j)"
  by (simp add: tx_of_def put_tx_def)

lemma files_put_tx [simp]: "files (put_tx i t d) = files d"
  by (simp add: put_tx_def)

lemma files_put_file [simp]: "map_of (files (put_file p c d)) = (map_of (files d))(p \<mapsto> c)"
  by (simp add: put_file_def)

lemma tx_of_put_file [simp]: "tx_of (put_file p c d) i = tx_of d i"
  by (simp add: tx_of_def put_file_def)

lemma tx_dirs_put_file [simp]: "tx_dirs (put_file p c d) = tx_dirs d"
  by (simp add: put_file_def)

definition all_written :: "'c transaction \<Rightarrow> (string \<times> 'c) list \<Rightarrow> (string \<times> 'c) list" where
  "all_written tx fs =
     fold (\<lambda>w. AList.update (relative_path w) (content w)) (planned tx @ planned_domain_events tx) fs"

lemma map_of_fold_writes_other:
  "p \<notin> relative_path ` set us \<Longrightarrow>
   map_of (fold (\<lambda>w. AList.update (relative_path w) (content w)) us fs) p = map_of fs p"
  by (induction us arbitrary: fs) auto

lemma map_of_fold_writes:
  "distinct (map relative_path us) \<Longrightarrow> w \<in> set us \<Longrightarrow>
   map_of (fold (\<lambda>w. AList.update (relative_path w) (content w)) us fs) (relative_path w)
     = Some (content w)"
  by (induction us arbitrary: fs) (auto simp: map_of_fold_writes_other)

section \<open>What a planned transaction satisfies\<close>

text \<open>The writes were planned on the files of \<open>d\<close>, each for a path of its own.\<close>

definition well_planned :: "('c \<Rightarrow> string) \<Rightarrow> 'c disk \<Rightarrow> 'c transaction \<Rightarrow> bool" where
  "well_planned h d tx \<longleftrightarrow>
     distinct (map relative_path (planned tx @ planned_domain_events tx)) \<and>
     (\<forall>w \<in> set (planned tx). before_hash w = map_option h (map_of (files d) (relative_path w))) \<and>
     (\<forall>w \<in> set (planned_domain_events tx). map_of (files d) (relative_path w) = None)"

text \<open>The hash tells a planned content from the content it replaces.\<close>

definition hash_separates :: "('c \<Rightarrow> string) \<Rightarrow> 'c disk \<Rightarrow> 'c transaction \<Rightarrow> bool" where
  "hash_separates h d tx \<longleftrightarrow>
     (\<forall>w \<in> set (planned tx). \<forall>c. map_of (files d) (relative_path w) = Some c \<longrightarrow>
        h c = h (content w) \<longrightarrow> c = content w)"

text \<open>No journal asks for recovery.\<close>

definition settled :: "'c disk \<Rightarrow> string \<Rightarrow> bool" where
  "settled d i = (case jfile (tx_of d i) of
     None \<Rightarrow> True | Some Unreadable \<Rightarrow> False | Some (Journal j) \<Rightarrow> j_status j = ''committed'')"

lemma well_planned_write:
  assumes "well_planned h d tx" and "p \<notin> relative_path ` set (planned tx @ planned_domain_events tx)"
  shows "well_planned h d (plan_write h d p c tx)"
  using assms by (auto simp: well_planned_def plan_write_def)

lemma well_planned_event:
  assumes "well_planned h d tx" and "p \<notin> relative_path ` set (planned tx @ planned_domain_events tx)"
    and "plan_domain_event d p c tx = Inr tx'"
  shows "well_planned h d tx'"
proof -
  have "tx' = tx\<lparr>planned_domain_events := planned_domain_events tx @
      [\<lparr>relative_path = p, content = c, before_hash = None\<rparr>]\<rparr>" "map_of (files d) p = None"
    using assms(3) by (auto simp: plan_domain_event_def)
  moreover have "p \<notin> relative_path ` set (planned tx)" "p \<notin> relative_path ` set (planned_domain_events tx)"
    using assms(2) by auto
  ultimately show ?thesis
    using assms(1) unfolding well_planned_def by (simp add: image_Un)
qed

lemma well_planned_begin: "well_planned h d (fst (begin_transaction i d))"
  by (simp add: well_planned_def begin_transaction_def)

lemma recover_tx_settled: "settled d i \<Longrightarrow> recover_tx h ht i d = (d, Inr [])"
  by (auto simp: settled_def recover_tx_def Let_def split: option.splits journal_file.splits)

lemma recover_each_settled:
  "\<forall>i \<in> set is. settled d i \<Longrightarrow> recover_each h ht is ms d = (d, Inr ms)"
  by (induction "is" arbitrary: ms) (auto simp: recover_tx_settled)

section \<open>The stages of a commit\<close>

definition staged :: "'c transaction \<Rightarrow> 'c tx_dir \<Rightarrow> bool" where
  "staged tx t \<longleftrightarrow>
     (\<forall>n < length (planned tx). map_of (stages t) n = Some (content (planned tx ! n))) \<and>
     (\<forall>n < length (planned_domain_events tx).
        map_of (event_stages t) n = Some (content (planned_domain_events tx ! n)))"

text \<open>The other transactions of \<open>d\<close> are as in \<open>d0\<close>.\<close>

definition same_others :: "string \<Rightarrow> 'c disk \<Rightarrow> 'c disk \<Rightarrow> bool" where
  "same_others i d0 d \<longleftrightarrow>
     (\<forall>j. j \<noteq> i \<longrightarrow> tx_of d j = tx_of d0 j)"

definition before_journal :: "'c transaction \<Rightarrow> 'c disk \<Rightarrow> 'c disk \<Rightarrow> bool" where
  "before_journal tx d0 d \<longleftrightarrow>
     files d = files d0 \<and> same_others (transaction_id tx) d0 d \<and> jfile (tx_of d (transaction_id tx)) = None"

definition mid_commit ::
  "('c \<Rightarrow> string) \<Rightarrow> (string \<Rightarrow> string) \<Rightarrow> 'c transaction \<Rightarrow> 'c disk \<Rightarrow> 'c disk \<Rightarrow> bool" where
  "mid_commit h ht tx d0 d \<longleftrightarrow>
     (\<forall>p. map_of (files d) p \<in> {map_of (files d0) p, map_of (all_written tx (files d0)) p}) \<and>
     same_others (transaction_id tx) d0 d \<and> staged tx (tx_of d (transaction_id tx)) \<and>
     jfile (tx_of d (transaction_id tx)) = Some (Journal (journal_for h ht tx ''prepared''))"

lemma same_others_put_tx [simp]: "same_others i d0 d \<Longrightarrow> same_others i d0 (put_tx i t d)"
  by (auto simp: same_others_def)

lemma same_others_put_file [simp]: "same_others i d0 (put_file p c d) = same_others i d0 d"
  by (simp add: same_others_def)

lemma same_others_refl [simp]: "same_others i d d"
  by (auto simp: same_others_def)

lemma set_enumerate: "(n, w) \<in> set (List.enumerate 0 us) \<longleftrightarrow> n < length us \<and> w = us ! n"
  by (force simp: in_set_enumerate_eq)

lemma stage_op_keeps:
  assumes "x \<in> set (stage_ops tx)" and "before_journal tx d0 d"
  shows "\<exists>d'. exec_op (transaction_id tx) d x = Inr d' \<and> before_journal tx d0 d'"
  using assms by (auto simp: stage_ops_def before_journal_def Let_def)

definition stage_done :: "'c transaction \<Rightarrow> 'c op \<Rightarrow> 'c disk \<Rightarrow> bool" where
  "stage_done tx x d = (case x of
     WriteStage n c \<Rightarrow> n < length (planned tx) \<and> c = content (planned tx ! n) \<and>
       map_of (stages (tx_of d (transaction_id tx))) n = Some c
   | WriteEventStage n c \<Rightarrow> n < length (planned_domain_events tx) \<and>
       c = content (planned_domain_events tx ! n) \<and>
       map_of (event_stages (tx_of d (transaction_id tx))) n = Some c
   | _ \<Rightarrow> False)"

lemma stage_op_done:
  assumes "x \<in> set (stage_ops tx)" and "before_journal tx d0 d"
  shows "\<exists>d'. exec_op (transaction_id tx) d x = Inr d' \<and> before_journal tx d0 d' \<and>
    stage_done tx x d' \<and> (\<forall>y. stage_done tx y d \<longrightarrow> stage_done tx y d')"
  using assms
  by (auto simp: stage_ops_def before_journal_def Let_def stage_done_def set_enumerate split: op.splits)

lemma run_stages:
  assumes "before_journal tx d0 d0"
  shows "\<exists>d. foldR (exec_op (transaction_id tx)) d0 (stage_ops tx) = Inr d \<and>
    before_journal tx d0 d \<and> staged tx (tx_of d (transaction_id tx))"
proof -
  obtain d where d: "foldR (exec_op (transaction_id tx)) d0 (stage_ops tx) = Inr d"
    "before_journal tx d0 d" "\<forall>x \<in> set (stage_ops tx). stage_done tx x d"
    using foldR_establish [of "stage_ops tx" "before_journal tx d0" "exec_op (transaction_id tx)" "stage_done tx" d0]
      stage_op_done assms by blast
  have "WriteStage n (content (planned tx ! n)) \<in> set (stage_ops tx)" if "n < length (planned tx)" for n
    using that by (force simp: stage_ops_def set_enumerate)
  moreover have "WriteEventStage n (content (planned_domain_events tx ! n)) \<in> set (stage_ops tx)"
    if "n < length (planned_domain_events tx)" for n
    using that by (force simp: stage_ops_def set_enumerate)
  ultimately have "staged tx (tx_of d (transaction_id tx))"
    using d(3) by (fastforce simp: staged_def stage_done_def)
  with d show ?thesis by blast
qed

lemma write_journal_mid:
  assumes "before_journal tx d0 d" and "staged tx (tx_of d (transaction_id tx))"
  shows "\<exists>d'. exec_op (transaction_id tx) d (WriteJournal (journal_for h ht tx ''prepared'')) = Inr d' \<and>
    mid_commit h ht tx d0 d'"
  using assms by (auto simp: before_journal_def mid_commit_def staged_def)

section \<open>Copying and recovering\<close>

lemma all_written_planned:
  assumes "well_planned h d0 tx" and "w \<in> set (planned tx @ planned_domain_events tx)"
  shows "map_of (all_written tx fs) (relative_path w) = Some (content w)"
  using assms map_of_fold_writes unfolding all_written_def well_planned_def by blast

lemma all_written_other:
  "p \<notin> relative_path ` set (planned tx @ planned_domain_events tx) \<Longrightarrow>
   map_of (all_written tx fs) p = map_of fs p"
  unfolding all_written_def by (rule map_of_fold_writes_other)

text \<open>Writing a planned content to its path keeps the disk in mid-commit.\<close>

lemma mid_commit_put:
  assumes "mid_commit h ht tx d0 d" and "well_planned h d0 tx"
    and "w \<in> set (planned tx @ planned_domain_events tx)"
  shows "mid_commit h ht tx d0 (put_file (relative_path w) (content w) d)"
  using assms all_written_planned [OF assms(2,3), of "files d0"]
  unfolding mid_commit_def by simp

definition copied :: "'c transaction \<Rightarrow> 'c disk \<Rightarrow> string \<Rightarrow> 'c disk \<Rightarrow> bool" where
  "copied tx d0 p d \<longleftrightarrow> map_of (files d) p = map_of (all_written tx (files d0)) p"

lemma copied_put:
  assumes "well_planned h d0 tx" and "w \<in> set (planned tx @ planned_domain_events tx)"
  shows "copied tx d0 (relative_path w) (put_file (relative_path w) (content w) d)"
    and "copied tx d0 q d \<Longrightarrow> copied tx d0 q (put_file (relative_path w) (content w) d)"
  using all_written_planned [OF assms, of "files d0"] by (auto simp: copied_def)

definition op_path :: "'c op \<Rightarrow> string" where
  "op_path x = (case x of CopyStage n p \<Rightarrow> p | CopyEventStage n p \<Rightarrow> p | _ \<Rightarrow> [])"

lemma op_path_enumerate:
  "map op_path (map (\<lambda>(n, w). CopyStage n (relative_path w)) (List.enumerate k us)) = map relative_path us"
  "map op_path (map (\<lambda>(n, w). CopyEventStage n (relative_path w)) (List.enumerate k us)) = map relative_path us"
  by (induction us arbitrary: k) (simp_all add: op_path_def)

lemma copy_ops_paths:
  "map op_path (copy_ops tx) = map relative_path (planned tx @ planned_domain_events tx)"
  unfolding copy_ops_def map_append op_path_enumerate ..

lemma copy_op_step:
  assumes "x \<in> set (copy_ops tx)" and "mid_commit h ht tx d0 d" and "well_planned h d0 tx"
  shows "\<exists>d'. exec_op (transaction_id tx) d x = Inr d' \<and> mid_commit h ht tx d0 d' \<and>
    copied tx d0 (op_path x) d' \<and> (\<forall>y. copied tx d0 (op_path y) d \<longrightarrow> copied tx d0 (op_path y) d')"
proof -
  have "\<exists>w \<in> set (planned tx @ planned_domain_events tx). op_path x = relative_path w \<and>
      exec_op (transaction_id tx) d x = Inr (put_file (relative_path w) (content w) d)"
    using assms(1,2)
    by (force simp: copy_ops_def set_enumerate op_path_def mid_commit_def staged_def)
  then show ?thesis
    using mid_commit_put [OF assms(2,3)] copied_put [OF assms(3)] by auto
qed

lemma run_copies:
  assumes "mid_commit h ht tx d0 d" and "well_planned h d0 tx"
  shows "\<exists>d'. foldR (exec_op (transaction_id tx)) d (copy_ops tx) = Inr d' \<and> mid_commit h ht tx d0 d' \<and>
    map_of (files d') = map_of (all_written tx (files d0))"
proof -
  obtain d' where d': "foldR (exec_op (transaction_id tx)) d (copy_ops tx) = Inr d'"
    "mid_commit h ht tx d0 d'" "\<forall>x \<in> set (copy_ops tx). copied tx d0 (op_path x) d'"
    using foldR_establish [of "copy_ops tx" "mid_commit h ht tx d0" "exec_op (transaction_id tx)"
        "\<lambda>x. copied tx d0 (op_path x)" d] copy_op_step assms by blast
  have "copied tx d0 p d'" for p
  proof (cases "p \<in> relative_path ` set (planned tx @ planned_domain_events tx)")
    case True
    then obtain x where "x \<in> set (copy_ops tx)" "op_path x = p"
      by (metis copy_ops_paths imageE set_map)
    with d'(3) show ?thesis by blast
  next
    case False
    then show ?thesis using d'(2) by (auto simp: copied_def mid_commit_def all_written_other)
  qed
  with d' show ?thesis by (auto simp: copied_def)
qed

lemma pending_write_step:
  assumes "mid_commit h ht tx d0 d" and "well_planned h d0 tx" and "hash_separates h d0 tx"
    and "n < length (planned tx)" and "staged tx (tx_of d1 i)"
  shows "\<exists>d'. apply_pending_write h (tx_of d1 i) d (n, build_journal_write h (planned tx ! n)) = Inr d' \<and>
      mid_commit h ht tx d0 d' \<and> copied tx d0 (relative_path (planned tx ! n)) d' \<and>
      (\<forall>q. copied tx d0 q d \<longrightarrow> copied tx d0 q d')"
proof -
  let ?w = "planned tx ! n"
  have w: "?w \<in> set (planned tx)" using assms(4) by simp
  then have w': "?w \<in> set (planned tx @ planned_domain_events tx)" by simp
  have after: "map_of (all_written tx (files d0)) (relative_path ?w) = Some (content ?w)"
    by (rule all_written_planned [OF assms(2) w'])
  have at: "map_of (files d) (relative_path ?w) \<in> {map_of (files d0) (relative_path ?w), Some (content ?w)}"
    using assms(1) after unfolding mid_commit_def by (metis)
  have sep: "map_of (files d0) (relative_path ?w) = Some c \<Longrightarrow> h c = h (content ?w) \<Longrightarrow> c = content ?w" for c
    using assms(3) w by (auto simp: hash_separates_def)
  have before: "before_hash ?w = map_option h (map_of (files d0) (relative_path ?w))"
    using assms(2) w by (auto simp: well_planned_def)
  have stage: "map_of (stages (tx_of d1 i)) n = Some (content ?w)"
    using assms(4,5) by (simp add: staged_def)
  show ?thesis
  proof (cases "target_matches_hash h d (relative_path ?w) (h (content ?w))")
    case True
    then have "map_of (files d) (relative_path ?w) = Some (content ?w)"
      using at sep by (auto simp: target_matches_hash_def split: option.splits)
    then have "copied tx d0 (relative_path ?w) d" by (simp add: copied_def after)
    with True assms(1) show ?thesis
      by (auto simp: apply_pending_write_def build_journal_write_def)
  next
    case False
    then have "map_of (files d) (relative_path ?w) = map_of (files d0) (relative_path ?w)"
      using at by (auto simp: target_matches_hash_def)
    with False before stage
    have "apply_pending_write h (tx_of d1 i) d (n, build_journal_write h ?w)
        = Inr (put_file (relative_path ?w) (content ?w) d)"
      by (auto simp: apply_pending_write_def build_journal_write_def split: option.splits)
    then show ?thesis
      using mid_commit_put [OF assms(1,2) w'] copied_put [OF assms(2) w'] by blast
  qed
qed

lemma pending_event_step:
  assumes "mid_commit h ht tx d0 d" and "well_planned h d0 tx"
    and "n < length (planned_domain_events tx)" and "staged tx (tx_of d1 i)"
  shows "\<exists>d'. apply_pending_domain_event h (tx_of d1 i) d
        (n, build_journal_write h (planned_domain_events tx ! n)) = Inr d' \<and>
      mid_commit h ht tx d0 d' \<and> copied tx d0 (relative_path (planned_domain_events tx ! n)) d' \<and>
      (\<forall>q. copied tx d0 q d \<longrightarrow> copied tx d0 q d')"
proof -
  let ?w = "planned_domain_events tx ! n"
  have w: "?w \<in> set (planned_domain_events tx)" using assms(3) by simp
  then have w': "?w \<in> set (planned tx @ planned_domain_events tx)" by simp
  have after: "map_of (all_written tx (files d0)) (relative_path ?w) = Some (content ?w)"
    by (rule all_written_planned [OF assms(2) w'])
  have at: "map_of (files d) (relative_path ?w) \<in> {None, Some (content ?w)}"
    using assms(1,2) w after unfolding mid_commit_def well_planned_def by (metis)
  show ?thesis
  proof (cases "map_of (files d) (relative_path ?w)")
    case None
    with assms(3,4) have "apply_pending_domain_event h (tx_of d1 i) d (n, build_journal_write h ?w)
        = Inr (put_file (relative_path ?w) (content ?w) d)"
      by (simp add: apply_pending_domain_event_def build_journal_write_def staged_def)
    then show ?thesis
      using mid_commit_put [OF assms(1,2) w'] copied_put [OF assms(2) w'] by blast
  next
    case (Some c)
    with at have "c = content ?w" by simp
    with Some assms(1) after show ?thesis
      by (auto simp: apply_pending_domain_event_def build_journal_write_def target_matches_hash_def copied_def)
  qed
qed

lemma enumerate_map: "List.enumerate 0 (map f us) = map (\<lambda>(n, w). (n, f w)) (List.enumerate 0 us)"
  by (simp add: enumerate_eq_zip zip_map2)

text \<open>One loop of recovery, over the planned writes or over the planned events.\<close>

lemma recovery_loop:
  assumes "\<And>n d. n < length us \<Longrightarrow> mid_commit h ht tx d0 d \<Longrightarrow>
      \<exists>d'. f d (n, build_journal_write h (us ! n)) = Inr d' \<and> mid_commit h ht tx d0 d' \<and>
        copied tx d0 (relative_path (us ! n)) d' \<and> (\<forall>q. copied tx d0 q d \<longrightarrow> copied tx d0 q d')"
    and "mid_commit h ht tx d0 d"
  shows "\<exists>d'. run_each f d (List.enumerate 0 (map (build_journal_write h) us)) = (d', None) \<and>
      mid_commit h ht tx d0 d' \<and> (\<forall>w \<in> set us. copied tx d0 (relative_path w) d') \<and>
      (\<forall>q. copied tx d0 q d \<longrightarrow> copied tx d0 q d')"
proof -
  let ?xs = "List.enumerate 0 (map (build_journal_write h) us)"
  have step: "\<exists>d'. f d x = Inr d' \<and> mid_commit h ht tx d0 d' \<and> copied tx d0 (jw_path (snd x)) d' \<and>
      (\<forall>y. copied tx d0 (jw_path (snd y)) d \<longrightarrow> copied tx d0 (jw_path (snd y)) d')"
    if "x \<in> set ?xs" "mid_commit h ht tx d0 d" for x d
  proof -
    define n where "n = fst x"
    have n: "n < length us" "x = (n, build_journal_write h (us ! n))"
      using that(1) by (auto simp: in_set_enumerate_eq n_def prod_eq_iff)
    have "jw_path (build_journal_write h (us ! n)) = relative_path (us ! n)"
      by (simp add: build_journal_write_def)
    then show ?thesis using assms(1) [OF n(1) that(2)] n(2) by auto
  qed
  obtain d' where d': "foldR f d ?xs = Inr d'" "mid_commit h ht tx d0 d'"
    "\<forall>x \<in> set ?xs. copied tx d0 (jw_path (snd x)) d'"
    "\<forall>y :: nat \<times> journal_write. copied tx d0 (jw_path (snd y)) d \<longrightarrow> copied tx d0 (jw_path (snd y)) d'"
    using foldR_establish [of ?xs "mid_commit h ht tx d0" f "\<lambda>x. copied tx d0 (jw_path (snd x))" d]
      step assms(2) by blast
  have "copied tx d0 (relative_path w) d'" if "w \<in> set us" for w
  proof -
    obtain n where "n < length us" "us ! n = w" using \<open>w \<in> set us\<close> by (auto simp: in_set_conv_nth)
    then have "(n, build_journal_write h w) \<in> set ?xs" by (auto simp: in_set_enumerate_eq)
    with d'(3) show ?thesis by (force simp: build_journal_write_def)
  qed
  moreover have "copied tx d0 q d'" if "copied tx d0 q d" for q
    using d'(4) that by (metis journal_write.select_convs(1) snd_conv)
  ultimately show ?thesis using run_each_foldR [OF d'(1)] d'(2) by blast
qed

lemma apply_pending_mid:
  assumes "mid_commit h ht tx d0 d" and "well_planned h d0 tx" and "hash_separates h d0 tx"
  shows "\<exists>d'. apply_pending h (journal_for h ht tx ''prepared'') (tx_of d (transaction_id tx)) d = (d', None) \<and>
      mid_commit h ht tx d0 d' \<and> map_of (files d') = map_of (all_written tx (files d0))"
proof -
  let ?t = "tx_of d (transaction_id tx)"
  have st: "staged tx ?t" using assms(1) by (simp add: mid_commit_def)
  obtain d1 where d1: "run_each (apply_pending_write h ?t) d
        (List.enumerate 0 (map (build_journal_write h) (planned tx))) = (d1, None)"
    "mid_commit h ht tx d0 d1" "\<forall>w \<in> set (planned tx). copied tx d0 (relative_path w) d1"
    using recovery_loop [of "planned tx" h ht tx d0 "apply_pending_write h ?t" d]
      pending_write_step [OF _ assms(2,3) _ st] assms(1) by blast
  obtain d2 where d2: "run_each (apply_pending_domain_event h ?t) d1
        (List.enumerate 0 (map (build_journal_write h) (planned_domain_events tx))) = (d2, None)"
    "mid_commit h ht tx d0 d2" "\<forall>w \<in> set (planned_domain_events tx). copied tx d0 (relative_path w) d2"
    "\<forall>q. copied tx d0 q d1 \<longrightarrow> copied tx d0 q d2"
    using recovery_loop [of "planned_domain_events tx" h ht tx d0 "apply_pending_domain_event h ?t" d1]
      pending_event_step [OF _ assms(2) _ st] d1(2) by blast
  have "copied tx d0 p d2" for p
  proof (cases "p \<in> relative_path ` set (planned tx @ planned_domain_events tx)")
    case True
    then show ?thesis using d1(3) d2(3,4) by auto
  next
    case False
    then show ?thesis using d2(2) by (auto simp: copied_def mid_commit_def all_written_other)
  qed
  with d1(1) d2(1,2) show ?thesis
    by (auto simp: apply_pending_def journal_for_def Let_def copied_def)
qed

lemma verify_mid:
  assumes "mid_commit h ht tx d0 d"
  shows "verify_journal_integrity ht (journal_for h ht tx ''prepared'') = Inr ()"
    and "verify_staging_hashes h (journal_for h ht tx ''prepared'') (tx_of d (transaction_id tx)) = Inr ()"
proof -
  show "verify_journal_integrity ht (journal_for h ht tx ''prepared'') = Inr ()"
    by (simp add: verify_journal_integrity_def journal_for_def Let_def)
  have "staged tx (tx_of d (transaction_id tx))" using assms by (simp add: mid_commit_def)
  then show "verify_staging_hashes h (journal_for h ht tx ''prepared'') (tx_of d (transaction_id tx)) = Inr ()"
    by (auto simp: verify_staging_hashes_def journal_for_def Let_def verify_stage_def staged_def
        in_set_enumerate_eq build_journal_write_def)
qed

lemma recover_tx_mid:
  assumes "mid_commit h ht tx d0 d" and "well_planned h d0 tx" and "hash_separates h d0 tx"
  shows "\<exists>r ms. recover_tx h ht (transaction_id tx) d = (r, Inr ms) \<and>
      map_of (files r) = map_of (all_written tx (files d0)) \<and>
      same_others (transaction_id tx) d0 r \<and> settled r (transaction_id tx)"
proof -
  obtain d' where d': "apply_pending h (journal_for h ht tx ''prepared'') (tx_of d (transaction_id tx)) d = (d', None)"
    "mid_commit h ht tx d0 d'" "map_of (files d') = map_of (all_written tx (files d0))"
    using apply_pending_mid [OF assms] by blast
  have j: "jfile (tx_of d (transaction_id tx)) = Some (Journal (journal_for h ht tx ''prepared''))"
    using assms(1) by (simp add: mid_commit_def)
  have st: "j_status (journal_for h ht tx ''prepared'') = ''prepared''"
    by (simp add: journal_for_def Let_def)
  show ?thesis
    using d'(2,3) verify_mid [OF assms(1)]
    by (simp add: recover_tx_def j st d'(1) Let_def mid_commit_def settled_def)
qed

section \<open>Properties\<close>

lemma settled_same_others:
  "same_others i d0 d \<Longrightarrow> j \<noteq> i \<Longrightarrow> settled d j = settled d0 j"
  by (simp add: same_others_def settled_def)

text \<open>Recovery of a disk on which only transaction \<open>i\<close> may be unsettled.\<close>

lemma recover_only:
  assumes "recover_tx h ht i d = (r, Inr ms)" and "i \<in> fst ` set (tx_dirs d) \<or> (r, ms) = (d, [])"
    and "\<And>j. j \<noteq> i \<Longrightarrow> settled d j" and "same_others i d r" and "settled r i"
  shows "\<exists>msgs. recover_transactions h ht d = (r, Inr msgs)"
proof -
  have rest: "settled r j" for j
    using settled_same_others [OF assms(4)] assms(3,5) by (cases "j = i") auto
  have each: "recover_each h ht is ns d = ((if i \<in> set is then r else d),
      Inr (ns @ (if i \<in> set is then ms else [])))" for "is" ns
  proof (induction "is" arbitrary: ns)
    case (Cons k ks)
    show ?case
    proof (cases "k = i")
      case True
      then show ?thesis using assms(1) rest by (simp add: recover_each_settled)
    next
      case False
      then show ?thesis using Cons assms(3) by (simp add: recover_tx_settled)
    qed
  qed simp
  show ?thesis
    using assms(2) unfolding recover_transactions_def each by auto
qed

text \<open>
  The commit up to its journal: the staged disk and the disk with the prepared journal. A crash
  before the journal leaves the files as they were and nothing to recover, one during the copies
  leaves a journal that recovery completes, one after them leaves a disk without pending work.
\<close>

lemma commit_prepared:
  assumes "tx_of d (transaction_id tx) = empty_tx"
  obtains ds dj where "foldR (exec_op (transaction_id tx)) d (stage_ops tx) = Inr ds"
    "exec_op (transaction_id tx) ds (WriteJournal (journal_for h ht tx ''prepared'')) = Inr dj"
    "mid_commit h ht tx d dj"
proof -
  have "before_journal tx d d" using assms by (simp add: before_journal_def empty_tx_def)
  then obtain ds where ds: "foldR (exec_op (transaction_id tx)) d (stage_ops tx) = Inr ds"
    "before_journal tx d ds" "staged tx (tx_of ds (transaction_id tx))" using run_stages by blast
  then show thesis using write_journal_mid [OF ds(2,3)] that by blast
qed

lemma crash_before_journal:
  assumes "tx_of d (transaction_id tx) = empty_tx" and "\<And>i. i \<noteq> transaction_id tx \<Longrightarrow> settled d i"
    and "k \<le> length (stage_ops tx)"
  shows "\<exists>d'. crash_after k h ht tx d = Inr d' \<and> recover_transactions h ht d' = (d', Inr []) \<and>
    map_of (files d') = map_of (files d)"
proof -
  let ?i = "transaction_id tx"
  have start: "before_journal tx d d" using assms(1) by (simp add: before_journal_def empty_tx_def)
  have ops: "take k (commit_ops h ht tx) = take k (stage_ops tx)" using assms(3) by (simp add: commit_ops_def)
  have "\<exists>d'. foldR (exec_op ?i) d (take k (stage_ops tx)) = Inr d' \<and> before_journal tx d d'"
    using foldR_keeps [of "take k (stage_ops tx)" "before_journal tx d" "exec_op ?i" d]
      stage_op_keeps start in_set_takeD by (metis (no_types, lifting))
  then obtain d' where d': "crash_after k h ht tx d = Inr d'" "before_journal tx d d'"
    by (auto simp: crash_after_def ops)
  have "settled d' j" for j
    using d'(2) assms(2) settled_same_others [of ?i d d' j]
    by (cases "j = ?i") (auto simp: before_journal_def settled_def)
  then have "recover_transactions h ht d' = (d', Inr [])"
    unfolding recover_transactions_def by (intro recover_each_settled) blast
  with d' show ?thesis by (auto simp: before_journal_def)
qed

lemma recover_mid_commit:
  assumes "mid_commit h ht tx d d'" and "well_planned h d tx" and "hash_separates h d tx"
    and "\<And>i. i \<noteq> transaction_id tx \<Longrightarrow> settled d i"
  shows "\<exists>r msgs. recover_transactions h ht d' = (r, Inr msgs) \<and>
    map_of (files r) = map_of (all_written tx (files d))"
proof -
  let ?i = "transaction_id tx"
  obtain r ms where r: "recover_tx h ht ?i d' = (r, Inr ms)" "settled r ?i" "same_others ?i d r"
    "map_of (files r) = map_of (all_written tx (files d))"
    using recover_tx_mid [OF assms(1-3)] by blast
  have "?i \<in> fst ` set (tx_dirs d')"
    using assms(1) map_of_eq_None_iff [of "tx_dirs d'" ?i]
    by (auto simp: mid_commit_def tx_of_def empty_tx_def split: option.splits)
  moreover have "settled d' j" if "j \<noteq> ?i" for j
    using settled_same_others [of ?i d d' j] assms(1,4) that by (auto simp: mid_commit_def)
  moreover have "same_others ?i d' r"
    using assms(1) r(3) by (simp add: same_others_def mid_commit_def)
  ultimately show ?thesis using recover_only [OF r(1)] r(2,4) by blast
qed

lemma crash_during_copies:
  assumes "tx_of d (transaction_id tx) = empty_tx" and "well_planned h d tx"
    and "k = length (stage_ops tx) + Suc m" and "m \<le> length (copy_ops tx)"
  shows "\<exists>d'. crash_after k h ht tx d = Inr d' \<and> mid_commit h ht tx d d'"
proof -
  let ?i = "transaction_id tx"
  obtain ds dj where p: "foldR (exec_op ?i) d (stage_ops tx) = Inr ds"
    "exec_op ?i ds (WriteJournal (journal_for h ht tx ''prepared'')) = Inr dj" "mid_commit h ht tx d dj"
    using commit_prepared [OF assms(1)] .
  have "foldR (exec_op ?i) d (take k (commit_ops h ht tx)) = foldR (exec_op ?i) dj (take m (copy_ops tx))"
    using assms(3,4) by (simp add: commit_ops_def foldR_append p(1,2) del: exec_op.simps)
  moreover have "\<exists>d'. foldR (exec_op ?i) dj (take m (copy_ops tx)) = Inr d' \<and> mid_commit h ht tx d d'"
    using foldR_keeps [of "take m (copy_ops tx)" "mid_commit h ht tx d" "exec_op ?i" dj]
      copy_op_step assms(2) p(3) in_set_takeD by (metis (no_types, lifting))
  ultimately show ?thesis by (auto simp: crash_after_def)
qed

text \<open>
  Without a crash a commit needs no assumption on what was planned: a path planned twice ends
  with its last content.
\<close>

lemma copies_run:
  "\<forall>(n, w) \<in> set us. map_of (stages (tx_of d i)) n = Some (content w) \<Longrightarrow>
   foldR (exec_op i) d (map (\<lambda>(n, w). CopyStage n (relative_path w)) us)
     = Inr (d\<lparr>files := fold (\<lambda>w. AList.update (relative_path w) (content w)) (map snd us) (files d)\<rparr>)"
  "\<forall>(n, w) \<in> set us. map_of (event_stages (tx_of d i)) n = Some (content w) \<Longrightarrow>
   foldR (exec_op i) d (map (\<lambda>(n, w). CopyEventStage n (relative_path w)) us)
     = Inr (d\<lparr>files := fold (\<lambda>w. AList.update (relative_path w) (content w)) (map snd us) (files d)\<rparr>)"
proof (induction us arbitrary: d)
  case (Cons u us)
  { case 1 then show ?case by (cases u) (simp add: Cons.IH(1), simp add: put_file_def)
  next
    case 2 then show ?case by (cases u) (simp add: Cons.IH(2), simp add: put_file_def) }
qed simp_all

lemma tx_of_files_update [simp]: "tx_of (d\<lparr>files := fs\<rparr>) i = tx_of d i"
  by (simp add: tx_of_def)

lemma stage_ops_files: "x \<in> set (stage_ops tx) \<Longrightarrow> exec_op i d x = Inr d' \<Longrightarrow> files d' = files d"
  by (auto simp: stage_ops_def Let_def)

lemma commit_total:
  assumes "tx_of d (transaction_id tx) = empty_tx" and "planned tx \<noteq> [] \<or> planned_domain_events tx \<noteq> []"
  shows "\<exists>d'. commit h ht tx d = Inr d' \<and> files d' = all_written tx (files d) \<and>
    settled d' (transaction_id tx) \<and> (\<forall>j. j \<noteq> transaction_id tx \<longrightarrow> tx_of d' j = tx_of d j)"
proof -
  let ?i = "transaction_id tx"
  obtain ds dj where p: "foldR (exec_op ?i) d (stage_ops tx) = Inr ds"
    "exec_op ?i ds (WriteJournal (journal_for h ht tx ''prepared'')) = Inr dj" "mid_commit h ht tx d dj"
    using commit_prepared [OF assms(1)] .
  have "files ds = files d"
    using foldR_invariant [OF p(1), of "\<lambda>d'. files d' = files d"] stage_ops_files by metis
  then have fj: "files dj = files d" using p(2) by auto
  define dc where "dc = dj\<lparr>files := all_written tx (files d)\<rparr>"
  define d1 where "d1 = dj\<lparr>files := fold (\<lambda>w. AList.update (relative_path w) (content w)) (planned tx) (files dj)\<rparr>"
  have "\<forall>(n, w) \<in> set (List.enumerate 0 (planned tx)). map_of (stages (tx_of dj ?i)) n = Some (content w)"
    "\<forall>(n, w) \<in> set (List.enumerate 0 (planned_domain_events tx)).
       map_of (event_stages (tx_of d1 ?i)) n = Some (content w)"
    using p(3) by (auto simp: set_enumerate mid_commit_def staged_def d1_def)
  from copies_run(1) [OF this(1)] copies_run(2) [OF this(2)]
  have "foldR (exec_op ?i) dj (map (\<lambda>(n, w). CopyStage n (relative_path w)) (List.enumerate 0 (planned tx))) = Inr d1"
    "foldR (exec_op ?i) d1 (map (\<lambda>(n, w). CopyEventStage n (relative_path w))
      (List.enumerate 0 (planned_domain_events tx))) = Inr dc"
    by (simp_all add: d1_def dc_def fj all_written_def)
  then have "foldR (exec_op ?i) dj (copy_ops tx) = Inr dc"
    by (simp add: copy_ops_def foldR_append)
  moreover
  define d' where "d' = put_tx ?i ((tx_of dc ?i)\<lparr>jfile := Some (Journal (journal_for h ht tx ''committed''))\<rparr>) dc"
  ultimately have "commit h ht tx d = Inr d'"
    using assms(2) unfolding commit_def commit_ops_def
    by (simp add: foldR_append p(1,2) del: exec_op.simps) (auto simp: d'_def)
  moreover have "settled d' ?i" "\<forall>j. j \<noteq> ?i \<longrightarrow> tx_of d' j = tx_of d j"
    using p(3) by (auto simp: settled_def d'_def dc_def journal_for_def Let_def mid_commit_def same_others_def)
  ultimately show ?thesis by (auto simp: d'_def dc_def)
qed

lemma run_commit:
  assumes "tx_of d (transaction_id tx) = empty_tx" and "well_planned h d tx"
  shows "\<exists>d'. foldR (exec_op (transaction_id tx)) d (commit_ops h ht tx) = Inr d' \<and>
    map_of (files d') = map_of (all_written tx (files d)) \<and> settled d' (transaction_id tx) \<and>
    (\<forall>j. j \<noteq> transaction_id tx \<longrightarrow> tx_of d' j = tx_of d j)"
proof -
  let ?i = "transaction_id tx"
  obtain ds dj where p: "foldR (exec_op ?i) d (stage_ops tx) = Inr ds"
    "exec_op ?i ds (WriteJournal (journal_for h ht tx ''prepared'')) = Inr dj" "mid_commit h ht tx d dj"
    using commit_prepared [OF assms(1)] .
  obtain dc where dc: "foldR (exec_op ?i) dj (copy_ops tx) = Inr dc" "mid_commit h ht tx d dc"
    "map_of (files dc) = map_of (all_written tx (files d))" using run_copies [OF p(3) assms(2)] by blast
  define d' where "d' = put_tx ?i ((tx_of dc ?i)\<lparr>jfile := Some (Journal (journal_for h ht tx ''committed''))\<rparr>) dc"
  have "foldR (exec_op ?i) d (commit_ops h ht tx) = Inr d'"
    unfolding commit_ops_def by (simp add: foldR_append p(1,2) dc(1) del: exec_op.simps) (simp add: d'_def)
  moreover have "settled d' ?i" "\<forall>j. j \<noteq> ?i \<longrightarrow> tx_of d' j = tx_of d j"
    using dc(2) by (auto simp: settled_def d'_def journal_for_def Let_def mid_commit_def same_others_def)
  ultimately show ?thesis using dc(3) by (auto simp: d'_def)
qed

lemma crash_after_copies:
  assumes "tx_of d (transaction_id tx) = empty_tx" and "well_planned h d tx"
    and "\<And>i. i \<noteq> transaction_id tx \<Longrightarrow> settled d i"
    and "length (commit_ops h ht tx) \<le> k"
  shows "\<exists>d'. crash_after k h ht tx d = Inr d' \<and> recover_transactions h ht d' = (d', Inr []) \<and>
    map_of (files d') = map_of (all_written tx (files d))"
proof -
  obtain d' where d': "crash_after k h ht tx d = Inr d'"
      "map_of (files d') = map_of (all_written tx (files d))"
      "settled d' (transaction_id tx)" "\<forall>j. j \<noteq> transaction_id tx \<longrightarrow> tx_of d' j = tx_of d j"
    using run_commit [OF assms(1,2), of ht] assms(4) by (auto simp: crash_after_def)
  have "settled d' j" for j
    using d'(3,4) assms(3) [of j] by (cases "j = transaction_id tx") (auto simp: settled_def)
  then have "recover_transactions h ht d' = (d', Inr [])"
    unfolding recover_transactions_def by (intro recover_each_settled) blast
  with d' show ?thesis by blast
qed

lemma crash_recover_atomic:
  assumes "well_planned h d tx" and "hash_separates h d tx"
    and "tx_of d (transaction_id tx) = empty_tx"
    and "\<And>i. i \<noteq> transaction_id tx \<Longrightarrow> settled d i"
  shows "\<exists>d' r msgs. crash_after k h ht tx d = Inr d' \<and>
      recover_transactions h ht d' = (r, Inr msgs) \<and>
      map_of (files r) =
        (if k \<le> length (stage_ops tx) then map_of (files d) else map_of (all_written tx (files d)))"
proof -
  let ?n = "length (stage_ops tx)" and ?c = "length (copy_ops tx)"
  consider (before) "k \<le> ?n" | (during) m where "k = ?n + Suc m" "m \<le> ?c"
    | (after) "length (commit_ops h ht tx) \<le> k" "?n < k"
    by (cases "k \<le> ?n"; cases "k \<le> ?n + Suc ?c")
       (auto simp: commit_ops_def not_le less_iff_Suc_add)
  then show ?thesis
  proof cases
    case before
    then show ?thesis using crash_before_journal [OF assms(3,4) before, where h = h and ht = ht] by auto
  next
    case during
    then obtain d' where "crash_after k h ht tx d = Inr d'" "mid_commit h ht tx d d'"
      using crash_during_copies [OF assms(3,1)] by blast
    then show ?thesis using recover_mid_commit [OF _ assms(1,2,4), of ht d'] during(1) by auto
  next
    case after
    then show ?thesis using crash_after_copies [OF assms(3,1,4) after(1)] by auto
  qed
qed

text \<open>
  C1. A commit is atomic under crashes. Wherever the process dies (after any number \<open>k\<close> of file
  replacements, every named failpoint included), the crash leaves a disk from which recovery
  succeeds, and then the files are those from before the transaction if its journal had not
  been written yet, and all of its writes and events applied otherwise. This needs what the
  gateway ensures (each target planned once, on the files it starts from, in a new transaction
  directory, the earlier ones settled) and that the hash tells each new content from the one it
  replaces.
\<close>

theorem crash_then_recover_is_atomic:
  assumes "well_planned h d tx" and "hash_separates h d tx"
    and "tx_of d (transaction_id tx) = empty_tx"
    and "\<And>i. i \<noteq> transaction_id tx \<Longrightarrow> settled d i"
  shows "\<exists>d' r msgs. crash_after k h ht tx d = Inr d' \<and>
      recover_transactions h ht d' = (r, Inr msgs) \<and>
      map_of (files r) =
        (if k \<le> length (stage_ops tx) then map_of (files d) else map_of (all_written tx (files d)))"
  using assms by (rule crash_recover_atomic)

text \<open>A small transaction: one file replaced, one event added.\<close>

definition demo_disk :: "string disk" where
  "demo_disk = \<lparr>files = [(''runs/R1.yaml'', ''old'')], tx_dirs = []\<rparr>"

definition demo_tx :: "string transaction" where
  "demo_tx = \<lparr>transaction_id = ''TX-1'',
     planned = [\<lparr>relative_path = ''runs/R1.yaml'', content = ''new'', before_hash = Some ''old''\<rparr>],
     planned_domain_events =
       [\<lparr>relative_path = ''events/E1.json'', content = ''ev'', before_hash = None\<rparr>]\<rparr>"

theorem crash_then_recover_is_atomic_witness:
  "\<exists>d' r msgs. crash_after 4 id id demo_tx demo_disk = Inr d' \<and>
      recover_transactions id id d' = (r, Inr msgs) \<and>
      map_of (files r) = (if 4 \<le> length (stage_ops demo_tx) then map_of (files demo_disk)
                          else map_of (all_written demo_tx (files demo_disk)))"
  by (rule crash_then_recover_is_atomic)
     (simp_all add: well_planned_def hash_separates_def demo_tx_def demo_disk_def tx_of_def settled_def empty_tx_def)

text \<open>
  Without a crash a commit writes everything it planned and leaves a committed journal, so
  recovery has nothing left to do.
\<close>

theorem commit_writes_all_planned:
  assumes "well_planned h d tx" and "tx_of d (transaction_id tx) = empty_tx"
    and "planned tx \<noteq> [] \<or> planned_domain_events tx \<noteq> []"
  shows "\<exists>d'. commit h ht tx d = Inr d' \<and> map_of (files d') = map_of (all_written tx (files d)) \<and>
      settled d' (transaction_id tx) \<and> (\<forall>j. j \<noteq> transaction_id tx \<longrightarrow> tx_of d' j = tx_of d j)"
  using run_commit [OF assms(2,1)] assms(3) by (auto simp: commit_def)

theorem commit_writes_all_planned_witness:
  "\<exists>d'. commit id id demo_tx demo_disk = Inr d' \<and>
      map_of (files d') = map_of (all_written demo_tx (files demo_disk)) \<and>
      settled d' (transaction_id demo_tx) \<and>
      (\<forall>j. j \<noteq> transaction_id demo_tx \<longrightarrow> tx_of d' j = tx_of demo_disk j)"
  by (rule commit_writes_all_planned)
     (simp_all add: well_planned_def demo_tx_def demo_disk_def tx_of_def)

text \<open>Recovery of one transaction settles it and leaves the others alone.\<close>

lemma run_each_tx_dirs:
  assumes "\<And>x d d'. f d x = Inr d' \<Longrightarrow> tx_dirs d' = tx_dirs d"
  shows "tx_dirs (fst (run_each f d xs)) = tx_dirs d"
proof (induction xs arbitrary: d)
  case (Cons x xs)
  then show ?case by (cases "f d x") (auto dest: assms)
qed simp

lemma apply_pending_tx_dirs: "tx_dirs (fst (apply_pending h j t d)) = tx_dirs d"
proof -
  have w: "apply_pending_write h t d x = Inr d' \<Longrightarrow> tx_dirs d' = tx_dirs d" for d d' x
    by (auto simp: apply_pending_write_def split: if_splits option.splits prod.splits)
  have ev: "apply_pending_domain_event h t d x = Inr d' \<Longrightarrow> tx_dirs d' = tx_dirs d" for d d' x
    by (auto simp: apply_pending_domain_event_def split: if_splits option.splits prod.splits)
  show ?thesis
    using run_each_tx_dirs [of "apply_pending_write h t" d "List.enumerate 0 (j_writes j)"]
      run_each_tx_dirs [of "apply_pending_domain_event h t" _ "List.enumerate 0 (j_events j)"] w ev
    by (auto simp: apply_pending_def split: prod.split option.split)
qed

lemma tx_of_tx_dirs: "tx_dirs d' = tx_dirs d \<Longrightarrow> tx_of d' = tx_of d"
  by (simp add: tx_of_def fun_eq_iff)

lemma recover_tx_settles:
  assumes "recover_tx h ht i d = (r, Inr ms)"
  shows "settled r i \<and> (\<forall>j. j \<noteq> i \<longrightarrow> tx_of r j = tx_of d j)"
proof (cases "jfile (tx_of d i)")
  case None
  with assms show ?thesis by (simp add: recover_tx_def settled_def)
next
  case (Some jf)
  show ?thesis
  proof (cases jf)
    case Unreadable
    with Some assms show ?thesis by (auto simp: recover_tx_def settled_def Let_def)
  next
    case (Journal j)
    obtain d' e where d': "apply_pending h j (tx_of d i) d = (d', e)" by fastforce
    then have "tx_of d' = tx_of d"
      using apply_pending_tx_dirs [of h j "tx_of d i" d] by (intro tx_of_tx_dirs) simp
    with Some Journal assms d' show ?thesis
      by (auto simp: recover_tx_def settled_def Let_def split: if_splits sum.splits option.splits)
  qed
qed

lemma recover_each_settles:
  "recover_each h ht is ms d = (r, Inr ms') \<Longrightarrow>
   (\<forall>j \<in> set is. settled r j) \<and> (\<forall>j. settled d j \<longrightarrow> settled r j)"
proof (induction "is" arbitrary: d ms)
  case (Cons i "is")
  obtain d1 ns where d1: "recover_tx h ht i d = (d1, Inr ns)" "recover_each h ht is (ms @ ns) d1 = (r, Inr ms')"
    using Cons.prems by (auto split: prod.splits sum.splits)
  have "settled d1 i" "\<forall>j. settled d j \<longrightarrow> settled d1 j"
    using recover_tx_settles [OF d1(1)] by (auto simp: settled_def)
  with Cons.IH [OF d1(2)] show ?case by auto
qed simp

text \<open>
  Recovery is idempotent on any disk: when it succeeds, no journal asks for recovery any
  more, and running it again changes nothing and reports nothing.
\<close>

theorem recovery_idempotent:
  assumes "recover_transactions h ht d = (r, Inr msgs)"
  shows "recover_transactions h ht r = (r, Inr [])"
proof -
  have "settled r j" for j
  proof (cases "j \<in> fst ` set (tx_dirs d)")
    case True
    then show ?thesis using recover_each_settles assms unfolding recover_transactions_def by fastforce
  next
    case False
    then have "settled d j"
      by (simp add: settled_def tx_of_def empty_tx_def map_of_eq_None_iff [THEN iffD2])
    then show ?thesis using recover_each_settles assms unfolding recover_transactions_def by blast
  qed
  then show ?thesis unfolding recover_transactions_def by (intro recover_each_settled) blast
qed

definition demo_journal :: "string \<Rightarrow> bool \<Rightarrow> journal" where
  "demo_journal status recovered =
     \<lparr>j_id = ''TX-1'', j_status = status,
      j_writes = [\<lparr>jw_path = ''f'', jw_before = Some ''old'', jw_after = ''new''\<rparr>], j_events = [],
      j_hash = ''s'', j_recovered = recovered\<rparr>"

definition demo_pending :: "string \<Rightarrow> string \<Rightarrow> bool \<Rightarrow> string disk" where
  "demo_pending c status recovered =
     \<lparr>files = [(''f'', c)],
      tx_dirs = [(''TX-1'', \<lparr>stages = [(0, ''new'')], event_stages = [],
                             jfile = Some (Journal (demo_journal status recovered))\<rparr>)]\<rparr>"

theorem recovery_idempotent_witness:
  "recover_transactions id (\<lambda>_. ''s'') (demo_pending ''new'' ''committed'' True)
     = (demo_pending ''new'' ''committed'' True, Inr [])"
  by (rule recovery_idempotent [of id "\<lambda>_. ''s''" "demo_pending ''old'' ''prepared'' False" _
        "[''recovered transaction TX-1'']"])
     (simp add: recover_transactions_def sorted_strs_def demo_pending_def demo_journal_def recover_tx_def
       tx_of_def verify_journal_integrity_def journal_integrity_hash_def verify_staging_hashes_def
       verify_stage_def apply_pending_def apply_pending_write_def target_matches_hash_def put_file_def put_tx_def)

end
