(* ===== verification/RunSafety.thy ===== *)
theory RunSafety
  imports RunCommands
begin

text \<open>
  What the commands of \<open>RunCommands\<close> guarantee: transitions are guarded and not lost, ceilings
  only tighten, risk only rises, a paused Work Unit loses its lease, menu entries are used within
  their bound, a revocation is final and a human authorization is used once.
\<close>

section \<open>Lemmas\<close>

lemma jset3_Inr [simp, res_simps]:
  "jset3 j (a, x) (b, y) (c, z) = Inr j' \<longleftrightarrow>
   (\<exists>ob. j = JObj ob \<and> j' = JObj (AList.update c z (AList.update b y (AList.update a x ob))))"
  by (auto simp: jset3_def res_simps)

lemma expected_revision_path: "expected_revision e = Inr v \<Longrightarrow> v = jpath e [''target'', ''expected_revision'']"
  unfolding expected_revision_def by (rule jitem_twice)

lemma py_succ_neq: "py_succ c = Inr n \<Longrightarrow> py_eq x c \<Longrightarrow> \<not> py_eq x n"
  by (cases c; cases x) (auto split: if_splits)

lemma py_succ_is_int: "py_succ c = Inr n \<Longrightarrow> is_int c \<Longrightarrow> is_int n"
  by (cases c) auto

lemma work_unit_revision_Inr [res_simps]:
  "work_unit_revision d = Inr c \<longleftrightarrow> jget_or d ''revision'' (JInt 1) = Inr c \<and> is_int c"
  by (cases d) (auto simp: work_unit_revision_def current_revision_def split: option.splits)

lemma jget_or_update [simp]: "jget_or (JObj (AList.update k v ob)) k d = Inr v"
  by simp

section \<open>Transitions of a Work Unit\<close>

lemma transition_success:
  assumes "handle_transition_work_unit conf env s e = Inr r"
  shows "\<exists>ob current next status.
    map_of s (work_unit_path (jpath e [''target'', ''id''])) = Some (Doc (JObj ob)) \<and>
    py_eq (oget ob ''id'') (jpath e [''target'', ''id'']) \<and>
    jget_or (JObj ob) ''revision'' (JInt 1) = Inr current \<and> is_int current \<and>
    py_eq (jpath e [''target'', ''expected_revision'']) current \<and> py_succ current = Inr next \<and>
    wu_is_transition_allowed (oget ob ''status'') status = Inr True \<and>
    status = jpath e [''payload'', ''to_status''] \<and>
    (status = JStr ''done'' \<longrightarrow> missing_done_prerequisites (Some conf) (JObj ob) = Inr []) \<and>
    r_writes r = [(work_unit_path (jpath e [''target'', ''id'']),
      JObj (AList.update ''updated_at'' (now_iso env) (AList.update ''revision'' next
        (AList.update ''status'' status ob))))]"
  using assms unfolding handle_transition_work_unit_def bindR_unit_eq_Inr bindR_eq_Inr Let_def
    if_raise_eq_Inr load_or_not_found_Inr
  apply (elim exE conjE)
  apply (drule target_id_path expected_revision_path payload_item_path)+
  apply (auto simp: reply_of_def res_simps split: if_splits)
  done

lemma missing_outcome_Nil:
  "missing_outcome d req flag key acc label = Inr [] \<Longrightarrow>
   \<exists>v. jget req flag = Inr v \<and> (truthy v \<longrightarrow> (\<exists>a \<in> set acc. outcome d key = Inr (JStr a)))"
  by (auto simp: missing_outcome_def split: if_splits)

text \<open>
  What the Definition of Done demands of a document: evidence, an approved outcome for each
  required verification, no critical open item.
\<close>

definition done_demands :: "json \<Rightarrow> bool" where
  "done_demands d \<longleftrightarrow>
     (\<exists>req evidence critical outcomes.
        jget_or d ''required_verification'' (JObj []) = Inr req \<and>
        jget d ''evidence'' = Inr evidence \<and> truthy evidence \<and>
        jget_or d ''outcomes'' (JObj []) = Inr outcomes \<and>
        jget_or outcomes ''critical_open_items'' (JList []) = Inr critical \<and> \<not> truthy critical \<and>
        (\<forall>flag key accepted. (flag, key, accepted) \<in>
            {(''review'', ''review_status'', [''approved'']), (''audit'', ''audit_status'', [''passed'']),
             (''human_acceptance'', ''human_acceptance'', [''passed'', ''accepted''])} \<longrightarrow>
          (\<exists>v. jget req flag = Inr v \<and>
            (truthy v \<longrightarrow> (\<exists>a \<in> set accepted. jget outcomes key = Inr (JStr a))))))"

lemma missing_done_Nil:
  assumes "missing_done_prerequisites conf d = Inr []"
  shows "done_demands d"
proof -
  obtain req evidence outcomes critical where h:
    "jget_or d ''required_verification'' (JObj []) = Inr req" "jget d ''evidence'' = Inr evidence"
    "missing_outcome d req ''review'' ''review_status'' [''approved''] ''approved review'' = Inr []"
    "missing_outcome d req ''audit'' ''audit_status'' [''passed''] ''required audit'' = Inr []"
    "missing_outcome d req ''human_acceptance'' ''human_acceptance'' [''passed'', ''accepted'']
       ''human acceptance'' = Inr []"
    "jget_or d ''outcomes'' (JObj []) = Inr outcomes"
    "jget_or outcomes ''critical_open_items'' (JList []) = Inr critical"
    "truthy evidence" "\<not> truthy critical"
    using assms unfolding missing_done_prerequisites_def bindR_eq_Inr
    by (elim exE conjE) (auto split: if_splits)
  have "outcome d key = jget outcomes key" for key
    using h(6) by (simp add: outcome_def)
  with h missing_outcome_Nil [OF h(3)] missing_outcome_Nil [OF h(4)] missing_outcome_Nil [OF h(5)]
  show ?thesis unfolding done_demands_def by auto
qed

text \<open>
  C32. A Work Unit changes status only along the transition table and only from the revision the
  command names; its revision goes up by one; and it becomes done only with evidence, with every
  required verification approved and with no critical item open.
\<close>

theorem transition_is_guarded:
  assumes "handle_transition_work_unit conf env s e = Inr r"
    and "jpath e [''target'', ''id''] = JStr wu" and "jpath e [''payload'', ''to_status''] = JStr to_status"
  shows "\<exists>old new from_status n. map_of s (work_unit_path (JStr wu)) = Some (Doc old) \<and>
    jget old ''id'' = Inr (JStr wu) \<and> jget old ''status'' = Inr (JStr from_status) \<and>
    (from_status, to_status) \<in> set wu_iter_permitted_transitions \<and>
    jget_or old ''revision'' (JInt 1) = Inr n \<and> py_eq (jpath e [''target'', ''expected_revision'']) n \<and>
    map_of (apply_writes (r_writes r) s) (work_unit_path (JStr wu)) = Some (Doc new) \<and>
    jget new ''status'' = Inr (JStr to_status) \<and> bindR (jget new ''revision'') Inr = py_succ n \<and>
    (to_status = ''done'' \<longrightarrow> done_demands old)"
proof -
  obtain ob n nxt where h: "map_of s (work_unit_path (JStr wu)) = Some (Doc (JObj ob))"
    "py_eq (oget ob ''id'') (JStr wu)" "jget_or (JObj ob) ''revision'' (JInt 1) = Inr n"
    "py_eq (jpath e [''target'', ''expected_revision'']) n" "py_succ n = Inr nxt"
    "wu_is_transition_allowed (oget ob ''status'') (JStr to_status) = Inr True"
    "to_status = ''done'' \<longrightarrow> missing_done_prerequisites (Some conf) (JObj ob) = Inr []"
    "r_writes r = [(work_unit_path (JStr wu), JObj (AList.update ''updated_at'' (now_iso env)
      (AList.update ''revision'' nxt (AList.update ''status'' (JStr to_status) ob))))]"
    using transition_success [OF assms(1)] assms(2,3) by auto
  obtain from_status where "oget ob ''status'' = JStr from_status"
    "(from_status, to_status) \<in> set wu_iter_permitted_transitions"
    using h(6) by (auto simp: wu_is_transition_allowed_def wu_iter_permitted_transitions_def wu.permitted_iff res_simps)
  with h missing_done_Nil show ?thesis by auto
qed

definition demo_work_unit :: "obj" where
  "demo_work_unit =
     [(''id'', JStr ''A''), (''status'', JStr ''human_test''), (''revision'', JInt 4),
      (''evidence'', JList [JStr ''E1'']),
      (''required_verification'', JObj [(''review'', JBool True)]),
      (''outcomes'', JObj [(''review_status'', JStr ''approved'')])]"

definition demo_transition :: json where
  "demo_transition = JObj
     [(''target'', JObj [(''kind'', JStr ''work_unit''), (''id'', JStr ''A''), (''expected_revision'', JInt 4)]),
      (''payload'', JObj [(''to_status'', JStr ''done'')])]"

lemmas transition_eval = handle_transition_work_unit_def demo_transition_def demo_work_unit_def target_id_def
  payload_item_def expected_revision_def load_or_not_found_def is_file_def read_yaml_def work_unit_path_def
  work_unit_revision_def current_revision_def wu_is_transition_allowed_def wu_NORMATIVE_TRANSITIONS_def
  table_targets_def missing_done_prerequisites_def missing_outcome_def outcome_def design_mode_def por_def jset3_def reply_of_def

lemma demo_transition_accepted:
  "\<exists>r. handle_transition_work_unit (\<lambda>_. Inr JNull) (demo_env 0)
         [(''work-units/A.yaml'', Doc (JObj demo_work_unit))] demo_transition = Inr r"
  by (simp add: transition_eval demo_env_def)

theorem transition_is_guarded_witness:
  "\<exists>r. handle_transition_work_unit (\<lambda>_. Inr JNull) (demo_env 0)
         [(''work-units/A.yaml'', Doc (JObj demo_work_unit))] demo_transition = Inr r \<and>
     done_demands (JObj demo_work_unit)"
proof -
  obtain r where r: "handle_transition_work_unit (\<lambda>_. Inr JNull) (demo_env 0)
      [(''work-units/A.yaml'', Doc (JObj demo_work_unit))] demo_transition = Inr r"
    using demo_transition_accepted by blast
  show ?thesis
    using transition_is_guarded [OF r, of "''A''" "''done''"] r
    by (auto simp: demo_transition_def work_unit_path_def)
qed

text \<open>
  No update of a Work Unit is lost: after a transition from a revision, every transition
  command that still expects that revision is refused with CONFLICT, whatever status it asks for.
\<close>

theorem stale_transition_refused:
  assumes "handle_transition_work_unit conf env s e = Inr r"
    and "target_id e2 = Inr (JStr wu)" and "expected_revision e2 = Inr x"
    and "payload_item e2 ''to_status'' = Inr any_status"
    and "jpath e [''target'', ''id''] = JStr wu" and "jpath e [''target'', ''expected_revision''] = x"
  shows "handle_transition_work_unit conf2 env2 (apply_writes (r_writes r) s) e2
           = gateway_error CONFLICT ''/target/expected_revision''"
proof -
  obtain ob n nxt status where h: "py_eq (oget ob ''id'') (JStr wu)" "is_int n" "py_eq x n" "py_succ n = Inr nxt"
    "r_writes r = [(work_unit_path (JStr wu), JObj (AList.update ''updated_at'' (now_iso env)
      (AList.update ''revision'' nxt (AList.update ''status'' status ob))))]"
    using transition_success [OF assms(1)] assms(5,6) by auto
  let ?doc = "JObj (AList.update ''updated_at'' (now_iso env)
      (AList.update ''revision'' nxt (AList.update ''status'' status ob)))"
  have "work_unit_revision ?doc = Inr nxt"
    using h(2,4) py_succ_is_int by (auto simp: work_unit_revision_Inr)
  moreover have "\<not> py_eq x nxt" using py_succ_neq [OF h(4,3)] .
  ultimately show ?thesis
    using assms(2-4) h(1)
    by (simp add: handle_transition_work_unit_def load_or_not_found_def is_file_def read_yaml_def h(5))
qed

theorem stale_transition_refused_witness:
  "\<exists>r. handle_transition_work_unit (\<lambda>_. Inr JNull) (demo_env 0)
         [(''work-units/A.yaml'', Doc (JObj demo_work_unit))] demo_transition = Inr r \<and>
     handle_transition_work_unit (\<lambda>_. Inr JNull) (demo_env 1)
       (apply_writes (r_writes r) [(''work-units/A.yaml'', Doc (JObj demo_work_unit))]) demo_transition
       = gateway_error CONFLICT ''/target/expected_revision''"
proof -
  obtain r where r: "handle_transition_work_unit (\<lambda>_. Inr JNull) (demo_env 0)
      [(''work-units/A.yaml'', Doc (JObj demo_work_unit))] demo_transition = Inr r"
    using demo_transition_accepted by blast
  show ?thesis
    by (intro exI conjI, rule r)
       (rule stale_transition_refused [OF r, where wu = "''A''" and x = "JInt 4" and any_status = "JStr ''done''"];
        simp add: demo_transition_def target_id_def expected_revision_def payload_item_def)
qed

section \<open>Execution ceilings\<close>

lemma dict_get_JNull_absent: "dict_get (por JNull (JObj [])) w = Inr v \<Longrightarrow> v = JNull"
  by (auto simp: por_def dict_get_def split: json.splits if_splits option.splits)

lemma jitem_oget: "jitem (JObj ob) k = Inr v \<Longrightarrow> oget ob k = v"
  by (auto simp: oget_def split: option.splits)

text \<open>What a successful tightening wrote.\<close>

lemma tighten_success:
  assumes "handle_tighten_execution_ceiling env s e = Inr r"
    and "jpath e [''target'', ''id''] = JStr rid" and "jpath e [''payload'', ''work_unit_id''] = JStr wu"
  shows "\<exists>ob cs c d new nrev esc. map_of s (run_path (JStr rid)) = Some (Doc (JObj ob)) \<and>
    oget ob ''execution_ceilings_by_work_unit'' = JObj cs \<and> oget cs wu = JObj c \<and>
    can_tighten (oget c d) new = Inr True \<and>
    r_writes r = [(run_path (JStr rid), JObj (AList.update ''updated_at'' (now_iso env)
        (AList.update ''revision'' nrev (AList.update ''execution_ceilings_by_work_unit''
          (JObj (AList.update wu (JObj (AList.update d new c)) cs)) ob)))),
      (escalation_path (escalation_id env (JStr wu) (JStr d)), esc)]"
proof -
  show ?thesis
    using assms unfolding handle_tighten_execution_ceiling_def bindR_unit_eq_Inr bindR_eq_Inr Let_def
      if_raise_eq_Inr load_or_not_found_Inr
    apply (elim exE conjE)
    subgoal premises p for run_id expd wu_id dim new doc cur known c ceil state tighter doc1 nrev doc2 doc3 reason
    proof -
      note p
      have ids: "run_id = JStr rid" "wu_id = JStr wu"
        using target_id_path payload_item_path assms(2,3) p by metis+
      obtain ob where doc: "doc = JObj ob" "c = oget ob ''execution_ceilings_by_work_unit''"
        using \<open>jget doc ''execution_ceilings_by_work_unit'' = Inr c\<close> by (auto simp: jget_eq_Inr)
      have "dict_get (por c (JObj [])) (JStr wu) = Inr ceil" using p ids by simp
      then obtain cs where cs: "c = JObj cs" "ceil = oget cs wu"
        using \<open>ceil \<noteq> JNull\<close> by (auto simp: por_def dict_get_JStr_Inr split: if_splits)
      obtain d where d: "dim = JStr d" using p by auto
      have "set_ceiling doc (JStr wu) d new = Inr doc1" using p ids d by simp
      then obtain cob where cob: "ceil = JObj cob"
        "doc1 = JObj (AList.update ''execution_ceilings_by_work_unit''
           (JObj (AList.update wu (JObj (AList.update d new cob)) cs)) ob)"
        using doc cs by (auto simp: set_ceiling_def jset_eq_Inr)
      have "state = oget cob d" using p cob d jitem_oget by auto
      then have t: "can_tighten (oget cob d) new = Inr True" using p by simp
      show ?thesis
        by (rule exI [of _ ob], rule exI [of _ cs], rule exI [of _ cob], rule exI [of _ d], rule exI [of _ new],
            rule exI [of _ nrev])
           (use p ids doc cs cob d t in \<open>auto simp: jset_eq_Inr\<close>)
    qed
    done
qed

lemma run_path_not_escalation: "CHR ''/'' \<notin> set rid \<Longrightarrow> run_path (JStr rid) \<noteq> escalation_path i"
proof
  assume no: "CHR ''/'' \<notin> set rid" and "run_path (JStr rid) = escalation_path i"
  then have "rid @ ''.yaml'' = ''escalations/'' @ i @ ''.yaml''"
    by (simp add: run_path_def escalation_path_def)
  moreover have "CHR ''/'' \<in> set (''escalations/'' @ i @ ''.yaml'')" by simp
  ultimately have "CHR ''/'' \<in> set (rid @ ''.yaml'')" by simp
  with no show False by simp
qed

text \<open>
  C15. Execution ceilings only tighten during a Run. After a successful command every dimension of
  every Work Unit's ceiling is as it was or strictly more restrictive, and a valid ceiling stays
  valid (so the pinned capabilities stay forbidden).
\<close>

theorem ceilings_only_tighten:
  assumes "handle_tighten_execution_ceiling env s e = Inr r"
    and "jpath e [''target'', ''id''] = JStr rid" and "jpath e [''payload'', ''work_unit_id''] = JStr wu"
    and "CHR ''/'' \<notin> set rid" and "map_of s (run_path (JStr rid)) = Some (Doc run)"
  shows "\<exists>run1. map_of (apply_writes (r_writes r) s) (run_path (JStr rid)) = Some (Doc run1) \<and>
    (\<forall>w k. jpath run1 [''execution_ceilings_by_work_unit'', w, k] =
             jpath run [''execution_ceilings_by_work_unit'', w, k] \<or>
           can_tighten (jpath run [''execution_ceilings_by_work_unit'', w, k])
             (jpath run1 [''execution_ceilings_by_work_unit'', w, k]) = Inr True) \<and>
    (\<forall>w. ceiling_ok (jpath run [''execution_ceilings_by_work_unit'', w]) \<longrightarrow>
         ceiling_ok (jpath run1 [''execution_ceilings_by_work_unit'', w]))"
proof -
  obtain ob cs c d new nrev esc where h: "run = JObj ob"
    "oget ob ''execution_ceilings_by_work_unit'' = JObj cs" "oget cs wu = JObj c"
    "can_tighten (oget c d) new = Inr True"
    "r_writes r = [(run_path (JStr rid), JObj (AList.update ''updated_at'' (now_iso env)
        (AList.update ''revision'' nrev (AList.update ''execution_ceilings_by_work_unit''
          (JObj (AList.update wu (JObj (AList.update d new c)) cs)) ob)))),
      (escalation_path (escalation_id env (JStr wu) (JStr d)), esc)]"
    using tighten_success [OF assms(1-3)] assms(5) by auto
  let ?run1 = "JObj (AList.update ''updated_at'' (now_iso env)
        (AList.update ''revision'' nrev (AList.update ''execution_ceilings_by_work_unit''
          (JObj (AList.update wu (JObj (AList.update d new c)) cs)) ob)))"
  have "map_of (apply_writes (r_writes r) s) (run_path (JStr rid)) = Some (Doc ?run1)"
    using run_path_not_escalation [OF assms(4)] by (auto simp: h(5))
  moreover have "\<forall>w k. jpath ?run1 [''execution_ceilings_by_work_unit'', w, k] =
      jpath run [''execution_ceilings_by_work_unit'', w, k] \<or>
    can_tighten (jpath run [''execution_ceilings_by_work_unit'', w, k])
      (jpath ?run1 [''execution_ceilings_by_work_unit'', w, k]) = Inr True"
    using h by auto
  moreover have "ceiling_ok (jpath ?run1 [''execution_ceilings_by_work_unit'', w])"
    if "ceiling_ok (jpath run [''execution_ceilings_by_work_unit'', w])" for w
    using that h ceiling_ok_tightened [of c d new] by (cases "w = wu") auto
  ultimately show ?thesis by blast
qed

definition demo_ceiling_store :: store where
  "demo_ceiling_store = [(''runs/R.yaml'', Doc (JObj
     [(''revision'', JInt 1),
      (''execution_ceilings_by_work_unit'', JObj [(''A'', JObj DEFAULT_EXECUTION_CEILING)])]))]"

definition demo_tighten :: json where
  "demo_tighten = JObj
     [(''target'', JObj [(''kind'', JStr ''run''), (''id'', JStr ''R''), (''expected_revision'', JInt 1)]),
      (''payload'', JObj [(''work_unit_id'', JStr ''A''), (''dimension'', JStr ''integration_branch_merge''),
        (''new_state'', JStr ''forbidden''), (''reason'', JStr ''risk'')])]"

lemma demo_tighten_accepted:
  "\<exists>r. handle_tighten_execution_ceiling (demo_env 0) demo_ceiling_store demo_tighten = Inr r"
  by (simp add: handle_tighten_execution_ceiling_def demo_tighten_def demo_ceiling_store_def demo_env_def
      target_id_def payload_item_def expected_revision_def load_or_not_found_def is_file_def read_yaml_def
      run_path_def check_revision_def por_def set_ceiling_def validate_against_schema_def
      DEFAULT_EXECUTION_CEILING_def can_tighten_def state_rank_def STATE_RANK_def CEILING_DIMENSIONS_def
      CEILING_STATES_def Let_def)

theorem ceilings_only_tighten_witness:
  "\<exists>r run1. handle_tighten_execution_ceiling (demo_env 0) demo_ceiling_store demo_tighten = Inr r \<and>
     map_of (apply_writes (r_writes r) demo_ceiling_store) ''runs/R.yaml'' = Some (Doc run1) \<and>
     ceiling_ok (jpath run1 [''execution_ceilings_by_work_unit'', ''A''])"
proof -
  obtain r where r: "handle_tighten_execution_ceiling (demo_env 0) demo_ceiling_store demo_tighten = Inr r"
    using demo_tighten_accepted by blast
  have "ceiling_ok (jpath (JObj [(''revision'', JInt 1),
      (''execution_ceilings_by_work_unit'', JObj [(''A'', JObj DEFAULT_EXECUTION_CEILING)])])
      [''execution_ceilings_by_work_unit'', ''A''])"
    by (simp add: default_ceiling_ok)
  then show ?thesis
    using ceilings_only_tighten [OF r, of "''R''" "''A''"] r
    by (auto simp: demo_tighten_def demo_ceiling_store_def run_path_def)
qed

section \<open>Risk escalations\<close>

lemma bump_Inr [res_simps]:
  "bump env d = Inr (v, d') \<longleftrightarrow> (\<exists>ob j i. d = JObj ob \<and> jget_or d ''revision'' (JInt 1) = Inr j \<and> py_int j = Inr i \<and>
     v = JInt (i + 1) \<and> d' = JObj (AList.update ''updated_at'' (now_iso env) (AList.update ''revision'' v ob)))"
  by (auto simp: bump_def jset_eq_Inr)

lemma jappend_Inr: "jappend j v = Inr j' \<longleftrightarrow> (\<exists>xs. j = JList xs \<and> j' = JList (xs @ [v]))"
  by (cases j) auto

lemma raise_risk_shape:
  assumes "raise_risk d c reason = Inr d1"
  shows "\<exists>ob rob. d = JObj ob \<and> d1 = JObj (AList.update ''risk'' (JObj rob) (osetdefault ''risk'' (JObj []) ob)) \<and>
    oget rob ''class'' = c \<and> rob \<noteq> []"
  using assms by (auto simp: raise_risk_def res_simps Let_def jappend_Inr) (rule exI, rule conjI, rule refl, simp)

lemma risk_class_raised: "raise_risk d c reason = Inr d1 \<Longrightarrow> risk_class d1 = Inr c"
  by (drule raise_risk_shape) (auto simp: risk_class_def por_def)

lemma risk_class_update [simp]: "k \<noteq> ''risk'' \<Longrightarrow> risk_class (JObj (AList.update k v ob)) = risk_class (JObj ob)"
  by (simp add: risk_class_def)

lemma raise_risk_status: "raise_risk d c reason = Inr d1 \<Longrightarrow> jget d1 ''status'' = jget d ''status''"
  by (drule raise_risk_shape) auto

lemma current_lease_por:
  "por (oget ob ''leases_by_work_unit'') (JObj []) = JObj lob \<Longrightarrow> current_lease (JObj ob) (JStr wu) = Inr (oget lob wu)"
  by (simp add: current_lease_def leases_by_work_unit_def)

lemma por_JObj_Nil [simp]: "por (JObj ob) (JObj []) = JObj ob"
  by (simp add: por_def)

lemma pop_lease_shape:
  assumes "pop_lease run (JStr wu) = Inr (ref, run1)"
  shows "current_lease run1 (JStr wu) = Inr JNull"
proof -
  obtain ob where ob: "run = JObj ob" using assms by (auto simp: pop_lease_def res_simps)
  show ?thesis
  proof (cases "truthy (oget ob ''leases_by_work_unit'')")
    case True
    then obtain lob where l: "oget ob ''leases_by_work_unit'' = JObj lob"
      using assms ob by (cases "oget ob ''leases_by_work_unit''") (auto simp: pop_lease_def)
    then have "run1 = JObj (AList.update ''leases_by_work_unit'' (JObj (opop wu lob)) ob)"
      using assms ob True by (simp add: pop_lease_def Let_def)
    then show ?thesis by (simp add: current_lease_por)
  next
    case False
    then show ?thesis using assms ob by (auto simp: pop_lease_def Let_def current_lease_por por_def)
  qed
qed

lemma no_lease_no_fence: "current_lease run w = Inr JNull \<Longrightarrow> check_fence run w ep l \<noteq> Inr ()"
  using check_fence_Inr by fastforce

text \<open>A document that was paused: nobody holds a lease on the Work Unit any more.\<close>

lemma pause_shape:
  assumes "pause_work_unit env s d run (JStr wu) = Inr (d1, run1, ws)"
    and "oget ob ''status'' \<notin> {JStr ''done'', JStr ''cancelled''}" and "d = JObj ob"
  shows "d1 = JObj (AList.update ''status'' (JStr ''waiting_decision'') ob) \<and> current_lease run1 (JStr wu) = Inr JNull"
  using assms pop_lease_shape
  by (auto simp: pause_work_unit_def in_strs_def jset_eq_Inr split: if_splits)

lemma pause_keeps:
  assumes "pause_work_unit env s d run w = Inr (d1, run1, ws)"
  shows "d1 = d \<or> (\<exists>ob. d = JObj ob \<and> d1 = JObj (AList.update ''status'' (JStr ''waiting_decision'') ob))"
  using assms by (auto simp: pause_work_unit_def jset_eq_Inr split: if_splits)

lemma current_lease_bumped:
  assumes "bump env run = Inr (v, run1)"
  shows "current_lease run1 w = current_lease run w"
  using assms by (auto simp: bump_Inr current_lease_def leases_by_work_unit_def)

lemma escalate_success:
  assumes "handle_escalate_work_unit_risk env s e = Inr r"
    and "jpath e [''target'', ''id''] = JStr rid" and "jpath e [''payload'', ''work_unit_id''] = JStr wu"
  shows "\<exists>run d old new a b reason d1 d2 run1 lw wrev d3 rrev run2 paused event eid.
    map_of s (run_path (JStr rid)) = Some (Doc run) \<and>
    map_of s (work_unit_path (JStr wu)) = Some (Doc d) \<and> risk_class d = Inr old \<and>
    risk_rank old = Inr (Some a) \<and> risk_rank new = Inr (Some b) \<and> a < b \<and>
    raise_risk d new reason = Inr d1 \<and>
    (if paused then pause_work_unit env s d1 run (JStr wu) else Inr (d1, run, [])) = Inr (d2, run1, lw) \<and>
    bump env d2 = Inr (wrev, d3) \<and> bump env run1 = Inr (rrev, run2) \<and>
    jpath (r_details r) [''paused''] = JBool paused \<and>
    r_writes r = lw @ [(work_unit_path (JStr wu), d3), (run_path (JStr rid), run2), (event_path eid, event)]"
  using assms unfolding handle_escalate_work_unit_risk_def bindR_unit_eq_Inr bindR_eq_Inr Let_def
    if_raise_eq_Inr load_or_not_found_Inr split_paired_Ex prod.case
  apply (elim exE conjE)
  subgoal premises p for run_id expd wu_id new run current member nrank d old orank reason d1 maximum conflict
    d2 run1 lw wrev d3 rrev run2 actor role_id
  proof -
    note p
    have ids: "run_id = JStr rid" "wu_id = JStr wu"
      using target_id_path payload_item_path assms(2,3) p by metis+
    obtain a b where ab: "orank = Some a" "nrank = Some b" "a < b"
      using p by (cases orank; cases nrank) auto
    show ?thesis
      apply (rule exI [of _ run], rule exI [of _ d], rule exI [of _ old], rule exI [of _ new], rule exI [of _ a],
          rule exI [of _ b], rule exI [of _ reason], rule exI [of _ d1], rule exI [of _ d2], rule exI [of _ run1],
          rule exI [of _ lw], rule exI [of _ wrev], rule exI [of _ d3], rule exI [of _ rrev], rule exI [of _ run2],
          rule exI [of _ "the nrank > (case map_of RISK_ORDER (py_str maximum) of None \<Rightarrow> 3 | Some r \<Rightarrow> r) \<or> conflict"])
      using p ids ab by auto
  qed
  done

lemma no_fence_no_checkpoint:
  assumes "map_of s (run_path (JStr rid)) = Some (Doc run)" and "current_lease run (JStr wu) = Inr JNull"
    and "jpath e [''payload'', ''run_id''] = JStr rid" and "jpath e [''target'', ''id''] = JStr wu"
  shows "\<exists>err. handle_write_checkpoint env s e = Inl err"
proof (cases "handle_write_checkpoint env s e")
  case (Inr r)
  from checkpoint_success [OF this] show ?thesis
    using assms no_lease_no_fence [OF assms(2)] by auto
qed simp

text \<open>
  C39. A Work Unit's risk only rises during a Run. When the escalation pauses the Work Unit (it goes
  beyond what the Run may do, or another critical Work Unit is under way), then, unless it was
  over already, it waits for a decision and its worker has lost the lease: no checkpoint of that
  Run for it is accepted any more.
\<close>

theorem escalation_raises_and_pauses:
  assumes "handle_escalate_work_unit_risk env s e = Inr r"
    and "jpath e [''target'', ''id''] = JStr rid" and "jpath e [''payload'', ''work_unit_id''] = JStr wu"
    and "map_of s (work_unit_path (JStr wu)) = Some (Doc old)"
  shows "\<exists>new c c1 a b. map_of (apply_writes (r_writes r) s) (work_unit_path (JStr wu)) = Some (Doc new) \<and>
    risk_class old = Inr c \<and> risk_class new = Inr c1 \<and>
    risk_rank c = Inr (Some a) \<and> risk_rank c1 = Inr (Some b) \<and> a < b \<and>
    (jpath (r_details r) [''paused''] = JBool True \<longrightarrow>
     (\<forall>st. jget old ''status'' = Inr st \<and> st \<notin> {JStr ''done'', JStr ''cancelled''} \<longrightarrow>
       jget new ''status'' = Inr (JStr ''waiting_decision'') \<and>
       (\<forall>env2 e2. jpath e2 [''payload'', ''run_id''] = JStr rid \<and> jpath e2 [''target'', ''id''] = JStr wu \<longrightarrow>
          (\<exists>err. handle_write_checkpoint env2 (apply_writes (r_writes r) s) e2 = Inl err))))"
proof -
  let ?s = "apply_writes (r_writes r) s"
  obtain run c c1 a b reason d1 d2 run1 lw wrev d3 rrev run2 paused event eid where h:
    "risk_class old = Inr c" "risk_rank c = Inr (Some a)" "risk_rank c1 = Inr (Some b)" "a < b"
    "raise_risk old c1 reason = Inr d1"
    "(if paused then pause_work_unit env s d1 run (JStr wu) else Inr (d1, run, [])) = Inr (d2, run1, lw)"
    "bump env d2 = Inr (wrev, d3)" "bump env run1 = Inr (rrev, run2)"
    "jpath (r_details r) [''paused''] = JBool paused"
    "r_writes r = lw @ [(work_unit_path (JStr wu), d3), (run_path (JStr rid), run2), (event_path eid, event)]"
    using escalate_success [OF assms(1-3)] assms(4) by (elim exE conjE) simp
  have stored: "map_of ?s (work_unit_path (JStr wu)) = Some (Doc d3)"
    "map_of ?s (run_path (JStr rid)) = Some (Doc run2)"
    by (simp_all add: h(10) apply_writes_def work_unit_path_def run_path_def event_path_def)
  obtain ob1 where ob1: "d1 = JObj ob1" using raise_risk_shape [OF h(5)] by auto
  have d2: "d2 = d1 \<or> d2 = JObj (AList.update ''status'' (JStr ''waiting_decision'') ob1)"
    using h(6) pause_keeps [of env s d1 run "JStr wu" d2 run1 lw] ob1 by (cases paused) auto
  then have class_new: "risk_class d3 = Inr c1"
    using h(7) risk_class_raised [OF h(5)] ob1 by (auto simp: bump_Inr)
  have pause: "jget d3 ''status'' = Inr (JStr ''waiting_decision'') \<and> current_lease run2 (JStr wu) = Inr JNull"
    if "paused" "jget old ''status'' = Inr st" "st \<notin> {JStr ''done'', JStr ''cancelled''}" for st
  proof -
    have "oget ob1 ''status'' \<notin> {JStr ''done'', JStr ''cancelled''}"
      using raise_risk_status [OF h(5)] that ob1 by simp
    then have "d2 = JObj (AList.update ''status'' (JStr ''waiting_decision'') ob1) \<and>
        current_lease run1 (JStr wu) = Inr JNull"
      using h(6) that(1) pause_shape [of env s d1 run wu d2 run1 lw ob1] ob1 by simp
    then show ?thesis
      using h(7) current_lease_bumped [OF h(8)] by (auto simp: bump_Inr)
  qed
  show ?thesis
    using h stored class_new pause no_fence_no_checkpoint [OF stored(2)] by auto
qed

definition demo_risk_store :: store where
  "demo_risk_store =
     [(''runs/R.yaml'', Doc (JObj
        [(''work_unit_ids'', JList [JStr ''A'', JStr ''B'']), (''revision'', JInt 1),
         (''leases_by_work_unit'', JObj [(''A'', JObj [(''lease_id'', JStr ''L''), (''epoch'', JInt 1)])])])),
      (''work-units/A.yaml'', Doc (JObj
        [(''risk'', JObj [(''class'', JStr ''high'')]), (''status'', JStr ''in_progress'')])),
      (''work-units/B.yaml'', Doc (JObj
        [(''risk'', JObj [(''class'', JStr ''critical'')]), (''status'', JStr ''review'')]))]"

definition demo_escalate :: json where
  "demo_escalate = JObj
     [(''actor'', JObj [(''role_id'', JStr ''security-reviewer'')]),
      (''target'', JObj [(''id'', JStr ''R''), (''expected_revision'', JInt 1)]),
      (''payload'', JObj [(''work_unit_id'', JStr ''A''), (''new_risk_class'', JStr ''critical''),
        (''reason'', JStr ''found a secret'')])]"

lemma demo_escalate_accepted:
  "\<exists>r. handle_escalate_work_unit_risk (demo_env 0) demo_risk_store demo_escalate = Inr r \<and>
       jpath (r_details r) [''paused''] = JBool True"
  by (simp add: handle_escalate_work_unit_risk_def demo_escalate_def demo_risk_store_def demo_env_def
      target_id_def payload_item_def expected_revision_def load_or_not_found_def is_file_def read_yaml_def
      run_path_def work_unit_path_def lease_path_def in_run_def por_def risk_rank_def RISK_ORDER_def risk_class_def
      raise_risk_def osetdefault_def maximum_risk_class_def critical_conflict_def blocks_critical_def
      ACTIVE_CRITICAL_STATUSES_def pause_work_unit_def in_strs_def pop_lease_def opop_def release_lease_def bump_def Let_def)

theorem escalation_raises_and_pauses_witness:
  "\<exists>r err. handle_escalate_work_unit_risk (demo_env 0) demo_risk_store demo_escalate = Inr r \<and>
     handle_write_checkpoint (demo_env 1) (apply_writes (r_writes r) demo_risk_store) (demo_checkpoint ''L'') = Inl err"
proof -
  obtain r where r: "handle_escalate_work_unit_risk (demo_env 0) demo_risk_store demo_escalate = Inr r"
    "jpath (r_details r) [''paused''] = JBool True"
    using demo_escalate_accepted by blast
  have "map_of demo_risk_store (work_unit_path (JStr ''A'')) = Some (Doc (JObj
      [(''risk'', JObj [(''class'', JStr ''high'')]), (''status'', JStr ''in_progress'')]))"
    by (simp add: demo_risk_store_def work_unit_path_def)
  from escalation_raises_and_pauses [OF r(1) _ _ this, of "''R''"] show ?thesis
    using r by (auto simp: demo_escalate_def demo_checkpoint_def)
qed

section \<open>Decisions of a Run\<close>

lemma find_entry_Some:
  "find_entry x items = Inr (Some i) \<Longrightarrow>
   i < length items \<and> (\<exists>v. jget (items ! i) ''id'' = Inr v \<and> py_eq v x)"
  by (induction items arbitrary: i) (auto split: if_splits)

lemma find_entry_dict: "find_entry x items = Inr (Some i) \<Longrightarrow> \<exists>ob. items ! i = JObj ob"
  using find_entry_Some by (fastforce simp: jget_eq_Inr)

lemma find_entry_no_strings: "find_entry x (map (\<lambda>(k, _). JStr k) ob) \<noteq> Inr (Some i)"
  by (cases ob) auto

lemma resolve_success:
  assumes "handle_resolve_run_decision env s e = Inr r"
    and "jpath e [''payload'', ''run_id''] = JStr rid" and "jpath e [''payload'', ''work_unit_id''] = JStr wu"
  shows "\<exists>did run gid grant menu entries found trigger environment evidence reason doc ws.
    map_of s (run_path (JStr rid)) = Some (Doc run) \<and> jitem run ''run_authorization_grant_id'' = Inr gid \<and>
    map_of s (grant_path gid) = Some (Doc grant) \<and> jget grant ''decision_menu'' = Inr menu \<and>
    jiter (por menu (JList [])) = Inr entries \<and>
    find_entry (jpath e [''payload'', ''proposed_entry_id'']) entries = Inr found \<and>
    (case found of None \<Rightarrow> reason = Some ''entry_not_found''
     | Some i \<Rightarrow> validate_entry_usable (entries ! i) trigger (JStr wu) environment (isoformat (now env)) evidence
                  = Inr reason) \<and>
    jpath (r_details r) [''resolved''] = JBool (reason = None) \<and>
    (if reason = None
     then \<exists>grant1 w. use_entry grant entries (the found) = Inr grant1 \<and>
            move_work_unit env s (JStr wu) ''waiting_decision'' ''in_progress'' = Inr w \<and>
            ws = (grant_path gid, grant1) # w
     else \<exists>w d. move_work_unit env s (JStr wu) ''in_progress'' ''waiting_decision'' = Inr w \<and>
            drop_for_decision env s (JStr rid) run (JStr wu) = Inr d \<and> ws = w @ d) \<and>
    r_writes r = (decision_path did, doc) # ws"
  using assms unfolding handle_resolve_run_decision_def bindR_unit_eq_Inr bindR_eq_Inr Let_def
    if_raise_eq_Inr load_or_not_found_Inr read_json_Inr
  apply (elim exE conjE)
  subgoal premises p for did payload run_id wu_id trigger pid ev run gid grant menu entries found member environment
    reason version option_id ws
  proof -
    note p
    have ids: "run_id = JStr rid" "wu_id = JStr wu" "pid = jpath e [''payload'', ''proposed_entry_id'']"
      using payload_item_path [OF \<open>payload_item e ''run_id'' = Inr run_id\<close>] assms(2,3)
        payload_item_path [OF \<open>payload_item e ''work_unit_id'' = Inr wu_id\<close>]
        payload_item_path [OF \<open>payload_item e ''proposed_entry_id'' = Inr pid\<close>] by simp_all
    have use: "(if reason = None
        then bindR (use_entry grant entries (the found)) (\<lambda>grant1.
             bindR (move_work_unit env s (JStr wu) ''waiting_decision'' ''in_progress'') (\<lambda>w.
             Inr ((grant_path gid, grant1) # w)))
        else bindR (move_work_unit env s (JStr wu) ''in_progress'' ''waiting_decision'') (\<lambda>w.
             bindR (drop_for_decision env s (JStr rid) run (JStr wu)) (\<lambda>d. Inr (w @ d)))) = Inr ws"
      using p(24) unfolding ids .
    have reason: "(case found of None \<Rightarrow> reason = Some ''entry_not_found''
     | Some i \<Rightarrow> validate_entry_usable (entries ! i) trigger (JStr wu) environment (isoformat (now env))
          (por ev (JList [])) = Inr reason)"
      using p(20) unfolding ids by (cases found) simp_all
    have facts: "map_of s (run_path (JStr rid)) = Some (Doc run)" "jitem run ''run_authorization_grant_id'' = Inr gid"
      "map_of s (grant_path gid) = Some (Doc grant)" "jget grant ''decision_menu'' = Inr menu"
      "jiter (por menu (JList [])) = Inr entries"
      "find_entry (jpath e [''payload'', ''proposed_entry_id'']) entries = Inr found"
      using p ids by simp_all
    have details: "jpath (r_details r) [''resolved''] = JBool (reason = None)"
      using p(25) by (cases reason) (simp_all, auto)
    obtain doc where doc: "r_writes r = (decision_path did, doc) # ws"
      using p(25) by (simp, auto)
    have use2: "if reason = None
     then \<exists>grant1 w. use_entry grant entries (the found) = Inr grant1 \<and>
            move_work_unit env s (JStr wu) ''waiting_decision'' ''in_progress'' = Inr w \<and>
            ws = (grant_path gid, grant1) # w
     else \<exists>w d. move_work_unit env s (JStr wu) ''in_progress'' ''waiting_decision'' = Inr w \<and>
            drop_for_decision env s (JStr rid) run (JStr wu) = Inr d \<and> ws = w @ d"
      using use by (cases "reason = None") (simp_all only: if_True if_False simp_thms bindR_eq_Inr sum.inject, blast+)
    show ?thesis
      by (intro exI conjI, (rule facts reason details doc use2)+)
  qed
  done

lemma move_work_unit_writes:
  "move_work_unit env s w a b = Inr ws \<Longrightarrow> fst ` set ws \<subseteq> {work_unit_path w}"
  by (auto simp: move_work_unit_def split: if_splits)

text \<open>
  A decision-menu entry resolves a fork only within its bound. A resolution uses the proposed
  entry of the Run's own grant, which was not exhausted; exactly that entry's count goes up by one
  and stays within the maximum, and the rest of the grant is unchanged.
\<close>

theorem menu_entry_uses_bounded:
  assumes "handle_resolve_run_decision env s e = Inr r"
    and "jpath e [''payload'', ''run_id''] = JStr rid" and "jpath e [''payload'', ''work_unit_id''] = JStr wu"
    and "jpath (r_details r) [''resolved''] = JBool True"
  shows "\<exists>run gid gob es i ob u u1.
    map_of s (run_path (JStr rid)) = Some (Doc run) \<and> jitem run ''run_authorization_grant_id'' = Inr gid \<and>
    map_of s (grant_path gid) = Some (Doc (JObj gob)) \<and> oget gob ''decision_menu'' = JList es \<and>
    i < length es \<and> es ! i = JObj ob \<and> py_eq (oget ob ''id'') (jpath e [''payload'', ''proposed_entry_id'']) \<and>
    jget_or (JObj ob) ''uses_count'' (JInt 0) = Inr u \<and> py_succ u = Inr u1 \<and>
    map_of (apply_writes (r_writes r) s) (grant_path gid) = Some (Doc (JObj (AList.update ''decision_menu''
      (JList (es[i := JObj (AList.update ''uses_count'' u1 ob)])) gob))) \<and>
    (\<forall>n m. u = JInt n \<and> jget_or (JObj ob) ''maximum_uses'' (JInt 1) = Inr (JInt m) \<longrightarrow> n + 1 \<le> m)"
proof -
  obtain did run gid grant menu es found trigger environment evidence doc grant1 w where h:
    "map_of s (run_path (JStr rid)) = Some (Doc run)" "jitem run ''run_authorization_grant_id'' = Inr gid"
    "map_of s (grant_path gid) = Some (Doc grant)" "jget grant ''decision_menu'' = Inr menu"
    "jiter (por menu (JList [])) = Inr es"
    "find_entry (jpath e [''payload'', ''proposed_entry_id'']) es = Inr found"
    "case found of None \<Rightarrow> False
     | Some i \<Rightarrow> validate_entry_usable (es ! i) trigger (JStr wu) environment (isoformat (now env)) evidence = Inr None"
    "use_entry grant es (the found) = Inr grant1"
    "move_work_unit env s (JStr wu) ''waiting_decision'' ''in_progress'' = Inr w"
    "r_writes r = (decision_path did, doc) # (grant_path gid, grant1) # w"
    using resolve_success [OF assms(1-3)] assms(4) by (elim exE conjE) (auto split: option.splits)
  obtain i where i: "found = Some i" using h(7) by (cases found) auto
  obtain ob where ob: "es ! i = JObj ob" using find_entry_dict h(6) i by blast
  have il: "i < length es" "py_eq (oget ob ''id'') (jpath e [''payload'', ''proposed_entry_id''])"
    using find_entry_Some [of _ es i] h(6) i ob by auto
  obtain gob where gob: "grant = JObj gob" "menu = oget gob ''decision_menu''"
    using h(4) by (auto simp: jget_eq_Inr)
  have "truthy menu" using h(5) il(1) by (auto simp: por_def split: if_splits)
  then have "jiter menu = Inr es" using h(5) by (simp add: por_def)
  then have "menu = JList es"
    using ob il(1) h(6) i find_entry_no_strings by (cases menu) auto
  then have menu: "oget gob ''decision_menu'' = JList es" using gob(2) by simp
  obtain u u1 where u: "jget_or (JObj ob) ''uses_count'' (JInt 0) = Inr u" "py_succ u = Inr u1"
    "grant1 = JObj (AList.update ''decision_menu''
      (JList (es[i := JObj (AList.update ''uses_count'' u1 ob)])) gob)"
    using h(8) i ob gob by (auto simp: use_entry_def)
  have "is_exhausted (JObj ob) = Inr False"
    using h(7) i ob validate_entry_usable_None by auto
  then have bound: "\<forall>n m. u = JInt n \<and> jget_or (JObj ob) ''maximum_uses'' (JInt 1) = Inr (JInt m) \<longrightarrow> n + 1 \<le> m"
    using u(1) by (auto simp: is_exhausted_def)
  have "grant_path gid \<notin> fst ` set w"
    using move_work_unit_writes [OF h(9)] by (auto simp: grant_path_def work_unit_path_def)
  then have "map_of (apply_writes (r_writes r) s) (grant_path gid) = Some (Doc grant1)"
    by (simp add: h(10) map_of_apply_writes_other)
  then show ?thesis using h(1-3) gob(1) menu il ob u bound by auto
qed

definition demo_decision_store :: store where
  "demo_decision_store =
     [(''runs/R.yaml'', Doc (JObj
        [(''run_authorization_grant_id'', JStr ''G''), (''work_unit_ids'', JList [JStr ''A'']),
         (''leases_by_work_unit'', JObj [(''A'', JObj [(''lease_id'', JStr ''L''), (''epoch'', JInt 1)])])])),
      (''run-authorization-grants/G.json'', Doc (JObj [(''decision_menu'', JList
        [JObj [(''id'', JStr ''M''), (''trigger'', JObj [(''type'', JStr ''dependency'')]),
               (''uses_count'', JInt 0), (''maximum_uses'', JInt 1),
               (''authorized_option'', JObj [(''option_id'', JStr ''O'')])]])]))]"

definition demo_resolve :: "string \<Rightarrow> json" where
  "demo_resolve entry_id = JObj
     [(''target'', JObj [(''id'', JStr ''D'')]),
      (''payload'', JObj [(''run_id'', JStr ''R''), (''work_unit_id'', JStr ''A''),
        (''trigger'', JObj [(''type'', JStr ''dependency'')]), (''proposed_entry_id'', JStr entry_id)])]"

lemmas resolve_eval = handle_resolve_run_decision_def demo_resolve_def demo_decision_store_def demo_env_def
  target_id_def payload_item_def load_or_not_found_def is_file_def read_yaml_def read_json_def
  run_path_def work_unit_path_def decision_path_def grant_path_def lease_path_def in_run_def por_def
  validate_against_schema_def use_entry_def move_work_unit_def validate_entry_usable_def trigger_matches_def
  trigger_field_mismatch_def scope_covers_def is_exhausted_def evidence_missing_def drop_for_decision_def release_lease_def drop_lease_def
  opop_def Let_def

lemma demo_resolve_accepted:
  "\<exists>r. handle_resolve_run_decision (demo_env 0) demo_decision_store (demo_resolve ''M'') = Inr r \<and>
       jpath (r_details r) [''resolved''] = JBool True"
  by (simp add: resolve_eval jset_of_def)

lemma demo_resolve_refused:
  "\<exists>r. handle_resolve_run_decision (demo_env 0) demo_decision_store (demo_resolve ''X'') = Inr r \<and>
       jpath (r_details r) [''resolved''] = JBool False"
  by (simp add: resolve_eval)

theorem menu_entry_uses_bounded_witness:
  "\<exists>r grant. handle_resolve_run_decision (demo_env 0) demo_decision_store (demo_resolve ''M'') = Inr r \<and>
     map_of (apply_writes (r_writes r) demo_decision_store) ''run-authorization-grants/G.json'' = Some (Doc grant)"
proof -
  obtain r where r: "handle_resolve_run_decision (demo_env 0) demo_decision_store (demo_resolve ''M'') = Inr r"
    "jpath (r_details r) [''resolved''] = JBool True"
    using demo_resolve_accepted by blast
  from menu_entry_uses_bounded [OF r(1) _ _ r(2), of "''R''" "''A''"] show ?thesis
    using r(1) by (auto simp: demo_resolve_def demo_decision_store_def run_path_def grant_path_def)
qed

lemma drop_lease_shape:
  assumes "drop_lease run (JStr wu) t = Inr run1"
  shows "current_lease run1 (JStr wu) = Inr JNull"
  using assms by (auto simp: drop_lease_def res_simps current_lease_por)

lemma fenced_lease_truthy:
  "check_fence run w ep l = Inr u \<Longrightarrow> current_lease run w = Inr ref \<Longrightarrow> truthy ref"
  using check_fence_Inr [of run w ep l u] by (auto simp: oget_def split: option.splits)

text \<open>
  A fork the menu does not resolve stops its Work Unit. After an unresolved decision no worker
  can write a checkpoint of that Run for that Work Unit, whatever lease and epoch it claims, until
  somebody acquires a new lease.
\<close>

theorem unresolved_fork_fences_worker:
  assumes "handle_resolve_run_decision env s e = Inr r"
    and "jpath e [''payload'', ''run_id''] = JStr rid" and "jpath e [''payload'', ''work_unit_id''] = JStr wu"
    and "jpath (r_details r) [''resolved''] = JBool False" and "CHR ''/'' \<notin> set rid"
    and "jpath e2 [''payload'', ''run_id''] = JStr rid" and "jpath e2 [''target'', ''id''] = JStr wu"
  shows "\<exists>err. handle_write_checkpoint env2 (apply_writes (r_writes r) s) e2 = Inl err"
proof -
  let ?s = "apply_writes (r_writes r) s"
  obtain did run doc w d where h: "map_of s (run_path (JStr rid)) = Some (Doc run)"
    "move_work_unit env s (JStr wu) ''in_progress'' ''waiting_decision'' = Inr w"
    "drop_for_decision env s (JStr rid) run (JStr wu) = Inr d"
    "r_writes r = (decision_path did, doc) # w @ d"
    using resolve_success [OF assms(1-3)] assms(4) by (elim exE conjE) auto
  have other: "run_path (JStr rid) \<noteq> decision_path did"
  proof
    assume "run_path (JStr rid) = decision_path did"
    then have "rid @ ''.yaml'' = ''decisions/'' @ py_str did @ ''.yaml''"
      by (simp add: run_path_def decision_path_def)
    moreover have "CHR ''/'' \<in> set (''decisions/'' @ py_str did @ ''.yaml'')" by simp
    ultimately have "CHR ''/'' \<in> set (rid @ ''.yaml'')" by simp
    with assms(5) show False by simp
  qed
  have notin: "run_path (JStr rid) \<notin> fst ` set w"
    using move_work_unit_writes [OF h(2)] by (auto simp: run_path_def work_unit_path_def)
  obtain leases ref where l: "jget run ''leases_by_work_unit'' = Inr leases"
    "dict_get (por leases (JObj [])) (JStr wu) = Inr ref"
    "if truthy ref then \<exists>ws run1. d = ws @ [(run_path (JStr rid), run1)] \<and>
       drop_lease run (JStr wu) (now_iso env) = Inr run1 else d = []"
    using h(3) by (auto simp: drop_for_decision_def split: if_splits)
  have now_ref: "current_lease run (JStr wu) = Inr ref"
    using l(1,2) by (simp add: current_lease_def leases_by_work_unit_def)
  have "\<exists>run1. map_of ?s (run_path (JStr rid)) = Some (Doc run1) \<and> check_fence run1 (JStr wu) ep l \<noteq> Inr ()" for ep l
  proof (cases "truthy ref")
    case True
    then obtain ws run1 where "d = ws @ [(run_path (JStr rid), run1)]" "drop_lease run (JStr wu) (now_iso env) = Inr run1"
      using l(3) by auto
    then show ?thesis
      using no_lease_no_fence [OF drop_lease_shape] by (auto simp: h(4) apply_writes_def)
  next
    case False
    then have "map_of ?s (run_path (JStr rid)) = Some (Doc run)"
      using l(3) h(1,4) other notin by (simp add: map_of_apply_writes_other)
    then show ?thesis using fenced_lease_truthy now_ref False by blast
  qed
  note fenced = this
  show ?thesis
  proof (cases "handle_write_checkpoint env2 ?s e2")
    case (Inr r2)
    from checkpoint_success [OF this] show ?thesis using assms(6,7) fenced by fastforce
  qed simp
qed

theorem unresolved_fork_fences_worker_witness:
  "\<exists>r err. handle_resolve_run_decision (demo_env 0) demo_decision_store (demo_resolve ''X'') = Inr r \<and>
     handle_write_checkpoint (demo_env 1) (apply_writes (r_writes r) demo_decision_store) (demo_checkpoint ''L'')
       = Inl err"
proof -
  obtain r where r: "handle_resolve_run_decision (demo_env 0) demo_decision_store (demo_resolve ''X'') = Inr r"
    "jpath (r_details r) [''resolved''] = JBool False"
    using demo_resolve_refused by blast
  have "\<exists>err. handle_write_checkpoint (demo_env 1) (apply_writes (r_writes r) demo_decision_store)
      (demo_checkpoint ''L'') = Inl err"
    by (rule unresolved_fork_fences_worker [OF r(1) _ _ r(2), where rid = "''R''" and wu = "''A''"])
       (simp_all add: demo_resolve_def demo_checkpoint_def)
  with r(1) show ?thesis by blast
qed

section \<open>Human authorizations and revocation\<close>

lemma validate_preissued_Inr:
  assumes "validate_preissued_human_authorization s e = Inr r"
  obtains sub where "jget e ''human_authorization'' = Inr sub" "is_dict sub"
    "load_authorization s (authorization_path (JStr (py_str (por (jpath sub [''authorization_id'']) (JStr []))))) = Inr r"
    "\<not> truthy (jpath r [''consumed_at''])"
  using assms unfolding validate_preissued_human_authorization_def Let_def bindR_eq_Inr bindR_unit_eq_Inr if_raise_eq_Inr
  apply (elim exE conjE)
  subgoal premises p for sub auth rec recorded consumed
  proof -
    have "jpath sub [''authorization_id''] = auth" using p by (auto simp: jget_eq_Inr)
    moreover have "jpath r [''consumed_at''] = consumed" using p by (auto simp: jget_eq_Inr)
    ultimately show ?thesis using p by (intro that [of sub]) simp_all
  qed
  done

text \<open>
  A human authorization is used once: after a command consumed it, it validates no command any
  more, the same one or another.
\<close>

theorem human_authorization_single_use:
  assumes "consume_human_authorization env s e = Inr w"
    and "jpath e [''human_authorization'', ''authorization_id''] = JStr i"
    and "jpath e2 [''human_authorization'', ''authorization_id''] = JStr i"
  shows "\<exists>err. validate_preissued_human_authorization (apply_writes [w] s) e2 = Inl err"
proof -
  obtain doc where w: "w = (authorization_path (JStr i), doc)" "truthy (jpath doc [''consumed_at''])"
  proof -
    obtain auth aid rec where c: "jitem e ''human_authorization'' = Inr auth" "jitem auth ''authorization_id'' = Inr aid"
      "jset rec ''consumed_at'' (now_iso env) = Inr (snd w)" "fst w = authorization_path aid"
      using assms(1) by (auto simp: consume_human_authorization_def Let_def)
    have "aid = JStr i"
      using jitem_jpath [OF c(1), of "[''authorization_id'']"] jitem_jpath [OF c(2), of "[]"] assms(2) by simp
    moreover have "truthy (now_iso env)"
      by (simp add: now_iso_def isoformat_def split: prod.splits)
    ultimately show ?thesis
      using c(3,4) that [of "snd w"] by (cases w) (auto simp: jset_eq_Inr)
  qed
  show ?thesis
  proof (cases "validate_preissued_human_authorization (apply_writes [w] s) e2")
    case (Inr r2)
    then obtain sub where sub: "jget e2 ''human_authorization'' = Inr sub" "is_dict sub"
      "load_authorization (apply_writes [w] s) (authorization_path (JStr (py_str (por (jpath sub [''authorization_id'']) (JStr [])))))
         = Inr r2" "\<not> truthy (jpath r2 [''consumed_at''])"
      by (rule validate_preissued_Inr)
    have "jpath sub [''authorization_id''] = JStr i"
      using jget_jpath [OF sub(1), of "[''authorization_id'']"] assms(3) by simp
    then have "r2 = doc"
      using sub(3) w(1) by (simp add: load_authorization_def read_json_def por_def split: if_splits)
    with sub(4) w(2) show ?thesis by simp
  qed simp
qed

definition demo_authorized :: json where
  "demo_authorized = JObj
     [(''type'', JStr ''RevokeRunAuthorizationGrant''),
      (''target'', JObj [(''kind'', JStr ''run_authorization_grant''), (''id'', JStr ''G''), (''expected_revision'', JInt 1)]),
      (''payload'', JObj [(''reason'', JStr ''stop'')]),
      (''human_authorization'', JObj [(''authorization_id'', JStr ''H''), (''granted_by'', JStr ''human:ann'')])]"

definition demo_authorization_store :: store where
  "demo_authorization_store =
     [(''authorizations/H.json'', Doc (JObj
        [(''authorization_id'', JStr ''H''), (''actor'', JObj [(''kind'', JStr ''human'')]),
         (''granted_by'', JStr ''human:ann''), (''command_type'', JStr ''RevokeRunAuthorizationGrant''),
         (''target'', JObj [(''kind'', JStr ''run_authorization_grant''), (''id'', JStr ''G'')])])),
      (''run-authorization-grants/G.json'', Doc (JObj [(''id'', JStr ''G''), (''revision'', JInt 1)]))]"

lemma demo_authorization_valid:
  "\<exists>issued. validate_preissued_human_authorization demo_authorization_store demo_authorized = Inr issued"
  by (simp add: validate_preissued_human_authorization_def demo_authorization_store_def demo_authorized_def
      por_def authorization_path_def is_file_def load_authorization_def read_json_def same_target_def same_key_def
      startswith_def Let_def)

theorem human_authorization_single_use_witness:
  "\<exists>w issued err. validate_preissued_human_authorization demo_authorization_store demo_authorized = Inr issued \<and>
     consume_human_authorization (demo_env 0) demo_authorization_store demo_authorized = Inr w \<and>
     validate_preissued_human_authorization (apply_writes [w] demo_authorization_store) demo_authorized = Inl err"
proof -
  obtain w where w: "consume_human_authorization (demo_env 0) demo_authorization_store demo_authorized = Inr w"
    by (simp add: consume_human_authorization_def demo_authorization_store_def demo_authorized_def
        authorization_path_def is_file_def read_json_def Let_def)
  have "jpath demo_authorized [''human_authorization'', ''authorization_id''] = JStr ''H''"
    by (simp add: demo_authorized_def)
  from human_authorization_single_use [OF w this this] w demo_authorization_valid show ?thesis by blast
qed

text \<open>
  A revocation is final. Once a grant was revoked, the grant in the store authorizes no
  command at any time, and it cannot be revoked again.
\<close>

theorem revocation_is_final:
  assumes "handle_revoke_run_authorization_grant env s e = Inr r"
    and "jpath e [''target'', ''id''] = JStr gid"
  shows "\<exists>grant. map_of (apply_writes (r_writes r) s) (grant_path (JStr gid)) = Some (Doc grant) \<and>
    (\<forall>now_iso command. unusable_reason grant now_iso command = Inr (Some ''revoked'')) \<and>
    (\<forall>env2 e2. jpath e2 [''target'', ''id''] = JStr gid \<longrightarrow>
       (\<exists>err. handle_revoke_run_authorization_grant env2 (apply_writes (r_writes r) s) e2 = Inl err))"
proof -
  obtain ob reason nrev w where h:
    "r_writes r = [(grant_path (JStr gid), JObj (AList.update ''revision'' nrev
        (AList.update ''revoked_reason'' reason (AList.update ''revoked_at'' (now_iso env) ob)))), w]"
    "consume_human_authorization env s e = Inr w"
    using assms unfolding handle_revoke_run_authorization_grant_def bindR_eq_Inr bindR_unit_eq_Inr if_raise_eq_Inr
    by - (elim exE conjE, drule target_id_path, auto simp: reply_of_def)
  let ?g = "JObj (AList.update ''revision'' nrev
        (AList.update ''revoked_reason'' reason (AList.update ''revoked_at'' (now_iso env) ob)))"
  have t: "truthy (now_iso env)" by (simp add: now_iso_def isoformat_def split: prod.splits)
  have "fst w \<noteq> grant_path (JStr gid)"
    using h(2) by (auto simp: consume_human_authorization_def Let_def authorization_path_def grant_path_def)
  then have g: "map_of (apply_writes (r_writes r) s) (grant_path (JStr gid)) = Some (Doc ?g)"
    by (cases w) (simp add: h(1))
  moreover have "unusable_reason ?g i c = Inr (Some ''revoked'')" for i c
    using t by (simp add: unusable_reason_def is_revoked_def)
  moreover have "\<exists>err. handle_revoke_run_authorization_grant env2 (apply_writes (r_writes r) s) e2 = Inl err"
    if "jpath e2 [''target'', ''id''] = JStr gid" for env2 e2
  proof (cases "handle_revoke_run_authorization_grant env2 (apply_writes (r_writes r) s) e2")
    case (Inr r2)
    then show ?thesis
      unfolding handle_revoke_run_authorization_grant_def bindR_eq_Inr bindR_unit_eq_Inr if_raise_eq_Inr read_json_Inr
      by - (elim exE conjE, drule target_id_path, use that g t in auto)
  qed simp
  ultimately show ?thesis by blast
qed

theorem revocation_is_final_witness:
  "\<exists>r grant. handle_revoke_run_authorization_grant (demo_env 0) demo_authorization_store demo_authorized = Inr r \<and>
     map_of (apply_writes (r_writes r) demo_authorization_store) (grant_path (JStr ''G'')) = Some (Doc grant) \<and>
     unusable_reason grant ''2026-01-01'' ''WriteCheckpoint'' = Inr (Some ''revoked'')"
proof -
  obtain r where r: "handle_revoke_run_authorization_grant (demo_env 0) demo_authorization_store demo_authorized = Inr r"
    by (simp add: handle_revoke_run_authorization_grant_def demo_authorization_store_def demo_authorized_def
        target_id_def expected_revision_def is_file_def read_json_def grant_path_def check_revision_def jset3_def
        consume_human_authorization_def authorization_path_def Let_def)
  show ?thesis
    using revocation_is_final [OF r, of "''G''"] r by (auto simp: demo_authorized_def)
qed

end
