(* ===== verification/AttemptSafety.thy ===== *)
theory AttemptSafety
  imports AttemptCommands RunSafety RunAuthorization
begin

text \<open>
  What recording an execution attempt guarantees: only the holder of the lease records (or the
  control plane, for an attempt whose lease is gone), only permitted steps, only within the bounds
  of the convergence loop, and an exhausted budget stops the Run.
\<close>

section \<open>Lemmas\<close>

lemma attempt_success:
  assumes "handle_record_execution_attempt env s e = Inr r"
  shows "\<exists>payload run existing recovery prior doc grant_writes exhausted exhaustion events.
    jitem e ''payload'' = Inr payload \<and>
    map_of s (run_path (jpath e [''payload'', ''run_id''])) = Some (Doc run) \<and>
    run_inactive run = Inr False \<and> in_run run (jpath e [''payload'', ''work_unit_id'']) = Inr True \<and>
    read_yaml_or JNull s (attempt_path (jpath e [''target'', ''id''])) = Inr existing \<and>
    check_may_record e run (jpath e [''payload'', ''work_unit_id'']) existing payload
      (jpath e [''payload'', ''epoch'']) = Inr recovery \<and>
    check_ceiling_permits e run (jpath e [''payload'', ''work_unit_id'']) (jpath e [''payload'', ''step'']) = Inr () \<and>
    prior_attempts s (jpath e [''payload'', ''run_id'']) (jpath e [''payload'', ''work_unit_id''])
      (jpath e [''payload'', ''step'']) existing (jpath e [''target'', ''id'']) = Inr prior \<and>
    convergence_reason run prior (jpath e [''payload'', ''step'']) = Inr None \<and>
    attempt_document env (jpath e [''target'', ''id'']) existing payload (jpath e [''payload'', ''run_id''])
      (jpath e [''payload'', ''work_unit_id'']) (jpath e [''payload'', ''epoch''])
      (jpath e [''payload'', ''step'']) = Inr doc \<and>
    charge_finished s run doc = Inr (grant_writes, exhausted) \<and>
    r_details r = por (JObj (attempt_details exhausted exhaustion)) JNull \<and>
    r_writes r = (attempt_path (jpath e [''target'', ''id'']), doc) # grant_writes
      @ map (\<lambda>(i, ev). (event_path i, ev)) events"
  using assms unfolding handle_record_execution_attempt_def bindR_unit_eq_Inr bindR_eq_Inr Let_def
    if_raise_eq_Inr load_or_not_found_Inr split_paired_Ex prod.case
  apply (elim exE conjE)
  subgoal premises p for attempt_id payload run_id wu epoch step run inactive member existing recovery prior
    before doc grant_writes exhausted status revision reason
  proof -
    have ids: "attempt_id = jpath e [''target'', ''id'']" "run_id = jpath e [''payload'', ''run_id'']"
      "wu = jpath e [''payload'', ''work_unit_id'']" "epoch = jpath e [''payload'', ''epoch'']"
      "step = jpath e [''payload'', ''step'']"
      using target_id_path [OF p(1)] payload_item_path [OF p(3)] payload_item_path [OF p(4)]
        payload_item_path [OF p(5)] payload_item_path [OF p(6)] by simp_all
    note q = p [unfolded ids]
    have "\<exists>exhaustion events. r_details r = por (JObj (attempt_details exhausted exhaustion)) JNull \<and>
       r_writes r = (attempt_path (jpath e [''target'', ''id'']), doc) # grant_writes
      @ map (\<lambda>(i, ev). (event_path i, ev)) events"
      using q(24) by (auto simp del: map_map)
    then show ?thesis using q by auto
  qed
  done

text \<open>The environment in which the commands of a Run are authorized does not matter for its budget.\<close>

lemma spend_exceeded_Inr:
  "jget g ''maximum_spend'' = Inr m \<Longrightarrow> m \<noteq> JNull \<Longrightarrow> jget_or g ''spend_used'' (JInt 0) = Inr u \<Longrightarrow>
   py_float u = Inr uq \<Longrightarrow> py_float m = Inr mq \<Longrightarrow> uq \<ge> mq \<Longrightarrow> spend_exceeded g = Inr True"
  by (simp add: spend_exceeded_def)

lemma tokens_exceeded_Inr:
  "jget g ''maximum_tokens'' = Inr m \<Longrightarrow> m \<noteq> JNull \<Longrightarrow> jget_or g ''tokens_used'' (JInt 0) = Inr u \<Longrightarrow>
   py_int u = Inr ui \<Longrightarrow> py_int m = Inr mi \<Longrightarrow> ui \<ge> mi \<Longrightarrow> tokens_exceeded g = Inr True"
  by (simp add: tokens_exceeded_def)

text \<open>A charged grant that is reported as exhausted is one that the authorization finds exceeded.\<close>

lemma charge_grant_exceeds:
  assumes "charge_grant g doc = Inr (g2, True)"
  shows "spend_exceeded g2 = Inr True \<or> (spend_exceeded g2 = Inr False \<and> tokens_exceeded g2 = Inr True)"
  using assms unfolding charge_grant_def Let_def bindR_eq_Inr
  apply (elim exE conjE)
  subgoal premises p for u s0 spent c0 cost g1 t0 tokens n0 total g2' ms sout mt tout
  proof -
    obtain ob where ob: "g = JObj ob" using p by (auto simp: jset_eq_Inr)
    have g2: "g2 = JObj (AList.update ''tokens_used'' (JInt (tokens + total))
        (AList.update ''spend_used'' (JFloat (spent + cost)) ob))"
      using p ob by (auto simp: jset_eq_Inr)
    have su: "spend_exceeded g2 = (if ms = JNull then Inr False
        else bindR (py_float ms) (\<lambda>m. Inr (spent + cost \<ge> m)))"
      using p g2 by (auto simp: spend_exceeded_def jget_eq_Inr)
    have tu: "tokens_exceeded g2 = (if mt = JNull then Inr False
        else bindR (py_int mt) (\<lambda>m. Inr (tokens + total \<ge> m)))"
      using p g2 by (auto simp: tokens_exceeded_def jget_eq_Inr)
    have "spend_exceeded g2 = Inr sout" "tokens_exceeded g2 = Inr tout" "sout \<or> tout"
      using p su tu by auto
    then show ?thesis by (cases sout) auto
  qed
  done

lemma charge_finished_exhausted:
  assumes "charge_finished s run doc = Inr (ws, True)"
  shows "\<exists>gid g g1. jitem run ''run_authorization_grant_id'' = Inr gid \<and>
    charge_grant g doc = Inr (g1, True) \<and> ws = [(grant_path gid, g1)]"
  using assms by (auto simp: charge_finished_def split: if_splits)

lemma details_exhausted:
  "jpath (por (JObj (attempt_details ex rs)) JNull) [''global_stop_condition''] = JStr v \<Longrightarrow> ex"
  by (auto simp: attempt_details_def por_def split: if_splits option.splits)

lemma budget_not_within:
  "spend_exceeded g = Inr True \<or> (spend_exceeded g = Inr False \<and> tokens_exceeded g = Inr True) \<Longrightarrow>
   budget_exceeded env g run \<noteq> Inr False"
  by (auto simp: budget_exceeded_def orR_False)

text \<open>What an authorized command of a known Run passed, unless it is an emergency close.\<close>

lemma authorize_existing_checks:
  assumes "authorize_existing_run_command env s e c = Inr ()"
    and "jget e ''payload'' = Inr p" and "command_run_id e c (por p (JObj [])) = Inr (JStr rid)"
    and "rid \<noteq> []" and "emergency_close (por p (JObj [])) c = Inr False"
    and "map_of s (run_path (JStr rid)) = Some (Doc run)"
  shows "\<exists>gid g. jget run ''run_authorization_grant_id'' = Inr gid \<and> truthy gid \<and> load_grant s gid = Inr g \<and>
    g \<noteq> JNull \<and> unusable_reason g (isoformat (now env)) c = Inr None \<and>
    check_grant_scope g (por p (JObj [])) c = Inr () \<and> budget_exceeded env g run = Inr False"
  using assms by (auto simp: authorize_existing_run_command_def Let_def is_file_def read_yaml_def split: if_splits)

lemma load_grant_stored: "map_of s (grant_path gid) = Some (Doc g) \<Longrightarrow> load_grant s gid = Inr g"
  by (simp add: load_grant_def is_file_def read_json_def)

lemma jitem_jget: "jitem j k = Inr v \<Longrightarrow> jget j k = Inr v"
  by (auto simp: jitem_eq_Inr oget_def)

lemma run_path_not_attempt: "CHR ''/'' \<notin> set rid \<Longrightarrow> run_path (JStr rid) \<noteq> attempt_path i"
proof
  assume no: "CHR ''/'' \<notin> set rid" and "run_path (JStr rid) = attempt_path i"
  then have "rid @ ''.yaml'' = ''execution-attempts/'' @ py_str i @ ''.yaml''"
    by (simp add: run_path_def attempt_path_def)
  moreover have "CHR ''/'' \<in> set (''execution-attempts/'' @ py_str i @ ''.yaml'')" by simp
  ultimately have "CHR ''/'' \<in> set (rid @ ''.yaml'')" by simp
  with no show False by simp
qed

section \<open>Properties\<close>

text \<open>
  C33. A budget that is used up stops the Run: when recording an attempt reports that the grant's
  spend or tokens are exhausted, every later command of that Run is refused authorization, except
  a close that stops or fails it.
\<close>

theorem exhausted_budget_stops_run:
  assumes "handle_record_execution_attempt env s e = Inr r"
    and "jpath (r_details r) [''global_stop_condition''] = JStr ''budget_exhausted''"
    and "jpath e [''payload'', ''run_id''] = JStr rid" and "rid \<noteq> []" and "CHR ''/'' \<notin> set rid"
    and "jget e2 ''payload'' = Inr p" and "command_run_id e2 c (por p (JObj [])) = Inr (JStr rid)"
    and "emergency_close (por p (JObj [])) c = Inr False"
  shows "\<exists>err. authorize_existing_run_command env2 (apply_writes (r_writes r) s) e2 c = Inl err"
proof -
  let ?s = "apply_writes (r_writes r) s"
  obtain run doc gw exhausted rs events where h:
    "map_of s (run_path (JStr rid)) = Some (Doc run)" "charge_finished s run doc = Inr (gw, exhausted)"
    "r_details r = por (JObj (attempt_details exhausted rs)) JNull"
    "r_writes r = (attempt_path (jpath e [''target'', ''id'']), doc) # gw @ map (\<lambda>(i, ev). (event_path i, ev)) events"
    using attempt_success [OF assms(1)] assms(3) by auto
  have exhausted using details_exhausted h(3) assms(2) by metis
  then obtain gid g g1 where c: "jitem run ''run_authorization_grant_id'' = Inr gid"
    "charge_grant g doc = Inr (g1, True)" "gw = [(grant_path gid, g1)]"
    using charge_finished_exhausted [of s run doc gw] h(2) \<open>exhausted\<close> by auto
  have ev: "grant_path i \<notin> fst ` set (map (\<lambda>(i, ev). (event_path i, ev)) events)"
    "run_path i \<notin> fst ` set (map (\<lambda>(i, ev). (event_path i, ev)) events)" for i
    by (auto simp: grant_path_def run_path_def event_path_def)
  have run: "map_of ?s (run_path (JStr rid)) = Some (Doc run)"
    using h(1) ev run_path_not_attempt [OF assms(5)]
    by (simp add: h(4) c(3) map_of_apply_writes_other) (simp add: grant_path_def run_path_def)
  have "map_of ?s (grant_path gid) = Some (Doc g1)"
    using ev by (simp add: h(4) c(3) map_of_apply_writes_other)
  then have grant: "load_grant ?s gid = Inr g1" by (rule load_grant_stored)
  show ?thesis
  proof (cases "authorize_existing_run_command env2 ?s e2 c")
    case (Inr u)
    then have "budget_exceeded env2 g1 run = Inr False"
      using authorize_existing_checks [OF _ assms(6,7,4,8) run] grant jitem_jget [OF c(1)] by fastforce
    with budget_not_within [OF charge_grant_exceeds [OF c(2)]] show ?thesis by blast
  qed simp
qed

definition demo_attempt_run :: json where
  "demo_attempt_run = JObj
     [(''run_authorization_grant_id'', JStr ''G''), (''work_unit_ids'', JList [JStr ''A'']),
      (''leases_by_work_unit'', JObj [(''A'', JObj [(''lease_id'', JStr ''L''), (''epoch'', JInt 1)])])]"

definition demo_attempt_store :: store where
  "demo_attempt_store =
     [(''runs/R.yaml'', Doc demo_attempt_run),
      (''run-authorization-grants/G.json'', Doc (JObj
        [(''maximum_tokens'', JInt 100), (''tokens_used'', JInt 90)]))]"

definition demo_attempt :: json where
  "demo_attempt = JObj
     [(''actor'', JObj [(''role_id'', JStr ''backend-developer'')]),
      (''target'', JObj [(''id'', JStr ''T'')]),
      (''payload'', JObj
        [(''run_id'', JStr ''R''), (''work_unit_id'', JStr ''A''), (''epoch'', JInt 1), (''step'', JStr ''analysis''),
         (''worker_lease_id'', JStr ''L''), (''status'', JStr ''failed''), (''duration_ms'', JInt 5),
         (''usage'', JObj [(''total_tokens'', JInt 20)])])]"

lemmas attempt_eval = handle_record_execution_attempt_def demo_attempt_def demo_attempt_run_def target_id_def payload_item_def
  load_or_not_found_def is_file_def read_yaml_def read_yaml_or_def read_json_def run_path_def attempt_path_def
  grant_path_def run_inactive_def is_unattended_preset_def UNATTENDED_PRESETS_def in_run_def por_def
  check_may_record_def check_fence_def is_epoch_current_def current_epoch_def current_lease_def leases_by_work_unit_def
  check_ceiling_permits_def ceiling_of_def is_step_permitted_def capability_for_step_def CEILING_DIMENSIONS_def
  DEFAULT_EXECUTION_CEILING_def prior_attempts_def load_run_attempts_def glob_yaml_def startswith_def attempts_for_step_def
  convergence_reason_def convergence_exhaustion_reason_def repeated_identical_failure_def counts_as_failure_def
  REPEATED_FAILURE_THRESHOLD_def REMEDIATION_STEP_def DEFAULT_MAXIMUM_ATTEMPTS_PER_STEP_def
  DEFAULT_MAXIMUM_REMEDIATION_CYCLES_def NON_SUCCESS_STATUSES_def attempt_document_def attempt_duration_def
  optional_fields_def validate_against_schema_def charge_finished_def charge_grant_def Let_def

lemma demo_attempt_exhausts:
  "\<exists>r. handle_record_execution_attempt (demo_env 0) demo_attempt_store demo_attempt = Inr r \<and>
       jpath (r_details r) [''global_stop_condition''] = JStr ''budget_exhausted''"
  by (simp add: attempt_eval demo_attempt_store_def demo_env_def attempt_details_def)

theorem exhausted_budget_stops_run_witness:
  "\<exists>r err. handle_record_execution_attempt (demo_env 0) demo_attempt_store demo_attempt = Inr r \<and>
     authorize_existing_run_command (demo_env 1) (apply_writes (r_writes r) demo_attempt_store)
       demo_attempt ''WriteCheckpoint'' = Inl err"
proof -
  obtain r where r: "handle_record_execution_attempt (demo_env 0) demo_attempt_store demo_attempt = Inr r"
    "jpath (r_details r) [''global_stop_condition''] = JStr ''budget_exhausted''"
    using demo_attempt_exhausts by blast
  obtain p where p: "jget demo_attempt ''payload'' = Inr p" "por p (JObj []) = p"
    "jget p ''run_id'' = Inr (JStr ''R'')"
    by (simp add: demo_attempt_def por_def)
  have "\<exists>err. authorize_existing_run_command (demo_env 1) (apply_writes (r_writes r) demo_attempt_store)
      demo_attempt ''WriteCheckpoint'' = Inl err"
    by (rule exhausted_budget_stops_run [OF r, where rid = "''R''" and p = p])
       (use p jget_jpath [OF p(3), of "[]"] in \<open>simp_all add: demo_attempt_def command_run_id_def TARGET_IS_RUN_ID_COMMANDS_def emergency_close_def\<close>)
  with r(1) show ?thesis by blast
qed

text \<open>
  Nobody executes a pinned capability. While the ceiling of a Work Unit is valid, recording an
  attempt at a step that stands for merging to a protected branch, deploying to staging or acting
  in production is refused, whoever asks and whatever lease they hold.
\<close>

theorem no_attempt_at_pinned_step:
  assumes "map_of s (run_path (jpath e [''payload'', ''run_id''])) = Some (Doc run)"
    and "ceiling_of run (jpath e [''payload'', ''work_unit_id'']) = Inr ceil"
    and "validate_execution_ceiling ceil = Inr None"
    and "capability_for_step (jpath e [''payload'', ''step'']) = Inr (Some d)"
    and "d \<in> set ALWAYS_FORBIDDEN_DIMENSIONS"
  shows "\<exists>err. handle_record_execution_attempt env s e = Inl err"
proof (cases "handle_record_execution_attempt env s e")
  case (Inr r)
  then have "check_ceiling_permits e run (jpath e [''payload'', ''work_unit_id'']) (jpath e [''payload'', ''step'']) = Inr ()"
    using attempt_success [OF Inr] assms(1) by auto
  moreover have "is_step_permitted ceil (jpath e [''payload'', ''step'']) b = Inr (False, JStr ''forbidden'')" for b
    by (rule pinned_step_blocked [OF assms(3-5)])
  ultimately show ?thesis
    using assms(2) by (auto simp: check_ceiling_permits_def split: if_splits)
qed simp

theorem no_attempt_at_pinned_step_witness:
  "\<exists>err. handle_record_execution_attempt (demo_env 0) demo_attempt_store
     (JObj [(''target'', JObj [(''id'', JStr ''T'')]),
            (''payload'', JObj [(''run_id'', JStr ''R''), (''work_unit_id'', JStr ''A''),
              (''step'', JStr ''staging_deployment'')])]) = Inl err"
proof -
  have "ceiling_of demo_attempt_run (JStr ''A'') = Inr (JObj DEFAULT_EXECUTION_CEILING)"
    by (simp add: demo_attempt_run_def ceiling_of_def por_def)
  then show ?thesis
    by (intro no_attempt_at_pinned_step [where d = "''staging_deployment''" and run = demo_attempt_run
          and ceil = "JObj DEFAULT_EXECUTION_CEILING"])
       (simp_all add: demo_attempt_store_def run_path_def validate_ceiling_None
          default_ceiling_ok capability_for_step_def ceiling_tables)
qed

text \<open>
  Retries are bounded. An attempt is recorded only while fewer attempts at its step than the
  Run's maximum exist (and, for remediation, fewer than its maximum of cycles), and only if the
  latest failures are not the same one repeated.
\<close>

theorem attempts_are_bounded:
  assumes "handle_record_execution_attempt env s e = Inr r"
    and "map_of s (run_path (jpath e [''payload'', ''run_id''])) = Some (Doc run)"
    and "jget_or run ''maximum_attempts_per_step'' (JInt DEFAULT_MAXIMUM_ATTEMPTS_PER_STEP) = Inr (JInt attempts)"
    and "jget_or run ''maximum_remediation_cycles'' (JInt DEFAULT_MAXIMUM_REMEDIATION_CYCLES) = Inr (JInt cycles)"
    and "\<not> is_file s (attempt_path (jpath e [''target'', ''id'']))"
  shows "\<exists>recorded. bindR (load_run_attempts s (jpath e [''payload'', ''run_id''])) (\<lambda>all.
      attempts_for_step all (jpath e [''payload'', ''work_unit_id'']) (jpath e [''payload'', ''step''])) = Inr recorded \<and>
    int (length recorded) < attempts \<and>
    (jpath e [''payload'', ''step''] = JStr REMEDIATION_STEP \<longrightarrow> int (length recorded) < cycles) \<and>
    repeated_identical_failure recorded = Inr False"
proof -
  obtain existing prior where h: "read_yaml_or JNull s (attempt_path (jpath e [''target'', ''id''])) = Inr existing"
    "prior_attempts s (jpath e [''payload'', ''run_id'']) (jpath e [''payload'', ''work_unit_id''])
      (jpath e [''payload'', ''step'']) existing (jpath e [''target'', ''id'']) = Inr prior"
    "convergence_reason run prior (jpath e [''payload'', ''step'']) = Inr None"
    using attempt_success [OF assms(1)] assms(2) by auto
  have "existing = JNull" using h(1) assms(5) by (simp add: read_yaml_or_def)
  then have "bindR (load_run_attempts s (jpath e [''payload'', ''run_id''])) (\<lambda>all.
      attempts_for_step all (jpath e [''payload'', ''work_unit_id'']) (jpath e [''payload'', ''step''])) = Inr prior"
    using h(2) by (simp add: prior_attempts_def)
  moreover have "convergence_exhaustion_reason prior (jpath e [''payload'', ''step'']) (JInt attempts) (JInt cycles) = Inr None"
    using h(3) assms(3,4) by (simp add: convergence_reason_def)
  ultimately show ?thesis using convergence_allows_only_below_bounds by blast
qed

theorem attempts_are_bounded_witness:
  "\<exists>r. handle_record_execution_attempt (demo_env 0) demo_attempt_store demo_attempt = Inr r \<and>
     (\<exists>recorded. bindR (load_run_attempts demo_attempt_store (JStr ''R'')) (\<lambda>all.
        attempts_for_step all (JStr ''A'') (JStr ''analysis'')) = Inr recorded \<and> int (length recorded) < 3)"
proof -
  obtain r where r: "handle_record_execution_attempt (demo_env 0) demo_attempt_store demo_attempt = Inr r"
    using demo_attempt_exhausts by blast
  have "map_of demo_attempt_store (run_path (JStr ''R'')) = Some (Doc demo_attempt_run)"
    by (simp add: demo_attempt_store_def run_path_def)
  from attempts_are_bounded [OF r, of _ 3 2] this r show ?thesis
    by (auto simp: demo_attempt_def DEFAULT_MAXIMUM_ATTEMPTS_PER_STEP_def DEFAULT_MAXIMUM_REMEDIATION_CYCLES_def
        is_file_def attempt_path_def demo_attempt_store_def run_path_def demo_attempt_run_def)
qed

text \<open>
  A superseded worker records nothing. After a lease was acquired for a Work Unit, an attempt
  under any other lease id is refused, unless it is a recovery, which only the control plane may do.
\<close>

theorem superseded_lease_cannot_record:
  assumes "handle_acquire_worker_lease env s e = Inr r" and "acquire_command e lid rid wu w"
    and "CHR ''/'' \<notin> set rid" and "jpath e2 [''payload'', ''run_id''] = JStr rid"
    and "jpath e2 [''payload'', ''work_unit_id''] = JStr wu"
    and "jpath e2 [''payload'', ''worker_lease_id''] = JStr old" and "old \<noteq> lid"
    and "\<not> truthy (jpath e2 [''payload'', ''orphan_recovery'']) \<or> jpath e2 [''actor'', ''role_id''] \<noteq> JStr ''control-plane''"
  shows "\<exists>err. handle_record_execution_attempt env2 (apply_writes (r_writes r) s) e2 = Inl err"
proof -
  let ?s = "apply_writes (r_writes r) s"
  obtain run run1 ep where a: "map_of ?s (run_path (JStr rid)) = Some (Doc run1)"
    "put_lease run (JStr wu) (JStr lid) ep (now_iso env) = Inr run1"
    using acquired_store [OF assms(1-3)] by blast
  have fence: "check_fence run1 (JStr wu) epoch (JStr old) \<noteq> Inr ()" for epoch
    using check_fence_Inr [of run1 "JStr wu" epoch "JStr old"] put_lease_current(1) [OF a(2)] assms(7) by auto
  show ?thesis
  proof (cases "handle_record_execution_attempt env2 ?s e2")
    case (Inr r2)
    then obtain payload existing recovery where m: "jitem e2 ''payload'' = Inr payload"
      "check_may_record e2 run1 (JStr wu) existing payload (jpath e2 [''payload'', ''epoch'']) = Inr recovery"
      using attempt_success [OF Inr] assms(4,5) a(1) by auto
    have p: "jpath payload [k] = jpath e2 [''payload'', k]" for k using jitem_jpath [OF m(1)] by simp
    obtain orphan actor role where o: "jget payload ''orphan_recovery'' = Inr orphan"
      "jget e2 ''actor'' = Inr actor" "jget (por actor (JObj [])) ''role_id'' = Inr role"
      "(if truthy orphan
        then bindR (check_orphan_recovery run1 (JStr wu) existing payload role) (\<lambda>_. check_attempt_revision e2 existing)
        else bindR (bindR (jitem payload ''worker_lease_id'') (check_fence run1 (JStr wu) (jpath e2 [''payload'', ''epoch'']))) (\<lambda>_.
             if existing = JNull then Inr () else check_completion e2 existing payload)) = Inr ()"
      using m(2) unfolding check_may_record_def bindR_eq_Inr by auto
    have "orphan = jpath e2 [''payload'', ''orphan_recovery'']"
      using jget_jpath [OF o(1), of "[]"] p by simp
    moreover have "role = jpath e2 [''actor'', ''role_id'']"
      using jget_jpath [OF o(2), of "[''role_id'']"] jget_jpath [OF o(3), of "[]"]
        jpath_por [of actor "''role_id''" "[]"] by simp
    moreover have "bindR (jitem payload ''worker_lease_id'') (check_fence run1 (JStr wu) ep2) \<noteq> Inr ()" for ep2
      using jitem_jpath [of payload "''worker_lease_id''" _ "[]"] p assms(6) fence
      by (cases "jitem payload ''worker_lease_id''") auto
    ultimately show ?thesis
      using o(4) assms(8) by (cases "truthy orphan") (auto simp: check_orphan_recovery_def)
  qed simp
qed

theorem superseded_lease_cannot_record_witness:
  "\<exists>r err. handle_acquire_worker_lease (demo_env 0) demo_store (demo_acquire ''L1'' ''A'') = Inr r \<and>
     handle_record_execution_attempt (demo_env 1) (apply_writes (r_writes r) demo_store) demo_attempt = Inl err"
proof -
  obtain r where r: "handle_acquire_worker_lease (demo_env 0) demo_store (demo_acquire ''L1'' ''A'') = Inr r"
    using demo_acquire_accepted by blast
  show ?thesis
    using superseded_lease_cannot_record [OF r demo_acquire_command, of demo_attempt "''L''" "demo_env 1"] r
    by (auto simp: demo_attempt_def)
qed

end
