(* ===== verification/LifecycleSafety.thy ===== *)
theory LifecycleSafety
  imports RunLifecycle AttemptSafety
begin

text \<open>
  Properties of opening a Run: its grant is used a bounded number of times, its ceilings are valid,
  and an unattended Run starts only when it is ready.
\<close>

section \<open>Lemmas on OpenRun\<close>

lemma count_use_int:
  "count_use (JObj g) = Inr g1 \<Longrightarrow> oget g ''uses_count'' = JInt u \<Longrightarrow>
   g1 = JObj (AList.update ''uses_count'' (JInt (u + 1)) g)"
  by (auto simp: count_use_def res_simps oget_def split: option.splits)

lemma paths_differ: "grant_path i \<noteq> run_path j"
  by (simp add: grant_path_def run_path_def)

text \<open>What a successful OpenRun read and wrote.\<close>

lemma open_run_success:
  assumes "handle_open_run env s e = Inr r"
  obtains rid payload pre w ids ceilings ra gid grant preset policy policy_hash grant1 where
    "target_id e = Inr rid" "jitem e ''payload'' = Inr (JObj payload)"
    "\<not> is_file s (run_path rid)"
    "jitem (JObj payload) ''preflight'' = Inr pre" "blocking_preflight_checks pre = Inr []"
    "map_of (new_run_document env rid payload) ''work_unit_ids'' = Some w" "jiter w = Inr ids"
    "resolve_ceilings (por (oget payload ''execution_ceilings_by_work_unit'') (JObj [])) ids = Inr ceilings"
    "jitem e ''run_authorization'' = Inr ra" "jitem ra ''grant_id'' = Inr gid"
    "map_of s (grant_path gid) = Some (Doc grant)" "run_preset s (JObj payload) grant = Inr preset"
    "\<And>p. preset = JStr p \<Longrightarrow> p \<in> set UNATTENDED_PRESETS \<Longrightarrow>
       check_unattended env s grant ids (por (oget payload ''execution_ceilings_by_work_unit'') (JObj [])) p
         = Inr (policy, policy_hash)"
    "count_use grant = Inr grant1"
    "r_writes r = [(grant_path gid, grant1), (run_path rid, JObj (set_keys
           [(''effective_autonomy_policy'', policy), (''effective_autonomy_policy_hash'', policy_hash),
            (''autonomy_preset'', por preset (JStr ''supervised_copilots'')),
            (''run_authorization_grant_id'', gid)]
           (set_keys [(''execution_ceilings_by_work_unit'', JObj ceilings)]
             (new_run_document env rid payload))))]"
  using assms unfolding handle_open_run_def bindR_unit_eq_Inr bindR_eq_Inr Let_def
    if_raise_eq_Inr split_paired_Ex prod.case
  apply (elim exE conjE)
  subgoal premises p for rid pl pre payload r0 w ids ceilings st init ra gid grant preset un pol polh grant1
  proof -
    have pl: "pl = JObj payload" "r0 = oget payload ''execution_ceilings_by_work_unit''"
      using p(7,8) by (auto simp: as_obj_eq_Inr jget_eq_Inr)
    note q = p [unfolded pl]
    show thesis
    proof (rule that [OF q(2,3,4,5) _ _ q(10,11) q(15,16) _ q(18) _ q(21)])
      show "blocking_preflight_checks pre = Inr []"
        using q(6) by (auto simp: check_preflight_def)
      show "map_of (new_run_document env rid payload) ''work_unit_ids'' = Some w"
        using q(9) by (simp split: option.splits)
      show "map_of s (grant_path gid) = Some (Doc grant)" using q(17) by (simp add: read_json_Inr)
      show "check_unattended env s grant ids (por (oget payload ''execution_ceilings_by_work_unit'') (JObj [])) u
         = Inr (pol, polh)" if "preset = JStr u" "u \<in> set UNATTENDED_PRESETS" for u
        using q(19,20) that by simp
    qed (use q(23) in \<open>auto simp: reply_of_def simp del: set_keys_Cons\<close>)
  qed
  done

text \<open>Every ceiling the Run was opened with passed validation.\<close>

lemma resolved_ceilings_valid:
  assumes "resolve_ceilings requested ids = Inr ceilings" and "map_of ceilings k = Some c"
  shows "validate_execution_ceiling c = Inr None"
proof -
  obtain kvs where kvs: "mapR (resolve_ceiling requested) ids = Inr kvs"
      "ceilings = fold (\<lambda>(k, v). AList.update k v) kvs []"
    using assms(1) by (auto simp: resolve_ceilings_def)
  then have "(k, c) \<in> set kvs" using map_of_fold_update [of kvs "[]"] assms(2) by auto
  then obtain w where "resolve_ceiling requested w = Inr (k, c)"
    using kvs(1) by (auto simp: mapR_eq_Inr list_all2_conv_all_nth in_set_conv_nth)
  then show ?thesis by (auto simp: resolve_ceiling_def Let_def)
qed

lemma opened_ceiling_valid:
  assumes "\<And>k c. map_of ceilings k = Some c \<Longrightarrow> validate_execution_ceiling c = Inr None"
    and "oget doc ''execution_ceilings_by_work_unit'' = JObj ceilings"
  shows "\<exists>c. ceiling_of (JObj doc) (JStr wu) = Inr c \<and> validate_execution_ceiling c = Inr None"
  using assms
  by (cases "map_of ceilings wu")
     (auto simp: ceiling_of_def por_def ohas_def oget_def validate_ceiling_None default_ceiling_ok)

section \<open>The use of a grant\<close>

text \<open>Authorizing and executing one OpenRun, and a sequence of them.\<close>

definition open_run_step :: "store \<Rightarrow> env \<times> json \<Rightarrow> store res" where
  "open_run_step s = (\<lambda>(env, e). bindR (authorize_open_run env s e) (\<lambda>_.
     bindR (handle_open_run env s e) (\<lambda>r. Inr (apply_writes (r_writes r) s))))"

definition names_grant :: "json \<Rightarrow> string \<Rightarrow> bool" where
  "names_grant e gid \<longleftrightarrow> (\<exists>ra. jget e ''run_authorization'' = Inr ra \<and> jget ra ''grant_id'' = Inr (JStr gid))"

lemma names_grant_jitem:
  assumes "names_grant e gid" "jitem e ''run_authorization'' = Inr ra" "jitem ra ''grant_id'' = Inr g"
  shows "g = JStr gid"
  using assms by (auto simp: names_grant_def jget_eq_Inr jitem_eq_Inr oget_def)

lemma names_grant_por:
  assumes "names_grant e gid"
  shows "\<exists>ra. jget e ''run_authorization'' = Inr ra \<and> jget (por ra (JObj [])) ''grant_id'' = Inr (JStr gid)"
proof -
  obtain ra where ra: "jget e ''run_authorization'' = Inr ra" "jget ra ''grant_id'' = Inr (JStr gid)"
    using assms by (auto simp: names_grant_def)
  then have "truthy ra" by (cases ra rule: truthy.cases) (auto simp: jget_eq_Inr)
  then show ?thesis using ra by (auto simp: por_def)
qed

lemma authorized_grant_not_exhausted:
  assumes "authorize_open_run env s e = Inr ()" and "names_grant e gid"
    and "map_of s (grant_path (JStr gid)) = Some (Doc (JObj g))"
  shows "is_exhausted (JObj g) = Inr False"
proof -
  obtain ra where "jget e ''run_authorization'' = Inr ra" "jget (por ra (JObj [])) ''grant_id'' = Inr (JStr gid)"
    using names_grant_por [OF assms(2)] by blast
  then show ?thesis
    using assms(1) load_grant_stored [OF assms(3)] by (auto simp: authorize_open_run_def split: if_splits)
qed

lemma open_run_step_counts:
  assumes "open_run_step s (env, e) = Inr s1" and "names_grant e gid"
    and "map_of s (grant_path (JStr gid)) = Some (Doc (JObj g))"
    and "oget g ''uses_count'' = JInt u" and "oget g ''maximum_uses'' = JInt m"
  shows "u < m \<and> (\<exists>g1. map_of s1 (grant_path (JStr gid)) = Some (Doc (JObj g1))
    \<and> oget g1 ''uses_count'' = JInt (u + 1) \<and> oget g1 ''maximum_uses'' = JInt m)"
proof -
  obtain r where auth: "authorize_open_run env s e = Inr ()" and opened: "handle_open_run env s e = Inr r"
    and s1: "s1 = apply_writes (r_writes r) s"
    using assms(1) by (auto simp: open_run_step_def)
  have "is_exhausted (JObj g) = Inr False"
    by (rule authorized_grant_not_exhausted [OF auth assms(2,3)])
  then have "u < m"
    using assms(4,5) by (auto simp: is_exhausted_def oget_def split: option.splits)
  from opened obtain rid ra gid' grant grant1 doc where
      "jitem e ''run_authorization'' = Inr ra" "jitem ra ''grant_id'' = Inr gid'"
      "map_of s (grant_path gid') = Some (Doc grant)" "count_use grant = Inr grant1"
      "r_writes r = [(grant_path gid', grant1), (run_path rid, JObj doc)]"
    by (rule open_run_success) blast
  note o = this
  have gid': "gid' = JStr gid" using names_grant_jitem [OF assms(2) o(1,2)] .
  then have "grant = JObj g" using o(3) assms(3) by simp
  then have "grant1 = JObj (AList.update ''uses_count'' (JInt (u + 1)) g)"
    using o(4) count_use_int assms(4) by blast
  then show ?thesis
    using \<open>u < m\<close> assms(5) paths_differ [of "JStr gid" rid] unfolding s1 o(5) gid' by auto
qed

lemma open_runs_count:
  assumes "foldR open_run_step s es = Inr s1" and "\<forall>(env, e) \<in> set es. names_grant e gid"
    and "map_of s (grant_path (JStr gid)) = Some (Doc (JObj g))"
    and "oget g ''uses_count'' = JInt u" and "oget g ''maximum_uses'' = JInt m" and "u \<le> m"
  shows "u + int (length es) \<le> m"
  using assms
proof (induction es arbitrary: s g u)
  case (Cons x es)
  obtain env e where x: "x = (env, e)" by (cases x)
  obtain s2 where step: "open_run_step s (env, e) = Inr s2" and rest: "foldR open_run_step s2 es = Inr s1"
    using Cons.prems(1) unfolding x by auto
  from open_run_step_counts [OF step _ Cons.prems(3-5)] Cons.prems(2) obtain g1 where
      "u < m" "map_of s2 (grant_path (JStr gid)) = Some (Doc (JObj g1))"
      "oget g1 ''uses_count'' = JInt (u + 1)" "oget g1 ''maximum_uses'' = JInt m"
    unfolding x by auto
  from Cons.IH [OF rest _ this(2-4)] \<open>u < m\<close> Cons.prems(2) show ?case by auto
qed simp

section \<open>Properties of OpenRun\<close>

text \<open>
  C30. A grant is used at most as often as it allows: over any sequence of authorized OpenRun
  commands that name it, its count of uses grows by one each time and never passes the maximum.
\<close>

theorem grant_uses_bounded:
  assumes "foldR open_run_step s es = Inr s1" and "\<forall>(env, e) \<in> set es. names_grant e gid"
    and "map_of s (grant_path (JStr gid)) = Some (Doc (JObj g))"
    and "oget g ''uses_count'' = JInt u" and "oget g ''maximum_uses'' = JInt m" and "u \<le> m"
  shows "u + int (length es) \<le> m"
  by (rule open_runs_count [OF assms])

definition demo_open :: json where
  "demo_open = JObj
     [(''type'', JStr ''OpenRun''), (''target'', JObj [(''kind'', JStr ''run''), (''id'', JStr ''R'')]),
      (''payload'', JObj [(''id'', JStr ''R''), (''work_unit_ids'', JList [JStr ''A'']),
         (''preflight'', JObj [(''tools'', JStr ''pass'')]), (''status'', JStr ''active'')]),
      (''run_authorization'', JObj [(''grant_id'', JStr ''G'')])]"

definition demo_open_grant :: obj where
  "demo_open_grant = [(''id'', JStr ''G''), (''uses_count'', JInt 0), (''maximum_uses'', JInt 1),
     (''work_unit_ids'', JList [JStr ''A''])]"

definition demo_open_store :: store where
  "demo_open_store = [(''run-authorization-grants/G.json'', Doc (JObj demo_open_grant))]"

lemmas open_eval = open_run_step_def authorize_open_run_def handle_open_run_def demo_open_def demo_open_store_def
  demo_open_grant_def load_grant_def is_file_def read_json_def grant_path_def run_path_def target_id_def
  unusable_reason_def is_revoked_def is_expired_def excludes_action_def is_exhausted_def get_set_def jset_of_def
  sort_set_def check_preflight_def blocking_preflight_checks_def preflight_status_def new_run_document_def
  resolve_ceilings_def resolve_ceiling_def str_key_def run_preset_def profile_preset_def count_use_def
  validate_against_schema_def reply_of_def por_def BLOCKING_PREFLIGHT_STATUSES_def UNATTENDED_PRESETS_def
  demo_env_def Let_def map_of_osetdefault

lemma demo_ceiling: "validate_execution_ceiling (JObj DEFAULT_EXECUTION_CEILING) = Inr None"
  by (simp add: validate_ceiling_None default_ceiling_ok)

lemma demo_open_runs: "\<exists>s1. foldR open_run_step demo_open_store [(demo_env 0, demo_open)] = Inr s1"
  by (simp add: open_eval demo_ceiling)

theorem grant_uses_bounded_witness:
  "\<exists>s1. foldR open_run_step demo_open_store [(demo_env 0, demo_open)] = Inr s1
     \<and> 0 + int (length [(demo_env 0, demo_open)]) \<le> 1"
proof -
  obtain s1 where s1: "foldR open_run_step demo_open_store [(demo_env 0, demo_open)] = Inr s1"
    using demo_open_runs by blast
  have "0 + int (length [(demo_env 0, demo_open)]) \<le> 1"
    by (rule grant_uses_bounded [OF s1, where gid = "''G''" and g = demo_open_grant])
       (simp_all add: names_grant_def demo_open_def demo_open_store_def demo_open_grant_def grant_path_def)
  with s1 show ?thesis by blast
qed



text \<open>
  C16. A Run starts unattended only when it is ready for it: its preset is the one of its grant, every
  mission artifact of the grant is there with the hash recorded when the grant was issued, every
  Work Unit is closed (risk class, scope, and a ceiling among those the command requests, which are the
  ones of the execution envelope), every artifact kind the preset requires exists, and beyond the
  conservative preset was approved and its decision menu covers the forks, and the budget is bounded.
\<close>

theorem unattended_run_opens_ready:
  assumes "handle_open_run env s e = Inr r" and "target_id e = Inr rid"
    and "map_of (apply_writes (r_writes r) s) (run_path rid) = Some (Doc (JObj run))"
    and "oget run ''autonomy_preset'' = JStr p" and "p \<in> set UNATTENDED_PRESETS"
  shows "\<exists>grant aids artifacts ids units authorized.
    map_of s (grant_path (oget run ''run_authorization_grant_id'')) = Some (Doc grant)
    \<and> jget grant ''autonomy_preset'' = Inr (JStr p)
    \<and> bindR (jget grant ''mission_artifact_ids'') (\<lambda>a. jiter (por a (JList []))) = Inr aids
    \<and> mapR (load_granted_artifact env s grant) aids = Inr artifacts
    \<and> jiter (oget run ''work_unit_ids'') = Inr ids \<and> load_work_units s ids = Inr units
    \<and> authorized_ceilings artifacts = Inr authorized \<and> authorized \<noteq> JNull
    \<and> py_eq (por (jpath e [''payload'', ''execution_ceilings_by_work_unit'']) (JObj [])) authorized
    \<and> run_is_ready p units (por (jpath e [''payload'', ''execution_ceilings_by_work_unit'']) (JObj [])) grant artifacts"
  using assms(1)
proof (rule open_run_success)
  fix rid' payload pre w ids ceilings ra gid grant preset policy policy_hash grant1
  let ?doc = "set_keys
           [(''effective_autonomy_policy'', policy), (''effective_autonomy_policy_hash'', policy_hash),
            (''autonomy_preset'', por preset (JStr ''supervised_copilots'')),
            (''run_authorization_grant_id'', gid)]
           (set_keys [(''execution_ceilings_by_work_unit'', JObj ceilings)] (new_run_document env rid' payload))"
  let ?req = "por (oget payload ''execution_ceilings_by_work_unit'') (JObj [])"
  assume a: "target_id e = Inr rid'" "map_of (new_run_document env rid' payload) ''work_unit_ids'' = Some w"
    "jiter w = Inr ids" "map_of s (grant_path gid) = Some (Doc grant)"
    "\<And>u. preset = JStr u \<Longrightarrow> u \<in> set UNATTENDED_PRESETS \<Longrightarrow>
       check_unattended env s grant ids ?req u = Inr (policy, policy_hash)"
    "r_writes r = [(grant_path gid, grant1), (run_path rid', JObj ?doc)]" and pl: "jitem e ''payload'' = Inr (JObj payload)"
  have run: "run = ?doc" using a(1,6) assms(2,3) by simp
  have req: "por (jpath e [''payload'', ''execution_ceilings_by_work_unit'']) (JObj []) = ?req" "por ?req (JObj []) = ?req"
    using pl by (auto simp: oget_def por_def jitem_eq_Inr)
  have "preset = JStr p"
    using assms(4,5) unfolding run by (auto simp: por_def UNATTENDED_PRESETS_def split: if_splits)
  from a(5) [OF this assms(5)] obtain aids artifacts units report authorized where c:
      "jget grant ''autonomy_preset'' = Inr (JStr p)" "load_work_units s ids = Inr units"
      "bindR (jget grant ''mission_artifact_ids'') (\<lambda>a. jiter (por a (JList []))) = Inr aids"
      "mapR (load_granted_artifact env s grant) aids = Inr artifacts"
      "build_unattended_readiness_report p units ?req grant artifacts = Inr report"
      "\<exists>v. jitem report ''ready'' = Inr v \<and> truthy v"
      "authorized_ceilings artifacts = Inr authorized" "authorized \<noteq> JNull" "py_eq ?req authorized"
    unfolding check_unattended_def by auto
  have "jitem report ''ready'' = Inr (JBool True)"
    using c(5,6) by (auto simp: build_unattended_readiness_report_def Let_def)
  from no_gaps_ready [OF report_ready [OF c(5) this]]
  have "run_is_ready p units ?req grant artifacts" unfolding req(2) .
  moreover have "oget run ''run_authorization_grant_id'' = gid" "oget run ''work_unit_ids'' = w"
    using a(2) unfolding run by (simp_all add: oget_def)
  ultimately show ?thesis unfolding req(1) using a(3,4) c(1-4,7-9) by metis
qed

definition demo_artifact :: "string \<Rightarrow> json \<Rightarrow> json" where
  "demo_artifact kind body = JObj
     [(''id'', JStr kind), (''kind'', JStr kind), (''revision'', JInt 1), (''content'', body)]"

definition demo_hash :: "json \<Rightarrow> json" where
  "demo_hash a = (case compute_artifact_hash id a of Inr h \<Rightarrow> JStr h | Inl _ \<Rightarrow> JNull)"

definition demo_requested :: json where
  "demo_requested = JObj [(''A'', JObj [])]"

definition demo_artifacts :: "(string \<times> json) list" where
  "demo_artifacts =
     [(''mission_contract'', demo_artifact ''mission_contract'' (JObj [])),
      (''execution_envelope'',
        demo_artifact ''execution_envelope'' (JObj [(''execution_ceilings_by_work_unit'', demo_requested)])),
      (''delivery_contract'', demo_artifact ''delivery_contract'' (JObj []))]"

definition demo_night_grant :: json where
  "demo_night_grant = JObj
     [(''id'', JStr ''G''), (''maximum_uses'', JInt 1), (''work_unit_ids'', JList [JStr ''A'']),
      (''autonomy_preset'', JStr ''unattended_conservative''), (''maximum_spend'', JInt 10),
      (''mission_artifact_ids'', JList (map (JStr \<circ> fst) demo_artifacts)),
      (''mission_artifact_hashes'', JObj (map (\<lambda>(k, a). (k, demo_hash a)) demo_artifacts)),
      (''effective_autonomy_policy'', JObj []), (''effective_autonomy_policy_hash'', JStr ''h'')]"

definition demo_night_store :: store where
  "demo_night_store =
     [(''run-authorization-grants/G.json'', Doc demo_night_grant),
      (''work-units/A.yaml'', Doc (JObj [(''risk'', JObj [(''class'', JStr ''normal'')]),
         (''scope'', JObj [(''include'', JList [JStr ''src/**''])])]))]
     @ map (\<lambda>(k, a). (''mission-artifacts/'' @ k @ ''.json'', Doc a)) demo_artifacts"

definition demo_night_open :: json where
  "demo_night_open = JObj
     [(''type'', JStr ''OpenRun''), (''target'', JObj [(''kind'', JStr ''run''), (''id'', JStr ''R'')]),
      (''payload'', JObj [(''id'', JStr ''R''), (''work_unit_ids'', JList [JStr ''A'']),
         (''execution_ceilings_by_work_unit'', demo_requested),
         (''preflight'', JObj [(''tools'', JStr ''pass'')]), (''status'', JStr ''active'')]),
      (''run_authorization'', JObj [(''grant_id'', JStr ''G'')])]"

lemmas night_eval = open_eval check_unattended_def demo_night_open_def demo_night_store_def demo_night_grant_def
  demo_artifacts_def demo_artifact_def demo_requested_def demo_hash_def compute_artifact_hash_def
  load_granted_artifact_def mission_artifact_path_def authorized_ceilings_def load_work_units_def
  load_work_unit_def read_yaml_or_def read_yaml_def work_unit_path_def build_unattended_readiness_report_def
  readiness_gaps_def gaps_of_work_unit_def work_unit_readiness_gaps_def mission_artifact_gaps_def
  artifact_kind_def required_kinds_def REQUIRED_ARTIFACT_KINDS_BY_PRESET_def kind_gap_def APPROVAL_PRESETS_def
  decision_menu_gaps_def budget_gaps_def content_of_def coverage_of_def demo_ceiling

lemma demo_night_opens: "\<exists>r run. handle_open_run (demo_env 0) demo_night_store demo_night_open = Inr r
    \<and> map_of (apply_writes (r_writes r) demo_night_store) (run_path (JStr ''R'')) = Some (Doc (JObj run))
    \<and> oget run ''autonomy_preset'' = JStr ''unattended_conservative''"
  by (simp add: night_eval)

theorem unattended_run_opens_ready_witness:
  "\<exists>grant aids artifacts ids units authorized run.
    map_of demo_night_store (grant_path (oget run ''run_authorization_grant_id'')) = Some (Doc grant)
    \<and> jget grant ''autonomy_preset'' = Inr (JStr ''unattended_conservative'')
    \<and> bindR (jget grant ''mission_artifact_ids'') (\<lambda>a. jiter (por a (JList []))) = Inr aids
    \<and> mapR (load_granted_artifact (demo_env 0) demo_night_store grant) aids = Inr artifacts
    \<and> jiter (oget run ''work_unit_ids'') = Inr ids \<and> load_work_units demo_night_store ids = Inr units
    \<and> authorized_ceilings artifacts = Inr authorized \<and> authorized \<noteq> JNull \<and> py_eq demo_requested authorized
    \<and> run_is_ready ''unattended_conservative'' units demo_requested grant artifacts"
proof -
  obtain r run where opened: "handle_open_run (demo_env 0) demo_night_store demo_night_open = Inr r"
    "map_of (apply_writes (r_writes r) demo_night_store) (run_path (JStr ''R'')) = Some (Doc (JObj run))"
    "oget run ''autonomy_preset'' = JStr ''unattended_conservative''"
    using demo_night_opens by blast
  have "target_id demo_night_open = Inr (JStr ''R'')" by (simp add: target_id_def demo_night_open_def)
  moreover have "por (jpath demo_night_open [''payload'', ''execution_ceilings_by_work_unit'']) (JObj []) = demo_requested"
    by (simp add: demo_night_open_def demo_requested_def oget_def por_def)
  ultimately show ?thesis using unattended_run_opens_ready [OF opened(1) _ opened(2,3)]
    by (simp add: UNATTENDED_PRESETS_def) blast
qed

end
