(* ===== verification/CloseSafety.thy ===== *)
theory CloseSafety
  imports LifecycleSafety
begin

text \<open>
  Properties of closing a Run: a closed Run is final, its workers are fenced off, and a stop
  revokes the active leases and raises a blocker event.
\<close>

section \<open>Lemmas on CloseRun\<close>

lemma apply_writes_append: "apply_writes (ws @ ws') s = apply_writes ws' (apply_writes ws s)"
  by (simp add: apply_writes_def)

definition stopping :: "json \<Rightarrow> bool" where
  "stopping to = (to = JStr ''stopped'' \<or> to = JStr ''failed'')"

lemma in_strs_stopping: "in_strs to STOPPING_STATUSES = Inr b \<Longrightarrow> b = stopping to"
  by (auto simp: in_strs_def STOPPING_STATUSES_def stopping_def split: if_splits)

lemma close_run_success:
  assumes "handle_close_run env s e = Inr r" and "target_id e = Inr rid" and "payload_item e ''status'' = Inr to"
  obtains document c rev reason stop doc1 revoked report where
    "map_of s (run_path rid) = Some (Doc document)"
    "jget document ''status'' = Inr c" "run_is_transition_allowed c to = Inr True"
    "stopping to \<Longrightarrow> \<exists>k \<in> set GLOBAL_STOP_CONDITIONS. stop = JStr k"
    "close_document env document to rev reason (if stopping to then stop else JNull) = Inr doc1"
    "(if stopping to then revoke_leases env s stop doc1 else Inr []) = Inr revoked"
    "r_writes r = revoked @ [(run_path rid, doc1), (morning_report_path rid, report)]
       @ map (\<lambda>(i, ev). (event_path i, ev)) (if stopping to then [stop_event env rid stop reason] else [])"
  using assms(1) unfolding handle_close_run_def bindR_unit_eq_Inr bindR_eq_Inr Let_def
    if_raise_eq_Inr split_paired_Ex prod.case load_or_not_found_Inr
  apply (elim exE conjE)
  subgoal premises p for rid' exp pl to' doc own cur c ok stop st reco rev reason doc1 revoked ids0 ids wus recs rep
  proof -
    have eqs: "rid' = rid" "to' = to" using p(2,5) assms(2,3) by simp_all
    note q = p [unfolded eqs]
    have st: "st = stopping to" using in_strs_stopping [OF q(14)] .
    show thesis
      by (rule that [OF q(6) q(10)])
         (use q st in \<open>auto simp: in_strs_True simp del: map_map split: if_splits\<close>)
  qed
  done

lemma no_slash_path:
  assumes "CHR ''/'' \<notin> set rid"
  shows "run_path (JStr rid) \<noteq> lease_path i" and "run_path (JStr rid) \<noteq> morning_report_path i"
    and "run_path (JStr rid) \<noteq> event_path k"
proof -
  have no: "CHR ''/'' \<notin> set (rid @ ''.yaml'')" using assms by simp
  show "run_path (JStr rid) \<noteq> lease_path i"
  proof
    assume "run_path (JStr rid) = lease_path i"
    then have eq: "rid @ ''.yaml'' = ''leases/'' @ py_str i @ ''.yaml''"
      by (simp add: run_path_def lease_path_def)
    have "CHR ''/'' \<in> set (''leases/'' @ py_str i @ ''.yaml'')" by simp
    then show False using no unfolding eq [symmetric] by simp
  qed
  show "run_path (JStr rid) \<noteq> morning_report_path i"
  proof
    assume "run_path (JStr rid) = morning_report_path i"
    then have eq: "rid @ ''.yaml'' = ''morning-reports/'' @ py_str i @ ''.json''"
      by (simp add: run_path_def morning_report_path_def)
    have "CHR ''/'' \<in> set (''morning-reports/'' @ py_str i @ ''.json'')" by simp
    then show False using no unfolding eq [symmetric] by simp
  qed
  show "run_path (JStr rid) \<noteq> event_path k" by (simp add: run_path_def event_path_def)
qed

lemma lease_path_other: "lease_path i \<noteq> morning_report_path j" "lease_path i \<noteq> event_path k"
  by (simp_all add: lease_path_def morning_report_path_def event_path_def)

lemma close_document_fields:
  assumes "close_document env document to rv reason sc = Inr doc1"
  shows "\<exists>ob. document = JObj ob \<and> jget doc1 ''status'' = Inr to \<and>
     jget doc1 ''autonomy_preset'' = jget document ''autonomy_preset'' \<and>
     jget doc1 ''leases_by_work_unit'' = jget document ''leases_by_work_unit''"
  using assms by (auto simp: close_document_def as_obj_eq_Inr)

text \<open>Every write of the revocation replaces an active lease by a revoked one.\<close>

lemma revoke_lease_write:
  assumes "revoke_lease env s stop ref = Inr ws" and "(p, d) \<in> set ws"
  shows "jget d ''status'' = Inr (JStr ''revoked'') \<and> (\<exists>i. p = lease_path i)"
  using assms by (auto simp: revoke_lease_def res_simps split: if_splits)

lemma revoke_leases_write:
  assumes "revoke_leases env s stop doc = Inr ws" and "(p, d) \<in> set ws"
  shows "jget d ''status'' = Inr (JStr ''revoked'') \<and> (\<exists>i. p = lease_path i)"
proof -
  obtain refs wss where r: "mapR (revoke_lease env s stop) refs = Inr wss" "ws = concat wss"
    using assms(1) by (auto simp: revoke_leases_def)
  then obtain ref w where "revoke_lease env s stop ref = Inr w" "(p, d) \<in> set w"
    using assms(2) mapR_out [OF r(1)] unfolding r(2) set_concat by blast
  then show ?thesis by (rule revoke_lease_write)
qed

text \<open>A lease that the Run refers to and that is there and active is among the writes.\<close>

lemma active_lease_revoked:
  assumes "revoke_leases env s stop doc = Inr ws"
    and "current_lease doc (JStr wu) = Inr ref" and "ref \<noteq> JNull" and "jget ref ''lease_id'' = Inr (JStr lid)"
    and "map_of s (lease_path (JStr lid)) = Some (Doc lease)"
    and "jget lease ''status'' = Inr (JStr ''active'')"
  shows "lease_path (JStr lid) \<in> fst ` set ws"
proof -
  obtain l refs wss where l: "jget doc ''leases_by_work_unit'' = Inr l" "por l (JObj []) = JObj refs"
      "mapR (revoke_lease env s stop) (map snd refs) = Inr wss" "ws = concat wss"
    using assms(1) by (auto simp: revoke_leases_def as_obj_eq_Inr)
  have "ref = oget refs wu" using assms(2) l(1,2) by (auto simp: current_lease_def leases_by_work_unit_def)
  then have "ref \<in> set (map snd refs)"
    using assms(3) by (auto simp: oget_def split: option.splits dest!: map_of_SomeD intro!: rev_image_eqI)
  then obtain w where w: "revoke_lease env s stop ref = Inr w" "w \<in> set wss"
    using mapR_in [OF l(3)] by blast
  have "\<exists>d. (lease_path (JStr lid), d) \<in> set w"
    using w(1) assms(4-6) by (auto simp: revoke_lease_def is_file_def read_yaml_def res_simps oget_def split: if_splits)
  then show ?thesis using w(2) l(4) by force
qed

lemma apply_writes_last:
  assumes "p \<in> fst ` set ws"
  shows "\<exists>d. (p, d) \<in> set ws \<and> map_of (apply_writes ws s) p = Some (Doc d)"
  using assms
proof (induction ws arbitrary: s)
  case (Cons x ws)
  obtain q d where x: "x = (q, d)" by (cases x)
  show ?case
  proof (cases "p \<in> fst ` set ws")
    case True
    from Cons.IH [OF this] show ?thesis unfolding x by auto
  next
    case False
    then have "p = q" using Cons.prems x by auto
    then show ?thesis using False map_of_apply_writes_other [of p ws] unfolding x by auto
  qed
qed simp

text \<open>What the Run document is once a Run was closed.\<close>

lemma closed_run_document:
  assumes "handle_close_run env s e = Inr r" and "target_id e = Inr (JStr rid)"
    and "payload_item e ''status'' = Inr to" and "CHR ''/'' \<notin> set rid"
  shows "\<exists>document doc1. map_of s (run_path (JStr rid)) = Some (Doc document)
    \<and> map_of (apply_writes (r_writes r) s) (run_path (JStr rid)) = Some (Doc doc1)
    \<and> jget doc1 ''status'' = Inr to \<and> jget doc1 ''autonomy_preset'' = jget document ''autonomy_preset''"
  using close_run_success [OF assms(1-3)]
proof cases
  case (1 document c rev reason stop doc1 revoked report)
  have later: "run_path (JStr rid) \<notin> fst ` set ([(morning_report_path (JStr rid), report)]
       @ map (\<lambda>(i, ev). (event_path i, ev)) (if stopping to then [stop_event env (JStr rid) stop reason] else []))"
    by (auto simp: stop_event_def Let_def no_slash_path [OF assms(4)])
  have "map_of (apply_writes (r_writes r) s) (run_path (JStr rid)) = Some (Doc doc1)"
    unfolding 1(7) apply_writes_append append_Cons append_Nil apply_writes_Cons
    using map_of_apply_writes_other [OF later] by (simp add: apply_writes_append)
  then show ?thesis using 1(1) close_document_fields [OF 1(5)] by blast
qed

text \<open>A worker command on a Run that is not active is refused.\<close>

lemma inactive_run_refuses:
  assumes "payload_item e ''run_id'' = Inr rid" and "map_of s (run_path rid) = Some (Doc run)"
    and "run_inactive run = Inr True"
  shows "handle_acquire_worker_lease env s e \<noteq> Inr r" "handle_write_checkpoint env s e \<noteq> Inr r"
    "handle_record_execution_attempt env s e \<noteq> Inr r" "handle_record_integration_merge env s e \<noteq> Inr r"
  using assms
  by (auto simp: handle_acquire_worker_lease_def handle_write_checkpoint_def handle_record_execution_attempt_def
      handle_record_integration_merge_def Let_def load_or_not_found_Inr)

section \<open>Properties of CloseRun\<close>

text \<open>
  A closed Run stays closed: once CloseRun put a Run in one of its final statuses, no later
  CloseRun of the same Run succeeds, whatever status it asks for.
\<close>

theorem closed_run_is_final:
  assumes "handle_close_run env s e = Inr r" and "target_id e = Inr (JStr rid)"
    and "payload_item e ''status'' = Inr (JStr to)" and "to \<in> {''completed'', ''stopped'', ''failed''}"
    and "CHR ''/'' \<notin> set rid" and "target_id e' = Inr (JStr rid)"
  shows "handle_close_run env' (apply_writes (r_writes r) s) e' \<noteq> Inr r'"
proof
  assume again: "handle_close_run env' (apply_writes (r_writes r) s) e' = Inr r'"
  obtain doc1 where d: "map_of (apply_writes (r_writes r) s) (run_path (JStr rid)) = Some (Doc doc1)"
      "jget doc1 ''status'' = Inr (JStr to)"
    using closed_run_document [OF assms(1-3,5)] by blast
  obtain to' where "payload_item e' ''status'' = Inr to'"
    using again by (auto simp: handle_close_run_def)
  from again assms(6) this have "run_is_transition_allowed (JStr to) to' = Inr True"
    by (rule close_run_success) (use d in auto)
  then show False
    using assms(4) unfolding run_is_transition_allowed_def table_allows_def
    by (auto simp: run_NORMATIVE_TRANSITIONS_def table_targets_def in_strs_def split: json.splits if_splits)
qed

text \<open>
  C31. Once an unattended Run is closed, its workers are fenced off: no lease is acquired for it, no
  checkpoint, no execution attempt and no integration merge of it is accepted.
\<close>

theorem closed_run_fences_workers:
  assumes "handle_close_run env s e = Inr r" and "target_id e = Inr (JStr rid)"
    and "payload_item e ''status'' = Inr (JStr to)" and "to \<in> {''completed'', ''stopped'', ''failed''}"
    and "CHR ''/'' \<notin> set rid"
    and "map_of s (run_path (JStr rid)) = Some (Doc run)"
    and "jget run ''autonomy_preset'' = Inr preset" and "is_unattended_preset preset"
    and "payload_item e' ''run_id'' = Inr (JStr rid)"
  shows "handle_acquire_worker_lease env' (apply_writes (r_writes r) s) e' \<noteq> Inr r'
    \<and> handle_write_checkpoint env' (apply_writes (r_writes r) s) e' \<noteq> Inr r'
    \<and> handle_record_execution_attempt env' (apply_writes (r_writes r) s) e' \<noteq> Inr r'
    \<and> handle_record_integration_merge env' (apply_writes (r_writes r) s) e' \<noteq> Inr r'"
proof -
  obtain doc1 where d: "map_of (apply_writes (r_writes r) s) (run_path (JStr rid)) = Some (Doc doc1)"
      "jget doc1 ''status'' = Inr (JStr to)" "jget doc1 ''autonomy_preset'' = Inr preset"
    using closed_run_document [OF assms(1-3,5)] assms(6,7) by auto
  have "run_inactive doc1 = Inr True" using d(2,3) assms(4,8) by (auto simp: run_inactive_def)
  then show ?thesis
    using inactive_run_refuses [OF assms(9) d(1)] by blast
qed

text \<open>
  Stopping a Run revokes and alerts: a lease that the Run refers to is not active afterwards, and
  a blocker event that asks for a human is persisted with the stop.
\<close>

theorem stop_revokes_and_alerts:
  assumes "handle_close_run env s e = Inr r" and "target_id e = Inr (JStr rid)"
    and "payload_item e ''status'' = Inr (JStr to)" and "to \<in> {''stopped'', ''failed''}"
    and "CHR ''/'' \<notin> set rid"
    and "map_of s (run_path (JStr rid)) = Some (Doc run)"
    and "current_lease run (JStr wu) = Inr ref" and "ref \<noteq> JNull" and "jget ref ''lease_id'' = Inr (JStr lid)"
    and "map_of s (lease_path (JStr lid)) = Some (Doc (JObj lease))"
  shows "\<exists>lease1 k ev. map_of (apply_writes (r_writes r) s) (lease_path (JStr lid)) = Some (Doc lease1)
    \<and> jget lease1 ''status'' \<noteq> Inr (JStr ''active'')
    \<and> map_of (apply_writes (r_writes r) s) (event_path k) = Some (Doc ev)
    \<and> jget ev ''type'' = Inr (JStr ''BLOCKER'') \<and> jget ev ''requires_human'' = Inr (JBool True)"
  using close_run_success [OF assms(1-3)]
proof cases
  case (1 document c rv reason stop doc1 revoked report)
  have stop: "stopping (JStr to)" using assms(4) by (auto simp: stopping_def)
  define k where "k = fst (stop_event env (JStr rid) stop reason)"
  define rest where "rest = [(run_path (JStr rid), doc1), (morning_report_path (JStr rid), report),
     (event_path k, snd (stop_event env (JStr rid) stop reason))]"
  have writes: "r_writes r = revoked @ rest"
    using 1(7) stop by (simp add: rest_def k_def case_prod_unfold)
  have "run = document" using 1(1) assms(6) by simp
  then have lease1: "current_lease doc1 (JStr wu) = Inr ref"
    using assms(7) close_document_fields [OF 1(5)] by (auto simp: current_lease_def leases_by_work_unit_def)
  have rev: "revoke_leases env s stop doc1 = Inr revoked" using 1(6) stop by simp
  have other: "lease_path (JStr lid) \<notin> fst ` set rest"
    by (auto simp: rest_def lease_path_other no_slash_path(1) [OF assms(5), symmetric])
  have stored: "map_of (apply_writes (r_writes r) s) (lease_path (JStr lid))
      = map_of (apply_writes revoked s) (lease_path (JStr lid))"
    unfolding writes apply_writes_append by (rule map_of_apply_writes_other [OF other])
  have lease: "\<exists>l1. map_of (apply_writes revoked s) (lease_path (JStr lid)) = Some (Doc l1)
      \<and> jget l1 ''status'' \<noteq> Inr (JStr ''active'')"
  proof (cases "lease_path (JStr lid) \<in> fst ` set revoked")
    case True
    then obtain d where "(lease_path (JStr lid), d) \<in> set revoked"
        "map_of (apply_writes revoked s) (lease_path (JStr lid)) = Some (Doc d)"
      using apply_writes_last by blast
    then show ?thesis using revoke_leases_write [OF rev] by fastforce
  next
    case False
    then have "jget (JObj lease) ''status'' \<noteq> Inr (JStr ''active'')"
      using active_lease_revoked [OF rev lease1 assms(8-10)] by blast
    then show ?thesis using map_of_apply_writes_other [OF False] assms(10) by auto
  qed
  have "map_of (apply_writes (r_writes r) s) (event_path k)
      = Some (Doc (snd (stop_event env (JStr rid) stop reason)))"
    unfolding writes apply_writes_append by (simp add: rest_def)
  moreover have "jget (snd (stop_event env (JStr rid) stop reason)) ''type'' = Inr (JStr ''BLOCKER'')"
      "jget (snd (stop_event env (JStr rid) stop reason)) ''requires_human'' = Inr (JBool True)"
    by (simp_all add: stop_event_def Let_def)
  ultimately show ?thesis using lease unfolding stored by blast
qed

section \<open>Witnesses\<close>

definition demo_close :: json where
  "demo_close = JObj
     [(''type'', JStr ''CloseRun''),
      (''target'', JObj [(''kind'', JStr ''run''), (''id'', JStr ''R''), (''expected_revision'', JInt 1)]),
      (''payload'', JObj [(''status'', JStr ''stopped''), (''stop_condition'', JStr ''kill_switch''),
                         (''run_id'', JStr ''R'')])]"

definition demo_close_run :: json where
  "demo_close_run = JObj
     [(''id'', JStr ''R''), (''status'', JStr ''active''), (''revision'', JInt 1),
      (''autonomy_preset'', JStr ''custom''), (''work_unit_ids'', JList []),
      (''leases_by_work_unit'', JObj [(''A'', JObj [(''lease_id'', JStr ''L''), (''epoch'', JInt 1)])])]"

definition demo_close_store :: store where
  "demo_close_store =
     [(''runs/R.yaml'', Doc demo_close_run),
      (''runs/leases/L.yaml'', Doc (JObj [(''id'', JStr ''L''), (''status'', JStr ''active'')]))]"

lemmas close_eval = handle_close_run_def demo_close_def demo_close_store_def demo_close_run_def target_id_def
  expected_revision_def payload_item_def load_or_not_found_def is_file_def read_yaml_def run_path_def lease_path_def
  check_revision_def run_is_transition_allowed_def table_allows_def table_targets_def run_NORMATIVE_TRANSITIONS_def
  STOPPING_STATUSES_def GLOBAL_STOP_CONDITIONS_def close_document_def revoke_leases_def revoke_lease_def por_def
  jset3_def load_work_units_def records_of_run_def load_yaml_dir_def yaml_item_def glob_yaml_def startswith_def
  endswith_def has_value_def build_morning_report_def collect_if_def pick_def fencing_reassignment_def Let_def
  List.map_filter_simps demo_env_def

lemma demo_close_runs: "\<exists>r. handle_close_run (demo_env 0) demo_close_store demo_close = Inr r"
  by (simp add: close_eval)

lemma demo_close_facts:
  "target_id demo_close = Inr (JStr ''R'')" "payload_item demo_close ''status'' = Inr (JStr ''stopped'')"
  "payload_item demo_close ''run_id'' = Inr (JStr ''R'')"
  "map_of demo_close_store (run_path (JStr ''R'')) = Some (Doc demo_close_run)"
  "map_of demo_close_store (lease_path (JStr ''L''))
     = Some (Doc (JObj [(''id'', JStr ''L''), (''status'', JStr ''active'')]))"
  "jget demo_close_run ''autonomy_preset'' = Inr (JStr ''custom'')"
  by (simp_all add: demo_close_def demo_close_store_def demo_close_run_def target_id_def payload_item_def
      run_path_def lease_path_def)

theorem closed_run_is_final_witness:
  "\<exists>r. handle_close_run (demo_env 0) demo_close_store demo_close = Inr r
     \<and> handle_close_run (demo_env 1) (apply_writes (r_writes r) demo_close_store) demo_close \<noteq> Inr r"
proof -
  obtain r where r: "handle_close_run (demo_env 0) demo_close_store demo_close = Inr r"
    using demo_close_runs by blast
  from closed_run_is_final [OF r demo_close_facts(1,2) _ _ demo_close_facts(1)] r show ?thesis by auto
qed

theorem closed_run_fences_workers_witness:
  "\<exists>r. handle_close_run (demo_env 0) demo_close_store demo_close = Inr r
    \<and> handle_acquire_worker_lease (demo_env 1) (apply_writes (r_writes r) demo_close_store) demo_close \<noteq> Inr r
    \<and> handle_write_checkpoint (demo_env 1) (apply_writes (r_writes r) demo_close_store) demo_close \<noteq> Inr r
    \<and> handle_record_execution_attempt (demo_env 1) (apply_writes (r_writes r) demo_close_store) demo_close \<noteq> Inr r
    \<and> handle_record_integration_merge (demo_env 1) (apply_writes (r_writes r) demo_close_store) demo_close \<noteq> Inr r"
proof -
  obtain r where r: "handle_close_run (demo_env 0) demo_close_store demo_close = Inr r"
    using demo_close_runs by blast
  have "is_unattended_preset (JStr ''custom'')"
    by (simp add: is_unattended_preset_def UNATTENDED_PRESETS_def por_def)
  from closed_run_fences_workers
      [OF r demo_close_facts(1,2) _ _ demo_close_facts(4,6) this demo_close_facts(3)] r
  show ?thesis by auto
qed

theorem stop_revokes_and_alerts_witness:
  "\<exists>r lease1 k ev. handle_close_run (demo_env 0) demo_close_store demo_close = Inr r
    \<and> map_of (apply_writes (r_writes r) demo_close_store) (lease_path (JStr ''L'')) = Some (Doc lease1)
    \<and> jget lease1 ''status'' \<noteq> Inr (JStr ''active'')
    \<and> map_of (apply_writes (r_writes r) demo_close_store) (event_path k) = Some (Doc ev)
    \<and> jget ev ''type'' = Inr (JStr ''BLOCKER'') \<and> jget ev ''requires_human'' = Inr (JBool True)"
proof -
  obtain r where r: "handle_close_run (demo_env 0) demo_close_store demo_close = Inr r"
    using demo_close_runs by blast
  have lease: "current_lease demo_close_run (JStr ''A'') = Inr (JObj [(''lease_id'', JStr ''L''), (''epoch'', JInt 1)])"
    by (simp add: current_lease_def leases_by_work_unit_def demo_close_run_def por_def)
  have "jget (JObj [(''lease_id'', JStr ''L''), (''epoch'', JInt 1)]) ''lease_id'' = Inr (JStr ''L'')" by simp
  from stop_revokes_and_alerts [OF r demo_close_facts(1,2) _ _ demo_close_facts(4) lease _ this demo_close_facts(5)] r
  show ?thesis by (simp del: apply_writes_Cons)
qed

end
