(* ===== verification/HumanFeedback.thy ===== *)
theory HumanFeedback
  imports RecordCommands
begin

text \<open>
  Human feedback on a product (\<open>core/commands/handlers/record_human_feedback.py\<close>,
  \<open>reconcile_human_feedback.py\<close>): an observation a person makes, linked to a Work Unit, which is
  reconciled once with what the project does about it. Feedback never moves a Work Unit.
\<close>

section \<open>RecordHumanFeedback\<close>

definition feedback_path :: "json \<Rightarrow> string" where
  "feedback_path i = ''human-feedback/'' @ py_str i @ ''.yaml''"

text \<open>\<open>yaml.safe_load(...) or {}\<close>; an event that cannot be read is passed over.\<close>

fun first_event :: "store \<Rightarrow> json \<Rightarrow> string list \<Rightarrow> (string \<times> json) option res" where
  "first_event s checkpoint_ref [] = Inr None"
| "first_event s checkpoint_ref (p # ps) =
     (case read_yaml s p of
        Inl e \<Rightarrow> first_event s checkpoint_ref ps
      | Inr j \<Rightarrow> bindR (jget (por j (JObj [])) ''id'') (\<lambda>own_id.
          (if py_eq own_id checkpoint_ref then Inr (Some (p, por j (JObj []))) else
          first_event s checkpoint_ref ps)))"

definition find_checkpoint :: "store \<Rightarrow> json \<Rightarrow> (string \<times> json) option res" where
  "find_checkpoint s checkpoint_ref =
     (let direct = event_path (py_str checkpoint_ref) in
      first_event s checkpoint_ref (if is_file s direct then [direct] else glob_yaml s ''events''))"

definition checkpoint_pointer :: string where
  "checkpoint_pointer = ''/payload/checkpoint_ref''"

text \<open>The checkpoint must be an open human checkpoint of the Work Unit, at the revision and
  surface the feedback is about.\<close>

definition check_checkpoint :: "json \<Rightarrow> json \<Rightarrow> json \<Rightarrow> unit res" where
  "check_checkpoint payload work_unit_id checkpoint = bindR (jget checkpoint ''work_unit'') (\<lambda>own_unit.
     (if \<not> py_eq own_unit work_unit_id then gateway_error INVARIANT_VIOLATION checkpoint_pointer else
     bindR (jget checkpoint ''details'') (\<lambda>d.
     bindR (jget (por d (JObj [])) ''human_checkpoint'') (\<lambda>details.
     (if \<not> truthy details then gateway_error INVARIANT_VIOLATION checkpoint_pointer else
     bindR (jget checkpoint ''status'') (\<lambda>status.
     (if status \<noteq> JStr ''open'' then gateway_error INVALID_TRANSITION checkpoint_pointer else
     bindR (jget payload ''observed_revision'') (\<lambda>observed.
     bindR (jget (por observed (JObj [])) ''commit_sha'') (\<lambda>observed_sha.
     bindR (jget details ''observed_revision'') (\<lambda>checkpoint_sha.
     (if truthy checkpoint_sha \<and> \<not> py_eq observed_sha checkpoint_sha
       then gateway_error INVARIANT_VIOLATION ''/payload/observed_revision/commit_sha'' else
     bindR (jget details ''surface'') (\<lambda>checkpoint_surface.
     bindR (jget payload ''surface'') (\<lambda>surface.
     (if truthy checkpoint_surface \<and> \<not> py_eq surface checkpoint_surface
       then gateway_error INVARIANT_VIOLATION ''/payload/surface'' else
     Inr ()))))))))))))))"

definition feedback_checkpoint :: "store \<Rightarrow> json \<Rightarrow> json \<Rightarrow> (string \<times> json) option res" where
  "feedback_checkpoint s payload work_unit_id = bindR (jget payload ''checkpoint_ref'') (\<lambda>checkpoint_ref.
     (if \<not> truthy checkpoint_ref then Inr None else
     bindR (find_checkpoint s checkpoint_ref) (\<lambda>found.
     (case found of
        None \<Rightarrow> gateway_error NOT_FOUND checkpoint_pointer
      | Some (p, checkpoint) \<Rightarrow> bindR (check_checkpoint payload work_unit_id checkpoint) (\<lambda>_. Inr (Some (p, checkpoint)))))))"

definition feedback_document :: "env \<Rightarrow> json \<Rightarrow> obj \<Rightarrow> json" where
  "feedback_document env feedback_id ob = JObj (set_keys (first_revision env)
     (opop ''reconciliation'' (set_keys [(''id'', feedback_id), (''status'', JStr ''pending_reconciliation'')] ob)))"

text \<open>The Work Unit with the feedback among its outcomes, and its new revision.\<close>

definition link_feedback :: "env \<Rightarrow> json \<Rightarrow> json \<Rightarrow> (json \<times> json) res" where
  "link_feedback env feedback_id work_unit = bindR ((case current_revision work_unit of
        Inl (ValueError _) \<Rightarrow> gateway_error INVALID_SCHEMA ''/work_unit/revision'' | r \<Rightarrow> r)) (\<lambda>current.
     bindR (setdefault_value work_unit ''outcomes'' (JObj [])) (\<lambda>outcomes.
     bindR (setdefault_value outcomes ''human_feedback'' (JList [])) (\<lambda>refs.
     bindR (jin feedback_id refs) (\<lambda>known.
     bindR ((if known then Inr refs else jappend refs feedback_id)) (\<lambda>refs1.
     bindR (jset outcomes ''human_feedback'' refs1) (\<lambda>outcomes1.
     bindR (jset work_unit ''outcomes'' outcomes1) (\<lambda>work_unit1.
     bindR (py_succ current) (\<lambda>revision.
     bindR (jset work_unit1 ''revision'' revision) (\<lambda>work_unit2.
     bindR (jset work_unit2 ''updated_at'' (now_iso env)) (\<lambda>work_unit3.
     Inr (work_unit3, revision)))))))))))"

definition close_checkpoint :: "json \<Rightarrow> json \<Rightarrow> json res" where
  "close_checkpoint feedback_id checkpoint = bindR (jset checkpoint ''status'' (JStr ''closed'')) (\<lambda>closed.
     bindR (setdefault_value closed ''details'' (JObj [])) (\<lambda>details.
     bindR (jset details ''human_feedback_ref'' feedback_id) (\<lambda>details1.
     jset closed ''details'' details1)))"

definition handle_record_human_feedback :: "env \<Rightarrow> store \<Rightarrow> json \<Rightarrow> reply res" where
  "handle_record_human_feedback env s envelope = bindR (target_id envelope) (\<lambda>feedback_id.
     bindR (object_payload envelope) (\<lambda>payload.
     bindR (check_payload_id payload feedback_id) (\<lambda>_.
     (if is_file s (feedback_path feedback_id) then gateway_error ALREADY_EXISTS [] else
     bindR (jget envelope ''human_authorization'') (\<lambda>authorization.
     bindR (jget (por authorization (JObj [])) ''granted_by'') (\<lambda>granted_by.
     bindR (jget payload ''submitted_by'') (\<lambda>submitted_by.
     (if \<not> py_eq submitted_by granted_by then gateway_error INVARIANT_VIOLATION ''/payload/submitted_by'' else
     bindR (jget payload ''work_unit'') (\<lambda>work_unit_id.
     (case find_work_unit_path s work_unit_id of
        Ambiguous _ \<Rightarrow> gateway_error INVALID_SCHEMA ''/payload/work_unit''
      | Missing \<Rightarrow> gateway_error NOT_FOUND ''/payload/work_unit''
      | Found work_unit_file \<Rightarrow> bindR (feedback_checkpoint s payload work_unit_id) (\<lambda>checkpoint.
          bindR (as_obj payload) (\<lambda>fields.
          (let document = feedback_document env feedback_id fields in
          bindR (validate_against_schema env document ''human-feedback.schema.json'' []) (\<lambda>_.
          bindR (read_yaml s work_unit_file) (\<lambda>loaded.
          bindR (link_feedback env feedback_id (por loaded (JObj []))) (\<lambda>(work_unit, revision).
          bindR (jget work_unit ''status'') (\<lambda>status.
          bindR (consume_human_authorization env s envelope) (\<lambda>consumed.
          bindR ((case checkpoint of
             None \<Rightarrow> Inr [] | Some (p, event) \<Rightarrow> bindR (close_checkpoint feedback_id event) (\<lambda>c. Inr [(p, c)]))) (\<lambda>closed.
          Inr \<lparr>r_affected =
                [JObj [(''kind'', JStr ''human_feedback''), (''id'', feedback_id), (''revision'', JInt 1),
                       (''status'', JStr ''pending_reconciliation'')],
                 JObj [(''kind'', JStr ''work_unit''), (''id'', work_unit_id), (''revision'', revision), (''status'', status)]]
                @ (if checkpoint = None then []
                   else [JObj [(''kind'', JStr ''event''), (''id'', oget fields ''checkpoint_ref''), (''status'', JStr ''closed'')]]),
              r_details = JObj [(''non_blocking'', JBool True), (''work_unit_status_unchanged'', JBool True),
                (''next_action'', JStr ''reconcile human feedback against current project state'')],
              r_events = [],
              r_writes = [consumed, (feedback_path feedback_id, document), (work_unit_file, work_unit)] @ closed\<rparr>)))))))))))))))))))"

section \<open>ReconcileHumanFeedback\<close>

definition RECONCILED_STATUSES :: "string list" where
  "RECONCILED_STATUSES = [''reconciled'', ''needs_decision'', ''superseded'']"

definition CHANGE_CLASSIFICATIONS :: "string list" where
  "CHANGE_CLASSIFICATIONS = [''defect'', ''ux_adjustment'', ''product_intent_change'']"

definition actions_pointer :: string where
  "actions_pointer = ''/payload/reconciliation/actions''"

definition check_work_unit_ref :: "store \<Rightarrow> string \<Rightarrow> json \<Rightarrow> unit res" where
  "check_work_unit_ref s pointer i =
     (case find_work_unit_path s i of
        Ambiguous _ \<Rightarrow> gateway_error INVALID_SCHEMA ''/payload/reconciliation''
      | Missing \<Rightarrow> gateway_error NOT_FOUND pointer
      | Found _ \<Rightarrow> Inr ())"

definition check_action :: "store \<Rightarrow> json \<Rightarrow> unit res" where
  "check_action s action = bindR (jget action ''kind'') (\<lambda>kind.
     bindR (jget action ''ref'') (\<lambda>ref.
     (if kind = JStr ''none'' then (if ref \<noteq> JNull then gateway_error INVALID_SCHEMA actions_pointer else Inr ()) else
     (if \<not> truthy ref then gateway_error INVALID_SCHEMA actions_pointer else
     bindR (in_strs kind [''context_refresh'', ''reverify_work_unit'', ''remediation_work_unit'']) (\<lambda>about_unit.
     (if about_unit then check_work_unit_ref s actions_pointer ref else
     (if kind = JStr ''decision_request'' \<and> \<not> is_file s (decision_request_path ref)
       then gateway_error NOT_FOUND actions_pointer else
     Inr ())))))))"

definition validate_action_refs :: "store \<Rightarrow> json \<Rightarrow> unit res" where
  "validate_action_refs s reconciliation = bindR (jget reconciliation ''affected_work_units'') (\<lambda>a.
     bindR (jiter (por a (JList []))) (\<lambda>affected.
     bindR (eachR (check_work_unit_ref s ''/payload/reconciliation/affected_work_units'') affected) (\<lambda>_.
     bindR (jget reconciliation ''actions'') (\<lambda>x.
     bindR (jiter (por x (JList []))) (\<lambda>actions.
     eachR (check_action s) actions)))))"

definition action_kind_is :: "string \<Rightarrow> json \<Rightarrow> bool res" where
  "action_kind_is k action = bindR (jget action ''kind'') (\<lambda>kind. Inr (kind = JStr k))"

text \<open>Applicable feedback that changes the product needs an action, a decision its request.\<close>

definition check_actions :: "json \<Rightarrow> json \<Rightarrow> json \<Rightarrow> unit res" where
  "check_actions to_status reconciliation actions_value = bindR (jget reconciliation ''classification'') (\<lambda>classification.
     bindR (jget reconciliation ''applicability'') (\<lambda>applicability.
     bindR (jiter actions_value) (\<lambda>actions.
     bindR (anyR (\<lambda>a. bindR (action_kind_is ''none'' a) (\<lambda>b. Inr (\<not> b))) actions) (\<lambda>effective.
     bindR ((if applicability = JStr ''applicable'' then in_strs classification CHANGE_CLASSIFICATIONS else Inr False)) (\<lambda>changes.
     (if changes \<and> \<not> effective then gateway_error INVARIANT_VIOLATION actions_pointer else
     bindR ((if to_status = JStr ''needs_decision'' then anyR (action_kind_is ''decision_request'') actions else Inr True)) (\<lambda>requested.
     (if \<not> requested then gateway_error INVARIANT_VIOLATION actions_pointer else
     Inr ()))))))))"

definition handle_reconcile_human_feedback :: "env \<Rightarrow> store \<Rightarrow> json \<Rightarrow> reply res" where
  "handle_reconcile_human_feedback env s envelope = bindR (target_id envelope) (\<lambda>feedback_id.
     bindR (expected_revision envelope) (\<lambda>expected.
     bindR (jitem envelope ''payload'') (\<lambda>payload.
     bindR (jget payload ''to_status'') (\<lambda>to_status.
     bindR (jget payload ''reconciliation'') (\<lambda>reconciliation.
     bindR (in_strs to_status RECONCILED_STATUSES) (\<lambda>final.
     (if \<not> final then gateway_error INVALID_SCHEMA ''/payload/to_status'' else
     (if \<not> is_dict reconciliation then gateway_error INVALID_SCHEMA ''/payload/reconciliation'' else
     bindR (load_or_not_found s (feedback_path feedback_id) ''/target/id'') (\<lambda>loaded.
     (let document = por loaded (JObj []) in
     bindR (work_unit_revision document) (\<lambda>current.
     (if \<not> py_eq current expected then gateway_error CONFLICT ''/target/expected_revision'' else
     bindR (jget document ''status'') (\<lambda>status.
     (if status \<noteq> JStr ''pending_reconciliation'' then gateway_error INVALID_TRANSITION ''/payload/to_status'' else
     bindR (jget reconciliation ''actions'') (\<lambda>x.
     (let actions = por x (JList []) in
     bindR (check_actions to_status reconciliation actions) (\<lambda>checked.
     bindR (validate_action_refs s reconciliation) (\<lambda>valid.
     bindR (as_obj reconciliation) (\<lambda>fields.
     bindR (jitem envelope ''actor'') (\<lambda>actor.
     bindR (jitem actor ''role_id'') (\<lambda>role_id.
     (let reconciled = set_keys [(''reconciled_by_role'', role_id), (''reconciled_at'', now_iso env)] fields in
     bindR (py_succ current) (\<lambda>revision.
     bindR (as_obj document) (\<lambda>old.
     (let document1 = JObj (set_keys [(''status'', to_status), (''reconciliation'', JObj reconciled), (''revision'', revision),
         (''updated_at'', now_iso env)] old) in
     bindR (validate_against_schema env document1 ''human-feedback.schema.json'' []) (\<lambda>_.
     Inr \<lparr>r_affected = [JObj [(''kind'', JStr ''human_feedback''), (''id'', feedback_id), (''revision'', revision), (''status'', to_status)]],
          r_details = JObj [(''affected_work_units'', por (oget reconciled ''affected_work_units'') (JList [])),
            (''invalidated_evidence'', por (oget reconciled ''invalidated_evidence'') (JList [])), (''actions'', actions)],
          r_events = [],
          r_writes = [(feedback_path feedback_id, document1)]\<rparr>))))))))))))))))))))))))))"

section \<open>Feedback is no acceptance\<close>

lemma startswith_clash: "startswith p (c # cs) \<Longrightarrow> startswith p (d # ds) \<Longrightarrow> c = d"
  by (cases p) (simp_all add: startswith_def)

lemma found_among: "length (filter P xs) = Suc 0 \<Longrightarrow> hd (filter P xs) \<in> set xs" "filter P xs = x # ys \<Longrightarrow> x \<in> set xs"
  using filter_is_subset [of P xs] by (cases "filter P xs", simp_all)+

lemma startswith_hd: "startswith p (c # cs) \<Longrightarrow> hd p = c"
  by (cases p) (simp_all add: startswith_def)

lemma found_work_unit:
  assumes "find_work_unit_path s i = Found p"
  shows "startswith p ''work-units/'' \<and> is_file s p"
proof -
  have "p = work_unit_path i \<and> is_file s p \<or> p \<in> set (glob_yaml s ''work-units'')"
    using assms unfolding find_work_unit_path_def Let_def
    by (auto split: if_split_asm list.split_asm dest: found_among)
  moreover have "startswith (work_unit_path i) ''work-units/''" by (simp add: work_unit_path_def startswith_def)
  ultimately show ?thesis using set_glob_yaml [of p s "''work-units''"] by (auto simp: glob_yaml_def is_file_def)
qed

lemma event_found: "first_event s i ps = Inr (Some (p, j)) \<Longrightarrow> p \<in> set ps \<and> (\<exists>d. map_of s p = Some (Doc d) \<and> j = por d (JObj []))"
  by (induction ps) (auto split: sum.splits if_splits simp: res_simps)

lemma checkpoint_found:
  assumes "find_checkpoint s i = Inr (Some (p, j))"
  shows "startswith p ''events/''"
  using event_found [OF assms [unfolded find_checkpoint_def Let_def]]
  by (auto simp: event_path_def glob_yaml_def startswith_def split: if_splits)

lemma jget_jset: "jset j k v = Inr j' \<Longrightarrow> k' \<noteq> k \<Longrightarrow> jget j' k' = jget j k'"
  by (cases j) auto

lemma linked_keeps:
  assumes "link_feedback env i w = Inr (w', n)" and "k \<notin> {''outcomes'', ''revision'', ''updated_at''}"
  shows "jget w' k = jget w k"
  using assms by (auto simp: link_feedback_def jget_jset)

text \<open>What a recorded feedback writes.\<close>

lemma lookup_eq_Inr [res_simps]:
  "(case l of Found p \<Rightarrow> f p | Ambiguous t \<Rightarrow> Inl a | Missing \<Rightarrow> Inl b) = Inr y \<longleftrightarrow> (\<exists>p. l = Found p \<and> f p = Inr y)"
  by (cases l) auto

lemma case_prod_eq_Inr [res_simps]: "(case x of (a, b) \<Rightarrow> f a b) = Inr y \<longleftrightarrow> (\<exists>a b. x = (a, b) \<and> f a b = Inr y)"
  by (cases x) auto

lemma feedback_recorded:
  assumes "handle_record_human_feedback env s e = Inr r"
  obtains a doc i doc' unit p d w n closed where "find_work_unit_path s unit = Found p" "map_of s p = Some (Doc d)"
    "link_feedback env i (por d (JObj [])) = Inr (w, n)"
    "r_writes r = [(authorization_path a, doc), (feedback_path i, doc'), (p, w)] @ closed"
    "\<forall>q \<in> fst ` set closed. startswith q ''events/''"
proof -
  obtain i payload unit p checkpoint ob d w n consumed closed where h: "find_work_unit_path s unit = Found p"
    "feedback_checkpoint s payload unit = Inr checkpoint" "read_yaml s p = Inr d" "link_feedback env i (por d (JObj [])) = Inr (w, n)"
    "consume_human_authorization env s e = Inr consumed"
    "(case checkpoint of None \<Rightarrow> Inr [] | Some (q, event) \<Rightarrow> bindR (close_checkpoint i event) (\<lambda>c. Inr [(q, c)])) = Inr closed"
    "r_writes r = [consumed, (feedback_path i, feedback_document env i ob), (p, w)] @ closed"
    using assms unfolding handle_record_human_feedback_def Let_def bindR_eq_Inr lookup_eq_Inr if_raise_eq_Inr case_prod_eq_Inr
    by (elim exE conjE) (rule that, assumption+, auto)
  obtain a doc where "consumed = (authorization_path a, doc)"
    using h(5) by (auto simp: consume_human_authorization_def Let_def)
  moreover have "\<forall>q \<in> fst ` set closed. startswith q ''events/''"
    using h(2,6) checkpoint_found by (auto simp: feedback_checkpoint_def split: option.splits if_splits)
  ultimately show thesis using h(1,3,4,7) by (intro that [of unit p d i w n a doc _ closed]) (auto simp: res_simps)
qed

text \<open>
  Recording human feedback is no acceptance: no Run document changes (so no Run closes and no
  ceiling moves), and a Work Unit keeps every field, its status above all, but its outcomes,
  revision and time.
\<close>

theorem feedback_is_no_acceptance:
  assumes "handle_record_human_feedback env s e = Inr r" and "s' = apply_writes (r_writes r) s"
  shows "(startswith q ''runs/'' \<longrightarrow> map_of s' q = map_of s q) \<and>
    (startswith q ''work-units/'' \<longrightarrow> map_of s' q = map_of s q \<or>
      (\<exists>old new. map_of s q = Some (Doc old) \<and> map_of s' q = Some (Doc new) \<and>
        (\<forall>k. k \<notin> {''outcomes'', ''revision'', ''updated_at''} \<longrightarrow> jget new k = jget (por old (JObj [])) k)))"
proof -
  obtain a doc i doc' unit p d w n closed where h: "find_work_unit_path s unit = Found p" "map_of s p = Some (Doc d)"
    "link_feedback env i (por d (JObj [])) = Inr (w, n)"
    "r_writes r = [(authorization_path a, doc), (feedback_path i, doc'), (p, w)] @ closed"
    "\<forall>q \<in> fst ` set closed. startswith q ''events/''"
    using assms(1) by (rule feedback_recorded)
  have unit: "startswith p ''work-units/''" using found_work_unit [OF h(1)] ..
  have other: "map_of s' q = map_of s q" if "q \<noteq> p" "startswith q ''runs/'' \<or> startswith q ''work-units/''"
  proof -
    have q: "hd q \<in> {CHR ''r'', CHR ''w''}" using that(2) startswith_hd by blast
    moreover have "hd (authorization_path a) = CHR ''a''" "hd (feedback_path i) = CHR ''h''"
      by (simp_all add: authorization_path_def feedback_path_def)
    ultimately have "q \<noteq> authorization_path a" "q \<noteq> feedback_path i" by auto
    moreover have "q \<notin> fst ` set closed"
    proof
      assume "q \<in> fst ` set closed"
      then have "hd q = CHR ''e''" using h(5) startswith_hd by blast
      then show False using q by simp
    qed
    ultimately show ?thesis using that(1) by (simp add: assms(2) h(4) map_of_apply_writes_other)
  qed
  have "p \<notin> fst ` set closed"
  proof
    assume "p \<in> fst ` set closed"
    then have "hd p = CHR ''e''" using h(5) startswith_hd by blast
    then show False using unit startswith_hd by fastforce
  qed
  then have "map_of s' p = Some (Doc w)" by (simp add: assms(2) h(4) map_of_apply_writes_other)
  then have "\<exists>old new. map_of s p = Some (Doc old) \<and> map_of s' p = Some (Doc new) \<and>
      (\<forall>k. k \<notin> {''outcomes'', ''revision'', ''updated_at''} \<longrightarrow> jget new k = jget (por old (JObj [])) k)"
    using h(2) linked_keeps [OF h(3)] by blast
  moreover have "\<not> startswith p ''runs/''" using unit startswith_clash [of p "CHR ''w''" _ "CHR ''r''"] by auto
  ultimately show ?thesis using other by (cases "q = p") auto
qed

section \<open>Feedback is reconciled once\<close>

lemma reconciled:
  assumes "handle_reconcile_human_feedback env s e = Inr r"
  obtains i payload old new to_status reconciliation actions where "target_id e = Inr i" "r_writes r = [(feedback_path i, JObj new)]"
    "map_of s (feedback_path i) = Some (Doc old)" "jget (por old (JObj [])) ''status'' = Inr (JStr ''pending_reconciliation'')"
    "jitem e ''payload'' = Inr payload" "jget payload ''to_status'' = Inr to_status" "oget new ''status'' = to_status" "to_status \<in> JStr ` set RECONCILED_STATUSES"
    "jget payload ''reconciliation'' = Inr reconciliation" "jget reconciliation ''actions'' = Inr actions"
    "check_actions to_status reconciliation (por actions (JList [])) = Inr ()" "validate_action_refs s reconciliation = Inr ()"
proof -
  obtain i payload to_status reconciliation old current actions_value fields role revision ob where h: "target_id e = Inr i"
    "jitem e ''payload'' = Inr payload" "jget payload ''to_status'' = Inr to_status" "jget payload ''reconciliation'' = Inr reconciliation"
    "in_strs to_status RECONCILED_STATUSES = Inr True" "load_or_not_found s (feedback_path i) ''/target/id'' = Inr old"
    "jget (por old (JObj [])) ''status'' = Inr (JStr ''pending_reconciliation'')" "jget reconciliation ''actions'' = Inr actions_value"
    "check_actions to_status reconciliation (por actions_value (JList [])) = Inr ()" "validate_action_refs s reconciliation = Inr ()"
    "r_writes r = [(feedback_path i, JObj (set_keys [(''status'', to_status),
       (''reconciliation'', JObj (set_keys [(''reconciled_by_role'', role), (''reconciled_at'', now_iso env)] fields)), (''revision'', revision),
         (''updated_at'', now_iso env)] ob))]"
    using assms unfolding handle_reconcile_human_feedback_def Let_def bindR_eq_Inr if_raise_eq_Inr
    by (elim exE conjE) (rule that, assumption, assumption, assumption, assumption, simp, assumption, simp, assumption, simp, simp, auto)
  show thesis
    by (rule that [OF h(1) h(11) _ h(7) h(2) h(3) _ _ h(4) h(8-10)]) (use h in \<open>auto simp: res_simps\<close>)
qed

text \<open>
  Feedback is reconciled once: after a reconciliation no command reconciles it again, in any
  later state that keeps its document.
\<close>

theorem feedback_is_reconciled_once:
  assumes "handle_reconcile_human_feedback env s e = Inr r" and "target_id e = Inr i" and "target_id e' = Inr i"
    and "map_of s' (feedback_path i) = map_of (apply_writes (r_writes r) s) (feedback_path i)"
  shows "handle_reconcile_human_feedback env' s' e' \<noteq> Inr r'"
proof
  assume "handle_reconcile_human_feedback env' s' e' = Inr r'"
  then obtain old where old: "map_of s' (feedback_path i) = Some (Doc old)"
      "jget (por old (JObj [])) ''status'' = Inr (JStr ''pending_reconciliation'')"
    by (rule reconciled) (use assms(3) in auto)
  obtain new to_status where new: "r_writes r = [(feedback_path i, JObj new)]" "oget new ''status'' = to_status"
      "to_status \<in> JStr ` set RECONCILED_STATUSES"
    using assms(1) by (rule reconciled) (use assms(2) in auto)
  then have "old = JObj new" using old(1) assms(4) by simp
  then show False using old(2) new(2,3) by (cases new) (auto simp: por_def RECONCILED_STATUSES_def)
qed

lemma orR_True: "orR a b = Inr True \<Longrightarrow> a = Inr True \<or> b = Inr True"
  by (cases a) (auto simp: orR_def ifR_Inr split: if_splits)

lemma eachR_each: "eachR f xs = Inr u \<Longrightarrow> x \<in> set xs \<Longrightarrow> f x = Inr ()"
  by (induction xs) auto

text \<open>
  A reconciliation is traced: applicable feedback that changes the product has an action with a
  reference, and feedback that needs a decision references a decision request that exists.
\<close>

theorem reconciliation_is_traced:
  assumes "handle_reconcile_human_feedback env s e = Inr r"
  shows "\<exists>i new payload reconciliation actions. r_writes r = [(feedback_path i, JObj new)] \<and> jitem e ''payload'' = Inr payload \<and>
    jget payload ''reconciliation'' = Inr reconciliation \<and> jget payload ''to_status'' = Inr (oget new ''status'') \<and>
    bindR (jget reconciliation ''actions'') (\<lambda>x. jiter (por x (JList []))) = Inr actions \<and>
    (jget reconciliation ''applicability'' = Inr (JStr ''applicable'') \<and>
       jget reconciliation ''classification'' \<in> Inr ` JStr ` set CHANGE_CLASSIFICATIONS \<longrightarrow>
       (\<exists>a \<in> set actions. jget a ''kind'' \<noteq> Inr (JStr ''none'') \<and> (\<exists>ref. jget a ''ref'' = Inr ref \<and> truthy ref))) \<and>
    (oget new ''status'' = JStr ''needs_decision'' \<longrightarrow>
       (\<exists>a \<in> set actions. \<exists>ref. jget a ''kind'' = Inr (JStr ''decision_request'') \<and> jget a ''ref'' = Inr ref \<and>
          is_file s (decision_request_path ref)))"
proof -
  obtain i payload old new to_status reconciliation x where h: "target_id e = Inr i" "r_writes r = [(feedback_path i, JObj new)]"
    "jitem e ''payload'' = Inr payload" "jget payload ''to_status'' = Inr to_status" "oget new ''status'' = to_status"
    "jget payload ''reconciliation'' = Inr reconciliation" "jget reconciliation ''actions'' = Inr x"
    "check_actions to_status reconciliation (por x (JList [])) = Inr ()" "validate_action_refs s reconciliation = Inr ()"
    using assms by (rule reconciled)
  then obtain actions where a: "jiter (por x (JList [])) = Inr actions" by (auto simp: check_actions_def)
  have valid: "check_action s b = Inr ()" if "b \<in> set actions" for b
    using h(7,9) a eachR_each [OF _ that] by (auto simp: validate_action_refs_def)
  have traced: "\<exists>ref. jget b ''ref'' = Inr ref \<and> truthy ref" if "b \<in> set actions" "action_kind_is ''none'' b = Inr False" for b
    using valid [OF that(1)] that(2) by (auto simp: check_action_def action_kind_is_def split: if_split_asm)
  have requested: "\<exists>ref. jget b ''kind'' = Inr (JStr ''decision_request'') \<and> jget b ''ref'' = Inr ref \<and> is_file s (decision_request_path ref)"
    if "b \<in> set actions" "action_kind_is ''decision_request'' b = Inr True" for b
    using valid [OF that(1)] that(2) by (auto simp: check_action_def action_kind_is_def)
  have "\<exists>b \<in> set actions. action_kind_is ''none'' b = Inr False" if "jget reconciliation ''applicability'' = Inr (JStr ''applicable'')"
      "jget reconciliation ''classification'' \<in> Inr ` JStr ` set CHANGE_CLASSIFICATIONS"
    using h(8) a that by (auto simp: check_actions_def dest!: anyR_True) blast
  then have "\<exists>b \<in> set actions. jget b ''kind'' \<noteq> Inr (JStr ''none'') \<and> (\<exists>ref. jget b ''ref'' = Inr ref \<and> truthy ref)"
    if "jget reconciliation ''applicability'' = Inr (JStr ''applicable'')"
      "jget reconciliation ''classification'' \<in> Inr ` JStr ` set CHANGE_CLASSIFICATIONS"
    using that traced by (fastforce simp: action_kind_is_def)
  moreover have "\<exists>b \<in> set actions. action_kind_is ''decision_request'' b = Inr True" if "to_status = JStr ''needs_decision''"
    using h(8) a that by (auto simp: check_actions_def dest!: anyR_True)
  then have "\<exists>b \<in> set actions. \<exists>ref. jget b ''kind'' = Inr (JStr ''decision_request'') \<and> jget b ''ref'' = Inr ref \<and>
      is_file s (decision_request_path ref)" if "to_status = JStr ''needs_decision''"
    using that requested by blast
  ultimately show ?thesis using h a by auto
qed

section \<open>Witnesses\<close>

definition feedback_envelope :: json where
  "feedback_envelope = JObj
     [(''type'', JStr ''RecordHumanFeedback''), (''target'', JObj [(''kind'', JStr ''human_feedback''), (''id'', JStr ''F'')]),
      (''payload'', JObj [(''id'', JStr ''F''), (''submitted_by'', JStr ''ada''), (''work_unit'', JStr ''A'')]),
      (''human_authorization'', JObj [(''granted_by'', JStr ''ada''), (''authorization_id'', JStr ''H'')])]"

definition feedback_unit :: json where
  "feedback_unit = JObj [(''id'', JStr ''A''), (''status'', JStr ''review''), (''revision'', JInt 4)]"

lemmas feedback_eval = target_id_def object_payload_def check_payload_id_def find_work_unit_path_def work_unit_path_def
  is_file_def feedback_path_def feedback_checkpoint_def validate_against_schema_def read_yaml_def link_feedback_def
  current_revision_def setdefault_value_def consume_human_authorization_def authorization_path_def por_def demo_env_def
  Let_def

theorem feedback_is_no_acceptance_witness:
  "\<exists>r new. handle_record_human_feedback (demo_env 0) [(''work-units/A.yaml'', Doc feedback_unit)] feedback_envelope = Inr r
    \<and> map_of (apply_writes (r_writes r) [(''work-units/A.yaml'', Doc feedback_unit)]) ''work-units/A.yaml'' = Some (Doc new)
    \<and> jget new ''status'' = Inr (JStr ''review'')"
proof -
  let ?s = "[(''work-units/A.yaml'', Doc feedback_unit)]"
  obtain r where r: "handle_record_human_feedback (demo_env 0) ?s feedback_envelope = Inr r"
    by (simp add: handle_record_human_feedback_def feedback_envelope_def feedback_unit_def feedback_eval)
  define s' where s': "s' = apply_writes (r_writes r) ?s"
  let ?p = "''work-units/A.yaml''"
  have "startswith ?p ''work-units/''" by (simp add: startswith_def)
  with feedback_is_no_acceptance [OF r s', of ?p]
  have "map_of s' ?p = map_of ?s ?p \<or> (\<exists>old new. map_of ?s ?p = Some (Doc old) \<and> map_of s' ?p = Some (Doc new) \<and>
      (\<forall>k. k \<notin> {''outcomes'', ''revision'', ''updated_at''} \<longrightarrow> jget new k = jget (por old (JObj [])) k))"
    by (rule conjunct2 [THEN mp])
  moreover have "map_of ?s ?p = Some (Doc feedback_unit)" "jget feedback_unit ''status'' = Inr (JStr ''review'')"
    "por feedback_unit (JObj []) = feedback_unit" by (simp_all add: feedback_unit_def por_def)
  ultimately have "\<exists>new. map_of s' ?p = Some (Doc new) \<and> jget new ''status'' = Inr (JStr ''review'')" by fastforce
  then show ?thesis unfolding s' using r by blast
qed

definition feedback_answer :: json where
  "feedback_answer = JObj
     [(''target'', JObj [(''id'', JStr ''F''), (''expected_revision'', JInt 1)]), (''actor'', JObj [(''role_id'', JStr ''lead'')]),
      (''payload'', JObj [(''to_status'', JStr ''needs_decision''), (''reconciliation'', JObj
         [(''classification'', JStr ''defect''), (''applicability'', JStr ''applicable''),
          (''actions'', JList [JObj [(''kind'', JStr ''decision_request''), (''ref'', JStr ''D'')]])])])]"

definition feedback_store :: store where
  "feedback_store = [(''human-feedback/F.yaml'', Doc (JObj [(''id'', JStr ''F''), (''status'', JStr ''pending_reconciliation''), (''revision'', JInt 1)])),
     (''decisions/D.yaml'', Doc (JObj []))]"

lemma feedback_pending: "read_yaml feedback_store (feedback_path (JStr ''F'')) =
    Inr (JObj [(''id'', JStr ''F''), (''status'', JStr ''pending_reconciliation''), (''revision'', JInt 1)])"
  "is_file feedback_store (feedback_path (JStr ''F''))" "is_file feedback_store (decision_request_path (JStr ''D''))"
  by (simp_all add: feedback_store_def read_yaml_def feedback_path_def is_file_def decision_request_path_def)

lemma feedback_answer_fields:
  "target_id feedback_answer = Inr (JStr ''F'')" "expected_revision feedback_answer = Inr (JInt 1)"
  by (simp_all add: feedback_answer_def target_id_def expected_revision_def)

lemma feedback_answered: "\<exists>r. handle_reconcile_human_feedback (demo_env 0) feedback_store feedback_answer = Inr r"
  unfolding handle_reconcile_human_feedback_def feedback_answer_fields
  by (simp add: feedback_answer_def RECONCILED_STATUSES_def load_or_not_found_def feedback_pending work_unit_revision_def
      current_revision_def check_actions_def action_kind_is_def CHANGE_CLASSIFICATIONS_def validate_action_refs_def
      check_action_def validate_against_schema_def demo_env_def por_def Let_def)

theorem feedback_is_reconciled_once_witness:
  "\<exists>r. handle_reconcile_human_feedback (demo_env 0) feedback_store feedback_answer = Inr r \<and>
    (\<forall>r'. handle_reconcile_human_feedback (demo_env 9) (apply_writes (r_writes r) feedback_store) feedback_answer \<noteq> Inr r')"
proof -
  obtain r where r: "handle_reconcile_human_feedback (demo_env 0) feedback_store feedback_answer = Inr r"
    using feedback_answered by blast
  have "target_id feedback_answer = Inr (JStr ''F'')" by (simp add: feedback_answer_def target_id_def)
  from feedback_is_reconciled_once [OF r this this refl] r show ?thesis by blast
qed

theorem reconciliation_is_traced_witness:
  "\<exists>r new. handle_reconcile_human_feedback (demo_env 0) feedback_store feedback_answer = Inr r \<and>
    r_writes r = [(''human-feedback/F.yaml'', JObj new)] \<and> oget new ''status'' = JStr ''needs_decision''"
proof -
  obtain r where r: "handle_reconcile_human_feedback (demo_env 0) feedback_store feedback_answer = Inr r"
    using feedback_answered by blast
  have p: "target_id feedback_answer = Inr (JStr ''F'')" "feedback_path (JStr ''F'') = ''human-feedback/F.yaml''"
    by (simp_all add: feedback_answer_def target_id_def feedback_path_def)
  with r have "\<exists>new. r_writes r = [(''human-feedback/F.yaml'', JObj new)]" by (rule_tac reconciled [OF r]) simp
  with reconciliation_is_traced [OF r] r show ?thesis by (auto simp: feedback_answer_def)
qed

end
