(* ===== verification/GrantSafety.thy ===== *)
theory GrantSafety
  imports GrantCommands LifecycleSafety
begin

text \<open>
  What an issued Run authorization grant guarantees, whatever its author asked for.
\<close>

section \<open>Lemmas\<close>

lemma sort_set_mem:
  assumes "sort_set xs = Inr ys"
  shows "set ys = set xs"
proof -
  have "JStr ` py_str ` set xs = set xs" if "\<forall>y \<in> set xs. is_str y"
  proof -
    have "JStr (py_str y) = y" if "is_str y" for y using that by (cases y) auto
    then show ?thesis using that by (force simp: image_iff)
  qed
  then show ?thesis
    using assms by (auto simp: sort_set_def Let_def list_all_iff split: if_splits)
qed

lemma set_minus_Nil: "set_minus xs ys = [] \<longleftrightarrow> (\<forall>x \<in> set xs. mem_list x ys)"
  by (simp add: set_minus_def filter_empty_conv)

lemma jin_JList [simp]: "jin v (JList xs) = Inr (mem_list v xs)"
  by simp

lemma por_JList [simp]: "por (JList xs) (JList []) = JList xs"
  by (cases xs) (simp_all add: por_def)

lemma minimum_exclusions_kept:
  assumes "sort_set xs = Inr ys" and "set_minus (map JStr as) xs = []" and "a \<in> set as"
  shows "mem_list (JStr a) ys"
  using assms by (auto simp: set_minus_Nil mem_list_def sort_set_mem)

text \<open>The bounds an unattended payload was checked for.\<close>

definition within_unattended_bounds :: "string \<Rightarrow> obj \<Rightarrow> bool" where
  "within_unattended_bounds preset doc \<longleftrightarrow>
     (\<exists>es. jset_of (oget doc ''allowed_environments'') = Inr es \<and> es \<noteq> [] \<and>
        (\<forall>v \<in> set es. mem_list v [JStr ''development'', JStr ''test''])) \<and>
     (\<exists>cs. jset_of (oget doc ''allowed_commands'') = Inr cs \<and>
        (\<forall>c \<in> set (required_commands preset). mem_list (JStr c) cs)) \<and>
     (\<exists>q. num_of (oget doc ''maximum_duration_hours'') = Some q \<and> q > 0) \<and>
     (oget doc ''maximum_spend'' \<noteq> JNull \<or> oget doc ''maximum_tokens'' \<noteq> JNull)"

lemma issue_grant_success:
  assumes "handle_issue_run_authorization_grant env s e = Inr r"
  obtains gid payload preset excluded menu artifacts ex policy doc filter consumed where
    "target_id e = Inr gid" "jitem e ''payload'' = Inr payload" "jget payload ''autonomy_preset'' = Inr preset"
    "\<not> is_file s (grant_path gid)"
    "set_minus (map JStr MINIMUM_EXCLUDED_ACTIONS) excluded = []"
    "resolve_grant_policy env payload preset = Inr policy"
    "grant_document env gid payload excluded menu artifacts ex preset policy = Inr doc"
    "consume_human_authorization env s e = Inr consumed"
    "r_writes r = [(grant_path gid, JObj (doc @ filter)), consumed]"
  using assms unfolding handle_issue_run_authorization_grant_def bindR_unit_eq_Inr bindR_eq_Inr Let_def
    if_raise_eq_Inr split_paired_Ex prod.case
  apply (elim exE conjE)
  subgoal premises p for gid payload preset excluded _ _ _ _ _ _ _ _ _ areas apol
    by (rule that [where filter = "case areas of None \<Rightarrow> [] | Some xs \<Rightarrow>
         [(''allowed_areas'', JList (map JStr xs)),
          (''area_filter_dependency_policy'', (case apol of None \<Rightarrow> JNull | Some x \<Rightarrow> JStr x))]",
         OF p(2-4,6) _ p(17,20,22)])
       (use p(8,23) in \<open>auto simp: reply_of_def split: option.splits\<close>)
  done

text \<open>Fields copied from the payload under a fixed list of keys.\<close>

lemma optional_fields_read:
  assumes "optional_fields payload kds = Inr fs"
  shows "map_of fs k = None \<longleftrightarrow> k \<notin> fst ` set kds"
    and "map_of fs k = Some v \<Longrightarrow> \<exists>d. (k, d) \<in> set kds \<and> jget_or payload k d = Inr v"
  using assms
  by (induction kds arbitrary: fs) (auto simp: optional_fields_def image_iff split: if_splits, force+)

text \<open>What the document of the grant holds.\<close>

lemma grant_document_fields:
  assumes "grant_document env gid payload excluded menu artifacts ex preset policy = Inr doc"
  obtains ys paths where "sort_set excluded = Inr ys" "map_of doc ''excluded_actions'' = Some (JList ys)"
    "map_of doc ''uses_count'' = Some (JInt 0)" "map_of doc ''revoked_at'' = Some JNull"
    "map_of doc ''autonomy_preset'' = Some preset"
    "map_of doc ''effective_autonomy_policy'' = Some (fst policy)"
    "map_of doc ''effective_autonomy_policy_hash'' = Some (snd policy)"
    "map_of doc ''allowed_paths'' = Some (JList (map JStr (sanitize_allowed_paths paths)))"
    "\<And>k. k \<in> {''allowed_commands'', ''allowed_environments''} \<Longrightarrow>
       \<exists>v. map_of doc k = Some v \<and> jget_or payload k (JList []) = Inr v"
    "\<And>k. k \<in> {''maximum_spend'', ''maximum_duration_hours'', ''maximum_tokens''} \<Longrightarrow>
       \<exists>v. map_of doc k = Some v \<and> jget_or payload k JNull = Inr v"
  using assms unfolding grant_document_def bindR_unit_eq_Inr bindR_eq_Inr
  apply (elim exE conjE)
  subgoal premises p for ia wus commands shell paths secrets limits ea mu ys
  proof -
    note c = optional_fields_read [OF p(4)] and l = optional_fields_read [OF p(8)]
    have absent: "map_of commands k = None" if "k \<notin> {''allowed_commands'', ''allowed_environments''}" for k
      using that c(1) [of k] by simp
    have free: "map_of limits k = None"
      if "k \<notin> {''maximum_spend'', ''maximum_duration_hours'', ''maximum_tokens''}" for k
      using that l(1) [of k] by simp
    show thesis
    proof (rule that [OF p(11), where paths = paths])
      fix k assume k: "k \<in> {''allowed_commands'', ''allowed_environments''}"
      then obtain v where v: "map_of commands k = Some v" using c(1) [of k] by fastforce
      then have "map_of doc k = Some v" using p(15) k by (auto simp: free map_add_def)
      then show "\<exists>v. map_of doc k = Some v \<and> jget_or payload k (JList []) = Inr v"
        using c(2) [OF v] by auto
    next
      fix k assume k: "k \<in> {''maximum_spend'', ''maximum_duration_hours'', ''maximum_tokens''}"
      then obtain v where v: "map_of limits k = Some v" using l(1) [of k] by fastforce
      then have "map_of doc k = Some v" using p(15) k by (auto simp: absent map_add_def)
      then show "\<exists>v. map_of doc k = Some v \<and> jget_or payload k JNull = Inr v"
        using l(2) [OF v] by auto
    qed (use p(15) in \<open>auto simp: absent free map_add_def\<close>)
  qed
  done

lemma get_set_field:
  assumes "get_set payload k = Inr xs" and "map_of doc k = Some v" and "jget_or payload k (JList []) = Inr v"
    and "xs \<noteq> []"
  shows "jset_of v = Inr xs"
proof -
  obtain u where u: "jget payload k = Inr u" "jset_of (por u (JList [])) = Inr xs"
    using assms(1) by (auto simp: get_set_def)
  have "truthy u" using u(2) assms(4) by (cases "truthy u") (auto simp: por_def jset_of_def)
  then show ?thesis using u assms(3)
    by (cases payload) (auto simp: por_def oget_def split: option.splits)
qed

lemma issued_within_bounds:
  assumes "check_unattended_payload payload preset = Inr ()"
    and "\<And>k. k \<in> {''allowed_commands'', ''allowed_environments''} \<Longrightarrow>
       \<exists>v. map_of doc k = Some v \<and> jget_or payload k (JList []) = Inr v"
    and "\<And>k. k \<in> {''maximum_spend'', ''maximum_duration_hours'', ''maximum_tokens''} \<Longrightarrow>
       \<exists>v. map_of doc k = Some v \<and> jget_or payload k JNull = Inr v"
  shows "within_unattended_bounds preset doc"
proof -
  obtain envs listed cs d sp tk where c: "get_set payload ''allowed_environments'' = Inr envs" "envs \<noteq> []"
      "set_minus envs [JStr ''development'', JStr ''test''] = []"
      "jget payload ''allowed_commands'' = Inr listed" "truthy listed" "jset_of listed = Inr cs"
      "set_minus (map JStr (required_commands preset)) cs = []"
      "jget payload ''maximum_duration_hours'' = Inr d" "not_positive d = Inr False"
      "jget payload ''maximum_spend'' = Inr sp" "jget payload ''maximum_tokens'' = Inr tk"
      "sp \<noteq> JNull \<or> tk \<noteq> JNull"
    using assms(1) unfolding check_unattended_payload_def bindR_unit_eq_Inr bindR_eq_Inr if_raise_eq_Inr
    by (elim exE conjE) (rule that, assumption+, simp_all)
  obtain v w where v: "map_of doc ''allowed_environments'' = Some v"
      "jget_or payload ''allowed_environments'' (JList []) = Inr v"
    and w: "map_of doc ''allowed_commands'' = Some w" "jget_or payload ''allowed_commands'' (JList []) = Inr w"
    using assms(2) [of "''allowed_environments''"] assms(2) [of "''allowed_commands''"] by auto
  have envs: "jset_of v = Inr envs" by (rule get_set_field [OF c(1) v c(2)])
  have "w = listed" using w(2) c(4,5) by (cases payload) (auto simp: oget_def split: option.splits)
  have limit: "oget doc k = x" if "jget payload k = Inr x"
      "k \<in> {''maximum_spend'', ''maximum_duration_hours'', ''maximum_tokens''}" for k x
    using assms(3) [OF that(2)] that(1) by (cases payload) (auto simp: oget_def split: option.splits)
  have d: "oget doc ''maximum_duration_hours'' = d" and sp: "oget doc ''maximum_spend'' = sp"
    and tk: "oget doc ''maximum_tokens'' = tk"
    by (simp_all add: limit c(8,10,11))
  obtain q where q: "num_of d = Some q" "q > 0"
    using c(9) by (auto simp: not_positive_def not_le split: if_splits option.splits)
  have "oget doc ''allowed_environments'' = v" "oget doc ''allowed_commands'' = listed"
    using v(1) w(1) \<open>w = listed\<close> by (simp_all add: oget_def)
  note fields = d sp tk this
  have "\<forall>x \<in> set envs. mem_list x [JStr ''development'', JStr ''test'']"
    and "\<forall>x \<in> set (required_commands preset). mem_list (JStr x) cs"
    using c(3,7) by (simp_all add: set_minus_Nil)
  then show ?thesis
    unfolding within_unattended_bounds_def fields using envs c(2,6,12) q by blast
qed

lemma grant_fields_kept:
  "(\<And>k. k \<in> K \<Longrightarrow> \<exists>v. map_of doc k = Some v \<and> f k = Inr v) \<Longrightarrow>
   k \<in> K \<Longrightarrow> \<exists>v. map_of (doc @ rest) k = Some v \<and> f k = Inr v"
  by fastforce

section \<open>An issued grant is bounded\<close>

text \<open>
  C14. Whatever the payload asks for, an issued grant is new, unused and not revoked, excludes every
  action of the minimum list, lists only sanitized paths, and, when it is an unattended grant,
  allows development and test environments only, names every command the preset needs, is bounded
  in duration and in spend or tokens, and carries the hash of its effective policy.
\<close>

theorem issued_grant_bounded:
  assumes "handle_issue_run_authorization_grant env s e = Inr r" and "target_id e = Inr gid"
  shows "\<not> is_file s (grant_path gid)
    \<and> (\<exists>doc. map_of (apply_writes (r_writes r) s) (grant_path gid) = Some (Doc (JObj doc))
        \<and> oget doc ''uses_count'' = JInt 0 \<and> is_revoked (JObj doc) = Inr False
        \<and> (\<forall>a \<in> set MINIMUM_EXCLUDED_ACTIONS. excludes_action (JObj doc) a = Inr True)
        \<and> (\<exists>paths. oget doc ''allowed_paths'' = JList (map JStr (sanitize_allowed_paths paths)))
        \<and> (\<forall>p. oget doc ''autonomy_preset'' = JStr p \<longrightarrow>
             p \<in> set UNATTENDED_PRESETS \<and> within_unattended_bounds p doc
             \<and> oget doc ''effective_autonomy_policy_hash''
                 = JStr (effective_policy_hash (sha env) (oget doc ''effective_autonomy_policy''))))"
  using assms(1)
proof (rule issue_grant_success)
  fix gid' payload preset excluded menu artifacts ex policy doc filter consumed
  assume a: "target_id e = Inr gid'" "\<not> is_file s (grant_path gid')"
    "set_minus (map JStr MINIMUM_EXCLUDED_ACTIONS) excluded = []"
    "resolve_grant_policy env payload preset = Inr policy"
    "grant_document env gid' payload excluded menu artifacts ex preset policy = Inr doc"
    "consume_human_authorization env s e = Inr consumed"
    "r_writes r = [(grant_path gid', JObj (doc @ filter)), consumed]"
  have gid: "gid' = gid" using a(1) assms(2) by simp
  from a(5) show ?thesis
  proof (rule grant_document_fields)
    fix ys paths
    assume f: "sort_set excluded = Inr ys" "map_of doc ''excluded_actions'' = Some (JList ys)"
      "map_of doc ''uses_count'' = Some (JInt 0)" "map_of doc ''revoked_at'' = Some JNull"
      "map_of doc ''autonomy_preset'' = Some preset"
      "map_of doc ''effective_autonomy_policy'' = Some (fst policy)"
      "map_of doc ''effective_autonomy_policy_hash'' = Some (snd policy)"
      "map_of doc ''allowed_paths'' = Some (JList (map JStr (sanitize_allowed_paths paths)))"
      "\<And>k. k \<in> {''allowed_commands'', ''allowed_environments''} \<Longrightarrow>
         \<exists>v. map_of doc k = Some v \<and> jget_or payload k (JList []) = Inr v"
      "\<And>k. k \<in> {''maximum_spend'', ''maximum_duration_hours'', ''maximum_tokens''} \<Longrightarrow>
         \<exists>v. map_of doc k = Some v \<and> jget_or payload k JNull = Inr v"
    have bounds: "within_unattended_bounds p (doc @ filter)"
      if "check_unattended_payload payload p = Inr ()" for p
      by (rule issued_within_bounds [OF that grant_fields_kept [OF f(9)] grant_fields_kept [OF f(10)]])
    have policy: "oget (doc @ filter) ''autonomy_preset'' = preset"
      "oget (doc @ filter) ''effective_autonomy_policy'' = fst policy"
      "oget (doc @ filter) ''effective_autonomy_policy_hash'' = snd policy"
      using f(5-7) by (simp_all add: oget_def)
    have "p \<in> set UNATTENDED_PRESETS \<and> within_unattended_bounds p (doc @ filter)
        \<and> oget (doc @ filter) ''effective_autonomy_policy_hash''
            = JStr (effective_policy_hash (sha env) (oget (doc @ filter) ''effective_autonomy_policy''))"
      if "oget (doc @ filter) ''autonomy_preset'' = JStr p" for p
      using a(4) bounds that policy by (auto simp: resolve_grant_policy_def Let_def)
    moreover have "excludes_action (JObj (doc @ filter)) a = Inr True" if "a \<in> set MINIMUM_EXCLUDED_ACTIONS" for a
      using minimum_exclusions_kept [OF f(1) a(3) that] f(2) by (simp add: excludes_action_def oget_def)
    moreover have "fst consumed \<noteq> grant_path gid'"
      using a(6) by (auto simp: consume_human_authorization_def Let_def authorization_path_def grant_path_def)
    then have "map_of (apply_writes (r_writes r) s) (grant_path gid) = Some (Doc (JObj (doc @ filter)))"
      unfolding a(7) gid by (cases consumed) simp
    moreover have "oget (doc @ filter) ''uses_count'' = JInt 0" "is_revoked (JObj (doc @ filter)) = Inr False"
      "oget (doc @ filter) ''allowed_paths'' = JList (map JStr (sanitize_allowed_paths paths))"
      using f(3,4,8) by (simp_all add: is_revoked_def oget_def)
    moreover note a(2)
    ultimately show ?thesis
      unfolding gid by blast
  qed
qed

definition demo_issue :: json where
  "demo_issue = JObj
     [(''type'', JStr ''IssueRunAuthorizationGrant''),
      (''target'', JObj [(''kind'', JStr ''run_authorization_grant''), (''id'', JStr ''G'')]),
      (''human_authorization'', JObj [(''authorization_id'', JStr ''H''), (''granted_by'', JStr ''human:po'')]),
      (''payload'', JObj
        [(''issuing_authority'', JStr ''human:po''), (''work_unit_ids'', JList [JStr ''A'']),
         (''autonomy_preset'', JStr ''unattended_conservative''),
         (''excluded_actions'', JList (map JStr MINIMUM_EXCLUDED_ACTIONS)),
         (''allowed_commands'', JList (map JStr REQUIRED_UNATTENDED_COMMANDS)),
         (''allowed_environments'', JList [JStr ''development'']),
         (''maximum_duration_hours'', JInt 8), (''maximum_tokens'', JInt 1000000),
         (''expires_at'', JStr ''2030-01-01T00:00:00+00:00''), (''maximum_uses'', JInt 1)])]"

lemmas issue_eval = handle_issue_run_authorization_grant_def demo_issue_def target_id_def check_issuing_authority_def
  get_text_def is_file_def get_set_def jset_of_def set_minus_def normalized_decision_menu_def bound_decision_menu_def
  check_execution_artifact_def resolve_grant_policy_def grant_policy_def
  check_unattended_payload_def required_commands_def not_positive_def grant_areas_def check_areas_def
  normalize_allowed_areas_payload_def normalize_dependency_policy_payload_def grant_document_def
  optional_fields_def envelope_list_def sort_set_def validate_against_schema_def consume_human_authorization_def
  reply_of_def por_def mem_list_def resolve_named_preset UNATTENDED_PRESETS_def MINIMUM_EXCLUDED_ACTIONS_def
  REQUIRED_UNATTENDED_COMMANDS_def demo_env_def Let_def

lemma demo_issued: "\<exists>r. handle_issue_run_authorization_grant (demo_env 0) [] demo_issue = Inr r"
  by (simp add: issue_eval)

theorem issued_grant_bounded_witness:
  "\<exists>(r :: reply) doc. map_of (apply_writes (r_writes r) []) (grant_path (JStr ''G'')) = Some (Doc (JObj doc))
     \<and> oget doc ''uses_count'' = JInt 0 \<and> is_revoked (JObj doc) = Inr False
     \<and> excludes_action (JObj doc) ''ProductionAction'' = Inr True"
proof -
  obtain r where issued: "handle_issue_run_authorization_grant (demo_env 0) [] demo_issue = Inr r"
    using demo_issued by blast
  have "target_id demo_issue = Inr (JStr ''G'')" by (simp add: target_id_def demo_issue_def)
  from issued_grant_bounded [OF issued this] show ?thesis
    by (auto simp: MINIMUM_EXCLUDED_ACTIONS_def)
qed

end
