(* ===== verification/ProfileCommands.thy ===== *)
theory ProfileCommands
  imports HumanFeedback GrantSafety
begin

text \<open>
  Governed updates of the Project Profile (\<open>core/commands/handlers/update_project_profile.py\<close>):
  a patch of the mutable sections, merged into the profile, with an audit document.
\<close>

section \<open>Merging a patch\<close>

definition profile_path :: string where "profile_path = ''project-profile.yaml''"

definition MUTABLE_SECTIONS :: "string list" where
  "MUTABLE_SECTIONS = [''autonomy'', ''commands'', ''communication'', ''human_authorities'', ''notifications'',
     ''paths'', ''release'', ''runtime_environments'']"

text \<open>An object of the patch is merged into an object of the profile, anything else replaces.\<close>

fun merge_section :: "json \<Rightarrow> json \<Rightarrow> json" where
  "merge_section (JObj base) (JObj patch) =
     JObj (fold (\<lambda>(key, v) result. AList.update key (if ohas base key then merge_section (oget base key) v else v) result) patch base)"
| "merge_section base v = v"

definition merge_profile :: "obj \<Rightarrow> obj \<Rightarrow> obj" where
  "merge_profile base patch = (case merge_section (JObj base) (JObj patch) of JObj merged \<Rightarrow> merged | _ \<Rightarrow> [])"

section \<open>UpdateProjectProfile\<close>

definition drop_level :: "obj \<Rightarrow> obj" where
  "drop_level profile = (case oget profile ''autonomy'' of
     JObj autonomy \<Rightarrow> AList.update ''autonomy'' (JObj (opop ''level'' autonomy)) profile | _ \<Rightarrow> profile)"

text \<open>A preset named in the patch replaces the legacy level.\<close>

definition names_preset :: "obj \<Rightarrow> bool" where
  "names_preset changes = (case oget changes ''autonomy'' of JObj patch \<Rightarrow> oget patch ''preset'' \<noteq> JNull | _ \<Rightarrow> False)"

definition has_preset :: "obj \<Rightarrow> bool" where
  "has_preset profile = (case oget profile ''autonomy'' of JObj autonomy \<Rightarrow> truthy (oget autonomy ''preset'') | _ \<Rightarrow> False)"

definition updated_preset :: "obj \<Rightarrow> string res" where
  "updated_preset profile =
     (let autonomy_block = por (oget profile ''autonomy'') (JObj []) in
      case (if is_dict autonomy_block then resolve_project_preset autonomy_block
            else Inl (ValueError ''autonomy must be an object'')) of
        Inl (ValueError _) \<Rightarrow> gateway_error INVARIANT_VIOLATION ''/payload/changes/autonomy''
      | r \<Rightarrow> r)"

definition change_id_of :: "env \<Rightarrow> string" where
  "change_id_of env = ''PROFILE-CHANGE-'' @ stamp (now env) @ ''-'' @ take 8 (uuid env)"

definition profile_change_path :: "string \<Rightarrow> string" where
  "profile_change_path i = ''profile-changes/'' @ i @ ''.yaml''"

text \<open>The profile, if the target names it at its revision.\<close>

definition target_profile :: "store \<Rightarrow> json \<Rightarrow> (obj \<times> string \<times> int) res" where
  "target_profile s envelope = bindR (load_or_not_found s profile_path ''/target/id'') (\<lambda>loaded.
     (let profile = por loaded (JObj []) in
     bindR (jitem envelope ''target'') (\<lambda>target.
     bindR (jget profile ''project'') (\<lambda>p.
     bindR (jget (por p (JObj [])) ''id'') (\<lambda>i.
     (let project_id = py_str (por i (JStr [])) in
     bindR (jitem target ''id'') (\<lambda>own.
     (if own \<noteq> JStr project_id then gateway_error NOT_FOUND ''/target/id'' else
     bindR (jget_or profile ''config_revision'' (JInt 1)) (\<lambda>r.
     bindR (py_int r) (\<lambda>current_revision.
     bindR (jitem target ''expected_revision'') (\<lambda>expected.
     (if \<not> py_eq expected (JInt current_revision) then gateway_error CONFLICT ''/target/expected_revision'' else
     bindR (as_obj profile) (\<lambda>fields.
     Inr (fields, project_id, current_revision))))))))))))))"

definition patched_profile :: "env \<Rightarrow> obj \<Rightarrow> obj \<Rightarrow> int \<Rightarrow> (obj \<times> string) res" where
  "patched_profile env profile changes before = (let merged = merge_profile profile changes in
     (let updated = (if names_preset changes then drop_level merged else merged) in
     bindR (updated_preset updated) (\<lambda>preset.
     (let updated1 = (if has_preset updated then drop_level updated else updated) in
     Inr (set_keys [(''config_revision'', JInt (before + 1)), (''updated_at'', now_iso env)] updated1, preset)))))"

definition handle_update_project_profile :: "env \<Rightarrow> store \<Rightarrow> json \<Rightarrow> reply res" where
  "handle_update_project_profile env s envelope = bindR (target_profile s envelope) (\<lambda>(profile, project_id, current_revision).
     bindR (payload_item envelope ''changes'') (\<lambda>changes_value.
     bindR (jset_of changes_value) (\<lambda>keys.
     bindR (sort_set (set_minus keys (map JStr MUTABLE_SECTIONS))) (\<lambda>unsupported.
     (if unsupported \<noteq> []
       then gateway_error INVARIANT_VIOLATION ''/payload/changes'' else
     bindR (as_obj changes_value) (\<lambda>changes.
     bindR (patched_profile env profile changes current_revision) (\<lambda>(updated, preset).
     bindR (validate_against_schema env (JObj updated) ''project-profile.schema.json'' []) (\<lambda>_.
     bindR (payload_item envelope ''reason'') (\<lambda>reason.
     bindR (jitem envelope ''human_authorization'') (\<lambda>authorization.
     bindR (jget authorization ''granted_by'') (\<lambda>granted_by.
     (let change_id = change_id_of env in
     (let change_document = JObj
       [(''id'', JStr change_id), (''project_id'', JStr project_id), (''previous_revision'', JInt current_revision),
        (''new_revision'', JInt (current_revision + 1)), (''changes'', changes_value), (''reason'', reason),
        (''changed_by'', granted_by), (''changed_at'', now_iso env), (''effective_scope'', JStr ''future_runs''),
        (''resolved_autonomy_preset'', JStr preset)] in
     bindR (validate_against_schema env change_document ''project-profile-change.schema.json'' []) (\<lambda>_.
     bindR (consume_human_authorization env s envelope) (\<lambda>consumed.
     Inr \<lparr>r_affected = [JObj [(''kind'', JStr ''project_profile''), (''id'', JStr project_id), (''revision'', JInt (current_revision + 1))]],
          r_details = JObj [(''change_id'', JStr change_id), (''effective_scope'', JStr ''future_runs''), (''autonomy_preset'', JStr preset)],
          r_events = [change_id],
          r_writes = [consumed, (profile_path, JObj updated), (profile_change_path change_id, change_document)]\<rparr>)))))))))))))))"

section \<open>An update changes only the mutable sections, and is not lost\<close>

lemma merged_section:
  "k \<notin> fst ` set patch \<Longrightarrow>
    map_of (fold (\<lambda>(key, v) result. AList.update key (f key v) result) patch base) k = map_of base k"
  by (induction patch arbitrary: base) auto

lemma merge_profile_other: "k \<notin> fst ` set patch \<Longrightarrow> map_of (merge_profile base patch) k = map_of base k"
  using merged_section [of k patch "\<lambda>key v. if ohas base key then merge_section (oget base key) v else v"]
  by (simp add: merge_profile_def)

lemma drop_level_other: "k \<noteq> ''autonomy'' \<Longrightarrow> map_of (drop_level ob) k = map_of ob k"
  by (simp add: drop_level_def split: json.split)

lemma set_keys_other: "k \<notin> fst ` set kvs \<Longrightarrow> oget (set_keys kvs ob) k = oget ob k"
  by (simp add: oget_def map_of_set_keys_other)

lemma updated_preset_Inr: "updated_preset ob = Inr p \<longleftrightarrow>
    (\<exists>au. por (oget ob ''autonomy'') (JObj []) = JObj au \<and> resolve_project_preset (JObj au) = Inr p)"
  by (cases "por (oget ob ''autonomy'') (JObj [])") (auto simp: updated_preset_def split: sum.splits pyexc.splits)

text \<open>Dropping the level beside a named preset does not change what the profile resolves to.\<close>

lemma drop_level_preset:
  assumes "updated_preset ob = Inr p" and "has_preset ob"
  shows "updated_preset (drop_level ob) = Inr p"
proof -
  obtain au where au: "oget ob ''autonomy'' = JObj au" "truthy (oget au ''preset'')"
    using assms(2) by (auto simp: has_preset_def split: json.splits)
  then have "oget au ''preset'' \<noteq> JNull" "au \<noteq> []" by auto
  moreover from this(1) have "oget (opop ''level'' au) ''preset'' \<noteq> JNull" by simp
  then have "opop ''level'' au \<noteq> []" by (metis oget_Nil)
  ultimately show ?thesis
    using assms(1) au unfolding updated_preset_Inr
    by (auto simp: drop_level_def por_def resolve_project_preset_def split: if_splits option.splits)
qed

lemma patched:
  assumes "patched_profile env ob changes n = Inr (new, preset)"
  shows "k \<notin> fst ` set changes \<union> {''autonomy'', ''config_revision'', ''updated_at''} \<Longrightarrow> map_of new k = map_of ob k"
    and "oget new ''config_revision'' = JInt (n + 1)" and "map_of new ''config_revision'' = Some (JInt (n + 1))"
    and "updated_preset new = Inr preset"
    and "has_preset new \<Longrightarrow> jget (oget new ''autonomy'') ''level'' = Inr JNull"
proof -
  let ?base = "if names_preset changes then drop_level (merge_profile ob changes) else merge_profile ob changes"
  let ?m = "if has_preset ?base then drop_level ?base else ?base"
  have new: "new = set_keys [(''config_revision'', JInt (n + 1)), (''updated_at'', now_iso env)] ?m" "updated_preset ?base = Inr preset"
    using assms by (auto simp: patched_profile_def Let_def)
  then show "map_of new k = map_of ob k" if "k \<notin> fst ` set changes \<union> {''autonomy'', ''config_revision'', ''updated_at''}"
    using that by (simp add: map_of_set_keys_other drop_level_other merge_profile_other)
  show "oget new ''config_revision'' = JInt (n + 1)" "map_of new ''config_revision'' = Some (JInt (n + 1))"
    unfolding new(1) by (simp_all add: set_keys_Cons)
  have autonomy: "oget new ''autonomy'' = oget ?m ''autonomy''"
    unfolding new(1) by (rule set_keys_other) simp
  then have same: "updated_preset new = updated_preset ?m" "has_preset new = has_preset ?m"
    by (simp_all only: updated_preset_def has_preset_def)
  show "updated_preset new = Inr preset" unfolding same using new(2) drop_level_preset by simp
  show "jget (oget new ''autonomy'') ''level'' = Inr JNull" if "has_preset new"
    using that unfolding same autonomy
    by (auto simp: has_preset_def drop_level_def split: if_splits json.splits)
qed

lemma profile_updated:
  assumes "handle_update_project_profile env s e = Inr r"
  obtains old ob n changes new preset target expected where "map_of s profile_path = Some (Doc old)" "por old (JObj []) = JObj ob"
    "bindR (jget_or (JObj ob) ''config_revision'' (JInt 1)) py_int = Inr n" "jitem e ''target'' = Inr target"
    "jitem target ''expected_revision'' = Inr expected" "py_eq expected (JInt n)"
    "fst ` set changes \<subseteq> set MUTABLE_SECTIONS" "patched_profile env ob changes n = Inr (new, preset)"
    "map_of (apply_writes (r_writes r) s) profile_path = Some (Doc (JObj new))"
    "jget (r_details r) ''autonomy_preset'' = Inr (JStr preset)"
proof -
  obtain ob i n cv keys changes new preset consumed c d where h: "target_profile s e = Inr (ob, i, n)"
    "jset_of cv = Inr keys" "sort_set (set_minus keys (map JStr MUTABLE_SECTIONS)) = Inr []" "as_obj cv = Inr changes"
    "patched_profile env ob changes n = Inr (new, preset)" "consume_human_authorization env s e = Inr consumed"
    "r_writes r = [consumed, (profile_path, JObj new), (profile_change_path c, d)]"
    "jget (r_details r) ''autonomy_preset'' = Inr (JStr preset)"
    using assms unfolding handle_update_project_profile_def Let_def bindR_eq_Inr if_raise_eq_Inr case_prod_eq_Inr
    by (elim exE conjE, hypsubst+) (rule that, assumption, assumption, simp, assumption+, auto)
  obtain old target expected where t: "map_of s profile_path = Some (Doc old)" "por old (JObj []) = JObj ob"
    "bindR (jget_or (JObj ob) ''config_revision'' (JInt 1)) py_int = Inr n" "jitem e ''target'' = Inr target"
    "jitem target ''expected_revision'' = Inr expected" "py_eq expected (JInt n)"
    using h(1) unfolding target_profile_def Let_def bindR_eq_Inr if_raise_eq_Inr load_or_not_found_Inr
    by (elim exE conjE) (rule that, assumption, auto simp: as_obj_eq_Inr)
  have "set_minus keys (map JStr MUTABLE_SECTIONS) = []"
    using sort_set_mem [OF h(3)] by (cases "set_minus keys (map JStr MUTABLE_SECTIONS)") auto
  moreover have "keys = map (JStr \<circ> fst) changes"
    using h(2,4) by (auto simp: as_obj_eq_Inr jset_of_def)
  ultimately have "fst ` set changes \<subseteq> set MUTABLE_SECTIONS" by (fastforce simp: set_minus_Nil)
  moreover obtain a doc where "consumed = (authorization_path a, doc)"
    using h(6) by (auto simp: consume_human_authorization_def Let_def)
  then have "map_of (apply_writes (r_writes r) s) profile_path = Some (Doc (JObj new))"
    unfolding h(7) by (simp add: authorization_path_def profile_path_def profile_change_path_def)
  ultimately show thesis by (intro that [OF t _ h(5) _ h(8)])
qed

text \<open>
  C28. A profile update keeps every section that is not mutable (the project, its validation level,
  its required gates), counts its revision up by one, and stores a profile that resolves to the
  autonomy preset it reports, with no legacy level beside a named preset.
\<close>

theorem profile_update_keeps_immutable_sections:
  assumes "handle_update_project_profile env s e = Inr r"
  shows "\<exists>old new n preset. map_of s profile_path = Some (Doc old) \<and>
    map_of (apply_writes (r_writes r) s) profile_path = Some (Doc (JObj new)) \<and>
    (\<forall>k. k \<notin> set MUTABLE_SECTIONS \<union> {''config_revision'', ''updated_at''} \<longrightarrow>
       jget (JObj new) k = jget (por old (JObj [])) k) \<and>
    bindR (jget_or (por old (JObj [])) ''config_revision'' (JInt 1)) py_int = Inr n \<and> oget new ''config_revision'' = JInt (n + 1) \<and>
    jget (r_details r) ''autonomy_preset'' = Inr (JStr preset) \<and> updated_preset new = Inr preset \<and>
    (has_preset new \<longrightarrow> jget (oget new ''autonomy'') ''level'' = Inr JNull)"
proof -
  obtain old ob n changes new preset where h: "map_of s profile_path = Some (Doc old)" "por old (JObj []) = JObj ob"
    "bindR (jget_or (JObj ob) ''config_revision'' (JInt 1)) py_int = Inr n" "fst ` set changes \<subseteq> set MUTABLE_SECTIONS"
    "patched_profile env ob changes n = Inr (new, preset)"
    "map_of (apply_writes (r_writes r) s) profile_path = Some (Doc (JObj new))" "jget (r_details r) ''autonomy_preset'' = Inr (JStr preset)"
    using assms by (rule profile_updated)
  have "oget new k = oget ob k" if "k \<notin> set MUTABLE_SECTIONS \<union> {''config_revision'', ''updated_at''}" for k
  proof -
    have "''autonomy'' \<in> set MUTABLE_SECTIONS" by (simp add: MUTABLE_SECTIONS_def)
    then have "k \<notin> fst ` set changes \<union> {''autonomy'', ''config_revision'', ''updated_at''}" using that h(4) by blast
    from patched(1) [OF h(5) this] show ?thesis by (simp add: oget_def)
  qed
  then have "\<forall>k. k \<notin> set MUTABLE_SECTIONS \<union> {''config_revision'', ''updated_at''} \<longrightarrow>
      jget (JObj new) k = jget (por old (JObj [])) k" unfolding h(2) by simp
  moreover have "has_preset new \<longrightarrow> jget (oget new ''autonomy'') ''level'' = Inr JNull" using patched(5) [OF h(5)] ..
  ultimately show ?thesis using h(1,6,7) h(3) [folded h(2)] patched(2,4) [OF h(5)]
    by - (intro exI conjI, assumption+)
qed

text \<open>
  No profile update is lost: after an update, a command that was prepared against the same
  revision is refused in every later state that keeps the profile.
\<close>

theorem profile_update_is_not_lost:
  assumes "handle_update_project_profile env s e = Inr r"
    and "bindR (jitem e' ''target'') (\<lambda>t. jitem t ''expected_revision'') = bindR (jitem e ''target'') (\<lambda>t. jitem t ''expected_revision'')"
    and "map_of s' profile_path = map_of (apply_writes (r_writes r) s) profile_path"
  shows "handle_update_project_profile env' s' e' \<noteq> Inr r'"
proof
  assume again: "handle_update_project_profile env' s' e' = Inr r'"
  obtain ob n changes new preset target expected where h: "jitem e ''target'' = Inr target"
    "jitem target ''expected_revision'' = Inr expected" "py_eq expected (JInt n)" "patched_profile env ob changes n = Inr (new, preset)"
    "map_of (apply_writes (r_writes r) s) profile_path = Some (Doc (JObj new))"
    using assms(1) by (rule profile_updated)
  obtain old ob' n' target' expected' where h': "map_of s' profile_path = Some (Doc old)" "por old (JObj []) = JObj ob'"
    "bindR (jget_or (JObj ob') ''config_revision'' (JInt 1)) py_int = Inr n'" "jitem e' ''target'' = Inr target'"
    "jitem target' ''expected_revision'' = Inr expected'" "py_eq expected' (JInt n')"
    using again by (rule profile_updated)
  have "ob' = new" using h(5) h'(1,2) assms(3) by (cases "new = []") (auto simp: por_def)
  then have "n' = n + 1" using h'(3) patched(3) [OF h(4)] by simp
  moreover have "expected' = expected" using assms(2) h(1,2) h'(4,5) by simp
  ultimately show False using h(3) h'(6) by (cases expected) auto
qed

section \<open>Witnesses\<close>

definition demo_profile :: json where
  "demo_profile = JObj [(''project'', JObj [(''id'', JStr ''P'')]), (''config_revision'', JInt 3), (''autonomy'', JObj [(''level'', JInt 1)])]"

definition demo_change :: json where
  "demo_change = JObj
     [(''target'', JObj [(''id'', JStr ''P''), (''expected_revision'', JInt 3)]),
      (''human_authorization'', JObj [(''granted_by'', JStr ''ada''), (''authorization_id'', JStr ''H'')]),
      (''payload'', JObj [(''reason'', JStr ''pilot''),
         (''changes'', JObj [(''autonomy'', JObj [(''preset'', JStr ''supervised_copilots'')])])])]"

lemma demo_changed: "\<exists>r. handle_update_project_profile (demo_env 0) [(profile_path, Doc demo_profile)] demo_change = Inr r"
  by (simp add: handle_update_project_profile_def target_profile_def demo_profile_def demo_change_def load_or_not_found_def
      is_file_def read_yaml_def por_def py_str_def payload_item_def jset_of_def set_minus_def MUTABLE_SECTIONS_def sort_set_def
      patched_profile_def merge_profile_def names_preset_def has_preset_def drop_level_def updated_preset_def
      resolve_project_preset_def NAMED_AUTONOMY_PRESETS_def opop_def set_keys_Cons consume_human_authorization_def
      authorization_path_def profile_path_def validate_against_schema_def demo_env_def Let_def)

theorem profile_update_keeps_immutable_sections_witness:
  "\<exists>r new. handle_update_project_profile (demo_env 0) [(profile_path, Doc demo_profile)] demo_change = Inr r \<and>
    map_of (apply_writes (r_writes r) [(profile_path, Doc demo_profile)]) profile_path = Some (Doc (JObj new)) \<and>
    oget new ''project'' = JObj [(''id'', JStr ''P'')] \<and> oget new ''config_revision'' = JInt 4"
proof -
  obtain r where r: "handle_update_project_profile (demo_env 0) [(profile_path, Doc demo_profile)] demo_change = Inr r"
    using demo_changed by blast
  define s' where s': "s' = apply_writes (r_writes r) [(profile_path, Doc demo_profile)]"
  obtain old new n where h: "map_of [(profile_path, Doc demo_profile)] profile_path = Some (Doc old)"
    "map_of s' profile_path = Some (Doc (JObj new))"
    "\<forall>k. k \<notin> set MUTABLE_SECTIONS \<union> {''config_revision'', ''updated_at''} \<longrightarrow> jget (JObj new) k = jget (por old (JObj [])) k"
    "bindR (jget_or (por old (JObj [])) ''config_revision'' (JInt 1)) py_int = Inr n" "oget new ''config_revision'' = JInt (n + 1)"
    using profile_update_keeps_immutable_sections [OF r] by (elim exE conjE) (rule that [unfolded s'], assumption+)
  have "por old (JObj []) = demo_profile" using h(1) by (auto simp: demo_profile_def por_def)
  moreover have "''project'' \<notin> set MUTABLE_SECTIONS \<union> {''config_revision'', ''updated_at''}" by (simp add: MUTABLE_SECTIONS_def)
  ultimately have "jget (JObj new) ''project'' = jget demo_profile ''project''" "n = 3"
    using h(3,4) by (simp_all add: demo_profile_def)
  then show ?thesis using r h(2,5) unfolding s' by (auto simp: demo_profile_def)
qed

theorem profile_update_is_not_lost_witness:
  "\<exists>r. handle_update_project_profile (demo_env 0) [(profile_path, Doc demo_profile)] demo_change = Inr r \<and>
    (\<forall>r'. handle_update_project_profile (demo_env 9) (apply_writes (r_writes r) [(profile_path, Doc demo_profile)]) demo_change \<noteq> Inr r')"
proof -
  obtain r where r: "handle_update_project_profile (demo_env 0) [(profile_path, Doc demo_profile)] demo_change = Inr r"
    using demo_changed by blast
  from profile_update_is_not_lost [OF r refl refl] r show ?thesis by blast
qed

end
