(* ===== verification/Gateway.thy ===== *)
theory Gateway
  imports GrantCommands GateDecisions TransactionRecovery CloseSafety HumanFeedback ProfileCommands
begin

text \<open>
  The command gateway (\<open>core/commands/gateway.py\<close>) with its receipts (\<open>receipt.py\<close>) and its
  idempotency store (\<open>core/persistence/idempotency.py\<close>). One call of \<open>execute_command\<close> is one step:
  it holds the project lock, so \<open>lock_free\<close> says whether the lock was obtained before the
  timeout. The state is the disk of the transaction model, whose files are the documents under
  \<open>.ai-team/\<close>, and the records of the idempotency store by the digest of their key. A
  transaction directory that a rejected command leaves behind is empty, which recovery ignores,
  so a rejection returns the state it started from. The human-readable message of an error is
  left out of the rejected receipt.
\<close>

section \<open>Receipts\<close>

definition error_name :: "ErrorCode \<Rightarrow> string" where
  "error_name c = (case c of
     INVALID_SCHEMA \<Rightarrow> ''INVALID_SCHEMA'' | UNAUTHORIZED \<Rightarrow> ''UNAUTHORIZED''
   | HUMAN_AUTH_REQUIRED \<Rightarrow> ''HUMAN_AUTH_REQUIRED'' | CONFLICT \<Rightarrow> ''CONFLICT''
   | INVALID_TRANSITION \<Rightarrow> ''INVALID_TRANSITION'' | INVARIANT_VIOLATION \<Rightarrow> ''INVARIANT_VIOLATION''
   | NOT_FOUND \<Rightarrow> ''NOT_FOUND'' | ALREADY_EXISTS \<Rightarrow> ''ALREADY_EXISTS''
   | IDEMPOTENCY_MISMATCH \<Rightarrow> ''IDEMPOTENCY_MISMATCH'' | UNSUPPORTED_CONTRACT \<Rightarrow> ''UNSUPPORTED_CONTRACT''
   | CAPABILITY_NOT_ENFORCEABLE \<Rightarrow> ''CAPABILITY_NOT_ENFORCEABLE''
   | TRANSACTION_RECOVERY_REQUIRED \<Rightarrow> ''TRANSACTION_RECOVERY_REQUIRED''
   | INTERNAL_ERROR \<Rightarrow> ''INTERNAL_ERROR'')"

definition error_dict :: "ErrorCode \<Rightarrow> string \<Rightarrow> json" where
  "error_dict c path =
     JObj ((''code'', JStr (error_name c)) # (if path = [] then [] else [(''path'', JStr path)]))"

definition build_receipt ::
  "json \<Rightarrow> json \<Rightarrow> string \<Rightarrow> json list \<Rightarrow> string list \<Rightarrow> json list \<Rightarrow> json \<Rightarrow> json" where
  "build_receipt command_id tx_id status affected domain_events errors details =
     JObj ([(''command_id'', command_id), (''transaction_id'', tx_id), (''status'', JStr status),
            (''affected'', JList affected), (''domain_events'', JList (map JStr domain_events)),
            (''errors'', JList errors)] @ (if truthy details then [(''details'', details)] else []))"

definition build_rejected_receipt :: "json \<Rightarrow> ErrorCode \<Rightarrow> string \<Rightarrow> json" where
  "build_rejected_receipt command_id c path =
     build_receipt command_id JNull ''rejected'' [] [] [error_dict c path] JNull"

section \<open>Idempotency\<close>

text \<open>What a command is compared by when its key is used again.\<close>

definition payload_fingerprint :: "(string \<Rightarrow> string) \<Rightarrow> json \<Rightarrow> string res" where
  "payload_fingerprint hash envelope = bindR (mapR (\<lambda>k. bindR (jget envelope k) (\<lambda>v. Inr (k, v)))
       [''type'', ''actor'', ''target'', ''payload'', ''human_authorization'']) (\<lambda>material.
     Inr (hash (canonical_json (JObj material))))"

type_synonym idempotency = "(string \<times> json) list"

definition lookup_record :: "(string \<Rightarrow> string) \<Rightarrow> idempotency \<Rightarrow> string \<Rightarrow> string \<Rightarrow> json option res" where
  "lookup_record hash records idempotency_key payload_hash =
     (case map_of records (hash idempotency_key) of
        None \<Rightarrow> Inr None
      | Some found \<Rightarrow> bindR (jitem found ''payload_hash'') (\<lambda>stored_hash.
          (if stored_hash \<noteq> JStr payload_hash then gateway_error IDEMPOTENCY_MISMATCH ''/idempotency_key'' else
          bindR (jitem found ''receipt'') (\<lambda>receipt.
          Inr (Some receipt)))))"

definition store_record ::
  "(string \<Rightarrow> string) \<Rightarrow> string \<Rightarrow> string \<Rightarrow> json \<times> json \<Rightarrow> idempotency \<Rightarrow> idempotency" where
  "store_record hash idempotency_key payload_hash = (\<lambda>(receipt, stored_at).
     AList.update (hash idempotency_key)
       (JObj [(''idempotency_key'', JStr idempotency_key), (''payload_hash'', JStr payload_hash),
              (''receipt'', receipt), (''stored_at'', stored_at)]))"

section \<open>The handlers\<close>

type_synonym handler = "env \<Rightarrow> store \<Rightarrow> json \<Rightarrow> reply res"

text \<open>
  What a gateway is built on: the roles of the active bundle, the workspace, the lock, the hash
  of a document, the checks of the design authority, and the handlers that are not modelled.
\<close>

record config =
  active_bundle :: "role_docs res"
  gateway_workspace :: workspace
  lock_free :: bool
  document_hash :: "dfile \<Rightarrow> string"
  visual_conformance :: "json \<Rightarrow> json res"
  design_readiness :: "json \<Rightarrow> json res"
  other_handlers :: "(string \<times> handler) list"

definition HANDLERS :: "config \<Rightarrow> (string \<times> handler) list" where
  "HANDLERS cfg =
     [(''CreateWorkUnit'', handle_create_work_unit (gateway_workspace cfg)),
      (''EscalateWorkUnitRisk'', handle_escalate_work_unit_risk),
      (''TransitionWorkUnit'', handle_transition_work_unit (visual_conformance cfg)),
      (''CreateDecisionRequest'', handle_create_decision_request),
      (''ResolveDecisionRequest'', handle_resolve_decision_request),
      (''RecordGateDecision'',
         handle_record_gate_decision (design_readiness cfg) (visual_conformance cfg) (gateway_workspace cfg)),
      (''RecordAcceptance'', handle_record_acceptance),
      (''RecordHumanFeedback'', handle_record_human_feedback),
      (''ReconcileHumanFeedback'', handle_reconcile_human_feedback),
      (''RegisterReleaseCandidate'', handle_register_release_candidate (gateway_workspace cfg)),
      (''RegisterFinding'', handle_register_finding),
      (''RegisterEvidence'', handle_register_evidence (gateway_workspace cfg)),
      (''OpenRun'', handle_open_run),
      (''AcquireWorkerLease'', handle_acquire_worker_lease),
      (''RecordExecutionAttempt'', handle_record_execution_attempt),
      (''WriteCheckpoint'', handle_write_checkpoint),
      (''CloseRun'', handle_close_run),
      (''IssueRunAuthorizationGrant'', handle_issue_run_authorization_grant),
      (''RevokeRunAuthorizationGrant'', handle_revoke_run_authorization_grant),
      (''ResolveRunDecision'', handle_resolve_run_decision),
      (''TightenExecutionCeiling'', handle_tighten_execution_ceiling),
      (''RecordIntegrationMerge'', handle_record_integration_merge),
      (''RecordWorkerHeartbeat'', handle_record_worker_heartbeat),
      (''ReleaseWorkerLease'', handle_release_worker_lease),
      (''RegisterMissionArtifact'', handle_register_mission_artifact),
      (''RecordMissionArtifactChallenge'', handle_record_mission_artifact_challenge),
      (''UpdateProjectProfile'', handle_update_project_profile)]
     @ other_handlers cfg"

definition find_handler :: "config \<Rightarrow> json \<Rightarrow> handler res" where
  "find_handler cfg command_type = bindR (key_of command_type) (\<lambda>key.
     (case Option.bind key (map_of (HANDLERS cfg)) of
        None \<Rightarrow> gateway_error UNSUPPORTED_CONTRACT ''/type''
      | Some handler \<Rightarrow> Inr handler))"

section \<open>Executing a command\<close>

record gstate =
  disk :: "dfile disk"
  records_kept :: idempotency

text \<open>The transaction of a reply: every write is planned on the files the handler read.\<close>

definition plan_all :: "config \<Rightarrow> dfile disk \<Rightarrow> string \<Rightarrow> (string \<times> json) list \<Rightarrow> dfile transaction" where
  "plan_all cfg d tx_id ws =
     fold (\<lambda>(p, j). plan_write (document_hash cfg) d p (Doc j)) ws (fst (begin_transaction tx_id d))"

definition transaction_id_of :: "env \<Rightarrow> string" where
  "transaction_id_of env = ''TX-'' @ uuid env"

definition accepted_receipt :: "env \<Rightarrow> json \<Rightarrow> reply \<Rightarrow> json" where
  "accepted_receipt env command_id r =
     build_receipt command_id (JStr (transaction_id_of env)) ''accepted'' (r_affected r) (r_events r) [] (r_details r)"

text \<open>The checks before the lock, and what they yield: type, key and fingerprint.\<close>

definition admit :: "config \<Rightarrow> env \<Rightarrow> gstate \<Rightarrow> json \<Rightarrow> (json \<times> json \<times> string) res" where
  "admit cfg env g envelope = bindR (ensure_client_cycle_allowed (gateway_workspace cfg)) (\<lambda>cycle.
     bindR (jitem envelope ''type'') (\<lambda>command_type.
     bindR (in_strs command_type GATEWAY_COMMANDS_WITHOUT_OUT_OF_TREE) (\<lambda>exempt.
     bindR ((if exempt then Inr ()
               else ensure_out_of_tree_ensemble_ready (gateway_workspace cfg) (files (disk g)))) (\<lambda>ready.
     bindR (payload_fingerprint (sha env) envelope) (\<lambda>payload_hash.
     (if \<not> lock_free cfg then gateway_error CONFLICT ''/lock'' else
     bindR (jitem envelope ''idempotency_key'') (\<lambda>idempotency_key.
     Inr (command_type, idempotency_key, payload_hash))))))))"

text \<open>\<open>idempotency_key.encode\<close>: a key that is no string has no such method.\<close>

definition key_text :: "json \<Rightarrow> string res" where
  "key_text k = (case k of JStr t \<Rightarrow> Inr t | _ \<Rightarrow> Inl AttributeError)"

definition perform :: "config \<Rightarrow> env \<Rightarrow> dfile disk \<Rightarrow> json \<Rightarrow> json \<Rightarrow> (reply \<times> dfile disk) res" where
  "perform cfg env d command_type envelope = bindR (authorize_command (active_bundle cfg) env (files d) envelope) (\<lambda>authorized.
     bindR (find_handler cfg command_type) (\<lambda>handler.
     bindR (handler env (files d) envelope) (\<lambda>r.
     bindR (commit (document_hash cfg) (sha env) (plan_all cfg d (transaction_id_of env) (r_writes r))
       (snd (begin_transaction (transaction_id_of env) d))) (\<lambda>d1.
     Inr (r, d1)))))"

definition gateway_body :: "config \<Rightarrow> env \<Rightarrow> gstate \<Rightarrow> json \<Rightarrow> (gstate \<times> json) res" where
  "gateway_body cfg env g raw = bindR (parse_envelope raw) (\<lambda>envelope.
     bindR (jitem envelope ''command_id'') (\<lambda>command_id.
     bindR (admit cfg env g envelope) (\<lambda>(command_type, idempotency_key, payload_hash).
     bindR (key_text idempotency_key) (\<lambda>key.
     bindR (lookup_record (sha env) (records_kept g) key payload_hash) (\<lambda>cached.
     (case cached of
        Some receipt \<Rightarrow> Inr (g, receipt)
      | None \<Rightarrow> bindR (perform cfg env (disk g) command_type envelope) (\<lambda>(r, d1).
          (let receipt = accepted_receipt env command_id r in
          Inr (\<lparr>disk = d1, records_kept =
                  store_record (sha env) key payload_hash (receipt, now_iso env) (records_kept g)\<rparr>, receipt)))))))))"

definition rejected_id :: "json \<Rightarrow> json \<Rightarrow> json" where
  "rejected_id raw sent_id =
     por (case parse_envelope raw of Inr _ \<Rightarrow> sent_id | Inl _ \<Rightarrow> JStr (py_str (por sent_id (JStr []))))
       (JStr ''CMD-unknown'')"

definition execute_command :: "config \<Rightarrow> env \<Rightarrow> gstate \<Rightarrow> json \<Rightarrow> (gstate \<times> json \<times> int) res" where
  "execute_command cfg env g raw = bindR (jget raw ''command_id'') (\<lambda>sent_id.
     (case gateway_body cfg env g raw of
        Inr (g1, receipt) \<Rightarrow> Inr (g1, receipt, EXIT_OK)
      | Inl (GatewayError c path) \<Rightarrow>
          Inr (g, build_rejected_receipt (rejected_id raw sent_id) c path, exit_code_for c)
      | Inl e \<Rightarrow> Inl e))"

section \<open>Crashes and recovery\<close>

text \<open>The disk when the process dies after \<open>k\<close> file replacements of the commit of a reply.\<close>

definition interrupted :: "config \<Rightarrow> env \<Rightarrow> nat \<Rightarrow> dfile disk \<Rightarrow> reply \<Rightarrow> dfile disk res" where
  "interrupted cfg env k d r =
     crash_after k (document_hash cfg) (sha env) (plan_all cfg d (transaction_id_of env) (r_writes r))
       (snd (begin_transaction (transaction_id_of env) d))"

definition recover :: "config \<Rightarrow> env \<Rightarrow> dfile disk \<Rightarrow> dfile disk \<times> json res" where
  "recover cfg env d =
     (case recover_transactions (document_hash cfg) (sha env) d of
        (d1, Inl e) \<Rightarrow> (d1, Inl e)
      | (d1, Inr messages) \<Rightarrow>
          (d1, Inr (JObj [(''status'', JStr ''ok''), (''messages'', JList (map JStr messages))])))"

text \<open>\<open>validate_gateway\<close>: the transactions whose journal is prepared; one that cannot be read raises.\<close>

definition is_prepared :: "dfile disk \<Rightarrow> string \<Rightarrow> bool res" where
  "is_prepared d tx_id =
     (case jfile (tx_of d tx_id) of
        None \<Rightarrow> Inr False
      | Some Unreadable \<Rightarrow> Inl (ValueError ''JSONDecodeError'')
      | Some (Journal j) \<Rightarrow> Inr (j_status j = ''prepared''))"

definition validate_gateway :: "dfile disk \<Rightarrow> json res" where
  "validate_gateway d = bindR (filterR (is_prepared d) (filter (\<lambda>i. startswith i ''TX-'') (map fst (tx_dirs d)))) (\<lambda>pending.
     Inr (JObj [(''status'', JStr (if pending = [] then ''ok'' else ''recovery_required'')),
                (''pending_transactions'', JList (map JStr pending))]))"

end
