(* ===== verification/WorkQueue.thy ===== *)
theory WorkQueue
  imports Workspace StatusMachine
begin

text \<open>
  The durable work queue of the supervisor (\<open>core/supervisor/queue.py\<close>): one JSON file per item in
  the queue directory, and one per dead letter. Every operation holds the queue lock, so one
  call is one step. A file is named by its stem; one that is damaged or no object is skipped.
  Durations are microseconds, and every time an operation reads from the clock is its \<open>now\<close>.
\<close>

section \<open>The queue on disk\<close>

record wqueue =
  q_items :: store
  q_dead :: store

definition read_item :: "store \<Rightarrow> string \<Rightarrow> obj option" where
  "read_item s i = (case map_of s i of Some (Doc (JObj ob)) \<Rightarrow> Some ob | _ \<Rightarrow> None)"

definition write_item :: "string \<Rightarrow> obj \<Rightarrow> store \<Rightarrow> store" where
  "write_item i ob s = AList.update i (Doc (JObj ob)) s"

text \<open>\<open>sorted(directory.glob("*.json"))\<close>, as item ids.\<close>

definition sorted_stems :: "store \<Rightarrow> string list" where
  "sorted_stems s = sort_key (\<lambda>i. i @ ''.json'') (remdups (map fst s))"

definition read_all :: "store \<Rightarrow> obj list" where
  "read_all s = List.map_filter (read_item s) (sorted_stems s)"

definition list_items :: "bool \<Rightarrow> wqueue \<Rightarrow> obj list" where
  "list_items include_dead_letter q =
     read_all (q_items q) @ (if include_dead_letter then read_all (q_dead q) else [])"

definition parse_time :: "json \<Rightarrow> int option" where
  "parse_time v = (if truthy v then map_option dt_micros (parse_instant (py_str v)) else None)"

definition later_by :: "int \<Rightarrow> int \<Rightarrow> json" where
  "later_by t delay = JStr (isoformat (t + delay))"

text \<open>\<open>int(document.get(key) or default)\<close>.\<close>

definition int_field :: "obj \<Rightarrow> string \<Rightarrow> int \<Rightarrow> int res" where
  "int_field ob key d = py_int (por (oget ob key) (JInt d))"

section \<open>Enqueue\<close>

fun find_duplicate :: "json \<Rightarrow> obj list \<Rightarrow> obj option res" where
  "find_duplicate dedupe_key [] = Inr None"
| "find_duplicate dedupe_key (existing # rest) =
     (if \<not> py_eq (oget existing ''dedupe_key'') dedupe_key then find_duplicate dedupe_key rest else
      bindR (in_strs (oget existing ''state'') [''queued'', ''leased'', ''acknowledged'']) (\<lambda>pending.
        (if pending then Inr (Some existing) else
        find_duplicate dedupe_key rest)))"

definition item_id_of :: "env \<Rightarrow> string" where
  "item_id_of env = ''Q-'' @ stamp (now env) @ ''-'' @ take 8 (uuid env)"

definition new_item :: "env \<Rightarrow> json \<Rightarrow> json \<Rightarrow> obj \<Rightarrow> int \<Rightarrow> json \<Rightarrow> int \<Rightarrow> obj" where
  "new_item env run_id kind payload delay dedupe_key max_attempts =
     [(''schema_version'', JInt 1), (''id'', JStr (item_id_of env)), (''run_id'', run_id), (''kind'', kind),
      (''state'', JStr ''queued''), (''worker_attempt_state'', JStr ''queued''), (''payload'', JObj payload),
      (''attempt_count'', JInt 0), (''max_attempts'', JInt (max 1 max_attempts)),
      (''next_attempt_at'', later_by (now env) (max 0 delay)), (''lease_id'', JNull), (''lease_epoch'', JInt 0),
      (''created_at'', now_iso env), (''updated_at'', now_iso env), (''dedupe_key'', dedupe_key),
      (''last_error'', JNull)]"

definition enqueue ::
  "env \<Rightarrow> json \<Rightarrow> json \<Rightarrow> obj \<Rightarrow> int \<Rightarrow> json \<Rightarrow> int \<Rightarrow> wqueue \<Rightarrow> (wqueue \<times> obj) res" where
  "enqueue env run_id kind payload delay dedupe_key max_attempts q = bindR ((if truthy dedupe_key then find_duplicate dedupe_key (list_items False q) else Inr None)) (\<lambda>duplicate.
     (case duplicate of
        Some existing \<Rightarrow> Inr (q, existing)
      | None \<Rightarrow>
          (let document = new_item env run_id kind payload delay dedupe_key max_attempts in
           Inr (q\<lparr>q_items := write_item (item_id_of env) document (q_items q)\<rparr>, document))))"

section \<open>Leasing\<close>

definition lease_id_of :: "env \<Rightarrow> string" where
  "lease_id_of env = ''QL-'' @ take 12 (uuid env)"

definition leased_item :: "env \<Rightarrow> json \<Rightarrow> int \<Rightarrow> obj \<Rightarrow> obj res" where
  "leased_item env worker_id visibility current = bindR (int_field current ''lease_epoch'' 0) (\<lambda>epoch.
     bindR (int_field current ''attempt_count'' 0) (\<lambda>attempts.
     Inr (set_keys
       [(''state'', JStr ''leased''), (''worker_attempt_state'', JStr ''leased''),
        (''lease_id'', JStr (lease_id_of env)), (''lease_epoch'', JInt (epoch + 1)), (''leased_by'', worker_id),
        (''attempt_count'', JInt (attempts + 1)),
        (''lease_expires_at'', later_by (now env) (max 1000000 visibility)), (''updated_at'', now_iso env)]
       current)))"

text \<open>The time an item becomes visible: an absent or unreadable one counts as now.\<close>

definition visible_at :: "env \<Rightarrow> obj \<Rightarrow> int" where
  "visible_at env item =
     (case parse_time (oget item ''next_attempt_at'') of None \<Rightarrow> now env | Some t \<Rightarrow> t)"

definition read_queued :: "store \<Rightarrow> string \<Rightarrow> obj option" where
  "read_queued s i =
     (case read_item s i of
        Some current \<Rightarrow> if oget current ''state'' = JStr ''queued'' then Some current else None
      | None \<Rightarrow> None)"

fun lease_loop :: "env \<Rightarrow> json \<Rightarrow> int \<Rightarrow> wqueue \<Rightarrow> obj list \<Rightarrow> (wqueue \<times> obj option) res" where
  "lease_loop env worker_id visibility q [] = Inr (q, None)"
| "lease_loop env worker_id visibility q (item # rest) =
     (if oget item ''state'' \<noteq> JStr ''queued'' \<or> visible_at env item > now env
      then lease_loop env worker_id visibility q rest
      else bindR (jitem (JObj item) ''id'') (\<lambda>own_id.
        (let i = py_str own_id in
        (case read_queued (q_items q) i of
           None \<Rightarrow> lease_loop env worker_id visibility q rest
         | Some current \<Rightarrow> bindR (leased_item env worker_id visibility current) (\<lambda>document.
             (let q1 = q\<lparr>q_items := write_item i document (q_items q)\<rparr> in
             (case read_item (q_items q1) i of
                Some verify \<Rightarrow>
                  if oget verify ''lease_id'' = oget document ''lease_id''
                     \<and> oget verify ''lease_epoch'' = oget document ''lease_epoch''
                  then Inr (q1, Some verify)
                  else lease_loop env worker_id visibility q1 rest
              | None \<Rightarrow> lease_loop env worker_id visibility q1 rest)))))))"

definition lease_next :: "env \<Rightarrow> json \<Rightarrow> int \<Rightarrow> wqueue \<Rightarrow> (wqueue \<times> obj option) res" where
  "lease_next env worker_id visibility q =
     lease_loop env worker_id visibility q (list_items False q)"

section \<open>Reporting on a leased item\<close>

text \<open>The item, if the caller holds its current lease.\<close>

definition held_item :: "store \<Rightarrow> string \<Rightarrow> json \<Rightarrow> int \<Rightarrow> obj res" where
  "held_item s i lease_id lease_epoch =
     (case read_item s i of
        None \<Rightarrow> Inl (KeyError i)
      | Some document \<Rightarrow>
          (if \<not> py_eq (oget document ''lease_id'') lease_id then Inl PermissionError
           else bindR (int_field document ''lease_epoch'' 0) (\<lambda>epoch.
             (if epoch \<noteq> lease_epoch then Inl PermissionError else
             Inr document))))"

definition acknowledge ::
  "env \<Rightarrow> string \<Rightarrow> json \<Rightarrow> int \<Rightarrow> json \<Rightarrow> wqueue \<Rightarrow> (wqueue \<times> obj) res" where
  "acknowledge env i lease_id lease_epoch worker_attempt_state q = bindR (held_item (q_items q) i lease_id lease_epoch) (\<lambda>document.
     (let document1 = set_keys [(''state'', JStr ''acknowledged''),
       (''worker_attempt_state'', worker_attempt_state), (''updated_at'', now_iso env)] document in
     Inr (q\<lparr>q_items := write_item i document1 (q_items q)\<rparr>, document1)))"

definition complete ::
  "env \<Rightarrow> string \<Rightarrow> json \<Rightarrow> int \<Rightarrow> json \<Rightarrow> obj \<Rightarrow> wqueue \<Rightarrow> (wqueue \<times> obj) res" where
  "complete env i lease_id lease_epoch worker_attempt_state result q = bindR (held_item (q_items q) i lease_id lease_epoch) (\<lambda>document.
     (let document1 = set_keys [(''state'', JStr ''completed''),
       (''worker_attempt_state'', worker_attempt_state), (''result'', JObj result), (''updated_at'', now_iso env)] document in
     Inr (q\<lparr>q_items := write_item i document1 (q_items q)\<rparr>, document1)))"

definition dead_document :: "env \<Rightarrow> json \<Rightarrow> obj \<Rightarrow> obj" where
  "dead_document env error document = set_keys
     [(''state'', JStr ''dead_letter''), (''worker_attempt_state'', JStr ''failed''), (''last_error'', error),
      (''updated_at'', now_iso env)] document"

text \<open>\<open>source or _read_item(path)\<close>: an empty source is read again.\<close>

definition dead_letter :: "env \<Rightarrow> string \<Rightarrow> json \<Rightarrow> obj option \<Rightarrow> wqueue \<Rightarrow> (wqueue \<times> obj) res" where
  "dead_letter env i error source q =
     (case (if source = None \<or> source = Some [] then read_item (q_items q) i else source) of
        None \<Rightarrow> Inl (KeyError i)
      | Some document \<Rightarrow>
          Inr (\<lparr>q_items = AList.delete i (q_items q),
                q_dead = write_item i (dead_document env error document) (q_dead q)\<rparr>,
               dead_document env error document))"

definition fail_item ::
  "env \<Rightarrow> string \<Rightarrow> json \<Rightarrow> int \<Rightarrow> json \<Rightarrow> int \<Rightarrow> json \<Rightarrow> wqueue \<Rightarrow> (wqueue \<times> obj) res" where
  "fail_item env i lease_id lease_epoch error retry_delay worker_attempt_state q = bindR (held_item (q_items q) i lease_id lease_epoch) (\<lambda>document.
     (let document1 = set_keys [(''last_error'', error), (''updated_at'', now_iso env)] document in
     bindR (int_field document1 ''attempt_count'' 0) (\<lambda>attempts.
     bindR (int_field document1 ''max_attempts'' 1) (\<lambda>max_attempts.
     (if attempts \<ge> max_attempts then dead_letter env i error (Some document1) q else
     (let document2 = set_keys
       [(''state'', JStr ''queued''), (''worker_attempt_state'', JStr ''queued''), (''lease_id'', JNull),
        (''next_attempt_at'', later_by (now env) (max 0 retry_delay)),
        (''worker_attempt_state_on_fail'', worker_attempt_state)] document1 in
     Inr (q\<lparr>q_items := write_item i document2 (q_items q)\<rparr>, document2)))))))"

section \<open>Reclaiming\<close>

definition has_expired :: "env \<Rightarrow> obj \<Rightarrow> bool" where
  "has_expired env item =
     (case parse_time (oget item ''lease_expires_at'') of None \<Rightarrow> False | Some t \<Rightarrow> t \<le> now env)"

definition reclaimed_item :: "env \<Rightarrow> obj \<Rightarrow> obj" where
  "reclaimed_item env current = set_keys
     [(''state'', JStr ''queued''), (''worker_attempt_state'', JStr ''orphaned''), (''lease_id'', JNull),
      (''next_attempt_at'', now_iso env),
      (''last_error'', JObj [(''code'', JStr ''lease_expired''),
                             (''message'', JStr ''queue lease visibility timeout elapsed'')]),
      (''updated_at'', now_iso env)] current"

text \<open>The loop keeps what it wrote also when a later item raises.\<close>

fun reclaim_loop :: "env \<Rightarrow> wqueue \<Rightarrow> obj list \<Rightarrow> obj list \<Rightarrow> wqueue \<times> obj list res" where
  "reclaim_loop env q reclaimed [] = (q, Inr reclaimed)"
| "reclaim_loop env q reclaimed (item # rest) =
     (case in_strs (oget item ''state'') [''leased'', ''acknowledged''] of
        Inl e \<Rightarrow> (q, Inl e)
      | Inr active \<Rightarrow>
          if \<not> active \<or> \<not> has_expired env item then reclaim_loop env q reclaimed rest
          else (case jitem (JObj item) ''id'' of
                  Inl e \<Rightarrow> (q, Inl e)
                | Inr own_id \<Rightarrow>
                    (case read_item (q_items q) (py_str own_id) of
                       None \<Rightarrow> reclaim_loop env q reclaimed rest
                     | Some current \<Rightarrow>
                         reclaim_loop env
                           (q\<lparr>q_items := write_item (py_str own_id) (reclaimed_item env current) (q_items q)\<rparr>)
                           (reclaimed @ [reclaimed_item env current]) rest)))"

definition reclaim_expired_leases :: "env \<Rightarrow> wqueue \<Rightarrow> wqueue \<times> obj list res" where
  "reclaim_expired_leases env q = reclaim_loop env q [] (list_items False q)"

end
