(* ===== verification/Progress.thy ===== *)
theory Progress
  imports WorkQueue AutonomyPolicy
begin

text \<open>
  The useful progress of a Run (\<open>core/orchestrator/progress.py\<close>). Times are microseconds in UTC;
  a duration that Python rounds to microseconds, and the minutes it rounds for display, are
  rounded half to even.
\<close>

section \<open>Rounding\<close>

definition half_even :: "rat \<Rightarrow> int" where
  "half_even q = (let f = \<lfloor>q\<rfloor>; d = q - of_int f in
     if d < 1 / 2 \<or> (d = 1 / 2 \<and> even f) then f else f + 1)"

definition duration_us :: "rat \<Rightarrow> int" where
  "duration_us seconds = half_even (seconds * 1000000)"

lemma duration_us_int [simp]: "duration_us (of_int n) = n * 1000000"
proof -
  have "(of_int n :: rat) * 1000000 = of_int (n * 1000000)" by simp
  then show ?thesis unfolding duration_us_def half_even_def by (simp only: floor_of_int) simp
qed

lemma duration_us_numeral [simp]: "duration_us (numeral n) = numeral n * 1000000"
  using duration_us_int [of "numeral n"] by (simp only: of_int_numeral)

section \<open>Documents\<close>

text \<open>\<open>yaml.safe_load(...) or {}\<close> of a file that can be read, if it is a mapping.\<close>

definition yaml_document :: "store \<Rightarrow> string \<Rightarrow> obj option" where
  "yaml_document s p =
     (case map_of s p of
        Some (Doc j) \<Rightarrow> (case por j (JObj []) of JObj ob \<Rightarrow> Some ob | _ \<Rightarrow> None)
      | _ \<Rightarrow> None)"

definition yaml_documents :: "store \<Rightarrow> string \<Rightarrow> obj list" where
  "yaml_documents s directory = List.map_filter (yaml_document s) (glob_yaml s directory)"

section \<open>Evaluation\<close>

text \<open>The leases the Run holds: the keys of its current leases.\<close>

definition current_lease_ids :: "json \<Rightarrow> string list res" where
  "current_lease_ids run_document = bindR (jget run_document ''leases_by_work_unit'') (\<lambda>leases.
     bindR (as_obj (por leases (JObj []))) (\<lambda>refs.
     bindR (mapR (\<lambda>(_, ref). jget ref ''lease_id'') refs) (\<lambda>ids.
     Inr (map py_str (filter truthy ids)))))"

definition is_active_attempt :: "string list \<Rightarrow> obj \<Rightarrow> bool" where
  "is_active_attempt lease_ids attempt \<longleftrightarrow> oget attempt ''status'' = JStr ''started''
     \<and> parse_time (oget attempt ''started_at'') \<noteq> None \<and> py_str (oget attempt ''worker_lease_id'') \<in> set lease_ids"

text \<open>Id and deadline of an active attempt: its start and the timeout of its step.\<close>

definition attempt_deadline :: "json \<Rightarrow> obj \<Rightarrow> (string \<times> int) res" where
  "attempt_deadline run_document attempt = bindR (jget run_document ''effective_autonomy_policy'') (\<lambda>policy.
     bindR (resolve_step_timeout_seconds policy (py_str (por (oget attempt ''step'') (JStr []))) None) (\<lambda>timeout.
     Inr (py_str (oget attempt ''id''), the (parse_time (oget attempt ''started_at'')) + duration_us timeout)))"

text \<open>The statuses of the work units that can be read, and the times of useful progress.\<close>

definition work_unit_documents :: "store \<Rightarrow> json list \<Rightarrow> obj list" where
  "work_unit_documents s ids = List.map_filter (\<lambda>i. yaml_document s (work_unit_path (JStr (py_str i)))) ids"

definition progress_times :: "json \<Rightarrow> obj list \<Rightarrow> obj list \<Rightarrow> int list res" where
  "progress_times run_document work_units attempts = bindR (jget run_document ''created_at'') (\<lambda>created.
     bindR (jget run_document ''opened_at'') (\<lambda>opened.
     Inr (List.map_filter parse_time
       ([created, opened] @ map (\<lambda>w. oget w ''updated_at'') work_units
        @ map (\<lambda>a. oget a ''ended_at'') (filter (\<lambda>a. oget a ''status'' \<noteq> JStr ''started'') attempts)))))"

definition stalled_threshold :: "json \<Rightarrow> rat res" where
  "stalled_threshold run_document = bindR (jget run_document ''effective_autonomy_policy'') (\<lambda>policy.
     bindR (jget (por policy (JObj [])) ''execution'') (\<lambda>execution.
     bindR (jget_or (por execution (JObj [])) ''stalled_after_minutes'' (JInt 15)) (\<lambda>minutes.
     py_float minutes)))"

definition maximum :: "int list \<Rightarrow> int \<Rightarrow> int" where
  "maximum xs d = (if xs = [] then d else Max (set xs))"

definition progress_state :: "bool \<Rightarrow> (string \<times> int) list \<Rightarrow> int \<Rightarrow> rat \<Rightarrow> rat \<Rightarrow> string" where
  "progress_state all_blocked active observed_at minutes threshold =
     (if all_blocked \<and> active = [] then ''blocked_needs_human''
      else if active \<noteq> [] \<and> Max (snd ` set active) > observed_at then ''working''
      else if minutes \<ge> threshold then ''stalled_no_progress''
      else ''progressing'')"

definition run_attempts :: "store \<Rightarrow> string \<Rightarrow> obj list" where
  "run_attempts s run_id =
     filter (\<lambda>a. py_eq (oget a ''run_id'') (JStr run_id)) (yaml_documents s ''runs/execution-attempts'')"

definition evaluate_run_progress :: "env \<Rightarrow> store \<Rightarrow> json \<Rightarrow> json res" where
  "evaluate_run_progress env s run_document = bindR (jget run_document ''id'') (\<lambda>own_id.
     (let run_id = py_str (por own_id (JStr [])) in
     bindR (jget run_document ''status'') (\<lambda>status.
     bindR (jget run_document ''updated_at'') (\<lambda>updated_at.
     (if status \<noteq> JStr ''active'' then        Inr (JObj [(''state'', JStr ''terminal''), (''run_id'', JStr run_id), (''last_progress_at'', updated_at),
                  (''minutes_without_progress'', JFloat 0), (''active_attempt_ids'', JList [])]) else
     bindR (jget run_document ''work_unit_ids'') (\<lambda>listed.
     bindR (jiter (por listed (JList []))) (\<lambda>work_unit_ids.
     (let work_units = work_unit_documents s work_unit_ids in
     (let statuses = map (\<lambda>w. py_str (por (oget w ''status'') (JStr []))) work_units in
     (let attempts = run_attempts s run_id in
     bindR (current_lease_ids run_document) (\<lambda>lease_ids.
     bindR (progress_times run_document work_units attempts) (\<lambda>times.
     bindR (mapR (attempt_deadline run_document) (filter (is_active_attempt lease_ids) attempts)) (\<lambda>active.
     (let last_progress = maximum times (now env) in
     (let minutes = max 0 (of_int (now env - last_progress) / 60000000) in
     bindR (stalled_threshold run_document) (\<lambda>threshold.
     (let all_blocked = (work_unit_ids \<noteq> [] \<and> length statuses = length work_unit_ids \<and>
           list_all (\<lambda>t. t = ''blocked'') statuses) in
     Inr (JObj [(''state'', JStr (progress_state all_blocked active (now env) minutes threshold)),
        (''run_id'', JStr run_id), (''last_progress_at'', JStr (isoformat last_progress)),
        (''minutes_without_progress'', JFloat (of_int (half_even (minutes * 100)) / 100)),
        (''stalled_after_minutes'', JFloat threshold), (''active_attempt_ids'', JList (map (JStr \<circ> fst) active))]))))))))))))))))))"

section \<open>When a Run is reported as stalled\<close>

lemma state_of_active:
  assumes "(i, deadline) \<in> set active" and "observed_at < deadline"
  shows "progress_state b active observed_at m t = ''working''"
proof -
  have "deadline \<le> Max (snd ` set active)" using assms(1) by (intro Max_ge) force+
  then show ?thesis using assms by (auto simp: progress_state_def)
qed

lemma evaluated_stateE:
  assumes "evaluate_run_progress env s run = Inr r" and "jget run ''status'' = Inr (JStr ''active'')"
  obtains rid listed ids lease_ids times active threshold b where
    "jget run ''id'' = Inr rid" "jget run ''work_unit_ids'' = Inr listed" "jiter (por listed (JList [])) = Inr ids"
    "current_lease_ids run = Inr lease_ids" "stalled_threshold run = Inr threshold"
    "progress_times run (work_unit_documents s ids) (run_attempts s (py_str (por rid (JStr [])))) = Inr times"
    "mapR (attempt_deadline run) (filter (is_active_attempt lease_ids) (run_attempts s (py_str (por rid (JStr []))))) = Inr active"
    "jget r ''state'' = Inr (JStr (progress_state b active (now env)
       (max 0 (of_int (now env - maximum times (now env)) / 60000000)) threshold))"
proof -
  obtain ob where ob: "run = JObj ob" "oget ob ''status'' = JStr ''active''"
    using assms(2) by (cases run) auto
  have go_on: "\<not> JStr ''active'' \<noteq> JStr ''active''" by simp
  note body = assms(1) [unfolded evaluate_run_progress_def Let_def ob(1) jget.simps bindR_Inr ob(2) if_not_P [OF go_on] bindR_eq_Inr]
  from body show ?thesis
    apply (elim exE conjE)
    subgoal premises p for ids lease_ids times active threshold
    proof (rule that [of _ _ ids lease_ids threshold times active])
      show "jget r ''state'' = Inr (JStr (progress_state (ids \<noteq> [] \<and>
          length (map (\<lambda>w. py_str (por (oget w ''status'') (JStr []))) (work_unit_documents s ids)) = length ids \<and>
          list_all (\<lambda>t. t = ''blocked'') (map (\<lambda>w. py_str (por (oget w ''status'') (JStr []))) (work_unit_documents s ids)))
          active (now env) (max 0 (of_int (now env - maximum times (now env)) / 60000000)) threshold))"
        unfolding p(6) [unfolded sum.inject, symmetric] by simp
    qed (use p ob in simp_all)
    done
qed

lemma set_map_filter: "t \<in> set (List.map_filter f xs) \<longleftrightarrow> (\<exists>x \<in> set xs. f x = Some t)"
  by (force simp: List.map_filter_def)

text \<open>
  An attempt that was started under a current lease keeps its Run from being reported as
  stalled or blocked until the timeout of its step, whatever else has or has not happened.
\<close>

theorem started_attempt_counts_as_work:
  assumes "evaluate_run_progress env s run = Inr r" and "jget run ''status'' = Inr (JStr ''active'')"
    and "jget run ''id'' = Inr (JStr rid)" and "attempt \<in> set (run_attempts s rid)"
    and "current_lease_ids run = Inr lease_ids" and "is_active_attempt lease_ids attempt"
    and "attempt_deadline run attempt = Inr (i, deadline)" and "now env < deadline"
  shows "jget r ''state'' = Inr (JStr ''working'')"
proof -
  have id: "py_str (por (JStr rid) (JStr [])) = rid" by (simp add: por_def)
  from assms(1,2) show ?thesis
  proof (rule evaluated_stateE)
    fix rid' listed ids lease_ids' times active threshold b
    assume run: "jget run ''id'' = Inr rid'" "current_lease_ids run = Inr lease_ids'"
      and active: "mapR (attempt_deadline run) (filter (is_active_attempt lease_ids')
        (run_attempts s (py_str (por rid' (JStr []))))) = Inr active"
      and state: "jget r ''state'' = Inr (JStr (progress_state b active (now env)
        (max 0 (of_int (now env - maximum times (now env)) / 60000000)) threshold))"
    have "(i, deadline) \<in> set active"
      using mapR_in [OF active, of attempt] run assms(3-7) id by auto
    then show ?thesis using state state_of_active assms(8) by simp
  qed
qed

text \<open>
  A Run is reported as stalled only when nothing useful happened for the threshold: no work
  unit changed and no attempt ended within that many minutes.
\<close>

theorem stalled_means_no_progress:
  assumes "evaluate_run_progress env s run = Inr r" and "jget run ''status'' = Inr (JStr ''active'')"
    and "jget r ''state'' = Inr (JStr ''stalled_no_progress'')"
    and "jget run ''id'' = Inr (JStr rid)" and "jget run ''work_unit_ids'' = Inr (JList ids)"
    and "stalled_threshold run = Inr threshold" and "0 < threshold"
    and "w \<in> set (work_unit_documents s ids) \<and> parse_time (oget w ''updated_at'') = Some t \<or>
      w \<in> set (run_attempts s rid) \<and> oget w ''status'' \<noteq> JStr ''started'' \<and> parse_time (oget w ''ended_at'') = Some t"
  shows "threshold * 60000000 \<le> of_int (now env - t)"
proof -
  have id: "py_str (por (JStr rid) (JStr [])) = rid" by (simp add: por_def)
  have ids: "jiter (por (JList ids) (JList [])) = Inr ids" by (simp add: por_def)
  from assms(1,2) show ?thesis
  proof (rule evaluated_stateE)
    fix rid' listed ids' lease_ids times active threshold' b
    assume run: "jget run ''id'' = Inr rid'" "jget run ''work_unit_ids'' = Inr listed"
        "jiter (por listed (JList [])) = Inr ids'" "stalled_threshold run = Inr threshold'"
      and times: "progress_times run (work_unit_documents s ids') (run_attempts s (py_str (por rid' (JStr [])))) = Inr times"
      and state: "jget r ''state'' = Inr (JStr (progress_state b active (now env)
        (max 0 (of_int (now env - maximum times (now env)) / 60000000)) threshold'))"
    have same: "rid' = JStr rid" "ids' = ids" "threshold' = threshold"
      using run assms(4-6) ids by auto
    let ?m = "of_int (now env - maximum times (now env)) / 60000000 :: rat"
    have "threshold \<le> max 0 ?m"
      using state assms(3) same(3) by (auto simp: progress_state_def split: if_splits)
    then have m: "threshold \<le> ?m" using assms(7) by linarith
    have "t \<in> set times"
      using times assms(8) unfolding same id progress_times_def bindR_eq_Inr
      by (elim exE conjE) (auto simp: set_map_filter simp del: map_filter_simps)
    then have "t \<le> maximum times (now env)" by (auto simp: maximum_def)
    then have "of_int (now env - maximum times (now env)) \<le> (of_int (now env - t) :: rat)" by simp
    moreover have "threshold * 60000000 \<le> of_int (now env - maximum times (now env))"
      using m by (simp add: pos_le_divide_eq del: of_int_diff)
    ultimately show ?thesis by (rule order_trans [rotated])
  qed
qed

section \<open>Witnesses\<close>

definition progress_env :: "int \<Rightarrow> env" where
  "progress_env t = \<lparr>now = t, sha = (\<lambda>s. s), schema_error = (\<lambda>_ _. None), uuid = ''u''\<rparr>"

definition progress_run :: json where
  "progress_run = JObj [(''id'', JStr ''R''), (''status'', JStr ''active''), (''work_unit_ids'', JList [JStr ''W'']),
     (''leases_by_work_unit'', JObj [(''W'', JObj [(''lease_id'', JStr ''L'')])]),
     (''created_at'', JStr (isoformat 0))]"

definition progress_attempt :: obj where
  "progress_attempt = [(''id'', JStr ''A''), (''run_id'', JStr ''R''), (''status'', JStr ''started''), (''step'', JStr ''plan''),
     (''worker_lease_id'', JStr ''L''), (''started_at'', JStr (isoformat 60000000))]"

definition progress_store :: store where
  "progress_store = [(''work-units/W.yaml'', Doc (JObj [(''status'', JStr ''in_progress''), (''updated_at'', JStr (isoformat 60000000))])),
     (''runs/execution-attempts/A.yaml'', Doc (JObj progress_attempt))]"

lemma parse_time_iso: "in_range t \<Longrightarrow> parse_time (JStr (isoformat t)) = Some t"
  by (simp add: parse_time_def)

lemma parse_time_null: "parse_time JNull = None"
  by (simp add: parse_time_def)

lemma early_in_range: "0 \<le> t \<Longrightarrow> t < 86400000000 \<Longrightarrow> in_range t"
  by (simp add: in_range_def max_ordinal_def)

lemma progress_attempts: "run_attempts progress_store ''R'' = [progress_attempt]"
  by (simp add: run_attempts_def yaml_documents_def glob_yaml_def startswith_def endswith_def progress_store_def
      yaml_document_def progress_attempt_def por_def)

lemma progress_work_units:
  "work_unit_documents progress_store [JStr ''W''] = [[(''status'', JStr ''in_progress''), (''updated_at'', JStr (isoformat 60000000))]]"
  by (simp add: work_unit_documents_def work_unit_path_def yaml_document_def progress_store_def por_def)

lemmas progress_eval = evaluate_run_progress_def por_def current_lease_ids_def progress_times_def progress_run_def
  stalled_threshold_def attempt_deadline_def is_active_attempt_def resolve_step_timeout_seconds_def sub_dict_def
  clamp_def HARD_MAX_TIMEOUT_SECONDS_def DEFAULT_UNKNOWN_STEP_TIMEOUT_SECONDS_def parse_time_iso parse_time_null early_in_range
  maximum_def progress_env_def Let_def

lemma progress_deadline: "attempt_deadline progress_run progress_attempt = Inr (''A'', 660000000)"
  by (simp add: progress_eval progress_attempt_def)

theorem started_attempt_counts_as_work_witness:
  "\<exists>r. evaluate_run_progress (progress_env 120000000) progress_store progress_run = Inr r
     \<and> jget r ''state'' = Inr (JStr ''working'')"
proof -
  obtain r where r: "evaluate_run_progress (progress_env 120000000) progress_store progress_run = Inr r"
    using progress_attempts progress_work_units progress_deadline
    by (simp add: progress_eval progress_attempt_def)
  have "jget r ''state'' = Inr (JStr ''working'')"
    by (rule started_attempt_counts_as_work [OF r, of "''R''" progress_attempt "[''L'']" "''A''"])
       (use progress_deadline in \<open>simp_all add: progress_attempts, simp_all add: progress_eval progress_attempt_def\<close>)
  then show ?thesis using r by blast
qed

definition stalled_store :: store where
  "stalled_store = [(''work-units/W.yaml'', Doc (JObj [(''status'', JStr ''in_progress''), (''updated_at'', JStr (isoformat 60000000))]))]"

theorem stalled_means_no_progress_witness:
  "\<exists>r. evaluate_run_progress (progress_env 3660000000) stalled_store progress_run = Inr r
     \<and> jget r ''state'' = Inr (JStr ''stalled_no_progress'') \<and> (15 :: rat) * 60000000 \<le> of_int (3660000000 - 60000000)"
proof -
  have attempts: "run_attempts stalled_store ''R'' = []"
    by (simp add: run_attempts_def yaml_documents_def glob_yaml_def startswith_def endswith_def stalled_store_def)
  have units: "work_unit_documents stalled_store [JStr ''W''] =
      [[(''status'', JStr ''in_progress''), (''updated_at'', JStr (isoformat 60000000))]]"
    by (simp add: work_unit_documents_def work_unit_path_def yaml_document_def stalled_store_def por_def)
  obtain r where r: "evaluate_run_progress (progress_env 3660000000) stalled_store progress_run = Inr r"
      "jget r ''state'' = Inr (JStr ''stalled_no_progress'')"
    using attempts units by (simp add: progress_eval progress_state_def)
  have "15 * 60000000 \<le> (of_int (now (progress_env 3660000000) - 60000000) :: rat)"
    by (rule stalled_means_no_progress [OF r(1) _ r(2), of "''R''" "[JStr ''W'']" 15 "[(''status'', JStr ''in_progress''), (''updated_at'', JStr (isoformat 60000000))]"])
       (simp_all add: units, simp_all add: progress_eval)
  then show ?thesis using r by (auto simp: progress_env_def)
qed

end
