(* ===== verification/Recovery.thy ===== *)
theory Recovery
  imports Gateway Progress
begin

text \<open>
  Bounded recovery of unattended Runs (\<open>core/supervisor/recovery.py\<close>, \<open>hard_stops.py\<close>). Every
  change of a governed document goes through the command gateway; the counter of attempts is a
  file of its own. A recovery is several commands, so it threads the state: what was done before
  an exception stays done. The \<open>n\<close>th command takes its clock and identifiers from \<open>clock n\<close>. The
  text of an exception that ends up in a reason is \<open>describe\<close>, a parameter. Notifications and the
  start of the orchestrator process are left out: they change no document.
\<close>

section \<open>Commands in sequence\<close>

record rconfig =
  gateway_config :: config
  clock :: "nat \<Rightarrow> env"
  describe :: "pyexc \<Rightarrow> string"

type_synonym rstate = "gstate \<times> nat"
type_synonym 'a steps = "rstate \<Rightarrow> rstate \<times> 'a res"

definition bindS :: "('s \<Rightarrow> 's \<times> 'a res) \<Rightarrow> ('a \<Rightarrow> 's \<Rightarrow> 's \<times> 'b res) \<Rightarrow> 's \<Rightarrow> 's \<times> 'b res" where
  "bindS m f = (\<lambda>s. case m s of (s1, Inl e) \<Rightarrow> (s1, Inl e) | (s1, Inr x) \<Rightarrow> f x s1)"

definition liftS :: "'a res \<Rightarrow> 's \<Rightarrow> 's \<times> 'a res" where
  "liftS r = (\<lambda>s. (s, r))"

definition doneS :: "'a \<Rightarrow> 's \<Rightarrow> 's \<times> 'a res" where
  "doneS x = liftS (Inr x)"

definition readS :: "(store \<Rightarrow> 'a) \<Rightarrow> 'a steps" where
  "readS f = (\<lambda>s. (s, Inr (f (files (disk (fst s))))))"

definition nowS :: "rconfig \<Rightarrow> env steps" where
  "nowS c = (\<lambda>(g, n). ((g, n), Inr (clock c n)))"

fun collectS :: "('a \<Rightarrow> 'b list steps) \<Rightarrow> 'a list \<Rightarrow> 'b list steps" where
  "collectS f [] = doneS []"
| "collectS f (x # xs) = bindS (f x) (\<lambda>ys.
     bindS (collectS f xs) (\<lambda>zs.
     doneS (ys @ zs)))"

text \<open>One command: the receipt and the exit code; the next command takes the next clock.\<close>

definition send :: "rconfig \<Rightarrow> (env \<Rightarrow> json) \<Rightarrow> (json \<times> int) steps" where
  "send c command = (\<lambda>(g, n).
     case execute_command (gateway_config c) (clock c n) g (command (clock c n)) of
       Inl e \<Rightarrow> ((g, Suc n), Inl e)
     | Inr (g1, receipt, exit_code) \<Rightarrow> ((g1, Suc n), Inr (receipt, exit_code)))"

section \<open>Envelopes\<close>

definition recovery_actor :: "env \<Rightarrow> json" where
  "recovery_actor env = JObj [(''kind'', JStr ''role''),
     (''execution_id'', JStr (''EXE-night-recovery-'' @ take 8 (uuid env))), (''role_id'', JStr ''control-plane''),
     (''bundle_version'', JStr ''1.0.0''), (''adapter_id'', JStr ''core-supervisor'')]"

definition recovery_envelope :: "string \<Rightarrow> obj \<Rightarrow> obj \<Rightarrow> string \<Rightarrow> env \<Rightarrow> obj" where
  "recovery_envelope command_type target payload run_id env =
     [(''protocol_version'', JStr ''1.0''), (''command_id'', JStr (''CMD-night-recovery-'' @ uuid env)),
      (''idempotency_key'', JStr (''idem-night-recovery-'' @ uuid env)), (''correlation_id'', JStr run_id),
      (''type'', JStr command_type), (''issued_at'', now_iso env), (''actor'', recovery_actor env),
      (''target'', JObj target), (''payload'', JObj payload)]"

definition receipt_errors :: "json \<Rightarrow> json list res" where
  "receipt_errors receipt = bindR (jget receipt ''errors'') (\<lambda>errors.
     jiter (por errors (JList [])))"

text \<open>\<open>errors.extend(str(item) ...)\<close> when the command was refused.\<close>

definition refusals :: "json \<times> int \<Rightarrow> string list res" where
  "refusals = (\<lambda>(receipt, exit_code).
     if exit_code \<noteq> 0 then (case receipt_errors receipt of Inl e \<Rightarrow> Inl e | Inr es \<Rightarrow> Inr (map py_str es))
     else Inr [])"

section \<open>The steps of a recovery\<close>

definition release_command :: "string \<Rightarrow> string \<Rightarrow> json \<Rightarrow> json \<Rightarrow> env \<Rightarrow> json" where
  "release_command run_id work_unit_id lease_id epoch env = JObj (recovery_envelope ''ReleaseWorkerLease''
     [(''kind'', JStr ''worker_lease''), (''id'', lease_id)]
     [(''run_id'', JStr run_id), (''work_unit_id'', JStr work_unit_id), (''epoch'', epoch),
      (''reason'', JStr ''night recovery fencing after orchestrator failure'')] run_id env)"

definition release_active_leases :: "rconfig \<Rightarrow> obj \<Rightarrow> string list steps" where
  "release_active_leases c run_document = bindS (liftS (jitem (JObj run_document) ''id'')) (\<lambda>own_id.
     (let run_id = py_str own_id in
     bindS (liftS (as_obj (por (oget run_document ''leases_by_work_unit'') (JObj [])))) (\<lambda>leases.
     collectS (\<lambda>(work_unit_id, lease_ref). bindS (liftS (jitem lease_ref ''lease_id'')) (\<lambda>lease_id.
       bindS (liftS (jitem lease_ref ''epoch'')) (\<lambda>epoch.
       bindS (send c (release_command run_id work_unit_id lease_id epoch)) (\<lambda>answer.
       liftS (refusals answer))))) leases)))"

definition close_command :: "obj \<Rightarrow> json \<Rightarrow> json \<Rightarrow> string \<Rightarrow> string \<Rightarrow> env \<Rightarrow> json" where
  "close_command run_document own_id revision stop_condition reason env = JObj (recovery_envelope ''CloseRun''
     [(''kind'', JStr ''run''), (''id'', own_id), (''expected_revision'', revision)]
     [(''status'', JStr ''failed''), (''reason'', JStr reason), (''stop_condition'', JStr stop_condition)]
     (py_str own_id) env)"

definition close_active_run :: "rconfig \<Rightarrow> obj \<Rightarrow> string \<Rightarrow> string \<Rightarrow> (bool \<times> json list) steps" where
  "close_active_run c run_document stop_condition reason = bindS (liftS (jitem (JObj run_document) ''id'')) (\<lambda>own_id.
     bindS (liftS (jitem (JObj run_document) ''revision'')) (\<lambda>revision.
     bindS (send c (close_command run_document own_id revision stop_condition reason)) (\<lambda>(receipt, exit_code).
     bindS (liftS (receipt_errors receipt)) (\<lambda>errors.
     doneS (exit_code = 0, errors)))))"

definition reset_command :: "json \<Rightarrow> json \<Rightarrow> json \<Rightarrow> env \<Rightarrow> json" where
  "reset_command run_id work_unit_id revision env = JObj (recovery_envelope ''TransitionWorkUnit''
     [(''kind'', JStr ''work_unit''), (''id'', work_unit_id), (''expected_revision'', revision)]
     [(''run_id'', run_id), (''to_status'', JStr ''ready''), (''reason'', JStr ''bounded night recovery reset'')]
     (py_str run_id) env)"

text \<open>\<open>_read_yaml\<close>: a file that cannot be read, or whose document is no mapping, raises.\<close>

definition read_mapping :: "store \<Rightarrow> string \<Rightarrow> obj res" where
  "read_mapping s p = (case read_yaml s p of
     Inl e \<Rightarrow> Inl e
   | Inr j \<Rightarrow> (case por j (JObj []) of JObj ob \<Rightarrow> Inr ob | _ \<Rightarrow> Inl (ValueError (''expected mapping in '' @ p))))"

definition reset_recoverable_work_units :: "rconfig \<Rightarrow> obj \<Rightarrow> string list steps" where
  "reset_recoverable_work_units c source_run = bindS (liftS (jiter (por (oget source_run ''work_unit_ids'') (JList [])))) (\<lambda>ids.
     collectS (\<lambda>work_unit_id. bindS (readS (\<lambda>s. read_mapping s (work_unit_path work_unit_id))) (\<lambda>found.
       (case found of
          Inl e \<Rightarrow> doneS [py_str work_unit_id @ '': '' @ describe c e]
        | Inr work_unit \<Rightarrow> bindS (liftS (in_strs (oget work_unit ''status'') [''in_progress'', ''blocked''])) (\<lambda>stuck.
            (if \<not> stuck then doneS [] else
            bindS (liftS (jitem (JObj work_unit) ''revision'')) (\<lambda>revision.
            bindS (liftS (jitem (JObj source_run) ''id'')) (\<lambda>run_id.
            bindS (send c (reset_command run_id work_unit_id revision)) (\<lambda>answer.
            liftS (refusals answer))))))))) ids)"

section \<open>Boundary stops\<close>

definition BOUNDARY_SUMMARY_MARKERS :: "string list" where
  "BOUNDARY_SUMMARY_MARKERS = [''Execution boundary:'', ''scope_violation'', ''scope.exclude writes'',
     ''out-of-scope writes'', ''out-of-envelope writes'', ''forbidden governance writes'']"

definition summary_records_boundary :: "string \<Rightarrow> bool" where
  "summary_records_boundary summary = list_ex (\<lambda>marker. infix_of marker summary) BOUNDARY_SUMMARY_MARKERS"

definition is_sha :: "string \<Rightarrow> bool" where
  "is_sha t \<longleftrightarrow> length t = 40 \<and> list_all (\<lambda>c. c \<in> set ''0123456789abcdef'') t"

definition boundary_sha :: "json \<Rightarrow> obj \<Rightarrow> (string \<times> string \<times> string) option res" where
  "boundary_sha source_run_id attempt =
     (if \<not> py_eq (oget attempt ''run_id'') source_run_id
         \<or> \<not> summary_records_boundary (py_str (por (oget attempt ''summary'') (JStr [])))
      then Inr None
      else bindR (jget (por (oget attempt ''workspace'') (JObj [])) ''base_sha'') (\<lambda>base.
        (let work_unit_id = py_str (por (oget attempt ''work_unit_id'') (JStr [])) in
        (let base_sha = lower (py_str (por base (JStr []))) in
        (if work_unit_id = [] \<or> \<not> is_sha base_sha then Inr None else
        Inr (Some (work_unit_id, py_str (por (oget attempt ''ended_at'') (JStr [])), base_sha)))))))"

text \<open>The attempt that ended last decides; among equals the later file.\<close>

definition select_sha :: "(string \<times> string \<times> string) option \<Rightarrow> (string \<times> string \<times> string) list \<Rightarrow> (string \<times> string \<times> string) list" where
  "select_sha found selected =
     (case found of
        None \<Rightarrow> selected
      | Some (work_unit_id, ended_at, base_sha) \<Rightarrow>
          (case map_of selected work_unit_id of
             Some (before, _) \<Rightarrow> if ended_at \<ge> before then AList.update work_unit_id (ended_at, base_sha) selected else selected
           | None \<Rightarrow> AList.update work_unit_id (ended_at, base_sha) selected))"

definition boundary_recovery_start_shas :: "store \<Rightarrow> json \<Rightarrow> (string \<times> string) list res" where
  "boundary_recovery_start_shas s source_run_id = bindR (mapR (boundary_sha source_run_id) (yaml_documents s ''runs/execution-attempts'')) (\<lambda>found.
     Inr (map (\<lambda>(w, _, base_sha). (w, base_sha)) (fold select_sha found [])))"

section \<open>The grant\<close>

definition grant_has_remaining_use :: "rconfig \<Rightarrow> env \<Rightarrow> store \<Rightarrow> json \<Rightarrow> (bool \<times> string) res" where
  "grant_has_remaining_use c env s grant_id =
     (if \<not> truthy grant_id then Inr (False, ''missing run authorization grant'')
      else if \<not> is_file s (grant_path grant_id) then Inr (False, ''grant file missing'')
      else (case read_json s (grant_path grant_id) of
        Inl e \<Rightarrow> Inr (False, ''grant unreadable: '' @ describe c e)
      | Inr grant \<Rightarrow> bindR (jget grant ''status'') (\<lambda>status.
          bindR (in_strs status [''revoked'', ''expired'', ''exhausted'']) (\<lambda>ended.
          (if ended then Inr (False, ''grant status='' @ py_str status) else
          bindR (jget grant ''expires_at'') (\<lambda>expires_at.
          (let expiry = map_option dt_micros (parse_instant (py_str expires_at)) in
          (if truthy expires_at \<and> expiry = None then Inr (False, ''grant expires_at invalid'') else
          (if truthy expires_at \<and> the expiry \<le> now env then Inr (False, ''grant expired'') else
          bindR (jget grant ''max_uses'') (\<lambda>max_uses.
          bindR (jget grant ''uses_count'') (\<lambda>used.
          bindR (py_int (por used (JInt 0))) (\<lambda>uses.
          bindR ((if max_uses = JNull then Inr None else map_sum id Some (py_int max_uses))) (\<lambda>bound.
          (if (case bound of None \<Rightarrow> False | Some m \<Rightarrow> uses \<ge> m) then Inr (False, ''grant uses exhausted'') else
          Inr (True, ''ok'')))))))))))))))"

section \<open>Opening the new Run\<close>

definition int_or :: "obj \<Rightarrow> string \<Rightarrow> int \<Rightarrow> json res" where
  "int_or ob k d = bindR (jget_or (JObj ob) k (JInt d)) (\<lambda>v.
     bindR (py_int v) (\<lambda>n.
     Inr (JInt n)))"

definition recovery_payload :: "obj \<Rightarrow> string \<Rightarrow> int \<Rightarrow> string \<Rightarrow> (string \<times> string) list \<Rightarrow> obj res" where
  "recovery_payload source_run new_run_id recovery_number recovery_root_run_id recovery_start_shas = bindR (jiter (por (oget source_run ''work_unit_ids'') (JList []))) (\<lambda>ids.
     bindR (as_obj (por (oget source_run ''preflight'') (JObj []))) (\<lambda>preflight.
     bindR (as_obj (por (oget source_run ''execution_ceilings_by_work_unit'') (JObj []))) (\<lambda>ceilings.
     bindR (int_or source_run ''maximum_parallel_workers'' 1) (\<lambda>workers.
     bindR (int_or source_run ''maximum_attempts_per_step'' 3) (\<lambda>attempts.
     bindR (int_or source_run ''maximum_remediation_cycles'' 2) (\<lambda>cycles.
     Inr ([(''id'', JStr new_run_id), (''opened_by'', JStr ''night-recovery-controller''), (''work_unit_ids'', JList ids),
       (''status'', JStr ''active''), (''preflight'', JObj preflight), (''execution_ceilings_by_work_unit'', JObj ceilings),
       (''maximum_parallel_workers'', workers), (''maximum_attempts_per_step'', attempts),
       (''maximum_remediation_cycles'', cycles), (''autonomy_preset'', oget source_run ''autonomy_preset''),
       (''recovery_root_run_id'', JStr recovery_root_run_id), (''recovery_attempt_number'', JInt recovery_number)]
       @ (if recovery_start_shas = [] then []
          else [(''recovery_start_shas_by_work_unit'', JObj (map (\<lambda>(w, b). (w, JStr b)) recovery_start_shas))]))))))))"

definition open_command :: "string \<Rightarrow> obj \<Rightarrow> json \<Rightarrow> env \<Rightarrow> json" where
  "open_command new_run_id payload grant_id env = JObj (recovery_envelope ''OpenRun''
     [(''kind'', JStr ''run''), (''id'', JStr new_run_id)] payload new_run_id env
     @ [(''run_authorization'', JObj [(''grant_id'', grant_id)])])"

definition open_recovery_run ::
  "rconfig \<Rightarrow> obj \<Rightarrow> int \<Rightarrow> string \<Rightarrow> (string \<times> string) list \<Rightarrow> (string option \<times> json list) steps" where
  "open_recovery_run c source_run recovery_number recovery_root_run_id recovery_start_shas = bindS (nowS c) (\<lambda>env.
     (let new_run_id = ''RUN-RECOVERY-'' @ stamp (now env) @ ''-'' @ int_text recovery_number in
     bindS (liftS (recovery_payload source_run new_run_id recovery_number recovery_root_run_id recovery_start_shas)) (\<lambda>payload.
     bindS (liftS (jitem (JObj source_run) ''run_authorization_grant_id'')) (\<lambda>grant_id.
     bindS (send c (open_command new_run_id payload grant_id)) (\<lambda>(receipt, exit_code).
     bindS (liftS (receipt_errors receipt)) (\<lambda>errors.
     doneS (if exit_code = 0 then Some new_run_id else None, errors)))))))"

section \<open>Recovering a Run\<close>

definition HARD_STOPS :: "string list" where
  "HARD_STOPS = [''budget_exhausted'', ''preflight_failed'', ''kill_switch'', ''authorization_violation'',
     ''forbidden_secret_access'', ''protected_environment_target'', ''state_corruption'',
     ''worker_isolation_unguaranteed'']"

definition RECOVERABLE_STOPS :: "string list" where
  "RECOVERABLE_STOPS = [''orchestrator_process_failure'', ''stalled_no_progress'', ''out_of_workspace_write'',
     ''repeated_systemic_failure'']"

definition recovery_state_path :: "string \<Rightarrow> string" where
  "recovery_state_path source_run_id = ''runs/recovery/'' @ source_run_id @ ''.json''"

definition write_recovery_state :: "string \<Rightarrow> obj \<Rightarrow> unit steps" where
  "write_recovery_state source_run_id document = (\<lambda>(g, n).
     ((g\<lparr>disk := (disk g)\<lparr>files := AList.update (recovery_state_path source_run_id) (Doc (JObj document)) (files (disk g))\<rparr>\<rparr>, n),
      Inr ()))"

text \<open>The attempts so far; a state that is missing or damaged counts as none.\<close>

definition prior_recoveries :: "store \<Rightarrow> string \<Rightarrow> int res" where
  "prior_recoveries s root_run_id = bindR (jget_or (case read_json s (recovery_state_path root_run_id) of
         Inl _ \<Rightarrow> JObj [(''attempts'', JInt 0)] | Inr prior \<Rightarrow> prior) ''attempts'' (JInt 0)) (\<lambda>attempts.
     py_int attempts)"

definition observation_command :: "string \<Rightarrow> string \<Rightarrow> string option \<Rightarrow> env \<Rightarrow> json" where
  "observation_command source_run_id result_kind new_run_id env =
     (let observation_id = ''OBS-'' @ stamp (now env) @ ''-NIGHT-RECOVERY-'' @ take 6 (uuid env);
          new_run = (case new_run_id of None \<Rightarrow> [] | Some i \<Rightarrow> [JStr i]) in
      JObj (recovery_envelope ''RecordObservation''
        [(''kind'', JStr ''observation''), (''id'', JStr observation_id)]
        [(''id'', JStr observation_id), (''category'', JStr ''orchestration''), (''severity'', JStr ''high''),
         (''symptom'', JStr (''Night recovery outcome='' @ result_kind @ '' source_run='' @ source_run_id @ '' new_run=''
            @ (case new_run_id of None \<Rightarrow> ''None'' | Some i \<Rightarrow> i))),
         (''classification'', JObj [(''origin'', JStr ''framework''), (''confidence'', JStr ''certain'')]),
         (''impact'', JObj [(''blocked_minutes'', JInt 0), (''rework_required'', JBool True),
            (''human_intervention'', JBool (result_kind \<noteq> ''recovered'')), (''affected_work_units'', JList [])]),
         (''evidence_refs'', JList (JStr source_run_id # new_run)),
         (''recurrence_key'', JStr ''night-mode-auto-recovery''), (''recorded_by'', JStr ''run-reliability-controller'')]
        source_run_id env))"

definition record_recovery_observation :: "rconfig \<Rightarrow> string \<Rightarrow> string \<Rightarrow> string option \<Rightarrow> unit steps" where
  "record_recovery_observation c source_run_id result_kind new_run_id = bindS (send c (observation_command source_run_id result_kind new_run_id)) (\<lambda>answer.
     doneS ())"

definition recovery_result :: "string \<Rightarrow> string \<Rightarrow> obj \<Rightarrow> string \<Rightarrow> obj \<Rightarrow> obj" where
  "recovery_result result_kind run_id middle reason extra =
     [(''outcome'', JStr result_kind), (''run_id'', JStr run_id)] @ middle @ [(''reason'', JStr reason)] @ extra"

text \<open>Handing over to a human: the state is written, and for most reasons an observation recorded.\<close>

definition hand_over :: "rconfig \<Rightarrow> string \<Rightarrow> string \<Rightarrow> int \<Rightarrow> string \<Rightarrow> obj \<Rightarrow> bool \<Rightarrow> obj steps" where
  "hand_over c root_run_id run_id attempt_number reason extra observed = (let result = recovery_result ''needs_human'' run_id [(''attempts'', JInt attempt_number)] reason extra in
     bindS (write_recovery_state root_run_id result) (\<lambda>_.
     bindS ((if observed then record_recovery_observation c run_id ''needs_human'' None else doneS ())) (\<lambda>_.
     doneS result)))"

text \<open>An active Run is fenced and closed first: \<open>Inl\<close> the errors, or the closed Run.\<close>

definition close_source :: "rconfig \<Rightarrow> string \<Rightarrow> obj \<Rightarrow> (json list + obj) steps" where
  "close_source c run_id source_run =
     (if oget source_run ''status'' \<noteq> JStr ''active'' then doneS (Inr source_run) else bindS (nowS c) (\<lambda>env.
        bindS (readS (\<lambda>s. evaluate_run_progress env s (JObj source_run))) (\<lambda>evaluated.
        bindS (liftS evaluated) (\<lambda>progress.
        bindS (liftS (jitem progress ''state'')) (\<lambda>state.
        (let stop_condition = (if state = JStr ''stalled_no_progress'' then ''stalled_no_progress''
              else ''orchestrator_process_failure'') in
        bindS (release_active_leases c source_run) (\<lambda>lease_errors.
        bindS (readS (\<lambda>s. read_mapping s (run_path (JStr run_id)))) (\<lambda>again.
        bindS (liftS again) (\<lambda>current.
        bindS (close_active_run c current stop_condition ''external watchdog initiated bounded recovery'') (\<lambda>(closed, close_errors).
        (if \<not> closed then doneS (Inl (map JStr lease_errors @ close_errors)) else
        bindS (readS (\<lambda>s. read_mapping s (run_path (JStr run_id)))) (\<lambda>reread.
        bindS (liftS reread) (\<lambda>closed_run.
        doneS (Inr closed_run))))))))))))))"

definition replacement_outcome :: "string option \<Rightarrow> string" where
  "replacement_outcome new_run_id = (if new_run_id = None then ''needs_human'' else ''recovered'')"

definition replacement_result :: "string \<Rightarrow> int \<Rightarrow> string option \<Rightarrow> json list \<Rightarrow> obj" where
  "replacement_result run_id attempt_number new_run_id open_errors =
     recovery_result (replacement_outcome new_run_id) run_id
       [(''new_run_id'', case new_run_id of None \<Rightarrow> JNull | Some i \<Rightarrow> JStr i), (''attempts'', JInt attempt_number)]
       (if new_run_id = None then ''OpenRun refused'' else ''new governed Run opened'')
       [(''errors'', JList open_errors)]"

text \<open>The replacement Run of a closed Run whose stop is recoverable.\<close>

definition replace_run :: "rconfig \<Rightarrow> string \<Rightarrow> string \<Rightarrow> int \<Rightarrow> obj \<Rightarrow> (string \<times> string) list \<Rightarrow> obj steps" where
  "replace_run c root_run_id run_id attempt_number source_run start_shas = bindS (reset_recoverable_work_units c source_run) (\<lambda>reset_errors.
     (if reset_errors \<noteq> [] then        hand_over c root_run_id run_id attempt_number ''work unit reset failed''
         [(''errors'', JList (map JStr reset_errors))] False else
     bindS (open_recovery_run c source_run attempt_number root_run_id start_shas) (\<lambda>(new_run_id, open_errors).
     (let result = replacement_result run_id attempt_number new_run_id open_errors in
     bindS (write_recovery_state root_run_id result) (\<lambda>_.
     bindS (record_recovery_observation c run_id (replacement_outcome new_run_id) new_run_id) (\<lambda>_.
     doneS result))))))"

definition recover_closed :: "rconfig \<Rightarrow> string \<Rightarrow> string \<Rightarrow> int \<Rightarrow> obj \<Rightarrow> obj steps" where
  "recover_closed c root_run_id run_id attempt_number source_run = (let stop_condition = py_str (por (oget source_run ''stop_condition'') (JStr [])) in
     (if stop_condition \<in> set HARD_STOPS \<or> stop_condition \<notin> set RECOVERABLE_STOPS then        hand_over c root_run_id run_id attempt_number
         (''stop condition is not safely recoverable: '' @ (if stop_condition = [] then ''unknown'' else stop_condition)) [] True else
     bindS (readS (\<lambda>s. if stop_condition = ''out_of_workspace_write''
                          then boundary_recovery_start_shas s (JStr run_id) else Inr [])) (\<lambda>shas.
     bindS (liftS shas) (\<lambda>start_shas.
     (if stop_condition = ''out_of_workspace_write'' \<and> start_shas = [] then        hand_over c root_run_id run_id attempt_number ''no trustworthy pre-violation SHA was recorded'' [] True else
     bindS (nowS c) (\<lambda>env.
     bindS (readS (\<lambda>s. grant_has_remaining_use c env s (oget source_run ''run_authorization_grant_id''))) (\<lambda>checked.
     bindS (liftS checked) (\<lambda>(usable, grant_reason).
     (if \<not> usable then        hand_over c root_run_id run_id attempt_number (''grant cannot open recovery Run: '' @ grant_reason) [] True else
     replace_run c root_run_id run_id attempt_number source_run start_shas)))))))))"

definition recover_run :: "rconfig \<Rightarrow> string \<Rightarrow> int \<Rightarrow> obj steps" where
  "recover_run c run_id max_recoveries = bindS (readS (\<lambda>s. read_mapping s (run_path (JStr run_id)))) (\<lambda>found.
     (case found of
        Inl e \<Rightarrow> doneS (recovery_result ''needs_human'' run_id [] (describe c e) [])
      | Inr source_run \<Rightarrow> (if \<not> is_unattended_preset (oget source_run ''autonomy_preset'') then             doneS (recovery_result ''needs_human'' run_id [] ''automatic recovery is restricted to unattended Runs'' []) else
          (let root_run_id = py_str (por (oget source_run ''recovery_root_run_id'') (JStr run_id)) in
          bindS (readS (\<lambda>s. prior_recoveries s root_run_id)) (\<lambda>counted.
          bindS (liftS counted) (\<lambda>prior.
          (let attempt_number = prior + 1 in
          (let abandoned = recovery_result ''abandoned'' run_id [(''attempts'', JInt prior)] ''bounded recovery limit exhausted'' [] in
          (if attempt_number > max_recoveries then             bindS (write_recovery_state root_run_id abandoned) (\<lambda>_. doneS abandoned) else
          bindS (close_source c run_id source_run) (\<lambda>closing.
          (case closing of
             Inl errors \<Rightarrow> hand_over c root_run_id run_id attempt_number ''could not close active Run''
                             [(''errors'', JList errors)] False
           | Inr closed_run \<Rightarrow> recover_closed c root_run_id run_id attempt_number closed_run)))))))))))"

end
