(* ===== verification/Dispatch.thy ===== *)
theory Dispatch
  imports CheckRegistry Recovery PathPolicy
begin

text \<open>
  What a scheduling tick decides from the documents of a Run (\<open>core/orchestrator/tick.py\<close>): the
  step a Work Unit is at, whether a step is exhausted, whether a result carries the evidence it
  needs, whether the Run has to stop, what is left to dispatch. Nothing here changes a document.

  The ids of the Work Units of a Run are strings (the schema of a Run says so); \<open>work_unit_ids_of\<close>
  raises a \<open>TypeError\<close> on others. Directories are read in the order of the file names, also where
  the code reads them in the order of the file system. Spend, durations and remaining seconds are
  exact.
\<close>

section \<open>Steps\<close>

definition STATUS_TO_STEP :: "(string \<times> string) list" where
  "STATUS_TO_STEP = [(''in_progress'', ''sandbox_implementation''), (''verification'', ''verification''), (''review'', ''review''),
     (''audit'', ''audit''), (''remediation_required'', ''remediation'')]"

definition NEXT_STATUS_ON_SUCCESS :: "(string \<times> string) list" where
  "NEXT_STATUS_ON_SUCCESS = [(''in_progress'', ''verification''), (''verification'', ''review''), (''review'', ''audit''),
     (''audit'', ''human_test''), (''remediation_required'', ''verification'')]"

definition NEXT_STATUS_ON_EXHAUSTION :: "(string \<times> string) list" where
  "NEXT_STATUS_ON_EXHAUSTION = [(''in_progress'', ''blocked''), (''verification'', ''remediation_required''),
     (''review'', ''remediation_required''), (''audit'', ''remediation_required''), (''remediation_required'', ''blocked'')]"

text \<open>The role, the procedure and the required checks of a step.\<close>

definition DISPATCH_CONTRACTS :: "(string \<times> string \<times> string \<times> string list) list" where
  "DISPATCH_CONTRACTS =
     [(''sandbox_implementation'', ''backend-developer'', ''implement-work-unit'', [''implementation'']),
      (''remediation'', ''backend-developer'', ''implement-work-unit'', [''implementation'']),
      (''verification'', ''qa-test'', ''webapp-testing'', [''tests'']),
      (''review'', ''code-reviewer'', ''webapp-testing'', [''code_review'']),
      (''security_review'', ''security-reviewer'', ''security-review'', [''security_review'']),
      (''audit'', ''auditor'', ''audit-release'', [''audit'']),
      (''integration_review'', ''integration-steward'', ''integrate-work-units'', [''integration_review''])]"

definition IMPLEMENTATION_ROLES :: "string list" where
  "IMPLEMENTATION_ROLES = [''backend-developer'', ''frontend-developer'']"

definition IMPLEMENTATION_STEPS :: "string list" where
  "IMPLEMENTATION_STEPS = [''sandbox_implementation'', ''remediation'']"

text \<open>\<open>table.get(value)\<close> for a table with string keys.\<close>

definition table_get :: "(string \<times> 'a) list \<Rightarrow> json \<Rightarrow> 'a option res" where
  "table_get t v = bindR (key_of v) (\<lambda>key.
     Inr (Option.bind key (map_of t)))"

text \<open>The attempts recorded for a Work Unit of a Run, in the order of their files.\<close>

definition attempts_for_work_unit :: "store \<Rightarrow> json \<Rightarrow> string \<Rightarrow> json list res" where
  "attempts_for_work_unit s run_id work_unit_id = bindR (mapR (\<lambda>p. bindR (read_yaml s p) (\<lambda>item.
       (if \<not> truthy item then Inr [] else
       bindR (jget item ''run_id'') (\<lambda>own_run.
       (if \<not> py_eq own_run run_id then Inr [] else
       bindR (jget item ''work_unit_id'') (\<lambda>own_unit.
       Inr (if py_eq own_unit (JStr work_unit_id) then [item] else []))))))) (glob_yaml s ''runs/execution-attempts'')) (\<lambda>found.
     Inr (concat found))"

definition at_step :: "string \<Rightarrow> json \<Rightarrow> bool res" where
  "at_step step item = bindR (jget item ''step'') (\<lambda>own.
     Inr (own = JStr step))"

definition succeeded_at :: "string \<Rightarrow> json \<Rightarrow> bool res" where
  "succeeded_at step item = andR (at_step step item) (bindR (jget item ''status'') (\<lambda>status.
     Inr (status = JStr ''succeeded'')))"

text \<open>\<open>_read_yaml(path) or {}\<close>, for a file that may be missing.\<close>

definition read_or_empty :: "store \<Rightarrow> string \<Rightarrow> json res" where
  "read_or_empty s p = bindR (read_yaml_or JNull s p) (\<lambda>found.
     Inr (por found (JObj [])))"

text \<open>An audit is the security review, then the audit, then, unattended, the integration.\<close>

definition dispatch_step :: "store \<Rightarrow> string \<Rightarrow> string \<Rightarrow> json \<Rightarrow> string option res" where
  "dispatch_step s run_id work_unit_id status =
     (if status \<noteq> JStr ''audit'' then table_get STATUS_TO_STEP status else bindR (attempts_for_work_unit s (JStr run_id) work_unit_id) (\<lambda>attempts.
     bindR (anyR (succeeded_at ''security_review'') attempts) (\<lambda>security_done.
     (if \<not> security_done then Inr (Some ''security_review'') else
     bindR (anyR (succeeded_at ''audit'') attempts) (\<lambda>audit_done.
     (if \<not> audit_done then Inr (Some ''audit'') else
     bindR (read_or_empty s (run_path (JStr run_id))) (\<lambda>run_document.
     bindR (jget run_document ''autonomy_preset'') (\<lambda>preset.
     bindR (in_strs preset [''unattended_extended'', ''unattended_maximal'', ''custom'']) (\<lambda>unattended.
     Inr (Some (if unattended then ''integration_review'' else ''audit'')))))))))))"

definition int_setting :: "json \<Rightarrow> string \<Rightarrow> int \<Rightarrow> json res" where
  "int_setting document k d = bindR (jget_or document k (JInt d)) (\<lambda>v.
     bindR (py_int v) (\<lambda>n.
     Inr (JInt n)))"

definition pre_dispatch_exhaustion_reason :: "store \<Rightarrow> json \<Rightarrow> string \<Rightarrow> string \<Rightarrow> string option res" where
  "pre_dispatch_exhaustion_reason s run_document work_unit_id step = bindR (jitem run_document ''id'') (\<lambda>own_id.
     bindR (attempts_for_work_unit s (JStr (py_str own_id)) work_unit_id) (\<lambda>attempts.
     bindR (filterR (at_step step) attempts) (\<lambda>step_attempts.
     bindR (int_setting run_document ''maximum_attempts_per_step'' DEFAULT_MAXIMUM_ATTEMPTS_PER_STEP) (\<lambda>maximum_attempts.
     bindR (int_setting run_document ''maximum_remediation_cycles'' DEFAULT_MAXIMUM_REMEDIATION_CYCLES) (\<lambda>maximum_cycles.
     convergence_exhaustion_reason step_attempts (JStr step) maximum_attempts maximum_cycles)))))"

definition integration_conflict_attempts :: "store \<Rightarrow> string \<Rightarrow> string \<Rightarrow> int res" where
  "integration_conflict_attempts s run_id work_unit_id = bindR (attempts_for_work_unit s (JStr run_id) work_unit_id) (\<lambda>attempts.
     bindR (filterR (\<lambda>item. andR (at_step ''integration_review'' item) (bindR (jget item ''status'') (\<lambda>status.
       Inr (status \<noteq> JStr ''succeeded'')))) attempts) (\<lambda>failed.
     Inr (int (length failed))))"

section \<open>Who implements a Work Unit\<close>

definition PREFERRED_ROLE_KEYS :: "string list" where
  "PREFERRED_ROLE_KEYS = [''role'', ''role_id'', ''primary_role'', ''implementer'', ''assigned_role'']"

text \<open>The strings of a staffing payload, those under the preferred keys first.\<close>

fun role_candidates :: "json \<Rightarrow> string list"
  and role_candidates_all :: "json list \<Rightarrow> string list"
  and role_candidates_of :: "obj \<Rightarrow> (string \<times> string list) list" where
  "role_candidates (JStr t) = [t]"
| "role_candidates (JList xs) = role_candidates_all xs"
| "role_candidates (JObj ob) = (let found = role_candidates_of ob in
     concat (List.map_filter (\<lambda>key. map_of found key) PREFERRED_ROLE_KEYS)
     @ concat (map snd (filter (\<lambda>(key, _). key \<notin> set PREFERRED_ROLE_KEYS) found)))"
| "role_candidates _ = []"
| "role_candidates_all [] = []"
| "role_candidates_all (x # xs) = role_candidates x @ role_candidates_all xs"
| "role_candidates_of [] = []"
| "role_candidates_of ((key, v) # ob) = (key, role_candidates v) # role_candidates_of ob"

definition has_drive :: "string \<Rightarrow> bool" where
  "has_drive t = (case t of c # d # _ \<Rightarrow> lower_char c \<in> set ''abcdefghijklmnopqrstuvwxyz'' \<and> d = CHR '':'' | _ \<Rightarrow> False)"

text \<open>
  The file of a context package under \<open>.ai-team/\<close>. A reference is a bare id, a file name, or the
  path of the file; \<open>resolve\<close> drops empty and \<open>.\<close> components, and \<open>..\<close> is refused before.
\<close>

definition path_parts :: "string \<Rightarrow> string list" where
  "path_parts t = filter (\<lambda>part. part \<noteq> [] \<and> part \<noteq> ''.'') (split_slash t)"

definition canonical_context_package_path :: "string \<Rightarrow> string res" where
  "canonical_context_package_path ref = (let t = replace_char (char_of (92 :: nat)) (CHR ''/'') (strip ref) in
     (if t = [] then Inl (ValueError ''empty context_package_ref'') else
     (if startswith t ''/'' \<or> has_drive t
       then Inl (ValueError ''context_package_ref must be a relative id under context-packages'') else
     (if ''..'' \<in> set (split_slash t) then Inl (ValueError (''context_package_ref must not contain '' @ repr_str ''..'')) else
     (if endswith t ''.yaml'' \<and> startswith t ''.ai-team/context-packages/''
       then Inr (intersperse ''/'' (tl (path_parts t))) else
     (if CHR ''/'' \<in> set t \<or> startswith t ''.''
       then Inl (ValueError (if endswith t ''.yaml''
         then ''context_package_ref path must be .ai-team/context-packages/<id>.yaml or a bare package id''
         else ''context_package_ref id must not contain path separators'')) else
     Inr (''context-packages/'' @ t @ (if endswith t ''.yaml'' then [] else ''.yaml''))))))))"

text \<open>A reference that is no path, a file that is missing or cannot be read: no role.\<close>

definition context_package_role :: "store \<Rightarrow> json \<Rightarrow> string option res" where
  "context_package_role s work_unit = bindR (jget work_unit ''context_package_ref'') (\<lambda>ref.
     (if \<not> truthy ref then Inr None else
     (case bindR (canonical_context_package_path (py_str ref)) (read_or_empty s) of
        Inl e \<Rightarrow> Inr None
      | Inr document \<Rightarrow> bindR (jget document ''role'') (\<lambda>r.
          (let role = strip (py_str (por r (JStr []))) in
          Inr (if role \<in> set IMPLEMENTATION_ROLES then Some role else None))))))"

definition first_implementer :: "json \<Rightarrow> string option" where
  "first_implementer source = find (\<lambda>candidate. candidate \<in> set IMPLEMENTATION_ROLES) (role_candidates source)"

definition resolve_implementation_role :: "store \<Rightarrow> json \<Rightarrow> string res" where
  "resolve_implementation_role s work_unit = bindR (jget work_unit ''staffing_proposal'') (\<lambda>proposal.
     bindR (jget work_unit ''staffing'') (\<lambda>staffing.
     (case (first_implementer proposal, first_implementer staffing) of
        (Some role, _) \<Rightarrow> Inr role
      | (None, Some role) \<Rightarrow> Inr role
      | (None, None) \<Rightarrow> bindR (context_package_role s work_unit) (\<lambda>context_role.
          (case context_role of
             Some role \<Rightarrow> Inr role
           | None \<Rightarrow> bindR (jget work_unit ''zone'') (\<lambda>zone.
               bindR (jget (por zone (JObj [])) ''area'') (\<lambda>area.
               Inr (if lower (py_str (por area (JStr []))) \<in> {''frontend'', ''mobile''}
                    then ''frontend-developer'' else ''backend-developer''))))))))"

definition MODE_TO_PROCEDURE :: "(string \<times> string) list" where
  "MODE_TO_PROCEDURE = [(''conform'', ''implement-approved-design''), (''adapt'', ''adapt-approved-design''),
     (''create'', ''create-frontend-design''), (''maintain'', ''design-system-integration''), (''explore'', ''create-frontend-design'')]"

text \<open>\<open>select_frontend_procedure\<close> when no procedure is requested, which never refuses.\<close>

definition select_frontend_procedure :: "string option \<Rightarrow> string" where
  "select_frontend_procedure requested_mode =
     (let mode = lower (case requested_mode of None \<Rightarrow> ''create'' | Some m \<Rightarrow> if m = [] then ''create'' else m) in
      case map_of MODE_TO_PROCEDURE mode of None \<Rightarrow> ''create-frontend-design'' | Some p \<Rightarrow> p)"

text \<open>Role, procedure and checks of a step for a Work Unit.\<close>

definition dispatch_contract :: "store \<Rightarrow> json \<Rightarrow> string \<Rightarrow> (string \<times> string \<times> string list) res" where
  "dispatch_contract s work_unit step =
     (case map_of DISPATCH_CONTRACTS step of
        None \<Rightarrow> Inl (KeyError step)
      | Some (role_id, procedure_id, required_checks) \<Rightarrow>
          (if step \<notin> set IMPLEMENTATION_STEPS then Inr (role_id, procedure_id, required_checks) else bindR (resolve_implementation_role s work_unit) (\<lambda>implementer.
          (if implementer \<noteq> ''frontend-developer'' then Inr (implementer, procedure_id, required_checks) else
          bindR (jget work_unit ''design_binding'') (\<lambda>binding.
          bindR (jget (por binding (JObj [])) ''design_mode'') (\<lambda>mode.
          Inr (implementer, select_frontend_procedure (if truthy mode then Some (py_str mode) else None), required_checks)))))))"

section \<open>Evidence\<close>

text \<open>\<open>token.split(":", 1)[0]\<close> of the first word of a criterion.\<close>

definition criterion_token :: "string \<Rightarrow> string" where
  "criterion_token item = strip (takeWhile (\<lambda>c. c \<noteq> CHR '':'') (takeWhile (\<lambda>c. \<not> is_space c) (strip item)))"

definition criterion_id :: "json \<Rightarrow> string list" where
  "criterion_id item =
     (case item of
        JObj [(key, _)] \<Rightarrow> (if startswith (strip key) ''AC-'' then [strip key] else [])
      | JStr t \<Rightarrow> (if startswith (criterion_token t) ''AC-'' then [criterion_token t] else [])
      | _ \<Rightarrow> [])"

definition explicit_acceptance_criterion_ids :: "json \<Rightarrow> string list res" where
  "explicit_acceptance_criterion_ids work_unit = (if \<not> truthy work_unit then Inr [] else
     bindR (jget work_unit ''acceptance_criteria'') (\<lambda>listed.
     bindR (jiter (por listed (JList []))) (\<lambda>items.
     Inr (concat (map criterion_id items)))))"

definition covered_acceptance_criteria :: "string list \<Rightarrow> string list \<Rightarrow> string list" where
  "covered_acceptance_criteria ac_ids passed_names =
     filter (\<lambda>ac_id. ac_id \<in> set (expand_ac_ranges passed_names) \<or> list_ex (\<lambda>name. names_criterion name ac_id) passed_names) ac_ids"

definition check_matches_required :: "string \<Rightarrow> string \<Rightarrow> bool" where
  "check_matches_required name required =
     (case normalize_check_name name of
        None \<Rightarrow> False
      | Some canonical \<Rightarrow> canonical = (case normalize_check_name required of Some w \<Rightarrow> if w = [] then required else w | None \<Rightarrow> required))"

text \<open>The names of the checks that passed with evidence.\<close>

definition passed_checks :: "json \<Rightarrow> string list res" where
  "passed_checks result = bindR (jget result ''checks'') (\<lambda>listed.
     bindR (jiter (por listed (JList []))) (\<lambda>items.
     bindR (filterR (\<lambda>item. bindR (jget item ''name'') (\<lambda>name.
       bindR (jget item ''status'') (\<lambda>status.
       bindR (jget item ''evidence_ref'') (\<lambda>evidence.
       Inr (truthy name \<and> status = JStr ''passed'' \<and> truthy evidence))))) items) (\<lambda>passing.
     bindR (mapR (\<lambda>item. jget item ''name'') passing) (\<lambda>names.
     Inr (map py_str names)))))"

definition strs_repr :: "string list \<Rightarrow> string" where
  "strs_repr xs = py_repr (JList (map JStr xs))"

text \<open>An implementation shows a new commit, an artifact, and its criteria or the check itself.\<close>

definition implementation_evidence_error :: "json \<Rightarrow> string list \<Rightarrow> string option \<Rightarrow> string list \<Rightarrow> string option res" where
  "implementation_evidence_error result ac_ids base_sha passed_names = (let missing_acs = sort (remdups (filter (\<lambda>i. i \<notin> set (covered_acceptance_criteria ac_ids passed_names)) ac_ids)) in
     (let ac_ok = (if ac_ids \<noteq> [] then missing_acs = [] else list_ex (\<lambda>name. startswith name ''AC-'') passed_names) in
     (if ''implementation'' \<notin> set passed_names \<and> \<not> ac_ok
       then Inr (Some (if ac_ids \<noteq> []
         then ''missing passed checks with evidence: '' @ strs_repr missing_acs @ '' (or check name '' @ repr_str ''implementation'' @ '')''
         else ''missing passed checks with evidence: '' @ strs_repr [''implementation''] @ '' or AC-* with evidence_ref'')) else
     bindR (jget result ''workspace'') (\<lambda>w.
     bindR (jget (por w (JObj [])) ''result_sha'') (\<lambda>result_sha.
     (if \<not> truthy result_sha \<or> result_sha = (case base_sha of None \<Rightarrow> JNull | Some t \<Rightarrow> JStr t)
       then Inr (Some ''implementation did not produce a new coherent commit SHA'') else
     bindR (jget result ''artifacts'') (\<lambda>artifacts.
     Inr (if \<not> truthy artifacts then Some ''implementation produced no hashed artifact'' else None))))))))"

definition evidence_error :: "json \<Rightarrow> string list \<Rightarrow> bool \<Rightarrow> string option \<Rightarrow> json \<Rightarrow> string option res" where
  "evidence_error result required_checks require_changed_sha base_sha work_unit = bindR (passed_checks result) (\<lambda>passed_names.
     (if require_changed_sha then bindR (explicit_acceptance_criterion_ids work_unit) (\<lambda>ac_ids.
       implementation_evidence_error result ac_ids base_sha passed_names)
     else (let missing = sort (filter (\<lambda>required. \<not> list_ex (\<lambda>name. check_matches_required name required) passed_names) required_checks) in
       bindR ((if missing = [''tests''] then explicit_acceptance_criterion_ids work_unit else Inr [])) (\<lambda>ac_ids.
       (let covered = (missing = [''tests''] \<and> ac_ids \<noteq> [] \<and> set ac_ids = set (covered_acceptance_criteria ac_ids passed_names)) in
       Inr (if missing = [] \<or> covered then None else Some (''missing passed checks with evidence: '' @ strs_repr missing)))))))"

section \<open>Dependencies and areas\<close>

text \<open>The Work Units of a Run by id; a Work Unit without a document is \<open>JNull\<close>.\<close>

definition work_unit_ids_of :: "json \<Rightarrow> string list res" where
  "work_unit_ids_of run_document = bindR (jget run_document ''work_unit_ids'') (\<lambda>listed.
     bindR (jiter (por listed (JList []))) (\<lambda>items.
     mapR (\<lambda>i. case i of JStr t \<Rightarrow> Inr t | _ \<Rightarrow> Inl TypeError) items))"

definition work_unit_map :: "store \<Rightarrow> string list \<Rightarrow> obj res" where
  "work_unit_map s ids = bindR (mapR (\<lambda>i. bindR (read_yaml_or JNull s (work_unit_path (JStr i))) (\<lambda>d.
       Inr (i, d))) ids) (\<lambda>found.
     Inr (fold (\<lambda>(i, d) m. AList.update i d m) found []))"

definition is_dependency_done :: "obj \<Rightarrow> json \<Rightarrow> bool res" where
  "is_dependency_done docs dependency = bindR ((if is_str dependency then Inr dependency else jget dependency ''id'')) (\<lambda>dependency_id.
     (if \<not> truthy dependency_id then Inr True else
     bindR (dict_get (JObj docs) dependency_id) (\<lambda>document.
     dependency_satisfied document)))"

fun all_dependencies_done :: "obj \<Rightarrow> json list \<Rightarrow> bool res" where
  "all_dependencies_done docs [] = Inr True"
| "all_dependencies_done docs (d # ds) = ifR (is_dependency_done docs d) (all_dependencies_done docs ds) (Inr False)"

definition dependencies_satisfied :: "json \<Rightarrow> obj \<Rightarrow> bool res" where
  "dependencies_satisfied work_unit docs = bindR (jget work_unit ''dependencies'') (\<lambda>listed.
     bindR (jiter (por listed (JList []))) (\<lambda>items.
     all_dependencies_done docs items))"

text \<open>A Run without a grant, or whose grant cannot be read, has the empty grant.\<close>

definition load_bound_grant :: "store \<Rightarrow> json \<Rightarrow> json res" where
  "load_bound_grant s run_document = bindR (jget run_document ''run_authorization_grant_id'') (\<lambda>grant_id.
     (if \<not> truthy grant_id \<or> \<not> is_file s (grant_path grant_id) then Inr (JObj []) else
     Inr (case read_json s (grant_path grant_id) of Inl e \<Rightarrow> JObj [] | Inr grant \<Rightarrow> grant)))"

definition filter_area_eligible_documents :: "obj \<Rightarrow> json \<Rightarrow> obj res" where
  "filter_area_eligible_documents docs grant = bindR (area_filter_active grant) (\<lambda>active.
     (if \<not> active then Inr docs else
     filterR (\<lambda>(_, document). is_area_eligible document grant) docs))"

text \<open>The documents of dependencies outside the Run are read as well.\<close>

definition extend_documents :: "store \<Rightarrow> obj \<Rightarrow> json \<Rightarrow> obj res" where
  "extend_documents s extended document =
     (if document = JNull then Inr extended else bindR (dependency_ids document) (\<lambda>ids.
     foldR (\<lambda>m i. if ohas m i then Inr m else bindR (read_yaml_or JNull s (work_unit_path (JStr i))) (\<lambda>d.
       Inr (AList.update i d m))) extended ids))"

definition dependency_documents_for_run :: "store \<Rightarrow> obj \<Rightarrow> obj res" where
  "dependency_documents_for_run s docs = foldR (extend_documents s) docs (map snd docs)"

definition status_in :: "string list \<Rightarrow> json \<Rightarrow> bool res" where
  "status_in xs document = bindR (jget document ''status'') (\<lambda>status.
     in_strs status xs)"

fun allR :: "('a \<Rightarrow> bool res) \<Rightarrow> 'a list \<Rightarrow> bool res" where
  "allR p [] = Inr True"
| "allR p (x # xs) = ifR (p x) (allR p xs) (Inr False)"

definition all_work_units_ready_for_morning_review :: "string list \<Rightarrow> obj \<Rightarrow> bool res" where
  "all_work_units_ready_for_morning_review ids docs =
     (if ids = [] then Inr False
      else allR (\<lambda>i. status_in [''human_test'', ''done''] (por (oget docs i) (JObj []))) ids)"

section \<open>When the Run has to stop\<close>

text \<open>The active leases of the Run by Work Unit; nothing when a lease cannot be read.\<close>

definition active_lease_of :: "store \<Rightarrow> json \<Rightarrow> string \<Rightarrow> (string \<times> string) list option res" where
  "active_lease_of s run_id p =
     (case read_or_empty s p of
        Inl e \<Rightarrow> Inr None
      | Inr lease \<Rightarrow> bindR (jget lease ''run_id'') (\<lambda>own_run.
          bindR (jget lease ''status'') (\<lambda>status.
          bindR (jget lease ''work_unit_id'') (\<lambda>work_unit_id.
          bindR (jget lease ''id'') (\<lambda>i.
          Inr (Some (if py_eq own_run run_id \<and> status = JStr ''active'' then [(py_str work_unit_id, py_str i)] else [])))))))"

fun active_leases :: "store \<Rightarrow> json \<Rightarrow> string list \<Rightarrow> (string \<times> string) list option res" where
  "active_leases s run_id [] = Inr (Some [])"
| "active_leases s run_id (p # ps) = bindR (active_lease_of s run_id p) (\<lambda>found.
     (case found of
        None \<Rightarrow> Inr None
      | Some xs \<Rightarrow> bindR (active_leases s run_id ps) (\<lambda>rest.
          Inr (map_option (\<lambda>ys. xs @ ys) rest))))"

text \<open>One active lease per Work Unit, and exactly those the Run refers to.\<close>

definition fencing_conflict :: "(string \<times> string) list \<Rightarrow> json \<Rightarrow> bool res" where
  "fencing_conflict active leases = bindR (jset_of leases) (\<lambda>keys.
     (if \<not> distinct (map fst active) \<or> set (map (JStr \<circ> fst) active) \<noteq> set keys then Inr True else
     bindR (as_obj leases) (\<lambda>refs.
     anyR (\<lambda>(work_unit_id, lease_ref). bindR (jget lease_ref ''lease_id'') (\<lambda>lease_id.
       Inr (map_of active work_unit_id \<noteq> Some (py_str lease_id)))) refs)))"

definition leases_fault :: "store \<Rightarrow> json \<Rightarrow> string option res" where
  "leases_fault s run_document = bindR (jget run_document ''id'') (\<lambda>run_id.
     bindR (active_leases s run_id (glob_yaml s ''runs/leases'')) (\<lambda>active.
     (case active of
        None \<Rightarrow> Inr (Some ''state_corruption'')
      | Some xs \<Rightarrow> bindR (jget run_document ''leases_by_work_unit'') (\<lambda>l.
          bindR (fencing_conflict xs (por l (JObj []))) (\<lambda>conflict.
          Inr (if conflict then Some ''fencing_conflict'' else None))))))"

definition policy_fault :: "env \<Rightarrow> json \<Rightarrow> json \<Rightarrow> string option res" where
  "policy_fault env run_document grant = bindR (jget run_document ''effective_autonomy_policy'') (\<lambda>policy.
     (if policy = JNull then Inr None else
     (let expected = JStr (effective_policy_hash (sha env) policy) in
     bindR (jget run_document ''effective_autonomy_policy_hash'') (\<lambda>own_hash.
     (if own_hash \<noteq> expected then Inr (Some ''state_corruption'') else
     bindR (jget grant ''effective_autonomy_policy_hash'') (\<lambda>grant_hash.
     Inr (if grant_hash \<noteq> expected then Some ''state_corruption'' else None)))))))"

definition artifact_fault :: "env \<Rightarrow> store \<Rightarrow> string \<times> json \<Rightarrow> string option res" where
  "artifact_fault env s = (\<lambda>(artifact_id, expected_hash).
     (case read_json s (mission_artifact_path (JStr artifact_id)) of
        Inl e \<Rightarrow> Inr (Some ''state_corruption'')
      | Inr artifact \<Rightarrow> bindR (compute_artifact_hash (sha env) artifact) (\<lambda>actual.
          Inr (if JStr actual \<noteq> expected_hash then Some ''state_corruption'' else None))))"

definition artifacts_fault :: "env \<Rightarrow> store \<Rightarrow> json \<Rightarrow> string option res" where
  "artifacts_fault env s grant = bindR (jget grant ''mission_artifact_hashes'') (\<lambda>h.
     bindR (as_obj (por h (JObj []))) (\<lambda>hashes.
     firstR (artifact_fault env s) hashes))"

definition lifetime_fault :: "env \<Rightarrow> json \<Rightarrow> string option res" where
  "lifetime_fault env grant = bindR (jget grant ''expires_at'') (\<lambda>expires_at.
     (if \<not> truthy expires_at then Inr None else
     Inr (case parse_instant (py_str expires_at) of
            None \<Rightarrow> Some ''state_corruption''
          | Some expiry \<Rightarrow> if dt_micros expiry \<le> now env then Some ''authorization_violation'' else None)))"

definition opened_at :: "json \<Rightarrow> int res" where
  "opened_at created = (case parse_instant (py_str created) of
     None \<Rightarrow> Inl (ValueError ''Invalid isoformat string'') | Some t \<Rightarrow> Inr (dt_micros t))"

definition duration_fault :: "env \<Rightarrow> json \<Rightarrow> json \<Rightarrow> string option res" where
  "duration_fault env run_document grant = bindR (jget grant ''maximum_duration_hours'') (\<lambda>duration.
     bindR (jget run_document ''created_at'') (\<lambda>created.
     (if duration = JNull \<or> \<not> truthy created then Inr None else
     bindR (opened_at created) (\<lambda>opened.
     bindR (py_float duration) (\<lambda>hours.
     Inr (if of_int (now env - opened) \<ge> hours * 3600 * 1000000 then Some ''budget_exhausted'' else None))))))"

definition used_up :: "(json \<Rightarrow> rat res) \<Rightarrow> json \<Rightarrow> string \<Rightarrow> string \<Rightarrow> string option res" where
  "used_up number grant limit used = bindR (jget grant limit) (\<lambda>bound.
     (if bound = JNull then Inr None else
     bindR (jget_or grant used (JInt 0)) (\<lambda>u.
     bindR (number u) (\<lambda>amount.
     bindR (number bound) (\<lambda>m.
     Inr (if amount \<ge> m then Some ''budget_exhausted'' else None))))))"

definition int_number :: "json \<Rightarrow> rat res" where
  "int_number v = bindR (py_int v) (\<lambda>n.
     Inr (of_int n))"

definition progress_fault :: "env \<Rightarrow> store \<Rightarrow> json \<Rightarrow> string option res" where
  "progress_fault env s run_document = bindR (evaluate_run_progress env s run_document) (\<lambda>progress.
     bindR (jitem progress ''state'') (\<lambda>state.
     Inr (if state = JStr ''stalled_no_progress'' then Some ''stalled_no_progress'' else None)))"

text \<open>The same failure of several Work Units.\<close>

definition failure_of_attempt :: "store \<Rightarrow> json \<Rightarrow> string \<Rightarrow> (string list \<times> string) list res" where
  "failure_of_attempt s run_id p = bindR (read_or_empty s p) (\<lambda>attempt.
     bindR (jget attempt ''run_id'') (\<lambda>own_run.
     (if \<not> py_eq own_run run_id then Inr [] else
     bindR (systemic_failure_signature attempt) (\<lambda>signature.
     bindR (jget attempt ''work_unit_id'') (\<lambda>work_unit_id.
     Inr (case signature of None \<Rightarrow> [] | Some x \<Rightarrow> [(x, py_str work_unit_id)]))))))"

definition repeated_failure :: "store \<Rightarrow> json \<Rightarrow> string option res" where
  "repeated_failure s run_document = bindR (jget run_document ''id'') (\<lambda>run_id.
     bindR (mapR (failure_of_attempt s run_id) (glob_yaml s ''runs/execution-attempts'')) (\<lambda>found.
     (let failures = concat found in
     Inr (if list_ex (\<lambda>(x, w). list_ex (\<lambda>(x', w'). x' = x \<and> w' \<noteq> w) failures) failures
          then Some ''repeated_systemic_failure'' else None))))"

definition kill_switch :: "json \<Rightarrow> string option res" where
  "kill_switch grant = bindR (jget grant ''revoked_at'') (\<lambda>revoked_at.
     Inr (if truthy revoked_at then Some ''kill_switch'' else None))"

text \<open>The first fault found, in the order of the checks.\<close>

definition grant_faults :: "env \<Rightarrow> store \<Rightarrow> json \<Rightarrow> json \<Rightarrow> string option res" where
  "grant_faults env s run_document grant =
     thenR (policy_fault env run_document grant)
     (thenR (artifacts_fault env s grant)
     (thenR (leases_fault s run_document)
     (thenR (kill_switch grant)
     (thenR (lifetime_fault env grant)
     (thenR (duration_fault env run_document grant)
     (thenR (used_up py_float grant ''maximum_spend'' ''spend_used'')
     (thenR (used_up int_number grant ''maximum_tokens'' ''tokens_used'')
     (thenR (progress_fault env s run_document)
            (repeated_failure s run_document)))))))))"

definition global_stop_condition :: "env \<Rightarrow> store \<Rightarrow> json \<Rightarrow> string option res" where
  "global_stop_condition env s run_document = bindR (jget run_document ''run_authorization_grant_id'') (\<lambda>grant_id.
     (if \<not> truthy grant_id then Inr (Some ''state_corruption'') else
     bindR (jget run_document ''work_unit_ids'') (\<lambda>listed.
     bindR (jiter (por listed (JList []))) (\<lambda>ids.
     (if list_ex (\<lambda>i. \<not> is_file s (work_unit_path i)) ids then Inr (Some ''state_corruption'') else
     (if \<not> is_file s (grant_path grant_id) then Inr (Some ''state_corruption'') else
     (case read_json s (grant_path grant_id) of
        Inl e \<Rightarrow> Inr (Some ''state_corruption'')
      | Inr grant \<Rightarrow> grant_faults env s run_document grant)))))))"

section \<open>Limits of an execution\<close>

text \<open>
  Shell commands, paths and secrets of the grant; \<open>None\<close> for the paths when the grant does not
  restrict them, the empty list when it allows none.
\<close>

definition execution_envelope_constraints :: "store \<Rightarrow> json \<Rightarrow> (string list \<times> string list option \<times> string list) res" where
  "execution_envelope_constraints s run_document = bindR (jget run_document ''run_authorization_grant_id'') (\<lambda>grant_id.
     (if \<not> truthy grant_id \<or> \<not> is_file s (grant_path grant_id) then Inr ([], None, []) else
     bindR (read_json s (grant_path grant_id)) (\<lambda>grant.
     bindR (jin (JStr ''allowed_paths'') grant) (\<lambda>restricted.
     bindR ((if \<not> restricted then Inr None else bindR (jget grant ''allowed_paths'') (\<lambda>listed.
       bindR (jiter (por listed (JList []))) (\<lambda>patterns.
       Inr (Some (sanitize_allowed_paths patterns)))))) (\<lambda>allowed_paths.
     bindR (jget grant ''allowed_shell_commands'') (\<lambda>c.
     bindR (jiter (por c (JList []))) (\<lambda>shell_commands.
     bindR (jget grant ''accessible_secrets'') (\<lambda>x.
     bindR (jiter (por x (JList []))) (\<lambda>secrets.
     Inr (map py_str shell_commands, allowed_paths, map py_str secrets))))))))))"

definition DEPENDENCY_FILES :: "string list" where
  "DEPENDENCY_FILES = [''requirements.txt'', ''pyproject.toml'', ''poetry.lock'', ''package.json'', ''package-lock.json'',
     ''pnpm-lock.yaml'', ''yarn.lock'', ''go.mod'', ''go.sum'', ''cargo.toml'', ''cargo.lock'']"

definition touches_dependencies :: "string \<Rightarrow> bool" where
  "touches_dependencies path = (lower (last (split_slash path)) \<in> set DEPENDENCY_FILES)"

definition policy_budgets :: "json \<Rightarrow> json res" where
  "policy_budgets run_document = bindR (jget run_document ''effective_autonomy_policy'') (\<lambda>policy.
     bindR (jget (por policy (JObj [])) ''budgets'') (\<lambda>b.
     Inr (por b (JObj []))))"

definition file_budget :: "json \<Rightarrow> json \<Rightarrow> int res" where
  "file_budget wu_document budgets = bindR (jget_or budgets ''maximum_changed_files_per_work_unit'' (JInt 30)) (\<lambda>normal.
     bindR (py_int normal) (\<lambda>files_allowed.
     bindR (jget wu_document ''risk'') (\<lambda>r.
     bindR (jget (por r (JObj [])) ''class'') (\<lambda>risk.
     (if risk \<noteq> JStr ''critical'' then Inr files_allowed else
     bindR (jget_or budgets ''maximum_changed_files_per_critical_work_unit'' (JInt 10)) (\<lambda>critical.
     py_int critical))))))"

definition budget_error :: "json \<Rightarrow> json \<Rightarrow> string list \<Rightarrow> string option res" where
  "budget_error wu_document run_document changed_files = bindR (policy_budgets run_document) (\<lambda>budgets.
     bindR (file_budget wu_document budgets) (\<lambda>files_allowed.
     (if int (length changed_files) > files_allowed
       then Inr (Some (''changed-file budget exceeded ('' @ nat_text (length changed_files) @ '' > '' @ int_text files_allowed @ '')'')) else
     bindR (jget_or budgets ''maximum_new_dependencies'' (JInt 0)) (\<lambda>d.
     bindR (py_int d) (\<lambda>dependencies_allowed.
     Inr (if dependencies_allowed = 0 \<and> list_ex touches_dependencies changed_files
          then Some (''dependency changes are forbidden: '' @ strs_repr (filter touches_dependencies changed_files)) else None))))))"

text \<open>The checks on the files a worker changed; \<open>head\<close> and \<open>changed\<close> are what Git says.\<close>

definition implementation_boundary_error ::
  "string + string \<Rightarrow> (string \<Rightarrow> string \<Rightarrow> string + string list) \<Rightarrow> string option \<Rightarrow> json \<Rightarrow> json \<Rightarrow> json \<Rightarrow> string list
     \<Rightarrow> (string \<times> string option) option res" where
  "implementation_boundary_error head changed base_sha result wu_document run_document allowed_paths =
     (case base_sha of
        None \<Rightarrow> Inr (Some (''isolated implementation workspace has no base commit'', None))
      | Some base \<Rightarrow> (case head of
          Inl fault \<Rightarrow> Inr (Some (''cannot verify worker Git result: '' @ fault, None))
        | Inr actual_sha \<Rightarrow> bindR (jget result ''workspace'') (\<lambda>w.
            bindR (jget (por w (JObj [])) ''result_sha'') (\<lambda>claimed_sha.
            (if claimed_sha \<noteq> JStr actual_sha
              then Inr (Some (''claimed result SHA '' @ py_repr claimed_sha @ '' does not match worker HEAD '' @ repr_str actual_sha, None)) else
            (case changed base actual_sha of
               Inl fault \<Rightarrow> Inr (Some (''cannot inspect worker diff: '' @ fault, None))
             | Inr all_files \<Rightarrow> (let changed_files = filter (\<lambda>path. \<not> is_build_output_path path) all_files in
                 bindR (jget wu_document ''id'') (\<lambda>i.
                 bindR (boundary_error_for_changed_files changed_files (py_str (por i (JStr []))) wu_document
                   (map JStr allowed_paths) None) (\<lambda>boundary.
                 (case boundary of
                    Some (message, stop) \<Rightarrow> Inr (Some (message, Some stop))
                  | None \<Rightarrow> bindR (budget_error wu_document run_document changed_files) (\<lambda>budget.
                      Inr (map_option (\<lambda>message. (message, None)) budget))))))))))))"

text \<open>The commit a checkpoint recorded, if it is a full one.\<close>

definition checkpoint_start_sha :: "store \<Rightarrow> string \<Rightarrow> string option res" where
  "checkpoint_start_sha s work_unit_id = bindR (read_yaml_or JNull s (''runs/checkpoints/'' @ work_unit_id @ ''.yaml'')) (\<lambda>document.
     (if \<not> truthy document then Inr None else
     bindR (jget document ''last_commit'') (\<lambda>commit.
     Inr (case commit of JStr t \<Rightarrow> if length t = 40 then Some (lower t) else None | _ \<Rightarrow> None))))"

definition seconds_until :: "int \<Rightarrow> int \<Rightarrow> rat" where
  "seconds_until t deadline = max 1 (of_int (deadline - t) / 1000000)"

definition grant_remaining_seconds :: "env \<Rightarrow> store \<Rightarrow> json \<Rightarrow> rat option res" where
  "grant_remaining_seconds env s run_document = bindR (jget run_document ''run_authorization_grant_id'') (\<lambda>grant_id.
     (if \<not> truthy grant_id \<or> \<not> is_file s (grant_path grant_id) then Inr None else
     (case read_json s (grant_path grant_id) of
        Inl e \<Rightarrow> Inr None
      | Inr grant \<Rightarrow> bindR (jget grant ''expires_at'') (\<lambda>expires_at.
          (let until_expiry = (if \<not> truthy expires_at then []
            else case parse_instant (py_str expires_at) of None \<Rightarrow> [] | Some expiry \<Rightarrow> [seconds_until (now env) (dt_micros expiry)]) in
          bindR (jget grant ''maximum_duration_hours'') (\<lambda>duration.
          bindR (jget run_document ''created_at'') (\<lambda>created.
          bindR ((if duration = JNull \<or> \<not> truthy created then Inr [] else bindR (opened_at created) (\<lambda>opened.
            bindR (py_float duration) (\<lambda>hours.
            Inr [max 1 (hours * 3600 - of_int (now env - opened) / 1000000)])))) (\<lambda>until_end.
          Inr (case until_expiry @ until_end of [] \<Rightarrow> None | x # xs \<Rightarrow> Some (fold min xs x))))))))))"

section \<open>What is left to dispatch\<close>

definition MACHINE_DISPATCHABLE_STATUSES :: "string list" where
  "MACHINE_DISPATCHABLE_STATUSES = [''ready'', ''in_progress'', ''verification'', ''review'', ''security_review'', ''audit'',
     ''remediation_required'', ''integration_review'']"

definition HUMAN_WAIT_STATUSES :: "string list" where
  "HUMAN_WAIT_STATUSES = [''human_test'', ''paused_for_risk_escalation'']"

definition machine_dispatchable :: "json \<Rightarrow> json \<Rightarrow> bool res" where
  "machine_dispatchable grant document =
     (if document = JNull then Inr False
      else andR (is_area_eligible document grant) (status_in (MACHINE_DISPATCHABLE_STATUSES @ map fst STATUS_TO_STEP) document))"

definition fresh_lease_of_run :: "env \<Rightarrow> store \<Rightarrow> json \<Rightarrow> string \<Rightarrow> bool res" where
  "fresh_lease_of_run env s run_id p = bindR (read_or_empty s p) (\<lambda>lease.
     bindR (jget lease ''run_id'') (\<lambda>own_run.
     bindR (jget lease ''status'') (\<lambda>status.
     (if py_eq own_run run_id \<and> status = JStr ''active'' then lease_is_fresh lease (now env) else Inr False))))"

definition run_has_dispatchable_work :: "env \<Rightarrow> store \<Rightarrow> json \<Rightarrow> obj \<Rightarrow> json \<Rightarrow> bool res" where
  "run_has_dispatchable_work env s run_document docs grant = bindR (jget run_document ''id'') (\<lambda>run_id.
     orR (anyR (machine_dispatchable grant) (map snd docs)) (anyR (fresh_lease_of_run env s run_id) (glob_yaml s ''runs/leases'')))"

definition waits_for_human :: "json \<Rightarrow> bool res" where
  "waits_for_human document = (if document = JNull then Inr False else status_in HUMAN_WAIT_STATUSES (por document (JObj [])))"

definition run_awaits_human :: "obj \<Rightarrow> bool res" where
  "run_awaits_human docs = anyR waits_for_human (map snd docs)"

text \<open>Close when what is left is stuck and nothing waits for a person.\<close>

definition should_stop_for_no_dispatchable_work :: "obj \<Rightarrow> bool res" where
  "should_stop_for_no_dispatchable_work docs = bindR (mapR (\<lambda>d. jget (por d (JObj [])) ''status'') (filter (\<lambda>d. d \<noteq> JNull) (map snd docs))) (\<lambda>found.
     (let statuses = map (\<lambda>v. py_str (por v (JStr []))) found in
     Inr (if statuses = [] then True
          else if list_ex (\<lambda>t. t \<in> set (MACHINE_DISPATCHABLE_STATUSES @ map fst STATUS_TO_STEP)) statuses then False
          else if list_ex (\<lambda>t. t \<in> set HUMAN_WAIT_STATUSES) statuses then False
          else if list_all (\<lambda>t. t = ''done'') statuses then False
          else True)))"

end
