(* ===== verification/Tick.thy ===== *)
theory Tick
  imports Dispatch
begin

text \<open>
  One scheduling tick of a Run (\<open>run_scheduling_tick\<close> of \<open>core/orchestrator/tick.py\<close>). A tick sends
  commands through the gateway and at most once has an agent execute a step; the effects are
  recorded in the order they happen. What runs outside of the documents is a parameter: the adapter
  and the governed execution (\<open>run_governed_execution\<close>), Git (worktrees, commits, merges), the
  contracts of the active bundle, the context schema and the files of the product. A function of
  Git gets the number of effects so far, so that its answers may change during the tick. Every
  identifier is drawn from a clock reading of its own.
\<close>

section \<open>What a tick works with\<close>

record execution_request =
  x_run_id :: string
  x_work_unit_id :: string
  x_work_unit :: json
  x_step :: string
  x_execution_id :: string
  x_lease_id :: string
  x_epoch :: int
  x_role_id :: string
  x_procedure_id :: string
  x_base_sha :: string
  x_allowed_paths :: "string list option"
  x_shell_commands :: "string list"
  x_required_checks :: "string list"
  x_secrets :: "string list"
  x_profile :: "json option"
  x_ceiling_paths :: "string list option"
  x_execution_root :: string
  x_worker_id :: string
  x_spi_request :: obj

record governed_outcome =
  outcome_ok :: bool
  outcome_result :: "json option"
  outcome_error :: "(string \<times> string) option"

record git =
  git_worktree :: "nat \<Rightarrow> string \<Rightarrow> string \<Rightarrow> json \<Rightarrow> string + string"
  git_head_sha :: "nat \<Rightarrow> string \<Rightarrow> string + string"
  git_head :: "nat \<Rightarrow> string option"
  git_changed :: "nat \<Rightarrow> string \<Rightarrow> string \<Rightarrow> string \<Rightarrow> string + string list"
  git_uncommitted :: "nat \<Rightarrow> string \<Rightarrow> string + string list"
  git_wip_commit :: "nat \<Rightarrow> string \<Rightarrow> string \<Rightarrow> string list \<Rightarrow> string + string option"
  git_merge :: "nat \<Rightarrow> string \<Rightarrow> string \<Rightarrow> json \<Rightarrow> string \<Rightarrow> string + (string \<times> string)"
  git_integration :: "nat \<Rightarrow> json \<Rightarrow> string + string"

record tconfig =
  gateway_of :: rconfig
  git_of :: git
  adapter_descriptor :: json
  governed_execution :: "nat \<Rightarrow> execution_request \<Rightarrow> pyexc + governed_outcome"
  exception_name :: "pyexc \<Rightarrow> string"
  outside_workspace :: "string \<Rightarrow> string \<Rightarrow> bool"
  execution_contract :: "string \<Rightarrow> string \<Rightarrow> json res"
  required_inputs :: "string \<Rightarrow> string list res"
  context_schema_error :: "json \<Rightarrow> string option"
  product_file :: "string \<Rightarrow> bool"
  workspace_root :: string
  ai_team_root :: string
  member_root :: "string option \<Rightarrow> string res"

datatype effect = Sent json int | Executed execution_request | Merged string

type_synonym tstate = "rstate \<times> effect list"
type_synonym 'a ticks = "tstate \<Rightarrow> tstate \<times> 'a res"

record tick_result =
  tick_action :: string
  tick_unit :: json
  tick_details :: obj

definition readT :: "(store \<Rightarrow> 'a res) \<Rightarrow> 'a ticks" where
  "readT f = (\<lambda>(r, tr). ((r, tr), f (files (disk (fst r)))))"

text \<open>A reading of the clock, with an identifier of its own.\<close>

definition drawT :: "tconfig \<Rightarrow> env ticks" where
  "drawT c = (\<lambda>((g, n), tr). (((g, Suc n), tr), Inr (clock (gateway_of c) n)))"

definition effectT :: "effect \<Rightarrow> unit ticks" where
  "effectT x = (\<lambda>(r, tr). ((r, tr @ [x]), Inr ()))"

definition gitT :: "tconfig \<Rightarrow> (git \<Rightarrow> nat \<Rightarrow> 'a) \<Rightarrow> 'a ticks" where
  "gitT c f = (\<lambda>(r, tr). ((r, tr), Inr (f (git_of c) (length tr))))"

definition commandT :: "tconfig \<Rightarrow> (env \<Rightarrow> json) \<Rightarrow> (json \<times> int) ticks" where
  "commandT c command = (\<lambda>(r, tr).
     (case send (gateway_of c) command r of
        (r1, Inl e) \<Rightarrow> ((r1, tr), Inl e)
      | (r1, Inr (receipt, exit_code)) \<Rightarrow>
          ((r1, tr @ [Sent (command (clock (gateway_of c) (snd r))) exit_code]), Inr (receipt, exit_code))))"

text \<open>An early return: the rest runs only when there is no result yet.\<close>

definition unlessS :: "'r option ticks \<Rightarrow> 'r option ticks \<Rightarrow> 'r option ticks" where
  "unlessS m k = bindS m (\<lambda>found. (case found of Some r \<Rightarrow> doneS (Some r) | None \<Rightarrow> k))"

fun gatherS :: "('a \<Rightarrow> 'b list ticks) \<Rightarrow> 'a list \<Rightarrow> 'b list ticks" where
  "gatherS f [] = doneS []"
| "gatherS f (x # xs) = bindS (f x) (\<lambda>ys.
     bindS (gatherS f xs) (\<lambda>zs.
     doneS (ys @ zs)))"

definition finish :: "string \<Rightarrow> json \<Rightarrow> obj \<Rightarrow> tick_result option ticks" where
  "finish action work_unit_id details =
     doneS (Some \<lparr>tick_action = action, tick_unit = work_unit_id, tick_details = details\<rparr>)"

section \<open>Commands\<close>

definition tick_actor :: "string \<Rightarrow> env \<Rightarrow> json" where
  "tick_actor role_id env = JObj [(''kind'', JStr ''role''),
     (''execution_id'', JStr (''EXE-orchestrator-'' @ take 8 (uuid env))), (''role_id'', JStr role_id),
     (''bundle_version'', JStr ''1.0.0''), (''adapter_id'', JStr ''core-orchestrator'')]"

definition tick_envelope :: "string \<Rightarrow> string \<Rightarrow> obj \<Rightarrow> obj \<Rightarrow> env \<Rightarrow> json" where
  "tick_envelope role_id command_type target payload env = (let key = ''orchestrator-'' @ uuid env in JObj
     [(''protocol_version'', JStr ''1.0''), (''command_id'', JStr (''CMD-'' @ key)), (''idempotency_key'', JStr (''idem-'' @ key)),
      (''correlation_id'', JStr key), (''type'', JStr command_type), (''issued_at'', now_iso env),
      (''actor'', tick_actor role_id env), (''target'', JObj target), (''payload'', JObj payload)])"

definition control_command :: "tconfig \<Rightarrow> string \<Rightarrow> obj \<Rightarrow> obj \<Rightarrow> (json \<times> int) ticks" where
  "control_command c command_type target payload = commandT c (tick_envelope ''control-plane'' command_type target payload)"

definition errors_of :: "json \<Rightarrow> json res" where
  "errors_of receipt = jget receipt ''errors''"

definition refused :: "string \<Rightarrow> json \<Rightarrow> json \<Rightarrow> tick_result option ticks" where
  "refused action work_unit_id receipt = bindS (liftS (errors_of receipt)) (\<lambda>errors.
     finish action work_unit_id [(''errors'', errors)])"

text \<open>The feedback of a closed Run is submitted at best effort.\<close>

definition best_effort_submit_feedback :: "tconfig \<Rightarrow> obj ticks" where
  "best_effort_submit_feedback c = bindS (control_command c ''SubmitFeedback''
       [(''kind'', JStr ''feedback_export''), (''id'', JStr ''new'')] []) (\<lambda>(receipt, exit_code).
     (if exit_code = 0 then bindS (liftS (jget receipt ''affected'')) (\<lambda>a.
       bindS (liftS (jiter (por a (JList [JObj []])))) (\<lambda>affected.
       bindS (liftS (jget (hd affected) ''path'')) (\<lambda>path.
       bindS (liftS (jget (hd affected) ''transmission_status'')) (\<lambda>transmitted.
       doneS [(''feedback_submit'', JObj [(''path'', path), (''transmission_status'', transmitted)])]))))
     else bindS (liftS (errors_of receipt)) (\<lambda>errors.
       doneS [(''feedback_submit_errors'', errors)])))"

definition terminal_run_result :: "tconfig \<Rightarrow> int \<Rightarrow> string \<Rightarrow> string \<Rightarrow> json \<Rightarrow> obj \<Rightarrow> tick_result option ticks" where
  "terminal_run_result c close_exit action_ok action_fail work_unit_id details =
     (if close_exit = 0 then bindS (best_effort_submit_feedback c) (\<lambda>extra.
       finish action_ok work_unit_id (set_keys extra details))
     else finish action_fail work_unit_id details)"

definition close_run_command :: "tconfig \<Rightarrow> string \<Rightarrow> json \<Rightarrow> obj \<Rightarrow> (json \<times> int) ticks" where
  "close_run_command c run_id run_document payload = bindS (liftS (jitem run_document ''revision'')) (\<lambda>revision.
     control_command c ''CloseRun'' [(''kind'', JStr ''run''), (''id'', JStr run_id), (''expected_revision'', revision)] payload)"

text \<open>Every stop of the Run: \<open>CloseRun\<close> as stopped with its condition.\<close>

definition stop_run :: "tconfig \<Rightarrow> string \<Rightarrow> json \<Rightarrow> string \<Rightarrow> string \<Rightarrow> json \<Rightarrow> obj \<Rightarrow> tick_result option ticks" where
  "stop_run c run_id run_document reason stop_condition work_unit_id extra = bindS (close_run_command c run_id run_document
       [(''status'', JStr ''stopped''), (''reason'', JStr reason), (''stop_condition'', JStr stop_condition)]) (\<lambda>(receipt, exit_code).
     bindS (liftS (errors_of receipt)) (\<lambda>errors.
     terminal_run_result c exit_code ''run_stopped'' ''run_stop_failed'' work_unit_id
       ([(''stop_condition'', JStr stop_condition)] @ extra @ [(''errors'', errors)])))"

definition transition_command :: "tconfig \<Rightarrow> string \<Rightarrow> string \<Rightarrow> json \<Rightarrow> string \<Rightarrow> string \<Rightarrow> (json \<times> int) ticks" where
  "transition_command c run_id work_unit_id wu_document to_status reason = bindS (liftS (jitem wu_document ''revision'')) (\<lambda>revision.
     control_command c ''TransitionWorkUnit''
       [(''kind'', JStr ''work_unit''), (''id'', JStr work_unit_id), (''expected_revision'', revision)]
       [(''run_id'', JStr run_id), (''to_status'', JStr to_status), (''reason'', JStr reason)])"

definition release_lease_command :: "tconfig \<Rightarrow> string \<Rightarrow> string \<Rightarrow> json \<Rightarrow> json \<Rightarrow> string \<Rightarrow> (json \<times> int) ticks" where
  "release_lease_command c run_id work_unit_id lease_id epoch reason =
     control_command c ''ReleaseWorkerLease'' [(''kind'', JStr ''worker_lease''), (''id'', lease_id)]
       [(''run_id'', JStr run_id), (''work_unit_id'', JStr work_unit_id), (''epoch'', epoch), (''reason'', JStr reason)]"

definition acquire_lease_command :: "tconfig \<Rightarrow> string \<Rightarrow> string \<Rightarrow> string \<Rightarrow> string \<Rightarrow> (json \<times> int) ticks" where
  "acquire_lease_command c run_id work_unit_id worker_id lease_id =
     control_command c ''AcquireWorkerLease'' [(''kind'', JStr ''worker_lease''), (''id'', JStr lease_id)]
       [(''id'', JStr lease_id), (''run_id'', JStr run_id), (''work_unit_id'', JStr work_unit_id), (''worker_id'', JStr worker_id)]"

definition heartbeat_command :: "tconfig \<Rightarrow> string \<Rightarrow> json \<Rightarrow> json \<Rightarrow> (json \<times> int) ticks" where
  "heartbeat_command c run_id lease_id epoch =
     control_command c ''RecordWorkerHeartbeat'' [(''kind'', JStr ''worker_lease''), (''id'', lease_id)]
       [(''run_id'', JStr run_id), (''epoch'', epoch)]"

definition new_lease_id :: "tconfig \<Rightarrow> string \<Rightarrow> string ticks" where
  "new_lease_id c work_unit_id = bindS (drawT c) (\<lambda>env.
     doneS (''LEASE-'' @ work_unit_id @ ''-'' @ take 8 (uuid env)))"

section \<open>Orphan attempts\<close>

definition lease_document :: "store \<Rightarrow> json \<Rightarrow> json res" where
  "lease_document s lease_id = read_yaml_or JNull s (lease_path lease_id)"

definition orphan_summary :: string where
  "orphan_summary = ''orphan started attempt recovered on restart''"

definition int_or_zero :: "json \<Rightarrow> int res" where
  "int_or_zero v = py_int (por v (JInt 0))"

text \<open>The lease of an attempt is the current one of its Work Unit, at the epoch of the attempt.\<close>

definition is_lease_authoritative :: "json \<Rightarrow> json \<Rightarrow> json \<Rightarrow> string \<Rightarrow> bool res" where
  "is_lease_authoritative lease current attempt lease_id =
     (if lease = JNull then Inr False else bindR (jget lease ''status'') (\<lambda>status.
     (if status \<noteq> JStr ''active'' then Inr False else
     bindR (jget current ''lease_id'') (\<lambda>i.
     (if py_str (por i (JStr [])) \<noteq> lease_id then Inr False else
     bindR (jget current ''epoch'') (\<lambda>e.
     bindR (int_or_zero e) (\<lambda>own.
     bindR (jget attempt ''epoch'') (\<lambda>a.
     bindR (int_or_zero a) (\<lambda>theirs.
     Inr (own = theirs))))))))))"

definition failure_fields :: "failure option \<Rightarrow> obj" where
  "failure_fields f = (case f of None \<Rightarrow> [] | Some x \<Rightarrow>
     [(''failure_code'', JStr (failure_code x)), (''failure_scope'', JStr (failure_scope x)), (''retryability'', JStr (retryability x))])"

definition orphan_payload :: "string \<Rightarrow> obj \<Rightarrow> string \<Rightarrow> string \<Rightarrow> bool \<Rightarrow> obj" where
  "orphan_payload run_id attempt work_unit_id lease_id lease_authoritative =
     [(''run_id'', JStr run_id), (''execution_id'', oget attempt ''execution_id''), (''work_unit_id'', JStr work_unit_id),
      (''worker_lease_id'', JStr lease_id), (''epoch'', por (oget attempt ''epoch'') (JInt 1)),
      (''step'', por (oget attempt ''step'') (JStr ''sandbox_implementation'')), (''status'', JStr ''timed_out''),
      (''summary'', JStr orphan_summary), (''checks'', JList []), (''artifacts'', JList []),
      (''workspace'', por (oget attempt ''workspace'') (JObj [])), (''contract'', por (oget attempt ''contract'') (JObj [])),
      (''requested_commands'', JList []), (''usage'', JObj []), (''provider'', JObj [])]
     @ failure_fields (classify_attempt_failure ''timed_out'' (JStr orphan_summary) [])
     @ (if lease_authoritative then [] else [(''orphan_recovery'', JBool True)])"

definition recover_orphan :: "tconfig \<Rightarrow> string \<Rightarrow> json \<Rightarrow> env \<Rightarrow> string \<Rightarrow> string list ticks" where
  "recover_orphan c run_id leases env p = bindS (readT (\<lambda>s. read_or_empty s p)) (\<lambda>document.
     bindS (liftS (as_obj document)) (\<lambda>attempt.
     (if \<not> py_eq (oget attempt ''run_id'') (JStr run_id) \<or> oget attempt ''status'' \<noteq> JStr ''started'' then doneS [] else
     (let work_unit_id = py_str (por (oget attempt ''work_unit_id'') (JStr [])) in
     (let lease_id = py_str (por (oget attempt ''worker_lease_id'') (JStr [])) in
     bindS (readT (\<lambda>s. lease_document s (JStr lease_id))) (\<lambda>lease.
     bindS (liftS (jget leases work_unit_id)) (\<lambda>current.
     bindS (liftS (is_lease_authoritative lease (por current (JObj [])) document lease_id)) (\<lambda>authoritative.
     bindS (liftS (if authoritative then lease_is_fresh lease (now env) else Inr False)) (\<lambda>fresh.
     (if fresh then doneS [] else
     bindS (liftS (jitem document ''id'')) (\<lambda>attempt_id.
     bindS (liftS (jget_or document ''revision'' (JInt 1))) (\<lambda>revision.
     bindS (control_command c ''RecordExecutionAttempt''
       [(''kind'', JStr ''execution_attempt''), (''id'', attempt_id), (''expected_revision'', revision)]
       (orphan_payload run_id attempt work_unit_id lease_id authoritative)) (\<lambda>(receipt, exit_code).
     doneS (if exit_code = 0 then [py_str attempt_id] else []))))))))))))))"

definition recover_orphan_started_attempts :: "tconfig \<Rightarrow> string \<Rightarrow> json \<Rightarrow> env \<Rightarrow> string list ticks" where
  "recover_orphan_started_attempts c run_id run_document env = bindS (readT (\<lambda>s. Inr (glob_yaml s ''runs/execution-attempts''))) (\<lambda>paths.
     bindS (liftS (jget run_document ''leases_by_work_unit'')) (\<lambda>l.
     gatherS (recover_orphan c run_id (por l (JObj [])) env) paths))"

section \<open>Stops of the Run before anything is scheduled\<close>

text \<open>
  Whether an eligible Work Unit can go on by itself, and whether one is blocked solely by
  dependencies outside the area filter.
\<close>

definition cross_area_flags :: "json \<Rightarrow> obj \<Rightarrow> bool \<times> bool \<Rightarrow> json \<Rightarrow> (bool \<times> bool) res" where
  "cross_area_flags grant docs flags document =
     (if document = JNull then Inr flags else bindR (status_in [''ready'', ''in_progress'', ''remediation_required''] document) (\<lambda>startable.
     (if \<not> startable then Inr flags else
     bindR (dependencies_satisfied document docs) (\<lambda>satisfied.
     (if satisfied then Inr (True, snd flags) else
     bindR (blocked_solely_by_cross_area_dependency document grant docs) (\<lambda>blocked.
     Inr (fst flags, snd flags \<or> blocked)))))))"

definition stops_on_cross_area_dependency :: "json \<Rightarrow> obj \<Rightarrow> obj \<Rightarrow> bool res" where
  "stops_on_cross_area_dependency grant eligible docs = bindR (area_filter_active grant) (\<lambda>active.
     (if \<not> active then Inr False else
     bindR (area_filter_dependency_policy grant) (\<lambda>policy.
     (if policy \<noteq> ''stop_on_cross_area_dependency'' then Inr False else
     bindR (foldR (cross_area_flags grant docs) (False, False) (map snd eligible)) (\<lambda>flags.
     Inr (snd flags \<and> \<not> fst flags))))))"

section \<open>Priority 1: a stale lease is assigned again\<close>

fun reassign_stale_lease :: "tconfig \<Rightarrow> string \<Rightarrow> string \<Rightarrow> env \<Rightarrow> obj \<Rightarrow> tick_result option ticks" where
  "reassign_stale_lease c run_id worker_id env [] = doneS None"
| "reassign_stale_lease c run_id worker_id env ((work_unit_id, lease_ref) # leases) = bindS (liftS (jitem lease_ref ''lease_id'')) (\<lambda>lease_id.
     bindS (readT (\<lambda>s. lease_document s lease_id)) (\<lambda>lease.
     bindS (liftS (if lease = JNull then Inr False else bindR (jget lease ''status'') (\<lambda>status.
       (if status \<noteq> JStr ''active'' then Inr False else
       bindR (lease_is_fresh lease (now env)) (\<lambda>fresh.
       Inr (\<not> fresh)))))) (\<lambda>stale.
     (if \<not> stale then reassign_stale_lease c run_id worker_id env leases else
     bindS (new_lease_id c work_unit_id) (\<lambda>replacement.
     bindS (acquire_lease_command c run_id work_unit_id worker_id replacement) (\<lambda>(receipt, exit_code).
     (if exit_code \<noteq> 0 then refused ''reassignment_failed'' (JStr work_unit_id) receipt
      else finish ''reassigned_lease'' (JStr work_unit_id) [(''lease_id'', JStr replacement)])))))))"

section \<open>Priority 2: a ready Work Unit without a lease is started\<close>

text \<open>The lease first, then the transition; a refused transition gives the lease back.\<close>

definition start_work_unit :: "tconfig \<Rightarrow> string \<Rightarrow> string \<Rightarrow> string \<Rightarrow> json \<Rightarrow> tick_result option ticks" where
  "start_work_unit c run_id worker_id work_unit_id wu_document = bindS (new_lease_id c work_unit_id) (\<lambda>lease_id.
     bindS (acquire_lease_command c run_id work_unit_id worker_id lease_id) (\<lambda>(receipt, exit_code).
     (if exit_code \<noteq> 0 then refused ''lease_acquisition_failed'' (JStr work_unit_id) receipt else bindS (liftS (jget wu_document ''status'')) (\<lambda>status.
     (if status \<noteq> JStr ''ready'' then finish ''reacquired_work_unit'' (JStr work_unit_id) [(''lease_id'', JStr lease_id)] else bindS (transition_command c run_id work_unit_id wu_document ''in_progress'' ''orchestrator started work'') (\<lambda>(moved, move_code).
     (if move_code \<noteq> 0 then bindS (release_lease_command c run_id work_unit_id (JStr lease_id) (JInt 1) ''work unit start transition failed'') (\<lambda>_.
       bindS (liftS (errors_of moved)) (\<lambda>errors.
       finish ''transition_failed'' (JStr work_unit_id) [(''errors'', errors), (''lease_id'', JStr lease_id)]))
     else finish ''started_work_unit'' (JStr work_unit_id) [(''lease_id'', JStr lease_id)])))))))"

text \<open>The Work Units passed over because of their area are reported at the end of the tick.\<close>

fun start_ready_work_unit :: "tconfig \<Rightarrow> string \<Rightarrow> string \<Rightarrow> json \<Rightarrow> obj \<Rightarrow> obj \<Rightarrow> obj \<Rightarrow> string list \<Rightarrow> string list
    \<Rightarrow> (string list \<times> tick_result option) ticks" where
  "start_ready_work_unit c run_id worker_id grant docs dependencies leases mismatched [] = doneS (mismatched, None)"
| "start_ready_work_unit c run_id worker_id grant docs dependencies leases mismatched (work_unit_id # ids) =
     (if ohas leases work_unit_id \<or> oget docs work_unit_id = JNull
      then start_ready_work_unit c run_id worker_id grant docs dependencies leases mismatched ids else (let wu_document = oget docs work_unit_id in
     bindS (liftS (status_in [''ready'', ''in_progress'', ''remediation_required''] wu_document)) (\<lambda>startable.
     (if \<not> startable then start_ready_work_unit c run_id worker_id grant docs dependencies leases mismatched ids else
     bindS (liftS (area_ineligibility_reason wu_document grant)) (\<lambda>ineligible.
     (if ineligible \<noteq> None
       then start_ready_work_unit c run_id worker_id grant docs dependencies leases (mismatched @ [work_unit_id]) ids else
     bindS (liftS (dependencies_satisfied wu_document dependencies)) (\<lambda>satisfied.
     (if \<not> satisfied then start_ready_work_unit c run_id worker_id grant docs dependencies leases mismatched ids else
     bindS (start_work_unit c run_id worker_id work_unit_id wu_document) (\<lambda>started.
     doneS (mismatched, started))))))))))"

section \<open>The context package of a step\<close>

definition forward_slashes :: "string \<Rightarrow> string" where
  "forward_slashes t = replace_char (char_of (92 :: nat)) (CHR ''/'') t"

text \<open>A path under the workspace root as \<open>relative_to(root).as_posix()\<close> gives it.\<close>

definition relative_path :: "tconfig \<Rightarrow> string \<Rightarrow> string" where
  "relative_path c t =
     (if startswith t ''/'' then (if startswith t (workspace_root c @ ''/'') then intersperse ''/'' (path_parts (drop (length (workspace_root c)) t)) else t)
      else intersperse ''/'' (path_parts t))"

definition contract_of_dependency :: "tconfig \<Rightarrow> json \<Rightarrow> string list" where
  "contract_of_dependency c dep =
     (let t = forward_slashes (strip (py_str dep)) in
      if t = [] then []
      else if CHR ''/'' \<notin> set t \<and> \<not> list_ex (endswith t) [''.json'', ''.yaml'', ''.yml''] then []
      else if product_file c t then [relative_path c t]
      else (case find (product_file c) [''contracts/'' @ t, ''.ai-team/contracts/'' @ t] of
         Some alt \<Rightarrow> [relative_path c alt] | None \<Rightarrow> [t]))"

definition derive_required_contracts :: "tconfig \<Rightarrow> json \<Rightarrow> string list res" where
  "derive_required_contracts c wu_document = bindR (jget wu_document ''dependencies'') (\<lambda>listed.
     bindR (jiter (por listed (JList []))) (\<lambda>deps.
     Inr (dedup_from [] (concat (map (contract_of_dependency c) deps)))))"

definition item_source :: "json \<Rightarrow> string list" where
  "item_source item = (case item of
     JObj ob \<Rightarrow> if truthy (oget ob ''source'') then [forward_slashes (py_str (oget ob ''source''))] else [] | _ \<Rightarrow> [])"

definition request_label :: "json \<Rightarrow> string" where
  "request_label req = ''open_context_request:'' @ py_str (case req of JObj ob \<Rightarrow> oget ob ''id'' | _ \<Rightarrow> JStr (py_str req))"

text \<open>The contracts that are no file or no item of the package, and the open requests.\<close>

definition missing_inputs :: "tconfig \<Rightarrow> json \<Rightarrow> json \<Rightarrow> string list res" where
  "missing_inputs c context_document wu_document = bindR (jget context_document ''required_contracts'') (\<lambda>r.
     bindR (jiter (por r (JList []))) (\<lambda>listed.
     bindR ((if listed = [] then derive_required_contracts c wu_document else Inr (map py_str listed))) (\<lambda>required.
     bindR (jget context_document ''items'') (\<lambda>i.
     bindR (jiter (por i (JList []))) (\<lambda>items.
     (let sources = concat (map item_source items) in
     (let missing = filter (\<lambda>rel. \<not> product_file c rel \<or> rel \<notin> set sources \<and> path_name rel \<notin> path_name ` set sources)
       (map forward_slashes required) in
     bindR (jget context_document ''open_context_requests'') (\<lambda>q.
     bindR (jiter (por q (JList []))) (\<lambda>requests.
     Inr (missing @ map request_label (filter truthy requests)))))))))))"

definition completeness_error :: "string list \<Rightarrow> string option" where
  "completeness_error missing =
     (if missing = [] then None
      else Some (''context_package incomplete: '' @ intersperse '', '' (take 5 missing)
        @ (if length missing \<le> 5 then [] else '' (+'' @ nat_text (length missing - 5) @ '' more)'')))"

definition path_stem :: "string \<Rightarrow> string" where
  "path_stem p = (let n = path_name p in if n = ''.yaml'' then n else take (length n - 5) n)"

text \<open>The package must name itself, the Work Unit and the role it is for.\<close>

definition identity_error :: "json \<Rightarrow> string \<Rightarrow> json \<Rightarrow> string \<Rightarrow> string option res" where
  "identity_error document expected_id wu_document role_id = bindR (jget document ''id'') (\<lambda>i.
     bindR (jget document ''work_unit'') (\<lambda>w.
     bindR (jget document ''role'') (\<lambda>r.
     bindR (jget wu_document ''id'') (\<lambda>own.
     (let work_unit_id = py_str (por own (JStr [])) in
     Inr (if py_str (por i (JStr [])) \<noteq> expected_id
          then Some (''context_package id '' @ py_repr i @ '' does not match requested package id '' @ repr_str expected_id)
          else if py_str (por w (JStr [])) \<noteq> work_unit_id
          then Some (''context_package work_unit '' @ py_repr w @ '' does not match work unit '' @ repr_str work_unit_id)
          else if py_str (por r (JStr [])) \<noteq> role_id
          then Some (''context_package role '' @ py_repr r @ '' does not match dispatched role '' @ repr_str role_id)
          else None))))))"

definition context_package_fault :: "tconfig \<Rightarrow> json \<Rightarrow> string \<Rightarrow> json \<Rightarrow> string \<Rightarrow> string option res" where
  "context_package_fault c loaded p wu_document role_id =
     (if \<not> is_dict loaded then Inr (Some ''context_package invalid: document must be a mapping'')
      else (case context_schema_error c loaded of
        Some message \<Rightarrow> Inr (Some message)
      | None \<Rightarrow> identity_error loaded (path_stem p) wu_document role_id))"

text \<open>
  The path of the package for the request, or why the step cannot be dispatched without it: only a
  procedure that requires a context package is stopped by a fault of it.
\<close>

definition resolve_context_package_ref :: "tconfig \<Rightarrow> store \<Rightarrow> json \<Rightarrow> string \<Rightarrow> string \<Rightarrow> (string option \<times> string option) res" where
  "resolve_context_package_ref c s wu_document procedure_id role_id = bindR (required_inputs c procedure_id) (\<lambda>required.
     (let needs_context = (''context_package'' \<in> set required) in
     (let fault = (\<lambda>message. Inr (None, if needs_context then Some message else None)) in
     bindR (jget wu_document ''context_package_ref'') (\<lambda>raw_ref.
     (if raw_ref = JNull \<or> raw_ref = JStr [] then fault ''context_package required but work unit has no context_package_ref'' else
     (case canonical_context_package_path (py_str raw_ref) of
        Inl e \<Rightarrow> (case e of ValueError message \<Rightarrow> fault message | _ \<Rightarrow> Inl e)
      | Inr p \<Rightarrow>
          (if \<not> is_file s p then fault (''context_package missing or unreadable: .ai-team/'' @ p)
           else (case read_or_empty s p of
             Inl e \<Rightarrow> fault (''context_package invalid: '' @ describe (gateway_of c) e)
           | Inr document \<Rightarrow> bindR (context_package_fault c document p wu_document role_id) (\<lambda>found.
               (case found of
                  Some message \<Rightarrow> fault message
                | None \<Rightarrow> bindR ((if needs_context then missing_inputs c document wu_document else Inr [])) (\<lambda>missing.
                    (case completeness_error missing of
                       Some message \<Rightarrow> Inr (None, Some message)
                     | None \<Rightarrow> Inr (Some (''.ai-team/'' @ p), None)))))))))))))"

section \<open>Priority 3: one step is executed\<close>

text \<open>What one dispatch works with: the Run, the Work Unit, the lease, the step and the execution.\<close>

record frame =
  f_run_id :: string
  f_worker_id :: string
  f_run :: json
  f_now :: env
  f_unit :: string
  f_document :: json
  f_lease_id :: json
  f_epoch :: json
  f_status :: json
  f_step :: string
  f_role_id :: string
  f_procedure_id :: string
  f_checks :: "string list"
  f_execution_id :: string
  f_attempt_id :: string

definition attempt_actor_role :: "frame \<Rightarrow> string" where
  "attempt_actor_role f = (if f_step f = ''integration_review'' then ''integration-steward'' else ''control-plane'')"

definition attempt_fields :: "frame \<Rightarrow> json \<Rightarrow> obj" where
  "attempt_fields f status =
     [(''run_id'', JStr (f_run_id f)), (''execution_id'', JStr (f_execution_id f)), (''work_unit_id'', JStr (f_unit f)),
      (''worker_lease_id'', f_lease_id f), (''epoch'', f_epoch f), (''step'', JStr (f_step f)), (''status'', status)]"

definition attempt_command :: "tconfig \<Rightarrow> frame \<Rightarrow> string \<Rightarrow> obj \<Rightarrow> obj \<Rightarrow> (json \<times> int) ticks" where
  "attempt_command c f role_id extra payload = commandT c (tick_envelope role_id ''RecordExecutionAttempt''
     ([(''kind'', JStr ''execution_attempt''), (''id'', JStr (f_attempt_id f))] @ extra) payload)"

definition unit_of :: "frame \<Rightarrow> json" where
  "unit_of f = JStr (f_unit f)"

text \<open>A step whose attempts are used up is not dispatched: the Work Unit is moved back or blocked.\<close>

definition demote_exhausted :: "tconfig \<Rightarrow> frame \<Rightarrow> json \<Rightarrow> string \<Rightarrow> tick_result option ticks" where
  "demote_exhausted c f lease_ref reason =
     (case map_of NEXT_STATUS_ON_EXHAUSTION (py_str (f_status f)) of
        None \<Rightarrow> finish ''convergence_exhausted'' (unit_of f) [(''step'', JStr (f_step f)), (''reason'', JStr reason)]
      | Some next_status \<Rightarrow> bindS (transition_command c (f_run_id f) (f_unit f) (f_document f) next_status
            (''orchestrator: convergence already exhausted before dispatch ('' @ reason @ '')'')) (\<lambda>(receipt, exit_code).
          (if exit_code \<noteq> 0 then refused ''transition_failed'' (unit_of f) receipt else bindS (liftS (jitem lease_ref ''epoch'')) (\<lambda>epoch.
          bindS (release_lease_command c (f_run_id f) (f_unit f) (f_lease_id f) epoch
            (''convergence already exhausted: '' @ reason)) (\<lambda>(released, release_code).
          bindS (liftS (errors_of released)) (\<lambda>errors.
          finish (if release_code = 0 then ''demoted_work_unit'' else ''lease_release_failed'') (unit_of f)
            [(''from'', f_status f), (''to'', JStr next_status), (''reason'', JStr reason), (''errors'', errors)]))))))"

text \<open>A worker that is not isolated: the attempt failed, and the Run stops.\<close>

definition fail_unisolated :: "tconfig \<Rightarrow> frame \<Rightarrow> string \<Rightarrow> string \<Rightarrow> string \<Rightarrow> obj \<Rightarrow> tick_result option ticks" where
  "fail_unisolated c f role_id summary reason extra = bindS (attempt_command c f role_id [(''expected_revision'', JInt 1)]
       (attempt_fields f (JStr ''failed'') @ [(''summary'', JStr summary)])) (\<lambda>(receipt, exit_code).
     (if exit_code \<noteq> 0 then refused ''attempt_recording_failed'' (unit_of f) receipt
      else stop_run c (f_run_id f) (f_run f) reason ''worker_isolation_unguaranteed'' (unit_of f) extra))"

definition work_unit_member_id :: "json \<Rightarrow> string option res" where
  "work_unit_member_id document = bindR (jget document ''member_id'') (\<lambda>v.
     Inr (case v of JStr t \<Rightarrow> if strip t \<noteq> [] then Some (strip t) else None | _ \<Rightarrow> None))"

definition product_work_unit_missing_member_id :: "workspace \<Rightarrow> store \<Rightarrow> json \<Rightarrow> bool res" where
  "product_work_unit_missing_member_id ws s document = bindR (declared_members ws s) (\<lambda>members.
     (if length members < 2 then Inr False else
     bindR (jget document ''kind'') (\<lambda>kind.
     (if kind = JStr ''integration'' then Inr False else
     bindR (work_unit_member_id document) (\<lambda>own.
     Inr (own = None))))))"

definition isolated_worktree :: "json \<Rightarrow> bool res" where
  "isolated_worktree descriptor =
     (if \<not> truthy descriptor then Inr False else bindR (jget_or descriptor ''capabilities'' (JObj [])) (\<lambda>capabilities.
     bindR (jget capabilities ''isolated_worktree'') (\<lambda>isolated.
     Inr (truthy isolated))))"

definition adapter_identity :: "json \<Rightarrow> json" where
  "adapter_identity descriptor = (case descriptor of
     JObj ob \<Rightarrow> JObj [(''id'', JStr (py_str (por (oget ob ''adapter_id'') (JStr ''external'')))),
                      (''version'', JStr (py_str (por (oget ob ''adapter_version'') (JStr ''unknown''))))]
   | _ \<Rightarrow> JObj [(''id'', JStr ''external''), (''version'', JStr ''unknown'')])"

text \<open>Where the worktree of a Work Unit starts: a recovery says so, or its last checkpoint.\<close>

definition worktree_start :: "store \<Rightarrow> frame \<Rightarrow> json res" where
  "worktree_start s f = bindR (jget (f_run f) ''recovery_start_shas_by_work_unit'') (\<lambda>r.
     bindR (jget (por r (JObj [])) (f_unit f)) (\<lambda>start.
     (if truthy start then Inr start else
     bindR (checkpoint_start_sha s (f_unit f)) (\<lambda>checkpoint.
     Inr (case checkpoint of None \<Rightarrow> JNull | Some t \<Rightarrow> JStr t)))))"

definition opt_json :: "string option \<Rightarrow> json" where
  "opt_json t = (case t of None \<Rightarrow> JNull | Some x \<Rightarrow> JStr x)"

definition jstrings :: "string list \<Rightarrow> json" where
  "jstrings xs = JList (map JStr xs)"

text \<open>The request of the adapter.\<close>

definition spi_request :: "tconfig \<Rightarrow> store \<Rightarrow> frame \<Rightarrow> string \<Rightarrow> string option \<Rightarrow> string list \<times> string list option \<times> string list \<Rightarrow> obj res" where
  "spi_request c s f execution_root base_sha = (\<lambda>(shell_commands, allowed_paths, secrets). bindR (execution_contract c (f_role_id f) (f_procedure_id f)) (\<lambda>contract.
     bindR (jget (f_document f) ''scope'') (\<lambda>sc.
     bindR (jget_or (por sc (JObj [])) ''include'' (JList [])) (\<lambda>resolved_scope.
     bindR (jitem (f_run f) ''run_authorization_grant_id'') (\<lambda>grant_id.
     bindR (jget (f_run f) ''effective_autonomy_policy'') (\<lambda>policy.
     bindR (grant_remaining_seconds (f_now f) s (f_run f)) (\<lambda>remaining.
     bindR (resolve_step_timeout_seconds policy (f_step f) remaining) (\<lambda>timeout.
     bindR (work_unit_member_id (f_document f)) (\<lambda>member.
     bindR ((case member of None \<Rightarrow> Inr [] | Some m \<Rightarrow> bindR (member_root c (Some m)) (\<lambda>path.
       Inr [(''member_id'', JStr m), (''member_root'', JStr path)]))) (\<lambda>member_fields.
     Inr ([(''protocol_version'', JStr ''1.0''), (''execution_id'', JStr (f_execution_id f)), (''correlation_id'', JStr (f_run_id f)),
       (''adapter'', adapter_identity (adapter_descriptor c)), (''contract'', contract), (''work_unit_id'', JStr (f_unit f)),
       (''requested_at'', now_iso (f_now f)), (''resolved_scope'', resolved_scope), (''execution_workspace'', JStr execution_root),
       (''work_unit_snapshot'', f_document f), (''required_checks'', jstrings (f_checks f)),
       (''kill_switch_path'', JStr (ai_team_root c @ ''/'' @ grant_path grant_id)),
       (''run_state_path'', JStr (ai_team_root c @ ''/'' @ run_path (JStr (f_run_id f)))),
       (''allowed_shell_commands'', jstrings shell_commands),
       (''allowed_paths'', case allowed_paths of None \<Rightarrow> JNull | Some ps \<Rightarrow> jstrings ps),
       (''accessible_secrets'', jstrings secrets), (''timeout_seconds'', JFloat timeout)]
       @ member_fields @ (case base_sha of None \<Rightarrow> [] | Some b \<Rightarrow> [(''base_sha'', JStr b)]))))))))))))"

definition blocked_result :: "string \<Rightarrow> string \<Rightarrow> obj" where
  "blocked_result summary limitation =
     [(''status'', JStr ''blocked''), (''summary'', JStr summary), (''checks'', JList []), (''artifacts'', JList []),
      (''requested_commands'', JList []), (''usage'', JObj []), (''limitations'', jstrings [limitation])]"

definition missing_member_summary :: string where
  "missing_member_summary = ''member_id is required to execute a product Work Unit when the ensemble has two or more members''"

text \<open>The paths of the ceiling of the Work Unit, or of the Run.\<close>

definition ceiling_paths :: "json \<Rightarrow> string \<Rightarrow> string list option res" where
  "ceiling_paths run_document work_unit_id = bindR (jget run_document ''execution_ceilings_by_work_unit'') (\<lambda>b.
     bindR ((case por b (JObj []) of JObj by_unit \<Rightarrow> Inr (oget by_unit work_unit_id) | _ \<Rightarrow> Inr JNull)) (\<lambda>own.
     bindR (jget run_document ''execution_ceiling'') (\<lambda>shared.
     (case (if is_dict own then own else shared) of
        JObj limits \<Rightarrow> (if \<not> ohas limits ''allowed_paths'' then Inr None else bindR (jiter (por (oget limits ''allowed_paths'') (JList []))) (\<lambda>patterns.
          Inr (Some (sanitize_allowed_paths patterns))))
      | _ \<Rightarrow> Inr None))))"

text \<open>An implementation is checked against the explicit criteria of the Work Unit, when it has some.\<close>

definition gateway_required_checks :: "frame \<Rightarrow> string list res" where
  "gateway_required_checks f =
     (if f_step f \<notin> set IMPLEMENTATION_STEPS then Inr (f_checks f) else bindR (explicit_acceptance_criterion_ids (f_document f)) (\<lambda>explicit_ac_ids.
     Inr (if explicit_ac_ids \<noteq> [] then explicit_ac_ids else f_checks f)))"

definition with_context :: "string option \<Rightarrow> obj \<Rightarrow> obj" where
  "with_context context_ref ob = (case context_ref of None \<Rightarrow> ob | Some p \<Rightarrow> AList.update ''context_package_ref'' (JStr p) ob)"

definition request_of ::
  "store \<Rightarrow> frame \<Rightarrow> string \<Rightarrow> string \<Rightarrow> string option \<Rightarrow> string list \<times> string list option \<times> string list \<Rightarrow> obj \<Rightarrow> (int \<Rightarrow> execution_request) res" where
  "request_of s f execution_root base_sha context_ref = (\<lambda>(shell_commands, allowed_paths, secrets) spi. bindR (as_obj (f_document f)) (\<lambda>ob.
     bindR (gateway_required_checks f) (\<lambda>checks.
     bindR (read_or_empty s ''project-profile.yaml'') (\<lambda>profile.
     bindR (ceiling_paths (f_run f) (f_unit f)) (\<lambda>limits.
     Inr (\<lambda>epoch. \<lparr>x_run_id = f_run_id f, x_work_unit_id = f_unit f, x_work_unit = JObj (with_context context_ref ob), x_step = f_step f,
       x_execution_id = f_execution_id f, x_lease_id = py_str (f_lease_id f), x_epoch = epoch, x_role_id = f_role_id f,
       x_procedure_id = f_procedure_id f, x_base_sha = base_sha, x_allowed_paths = allowed_paths,
       x_shell_commands = shell_commands, x_required_checks = checks, x_secrets = secrets,
       x_profile = (if is_dict profile then Some profile else None), x_ceiling_paths = limits, x_execution_root = execution_root, x_worker_id = f_worker_id f,
       x_spi_request = with_context context_ref spi\<rparr>))))))"

text \<open>Of a result: the fields, whether the gateway accepted it, and a stop of the Run with its reason.\<close>

type_synonym execution_result = "obj \<times> bool \<times> (string \<times> string) option"

definition REFUSED_BEFORE_LAUNCH :: "string list" where
  "REFUSED_BEFORE_LAUNCH = [''unsupported_role'', ''unsupported_procedure'', ''missing_adapter_capability'',
     ''empty_effective_scope'', ''contradictory_path_policy'']"

definition rejection_code :: "governed_outcome \<Rightarrow> string" where
  "rejection_code x = (case outcome_error x of Some (code, _) \<Rightarrow> code | None \<Rightarrow> ''execution_gateway_rejected'')"

text \<open>The canonical result of an agent that did not succeed is kept, marked with the code.\<close>

definition agent_failure :: "governed_outcome \<Rightarrow> json option" where
  "agent_failure x = (if rejection_code x = ''agent_status_not_succeeded'' then outcome_result x else None)"

definition rejected_result :: "tconfig \<Rightarrow> string \<Rightarrow> string \<Rightarrow> governed_outcome \<Rightarrow> obj res" where
  "rejected_result c execution_root base_sha x =
     (let code = rejection_code x in
      case agent_failure x of
        Some reported \<Rightarrow> bindR (as_obj reported) (\<lambda>result.
          bindR (jiter (por (oget result ''limitations'') (JList []))) (\<lambda>l.
          Inr (AList.update ''limitations'' (JList (l @ [JStr code])) result)))
      | None \<Rightarrow>
          (let outside = (case outcome_error x of
              Some (k, message) \<Rightarrow> k = ''independent_verification_failed'' \<and> outside_workspace c message execution_root
            | None \<Rightarrow> False) in
           Inr [(''status'', JStr (if code \<in> set REFUSED_BEFORE_LAUNCH \<or> outside then ''blocked'' else ''failed'')),
             (''summary'', JStr (''execution gateway rejected: '' @ code @ '': ''
                @ (case outcome_error x of Some (_, message) \<Rightarrow> message | None \<Rightarrow> ''no details''))),
             (''checks'', JList []), (''artifacts'', JList []), (''requested_commands'', JList []), (''usage'', JObj []),
             (''limitations'', jstrings [code]), (''workspace'', JObj [(''base_sha'', JStr base_sha)])]))"

text \<open>A write outside of the scope stops the Run.\<close>

definition boundary_stop :: "governed_outcome \<Rightarrow> (string \<times> string) option" where
  "boundary_stop x =
     (if rejection_code x \<in> {''scope_violation'', ''forbidden_control_plane_path''}
      then Some (''out_of_workspace_write'', case outcome_error x of Some (_, message) \<Rightarrow> message | None \<Rightarrow> rejection_code x)
      else None)"

definition interpret_outcome :: "tconfig \<Rightarrow> string \<Rightarrow> string \<Rightarrow> pyexc + governed_outcome \<Rightarrow> execution_result res" where
  "interpret_outcome c execution_root base_sha answer =
     (case answer of
        Inl e \<Rightarrow> Inr (blocked_result (''execution gateway failed: '' @ exception_name c e @ '': '' @ describe (gateway_of c) e)
                   ''execution_gateway_error'', False, None)
      | Inr x \<Rightarrow>
          (case (if outcome_ok x then outcome_result x else None) of
             Some reported \<Rightarrow> bindR (as_obj reported) (\<lambda>result.
               Inr (result, True, None))
           | None \<Rightarrow> bindR (rejected_result c execution_root base_sha x) (\<lambda>result.
               Inr (result, False, boundary_stop x))))"

text \<open>The agent runs here, and only here.\<close>

definition execute_governed :: "tconfig \<Rightarrow> string \<Rightarrow> string \<Rightarrow> json \<Rightarrow> (int \<Rightarrow> execution_request) \<Rightarrow> execution_result ticks" where
  "execute_governed c execution_root base_sha epoch request =
     (case py_int epoch of
        Inl e \<Rightarrow> liftS (interpret_outcome c execution_root base_sha (Inl e))
      | Inr n \<Rightarrow> bindS (gitT c (\<lambda>_ k. governed_execution c k (request n))) (\<lambda>answer.
          bindS (effectT (Executed (request n))) (\<lambda>_.
          liftS (interpret_outcome c execution_root base_sha answer))))"

section \<open>What follows an execution\<close>

definition result_field :: "obj \<Rightarrow> string \<Rightarrow> json \<Rightarrow> json" where
  "result_field result k d = (case map_of result k of None \<Rightarrow> d | Some v \<Rightarrow> v)"

text \<open>\<open>f"{result.get('summary') or ''} <text>".strip()\<close>.\<close>

definition add_summary :: "string \<Rightarrow> obj \<Rightarrow> obj" where
  "add_summary t result = AList.update ''summary'' (JStr (strip (py_str (por (oget result ''summary'') (JStr [])) @ '' '' @ t))) result"

definition set_workspace :: "(string \<times> json) list \<Rightarrow> obj \<Rightarrow> obj res" where
  "set_workspace kvs result = bindR (as_obj (por (oget result ''workspace'') (JObj []))) (\<lambda>old.
     Inr (AList.update ''workspace'' (JObj (set_keys kvs old)) result))"

text \<open>A boundary as the message shows it, a pair.\<close>

definition pair_text :: "string \<times> string \<Rightarrow> string" where
  "pair_text = (\<lambda>(a, b). ''('' @ repr_str a @ '', '' @ repr_str b @ '')'')"

definition boundary_of :: "frame \<Rightarrow> string list option \<Rightarrow> string list \<Rightarrow> (string \<times> string) option res" where
  "boundary_of f allowed_paths changed =
     boundary_error_for_changed_files changed (f_unit f) (f_document f) (case allowed_paths of None \<Rightarrow> [] | Some ps \<Rightarrow> map JStr ps) None"

text \<open>
  The work of an attempt that timed out is kept as an unverified commit, if it stays within the
  boundary. A fault of Git ends the salvage and leaves what it did so far.
\<close>

definition keep_salvage :: "tconfig \<Rightarrow> frame \<Rightarrow> string \<Rightarrow> string option \<Rightarrow> string list option \<Rightarrow> string \<Rightarrow> obj \<Rightarrow> obj ticks" where
  "keep_salvage c f execution_root base_sha allowed_paths salvage_sha result =
     (case base_sha of
        None \<Rightarrow> doneS result
      | Some base \<Rightarrow> bindS (gitT c (\<lambda>g k. git_changed g k execution_root base salvage_sha)) (\<lambda>changed.
          (case changed of
             Inl fault \<Rightarrow> doneS result
           | Inr paths \<Rightarrow> bindS (liftS (boundary_of f allowed_paths paths)) (\<lambda>boundary.
               (if boundary \<noteq> None then doneS result else
               bindS (liftS (set_workspace [(''base_sha'', JStr base), (''result_sha'', JStr salvage_sha)] result)) (\<lambda>kept.
               doneS (add_summary (''Unverified WIP checkpoint saved at '' @ salvage_sha @ ''.'') kept)))))))"

definition wip_commit :: "tconfig \<Rightarrow> frame \<Rightarrow> string \<Rightarrow> string list \<Rightarrow> (string \<times> string) option \<Rightarrow> (string + string option) ticks" where
  "wip_commit c f execution_root dirty boundary =
     (if dirty = [] \<or> boundary \<noteq> None then doneS (Inr None)
      else gitT c (\<lambda>g k. git_wip_commit g k execution_root (f_unit f) dirty))"

definition salvage_timed_out :: "tconfig \<Rightarrow> frame \<Rightarrow> string \<Rightarrow> string option \<Rightarrow> string list option \<Rightarrow> obj \<Rightarrow> obj ticks" where
  "salvage_timed_out c f execution_root base_sha allowed_paths result = bindS (gitT c (\<lambda>g k. git_uncommitted g k execution_root)) (\<lambda>uncommitted.
     (case uncommitted of
        Inl fault \<Rightarrow> doneS result
      | Inr dirty \<Rightarrow> bindS (liftS (if dirty = [] then Inr None else boundary_of f allowed_paths dirty)) (\<lambda>boundary.
          bindS (wip_commit c f execution_root dirty boundary) (\<lambda>committed.
          (case committed of
             Inl fault \<Rightarrow> doneS result
           | Inr wip_sha \<Rightarrow> (let result1 = (case boundary of None \<Rightarrow> result | Some b \<Rightarrow> add_summary (''WIP checkpoint skipped: '' @ pair_text b) result) in
               bindS (gitT c (\<lambda>g k. git_head_sha g k execution_root)) (\<lambda>head.
               (case head of
                  Inl fault \<Rightarrow> doneS result1
                | Inr actual \<Rightarrow>
                    (case (case wip_sha of Some w \<Rightarrow> Some w | None \<Rightarrow> if base_sha \<noteq> None \<and> Some actual \<noteq> base_sha then Some actual else None) of
                       None \<Rightarrow> doneS result1
                     | Some salvage_sha \<Rightarrow>
                         (if boundary \<noteq> None then doneS result1
                          else keep_salvage c f execution_root base_sha allowed_paths salvage_sha result1))))))))))"

text \<open>A success that the gateway did not accept must show its evidence, and stay within the boundary.\<close>

definition evidence_gate :: "frame \<Rightarrow> bool \<Rightarrow> string option \<Rightarrow> json \<Rightarrow> obj \<Rightarrow> (json \<times> obj) res" where
  "evidence_gate f accepted base_sha status result =
     (if status \<noteq> JStr ''succeeded'' \<or> accepted then Inr (status, result) else bindR (evidence_error (JObj result) (f_checks f) (f_step f \<in> set IMPLEMENTATION_STEPS) base_sha (f_document f)) (\<lambda>fault.
     Inr (case fault of None \<Rightarrow> (status, result) | Some message \<Rightarrow> (JStr ''failed'', add_summary (''Evidence gate: '' @ message) result))))"

definition boundary_gate :: "tconfig \<Rightarrow> frame \<Rightarrow> bool \<Rightarrow> string \<Rightarrow> string option \<Rightarrow> string list option \<Rightarrow> json \<times> obj
    \<Rightarrow> (json \<times> obj \<times> (string \<times> string option) option) ticks" where
  "boundary_gate c f applies execution_root base_sha allowed_paths = (\<lambda>(status, result).
     (if status \<noteq> JStr ''succeeded'' \<or> \<not> applies then doneS (status, result, None) else bindS (gitT c (\<lambda>g k. git_head_sha g k execution_root)) (\<lambda>head.
     bindS (gitT c (\<lambda>g k. git_changed g k execution_root)) (\<lambda>changed.
     bindS (liftS (implementation_boundary_error head changed base_sha (JObj result) (f_document f) (f_run f)
       (case allowed_paths of None \<Rightarrow> [] | Some ps \<Rightarrow> ps))) (\<lambda>violation.
     (case violation of
        None \<Rightarrow> doneS (status, result, None)
      | Some (message, stop) \<Rightarrow>
          doneS (JStr ''failed'', add_summary (''Execution boundary: '' @ message) result, Some (message, stop))))))))"

definition integration_verification_command :: "store \<Rightarrow> string res" where
  "integration_verification_command s = bindR (read_or_empty s ''project-profile.yaml'') (\<lambda>profile.
     bindR (jget profile ''commands'') (\<lambda>x.
     bindR (jget (por x (JObj [])) ''integration_test'') (\<lambda>a.
     bindR (jget (por x (JObj [])) ''unit_test'') (\<lambda>b.
     (if \<not> truthy (por a b)
       then Inl (GitWorkspaceError ''project-profile.yaml must define commands.integration_test or commands.unit_test'') else
     Inr (py_str (por a b)))))))"

text \<open>
  An integration is fenced by one more heartbeat right before the shared branch changes. The result
  is the status, the result and the merge, or the tick ends there.
\<close>

definition merge_work_unit :: "tconfig \<Rightarrow> frame \<Rightarrow> string \<Rightarrow> obj \<Rightarrow> (json \<times> obj \<times> (string \<times> string) option) ticks" where
  "merge_work_unit c f product_root result = bindS (liftS (jitem (f_run f) ''integration_branch'')) (\<lambda>branch.
     bindS (readT (\<lambda>s. Inr (integration_verification_command s))) (\<lambda>found.
     bindS ((case found of
         Inl (GitWorkspaceError fault) \<Rightarrow> doneS (Inl fault)
       | Inl e \<Rightarrow> liftS (Inl e)
       | Inr verification \<Rightarrow> gitT c (\<lambda>g k. git_merge g k product_root (f_unit f) branch verification))) (\<lambda>merged.
     (case merged of
        Inl fault \<Rightarrow> doneS (JStr ''failed'', add_summary (''Integration gate: '' @ fault) result, None)
      | Inr (merge_sha, digest) \<Rightarrow> bindS (effectT (Merged merge_sha)) (\<lambda>_.
          bindS (liftS (jiter (result_field result ''artifacts'' (JList [])))) (\<lambda>artifacts.
          doneS (JStr ''succeeded'', AList.update ''artifacts'' (JList (artifacts @ [JObj [(''kind'', JStr ''integration_revalidation''),
              (''path'', JStr (''git:'' @ py_str branch @ ''@'' @ merge_sha)), (''sha256'', JStr digest)]]))
            (add_summary (''Integrated as '' @ merge_sha @ ''.'') result), Some (merge_sha, digest))))))))"

section \<open>Recording the attempt\<close>

definition taxonomy :: "json \<Rightarrow> obj \<Rightarrow> obj res" where
  "taxonomy status result = bindR (jiter (por (oget result ''limitations'') (JList []))) (\<lambda>limitations.
     bindR (key_of status) (\<lambda>key.
     Inr (case key of None \<Rightarrow> []
          | Some t \<Rightarrow> failure_fields (classify_attempt_failure t (JStr (py_str (por (oget result ''summary'') (JStr [])))) limitations))))"

definition recorded_payload :: "frame \<Rightarrow> json \<Rightarrow> json \<Rightarrow> obj \<Rightarrow> obj res" where
  "recorded_payload f contract status result = bindR (taxonomy status result) (\<lambda>fields.
     Inr (attempt_fields f status @
       [(''summary'', oget result ''summary''), (''checks'', result_field result ''checks'' (JList [])),
        (''artifacts'', result_field result ''artifacts'' (JList [])), (''workspace'', result_field result ''workspace'' (JObj [])),
        (''contract'', result_field result ''contract'' contract),
        (''requested_commands'', result_field result ''requested_commands'' (JList [])), (''usage'', result_field result ''usage'' (JObj [])),
        (''duration_ms'', oget result ''duration_ms''), (''provider'', result_field result ''provider'' (JObj []))] @ fields))"

text \<open>A refused record stops the Run when there is a reason to.\<close>

definition recording_refused :: "tconfig \<Rightarrow> frame \<Rightarrow> json \<Rightarrow> tick_result option ticks" where
  "recording_refused c f receipt = bindS (drawT c) (\<lambda>env.
     bindS (readT (\<lambda>s. global_stop_condition env s (f_run f))) (\<lambda>stop.
     (case stop of
        Some condition \<Rightarrow> stop_run c (f_run_id f) (f_run f) (''run-reliability-controller: '' @ condition) condition (unit_of f) []
      | None \<Rightarrow> refused ''attempt_recording_failed'' (unit_of f) receipt)))"

section \<open>An observation of every attempt that failed\<close>

definition STEP_CATEGORY :: "(string \<times> string) list" where
  "STEP_CATEGORY = [(''sandbox_implementation'', ''tooling''), (''remediation'', ''tooling''), (''verification'', ''testing''),
     (''review'', ''review''), (''security_review'', ''audit''), (''audit'', ''audit''), (''integration_review'', ''orchestration'')]"

definition STATUS_ORIGIN :: "(string \<times> string \<times> string) list" where
  "STATUS_ORIGIN = [(''timed_out'', ''framework'', ''probable''), (''cancelled'', ''framework'', ''probable''),
     (''blocked'', ''human_process'', ''probable''), (''failed'', ''framework'', ''low'')]"

definition improvement_for :: "string \<Rightarrow> string \<Rightarrow> string option" where
  "improvement_for step status =
     (if status = ''failed'' then Some (''Triage recurring auto:'' @ step @ '':failed signals; confirm whether root cause is framework, project, or environment'')
      else if status = ''timed_out'' then Some (''Review worker stall / timeout thresholds and step duration for '' @ repr_str step)
      else if status = ''blocked'' then Some (''Clarify unblocking path or human gate for step '' @ repr_str step)
      else if status = ''cancelled'' then Some (''Investigate why step '' @ repr_str step @ '' was cancelled mid-run'')
      else None)"

definition classify_auto_observation :: "string \<Rightarrow> string \<Rightarrow> string \<times> json \<times> string option" where
  "classify_auto_observation step status =
     (let (origin, confidence) = (case map_of STATUS_ORIGIN status of Some x \<Rightarrow> x | None \<Rightarrow> (''framework'', ''low'')) in
      (case map_of STEP_CATEGORY step of Some x \<Rightarrow> x | None \<Rightarrow> ''orchestration'',
       JObj [(''origin'', JStr origin), (''confidence'', JStr confidence)], improvement_for step status))"

definition ellipsis :: string where
  "ellipsis = map char_of [226 :: nat, 128, 166]"

definition MAX_AUTO_SYMPTOM :: nat where "MAX_AUTO_SYMPTOM = 2000"

definition bounded_symptom :: "string \<Rightarrow> string" where
  "bounded_symptom t = (if length t > MAX_AUTO_SYMPTOM then take (MAX_AUTO_SYMPTOM - 1) t @ ellipsis else t)"

definition observation_payload :: "frame \<Rightarrow> string \<Rightarrow> obj \<Rightarrow> obj" where
  "observation_payload f status result =
     (let (category, classification, improvement) = classify_auto_observation (f_step f) status;
          raw_symptom = por (oget result ''summary'') (JStr (''execution attempt for step '' @ repr_str (f_step f) @ '' ended with status '' @ repr_str status)) in
      [(''category'', JStr category), (''symptom'', JStr (bounded_symptom (py_str raw_symptom))),
       (''severity'', JStr (if is_unattended_preset (case f_run f of JObj ob \<Rightarrow> oget ob ''autonomy_preset'' | _ \<Rightarrow> JNull) then ''high'' else ''medium'')),
       (''classification'', classification), (''work_unit'', unit_of f), (''phase'', JStr (f_step f)), (''recorded_by'', JStr ''orchestrator:auto''),
       (''impact'', JObj [(''blocked_minutes'', JInt 0), (''rework_required'', JBool (status \<in> {''failed'', ''timed_out''})),
          (''human_intervention'', JBool (status = ''blocked'')), (''affected_work_units'', JList [unit_of f])]),
       (''evidence_refs'', jstrings [f_attempt_id f, f_execution_id f]), (''recurrence_key'', JStr (''auto:'' @ f_step f @ '':'' @ status))]
      @ (case improvement of None \<Rightarrow> [] | Some t \<Rightarrow> [(''candidate_improvement'', JStr t)]))"

definition observe_failure :: "tconfig \<Rightarrow> frame \<Rightarrow> json \<Rightarrow> obj \<Rightarrow> unit ticks" where
  "observe_failure c f status result = bindS (liftS (in_strs status [''failed'', ''timed_out'', ''blocked'', ''cancelled''])) (\<lambda>failed.
     (if \<not> failed then doneS () else
     bindS (control_command c ''RecordObservation'' [(''kind'', JStr ''observation''), (''id'', JStr ''new'')]
       (observation_payload f (py_str status) result)) (\<lambda>_.
     doneS ())))"

section \<open>After the attempt was recorded\<close>

definition record_merge :: "tconfig \<Rightarrow> frame \<Rightarrow> string \<times> string \<Rightarrow> tick_result option ticks" where
  "record_merge c f = (\<lambda>(merge_sha, digest). bindS (drawT c) (\<lambda>env.
     bindS (readT (\<lambda>s. integration_conflict_attempts s (f_run_id f) (f_unit f))) (\<lambda>attempts.
     bindS (commandT c (tick_envelope ''integration-steward'' ''RecordIntegrationMerge''
       [(''kind'', JStr ''integration_merge''), (''id'', JStr (''MERGE-'' @ f_unit f @ ''-'' @ take 8 (uuid env)))]
       [(''run_id'', JStr (f_run_id f)), (''work_unit_id'', unit_of f), (''worker_lease_id'', f_lease_id f), (''epoch'', f_epoch f),
        (''conflict_resolution_attempts'', JInt attempts), (''revalidation_passed'', JBool True),
        (''revalidation_evidence'', jstrings [digest, merge_sha])])) (\<lambda>(receipt, exit_code).
     (if exit_code = 0 then doneS None else
     bindS (liftS (errors_of receipt)) (\<lambda>errors.
     finish ''integration_recording_failed'' (unit_of f) [(''errors'', errors), (''merge_sha'', JStr merge_sha)]))))))"

text \<open>The budget of the grant ran out, or the same failure hit several Work Units.\<close>

definition stop_after_attempt :: "tconfig \<Rightarrow> frame \<Rightarrow> json \<Rightarrow> tick_result option ticks" where
  "stop_after_attempt c f receipt = bindS (liftS (jget receipt ''details'')) (\<lambda>d.
     bindS (liftS (jget (por d (JObj [])) ''global_stop_condition'')) (\<lambda>condition.
     (if truthy condition
       then stop_run c (f_run_id f) (f_run f) ''run-reliability-controller: execution budget exhausted'' (py_str condition) (unit_of f) [] else
     bindS (drawT c) (\<lambda>env.
     bindS (readT (\<lambda>s. global_stop_condition env s (f_run f))) (\<lambda>systemic.
     (if systemic = Some ''repeated_systemic_failure''
      then stop_run c (f_run_id f) (f_run f) ''identical failures affected multiple Work Units'' ''repeated_systemic_failure'' (unit_of f) []
      else doneS None))))))"

definition workspace_value :: "obj \<Rightarrow> string \<Rightarrow> json res" where
  "workspace_value result k = jget (por (oget result ''workspace'') (JObj [])) k"

definition checkpoint_payload :: "frame \<Rightarrow> bool \<Rightarrow> json \<Rightarrow> obj \<Rightarrow> obj res" where
  "checkpoint_payload f accepted status result = bindR (workspace_value result (if accepted then ''promoted_sha'' else ''result_sha'')) (\<lambda>commit.
     bindR (jiter (result_field result ''requested_commands'' (JList []))) (\<lambda>commands.
     bindR (jiter (result_field result ''artifacts'' (JList []))) (\<lambda>items.
     bindR (mapR (\<lambda>item. jget item ''path'') items) (\<lambda>paths.
     bindR ((if status = JStr ''timed_out'' then workspace_value result ''result_sha'' else Inr JNull)) (\<lambda>saved.
     Inr [(''run_id'', JStr (f_run_id f)), (''worker_lease_id'', f_lease_id f), (''epoch'', f_epoch f), (''last_commit'', commit),
       (''last_validated_workflow_state'', f_status f), (''executed_commands'', jstrings (map py_str commands)),
       (''artifacts'', jstrings (map py_str paths)), (''next_step'', JStr (f_step f)),
       (''verification_status'', if truthy saved then JStr ''unverified''
          else if status = JStr ''succeeded'' \<and> accepted then JStr ''verified'' else JNull)])))))"

definition save_checkpoint :: "tconfig \<Rightarrow> frame \<Rightarrow> bool \<Rightarrow> json \<Rightarrow> obj \<Rightarrow> tick_result option ticks" where
  "save_checkpoint c f accepted status result = bindS (heartbeat_command c (f_run_id f) (f_lease_id f) (f_epoch f)) (\<lambda>(beat, beat_code).
     (if beat_code \<noteq> 0 then refused ''heartbeat_failed'' (unit_of f) beat else
     bindS (liftS (checkpoint_payload f accepted status result)) (\<lambda>payload.
     bindS (control_command c ''WriteCheckpoint'' [(''kind'', JStr ''checkpoint''), (''id'', unit_of f)] payload) (\<lambda>(receipt, exit_code).
     (if exit_code \<noteq> 0 then refused ''checkpoint_failed'' (unit_of f) receipt else doneS None)))))"

text \<open>A higher risk that the agent reports is escalated at once; the Work Unit may pause.\<close>

definition escalate_risk :: "tconfig \<Rightarrow> frame \<Rightarrow> obj \<Rightarrow> (json \<times> tick_result option) ticks" where
  "escalate_risk c f result = (case oget result ''risk_escalation'' of
       JObj risk \<Rightarrow> (if \<not> truthy (oget risk ''new_risk_class'') then doneS (f_document f, None) else bindS (readT (\<lambda>s. read_yaml s (run_path (JStr (f_run_id f))))) (\<lambda>current.
         bindS (liftS (jitem current ''revision'')) (\<lambda>revision.
         bindS (control_command c ''EscalateWorkUnitRisk''
           [(''kind'', JStr ''run''), (''id'', JStr (f_run_id f)), (''expected_revision'', revision)]
           [(''work_unit_id'', unit_of f), (''new_risk_class'', oget risk ''new_risk_class''),
            (''reason'', por (oget risk ''reason'') (JStr ''adapter reported higher risk during execution''))]) (\<lambda>(receipt, exit_code).
         (if exit_code \<noteq> 0 then bindS (refused ''risk_escalation_failed'' (unit_of f) receipt) (\<lambda>ended.
           doneS (f_document f, ended)) else bindS (readT (\<lambda>s. read_yaml s (work_unit_path (unit_of f)))) (\<lambda>document.
         bindS (liftS (jget receipt ''details'')) (\<lambda>d.
         bindS (liftS (jget (por d (JObj [])) ''paused'')) (\<lambda>paused.
         (if \<not> truthy paused then doneS (document, None) else bindS (finish ''paused_for_risk_escalation'' (unit_of f)
             [(''attempt_id'', JStr (f_attempt_id f)), (''new_risk_class'', oget risk ''new_risk_class''), (''paused'', JBool True)]) (\<lambda>ended.
           doneS (document, ended)))))))))))
     | _ \<Rightarrow> doneS (f_document f, None))"

definition upper_char :: "char \<Rightarrow> char" where
  "upper_char x = (let n = of_char x :: nat in if 97 \<le> n \<and> n \<le> 122 then char_of (n - 32) else x)"

text \<open>A decision the agent proposes: unresolved, the Work Unit waits for a person.\<close>

definition resolve_decision :: "tconfig \<Rightarrow> frame \<Rightarrow> json \<Rightarrow> obj \<Rightarrow> tick_result option ticks" where
  "resolve_decision c f status result = (case oget result ''decision_proposal'' of
       JObj proposal \<Rightarrow> (if \<not> truthy (oget proposal ''trigger'') \<or> \<not> truthy (oget proposal ''proposed_entry_id'') then doneS None else bindS (drawT c) (\<lambda>env.
         (let decision_id = JStr (''DECISION-'' @ map upper_char (take 12 (uuid env))) in
         bindS (commandT c (tick_envelope ''mandate-matcher'' ''ResolveRunDecision''
           [(''kind'', JStr ''run_decision''), (''id'', decision_id)]
           [(''run_id'', JStr (f_run_id f)), (''work_unit_id'', unit_of f), (''trigger'', oget proposal ''trigger''),
            (''proposed_entry_id'', oget proposal ''proposed_entry_id''), (''evidence'', por (oget proposal ''evidence'') (JList [])),
            (''environment'', oget proposal ''environment'')])) (\<lambda>(receipt, exit_code).
         (if exit_code \<noteq> 0 then refused ''decision_resolution_failed'' (unit_of f) receipt else
         bindS (liftS (jget receipt ''details'')) (\<lambda>d.
         bindS (liftS (jget (por d (JObj [])) ''resolved'')) (\<lambda>resolved.
         (if \<not> truthy resolved then bindS (release_lease_command c (f_run_id f) (f_unit f) (f_lease_id f) (f_epoch f) ''decision requires human authority'') (\<lambda>_.
           bindS (liftS (jget (por d (JObj [])) ''rejection_reason'')) (\<lambda>reason.
           finish ''paused_awaiting_human'' (unit_of f)
             [(''decision_id'', decision_id), (''resolved'', JBool False), (''rejection_reason'', reason)]))
         else if status \<noteq> JStr ''succeeded'' then finish ''decision_resolved'' (unit_of f)
             [(''decision_id'', decision_id), (''resolved'', JBool True), (''rejection_reason'', JNull)]
         else doneS None))))))))
     | _ \<Rightarrow> doneS None)"

section \<open>Where the Work Unit goes\<close>

definition retrospective_details :: "tconfig \<Rightarrow> obj \<Rightarrow> obj ticks" where
  "retrospective_details c payload = bindS (control_command c ''GenerateRetrospective''
       [(''kind'', JStr ''retrospective''), (''id'', JStr ''new'')] payload) (\<lambda>(receipt, exit_code).
     (if exit_code \<noteq> 0 then bindS (liftS (errors_of receipt)) (\<lambda>errors.
       doneS [(''retrospective_errors'', errors)])
     else bindS (liftS (jitem receipt ''affected'')) (\<lambda>a.
       bindS (liftS (jiter a)) (\<lambda>affected.
       (case affected of
          [] \<Rightarrow> liftS (Inl IndexError)
        | x # _ \<Rightarrow> bindS (liftS (jitem x ''id'')) (\<lambda>i.
            doneS [(''retrospective_id'', i)]))))))"

definition advance :: "tconfig \<Rightarrow> frame \<Rightarrow> json \<Rightarrow> string \<Rightarrow> tick_result option ticks" where
  "advance c f document next_status = bindS (transition_command c (f_run_id f) (f_unit f) document next_status
       (''orchestrator: '' @ f_step f @ '' succeeded'')) (\<lambda>(receipt, exit_code).
     (if exit_code \<noteq> 0 then refused ''transition_failed'' (unit_of f) receipt else
     (let moved = [(''attempt_id'', JStr (f_attempt_id f)), (''from'', f_status f), (''to'', JStr next_status)] in
     (if next_status \<noteq> ''human_test'' then finish ''advanced_work_unit'' (unit_of f) moved else bindS (release_lease_command c (f_run_id f) (f_unit f) (f_lease_id f) (f_epoch f) ''ready for human morning review'') (\<lambda>(released, release_code).
     (if release_code \<noteq> 0 then refused ''lease_release_failed'' (unit_of f) released else
     bindS (retrospective_details c [(''scope'', JStr ''work_unit''), (''work_unit_id'', unit_of f)]) (\<lambda>extra.
     finish ''advanced_work_unit'' (unit_of f) (moved @ extra))))))))"

definition pause_blocked :: "tconfig \<Rightarrow> frame \<Rightarrow> json \<Rightarrow> obj \<Rightarrow> tick_result option ticks" where
  "pause_blocked c f document result = bindS (liftS (in_strs (f_status f) [''in_progress'', ''remediation_required''])) (\<lambda>at_work.
     (let blocked_status = (if at_work then ''blocked'' else ''remediation_required'') in
     bindS (transition_command c (f_run_id f) (f_unit f) document blocked_status
       (''orchestrator paused blocked step: '' @ py_str (oget result ''summary''))) (\<lambda>(receipt, exit_code).
     (if exit_code \<noteq> 0 then refused ''transition_failed'' (unit_of f) receipt else
     bindS (release_lease_command c (f_run_id f) (f_unit f) (f_lease_id f) (f_epoch f)
       ''worker blocked and requires human intervention'') (\<lambda>(released, release_code).
     bindS (liftS (errors_of released)) (\<lambda>errors.
     finish (if release_code = 0 then ''paused_work_unit'' else ''lease_release_failed'') (unit_of f)
       [(''attempt_id'', JStr (f_attempt_id f)), (''to'', JStr blocked_status), (''errors'', errors)]))))))"

text \<open>An exhausted step that did not succeed moves the Work Unit back; otherwise a later tick retries.\<close>

definition demote_after_attempt :: "tconfig \<Rightarrow> frame \<Rightarrow> json \<Rightarrow> json \<Rightarrow> tick_result option ticks" where
  "demote_after_attempt c f document receipt = bindS (liftS (jget receipt ''details'')) (\<lambda>d.
     bindS (liftS (jget (por d (JObj [])) ''convergence_exhaustion_reason'')) (\<lambda>reason.
     bindS (liftS (if reason = JNull then Inr None else table_get NEXT_STATUS_ON_EXHAUSTION (f_status f))) (\<lambda>next.
     (case next of
        None \<Rightarrow> doneS None
      | Some next_status \<Rightarrow> bindS (transition_command c (f_run_id f) (f_unit f) document next_status
            (''orchestrator: convergence exhausted ('' @ py_str reason @ '')'')) (\<lambda>(moved, exit_code).
          (if exit_code \<noteq> 0 then refused ''transition_failed'' (unit_of f) moved else
          bindS (release_lease_command c (f_run_id f) (f_unit f) (f_lease_id f) (f_epoch f) (''convergence exhausted: '' @ py_str reason)) (\<lambda>_.
          finish ''demoted_work_unit'' (unit_of f)
            [(''attempt_id'', JStr (f_attempt_id f)), (''from'', f_status f), (''to'', JStr next_status), (''reason'', reason)])))))))"

definition conclude_attempt :: "tconfig \<Rightarrow> frame \<Rightarrow> json \<Rightarrow> json \<Rightarrow> obj \<Rightarrow> json \<Rightarrow> tick_result option ticks" where
  "conclude_attempt c f document status result receipt = unlessS
     (if status = JStr ''succeeded'' then
        (if f_step f = ''security_review''
         then finish ''completed_security_review'' (unit_of f) [(''attempt_id'', JStr (f_attempt_id f))]
         else bindS (liftS (table_get NEXT_STATUS_ON_SUCCESS (f_status f))) (\<lambda>next.
           (case next of None \<Rightarrow> doneS None | Some next_status \<Rightarrow> advance c f document next_status)))
      else if status = JStr ''blocked'' then pause_blocked c f document result
      else demote_after_attempt c f document receipt)
     (finish ''recorded_attempt'' (unit_of f) [(''attempt_id'', JStr (f_attempt_id f)), (''status'', status)])"

section \<open>Executing a step\<close>

definition record_and_conclude ::
  "tconfig \<Rightarrow> frame \<Rightarrow> bool \<Rightarrow> json \<Rightarrow> (string \<times> string) option \<Rightarrow> json \<times> obj \<times> (string \<times> string) option \<Rightarrow> tick_result option ticks" where
  "record_and_conclude c f accepted contract boundary = (\<lambda>(status, result, merge). bindS (liftS (recorded_payload f contract status result)) (\<lambda>payload.
     bindS (attempt_command c f (attempt_actor_role f) [(''expected_revision'', JInt 1)] payload) (\<lambda>(receipt, exit_code).
     (if exit_code \<noteq> 0 then recording_refused c f receipt else
     bindS (observe_failure c f status result) (\<lambda>_.
     (case boundary of
        Some (condition, message) \<Rightarrow> stop_run c (f_run_id f) (f_run f)
          (''run-reliability-controller: '' @ (if message = [] then condition else message)) condition (unit_of f) []
      | None \<Rightarrow>
          unlessS (case merge of None \<Rightarrow> doneS None | Some m \<Rightarrow> record_merge c f m)
         (unlessS (stop_after_attempt c f receipt)
         (unlessS (save_checkpoint c f accepted status result) (bindS (escalate_risk c f result) (\<lambda>(document, ended).
          unlessS (doneS ended)
         (unlessS (resolve_decision c f status result)
                  (conclude_attempt c f document status result receipt))))))))))))"

definition settle_attempt ::
  "tconfig \<Rightarrow> frame \<Rightarrow> string \<Rightarrow> bool \<Rightarrow> json \<Rightarrow> (string \<times> string) option \<Rightarrow> json \<Rightarrow> obj \<Rightarrow> tick_result option ticks" where
  "settle_attempt c f product_root accepted contract boundary status result =
     (if status = JStr ''succeeded'' \<and> f_step f = ''integration_review'' then bindS (heartbeat_command c (f_run_id f) (f_lease_id f) (f_epoch f)) (\<lambda>(beat, exit_code).
        (if exit_code \<noteq> 0 then refused ''fenced_before_integration'' (unit_of f) beat else
        bindS (merge_work_unit c f product_root result) (\<lambda>settled.
        record_and_conclude c f accepted contract boundary settled)))
      else record_and_conclude c f accepted contract boundary (status, result, None))"

definition base_commit :: "tconfig \<Rightarrow> string \<Rightarrow> string option ticks" where
  "base_commit c execution_root =
     (if execution_root = workspace_root c then gitT c git_head else bindS (gitT c (\<lambda>g k. git_head_sha g k execution_root)) (\<lambda>head.
     (case head of Inl fault \<Rightarrow> liftS (Inl (GitWorkspaceError fault)) | Inr t \<Rightarrow> doneS (Some t))))"

text \<open>Without a member, a usable context package or a base commit nothing is executed.\<close>

definition obtain_result ::
  "tconfig \<Rightarrow> frame \<Rightarrow> bool \<Rightarrow> string \<Rightarrow> string option \<Rightarrow> string list \<times> string list option \<times> string list \<Rightarrow> obj
     \<Rightarrow> string option \<times> string option \<Rightarrow> execution_result ticks" where
  "obtain_result c f member_missing execution_root base_sha constraints spi = (\<lambda>(context_ref, context_error).
     (if member_missing then doneS (blocked_result missing_member_summary ''missing_member_id'', False, None)
      else case context_error of
        Some message \<Rightarrow> doneS (blocked_result message ''context_package_incomplete'', False, None)
      | None \<Rightarrow> (case base_sha of
          None \<Rightarrow> doneS (blocked_result ''execution workspace has no base commit for governed gateway'' ''missing_base_sha'', False, None)
        | Some base \<Rightarrow> bindS (readT (\<lambda>s. request_of s f execution_root base context_ref constraints spi)) (\<lambda>request.
            execute_governed c execution_root base (f_epoch f) request))))"

text \<open>A violation found by the tick itself replaces the one of the gateway.\<close>

definition boundary_after :: "(string \<times> string) option \<Rightarrow> (string \<times> string option) option \<Rightarrow> (string \<times> string) option" where
  "boundary_after reported violation = (case violation of
     None \<Rightarrow> reported | Some (message, None) \<Rightarrow> None | Some (message, Some condition) \<Rightarrow> Some (condition, message))"

definition execute_step :: "tconfig \<Rightarrow> frame \<Rightarrow> bool \<Rightarrow> bool \<Rightarrow> string \<Rightarrow> string \<Rightarrow> tick_result option ticks" where
  "execute_step c f isolated member_missing product_root execution_root = bindS (base_commit c execution_root) (\<lambda>base_sha.
     bindS (readT (\<lambda>s. execution_envelope_constraints s (f_run f))) (\<lambda>constraints.
     bindS (readT (\<lambda>s. spi_request c s f execution_root base_sha constraints)) (\<lambda>spi.
     bindS (readT (\<lambda>s. resolve_context_package_ref c s (f_document f) (f_procedure_id f) (f_role_id f))) (\<lambda>context.
     bindS (obtain_result c f member_missing execution_root base_sha constraints spi context) (\<lambda>(reported, accepted, stop).
     bindS (liftS (case base_sha of
         Some base \<Rightarrow> if isolated then set_workspace [(''base_sha'', JStr base)] reported else Inr reported
       | None \<Rightarrow> Inr reported)) (\<lambda>result.
     (let status = result_field result ''status'' (JStr ''failed'') in
     bindS ((if status = JStr ''timed_out'' \<and> isolated \<and> execution_root \<noteq> workspace_root c
       then salvage_timed_out c f execution_root base_sha (fst (snd constraints)) result else doneS result)) (\<lambda>salvaged.
     bindS (liftS (evidence_gate f accepted base_sha status salvaged)) (\<lambda>gated.
     bindS (boundary_gate c f (isolated \<and> \<not> accepted \<and> f_step f \<in> set IMPLEMENTATION_STEPS)
       execution_root base_sha (fst (snd constraints)) gated) (\<lambda>(settled, settled_result, violation).
     settle_attempt c f product_root accepted (oget spi ''contract'') (boundary_after stop violation) settled settled_result))))))))))"

definition run_attempt :: "tconfig \<Rightarrow> frame \<Rightarrow> tick_result option ticks" where
  "run_attempt c f = bindS (liftS (work_unit_member_id (f_document f))) (\<lambda>member.
     bindS (readT (\<lambda>s. product_work_unit_missing_member_id (gateway_workspace (gateway_config (gateway_of c))) s (f_document f))) (\<lambda>member_missing.
     bindS (liftS (member_root c member)) (\<lambda>product_root.
     bindS (liftS (isolated_worktree (adapter_descriptor c))) (\<lambda>isolated.
     bindS (liftS (jget (f_run f) ''autonomy_preset'')) (\<lambda>preset.
     (if is_unattended_preset preset \<and> \<not> isolated
       then fail_unisolated c f (attempt_actor_role f) ''adapter cannot guarantee an isolated worker workspace''
         ''adapter cannot guarantee worker isolation'' [] else
     bindS ((if isolated \<and> \<not> member_missing then bindS (readT (\<lambda>s. worktree_start s f)) (\<lambda>start.
         gitT c (\<lambda>g k. git_worktree g k product_root (f_unit f) start))
       else doneS (Inr product_root))) (\<lambda>worktree.
     (case worktree of
        Inl fault \<Rightarrow> fail_unisolated c f ''control-plane'' (''worker isolation failed: '' @ fault) (''worker isolation failed: '' @ fault)
          [(''error'', JStr fault)]
      | Inr execution_root \<Rightarrow> execute_step c f isolated member_missing product_root execution_root))))))))"

text \<open>The started attempt is recorded before anything runs; a refusal ends the tick.\<close>

definition start_attempt :: "tconfig \<Rightarrow> frame \<Rightarrow> json \<Rightarrow> tick_result option ticks" where
  "start_attempt c f lease_ref = bindS (drawT c) (\<lambda>env.
     bindS (drawT c) (\<lambda>env1.
     bindS (liftS (jitem lease_ref ''epoch'')) (\<lambda>epoch.
     (let f1 = f\<lparr>f_execution_id := ''EXE-'' @ take 8 (uuid env), f_attempt_id := ''ATTEMPT-'' @ f_unit f @ ''-'' @ take 8 (uuid env1),
       f_epoch := epoch\<rparr> in
     bindS (attempt_command c f1 (attempt_actor_role f1) []
       (attempt_fields f1 (JStr ''started'') @ [(''contract'', JObj [(''role_id'', JStr (f_role_id f1)), (''procedure_id'', JStr (f_procedure_id f1))])])) (\<lambda>(receipt, exit_code).
     (if exit_code \<noteq> 0 then refused ''execution_not_authorized'' (unit_of f1) receipt else run_attempt c f1))))))"

definition dispatch :: "tconfig \<Rightarrow> frame \<Rightarrow> json \<Rightarrow> tick_result option ticks" where
  "dispatch c f lease_ref = bindS (readT (\<lambda>s. dispatch_contract s (f_document f) (f_step f))) (\<lambda>(role_id, procedure_id, checks).
     bindS (readT (\<lambda>s. pre_dispatch_exhaustion_reason s (f_run f) (f_unit f) (f_step f))) (\<lambda>reason.
     (let f1 = f\<lparr>f_role_id := role_id, f_procedure_id := procedure_id, f_checks := checks\<rparr> in
     (case reason of Some r \<Rightarrow> demote_exhausted c f1 lease_ref r | None \<Rightarrow> start_attempt c f1 lease_ref))))"

definition new_frame :: "string \<Rightarrow> string \<Rightarrow> json \<Rightarrow> env \<Rightarrow> string \<Rightarrow> json \<Rightarrow> json \<Rightarrow> json \<Rightarrow> string \<Rightarrow> frame" where
  "new_frame run_id worker_id run_document env work_unit_id wu_document lease_id status step =
     \<lparr>f_run_id = run_id, f_worker_id = worker_id, f_run = run_document, f_now = env, f_unit = work_unit_id, f_document = wu_document,
      f_lease_id = lease_id, f_epoch = JNull, f_status = status, f_step = step, f_role_id = [], f_procedure_id = [], f_checks = [],
      f_execution_id = [], f_attempt_id = []\<rparr>"

text \<open>A worker goes on only with a Work Unit whose fresh lease it holds.\<close>

definition holds_lease :: "json \<Rightarrow> string \<Rightarrow> env \<Rightarrow> bool res" where
  "holds_lease lease worker_id env =
     (if lease = JNull then Inr False else bindR (jget lease ''status'') (\<lambda>status.
     (if status \<noteq> JStr ''active'' then Inr False else
     bindR (jget lease ''worker_id'') (\<lambda>own.
     (if own \<noteq> JStr worker_id then Inr False else
     lease_is_fresh lease (now env))))))"

fun dispatch_first :: "tconfig \<Rightarrow> string \<Rightarrow> string \<Rightarrow> json \<Rightarrow> env \<Rightarrow> json \<Rightarrow> obj \<Rightarrow> string list \<Rightarrow> obj
    \<Rightarrow> (string list \<times> tick_result option) ticks" where
  "dispatch_first c run_id worker_id run_document env grant docs mismatched [] = doneS (mismatched, None)"
| "dispatch_first c run_id worker_id run_document env grant docs mismatched ((work_unit_id, lease_ref) # leases) = bindS (liftS (jitem lease_ref ''lease_id'')) (\<lambda>lease_id.
     bindS (readT (\<lambda>s. lease_document s lease_id)) (\<lambda>lease.
     bindS (liftS (holds_lease lease worker_id env)) (\<lambda>held.
     (let wu_document = oget docs work_unit_id in
     (if \<not> held \<or> wu_document = JNull then dispatch_first c run_id worker_id run_document env grant docs mismatched leases else
     bindS (liftS (area_ineligibility_reason wu_document grant)) (\<lambda>ineligible.
     (if ineligible \<noteq> None
       then dispatch_first c run_id worker_id run_document env grant docs (mismatched @ [work_unit_id]) leases else
     bindS (liftS (jget wu_document ''status'')) (\<lambda>status.
     bindS (readT (\<lambda>s. dispatch_step s run_id work_unit_id status)) (\<lambda>step.
     (case step of
        None \<Rightarrow> dispatch_first c run_id worker_id run_document env grant docs mismatched leases
      | Some t \<Rightarrow> bindS (dispatch c (new_frame run_id worker_id run_document env work_unit_id wu_document lease_id status t) lease_ref) (\<lambda>ended.
          doneS (mismatched, ended))))))))))))"

section \<open>Priority 4: the end of a Run\<close>

definition release_candidate_id :: "string \<Rightarrow> string" where
  "release_candidate_id run_id = ''RC-'' @ run_id"

definition rollback_plan :: string where
  "rollback_plan = ''Revert the integration-branch merge commits; no protected branch or production action is authorized by this Run.''"

text \<open>The candidate of an unattended maximal Run waits for a human gate.\<close>

definition register_candidate :: "tconfig \<Rightarrow> string \<Rightarrow> json \<Rightarrow> string list \<Rightarrow> tick_result option ticks" where
  "register_candidate c run_id run_document ids = bindS (liftS (jitem run_document ''integration_branch'')) (\<lambda>branch.
     bindS (gitT c (\<lambda>g k. git_integration g k branch)) (\<lambda>head.
     (case head of
        Inl fault \<Rightarrow> finish ''release_candidate_failed'' JNull [(''error'', JStr fault)]
      | Inr integration_sha \<Rightarrow> bindS (commandT c (tick_envelope ''release-agent'' ''RegisterReleaseCandidate''
            [(''kind'', JStr ''release_candidate''), (''id'', JStr (release_candidate_id run_id))]
            [(''id'', JStr (release_candidate_id run_id)), (''run_id'', JStr run_id), (''status'', JStr ''ready_for_g3''),
             (''code_revisions'', jstrings [integration_sha]), (''included_work_units'', jstrings ids),
             (''rollback_plan'', JStr rollback_plan), (''target_environment'', JStr ''human_selected_after_g3''),
             (''g3'', JObj [(''status'', JStr ''pending''), (''requires_human_authorization'', JBool True)])])) (\<lambda>(receipt, exit_code).
          (if exit_code \<noteq> 0 then refused ''release_candidate_failed'' JNull receipt
           else finish ''registered_release_candidate'' JNull
             [(''release_candidate_id'', JStr (release_candidate_id run_id)), (''revision'', JStr integration_sha)])))))"

definition complete_run :: "tconfig \<Rightarrow> string \<Rightarrow> json \<Rightarrow> tick_result option ticks" where
  "complete_run c run_id run_document = bindS (close_run_command c run_id run_document
       [(''status'', JStr ''completed''), (''reason'', JStr ''all Work Units are ready for grouped human morning review'')]) (\<lambda>(receipt, exit_code).
     bindS ((if exit_code \<noteq> 0 then doneS [] else bindS (retrospective_details c [(''scope'', JStr ''project'')]) (\<lambda>retrospective.
       bindS (best_effort_submit_feedback c) (\<lambda>feedback.
       doneS (set_keys feedback retrospective))))) (\<lambda>extra.
     bindS (liftS (errors_of receipt)) (\<lambda>errors.
     finish (if exit_code = 0 then ''run_completed'' else ''run_completion_failed'') JNull ([(''errors'', errors)] @ extra))))"

definition has_candidate :: "store \<Rightarrow> string \<Rightarrow> bool" where
  "has_candidate s run_id = is_file s (''release-candidates/'' @ release_candidate_id run_id @ ''.yaml'')"

definition finish_run :: "tconfig \<Rightarrow> string \<Rightarrow> json \<Rightarrow> string list \<Rightarrow> string list \<Rightarrow> obj \<Rightarrow> tick_result option ticks" where
  "finish_run c run_id run_document ids reviewed_ids docs = bindS (liftS (jget run_document ''autonomy_preset'')) (\<lambda>preset.
     bindS (liftS (if is_unattended_preset preset then all_work_units_ready_for_morning_review reviewed_ids docs else Inr False)) (\<lambda>finished.
     (if \<not> finished then doneS None else
     bindS (readT (\<lambda>s. Inr (has_candidate s run_id))) (\<lambda>candidate.
     (if preset = JStr ''unattended_maximal'' \<and> \<not> candidate then register_candidate c run_id run_document ids
      else complete_run c run_id run_document)))))"

text \<open>Nothing was scheduled: wait for a person, report the area filter, or stop.\<close>

definition waiting_ids :: "obj \<Rightarrow> string list res" where
  "waiting_ids docs = bindR (filterR (\<lambda>(_, d). waits_for_human d) docs) (\<lambda>found.
     Inr (map fst found))"

definition idle_outcome :: "tconfig \<Rightarrow> string \<Rightarrow> json \<Rightarrow> env \<Rightarrow> json \<Rightarrow> obj \<Rightarrow> obj \<Rightarrow> string list \<Rightarrow> tick_result option ticks" where
  "idle_outcome c run_id run_document env grant docs reviewed mismatched = bindS (readT (\<lambda>s. run_has_dispatchable_work env s run_document docs grant)) (\<lambda>dispatchable.
     bindS (liftS (if dispatchable then Inr False else run_awaits_human reviewed)) (\<lambda>awaits.
     (if awaits then bindS (liftS (waiting_ids reviewed)) (\<lambda>waiting.
       finish ''awaiting_human'' JNull [(''waiting_work_unit_ids'', jstrings waiting),
         (''reason'', JStr ''remaining work units require human action; tick cannot progress them'')])
     else if mismatched \<noteq> [] \<and> \<not> dispatchable then
       finish ''area_filter_mismatch'' (JStr (hd mismatched)) [(''reason'', JStr ''area_filter_mismatch''), (''work_unit_ids'', jstrings mismatched)]
     else bindS (liftS (if dispatchable then Inr False else should_stop_for_no_dispatchable_work reviewed)) (\<lambda>stop.
       (if stop then stop_run c run_id run_document ''no dispatchable work remains and no active worker progress''
          ''no_dispatchable_work'' JNull []
        else finish ''idle'' JNull [])))))"

section \<open>The tick\<close>

definition schedule :: "tconfig \<Rightarrow> string \<Rightarrow> string \<Rightarrow> env \<Rightarrow> json \<Rightarrow> tick_result option ticks" where
  "schedule c run_id worker_id env run_document = bindS (liftS (work_unit_ids_of run_document)) (\<lambda>ids.
     bindS (liftS (jget run_document ''leases_by_work_unit'')) (\<lambda>l.
     bindS (liftS (as_obj (por l (JObj [])))) (\<lambda>leases.
     bindS (readT (\<lambda>s. work_unit_map s ids)) (\<lambda>docs.
     bindS (readT (\<lambda>s. load_bound_grant s run_document)) (\<lambda>grant.
     bindS (liftS (filter_area_eligible_documents docs grant)) (\<lambda>eligible.
     bindS (readT (\<lambda>s. dependency_documents_for_run s docs)) (\<lambda>dependencies.
     bindS (recover_orphan_started_attempts c run_id run_document env) (\<lambda>recovered.
     bindS ((if recovered = [] then doneS run_document else bindS (readT (\<lambda>s. read_yaml_or JNull s (run_path (JStr run_id)))) (\<lambda>again.
       doneS (por again run_document)))) (\<lambda>current.
     bindS (liftS (stops_on_cross_area_dependency grant eligible dependencies)) (\<lambda>cross_area.
     (if cross_area then stop_run c run_id current ''area-eligible work unit blocked solely by out-of-filter dependency''
        ''cross_area_dependency'' JNull []
      else unlessS (reassign_stale_lease c run_id worker_id env leases) (bindS (start_ready_work_unit c run_id worker_id grant docs dependencies leases [] ids) (\<lambda>(mismatched, started).
        unlessS (doneS started) (bindS (dispatch_first c run_id worker_id current env grant docs mismatched leases) (\<lambda>(mismatched1, dispatched).
          unlessS (doneS dispatched) (bindS (liftS (area_filter_active grant)) (\<lambda>active.
            (let reviewed = (if active then eligible else docs) in
            unlessS (finish_run c run_id current ids (if eligible \<noteq> [] then map fst eligible else ids) reviewed)
                    (idle_outcome c run_id current env grant docs reviewed mismatched1)))))))))))))))))))"

text \<open>A Run that is not active, or has to stop, schedules nothing.\<close>

definition run_scheduling_tick :: "tconfig \<Rightarrow> string \<Rightarrow> string \<Rightarrow> tick_result option ticks" where
  "run_scheduling_tick c run_id worker_id = bindS (readT (\<lambda>s. read_yaml_or JNull s (run_path (JStr run_id)))) (\<lambda>run_document.
     (if run_document = JNull then liftS (Inl (FileNotFoundError (run_path (JStr run_id)))) else
     bindS (liftS (jget run_document ''status'')) (\<lambda>status.
     (if status \<noteq> JStr ''active'' then finish ''run_not_active'' JNull [(''status'', status)] else
     bindS (drawT c) (\<lambda>env.
     bindS (readT (\<lambda>s. global_stop_condition env s run_document)) (\<lambda>stop.
     (case stop of
        Some condition \<Rightarrow> stop_run c run_id run_document (''run-reliability-controller: '' @ condition) condition JNull []
      | None \<Rightarrow> schedule c run_id worker_id env run_document)))))))"

end
