(* ===== verification/GatewaySafety.thy ===== *)
theory GatewaySafety
  imports Gateway
begin

text \<open>
  What the gateway guarantees for every command: a rejection changes nothing, an acceptance was
  authorized and took effect as one transaction (also across a crash), and an accepted command
  that is sent again, at any later time, returns its receipt and changes nothing.
\<close>

section \<open>The contract of an idempotency store\<close>

text \<open>
  Keys are kept by slot. A put is found again under its key, with another fingerprint it is a
  mismatch, and other slots are untouched. The gateway remembers only what is not found.
\<close>

locale idempotency_store =
  fixes slot :: "'k \<Rightarrow> 'd"
    and put :: "'k \<Rightarrow> 'h \<Rightarrow> 'v \<Rightarrow> 's \<Rightarrow> 's"
    and find :: "'s \<Rightarrow> 'k \<Rightarrow> 'h \<Rightarrow> 'e + 'r option"
    and receipt_of :: "'v \<Rightarrow> 'r"
    and mismatch :: 'e
  assumes find_put: "find (put k h v s) k h = Inr (Some (receipt_of v))"
    and find_put_mismatch: "h' \<noteq> h \<Longrightarrow> find (put k h v s) k h' = Inl mismatch"
    and find_put_other: "slot k' \<noteq> slot k \<Longrightarrow> find (put k h v s) k' h' = find s k' h'"
    and find_slot: "slot k' = slot k \<Longrightarrow> find s k' h = find s k h"
    and find_None: "find s k h = Inr None \<Longrightarrow> find s k h' = Inr None"
begin

definition remember :: "'k \<times> 'h \<times> 'v \<Rightarrow> 's \<Rightarrow> 's" where
  "remember = (\<lambda>(k, h, v) s. if find s k h = Inr None then put k h v s else s)"

lemma remember_keeps: "find s k h = Inr (Some r) \<Longrightarrow> find (remember x s) k h = Inr (Some r)"
proof (cases x)
  case (fields k' h' v)
  assume found: "find s k h = Inr (Some r)"
  have "slot k' \<noteq> slot k" if "find s k' h' = Inr None"
    using that found find_slot [of k' k s h] find_None [of s k' h' h] by auto
  then show ?thesis using found by (auto simp: fields remember_def find_put_other)
qed

lemma first_write_wins: "find s k h = Inr (Some r) \<Longrightarrow> find (fold remember xs s) k h = Inr (Some r)"
  by (induction xs arbitrary: s) (simp_all add: remember_keeps)

lemma remembered: "find s k h = Inr None \<Longrightarrow> find (remember (k, h, v) s) k h = Inr (Some (receipt_of v))"
  by (simp add: remember_def find_put)

lemma remembered_mismatch:
  "find s k h = Inr None \<Longrightarrow> h' \<noteq> h \<Longrightarrow> find (remember (k, h, v) s) k h' = Inl mismatch"
  by (simp add: remember_def find_put_mismatch)

end

interpretation records: idempotency_store hash "store_record hash" "lookup_record hash" fst
    "GatewayError IDEMPOTENCY_MISMATCH ''/idempotency_key''" for hash :: "string \<Rightarrow> string"
proof
  show "lookup_record hash (store_record hash k h v s) k h = Inr (Some (fst v))" for k h v s
    by (cases v) (simp add: lookup_record_def store_record_def)
  show "lookup_record hash (store_record hash k h v s) k h'
      = Inl (GatewayError IDEMPOTENCY_MISMATCH ''/idempotency_key'')" if "h' \<noteq> h" for k h h' v s
    using that by (cases v) (simp add: lookup_record_def store_record_def)
  show "lookup_record hash (store_record hash k h v s) k' h' = lookup_record hash s k' h'"
    if "hash k' \<noteq> hash k" for k k' h h' v s
    using that by (cases v) (simp add: lookup_record_def store_record_def)
  show "lookup_record hash s k' h = lookup_record hash s k h" if "hash k' = hash k" for k k' h s
    using that by (simp add: lookup_record_def)
  show "lookup_record hash s k h' = Inr None" if "lookup_record hash s k h = Inr None" for k h h' s
    using that by (auto simp: lookup_record_def split: option.splits)
qed

section \<open>One command\<close>

lemma planned_plan_all:
  "planned (fold (\<lambda>(p, j). plan_write h d p (Doc j)) ws tx)
     = planned tx @ map (\<lambda>(p, j). \<lparr>relative_path = p, content = Doc j,
         before_hash = map_option h (map_of (files d) p)\<rparr>) ws"
  "planned_domain_events (fold (\<lambda>(p, j). plan_write h d p (Doc j)) ws tx) = planned_domain_events tx"
  "transaction_id (fold (\<lambda>(p, j). plan_write h d p (Doc j)) ws tx) = transaction_id tx"
  by (induction ws arbitrary: tx) (auto simp: plan_write_def)

lemma plan_all_simps [simp]:
  "planned (plan_all cfg d i ws) = map (\<lambda>(p, j). \<lparr>relative_path = p, content = Doc j,
       before_hash = map_option (document_hash cfg) (map_of (files d) p)\<rparr>) ws"
  "planned_domain_events (plan_all cfg d i ws) = []"
  "transaction_id (plan_all cfg d i ws) = i"
  by (simp_all add: plan_all_def planned_plan_all begin_transaction_def)

lemma all_written_plan: "all_written (plan_all cfg d i ws) fs = apply_writes ws fs"
proof -
  have "fold (\<lambda>w. AList.update (relative_path w) (content w)) (map (\<lambda>(p, j). \<lparr>relative_path = p, content = Doc j,
      before_hash = map_option h (map_of (files d) p)\<rparr>) ws) fs = apply_writes ws fs" for h
    by (induction ws arbitrary: fs) auto
  then show ?thesis by (simp add: all_written_def)
qed

lemma begin_files [simp]:
  "files (snd (begin_transaction i d)) = files d" "tx_of (snd (begin_transaction i d)) j = tx_of d j"
  by (simp_all add: begin_transaction_def)

text \<open>What performing a command did, when it did not raise.\<close>

lemma perform_success:
  assumes "perform cfg env d ty e = Inr (r, d1)" and "tx_of d (transaction_id_of env) = empty_tx"
  shows "authorize_command (active_bundle cfg) env (files d) e = Inr () \<and>
    (\<exists>handler. find_handler cfg ty = Inr handler \<and> handler env (files d) e = Inr r) \<and>
    r_writes r \<noteq> [] \<and> files d1 = apply_writes (r_writes r) (files d)"
proof -
  let ?d = "snd (begin_transaction (transaction_id_of env) d)"
  let ?tx = "plan_all cfg d (transaction_id_of env) (r_writes r)"
  have c: "commit (document_hash cfg) (sha env) ?tx ?d = Inr d1"
    using assms(1) by (auto simp: perform_def)
  then have "r_writes r \<noteq> []" by (auto simp: commit_def)
  moreover obtain d' where "commit (document_hash cfg) (sha env) ?tx ?d = Inr d'"
      "files d' = all_written ?tx (files ?d)"
    using commit_total [of ?d ?tx "document_hash cfg" "sha env"] assms(2) \<open>r_writes r \<noteq> []\<close> by auto
  ultimately show ?thesis using assms(1) c by (auto simp: perform_def all_written_plan)
qed

lemma gateway_body_success:
  assumes "gateway_body cfg env g raw = Inr (g1, receipt)"
  obtains (cached) ty k fp where "parse_envelope raw = Inr raw" "admit cfg env g raw = Inr (ty, JStr k, fp)"
      "lookup_record (sha env) (records_kept g) k fp = Inr (Some receipt)" "g1 = g"
  | (performed) command_id ty k fp r d1 where "parse_envelope raw = Inr raw"
      "jitem raw ''command_id'' = Inr command_id" "admit cfg env g raw = Inr (ty, JStr k, fp)"
      "lookup_record (sha env) (records_kept g) k fp = Inr None"
      "perform cfg env (disk g) ty raw = Inr (r, d1)" "receipt = accepted_receipt env command_id r"
      "g1 = \<lparr>disk = d1, records_kept =
         records.remember (sha env) (k, fp, receipt, now_iso env) (records_kept g)\<rparr>"
  using assms unfolding gateway_body_def bindR_eq_Inr split_paired_Ex prod.case
  apply (elim exE conjE)
  subgoal premises p for e command_id ty ik fp k found
  proof -
    have e: "e = raw" using p(3) by (auto simp: parse_envelope_def)
    have k: "ik = JStr k" using p(6) by (auto simp: key_text_def split: json.splits)
    show thesis
    proof (cases found)
      case None
      with p(8) obtain r d1 where "perform cfg env (disk g) ty raw = Inr (r, d1)"
          "receipt = accepted_receipt env command_id r"
          "g1 = \<lparr>disk = d1, records_kept =
             store_record (sha env) k fp (receipt, now_iso env) (records_kept g)\<rparr>"
        by (auto simp: e Let_def)
      with p(2) [OF p(3) [unfolded e] p(4) [unfolded e] p(5) [unfolded e k]] p(7) None show thesis
        by (simp add: records.remember_def)
    next
      case (Some receipt')
      with p(1) [OF p(3) [unfolded e] p(5) [unfolded e k]] p(7,8) show thesis by simp
    qed
  qed
  done

lemma execute_cases:
  assumes "execute_command cfg env g raw = Inr (g1, receipt, code)"
  obtains (accepted) "gateway_body cfg env g raw = Inr (g1, receipt)" "code = EXIT_OK"
  | (rejected) c path i where "gateway_body cfg env g raw = Inl (GatewayError c path)" "g1 = g"
      "receipt = build_rejected_receipt i c path" "code = exit_code_for c"
proof -
  obtain sent_id where r: "(case gateway_body cfg env g raw of
        Inr (g1, receipt) \<Rightarrow> Inr (g1, receipt, EXIT_OK)
      | Inl (GatewayError c path) \<Rightarrow>
          Inr (g, build_rejected_receipt (rejected_id raw sent_id) c path, exit_code_for c)
      | Inl e \<Rightarrow> Inl e) = Inr (g1, receipt, code)"
    using assms unfolding execute_command_def bindR_eq_Inr by (elim exE conjE) (rule that)
  show thesis
  proof (cases "gateway_body cfg env g raw")
    case (Inl e)
    show thesis
    proof (cases e)
      case (GatewayError c path)
      show thesis by (rule rejected [OF Inl [unfolded GatewayError], where i = "rejected_id raw sent_id"])
          (use r in \<open>simp_all add: Inl GatewayError\<close>)
    qed (use r in \<open>simp_all add: Inl\<close>)
  next
    case (Inr x)
    show thesis by (rule accepted) (use r in \<open>cases x, simp add: Inr\<close>)+
  qed
qed

lemma execute_accepted:
  "execute_command cfg env g raw = Inr (g1, receipt, EXIT_OK) \<Longrightarrow> gateway_body cfg env g raw = Inr (g1, receipt)"
  by (erule execute_cases) (simp_all add: exit_code_nonzero [symmetric])

lemma accepted_executes:
  "gateway_body cfg env g raw = Inr (g1, receipt) \<Longrightarrow>
   execute_command cfg env g raw = Inr (g1, receipt, EXIT_OK)"
proof -
  assume body: "gateway_body cfg env g raw = Inr (g1, receipt)"
  then have "parse_envelope raw = Inr raw" by (cases rule: gateway_body_success)
  then have "is_dict raw" unfolding parse_envelope_def if_raise_eq_Inr by simp
  then obtain ob where "raw = JObj ob" by (cases raw) auto
  then show ?thesis using body by (simp add: execute_command_def)
qed

section \<open>Later states\<close>

text \<open>
  What can happen after a command: other commands, under any gateway configuration and at any
  time (with the same hash), recovery, and any change of the documents by somebody else.
\<close>

inductive later :: "(string \<Rightarrow> string) \<Rightarrow> gstate \<Rightarrow> gstate \<Rightarrow> bool" for hash where
  same: "later hash g g"
| command: "later hash g g1 \<Longrightarrow> sha env = hash \<Longrightarrow>
    execute_command cfg env g1 raw = Inr (g2, receipt, code) \<Longrightarrow> later hash g g2"
| elsewhere: "later hash g g1 \<Longrightarrow> later hash g (g1\<lparr>disk := d\<rparr>)"

lemma records_after:
  assumes "execute_command cfg env g raw = Inr (g1, receipt, code)"
  shows "records_kept g1 = records_kept g \<or>
    (\<exists>x. records_kept g1 = records.remember (sha env) x (records_kept g))"
  using assms
proof (cases rule: execute_cases)
  case accepted
  from accepted(1) show ?thesis
  proof (cases rule: gateway_body_success)
    case (performed command_id ty k fp r d1)
    then show ?thesis by (intro disjI2 exI [of _ "(k, fp, receipt, now_iso env)"]) simp
  qed simp
qed simp

lemma receipt_kept:
  assumes "later hash g g1" and "lookup_record hash (records_kept g) k fp = Inr (Some receipt)"
  shows "lookup_record hash (records_kept g1) k fp = Inr (Some receipt)"
  using assms
proof (induction rule: later.induct)
  case (command g g1 env cfg raw g2 r code)
  then show ?case using records_after [OF command(3)] records.remember_keeps by metis
qed auto

section \<open>A command that is executed\<close>

definition demo_finding :: "string \<Rightarrow> json" where
  "demo_finding summary = JObj
     [(''protocol_version'', JStr ''1.0''), (''command_id'', JStr ''CMD-1''),
      (''idempotency_key'', JStr ''K-1''), (''correlation_id'', JStr ''C-1''),
      (''type'', JStr ''RegisterFinding''), (''issued_at'', JStr ''2026-01-01T00:00:00Z''),
      (''actor'', JObj [(''kind'', JStr ''role''), (''role_id'', JStr ''auditor'')]),
      (''target'', JObj [(''kind'', JStr ''finding''), (''id'', JStr ''F-1'')]),
      (''payload'', JObj [(''id'', JStr ''F-1''), (''summary'', JStr summary)])]"

definition demo_config :: config where
  "demo_config = \<lparr>
     active_bundle = Inr [(''auditor'', JObj [(''role_id'', JStr ''auditor''), (''writes'', JObj
       [(''authoritative_governance_commands'', JList [JStr ''RegisterFinding'']),
        (''non_authoritative_signal_commands'', JList [])])])],
     gateway_workspace = \<lparr>active_ensemble_id = Some ''E'', discovered_member_id = None, repository_kind = None,
       member_head = (\<lambda>_. Inr None), at_instance_root = (\<lambda>_. Inr False)\<rparr>,
     lock_free = True, document_hash = (\<lambda>_. []), visual_conformance = Inr, design_readiness = Inr,
     other_handlers = []\<rparr>"

definition demo_state :: gstate where
  "demo_state = \<lparr>disk = \<lparr>files = [(''ensembles/E/members.yaml'',
       Doc (JObj [(''members'', JList [JObj [(''id'', JStr ''ui'')]])]))], tx_dirs = []\<rparr>, records_kept = []\<rparr>"

definition demo_fingerprint :: "string \<Rightarrow> string" where
  "demo_fingerprint summary = (case payload_fingerprint id (demo_finding summary) of Inr t \<Rightarrow> t | Inl _ \<Rightarrow> [])"

lemma demo_parsed: "parse_envelope (demo_finding t) = Inr (demo_finding t)"
  by (simp add: parse_envelope_def check_required_fields_def check_actor_def check_target_def
      check_immutable_def run_validator_def check_human_authorization_def demo_finding_def REQUIRED_ENVELOPE_FIELDS_def
      need_def IMMUTABLE_UPDATE_COMMANDS_def COMMANDS_REQUIRING_HUMAN_AUTH_def envelope_validators_def
      validate_register_finding_def target_kind_def object_with_def matches_target_id_def)

lemma demo_admitted:
  "map_of (files (disk g)) ''ensembles/E/members.yaml'' = map_of (files (disk demo_state)) ''ensembles/E/members.yaml'' \<Longrightarrow>
   admit demo_config (demo_env n) g (demo_finding t)
     = Inr (JStr ''RegisterFinding'', JStr ''K-1'', demo_fingerprint t)"
  by (simp add: admit_def demo_config_def demo_env_def demo_state_def demo_fingerprint_def
      ensure_client_cycle_allowed_def is_framework_source_def ensure_out_of_tree_ensemble_ready_def
      declared_member_ids_def declared_members_def members_document_def ensemble_members_path_def ensemble_dir_def
      is_file_def read_yaml_def por_def is_out_of_tree_def GATEWAY_COMMANDS_WITHOUT_OUT_OF_TREE_def
      ENSEMBLE_SETUP_COMMAND_TYPES_def FEEDBACK_COMMAND_TYPES_def payload_fingerprint_def demo_finding_def)

lemma demo_authorized:
  "authorize_command (active_bundle demo_config) (demo_env n) (files (disk demo_state)) (demo_finding t) = Inr ()"
  by (simp add: authorize_command_def demo_config_def demo_finding_def load_role_ids_def jset_of_def in_set_def
      mem_list_def allowed_commands_for_role_def authorize_run_grant_def requires_design_human_def
      check_not_consumed_def RUN_SCOPED_COMMANDS_def STRICT_DESIGN_HUMAN_COMMANDS_def key_of_def)

lemma demo_handler: "find_handler demo_config (JStr ''RegisterFinding'') = Inr handle_register_finding"
  by (simp add: find_handler_def key_of_def HANDLERS_def)

lemma demo_handled:
  obtains r where "handle_register_finding (demo_env n) (files (disk demo_state)) (demo_finding t) = Inr r"
    "map fst (r_writes r) = [''findings/F-1.yaml'']"
  by (simp add: demo_finding_def demo_state_def handle_register_finding_def
      object_payload_def required_id_def finding_work_unit_def is_file_def finding_path_def validate_against_schema_def
      demo_env_def reply_of_def Let_def)

lemma demo_fresh: "tx_of (disk demo_state) i = empty_tx"
  by (simp add: tx_of_def demo_state_def)

lemma demo_performed:
  obtains r d1 where "perform demo_config (demo_env n) (disk demo_state) (JStr ''RegisterFinding'') (demo_finding t)
      = Inr (r, d1)" "map fst (r_writes r) = [''findings/F-1.yaml'']"
proof -
  let ?env = "demo_env n" and ?d = "disk demo_state"
  obtain r where r: "handle_register_finding ?env (files ?d) (demo_finding t) = Inr r"
      "map fst (r_writes r) = [''findings/F-1.yaml'']"
    by (rule demo_handled)
  let ?tx = "plan_all demo_config ?d (transaction_id_of ?env) (r_writes r)"
  have "r_writes r \<noteq> []" using r(2) by auto
  then obtain d1 where "commit (document_hash demo_config) (sha ?env) ?tx
        (snd (begin_transaction (transaction_id_of ?env) ?d)) = Inr d1"
    using commit_total [of "snd (begin_transaction (transaction_id_of ?env) ?d)" ?tx
        "document_hash demo_config" "sha ?env"] demo_fresh by auto
  then have "perform demo_config ?env ?d (JStr ''RegisterFinding'') (demo_finding t) = Inr (r, d1)"
    using r(1) demo_handler demo_authorized by (simp add: perform_def)
  then show thesis using r(2) by (rule that)
qed

lemma demo_executed:
  "\<exists>g1 receipt. execute_command demo_config (demo_env n) demo_state (demo_finding t) = Inr (g1, receipt, EXIT_OK)
     \<and> (\<forall>u. admit demo_config (demo_env n) g1 (demo_finding u)
         = Inr (JStr ''RegisterFinding'', JStr ''K-1'', demo_fingerprint u))"
proof -
  obtain r d1 where p: "perform demo_config (demo_env n) (disk demo_state) (JStr ''RegisterFinding'') (demo_finding t)
      = Inr (r, d1)" "map fst (r_writes r) = [''findings/F-1.yaml'']" by (rule demo_performed)
  have "jitem (demo_finding t) ''command_id'' = Inr (JStr ''CMD-1'')" by (simp add: demo_finding_def)
  moreover have "lookup_record (sha (demo_env n)) (records_kept demo_state) ''K-1'' (demo_fingerprint t) = Inr None"
    by (simp add: lookup_record_def demo_state_def)
  ultimately obtain g1 receipt where
      g1: "gateway_body demo_config (demo_env n) demo_state (demo_finding t) = Inr (g1, receipt)" "disk g1 = d1"
    using p(1) by (simp add: gateway_body_def demo_parsed demo_admitted key_text_def Let_def)
  have "files d1 = apply_writes (r_writes r) (files (disk demo_state))"
    using perform_success [OF p(1) demo_fresh] by blast
  then have "map_of (files (disk g1)) ''ensembles/E/members.yaml''
      = map_of (files (disk demo_state)) ''ensembles/E/members.yaml''"
    using p(2) by (simp add: g1(2) map_of_apply_writes_other flip: set_map)
  then show ?thesis using accepted_executes [OF g1(1)] demo_admitted by blast
qed

section \<open>Properties\<close>

text \<open>
  C4. An accepted command took effect as asked: its envelope was valid, its role and its grant
  allowed it on the documents as they were, its handler accepted it there, exactly the writes of
  the handler were made, and its receipt is kept under its idempotency key.
\<close>

theorem accepted_command_took_effect:
  assumes "execute_command cfg env g raw = Inr (g1, receipt, EXIT_OK)"
    and "admit cfg env g raw = Inr (ty, JStr k, fp)"
    and "lookup_record (sha env) (records_kept g) k fp = Inr None"
    and "tx_of (disk g) (transaction_id_of env) = empty_tx"
  shows "parse_envelope raw = Inr raw
    \<and> authorize_command (active_bundle cfg) env (files (disk g)) raw = Inr ()
    \<and> (\<exists>handler r command_id. find_handler cfg ty = Inr handler \<and> handler env (files (disk g)) raw = Inr r
        \<and> r_writes r \<noteq> [] \<and> files (disk g1) = apply_writes (r_writes r) (files (disk g))
        \<and> jitem raw ''command_id'' = Inr command_id \<and> receipt = accepted_receipt env command_id r)
    \<and> lookup_record (sha env) (records_kept g1) k fp = Inr (Some receipt)"
  using execute_accepted [OF assms(1)]
proof (cases rule: gateway_body_success)
  case (cached ty' k' fp')
  with assms(2,3) show ?thesis by simp
next
  case (performed command_id ty' k' fp' r d1)
  then have same: "ty' = ty" "k' = k" "fp' = fp" using assms(2) by auto
  have "lookup_record (sha env) (records_kept g1) k fp = Inr (Some receipt)"
    using records.remembered [OF assms(3)] performed(7) by (simp add: same)
  then show ?thesis
    using perform_success [OF performed(5) assms(4)] performed(1,2,6,7) unfolding same by auto
qed

theorem accepted_command_took_effect_witness:
  "\<exists>(g1 :: gstate) receipt r. handle_register_finding (demo_env 0) (files (disk demo_state)) (demo_finding ''s'') = Inr r
     \<and> files (disk g1) = apply_writes (r_writes r) (files (disk demo_state))
     \<and> lookup_record (sha (demo_env 0)) (records_kept g1) ''K-1'' (demo_fingerprint ''s'') = Inr (Some receipt)"
proof -
  obtain g1 receipt where g1:
      "execute_command demo_config (demo_env 0) demo_state (demo_finding ''s'') = Inr (g1, receipt, EXIT_OK)"
    using demo_executed by blast
  have "lookup_record (sha (demo_env 0)) (records_kept demo_state) ''K-1'' (demo_fingerprint ''s'') = Inr None"
      "tx_of (disk demo_state) (transaction_id_of (demo_env 0)) = empty_tx"
    by (simp_all add: lookup_record_def demo_state_def tx_of_def)
  from accepted_command_took_effect [OF g1 demo_admitted [OF refl] this]
  obtain handler r where h: "find_handler demo_config (JStr ''RegisterFinding'') = Inr handler"
      "handler (demo_env 0) (files (disk demo_state)) (demo_finding ''s'') = Inr r"
      "files (disk g1) = apply_writes (r_writes r) (files (disk demo_state))"
      "lookup_record (sha (demo_env 0)) (records_kept g1) ''K-1'' (demo_fingerprint ''s'') = Inr (Some receipt)"
    by (elim conjE exE) (rule that)
  have "handler = handle_register_finding" using h(1) by (simp add: demo_handler)
  then show ?thesis using h(2-4) by blast
qed

text \<open>
  C3. An accepted command that is sent again is not executed again: whatever happened in between
  (other commands, through any gateway, changes of the documents, a revoked grant), it gets the
  receipt it got the first time, and nothing changes. It must still be admitted (the workspace
  is in a mode that takes commands and the lock is free).
\<close>

theorem accepted_command_is_idempotent:
  assumes "execute_command cfg env g raw = Inr (g1, receipt, EXIT_OK)"
    and "later (sha env) g1 g2" and "sha env2 = sha env"
    and "admit cfg2 env2 g2 raw = Inr (ty, key, fp)"
  shows "execute_command cfg2 env2 g2 raw = Inr (g2, receipt, EXIT_OK)"
proof -
  obtain ty' k fp' where a: "parse_envelope raw = Inr raw" "admit cfg env g raw = Inr (ty', JStr k, fp')"
      "lookup_record (sha env) (records_kept g1) k fp' = Inr (Some receipt)"
    using execute_accepted [OF assms(1)]
    by (cases rule: gateway_body_success) (auto simp: records.remembered)
  have "key = JStr k" "fp = fp'" using a(2) assms(3,4) by (auto simp: admit_def)
  moreover have "lookup_record (sha env) (records_kept g2) k fp' = Inr (Some receipt)"
    by (rule receipt_kept [OF assms(2) a(3)])
  moreover obtain command_id where "jitem raw ''command_id'' = Inr command_id"
    using execute_accepted [OF assms(1)] unfolding gateway_body_def bindR_eq_Inr using a(1) by auto
  ultimately have "gateway_body cfg2 env2 g2 raw = Inr (g2, receipt)"
    using a(1) assms(3,4) by (simp add: gateway_body_def key_text_def)
  then show ?thesis by (rule accepted_executes)
qed

theorem accepted_command_is_idempotent_witness:
  "\<exists>g1 receipt. execute_command demo_config (demo_env 0) g1 (demo_finding ''s'') = Inr (g1, receipt, EXIT_OK)"
proof -
  obtain g1 receipt where g1:
      "execute_command demo_config (demo_env 0) demo_state (demo_finding ''s'') = Inr (g1, receipt, EXIT_OK)"
      "admit demo_config (demo_env 0) g1 (demo_finding ''s'')
         = Inr (JStr ''RegisterFinding'', JStr ''K-1'', demo_fingerprint ''s'')"
    using demo_executed [where n = 0 and t = "''s''"] by blast
  from accepted_command_is_idempotent [OF g1(1) later.same refl g1(2)] show ?thesis by blast
qed

text \<open>
  An idempotency key stands for one command: once a command was accepted under it, another
  command with the same key and another fingerprint is rejected as a mismatch at every later
  time, before it is authorized or executed.
\<close>

theorem reused_key_is_refused:
  assumes "execute_command cfg env g raw = Inr (g1, receipt, EXIT_OK)"
    and "admit cfg env g raw = Inr (ty, JStr k, fp)"
    and "later (sha env) g1 g2" and "sha env2 = sha env"
    and "parse_envelope other = Inr other" and "admit cfg2 env2 g2 other = Inr (ty2, JStr k, fp2)"
    and "fp2 \<noteq> fp" and "jitem other ''command_id'' = Inr (JStr (c # cs))"
  shows "execute_command cfg2 env2 g2 other =
    Inr (g2, build_rejected_receipt (JStr (c # cs)) IDEMPOTENCY_MISMATCH ''/idempotency_key'', EXIT_CONFLICT)"
proof -
  have "lookup_record (sha env) (records_kept g1) k fp = Inr (Some receipt)"
    using execute_accepted [OF assms(1)] assms(2)
    by (cases rule: gateway_body_success) (auto simp: records.remembered)
  from receipt_kept [OF assms(3) this]
  have "lookup_record (sha env) (records_kept g2) k fp2 = gateway_error IDEMPOTENCY_MISMATCH ''/idempotency_key''"
    using assms(7) by (auto simp: lookup_record_def split: option.splits if_splits)
  then have "gateway_body cfg2 env2 g2 other = gateway_error IDEMPOTENCY_MISMATCH ''/idempotency_key''"
    using assms(4-6,8) by (simp add: gateway_body_def key_text_def)
  moreover have "jget other ''command_id'' = Inr (JStr (c # cs))"
    using assms(8) by (auto simp: jitem_eq_Inr jget_eq_Inr oget_def)
  ultimately show ?thesis
    using assms(5) by (simp add: execute_command_def rejected_id_def por_def exit_code_for_def)
qed

lemma demo_fingerprints_differ: "demo_fingerprint ''t'' \<noteq> demo_fingerprint ''s''"
  by code_simp

theorem reused_key_is_refused_witness:
  "\<exists>g1. execute_command demo_config (demo_env 0) g1 (demo_finding ''t'') =
     Inr (g1, build_rejected_receipt (JStr ''CMD-1'') IDEMPOTENCY_MISMATCH ''/idempotency_key'', EXIT_CONFLICT)"
proof -
  obtain g1 receipt where g1:
      "execute_command demo_config (demo_env 0) demo_state (demo_finding ''s'') = Inr (g1, receipt, EXIT_OK)"
      "admit demo_config (demo_env 0) g1 (demo_finding ''t'')
         = Inr (JStr ''RegisterFinding'', JStr ''K-1'', demo_fingerprint ''t'')"
    using demo_executed [where n = 0 and t = "''s''"] by blast
  have "jitem (demo_finding ''t'') ''command_id'' = Inr (JStr ''CMD-1'')" by (simp add: demo_finding_def)
  from reused_key_is_refused [OF g1(1) demo_admitted [OF refl] later.same refl demo_parsed g1(2)
      demo_fingerprints_differ this] show ?thesis by blast
qed

text \<open>
  C2. A command that is interrupted is all or nothing: if the process dies anywhere in the commit,
  recovery succeeds, nothing is pending afterwards, and the documents are those from before the
  command or those the whole command would have left.
\<close>

theorem interrupted_command_is_atomic:
  assumes "perform cfg env d ty e = Inr (r, d1)" and "interrupted cfg env k d r = Inr dead"
    and "distinct (map fst (r_writes r))"
    and "\<And>p j c. (p, j) \<in> set (r_writes r) \<Longrightarrow> map_of (files d) p = Some c \<Longrightarrow>
      document_hash cfg c = document_hash cfg (Doc j) \<Longrightarrow> c = Doc j"
    and "tx_of d (transaction_id_of env) = empty_tx"
    and "\<And>i. i \<noteq> transaction_id_of env \<Longrightarrow> settled d i"
  shows "\<exists>alive messages. recover cfg env dead = (alive, Inr messages)
    \<and> (map_of (files alive) = map_of (files d) \<or> map_of (files alive) = map_of (files d1))"
proof -
  let ?d = "snd (begin_transaction (transaction_id_of env) d)"
  let ?tx = "plan_all cfg d (transaction_id_of env) (r_writes r)"
  have "well_planned (document_hash cfg) ?d ?tx"
    using assms(3) by (auto simp: well_planned_def comp_def split_def)
  moreover have "hash_separates (document_hash cfg) ?d ?tx"
    using assms(4) by (fastforce simp: hash_separates_def)
  moreover have "settled ?d i" if "i \<noteq> transaction_id ?tx" for i
    using assms(6) that by (simp add: settled_def)
  ultimately obtain alive msgs where a: "recover_transactions (document_hash cfg) (sha env) dead = (alive, Inr msgs)"
      "map_of (files alive) = (if k \<le> length (stage_ops ?tx) then map_of (files ?d)
        else map_of (all_written ?tx (files ?d)))"
    using crash_recover_atomic [of "document_hash cfg" ?d ?tx k "sha env"] assms(2,5)
    by (auto simp: interrupted_def)
  then show ?thesis
    using perform_success [OF assms(1,5)] by (auto simp: recover_def all_written_plan)
qed

theorem interrupted_command_is_atomic_witness:
  "\<exists>r (d1 :: dfile disk) dead (alive :: dfile disk) messages.
     interrupted demo_config (demo_env 0) 2 (disk demo_state) r = Inr dead
     \<and> recover demo_config (demo_env 0) dead = (alive, Inr messages)
     \<and> (map_of (files alive) = map_of (files (disk demo_state)) \<or> map_of (files alive) = map_of (files d1))"
proof -
  obtain r d1 where p: "perform demo_config (demo_env 0) (disk demo_state) (JStr ''RegisterFinding'')
      (demo_finding ''s'') = Inr (r, d1)" "map fst (r_writes r) = [''findings/F-1.yaml'']" by (rule demo_performed)
  then obtain j where w: "r_writes r = [(''findings/F-1.yaml'', j)]" by (cases "r_writes r") auto
  obtain dead where dead: "interrupted demo_config (demo_env 0) 2 (disk demo_state) r = Inr dead"
    by (simp add: interrupted_def crash_after_def commit_ops_def stage_ops_def w Let_def)
  have "\<exists>alive messages. recover demo_config (demo_env 0) dead = (alive, Inr messages)
     \<and> (map_of (files alive) = map_of (files (disk demo_state)) \<or> map_of (files alive) = map_of (files d1))"
    by (rule interrupted_command_is_atomic [OF p(1) dead])
       (simp_all add: w demo_fresh settled_def, simp_all add: empty_tx_def demo_state_def)
  then show ?thesis using dead by blast
qed

end
