(* ===== verification/TickSafety.thy ===== *)
theory TickSafety
  imports Tick GatewaySafety
begin

text \<open>
  What a scheduling tick may do: the commands it sends, how often and when it has an agent execute
  a step or merges into the integration branch, and that a Run with a reason to stop is only
  stopped. Every step of the tick is put in one of three classes by the rules below: it leaves no
  effects, only commands of the mandate, or effects of a shape stated for it.
\<close>

named_theorems tick_rules
named_theorems tick_silent

section \<open>The effects a step leaves\<close>

definition leaves :: "(effect list \<Rightarrow> bool) \<Rightarrow> 'a ticks \<Rightarrow> bool" where
  "leaves A m \<longleftrightarrow> (\<forall>r tr s' x. m (r, tr) = (s', x) \<longrightarrow> (\<exists>new. snd s' = tr @ new \<and> A new))"

definition yields :: "'a ticks \<Rightarrow> 'a \<Rightarrow> bool" where
  "yields m x \<longleftrightarrow> (\<exists>s s'. m s = (s', Inr x))"

definition TICK_ROLES :: "string list" where
  "TICK_ROLES = [''control-plane'', ''integration-steward'', ''mandate-matcher'', ''release-agent'']"

definition TICK_COMMANDS :: "string list" where
  "TICK_COMMANDS = [''AcquireWorkerLease'', ''ReleaseWorkerLease'', ''RecordWorkerHeartbeat'', ''RecordExecutionAttempt'',
     ''WriteCheckpoint'', ''TransitionWorkUnit'', ''RecordIntegrationMerge'', ''EscalateWorkUnitRisk'', ''ResolveRunDecision'',
     ''RegisterReleaseCandidate'', ''CloseRun'', ''RecordObservation'', ''GenerateRetrospective'', ''SubmitFeedback'']"

definition TICK_STATUSES :: "string list" where
  "TICK_STATUSES = [''in_progress'', ''verification'', ''review'', ''audit'', ''human_test'', ''remediation_required'', ''blocked'']"

text \<open>
  The mandate of the scheduler: it acts as a role without any human authorization, moves Work Units
  only to the statuses before acceptance, and closes Runs only as stopped or completed.
\<close>

definition within_mandate :: "json \<Rightarrow> bool" where
  "within_mandate command = (case command of
     JObj ob \<Rightarrow> (case (oget ob ''actor'', oget ob ''payload'') of
         (JObj actor, JObj payload) \<Rightarrow>
           oget ob ''human_authorization'' = JNull \<and> oget ob ''run_authorization'' = JNull \<and> oget actor ''kind'' = JStr ''role''
           \<and> oget actor ''role_id'' \<in> JStr ` set TICK_ROLES \<and> oget ob ''type'' \<in> JStr ` set TICK_COMMANDS
           \<and> (oget ob ''type'' = JStr ''TransitionWorkUnit'' \<longrightarrow> oget payload ''to_status'' \<in> JStr ` set TICK_STATUSES)
           \<and> (oget ob ''type'' = JStr ''CloseRun'' \<longrightarrow> oget payload ''status'' \<in> {JStr ''stopped'', JStr ''completed''})
       | _ \<Rightarrow> False)
   | _ \<Rightarrow> False)"

fun mandated :: "effect \<Rightarrow> bool" where
  "mandated (Sent command code) = within_mandate command"
| "mandated _ = False"

abbreviation silent :: "'a ticks \<Rightarrow> bool" where "silent \<equiv> leaves (\<lambda>new. new = [])"
abbreviation plain :: "'a ticks \<Rightarrow> bool" where "plain \<equiv> leaves (list_all mandated)"

lemma leavesI: "(\<And>r tr s' x. m (r, tr) = (s', x) \<Longrightarrow> \<exists>new. snd s' = tr @ new \<and> A new) \<Longrightarrow> leaves A m"
  unfolding leaves_def by blast

lemma leavesD: "leaves A m \<Longrightarrow> m (r, tr) = (s', x) \<Longrightarrow> \<exists>new. snd s' = tr @ new \<and> A new"
  unfolding leaves_def by blast

lemma leaves_mono: "leaves A m \<Longrightarrow> (\<And>new. A new \<Longrightarrow> B new) \<Longrightarrow> leaves B m"
  unfolding leaves_def by blast

text \<open>Two steps in sequence; an exception after the first leaves its effects alone.\<close>

lemma leaves_bind:
  assumes "leaves A m" and "\<And>x. yields m x \<Longrightarrow> leaves B (f x)"
    and "\<And>n. A n \<Longrightarrow> C n" and "\<And>n k. A n \<Longrightarrow> B k \<Longrightarrow> C (n @ k)"
  shows "leaves C (bindS m f)"
proof (rule leavesI)
  fix r tr s' y assume run: "bindS m f (r, tr) = (s', y)"
  obtain r1 tr1 x where m: "m (r, tr) = ((r1, tr1), x)" by (cases "m (r, tr)") auto
  from leavesD [OF assms(1) m] obtain n where n: "tr1 = tr @ n" "A n" by auto
  show "\<exists>new. snd s' = tr @ new \<and> C new"
  proof (cases x)
    case (Inl e)
    then show ?thesis using run m n assms(3) by (auto simp: bindS_def)
  next
    case (Inr a)
    then have "f a (r1, tr1) = (s', y)" using run m by (simp add: bindS_def)
    moreover have "yields m a" using m Inr unfolding yields_def by blast
    ultimately obtain k where "snd s' = tr1 @ k" "B k" using leavesD [OF assms(2)] by blast
    then show ?thesis using n assms(4) by auto
  qed
qed

lemma silent_bind:
  assumes "silent m" and "\<And>x. yields m x \<Longrightarrow> leaves A (f x)" and "A []"
  shows "leaves A (bindS m f)"
  by (rule leaves_bind [OF assms(1,2)]) (use assms(3) in auto)

lemma silent_leaves: "silent m \<Longrightarrow> A [] \<Longrightarrow> leaves A m"
  by (erule leaves_mono) simp

lemma plain_bind: "plain m \<Longrightarrow> (\<And>x. yields m x \<Longrightarrow> plain (f x)) \<Longrightarrow> plain (bindS m f)"
  by (rule leaves_bind [where B = "list_all mandated"]) auto

lemma leaves_primitive [tick_rules, tick_silent]:
  "silent (liftS r)" "silent (doneS x)" "silent (readT g)" "silent (drawT c)" "silent (gitT c h)"
  by (auto simp: leaves_def liftS_def doneS_def readT_def drawT_def gitT_def split: prod.splits)

lemma silent_finish [tick_rules, tick_silent]: "silent (finish a w d)"
  unfolding finish_def by (rule leaves_primitive)

lemma silent_refused [tick_rules, tick_silent]: "silent (refused a w receipt)"
  unfolding refused_def by (intro silent_bind leaves_primitive silent_finish) simp

lemma yields_simps [simp]: "yields (liftS r) x \<longleftrightarrow> r = Inr x" "yields (doneS y) x \<longleftrightarrow> x = y"
  by (auto simp: yields_def liftS_def doneS_def)

lemma yields_read: "yields (readT g) x \<Longrightarrow> \<exists>s. g s = Inr x"
  by (auto simp: yields_def readT_def)

lemma plain_unless:
  "plain m \<Longrightarrow> plain k \<Longrightarrow> plain (unlessS m k)"
  unfolding unlessS_def by (rule plain_bind) (auto split: option.split intro: silent_leaves leaves_primitive)

lemma plain_gather:
  "(\<And>x. plain (f x)) \<Longrightarrow> plain (gatherS f xs)"
  by (induction xs) (auto intro!: plain_bind intro: silent_leaves leaves_primitive)

lemma leaves_if: "(b \<Longrightarrow> leaves A m) \<Longrightarrow> (\<not> b \<Longrightarrow> leaves A k) \<Longrightarrow> leaves A (if b then m else k)"
  by simp

lemma leaves_let: "leaves A (f x) \<Longrightarrow> leaves A (let y = x in f y)"
  by simp

lemma leaves_pair: "(\<And>a b. p = (a, b) \<Longrightarrow> leaves A (f a b)) \<Longrightarrow> leaves A (case p of (a, b) \<Rightarrow> f a b)"
  by (cases p) simp

lemma leaves_option: "(x = None \<Longrightarrow> leaves A m) \<Longrightarrow> (\<And>y. x = Some y \<Longrightarrow> leaves A (k y)) \<Longrightarrow> leaves A (case x of None \<Rightarrow> m | Some y \<Rightarrow> k y)"
  by (cases x) simp_all

lemma leaves_sum: "(\<And>e. x = Inl e \<Longrightarrow> leaves A (m e)) \<Longrightarrow> (\<And>y. x = Inr y \<Longrightarrow> leaves A (k y)) \<Longrightarrow> leaves A (case x of Inl e \<Rightarrow> m e | Inr y \<Rightarrow> k y)"
  by (cases x) simp_all

section \<open>Commands within the mandate\<close>

lemma plain_command:
  assumes "\<And>env. within_mandate (command env)"
  shows "plain (commandT c command)"
  by (rule leavesI) (auto simp: commandT_def assms split: prod.splits sum.splits)

lemma mandate_envelope:
  assumes "role \<in> set TICK_ROLES" "t \<in> set TICK_COMMANDS"
    "t = ''TransitionWorkUnit'' \<longrightarrow> oget payload ''to_status'' \<in> JStr ` set TICK_STATUSES"
    "t = ''CloseRun'' \<longrightarrow> oget payload ''status'' \<in> {JStr ''stopped'', JStr ''completed''}"
  shows "within_mandate (tick_envelope role t target payload env)"
  using assms by (simp add: within_mandate_def tick_envelope_def tick_actor_def Let_def)

lemma plain_control [tick_rules]:
  assumes "t \<in> set TICK_COMMANDS" "t \<noteq> ''TransitionWorkUnit''" "t \<noteq> ''CloseRun''"
  shows "plain (control_command c t target payload)"
  unfolding control_command_def using assms by (intro plain_command mandate_envelope) (simp_all add: TICK_ROLES_def)

lemma plain_transition [tick_rules]:
  assumes "to_status \<in> set TICK_STATUSES"
  shows "plain (transition_command c run_id w d to_status reason)"
  unfolding transition_command_def control_command_def
  by (intro silent_bind leaves_primitive plain_command mandate_envelope)
     (use assms in \<open>auto simp: TICK_ROLES_def TICK_COMMANDS_def\<close>)

lemma plain_close [tick_rules]:
  assumes "oget payload ''status'' \<in> {JStr ''stopped'', JStr ''completed''}"
  shows "plain (close_run_command c run_id d payload)"
  unfolding close_run_command_def control_command_def
  by (intro silent_bind leaves_primitive plain_command mandate_envelope)
     (use assms in \<open>auto simp: TICK_ROLES_def TICK_COMMANDS_def\<close>)

lemma plain_primitive:
  "plain (liftS r)" "plain (doneS x)" "plain (readT g)" "plain (drawT c)" "plain (gitT c h)" "plain (finish a w d)"
  "plain (refused a w receipt)"
  by (simp_all add: silent_leaves leaves_primitive silent_finish silent_refused)

lemmas plain_steps = plain_primitive plain_control plain_transition plain_close plain_bind plain_unless plain_gather
  leaves_if leaves_pair leaves_option leaves_sum

lemmas mandate_simps = TICK_COMMANDS_def TICK_STATUSES_def

lemma plain_new_lease [tick_rules]: "plain (new_lease_id c w)"
  unfolding new_lease_id_def by (intro plain_steps)

lemma plain_leases [tick_rules]:
  "plain (acquire_lease_command c run_id w worker_id l)" "plain (release_lease_command c run_id w l' e reason)"
  "plain (heartbeat_command c run_id l' e)"
  unfolding acquire_lease_command_def release_lease_command_def heartbeat_command_def
  by (intro plain_steps; simp add: mandate_simps)+

lemma plain_feedback [tick_rules]: "plain (best_effort_submit_feedback c)"
  unfolding best_effort_submit_feedback_def by (intro plain_steps) (simp_all add: mandate_simps)

lemma plain_terminal [tick_rules]: "plain (terminal_run_result c code a b w d)"
  unfolding terminal_run_result_def by (intro plain_steps plain_feedback)

lemma plain_stop [tick_rules]: "plain (stop_run c run_id d reason condition w extra)"
  unfolding stop_run_def by (intro plain_steps plain_terminal) simp

lemma plain_orphans: "plain (recover_orphan_started_attempts c run_id d env)"
  unfolding recover_orphan_started_attempts_def recover_orphan_def Let_def
  by (intro plain_steps) (simp_all add: mandate_simps)

lemma plain_reassign: "plain (reassign_stale_lease c run_id worker_id env leases)"
  by (induction leases) (auto intro!: plain_steps plain_new_lease plain_leases simp: Let_def)

lemma plain_start_work_unit: "plain (start_work_unit c run_id worker_id w d)"
  unfolding start_work_unit_def
  by (intro plain_steps plain_new_lease plain_leases) (simp_all add: mandate_simps)

lemma plain_start_ready: "plain (start_ready_work_unit c run_id worker_id grant docs deps leases mismatched ids)"
  by (induction ids arbitrary: mismatched) (auto intro!: plain_steps plain_start_work_unit simp: Let_def)

lemma exhaustion_statuses: "map_of NEXT_STATUS_ON_EXHAUSTION k = Some t \<Longrightarrow> t \<in> set TICK_STATUSES"
  by (auto simp: NEXT_STATUS_ON_EXHAUSTION_def TICK_STATUSES_def split: if_splits)

lemma success_statuses: "map_of NEXT_STATUS_ON_SUCCESS k = Some t \<Longrightarrow> t \<in> set TICK_STATUSES"
  by (auto simp: NEXT_STATUS_ON_SUCCESS_def TICK_STATUSES_def split: if_splits)

lemma table_get_Some: "table_get T v = Inr (Some t) \<Longrightarrow> \<exists>k. map_of T k = Some t"
  by (auto simp: table_get_def bind_eq_Some_conv)

lemma plain_demote: "plain (demote_exhausted c f ref reason)"
  unfolding demote_exhausted_def
  by (intro plain_steps plain_leases) (auto intro: exhaustion_statuses)

lemma plain_attempt:
  assumes "role \<in> set TICK_ROLES"
  shows "plain (attempt_command c f role extra payload)"
  unfolding attempt_command_def using assms by (intro plain_command mandate_envelope) (simp_all add: TICK_COMMANDS_def)

lemma attempt_role: "attempt_actor_role f \<in> set TICK_ROLES"
  by (simp add: attempt_actor_role_def TICK_ROLES_def)

lemma plain_unisolated: "role \<in> set TICK_ROLES \<Longrightarrow> plain (fail_unisolated c f role summary reason extra)"
  unfolding fail_unisolated_def by (intro plain_steps plain_attempt plain_stop)

lemma plain_recording_refused: "plain (recording_refused c f receipt)"
  unfolding recording_refused_def by (intro plain_steps plain_stop)

lemma plain_observe: "plain (observe_failure c f status result)"
  unfolding observe_failure_def by (intro plain_steps) (simp_all add: mandate_simps)

lemma plain_record_merge: "plain (record_merge c f m)"
  unfolding record_merge_def
  by (intro plain_steps plain_command mandate_envelope) (simp_all add: TICK_ROLES_def TICK_COMMANDS_def)

lemma plain_stop_after: "plain (stop_after_attempt c f receipt)"
  unfolding stop_after_attempt_def by (intro plain_steps plain_stop)

lemma plain_checkpoint: "plain (save_checkpoint c f accepted status result)"
  unfolding save_checkpoint_def by (intro plain_steps plain_leases) (simp_all add: mandate_simps)

lemma plain_escalate: "plain (escalate_risk c f result)"
  unfolding escalate_risk_def
  by (cases "oget result ''risk_escalation''") (auto intro!: plain_steps simp: mandate_simps)

lemma plain_decision: "plain (resolve_decision c f status result)"
  unfolding resolve_decision_def Let_def
  by (cases "oget result ''decision_proposal''")
     (auto intro!: plain_steps plain_leases plain_command mandate_envelope simp: TICK_ROLES_def mandate_simps)

lemma plain_retrospective: "plain (retrospective_details c payload)"
  unfolding retrospective_details_def
  by (intro plain_steps; (simp add: mandate_simps)?) (auto split: list.split intro!: plain_steps)

lemma pause_statuses: "(if b then ''blocked'' else ''remediation_required'') \<in> set TICK_STATUSES"
  by (simp add: TICK_STATUSES_def)

lemma review_status: "table_get NEXT_STATUS_ON_SUCCESS v = Inr (Some t) \<Longrightarrow> t \<in> set TICK_STATUSES"
  "table_get NEXT_STATUS_ON_EXHAUSTION v = Inr (Some t) \<Longrightarrow> t \<in> set TICK_STATUSES"
  by (drule table_get_Some, erule exE, erule success_statuses) (drule table_get_Some, erule exE, erule exhaustion_statuses)

lemma plain_advance: "t \<in> set TICK_STATUSES \<Longrightarrow> plain (advance c f document t)"
  unfolding advance_def Let_def by (intro plain_steps plain_leases plain_retrospective)

lemma plain_pause: "plain (pause_blocked c f document result)"
  unfolding pause_blocked_def Let_def by (intro plain_steps plain_leases pause_statuses)

lemma demotion_status:
  "yields (liftS (if b then Inr None else table_get NEXT_STATUS_ON_EXHAUSTION v)) x \<Longrightarrow> x = Some t \<Longrightarrow> t \<in> set TICK_STATUSES"
  by (cases b) (simp_all add: review_status(2))

lemma plain_demote_after: "plain (demote_after_attempt c f document receipt)"
  unfolding demote_after_attempt_def by (intro plain_steps plain_leases) (erule (1) demotion_status)

lemma plain_conclude: "plain (conclude_attempt c f document status result receipt)"
  unfolding conclude_attempt_def by (intro plain_steps plain_pause plain_demote_after plain_advance) (auto intro: review_status)

lemma plain_finish_run: "plain (finish_run c run_id d ids reviewed docs)"
  unfolding finish_run_def register_candidate_def complete_run_def
  by (intro plain_steps plain_feedback plain_retrospective plain_command mandate_envelope)
     (simp_all add: TICK_ROLES_def TICK_COMMANDS_def)

lemma plain_idle: "plain (idle_outcome c run_id d env grant docs reviewed mismatched)"
  unfolding idle_outcome_def by (intro plain_steps plain_stop)

section \<open>Executions and merges\<close>

text \<open>The command that starts an execution, and a heartbeat of the lease it runs under.\<close>

definition starts :: "json \<Rightarrow> frame \<Rightarrow> bool" where
  "starts command f = (case command of
     JObj ob \<Rightarrow> oget ob ''type'' = JStr ''RecordExecutionAttempt'' \<and> (case oget ob ''payload'' of
         JObj p \<Rightarrow> oget p ''status'' = JStr ''started'' \<and> oget p ''run_id'' = JStr (f_run_id f)
           \<and> oget p ''work_unit_id'' = JStr (f_unit f) \<and> oget p ''worker_lease_id'' = f_lease_id f
           \<and> oget p ''epoch'' = f_epoch f \<and> oget p ''step'' = JStr (f_step f)
           \<and> oget p ''execution_id'' = JStr (f_execution_id f)
       | _ \<Rightarrow> False)
   | _ \<Rightarrow> False)"

definition is_heartbeat :: "json \<Rightarrow> frame \<Rightarrow> bool" where
  "is_heartbeat command f = (case command of
     JObj ob \<Rightarrow> oget ob ''type'' = JStr ''RecordWorkerHeartbeat'' \<and> (case (oget ob ''target'', oget ob ''payload'') of
         (JObj t, JObj p) \<Rightarrow> oget t ''id'' = f_lease_id f \<and> oget p ''run_id'' = JStr (f_run_id f) \<and> oget p ''epoch'' = f_epoch f
       | _ \<Rightarrow> False)
   | _ \<Rightarrow> False)"

definition of_frame :: "frame \<Rightarrow> execution_request \<Rightarrow> bool" where
  "of_frame f x \<longleftrightarrow> x_run_id x = f_run_id f \<and> x_work_unit_id x = f_unit f \<and> x_lease_id x = py_str (f_lease_id f)
     \<and> py_int (f_epoch f) = Inr (x_epoch x) \<and> x_step x = f_step f \<and> x_execution_id x = f_execution_id f"

definition execution_of :: "frame \<Rightarrow> effect list \<Rightarrow> bool" where
  "execution_of f new \<longleftrightarrow> new = [] \<or> (\<exists>x. new = [Executed x] \<and> of_frame f x)"

definition merge_only :: "effect list \<Rightarrow> bool" where
  "merge_only new \<longleftrightarrow> new = [] \<or> (\<exists>sha. new = [Merged sha])"

text \<open>After an execution: commands only, or a merge behind a heartbeat that was accepted.\<close>

definition settled :: "frame \<Rightarrow> effect list \<Rightarrow> bool" where
  "settled f new \<longleftrightarrow> list_all mandated new
     \<or> (\<exists>beat sha rest. new = Sent beat 0 # Merged sha # rest \<and> within_mandate beat \<and> is_heartbeat beat f \<and> list_all mandated rest)"

definition run_by :: "frame \<Rightarrow> effect list \<Rightarrow> bool" where
  "run_by f new \<longleftrightarrow> (\<exists>ran rest. new = ran @ rest \<and> execution_of f ran \<and> settled f rest)"

text \<open>The effects of a tick: commands, and at most one execution, started by an accepted command.\<close>

definition executed :: "effect list \<Rightarrow> bool" where
  "executed new \<longleftrightarrow> list_all mandated new
     \<or> (\<exists>before command f rest. new = before @ Sent command 0 # rest \<and> list_all mandated before
          \<and> within_mandate command \<and> starts command f \<and> run_by f rest)"

lemma settled_append: "settled f a \<Longrightarrow> list_all mandated b \<Longrightarrow> settled f (a @ b)"
  unfolding settled_def by auto

lemma run_by_append: "run_by f a \<Longrightarrow> list_all mandated b \<Longrightarrow> run_by f (a @ b)"
  unfolding run_by_def using settled_append by fastforce

lemma settled_Nil [simp]: "settled f []"
  by (simp add: settled_def)

lemma run_by_execution: "execution_of f n \<Longrightarrow> settled f k \<Longrightarrow> run_by f (n @ k)"
  unfolding run_by_def by blast

lemma run_by_settled: "settled f new \<Longrightarrow> run_by f new"
  unfolding run_by_def execution_of_def by fastforce

lemma executed_append:
  assumes "executed a" "list_all mandated b"
  shows "executed (a @ b)"
proof (cases "list_all mandated a")
  case False
  then obtain before command f rest where "a = before @ Sent command 0 # rest" "list_all mandated before"
      "within_mandate command" "starts command f" "run_by f rest"
    using assms(1) unfolding executed_def by blast
  then have "a @ b = before @ Sent command 0 # (rest @ b) \<and> run_by f (rest @ b)"
    using run_by_append [OF _ assms(2)] by simp
  then show ?thesis using \<open>list_all mandated before\<close> \<open>within_mandate command\<close> \<open>starts command f\<close>
    unfolding executed_def by blast
qed (use assms in \<open>simp add: executed_def\<close>)

lemma executed_prepend: "list_all mandated a \<Longrightarrow> executed b \<Longrightarrow> executed (a @ b)"
  unfolding executed_def by (metis append_assoc list_all_append)

lemma mandated_executed: "list_all mandated new \<Longrightarrow> executed new"
  by (simp add: executed_def)

lemma plain_executed: "plain m \<Longrightarrow> leaves executed m"
  by (erule leaves_mono) (rule mandated_executed)

lemma plain_settled: "plain m \<Longrightarrow> leaves (settled f) m"
  by (erule leaves_mono) (simp add: settled_def)

lemma settled_run: "leaves (settled f) m \<Longrightarrow> leaves (run_by f) m"
  by (erule leaves_mono) (rule run_by_settled)

lemma executed_bind_plain:
  assumes "plain m" and "\<And>x. yields m x \<Longrightarrow> leaves executed (f x)"
  shows "leaves executed (bindS m f)"
  by (rule leaves_bind [OF assms]) (simp_all add: executed_prepend mandated_executed)

lemma executed_bind:
  assumes "leaves executed m" and "\<And>x. yields m x \<Longrightarrow> plain (f x)"
  shows "leaves executed (bindS m f)"
  by (rule leaves_bind [OF assms]) (auto intro: executed_append)

lemma executed_unless: "leaves executed m \<Longrightarrow> plain k \<Longrightarrow> leaves executed (unlessS m k)"
  unfolding unlessS_def by (erule executed_bind) (auto intro: plain_primitive split: option.split)

lemma executed_unless_plain: "plain m \<Longrightarrow> leaves executed k \<Longrightarrow> leaves executed (unlessS m k)"
  unfolding unlessS_def by (rule executed_bind_plain) (auto intro: plain_executed plain_primitive split: option.split)

text \<open>A command whose effect shows the exit code it answers with.\<close>

lemma command_bind:
  assumes "A []" and "\<And>env receipt code. leaves (\<lambda>k. A (Sent (command env) code # k)) (f (receipt, code))"
  shows "leaves A (bindS (commandT c command) f)"
proof (rule leavesI)
  fix r tr s' y assume run: "bindS (commandT c command) f (r, tr) = (s', y)"
  show "\<exists>new. snd s' = tr @ new \<and> A new"
  proof (cases "send (gateway_of c) command r")
    case (Pair r1 answer)
    show ?thesis
    proof (cases answer)
      case (Inl e)
      then show ?thesis using run Pair assms(1) by (auto simp: bindS_def commandT_def)
    next
      case (Inr p)
      obtain receipt code where p: "p = (receipt, code)" by (cases p)
      then have "f (receipt, code) (r1, tr @ [Sent (command (clock (gateway_of c) (snd r))) code]) = (s', y)"
        using run Pair Inr by (simp add: bindS_def commandT_def)
      from leavesD [OF assms(2) this] show ?thesis by auto
    qed
  qed
qed

lemma effect_leaves: "leaves (\<lambda>new. new = [x]) (effectT x)"
  by (auto simp: leaves_def effectT_def)

lemma execute_governed_leaves:
  assumes "\<And>n. py_int epoch = Inr n \<Longrightarrow> of_frame f (request n)"
  shows "leaves (execution_of f) (execute_governed c root_path base epoch request)"
proof (cases "py_int epoch")
  case (Inl e)
  then show ?thesis by (simp add: execute_governed_def silent_leaves leaves_primitive execution_of_def)
next
  case (Inr n)
  show ?thesis unfolding execute_governed_def Inr sum.case
    by (rule silent_bind leaves_primitive leaves_bind [OF effect_leaves, where B = "\<lambda>new. new = []"])+
       (use assms [OF Inr] in \<open>auto simp: execution_of_def\<close>)
qed

section \<open>One attempt\<close>

lemma plain_record_and_conclude: "plain (record_and_conclude c f accepted contract boundary x)"
proof -
  obtain status result merge where x: "x = (status, result, merge)" by (cases x)
  show ?thesis unfolding x record_and_conclude_def prod.case
    by (intro plain_steps plain_attempt attempt_role plain_recording_refused plain_observe plain_record_merge plain_stop
          plain_stop_after plain_checkpoint plain_escalate plain_decision plain_conclude)
qed

lemma merge_leaves: "leaves merge_only (merge_work_unit c f product_root result)"
proof -
  have made: "leaves merge_only (bindS (effectT (Merged sha)) k)" if "\<And>x. silent (k x)" for sha and k :: "unit \<Rightarrow> 'a ticks"
    by (rule leaves_bind [OF effect_leaves that]) (auto simp: merge_only_def)
  have none: "merge_only []" by (simp add: merge_only_def)
  show ?thesis unfolding merge_work_unit_def
    by (intro silent_bind leaves_primitive leaves_sum leaves_pair made silent_leaves [OF leaves_primitive(2)] none)
       (auto intro: leaves_primitive split: sum.split pyexc.split)
qed

lemma settled_commands:
  assumes "within_mandate beat" "list_all mandated rest"
  shows "settled f (Sent beat code # rest)"
  using assms by (simp add: settled_def)

lemma settled_merge:
  assumes "merge_only n" "list_all mandated k" "within_mandate beat" "is_heartbeat beat f"
  shows "settled f (Sent beat 0 # n @ k)"
  using assms by (auto simp: merge_only_def settled_def)

lemma settle_leaves: "leaves (settled f) (settle_attempt c f product_root accepted contract boundary status result)"
proof -
  let ?beat = "tick_envelope ''control-plane'' ''RecordWorkerHeartbeat'' [(''kind'', JStr ''worker_lease''), (''id'', f_lease_id f)]
       [(''run_id'', JStr (f_run_id f)), (''epoch'', f_epoch f)]"
  have beat: "within_mandate (?beat env)" "is_heartbeat (?beat env) f" for env
    by (rule mandate_envelope; simp add: TICK_ROLES_def mandate_simps)
       (simp add: is_heartbeat_def tick_envelope_def Let_def)
  have merged: "leaves (\<lambda>k. settled f (Sent (?beat env) 0 # k))
      (bindS (merge_work_unit c f product_root result) (record_and_conclude c f accepted contract boundary))" for env
    by (rule leaves_bind [OF merge_leaves plain_record_and_conclude])
       (use settled_merge [OF _ _ beat] settled_merge [OF _ _ beat, of _ "[]"] in auto)
  show ?thesis unfolding settle_attempt_def heartbeat_command_def control_command_def
  proof (rule leaves_if, rule command_bind, simp add: settled_def, unfold prod.case, rule leaves_if)
    fix env receipt and code :: int
    show "leaves (\<lambda>k. settled f (Sent (?beat env) code # k)) (refused ''fenced_before_integration'' (unit_of f) receipt)"
      by (rule silent_leaves [OF silent_refused settled_commands [OF beat(1)]]) simp
  qed (use merged in \<open>auto intro: plain_settled plain_record_and_conclude\<close>)
qed

lemma obtain_leaves: "leaves (execution_of f) (obtain_result c f member_missing execution_root base_sha constraints spi package)"
proof -
  obtain context_ref fault where [simp]: "package = (context_ref, fault)" by (cases package)
  obtain shell paths secrets where [simp]: "constraints = (shell, paths, secrets)" by (cases constraints)
  have none: "execution_of f []" by (simp add: execution_of_def)
  have request: "of_frame f (request n)"
    if "request_of s f execution_root base context_ref (shell, paths, secrets) spi = Inr request" "py_int (f_epoch f) = Inr n" for s base request n
    using that by (auto simp: request_of_def of_frame_def split: sum.splits)
  show ?thesis unfolding obtain_result_def
    by (auto intro!: silent_leaves [OF leaves_primitive(2)] silent_bind leaves_primitive execute_governed_leaves none
          dest!: yields_read intro: request split: option.split)
qed

lemma salvage_silent: "silent (salvage_timed_out c f execution_root base_sha allowed_paths result)"
  unfolding salvage_timed_out_def wip_commit_def keep_salvage_def Let_def
  by (intro silent_bind leaves_primitive leaves_sum leaves_if leaves_option refl)

lemma boundary_gate_silent: "silent (boundary_gate c f applies execution_root base_sha allowed_paths x)"
  unfolding boundary_gate_def
  by (cases x) (auto intro!: silent_bind leaves_primitive split: option.split)

lemma base_commit_silent: "silent (base_commit c execution_root)"
  unfolding base_commit_def by (intro silent_bind leaves_primitive leaves_sum leaves_if refl)

lemma execute_step_leaves: "leaves (run_by f) (execute_step c f isolated member_missing product_root execution_root)"
proof -
  have none: "run_by f []" by (simp add: run_by_def execution_of_def settled_def)
  have rest: "leaves (settled f) (bindS (liftS r) g)" if "\<And>x. leaves (settled f) (g x)" for r :: "'x res" and g :: "'x \<Rightarrow> 'y ticks"
    by (rule silent_bind [OF leaves_primitive(1) that]) (simp add: settled_def)
  have run: "leaves (run_by f) (bindS (obtain_result c f m e b constraints spi package) g)"
    if "\<And>x. leaves (settled f) (g x)" for m e b constraints spi package and g :: "execution_result \<Rightarrow> 'z ticks"
    by (rule leaves_bind [OF obtain_leaves that]) (simp_all add: run_by_execution run_by_execution [where k = "[]", simplified])
  have gated: "leaves (settled f) (bindS m g)" if "silent m" "\<And>x. leaves (settled f) (g x)"
    for m :: "'x ticks" and g :: "'x \<Rightarrow> 'y ticks"
    by (rule silent_bind [OF that]) simp
  have salvage: "silent (if b then salvage_timed_out c f execution_root e p result else doneS result)" for b e p result
    by (simp add: salvage_silent leaves_primitive)
  show ?thesis unfolding execute_step_def Let_def
    by (rule silent_bind, rule base_commit_silent, rule silent_bind, rule leaves_primitive, rule silent_bind, rule leaves_primitive,
        rule silent_bind, rule leaves_primitive, rule run)
       (intro leaves_pair rest salvage boundary_gate_silent settle_leaves gated none)+
qed

lemma run_attempt_leaves: "leaves (run_by f) (run_attempt c f)"
proof -
  have none: "run_by f []" using run_by_settled settled_Nil .
  have step: "leaves (run_by f) (bindS m g)" if "silent m" "\<And>x. leaves (run_by f) (g x)"
    for m :: "'x ticks" and g :: "'x \<Rightarrow> 'y ticks"
    by (rule silent_bind [OF that none])
  show ?thesis unfolding run_attempt_def
    by (rule step, rule leaves_primitive)+
       (intro leaves_if settled_run [OF plain_settled [OF plain_unisolated [OF attempt_role]]] step leaves_primitive silent_bind
          leaves_sum execute_step_leaves settled_run [OF plain_settled [OF plain_unisolated]] refl; simp add: TICK_ROLES_def)
qed

lemma start_leaves: "leaves executed (start_attempt c f lease_ref)"
proof -
  have none: "executed []" by (simp add: executed_def)
  let ?command = "\<lambda>f. tick_envelope (attempt_actor_role f) ''RecordExecutionAttempt''
     ([(''kind'', JStr ''execution_attempt''), (''id'', JStr (f_attempt_id f))] @ [])
     (attempt_fields f (JStr ''started'') @ [(''contract'', JObj [(''role_id'', JStr (f_role_id f)), (''procedure_id'', JStr (f_procedure_id f))])])"
  have command: "within_mandate (?command g env)" "starts (?command g env) g" for g env
    by (rule mandate_envelope; simp add: attempt_role TICK_COMMANDS_def)
       (simp add: starts_def tick_envelope_def attempt_fields_def Let_def)
  have accepted: "leaves (\<lambda>k. executed (Sent (?command g env) code # k)) (run_attempt c g)" if "code = 0" for g env code
    by (rule leaves_mono [OF run_attempt_leaves]) (use command that in \<open>force simp: executed_def\<close>)
  have rejected: "leaves (\<lambda>k. executed (Sent (?command g env) code # k)) (refused a w receipt)" for g env code a w receipt
    by (rule silent_leaves [OF silent_refused], rule mandated_executed) (simp only: list.pred_inject mandated.simps command)
  show ?thesis unfolding start_attempt_def attempt_command_def Let_def
    by (rule silent_bind, rule leaves_primitive, rule silent_bind, rule leaves_primitive, rule silent_bind, rule leaves_primitive,
        rule command_bind, rule none, unfold prod.case, rule leaves_if, rule rejected, rule accepted, erule notnotD)
       (rule none)+
qed

lemma dispatch_leaves: "leaves executed (dispatch c f lease_ref)"
  unfolding dispatch_def Let_def
  by (intro executed_bind_plain plain_primitive leaves_pair leaves_option start_leaves plain_executed [OF plain_demote])

lemma dispatch_first_leaves:
  "leaves executed (dispatch_first c run_id worker_id run_document env grant docs mismatched leases)"
proof (induction leases arbitrary: mismatched)
  case (Cons entry leases)
  obtain w ref where entry: "entry = (w, ref)" by (cases entry)
  show ?case unfolding entry dispatch_first.simps Let_def
    by (intro executed_bind_plain plain_primitive leaves_if leaves_option Cons.IH executed_bind dispatch_leaves)
qed (simp add: plain_executed plain_primitive)

lemma schedule_leaves: "leaves executed (schedule c run_id worker_id env run_document)"
proof -
  have last: "plain (bindS (liftS (area_filter_active grant)) (\<lambda>active. unlessS (finish_run c run_id current ids units (view active))
      (idle_outcome c run_id current env grant docs (view active) mismatched)))" for grant current ids units view docs mismatched
    by (intro plain_bind plain_primitive plain_unless plain_finish_run plain_idle)
  have first: "leaves executed (unlessS (reassign_stale_lease c run_id worker_id env leases)
      (bindS (start_ready_work_unit c run_id worker_id grant docs deps leases [] ids) (\<lambda>(mismatched, started).
         unlessS (doneS started) (bindS (dispatch_first c run_id worker_id current env grant docs mismatched leases)
           (\<lambda>(mismatched1, dispatched). unlessS (doneS dispatched) (k mismatched1))))))"
    if "\<And>m. plain (k m)" for leases grant docs deps ids current k
    by (intro executed_unless_plain plain_reassign executed_bind_plain plain_start_ready leaves_pair plain_primitive executed_bind
          dispatch_first_leaves plain_unless that)
  show ?thesis unfolding schedule_def Let_def
    by (rule executed_bind_plain, rule plain_primitive)+
       (rule executed_bind_plain, rule plain_orphans, rule executed_bind_plain, rule leaves_if, rule plain_primitive,
        rule plain_bind, rule plain_primitive, rule plain_primitive, rule executed_bind_plain, rule plain_primitive,
        rule leaves_if, rule plain_executed, rule plain_stop, rule first, rule last)
qed

text \<open>The effects of a whole tick.\<close>

lemma tick_leaves: "leaves executed (run_scheduling_tick c run_id worker_id)"
  unfolding run_scheduling_tick_def
  by (intro executed_bind_plain plain_primitive leaves_if leaves_option plain_executed plain_stop schedule_leaves)

section \<open>What a tick does\<close>

fun commands_of :: "effect list \<Rightarrow> json list" where
  "commands_of [] = []"
| "commands_of (e # es) = (case e of Sent command code \<Rightarrow> command # commands_of es | _ \<Rightarrow> commands_of es)"

fun executions_of :: "effect list \<Rightarrow> execution_request list" where
  "executions_of [] = []"
| "executions_of (e # es) = (case e of Executed x \<Rightarrow> x # executions_of es | _ \<Rightarrow> executions_of es)"

abbreviation payload_of :: "json \<Rightarrow> json" where
  "payload_of command \<equiv> (case command of JObj ob \<Rightarrow> oget ob ''payload'' | _ \<Rightarrow> JNull)"

text \<open>A command that starts an attempt, with the execution it starts, and its lease and epoch.\<close>

definition starts_attempt :: "json \<Rightarrow> bool" where
  "starts_attempt command = (case (command, payload_of command) of
     (JObj ob, JObj p) \<Rightarrow> oget ob ''type'' = JStr ''RecordExecutionAttempt'' \<and> oget p ''status'' = JStr ''started''
   | _ \<Rightarrow> False)"

definition starts_execution :: "json \<Rightarrow> execution_request \<Rightarrow> bool" where
  "starts_execution command x = (starts_attempt command \<and> (case payload_of command of
     JObj p \<Rightarrow> oget p ''run_id'' = JStr (x_run_id x) \<and> oget p ''work_unit_id'' = JStr (x_work_unit_id x)
       \<and> py_str (oget p ''worker_lease_id'') = x_lease_id x \<and> py_int (oget p ''epoch'') = Inr (x_epoch x)
       \<and> oget p ''step'' = JStr (x_step x) \<and> oget p ''execution_id'' = JStr (x_execution_id x)
   | _ \<Rightarrow> False))"

definition renews_lease_of :: "json \<Rightarrow> json \<Rightarrow> bool" where
  "renews_lease_of command start = (case (command, payload_of command, payload_of start) of
     (JObj ob, JObj beat, JObj p) \<Rightarrow> oget ob ''type'' = JStr ''RecordWorkerHeartbeat''
       \<and> (case oget ob ''target'' of JObj t \<Rightarrow> oget t ''id'' = oget p ''worker_lease_id'' | _ \<Rightarrow> False)
       \<and> oget beat ''run_id'' = oget p ''run_id'' \<and> oget beat ''epoch'' = oget p ''epoch''
   | _ \<Rightarrow> False)"

text \<open>
  Every execution comes right after the accepted command that starts it, every merge right after an
  accepted heartbeat of the lease of the attempt that was started last.
\<close>

fun guarded :: "json option \<Rightarrow> json option \<Rightarrow> effect list \<Rightarrow> bool" where
  "guarded start prev [] = True"
| "guarded start prev (e # es) = (case e of
     Sent command code \<Rightarrow> guarded (if code = 0 \<and> starts_attempt command then Some command else start)
       (if code = 0 then Some command else None) es
   | Executed x \<Rightarrow> (case prev of Some command \<Rightarrow> starts_execution command x | None \<Rightarrow> False) \<and> guarded start None es
   | Merged merge_sha \<Rightarrow> (case (start, prev) of (Some first, Some command) \<Rightarrow> renews_lease_of command first | _ \<Rightarrow> False)
       \<and> guarded start None es)"

lemma mandated_sent: "mandated e \<Longrightarrow> \<exists>command code. e = Sent command code \<and> within_mandate command"
  by (cases e) auto

lemma guarded_plain: "list_all mandated before \<Longrightarrow> (\<And>start prev. guarded start prev rest) \<Longrightarrow> guarded start prev (before @ rest)"
  by (induction before arbitrary: start prev) (auto dest: mandated_sent)

lemma guarded_mandated: "list_all mandated new \<Longrightarrow> guarded start prev new"
  using guarded_plain [where rest = "[]"] by fastforce

lemma starts_facts:
  assumes "starts command f"
  shows "starts_attempt command" "of_frame f x \<Longrightarrow> starts_execution command x"
    "is_heartbeat beat f \<Longrightarrow> renews_lease_of beat command" "is_heartbeat beat f \<Longrightarrow> \<not> starts_attempt beat"
  using assms by (auto simp: starts_def starts_attempt_def starts_execution_def of_frame_def is_heartbeat_def renews_lease_of_def
      split: json.splits)

lemma guarded_settled: "starts command f \<Longrightarrow> settled f rest \<Longrightarrow> guarded (Some command) prev rest"
  unfolding settled_def by (auto simp: guarded_mandated starts_facts)

lemma guarded_executed: "executed new \<Longrightarrow> guarded start prev new"
  unfolding executed_def run_by_def execution_of_def
  by (auto simp: guarded_mandated starts_facts guarded_settled intro!: guarded_plain)

lemma commands_append [simp]: "commands_of (a @ b) = commands_of a @ commands_of b"
  by (induction a) (auto split: effect.split)

lemma executions_append [simp]: "executions_of (a @ b) = executions_of a @ executions_of b"
  by (induction a) (auto split: effect.split)

lemma mandated_effects:
  assumes "list_all mandated new"
  shows "list_all within_mandate (commands_of new)" "executions_of new = []"
  using assms by (induction new) (auto dest: mandated_sent)

lemma settled_effects:
  assumes "settled f new"
  shows "list_all within_mandate (commands_of new)" "executions_of new = []"
  using assms unfolding settled_def by (auto simp: mandated_effects)

lemma executed_effects:
  assumes "executed new"
  shows "list_all within_mandate (commands_of new)" "length (executions_of new) \<le> 1"
  using assms unfolding executed_def run_by_def execution_of_def by (auto simp: mandated_effects settled_effects)

lemma tick_executed: "executed (snd (fst (run_scheduling_tick c run_id worker_id (r, []))))"
proof -
  obtain s' x where run: "run_scheduling_tick c run_id worker_id (r, []) = (s', x)" by fastforce
  from leavesD [OF tick_leaves run] show ?thesis using run by simp
qed

text \<open>
  C12. Whatever the documents, the gateway, Git and the agents answer, every command a scheduling tick
  sends stays within the mandate of the scheduler: it acts as one of its four roles, carries no
  human and no run authorization, is one of the fourteen commands a scheduler needs, never moves a
  Work Unit to \<open>done\<close> or back to \<open>ready\<close>, and closes a Run only as stopped or completed.
\<close>

theorem tick_stays_within_mandate:
  "list_all within_mandate (commands_of (snd (fst (run_scheduling_tick c run_id worker_id (r, [])))))"
  using executed_effects(1) [OF tick_executed] .

text \<open>
  C7. A tick has an agent execute at most one step, and only right after the gateway accepted the
  command that records the attempt as started, for the same Run, Work Unit, lease, epoch, step and execution; and the shared
  integration branch changes only right after the gateway accepted a heartbeat of that very lease at
  that epoch. A worker whose lease was taken over between the two executes and merges nothing.
\<close>

theorem tick_effects_are_guarded:
  "guarded None None (snd (fst (run_scheduling_tick c run_id worker_id (r, []))))
   \<and> length (executions_of (snd (fst (run_scheduling_tick c run_id worker_id (r, []))))) \<le> 1"
  using guarded_executed [OF tick_executed] executed_effects(2) [OF tick_executed] by blast

section \<open>A Run with a reason to stop\<close>

text \<open>The end of a Run: the command that closes it as stopped, and the submission of its feedback.\<close>

definition ends_run :: "string \<Rightarrow> string \<Rightarrow> effect \<Rightarrow> bool" where
  "ends_run run_id condition e = (case e of
     Sent (JObj ob) code \<Rightarrow> oget ob ''type'' = JStr ''SubmitFeedback'' \<or>
       (oget ob ''type'' = JStr ''CloseRun'' \<and> (case (oget ob ''target'', oget ob ''payload'') of
          (JObj t, JObj p) \<Rightarrow> oget t ''id'' = JStr run_id \<and> oget p ''status'' = JStr ''stopped''
             \<and> oget p ''stop_condition'' = JStr condition
        | _ \<Rightarrow> False))
   | _ \<Rightarrow> False)"

abbreviation ending :: "string \<Rightarrow> string \<Rightarrow> 'a ticks \<Rightarrow> bool" where
  "ending run_id condition \<equiv> leaves (list_all (ends_run run_id condition))"

lemma ending_bind: "ending i s m \<Longrightarrow> (\<And>x. yields m x \<Longrightarrow> ending i s (f x)) \<Longrightarrow> ending i s (bindS m f)"
  by (rule leaves_bind [where B = "list_all (ends_run i s)"]) auto

lemma ending_silent: "silent m \<Longrightarrow> ending i s m"
  by (rule silent_leaves) simp_all

lemma ending_command:
  assumes "\<And>env code. ends_run i s (Sent (command env) code)"
  shows "ending i s (commandT c command)"
  by (rule leavesI) (auto simp: commandT_def assms split: prod.splits sum.splits)

lemmas ending_steps = ending_bind leaves_if leaves_pair ending_silent [OF leaves_primitive(1)] ending_silent [OF leaves_primitive(2)]
  ending_silent [OF silent_finish] ending_command

lemma stop_ends: "ending run_id condition (stop_run c run_id run_document reason condition w extra)"
  unfolding stop_run_def close_run_command_def terminal_run_result_def best_effort_submit_feedback_def control_command_def
  by (intro ending_steps) (simp_all add: ends_run_def tick_envelope_def Let_def)

text \<open>A fault later in the order does not hide a revoked grant.\<close>

lemma thenR_later: "(\<And>v. b = Inr v \<Longrightarrow> v \<noteq> None) \<Longrightarrow> thenR a b = Inr v \<Longrightarrow> v \<noteq> None"
  by (cases a) (auto simp: thenR_def split: option.splits)

lemma revoked_grant_faults:
  assumes "jget grant ''revoked_at'' = Inr revoked_at" "truthy revoked_at" "grant_faults env s run_document grant = Inr v"
  shows "v \<noteq> None"
proof -
  have "thenR (kill_switch grant) k = Inr (Some ''kill_switch'')" for k
    using assms(1,2) by (simp add: kill_switch_def)
  then show ?thesis using assms(3) unfolding grant_faults_def
    by (auto dest!: thenR_later [rotated, where v = v])
qed

lemma revoked_grant_stops:
  assumes "jget run_document ''run_authorization_grant_id'' = Inr grant_id" "read_json s (grant_path grant_id) = Inr grant"
    "jget grant ''revoked_at'' = Inr revoked_at" "truthy revoked_at" "global_stop_condition env s run_document = Inr v"
  shows "v \<noteq> None"
  using assms(5) revoked_grant_faults [OF assms(3,4)] assms(1,2)
  by (auto simp: global_stop_condition_def split: sum.splits if_splits)

text \<open>
  C13. A tick of a Run whose grant was revoked executes and merges nothing: all it does is to close
  the Run as stopped, with one stop condition, and to submit the feedback of the closed Run. No other
  fault of the Run, the grant or a document hides the revocation.
\<close>

theorem revoked_grant_executes_nothing:
  assumes "read_yaml_or JNull (files (disk g)) (run_path (JStr run_id)) = Inr run_document"
    and "jget run_document ''run_authorization_grant_id'' = Inr grant_id"
    and "read_json (files (disk g)) (grant_path grant_id) = Inr grant"
    and "jget grant ''revoked_at'' = Inr revoked_at" and "truthy revoked_at"
  shows "\<exists>condition. list_all (ends_run run_id condition) (snd (fst (run_scheduling_tick c run_id worker_id ((g, n), []))))"
proof -
  have stops: "v \<noteq> None" if "global_stop_condition (clock (gateway_of c) n) (files (disk g)) run_document = Inr v" for v
    using revoked_grant_stops [OF assms(2-5) that] .
  have ended: "list_all (ends_run run_id condition) (snd (fst (stop_run c run_id run_document reason condition JNull [] ((g, m), []))))"
    for m reason condition
    using leavesD [OF stop_ends, of c run_id run_document reason condition JNull "[]" "(g, m)" "[]"]
    by (metis append_Nil prod.collapse)
  show ?thesis
  proof (cases "global_stop_condition (clock (gateway_of c) n) (files (disk g)) run_document")
    case (Inr v)
    then obtain condition where "v = Some condition" using stops by blast
    then show ?thesis using Inr ended [where m = "Suc n"] assms(1)
      by (auto simp: run_scheduling_tick_def bindS_def readT_def drawT_def liftS_def doneS_def finish_def split: sum.split)
  qed (use assms(1) in \<open>auto simp: run_scheduling_tick_def bindS_def readT_def drawT_def liftS_def doneS_def finish_def split: sum.split\<close>)
qed

definition demo_scheduler :: tconfig where
  "demo_scheduler = \<lparr>
     gateway_of = \<lparr>gateway_config = demo_config, clock = demo_env, describe = (\<lambda>_. ''error'')\<rparr>,
     git_of = \<lparr>git_worktree = (\<lambda>_ _ _ _. Inl ''no worktree''), git_head_sha = (\<lambda>_ _. Inr ''c0''), git_head = (\<lambda>_. Some ''c0''),
       git_changed = (\<lambda>_ _ _ _. Inr []), git_uncommitted = (\<lambda>_ _. Inr []), git_wip_commit = (\<lambda>_ _ _ _. Inr None),
       git_merge = (\<lambda>_ _ _ _ _. Inl ''conflict''), git_integration = (\<lambda>_ _. Inr ''c0'')\<rparr>,
     adapter_descriptor = JObj [], governed_execution = (\<lambda>_ _. Inl (ValueError ''no adapter'')), exception_name = (\<lambda>_. ''ValueError''),
     outside_workspace = (\<lambda>_ _. False), execution_contract = (\<lambda>_ _. Inr (JObj [])), required_inputs = (\<lambda>_. Inr []),
     context_schema_error = (\<lambda>_. None), product_file = (\<lambda>_. False), workspace_root = ''/work'', ai_team_root = ''/work/.ai-team'',
     member_root = (\<lambda>_. Inr ''/work'')\<rparr>"

definition revoked_run :: json where
  "revoked_run = JObj [(''id'', JStr ''R''), (''status'', JStr ''active''), (''revision'', JInt 3),
     (''run_authorization_grant_id'', JStr ''G''), (''work_unit_ids'', JList [])]"

definition revoked_state :: gstate where
  "revoked_state = demo_state\<lparr>disk := (disk demo_state)\<lparr>files :=
     [(''runs/R.yaml'', Doc revoked_run),
      (''run-authorization-grants/G.json'', Doc (JObj [(''id'', JStr ''G''), (''revoked_at'', JStr ''2026-01-01T00:00:00Z'')]))]\<rparr>\<rparr>"

theorem revoked_grant_executes_nothing_witness:
  "\<exists>condition. list_all (ends_run ''R'' condition) (snd (fst (run_scheduling_tick demo_scheduler ''R'' ''W'' ((revoked_state, 0), []))))"
proof (rule revoked_grant_executes_nothing)
  show "read_yaml_or JNull (files (disk revoked_state)) (run_path (JStr ''R'')) = Inr revoked_run"
    by (simp add: revoked_state_def read_yaml_or_def is_file_def read_yaml_def run_path_def)
  show "jget revoked_run ''run_authorization_grant_id'' = Inr (JStr ''G'')" by (simp add: revoked_run_def)
  show "read_json (files (disk revoked_state)) (grant_path (JStr ''G''))
      = Inr (JObj [(''id'', JStr ''G''), (''revoked_at'', JStr ''2026-01-01T00:00:00Z'')])"
    by (simp add: revoked_state_def read_json_def grant_path_def)
  show "jget (JObj [(''id'', JStr ''G''), (''revoked_at'', JStr ''2026-01-01T00:00:00Z'')]) ''revoked_at'' = Inr (JStr ''2026-01-01T00:00:00Z'')"
    by simp
  show "truthy (JStr ''2026-01-01T00:00:00Z'')" by simp
qed

section \<open>Work Units that wait for a decision\<close>

definition status_of :: "json \<Rightarrow> json" where
  "status_of document = (case document of JObj ob \<Rightarrow> oget ob ''status'' | _ \<Rightarrow> JNull)"

definition PARKED :: "string list" where
  "PARKED = [''waiting_decision'', ''blocked'', ''done'', ''cancelled'']"

lemma status_read:
  assumes "status_of document = JStr t"
  shows "jget (por document (JObj [])) ''status'' = Inr (JStr t)" "document \<noteq> JNull"
proof -
  obtain ob where ob: "document = JObj ob" "oget ob ''status'' = JStr t"
    using assms by (cases document) (auto simp: status_of_def)
  then have "ob \<noteq> []" by auto
  then show "jget (por document (JObj [])) ''status'' = Inr (JStr t)" "document \<noteq> JNull" using ob by (simp_all add: por_def)
qed

lemma parked_statuses:
  assumes "t \<in> set PARKED"
  shows "t \<notin> set (MACHINE_DISPATCHABLE_STATUSES @ map fst STATUS_TO_STEP)" "t \<notin> set HUMAN_WAIT_STATUSES"
  using assms by (auto simp: PARKED_def MACHINE_DISPATCHABLE_STATUSES_def STATUS_TO_STEP_def HUMAN_WAIT_STATUSES_def)

lemma statuses_read:
  "list_all2 (\<lambda>(i, d) t. status_of d = JStr t) docs ts \<Longrightarrow>
   mapR (\<lambda>d. jget (por d (JObj [])) ''status'') (filter (\<lambda>d. d \<noteq> JNull) (map snd docs)) = Inr (map JStr ts)"
  by (induction docs ts rule: list_all2_induct) (auto simp: status_read)

lemma parked_waits_not:
  assumes "status_of d = JStr t" "t \<in> set PARKED"
  shows "waits_for_human d = Inr False"
  using parked_statuses(2) [OF assms(2)] status_read [OF assms(1)] by (auto simp: waits_for_human_def status_in_def in_strs_def)

lemma parked_awaits_not:
  "list_all2 (\<lambda>(i, d) t. status_of d = JStr t) docs ts \<Longrightarrow> set ts \<subseteq> set PARKED \<Longrightarrow> run_awaits_human docs = Inr False"
  unfolding run_awaits_human_def
  by (induction docs ts rule: list_all2_induct) (auto simp: parked_waits_not)

text \<open>
  A Run whose remaining Work Units wait for a decision, next to blocked, cancelled and finished
  ones, is not reported as awaiting a person: the scheduler takes it for stuck and closes it as
  stopped, since \<open>waiting_decision\<close>, the status that a pause for a risk or a decision gives, is not
  among the statuses it counts as waiting.
\<close>

theorem decision_wait_counts_as_stuck:
  assumes "list_all2 (\<lambda>(i, d) t. status_of d = JStr t) docs statuses" and "set statuses \<subseteq> set PARKED"
    and "''waiting_decision'' \<in> set statuses"
  shows "run_awaits_human docs = Inr False \<and> should_stop_for_no_dispatchable_work docs = Inr True"
proof -
  have shown: "py_str (por (JStr t) (JStr [])) = t" for t by (simp add: por_def)
  have "\<not> list_ex (\<lambda>t. t \<in> set (MACHINE_DISPATCHABLE_STATUSES @ map fst STATUS_TO_STEP)) statuses"
      "\<not> list_ex (\<lambda>t. t \<in> set HUMAN_WAIT_STATUSES) statuses"
    using assms(2) parked_statuses unfolding list_ex_iff by blast+
  moreover have "\<not> list_all (\<lambda>t. t = ''done'') statuses"
    by (rule notI, drule list_all_iff [THEN iffD1], drule bspec [OF _ assms(3)], simp)
  moreover have "statuses \<noteq> []" using assms(3) by auto
  ultimately show ?thesis using parked_awaits_not [OF assms(1,2)] statuses_read [OF assms(1)]
    by (simp add: should_stop_for_no_dispatchable_work_def comp_def shown Let_def del: set_append)
qed

theorem decision_wait_counts_as_stuck_witness:
  "run_awaits_human [(''A'', JObj [(''status'', JStr ''waiting_decision'')]), (''B'', JObj [(''status'', JStr ''done'')])] = Inr False
   \<and> should_stop_for_no_dispatchable_work
       [(''A'', JObj [(''status'', JStr ''waiting_decision'')]), (''B'', JObj [(''status'', JStr ''done'')])] = Inr True"
  by (rule decision_wait_counts_as_stuck [where statuses = "[''waiting_decision'', ''done'']"])
     (simp_all add: status_of_def PARKED_def)

end
