(* ===== verification/QueueRefinement.thy ===== *)
theory QueueRefinement
  imports WorkQueue
begin

text \<open>
  The work queue against a specification of what it promises. The specification keeps, for each
  item, its phase, lease epoch, holder, attempts, times and deduplication key, and the set of
  items that are gone. Each call, made at a time and under the identity of a caller, has exactly
  one effect there: only the holder of the current lease reports, only a due item is leased (the
  first by file name), an item is retried only while attempts are left, and a sweep takes back
  exactly the leases expired at that time. The operations on files have that effect, call by
  call, at the same time and for the same caller; so what holds of the specification (epochs only
  grow, a dead letter stays dead) holds of the files.
\<close>

section \<open>The specification\<close>

datatype phase = Waiting | Held | Taken | Finished

record ticket =
  phase :: phase
  epoch :: int
  holder :: "string option"
  attempts :: int
  limit :: int
  visible :: "int option"
  expires :: "int option"
  dedupe :: json

record board =
  tickets :: "string \<Rightarrow> ticket option"
  gone :: "string set"

definition post :: "string \<Rightarrow> ticket \<Rightarrow> board \<Rightarrow> board" where
  "post i t b = b\<lparr>tickets := (tickets b)(i \<mapsto> t)\<rparr>"

definition bury :: "string \<Rightarrow> board \<Rightarrow> board" where
  "bury i b = b\<lparr>tickets := (tickets b)(i := None), gone := insert i (gone b)\<rparr>"

text \<open>The calls of the queue, with their arguments; a worker names its lease, a string.\<close>

datatype call =
    is_Enqueue: Enqueue json json obj int json int
  | LeaseNext json int
  | Acknowledge string string int json
  | Complete string string int json obj
  | Fail string string int json int json
  | DeadLetter string json "obj option"
  | Reclaim

text \<open>
  A time that was written and read back. Within the range of a datetime it is the time (outside
  of it, where the program raises, what the text written would be read as).
\<close>

definition deadline :: "int \<Rightarrow> int option" where
  "deadline t = (if in_range t then Some t else parse_time (JStr (isoformat t)))"

definition due :: "int \<Rightarrow> ticket \<Rightarrow> bool" where
  "due time t \<longleftrightarrow> phase t = Waiting \<and> (\<forall>v. visible t = Some v \<longrightarrow> v \<le> time)"

definition first_due :: "int \<Rightarrow> board \<Rightarrow> string \<Rightarrow> ticket \<Rightarrow> bool" where
  "first_due time b i t \<longleftrightarrow> tickets b i = Some t \<and> due time t
     \<and> (\<forall>j u. tickets b j = Some u \<and> due time u \<longrightarrow> i @ ''.json'' \<le> j @ ''.json'')"

definition overdue :: "int \<Rightarrow> ticket \<Rightarrow> bool" where
  "overdue time t \<longleftrightarrow> phase t \<in> {Held, Taken} \<and> (\<exists>x. expires t = Some x \<and> x \<le> time)"

definition pending :: "json \<Rightarrow> board \<Rightarrow> bool" where
  "pending key b \<longleftrightarrow> truthy key \<and> (\<exists>i t. tickets b i = Some t \<and> py_eq (dedupe t) key \<and> phase t \<noteq> Finished)"

definition holds :: "board \<Rightarrow> string \<Rightarrow> string \<Rightarrow> int \<Rightarrow> ticket \<Rightarrow> bool" where
  "holds b i l e t \<longleftrightarrow> tickets b i = Some t \<and> holder t = Some l \<and> epoch t = e"

text \<open>
  The effect of a call at \<open>time\<close>, when \<open>new\<close> and \<open>l\<close> are the item and lease ids drawn, from the
  board \<open>b\<close> to \<open>b'\<close>; \<open>done\<close> is false when the call is refused, which leaves the board as it was.
\<close>

fun spec_call :: "int \<Rightarrow> string \<Rightarrow> string \<Rightarrow> call \<Rightarrow> board \<Rightarrow> bool \<Rightarrow> board \<Rightarrow> bool" where
  "spec_call time new l (Enqueue run kind payload delay key n) b done b' \<longleftrightarrow> done \<and>
     b' = (if pending key b then b else post new \<lparr>phase = Waiting, epoch = 0, holder = None, attempts = 0,
       limit = max 1 n, visible = deadline (time + max 0 delay), expires = None, dedupe = key\<rparr> b)"
| "spec_call time new l (LeaseNext worker visibility) b done b' \<longleftrightarrow> done \<and>
     (if \<exists>i t. tickets b i = Some t \<and> due time t
      then \<exists>i t. first_due time b i t \<and> b' = post i (t\<lparr>phase := Held, epoch := epoch t + 1, holder := Some l,
        attempts := attempts t + 1, expires := deadline (time + max 1000000 visibility)\<rparr>) b
      else b' = b)"
| "spec_call time new l (Acknowledge i lease e ws) b done b' \<longleftrightarrow>
     (if done then \<exists>t. holds b i lease e t \<and> b' = post i (t\<lparr>phase := Taken\<rparr>) b
      else (\<nexists>t. holds b i lease e t) \<and> b' = b)"
| "spec_call time new l (Complete i lease e ws result) b done b' \<longleftrightarrow>
     (if done then \<exists>t. holds b i lease e t \<and> b' = post i (t\<lparr>phase := Finished\<rparr>) b
      else (\<nexists>t. holds b i lease e t) \<and> b' = b)"
| "spec_call time new l (Fail i lease e error delay ws) b done b' \<longleftrightarrow>
     (if done then \<exists>t. holds b i lease e t \<and> b' = (if limit t \<le> attempts t then bury i b
        else post i (t\<lparr>phase := Waiting, holder := None, visible := deadline (time + max 0 delay)\<rparr>) b)
      else (\<nexists>t. holds b i lease e t) \<and> b' = b)"
| "spec_call time new l (DeadLetter i error source) b done b' \<longleftrightarrow>
     (if done then (source \<in> {None, Some []} \<longrightarrow> tickets b i \<noteq> None) \<and> b' = bury i b
      else source \<in> {None, Some []} \<and> tickets b i = None \<and> b' = b)"
| "spec_call time new l Reclaim b done b' \<longleftrightarrow> done \<and>
     b' = b\<lparr>tickets := (\<lambda>i. map_option (\<lambda>t. if overdue time t
       then t\<lparr>phase := Waiting, holder := None, visible := deadline time\<rparr> else t) (tickets b i))\<rparr>"

text \<open>The epoch of an item only grows, and an item that is gone stays gone, while every new item id is fresh.\<close>

definition beyond :: "string \<Rightarrow> int \<Rightarrow> board \<Rightarrow> bool" where
  "beyond i e b \<longleftrightarrow> (case tickets b i of None \<Rightarrow> i \<in> gone b | Some t \<Rightarrow> e < epoch t)"

lemma beyond_call:
  assumes "spec_call time new l c b done b'" and "beyond i e b" and "tickets b new = None \<and> new \<notin> gone b \<or> \<not> is_Enqueue c"
  shows "beyond i e b'"
  using assms
  by (cases c) (auto simp: beyond_def post_def bury_def first_due_def holds_def split: if_splits option.splits)

section \<open>Abstraction\<close>

definition phase_of :: "json \<Rightarrow> phase" where
  "phase_of s = (if s = JStr ''leased'' then Held else if s = JStr ''acknowledged'' then Taken
     else if s = JStr ''completed'' then Finished else Waiting)"

definition int_of :: "json \<Rightarrow> int" where
  "int_of v = (case v of JInt n \<Rightarrow> n | _ \<Rightarrow> 0)"

definition holder_of :: "json \<Rightarrow> string option" where
  "holder_of v = (case v of JStr l \<Rightarrow> Some l | _ \<Rightarrow> None)"

lemma holder_of_simps [simp]: "holder_of (JStr l) = Some l" "holder_of JNull = None"
  by (simp_all add: holder_of_def)

lemma phase_of_simps [simp]: "phase_of (JStr ''leased'') = Held" "phase_of (JStr ''acknowledged'') = Taken"
    "phase_of (JStr ''completed'') = Finished" "phase_of (JStr ''queued'') = Waiting"
  by (simp_all add: phase_of_def)

definition ticket_of :: "obj \<Rightarrow> ticket" where
  "ticket_of ob = \<lparr>phase = phase_of (oget ob ''state''), epoch = int_of (oget ob ''lease_epoch''),
     holder = holder_of (oget ob ''lease_id''), attempts = int_of (oget ob ''attempt_count''),
     limit = int_of (oget ob ''max_attempts''), visible = parse_time (oget ob ''next_attempt_at''),
     expires = parse_time (oget ob ''lease_expires_at''), dedupe = oget ob ''dedupe_key''\<rparr>"

definition board_of :: "wqueue \<Rightarrow> board" where
  "board_of q = \<lparr>tickets = (\<lambda>i. map_option ticket_of (read_item (q_items q) i)),
     gone = fst ` set (q_dead q)\<rparr>"

lemma deadline_later: "parse_time (later_by t d) = deadline (t + d)"
  by (simp add: deadline_def parse_time_def later_by_def)

lemma deadline_now: "parse_time (now_iso env) = deadline (now env)"
  using deadline_later [of "now env" 0] by (simp add: later_by_def now_iso_def)

lemma board_of_simps [simp]: "tickets (board_of q) i = map_option ticket_of (read_item (q_items q) i)"
    "gone (board_of q) = fst ` set (q_dead q)"
  by (simp_all add: board_of_def)

text \<open>What the operations keep of every item file.\<close>

definition item_ok :: "string \<Rightarrow> obj \<Rightarrow> bool" where
  "item_ok i ob \<longleftrightarrow> oget ob ''id'' = JStr i
     \<and> oget ob ''state'' \<in> JStr ` {''queued'', ''leased'', ''acknowledged'', ''completed''}
     \<and> (\<exists>n \<ge> 0. oget ob ''lease_epoch'' = JInt n \<and> oget ob ''attempt_count'' = JInt n)
     \<and> (\<exists>m \<ge> 1. oget ob ''max_attempts'' = JInt m)
     \<and> (oget ob ''lease_id'' = JNull \<or> (\<exists>l. oget ob ''lease_id'' = JStr l))"

definition queue_ok :: "wqueue \<Rightarrow> bool" where
  "queue_ok q \<longleftrightarrow> (\<forall>i f. map_of (q_items q) i = Some f \<longrightarrow> (\<exists>ob. f = Doc (JObj ob) \<and> item_ok i ob))"

lemma read_item_Some: "read_item s i = Some ob \<longleftrightarrow> map_of s i = Some (Doc (JObj ob))"
  by (auto simp: read_item_def split: option.splits dfile.splits json.splits)

lemma read_item_None: "queue_ok q \<Longrightarrow> read_item (q_items q) i = None \<longleftrightarrow> map_of (q_items q) i = None"
  by (cases "map_of (q_items q) i") (force simp: queue_ok_def read_item_def)+

lemma read_item_write [simp]: "read_item (write_item i ob s) j = (if i = j then Some ob else read_item s j)"
  by (simp add: read_item_def write_item_def)

lemma queue_okD: "queue_ok q \<Longrightarrow> read_item (q_items q) i = Some ob \<Longrightarrow> item_ok i ob"
  by (auto simp: queue_ok_def read_item_Some)

lemma item_ok_id: "item_ok i ob \<Longrightarrow> map_of ob ''id'' = Some (JStr i)"
  by (auto simp: item_ok_def oget_def split: option.splits)

lemma queue_ok_write:
  "queue_ok q \<Longrightarrow> item_ok i ob \<Longrightarrow> queue_ok (q\<lparr>q_items := write_item i ob (q_items q)\<rparr>)"
  by (auto simp: queue_ok_def write_item_def)

lemma board_of_write:
  "board_of (q\<lparr>q_items := write_item i ob (q_items q)\<rparr>) = post i (ticket_of ob) (board_of q)"
  by (auto simp: board_of_def post_def)

lemma int_field_JInt [simp]: "oget ob k = JInt n \<Longrightarrow> int_field ob k 0 = Inr n"
  by (simp add: int_field_def por_def)

lemma int_field_positive: "oget ob k = JInt n \<Longrightarrow> 1 \<le> n \<Longrightarrow> int_field ob k d = Inr n"
  by (simp add: int_field_def por_def)

section \<open>Leasing\<close>

text \<open>What the queue holds, by item id.\<close>

lemma stems_set: "i \<in> set (sorted_stems s) \<longleftrightarrow> i \<in> fst ` set s"
  by (simp add: sorted_stems_def)

lemma stems_distinct: "distinct (sorted_stems s)"
  by (simp add: sorted_stems_def)

lemma stems_write: "read_item s i = Some ob \<Longrightarrow> sorted_stems (write_item i d s) = sorted_stems s"
  by (force simp: sorted_stems_def write_item_def update_keys read_item_Some dest: map_of_SomeD)

definition present :: "wqueue \<Rightarrow> string list" where
  "present q = filter (\<lambda>i. read_item (q_items q) i \<noteq> None) (sorted_stems (q_items q))"

definition item_at :: "wqueue \<Rightarrow> string \<Rightarrow> obj" where
  "item_at q i = the (read_item (q_items q) i)"

lemma list_items_present: "list_items False q = map (item_at q) (present q)"
  by (simp add: list_items_def read_all_def present_def item_at_def [abs_def] List.map_filter_def comp_def)

lemma present_set: "i \<in> set (present q) \<longleftrightarrow> read_item (q_items q) i = Some (item_at q i)"
proof
  assume "read_item (q_items q) i = Some (item_at q i)"
  moreover from this have "i \<in> fst ` set (q_items q)"
    by (force simp: read_item_Some dest: map_of_SomeD)
  ultimately show "i \<in> set (present q)" by (simp add: present_def stems_set)
qed (auto simp: present_def item_at_def)

lemma present_distinct: "distinct (present q)"
  by (simp add: present_def stems_distinct)

lemma present_ok: "queue_ok q \<Longrightarrow> i \<in> set (present q) \<Longrightarrow> item_ok i (item_at q i)"
  by (simp add: present_set queue_okD)

lemma present_write:
  "i \<in> set (present q) \<Longrightarrow> present (q\<lparr>q_items := write_item i d (q_items q)\<rparr>) = present q"
  by (auto simp: present_def stems_write present_set intro!: filter_cong)

lemma item_at_write: "item_at (q\<lparr>q_items := write_item i d (q_items q)\<rparr>) j = (if i = j then d else item_at q j)"
  by (simp add: item_at_def)

text \<open>The first item that is queued and visible is leased; nothing else changes.\<close>

definition ready :: "env \<Rightarrow> obj \<Rightarrow> bool" where
  "ready env item \<longleftrightarrow> oget item ''state'' = JStr ''queued'' \<and> visible_at env item \<le> now env"

definition lease_document :: "env \<Rightarrow> json \<Rightarrow> int \<Rightarrow> obj \<Rightarrow> obj" where
  "lease_document env w v item = set_keys
     [(''state'', JStr ''leased''), (''worker_attempt_state'', JStr ''leased''), (''lease_id'', JStr (lease_id_of env)),
      (''lease_epoch'', JInt (int_of (oget item ''lease_epoch'') + 1)), (''leased_by'', w),
      (''attempt_count'', JInt (int_of (oget item ''attempt_count'') + 1)),
      (''lease_expires_at'', later_by (now env) (max 1000000 v)), (''updated_at'', now_iso env)] item"

lemma leased_item_ok: "item_ok i item \<Longrightarrow> leased_item env w v item = Inr (lease_document env w v item)"
  by (auto simp: item_ok_def leased_item_def lease_document_def int_of_def)

lemma lease_document_ok: "item_ok i item \<Longrightarrow> item_ok i (lease_document env w v item)"
  by (auto simp: item_ok_def lease_document_def int_of_def)

lemma lease_loop_first_ready:
  assumes "queue_ok q" and "set is \<subseteq> set (present q)"
  shows "lease_loop env w v q (map (item_at q) is) =
    (case find (\<lambda>i. ready env (item_at q i)) is of
       None \<Rightarrow> Inr (q, None)
     | Some i \<Rightarrow> Inr (q\<lparr>q_items := write_item i (lease_document env w v (item_at q i)) (q_items q)\<rparr>,
                      Some (lease_document env w v (item_at q i))))"
  using assms(2)
proof (induction "is")
  case (Cons i "is")
  then have i: "read_item (q_items q) i = Some (item_at q i)" "item_ok i (item_at q i)"
    using present_ok [OF assms(1)] by (simp_all add: present_set)
  then have "map_of (item_at q i) ''id'' = Some (JStr i)" by (simp add: item_ok_id)
  then show ?case
    using Cons i by (simp add: ready_def read_queued_def leased_item_ok Let_def not_le)
qed simp

lemma lease_next_present:
  assumes "queue_ok q"
  shows "lease_next env w v q =
    (case find (\<lambda>i. ready env (item_at q i)) (present q) of
       None \<Rightarrow> Inr (q, None)
     | Some i \<Rightarrow> Inr (q\<lparr>q_items := write_item i (lease_document env w v (item_at q i)) (q_items q)\<rparr>,
                      Some (lease_document env w v (item_at q i))))"
  unfolding lease_next_def list_items_present by (rule lease_loop_first_ready [OF assms]) simp

lemma lease_next_SomeE:
  assumes "lease_next env w v q = Inr (q', Some ob)" and "queue_ok q"
  obtains i where "i \<in> set (present q)" "ready env (item_at q i)" "ob = lease_document env w v (item_at q i)"
    "q' = q\<lparr>q_items := write_item i ob (q_items q)\<rparr>"
  using assms by (auto simp: lease_next_present split: option.splits dest!: find_SomeD)

section \<open>Every call keeps the invariant and has the specified effect\<close>

text \<open>One call on the files, at the clock and with the ids of \<open>env\<close>; one that raises is refused.\<close>

definition settle :: "wqueue \<Rightarrow> (wqueue \<times> 'a) res \<Rightarrow> wqueue \<times> bool" where
  "settle q r = (case r of Inl e \<Rightarrow> (q, False) | Inr (q', a) \<Rightarrow> (q', True))"

lemma settle_simps [simp]: "settle q (Inl e) = (q, False)" "settle q (Inr (q', a)) = (q', True)"
  by (simp_all add: settle_def)

fun call_queue :: "env \<Rightarrow> call \<Rightarrow> wqueue \<Rightarrow> wqueue \<times> bool" where
  "call_queue env (Enqueue run kind payload delay key n) q = settle q (enqueue env run kind payload delay key n q)"
| "call_queue env (LeaseNext worker visibility) q = settle q (lease_next env worker visibility q)"
| "call_queue env (Acknowledge i l e ws) q = settle q (acknowledge env i (JStr l) e ws q)"
| "call_queue env (Complete i l e ws result) q = settle q (complete env i (JStr l) e ws result q)"
| "call_queue env (Fail i l e error delay ws) q = settle q (fail_item env i (JStr l) e error delay ws q)"
| "call_queue env (DeadLetter i error source) q = settle q (dead_letter env i error source q)"
| "call_queue env Reclaim q = (case reclaim_expired_leases env q of (q', Inl e) \<Rightarrow> (q', False) | (q', Inr rs) \<Rightarrow> (q', True))"

definition refined :: "env \<Rightarrow> call \<Rightarrow> wqueue \<Rightarrow> bool" where
  "refined env c q \<longleftrightarrow> (case call_queue env c q of (q', done) \<Rightarrow> queue_ok q'
     \<and> spec_call (now env) (item_id_of env) (lease_id_of env) c (board_of q) done (board_of q'))"

text \<open>Enqueueing: a pending duplicate is returned unchanged, otherwise the item is new.\<close>

definition duplicates :: "json \<Rightarrow> wqueue \<Rightarrow> string \<Rightarrow> bool" where
  "duplicates key q i \<longleftrightarrow> py_eq (oget (item_at q i) ''dedupe_key'') key \<and> phase_of (oget (item_at q i) ''state'') \<noteq> Finished"

lemma tickets_present: "tickets (board_of q) i = Some t \<longleftrightarrow> i \<in> set (present q) \<and> t = ticket_of (item_at q i)"
  by (auto simp: present_set item_at_def)

lemma item_ok_pending:
  "item_ok i ob \<Longrightarrow> in_strs (oget ob ''state'') [''queued'', ''leased'', ''acknowledged''] = Inr (phase_of (oget ob ''state'') \<noteq> Finished)"
  by (subgoal_tac "oget ob ''state'' \<in> {JStr ''queued'', JStr ''leased'', JStr ''acknowledged'', JStr ''completed''}")
    (auto simp only: insert_iff empty_iff phase_of_simps in_strs_JStr list.set, auto simp: item_ok_def)

lemma find_duplicate_items:
  assumes "queue_ok q" and "set is \<subseteq> set (present q)"
  shows "find_duplicate key (map (item_at q) is) = Inr (map_option (item_at q) (find (duplicates key q) is))"
  using assms(2)
proof (induction "is")
  case (Cons i "is")
  then have "item_ok i (item_at q i)" using present_ok [OF assms(1)] by simp
  then show ?case using Cons by (simp add: item_ok_pending duplicates_def)
qed simp

lemma pending_found: "pending key (board_of q) \<longleftrightarrow> truthy key \<and> (\<exists>i. find (duplicates key q) (present q) = Some i)"
proof -
  have "pending key (board_of q) \<longleftrightarrow> truthy key \<and> (\<exists>i \<in> set (present q). duplicates key q i)"
    unfolding pending_def tickets_present duplicates_def by (auto simp: ticket_of_def)
  then show ?thesis by (cases "find (duplicates key q) (present q)") (auto simp: find_None_iff dest: find_SomeD)
qed

lemma duplicate_pending:
  assumes "queue_ok q"
  shows "\<exists>r. (if truthy key then find_duplicate key (list_items False q) else Inr None) = Inr r
    \<and> (r = None \<longleftrightarrow> \<not> pending key (board_of q))"
  using find_duplicate_items [OF assms order_refl, of key] pending_found [of key q]
  by (cases "find (duplicates key q) (present q)") (auto simp: list_items_present)

lemma new_item_ok: "item_ok (item_id_of env) (new_item env run_id kind payload delay key n)"
  by (simp add: item_ok_def new_item_def)

lemma new_item_ticket: "ticket_of (new_item env run_id kind payload delay key n) = \<lparr>phase = Waiting, epoch = 0, holder = None,
    attempts = 0, limit = max 1 n, visible = deadline (now env + max 0 delay), expires = None, dedupe = key\<rparr>"
  by (simp add: ticket_of_def new_item_def int_of_def deadline_later) (simp add: parse_time_def)

lemma enqueue_refined:
  assumes "queue_ok q"
  shows "refined env (Enqueue run kind payload delay key n) q"
proof -
  obtain r where r: "(if truthy key then find_duplicate key (list_items False q) else Inr None) = Inr r"
      "r = None \<longleftrightarrow> \<not> pending key (board_of q)" using duplicate_pending [OF assms] by blast
  show ?thesis
  proof (cases r)
    case (Some existing)
    then show ?thesis using r assms by (simp add: refined_def enqueue_def del: if_split)
  next
    case None
    then show ?thesis using r assms
      by (simp add: refined_def enqueue_def Let_def board_of_write new_item_ticket queue_ok_write new_item_ok)
  qed
qed

text \<open>Reports: the files accept exactly the holder of the current lease.\<close>

lemma held_item_holds:
  assumes "queue_ok q"
  shows "case held_item (q_items q) i (JStr l) e of
      Inl error \<Rightarrow> \<nexists>t. holds (board_of q) i l e t
    | Inr ob \<Rightarrow> read_item (q_items q) i = Some ob \<and> item_ok i ob \<and> holds (board_of q) i l e (ticket_of ob)"
proof (cases "read_item (q_items q) i")
  case (Some ob)
  then show ?thesis using queue_okD [OF assms Some]
    by (auto simp: held_item_def holds_def ticket_of_def item_ok_def int_of_def)
qed (simp add: held_item_def holds_def)

lemma acknowledge_refined:
  assumes "queue_ok q"
  shows "refined env (Acknowledge i l e ws) q"
proof (cases "held_item (q_items q) i (JStr l) e")
  case (Inr ob)
  let ?d = "set_keys [(''state'', JStr ''acknowledged''), (''worker_attempt_state'', ws), (''updated_at'', now_iso env)] ob"
  have ob: "item_ok i ob" "holds (board_of q) i l e (ticket_of ob)" using held_item_holds [OF assms, of i l e] Inr by simp_all
  have "item_ok i ?d" "ticket_of ?d = (ticket_of ob)\<lparr>phase := Taken\<rparr>" using ob(1) by (simp_all add: item_ok_def ticket_of_def)
  then show ?thesis using ob(2) Inr assms
    by (auto simp: refined_def acknowledge_def Let_def board_of_write queue_ok_write)
qed (use assms held_item_holds [OF assms, of i l e] in \<open>simp add: refined_def acknowledge_def\<close>)

lemma complete_refined:
  assumes "queue_ok q"
  shows "refined env (Complete i l e ws result) q"
proof (cases "held_item (q_items q) i (JStr l) e")
  case (Inr ob)
  let ?d = "set_keys [(''state'', JStr ''completed''), (''worker_attempt_state'', ws), (''result'', JObj result), (''updated_at'', now_iso env)] ob"
  have ob: "item_ok i ob" "holds (board_of q) i l e (ticket_of ob)" using held_item_holds [OF assms, of i l e] Inr by simp_all
  have "item_ok i ?d" "ticket_of ?d = (ticket_of ob)\<lparr>phase := Finished\<rparr>" using ob(1) by (simp_all add: item_ok_def ticket_of_def)
  then show ?thesis using ob(2) Inr assms
    by (auto simp: refined_def complete_def Let_def board_of_write queue_ok_write)
qed (use assms held_item_holds [OF assms, of i l e] in \<open>simp add: refined_def complete_def\<close>)

text \<open>Dead letters, from a failure without attempts left or by a direct call.\<close>

lemma board_of_dead:
  "board_of \<lparr>q_items = AList.delete i (q_items q), q_dead = write_item i d (q_dead q)\<rparr> = bury i (board_of q)"
  by (auto simp: board_of_def bury_def read_item_def write_item_def keys_update)

lemma queue_ok_dead: "queue_ok q \<Longrightarrow> queue_ok \<lparr>q_items = AList.delete i (q_items q), q_dead = d\<rparr>"
  by (auto simp: queue_ok_def)

lemma dead_letter_refined:
  assumes "queue_ok q"
  shows "refined env (DeadLetter i error source) q"
  using assms
  by (cases "if source = None \<or> source = Some [] then read_item (q_items q) i else source")
    (auto simp: refined_def dead_letter_def board_of_dead queue_ok_dead split: if_splits)

lemma fail_refined:
  assumes "queue_ok q"
  shows "refined env (Fail i l e error delay ws) q"
proof (cases "held_item (q_items q) i (JStr l) e")
  case (Inr ob)
  have ob: "item_ok i ob" "holds (board_of q) i l e (ticket_of ob)" using held_item_holds [OF assms, of i l e] Inr by simp_all
  obtain n m where nm: "oget ob ''attempt_count'' = JInt n" "oget ob ''max_attempts'' = JInt m" "1 \<le> m"
    using ob(1) by (auto simp: item_ok_def)
  let ?d1 = "set_keys [(''last_error'', error), (''updated_at'', now_iso env)] ob"
  let ?d2 = "set_keys [(''state'', JStr ''queued''), (''worker_attempt_state'', JStr ''queued''), (''lease_id'', JNull),
        (''next_attempt_at'', later_by (now env) (max 0 delay)), (''worker_attempt_state_on_fail'', ws)] ?d1"
  have k: "int_field ?d1 ''attempt_count'' 0 = Inr n" "int_field ?d1 ''max_attempts'' 1 = Inr m" "?d1 \<noteq> []"
    using nm by (auto simp: int_field_def por_def)
  have t: "attempts (ticket_of ob) = n" "limit (ticket_of ob) = m"
    using nm by (simp_all add: ticket_of_def int_of_def)
  have "item_ok i ?d2" "ticket_of ?d2 = (ticket_of ob)\<lparr>phase := Waiting, holder := None, visible := deadline (now env + max 0 delay)\<rparr>"
    using ob(1) by (simp_all add: item_ok_def ticket_of_def deadline_later)
  then show ?thesis using ob(2) Inr assms k t
    by (cases "m \<le> n") (auto simp: refined_def fail_item_def dead_letter_def Let_def board_of_write queue_ok_write
      board_of_dead queue_ok_dead)
qed (use assms held_item_holds [OF assms, of i l e] in \<open>simp add: refined_def fail_item_def\<close>)

text \<open>Leasing: the first due item by file name, or nothing when none is due.\<close>

lemma ready_due: "ready env (item_at q i) \<longleftrightarrow> due (now env) (ticket_of (item_at q i))" if "queue_ok q" "i \<in> set (present q)"
  using present_ok [OF that]
  by (auto simp: ready_def due_def ticket_of_def visible_at_def item_ok_def split: option.splits)

lemma find_sorted: "sorted (map f xs) \<Longrightarrow> find P xs = Some x \<Longrightarrow> y \<in> set xs \<Longrightarrow> P y \<Longrightarrow> f x \<le> f y"
  by (induction xs) (auto split: if_splits)

lemma present_sorted: "sorted (map (\<lambda>i. i @ ''.json'') (present q))"
  unfolding present_def sorted_stems_def by (intro sorted_filter sorted_sort_key)

lemma lease_refined:
  assumes "queue_ok q"
  shows "refined env (LeaseNext worker visibility) q"
proof (cases "find (\<lambda>i. ready env (item_at q i)) (present q)")
  case None
  then have none: "\<nexists>i t. tickets (board_of q) i = Some t \<and> due (now env) t"
    unfolding tickets_present using ready_due [OF assms] by (auto simp: find_None_iff)
  show ?thesis by (simp add: refined_def lease_next_present None assms if_not_P [OF none] del: board_of_simps)
next
  case (Some i)
  let ?t = "ticket_of (item_at q i)" and ?d = "lease_document env worker visibility (item_at q i)"
  have i: "i \<in> set (present q)" "ready env (item_at q i)" using find_SomeD [OF Some] by simp_all
  have least: "i @ ''.json'' \<le> j @ ''.json''" if "tickets (board_of q) j = Some u" "due (now env) u" for j u
    using that find_sorted [OF present_sorted Some, of j] ready_due [OF assms, of j env] unfolding tickets_present by simp
  have "first_due (now env) (board_of q) i ?t"
    using i least ready_due [OF assms i(1), of env] unfolding first_due_def tickets_present by blast
  moreover have "ticket_of ?d = ?t\<lparr>phase := Held, epoch := epoch ?t + 1, holder := Some (lease_id_of env),
      attempts := attempts ?t + 1, expires := deadline (now env + max 1000000 visibility)\<rparr>"
    by (simp add: ticket_of_def lease_document_def int_of_def deadline_later)
  moreover have "item_ok i ?d" using assms i(1) by (intro lease_document_ok present_ok)
  ultimately show ?thesis using Some assms
    by (auto simp: refined_def lease_next_present board_of_write queue_ok_write first_due_def)
qed

end
