(* ===== verification/QueueSafety.thy ===== *)
theory QueueSafety
  imports QueueRefinement
begin

text \<open>
  What the work queue guarantees over any sequence of its operations: it refines the
  specification of \<open>QueueRefinement\<close>, call by call, so a superseded lease stays fenced; and no item is lost:
  an item whose worker died is reclaimed, and polling the queue leases every ready item in
  order.
\<close>

section \<open>Reclaiming\<close>

definition reclaimable :: "env \<Rightarrow> obj \<Rightarrow> bool" where
  "reclaimable env item \<longleftrightarrow> oget item ''state'' \<in> {JStr ''leased'', JStr ''acknowledged''} \<and> has_expired env item"

lemma reclaimed_ok: "item_ok i item \<Longrightarrow> item_ok i (reclaimed_item env item)"
  by (auto simp: item_ok_def reclaimed_item_def)

text \<open>Every expired lease is reclaimed, in the order of the queue; the other items are unchanged.\<close>

definition reclaim_at :: "env \<Rightarrow> string list \<Rightarrow> wqueue \<Rightarrow> wqueue" where
  "reclaim_at env is q = fold (\<lambda>i q. if reclaimable env (item_at q i)
     then q\<lparr>q_items := write_item i (reclaimed_item env (item_at q i)) (q_items q)\<rparr> else q) is q"

lemma reclaim_at_simps [simp]:
  "reclaim_at env [] q = q"
  "reclaim_at env (i # is) q = reclaim_at env is (if reclaimable env (item_at q i)
     then q\<lparr>q_items := write_item i (reclaimed_item env (item_at q i)) (q_items q)\<rparr> else q)"
  by (simp_all add: reclaim_at_def)

lemma reclaim_loop_step:
  assumes "item_ok i item" and "read_item (q_items q) i = Some item"
  shows "reclaim_loop env q acc (item # rest) =
      (if reclaimable env item
       then reclaim_loop env (q\<lparr>q_items := write_item i (reclaimed_item env item) (q_items q)\<rparr>)
         (acc @ [reclaimed_item env item]) rest
       else reclaim_loop env q acc rest)"
proof -
  have "in_strs (oget item ''state'') [''leased'', ''acknowledged''] =
      Inr (oget item ''state'' \<in> {JStr ''leased'', JStr ''acknowledged''})"
    using assms(1) by (auto simp: item_ok_def)
  then show ?thesis using assms(2) item_ok_id [OF assms(1)] by (simp add: reclaimable_def)
qed

lemma reclaim_at_keeps:
  "queue_ok q \<Longrightarrow> set is \<subseteq> set (present q) \<Longrightarrow>
   queue_ok (reclaim_at env is q) \<and> present (reclaim_at env is q) = present q \<and> q_dead (reclaim_at env is q) = q_dead q"
proof (induction "is" arbitrary: q)
  case (Cons i "is")
  let ?q = "q\<lparr>q_items := write_item i (reclaimed_item env (item_at q i)) (q_items q)\<rparr>"
  have "queue_ok ?q" "present ?q = present q"
    using Cons.prems by (auto simp: present_write intro!: queue_ok_write reclaimed_ok present_ok)
  then show ?case using Cons.IH [of ?q] Cons.IH [of q] Cons.prems by auto
qed simp

lemma reclaim_at_item:
  "distinct is \<Longrightarrow> item_at (reclaim_at env is q) j =
     (if j \<in> set is \<and> reclaimable env (item_at q j) then reclaimed_item env (item_at q j) else item_at q j)"
  by (induction "is" arbitrary: q) (auto simp: item_at_write)

lemma reclaim_loop_eq:
  assumes "queue_ok q0" and "present q = present q0" and "set is \<subseteq> set (present q0)" and "distinct is"
    and "\<forall>i \<in> set is. item_at q i = item_at q0 i"
  shows "reclaim_loop env q acc (map (item_at q0) is) =
    (reclaim_at env is q, Inr (acc @ map (reclaimed_item env) (filter (reclaimable env) (map (item_at q0) is))))"
  using assms(2-5)
proof (induction "is" arbitrary: q acc)
  case (Cons i "is")
  let ?q = "q\<lparr>q_items := write_item i (reclaimed_item env (item_at q i)) (q_items q)\<rparr>"
  have i: "i \<in> set (present q)" "item_at q i = item_at q0 i" "item_ok i (item_at q0 i)"
    using Cons.prems present_ok [OF assms(1)] by auto
  have step: "reclaim_loop env q acc (item_at q0 i # rest) =
      (if reclaimable env (item_at q0 i) then reclaim_loop env ?q (acc @ [reclaimed_item env (item_at q0 i)]) rest
       else reclaim_loop env q acc rest)" for rest
    using reclaim_loop_step [OF i(3)] i(1,2) by (simp add: present_set)
  have next_q: "reclaim_loop env ?q acc' (map (item_at q0) is) = (reclaim_at env is ?q,
      Inr (acc' @ map (reclaimed_item env) (filter (reclaimable env) (map (item_at q0) is))))" for acc'
    using Cons.prems i(1) by (intro Cons.IH) (auto simp: present_write item_at_write)
  have same_q: "reclaim_loop env q acc (map (item_at q0) is) = (reclaim_at env is q,
      Inr (acc @ map (reclaimed_item env) (filter (reclaimable env) (map (item_at q0) is))))"
    using Cons.prems by (intro Cons.IH) auto
  show ?case
    using i(2) by (simp add: step next_q [unfolded i(2)] same_q del: reclaim_loop.simps(2))
qed simp

lemma reclaim_expired_leases_present:
  "queue_ok q \<Longrightarrow> reclaim_expired_leases env q =
     (reclaim_at env (present q) q, Inr (map (reclaimed_item env) (filter (reclaimable env) (list_items False q))))"
  unfolding reclaim_expired_leases_def list_items_present
  using reclaim_loop_eq [of q q "present q" env "[]"] by (simp add: present_distinct)

lemma reclaimable_overdue: "reclaimable env (item_at q i) \<longleftrightarrow> overdue (now env) (ticket_of (item_at q i))"
  by (auto simp: reclaimable_def overdue_def ticket_of_def phase_of_def has_expired_def split: option.splits)

lemma reclaim_refined:
  assumes "queue_ok q"
  shows "refined env Reclaim q"
proof -
  let ?q = "reclaim_at env (present q) q"
  have keeps: "queue_ok ?q" "present ?q = present q" "q_dead ?q = q_dead q"
    using reclaim_at_keeps [OF assms order_refl] by simp_all
  have t: "ticket_of (reclaimed_item env item) = (ticket_of item)\<lparr>phase := Waiting, holder := None, visible := deadline (now env)\<rparr>" for item
    by (simp add: ticket_of_def reclaimed_item_def deadline_now)
  have "tickets (board_of ?q) i = map_option (\<lambda>t. if overdue (now env) t
      then t\<lparr>phase := Waiting, holder := None, visible := deadline (now env)\<rparr> else t) (tickets (board_of q) i)" for i
  proof (cases "i \<in> set (present q)")
    case True
    then have "read_item (q_items ?q) i = Some (item_at ?q i)" "read_item (q_items q) i = Some (item_at q i)"
      using keeps(2) by (simp_all flip: present_set)
    then show ?thesis using True by (simp add: reclaim_at_item present_distinct reclaimable_overdue t)
  next
    case False
    then have "tickets (board_of ?q) i = None" "tickets (board_of q) i = None"
      using keeps(2) by (auto simp only: tickets_present simp flip: not_Some_eq)
    then show ?thesis by simp
  qed
  then have "tickets (board_of ?q) = (\<lambda>i. map_option (\<lambda>t. if overdue (now env) t
      then t\<lparr>phase := Waiting, holder := None, visible := deadline (now env)\<rparr> else t) (tickets (board_of q) i))"
    by (rule ext)
  moreover have "gone (board_of ?q) = gone (board_of q)" using keeps(3) by simp
  ultimately have "board_of ?q = (board_of q)\<lparr>tickets := (\<lambda>i. map_option (\<lambda>t. if overdue (now env) t
      then t\<lparr>phase := Waiting, holder := None, visible := deadline (now env)\<rparr> else t) (tickets (board_of q) i))\<rparr>"
    by (intro board.equality) (simp_all del: board_of_simps)
  then show ?thesis
    using keeps(1) by (simp add: refined_def reclaim_expired_leases_present [OF assms] del: board_of_simps)
qed

section \<open>Sequences of operations\<close>

lemma call_refined:
  assumes "queue_ok q"
  shows "refined env c q"
  by (cases c) (simp_all add: enqueue_refined lease_refined acknowledge_refined complete_refined fail_refined
    dead_letter_refined reclaim_refined assms)

text \<open>A sequence of calls, each at its own clock and with its own ids; the outcomes say which were accepted.\<close>

fun run_calls :: "(env \<times> call) list \<Rightarrow> wqueue \<Rightarrow> wqueue \<times> bool list" where
  "run_calls [] q = (q, [])"
| "run_calls ((env, c) # calls) q =
     (case call_queue env c q of (q1, done) \<Rightarrow> (case run_calls calls q1 of (q2, rest) \<Rightarrow> (q2, done # rest)))"

text \<open>The same calls, at the same times and with the same ids, on the board.\<close>

fun spec_run :: "(env \<times> call) list \<Rightarrow> board \<Rightarrow> bool list \<Rightarrow> board \<Rightarrow> bool" where
  "spec_run [] b outcomes b' \<longleftrightarrow> outcomes = [] \<and> b' = b"
| "spec_run ((env, c) # calls) b outcomes b' \<longleftrightarrow> (\<exists>done rest b1. outcomes = done # rest
     \<and> spec_call (now env) (item_id_of env) (lease_id_of env) c b done b1 \<and> spec_run calls b1 rest b')"

text \<open>
  One accepted call of the queue at the clock of \<open>env\<close>. A worker reports with the lease it was given, a
  string; a submission draws an item id that no item and no dead letter has.
\<close>

inductive queue_step :: "wqueue \<Rightarrow> wqueue \<Rightarrow> bool" where
  submitted: "enqueue env run_id kind payload delay key n q = Inr (q', ob) \<Longrightarrow>
    map_of (q_items q) (item_id_of env) = None \<Longrightarrow> item_id_of env \<notin> fst ` set (q_dead q) \<Longrightarrow> queue_step q q'"
| leased: "lease_next env w v q = Inr (q', r) \<Longrightarrow> queue_step q q'"
| acknowledged: "acknowledge env i (JStr l) e ws q = Inr (q', ob) \<Longrightarrow> queue_step q q'"
| completed: "complete env i (JStr l) e ws res q = Inr (q', ob) \<Longrightarrow> queue_step q q'"
| failed: "fail_item env i (JStr l) e error delay ws q = Inr (q', ob) \<Longrightarrow> queue_step q q'"
| buried: "dead_letter env i error source q = Inr (q', ob) \<Longrightarrow> queue_step q q'"
| reclaimed: "reclaim_expired_leases env q = (q', r) \<Longrightarrow> queue_step q q'"

text \<open>Every such call is one of the specification, and a submission is of a fresh item.\<close>

lemma queue_step_calls:
  assumes "queue_step q q'"
  obtains env c where "fst (call_queue env c q) = q'"
    "map_of (q_items q) (item_id_of env) = None \<and> item_id_of env \<notin> fst ` set (q_dead q) \<or> \<not> is_Enqueue c"
  using assms
proof cases
  case (submitted env run_id kind payload delay key n ob)
  then show ?thesis using that [of env "Enqueue run_id kind payload delay key n"] by simp
next
  case (leased env w v r)
  then show ?thesis using that [of env "LeaseNext w v"] by simp
next
  case (acknowledged env i l e ws ob)
  then show ?thesis using that [of env "Acknowledge i l e ws"] by simp
next
  case (completed env i l e ws res ob)
  then show ?thesis using that [of env "Complete i l e ws res"] by simp
next
  case (failed env i l e error delay ws ob)
  then show ?thesis using that [of env "Fail i l e error delay ws"] by simp
next
  case (buried env i error source ob)
  then show ?thesis using that [of env "DeadLetter i error source"] by simp
next
  case (reclaimed env r)
  then show ?thesis using that [of env Reclaim] by (cases r) simp_all
qed

lemma queue_step_beyond:
  assumes "queue_step q q'" and "queue_ok q" and "beyond i e (board_of q)"
  shows "queue_ok q' \<and> beyond i e (board_of q')"
proof -
  obtain env c where c: "fst (call_queue env c q) = q'"
      "map_of (q_items q) (item_id_of env) = None \<and> item_id_of env \<notin> fst ` set (q_dead q) \<or> \<not> is_Enqueue c"
    using queue_step_calls [OF assms(1)] by blast
  have r: "queue_ok q'" "spec_call (now env) (item_id_of env) (lease_id_of env) c (board_of q) (snd (call_queue env c q)) (board_of q')"
    using call_refined [OF assms(2), of env c] c(1) by (auto simp: refined_def split: prod.splits)
  moreover have "tickets (board_of q) (item_id_of env) = None \<and> item_id_of env \<notin> gone (board_of q) \<or> \<not> is_Enqueue c"
    using c(2) by (auto simp: read_item_def)
  ultimately show ?thesis using beyond_call assms(3) by blast
qed

lemma queue_steps_beyond:
  "queue_step\<^sup>*\<^sup>* q q' \<Longrightarrow> queue_ok q \<Longrightarrow> beyond i e (board_of q) \<Longrightarrow> queue_ok q' \<and> beyond i e (board_of q')"
  by (induction rule: rtranclp_induct) (auto dest: queue_step_beyond)

section \<open>Properties\<close>

text \<open>
  C17. Every sequence of calls of the queue, accepted or refused, has on the files exactly the
  effect the specification gives the same calls at the same times for the same callers: only the
  holder of the current lease reports, the first due item is leased, a failed item is retried
  only while attempts are left and becomes a dead letter otherwise, a sweep takes back exactly
  the expired leases, a refused call changes nothing; and every item file stays well formed.
\<close>

theorem queue_refines_spec:
  assumes "queue_ok q" and "run_calls calls q = (q', outcomes)"
  shows "spec_run calls (board_of q) outcomes (board_of q') \<and> queue_ok q'"
  using assms
proof (induction calls arbitrary: q outcomes)
  case (Cons x calls)
  obtain env c q1 ok rest where run: "x = (env, c)" "call_queue env c q = (q1, ok)" "run_calls calls q1 = (q', rest)"
      "outcomes = ok # rest" using Cons.prems(2) by (cases x) (auto split: prod.splits)
  then show ?case
    using Cons.IH [of q1 rest] call_refined [OF Cons.prems(1), of env c] by (auto simp: refined_def)
qed simp

lemma beyond_refuses:
  assumes "beyond i e (board_of q)" and "queue_ok q"
  shows "held_item (q_items q) i l e \<in> {Inl (KeyError i), Inl PermissionError}"
proof (cases "read_item (q_items q) i")
  case (Some ob)
  then obtain n where "oget ob ''lease_epoch'' = JInt n" "e < n"
    using assms queue_okD [OF assms(2) Some]
    by (auto simp: beyond_def board_of_def ticket_of_def item_ok_def int_of_def)
  then show ?thesis using Some by (auto simp: held_item_def)
qed (simp add: held_item_def)

text \<open>
  C18. Once an item was leased at some epoch, every report under an earlier epoch is refused, and
  changes nothing, in every later state of the queue: a worker that lost its lease stays fenced
  even after further retries, reclaims and leases.
\<close>

theorem superseded_lease_stays_fenced:
  assumes "lease_next env w v q = Inr (q1, Some ob)" and "queue_ok q"
    and "oget ob ''id'' = JStr i" and "oget ob ''lease_epoch'' = JInt n" and "e < n"
    and "queue_step\<^sup>*\<^sup>* q1 q2"
  shows "acknowledge env' i l e ws q2 \<in> {Inl (KeyError i), Inl PermissionError} \<and>
    complete env' i l e ws res q2 \<in> {Inl (KeyError i), Inl PermissionError} \<and>
    fail_item env' i l e error delay ws q2 \<in> {Inl (KeyError i), Inl PermissionError}"
proof -
  obtain j where j: "j \<in> set (present q)" "ob = lease_document env w v (item_at q j)"
      "q1 = q\<lparr>q_items := write_item j ob (q_items q)\<rparr>"
    using lease_next_SomeE [OF assms(1,2)] by metis
  then have ob: "item_ok j ob" by (simp add: lease_document_ok present_ok assms(2))
  then have "j = i" using assms(3) by (simp add: item_ok_def)
  then have q1: "queue_ok q1" "beyond i e (board_of q1)"
    using j(3) ob assms(2,4,5)
    by (simp_all add: queue_ok_write beyond_def board_of_write post_def ticket_of_def int_of_def)
  then have "queue_ok q2" "beyond i e (board_of q2)"
    using queue_steps_beyond [OF assms(6)] by blast+
  then have "held_item (q_items q2) i l e \<in> {Inl (KeyError i), Inl PermissionError}" by (rule beyond_refuses [rotated])
  then show ?thesis by (auto simp: acknowledge_def complete_def fail_item_def)
qed

text \<open>
  Polling: one call after the other, until a call finds nothing.
\<close>

fun lease_all :: "env list \<Rightarrow> json \<Rightarrow> int \<Rightarrow> wqueue \<Rightarrow> (wqueue \<times> obj list) res" where
  "lease_all [] w v q = Inr (q, [])"
| "lease_all (env # envs) w v q = bindR (lease_next env w v q) (\<lambda>(q1, r).
     (case r of
        None \<Rightarrow> Inr (q1, [])
      | Some ob \<Rightarrow> bindR (lease_all envs w v q1) (\<lambda>(q2, obs). Inr (q2, ob # obs))))"

lemma ready_now: "now env = now env' \<Longrightarrow> ready env = ready env'"
  by (simp add: ready_def [abs_def] visible_at_def cong: option.case_cong)

lemma filter_find: "find P xs = None \<longleftrightarrow> filter P xs = []"
  by (auto simp: find_None_iff filter_empty_conv)

lemma find_filter: "find P xs = Some x \<Longrightarrow> \<exists>ys. filter P xs = x # ys \<and> (distinct xs \<longrightarrow> filter (\<lambda>y. y \<noteq> x \<and> P y) xs = ys)"
proof (induction xs)
  case (Cons y xs)
  then show ?case by (cases "P y") (auto intro!: filter_cong)
qed simp

lemma lease_all_ready:
  assumes "queue_ok q" and "\<forall>env \<in> set envs. now env = now env0"
    and "length (filter (\<lambda>i. ready env0 (item_at q i)) (present q)) \<le> length envs"
  shows "\<exists>q' obs. lease_all envs w v q = Inr (q', obs)
    \<and> map (\<lambda>ob. oget ob ''id'') obs = map JStr (filter (\<lambda>i. ready env0 (item_at q i)) (present q))"
  using assms
proof (induction envs arbitrary: q)
  case (Cons env envs)
  let ?P = "\<lambda>i. ready env0 (item_at q i)"
  have r: "ready env = ready env0" using Cons.prems(2) by (intro ready_now) simp
  show ?case
  proof (cases "find ?P (present q)")
    case None
    then show ?thesis using Cons.prems(1) r filter_find [of ?P "present q"] by (simp add: lease_next_present)
  next
    case (Some i)
    let ?d = "lease_document env w v (item_at q i)"
    let ?q = "q\<lparr>q_items := write_item i ?d (q_items q)\<rparr>"
    have i: "i \<in> set (present q)" using find_SomeD [OF Some] by simp
    have ok: "item_ok i ?d" using Cons.prems(1) i by (intro lease_document_ok present_ok)
    have "\<not> ready env0 ?d" by (simp add: ready_def lease_document_def)
    then have P: "(\<lambda>j. ready env0 (item_at ?q j)) = (\<lambda>j. j \<noteq> i \<and> ?P j)"
      by (auto simp: item_at_write)
    have f: "filter ?P (present q) = i # filter (\<lambda>j. ready env0 (item_at ?q j)) (present ?q)"
      unfolding P present_write [OF i] using find_filter [OF Some] present_distinct [of q] by auto
    have "queue_ok ?q" using Cons.prems(1) ok by (rule queue_ok_write)
    moreover have "\<forall>env \<in> set envs. now env = now env0" "length (filter (\<lambda>j. ready env0 (item_at ?q j)) (present ?q)) \<le> length envs"
      using Cons.prems(2,3) unfolding f by simp_all
    ultimately obtain q' obs where rest: "lease_all envs w v ?q = Inr (q', obs)"
        "map (\<lambda>ob. oget ob ''id'') obs = map JStr (filter (\<lambda>j. ready env0 (item_at ?q j)) (present ?q))"
      using Cons.IH by blast
    have "lease_next env w v q = Inr (?q, Some ?d)"
      by (simp add: lease_next_present [OF Cons.prems(1)] r Some)
    then have "lease_all (env # envs) w v q = Inr (q', ?d # obs)" by (simp add: rest(1))
    moreover have "oget ?d ''id'' = JStr i" using ok by (simp add: item_ok_def)
    ultimately show ?thesis unfolding f list.map rest(2) [symmetric] by (intro exI conjI) (assumption, simp only: list.map)
  qed
qed auto

text \<open>
  Polling the queue leases every ready item, in the order of the item ids: as many calls as
  there are ready items suffice, and none of them fails.
\<close>

theorem polling_leases_every_ready_item:
  assumes "queue_ok q" and "\<forall>env \<in> set envs. now env = now env0"
    and "length (filter (ready env0) (list_items False q)) \<le> length envs"
  shows "\<exists>q' obs. lease_all envs w v q = Inr (q', obs)
    \<and> map (\<lambda>ob. oget ob ''id'') obs = map (\<lambda>ob. oget ob ''id'') (filter (ready env0) (list_items False q))"
proof -
  have ids: "map (\<lambda>ob. oget ob ''id'') (filter (ready env0) (list_items False q)) =
      map JStr (filter (\<lambda>i. ready env0 (item_at q i)) (present q))"
    using present_ok [OF assms(1)] by (auto simp: list_items_present filter_map comp_def item_ok_def)
  show ?thesis unfolding ids
    by (rule lease_all_ready [OF assms(1,2)]) (use assms(3) in \<open>simp add: list_items_present filter_map comp_def\<close>)
qed

text \<open>
  C35. No item of a dead worker is lost: once its lease expired, one reclaim makes it ready
  again and polling then leases it.
\<close>

theorem expired_item_is_leased_again:
  assumes "queue_ok q" and "item \<in> set (list_items False q)" and "reclaimable env item"
    and "in_range (now env)" and "\<forall>env' \<in> set envs. now env' = now env"
    and "length (list_items False q) \<le> length envs"
  shows "\<exists>q1 rs q2 obs. reclaim_expired_leases env q = (q1, Inr rs) \<and> lease_all envs w v q1 = Inr (q2, obs)
    \<and> oget item ''id'' \<in> (\<lambda>ob. oget ob ''id'') ` set obs"
proof -
  obtain i where i: "i \<in> set (present q)" "item = item_at q i"
    using assms(2) by (auto simp: list_items_present)
  let ?q = "reclaim_at env (present q) q"
  have q: "reclaim_expired_leases env q = (?q, Inr (map (reclaimed_item env) (filter (reclaimable env) (list_items False q))))"
      "queue_ok ?q" "present ?q = present q"
    using reclaim_expired_leases_present [OF assms(1)] reclaim_at_keeps [OF assms(1) order_refl] by auto
  have r: "item_at ?q i = reclaimed_item env item"
    using i assms(3) by (simp add: reclaim_at_item present_distinct)
  then have id: "oget (item_at ?q i) ''id'' = oget item ''id''" by (simp add: reclaimed_item_def)
  have "ready env (item_at ?q i)"
    unfolding r using assms(4)
    by (simp add: ready_def visible_at_def reclaimed_item_def parse_time_def now_iso_def)
  then have ready: "i \<in> set (filter (\<lambda>i. ready env (item_at ?q i)) (present ?q))"
    using i(1) q(3) by simp
  have "length (filter (\<lambda>i. ready env (item_at ?q i)) (present ?q)) \<le> length envs"
    using assms(6) q(3) by (simp add: list_items_present order_trans [OF length_filter_le])
  then obtain q2 obs where "lease_all envs w v ?q = Inr (q2, obs)"
      "map (\<lambda>ob. oget ob ''id'') obs = map JStr (filter (\<lambda>i. ready env (item_at ?q i)) (present ?q))"
    using lease_all_ready [OF q(2) assms(5)] by blast
  moreover from this have "JStr i \<in> (\<lambda>ob. oget ob ''id'') ` set obs"
    using ready by (metis image_eqI image_set)
  moreover have "oget item ''id'' = JStr i"
    using present_ok [OF assms(1) i(1)] i(2) by (simp add: item_ok_def)
  ultimately show ?thesis using q(1) by auto
qed

text \<open>
  The times of an item are read back as they were written, to the microsecond.
\<close>

theorem written_time_is_read_back:
  "in_range (t + d) \<Longrightarrow> parse_time (later_by t d) = Some (t + d)"
  by (simp add: parse_time_def later_by_def)

section \<open>Witnesses\<close>

definition poll_env :: "int \<Rightarrow> env" where
  "poll_env t = \<lparr>now = t, sha = (\<lambda>s. s), schema_error = (\<lambda>_ _. None), uuid = ''0123456789abcdef''\<rparr>"

definition poll_item :: "string \<Rightarrow> string \<Rightarrow> int \<Rightarrow> obj" where
  "poll_item i st n = [(''id'', JStr i), (''state'', JStr st), (''attempt_count'', JInt n), (''max_attempts'', JInt 3),
     (''next_attempt_at'', JNull), (''lease_id'', JNull), (''lease_epoch'', JInt n), (''lease_expires_at'', JStr (isoformat 0))]"

definition poll_queue :: wqueue where
  "poll_queue = \<lparr>q_items = [(''Q-2'', Doc (JObj (poll_item ''Q-2'' ''queued'' 1))),
     (''Q-1'', Doc (JObj (poll_item ''Q-1'' ''leased'' 1)))], q_dead = []\<rparr>"

lemma poll_queue_ok: "queue_ok poll_queue"
  by (auto simp: queue_ok_def poll_queue_def poll_item_def item_ok_def oget_def)

lemma poll_list: "list_items False poll_queue = [poll_item ''Q-1'' ''leased'' 1, poll_item ''Q-2'' ''queued'' 1]"
proof -
  have "sorted_stems (q_items poll_queue) = [''Q-1'', ''Q-2'']"
    by (simp add: sorted_stems_def poll_queue_def less_eq_char_def)
  then show ?thesis by (simp add: list_items_def read_all_def List.map_filter_def poll_queue_def read_item_def)
qed

lemma poll_present: "present poll_queue = [''Q-1'', ''Q-2'']"
proof -
  have "sorted_stems (q_items poll_queue) = [''Q-1'', ''Q-2'']"
    by (simp add: sorted_stems_def poll_queue_def less_eq_char_def)
  then show ?thesis by (simp add: present_def poll_queue_def read_item_def)
qed

lemma poll_item_at:
  "item_at poll_queue ''Q-1'' = poll_item ''Q-1'' ''leased'' 1" "item_at poll_queue ''Q-2'' = poll_item ''Q-2'' ''queued'' 1"
  by (simp_all add: item_at_def poll_queue_def read_item_def)

lemma poll_ready: "ready (poll_env t) (poll_item i st n) \<longleftrightarrow> st = ''queued''"
  by (simp add: ready_def poll_item_def oget_def visible_at_def parse_time_def)

lemma poll_lease:
  "lease_next (poll_env t) w v poll_queue =
     Inr (poll_queue\<lparr>q_items := write_item ''Q-2'' (lease_document (poll_env t) w v (poll_item ''Q-2'' ''queued'' 1)) (q_items poll_queue)\<rparr>,
          Some (lease_document (poll_env t) w v (poll_item ''Q-2'' ''queued'' 1)))"
  by (simp add: lease_next_present poll_queue_ok poll_present poll_item_at poll_ready)

theorem queue_refines_spec_witness:
  "\<exists>q'. run_calls [(poll_env 5, LeaseNext (JStr ''W'') 60), (poll_env 7, Acknowledge ''Q-2'' ''QL-0'' 2 JNull)] poll_queue = (q', [True, False])
     \<and> spec_run [(poll_env 5, LeaseNext (JStr ''W'') 60), (poll_env 7, Acknowledge ''Q-2'' ''QL-0'' 2 JNull)]
         (board_of poll_queue) [True, False] (board_of q')"
proof -
  let ?d = "lease_document (poll_env 5) (JStr ''W'') 60 (poll_item ''Q-2'' ''queued'' 1)"
  let ?q = "poll_queue\<lparr>q_items := write_item ''Q-2'' ?d (q_items poll_queue)\<rparr>"
  have "oget ?d ''lease_id'' = JStr ''QL-0123456789ab''"
    by (simp add: lease_document_def lease_id_of_def poll_env_def)
  then have "held_item (q_items ?q) ''Q-2'' (JStr ''QL-0'') 2 = Inl PermissionError" by (simp add: held_item_def)
  then have "run_calls [(poll_env 5, LeaseNext (JStr ''W'') 60), (poll_env 7, Acknowledge ''Q-2'' ''QL-0'' 2 JNull)] poll_queue = (?q, [True, False])"
    by (simp add: poll_lease acknowledge_def)
  with queue_refines_spec [OF poll_queue_ok this] show ?thesis by blast
qed

theorem superseded_lease_stays_fenced_witness:
  "\<exists>q1 ob. lease_next (poll_env 5) (JStr ''W'') 60 poll_queue = Inr (q1, Some ob) \<and>
     fail_item (poll_env 7) ''Q-2'' (JStr ''L'') 1 JNull 0 JNull q1 \<in> {Inl (KeyError ''Q-2''), Inl PermissionError}"
proof -
  let ?d = "lease_document (poll_env 5) (JStr ''W'') 60 (poll_item ''Q-2'' ''queued'' 1)"
  have "oget ?d ''id'' = JStr ''Q-2''" "oget ?d ''lease_epoch'' = JInt 2"
    by (simp_all add: lease_document_def poll_item_def oget_def int_of_def)
  from superseded_lease_stays_fenced [OF poll_lease poll_queue_ok this, of 1, OF _ rtranclp.rtrancl_refl]
  show ?thesis using poll_lease [of 5 "JStr ''W''" 60] by auto
qed

theorem polling_leases_every_ready_item_witness:
  "\<exists>q' ob. lease_all [poll_env 5] (JStr ''W'') 60 poll_queue = Inr (q', [ob]) \<and> oget ob ''id'' = JStr ''Q-2''"
proof -
  have ready: "filter (ready (poll_env 5)) (list_items False poll_queue) = [poll_item ''Q-2'' ''queued'' 1]"
    by (simp add: poll_list poll_ready)
  have "\<exists>q' obs. lease_all [poll_env 5] (JStr ''W'') 60 poll_queue = Inr (q', obs)
      \<and> map (\<lambda>ob. oget ob ''id'') obs = map (\<lambda>ob. oget ob ''id'') [poll_item ''Q-2'' ''queued'' 1]"
    unfolding ready [symmetric]
    by (rule polling_leases_every_ready_item [OF poll_queue_ok, of _ "poll_env 5"]) (simp_all add: ready)
  then show ?thesis by (auto simp: poll_item_def oget_def)
qed

theorem expired_item_is_leased_again_witness:
  "\<exists>q1 rs q2 obs. reclaim_expired_leases (poll_env 5) poll_queue = (q1, Inr rs) \<and>
     lease_all [poll_env 5, poll_env 5] (JStr ''W'') 60 q1 = Inr (q2, obs) \<and>
     JStr ''Q-1'' \<in> (\<lambda>ob. oget ob ''id'') ` set obs"
proof -
  let ?item = "poll_item ''Q-1'' ''leased'' 1"
  have "?item \<in> set (list_items False poll_queue)" "reclaimable (poll_env 5) ?item" "in_range (now (poll_env 5))"
    "\<forall>env' \<in> set [poll_env 5, poll_env 5]. now env' = now (poll_env 5)"
    "length (list_items False poll_queue) \<le> length [poll_env 5, poll_env 5]"
    by (simp_all add: poll_list reclaimable_def has_expired_def poll_item_def oget_def parse_time_def in_range_def
        max_ordinal_def poll_env_def)
  from expired_item_is_leased_again [OF poll_queue_ok this] show ?thesis
    by (simp add: poll_item_def oget_def)
qed

theorem written_time_is_read_back_witness: "parse_time (later_by 0 86400000000) = Some 86400000000"
  using written_time_is_read_back [of 0 86400000000] by (simp add: in_range_def max_ordinal_def)

end
