(* ===== verification/InstanceLock.thy ===== *)
theory InstanceLock
  imports Workspace
begin

text \<open>
  The single-instance lock of the supervisor (\<open>core/supervisor/instance_lock.py\<close>): acquiring it,
  its heartbeat and release, and several processes that start at the same time, whose file
  operations interleave. What the operating system says about a process is a parameter; times,
  also the start time of a process, are microseconds on one scale.
\<close>

section \<open>Operations\<close>

datatype lock_error = AlreadyActive string | CouldNotReclaim | LostRace | TokenMismatch | Raised pyexc

record probe =
  pid_is_alive :: "int \<Rightarrow> bool"
  process_start_time :: "int \<Rightarrow> int option"
  stale_after :: int

text \<open>What a starting process knows: its pid, the identifiers it draws, its clock, the workspace.\<close>

record starter =
  own_pid :: int
  instance_id :: string
  token :: string
  started :: int
  workspace_id :: string

definition read_lock :: "dfile option \<Rightarrow> obj option" where
  "read_lock f = (case f of Some (Doc (JObj ob)) \<Rightarrow> Some ob | _ \<Rightarrow> None)"

definition read_time :: "json \<Rightarrow> int option" where
  "read_time v = map_option dt_micros (parse_instant (py_str v))"

definition is_orphan :: "probe \<Rightarrow> int \<Rightarrow> obj \<Rightarrow> (bool \<times> string) res" where
  "is_orphan p t document = bindR (py_int (por (oget document ''pid'') (JInt 0))) (\<lambda>pid.
     (if \<not> pid_is_alive p pid then Inr (True, ''pid_not_alive'') else
      (case read_time (por (oget document ''heartbeat_at'') (oget document ''started_at'')) of
         None \<Rightarrow> Inr (True, ''invalid_heartbeat'')
       | Some heartbeat \<Rightarrow>
           (let age = t - heartbeat; start_time = process_start_time p pid;
                live = Inr (False, if age > stale_after p \<and> start_time = None
                                   then ''live_pid_stale_heartbeat'' else ''live'') in
            (case start_time of
               None \<Rightarrow> live
             | Some began \<Rightarrow>
                 if truthy (oget document ''started_at'') then
                   (case read_time (oget document ''started_at'') of
                      None \<Rightarrow> Inr (True, ''invalid_started_at'')
                    | Some lock_started \<Rightarrow>
                        if began > lock_started + 1000000 then Inr (True, ''pid_reused'') else live)
                 else live)))))"

definition lock_document :: "starter \<Rightarrow> string option \<Rightarrow> obj" where
  "lock_document s reclaimed_reason =
     [(''schema_version'', JInt 1), (''instance_id'', JStr (instance_id s)), (''token'', JStr (token s)),
      (''pid'', JInt (own_pid s)), (''started_at'', JStr (isoformat (started s))),
      (''heartbeat_at'', JStr (isoformat (started s))), (''workspace_id'', JStr (workspace_id s)),
      (''reclaimed_reason'', (case reclaimed_reason of None \<Rightarrow> JNull | Some r \<Rightarrow> JStr r))]"

text \<open>
  The three accesses of \<open>acquire_instance_lock\<close> to the lock file: judging the lock that exists,
  removing it, and creating it exclusively. The new file is empty until its text is written.
\<close>

definition judge :: "probe \<Rightarrow> starter \<Rightarrow> dfile option \<Rightarrow> lock_error + string option" where
  "judge p s f =
     (case read_lock f of
        None \<Rightarrow> Inr None
      | Some existing \<Rightarrow>
          (case is_orphan p (started s) existing of
             Inl e \<Rightarrow> Inl (Raised e)
           | Inr (orphan, reason) \<Rightarrow> if \<not> orphan then Inl (AlreadyActive reason) else Inr (Some reason)))"

definition remove_lock :: "dfile option \<Rightarrow> lock_error + dfile option" where
  "remove_lock f = (if f = None then Inl CouldNotReclaim else Inr None)"

definition create_lock :: "dfile option \<Rightarrow> lock_error + dfile option" where
  "create_lock f = (if f \<noteq> None then Inl LostRace else Inr (Some Garbled))"

definition acquire_instance_lock :: "probe \<Rightarrow> starter \<Rightarrow> dfile option \<Rightarrow> dfile option \<times> (lock_error + unit)" where
  "acquire_instance_lock p s f =
     (case judge p s f of
        Inl e \<Rightarrow> (f, Inl e)
      | Inr reclaimed_reason \<Rightarrow>
          (case (if reclaimed_reason = None then Inr f else remove_lock f) of
             Inl e \<Rightarrow> (f, Inl e)
           | Inr f1 \<Rightarrow>
               (case create_lock f1 of
                  Inl e \<Rightarrow> (f1, Inl e)
                | Inr f2 \<Rightarrow> (Some (Doc (JObj (lock_document s reclaimed_reason))), Inr ()))))"

definition lock_heartbeat :: "env \<Rightarrow> starter \<Rightarrow> dfile option \<Rightarrow> lock_error + dfile" where
  "lock_heartbeat env s f =
     (case f of
        None \<Rightarrow> Inl (Raised (FileNotFoundError ''instance.lock.json''))
      | Some Garbled \<Rightarrow> Inl (Raised (ValueError ''JSONDecodeError''))
      | Some (Doc (JObj document)) \<Rightarrow>
          if oget document ''token'' \<noteq> JStr (token s) then Inl TokenMismatch
          else Inr (Doc (JObj (set_keys [(''heartbeat_at'', now_iso env), (''pid'', JInt (own_pid s))] document)))
      | Some (Doc _) \<Rightarrow> Inl (Raised AttributeError))"

definition release_lock :: "starter \<Rightarrow> dfile option \<Rightarrow> lock_error + dfile option" where
  "release_lock s f =
     (case f of
        None \<Rightarrow> Inr f
      | Some Garbled \<Rightarrow> Inr f
      | Some (Doc (JObj document)) \<Rightarrow> Inr (if oget document ''token'' \<noteq> JStr (token s) then f else None)
      | Some (Doc _) \<Rightarrow> Inl (Raised AttributeError))"

definition read_instance_status :: "probe \<Rightarrow> int \<Rightarrow> dfile option \<Rightarrow> json res" where
  "read_instance_status p t f =
     (case read_lock f of
        None \<Rightarrow> Inr (JObj [(''state'', JStr ''stopped''), (''lock_present'', JBool False)])
      | Some document \<Rightarrow> bindR (is_orphan p t document) (\<lambda>(orphan, reason).
          bindR (py_int (por (oget document ''pid'') (JInt 0))) (\<lambda>pid.
          Inr (JObj [(''state'', JStr (if orphan then ''orphan_lock'' else ''running'')), (''lock_present'', JBool True),
             (''orphan'', JBool orphan), (''orphan_reason'', if orphan then JStr reason else JNull),
             (''instance'', JObj document), (''pid_alive'', JBool (pid_is_alive p pid))]))))"

section \<open>Concurrent starts\<close>

text \<open>How far a starting process is; \<open>Holding\<close> means that \<open>acquire_instance_lock\<close> returned.\<close>

datatype progress = Starting | Removing string | Creating "string option" | Writing "string option" | Holding | Refused lock_error

fun start_step :: "probe \<Rightarrow> starter \<Rightarrow> progress \<Rightarrow> dfile option \<Rightarrow> progress \<times> dfile option" where
  "start_step p s Starting f =
     (case judge p s f of
        Inl e \<Rightarrow> (Refused e, f) | Inr None \<Rightarrow> (Creating None, f) | Inr (Some reason) \<Rightarrow> (Removing reason, f))"
| "start_step p s (Removing reason) f =
     (case remove_lock f of Inl e \<Rightarrow> (Refused e, f) | Inr f1 \<Rightarrow> (Creating (Some reason), f1))"
| "start_step p s (Creating r) f =
     (case create_lock f of Inl e \<Rightarrow> (Refused e, f) | Inr f1 \<Rightarrow> (Writing r, f1))"
| "start_step p s (Writing r) f = (Holding, Some (Doc (JObj (lock_document s r))))"
| "start_step p s Holding f = (Holding, f)"
| "start_step p s (Refused e) f = (Refused e, f)"

text \<open>Any number of processes, each by its starter; one of them takes a step.\<close>

type_synonym starts = "(nat \<Rightarrow> progress) \<times> dfile option"

inductive starts_step :: "probe \<Rightarrow> (nat \<Rightarrow> starter) \<Rightarrow> starts \<Rightarrow> starts \<Rightarrow> bool" for p who where
  "start_step p (who k) (pr k) f = (next_k, f') \<Longrightarrow> starts_step p who (pr, f) (pr(k := next_k), f')"

text \<open>The schedule as data: which process moves next.\<close>

fun run_schedule :: "probe \<Rightarrow> (nat \<Rightarrow> starter) \<Rightarrow> starts \<Rightarrow> nat list \<Rightarrow> starts" where
  "run_schedule p who st [] = st"
| "run_schedule p who (pr, f) (k # ks) =
     (case start_step p (who k) (pr k) f of (next_k, f') \<Rightarrow> run_schedule p who (pr(k := next_k), f') ks)"

lemma run_schedule_steps: "(starts_step p who)\<^sup>*\<^sup>* st (run_schedule p who st ks)"
proof (induction p who st ks rule: run_schedule.induct)
  case (2 p who pr f k ks)
  then show ?case
    by (auto split: prod.split intro: converse_rtranclp_into_rtranclp starts_step.intros)
qed simp

text \<open>Left alone, a process does what \<open>acquire_instance_lock\<close> does.\<close>

fun start_alone :: "nat \<Rightarrow> probe \<Rightarrow> starter \<Rightarrow> progress \<times> dfile option \<Rightarrow> progress \<times> dfile option" where
  "start_alone 0 p s st = st"
| "start_alone (Suc n) p s st = start_alone n p s (start_step p s (fst st) (snd st))"

text \<open>
  The interleaved steps of one process, run without interruption, are exactly the
  sequential \<open>acquire_instance_lock\<close>: the same final file, and it holds the lock exactly when the
  call returns it.
\<close>

theorem acquire_is_its_steps:
  "start_alone 4 p s (Starting, f) =
     (case acquire_instance_lock p s f of (f', Inl e) \<Rightarrow> (Refused e, f') | (f', Inr _) \<Rightarrow> (Holding, f'))"
  by (auto simp: acquire_instance_lock_def numeral_eq_Suc remove_lock_def create_lock_def
      split: sum.splits option.splits)

section \<open>Mutual exclusion\<close>

definition past_create :: "progress \<Rightarrow> bool" where
  "past_create a \<longleftrightarrow> a = Holding \<or> (\<exists>r. a = Writing r)"

definition judged_live :: "probe \<Rightarrow> (nat \<Rightarrow> starter) \<Rightarrow> bool" where
  "judged_live p who \<longleftrightarrow> (\<forall>k k' r. \<exists>e. judge p (who k) (Some (Doc (JObj (lock_document (who k') r)))) = Inl e)"

definition exclusive :: "(nat \<Rightarrow> starter) \<Rightarrow> starts \<Rightarrow> bool" where
  "exclusive who st \<longleftrightarrow> (\<forall>k r. fst st k \<noteq> Removing r) \<and>
     (snd st = None \<longrightarrow> (\<forall>k. \<not> past_create (fst st k))) \<and>
     (\<forall>k k'. past_create (fst st k) \<longrightarrow> past_create (fst st k') \<longrightarrow> k = k') \<and>
     (snd st \<in> {None, Some Garbled} \<or> (\<exists>k r. snd st = Some (Doc (JObj (lock_document (who k) r)))))"

lemma exclusive_step:
  assumes "starts_step p who st st'" and "judged_live p who" and "exclusive who st"
  shows "exclusive who st'"
  using assms(1)
proof cases
  case (1 k pr f next_k f')
  note inv = assms(3) [unfolded exclusive_def 1(1) fst_conv snd_conv]
  show ?thesis
  proof (cases "pr k")
    case Starting
    then have "f' = f \<and> (next_k = Creating None \<or> (\<exists>e. next_k = Refused e))"
      using 1(3) inv assms(2)
      by (auto simp: judge_def read_lock_def judged_live_def split: sum.splits option.splits prod.splits if_splits)
    then show ?thesis using inv 1(2) Starting by (auto simp: exclusive_def past_create_def)
  next
    case (Removing r)
    then show ?thesis using inv by simp
  next
    case (Creating r)
    then show ?thesis using inv 1(2,3) by (auto simp: exclusive_def past_create_def create_lock_def split: if_splits)
  next
    case (Writing r)
    then show ?thesis using inv 1(2,3) by (auto simp: exclusive_def past_create_def split: if_splits)
  qed (use inv 1 in \<open>auto simp: exclusive_def past_create_def\<close>)
qed

lemma exclusive_steps:
  "(starts_step p who)\<^sup>*\<^sup>* st st' \<Longrightarrow> judged_live p who \<Longrightarrow> exclusive who st \<Longrightarrow> exclusive who st'"
  by (induction rule: rtranclp_induct) (auto intro: exclusive_step)

text \<open>A process is plausible when it is alive and did not start after it took its clock.\<close>

definition plausible :: "probe \<Rightarrow> starter \<Rightarrow> bool" where
  "plausible p s \<longleftrightarrow> pid_is_alive p (own_pid s) \<and> in_range (started s) \<and>
     (case process_start_time p (own_pid s) of None \<Rightarrow> True | Some b \<Rightarrow> b \<le> started s + 1000000)"

lemma plausible_is_live:
  "plausible p s \<Longrightarrow> \<exists>reason. is_orphan p t (lock_document s r) = Inr (False, reason)"
  by (cases "own_pid s = 0")
     (auto simp: plausible_def is_orphan_def lock_document_def read_time_def por_def Let_def split: option.splits)

lemma plausible_judged_live: "\<forall>k. plausible p (who k) \<Longrightarrow> judged_live p who"
  unfolding judged_live_def
proof (intro allI)
  fix k k' r
  assume "\<forall>k. plausible p (who k)"
  then obtain reason where "is_orphan p (started (who k)) (lock_document (who k') r) = Inr (False, reason)"
    using plausible_is_live by blast
  then show "\<exists>e. judge p (who k) (Some (Doc (JObj (lock_document (who k') r)))) = Inl e"
    by (simp add: judge_def read_lock_def)
qed

text \<open>
  C19. When no lock file exists, at most one of any number of processes that start at the same
  time gets the lock, however their file accesses interleave, provided each is alive and did not
  start after its own clock reading.
\<close>

theorem concurrent_starts_exclude:
  assumes "\<forall>k. plausible p (who k)" and "(starts_step p who)\<^sup>*\<^sup>* (\<lambda>_. Starting, None) (pr, f)"
    and "pr j = Holding" and "pr k = Holding"
  shows "j = k"
proof -
  have "exclusive who (\<lambda>_. Starting, None)" by (simp add: exclusive_def past_create_def)
  then have "exclusive who (pr, f)" by (rule exclusive_steps [OF assms(2) plausible_judged_live [OF assms(1)]])
  then show ?thesis using assms(3,4) by (auto simp: exclusive_def past_create_def)
qed

text \<open>
  When an orphaned lock exists, two processes can both get the lock: the second removes the
  lock that the first created after both had judged the orphan. The first is only told at its
  next heartbeat.
\<close>

theorem orphan_lock_race:
  assumes "judge p (who 0) f = Inr (Some r0)" and "judge p (who 1) f = Inr (Some r1)"
    and "token (who 0) \<noteq> token (who 1)"
  shows "\<exists>pr f'. (starts_step p who)\<^sup>*\<^sup>* (\<lambda>_. Starting, f) (pr, f') \<and> pr 0 = Holding \<and> pr 1 = Holding
    \<and> lock_heartbeat env (who 0) f' = Inl TokenMismatch"
proof -
  have "f \<noteq> None" using assms(1) by (cases f) (auto simp: judge_def read_lock_def)
  then have end_state: "run_schedule p who (\<lambda>_. Starting, f) [0, 1, 0, 0, 0, 1, 1, 1] =
      ((\<lambda>_. Starting)(0 := Holding, 1 := Holding), Some (Doc (JObj (lock_document (who 1) (Some r1)))))"
    using assms(1,2) by (auto simp: remove_lock_def create_lock_def fun_eq_iff)
  have "lock_heartbeat env (who 0) (Some (Doc (JObj (lock_document (who 1) (Some r1))))) = Inl TokenMismatch"
    using assms(3) by (simp add: lock_heartbeat_def lock_document_def)
  moreover have "(starts_step p who)\<^sup>*\<^sup>* (\<lambda>_. Starting, f) ((\<lambda>_. Starting)(0 := Holding, 1 := Holding),
      Some (Doc (JObj (lock_document (who 1) (Some r1)))))"
    by (metis run_schedule_steps end_state)
  ultimately show ?thesis by (intro exI conjI) (assumption, simp_all)
qed

text \<open>
  A process that dies between creating the lock file and writing it leaves an empty file, and
  no process can start after that: the lock is unreadable, so it is not judged an orphan, and
  the exclusive creation fails.
\<close>

theorem damaged_lock_blocks_start:
  "acquire_instance_lock p s (Some Garbled) = (Some Garbled, Inl LostRace)"
  by (simp add: acquire_instance_lock_def judge_def read_lock_def create_lock_def)

section \<open>Witnesses\<close>

definition lock_probe :: probe where
  "lock_probe = \<lparr>pid_is_alive = (\<lambda>i. i > 0), process_start_time = (\<lambda>_. None), stale_after = 120000000\<rparr>"

definition lock_starter :: "nat \<Rightarrow> starter" where
  "lock_starter k = \<lparr>own_pid = int k + 1, instance_id = ''I'', token = replicate k CHR ''t'', started = 7, workspace_id = ''W''\<rparr>"

lemma lock_starters_plausible: "plausible lock_probe (lock_starter k)"
  by (simp add: plausible_def lock_probe_def lock_starter_def in_range_def max_ordinal_def)

theorem concurrent_starts_exclude_witness:
  "\<exists>pr f. (starts_step lock_probe lock_starter)\<^sup>*\<^sup>* (\<lambda>_. Starting, None) (pr, f) \<and> pr 1 = Holding \<and> pr 0 \<noteq> Holding"
proof -
  have "run_schedule lock_probe lock_starter (\<lambda>_. Starting, None) [0, 1, 1, 1] =
      ((\<lambda>_. Starting)(0 := Creating None, 1 := Holding), Some (Doc (JObj (lock_document (lock_starter 1) None))))"
    by (auto simp: judge_def read_lock_def create_lock_def fun_eq_iff)
  then have r: "(starts_step lock_probe lock_starter)\<^sup>*\<^sup>* (\<lambda>_. Starting, None)
      ((\<lambda>_. Starting)(0 := Creating None, 1 := Holding), Some (Doc (JObj (lock_document (lock_starter 1) None))))"
    by (metis run_schedule_steps)
  from concurrent_starts_exclude [OF _ this, of 0 1] lock_starters_plausible
  have "((\<lambda>_. Starting)(0 := Creating None, 1 := Holding)) (0 :: nat) \<noteq> Holding" by auto
  then show ?thesis using r by (intro exI conjI) (assumption, simp_all)
qed

theorem orphan_lock_race_witness:
  "\<exists>pr f'. (starts_step lock_probe lock_starter)\<^sup>*\<^sup>* (\<lambda>_. Starting, Some (Doc (JObj []))) (pr, f') \<and> pr 0 = Holding \<and> pr 1 = Holding
    \<and> lock_heartbeat \<lparr>now = 8, sha = id, schema_error = (\<lambda>_ _. None), uuid = ''U''\<rparr> (lock_starter 0) f' = Inl TokenMismatch"
  by (rule orphan_lock_race [where ?r0.0 = "''pid_not_alive''" and ?r1.0 = "''pid_not_alive''"])
     (simp_all add: judge_def read_lock_def is_orphan_def lock_probe_def lock_starter_def por_def)

end
