(* ===== verification/Journal.thy ===== *)
theory Journal
  imports WorkQueue
begin

text \<open>
  The operational journal of the supervisor (\<open>core/supervisor/journal.py\<close>): one JSON file per
  event, a cursor with the last sequence number, a directory for damaged events and a file of
  alerts. Every operation holds the journal lock, so one call is one step; the check of the
  cursor after the write is kept as the source has it.
\<close>

section \<open>State\<close>

record ops_journal =
  event_files :: store
  cursor_file :: "dfile option"
  corrupt_files :: store
  alerts_file :: "dfile option"

definition empty_cursor :: obj where
  "empty_cursor = [(''schema_version'', JInt 1), (''last_sequence'', JInt 0), (''last_event_id'', JNull)]"

definition load_cursor :: "ops_journal \<Rightarrow> obj" where
  "load_cursor j = (case cursor_file j of Some (Doc (JObj ob)) \<Rightarrow> ob | _ \<Rightarrow> empty_cursor)"

definition last_processed_sequence :: "ops_journal \<Rightarrow> int res" where
  "last_processed_sequence j = int_field (load_cursor j) ''last_sequence'' 0"

section \<open>Appending\<close>

text \<open>An event that was already written under the given id. The directory is read in no order
  that matters: at most one file has the id in a journal that only this code wrote.\<close>

definition find_event :: "store \<Rightarrow> json \<Rightarrow> json option" where
  "find_event s event_id =
     (case find (\<lambda>(_, f). case f of Doc (JObj prior) \<Rightarrow> py_eq (oget prior ''event_id'') event_id | _ \<Rightarrow> False) s of
        Some (_, Doc prior) \<Rightarrow> Some prior | _ \<Rightarrow> None)"

definition truncated_mark :: string where
  "truncated_mark = map char_of [226 :: nat, 128, 166] @ ''[truncated]''"

definition bounded_payload :: "obj \<Rightarrow> obj" where
  "bounded_payload payload = map (\<lambda>(k, v).
     (k, case v of JStr t \<Rightarrow> if length t > 2000 then JStr (take 2000 t @ truncated_mark) else v | _ \<Rightarrow> v)) payload"

text \<open>\<open>f"{sequence:08d}"\<close>.\<close>

definition seq_text :: "int \<Rightarrow> string" where
  "seq_text n = (if n < 0 then CHR ''-'' # replicate (8 - length (int_text n)) CHR ''0'' @ int_text (- n)
     else replicate (8 - length (int_text n)) CHR ''0'' @ int_text n)"

definition event_document ::
  "env \<Rightarrow> json \<Rightarrow> json \<Rightarrow> obj \<Rightarrow> json \<Rightarrow> json \<Rightarrow> int \<Rightarrow> json \<Rightarrow> obj" where
  "event_document env instance_id event_type payload run_id work_unit_id sequence event_id =
     [(''schema_version'', JInt 1), (''sequence'', JInt sequence), (''event_id'', event_id),
      (''instance_id'', instance_id), (''run_id'', run_id), (''work_unit_id'', work_unit_id),
      (''event_type'', event_type), (''timestamp'', now_iso env), (''payload'', JObj (bounded_payload payload))]"

definition cursor_document :: "env \<Rightarrow> int \<Rightarrow> json \<Rightarrow> obj" where
  "cursor_document env sequence event_id =
     [(''schema_version'', JInt 1), (''last_sequence'', JInt sequence), (''last_event_id'', event_id),
      (''updated_at'', now_iso env)]"

definition event_id_of :: "json \<Rightarrow> int \<Rightarrow> string \<Rightarrow> json" where
  "event_id_of given sequence draw =
     (if truthy given then given else JStr (''EVT-'' @ seq_text sequence @ ''-'' @ take 8 draw))"

definition event_name :: "int \<Rightarrow> json \<Rightarrow> string" where
  "event_name sequence event_id = seq_text sequence @ ''-'' @ py_str event_id @ ''.json''"

definition save_cursor :: "env \<Rightarrow> int \<Rightarrow> json \<Rightarrow> ops_journal \<Rightarrow> ops_journal" where
  "save_cursor env sequence event_id j =
     j\<lparr>cursor_file := Some (Doc (JObj (cursor_document env sequence event_id)))\<rparr>"

text \<open>
  The attempts, one per drawn identifier (the source makes eight). \<open>Left\<close> of a used-up list is
  the \<open>RuntimeError\<close>, which has no other content.
\<close>

fun append_attempts ::
  "env \<Rightarrow> json \<Rightarrow> json \<Rightarrow> obj \<Rightarrow> json \<Rightarrow> json \<Rightarrow> json \<Rightarrow> string list \<Rightarrow> ops_journal \<Rightarrow> ops_journal \<times> json res" where
  "append_attempts env instance_id event_type payload run_id work_unit_id given [] j =
     (j, Inl (ValueError ''journal append failed after concurrent retries''))"
| "append_attempts env instance_id event_type payload run_id work_unit_id given (draw # draws) j =
     (case last_processed_sequence j of
        Inl e \<Rightarrow> (j, Inl e)
      | Inr before \<Rightarrow>
          (let sequence = before + 1; event_id = event_id_of given sequence draw;
               document = event_document env instance_id event_type payload run_id work_unit_id sequence event_id;
               path = event_name sequence event_id in
           if is_file (event_files j) path
           then append_attempts env instance_id event_type payload run_id work_unit_id given draws j
           else (let j1 = j\<lparr>event_files := AList.update path (Doc (JObj document)) (event_files j)\<rparr> in
             (case last_processed_sequence j1 of
                Inl e \<Rightarrow> (j1, Inl e)
              | Inr current \<Rightarrow>
                  if current \<noteq> sequence - 1
                  then append_attempts env instance_id event_type payload run_id work_unit_id given draws
                         (j1\<lparr>event_files := AList.delete path (event_files j1)\<rparr>)
                  else (let j2 = save_cursor env sequence event_id j1 in
                    (case last_processed_sequence j2 of
                       Inl e \<Rightarrow> (j2, Inl e)
                     | Inr verify \<Rightarrow>
                         if verify \<noteq> sequence
                         then append_attempts env instance_id event_type payload run_id work_unit_id given draws
                                (j2\<lparr>event_files := AList.delete path (event_files j2)\<rparr>)
                         else (j2, Inr (JObj document))))))))"

definition append_event ::
  "env \<Rightarrow> json \<Rightarrow> json \<Rightarrow> obj \<Rightarrow> json \<Rightarrow> json \<Rightarrow> json \<Rightarrow> string list \<Rightarrow> ops_journal \<Rightarrow> ops_journal \<times> json res" where
  "append_event env instance_id event_type payload run_id work_unit_id given draws j =
     (case (if truthy given then find_event (event_files j) given else None) of
        Some prior \<Rightarrow> (j, Inr prior)
      | None \<Rightarrow> append_attempts env instance_id event_type payload run_id work_unit_id given (take 8 draws) j)"

section \<open>Reading\<close>

text \<open>Why an event file is set aside; \<open>None\<close> for a sound one.\<close>

definition event_fault :: "dfile \<Rightarrow> string option" where
  "event_fault f = (case f of
     Garbled \<Rightarrow> Some ''JSONDecodeError''
   | Doc (JObj ob) \<Rightarrow> if ohas ob ''sequence'' \<and> ohas ob ''event_id'' then None
                       else Some ''event missing required fields''
   | Doc _ \<Rightarrow> Some ''event is not a mapping'')"

definition event_alert :: "string \<Rightarrow> string \<Rightarrow> json" where
  "event_alert path error = JObj [(''code'', JStr ''corrupt_journal_event''), (''path'', JStr (''corrupt/'' @ path)),
     (''error'', JStr error)]"

text \<open>One pass over the files in the order of their names; what is set aside stays set aside
  also when a later sequence number is no number.\<close>

fun iter_loop :: "int \<Rightarrow> string list \<Rightarrow> ops_journal \<Rightarrow> json list \<Rightarrow> json list \<Rightarrow> ops_journal \<times> (json list \<times> json list) res" where
  "iter_loop after_sequence [] j results alerts = (j, Inr (results, alerts))"
| "iter_loop after_sequence (path # paths) j results alerts =
     (case map_of (event_files j) path of
        None \<Rightarrow> iter_loop after_sequence paths j results alerts
      | Some f \<Rightarrow>
          (case event_fault f of
             Some error \<Rightarrow>
               iter_loop after_sequence paths
                 (j\<lparr>event_files := AList.delete path (event_files j),
                    corrupt_files := AList.update path f (corrupt_files j)\<rparr>)
                 results (alerts @ [event_alert path error])
           | None \<Rightarrow>
               (case f of
                  Doc (JObj document) \<Rightarrow>
                    (case int_field document ''sequence'' 0 of
                       Inl e \<Rightarrow> (j, Inl e)
                     | Inr sequence \<Rightarrow>
                         iter_loop after_sequence paths j
                           (if sequence \<le> after_sequence then results else results @ [JObj document]) alerts)
                | _ \<Rightarrow> iter_loop after_sequence paths j results alerts)))"

definition load_alerts :: "ops_journal \<Rightarrow> json list" where
  "load_alerts j = (case alerts_file j of Some (Doc (JList alerts)) \<Rightarrow> alerts | _ \<Rightarrow> [])"

definition last_hundred :: "'a list \<Rightarrow> 'a list" where
  "last_hundred xs = drop (length xs - 100) xs"

definition iter_events :: "int \<Rightarrow> ops_journal \<Rightarrow> ops_journal \<times> json list res" where
  "iter_events after_sequence j =
     (case iter_loop after_sequence (sort (remdups (map fst (event_files j)))) j [] [] of
        (j1, Inl e) \<Rightarrow> (j1, Inl e)
      | (j1, Inr (results, alerts)) \<Rightarrow>
          (if alerts = [] then j1
           else j1\<lparr>alerts_file := Some (Doc (JList (last_hundred (load_alerts j1 @ alerts))))\<rparr>, Inr results))"

section \<open>Events are numbered, kept and read back\<close>

definition sound_event :: "int \<Rightarrow> dfile \<Rightarrow> bool" where
  "sound_event n f \<longleftrightarrow> (\<exists>ob k. f = Doc (JObj ob) \<and> map_of ob ''sequence'' = Some (JInt k) \<and> ohas ob ''event_id'' \<and> 1 \<le> k \<and> k \<le> n)"

definition journal_ok :: "int \<Rightarrow> ops_journal \<Rightarrow> bool" where
  "journal_ok n j \<longleftrightarrow> 0 \<le> n \<and> last_processed_sequence j = Inr n \<and> distinct (map fst (event_files j)) \<and>
     (\<forall>f \<in> snd ` set (event_files j). sound_event n f)"

definition event_of :: "dfile \<Rightarrow> json" where
  "event_of f = (case f of Doc d \<Rightarrow> d | Garbled \<Rightarrow> JNull)"

definition sequence_of :: "dfile \<Rightarrow> int" where
  "sequence_of f = (case event_of f of JObj ob \<Rightarrow> (case oget ob ''sequence'' of JInt k \<Rightarrow> k | _ \<Rightarrow> 0) | _ \<Rightarrow> 0)"

lemma sound_eventD:
  assumes "sound_event n f"
  shows "event_fault f = None \<and> (\<exists>ob. f = Doc (JObj ob) \<and> int_field ob ''sequence'' 0 = Inr (sequence_of f))
    \<and> sequence_of f \<le> n"
  using assms
  by (auto simp: sound_event_def event_fault_def sequence_of_def event_of_def oget_def ohas_def int_field_def por_def)

lemma iter_loop_sound:
  assumes "\<forall>p \<in> set paths. \<exists>f. map_of (event_files j) p = Some f \<and> sound_event n f"
  shows "iter_loop a paths j results alerts =
    (j, Inr (results @ map (\<lambda>p. event_of (the (map_of (event_files j) p)))
       (filter (\<lambda>p. a < sequence_of (the (map_of (event_files j) p))) paths), alerts))"
  using assms
proof (induction paths arbitrary: results)
  case (Cons p paths)
  then obtain f where f: "map_of (event_files j) p = Some f" "sound_event n f" by auto
  then obtain ob where "event_fault f = None" "f = Doc (JObj ob)" "int_field ob ''sequence'' 0 = Inr (sequence_of f)"
    using sound_eventD by blast
  then show ?case using f Cons by (simp add: event_of_def not_less)
qed simp

lemma iter_events_sound:
  assumes "journal_ok n j"
  shows "iter_events a j = (j, Inr (map (\<lambda>p. event_of (the (map_of (event_files j) p)))
    (filter (\<lambda>p. a < sequence_of (the (map_of (event_files j) p))) (sort (map fst (event_files j))))))"
proof -
  have "distinct (map fst (event_files j))" using assms by (simp add: journal_ok_def)
  then have "\<forall>p \<in> set (sort (map fst (event_files j))). \<exists>f. map_of (event_files j) p = Some f \<and> sound_event n f"
    using assms by (force simp: journal_ok_def)
  then show ?thesis using assms by (simp add: iter_events_def iter_loop_sound journal_ok_def distinct_remdups_id)
qed

lemma append_sound:
  assumes "journal_ok n j" and "\<not> is_file (event_files j) (event_name (n + 1) (event_id_of given (n + 1) (hd draws)))"
    and "draws \<noteq> []" and "truthy given \<longrightarrow> find_event (event_files j) given = None"
  shows "\<exists>j' ob. append_event env instance_id event_type payload run_id work_unit_id given draws j = (j', Inr (JObj ob))
    \<and> oget ob ''sequence'' = JInt (n + 1) \<and> journal_ok (n + 1) j' \<and> iter_events n j' = (j', Inr [JObj ob])"
proof -
  define e where "e = event_id_of given (n + 1) (hd draws)"
  define ob where "ob = event_document env instance_id event_type payload run_id work_unit_id (n + 1) e"
  define j' where "j' = save_cursor env (n + 1) e (j\<lparr>event_files := AList.update (event_name (n + 1) e) (Doc (JObj ob)) (event_files j)\<rparr>)"
  have n: "0 \<le> n" "last_processed_sequence j = Inr n" and fresh: "event_name (n + 1) e \<notin> fst ` set (event_files j)"
    using assms(1,2) by (auto simp: journal_ok_def e_def is_file_def map_of_eq_None_iff)
  have last1: "last_processed_sequence (j\<lparr>event_files := x\<rparr>) = Inr n" for x
    using n(2) by (simp add: last_processed_sequence_def load_cursor_def)
  have last2: "last_processed_sequence j' = Inr (n + 1)"
    using n(1) by (simp add: j'_def save_cursor_def last_processed_sequence_def load_cursor_def cursor_document_def int_field_def por_def)
  obtain draws' where draws: "take 8 draws = hd draws # draws'" using assms(3) by (cases draws) auto
  have app: "append_event env instance_id event_type payload run_id work_unit_id given draws j = (j', Inr (JObj ob))"
    unfolding append_event_def draws using assms(2,4) n last1 last2
    by (simp add: e_def ob_def j'_def Let_def)
  have files: "event_files j' = event_files j @ [(event_name (n + 1) e, Doc (JObj ob))]"
    using fresh by (simp add: j'_def save_cursor_def update_fresh)
  have seq: "oget ob ''sequence'' = JInt (n + 1)" by (simp add: ob_def event_document_def)
  have old: "sound_event n f" if "f \<in> snd ` set (event_files j)" for f
    using assms(1) that by (auto simp: journal_ok_def)
  have "sound_event (n + 1) f" if "f \<in> snd ` set (event_files j)" for f
    using old [OF that] unfolding sound_event_def by fastforce
  moreover have "sound_event (n + 1) (Doc (JObj ob))"
    using n by (simp add: ob_def event_document_def sound_event_def)
  ultimately have ok: "journal_ok (n + 1) j'"
    using assms(1) n(1) last2 fresh by (auto simp: journal_ok_def files)
  have is_old: "sequence_of (the (map_of (event_files j') p)) \<le> n" if "p \<in> fst ` set (event_files j)" for p
  proof -
    from that obtain f where "map_of (event_files j) p = Some f" by (metis map_of_eq_None_iff not_None_eq)
    then show ?thesis using sound_eventD [OF old [of f]] by (force simp: files dest: map_of_SomeD)
  qed
  have is_new: "map_of (event_files j') (event_name (n + 1) e) = Some (Doc (JObj ob))"
    using fresh by (simp add: files map_add_def map_of_eq_None_iff [THEN iffD2])
  have "filter (\<lambda>p. n < sequence_of (the (map_of (event_files j') p))) (sort (map fst (event_files j'))) =
      sort (filter (\<lambda>p. n < sequence_of (the (map_of (event_files j') p))) (map fst (event_files j')))"
    by (simp add: filter_sort)
  also have "\<dots> = [event_name (n + 1) e]"
    using is_old is_new seq by (auto simp: files sequence_of_def event_of_def filter_empty_conv simp flip: not_less)
  finally have "iter_events n j' = (j', Inr [JObj ob])"
    using is_new by (simp add: iter_events_sound [OF ok] event_of_def)
  then show ?thesis using app seq ok by blast
qed

text \<open>
  C36. An appended event gets the next sequence number, the journal stays well formed, and reading
  from the number before it returns exactly that event, unchanged.
\<close>

theorem appended_event_is_read_back:
  assumes "journal_ok n j" and "\<not> is_file (event_files j) (event_name (n + 1) (event_id_of given (n + 1) (hd draws)))"
    and "draws \<noteq> []" and "truthy given \<longrightarrow> find_event (event_files j) given = None"
  shows "\<exists>j' ob. append_event env instance_id event_type payload run_id work_unit_id given draws j = (j', Inr (JObj ob))
    \<and> oget ob ''sequence'' = JInt (n + 1) \<and> journal_ok (n + 1) j' \<and> iter_events n j' = (j', Inr [JObj ob])"
  using assms by (rule append_sound)

text \<open>
  Appending under an event id that was already appended returns the first event and changes
  nothing, whatever the rest of the second call says.
\<close>

theorem same_event_id_appends_once:
  assumes "journal_ok n j" and "given_id \<noteq> []" and "find_event (event_files j) (JStr given_id) = None"
    and "\<not> is_file (event_files j) (event_name (n + 1) (JStr given_id))" and "draws \<noteq> []"
  shows "\<exists>j' first. append_event env i t p r w (JStr given_id) draws j = (j', Inr first)
    \<and> append_event env' i' t' p' r' w' (JStr given_id) draws' j' = (j', Inr first)"
proof -
  define ob where "ob = event_document env i t p r w (n + 1) (JStr given_id)"
  define j' where "j' = save_cursor env (n + 1) (JStr given_id) (j\<lparr>event_files := AList.update (event_name (n + 1) (JStr given_id)) (Doc (JObj ob)) (event_files j)\<rparr>)"
  have n: "0 \<le> n" "last_processed_sequence j = Inr n"
    and fresh: "event_name (n + 1) (JStr given_id) \<notin> fst ` set (event_files j)"
    using assms(1,4) by (auto simp: journal_ok_def is_file_def map_of_eq_None_iff)
  have last1: "last_processed_sequence (j\<lparr>event_files := x\<rparr>) = Inr n" for x
    using n(2) by (simp add: last_processed_sequence_def load_cursor_def)
  have last2: "last_processed_sequence j' = Inr (n + 1)"
    using n(1) by (simp add: j'_def save_cursor_def last_processed_sequence_def load_cursor_def cursor_document_def int_field_def por_def)
  obtain d ds where draws: "take 8 draws = d # ds" using assms(5) by (cases draws) auto
  have gid: "event_id_of (JStr given_id) (n + 1) d = JStr given_id" using assms(2) by (simp add: event_id_of_def)
  have "append_event env i t p r w (JStr given_id) draws j = (j', Inr (JObj ob))"
    unfolding append_event_def draws using assms(2,3,4) n last1 last2
    by (simp add: gid ob_def j'_def Let_def)
  moreover have "find_event (event_files j') (JStr given_id) = Some (JObj ob)"
  proof -
    let ?P = "\<lambda>(_ :: string, f). case f of Doc (JObj prior) \<Rightarrow> py_eq (oget prior ''event_id'') (JStr given_id) | _ \<Rightarrow> False"
    have none: "find ?P (event_files j) = None"
    proof (rule ccontr)
      assume "find ?P (event_files j) \<noteq> None"
      then obtain k f where kf: "find ?P (event_files j) = Some (k, f)" by (cases "find ?P (event_files j)") auto
      from find_SomeD [OF kf] have "?P (k, f)" ..
      then show False using kf assms(3) by (auto simp: find_event_def split: dfile.splits)
    qed
    have app: "find P (xs @ [x]) = (case find P xs of None \<Rightarrow> if P x then Some x else None | Some y \<Rightarrow> Some y)"
      for P :: "string \<times> dfile \<Rightarrow> bool" and xs x by (induction xs) auto
    have files: "event_files j' = event_files j @ [(event_name (n + 1) (JStr given_id), Doc (JObj ob))]"
      using fresh by (simp add: j'_def save_cursor_def update_fresh)
    show ?thesis unfolding find_event_def files app none by (simp add: ob_def event_document_def)
  qed
  then have "append_event env' i' t' p' r' w' (JStr given_id) draws' j' = (j', Inr (JObj ob))"
    using assms(2) by (simp add: append_event_def)
  ultimately show ?thesis by blast
qed

text \<open>
  A crash between the creation of an event file and the write of the cursor: the next event
  gets the same sequence number.
\<close>

theorem crash_before_cursor_reuses_sequence:
  assumes "last_processed_sequence j = Inr n" and "draws \<noteq> []"
    and "crashed = j\<lparr>event_files := AList.update path lost (event_files j)\<rparr>"
    and "\<not> is_file (event_files crashed) (event_name (n + 1) (event_id_of JNull (n + 1) (hd draws)))"
  shows "\<exists>j' ob. append_event env i t p r w JNull draws crashed = (j', Inr (JObj ob)) \<and> oget ob ''sequence'' = JInt (n + 1)"
proof -
  have last1: "last_processed_sequence (crashed\<lparr>event_files := x\<rparr>) = Inr n" "last_processed_sequence crashed = Inr n" for x
    using assms(1,3) by (simp_all add: last_processed_sequence_def load_cursor_def)
  have last2: "last_processed_sequence (save_cursor env (n + 1) e k) \<in> {Inr (n + 1)}" for e k
    by (simp add: save_cursor_def last_processed_sequence_def load_cursor_def cursor_document_def int_field_def por_def)
  obtain d ds where draws: "take 8 draws = hd draws # ds" using assms(2) by (cases draws) auto
  show ?thesis
    unfolding append_event_def draws using assms(4) last1 last2
    by (simp add: Let_def event_document_def)
qed

section \<open>Witnesses\<close>

definition fresh_journal :: ops_journal where
  "fresh_journal = \<lparr>event_files = [], cursor_file = None, corrupt_files = [], alerts_file = None\<rparr>"

definition journal_env :: env where
  "journal_env = \<lparr>now = 5, sha = (\<lambda>s. s), schema_error = (\<lambda>_ _. None), uuid = ''u''\<rparr>"

lemma fresh_journal_ok: "journal_ok 0 fresh_journal"
  by (simp add: journal_ok_def fresh_journal_def last_processed_sequence_def load_cursor_def empty_cursor_def
      int_field_def por_def)

theorem appended_event_is_read_back_witness:
  "\<exists>j' ob. append_event journal_env JNull (JStr ''started'') [] JNull JNull JNull [''0123456789''] fresh_journal = (j', Inr (JObj ob))
    \<and> oget ob ''sequence'' = JInt 1 \<and> iter_events 0 j' = (j', Inr [JObj ob])"
  using appended_event_is_read_back [OF fresh_journal_ok, of JNull "[''0123456789'']" journal_env JNull "JStr ''started''" "[]" JNull JNull]
  by (auto simp: fresh_journal_def is_file_def)

theorem same_event_id_appends_once_witness:
  "\<exists>j' first. append_event journal_env JNull (JStr ''a'') [] JNull JNull (JStr ''E'') [''x''] fresh_journal = (j', Inr first)
    \<and> append_event journal_env JNull (JStr ''b'') [] JNull JNull (JStr ''E'') [] j' = (j', Inr first)"
  by (rule same_event_id_appends_once [OF fresh_journal_ok])
     (simp_all add: fresh_journal_def is_file_def find_event_def)

end
