(* ===== verification/Reconcile.thy ===== *)
theory Reconcile
  imports Recovery Journal InstanceLock
begin

text \<open>
  One cycle of the supervisor for one Run: the registry of supervised Runs
  (\<open>core/supervisor/registry.py\<close>), the records of managed processes (\<open>process.py\<close>), and the choice
  and execution of one action (\<open>reconcile.py\<close>). What the operating system does with processes is
  a parameter. One cycle takes its times from one clock; the commands of a recovery have their own.
\<close>

section \<open>State\<close>

record supervisor =
  governed :: rstate
  registry :: "dfile option"
  work :: wqueue
  log :: ops_journal
  processes :: store

text \<open>Whether a process is alive, whether it still is after it was told to end, the pid of a new one.\<close>

record os =
  os_alive :: "int \<Rightarrow> bool"
  os_survives :: "int \<Rightarrow> bool"
  os_launch :: "string \<Rightarrow> int"

section \<open>Registry\<close>

definition registry_runs :: "dfile option \<Rightarrow> obj" where
  "registry_runs f = (case f of
     Some (Doc (JObj document)) \<Rightarrow> (case oget document ''runs'' of JObj runs \<Rightarrow> runs | _ \<Rightarrow> [])
   | _ \<Rightarrow> [])"

definition load_registry :: "dfile option \<Rightarrow> obj" where
  "load_registry f = (case f of
     Some (Doc (JObj document)) \<Rightarrow>
       AList.update ''runs'' (JObj (registry_runs f)) (set_defaults [(''schema_version'', JInt 1), (''runs'', JObj [])] document)
   | _ \<Rightarrow> [(''schema_version'', JInt 1), (''runs'', JObj [])])"

definition save_registry :: "env \<Rightarrow> obj \<Rightarrow> dfile option res" where
  "save_registry env document = bindR (int_field document ''schema_version'' 1) (\<lambda>version.
     bindR (as_obj (por (oget document ''runs'') (JObj []))) (\<lambda>runs.
     Inr (Some (Doc (JObj [(''schema_version'', JInt version), (''runs'', JObj runs), (''updated_at'', now_iso env)])))))"

definition put_entry :: "env \<Rightarrow> string \<Rightarrow> obj \<Rightarrow> dfile option \<Rightarrow> dfile option res" where
  "put_entry env run_id entry f =
     save_registry env (AList.update ''runs'' (JObj (AList.update run_id (JObj entry) (registry_runs f))) (load_registry f))"

definition register_run :: "env \<Rightarrow> string \<Rightarrow> int \<Rightarrow> int \<Rightarrow> obj \<Rightarrow> dfile option \<Rightarrow> (dfile option \<times> obj) res" where
  "register_run env run_id workers max_recoveries metadata f = bindR (as_obj (por (oget (registry_runs f) run_id) (JObj []))) (\<lambda>entry.
     bindR (int_field entry ''recovery_count'' 0) (\<lambda>recoveries.
     bindR (as_obj (por (oget entry ''metadata'') (JObj []))) (\<lambda>before.
     (let entry1 = set_keys [(''run_id'', JStr run_id), (''registered_at'', por (oget entry ''registered_at'') (now_iso env)),
           (''updated_at'', now_iso env), (''workers'', JInt (max 1 workers)), (''max_recoveries'', JInt (max 0 max_recoveries)),
           (''recovery_count'', JInt recoveries), (''status'', JStr ''registered''),
           (''metadata'', JObj (set_keys metadata before))] entry in
     bindR (put_entry env run_id entry1 f) (\<lambda>f1.
     Inr (f1, entry1))))))"

definition unregister_run :: "env \<Rightarrow> string \<Rightarrow> dfile option \<Rightarrow> (dfile option \<times> bool) res" where
  "unregister_run env run_id f =
     (if \<not> ohas (registry_runs f) run_id then Inr (f, False)
      else bindR (save_registry env (AList.update ''runs'' (JObj (opop run_id (registry_runs f))) (load_registry f))) (\<lambda>f1.
        Inr (f1, True)))"

definition update_run_entry :: "env \<Rightarrow> string \<Rightarrow> obj \<Rightarrow> dfile option \<Rightarrow> (dfile option \<times> obj option) res" where
  "update_run_entry env run_id changes f =
     (if oget (registry_runs f) run_id = JNull then Inr (f, None)
      else bindR (as_obj (oget (registry_runs f) run_id)) (\<lambda>entry.
        (let entry1 = set_keys (changes @ [(''updated_at'', now_iso env)]) entry in
        bindR (put_entry env run_id entry1 f) (\<lambda>f1.
        Inr (f1, Some entry1)))))"

definition list_registered_runs :: "dfile option \<Rightarrow> obj list res" where
  "list_registered_runs f = mapR (\<lambda>(_, item). as_obj item) (registry_runs f)"

section \<open>Managed processes\<close>

definition read_process_record :: "store \<Rightarrow> string \<Rightarrow> obj option" where
  "read_process_record = read_item"

definition write_process_record :: "env \<Rightarrow> string \<Rightarrow> obj \<Rightarrow> store \<Rightarrow> store" where
  "write_process_record env run_id document s =
     write_item run_id (set_keys [(''run_id'', JStr run_id), (''updated_at'', now_iso env)] document) s"

definition pid_alive :: "os \<Rightarrow> int \<Rightarrow> bool" where
  "pid_alive m pid \<longleftrightarrow> 0 < pid \<and> os_alive m pid"

definition start_orchestrator_process :: "os \<Rightarrow> env \<Rightarrow> string \<Rightarrow> int \<Rightarrow> int \<Rightarrow> store \<Rightarrow> store \<times> obj" where
  "start_orchestrator_process m env run_id workers lease_epoch s =
     (let document = [(''run_id'', JStr run_id), (''pid'', JInt (os_launch m run_id)), (''status'', JStr ''starting''),
        (''worker_attempt_state'', JStr ''starting''), (''workers'', JInt workers), (''lease_epoch'', JInt lease_epoch),
        (''started_at'', now_iso env), (''heartbeat_at'', now_iso env)] in
      (write_process_record env run_id document s, document))"

definition mark_running :: "env \<Rightarrow> string \<Rightarrow> store \<Rightarrow> store \<times> obj option" where
  "mark_running env run_id s =
     (case read_process_record s run_id of
        None \<Rightarrow> (s, None)
      | Some document \<Rightarrow>
          (let document1 = set_keys [(''status'', JStr ''running''), (''worker_attempt_state'', JStr ''running''),
             (''acknowledged_at'', now_iso env), (''heartbeat_at'', now_iso env)] document in
           (write_process_record env run_id document1 s, Some document1)))"

definition process_is_alive :: "os \<Rightarrow> store \<Rightarrow> string \<Rightarrow> bool res" where
  "process_is_alive m s run_id =
     (case read_process_record s run_id of
        None \<Rightarrow> Inr False
      | Some document \<Rightarrow> bindR (int_field document ''pid'' 0) (\<lambda>pid.
 Inr (pid_alive m pid)))"

text \<open>\<open>expected_epoch\<close> is \<open>None\<close> when the observation has none.\<close>

definition terminate_process ::
  "os \<Rightarrow> env \<Rightarrow> string \<Rightarrow> json \<Rightarrow> store \<Rightarrow> (store \<times> obj) res" where
  "terminate_process m env run_id expected_epoch s = (let document = (case read_process_record s run_id of
           Some d \<Rightarrow> if d = [] then [(''run_id'', JStr run_id)] else d | None \<Rightarrow> [(''run_id'', JStr run_id)]) in
     bindR ((if expected_epoch = JNull then Inr 0 else int_field document ''lease_epoch'' 0)) (\<lambda>epoch.
     (if expected_epoch \<noteq> JNull \<and> \<not> py_eq (JInt epoch) expected_epoch then        Inr (s, [(''outcome'', JStr ''fencing_conflict''), (''run_id'', JStr run_id),
                (''reason'', JStr ''stale process epoch refused termination ownership'')]) else
     bindR (int_field document ''pid'' 0) (\<lambda>pid.
     (if pid = 0 \<or> \<not> pid_alive m pid then        Inr (write_process_record env run_id (set_keys [(''status'', JStr ''orphaned''), (''worker_attempt_state'', JStr ''orphaned'')] document) s,
            [(''outcome'', JStr ''already_gone''), (''run_id'', JStr run_id), (''pid'', JInt pid)]) else
     (let alive = os_survives m pid in
     (let state = JStr (if alive then ''running'' else ''cancelled'') in
     Inr (write_process_record env run_id (set_keys [(''status'', state), (''worker_attempt_state'', state), (''terminated_at'', now_iso env)] document) s,
          [(''outcome'', JStr (if alive then ''still_alive'' else ''cancelled'')), (''run_id'', JStr run_id),
           (''pid'', JInt pid), (''alive'', JBool alive)]))))))))"

definition legacy_orchestrator_process_alive :: "os \<Rightarrow> store \<Rightarrow> string \<Rightarrow> bool res" where
  "legacy_orchestrator_process_alive m s run_id =
     (case map_of s (''runs/processes/'' @ run_id @ ''.json'') of
        Some (Doc document) \<Rightarrow> bindR (jget document ''pid'') (\<lambda>own_pid.
          bindR (py_int (por own_pid (JInt 0))) (\<lambda>pid.
          Inr (pid_alive m pid)))
      | _ \<Rightarrow> Inr False)"

section \<open>Observation and choice\<close>

definition observe_run :: "os \<Rightarrow> env \<Rightarrow> store \<Rightarrow> store \<Rightarrow> string \<Rightarrow> obj res" where
  "observe_run m env s procs run_id =
     (case yaml_document s (run_path (JStr run_id)) of
        None \<Rightarrow> Inr [(''run_id'', JStr run_id), (''run_status'', JStr ''missing''), (''progress'', JObj [(''state'', JStr ''unknown'')]),
                     (''process_alive'', JBool False), (''legacy_process_alive'', JBool False), (''process'', JNull)]
      | Some run \<Rightarrow> bindR (evaluate_run_progress env s (JObj run)) (\<lambda>progress.
          (let process = read_process_record procs run_id in
          bindR (process_is_alive m procs run_id) (\<lambda>alive.
          bindR (legacy_orchestrator_process_alive m s run_id) (\<lambda>legacy_alive.
          bindR (as_obj (por (oget run ''leases_by_work_unit'') (JObj []))) (\<lambda>leases.
          bindR (jiter (por (oget run ''work_unit_ids'') (JList []))) (\<lambda>ids.
          bindR (int_field run ''recovery_attempt_number'' 0) (\<lambda>recoveries.
          Inr [(''run_id'', JStr run_id), (''run_status'', oget run ''status''), (''stop_condition'', oget run ''stop_condition''),
               (''autonomy_preset'', oget run ''autonomy_preset''), (''revision'', oget run ''revision''),
               (''work_unit_ids'', JList ids), (''progress'', progress), (''process_alive'', JBool (alive \<or> legacy_alive)),
               (''legacy_process_alive'', JBool legacy_alive),
               (''process'', case process of None \<Rightarrow> JNull | Some d \<Rightarrow> JObj d),
               (''current_lease'', if leases = [] then JNull else snd (hd leases)), (''recovery_count'', JInt recoveries),
               (''grant_id'', oget run ''run_authorization_grant_id'')]))))))))"

definition em_dash :: string where
  "em_dash = map char_of [226 :: nat, 128, 148]"

definition action_plan :: "string \<Rightarrow> string \<Rightarrow> json \<Rightarrow> obj" where
  "action_plan action reason wait_reason =
     [(''action'', JStr action), (''reason'', JStr reason), (''wait_reason'', wait_reason)]"

definition had_managed_process :: "json \<Rightarrow> bool res" where
  "had_managed_process process = bindR (jget process ''worker_attempt_state'') (\<lambda>prior_state.
     bindR (jget process ''pid'') (\<lambda>pid.
     (if truthy pid then Inr True else
     in_strs prior_state [''starting'', ''running''])))"

definition choose_action :: "obj \<Rightarrow> obj res" where
  "choose_action observation = (let run_status = oget observation ''run_status'' in
     bindR ((if run_status = JNull then Inr True else in_strs run_status [''missing''])) (\<lambda>missing.
     (if missing then Inr (action_plan ''needs_human'' ''run document missing'' (JStr ''missing_run'')) else
     (let process_alive = truthy (oget observation ''process_alive'') in
     (if run_status \<noteq> JStr ''active'' then        Inr (if process_alive then action_plan ''cancel_process'' ''run no longer active'' JNull
            else action_plan ''noop_terminal'' (''run status='' @ py_str run_status) (JStr ''terminal'')) else
     (if \<not> is_unattended_preset (oget observation ''autonomy_preset'') then        Inr (action_plan ''noop_supervised'' (''supervised Run '' @ em_dash @ '' daemon observes only'') (JStr ''supervised_mode'')) else
     (let stop = py_str (por (oget observation ''stop_condition'') (JStr [])) in
     (if stop \<in> set HARD_STOPS then        Inr (action_plan ''needs_human'' (''hard stop: '' @ stop) (JStr ''hard_stop'')) else
     bindR (jget (por (oget observation ''progress'') (JObj [])) ''state'') (\<lambda>state.
     (if state = JStr ''blocked_needs_human'' then        Inr (action_plan ''needs_human'' ''every Work Unit on the Run is blocked and requires human intervention''
              (JStr ''work_units_blocked'')) else
     (if state = JStr ''stalled_no_progress'' then        Inr (action_plan ''recover_stalled'' ''alive or idle without useful progress'' (JStr ''stalled_no_progress'')) else
     bindR ((if process_alive then Inr False
        else had_managed_process (por (oget observation ''process'') (JObj [])))) (\<lambda>managed.
     bindR ((if process_alive then in_strs state [''working'', ''progressing''] else Inr False)) (\<lambda>healthy.
     Inr (if \<not> process_alive \<and> managed then action_plan ''recover_orphan'' ''orchestrator process missing after start'' (JStr ''orphan_process'')
          else if \<not> process_alive then action_plan ''start_orchestrator'' ''active Run without managed process'' JNull
          else if healthy then action_plan ''noop_healthy'' ''process alive with useful progress window'' JNull
          else action_plan ''noop_healthy'' ''no corrective action required'' JNull))))))))))))))"

section \<open>Execution\<close>

type_synonym 'a cycle = "supervisor \<Rightarrow> supervisor \<times> 'a res"

text \<open>What a cycle runs on: the recovery's configuration, the operating system, the clock of the
  cycle, the instance, and the identifiers the journal draws.\<close>

record cconfig =
  recovery_config :: rconfig
  machine :: os
  cycle_env :: env
  own_instance :: string
  draws :: "string list"

text \<open>Parts of the state: an operation on one part that raises leaves the part as it was.\<close>

definition onS :: "('s \<Rightarrow> 't) \<Rightarrow> (('t \<Rightarrow> 't) \<Rightarrow> 's \<Rightarrow> 's) \<Rightarrow> ('t \<Rightarrow> ('t \<times> 'a) res) \<Rightarrow> 's \<Rightarrow> 's \<times> 'a res" where
  "onS get upd f s = (case f (get s) of Inl e \<Rightarrow> (s, Inl e) | Inr (t, x) \<Rightarrow> (upd (\<lambda>_. t) s, Inr x))"

definition registryS :: "(dfile option \<Rightarrow> (dfile option \<times> 'a) res) \<Rightarrow> 'a cycle" where
  "registryS = onS registry registry_update"

definition queueS :: "(wqueue \<Rightarrow> (wqueue \<times> 'a) res) \<Rightarrow> 'a cycle" where
  "queueS = onS work work_update"

definition processS :: "(store \<Rightarrow> (store \<times> 'a) res) \<Rightarrow> 'a cycle" where
  "processS = onS processes processes_update"

definition updateS :: "cconfig \<Rightarrow> string \<Rightarrow> obj \<Rightarrow> obj option cycle" where
  "updateS c run_id changes = registryS (update_run_entry (cycle_env c) run_id changes)"

definition journalS :: "cconfig \<Rightarrow> string \<Rightarrow> string \<Rightarrow> obj \<Rightarrow> json cycle" where
  "journalS c event_type run_id payload s =
     (case append_event (cycle_env c) (JStr (own_instance c)) (JStr event_type) payload (JStr run_id) JNull JNull (draws c) (log s) of
        (j, r) \<Rightarrow> (s\<lparr>log := j\<rparr>, r))"

text \<open>\<open>except (KeyError, PermissionError): pass\<close>.\<close>

definition swallowS :: "'a cycle \<Rightarrow> unit cycle" where
  "swallowS m s = (case m s of
     (s1, Inl e) \<Rightarrow> (s1, case e of KeyError _ \<Rightarrow> Inr () | PermissionError \<Rightarrow> Inr () | _ \<Rightarrow> Inl e)
   | (s1, Inr _) \<Rightarrow> (s1, Inr ()))"

definition result_of :: "string \<Rightarrow> json \<Rightarrow> obj \<Rightarrow> obj" where
  "result_of res_kind action extra = [(''outcome'', JStr res_kind), (''action'', action)] @ extra"

definition noop_action :: "cconfig \<Rightarrow> string \<Rightarrow> string \<Rightarrow> string \<Rightarrow> string \<Rightarrow> json \<Rightarrow> obj cycle" where
  "noop_action c run_id action status next_action wait_reason = bindS (updateS c run_id [(''status'', JStr status), (''last_action'', JStr action), (''next_action'', JStr next_action),
          (''wait_reason'', wait_reason)]) (\<lambda>entry.
     doneS (result_of ''ok'' (JStr action) []))"

definition cancel_action :: "cconfig \<Rightarrow> string \<Rightarrow> obj \<Rightarrow> obj cycle" where
  "cancel_action c run_id observation = bindS (liftS (jget (por (oget observation ''process'') (JObj [])) ''lease_epoch'')) (\<lambda>epoch.
     bindS (processS (terminate_process (machine c) (cycle_env c) run_id epoch)) (\<lambda>result.
     bindS (journalS c ''process_cancelled'' run_id [(''result'', oget result ''outcome'')]) (\<lambda>event.
     bindS (updateS c run_id [(''status'', JStr ''cancelled_process''), (''last_action'', JStr ''cancel_process''),
          (''next_action'', JStr ''observe''), (''wait_reason'', JStr ''terminal'')]) (\<lambda>entry.
     doneS [(''outcome'', oget result ''outcome''), (''action'', JStr ''cancel_process''), (''detail'', JObj result)]))))"

text \<open>The lease with which the start is acknowledged and completed.\<close>

definition start_lease :: "obj \<Rightarrow> int \<Rightarrow> (string \<times> json \<times> int) res" where
  "start_lease leased epoch = bindR (jitem (JObj leased) ''id'') (\<lambda>item_id.
     bindR (int_field leased ''lease_epoch'' epoch) (\<lambda>lease_epoch.
     Inr (py_str item_id, JStr (py_str (por (oget leased ''lease_id'') (JStr ''bootstrap''))), lease_epoch)))"

definition start_action :: "cconfig \<Rightarrow> string \<Rightarrow> int \<Rightarrow> obj \<Rightarrow> obj cycle" where
  "start_action c run_id workers observation = bindS ((\<lambda>s. (s, Inr (grant_has_remaining_use (recovery_config c) (cycle_env c)
          (files (disk (fst (governed s)))) (oget observation ''grant_id''))))) (\<lambda>checked.
     bindS (liftS checked) (\<lambda>(usable, grant_reason).
     (if truthy (oget observation ''grant_id'') \<and> startswith grant_reason ''grant status'' then        bindS (updateS c run_id [(''status'', JStr ''needs_human''), (''last_action'', JStr ''start_orchestrator''),
            (''wait_reason'', JStr grant_reason)])
         (\<lambda>_. doneS (result_of ''needs_human'' (JStr ''start_orchestrator'') [(''reason'', JStr grant_reason)])) else
     bindS (liftS (jget (por (oget observation ''process'') (JObj [])) ''lease_epoch'')) (\<lambda>last_epoch.
     bindS (liftS (py_int (por last_epoch (JInt 0)))) (\<lambda>before.
     (let epoch = before + 1 in
     bindS (queueS (enqueue (cycle_env c) (JStr run_id) (JStr ''start_orchestrator'')
          [(''workers'', JInt workers), (''lease_epoch'', JInt epoch)] 0
          (JStr (''start:'' @ run_id @ '':'' @ int_text epoch)) 3)) (\<lambda>queue_item.
     bindS (queueS (lease_next (cycle_env c) (JStr (''supervisor-'' @ take 8 (own_instance c))) 60000000)) (\<lambda>found.
     (let leased = (case found of None \<Rightarrow> queue_item | Some d \<Rightarrow> d) in
     bindS (liftS (start_lease leased epoch)) (\<lambda>(item_id, lease_id, lease_epoch).
     bindS (swallowS (queueS (acknowledge (cycle_env c) item_id lease_id lease_epoch (JStr ''starting'')))) (\<lambda>_.
     bindS (processS (\<lambda>p. Inr (start_orchestrator_process (machine c) (cycle_env c) run_id workers epoch p))) (\<lambda>process_doc.
     bindS (swallowS (queueS (complete (cycle_env c) item_id lease_id lease_epoch (JStr ''running'') [(''pid'', oget process_doc ''pid'')]))) (\<lambda>_.
     bindS (journalS c ''orchestrator_started'' run_id [(''pid'', oget process_doc ''pid''), (''epoch'', JInt epoch)]) (\<lambda>event.
     bindS (updateS c run_id [(''status'', JStr ''running''), (''last_action'', JStr ''start_orchestrator''),
          (''next_action'', JStr ''observe''), (''active_pid'', oget process_doc ''pid''), (''lease_epoch'', JInt epoch)]) (\<lambda>entry.
     doneS (result_of ''started'' (JStr ''start_orchestrator'') [(''process'', JObj process_doc)]))))))))))))))))"

definition governedS :: "(rstate \<Rightarrow> rstate \<times> 'a res) \<Rightarrow> 'a cycle" where
  "governedS m s = (case m (governed s) of (g, r) \<Rightarrow> (s\<lparr>governed := g\<rparr>, r))"

definition observeS :: "cconfig \<Rightarrow> string \<Rightarrow> obj cycle" where
  "observeS c run_id s = (s, observe_run (machine c) (cycle_env c) (files (disk (fst (governed s)))) (processes s) run_id)"

definition recover_action :: "cconfig \<Rightarrow> string \<Rightarrow> string \<Rightarrow> int \<Rightarrow> int \<Rightarrow> obj cycle" where
  "recover_action c run_id action workers max_recoveries = bindS (governedS (recover_run (recovery_config c) run_id max_recoveries)) (\<lambda>recovery.
     bindS (journalS c ''recovery_attempt'' run_id [(''outcome'', oget recovery ''outcome''),
          (''new_run_id'', oget recovery ''new_run_id''), (''reason'', oget recovery ''reason'')]) (\<lambda>event.
     (let new_run_id = oget recovery ''new_run_id'' in
     (if oget recovery ''outcome'' = JStr ''recovered'' \<and> truthy new_run_id then bindS (registryS (unregister_run (cycle_env c) run_id)) (\<lambda>dropped.
         bindS (registryS (register_run (cycle_env c) (py_str new_run_id) workers max_recoveries [(''recovered_from'', JStr run_id)])) (\<lambda>entry.
         bindS (observeS c (py_str new_run_id)) (\<lambda>observation.
         bindS (start_action c (py_str new_run_id) workers observation) (\<lambda>started.
         doneS (result_of ''recovered'' (JStr action) [(''recovery'', JObj recovery), (''start'', JObj started)]))))) else
     (if oget recovery ''outcome'' = JStr ''abandoned'' then bindS (queueS (dead_letter (cycle_env c) (''recovery-'' @ run_id)
              (JObj [(''code'', JStr ''max_recoveries''), (''message'', oget recovery ''reason'')])
              (Some [(''id'', JStr (''recovery-'' @ run_id)), (''run_id'', JStr run_id), (''kind'', JStr ''recovery''),
                     (''state'', JStr ''dead_letter'')]))) (\<lambda>dead.
         bindS (updateS c run_id [(''status'', JStr ''dead_letter''), (''last_action'', JStr action),
              (''wait_reason'', JStr ''max_recoveries'')]) (\<lambda>entry.
         doneS (result_of ''dead_letter'' (JStr action) [(''recovery'', JObj recovery)]))) else
     bindS (updateS c run_id [(''status'', JStr ''needs_human''), (''last_action'', JStr action),
          (''wait_reason'', oget recovery ''reason'')]) (\<lambda>entry.
     doneS (result_of ''needs_human'' (JStr action) [(''recovery'', JObj recovery)])))))))"

definition human_action :: "cconfig \<Rightarrow> string \<Rightarrow> obj \<Rightarrow> obj \<Rightarrow> obj cycle" where
  "human_action c run_id observation plan = bindS (liftS (jget (por (oget observation ''process'') (JObj [])) ''lease_epoch'')) (\<lambda>epoch.
     bindS ((if oget plan ''wait_reason'' = JStr ''work_units_blocked'' \<and> truthy (oget observation ''process_alive'')
         then bindS (processS (terminate_process (machine c) (cycle_env c) run_id epoch)) (\<lambda>_. doneS ())
         else doneS ())) (\<lambda>_.
     bindS (updateS c run_id [(''status'', JStr ''needs_human''), (''last_action'', JStr ''needs_human''),
          (''wait_reason'', oget plan ''reason'')]) (\<lambda>entry.
     bindS (journalS c ''needs_human'' run_id [(''reason'', oget plan ''reason'')]) (\<lambda>event.
     doneS (result_of ''needs_human'' (JStr ''needs_human'') [(''reason'', oget plan ''reason'')])))))"

definition execute_action :: "cconfig \<Rightarrow> string \<Rightarrow> obj \<Rightarrow> obj \<Rightarrow> obj \<Rightarrow> obj cycle" where
  "execute_action c run_id entry observation plan = bindS (liftS (jitem (JObj plan) ''action'')) (\<lambda>action.
     bindS (liftS (int_field entry ''workers'' 1)) (\<lambda>workers.
     bindS (liftS (int_field entry ''max_recoveries'' 3)) (\<lambda>max_recoveries.
     (if action = JStr ''noop_healthy'' then noop_action c run_id ''noop_healthy'' ''healthy'' ''observe'' JNull
      else if action = JStr ''noop_terminal'' then noop_action c run_id ''noop_terminal'' ''terminal'' ''none'' (JStr ''terminal'')
      else if action = JStr ''noop_supervised'' then
        noop_action c run_id ''noop_supervised'' ''supervised'' ''observe'' (JStr ''supervised_mode'')
      else if action = JStr ''cancel_process'' then cancel_action c run_id observation
      else if action = JStr ''start_orchestrator'' then start_action c run_id workers observation
      else if action = JStr ''recover_orphan'' \<or> action = JStr ''recover_stalled'' then
        recover_action c run_id (py_str action) workers max_recoveries
      else if action = JStr ''needs_human'' then human_action c run_id observation plan
      else doneS (result_of ''unknown_action'' action [])))))"

fun registered_entry :: "string \<Rightarrow> obj list \<Rightarrow> obj res" where
  "registered_entry run_id [] = Inr [(''run_id'', JStr run_id), (''workers'', JInt 1), (''max_recoveries'', JInt 3)]"
| "registered_entry run_id (item # rest) = bindR (jitem (JObj item) ''run_id'') (\<lambda>own.
     (if py_eq own (JStr run_id) then Inr item else
     registered_entry run_id rest))"

definition cycle_entry :: "string \<Rightarrow> obj option \<Rightarrow> dfile option \<Rightarrow> obj res" where
  "cycle_entry run_id given f =
     (case given of
        Some (kv # kvs) \<Rightarrow> Inr (kv # kvs)
      | _ \<Rightarrow> bindR (list_registered_runs f) (registered_entry run_id))"

text \<open>Up to the plan: expired leases are reclaimed, the journal is drained, the Run is observed.\<close>

definition reclaimS :: "cconfig \<Rightarrow> obj list cycle" where
  "reclaimS c s = (case reclaim_expired_leases (cycle_env c) (work s) of (q, r) \<Rightarrow> (s\<lparr>work := q\<rparr>, r))"

definition drainS :: "json list cycle" where
  "drainS s = (case iter_events 0 (log s) of (j, r) \<Rightarrow> (s\<lparr>log := j\<rparr>, r))"

definition plan_cycle :: "cconfig \<Rightarrow> string \<Rightarrow> obj option \<Rightarrow> (obj \<times> obj \<times> obj) cycle" where
  "plan_cycle c run_id entry = bindS (reclaimS c) (\<lambda>reclaimed.
     bindS (drainS) (\<lambda>drained.
     bindS ((\<lambda>s. (s, cycle_entry run_id entry (registry s)))) (\<lambda>resolved_entry.
     bindS (observeS c run_id) (\<lambda>observation.
     bindS (liftS (choose_action observation)) (\<lambda>plan.
     doneS (resolved_entry, observation, plan))))))"

definition reconcile_run :: "cconfig \<Rightarrow> string \<Rightarrow> obj option \<Rightarrow> obj cycle" where
  "reconcile_run c run_id entry = bindS (plan_cycle c run_id entry) (\<lambda>(resolved_entry, observation, plan).
     bindS (execute_action c run_id resolved_entry observation plan) (\<lambda>result.
     doneS [(''run_id'', JStr run_id), (''observation'', JObj observation), (''plan'', JObj plan), (''result'', JObj result)]))"

end
