(* ===== verification/RecoverySafety.thy ===== *)
theory RecoverySafety
  imports Recovery GatewaySafety
begin

text \<open>
  What a recovery guarantees: a replacement Run is opened only by an accepted \<open>OpenRun\<close> command,
  only for an unattended Run that ended with a recoverable stop, and at most as often as the
  bound allows; and what its check of the grant does not see.
\<close>

section \<open>Inverting steps\<close>

named_theorems steps_simps \<open>inverting the steps of a recovery\<close>

lemma bindS_Inr [steps_simps]:
  "bindS m f s = (s', Inr y) \<longleftrightarrow> (\<exists>s1 x. m s = (s1, Inr x) \<and> f x s1 = (s', Inr y))"
  by (auto simp: bindS_def split: prod.splits sum.splits)

lemma liftS_Inr [steps_simps]: "liftS r s = (s', Inr x) \<longleftrightarrow> s' = s \<and> r = Inr x"
  by (auto simp: liftS_def)

lemma doneS_Inr [steps_simps]: "doneS x s = (s', Inr y) \<longleftrightarrow> s' = s \<and> y = x"
  by (auto simp: doneS_def liftS_def)

lemma readS_Inr [steps_simps]: "readS f s = (s', Inr x) \<longleftrightarrow> s' = s \<and> x = f (files (disk (fst s)))"
  by (auto simp: readS_def)

lemma nowS_Inr [steps_simps]: "nowS c s = (s', Inr env) \<longleftrightarrow> s' = s \<and> env = clock c (snd s)"
  by (cases s) (auto simp: nowS_def)

lemma write_recovery_state_Inr [steps_simps]:
  "write_recovery_state i d s = (s', Inr u) \<longleftrightarrow> s' = fst (write_recovery_state i d s)"
  by (cases s) (auto simp: write_recovery_state_def)

lemma if_steps [steps_simps]:
  "(if b then m else m') s = (s', Inr y) \<longleftrightarrow> (b \<and> m s = (s', Inr y)) \<or> (\<not> b \<and> m' s = (s', Inr y))"
  by simp

lemma send_Inr:
  "send c command s = (s', Inr (receipt, x)) \<longleftrightarrow>
     (\<exists>g1. execute_command (gateway_config c) (clock c (snd s)) (fst s) (command (clock c (snd s))) = Inr (g1, receipt, x)
       \<and> s' = (g1, Suc (snd s)))"
  by (cases s) (auto simp: send_def split: sum.splits)

section \<open>The states a recovery goes through\<close>

text \<open>
  A recovery changes the state only by sending commands, each with the next clock, and by writing
  its own state file; a stage that does nothing else is \<open>steady\<close>.
\<close>

inductive recovery_steps :: "rconfig \<Rightarrow> rstate \<Rightarrow> rstate \<Rightarrow> bool" for c where
  at_rest: "recovery_steps c s s"
| sent: "recovery_steps c s s1 \<Longrightarrow> send c command s1 = (s2, answer) \<Longrightarrow> recovery_steps c s s2"
| noted: "recovery_steps c s s1 \<Longrightarrow> write_recovery_state i d s1 = (s2, done) \<Longrightarrow> recovery_steps c s s2"

lemma steps_trans: "recovery_steps c s1 s2 \<Longrightarrow> recovery_steps c s s1 \<Longrightarrow> recovery_steps c s s2"
  by (induction rule: recovery_steps.induct) (auto intro: recovery_steps.intros)

definition steady :: "rconfig \<Rightarrow> 'a steps \<Rightarrow> bool" where
  "steady c m \<longleftrightarrow> (\<forall>s. recovery_steps c s (fst (m s)))"

named_theorems steady_intros \<open>stages that only send commands and write the state file\<close>

lemma steadyD: "steady c m \<Longrightarrow> m s = (s', r) \<Longrightarrow> recovery_steps c s s'"
  unfolding steady_def by (metis fst_conv)

lemma steady_bindS [steady_intros]: "steady c m \<Longrightarrow> (\<And>x. steady c (f x)) \<Longrightarrow> steady c (bindS m f)"
  by (auto simp: steady_def bindS_def split: prod.splits sum.splits) (metis fst_conv steps_trans)+

lemma steady_still [steady_intros]: "steady c (liftS r)" "steady c (doneS x)" "steady c (readS f)" "steady c (nowS c)"
  by (auto simp: steady_def liftS_def doneS_def readS_def nowS_def intro: at_rest)

lemma steady_send [steady_intros]: "steady c (send c command)"
  unfolding steady_def using recovery_steps.sent [OF at_rest] by (metis prod.collapse)

lemma steady_write [steady_intros]: "steady c (write_recovery_state i d)"
  unfolding steady_def using recovery_steps.noted [OF at_rest] by (metis prod.collapse)

lemma steady_if [steady_intros]: "steady c m \<Longrightarrow> steady c m' \<Longrightarrow> steady c (if b then m else m')"
  by simp

lemma steady_collectS [steady_intros]: "(\<And>x. steady c (f x)) \<Longrightarrow> steady c (collectS f xs)"
  by (induction xs) (auto intro!: steady_intros)

lemma steady_prod [steady_intros]: "(\<And>x y. steady c (f x y)) \<Longrightarrow> steady c (case p of (x, y) \<Rightarrow> f x y)"
  by (cases p) simp

lemma steady_sum [steady_intros]: "(\<And>x. steady c (f x)) \<Longrightarrow> (\<And>y. steady c (g y)) \<Longrightarrow> steady c (case r of Inl x \<Rightarrow> f x | Inr y \<Rightarrow> g y)"
  by (cases r) simp_all

lemma steady_close_source: "steady c (close_source c i run)"
  unfolding close_source_def release_active_leases_def close_active_run_def Let_def by (intro steady_intros)

lemma steady_reset: "steady c (reset_recoverable_work_units c run)"
  unfolding reset_recoverable_work_units_def by (intro steady_intros)

lemma steady_observation: "steady c (record_recovery_observation c i k new)"
  unfolding record_recovery_observation_def by (intro steady_intros)

section \<open>The replacement Run\<close>

text \<open>The Run document a recovery opens, as the files hold it.\<close>

definition replacement_kept :: "store \<Rightarrow> string \<Rightarrow> string \<Rightarrow> int \<Rightarrow> bool" where
  "replacement_kept s new origin n \<longleftrightarrow> (\<exists>doc. map_of s (run_path (JStr new)) = Some (Doc (JObj doc))
     \<and> oget doc ''id'' = JStr new \<and> oget doc ''status'' = JStr ''active'' \<and> oget doc ''revision'' = JInt 1
     \<and> oget doc ''recovery_root_run_id'' = JStr origin \<and> oget doc ''recovery_attempt_number'' = JInt n)"

text \<open>The identifiers of the \<open>k\<close>th command are new: no receipt under its key, no transaction directory.\<close>

definition ids_new :: "rconfig \<Rightarrow> nat \<Rightarrow> gstate \<Rightarrow> bool" where
  "ids_new c k g \<longleftrightarrow>
     map_of (records_kept g) (sha (clock c k) (''idem-night-recovery-'' @ uuid (clock c k))) = None
     \<and> tx_of (disk g) (transaction_id_of (clock c k)) = empty_tx"

text \<open>The handler of \<open>RecordObservation\<close>, which is not modelled, plans observations only.\<close>

definition observations_only :: "config \<Rightarrow> bool" where
  "observations_only cfg \<longleftrightarrow> (\<forall>h env s e r. map_of (other_handlers cfg) ''RecordObservation'' = Some h \<longrightarrow>
     h env s e = Inr r \<longrightarrow> list_all (\<lambda>(p, j). startswith p ''observations/'') (r_writes r))"

text \<open>A command of the recovery that is performed for the first time.\<close>

lemma recovery_command_performed:
  assumes "execute_command cfg env g (JObj (recovery_envelope ty target payload i env @ rest)) = Inr (g1, receipt, EXIT_OK)"
    and "map_of (records_kept g) (sha env (''idem-night-recovery-'' @ uuid env)) = None"
    and "tx_of (disk g) (transaction_id_of env) = empty_tx"
  shows "\<exists>handler r. find_handler cfg (JStr ty) = Inr handler
    \<and> handler env (files (disk g)) (JObj (recovery_envelope ty target payload i env @ rest)) = Inr r
    \<and> files (disk g1) = apply_writes (r_writes r) (files (disk g))"
proof -
  let ?e = "JObj (recovery_envelope ty target payload i env @ rest)"
  have admitted: "ty' = JStr ty \<and> k = ''idem-night-recovery-'' @ uuid env" if "admit cfg env g ?e = Inr (ty', JStr k, fp)" for ty' k fp
    using that by (auto simp: admit_def recovery_envelope_def split: if_splits)
  from execute_accepted [OF assms(1)] show ?thesis
  proof (cases rule: gateway_body_success)
    case (cached ty' k fp)
    then show ?thesis using admitted [OF cached(2)] assms(2) by (simp add: lookup_record_def)
  next
    case (performed command_id ty' k fp r d1)
    then show ?thesis using admitted [OF performed(3)] perform_success [OF performed(5) assms(3)] by auto
  qed
qed

lemma ohas_JStr: "oget ob k = JStr x \<Longrightarrow> ohas ob k"
  by (auto simp: oget_def ohas_def split: option.splits)

lemma opened_document:
  assumes "handle_open_run env s (open_command new payload grant_id env) = Inr r"
    and "oget payload ''id'' = JStr new" "oget payload ''status'' = JStr ''active''"
    and "oget payload ''recovery_root_run_id'' = JStr origin" "oget payload ''recovery_attempt_number'' = JInt n"
  shows "replacement_kept (apply_writes (r_writes r) s) new origin n"
  using assms(1)
proof (rule open_run_success)
  fix rid pl pre w ids ceilings ra gid grant preset policy policy_hash grant1
  let ?doc = "set_keys
           [(''effective_autonomy_policy'', policy), (''effective_autonomy_policy_hash'', policy_hash),
            (''autonomy_preset'', por preset (JStr ''supervised_copilots'')),
            (''run_authorization_grant_id'', gid)]
           (set_keys [(''execution_ceilings_by_work_unit'', JObj ceilings)] (new_run_document env rid pl))"
  assume a: "target_id (open_command new payload grant_id env) = Inr rid"
    "jitem (open_command new payload grant_id env) ''payload'' = Inr (JObj pl)"
    "r_writes r = [(grant_path gid, grant1), (run_path rid, JObj ?doc)]"
  have pl: "pl = payload" "rid = JStr new"
    using a(1,2) by (auto simp: open_command_def recovery_envelope_def target_id_def)
  have "map_of (apply_writes (r_writes r) s) (run_path rid) = Some (Doc (JObj ?doc))" unfolding a(3) by simp
  moreover have "oget ?doc ''id'' = JStr new" "oget ?doc ''status'' = JStr ''active''" "oget ?doc ''revision'' = JInt 1"
      "oget ?doc ''recovery_root_run_id'' = JStr origin" "oget ?doc ''recovery_attempt_number'' = JInt n"
    using assms(2-5) ohas_JStr [OF assms(3)] unfolding pl by (simp_all add: new_run_document_def)
  ultimately show ?thesis unfolding replacement_kept_def pl(2) by blast
qed

section \<open>The stages\<close>

lemma hand_over_outcome:
  "hand_over c rid i n reason extra b s = (s', Inr r) \<Longrightarrow> oget r ''outcome'' = JStr ''needs_human''"
  by (auto simp: hand_over_def Let_def steps_simps recovery_result_def)

lemma bindSE:
  assumes "bindS m f s = (s', Inr y)"
  obtains s1 x where "m s = (s1, Inr x)" "f x s1 = (s', Inr y)"
  using assms by (auto simp: bindS_Inr)

text \<open>The accepted \<open>OpenRun\<close>, executed by the gateway in the state the recovery is in.\<close>

definition open_accepted :: "rconfig \<Rightarrow> rstate \<Rightarrow> string \<Rightarrow> string \<Rightarrow> int \<Rightarrow> rstate \<Rightarrow> bool" where
  "open_accepted c s new origin n s' \<longleftrightarrow> (\<exists>receipt payload grant_id.
     execute_command (gateway_config c) (clock c (snd s)) (fst s) (open_command new payload grant_id (clock c (snd s)))
       = Inr (fst s', receipt, EXIT_OK) \<and> snd s' = Suc (snd s)
     \<and> oget payload ''id'' = JStr new \<and> oget payload ''status'' = JStr ''active''
     \<and> oget payload ''recovery_root_run_id'' = JStr origin \<and> oget payload ''recovery_attempt_number'' = JInt n)"

lemma open_recovery_run_opened:
  assumes "open_recovery_run c src n rid shas s = (s', Inr (Some i, es))"
  shows "open_accepted c s i rid n s'"
proof -
  obtain payload grant_id receipt x where
    p: "recovery_payload src i n rid shas = Inr payload" and
    sent: "send c (open_command i payload grant_id) s = (s', Inr (receipt, x))" "x = 0"
    using assms unfolding open_recovery_run_def Let_def
    by (elim bindSE) (auto simp: steps_simps split: if_splits)
  have "oget payload ''id'' = JStr i \<and> oget payload ''status'' = JStr ''active'' \<and> oget payload ''recovery_root_run_id'' = JStr rid
      \<and> oget payload ''recovery_attempt_number'' = JInt n"
    using p by (auto simp: recovery_payload_def)
  then show ?thesis using sent unfolding send_Inr open_accepted_def EXIT_OK_def by force
qed

lemma open_accepted_kept:
  assumes "open_accepted c s new origin n s'" and "ids_new c (snd s) (fst s)"
  shows "replacement_kept (files (disk (fst s'))) new origin n"
proof -
  obtain receipt payload grant_id where o: "execute_command (gateway_config c) (clock c (snd s)) (fst s)
        (open_command new payload grant_id (clock c (snd s))) = Inr (fst s', receipt, EXIT_OK)"
      "oget payload ''id'' = JStr new" "oget payload ''status'' = JStr ''active''"
      "oget payload ''recovery_root_run_id'' = JStr origin" "oget payload ''recovery_attempt_number'' = JInt n"
    using assms(1) by (auto simp: open_accepted_def)
  have "find_handler (gateway_config c) (JStr ''OpenRun'') = Inr handle_open_run"
    by (simp add: find_handler_def key_of_def HANDLERS_def)
  then obtain r where "handle_open_run (clock c (snd s)) (files (disk (fst s))) (open_command new payload grant_id (clock c (snd s))) = Inr r"
      "files (disk (fst s')) = apply_writes (r_writes r) (files (disk (fst s)))"
    using recovery_command_performed [OF o(1) [unfolded open_command_def]] assms(2)
    by (auto simp: ids_new_def open_command_def)
  then show ?thesis using opened_document [OF _ o(2-5)] by simp
qed

text \<open>What follows the opening: the state file and an observation.\<close>

definition concluded :: "rconfig \<Rightarrow> string \<Rightarrow> string \<Rightarrow> obj \<Rightarrow> string \<Rightarrow> rstate \<Rightarrow> rstate \<Rightarrow> bool" where
  "concluded c origin i r new s s' \<longleftrightarrow>
     record_recovery_observation c i ''recovered'' (Some new) (fst (write_recovery_state origin r s)) = (s', Inr ())"

lemma run_path_no_state: "run_path i \<noteq> recovery_state_path origin"
proof
  assume "run_path i = recovery_state_path origin"
  then have "last (run_path i) = last (recovery_state_path origin)" by simp
  then show False by (simp add: run_path_def recovery_state_path_def)
qed

lemma no_observation_paths: "\<not> startswith (run_path i) ''observations/''" "\<not> startswith (recovery_state_path origin) ''observations/''"
  by (simp_all add: run_path_def recovery_state_path_def startswith_def)

lemma observation_writes:
  assumes "record_recovery_observation c i k new s = (s', Inr ())" and "observations_only (gateway_config c)"
    and "ids_new c (snd s) (fst s)" and "\<not> startswith p ''observations/''"
  shows "map_of (files (disk (fst s'))) p = map_of (files (disk (fst s))) p"
proof -
  let ?env = "clock c (snd s)"
  obtain receipt x where e: "execute_command (gateway_config c) ?env (fst s) (observation_command i k new ?env) = Inr (fst s', receipt, x)"
    using assms(1) by (auto simp: record_recovery_observation_def send_Inr doneS_Inr elim!: bindSE)
  show ?thesis using e
  proof (cases rule: execute_cases)
    case accepted
    obtain target payload where cmd: "observation_command i k new ?env
        = JObj (recovery_envelope ''RecordObservation'' target payload i ?env @ [])"
      unfolding observation_command_def Let_def append_Nil2 by blast
    have "execute_command (gateway_config c) ?env (fst s) (JObj (recovery_envelope ''RecordObservation'' target payload i ?env @ []))
        = Inr (fst s', receipt, EXIT_OK)" using e accepted(2) cmd by simp
    from recovery_command_performed [OF this] assms(3) obtain handler env' ob r where
        h: "find_handler (gateway_config c) (JStr ''RecordObservation'') = Inr handler" "handler env' (files (disk (fst s))) ob = Inr r"
        "files (disk (fst s')) = apply_writes (r_writes r) (files (disk (fst s)))"
      by (auto simp: ids_new_def)
    have "map_of (other_handlers (gateway_config c)) ''RecordObservation'' = Some handler"
      using h(1) by (simp add: find_handler_def key_of_def HANDLERS_def split: option.splits)
    then have "list_all (\<lambda>(p, j). startswith p ''observations/'') (r_writes r)"
      using assms(2) h(2) unfolding observations_only_def by blast
    then have "p \<notin> fst ` set (r_writes r)" using assms(4) by (auto simp: list_all_iff)
    then show ?thesis by (simp add: h(3) map_of_apply_writes_other)
  qed simp
qed

lemma concluded_kept:
  assumes "concluded c origin i r new s s'" and "observations_only (gateway_config c)" and "ids_new c (snd s) (fst s)"
    and "replacement_kept (files (disk (fst s))) new origin' n" and "oget r ''attempts'' = JInt n"
  shows "replacement_kept (files (disk (fst s'))) new origin' n \<and> prior_recoveries (files (disk (fst s'))) origin = Inr n"
proof -
  let ?s = "fst (write_recovery_state origin r s)"
  have w: "map_of (files (disk (fst ?s))) p = (if p = recovery_state_path origin then Some (Doc (JObj r)) else map_of (files (disk (fst s))) p)" for p
    by (cases s) (simp add: write_recovery_state_def)
  have "ids_new c (snd ?s) (fst ?s)"
    using assms(3) by (cases s) (simp add: write_recovery_state_def ids_new_def tx_of_def)
  note same = observation_writes [OF assms(1) [unfolded concluded_def] assms(2) this]
  have "map_of (files (disk (fst s'))) (run_path (JStr new)) = map_of (files (disk (fst s))) (run_path (JStr new))"
    using same [OF no_observation_paths(1)] w run_path_no_state by simp
  moreover have "map_of (files (disk (fst s'))) (recovery_state_path origin) = Some (Doc (JObj r))"
    using same [OF no_observation_paths(2)] w by simp
  then have "prior_recoveries (files (disk (fst s'))) origin = Inr n"
    using assms(5) by (auto simp: prior_recoveries_def read_json_def oget_def split: option.splits)
  ultimately show ?thesis using assms(4) by (simp add: replacement_kept_def)
qed

definition replaced :: "rconfig \<Rightarrow> rstate \<Rightarrow> rstate \<Rightarrow> string \<Rightarrow> string \<Rightarrow> obj \<Rightarrow> string \<Rightarrow> int \<Rightarrow> bool" where
  "replaced c s s' origin i r new n \<longleftrightarrow> (\<exists>s1 s2. recovery_steps c s s1 \<and> open_accepted c s1 new origin n s2 \<and> concluded c origin i r new s2 s')"

lemma replace_run_recovered:
  assumes "replace_run c rid i n src shas s = (s', Inr r)" and "oget r ''outcome'' = JStr ''recovered''"
  shows "oget r ''attempts'' = JInt n \<and> (\<exists>new. oget r ''new_run_id'' = JStr new \<and> replaced c s s' rid i r new n)"
proof -
  from assms(1)[unfolded replace_run_def Let_def] obtain s1 errs where
    reset: "reset_recoverable_work_units c src s = (s1, Inr errs)" and
    rest: "(if errs \<noteq> [] then hand_over c rid i n ''work unit reset failed'' [(''errors'', JList (map JStr errs))] False
       else bindS (open_recovery_run c src n rid shas) (\<lambda>(new, es).
         bindS (write_recovery_state rid (replacement_result i n new es)) (\<lambda>_.
         bindS (record_recovery_observation c i (replacement_outcome new) new) (\<lambda>_.
         doneS (replacement_result i n new es))))) s1 = (s', Inr r)"
    by (elim bindSE)
  have "errs = []"
  proof (rule ccontr)
    assume "errs \<noteq> []"
    then have "hand_over c rid i n ''work unit reset failed'' [(''errors'', JList (map JStr errs))] False s1 = (s', Inr r)"
      using rest by simp
    from hand_over_outcome [OF this] assms(2) show False by simp
  qed
  with rest obtain new es s2 s3 s4 u v where new: "open_recovery_run c src n rid shas s1 = (s2, Inr (new, es))"
      and w: "write_recovery_state rid (replacement_result i n new es) s2 = (s3, Inr u)"
      and o: "record_recovery_observation c i (replacement_outcome new) new s3 = (s4, Inr v)"
      and r: "s' = s4" "r = replacement_result i n new es"
    by (simp only: simp_thms if_False) (elim bindSE, auto simp only: doneS_Inr split: prod.splits elim!: bindSE)
  obtain k where k: "new = Some k"
    using r(2) assms(2) by (cases new) (auto simp: replacement_result_def replacement_outcome_def recovery_result_def)
  have "concluded c rid i r k s2 s'"
    using w o by (simp add: concluded_def r k replacement_outcome_def)
  moreover have "open_accepted c s1 k rid n s2" using new k open_recovery_run_opened by simp
  moreover have "recovery_steps c s s1" using reset by (rule steadyD [OF steady_reset])
  ultimately have "replaced c s s' rid i r k n" unfolding replaced_def by blast
  then show ?thesis unfolding r(2) k by (auto simp: replacement_result_def recovery_result_def)
qed

lemma hand_over_not_recovered:
  "hand_over c rid i n reason extra b s = (s', Inr r) \<Longrightarrow> oget r ''outcome'' = JStr ''recovered'' \<Longrightarrow> False"
  by (drule hand_over_outcome) simp

text \<open>What a closed Run must be for its recovery to succeed.\<close>

definition recoverable_stop :: "obj \<Rightarrow> bool" where
  "recoverable_stop run \<longleftrightarrow> (let stop = py_str (por (oget run ''stop_condition'') (JStr [])) in
     stop \<in> set RECOVERABLE_STOPS \<and> stop \<notin> set HARD_STOPS)"

lemma recover_closed_recovered:
  assumes "recover_closed c rid i n src s = (s', Inr r)" and "oget r ''outcome'' = JStr ''recovered''"
  shows "recoverable_stop src \<and> oget r ''attempts'' = JInt n
    \<and> (\<exists>new. oget r ''new_run_id'' = JStr new \<and> replaced c s s' rid i r new n)"
proof -
  note go = hand_over_not_recovered [OF _ assms(2)]
  have stop: "recoverable_stop src"
  proof (rule ccontr)
    assume "\<not> recoverable_stop src"
    then have b: "py_str (por (oget src ''stop_condition'') (JStr [])) \<in> set HARD_STOPS \<or>
        py_str (por (oget src ''stop_condition'') (JStr [])) \<notin> set RECOVERABLE_STOPS"
      by (auto simp: recoverable_stop_def Let_def)
    from assms(1) [unfolded recover_closed_def Let_def if_P [OF b]] show False by (rule go)
  qed
  then have ok: "\<not> (py_str (por (oget src ''stop_condition'') (JStr [])) \<in> set HARD_STOPS \<or>
      py_str (por (oget src ''stop_condition'') (JStr [])) \<notin> set RECOVERABLE_STOPS)"
    by (simp add: recoverable_stop_def Let_def)
  have "\<exists>shas. replace_run c rid i n src shas s = (s', Inr r)"
    using assms(1) unfolding recover_closed_def Let_def if_not_P [OF ok]
    apply (elim bindSE)
    apply (simp only: if_steps)
    apply (elim disjE conjE)
     apply (drule go, erule FalseE)
    apply (elim bindSE)
    apply (simp only: split_paired_all prod.case if_steps)
    apply (elim disjE conjE)
     apply (drule go, erule FalseE)
    apply (simp only: readS_Inr liftS_Inr nowS_Inr)
    apply blast
    done
  then show ?thesis using stop replace_run_recovered [OF _ assms(2)] by blast
qed

definition recovery_root :: "string \<Rightarrow> obj \<Rightarrow> string" where
  "recovery_root run_id run = py_str (por (oget run ''recovery_root_run_id'') (JStr run_id))"

text \<open>The stages a successful recovery went through.\<close>

lemma recover_run_recovered:
  assumes "recover_run c run_id limit s = (s', Inr r)" and "oget r ''outcome'' = JStr ''recovered''"
    and "read_mapping (files (disk (fst s))) (run_path (JStr run_id)) = Inr run"
  shows "is_unattended_preset (oget run ''autonomy_preset'') \<and> (\<exists>prior closed s1.
    prior_recoveries (files (disk (fst s))) (recovery_root run_id run) = Inr prior \<and> prior + 1 \<le> limit \<and>
    close_source c run_id run s = (s1, Inr (Inr closed)) \<and>
    recover_closed c (recovery_root run_id run) run_id (prior + 1) closed s1 = (s', Inr r))"
proof -
  have body: "(if \<not> is_unattended_preset (oget run ''autonomy_preset'')
      then doneS (recovery_result ''needs_human'' run_id [] ''automatic recovery is restricted to unattended Runs'' [])
      else bindS (readS (\<lambda>s. prior_recoveries s (recovery_root run_id run))) (\<lambda>counted. bindS (liftS counted) (\<lambda>prior.
        if prior + 1 > limit
        then bindS (write_recovery_state (recovery_root run_id run) (recovery_result ''abandoned'' run_id [(''attempts'', JInt prior)]
          ''bounded recovery limit exhausted'' []))
          (\<lambda>_. doneS (recovery_result ''abandoned'' run_id [(''attempts'', JInt prior)] ''bounded recovery limit exhausted'' []))
        else bindS (close_source c run_id run) (\<lambda>closing. case closing of
            Inl errors \<Rightarrow> hand_over c (recovery_root run_id run) run_id (prior + 1) ''could not close active Run''
                             [(''errors'', JList errors)] False
          | Inr closed_run \<Rightarrow> recover_closed c (recovery_root run_id run) run_id (prior + 1) closed_run)))) s = (s', Inr r)"
    using assms(1) unfolding recover_run_def recovery_root_def Let_def
    by (simp add: bindS_def readS_def assms(3))
  have u: "is_unattended_preset (oget run ''autonomy_preset'')"
    using body assms(2) by (auto simp: doneS_Inr recovery_result_def split: if_splits)
  obtain prior where prior: "prior_recoveries (files (disk (fst s))) (recovery_root run_id run) = Inr prior"
      "(if prior + 1 > limit
        then bindS (write_recovery_state (recovery_root run_id run) (recovery_result ''abandoned'' run_id [(''attempts'', JInt prior)]
          ''bounded recovery limit exhausted'' []))
          (\<lambda>_. doneS (recovery_result ''abandoned'' run_id [(''attempts'', JInt prior)] ''bounded recovery limit exhausted'' []))
        else bindS (close_source c run_id run) (\<lambda>closing. case closing of
            Inl errors \<Rightarrow> hand_over c (recovery_root run_id run) run_id (prior + 1) ''could not close active Run''
                             [(''errors'', JList errors)] False
          | Inr closed_run \<Rightarrow> recover_closed c (recovery_root run_id run) run_id (prior + 1) closed_run)) s = (s', Inr r)"
    using body u by (auto simp: readS_Inr liftS_Inr elim!: bindSE)
  have bound: "\<not> prior + 1 > limit"
    using prior(2) assms(2) by (auto simp: doneS_Inr recovery_result_def elim!: bindSE split: if_splits)
  then obtain closing s1 where closing: "close_source c run_id run s = (s1, Inr closing)"
      "(case closing of
            Inl errors \<Rightarrow> hand_over c (recovery_root run_id run) run_id (prior + 1) ''could not close active Run''
                             [(''errors'', JList errors)] False
          | Inr closed_run \<Rightarrow> recover_closed c (recovery_root run_id run) run_id (prior + 1) closed_run) s1 = (s', Inr r)"
    using prior(2) by (auto elim: bindSE)
  moreover have "\<exists>closed. closing = Inr closed"
  proof (cases closing)
    case (Inl es)
    with closing(2)
    have "hand_over c (recovery_root run_id run) run_id (prior + 1) ''could not close active Run'' [(''errors'', JList es)] False s1 = (s', Inr r)"
      by simp
    then show ?thesis using hand_over_not_recovered [OF _ assms(2)] by blast
  qed simp
  ultimately show ?thesis using u prior(1) bound closing by fastforce
qed

text \<open>
  C22. A recovery that reports success recovered an unattended Run, after fewer than the given number
  of recoveries of the same root. In a state it reached from the one it started in, the gateway
  accepted its \<open>OpenRun\<close> command, which carries the number of the recovery; and it ended by writing
  its state file and recording an observation after that. When the identifiers of these two
  commands are new and observations are recorded under \<open>observations/\<close> only, then at the end the
  files hold the new Run, active, at revision 1, with its root and that number, and the next recovery of the root
  counts this one.
\<close>

theorem recovery_is_bounded:
  assumes "recover_run c run_id limit s = (s', Inr r)" and "oget r ''outcome'' = JStr ''recovered''"
    and "read_mapping (files (disk (fst s))) (run_path (JStr run_id)) = Inr run"
  shows "\<exists>prior new s1 s2. prior_recoveries (files (disk (fst s))) (recovery_root run_id run) = Inr prior \<and> prior < limit
    \<and> is_unattended_preset (oget run ''autonomy_preset'')
    \<and> oget r ''attempts'' = JInt (prior + 1) \<and> oget r ''new_run_id'' = JStr new
    \<and> recovery_steps c s s1 \<and> open_accepted c s1 new (recovery_root run_id run) (prior + 1) s2
    \<and> concluded c (recovery_root run_id run) run_id r new s2 s'
    \<and> (ids_new c (snd s1) (fst s1) \<and> ids_new c (snd s2) (fst s2) \<and> observations_only (gateway_config c) \<longrightarrow>
        replacement_kept (files (disk (fst s'))) new (recovery_root run_id run) (prior + 1)
        \<and> prior_recoveries (files (disk (fst s'))) (recovery_root run_id run) = Inr (prior + 1))"
proof -
  let ?origin = "recovery_root run_id run"
  from recover_run_recovered [OF assms] obtain prior closed s0 where
    p: "is_unattended_preset (oget run ''autonomy_preset'')"
      "prior_recoveries (files (disk (fst s))) ?origin = Inr prior" "prior + 1 \<le> limit"
      "close_source c run_id run s = (s0, Inr (Inr closed))"
      "recover_closed c ?origin run_id (prior + 1) closed s0 = (s', Inr r)" by blast
  from recover_closed_recovered [OF p(5) assms(2)] obtain new s1 s2 where
    q: "oget r ''attempts'' = JInt (prior + 1)" "oget r ''new_run_id'' = JStr new" "recovery_steps c s0 s1"
      "open_accepted c s1 new ?origin (prior + 1) s2" "concluded c ?origin run_id r new s2 s'" unfolding replaced_def by blast
  have "recovery_steps c s s1" using steps_trans [OF q(3) steadyD [OF steady_close_source p(4)]] .
  moreover have "ids_new c (snd s1) (fst s1) \<and> ids_new c (snd s2) (fst s2) \<and> observations_only (gateway_config c) \<longrightarrow>
      replacement_kept (files (disk (fst s'))) new ?origin (prior + 1) \<and> prior_recoveries (files (disk (fst s'))) ?origin = Inr (prior + 1)"
    using concluded_kept [OF q(5) _ _ open_accepted_kept [OF q(4)] q(1)] by blast
  moreover have "prior < limit" using p(3) by simp
  ultimately show ?thesis using p(1,2) q(1,2,4,5) by blast
qed

text \<open>
  A Run that ended with a hard stop, or with any stop that is not listed as recoverable, is
  never recovered.
\<close>

theorem hard_stop_is_not_recovered:
  assumes "recover_run c run_id limit s = (s', Inr r)"
    and "read_mapping (files (disk (fst s))) (run_path (JStr run_id)) = Inr run"
    and "oget run ''status'' \<noteq> JStr ''active''"
    and "py_str (por (oget run ''stop_condition'') (JStr [])) \<in> set HARD_STOPS
      \<or> py_str (por (oget run ''stop_condition'') (JStr [])) \<notin> set RECOVERABLE_STOPS"
  shows "oget r ''outcome'' \<noteq> JStr ''recovered''"
proof
  assume rec: "oget r ''outcome'' = JStr ''recovered''"
  from recover_run_recovered [OF assms(1) rec assms(2)] obtain prior closed s1 where
    p: "close_source c run_id run s = (s1, Inr (Inr closed))"
      "recover_closed c (recovery_root run_id run) run_id (prior + 1) closed s1 = (s', Inr r)" by blast
  from p(1) have "closed = run" using assms(3) by (simp add: close_source_def doneS_Inr)
  then show False using recover_closed_recovered [OF p(2) rec] assms(4) by (auto simp: recoverable_stop_def Let_def)
qed

text \<open>
  The check of the grant reads \<open>max_uses\<close> and \<open>status\<close>, which no grant has: a grant whose uses
  are used up, or that was revoked, passes it while it has not expired.
\<close>

lemma grant_check_sees_only_expiry:
  assumes "map_of s (grant_path (JStr i)) = Some (Doc (JObj grant))" and "i \<noteq> []"
    and "oget grant ''status'' = JNull" and "oget grant ''max_uses'' = JNull"
    and "oget grant ''uses_count'' = JInt n" and "oget grant ''expires_at'' = JStr (isoformat t)" and "in_range t"
  shows "grant_has_remaining_use c env s (JStr i) = Inr (now env < t, if now env < t then ''ok'' else ''grant expired'')"
  using assms
  by (auto simp: grant_has_remaining_use_def is_file_def read_json_def por_def Let_def in_strs_def not_less)

text \<open>
  A grant whose uses are used up, or that was revoked, passes the check of a recovery while it
  has not expired, although the domain rules say that it is exhausted.
\<close>

theorem used_up_grant_passes_recovery_check:
  assumes "map_of s (grant_path (JStr i)) = Some (Doc (JObj grant))" and "i \<noteq> []"
    and "oget grant ''status'' = JNull" and "oget grant ''max_uses'' = JNull"
    and "map_of grant ''uses_count'' = Some (JInt n)" and "map_of grant ''maximum_uses'' = Some (JInt m)" and "m \<le> n"
    and "oget grant ''expires_at'' = JStr (isoformat t)" and "in_range t" and "now env < t"
  shows "is_exhausted (JObj grant) = Inr True \<and> grant_has_remaining_use c env s (JStr i) = Inr (True, ''ok'')"
proof -
  have "oget grant ''uses_count'' = JInt n" using assms(5) by (simp add: oget_def)
  from grant_check_sees_only_expiry [OF assms(1-4) this assms(8,9)] assms(5-7,10) show ?thesis
    by (simp add: is_exhausted_def)
qed

section \<open>A recovery that succeeds\<close>

definition broken_run :: obj where
  "broken_run = [(''id'', JStr ''R''), (''status'', JStr ''failed''), (''stop_condition'', JStr ''orchestrator_process_failure''),
     (''autonomy_preset'', JStr ''unattended_conservative''), (''run_authorization_grant_id'', JStr ''G''),
     (''preflight'', JObj [(''tools'', JStr ''pass'')]), (''work_unit_ids'', JList [JStr ''A'']),
     (''execution_ceilings_by_work_unit'', demo_requested)]"

definition recovery_cfg :: rconfig where
  "recovery_cfg = \<lparr>gateway_config = demo_config\<lparr>active_bundle := Inr [(''control-plane'', JObj [(''role_id'', JStr ''control-plane''),
       (''writes'', JObj [(''authoritative_governance_commands'', JList [JStr ''OpenRun'']),
          (''non_authoritative_signal_commands'', JList [])])])]\<rparr>,
     clock = (\<lambda>n. (demo_env 0)\<lparr>uuid := replicate (Suc n) CHR ''u''\<rparr>), describe = (\<lambda>_. [])\<rparr>"

definition broken_state :: gstate where
  "broken_state = \<lparr>disk = \<lparr>files = [(''ensembles/E/members.yaml'', Doc (JObj [(''members'', JList [JObj [(''id'', JStr ''ui'')]])])),
       (''runs/R.yaml'', Doc (JObj broken_run))] @ demo_night_store, tx_dirs = []\<rparr>, records_kept = []\<rparr>"

definition new_run :: string where
  "new_run = ''RUN-RECOVERY-'' @ stamp 0 @ ''-'' @ int_text 1"

lemma new_run_nonempty [simp]: "new_run \<noteq> []"
  by (simp add: new_run_def)

definition new_payload :: obj where
  "new_payload = [(''id'', JStr new_run), (''opened_by'', JStr ''night-recovery-controller''), (''work_unit_ids'', JList [JStr ''A'']),
     (''status'', JStr ''active''), (''preflight'', JObj [(''tools'', JStr ''pass'')]), (''execution_ceilings_by_work_unit'', demo_requested),
     (''maximum_parallel_workers'', JInt 1), (''maximum_attempts_per_step'', JInt 3),
     (''maximum_remediation_cycles'', JInt 2), (''autonomy_preset'', JStr ''unattended_conservative''),
     (''recovery_root_run_id'', JStr ''R''), (''recovery_attempt_number'', JInt 1)]"

lemma broken_payload: "recovery_payload broken_run new_run 1 ''R'' [] = Inr new_payload"
  by (simp add: recovery_payload_def broken_run_def por_def int_or_def new_payload_def demo_requested_def)

definition open_new :: json where
  "open_new = open_command new_run new_payload (JStr ''G'') (demo_env 0)"

lemmas open_new_defs = open_new_def new_payload_def open_command_def recovery_envelope_def recovery_actor_def now_iso_def demo_env_def

lemma open_new_parsed: "parse_envelope open_new = Inr open_new"
  by (simp add: parse_envelope_def check_required_fields_def check_actor_def check_target_def
      check_immutable_def run_validator_def check_human_authorization_def open_new_defs REQUIRED_ENVELOPE_FIELDS_def
      need_def IMMUTABLE_UPDATE_COMMANDS_def COMMANDS_REQUIRING_HUMAN_AUTH_def envelope_validators_def
      validate_open_run_def target_kind_def object_with_def matches_target_id_def no_expected_revision_def payload_field_def por_def)

lemma open_new_authorized:
  "authorize_command (active_bundle (gateway_config recovery_cfg)) (demo_env 0) (files (disk broken_state)) open_new = Inr ()"
  by (simp add: authorize_command_def recovery_cfg_def open_new_defs load_role_ids_def jset_of_def in_set_def
      mem_list_def allowed_commands_for_role_def authorize_run_grant_def requires_design_human_def
      check_not_consumed_def RUN_SCOPED_COMMANDS_def STRICT_DESIGN_HUMAN_COMMANDS_def key_of_def broken_state_def night_eval)

lemma open_new_handled: "\<exists>r w ws. handle_open_run (demo_env 0) (files (disk broken_state)) open_new = Inr r
    \<and> r_writes r = w # ws \<and> ''ensembles/E/members.yaml'' \<notin> fst ` set (r_writes r)"
  by (simp add: open_new_defs broken_state_def night_eval new_run_def)

lemma broken_fresh: "tx_of (disk broken_state) i = empty_tx"
  by (simp add: tx_of_def broken_state_def)

lemma open_new_performed:
  obtains r d1 where "perform (gateway_config recovery_cfg) (demo_env 0) (disk broken_state) (JStr ''OpenRun'') open_new = Inr (r, d1)"
    "map_of (files d1) ''ensembles/E/members.yaml'' = map_of (files (disk broken_state)) ''ensembles/E/members.yaml''"
proof -
  let ?cfg = "gateway_config recovery_cfg" and ?env = "demo_env 0" and ?d = "disk broken_state"
  obtain r w ws where r: "handle_open_run ?env (files ?d) open_new = Inr r" "r_writes r = w # ws"
      "''ensembles/E/members.yaml'' \<notin> fst ` set (r_writes r)"
    using open_new_handled by blast
  let ?tx = "plan_all ?cfg ?d (transaction_id_of ?env) (r_writes r)"
  obtain d1 where "commit (document_hash ?cfg) (sha ?env) ?tx (snd (begin_transaction (transaction_id_of ?env) ?d)) = Inr d1"
    using commit_total [of "snd (begin_transaction (transaction_id_of ?env) ?d)" ?tx "document_hash ?cfg" "sha ?env"]
      broken_fresh r(2) by auto
  moreover have "find_handler ?cfg (JStr ''OpenRun'') = Inr handle_open_run"
    by (simp add: find_handler_def key_of_def HANDLERS_def)
  ultimately have "perform ?cfg ?env ?d (JStr ''OpenRun'') open_new = Inr (r, d1)"
    using r(1) open_new_authorized by (simp add: perform_def)
  moreover from perform_success [OF this broken_fresh] r(3)
  have "map_of (files d1) ''ensembles/E/members.yaml'' = map_of (files (disk broken_state)) ''ensembles/E/members.yaml''"
    by (simp add: map_of_apply_writes_other)
  ultimately show thesis by (rule that)
qed

definition night_ready :: "string \<Rightarrow> gstate \<Rightarrow> bool" where
  "night_ready u g \<longleftrightarrow> map_of (records_kept g) (''idem-night-recovery-'' @ u) = None \<and>
     map_of (files (disk g)) ''ensembles/E/members.yaml'' = map_of (files (disk broken_state)) ''ensembles/E/members.yaml''"

lemma night_admitted:
  "night_ready (uuid env) g \<Longrightarrow> sha env = id \<Longrightarrow>
   \<exists>fp. admit (gateway_config recovery_cfg) env g (JObj (recovery_envelope ty target payload i env @ rest))
     = Inr (JStr ty, JStr (''idem-night-recovery-'' @ uuid env), fp)
   \<and> lookup_record (sha env) (records_kept g) (''idem-night-recovery-'' @ uuid env) fp = Inr None"
  by (simp add: admit_def recovery_cfg_def demo_config_def broken_state_def night_ready_def lookup_record_def
      ensure_client_cycle_allowed_def is_framework_source_def ensure_out_of_tree_ensemble_ready_def
      declared_member_ids_def declared_members_def members_document_def ensemble_members_path_def ensemble_dir_def
      is_file_def read_yaml_def por_def is_out_of_tree_def payload_fingerprint_def recovery_envelope_def in_strs_def)

lemma open_new_executed:
  "\<exists>g1 receipt. execute_command (gateway_config recovery_cfg) (demo_env 0) broken_state open_new = Inr (g1, receipt, 0)
     \<and> receipt_errors receipt = Inr [] \<and> night_ready ''uu'' g1"
proof -
  obtain r d1 where p: "perform (gateway_config recovery_cfg) (demo_env 0) (disk broken_state) (JStr ''OpenRun'') open_new = Inr (r, d1)"
    "map_of (files d1) ''ensembles/E/members.yaml'' = map_of (files (disk broken_state)) ''ensembles/E/members.yaml''"
    by (rule open_new_performed)
  have "night_ready (uuid (demo_env 0)) broken_state" by (simp add: night_ready_def broken_state_def)
  then have "\<exists>fp. admit (gateway_config recovery_cfg) (demo_env 0) broken_state open_new
        = Inr (JStr ''OpenRun'', JStr (''idem-night-recovery-'' @ uuid (demo_env 0)), fp)
      \<and> lookup_record (sha (demo_env 0)) (records_kept broken_state) (''idem-night-recovery-'' @ uuid (demo_env 0)) fp = Inr None"
    unfolding open_new_def open_command_def by (rule night_admitted) (simp add: demo_env_def)
  moreover have "jget open_new ''command_id'' = Inr (JStr (''CMD-night-recovery-'' @ uuid (demo_env 0)))"
      "jitem open_new ''command_id'' = Inr (JStr (''CMD-night-recovery-'' @ uuid (demo_env 0)))"
    by (simp_all add: open_new_defs)
  moreover have "receipt_errors (accepted_receipt env i r) = Inr []" for env i
    by (simp add: receipt_errors_def accepted_receipt_def build_receipt_def por_def)
  moreover have "night_ready ''uu'' \<lparr>disk = d1, records_kept =
      store_record (sha (demo_env 0)) (''idem-night-recovery-'' @ uuid (demo_env 0)) fp x (records_kept broken_state)\<rparr>" for fp x
    using p(2) by (simp add: night_ready_def store_record_def broken_state_def demo_env_def split: prod.split)
  ultimately show ?thesis using p(1)
    by (auto simp: execute_command_def gateway_body_def open_new_parsed key_text_def Let_def EXIT_OK_def)
qed

lemma observation_refused:
  assumes "night_ready (uuid env) g" and "sha env = id"
  shows "\<exists>receipt x. execute_command (gateway_config recovery_cfg) env g (observation_command i k new env) = Inr (g, receipt, x)"
proof -
  let ?e = "observation_command i k new env"
  have parsed: "parse_envelope ?e = Inr ?e"
    by (simp add: parse_envelope_def check_required_fields_def check_actor_def check_target_def
      check_immutable_def run_validator_def check_human_authorization_def observation_command_def recovery_envelope_def
      recovery_actor_def now_iso_def REQUIRED_ENVELOPE_FIELDS_def Let_def
      need_def IMMUTABLE_UPDATE_COMMANDS_def COMMANDS_REQUIRING_HUMAN_AUTH_def envelope_validators_def
      validate_record_observation_def target_kind_def object_with_def por_def)
  have "authorize_command (active_bundle (gateway_config recovery_cfg)) env s ?e = gateway_error UNAUTHORIZED ''/type''" for s
    by (simp add: authorize_command_def recovery_cfg_def observation_command_def recovery_envelope_def recovery_actor_def
      load_role_ids_def jset_of_def in_set_def mem_list_def allowed_commands_for_role_def Let_def SUPPLEMENTAL_ROLE_COMMANDS_def)
  then have "perform (gateway_config recovery_cfg) env d ty ?e = gateway_error UNAUTHORIZED ''/type''" for d ty
    by (simp add: perform_def)
  moreover obtain fp where "admit (gateway_config recovery_cfg) env g ?e = Inr (JStr ''RecordObservation'', JStr (''idem-night-recovery-'' @ uuid env), fp)"
      "lookup_record (sha env) (records_kept g) (''idem-night-recovery-'' @ uuid env) fp = Inr None"
    using night_admitted [OF assms, of "''RecordObservation''" _ _ _ "[]"]
    unfolding observation_command_def Let_def append_Nil2 by blast
  moreover have "jget ?e ''command_id'' = Inr (JStr (''CMD-night-recovery-'' @ uuid env))"
      "jitem ?e ''command_id'' = Inr (JStr (''CMD-night-recovery-'' @ uuid env))"
    by (simp_all add: observation_command_def recovery_envelope_def Let_def)
  ultimately show ?thesis
    by (simp add: execute_command_def gateway_body_def parsed key_text_def)
qed

lemma broken_replaced:
  "\<exists>s' r. replace_run recovery_cfg ''R'' ''R'' 1 broken_run [] (broken_state, 0) = (s', Inr r) \<and> oget r ''outcome'' = JStr ''recovered''"
proof -
  let ?c = recovery_cfg
  have "reset_recoverable_work_units ?c broken_run (broken_state, 0) = ((broken_state, 0), Inr [])"
    by (simp add: reset_recoverable_work_units_def broken_run_def bindS_def liftS_def readS_def doneS_def por_def
        read_mapping_def read_yaml_def work_unit_path_def broken_state_def demo_night_store_def in_strs_def)
  moreover obtain g1 receipt where g1: "execute_command (gateway_config ?c) (demo_env 0) broken_state open_new = Inr (g1, receipt, 0)"
      "receipt_errors receipt = Inr []" "night_ready ''uu'' g1"
    using open_new_executed by blast
  have clock: "clock ?c 0 = demo_env 0" "sha (clock ?c 1) = id" "uuid (clock ?c 1) = ''uu''"
    by (simp_all add: recovery_cfg_def demo_env_def)
  have "new_run = ''RUN-RECOVERY-'' @ stamp (now (clock ?c 0)) @ ''-'' @ int_text 1"
    by (simp add: new_run_def clock demo_env_def)
  then have "open_recovery_run ?c broken_run 1 ''R'' [] (broken_state, 0) = ((g1, 1), Inr (Some new_run, []))"
    using broken_payload g1(1,2) clock(1)
    by (simp add: open_recovery_run_def nowS_def bindS_def liftS_def doneS_def send_def broken_run_def open_new_def Let_def)
  moreover define gw where "gw = fst (fst (write_recovery_state ''R'' (replacement_result ''R'' 1 (Some new_run) []) (g1, 1)))"
  then have "write_recovery_state ''R'' (replacement_result ''R'' 1 (Some new_run) []) (g1, 1) = ((gw, 1), Inr ())"
    by (simp add: write_recovery_state_def)
  moreover have "night_ready ''uu'' gw"
    using g1(3) by (simp add: night_ready_def gw_def write_recovery_state_def recovery_state_path_def)
  then have "\<exists>s'. record_recovery_observation ?c ''R'' ''recovered'' (Some new_run) (gw, 1) = (s', Inr ())"
    using observation_refused [of "clock ?c 1" gw "''R''" "''recovered''" "Some new_run"] clock(2,3)
    by (auto simp: record_recovery_observation_def send_def bindS_def doneS_def liftS_def)
  moreover have "oget (replacement_result ''R'' 1 (Some new_run) []) ''outcome'' = JStr ''recovered''"
    by (simp add: replacement_result_def replacement_outcome_def recovery_result_def)
  ultimately show ?thesis
    by (auto simp: replace_run_def bindS_def doneS_def liftS_def replacement_outcome_def Let_def)
qed

lemma broken_run_read: "read_mapping (files (disk broken_state)) (run_path (JStr ''R'')) = Inr broken_run"
  by (simp add: read_mapping_def read_yaml_def run_path_def broken_state_def broken_run_def por_def)

lemma broken_recovered:
  "\<exists>s' r. recover_run recovery_cfg ''R'' 3 (broken_state, 0) = (s', Inr r) \<and> oget r ''outcome'' = JStr ''recovered''"
proof -
  have "prior_recoveries (files (disk broken_state)) ''R'' = Inr 0"
    by (simp add: prior_recoveries_def read_json_def recovery_state_path_def broken_state_def demo_night_store_def demo_artifacts_def)
  moreover have "grant_has_remaining_use recovery_cfg env (files (disk broken_state)) (JStr ''G'') = Inr (True, ''ok'')" for env
    by (simp add: grant_has_remaining_use_def broken_state_def demo_night_store_def grant_path_def is_file_def read_json_def
        demo_night_grant_def por_def in_strs_def Let_def)
  moreover have "is_unattended_preset (oget broken_run ''autonomy_preset'')" "recovery_root ''R'' broken_run = ''R''"
      "oget broken_run ''status'' \<noteq> JStr ''active''" "py_str (por (oget broken_run ''stop_condition'') (JStr [])) = ''orchestrator_process_failure''"
      "oget broken_run ''run_authorization_grant_id'' = JStr ''G''"
    by (simp_all add: broken_run_def is_unattended_preset_def UNATTENDED_PRESETS_def por_def recovery_root_def)
  ultimately show ?thesis
    using broken_replaced broken_run_read
    by (simp add: recover_run_def recover_closed_def close_source_def bindS_def readS_def liftS_def doneS_def nowS_def
        recovery_root_def HARD_STOPS_def RECOVERABLE_STOPS_def Let_def)
qed

theorem recovery_is_bounded_witness:
  "\<exists>s' r new s1 s2. recover_run recovery_cfg ''R'' 3 (broken_state, 0) = (s', Inr r) \<and> oget r ''attempts'' = JInt 1
     \<and> oget r ''new_run_id'' = JStr new \<and> recovery_steps recovery_cfg (broken_state, 0) s1
     \<and> open_accepted recovery_cfg s1 new ''R'' 1 s2 \<and> concluded recovery_cfg ''R'' ''R'' r new s2 s'"
proof -
  obtain s' r where r: "recover_run recovery_cfg ''R'' 3 (broken_state, 0) = (s', Inr r)" "oget r ''outcome'' = JStr ''recovered''"
    using broken_recovered by blast
  have prior: "prior_recoveries (files (disk broken_state)) (recovery_root ''R'' broken_run) = Inr 0"
    by (simp add: prior_recoveries_def read_json_def recovery_state_path_def broken_state_def demo_night_store_def
        demo_artifacts_def recovery_root_def broken_run_def por_def)
  have origin: "recovery_root ''R'' broken_run = ''R''" by (simp add: recovery_root_def broken_run_def por_def)
  have read: "read_mapping (files (disk (fst (broken_state, 0)))) (run_path (JStr ''R'')) = Inr broken_run"
    using broken_run_read by simp
  obtain p new s1 s2 where p: "prior_recoveries (files (disk broken_state)) ''R'' = Inr p" "oget r ''attempts'' = JInt (p + 1)"
      "oget r ''new_run_id'' = JStr new" "recovery_steps recovery_cfg (broken_state, 0) s1"
      "open_accepted recovery_cfg s1 new ''R'' (p + 1) s2" "concluded recovery_cfg ''R'' ''R'' r new s2 s'"
    using recovery_is_bounded [OF r read] unfolding origin fst_conv by blast
  have "p = 0" using p(1) prior [unfolded origin] by simp
  then show ?thesis using r(1) p(2-6) by (intro exI conjI) (assumption | simp)+
qed

definition killed_state :: gstate where
  "killed_state = broken_state\<lparr>disk := (disk broken_state)\<lparr>files :=
     [(''runs/R.yaml'', Doc (JObj (AList.update ''stop_condition'' (JStr ''kill_switch'') broken_run)))]\<rparr>\<rparr>"

theorem hard_stop_is_not_recovered_witness:
  "\<exists>s' r. recover_run recovery_cfg ''R'' 0 (killed_state, 0) = (s', Inr r) \<and> oget r ''outcome'' \<noteq> JStr ''recovered''"
proof -
  let ?run = "AList.update ''stop_condition'' (JStr ''kill_switch'') broken_run"
  have read: "read_mapping (files (disk killed_state)) (run_path (JStr ''R'')) = Inr ?run"
    by (simp add: read_mapping_def read_yaml_def run_path_def killed_state_def broken_run_def por_def)
  have "prior_recoveries (files (disk killed_state)) ''R'' = Inr 0"
    by (simp add: prior_recoveries_def read_json_def recovery_state_path_def killed_state_def)
  then obtain s' r where r: "recover_run recovery_cfg ''R'' 0 (killed_state, 0) = (s', Inr r)"
    using read by (simp add: recover_run_def bindS_def readS_def liftS_def doneS_def broken_run_def is_unattended_preset_def
        UNATTENDED_PRESETS_def por_def write_recovery_state_def Let_def)
  have "oget ?run ''status'' \<noteq> JStr ''active''"
      "py_str (por (oget ?run ''stop_condition'') (JStr [])) \<in> set HARD_STOPS"
    by (simp_all add: broken_run_def HARD_STOPS_def por_def)
  then have "oget r ''outcome'' \<noteq> JStr ''recovered''"
    using hard_stop_is_not_recovered [OF r, of ?run] read by simp
  then show ?thesis using r by blast
qed

definition used_up_grant :: obj where
  "used_up_grant = [(''id'', JStr ''G''), (''uses_count'', JInt 1), (''maximum_uses'', JInt 1), (''revoked_at'', JStr ''2026''),
     (''expires_at'', JStr (isoformat 9))]"

theorem used_up_grant_passes_recovery_check_witness:
  "is_exhausted (JObj used_up_grant) = Inr True \<and>
   grant_has_remaining_use recovery_cfg (demo_env 0) [(grant_path (JStr ''G''), Doc (JObj used_up_grant))] (JStr ''G'') = Inr (True, ''ok'')"
  by (rule used_up_grant_passes_recovery_check [of _ _ _ 1 1 9])
     (simp_all add: used_up_grant_def in_range_def max_ordinal_def demo_env_def)

end
