(* ===== verification/ReconcileSafety.thy ===== *)
theory ReconcileSafety
  imports Reconcile RecoverySafety
begin

text \<open>
  What a supervision cycle guarantees: it acts on a Run only when the Run is active, unattended
  and not stopped hard; a supervised Run is only observed; and a Run whose orchestrator was
  started is never started again, over any sequence of cycles.
\<close>

section \<open>The chosen action\<close>

definition acts :: "json \<Rightarrow> bool" where
  "acts action \<longleftrightarrow> action \<in> JStr ` {''start_orchestrator'', ''recover_orphan'', ''recover_stalled''}"

lemma action_plan_simps [simp]:
  "oget (action_plan a r w) ''action'' = JStr a" "oget (action_plan a r w) ''wait_reason'' = w"
  by (simp_all add: action_plan_def)

lemma no_act [simp]:
  "\<not> acts (JStr ''needs_human'')" "\<not> acts (JStr ''cancel_process'')" "\<not> acts (JStr ''noop_terminal'')"
  "\<not> acts (JStr ''noop_supervised'')" "\<not> acts (JStr ''noop_healthy'')"
  by (simp_all add: acts_def)

lemma passed:
  assumes "(if b then Inr p else r) = Inr plan" and "acts (oget plan ''action'')" and "\<not> acts (oget p ''action'')"
  shows "\<not> b \<and> r = Inr plan"
  using assms by (auto split: if_splits)

lemma chosen_safe:
  assumes "choose_action observation = Inr plan" and "acts (oget plan ''action'')"
  shows "oget observation ''run_status'' = JStr ''active'' \<and> is_unattended_preset (oget observation ''autonomy_preset'')
    \<and> py_str (por (oget observation ''stop_condition'') (JStr [])) \<notin> set HARD_STOPS
    \<and> jget (por (oget observation ''progress'') (JObj [])) ''state'' \<noteq> Inr (JStr ''blocked_needs_human'')
    \<and> (oget plan ''action'' = JStr ''start_orchestrator'' \<longrightarrow> \<not> truthy (oget observation ''process_alive'')
         \<and> had_managed_process (por (oget observation ''process'') (JObj [])) = Inr False)"
  using assms(1) unfolding choose_action_def Let_def bindR_eq_Inr
  apply (elim exE conjE)
  apply (drule passed [OF _ assms(2)], simp, elim conjE)
  apply (drule passed [OF _ assms(2)], simp, elim conjE)
  apply (drule passed [OF _ assms(2)], simp, elim conjE)
  apply (drule passed [OF _ assms(2)], simp, elim conjE)
  apply (drule bindR_eq_Inr [THEN iffD1], elim exE conjE)
  apply (drule passed [OF _ assms(2)], simp, elim conjE)
  subgoal premises p for missing state
  proof (cases "state = JStr ''stalled_no_progress''")
    case True
    then have "oget plan ''action'' \<noteq> JStr ''start_orchestrator''" using p(8) by auto
    then show ?thesis using p by simp
  next
    case False
    then obtain managed healthy where m:
        "(if truthy (oget observation ''process_alive'') then Inr False
          else had_managed_process (por (oget observation ''process'') (JObj []))) = Inr managed"
        "plan = (if \<not> truthy (oget observation ''process_alive'') \<and> managed
            then action_plan ''recover_orphan'' ''orchestrator process missing after start'' (JStr ''orphan_process'')
            else if \<not> truthy (oget observation ''process_alive'')
            then action_plan ''start_orchestrator'' ''active Run without managed process'' JNull
            else if healthy then action_plan ''noop_healthy'' ''process alive with useful progress window'' JNull
            else action_plan ''noop_healthy'' ''no corrective action required'' JNull)"
      using p(8) by (simp only: if_False bindR_eq_Inr sum.inject) (elim exE conjE, blast)
    have "oget plan ''action'' = JStr ''start_orchestrator'' \<longrightarrow> \<not> truthy (oget observation ''process_alive'') \<and>
        had_managed_process (por (oget observation ''process'') (JObj [])) = Inr False"
      using m by (cases "truthy (oget observation ''process_alive'')"; cases managed; cases healthy) simp_all
    then show ?thesis using p by simp
  qed
  done

text \<open>
  A Run is started or recovered only when it is active and unattended, has no hard stop and is
  not blocked; and it is started only when no process runs it and none ever did.
\<close>

theorem chosen_action_is_safe:
  assumes "choose_action observation = Inr plan" and "acts (oget plan ''action'')"
  shows "oget observation ''run_status'' = JStr ''active'' \<and> is_unattended_preset (oget observation ''autonomy_preset'')
    \<and> py_str (por (oget observation ''stop_condition'') (JStr [])) \<notin> set HARD_STOPS
    \<and> jget (por (oget observation ''progress'') (JObj [])) ''state'' \<noteq> Inr (JStr ''blocked_needs_human'')
    \<and> (oget plan ''action'' = JStr ''start_orchestrator'' \<longrightarrow> \<not> truthy (oget observation ''process_alive'')
         \<and> had_managed_process (por (oget observation ''process'') (JObj [])) = Inr False)"
  using assms by (rule chosen_safe)

section \<open>What the steps keep\<close>

definition keeps :: "('s \<Rightarrow> bool) \<Rightarrow> ('s \<Rightarrow> 's \<times> 'a res) \<Rightarrow> bool" where
  "keeps P m \<longleftrightarrow> (\<forall>s. P s \<longrightarrow> P (fst (m s)))"

named_theorems keeps \<open>steps that keep a predicate of the state\<close>

lemma keeps_bindS [keeps]: "keeps P m \<Longrightarrow> (\<And>x. keeps P (f x)) \<Longrightarrow> keeps P (bindS m f)"
  by (force simp: keeps_def bindS_def split: prod.split sum.split)

lemma keeps_liftS [keeps]: "keeps P (liftS r)" and keeps_doneS [keeps]: "keeps P (doneS x)"
  by (simp_all add: keeps_def liftS_def doneS_def)

lemma keeps_look [keeps]: "keeps P (\<lambda>s. (s, f s))"
  by (simp add: keeps_def)

lemma keeps_observeS [keeps]: "keeps P (observeS c i)"
  by (simp add: keeps_def observeS_def)

lemma keeps_if [keeps]: "(b \<Longrightarrow> keeps P m) \<Longrightarrow> (\<not> b \<Longrightarrow> keeps P m') \<Longrightarrow> keeps P (if b then m else m')"
  by simp

lemma keeps_case_prod [keeps]: "(\<And>a b. keeps P (f a b)) \<Longrightarrow> keeps P (case x of (a, b) \<Rightarrow> f a b)"
  by (cases x) simp

lemma keeps_swallowS [keeps]: "keeps P m \<Longrightarrow> keeps P (swallowS m)"
  by (force simp: keeps_def swallowS_def split: prod.split sum.split)

text \<open>A predicate that looks at the processes only, or at the governed documents only.\<close>

definition of_processes :: "(store \<Rightarrow> bool) \<Rightarrow> supervisor \<Rightarrow> bool" where
  "of_processes P s = P (processes s)"

definition of_governed :: "(rstate \<Rightarrow> bool) \<Rightarrow> supervisor \<Rightarrow> bool" where
  "of_governed P s = P (governed s)"

lemmas of_defs = of_processes_def of_governed_def

lemma keeps_registryS [keeps]: "keeps (of_processes P) (registryS f)" "keeps (of_governed Q) (registryS f)"
  by (simp_all add: keeps_def registryS_def onS_def of_defs split: sum.split prod.split)

lemma keeps_queueS [keeps]: "keeps (of_processes P) (queueS f)" "keeps (of_governed Q) (queueS f)"
  by (simp_all add: keeps_def queueS_def onS_def of_defs split: sum.split prod.split)

lemma keeps_updateS [keeps]: "keeps (of_processes P) (updateS c i ch)" "keeps (of_governed Q) (updateS c i ch)"
  by (simp_all add: updateS_def keeps)

lemma keeps_journalS [keeps]: "keeps (of_processes P) (journalS c t i p)" "keeps (of_governed Q) (journalS c t i p)"
  by (simp_all add: keeps_def journalS_def of_defs split: prod.split)

lemma keeps_governedS [keeps]: "keeps (of_processes P) (governedS m)"
  by (simp add: keeps_def governedS_def of_defs split: prod.split)

lemma keeps_processS_governed [keeps]: "keeps (of_governed Q) (processS f)"
  by (simp add: keeps_def processS_def onS_def of_defs split: sum.split prod.split)

lemma keeps_reclaimS [keeps]: "keeps (of_processes P) (reclaimS c)" "keeps (of_governed Q) (reclaimS c)"
  by (simp_all add: keeps_def reclaimS_def of_defs split: prod.split)

lemma keeps_drainS [keeps]: "keeps (of_processes P) drainS" "keeps (of_governed Q) drainS"
  by (simp_all add: keeps_def drainS_def of_defs split: prod.split)

lemma keeps_plan_cycle [keeps]: "keeps (of_processes P) (plan_cycle c i e)" "keeps (of_governed Q) (plan_cycle c i e)"
  unfolding plan_cycle_def by (intro keeps)+

lemma planned:
  assumes "plan_cycle c i e s = (s1, Inr (ent, ob, plan))"
  shows "governed s1 = governed s \<and> processes s1 = processes s \<and> choose_action ob = Inr plan
    \<and> observe_run (machine c) (cycle_env c) (files (disk (fst (governed s)))) (processes s) i = Inr ob"
proof -
  have same: "governed s1 = governed s" "processes s1 = processes s"
    using keeps_plan_cycle(2) [of "\<lambda>g. g = governed s" c i e] keeps_plan_cycle(1) [of "\<lambda>p. p = processes s" c i e] assms
    by (auto simp: keeps_def of_defs)
  have "choose_action ob = Inr plan \<and>
      observe_run (machine c) (cycle_env c) (files (disk (fst (governed s1)))) (processes s1) i = Inr ob"
    using assms unfolding plan_cycle_def
    by (elim bindSE) (auto simp: liftS_Inr doneS_Inr observeS_def)
  then show ?thesis using same by simp
qed

section \<open>Supervised Runs\<close>

lemma noop_governed [keeps]: "keeps (of_governed Q) (noop_action c i a b d e)"
  unfolding noop_action_def by (intro keeps)

lemma cancel_governed [keeps]: "keeps (of_governed Q) (cancel_action c i ob)"
  unfolding cancel_action_def by (intro keeps)

lemma human_governed [keeps]: "keeps (of_governed Q) (human_action c i ob plan)"
  unfolding human_action_def by (intro keeps)

lemma start_governed [keeps]: "keeps (of_governed Q) (start_action c i w ob)"
  unfolding start_action_def Let_def by (intro keeps)

lemma execute_governed:
  assumes "oget plan ''action'' \<noteq> JStr ''recover_orphan''" and "oget plan ''action'' \<noteq> JStr ''recover_stalled''"
  shows "keeps (of_governed Q) (execute_action c i entry ob plan)"
proof -
  have "keeps (of_governed Q) (if action = JStr ''recover_orphan'' \<or> action = JStr ''recover_stalled'' then recover_action c i k w m else r)"
    if "jitem (JObj plan) ''action'' = Inr action" "keeps (of_governed Q) r" for action k w m r
    using that assms by (auto simp: oget_def split: option.splits)
  note this [keeps]
  show ?thesis
  proof (cases "jitem (JObj plan) ''action''")
    case (Inl e)
    then show ?thesis by (simp add: execute_action_def keeps_def bindS_def liftS_def)
  next
    case (Inr action)
    have lifted: "bindS (liftS (Inr action)) f = f action" for f :: "json \<Rightarrow> obj cycle"
      by (simp add: bindS_def liftS_def fun_eq_iff)
    show ?thesis unfolding execute_action_def Inr lifted
      by (intro keeps_bindS keeps_liftS keeps_if noop_governed cancel_governed start_governed human_governed keeps_doneS)
         (use Inr assms in \<open>auto simp: oget_def split: option.splits\<close>)
  qed
qed

lemma bindS_look: "bindS (\<lambda>s. (s, f s)) g s = (case f s of Inl e \<Rightarrow> (s, Inl e) | Inr x \<Rightarrow> g x s)"
  by (simp add: bindS_def)

lemma observed_run:
  assumes "observe_run m env s procs i = Inr ob" and "oget ob ''run_status'' = JStr ''active''"
  obtains run where "yaml_document s (run_path (JStr i)) = Some run" "oget run ''status'' = JStr ''active''"
    "oget ob ''autonomy_preset'' = oget run ''autonomy_preset''" "oget ob ''stop_condition'' = oget run ''stop_condition''"
    "oget ob ''process'' = (case read_process_record procs i of None \<Rightarrow> JNull | Some d \<Rightarrow> JObj d)"
proof (cases "yaml_document s (run_path (JStr i))")
  case None
  then show ?thesis using assms by (auto simp: observe_run_def)
next
  case (Some run)
  then show ?thesis using assms that by (auto simp: observe_run_def Let_def)
qed

text \<open>
  C20. A cycle changes the governed documents only to recover a Run that is active, unattended and
  without a hard stop; every other Run, a supervised one above all, is only observed.
\<close>

theorem cycle_governs_only_unattended:
  assumes "governed (fst (reconcile_run c i entry s)) \<noteq> governed s"
  shows "\<exists>run. yaml_document (files (disk (fst (governed s)))) (run_path (JStr i)) = Some run
    \<and> oget run ''status'' = JStr ''active'' \<and> is_unattended_preset (oget run ''autonomy_preset'')
    \<and> py_str (por (oget run ''stop_condition'') (JStr [])) \<notin> set HARD_STOPS"
proof -
  obtain s1 r where p: "plan_cycle c i entry s = (s1, r)" by (cases "plan_cycle c i entry s")
  have same: "governed s1 = governed s"
    using keeps_plan_cycle(2) [of "\<lambda>g. g = governed s" c i entry] p by (force simp: keeps_def of_defs)
  then obtain ent ob plan where r: "r = Inr (ent, ob, plan)"
    using assms p by (cases r) (auto simp: reconcile_run_def bindS_def)
  have "acts (oget plan ''action'')"
  proof (rule ccontr)
    assume "\<not> acts (oget plan ''action'')"
    then have "keeps (of_governed (\<lambda>g. g = governed s)) (execute_action c i ent ob plan)"
      by (intro execute_governed) (auto simp: acts_def)
    then have "keeps (of_governed (\<lambda>g. g = governed s)) (bindS (execute_action c i ent ob plan) (\<lambda>result. doneS
        [(''run_id'', JStr i), (''observation'', JObj ob), (''plan'', JObj plan), (''result'', JObj result)]))"
      by (intro keeps)
    then have "governed (fst (reconcile_run c i entry s)) = governed s"
      using p r same by (simp add: reconcile_run_def keeps_def of_defs bindS_def [of "plan_cycle c i entry"])
    then show False using assms by simp
  qed
  then have safe: "oget ob ''run_status'' = JStr ''active''" "is_unattended_preset (oget ob ''autonomy_preset'')"
      "py_str (por (oget ob ''stop_condition'') (JStr [])) \<notin> set HARD_STOPS"
      "observe_run (machine c) (cycle_env c) (files (disk (fst (governed s)))) (processes s) i = Inr ob"
    using planned [OF p [unfolded r]] chosen_safe [of ob plan] by auto
  obtain run where "yaml_document (files (disk (fst (governed s)))) (run_path (JStr i)) = Some run"
      "oget run ''status'' = JStr ''active''" "oget ob ''autonomy_preset'' = oget run ''autonomy_preset''"
      "oget ob ''stop_condition'' = oget run ''stop_condition''"
    by (rule observed_run [OF safe(4,1)])
  with safe(2,3) show ?thesis by auto
qed

section \<open>Started once\<close>

definition has_pid :: "string \<Rightarrow> store \<Rightarrow> bool" where
  "has_pid i procs \<longleftrightarrow> (\<exists>d. read_process_record procs i = Some d \<and> truthy (oget d ''pid''))"

lemma has_pid_write:
  assumes "has_pid i procs" and "j = i \<Longrightarrow> truthy (oget d ''pid'')"
  shows "has_pid i (write_process_record env j d procs)"
  using assms by (auto simp: has_pid_def write_process_record_def read_process_record_def read_item_def write_item_def)

lemma read_has_pid: "has_pid i procs \<Longrightarrow> read_process_record procs i = Some d \<Longrightarrow> truthy (oget d ''pid'')"
  by (auto simp: has_pid_def)

lemma start_has_pid: "0 < os_launch m j \<Longrightarrow> has_pid i procs \<Longrightarrow> has_pid i (fst (start_orchestrator_process m env j w e procs))"
  unfolding start_orchestrator_process_def Let_def fst_conv by (rule has_pid_write) simp_all

lemma terminate_writes:
  assumes "terminate_process m env i e procs = Inr (procs', x)" and "read_process_record procs i = Some (kv # kvs)"
  shows "procs' = procs \<or> (\<exists>st kv'. procs' = write_process_record env i
    (set_keys ([(''status'', st), (''worker_attempt_state'', st)] @ kv') (kv # kvs)) procs \<and> ''pid'' \<notin> fst ` set kv')"
proof -
  note E = assms(1) [unfolded terminate_process_def Let_def assms(2) option.case list.distinct if_False]
  from E consider "procs' = procs"
    | "procs' = write_process_record env i (set_keys ([(''status'', JStr ''orphaned''), (''worker_attempt_state'', JStr ''orphaned'')] @ []) (kv # kvs)) procs"
    | st where "procs' = write_process_record env i (set_keys ([(''status'', JStr st), (''worker_attempt_state'', JStr st)]
        @ [(''terminated_at'', now_iso env)]) (kv # kvs)) procs"
    unfolding bindR_eq_Inr append.simps by (elim exE conjE) (auto simp del: set_keys_Cons split: if_splits)
  then show ?thesis
  proof cases
    case 1 then show ?thesis by blast
  next
    case 2 then show ?thesis by (intro disjI2 exI conjI) (assumption, simp)
  next
    case 3 then show ?thesis by (intro disjI2 exI conjI) (assumption, simp)
  qed
qed

lemma terminate_other:
  "terminate_process m env j e procs = Inr (procs', x) \<Longrightarrow> i \<noteq> j \<Longrightarrow> read_process_record procs' i = read_process_record procs i"
  by (auto simp: terminate_process_def Let_def bindR_eq_Inr write_process_record_def read_process_record_def read_item_def
      write_item_def update_fresh split: if_splits simp del: set_keys_Cons)

lemma terminate_has_pid:
  assumes "has_pid i procs" and "terminate_process m env j e procs = Inr (procs', x)"
  shows "has_pid i procs'"
proof (cases "i = j")
  case True
  obtain d where d: "read_process_record procs i = Some d" "truthy (oget d ''pid'')" using assms(1) by (auto simp: has_pid_def)
  then obtain kv kvs where "d = kv # kvs" by (cases d) (auto simp: oget_def)
  moreover have "oget (set_keys kv' ob) ''pid'' = oget ob ''pid''" if "''pid'' \<notin> fst ` set kv'" for kv' ob
    using map_of_set_keys_other [OF that] by (simp add: oget_def)
  ultimately show ?thesis
    using terminate_writes [of m env i e procs procs' x kv kvs] assms d True
    by (auto simp del: set_keys_Cons intro!: has_pid_write)
next
  case False
  then show ?thesis using assms terminate_other [OF assms(2)] by (simp add: has_pid_def)
qed

lemma keeps_start [keeps]: "0 < os_launch (machine c) j \<Longrightarrow>
    keeps (of_processes (has_pid i)) (processS (\<lambda>p. Inr (start_orchestrator_process (machine c) env j w e p)))"
  unfolding keeps_def processS_def onS_def of_defs by (simp split: prod.split) (metis fst_conv start_has_pid)

lemma keeps_terminate [keeps]: "keeps (of_processes (has_pid i)) (processS (terminate_process m env j e))"
  by (auto simp: keeps_def processS_def onS_def of_defs split: sum.split prod.split dest: terminate_has_pid)

lemma start_pid [keeps]:
  assumes "\<And>j. 0 < os_launch (machine c) j"
  shows "keeps (of_processes (has_pid i)) (start_action c j w ob)"
  unfolding start_action_def Let_def by (intro keeps assms)

lemma execute_pid:
  assumes "\<And>j. 0 < os_launch (machine c) j"
  shows "keeps (of_processes (has_pid i)) (execute_action c j entry ob plan)"
  unfolding execute_action_def noop_action_def cancel_action_def human_action_def recover_action_def Let_def
  by (intro keeps assms)

lemma cycle_pid:
  assumes "\<And>j. 0 < os_launch (machine c) j" and "has_pid i (processes s)"
  shows "has_pid i (processes (fst (reconcile_run c j entry s)))"
proof -
  have "keeps (of_processes (has_pid i)) (reconcile_run c j entry)"
    unfolding reconcile_run_def by (intro keeps execute_pid assms)
  then show ?thesis using assms(2) by (simp add: keeps_def of_defs)
qed

lemma process_started:
  assumes "processS (\<lambda>p. Inr (start_orchestrator_process m env i w e p)) s = (s', r)" and "0 < os_launch m i"
  shows "of_processes (has_pid i) s'"
  using assms by (auto simp: processS_def onS_def of_defs start_orchestrator_process_def Let_def has_pid_def
      write_process_record_def read_process_record_def read_item_def write_item_def)

lemma keepsD: "keeps P m \<Longrightarrow> m s = (s', r) \<Longrightarrow> P s \<Longrightarrow> P s'"
  by (force simp: keeps_def)

definition leads :: "('a \<Rightarrow> bool) \<Rightarrow> ('s \<Rightarrow> bool) \<Rightarrow> ('s \<Rightarrow> 's \<times> 'a res) \<Rightarrow> bool" where
  "leads Q P m \<longleftrightarrow> (\<forall>s s' x. m s = (s', Inr x) \<longrightarrow> Q x \<longrightarrow> P s')"

lemma leads_bindS: "(\<And>x. leads Q P (f x)) \<Longrightarrow> leads Q P (bindS m f)"
  unfolding leads_def by (blast elim: bindSE)

lemma leads_doneS: "\<not> Q x \<Longrightarrow> leads Q P (doneS x)"
  by (auto simp: leads_def doneS_def liftS_def)

lemma leads_if: "leads Q P m \<Longrightarrow> leads Q P m' \<Longrightarrow> leads Q P (if b then m else m')"
  by simp

lemma leads_case_prod: "(\<And>a b. leads Q P (f a b)) \<Longrightarrow> leads Q P (case x of (a, b) \<Rightarrow> f a b)"
  by (cases x) simp

lemma leads_started:
  assumes "0 < os_launch m i" and "\<And>x. keeps (of_processes (has_pid i)) (f x)"
  shows "leads Q (of_processes (has_pid i)) (bindS (processS (\<lambda>p. Inr (start_orchestrator_process m env i w e p))) f)"
  unfolding leads_def by (blast elim: bindSE intro: keepsD [OF assms(2)] process_started [OF _ assms(1)])

lemma started_has_pid:
  assumes "start_action c i w ob s = (s1, Inr answer)" and "oget answer ''outcome'' = JStr ''started''"
    and "\<And>j. 0 < os_launch (machine c) j"
  shows "has_pid i (processes s1)"
proof -
  have "leads (\<lambda>x. oget x ''outcome'' = JStr ''started'') (of_processes (has_pid i)) (start_action c i w ob)"
    unfolding start_action_def Let_def
    by (intro leads_started leads_if leads_case_prod leads_doneS leads_bindS keeps assms(3)) (simp add: result_of_def)
  then show ?thesis using assms(1,2) by (auto simp: leads_def of_defs)
qed

text \<open>Cycles of a supervisor, for any Runs, whose operating system gives new processes positive pids.\<close>

inductive supervises :: "supervisor \<Rightarrow> supervisor \<Rightarrow> bool" where
  idle: "supervises s s"
| cycle: "supervises s s1 \<Longrightarrow> (\<And>j. 0 < os_launch (machine c) j) \<Longrightarrow> reconcile_run c i entry s1 = (s2, r) \<Longrightarrow> supervises s s2"

lemma supervises_pid: "supervises s s' \<Longrightarrow> has_pid i (processes s) \<Longrightarrow> has_pid i (processes s')"
proof (induction rule: supervises.induct)
  case (cycle s s1 c j entry s2 r)
  then show ?case using cycle_pid [of c i s1 j entry] by simp
qed simp

text \<open>
  C21. A Run whose orchestrator was started is not planned to be started again, after any cycles of
  the supervisor for any Runs: a process that is gone is recovered under a new Run.
\<close>

theorem started_run_is_not_started_again:
  assumes "start_action c i w ob s = (s1, Inr answer)" and "oget answer ''outcome'' = JStr ''started''"
    and "\<And>j. 0 < os_launch (machine c) j" and "supervises s1 s2"
    and "plan_cycle c' i entry s2 = (s3, Inr (found, observation, plan))"
  shows "oget plan ''action'' \<noteq> JStr ''start_orchestrator''"
proof
  assume start: "oget plan ''action'' = JStr ''start_orchestrator''"
  have "has_pid i (processes s1)" using assms(1,2,3) by (rule started_has_pid)
  then have "has_pid i (processes s2)" using assms(4) supervises_pid by blast
  then obtain d where d: "read_process_record (processes s2) i = Some d" "truthy (oget d ''pid'')"
    by (auto simp: has_pid_def)
  have p: "choose_action observation = Inr plan"
      "observe_run (machine c') (cycle_env c') (files (disk (fst (governed s2)))) (processes s2) i = Inr observation"
    using planned [OF assms(5)] by auto
  have safe: "oget observation ''run_status'' = JStr ''active''"
      "had_managed_process (por (oget observation ''process'') (JObj [])) = Inr False"
    using chosen_safe [OF p(1)] start by (auto simp: acts_def)
  then have "oget observation ''process'' = JObj d"
    using observed_run [OF p(2)] d(1) by (metis option.simps(5))
  then show False using safe(2) d(2) by (auto simp: had_managed_process_def por_def bindR_eq_Inr oget_def split: if_splits option.splits)
qed

section \<open>Witnesses\<close>

definition sup_cfg :: "bool \<Rightarrow> cconfig" where
  "sup_cfg alive = \<lparr>recovery_config = recovery_cfg, machine = \<lparr>os_alive = (\<lambda>_. alive), os_survives = (\<lambda>_. False), os_launch = (\<lambda>_. 41)\<rparr>,
     cycle_env = demo_env 0, own_instance = ''I'', draws = [''0123456789'']\<rparr>"

definition watched_run :: obj where
  "watched_run = [(''id'', JStr ''R''), (''status'', JStr ''active''), (''autonomy_preset'', JStr ''unattended_conservative''),
     (''work_unit_ids'', JList []), (''updated_at'', JStr (isoformat 0))]"

definition watched_files :: store where
  "watched_files = [(''runs/R.yaml'', Doc (JObj watched_run)), (''runs/recovery/R.json'', Doc (JObj [(''attempts'', JInt 3)]))]"

definition watched :: supervisor where
  "watched = \<lparr>governed = (broken_state\<lparr>disk := \<lparr>files = watched_files, tx_dirs = []\<rparr>\<rparr>, 0), registry = None,
     work = \<lparr>q_items = [], q_dead = []\<rparr>, log = fresh_journal, processes = []\<rparr>"

definition start_item :: obj where
  "start_item = new_item (demo_env 0) (JStr ''R'') (JStr ''start_orchestrator'') [(''workers'', JInt 2), (''lease_epoch'', JInt 1)] 0 (JStr ''start:R:1'') 3"

definition start_leased :: obj where
  "start_leased = set_keys
       [(''state'', JStr ''leased''), (''worker_attempt_state'', JStr ''leased''),
        (''lease_id'', JStr (lease_id_of (demo_env 0))), (''lease_epoch'', JInt 1), (''leased_by'', JStr ''supervisor-I''),
        (''attempt_count'', JInt 1),
        (''lease_expires_at'', later_by 0 60000000), (''updated_at'', now_iso (demo_env 0))]
       start_item"

lemmas start_defs = start_item_def new_item_def demo_env_def now_iso_def later_by_def lease_id_of_def item_id_of_def set_keys_Cons

lemma start_enqueued: "enqueue (demo_env 0) (JStr ''R'') (JStr ''start_orchestrator'') [(''workers'', JInt 2), (''lease_epoch'', JInt 1)] 0 (JStr ''start:R:1'') 3
    (work watched) = Inr (\<lparr>q_items = [(item_id_of (demo_env 0), Doc (JObj start_item))], q_dead = []\<rparr>, start_item)"
  by (simp add: watched_def enqueue_def list_items_def read_all_def sorted_stems_def write_item_def start_item_def Let_def)

lemma zero_in_range: "in_range 0" by (simp add: in_range_def max_ordinal_def)

lemma start_item_simps:
  "oget start_item ''state'' = JStr ''queued''" "map_of start_item ''id'' = Some (JStr (item_id_of (demo_env 0)))" "visible_at (demo_env 0) start_item = 0"
  "leased_item (demo_env 0) (JStr ''supervisor-I'') 60000000 start_item = Inr start_leased"
  by (simp_all add: start_defs start_leased_def leased_item_def oget_def int_field_def por_def visible_at_def parse_time_iso zero_in_range)

lemma start_leasing: "lease_next (demo_env 0) (JStr ''supervisor-I'') 60000000 \<lparr>q_items = [(item_id_of (demo_env 0), Doc (JObj start_item))], q_dead = []\<rparr>
   = Inr (\<lparr>q_items = [(item_id_of (demo_env 0), Doc (JObj start_leased))], q_dead = []\<rparr>, Some start_leased)"
  by (simp add: lease_next_def list_items_def read_all_def sorted_stems_def read_item_def write_item_def start_item_simps read_queued_def demo_env_def[of 0, THEN arg_cong[of _ _ now]] Let_def)

lemma start_lease_read: "start_lease start_leased 1 = Inr (item_id_of (demo_env 0), JStr (lease_id_of (demo_env 0)), 1)"
  by (simp add: start_lease_def start_leased_def start_defs int_field_def por_def oget_def)

lemma start_held: "held_item [(item_id_of (demo_env 0), Doc (JObj ob))] (item_id_of (demo_env 0)) (JStr (lease_id_of (demo_env 0))) 1 = Inr ob"
  if "oget ob ''lease_id'' = JStr (lease_id_of (demo_env 0))" "oget ob ''lease_epoch'' = JInt 1"
  using that by (simp add: held_item_def read_item_def int_field_def por_def)

lemma start_leased_simps: "oget start_leased ''lease_id'' = JStr (lease_id_of (demo_env 0))" "oget start_leased ''lease_epoch'' = JInt 1"
  by (simp_all add: start_leased_def)

lemma int_text_one: "int_text 1 = ''1''"
  by code_simp

lemma first_event: "\<exists>j e. append_event env i t p r w JNull [''0123456789''] fresh_journal = (j, Inr e) \<and> iter_events 0 j = (j, Inr [e])"
  using append_sound [OF fresh_journal_ok, of JNull "[''0123456789'']" env i t p r w] by (auto simp: fresh_journal_def is_file_def)

definition started_record :: obj where
  "started_record = [(''run_id'', JStr ''R''), (''pid'', JInt 41), (''status'', JStr ''starting''),
        (''worker_attempt_state'', JStr ''starting''), (''workers'', JInt 2), (''lease_epoch'', JInt 1),
        (''started_at'', now_iso (demo_env 0)), (''heartbeat_at'', now_iso (demo_env 0)), (''updated_at'', now_iso (demo_env 0))]"

lemma watched_started:
  obtains s1 answer e d where
    "start_action (sup_cfg a) ''R'' 2 [(''grant_id'', JNull)] watched = (s1, Inr answer)" "oget answer ''outcome'' = JStr ''started''"
    "governed s1 = governed watched" "processes s1 = [(''R'', Doc (JObj started_record))]" "iter_events 0 (supervisor.log s1) = (supervisor.log s1, Inr [e])"
    "work s1 = \<lparr>q_items = [(item_id_of (demo_env 0), Doc (JObj d))], q_dead = []\<rparr>" "oget d ''state'' = JStr ''completed''"
    "registry s1 = None"
proof -
  let ?q = "\<lparr>q_items = [(item_id_of (demo_env 0), Doc (JObj start_leased))], q_dead = []\<rparr>"
  obtain d where ack: "acknowledge (demo_env 0) (item_id_of (demo_env 0)) (JStr (lease_id_of (demo_env 0))) 1 (JStr ''starting'') ?q
      = Inr (?q\<lparr>q_items := [(item_id_of (demo_env 0), Doc (JObj d))]\<rparr>, d)"
      "oget d ''lease_id'' = JStr (lease_id_of (demo_env 0))" "oget d ''lease_epoch'' = JInt 1"
    by (simp add: acknowledge_def start_held start_leased_simps write_item_def Let_def)
  obtain j e where event: "append_event (demo_env 0) (JStr ''I'') (JStr ''orchestrator_started'') [(''pid'', JInt 41), (''epoch'', JInt 1)]
      (JStr ''R'') JNull JNull [''0123456789''] fresh_journal = (j, Inr e)" "iter_events 0 j = (j, Inr [e])"
    using first_event by blast
  have parts: "supervisor.log watched = fresh_journal" "registry watched = None" "processes watched = []" by (simp_all add: watched_def)
  have "\<exists>s1 answer d. start_action (sup_cfg a) ''R'' 2 [(''grant_id'', JNull)] watched = (s1, Inr answer) \<and> oget answer ''outcome'' = JStr ''started''
    \<and> governed s1 = governed watched \<and> processes s1 = [(''R'', Doc (JObj started_record))] \<and> supervisor.log s1 = j
    \<and> work s1 = \<lparr>q_items = [(item_id_of (demo_env 0), Doc (JObj d))], q_dead = []\<rparr> \<and> oget d ''state'' = JStr ''completed''
    \<and> registry s1 = None"
    using ack event(1)
    by (simp add: start_action_def bindS_def liftS_def grant_has_remaining_use_def registryS_def queueS_def processS_def onS_def
       updateS_def sup_cfg_def por_def startswith_def result_of_def doneS_def swallowS_def journalS_def update_run_entry_def
       Let_def start_enqueued start_leasing start_lease_read int_text_one start_orchestrator_process_def complete_def
       start_held write_item_def parts registry_runs_def write_process_record_def started_record_def)
  then show thesis using that event(2) by blast
qed

lemma watched_observed:
  "\<exists>ob progress st. observe_run (machine (sup_cfg False)) (demo_env 0) (files (disk (fst (governed watched)))) [(''R'', Doc (JObj started_record))] ''R'' = Inr ob
    \<and> oget ob ''run_status'' = JStr ''active'' \<and> oget ob ''progress'' = JObj progress \<and> oget progress ''state'' = JStr st
    \<and> oget ob ''process'' = JObj started_record \<and> st \<noteq> ''blocked_needs_human'' \<and> \<not> truthy (oget ob ''process_alive'')
    \<and> oget ob ''autonomy_preset'' = JStr ''unattended_conservative'' \<and> oget ob ''stop_condition'' = JNull"
proof -
  have "run_attempts watched_files ''R'' = []"
    by (simp add: watched_files_def run_attempts_def yaml_documents_def glob_yaml_def startswith_def endswith_def)
  moreover have "oget started_record ''pid'' = JInt 41" "started_record \<noteq> []" by (simp_all add: started_record_def oget_def)
  ultimately show ?thesis
    by (simp add: observe_run_def yaml_document_def run_path_def watched_run_def watched_def process_is_alive_def read_process_record_def
      read_item_def legacy_orchestrator_process_alive_def pid_alive_def watched_files_def sup_cfg_def int_field_def por_def
      evaluate_run_progress_def current_lease_ids_def progress_times_def stalled_threshold_def sub_dict_def work_unit_documents_def
      parse_time_iso parse_time_null zero_in_range maximum_def demo_env_def progress_state_def Let_def)
qed

theorem chosen_action_is_safe_witness:
  "choose_action [(''run_status'', JStr ''active''), (''autonomy_preset'', JStr ''unattended_conservative'')]
     = Inr (action_plan ''start_orchestrator'' ''active Run without managed process'' JNull)
   \<and> is_unattended_preset (JStr ''unattended_conservative'')"
proof -
  let ?ob = "[(''run_status'', JStr ''active''), (''autonomy_preset'', JStr ''unattended_conservative'')]"
  have chosen: "choose_action ?ob = Inr (action_plan ''start_orchestrator'' ''active Run without managed process'' JNull)"
    by (simp add: choose_action_def is_unattended_preset_def UNATTENDED_PRESETS_def por_def HARD_STOPS_def had_managed_process_def
        in_strs_def Let_def)
  moreover have "acts (oget (action_plan ''start_orchestrator'' ''active Run without managed process'' JNull) ''action'')"
    by (simp add: acts_def)
  ultimately show ?thesis using chosen_action_is_safe [OF chosen] by simp
qed

lemma chosen_recovery:
  assumes "oget ob ''run_status'' = JStr ''active''" and "oget ob ''progress'' = JObj progress" and "oget progress ''state'' = JStr st"
    and "oget ob ''process'' = JObj started_record" and "st \<noteq> ''blocked_needs_human''" and "\<not> truthy (oget ob ''process_alive'')"
    and "oget ob ''autonomy_preset'' = JStr ''unattended_conservative''" and "oget ob ''stop_condition'' = JNull"
  shows "\<exists>plan. choose_action ob = Inr plan \<and> oget plan ''action'' \<in> JStr ` {''recover_orphan'', ''recover_stalled''}"
proof -
  have "jget (por (oget ob ''progress'') (JObj [])) ''state'' = Inr (JStr st)"
    using assms(2,3) by (cases progress) (auto simp: por_def)
  moreover have "had_managed_process (por (JObj started_record) (JObj [])) = Inr True"
    by (simp add: had_managed_process_def started_record_def por_def)
  ultimately show ?thesis
    using assms by (simp add: choose_action_def is_unattended_preset_def UNATTENDED_PRESETS_def HARD_STOPS_def por_def [of JNull] por_def [of "JStr ''unattended_conservative''"] Let_def)
qed

lemma watched_cycle:
  assumes "governed s = governed watched" and "processes s = [(''R'', Doc (JObj started_record))]" and "registry s = None"
    and "reclaimS (sup_cfg False) s = (s, Inr [])" and "drainS s = (s, Inr es)"
  obtains found ob plan where "plan_cycle (sup_cfg False) ''R'' None s = (s, Inr (found, ob, plan))"
    "oget plan ''action'' \<in> JStr ` {''recover_orphan'', ''recover_stalled''}"
    "found = [(''run_id'', JStr ''R''), (''workers'', JInt 1), (''max_recoveries'', JInt 3)]"
proof -
  have env: "cycle_env (sup_cfg False) = demo_env 0" by (simp add: sup_cfg_def)
  obtain ob plan where ob: "observe_run (machine (sup_cfg False)) (demo_env 0) (files (disk (fst (governed watched)))) [(''R'', Doc (JObj started_record))] ''R'' = Inr ob"
    and plan: "choose_action ob = Inr plan" "oget plan ''action'' \<in> JStr ` {''recover_orphan'', ''recover_stalled''}"
    using watched_observed chosen_recovery by (elim exE conjE) blast
  then show thesis
    using assms by (intro that [of _ ob plan])
      (simp_all add: plan_cycle_def bindS_def liftS_def doneS_def observeS_def env cycle_entry_def list_registered_runs_def registry_runs_def)
qed

theorem started_run_is_not_started_again_witness:
  "\<exists>s1 answer s2 found observation plan. start_action (sup_cfg False) ''R'' 2 [(''grant_id'', JNull)] watched = (s1, Inr answer)
    \<and> plan_cycle (sup_cfg False) ''R'' None s1 = (s2, Inr (found, observation, plan)) \<and> oget plan ''action'' \<noteq> JStr ''start_orchestrator''"
proof -
  let ?c = "sup_cfg False"
  obtain s1 answer e d where s1: "start_action ?c ''R'' 2 [(''grant_id'', JNull)] watched = (s1, Inr answer)" "oget answer ''outcome'' = JStr ''started''"
    "governed s1 = governed watched" "processes s1 = [(''R'', Doc (JObj started_record))]" "iter_events 0 (supervisor.log s1) = (supervisor.log s1, Inr [e])"
    "work s1 = \<lparr>q_items = [(item_id_of (demo_env 0), Doc (JObj d))], q_dead = []\<rparr>" "oget d ''state'' = JStr ''completed''" "registry s1 = None"
    by (rule watched_started)
  have "reclaimS ?c s1 = (s1, Inr [])"
    using s1(6,7) by (simp add: reclaimS_def reclaim_expired_leases_def list_items_def read_all_def sorted_stems_def read_item_def)
  moreover have "drainS s1 = (s1, Inr [e])"
    using s1(5) by (simp add: drainS_def)
  ultimately obtain found ob plan where p: "plan_cycle ?c ''R'' None s1 = (s1, Inr (found, ob, plan))"
    by (rule watched_cycle [OF s1(3,4,8)])
  from started_run_is_not_started_again [OF s1(1,2) _ supervises.idle this]
  have "oget plan ''action'' \<noteq> JStr ''start_orchestrator''" by (simp add: sup_cfg_def)
  then show ?thesis using s1(1) p by blast
qed

definition orphaned :: supervisor where
  "orphaned = watched\<lparr>processes := [(''R'', Doc (JObj started_record))]\<rparr>"

lemma orphan_abandoned:
  "fst (recover_run (recovery_config (sup_cfg False)) ''R'' 3 (governed orphaned)) \<noteq> governed orphaned"
proof -
  have "read_mapping watched_files (run_path (JStr ''R'')) = Inr watched_run"
    by (simp add: read_mapping_def read_yaml_def run_path_def watched_files_def watched_run_def por_def)
  moreover have "prior_recoveries watched_files ''R'' = Inr 3"
    by (simp add: prior_recoveries_def read_json_def recovery_state_path_def watched_files_def)
  ultimately have "map_of (files (disk (fst (fst (recover_run (recovery_config (sup_cfg False)) ''R'' 3 (governed orphaned)))))) ''runs/recovery/R.json''
      = Some (Doc (JObj (recovery_result ''abandoned'' ''R'' [(''attempts'', JInt 3)] ''bounded recovery limit exhausted'' [])))"
    by (simp add: recover_run_def bindS_def readS_def liftS_def doneS_def orphaned_def watched_def watched_run_def
        is_unattended_preset_def UNATTENDED_PRESETS_def por_def write_recovery_state_def recovery_state_path_def Let_def)
  moreover have "map_of (files (disk (fst (governed orphaned)))) ''runs/recovery/R.json'' = Some (Doc (JObj [(''attempts'', JInt 3)]))"
    by (simp add: orphaned_def watched_def watched_files_def)
  ultimately show ?thesis by (auto simp: recovery_result_def)
qed

lemma bindS_governed:
  assumes "Q (governed (fst (m s)))" and "\<And>x. keeps (of_governed Q) (f x)"
  shows "Q (governed (fst (bindS m f s)))"
  using assms by (cases "m s") (auto simp: bindS_def keeps_def of_defs split: sum.split)

lemma orphaned_parts: "governed orphaned = governed watched" "processes orphaned = [(''R'', Doc (JObj started_record))]" "registry orphaned = None"
  by (simp_all add: orphaned_def watched_def)

lemma bindS_liftS: "bindS (liftS (Inr x)) f = f x"
  by (simp add: bindS_def liftS_def fun_eq_iff)

lemma bindS_doneS: "fst (bindS m (\<lambda>x. doneS (f x)) s) = fst (m s)"
  by (cases "m s") (auto simp: bindS_def doneS_def liftS_def split: sum.split)

lemma governedS_changes: "governed (fst (governedS (recover_run (recovery_config (sup_cfg False)) ''R'' 3) orphaned)) \<noteq> governed orphaned"
  using orphan_abandoned by (auto simp: governedS_def split: prod.split)

theorem cycle_governs_only_unattended_witness:
  "governed (fst (reconcile_run (sup_cfg False) ''R'' None orphaned)) \<noteq> governed orphaned
    \<and> (\<exists>run. yaml_document (files (disk (fst (governed orphaned)))) (run_path (JStr ''R'')) = Some run
      \<and> is_unattended_preset (oget run ''autonomy_preset''))"
proof -
  let ?c = "sup_cfg False"
  have "reclaimS ?c orphaned = (orphaned, Inr [])"
    by (simp add: reclaimS_def orphaned_def watched_def reclaim_expired_leases_def list_items_def read_all_def sorted_stems_def)
  moreover have "drainS orphaned = (orphaned, Inr [])"
    by (simp add: drainS_def orphaned_def watched_def iter_events_def fresh_journal_def)
  ultimately obtain found ob plan where p: "plan_cycle ?c ''R'' None orphaned =
      (orphaned, Inr (found, ob, plan))" "found = [(''run_id'', JStr ''R''), (''workers'', JInt 1), (''max_recoveries'', JInt 3)]"
      "oget plan ''action'' \<in> JStr ` {''recover_orphan'', ''recover_stalled''}"
    by (rule watched_cycle [OF orphaned_parts])
  moreover have "governed (fst (recover_action ?c ''R'' k 1 3 orphaned)) \<noteq> governed orphaned" for k
    unfolding recover_action_def
    by (rule bindS_governed [where Q = "\<lambda>g. g \<noteq> governed orphaned"], rule governedS_changes)
       (unfold Let_def, intro keeps start_governed)
  moreover have "jitem (JObj plan) ''action'' \<in> Inr ` JStr ` {''recover_orphan'', ''recover_stalled''}"
    using p(3) by (auto simp: oget_def split: option.splits)
  ultimately have changed: "governed (fst (reconcile_run ?c ''R'' None orphaned)) \<noteq> governed orphaned"
    using p(1,2) by (auto simp: reconcile_run_def bindS_def [of "plan_cycle _ _ _"] execute_action_def bindS_liftS int_field_def
        por_def bindS_doneS)
  from cycle_governs_only_unattended [OF this] changed show ?thesis by blast
qed

end
