(* ===== verification/SemVer.thy ===== *)
theory SemVer
  imports PyText "HOL-Library.Product_Lexorder"
begin

text \<open>
  Semantic versions (\<open>contracts/semver.py\<close>): parsing, the three-way comparison and version ranges.
  The regular expressions are written out as the splits they make (their separators cannot occur
  in the parts); a digit is an ASCII digit. The comparison is shown to be the order of a key in
  the library's class \<open>linorder\<close>, so its results are those of a total order.
\<close>

section \<open>Versions\<close>

record semver =
  major :: nat
  minor :: nat
  patch :: nat
  prerelease :: "string list"
  build :: "string list"

fun split_on :: "char \<Rightarrow> string \<Rightarrow> string list" where
  "split_on c [] = [[]]"
| "split_on c (x # s) =
     (if x = c then [] # split_on c s
      else (case split_on c s of [] \<Rightarrow> [[x]] | p # ps \<Rightarrow> (x # p) # ps))"

definition is_digit :: "char \<Rightarrow> bool" where
  "is_digit c \<longleftrightarrow> 48 \<le> (of_char c :: nat) \<and> (of_char c :: nat) \<le> 57"

definition is_letter :: "char \<Rightarrow> bool" where
  "is_letter c \<longleftrightarrow> 65 \<le> (of_char c :: nat) \<and> (of_char c :: nat) \<le> 90 \<or> 97 \<le> (of_char c :: nat) \<and> (of_char c :: nat) \<le> 122"

text \<open>\<open>[0-9A-Za-z-]+\<close>, \<open>str.isdigit\<close>, and \<open>0|[1-9]\d*\<close>.\<close>

definition is_identifier :: "string \<Rightarrow> bool" where
  "is_identifier t \<longleftrightarrow> t \<noteq> [] \<and> list_all (\<lambda>c. is_digit c \<or> is_letter c \<or> c = CHR ''-'') t"

definition isdigit :: "string \<Rightarrow> bool" where
  "isdigit t \<longleftrightarrow> t \<noteq> [] \<and> list_all is_digit t"

definition is_number :: "string \<Rightarrow> bool" where
  "is_number t \<longleftrightarrow> isdigit t \<and> (t = ''0'' \<or> hd t \<noteq> CHR ''0'')"

definition number_of :: "string \<Rightarrow> nat" where
  "number_of t = (case digits_value 0 t of Some n \<Rightarrow> n | None \<Rightarrow> 0)"

text \<open>The text before and after the first separator; \<open>None\<close> when there is none.\<close>

definition split_first :: "char \<Rightarrow> string \<Rightarrow> string \<times> string option" where
  "split_first c s = (takeWhile (\<lambda>x. x \<noteq> c) s,
     case dropWhile (\<lambda>x. x \<noteq> c) s of [] \<Rightarrow> None | _ # rest \<Rightarrow> Some rest)"

definition split_identifiers :: "string option \<Rightarrow> string list option" where
  "split_identifiers value = (case value of
     None \<Rightarrow> Some []
   | Some t \<Rightarrow> if list_all is_identifier (split_on CHR ''.'' t) then Some (split_on CHR ''.'' t) else None)"

definition parse_semver :: "string \<Rightarrow> semver res" where
  "parse_semver version =
     (let (rest, build_text) = split_first CHR ''+'' (strip version);
          (core, prerelease_text) = split_first CHR ''-'' rest in
      (case (split_on CHR ''.'' core, split_identifiers prerelease_text, split_identifiers build_text) of
         ([a, b, c], Some p, Some m) \<Rightarrow>
           if is_number a \<and> is_number b \<and> is_number c
           then Inr \<lparr>major = number_of a, minor = number_of b, patch = number_of c, prerelease = p, build = m\<rparr>
           else Inl (ValueError ''invalid SemVer'')
       | _ \<Rightarrow> Inl (ValueError ''invalid SemVer'')))"

section \<open>Comparison\<close>

fun compare_identifiers :: "string list \<Rightarrow> string list \<Rightarrow> int" where
  "compare_identifiers [] [] = 0"
| "compare_identifiers [] (r # rs) = -1"
| "compare_identifiers (l # ls) [] = 1"
| "compare_identifiers (l # ls) (r # rs) =
     (if isdigit l \<and> isdigit r then
        if number_of l \<noteq> number_of r then (if number_of l < number_of r then -1 else 1)
        else compare_identifiers ls rs
      else if isdigit l \<noteq> isdigit r then (if isdigit l then -1 else 1)
      else if l \<noteq> r then (if l < r then -1 else 1)
      else compare_identifiers ls rs)"

definition compare_parsed :: "semver \<Rightarrow> semver \<Rightarrow> int" where
  "compare_parsed l r =
     (if major l \<noteq> major r then (if major l < major r then -1 else 1)
      else if minor l \<noteq> minor r then (if minor l < minor r then -1 else 1)
      else if patch l \<noteq> patch r then (if patch l < patch r then -1 else 1)
      else if prerelease l = [] \<and> prerelease r = [] then 0
      else if prerelease l = [] then 1
      else if prerelease r = [] then -1
      else compare_identifiers (prerelease l) (prerelease r))"

definition compare_semver :: "string \<Rightarrow> string \<Rightarrow> int res" where
  "compare_semver left right = bindR (parse_semver left) (\<lambda>l. bindR (parse_semver right) (\<lambda>r.
     Inr (compare_parsed l r)))"

text \<open>\<open>>=lower[,<upper]\<close>, the bounds made of digits and dots.\<close>

definition is_bound :: "string \<Rightarrow> bool" where
  "is_bound t \<longleftrightarrow> t \<noteq> [] \<and> list_all (\<lambda>c. is_digit c \<or> c = CHR ''.'') t"

definition parse_range :: "string \<Rightarrow> (string \<times> string option) res" where
  "parse_range spec =
     (let t = strip spec; (lower, upper) = split_first CHR '','' (drop 2 t) in
      if startswith t ''>='' \<and> is_bound lower \<and>
         (case upper of None \<Rightarrow> True | Some u \<Rightarrow> startswith u ''<'' \<and> is_bound (drop 1 u))
      then Inr (lower, map_option (drop 1) upper)
      else Inl (ValueError ''unsupported version range spec''))"

definition version_in_range :: "string \<Rightarrow> string \<Rightarrow> bool res" where
  "version_in_range version spec = bindR (parse_range spec) (\<lambda>(lower, upper).
     bindR (compare_semver version lower) (\<lambda>c.
     if c < 0 then Inr False
     else (case upper of
             None \<Rightarrow> Inr True
           | Some u \<Rightarrow> bindR (compare_semver version u) (\<lambda>d. Inr (\<not> d \<ge> 0)))))"

section \<open>The order of versions\<close>

datatype ident = Numeric nat | Alnum string

instantiation ident :: linorder
begin

definition less_ident_def: "a < b \<longleftrightarrow>
  (case a of Numeric m \<Rightarrow> (case b of Numeric n \<Rightarrow> m < n | Alnum _ \<Rightarrow> True)
           | Alnum s \<Rightarrow> (case b of Numeric _ \<Rightarrow> False | Alnum t \<Rightarrow> s < t))"

definition less_eq_ident_def: "(a :: ident) \<le> b \<longleftrightarrow> a < b \<or> a = b"

instance
  by standard (auto simp: less_ident_def less_eq_ident_def split: ident.splits)

end

datatype stage = Prerelease "ident list" | Final

instantiation stage :: linorder
begin

definition less_stage_def: "a < b \<longleftrightarrow>
  (case a of Prerelease p \<Rightarrow> (case b of Prerelease q \<Rightarrow> p < q | Final \<Rightarrow> True) | Final \<Rightarrow> False)"

definition less_eq_stage_def: "(a :: stage) \<le> b \<longleftrightarrow> a < b \<or> a = b"

instance
  by standard (auto simp: less_stage_def less_eq_stage_def split: stage.splits)

end

definition ident_of :: "string \<Rightarrow> ident" where
  "ident_of t = (if isdigit t then Numeric (number_of t) else Alnum t)"

definition stage_of :: "string list \<Rightarrow> stage" where
  "stage_of p = (if p = [] then Final else Prerelease (map ident_of p))"

definition precedence :: "semver \<Rightarrow> nat \<times> nat \<times> nat \<times> stage" where
  "precedence v = (major v, minor v, patch v, stage_of (prerelease v))"

definition three_way :: "'a :: linorder \<Rightarrow> 'a \<Rightarrow> int" where
  "three_way a b = (if a < b then -1 else if a = b then 0 else 1)"

lemma compare_identifiers_order:
  "compare_identifiers ls rs = three_way (map ident_of ls) (map ident_of rs)"
  by (induction ls rs rule: compare_identifiers.induct)
     (auto simp: three_way_def ident_of_def less_ident_def)

text \<open>
  C37. The comparison is the three-way comparison of the precedence of the versions in a total
  order: numbers before text, a prerelease before its release, the build ignored.
\<close>

theorem compare_is_precedence_order: "compare_parsed l r = three_way (precedence l) (precedence r)"
  by (auto simp: compare_parsed_def precedence_def compare_identifiers_order three_way_def stage_of_def
      less_stage_def less_prod_def)

text \<open>
  A version is in a range exactly when it lies, in the order of precedence, at or above the
  lower bound and below the upper one.
\<close>

theorem range_is_interval:
  assumes "version_in_range version spec = Inr b" and "parse_range spec = Inr (low, high)"
    and "parse_semver version = Inr v" and "parse_semver low = Inr lo"
    and "\<forall>u. high = Some u \<longrightarrow> parse_semver u = Inr up"
  shows "b \<longleftrightarrow> precedence lo \<le> precedence v \<and> (high \<noteq> None \<longrightarrow> precedence v < precedence up)"
  using assms
  by (cases high)
     (auto simp: version_in_range_def compare_semver_def compare_is_precedence_order three_way_def split: if_splits)

section \<open>Printing and parsing\<close>

definition identifiers_text :: "char \<Rightarrow> string list \<Rightarrow> string" where
  "identifiers_text c ids = (if ids = [] then [] else c # intersperse ''.'' ids)"

definition semver_text :: "semver \<Rightarrow> string" where
  "semver_text v = nat_text (major v) @ ''.'' @ nat_text (minor v) @ ''.'' @ nat_text (patch v)
     @ identifiers_text CHR ''-'' (prerelease v) @ identifiers_text CHR ''+'' (build v)"

definition semver_ok :: "semver \<Rightarrow> bool" where
  "semver_ok v \<longleftrightarrow> list_all is_identifier (prerelease v) \<and> list_all is_identifier (build v)"

lemma digits_value_append:
  "digits_value a (xs @ ys) = (case digits_value a xs of None \<Rightarrow> None | Some b \<Rightarrow> digits_value b ys)"
  by (induction xs arbitrary: a) (auto simp: Let_def)

lemma digit_char: "n < 10 \<Longrightarrow> of_char (char_of (48 + n) :: char) = (48 + n :: nat)"
  by simp

lemma nat_text_value: "digits_value 0 (nat_text n) = Some n"
proof (induction n rule: nat_text.induct)
  case (1 n)
  show ?case
  proof (cases "n < 10")
    case False
    have "digits_value (n div 10) [char_of (48 + n mod 10)] = Some n"
      by (simp add: digit_char Let_def del: of_char_of)
    then show ?thesis using 1 False by (subst nat_text.simps) (simp add: digits_value_append)
  qed (simp add: nat_text.simps digit_char Let_def del: of_char_of)
qed

lemma nat_text_digits: "nat_text n \<noteq> [] \<and> list_all is_digit (nat_text n) \<and> (hd (nat_text n) = CHR ''0'' \<longrightarrow> n = 0)"
proof (induction n rule: nat_text.induct)
  case (1 n)
  have d: "is_digit (char_of (48 + k mod 10))" for k :: nat
    by (simp add: is_digit_def digit_char del: of_char_of)
  show ?case
  proof (cases "n < 10")
    case True
    have "n = 0" if h: "char_of (48 + n) = CHR ''0''"
    proof -
      have "(of_char (char_of (48 + n) :: char) :: nat) = of_char CHR ''0''" by (simp only: h)
      then show ?thesis using True by (simp add: digit_char del: of_char_of)
    qed
    then show ?thesis using True d [of n] by (simp add: nat_text.simps)
  next
    case False
    then show ?thesis using 1 d [of n] by (subst nat_text.simps) (auto simp: nat_text.simps [of n])
  qed
qed

lemma nat_text_number: "is_number (nat_text n)"
proof (cases "n = 0")
  case True
  then show ?thesis by (simp add: is_number_def isdigit_def is_digit_def nat_text.simps)
qed (use nat_text_digits [of n] in \<open>auto simp: is_number_def isdigit_def\<close>)

lemma number_of_nat_text [simp]: "number_of (nat_text n) = n"
  by (simp add: number_of_def nat_text_value)

lemma split_on_append: "c \<notin> set xs \<Longrightarrow> split_on c (xs @ c # s) = xs # split_on c s"
  by (induction xs) auto

lemma split_on_none: "c \<notin> set xs \<Longrightarrow> split_on c xs = [xs]"
  by (induction xs) auto

lemma split_on_intersperse:
  "ids \<noteq> [] \<Longrightarrow> \<forall>t \<in> set ids. c \<notin> set t \<Longrightarrow> split_on c (intersperse [c] ids) = ids"
  by (induction "[c]" ids rule: intersperse.induct) (auto simp: split_on_append split_on_none)

lemma split_first_none: "c \<notin> set s \<Longrightarrow> split_first c s = (s, None)"
  by (induction s) (auto simp: split_first_def)

lemma split_first_append: "c \<notin> set s \<Longrightarrow> split_first c (s @ c # rest) = (s, Some rest)"
  by (induction s) (auto simp: split_first_def)

lemma split_first_identifiers:
  "c \<notin> set s \<Longrightarrow> split_first c (s @ identifiers_text c ids) =
     (s, if ids = [] then None else Some (intersperse ''.'' ids))"
  by (simp add: identifiers_text_def split_first_none split_first_append)

lemma set_intersperse: "set (intersperse sep ids) \<subseteq> set sep \<union> (\<Union>t \<in> set ids. set t)"
  by (induction sep ids rule: intersperse.induct) auto

lemma identifier_char: "is_identifier t \<Longrightarrow> x \<in> set t \<Longrightarrow> is_digit x \<or> is_letter x \<or> x = CHR ''-''"
  by (auto simp: is_identifier_def list_all_iff)

lemma plain_chars:
  "\<not> is_digit CHR ''.''" "\<not> is_letter CHR ''.''" "\<not> is_digit CHR ''+''" "\<not> is_letter CHR ''+''" "\<not> is_digit CHR ''-''"
  by (simp_all add: is_digit_def is_letter_def)

lemma nat_text_chars: "CHR ''.'' \<notin> set (nat_text n)" "CHR ''+'' \<notin> set (nat_text n)" "CHR ''-'' \<notin> set (nat_text n)"
  using nat_text_digits [of n] plain_chars by (auto simp: list_all_iff)

lemma is_space_identifier: "is_digit x \<or> is_letter x \<or> x = CHR ''-'' \<or> x = CHR ''.'' \<or> x = CHR ''+'' \<Longrightarrow> \<not> is_space x"
  by (auto simp: is_space_def is_digit_def is_letter_def)

lemma strip_id: "\<forall>x \<in> set s. \<not> is_space x \<Longrightarrow> strip s = s"
proof -
  have d: "dropWhile is_space s = s" if "\<forall>x \<in> set s. \<not> is_space x" for s using that by (cases s) auto
  assume "\<forall>x \<in> set s. \<not> is_space x"
  then show ?thesis using d [of s] d [of "rev s"] by (simp add: strip_def)
qed

lemma split_identifiers_text:
  assumes "list_all is_identifier ids"
  shows "split_identifiers (if ids = [] then None else Some (intersperse ''.'' ids)) = Some ids"
proof -
  have "\<forall>t \<in> set ids. CHR ''.'' \<notin> set t"
    using assms identifier_char [of _ "CHR ''.''"] plain_chars by (auto simp: list_all_iff)
  then show ?thesis using split_on_intersperse [of ids "CHR ''.''"] assms by (simp add: split_identifiers_def)
qed

lemma intersperse_chars:
  assumes "list_all is_identifier ids" and "x \<in> set (intersperse ''.'' ids)"
  shows "is_digit x \<or> is_letter x \<or> x = CHR ''-'' \<or> x = CHR ''.''"
  using set_intersperse [of "''.''" ids] assms identifier_char by (auto simp: list_all_iff)

lemma identifiers_chars:
  assumes "list_all is_identifier ids" and "x \<in> set (identifiers_text c ids)"
  shows "is_digit x \<or> is_letter x \<or> x = CHR ''-'' \<or> x = CHR ''.'' \<or> x = c"
  using intersperse_chars [OF assms(1)] assms(2) by (auto simp: identifiers_text_def split: if_splits)

text \<open>
  Parsing inverts printing: the text of a version whose identifiers are well formed parses to
  that version, with its prerelease and build.
\<close>

theorem parse_inverts_print:
  assumes "semver_ok v"
  shows "parse_semver (semver_text v) = Inr v"
proof -
  let ?core = "nat_text (major v) @ CHR ''.'' # nat_text (minor v) @ CHR ''.'' # nat_text (patch v)"
  have ids: "list_all is_identifier (prerelease v)" "list_all is_identifier (build v)"
    using assms by (simp_all add: semver_ok_def)
  have shown: "semver_text v = (?core @ identifiers_text CHR ''-'' (prerelease v)) @ identifiers_text CHR ''+'' (build v)"
    by (simp add: semver_text_def)
  have core: "CHR ''-'' \<notin> set ?core" "CHR ''+'' \<notin> set ?core"
    using nat_text_chars by auto
  have plus: "CHR ''+'' \<notin> set (?core @ identifiers_text CHR ''-'' (prerelease v))"
    using core(2) identifiers_chars [OF ids(1), of "CHR ''+''" "CHR ''-''"] plain_chars by auto
  have "\<not> is_space x" if "x \<in> set (semver_text v)" for x
  proof -
    have "is_digit x \<or> is_letter x \<or> x = CHR ''-'' \<or> x = CHR ''.'' \<or> x = CHR ''+''"
      using that identifiers_chars [OF ids(1), of x] identifiers_chars [OF ids(2), of x]
        nat_text_digits [of "major v"] nat_text_digits [of "minor v"] nat_text_digits [of "patch v"]
      by (auto simp: semver_text_def list_all_iff)
    then show ?thesis by (rule is_space_identifier)
  qed
  then have stripped: "strip (semver_text v) = semver_text v" by (intro strip_id) blast
  have dots: "split_on CHR ''.'' ?core = [nat_text (major v), nat_text (minor v), nat_text (patch v)]"
    using nat_text_chars by (simp add: split_on_append split_on_none)
  show ?thesis
    unfolding parse_semver_def shown stripped [unfolded shown] split_first_identifiers [OF plus] Let_def prod.case
      split_first_identifiers [OF core(1)] dots split_identifiers_text [OF ids(1)] split_identifiers_text [OF ids(2)]
    by (simp add: nat_text_number)
qed

section \<open>Witnesses\<close>

theorem range_is_interval_witness:
  "version_in_range ''1.5.0'' ''>=1.0.0,<2.0.0'' = Inr True
   \<and> precedence \<lparr>major = 1, minor = 0, patch = 0, prerelease = [], build = []\<rparr>
     \<le> precedence \<lparr>major = 1, minor = 5, patch = 0, prerelease = [], build = []\<rparr>"
proof -
  have p: "parse_range ''>=1.0.0,<2.0.0'' = Inr (''1.0.0'', Some ''2.0.0'')"
      "parse_semver ''1.5.0'' = Inr \<lparr>major = 1, minor = 5, patch = 0, prerelease = [], build = []\<rparr>"
      "parse_semver ''1.0.0'' = Inr \<lparr>major = 1, minor = 0, patch = 0, prerelease = [], build = []\<rparr>"
      "parse_semver ''2.0.0'' = Inr \<lparr>major = 2, minor = 0, patch = 0, prerelease = [], build = []\<rparr>"
    by code_simp+
  have "version_in_range ''1.5.0'' ''>=1.0.0,<2.0.0'' = Inr True" by code_simp
  from range_is_interval [OF this p(1-3), of "\<lparr>major = 2, minor = 0, patch = 0, prerelease = [], build = []\<rparr>"] p(4) this
  show ?thesis by simp
qed

theorem parse_inverts_print_witness:
  "parse_semver ''1.2.3-rc.1+b7'' = Inr \<lparr>major = 1, minor = 2, patch = 3, prerelease = [''rc'', ''1''], build = [''b7'']\<rparr>"
proof -
  have "semver_ok \<lparr>major = 1, minor = 2, patch = 3, prerelease = [''rc'', ''1''], build = [''b7'']\<rparr>"
    by code_simp
  moreover have "semver_text \<lparr>major = 1, minor = 2, patch = 3, prerelease = [''rc'', ''1''], build = [''b7'']\<rparr> = ''1.2.3-rc.1+b7''"
    by code_simp
  ultimately show ?thesis using parse_inverts_print by metis
qed

end
