(* ===== verification/EffectiveScope.thy ===== *)
theory EffectiveScope
  imports PathPolicy
begin

text \<open>
  The paths one execution may write (\<open>core/execution_gateway/scope.py\<close>) and the role it runs as
  (\<open>role_resolver.py\<close>). The scope of the Work Unit, the grant, the role, the adapter and the
  execution ceiling are axes that are intersected pattern by pattern; an axis that does not apply is
  \<open>None\<close>, an empty one forbids every write. An \<open>ExecutionGatewayError\<close> carries its code, message and
  path; its details, which only repeat the inputs, are left out.
\<close>

section \<open>Intersecting patterns\<close>

definition rstrip_char :: "char \<Rightarrow> string \<Rightarrow> string" where
  "rstrip_char c s = rev (lstrip_char c (rev s))"

text \<open>Probed with one path below the inner pattern.\<close>

definition pattern_subseteq :: "string \<Rightarrow> string \<Rightarrow> bool" where
  "pattern_subseteq inner outer =
     (if inner = outer then True
      else let probe = rstrip_char (CHR ''/'') (rstrip_char (CHR ''*'') inner) in
        if probe = [] then path_is_allowed ''.'' [outer] \<or> path_is_allowed ''./x'' [outer]
        else path_is_allowed probe [outer] \<or> path_is_allowed (probe @ ''/x'') [outer])"

definition choose_pattern :: "string \<Rightarrow> string \<Rightarrow> string option" where
  "choose_pattern left_pattern right_pattern =
     (if pattern_subseteq left_pattern right_pattern then Some left_pattern
      else if pattern_subseteq right_pattern left_pattern then Some right_pattern
      else None)"

definition add_chosen :: "string option \<Rightarrow> string list \<Rightarrow> string list" where
  "add_chosen chosen found = (case chosen of
     Some p \<Rightarrow> if p \<in> set found then found else found @ [p]
   | None \<Rightarrow> found)"

definition intersect_patterns :: "string list \<Rightarrow> string list \<Rightarrow> string list" where
  "intersect_patterns left right =
     (if left = [] \<or> right = [] then []
      else fold add_chosen (concat (map (\<lambda>l. map (choose_pattern l) right) left)) [])"

definition strip_control_plane :: "string list \<Rightarrow> string list" where
  "strip_control_plane patterns = sanitize_allowed_paths (map JStr patterns)"

definition clean_patterns :: "string list \<Rightarrow> string list" where
  "clean_patterns patterns = map normalize_repo_path (filter (\<lambda>item. strip item \<noteq> []) patterns)"

section \<open>The write paths of a role\<close>

text \<open>A template with a placeholder \<open><...>\<close> stands for one pattern per entry of the Work Unit's scope.\<close>

definition expand_template :: "string list \<Rightarrow> string \<Rightarrow> string list" where
  "expand_template wu_include template =
     (case find_char (CHR ''<'') template of
        None \<Rightarrow> [template]
      | Some start \<Rightarrow> (case find_char (CHR ''>'') (drop (Suc start) template) of
          None \<Rightarrow> [template]
        | Some n \<Rightarrow> map (\<lambda>entry. take start template @ entry @ drop (Suc (Suc start + n)) template) wu_include))"

definition scope_entries :: "json \<Rightarrow> string \<Rightarrow> json list res" where
  "scope_entries work_unit key =
     bindR (jget work_unit ''scope'') (\<lambda>sc.
     bindR (jget (por sc (JObj [])) key) (\<lambda>listed.
     jiter (por listed (JList []))))"

definition resolve_role_write_paths :: "json list \<Rightarrow> json \<Rightarrow> string list option res" where
  "resolve_role_write_paths role_paths work_unit =
     (let templates = non_blank role_paths in
      if templates = [] then Inr None
      else bindR (scope_entries work_unit ''include'') (\<lambda>entries.
        let resolved = concat (map (expand_template (path_scope_patterns entries)) templates) in
        Inr (if resolved = [] then None else Some resolved)))"

section \<open>The effective scope\<close>

text \<open>The axes in their order, with their labels.\<close>

definition scope_axes ::
  "string list \<Rightarrow> string list option \<Rightarrow> string list option \<Rightarrow> string list option \<Rightarrow> string list option
     \<Rightarrow> (string \<times> string list option) list" where
  "scope_axes include grant role adapter limits =
     [(''work_unit.scope.include'', if include = [] then None else Some include),
      (''grant.allowed_paths'', map_option (\<lambda>ps. strip_control_plane (clean_patterns ps)) grant),
      (''role.capabilities'', map_option clean_patterns role),
      (''adapter.capabilities'', map_option clean_patterns adapter),
      (''execution_ceiling'', map_option clean_patterns limits)]"

text \<open>\<open>None\<close>: no axis constrains so far.\<close>

definition narrow :: "string list option \<Rightarrow> string list option \<Rightarrow> string list option" where
  "narrow axis effective = (case axis of
     None \<Rightarrow> effective
   | Some patterns \<Rightarrow> (case effective of
       None \<Rightarrow> Some patterns
     | Some found \<Rightarrow> Some (intersect_patterns found patterns)))"

definition effective_patterns :: "(string \<times> string list option) list \<Rightarrow> string list \<Rightarrow> string list option" where
  "effective_patterns axes exclude =
     map_option (\<lambda>found. filter (\<lambda>p. exclude = [] \<or> \<not> path_is_allowed (rstrip_char (CHR ''*'') p) exclude) (strip_control_plane found))
       (fold narrow (map snd axes) None)"

definition patterns_json :: "string list option \<Rightarrow> json" where
  "patterns_json ps = (case ps of None \<Rightarrow> JNull | Some xs \<Rightarrow> JList (map JStr xs))"

definition gateway_fault :: "string \<Rightarrow> string \<Rightarrow> 'a res" where
  "gateway_fault code message = Inl (ExecutionGatewayError code message ''effective_scope'')"

definition compute_effective_scope ::
  "json \<Rightarrow> string list option \<Rightarrow> string list option \<Rightarrow> string list option \<Rightarrow> string list option \<Rightarrow> bool \<Rightarrow> json res" where
  "compute_effective_scope work_unit grant_allowed_paths role_write_paths adapter_paths execution_ceiling_paths grant_axis_present =
     bindR (scope_entries work_unit ''include'') (\<lambda>listed_include.
     bindR (scope_entries work_unit ''exclude'') (\<lambda>listed_exclude.
     (let include = path_scope_patterns listed_include;
          exclude = path_scope_patterns listed_exclude;
          granted = (if grant_axis_present then grant_allowed_paths else None);
          axes = scope_axes include granted role_write_paths adapter_paths execution_ceiling_paths;
          effective = effective_patterns axes exclude;
          contradictions = filter (\<lambda>p. list_ex (startswith (normalize_repo_path p)) CONTROL_PLANE_ONLY_PATH_PREFIXES) include;
          grant = (case granted of None \<Rightarrow> [] | Some ps \<Rightarrow> strip_control_plane ps) in
      if contradictions \<noteq> [] then gateway_fault ''forbidden_control_plane_path'' ''scope include overlaps Control-Plane-only paths''
      else if include \<noteq> [] \<and> grant \<noteq> [] \<and> intersect_patterns include grant = []
      then gateway_fault ''contradictory_path_policy'' ''Work Unit scope.include and grant.allowed_paths do not intersect''
      else if effective = Some []
      then gateway_fault ''empty_effective_scope'' ''effective execution scope is empty after intersecting constraints''
      else Inr (JObj [(''schema_version'', JInt 1), (''include'', JList (map JStr (case effective of None \<Rightarrow> [] | Some ps \<Rightarrow> ps))),
        (''exclude'', JList (map JStr exclude)), (''control_plane_blocked'', JList (map JStr CONTROL_PLANE_ONLY_PATH_PREFIXES)),
        (''axes'', JObj (map (\<lambda>(label, ps). (label, patterns_json ps)) axes))]))))"

text \<open>One line per Work Unit that the grant cannot authorize.\<close>

definition grant_conflict :: "string list option \<Rightarrow> json \<Rightarrow> string list res" where
  "grant_conflict grant_allowed_paths work_unit =
     (if \<not> is_dict work_unit then Inr []
      else (case compute_effective_scope work_unit grant_allowed_paths None None None True of
        Inr found \<Rightarrow> Inr []
      | Inl (ExecutionGatewayError code message path) \<Rightarrow>
          if code \<notin> {''contradictory_path_policy'', ''empty_effective_scope''} then Inl (ExecutionGatewayError code message path)
          else bindR (jget work_unit ''id'') (\<lambda>i. Inr [py_str (por i (JStr ''work-unit'')) @ '': '' @ message])
      | Inl e \<Rightarrow> Inl e))"

definition conflicting_grant_scopes :: "json list \<Rightarrow> string list option \<Rightarrow> bool \<Rightarrow> string list res" where
  "conflicting_grant_scopes work_units grant_allowed_paths grant_axis_present =
     (if \<not> grant_axis_present then Inr []
      else bindR (mapR (grant_conflict grant_allowed_paths) work_units) (\<lambda>lines. Inr (concat lines)))"

section \<open>Directory trees\<close>

text \<open>
  A pattern that stands for everything below one directory, \<open>dir/**\<close>. Of other patterns the probe
  of \<open>pattern_subseteq\<close> decides less than containment (see the last theorem).
\<close>

definition plain_dir :: "string \<Rightarrow> bool" where
  "plain_dir d \<longleftrightarrow> d \<noteq> [] \<and> last d \<noteq> CHR ''/'' \<and> hd d \<noteq> CHR ''/'' \<and> \<not> is_space (hd d) \<and> \<not> startswith (d @ ''/'') ''./''
     \<and> list_all (\<lambda>c. \<not> glob_special c \<and> c \<noteq> char_of (92 :: nat)) d"

definition is_tree :: "string \<Rightarrow> bool" where
  "is_tree p \<longleftrightarrow> endswith p ''/**'' \<and> plain_dir (take (length p - 3) p)"

lemma is_treeE:
  assumes "is_tree p"
  obtains d where "p = d @ ''/**''" "plain_dir d"
proof -
  obtain r where "rev p = ''**/'' @ r" using assms by (auto simp: is_tree_def endswith_def startswith_iff)
  then obtain d where "p = d @ ''/**''" by (metis rev_append rev_rev_ident rev_singleton_conv append_Cons append_Nil append_assoc rev.simps)
  then show ?thesis using that assms by (simp add: is_tree_def)
qed

lemma replace_char_id: "a \<notin> set s \<Longrightarrow> replace_char a b s = s"
  by (induction s) (auto simp: replace_char_def)

lemma backslash_other: "char_of (92 :: nat) \<notin> {CHR ''/'', CHR ''*'', CHR ''x''}"
  by code_simp

lemma normalize_plain:
  assumes "plain_dir d" "set s \<subseteq> {CHR ''/'', CHR ''*'', CHR ''x''}" "s = [] \<or> hd s = CHR ''/''"
  shows "normalize_repo_path (d @ s) = d @ s"
proof -
  obtain a d' where d: "d = a # d'" using assms(1) by (cases d) (auto simp: plain_dir_def)
  have no: "char_of (92 :: nat) \<notin> set (d @ s)"
    using assms(1,2) backslash_other by (auto simp: plain_dir_def list_all_iff)
  have "drop_dot_slash (d @ s) = d @ s"
  proof (cases "d' @ s")
    case (Cons b rest)
    have "\<not> (a = CHR ''.'' \<and> b = CHR ''/'')"
      using assms(1,3) Cons d by (cases d') (auto simp: plain_dir_def startswith_def)
    then show ?thesis using Cons d by auto
  qed (use d in simp)
  moreover have "lstrip_char (CHR ''/'') (d @ s) = d @ s"
    using assms(1) d by (simp add: plain_dir_def lstrip_char_def)
  ultimately show ?thesis by (simp add: normalize_repo_path_def replace_char_id [OF no])
qed

lemma rstrip_char_end: "c \<notin> set d \<or> d = [] \<or> last d \<noteq> c \<Longrightarrow> set t \<subseteq> {c} \<Longrightarrow> rstrip_char c (d @ t) = d"
  unfolding rstrip_char_def lstrip_char_def
  by (cases d rule: rev_cases) (auto simp: dropWhile_append3 dropWhile_eq_Nil_conv subset_iff)

lemma glob_two_stars: "glob_match [GStar, GStar] s"
  by (induction s) auto

lemma dropWhile_hd: "s \<noteq> [] \<Longrightarrow> \<not> P (hd s) \<Longrightarrow> dropWhile P s = s"
  by (cases s) auto

lemma strip_ends: "s \<noteq> [] \<Longrightarrow> \<not> is_space (hd s) \<Longrightarrow> \<not> is_space (last s) \<Longrightarrow> strip s = s"
  by (simp add: strip_def dropWhile_hd hd_rev)

lemma tree_normal:
  assumes "plain_dir d"
  shows "normalize_repo_path (d @ ''/**'') = d @ ''/**''" "normalize_repo_path d = d" "normalize_repo_path (d @ ''/x'') = d @ ''/x''"
    "strip (d @ ''/**'') = d @ ''/**''"
proof -
  show "strip (d @ ''/**'') = d @ ''/**''"
    using assms by (intro strip_ends) (auto simp: plain_dir_def is_space_def)
qed (use normalize_plain [OF assms, of "''/**''"] normalize_plain [OF assms, of "[]"] normalize_plain [OF assms, of "''/x''"] in simp_all)

lemma allowed_each: "path_is_allowed x ps \<longleftrightarrow> (\<exists>p \<in> set ps. path_is_allowed x [p])"
  by (auto simp: path_is_allowed_def list_ex_iff)

lemma allowed_tree:
  assumes "plain_dir d"
  shows "path_is_allowed x [d @ ''/**''] \<longleftrightarrow> (\<exists>r. normalize_repo_path x = (d @ ''/'') @ r)"
proof -
  have literal: "\<forall>c \<in> set (d @ ''/''). \<not> glob_special c"
    using assms by (auto simp: plain_dir_def list_all_iff glob_special_def)
  have "fnmatchcase s ((d @ ''/'') @ ''**'') \<longleftrightarrow> (\<exists>r. s = (d @ ''/'') @ r)" for s
    unfolding fnmatchcase_prefix [OF literal] by (simp add: fnmatchcase_def glob_two_stars)
  moreover have "\<not> endswith (d @ ''/**'') ''/''" by (simp add: endswith_def startswith_def)
  ultimately show ?thesis by (simp add: path_is_allowed_def tree_normal [OF assms] Let_def)
qed

lemma subseteq_tree:
  assumes "plain_dir d" "plain_dir e"
  shows "pattern_subseteq (d @ ''/**'') (e @ ''/**'') \<longleftrightarrow> (\<exists>r. d @ ''/'' = (e @ ''/'') @ r)"
proof -
  have "rstrip_char (CHR ''*'') ((d @ ''/'') @ ''**'') = d @ ''/''" by (rule rstrip_char_end) auto
  moreover have "rstrip_char (CHR ''/'') (d @ ''/'') = d" using assms(1) by (intro rstrip_char_end) (auto simp: plain_dir_def)
  ultimately have probe: "rstrip_char (CHR ''/'') (rstrip_char (CHR ''*'') (d @ ''/**'')) = d" by simp
  have x: "(\<exists>r. d @ ''/x'' = (e @ ''/'') @ r) \<longleftrightarrow> (\<exists>r. d @ ''/'' = (e @ ''/'') @ r)"
  proof
    assume "\<exists>r. d @ ''/x'' = (e @ ''/'') @ r"
    then obtain r where r: "(d @ ''/'') @ ''x'' = (e @ ''/'') @ r" by auto
    then obtain r' where "r = r' @ ''x''" by (cases r rule: rev_cases) auto
    then show "\<exists>r. d @ ''/'' = (e @ ''/'') @ r" using r by auto
  next
    assume "\<exists>r. d @ ''/'' = (e @ ''/'') @ r"
    then obtain r where "d @ ''/'' = (e @ ''/'') @ r" by blast
    then have "(d @ ''/'') @ ''x'' = (e @ ''/'') @ (r @ ''x'')" by (simp only: append_assoc)
    then have "d @ ''/x'' = (e @ ''/'') @ (r @ ''x'')" by simp
    then show "\<exists>r. d @ ''/x'' = (e @ ''/'') @ r" by blast
  qed
  have d: "(\<exists>r. d = (e @ ''/'') @ r) \<Longrightarrow> (\<exists>r. d @ ''/'' = (e @ ''/'') @ r)" by (metis append_assoc)
  have "d \<noteq> []" using assms(1) by (simp add: plain_dir_def)
  then show ?thesis
    using x d unfolding pattern_subseteq_def probe Let_def allowed_tree [OF assms(2)] tree_normal [OF assms(1)] by auto
qed

lemma chosen_set: "set (fold add_chosen cs acc) = set acc \<union> {p. Some p \<in> set cs}"
  by (induction cs arbitrary: acc) (auto simp: add_chosen_def split: option.split)

lemma intersect_set: "set (intersect_patterns l r) = {p. \<exists>a \<in> set l. \<exists>b \<in> set r. choose_pattern a b = Some p}"
  by (auto simp: intersect_patterns_def chosen_set image_iff) (metis)+

lemma prefix_trans: "\<exists>r. a = b @ r \<Longrightarrow> \<exists>r. b = c @ r \<Longrightarrow> \<exists>r. a = c @ r"
  by (metis append_assoc)

lemma comparable: "\<exists>r. x = a @ r \<Longrightarrow> \<exists>r. x = b @ r \<Longrightarrow> (\<exists>r. a = b @ r) \<or> (\<exists>r. b = a @ r)"
  by (auto simp: append_eq_append_conv2)

text \<open>On directory trees the intersection of patterns is the intersection of what they allow.\<close>

lemma choose_tree:
  assumes "is_tree a" "is_tree b"
  shows "(\<exists>p. choose_pattern a b = Some p \<and> path_is_allowed x [p]) \<longleftrightarrow> path_is_allowed x [a] \<and> path_is_allowed x [b]"
    "choose_pattern a b = Some p \<Longrightarrow> is_tree p"
proof -
  obtain d where d: "a = d @ ''/**''" "plain_dir d" using assms(1) by (rule is_treeE)
  obtain e where e: "b = e @ ''/**''" "plain_dir e" using assms(2) by (rule is_treeE)
  have sub: "pattern_subseteq a b \<longleftrightarrow> (\<exists>r. d @ ''/'' = (e @ ''/'') @ r)" "pattern_subseteq b a \<longleftrightarrow> (\<exists>r. e @ ''/'' = (d @ ''/'') @ r)"
    unfolding d(1) e(1) using subseteq_tree d(2) e(2) by blast+
  have allowed: "path_is_allowed x [a] \<longleftrightarrow> (\<exists>r. normalize_repo_path x = (d @ ''/'') @ r)"
      "path_is_allowed x [b] \<longleftrightarrow> (\<exists>r. normalize_repo_path x = (e @ ''/'') @ r)"
    unfolding d(1) e(1) using allowed_tree d(2) e(2) by blast+
  show "(\<exists>p. choose_pattern a b = Some p \<and> path_is_allowed x [p]) \<longleftrightarrow> path_is_allowed x [a] \<and> path_is_allowed x [b]"
  proof (cases "pattern_subseteq a b")
    case True
    then have "path_is_allowed x [a] \<Longrightarrow> path_is_allowed x [b]" unfolding sub allowed using prefix_trans by blast
    then show ?thesis using True by (auto simp: choose_pattern_def)
  next
    case no: False
    show ?thesis
    proof (cases "pattern_subseteq b a")
      case True
      then have "path_is_allowed x [b] \<Longrightarrow> path_is_allowed x [a]" unfolding sub allowed using prefix_trans by blast
      then show ?thesis using True no by (auto simp: choose_pattern_def)
    next
      case False
      then have "\<not> (path_is_allowed x [a] \<and> path_is_allowed x [b])" using no comparable unfolding sub allowed by blast
      then show ?thesis using False no by (simp add: choose_pattern_def)
    qed
  qed
  show "choose_pattern a b = Some p \<Longrightarrow> is_tree p"
    using assms by (auto simp: choose_pattern_def split: if_splits)
qed

lemma intersect_trees:
  assumes "list_all is_tree l" "list_all is_tree r"
  shows "path_is_allowed x (intersect_patterns l r) \<longleftrightarrow> path_is_allowed x l \<and> path_is_allowed x r"
    "list_all is_tree (intersect_patterns l r)"
proof -
  have "path_is_allowed x (intersect_patterns l r)
      \<longleftrightarrow> (\<exists>a \<in> set l. \<exists>b \<in> set r. \<exists>p. choose_pattern a b = Some p \<and> path_is_allowed x [p])"
    unfolding allowed_each [of x "intersect_patterns l r"] intersect_set by blast
  also have "\<dots> \<longleftrightarrow> (\<exists>a \<in> set l. \<exists>b \<in> set r. path_is_allowed x [a] \<and> path_is_allowed x [b])"
    using assms choose_tree(1) by (intro bex_cong refl) (simp add: list_all_iff)
  also have "\<dots> \<longleftrightarrow> path_is_allowed x l \<and> path_is_allowed x r"
    unfolding allowed_each [of x l] allowed_each [of x r] by blast
  finally show "path_is_allowed x (intersect_patterns l r) \<longleftrightarrow> path_is_allowed x l \<and> path_is_allowed x r" .
  show "list_all is_tree (intersect_patterns l r)"
    using assms choose_tree(2) unfolding list_all_iff intersect_set by blast
qed

lemma sanitize_trees:
  assumes "list_all is_tree ps"
  shows "set (strip_control_plane ps) \<subseteq> set ps"
proof -
  have same: "strip (normalize_repo_path p) = p" if "p \<in> set ps" for p
    using assms that by (auto simp: list_all_iff tree_normal elim!: is_treeE)
  have "set (sanitize_loop acc (map JStr qs)) \<subseteq> set acc \<union> set ps" if "set qs \<subseteq> set ps" for acc qs
    using that
  proof (induction qs arbitrary: acc)
    case (Cons q qs)
    then have "q \<in> set ps" "\<And>acc. set (sanitize_loop acc (map JStr qs)) \<subseteq> set acc \<union> set ps" by auto
    from this(1) this(2) [of acc] this(2) [of "acc @ [q]"] show ?case by (auto simp: same Let_def)
  qed simp
  from this [of ps "[]"] show ?thesis by (simp add: strip_control_plane_def sanitize_allowed_paths_def)
qed

lemma sanitized_are_trees: "list_all is_tree ps \<Longrightarrow> list_all is_tree (strip_control_plane ps)"
  using sanitize_trees by (auto simp: list_all_iff)

lemma clean_trees: "list_all is_tree ps \<Longrightarrow> clean_patterns ps = ps"
  by (induction ps) (auto simp: clean_patterns_def tree_normal elim!: is_treeE)

lemma allowed_subset: "set ps \<subseteq> set qs \<Longrightarrow> path_is_allowed x ps \<Longrightarrow> path_is_allowed x qs"
  unfolding allowed_each [of x ps] allowed_each [of x qs] by blast

text \<open>Narrowing by trees keeps trees and allows only what every axis allows.\<close>

lemma narrowed_trees:
  assumes "fold narrow axes start = Some found" "\<forall>axis \<in> set axes. \<forall>ps. axis = Some ps \<longrightarrow> list_all is_tree ps"
    "\<forall>ps. start = Some ps \<longrightarrow> list_all is_tree ps"
  shows "list_all is_tree found
     \<and> (path_is_allowed x found \<longrightarrow> (\<forall>ps. Some ps \<in> set axes \<or> start = Some ps \<longrightarrow> path_is_allowed x ps))"
  using assms
proof (induction axes arbitrary: start)
  case (Cons axis axes)
  have trees: "\<forall>ps. narrow axis start = Some ps \<longrightarrow> list_all is_tree ps"
    using Cons.prems(2,3) intersect_trees(2) by (auto simp: narrow_def split: option.splits)
  have rest: "\<forall>axis \<in> set axes. \<forall>ps. axis = Some ps \<longrightarrow> list_all is_tree ps" using Cons.prems(2) by simp
  have step: "fold narrow axes (narrow axis start) = Some found" using Cons.prems(1) by simp
  note ih = Cons.IH [OF step rest trees]
  have "path_is_allowed x ps" if "path_is_allowed x found" "axis = Some ps \<or> start = Some ps" for ps
  proof (cases axis)
    case None
    then show ?thesis using ih that by (auto simp: narrow_def)
  next
    case axis: (Some a)
    show ?thesis
    proof (cases start)
      case None
      then show ?thesis using ih that axis by (auto simp: narrow_def)
    next
      case (Some b)
      then have "path_is_allowed x (intersect_patterns b a)" using ih axis that(1) by (simp add: narrow_def)
      moreover have "list_all is_tree b" "list_all is_tree a" using Some axis Cons.prems(2,3) by simp_all
      ultimately have "path_is_allowed x b \<and> path_is_allowed x a" using intersect_trees(1) by blast
      then show ?thesis using that(2) axis Some by auto
    qed
  qed
  then have "path_is_allowed x found \<longrightarrow> (\<forall>ps. Some ps = axis \<or> start = Some ps \<longrightarrow> path_is_allowed x ps)" by metis
  then show ?case unfolding list.set insert_iff using ih by blast
qed simp

text \<open>A tree that the sanitizing keeps holds no control-plane file.\<close>

lemma find_char_append: "c \<notin> set l \<Longrightarrow> find_char c (l @ t) = map_option ((+) (length l)) (find_char c t)"
  by (induction l; cases "find_char c t") auto

lemma static_prefix_tree:
  assumes "\<forall>c \<in> set l. \<not> glob_special c"
  shows "static_prefix (l @ ''**'') = l"
proof -
  have "CHR ''*'' \<notin> set l" "CHR ''?'' \<notin> set l" "CHR ''['' \<notin> set l" using assms by (auto simp: glob_special_def)
  then have "wildcard_positions (l @ ''**'') = [length l]"
    by (simp add: wildcard_positions_def List.map_filter_simps find_char_append)
  then show ?thesis by (simp add: static_prefix_def)
qed

lemma sanitized_tree_allows:
  assumes "is_tree p" "\<not> overlaps_control_plane p" "path_is_allowed x [p]"
  shows "list_all (\<lambda>prefix. \<not> startswith (normalize_repo_path x) prefix) CONTROL_PLANE_ONLY_PATH_PREFIXES"
proof -
  obtain d where "p = d @ ''/**''" and plain: "plain_dir d" by (rule is_treeE [OF assms(1)])
  then have d: "p = (d @ ''/'') @ ''**''" "plain_dir d" by simp_all
  have literal: "\<forall>c \<in> set (d @ ''/''). \<not> glob_special c"
    using d(2) by (auto simp: plain_dir_def list_all_iff glob_special_def)
  have below: "\<exists>r. normalize_repo_path x = (d @ ''/'') @ r"
    using assms(3) allowed_tree [OF d(2)] d(1) by simp
  have apart: "\<not> startswith (d @ ''/'') prefix" "\<not> fnmatchcase (prefix @ ''__boundary_probe__'') p"
    if "prefix \<in> set CONTROL_PLANE_ONLY_PATH_PREFIXES" for prefix
    using assms(2) that static_prefix_tree [OF literal] unfolding overlaps_control_plane_def d(1) list_ex_iff by auto
  have match: "fnmatchcase t p" if "\<exists>r. t = (d @ ''/'') @ r" for t
    using that unfolding d(1) fnmatchcase_prefix [OF literal] by (simp add: fnmatchcase_def glob_two_stars)
  show ?thesis unfolding list_all_iff
  proof (intro ballI notI)
    fix prefix assume prefix: "prefix \<in> set CONTROL_PLANE_ONLY_PATH_PREFIXES" and "startswith (normalize_repo_path x) prefix"
    then have "\<exists>r. normalize_repo_path x = prefix @ r" by (auto simp: startswith_iff)
    from comparable [OF below this] show False
    proof
      assume "\<exists>r. d @ ''/'' = prefix @ r"
      then show False using apart(1) [OF prefix] by (auto simp: startswith_iff)
    next
      assume "\<exists>r. prefix = (d @ ''/'') @ r"
      then have "\<exists>r. prefix @ ''__boundary_probe__'' = (d @ ''/'') @ r" by (metis append_assoc)
      then show False using apart(2) [OF prefix] match by blast
    qed
  qed
qed

section \<open>Properties\<close>

text \<open>
  C23. When every entry of the scope, the grant, the role, the adapter and the execution ceiling is a
  directory tree, the effective scope allows a path only if every one of them that applies does and it
  lies under no control-plane directory; the directory of no entry is excluded.
\<close>

theorem effective_scope_within_axes:
  assumes "compute_effective_scope work_unit grant role adapter limits granted = Inr (JObj ob)"
    and "scope_entries work_unit ''include'' = Inr listed" and "scope_entries work_unit ''exclude'' = Inr excluded"
    and "oget ob ''include'' = JList (map JStr effective)"
    and "list_all (\<lambda>ps. list_all is_tree (case ps of None \<Rightarrow> [] | Some xs \<Rightarrow> xs)) [Some (path_scope_patterns listed), grant, role, adapter, limits]"
    and "path_is_allowed path effective"
  shows "(path_scope_patterns listed = [] \<or> path_is_allowed path (path_scope_patterns listed))
    \<and> (granted \<longrightarrow> (case grant of None \<Rightarrow> True | Some ps \<Rightarrow> path_is_allowed path ps))
    \<and> list_all (\<lambda>axis. case axis of None \<Rightarrow> True | Some ps \<Rightarrow> path_is_allowed path ps) [role, adapter, limits]
    \<and> list_all (\<lambda>prefix. \<not> startswith (normalize_repo_path path) prefix) CONTROL_PLANE_ONLY_PATH_PREFIXES
    \<and> list_all (\<lambda>p. path_scope_patterns excluded = []
         \<or> \<not> path_is_allowed (rstrip_char (CHR ''*'') p) (path_scope_patterns excluded)) effective"
proof -
  define inside where "inside = path_scope_patterns listed"
  define out where "out = path_scope_patterns excluded"
  define axes where "axes = scope_axes inside (if granted then grant else None) role adapter limits"
  have trees: "list_all is_tree inside" "\<And>ps. grant = Some ps \<Longrightarrow> list_all is_tree ps" "\<And>ps. role = Some ps \<Longrightarrow> list_all is_tree ps"
      "\<And>ps. adapter = Some ps \<Longrightarrow> list_all is_tree ps" "\<And>ps. limits = Some ps \<Longrightarrow> list_all is_tree ps"
    using assms(5) by (auto simp: inside_def)
  have "oget ob ''include'' = JList (map JStr (case effective_patterns axes out of None \<Rightarrow> [] | Some ps \<Rightarrow> ps))"
    using assms(1-3) by (auto simp: compute_effective_scope_def axes_def inside_def out_def gateway_fault_def Let_def split: if_splits)
  then have eq: "effective = (case effective_patterns axes out of None \<Rightarrow> [] | Some ps \<Rightarrow> ps)"
    using assms(4) by (simp add: inj_map_eq_map inj_def)
  obtain found where found: "fold narrow (map snd axes) None = Some found"
    using assms(6) eq by (cases "fold narrow (map snd axes) None") (auto simp: effective_patterns_def)
  have effective: "effective = filter (\<lambda>p. out = [] \<or> \<not> path_is_allowed (rstrip_char (CHR ''*'') p) out) (strip_control_plane found)"
    using eq found by (simp add: effective_patterns_def)
  have "\<forall>axis \<in> set (map snd axes). \<forall>ps. axis = Some ps \<longrightarrow> list_all is_tree ps"
    using trees sanitized_are_trees clean_trees by (auto simp: axes_def scope_axes_def split: if_splits)
  from narrowed_trees [OF found this, of path] have found_trees: "list_all is_tree found"
      and allows: "path_is_allowed path found \<longrightarrow> (\<forall>ps. Some ps \<in> set (map snd axes) \<longrightarrow> path_is_allowed path ps)" by auto
  have "path_is_allowed path found"
    by (rule allowed_subset [OF _ assms(6)]) (use effective sanitize_trees [OF found_trees] in auto)
  then have each: "\<And>ps. Some ps \<in> set (map snd axes) \<Longrightarrow> path_is_allowed path ps" using allows by blast
  have inside_it: "inside = [] \<or> path_is_allowed path inside"
    by (cases "inside = []") (simp_all add: each axes_def scope_axes_def)
  have within: "granted \<Longrightarrow> grant = Some ps \<Longrightarrow> path_is_allowed path ps" for ps
    using each [of "strip_control_plane (clean_patterns ps)"] allowed_subset [OF sanitize_trees [OF trees(2)]] clean_trees [OF trees(2)]
    by (auto simp: axes_def scope_axes_def)
  have axis_it: "axis = Some ps \<Longrightarrow> path_is_allowed path ps" if "axis \<in> {role, adapter, limits}" for axis ps
    using each [of "clean_patterns ps"] clean_trees [of ps] trees(3-5) that by (auto simp: axes_def scope_axes_def)
  have sane: "\<not> overlaps_control_plane p \<and> (out = [] \<or> \<not> path_is_allowed (rstrip_char (CHR ''*'') p) out)" if "p \<in> set effective" for p
    using that sanitized_pattern [of p] unfolding effective strip_control_plane_def by auto
  obtain p where "p \<in> set effective" "path_is_allowed path [p]" using assms(6) allowed_each by blast
  moreover from this have "is_tree p" using effective sanitized_are_trees [OF found_trees] by (auto simp: list_all_iff)
  ultimately have "list_all (\<lambda>prefix. \<not> startswith (normalize_repo_path path) prefix) CONTROL_PLANE_ONLY_PATH_PREFIXES"
    using sanitized_tree_allows sane by blast
  moreover note within inside_it axis_it sane
  ultimately show ?thesis unfolding inside_def [symmetric] out_def [symmetric]
    by (auto simp: list_all_iff split: option.split)
qed

definition scoped_unit :: json where
  "scoped_unit = JObj [(''id'', JStr ''WU-1''), (''scope'', JObj [(''include'', JList [JStr ''src/**'', JStr ''docs/**'']),
    (''exclude'', JList [JStr ''src/vendor/**''])])]"

definition scoped_result :: obj where
  "scoped_result = [(''schema_version'', JInt 1), (''include'', JList [JStr ''src/app/**'']),
    (''exclude'', JList [JStr ''src/vendor/**'']), (''control_plane_blocked'', JList (map JStr CONTROL_PLANE_ONLY_PATH_PREFIXES)),
    (''axes'', JObj (map (\<lambda>(label, ps). (label, patterns_json ps))
       (scope_axes [''src/**'', ''docs/**''] (Some [''src/app/**'', ''src/vendor/**'', ''.ai-team/**'']) None None None)))]"

theorem effective_scope_within_axes_witness:
  "compute_effective_scope scoped_unit (Some [''src/app/**'', ''src/vendor/**'', ''.ai-team/**'']) None None None True = Inr (JObj scoped_result)
   \<and> path_is_allowed ''src/app/a.py'' [''src/**'', ''docs/**''] \<and> \<not> startswith ''src/app/a.py'' ''.ai-team/runs/''"
proof -
  have run: "compute_effective_scope scoped_unit (Some [''src/app/**'', ''src/vendor/**'', ''.ai-team/**'']) None None None True = Inr (JObj scoped_result)"
    unfolding scoped_unit_def scoped_result_def by code_simp
  have listed: "scope_entries scoped_unit ''include'' = Inr [JStr ''src/**'', JStr ''docs/**'']"
      "scope_entries scoped_unit ''exclude'' = Inr [JStr ''src/vendor/**'']"
      "oget scoped_result ''include'' = JList (map JStr [''src/app/**''])"
    unfolding scoped_unit_def scoped_result_def by code_simp+
  have trees: "list_all (\<lambda>ps. list_all is_tree (case ps of None \<Rightarrow> [] | Some xs \<Rightarrow> xs))
      [Some (path_scope_patterns [JStr ''src/**'', JStr ''docs/**'']), Some [''src/app/**'', ''src/vendor/**'', ''.ai-team/**''], None, None, None]"
    by code_simp
  have path: "path_is_allowed ''src/app/a.py'' [''src/app/**'']" by code_simp
  have forms: "path_scope_patterns [JStr ''src/**'', JStr ''docs/**''] = [''src/**'', ''docs/**'']"
      "normalize_repo_path ''src/app/a.py'' = ''src/app/a.py''" "''.ai-team/runs/'' \<in> set CONTROL_PLANE_ONLY_PATH_PREFIXES" by code_simp+
  from effective_scope_within_axes [OF run listed trees path] forms run show ?thesis by (auto simp: list_all_iff)
qed

theorem overlapping_patterns_widen_scope:
  "compute_effective_scope (JObj [(''scope'', JObj [(''include'', JList [JStr ''src*''])])]) None None None (Some [''src/**'']) False
     = Inr (JObj [(''schema_version'', JInt 1), (''include'', JList [JStr ''src*'']), (''exclude'', JList []),
         (''control_plane_blocked'', JList (map JStr CONTROL_PLANE_ONLY_PATH_PREFIXES)),
         (''axes'', JObj [(''work_unit.scope.include'', JList [JStr ''src*'']), (''grant.allowed_paths'', JNull), (''role.capabilities'', JNull),
            (''adapter.capabilities'', JNull), (''execution_ceiling'', JList [JStr ''src/**''])])])
   \<and> path_is_allowed ''src-private/key'' [''src*''] \<and> \<not> path_is_allowed ''src-private/key'' [''src/**'']"
  by (intro conjI; code_simp)

end
