(* ===== verification/ResultValidation.thy ===== *)
theory ResultValidation
  imports PathPolicy
begin

text \<open>
  The checks on what crosses the boundary to an agent (\<open>core/execution_gateway/validation.py\<close>, with the
  bounds of \<open>contracts.py\<close>): the contract, the request, the capabilities of an adapter, and the result with its
  check results, artifacts, workspace and commands. A validator returns the faults it found in their order,
  each with its code, message and path; the details of a fault, which only repeat the inputs, are left out.
  A validator that looks a value up in a set raises on an unhashable one.
\<close>

type_synonym fault = "string \<times> string \<times> string"

section \<open>Bounds and expressions\<close>

definition SCHEMA_VERSION :: int where "SCHEMA_VERSION = 1"
definition MAX_SUMMARY_CHARS :: nat where "MAX_SUMMARY_CHARS = 8000"
definition MAX_ARTIFACT_BYTES :: nat where "MAX_ARTIFACT_BYTES = 5 * 1024 * 1024"
definition MAX_ARTIFACTS :: nat where "MAX_ARTIFACTS = 64"
definition MAX_CHECKS :: nat where "MAX_CHECKS = 128"
definition MAX_LIMITATIONS :: nat where "MAX_LIMITATIONS = 64"

definition char_in :: "char \<Rightarrow> char \<Rightarrow> char \<Rightarrow> bool" where
  "char_in a b c = ((of_char a :: nat) \<le> of_char c \<and> (of_char c :: nat) \<le> of_char b)"

definition is_hex :: "char \<Rightarrow> bool" where
  "is_hex c = (char_in (CHR ''0'') (CHR ''9'') c \<or> char_in (CHR ''a'') (CHR ''f'') c)"

definition is_git_sha :: "string \<Rightarrow> bool" where
  "is_git_sha s = (length s = 40 \<and> list_all is_hex s)"

definition is_sha256 :: "string \<Rightarrow> bool" where
  "is_sha256 s = (startswith s ''sha256:'' \<and> length s = 71 \<and> list_all is_hex (drop 7 s))"

definition is_bare_digest :: "string \<Rightarrow> bool" where
  "is_bare_digest s = (length s = 64 \<and> list_all (\<lambda>c. is_hex c \<or> char_in (CHR ''A'') (CHR ''F'') c) s)"

definition is_alnum :: "char \<Rightarrow> bool" where
  "is_alnum c = (char_in (CHR ''A'') (CHR ''Z'') c \<or> char_in (CHR ''a'') (CHR ''z'') c \<or> char_in (CHR ''0'') (CHR ''9'') c)"

definition id_text :: "string \<Rightarrow> bool" where
  "id_text s = (case s of [] \<Rightarrow> False
     | c # rest \<Rightarrow> is_alnum c \<and> length rest \<le> 127 \<and> list_all (\<lambda>d. is_alnum d \<or> d \<in> set ''._:-'') rest)"

text \<open>\<open>match\<close> with a final \<open>$\<close> also accepts the text followed by one line break.\<close>

definition matches_id :: "string \<Rightarrow> bool" where
  "matches_id s = (id_text s \<or> (s \<noteq> [] \<and> last s = char_of (10 :: nat) \<and> id_text (butlast s)))"

definition VALID_STATUSES :: "string list" where
  "VALID_STATUSES = [''succeeded'', ''failed'', ''blocked'', ''cancelled'', ''timed_out'', ''rejected'']"

definition VALID_TRUST :: "string list" where
  "VALID_TRUST = [''agent_reported'', ''framework_observed'', ''framework_verified'', ''human_verified'']"

definition VALID_CHECK_STATUS :: "string list" where
  "VALID_CHECK_STATUS = [''passed'', ''failed'', ''blocked'', ''skipped'', ''timed_out'', ''unknown'']"

section \<open>Single values\<close>

definition int_faults :: "json \<Rightarrow> string \<Rightarrow> fault list" where
  "int_faults value path = (case value of JInt _ \<Rightarrow> []
     | _ \<Rightarrow> [(''invalid_type'', path @ '' must be an integer'', path)])"

definition expect_type :: "(json \<Rightarrow> bool) \<Rightarrow> json \<Rightarrow> string \<Rightarrow> fault list" where
  "expect_type expected value path = (if expected value then []
     else [(''invalid_type'', path @ '' has invalid type'', path)])"

definition expect_nonempty_str :: "json \<Rightarrow> string \<Rightarrow> fault list" where
  "expect_nonempty_str value path = (case value of
     JStr s \<Rightarrow> if strip s = [] then [(''empty_string'', path @ '' must be a non-empty string'', path)] else []
   | _ \<Rightarrow> expect_type is_str value path)"

definition expect_id :: "json \<Rightarrow> string \<Rightarrow> fault list" where
  "expect_id value path = (if expect_nonempty_str value path \<noteq> [] then expect_nonempty_str value path
     else if \<not> matches_id (py_str value) then [(''invalid_identifier'', path @ '' is not a valid identifier'', path)]
     else [])"

text \<open>A list, and each of its items under its own path.\<close>

definition indexed :: "string \<Rightarrow> nat \<Rightarrow> string" where
  "indexed path index = path @ ''['' @ nat_text index @ '']''"

definition each_faults :: "(json \<Rightarrow> string \<Rightarrow> fault list) \<Rightarrow> string \<Rightarrow> json list \<Rightarrow> fault list" where
  "each_faults check path items = concat (map (\<lambda>(index, item). check item (indexed path index)) (enumerate 0 items))"

definition list_faults :: "(json \<Rightarrow> string \<Rightarrow> fault list) \<Rightarrow> json \<Rightarrow> string \<Rightarrow> fault list" where
  "list_faults check value path = (case value of
     JList items \<Rightarrow> each_faults check path items
   | _ \<Rightarrow> expect_type is_list value path)"

definition str_faults :: "json \<Rightarrow> string \<Rightarrow> fault list" where
  "str_faults value path = expect_type is_str value path"

definition version_faults :: "json \<Rightarrow> string \<Rightarrow> fault list" where
  "version_faults value path = (case value of
     JInt version \<Rightarrow> if version \<noteq> SCHEMA_VERSION
       then [(''unsupported_schema_version'', ''schema_version must be '' @ int_text SCHEMA_VERSION, path)] else []
   | _ \<Rightarrow> int_faults value path)"

text \<open>The checks of one field, when the field is there.\<close>

definition on_field :: "obj \<Rightarrow> string \<Rightarrow> (json \<Rightarrow> fault list) \<Rightarrow> fault list" where
  "on_field ob field check = (if ohas ob field then check (oget ob field) else [])"

definition missing_faults :: "string \<Rightarrow> string list \<Rightarrow> obj \<Rightarrow> fault list" where
  "missing_faults prefix required ob =
     map (\<lambda>field. (''missing_field'', ''required field '' @ prefix @ field @ '' missing'', prefix @ field))
       (filter (\<lambda>field. \<not> ohas ob field) required)"

definition enum_faults :: "string list \<Rightarrow> string \<Rightarrow> json \<Rightarrow> string \<Rightarrow> fault list" where
  "enum_faults known message value path =
     (if \<exists>s \<in> set known. value = JStr s then [] else [(''invalid_enum'', message, path)])"

definition sha256_faults :: "string \<Rightarrow> json \<Rightarrow> string \<Rightarrow> fault list" where
  "sha256_faults message value path = (case value of
     JStr s \<Rightarrow> if is_sha256 (lower s) then [] else [(''invalid_sha256'', message, path)]
   | _ \<Rightarrow> [(''invalid_sha256'', message, path)])"

definition git_sha_faults :: "string \<Rightarrow> json \<Rightarrow> string \<Rightarrow> fault list" where
  "git_sha_faults message value path = (case value of
     JStr s \<Rightarrow> if is_git_sha (lower s) then [] else [(''invalid_git_sha'', message, path)]
   | _ \<Rightarrow> [(''invalid_git_sha'', message, path)])"

definition positive_int :: "json \<Rightarrow> bool" where
  "positive_int value = (case value of JInt i \<Rightarrow> i \<ge> 1 | _ \<Rightarrow> False)"

definition blank :: "json \<Rightarrow> bool" where
  "blank value = (value = JNull \<or> value = JStr [])"

section \<open>The contract\<close>

definition CONTRACT_FIELDS :: "string list" where
  "CONTRACT_FIELDS = [''schema_version'', ''role_id'', ''procedure_id'', ''effective_scope'', ''required_checks'', ''allowed_shell_commands'']"

definition positive_number :: "json \<Rightarrow> bool" where
  "positive_number value = (case value of JInt i \<Rightarrow> i > 0 | JFloat q \<Rightarrow> q > 0 | _ \<Rightarrow> False)"

text \<open>The optional fields of a contract, each checked when it is there.\<close>

definition contract_options :: "obj \<Rightarrow> string \<Rightarrow> fault list" where
  "contract_options contract path =
     on_field contract ''context_package_hash'' (\<lambda>digest. sha256_faults ''invalid context package hash'' digest (path @ ''.context_package_hash''))
   @ on_field contract ''timeout_seconds'' (\<lambda>value. if positive_number value then []
       else [(''invalid_type'', ''timeout_seconds must be a positive number'', path @ ''.timeout_seconds'')])
   @ on_field contract ''max_artifact_bytes'' (\<lambda>value. if positive_int value then []
       else [(''invalid_type'', ''max_artifact_bytes must be a positive integer'', path @ ''.max_artifact_bytes'')])"

definition validate_execution_contract :: "json \<Rightarrow> string \<Rightarrow> fault list" where
  "validate_execution_contract value path = (case value of
     JObj contract \<Rightarrow>
       missing_faults (path @ ''.'') CONTRACT_FIELDS contract
     @ version_faults (oget contract ''schema_version'') (path @ ''.schema_version'')
     @ concat (map (\<lambda>field. on_field contract field (\<lambda>v. expect_id v (path @ ''.'' @ field))) [''role_id'', ''procedure_id''])
     @ concat (map (\<lambda>field. on_field contract field (\<lambda>v. if v = JNull then [] else list_faults expect_nonempty_str v (path @ ''.'' @ field)))
         [''effective_scope'', ''required_checks'', ''allowed_shell_commands'', ''excluded_paths'', ''accessible_secrets''])
     @ concat (map (\<lambda>field. on_field contract field (\<lambda>v. expect_nonempty_str v (path @ ''.'' @ field)))
         [''contract_id'', ''bundle_version'', ''bundle_hash'', ''role_revision'', ''procedure_revision''])
     @ contract_options contract path
   | _ \<Rightarrow> expect_type is_dict value path)"

section \<open>The capabilities of an adapter\<close>

definition CAPABILITY_FIELDS :: "string list" where
  "CAPABILITY_FIELDS = [''schema_version'', ''adapter_id'', ''adapter_version'', ''supported_protocol_versions'',
     ''supported_roles'', ''supported_procedures'', ''isolated_workspace'', ''structured_output'']"

definition capability_list_faults :: "string \<Rightarrow> string \<Rightarrow> json \<Rightarrow> fault list" where
  "capability_list_faults path field value =
     (if field \<in> {''supported_roles'', ''supported_procedures''} \<and> value = JList []
      then [(''empty_capability_list'', path @ ''.'' @ field @ '' must not be empty'', path @ ''.'' @ field)] else [])
     @ list_faults expect_nonempty_str value (path @ ''.'' @ field)"

definition pair_faults :: "json \<Rightarrow> string \<Rightarrow> fault list" where
  "pair_faults pair path = (case pair of
     JList [a, b] \<Rightarrow> expect_nonempty_str a (indexed path 0) @ expect_nonempty_str b (indexed path 1)
   | _ \<Rightarrow> [(''invalid_type'', ''role/procedure capability must be a pair'', path)])"

definition validate_capability_descriptor :: "json \<Rightarrow> string \<Rightarrow> fault list" where
  "validate_capability_descriptor value path = (case value of
     JObj descriptor \<Rightarrow>
       missing_faults (path @ ''.'') CAPABILITY_FIELDS descriptor
     @ version_faults (oget descriptor ''schema_version'') (path @ ''.schema_version'')
     @ concat (map (\<lambda>field. on_field descriptor field (\<lambda>v. expect_nonempty_str v (path @ ''.'' @ field))) [''adapter_id'', ''adapter_version''])
     @ concat (map (\<lambda>field. on_field descriptor field (capability_list_faults path field))
         [''supported_protocol_versions'', ''supported_roles'', ''supported_procedures''])
     @ concat (map (\<lambda>field. on_field descriptor field (\<lambda>v. if is_bool v then []
         else [(''invalid_type'', path @ ''.'' @ field @ '' must be a boolean'', path @ ''.'' @ field)]))
         [''isolated_workspace'', ''structured_output'', ''cancellation'', ''progress_events'', ''command_enforcement'', ''filesystem_enforcement''])
     @ on_field descriptor ''maximum_parallelism'' (\<lambda>v. if positive_int v then []
         else [(''invalid_type'', path @ ''.maximum_parallelism must be a positive integer'', path @ ''.maximum_parallelism'')])
     @ (if oget descriptor ''supported_role_procedures'' = JNull then []
        else list_faults pair_faults (oget descriptor ''supported_role_procedures'') (path @ ''.supported_role_procedures''))
   | _ \<Rightarrow> expect_type is_dict value path)"

section \<open>Check results and artifacts\<close>

definition CHECK_FIELDS :: "string list" where
  "CHECK_FIELDS = [''schema_version'', ''canonical_id'', ''reported_name'', ''status'', ''blocking'', ''trust_level'', ''limitations'']"

definition validate_check_result :: "json \<Rightarrow> string \<Rightarrow> fault list" where
  "validate_check_result value path = (case value of
     JObj check \<Rightarrow>
       missing_faults (path @ ''.'') CHECK_FIELDS check
     @ version_faults (oget check ''schema_version'') (path @ ''.schema_version'')
     @ concat (map (\<lambda>field. on_field check field (\<lambda>v. expect_nonempty_str v (path @ ''.'' @ field))) [''canonical_id'', ''reported_name''])
     @ on_field check ''status'' (\<lambda>v. enum_faults VALID_CHECK_STATUS (''invalid check status '' @ py_repr v) v (path @ ''.status''))
     @ on_field check ''trust_level'' (\<lambda>v. enum_faults VALID_TRUST (''invalid trust_level '' @ py_repr v) v (path @ ''.trust_level''))
     @ on_field check ''blocking'' (\<lambda>v. expect_type is_bool v (path @ ''.blocking''))
     @ on_field check ''limitations'' (\<lambda>v. list_faults str_faults v (path @ ''.limitations''))
     @ concat (map (\<lambda>field. if oget check field = JNull then [] else int_faults (oget check field) (path @ ''.'' @ field)) [''exit_code'', ''duration_ms''])
     @ (if oget check ''transcript_hash'' = JNull then []
        else sha256_faults ''invalid transcript hash'' (oget check ''transcript_hash'') (path @ ''.transcript_hash''))
   | _ \<Rightarrow> expect_type is_dict value path)"

definition digest_faults :: "string \<Rightarrow> string \<Rightarrow> json \<Rightarrow> fault list" where
  "digest_faults path field digest =
     (if blank digest then []
      else case digest of
        JStr s \<Rightarrow> if is_sha256 (lower s) \<or> is_bare_digest s then []
          else [(''invalid_sha256'', path @ ''.'' @ field @ '' is not a SHA-256 digest'', path @ ''.'' @ field)]
      | _ \<Rightarrow> [(''invalid_sha256'', path @ ''.'' @ field @ '' is not a SHA-256 digest'', path @ ''.'' @ field)])"

definition size_faults :: "string \<Rightarrow> json \<Rightarrow> fault list" where
  "size_faults path bytes = (case bytes of
     JNull \<Rightarrow> []
   | JInt i \<Rightarrow> if i < 0 then [(''invalid_value'', ''size_bytes must be non-negative'', path @ ''.size_bytes'')] else []
   | _ \<Rightarrow> int_faults bytes (path @ ''.size_bytes''))"

definition validate_artifact_evidence :: "json \<Rightarrow> string \<Rightarrow> fault list" where
  "validate_artifact_evidence value path = (case value of
     JObj artifact \<Rightarrow>
       missing_faults (path @ ''.'') [''schema_version'', ''kind'', ''path'', ''trust_level''] artifact
     @ version_faults (oget artifact ''schema_version'') (path @ ''.schema_version'')
     @ concat (map (\<lambda>field. on_field artifact field (\<lambda>v. expect_nonempty_str v (path @ ''.'' @ field))) [''path'', ''kind''])
     @ on_field artifact ''trust_level'' (\<lambda>v. enum_faults VALID_TRUST ''invalid artifact trust_level'' v (path @ ''.trust_level''))
     @ concat (map (\<lambda>field. digest_faults path field (oget artifact field)) [''agent_reported_sha256'', ''observed_sha256''])
     @ size_faults path (oget artifact ''size_bytes'')
   | _ \<Rightarrow> expect_type is_dict value path)"

section \<open>The workspace of a result and the manifest of an evidence\<close>

definition WORKSPACE_FIELDS :: "string list" where
  "WORKSPACE_FIELDS = [''schema_version'', ''base_sha'', ''claimed_result_sha'', ''observed_head_sha'', ''promoted_sha'', ''trust_level'', ''resumable'']"

definition workspace_trust :: "obj \<Rightarrow> string \<Rightarrow> fault list res" where
  "workspace_trust workspace path =
     (if \<not> ohas workspace ''trust_level'' then Inr []
      else bindR (in_strs (oget workspace ''trust_level'') VALID_TRUST) (\<lambda>known.
        Inr (if known then [] else [(''invalid_enum'', ''invalid workspace trust_level'', path @ ''.trust_level'')])))"

definition validate_workspace_result :: "json \<Rightarrow> string \<Rightarrow> fault list res" where
  "validate_workspace_result value path = (case value of
     JObj workspace \<Rightarrow> bindR (workspace_trust workspace path) (\<lambda>trust. Inr (
       missing_faults (path @ ''.'') WORKSPACE_FIELDS workspace
     @ version_faults (oget workspace ''schema_version'') (path @ ''.schema_version'')
     @ concat (map (\<lambda>field. if blank (oget workspace field) then []
         else git_sha_faults (path @ ''.'' @ field @ '' must be a 40-char git SHA'') (oget workspace field) (path @ ''.'' @ field))
         [''base_sha'', ''claimed_result_sha'', ''observed_head_sha'', ''promoted_sha''])
     @ trust
     @ on_field workspace ''resumable'' (\<lambda>v. expect_type is_bool v (path @ ''.resumable''))))
   | _ \<Rightarrow> Inr (expect_type is_dict value path))"

definition MANIFEST_FIELDS :: "string list" where
  "MANIFEST_FIELDS = [''schema_version'', ''evidence_id'', ''source'', ''trust_level'', ''producer'', ''run_id'', ''work_unit_id'',
     ''execution_id'', ''canonical_check_id'']"

definition validate_evidence_manifest :: "json \<Rightarrow> string \<Rightarrow> fault list res" where
  "validate_evidence_manifest value path = (case value of
     JObj manifest \<Rightarrow> bindR (in_strs (oget manifest ''trust_level'') VALID_TRUST) (\<lambda>known. Inr (
       missing_faults (path @ ''.'') MANIFEST_FIELDS manifest
     @ version_faults (oget manifest ''schema_version'') (path @ ''.schema_version'')
     @ concat (map (\<lambda>field. on_field manifest field (\<lambda>v. expect_nonempty_str v (path @ ''.'' @ field)))
         [''evidence_id'', ''source'', ''producer'', ''run_id'', ''work_unit_id'', ''execution_id'', ''canonical_check_id''])
     @ (if known then [] else [(''invalid_enum'', ''invalid trust_level '' @ py_repr (oget manifest ''trust_level''), path @ ''.trust_level'')])
     @ concat (map (\<lambda>field. if oget manifest field = JNull then []
         else sha256_faults (''invalid '' @ field) (oget manifest field) (path @ ''.'' @ field)) [''content_hash'', ''command_digest''])))
   | _ \<Rightarrow> Inr (expect_type is_dict value path))"

section \<open>The request\<close>

definition ID_FIELDS :: "string list" where
  "ID_FIELDS = [''execution_id'', ''run_id'', ''work_unit_id'', ''lease_id'', ''role_id'', ''procedure_id'']"

definition REQUEST_FIELDS :: "string list" where
  "REQUEST_FIELDS = [''schema_version'', ''execution_id'', ''run_id'', ''work_unit_id'', ''lease_id'', ''epoch'', ''role_id'',
     ''procedure_id'', ''base_sha'', ''context_package_hash'', ''contract'']"

definition id_faults :: "obj \<Rightarrow> fault list" where
  "id_faults ob = concat (map (\<lambda>field. if blank (oget ob field) then [] else expect_id (oget ob field) field) ID_FIELDS)"

definition epoch_faults :: "json \<Rightarrow> fault list" where
  "epoch_faults epoch = (case epoch of
     JInt i \<Rightarrow> if i < 1 then [(''invalid_epoch'', ''epoch must be a positive integer'', ''epoch'')] else []
   | _ \<Rightarrow> int_faults epoch ''epoch'')"

definition context_hash_faults :: "json \<Rightarrow> fault list" where
  "context_hash_faults ctx = (if ctx = JNull then []
     else sha256_faults ''context_package_hash must be sha256:<64 hex>'' ctx ''context_package_hash'')"

definition validate_execution_request :: "json \<Rightarrow> fault list" where
  "validate_execution_request value = (case value of
     JObj request \<Rightarrow>
       version_faults (oget request ''schema_version'') ''schema_version''
     @ map (\<lambda>field. (''missing_field'', ''required field '' @ field @ '' missing'', field)) (filter (\<lambda>field. blank (oget request field)) REQUEST_FIELDS)
     @ id_faults request
     @ epoch_faults (oget request ''epoch'')
     @ (if oget request ''base_sha'' = JNull then [] else git_sha_faults ''base_sha must be a 40-char git SHA'' (oget request ''base_sha'') ''base_sha'')
     @ context_hash_faults (oget request ''context_package_hash'')
     @ on_field request ''contract'' (\<lambda>v. validate_execution_contract v ''contract'')
   | _ \<Rightarrow> [(''invalid_type'', ''ExecutionRequest must be an object'', ''$'')])"

section \<open>The result\<close>

definition RESULT_FIELDS :: "string list" where
  "RESULT_FIELDS = [''schema_version'', ''execution_id'', ''run_id'', ''work_unit_id'', ''lease_id'', ''epoch'', ''role_id'', ''procedure_id'',
     ''status'', ''summary'', ''checks'', ''artifacts'', ''requested_commands'', ''limitations'', ''workspace'', ''usage'',
     ''provider_metadata'', ''context_package_hash'']"

definition summary_faults :: "json \<Rightarrow> fault list" where
  "summary_faults summary =
     (if summary = JNull then []
      else if expect_nonempty_str summary ''summary'' \<noteq> [] then expect_nonempty_str summary ''summary''
      else if length (py_str summary) > MAX_SUMMARY_CHARS
      then [(''summary_too_large'', ''summary exceeds '' @ nat_text MAX_SUMMARY_CHARS @ '' chars'', ''summary'')] else [])"

text \<open>A list field that may be null, with its bound.\<close>

definition bounded_list :: "nat \<Rightarrow> string \<Rightarrow> string \<Rightarrow> (json \<Rightarrow> string \<Rightarrow> fault list) \<Rightarrow> json \<Rightarrow> string \<Rightarrow> fault list" where
  "bounded_list bound code message check value path = (case value of
     JNull \<Rightarrow> []
   | JList items \<Rightarrow>
       (if length items > bound then [(code, message @ nat_text bound, path)] else []) @ each_faults check path items
   | _ \<Rightarrow> expect_type is_list value path)"

definition argv_faults :: "string \<Rightarrow> json \<Rightarrow> fault list" where
  "argv_faults path argv =
     (if argv = JList [] then [(''empty_list'', ''argv must not be empty'', path)] else []) @ list_faults expect_nonempty_str argv path"

definition command_faults :: "json \<Rightarrow> string \<Rightarrow> fault list" where
  "command_faults command path = (case command of
     JStr s \<Rightarrow> expect_nonempty_str command path
   | JObj ob \<Rightarrow>
       (if \<not> truthy (oget ob ''command'') \<and> \<not> truthy (oget ob ''argv'') then [(''missing_field'', ''command or argv is required'', path)] else [])
       @ on_field ob ''argv'' (argv_faults (path @ ''.argv''))
   | _ \<Rightarrow> [(''invalid_type'', ''requested command must be string or object'', path)])"

definition result_head_faults :: "obj \<Rightarrow> fault list" where
  "result_head_faults result =
     version_faults (oget result ''schema_version'') ''schema_version''
   @ missing_faults [] RESULT_FIELDS result
   @ id_faults result
   @ epoch_faults (oget result ''epoch'')
   @ (if oget result ''status'' = JNull then []
      else enum_faults VALID_STATUSES (''invalid status '' @ py_repr (oget result ''status'')) (oget result ''status'') ''status'')
   @ summary_faults (oget result ''summary'')"

definition result_list_faults :: "obj \<Rightarrow> fault list" where
  "result_list_faults result =
     bounded_list MAX_CHECKS ''too_many_checks'' ''checks exceed '' validate_check_result (oget result ''checks'') ''checks''
   @ bounded_list MAX_ARTIFACTS ''too_many_artifacts'' ''artifacts exceed '' validate_artifact_evidence (oget result ''artifacts'') ''artifacts''
   @ bounded_list MAX_LIMITATIONS ''too_many_limitations'' ''limitations exceed '' str_faults (oget result ''limitations'') ''limitations''
   @ (if oget result ''requested_commands'' = JNull then []
      else list_faults command_faults (oget result ''requested_commands'') ''requested_commands'')
   @ concat (map (\<lambda>field. if oget result field = JNull then [] else expect_type is_dict (oget result field) field) [''usage'', ''provider_metadata''])"

definition validate_execution_result :: "json \<Rightarrow> fault list res" where
  "validate_execution_result value = (case value of
     JObj result \<Rightarrow>
       bindR (if ohas result ''workspace'' then validate_workspace_result (oget result ''workspace'') ''workspace'' else Inr []) (\<lambda>workspace.
       Inr (result_head_faults result @ result_list_faults result @ workspace @ context_hash_faults (oget result ''context_package_hash'')))
   | _ \<Rightarrow> Inr [(''invalid_type'', ''ExecutionResult must be an object'', ''$'')])"

section \<open>Raising the first fault\<close>

fun raise_first :: "fault list \<Rightarrow> unit res" where
  "raise_first [] = Inr ()"
| "raise_first ((code, message, path) # _) = Inl (ExecutionGatewayError code message path)"

definition require_valid_request :: "json \<Rightarrow> unit res" where
  "require_valid_request request = raise_first (validate_execution_request request)"

definition require_valid_result :: "json \<Rightarrow> unit res" where
  "require_valid_result result = bindR (validate_execution_result result) raise_first"

definition require_valid_capabilities :: "json \<Rightarrow> unit res" where
  "require_valid_capabilities descriptor = raise_first (validate_capability_descriptor descriptor ''capabilities'')"

definition identity_of :: "json \<Rightarrow> json \<Rightarrow> string \<Rightarrow> bool" where
  "identity_of expected actual field =
     (if field = ''epoch'' then (case (actual, expected) of (JInt left, JInt right) \<Rightarrow> left = right | _ \<Rightarrow> False)
      else py_str actual = py_str expected)"

definition assert_identity_match :: "obj \<Rightarrow> obj \<Rightarrow> unit res" where
  "assert_identity_match request result =
     eachR (\<lambda>field. if identity_of (oget request field) (oget result field) field then Inr ()
         else Inl (ExecutionGatewayError ''identity_mismatch'' (''result.'' @ field @ '' does not match request'') field))
       [''execution_id'', ''run_id'', ''work_unit_id'', ''lease_id'', ''epoch'', ''role_id'', ''procedure_id'']"

definition assert_agent_status_promotable :: "string \<Rightarrow> unit res" where
  "assert_agent_status_promotable status =
     (if status = ''succeeded'' then Inr ()
      else Inl (ExecutionGatewayError ''agent_status_not_succeeded''
        (''refusing to promote agent status '' @ repr_str status @ ''; only succeeded may be accepted'') ''status''))"

section \<open>What passes\<close>

lemma raise_first_Inr [simp]: "raise_first faults = Inr u \<longleftrightarrow> faults = []"
  by (cases faults rule: raise_first.cases) auto

lemma expect_type_Nil [simp]: "expect_type expected v path = [] \<longleftrightarrow> expected v"
  by (simp add: expect_type_def)

lemma expect_nonempty_str_Nil [simp]: "expect_nonempty_str v path = [] \<longleftrightarrow> (\<exists>s. v = JStr s \<and> strip s \<noteq> [])"
  by (cases v) (auto simp: expect_nonempty_str_def)

lemma expect_id_Nil [simp]: "expect_id v path = [] \<longleftrightarrow> (\<exists>s. v = JStr s \<and> strip s \<noteq> [] \<and> matches_id s)"
  by (auto simp: expect_id_def)

lemma each_faults_Nil [simp]: "each_faults check path items = [] \<longleftrightarrow> (\<forall>(index, item) \<in> set (enumerate 0 items). check item (indexed path index) = [])"
  by (auto simp: each_faults_def)

lemma enumerate_item: "x \<in> set items \<Longrightarrow> \<exists>index. (index, x) \<in> set (enumerate 0 items)"
proof -
  assume "x \<in> set items"
  then obtain i where "i < length items" "items ! i = x" by (auto simp: in_set_conv_nth)
  then have "enumerate 0 items ! i = (i, x)" "i < length (enumerate 0 items)" by (simp_all add: nth_enumerate_eq)
  then show ?thesis using nth_mem by metis
qed

lemma list_faults_Nil: "list_faults check v path = [] \<Longrightarrow> \<exists>items. v = JList items \<and> (\<forall>item \<in> set items. \<exists>index. check item (indexed path index) = [])"
  using enumerate_item by (cases v) (fastforce simp: list_faults_def)+

lemma bounded_list_Nil:
  "bounded_list bound code message check v path = [] \<Longrightarrow> v = JNull \<or> (\<exists>items. v = JList items \<and> length items \<le> bound
     \<and> (\<forall>item \<in> set items. \<exists>index. check item (indexed path index) = []))"
  using enumerate_item by (cases v) (fastforce simp: bounded_list_def split: if_splits)+

lemma bounded_list_sound:
  assumes "bounded_list bound code message check v path = []" "\<And>item p. check item p = [] \<Longrightarrow> P item"
  shows "v = JNull \<or> (\<exists>xs. v = JList xs \<and> length xs \<le> bound \<and> list_all P xs)"
  using bounded_list_Nil [OF assms(1)] assms(2) unfolding list_all_iff by blast

lemma list_faults_sound:
  assumes "list_faults check v path = []" "\<And>item p. check item p = [] \<Longrightarrow> P item"
  shows "\<exists>xs. v = JList xs \<and> list_all P xs"
  using list_faults_Nil [OF assms(1)] assms(2) unfolding list_all_iff by blast

lemma missing_faults_Nil [simp]: "missing_faults prefix required ob = [] \<longleftrightarrow> list_all (ohas ob) required"
  by (auto simp: missing_faults_def filter_empty_conv list_all_iff)

lemma enum_faults_Nil [simp]: "enum_faults known message v path = [] \<longleftrightarrow> (\<exists>s \<in> set known. v = JStr s)"
  by (simp add: enum_faults_def)

lemma on_field_Nil [simp]: "on_field ob field check = [] \<longleftrightarrow> (ohas ob field \<longrightarrow> check (oget ob field) = [])"
  by (simp add: on_field_def)

lemma epoch_faults_Nil [simp]: "epoch_faults v = [] \<longleftrightarrow> (\<exists>e \<ge> 1. v = JInt e)"
  by (cases v) (auto simp: epoch_faults_def int_faults_def)

text \<open>What a check result and an artifact that pass look like.\<close>

definition sound_check :: "json \<Rightarrow> bool" where
  "sound_check value = (\<exists>check status trust b. value = JObj check \<and> oget check ''status'' = JStr status \<and> status \<in> set VALID_CHECK_STATUS
     \<and> oget check ''trust_level'' = JStr trust \<and> trust \<in> set VALID_TRUST \<and> oget check ''blocking'' = JBool b)"

definition sound_artifact :: "json \<Rightarrow> bool" where
  "sound_artifact value = (\<exists>artifact p trust. value = JObj artifact \<and> oget artifact ''path'' = JStr p \<and> strip p \<noteq> []
     \<and> oget artifact ''trust_level'' = JStr trust \<and> trust \<in> set VALID_TRUST)"

definition sound_command :: "json \<Rightarrow> bool" where
  "sound_command value = ((\<exists>s. value = JStr s \<and> strip s \<noteq> [])
     \<or> (\<exists>ob. value = JObj ob \<and> (truthy (oget ob ''command'')
         \<or> (\<exists>argv. oget ob ''argv'' = JList argv \<and> argv \<noteq> [] \<and> list_all (\<lambda>v. \<exists>s. v = JStr s \<and> strip s \<noteq> []) argv))))"

lemma check_result_sound: "validate_check_result value path = [] \<Longrightarrow> sound_check value"
  by (cases "value") (auto simp: validate_check_result_def sound_check_def CHECK_FIELDS_def elim!: is_bool.elims)

lemma artifact_sound: "validate_artifact_evidence value path = [] \<Longrightarrow> sound_artifact value"
  by (cases "value") (auto simp: validate_artifact_evidence_def sound_artifact_def)

lemma ohas_of_truthy: "truthy (oget ob k) \<Longrightarrow> ohas ob k"
  by (auto simp: oget_def ohas_def split: option.splits)

lemma command_sound:
  assumes "command_faults value path = []"
  shows "sound_command value"
proof (cases "value")
  case (JObj ob)
  have given: "truthy (oget ob ''command'') \<or> truthy (oget ob ''argv'')"
    and argv: "ohas ob ''argv'' \<Longrightarrow> argv_faults (path @ ''.argv'') (oget ob ''argv'') = []"
    using assms JObj by (auto simp: command_faults_def split: if_splits)
  show ?thesis
  proof (cases "truthy (oget ob ''command'')")
    case False
    then have "argv_faults (path @ ''.argv'') (oget ob ''argv'') = []" using given argv ohas_of_truthy by blast
    then show ?thesis
      using JObj list_faults_Nil [of expect_nonempty_str "oget ob ''argv''"]
      by (fastforce simp: argv_faults_def sound_command_def list_all_iff split: if_splits)
  qed (simp add: sound_command_def JObj)
qed (use assms in \<open>auto simp: command_faults_def sound_command_def\<close>)

text \<open>A valid identifier is a text that the expression matches.\<close>

definition valid_id :: "json \<Rightarrow> bool" where
  "valid_id value = (\<exists>s. value = JStr s \<and> strip s \<noteq> [] \<and> matches_id s)"

lemma id_faults_Nil: "id_faults ob = [] \<longleftrightarrow> list_all (\<lambda>field. blank (oget ob field) \<or> valid_id (oget ob field)) ID_FIELDS"
  by (auto simp: id_faults_def ID_FIELDS_def valid_id_def)

lemma request_ids:
  assumes "require_valid_request (JObj request) = Inr ()"
  shows "list_all (\<lambda>field. valid_id (oget request field)) ID_FIELDS" "\<exists>e \<ge> 1. oget request ''epoch'' = JInt e"
proof -
  have parts: "id_faults request = []" "\<forall>field \<in> set REQUEST_FIELDS. \<not> blank (oget request field)"
    using assms by (auto simp: require_valid_request_def validate_execution_request_def filter_empty_conv)
  moreover have "set ID_FIELDS \<subseteq> set REQUEST_FIELDS" by (simp add: ID_FIELDS_def REQUEST_FIELDS_def)
  ultimately show "list_all (\<lambda>field. valid_id (oget request field)) ID_FIELDS"
    unfolding id_faults_Nil list_all_iff by blast
  show "\<exists>e \<ge> 1. oget request ''epoch'' = JInt e"
    using assms by (auto simp: require_valid_request_def validate_execution_request_def)
qed

lemma valid_result_parts:
  assumes "require_valid_result (JObj result) = Inr ()"
  shows "result_head_faults result = []" "result_list_faults result = []"
  using assms by (auto simp: require_valid_result_def validate_execution_result_def)

lemma result_ids:
  "require_valid_result (JObj result) = Inr () \<Longrightarrow> list_all (\<lambda>field. blank (oget result field) \<or> valid_id (oget result field)) ID_FIELDS"
  using valid_result_parts(1) by (simp add: result_head_faults_def id_faults_Nil)

lemma identity_matched:
  assumes "assert_identity_match request result = Inr ()" "field \<in> insert ''epoch'' (set ID_FIELDS)"
  shows "identity_of (oget request field) (oget result field) field"
proof -
  have "field \<in> set [''execution_id'', ''run_id'', ''work_unit_id'', ''lease_id'', ''epoch'', ''role_id'', ''procedure_id'']"
    using assms(2) by (auto simp: ID_FIELDS_def)
  then show ?thesis using assms(1) unfolding assert_identity_match_def eachR_eq_Inr if_raise_eq_Inr by blast
qed

text \<open>A request and a result that pass.\<close>

definition sample_result :: obj where
  "sample_result = [(''schema_version'', JInt 1), (''execution_id'', JStr ''EX-1''), (''run_id'', JStr ''RUN-1''), (''work_unit_id'', JStr ''WU-1''),
    (''lease_id'', JStr ''L-1''), (''epoch'', JInt 2), (''role_id'', JStr ''qa-test''), (''procedure_id'', JStr ''webapp-testing''),
    (''status'', JStr ''succeeded''), (''summary'', JStr ''done''), (''checks'', JList []),
    (''artifacts'', JList [JObj [(''schema_version'', JInt 1), (''kind'', JStr ''log''), (''path'', JStr ''out.txt''), (''trust_level'', JStr ''agent_reported'')]]),
    (''requested_commands'', JList [JStr ''pytest'']), (''limitations'', JList []),
    (''workspace'', JObj [(''schema_version'', JInt 1), (''base_sha'', JStr []), (''claimed_result_sha'', JNull), (''observed_head_sha'', JNull),
      (''promoted_sha'', JNull), (''trust_level'', JStr ''agent_reported''), (''resumable'', JBool True)]),
    (''usage'', JObj []), (''provider_metadata'', JObj []), (''context_package_hash'', JNull)]"

definition sample_request :: obj where
  "sample_request = [(''schema_version'', JInt 1), (''execution_id'', JStr ''EX-1''), (''run_id'', JStr ''RUN-1''), (''work_unit_id'', JStr ''WU-1''),
    (''lease_id'', JStr ''L-1''), (''epoch'', JInt 2), (''role_id'', JStr ''qa-test''), (''procedure_id'', JStr ''webapp-testing''),
    (''base_sha'', JStr (replicate 40 (CHR ''a''))), (''context_package_hash'', JStr (''sha256:'' @ replicate 64 (CHR ''0''))),
    (''contract'', JObj [(''schema_version'', JInt 1), (''role_id'', JStr ''qa-test''), (''procedure_id'', JStr ''webapp-testing''),
      (''effective_scope'', JList [JStr ''src/**'']), (''required_checks'', JList []), (''allowed_shell_commands'', JList [JStr ''pytest''])])]"

lemma sample_valid:
  "require_valid_request (JObj sample_request) = Inr ()" "require_valid_result (JObj sample_result) = Inr ()"
  "assert_identity_match sample_request sample_result = Inr ()"
  by code_simp+

section \<open>Properties\<close>

text \<open>
  A result that passes validation has every field, a positive epoch, identifiers that are blank or well
  formed, a known status or none, a bounded summary, bounded lists of check results, artifacts and
  limitations with known statuses and trust levels, and commands that are not empty.
\<close>

theorem validated_result_well_formed:
  assumes "require_valid_result (JObj result) = Inr ()"
  shows "list_all (ohas result) RESULT_FIELDS
    \<and> (\<exists>e \<ge> 1. oget result ''epoch'' = JInt e)
    \<and> list_all (\<lambda>field. blank (oget result field) \<or> valid_id (oget result field)) ID_FIELDS
    \<and> (oget result ''status'' = JNull \<or> (\<exists>s \<in> set VALID_STATUSES. oget result ''status'' = JStr s))
    \<and> (oget result ''summary'' = JNull \<or> (\<exists>s. oget result ''summary'' = JStr s \<and> length s \<le> 8000))
    \<and> (oget result ''checks'' = JNull \<or> (\<exists>cs. oget result ''checks'' = JList cs \<and> length cs \<le> 128 \<and> list_all sound_check cs))
    \<and> (oget result ''artifacts'' = JNull \<or> (\<exists>xs. oget result ''artifacts'' = JList xs \<and> length xs \<le> 64 \<and> list_all sound_artifact xs))
    \<and> (oget result ''requested_commands'' = JNull
        \<or> (\<exists>cs. oget result ''requested_commands'' = JList cs \<and> list_all sound_command cs))"
proof -
  note head = valid_result_parts(1) [OF assms, unfolded result_head_faults_def append_is_Nil_conv id_faults_Nil]
  note lists = valid_result_parts(2) [OF assms, unfolded result_list_faults_def append_is_Nil_conv]
  have "oget result ''summary'' = JNull \<or> (\<exists>s. oget result ''summary'' = JStr s \<and> length s \<le> 8000)"
    using head by (auto simp: summary_faults_def MAX_SUMMARY_CHARS_def split: if_splits)
  moreover have "oget result ''status'' = JNull \<or> (\<exists>s \<in> set VALID_STATUSES. oget result ''status'' = JStr s)"
    using head by (auto split: if_splits)
  moreover have "bounded_list MAX_CHECKS ''too_many_checks'' ''checks exceed '' validate_check_result (oget result ''checks'') ''checks'' = []"
      "bounded_list MAX_ARTIFACTS ''too_many_artifacts'' ''artifacts exceed '' validate_artifact_evidence (oget result ''artifacts'') ''artifacts'' = []"
      "oget result ''requested_commands'' \<noteq> JNull \<Longrightarrow> list_faults command_faults (oget result ''requested_commands'') ''requested_commands'' = []"
    using lists by simp_all
  note bounded_list_sound [OF this(1), of sound_check] bounded_list_sound [OF this(2), of sound_artifact]
    list_faults_sound [OF this(3), of sound_command]
  ultimately show ?thesis
    using head check_result_sound artifact_sound command_sound unfolding MAX_CHECKS_def MAX_ARTIFACTS_def by (simp; blast)
qed

theorem validated_result_well_formed_witness:
  "list_all (ohas sample_result) RESULT_FIELDS \<and> (\<exists>s \<in> set VALID_STATUSES. oget sample_result ''status'' = JStr s)"
proof -
  have "oget sample_result ''status'' \<noteq> JNull" by code_simp
  then show ?thesis using validated_result_well_formed [OF sample_valid(2)] by blast
qed

text \<open>
  C25. When a validated result matches the identity of a validated request, its identifiers and its epoch are
  those of the request; only a null identifier passes for a request whose identifier is the text None.
\<close>

theorem identity_match_binds_result:
  assumes "require_valid_request (JObj request) = Inr ()" "require_valid_result (JObj result) = Inr ()"
    and "assert_identity_match request result = Inr ()"
  shows "list_all (\<lambda>field. oget result field = oget request field
      \<or> (oget result field = JNull \<and> oget request field = JStr ''None'')) ID_FIELDS
    \<and> oget result ''epoch'' = oget request ''epoch''"
proof -
  have "oget result field = oget request field \<or> (oget result field = JNull \<and> oget request field = JStr ''None'')"
    if field: "field \<in> set ID_FIELDS" for field
  proof -
    obtain s where s: "oget request field = JStr s" "strip s \<noteq> []"
      using request_ids(1) [OF assms(1)] field by (auto simp: list_all_iff valid_id_def)
    have "field \<noteq> ''epoch''" using field by (auto simp: ID_FIELDS_def)
    then have "py_str (oget result field) = s"
      using identity_matched [OF assms(3), of field] field s by (simp add: identity_of_def)
    moreover have "blank (oget result field) \<or> valid_id (oget result field)"
      using result_ids [OF assms(2)] field by (auto simp: list_all_iff)
    ultimately show ?thesis using s by (auto simp: blank_def valid_id_def py_str_def strip_def)
  qed
  moreover have "oget result ''epoch'' = oget request ''epoch''"
  proof -
    have "identity_of (oget request ''epoch'') (oget result ''epoch'') ''epoch''"
      using identity_matched [OF assms(3)] by simp
    then show ?thesis by (cases "oget result ''epoch''"; cases "oget request ''epoch''") (simp_all add: identity_of_def)
  qed
  ultimately show ?thesis by (simp add: list_all_iff)
qed

theorem identity_match_binds_result_witness:
  "oget sample_result ''lease_id'' = oget sample_request ''lease_id'' \<and> oget sample_result ''epoch'' = JInt 2"
proof -
  have "oget sample_result ''lease_id'' \<noteq> JNull" "oget sample_request ''epoch'' = JInt 2" by code_simp+
  moreover note identity_match_binds_result [OF sample_valid]
  ultimately show ?thesis by (simp add: ID_FIELDS_def)
qed

end
