(* ===== verification/LegacyResult.thy ===== *)
theory LegacyResult
  imports ResultValidation CheckRegistry Workspace
begin

text \<open>
  The translation of what an agent returned into a canonical result (\<open>core/execution_gateway/legacy.py\<close>):
  a result that is already canonical is completed, any other is rebuilt field by field, and in both cases
  the identity of the request is checked and then written over the one of the result.
\<close>

section \<open>Identity\<close>

definition IDENTITY_FIELDS :: "string list" where
  "IDENTITY_FIELDS = [''execution_id'', ''run_id'', ''work_unit_id'', ''lease_id'', ''epoch'', ''role_id'', ''procedure_id'']"

definition identity_epoch :: "json \<Rightarrow> string \<Rightarrow> int res" where
  "identity_epoch value path = (case value of
     JInt i \<Rightarrow> Inr i
   | _ \<Rightarrow> Inl (ExecutionGatewayError ''invalid_type'' (path @ '' must be an integer'') path))"

definition identity_mismatch :: "string \<Rightarrow> 'a res" where
  "identity_mismatch field = Inl (ExecutionGatewayError ''identity_mismatch'' (''result.'' @ field @ '' does not match request'') field)"

definition check_identity :: "json \<Rightarrow> json \<Rightarrow> string \<Rightarrow> unit res" where
  "check_identity expected actual field =
     (if blank expected then Inr ()
      else if field = ''epoch'' then
        bindR (identity_epoch actual field) (\<lambda>left.
        bindR (identity_epoch expected (''request.'' @ field)) (\<lambda>right.
        if left \<noteq> right then identity_mismatch field else Inr ()))
      else if py_str actual \<noteq> py_str expected then identity_mismatch field
      else Inr ())"

definition force_identity :: "obj \<Rightarrow> obj \<Rightarrow> obj" where
  "force_identity request result =
     AList.update ''schema_version'' (JInt SCHEMA_VERSION)
       (set_keys (map (\<lambda>field. (field, oget request field)) (filter (\<lambda>field. \<not> blank (oget request field)) IDENTITY_FIELDS)) result)"

definition validate_identity :: "obj \<Rightarrow> obj \<Rightarrow> obj res" where
  "validate_identity result request =
     bindR (eachR (\<lambda>field. check_identity (oget request field) (oget result field) field) IDENTITY_FIELDS) (\<lambda>_.
     Inr (force_identity request result))"

section \<open>A canonical result\<close>

definition or_text :: "json \<Rightarrow> string \<Rightarrow> string" where
  "or_text value fallback = py_str (por value (JStr fallback))"

definition list_of :: "json \<Rightarrow> json list res" where
  "list_of value = jiter (por value (JList []))"

definition canonical_name :: "string \<Rightarrow> string" where
  "canonical_name reported = (case normalize_check_name reported of Some c \<Rightarrow> if c = [] then reported else c | None \<Rightarrow> reported)"

definition completed_check :: "obj \<Rightarrow> json res" where
  "completed_check item =
     (if truthy (oget item ''canonical_id'')
      then Inr (JObj (set_defaults [(''schema_version'', JInt SCHEMA_VERSION), (''reported_name'', oget item ''canonical_id''),
        (''blocking'', JBool True), (''trust_level'', JStr ''agent_reported''), (''limitations'', JList [])] item))
      else
        (let reported = or_text (por (oget item ''name'') (oget item ''reported_name'')) []; canonical = canonical_name reported in
        bindR (list_of (oget item ''limitations'')) (\<lambda>limits.
        Inr (JObj [(''schema_version'', JInt SCHEMA_VERSION), (''canonical_id'', JStr canonical),
          (''reported_name'', JStr (if reported = [] then canonical else reported)),
          (''status'', JStr (or_text (oget item ''status'') ''unknown'')),
          (''blocking'', JBool (if ohas item ''blocking'' then truthy (oget item ''blocking'') else True)),
          (''trust_level'', por (oget item ''trust_level'') (JStr ''agent_reported'')), (''evidence_ref'', oget item ''evidence_ref''),
          (''limitations'', JList limits)]))))"

definition completed_artifact :: "obj \<Rightarrow> json" where
  "completed_artifact item = JObj (set_defaults [(''schema_version'', JInt SCHEMA_VERSION), (''kind'', JStr ''file''),
     (''trust_level'', JStr ''agent_reported'')] item)"

text \<open>An item that is no object is kept as it is.\<close>

definition on_object :: "(obj \<Rightarrow> json res) \<Rightarrow> json \<Rightarrow> json res" where
  "on_object f item = (case item of JObj ob \<Rightarrow> f ob | _ \<Rightarrow> Inr item)"

definition completed_workspace :: "obj \<Rightarrow> json \<Rightarrow> json" where
  "completed_workspace request workspace = (case workspace of
     JObj ob \<Rightarrow> JObj (set_defaults [(''schema_version'', JInt SCHEMA_VERSION), (''base_sha'', oget request ''base_sha''),
       (''claimed_result_sha'', oget ob ''result_sha''), (''observed_head_sha'', JNull), (''promoted_sha'', JNull),
       (''trust_level'', JStr ''agent_reported''), (''resumable'', JBool False)] ob)
   | _ \<Rightarrow> workspace)"

definition is_canonical :: "obj \<Rightarrow> bool" where
  "is_canonical raw = ((case oget raw ''schema_version'' of JInt i \<Rightarrow> i \<ge> 1 | _ \<Rightarrow> False)
     \<and> truthy (oget raw ''run_id'') \<and> oget raw ''checks'' \<noteq> JNull)"

definition complete_canonical :: "obj \<Rightarrow> obj \<Rightarrow> obj res" where
  "complete_canonical raw request =
     bindR (list_of (oget raw ''checks'')) (\<lambda>listed.
     bindR (mapR (on_object completed_check) listed) (\<lambda>checks.
     bindR (list_of (oget raw ''artifacts'')) (\<lambda>given.
     bindR (mapR (on_object (\<lambda>ob. Inr (completed_artifact ob))) given) (\<lambda>artifacts.
     (let normalized = set_keys [(''checks'', JList checks), (''artifacts'', JList artifacts)] raw;
          placed = (if is_dict (oget normalized ''workspace'')
            then AList.update ''workspace'' (completed_workspace request (oget normalized ''workspace'')) normalized else normalized) in
      Inr (set_defaults [(''requested_commands'', JList []), (''limitations'', JList []), (''usage'', JObj []),
        (''provider_metadata'', por (oget placed ''provider'') (JObj []))] placed))))))"

section \<open>Any other result\<close>

definition check_raw_identity :: "obj \<Rightarrow> obj \<Rightarrow> string \<Rightarrow> unit res" where
  "check_raw_identity raw request field =
     (if ohas raw field then check_identity (oget request field) (oget raw field) field else Inr ())"

definition legacy_check :: "obj \<Rightarrow> json res" where
  "legacy_check item =
     (let reported = or_text (por (oget item ''name'') (oget item ''canonical_id'')) [] in
      bindR (list_of (oget item ''limitations'')) (\<lambda>limits.
      Inr (JObj [(''schema_version'', JInt SCHEMA_VERSION), (''canonical_id'', JStr (canonical_name reported)), (''reported_name'', JStr reported),
        (''status'', JStr (or_text (oget item ''status'') ''unknown'')), (''blocking'', JBool True), (''trust_level'', JStr ''agent_reported''),
        (''evidence_ref'', oget item ''evidence_ref''), (''limitations'', JList limits)])))"

definition legacy_artifact :: "obj \<Rightarrow> json" where
  "legacy_artifact item = JObj [(''schema_version'', JInt SCHEMA_VERSION), (''kind'', JStr (or_text (oget item ''kind'') ''file'')),
     (''path'', JStr (or_text (oget item ''path'') [])), (''agent_reported_sha256'', oget item ''sha256''), (''observed_sha256'', JNull),
     (''trust_level'', JStr ''agent_reported'')]"

definition objects :: "json list \<Rightarrow> obj list" where
  "objects items = List.map_filter (\<lambda>item. case item of JObj ob \<Rightarrow> Some ob | _ \<Rightarrow> None) items"

definition as_dict :: "json \<Rightarrow> obj" where
  "as_dict value = (case value of JObj ob \<Rightarrow> ob | _ \<Rightarrow> [])"

definition legacy_workspace :: "obj \<Rightarrow> obj \<Rightarrow> json" where
  "legacy_workspace request workspace = JObj [(''schema_version'', JInt SCHEMA_VERSION),
     (''base_sha'', JStr (or_text (por (oget workspace ''base_sha'') (oget request ''base_sha'')) [])),
     (''claimed_result_sha'', oget workspace ''result_sha''), (''observed_head_sha'', JNull), (''promoted_sha'', JNull),
     (''trust_level'', JStr ''agent_reported''), (''resumable'', JBool False)]"

text \<open>\<open>dict(x or {})\<close>; a list of pairs, which \<open>dict\<close> would accept, raises here as any other value does.\<close>

definition dict_of :: "json \<Rightarrow> json res" where
  "dict_of value = (case por value (JObj []) of JObj ob \<Rightarrow> Inr (JObj ob) | _ \<Rightarrow> Inl TypeError)"

definition rebuild_legacy :: "obj \<Rightarrow> obj \<Rightarrow> obj res" where
  "rebuild_legacy raw request =
     (let contract = as_dict (oget raw ''contract''); from_request = (\<lambda>field. JStr (or_text (oget request field) [])) in
      bindR (list_of (oget raw ''checks'')) (\<lambda>checks_in.
      bindR (mapR legacy_check (objects checks_in)) (\<lambda>checks.
      bindR (list_of (oget raw ''artifacts'')) (\<lambda>artifacts_in.
      bindR (py_int (por (oget request ''epoch'') (JInt 0))) (\<lambda>epoch.
      bindR (list_of (oget raw ''requested_commands'')) (\<lambda>commands.
      bindR (list_of (oget raw ''limitations'')) (\<lambda>limits.
      bindR (dict_of (oget raw ''usage'')) (\<lambda>usage.
      bindR (dict_of (por (oget raw ''provider'') (oget raw ''provider_metadata''))) (\<lambda>provider.
      Inr [(''schema_version'', JInt SCHEMA_VERSION),
        (''execution_id'', JStr (or_text (por (oget raw ''execution_id'') (oget request ''execution_id'')) [])),
        (''run_id'', from_request ''run_id''), (''work_unit_id'', from_request ''work_unit_id''), (''lease_id'', from_request ''lease_id''),
        (''epoch'', JInt epoch), (''role_id'', JStr (or_text (por (oget contract ''role_id'') (oget request ''role_id'')) [])),
        (''procedure_id'', JStr (or_text (por (oget contract ''procedure_id'') (oget request ''procedure_id'')) [])),
        (''status'', JStr (or_text (oget raw ''status'') ''failed'')), (''summary'', JStr (take 8000 (or_text (oget raw ''summary'') []))),
        (''checks'', JList checks), (''artifacts'', JList (map legacy_artifact (objects artifacts_in))),
        (''requested_commands'', JList commands), (''limitations'', JList limits),
        (''workspace'', legacy_workspace request (as_dict (oget raw ''workspace''))), (''usage'', usage), (''provider_metadata'', provider),
        (''context_package_hash'', from_request ''context_package_hash''), (''errors'', JList [])])))))))))"

definition adapt :: "json \<Rightarrow> obj \<Rightarrow> obj res" where
  "adapt value request = (case value of
     JObj raw \<Rightarrow>
       if is_canonical raw then bindR (complete_canonical raw request) (\<lambda>result. validate_identity result request)
       else bindR (eachR (check_raw_identity raw request) IDENTITY_FIELDS) (\<lambda>_.
         bindR (rebuild_legacy raw request) (\<lambda>result. validate_identity result request))
   | _ \<Rightarrow> Inl (ExecutionGatewayError ''invalid_execution_result'' ''legacy result must be an object'' ''$''))"

section \<open>The adapted result carries the identity of the request\<close>

lemma set_keys_in: "distinct (map fst kvs) \<Longrightarrow> (k, v) \<in> set kvs \<Longrightarrow> oget (set_keys kvs ob) k = v"
proof (induction kvs arbitrary: ob)
  case (Cons kv kvs)
  obtain k' v' where kv: "kv = (k', v')" by (cases kv)
  show ?case
  proof (cases "(k, v) \<in> set kvs")
    case False
    then have "k = k'" "v = v'" "k \<notin> fst ` set kvs" using Cons.prems kv by auto
    then show ?thesis using kv map_of_set_keys_other [of k kvs] by (simp add: oget_def)
  qed (use Cons kv in simp)
qed simp

lemma forced_field:
  assumes "field \<in> set IDENTITY_FIELDS" "\<not> blank (oget request field)"
  shows "oget (force_identity request result) field = oget request field"
proof -
  let ?kvs = "map (\<lambda>field. (field, oget request field)) (filter (\<lambda>field. \<not> blank (oget request field)) IDENTITY_FIELDS)"
  have "distinct IDENTITY_FIELDS" "''schema_version'' \<notin> set IDENTITY_FIELDS" by (simp_all add: IDENTITY_FIELDS_def)
  then have "distinct (map fst ?kvs)" "field \<noteq> ''schema_version''" using assms(1) by (auto simp: comp_def)
  moreover have "(field, oget request field) \<in> set ?kvs" using assms by auto
  ultimately show ?thesis by (simp add: force_identity_def set_keys_in del: set_map)
qed

lemma adapted_forced: "adapt raw request = Inr result \<Longrightarrow> \<exists>r. result = force_identity request r"
  by (auto simp: adapt_def validate_identity_def split: json.splits if_splits)

text \<open>
  Whatever the agent returned, an adapted result of a valid request carries the identifiers and
  the epoch of the request.
\<close>

theorem adapted_result_has_request_identity:
  assumes "require_valid_request (JObj request) = Inr ()" "adapt raw request = Inr result" "field \<in> set IDENTITY_FIELDS"
  shows "oget result field = oget request field"
proof -
  have "\<not> blank (oget request field)"
    using request_ids [OF assms(1)] assms(3) by (auto simp: IDENTITY_FIELDS_def ID_FIELDS_def blank_def valid_id_def strip_def)
  then show ?thesis using adapted_forced [OF assms(2)] forced_field assms(3) by blast
qed

text \<open>
  The agent states the trust level of its own checks: a canonical result keeps the level human_verified
  that it came with.
\<close>

lemma agent_states_its_own_trust:
  "bindR (complete_canonical [(''schema_version'', JInt 1), (''run_id'', JStr ''R''), (''checks'',
      JList [JObj [(''canonical_id'', JStr ''tests''), (''status'', JStr ''passed''), (''trust_level'', JStr ''human_verified'')]])] [])
     (\<lambda>result. case oget result ''checks'' of JList (JObj c # _) \<Rightarrow> Inr (oget c ''trust_level'') | _ \<Rightarrow> Inl TypeError)
   = Inr (JStr ''human_verified'')"
  by code_simp

end
