(* ===== verification/CommandPolicy.thy ===== *)
theory CommandPolicy
  imports ResultValidation
begin

text \<open>
  The commands an execution may run (\<open>core/execution_gateway/security.py\<close>) and the independent
  verification that runs them (\<open>verification.py\<close>): a command passes when it stands on the allowlist and
  nothing of its text is refused, and the verification starts no other process than the split of such a
  command, with an environment without secrets. The process, the hash and the clock are parameters; a
  POSIX host is assumed, as the tests of the source do. Whether a failed check is blamed on a cache outside
  of the workspace is not modelled.
\<close>

section \<open>Operators outside of quotes\<close>

abbreviation backslash :: char where "backslash \<equiv> char_of (92 :: nat)"
abbreviation quote1 :: char where "quote1 \<equiv> char_of (39 :: nat)"
abbreviation quote2 :: char where "quote2 \<equiv> char_of (34 :: nat)"
abbreviation line_feed :: char where "line_feed \<equiv> char_of (10 :: nat)"

text \<open>What follows the quoted span that was opened with \<open>q\<close>, if it is closed.\<close>

fun quoted_rest :: "char \<Rightarrow> string \<Rightarrow> string option" where
  "quoted_rest q [] = None"
| "quoted_rest q (c # s) =
     (if c = q then Some s
      else if c = backslash then (case s of [] \<Rightarrow> None | d # t \<Rightarrow> if d = line_feed then None else quoted_rest q t)
      else quoted_rest q s)"

lemma quoted_rest_shorter: "quoted_rest q s = Some t \<Longrightarrow> length t < length s"
  by (induction q s rule: quoted_rest.induct) (auto split: if_splits list.splits)

function strip_quoted_regions :: "string \<Rightarrow> string" where
  "strip_quoted_regions [] = []"
| "strip_quoted_regions (c # s) =
     (if c = quote1 \<or> c = quote2
      then (case quoted_rest c s of None \<Rightarrow> c # strip_quoted_regions s | Some t \<Rightarrow> strip_quoted_regions t)
      else c # strip_quoted_regions s)"
  by pat_completeness auto
termination by (relation "measure length") (auto dest: quoted_rest_shorter)

definition has_shell_operators :: "string \<Rightarrow> bool" where
  "has_shell_operators command = list_ex (\<lambda>c. c \<in> set '';&|'') (strip_quoted_regions command)"

section \<open>The words of a command\<close>

text \<open>
  \<open>shlex.split\<close> of a POSIX shell line: between words, in a word, in quotes, or after a backslash (with the
  state to go back to). \<open>None\<close> when a quote or an escape is not closed. \<open>quoted\<close> keeps an empty word in quotes.
\<close>

datatype lex_state = Between | In_Word | In_Quotes char | Escaped lex_state

definition lex_blank :: "char \<Rightarrow> bool" where
  "lex_blank c = ((of_char c :: nat) \<in> {9, 10, 13, 32})"

definition finish_word :: "string \<Rightarrow> bool \<Rightarrow> string list \<Rightarrow> string list" where
  "finish_word token quoted found = (if token \<noteq> [] \<or> quoted then found @ [token] else found)"

text \<open>In double quotes a backslash stays before a character that it does not escape.\<close>

definition escaped_text :: "lex_state \<Rightarrow> char \<Rightarrow> string" where
  "escaped_text back c = (case back of
     In_Quotes q \<Rightarrow> if c \<noteq> backslash \<and> c \<noteq> q then [backslash, c] else [c]
   | _ \<Rightarrow> [c])"

fun lex_words :: "lex_state \<Rightarrow> string \<Rightarrow> bool \<Rightarrow> string list \<Rightarrow> string \<Rightarrow> string list option" where
  "lex_words (In_Quotes q) token quoted found [] = None"
| "lex_words (Escaped back) token quoted found [] = None"
| "lex_words Between token quoted found [] = Some (finish_word token quoted found)"
| "lex_words In_Word token quoted found [] = Some (finish_word token quoted found)"
| "lex_words (In_Quotes q) token quoted found (c # s) =
     (if c = q then lex_words In_Word token True found s
      else if c = backslash \<and> q = quote2 then lex_words (Escaped (In_Quotes q)) token True found s
      else lex_words (In_Quotes q) (token @ [c]) True found s)"
| "lex_words (Escaped back) token quoted found (c # s) = lex_words back (token @ escaped_text back c) quoted found s"
| "lex_words Between token quoted found (c # s) =
     (if lex_blank c then lex_words Between [] False (finish_word token quoted found) s
      else if c = backslash then lex_words (Escaped In_Word) token quoted found s
      else if c = quote1 \<or> c = quote2 then lex_words (In_Quotes c) token quoted found s
      else lex_words In_Word [c] quoted found s)"
| "lex_words In_Word token quoted found (c # s) =
     (if lex_blank c then lex_words Between [] False (finish_word token quoted found) s
      else if c = quote1 \<or> c = quote2 then lex_words (In_Quotes c) token quoted found s
      else if c = backslash then lex_words (Escaped In_Word) token quoted found s
      else lex_words In_Word (token @ [c]) quoted found s)"

definition shlex_split :: "string \<Rightarrow> string list option" where
  "shlex_split command = lex_words Between [] False [] command"

text \<open>\<open>text.split()\<close>.\<close>

fun split_blank :: "string \<Rightarrow> string \<Rightarrow> string list" where
  "split_blank word [] = (if word = [] then [] else [word])"
| "split_blank word (c # s) =
     (if is_space c then (if word = [] then split_blank [] s else word # split_blank [] s)
      else split_blank (word @ [c]) s)"

definition command_tokens :: "string \<Rightarrow> string list" where
  "command_tokens command = (case shlex_split command of Some words \<Rightarrow> words | None \<Rightarrow> split_blank [] command)"

section \<open>Allowed commands\<close>

definition FORBIDDEN_GIT_MUTATIONS :: "string list" where
  "FORBIDDEN_GIT_MUTATIONS = [''push'', ''merge'', ''rebase'', ''config'', ''remote'']"

definition SHELL_WRAPPERS :: "string list" where
  "SHELL_WRAPPERS = [''cmd'', ''cmd.exe'', ''powershell'', ''powershell.exe'', ''pwsh'', ''pwsh.exe'', ''bash'', ''bash.exe'',
     ''sh'', ''sh.exe'', ''git.exe'']"

definition unauthorized :: "string \<Rightarrow> string \<Rightarrow> 'a res" where
  "unauthorized message path = Inl (ExecutionGatewayError ''unauthorized_command'' message path)"

definition tool_of :: "string list \<Rightarrow> string" where
  "tool_of tokens = (case tokens of [] \<Rightarrow> [] | t # _ \<Rightarrow> lower (path_name t))"

text \<open>The first word after the tool that is no option.\<close>

definition git_verb :: "string list \<Rightarrow> string" where
  "git_verb parts = (case find (\<lambda>part. \<not> startswith part ''-'') (drop 1 parts) of None \<Rightarrow> [] | Some part \<Rightarrow> lower part)"

definition runs_git :: "string \<Rightarrow> string \<Rightarrow> bool" where
  "runs_git command tool = (startswith (lower command) ''git '' \<or> tool \<in> {''git'', ''git.exe''})"

definition stripped_allowlist :: "string list \<Rightarrow> string list" where
  "stripped_allowlist allowlist = filter (\<lambda>item. item \<noteq> []) (map strip allowlist)"

definition assert_command_allowed :: "string \<Rightarrow> string list \<Rightarrow> bool \<Rightarrow> unit res" where
  "assert_command_allowed command allowlist allow_empty_allowlist =
     (let stripped = strip command; tokens = command_tokens stripped; tool = tool_of tokens;
          parts = (if tokens \<noteq> [] then tokens else split_blank [] (lower stripped)); allowed = stripped_allowlist allowlist in
      if stripped = [] then unauthorized ''empty command refused'' ''command''
      else if has_shell_operators stripped then unauthorized (''shell operators are forbidden: '' @ stripped) ''command''
      else if tool \<in> set SHELL_WRAPPERS then unauthorized (''shell/git wrapper refused: '' @ tool) ''command''
      else if runs_git stripped tool \<and> git_verb parts \<in> set FORBIDDEN_GIT_MUTATIONS
        then unauthorized (''git '' @ git_verb parts @ '' is forbidden for product agents'') ''command''
      else if allowed = [] then
        (if allow_empty_allowlist then Inr () else unauthorized ''command allowlist is absent or empty; all commands refused'' ''command'')
      else if stripped \<notin> set allowed then unauthorized (''command not exactly present on allowlist: '' @ stripped) ''command''
      else Inr ())"

text \<open>The command of an entry: a text, or the \<open>argv\<close> of an object joined, else its \<open>command\<close>.\<close>

definition requested_command :: "nat \<Rightarrow> json \<Rightarrow> string res" where
  "requested_command index item = (case item of
     JStr s \<Rightarrow> Inr s
   | JObj ob \<Rightarrow> (case oget ob ''argv'' of
       JList parts \<Rightarrow> Inr (intersperse '' '' (map py_str parts))
     | _ \<Rightarrow> Inr (py_str (por (por (oget ob ''command'') (oget ob ''argv'')) (JStr []))))
   | _ \<Rightarrow> unauthorized (indexed ''requested_commands'' index @ '' has unsupported type'') (indexed ''requested_commands'' index))"

definition assert_requested_commands_allowed :: "json list \<Rightarrow> string list \<Rightarrow> unit res" where
  "assert_requested_commands_allowed requested allowlist =
     eachR (\<lambda>(index, item). bindR (requested_command index item) (\<lambda>command. assert_command_allowed command allowlist False))
       (enumerate 0 requested)"

section \<open>Paths of the workspace\<close>

definition path_fault :: "string \<Rightarrow> string \<Rightarrow> 'a res" where
  "path_fault code message = Inl (ExecutionGatewayError code message ''path'')"

definition assert_not_control_plane :: "string \<Rightarrow> unit res" where
  "assert_not_control_plane path =
     (if is_forbidden_governance_mutation path
      then path_fault ''forbidden_control_plane_path'' (''Control Plane path mutation forbidden: '' @ normalize_repo_path path)
      else Inr ())"

definition looks_absolute :: "string \<Rightarrow> bool" where
  "looks_absolute p = (startswith p ''/'' \<or> (length p > 1 \<and> p ! 1 = CHR '':''))"

definition slashed :: "string \<Rightarrow> string" where
  "slashed path = strip (replace_char backslash (CHR ''/'') path)"

text \<open>\<open>outside\<close>: the path resolves to a place outside of the workspace.\<close>

definition assert_relative_workspace_path :: "(string \<Rightarrow> bool) \<Rightarrow> string \<Rightarrow> unit res" where
  "assert_relative_workspace_path outside path =
     (let relative = slashed path in
      if relative = [] then path_fault ''empty_path'' ''path is empty''
      else if looks_absolute relative then path_fault ''absolute_path_outside_workspace'' (''absolute paths are forbidden: '' @ path)
      else if ''..'' \<in> set (split_slash relative) then path_fault ''forbidden_path_traversal'' (''path traversal forbidden: '' @ path)
      else if outside relative then path_fault ''absolute_path_outside_workspace'' (''resolved path escapes workspace: '' @ path)
      else Inr ())"

text \<open>\<open>present\<close>: there is such an entry; \<open>link_outside\<close>: it is a link whose target is outside, with the target's text.\<close>

definition assert_no_escaping_link :: "(string \<Rightarrow> bool) \<Rightarrow> (string \<Rightarrow> bool) \<Rightarrow> (string \<Rightarrow> string option) \<Rightarrow> string \<Rightarrow> unit res" where
  "assert_no_escaping_link outside present link_outside path =
     (let relative = slashed path in
      if ''..'' \<in> set (split_slash relative) \<or> looks_absolute relative then assert_relative_workspace_path outside path
      else if \<not> present relative then Inr ()
      else if outside relative then path_fault ''escaping_symlink_or_junction'' (''symlink/junction escapes workspace: '' @ path)
      else (case link_outside relative of
          Some target \<Rightarrow> path_fault ''escaping_symlink_or_junction'' (''symlink/junction target escapes workspace: '' @ path @ '' -> '' @ target)
        | None \<Rightarrow> Inr ()))"

section \<open>Secrets\<close>

text \<open>\<open>text.replace(secret, by)\<close> for a secret that is not empty.\<close>

function replace_text :: "string \<Rightarrow> string \<Rightarrow> string \<Rightarrow> string" where
  "replace_text secret shown [] = []"
| "replace_text secret shown (c # s) =
     (if secret \<noteq> [] \<and> startswith (c # s) secret then shown @ replace_text secret shown (drop (length secret) (c # s))
      else c # replace_text secret shown s)"
  by pat_completeness auto
termination by (relation "measure (\<lambda>(_, _, s). length s)") auto

definition REDACTED :: string where "REDACTED = ''***REDACTED***''"

definition redact_secrets :: "string \<Rightarrow> string list \<Rightarrow> string" where
  "redact_secrets source secrets =
     fold (\<lambda>secret redacted. if secret \<noteq> [] \<and> infix_of secret redacted then replace_text secret REDACTED redacted else redacted) secrets source"

section \<open>The verification of the framework\<close>

text \<open>How a process ended: its return code and output, a timeout with the output so far, or it did not start.\<close>

datatype run_end = Exited int string string | Timed_Out string string | Not_Started string

record runner =
  interpreter :: string
  environment :: "(string \<times> string) list"
  process :: "string list \<Rightarrow> (string \<times> string) list \<Rightarrow> rat \<Rightarrow> run_end"
  duration_ms :: int
  digest :: "string \<Rightarrow> string"

definition PROFILE_COMMAND_FIELDS :: "string list" where
  "PROFILE_COMMAND_FIELDS = [''lint'', ''unit_test'', ''integration_test'', ''build'']"

definition MAX_TRANSCRIPT_CHARS :: nat where "MAX_TRANSCRIPT_CHARS = 32000"

definition compile_command_argv :: "runner \<Rightarrow> string \<Rightarrow> string list res" where
  "compile_command_argv r command =
     (if strip command = [] then unauthorized ''empty verification command'' ''verification.command''
      else (case shlex_split (strip command) of
          None \<Rightarrow> unauthorized ''command could not be parsed into argv'' ''verification.command''
        | Some [] \<Rightarrow> unauthorized ''empty argv after parse'' ''verification.command''
        | Some (tool # rest) \<Rightarrow> Inr ((if tool \<in> {''python'', ''python3''} then interpreter r else tool) # rest)))"

definition upper_char :: "char \<Rightarrow> char" where
  "upper_char c = (if char_in (CHR ''a'') (CHR ''z'') c then char_of ((of_char c :: nat) - 32) else c)"

definition secret_name :: "string \<Rightarrow> bool" where
  "secret_name key = list_ex (\<lambda>token. infix_of token (map upper_char key)) [''SECRET'', ''TOKEN'', ''PASSWORD'', ''API_KEY'']"

text \<open>The environment without the AWS variables, updated by \<open>env\<close>, without the secrets that \<open>env\<close> does not name itself.\<close>

definition cleaned_env :: "runner \<Rightarrow> (string \<times> string) list option \<Rightarrow> (string \<times> string) list" where
  "cleaned_env r env =
     (let inherited = filter (\<lambda>(key, _). \<not> startswith key ''AWS_'') (environment r);
          given = (case env of None \<Rightarrow> [] | Some kvs \<Rightarrow> kvs) in
      filter (\<lambda>(key, _). \<not> secret_name key \<or> map_of given key \<noteq> None)
        (fold (\<lambda>(key, value). AList.update key value) given inherited))"

definition transcript_of :: "string \<Rightarrow> string \<Rightarrow> string list \<Rightarrow> string" where
  "transcript_of stdout stderr secrets = redact_secrets (take MAX_TRANSCRIPT_CHARS (stdout @ [line_feed] @ stderr)) secrets"

definition last_chars :: "nat \<Rightarrow> string \<Rightarrow> string" where
  "last_chars n s = drop (length s - n) s"

definition verified_check :: "runner \<Rightarrow> string \<Rightarrow> string \<Rightarrow> json \<Rightarrow> string \<Rightarrow> string list \<Rightarrow> obj" where
  "verified_check r check_id status code transcript limits =
     [(''schema_version'', JInt SCHEMA_VERSION), (''canonical_id'', JStr check_id), (''reported_name'', JStr check_id),
      (''status'', JStr status), (''blocking'', JBool True), (''trust_level'', JStr ''framework_verified''),
      (''evidence_ref'', JNull), (''verifier'', JStr ''verification_runner''), (''exit_code'', code),
      (''duration_ms'', JInt (duration_ms r)), (''transcript_hash'', JStr (''sha256:'' @ digest r transcript)),
      (''limitations'', JList (map JStr limits))]"

definition run_verification_command ::
  "runner \<Rightarrow> string \<Rightarrow> string list \<Rightarrow> rat \<Rightarrow> string list \<Rightarrow> string \<Rightarrow> (string \<times> string) list option \<Rightarrow> bool \<Rightarrow> obj res" where
  "run_verification_command r command allowlist timeout secrets check_id env allow_empty_allowlist =
     bindR (assert_command_allowed command allowlist allow_empty_allowlist) (\<lambda>_.
     bindR (compile_command_argv r command) (\<lambda>argv.
     (case process r argv (cleaned_env r env) (max (1 / 10) timeout) of
        Not_Started problem \<Rightarrow> Inl (ExecutionGatewayError ''verification_exec_failed'' problem ''verification.command'')
      | Timed_Out stdout stderr \<Rightarrow>
          Inr (verified_check r check_id ''timed_out'' JNull (transcript_of stdout stderr secrets) [''command timed out''])
      | Exited code stdout stderr \<Rightarrow>
          (let transcript = transcript_of stdout stderr secrets; excerpt = last_chars 400 (strip transcript) in
           Inr (verified_check r check_id (if code = 0 then ''passed'' else ''failed'') (JInt code) transcript
             (if code = 0 then [] else ''non-zero exit'' # (if excerpt = [] then [] else [excerpt])))))))"

definition field_check :: "string \<Rightarrow> string" where
  "field_check field = (if field \<in> {''unit_test'', ''integration_test''} then ''tests'' else field)"

definition run_profile_verifications ::
  "runner \<Rightarrow> obj \<Rightarrow> string list \<Rightarrow> rat \<Rightarrow> string list \<Rightarrow> bool \<Rightarrow> obj list res" where
  "run_profile_verifications r profile_commands allowlist timeout secrets allow_empty_allowlist =
     mapR (\<lambda>field. run_verification_command r (py_str (oget profile_commands field)) allowlist timeout secrets
             (field_check field) None allow_empty_allowlist)
       (filter (\<lambda>field. truthy (oget profile_commands field)) PROFILE_COMMAND_FIELDS)"

definition load_profile_commands :: "json \<Rightarrow> obj res" where
  "load_profile_commands profile =
     bindR (jget profile ''commands'') (\<lambda>given.
     bindR (mapR (\<lambda>field. bindR (jget (por given (JObj [])) field) (\<lambda>v. Inr (field, v))) PROFILE_COMMAND_FIELDS) Inr)"

section \<open>What redaction leaves\<close>

lemma startswith_split: "startswith s p \<longleftrightarrow> (\<exists>v. s = p @ v)"
  by (auto simp: startswith_def) (metis append_take_drop_id)

lemma infix_of_iff: "infix_of p s \<longleftrightarrow> (\<exists>u v. s = u @ p @ v)"
proof (induction s)
  case (Cons c s)
  have here: "take (length p) (c # s) = p \<longleftrightarrow> (\<exists>v. c # s = p @ v)"
    using startswith_split [of "c # s" p] by (simp add: startswith_def)
  show ?case
  proof
    assume "infix_of p (c # s)"
    then have "(\<exists>v. c # s = p @ v) \<or> (\<exists>u v. s = u @ p @ v)" using Cons here by simp
    then show "\<exists>u v. c # s = u @ p @ v" by (metis append_Cons append_Nil)
  next
    assume "\<exists>u v. c # s = u @ p @ v"
    then obtain u v where "c # s = u @ p @ v" by blast
    then have "(\<exists>v. c # s = p @ v) \<or> (\<exists>u v. s = u @ p @ v)" by (cases u) auto
    then show "infix_of p (c # s)" using Cons here by simp
  qed
qed auto

text \<open>A text without the characters of the mask does not reach across a mask.\<close>

lemma infix_across:
  assumes "infix_of p (a @ m @ b)" "p \<noteq> []" "m \<noteq> []" "set p \<inter> set m = {}"
  shows "infix_of p a \<or> infix_of p b"
proof -
  obtain u v where eq: "a @ m @ b = u @ p @ v" using assms(1) by (auto simp: infix_of_iff)
  from append_eq_append_conv2 [of a "m @ b" u "p @ v"] eq
  obtain us where "(a = u @ us \<and> us @ m @ b = p @ v) \<or> (a @ us = u \<and> m @ b = us @ p @ v)" by auto
  then show ?thesis
  proof (elim disjE conjE)
    assume left: "a = u @ us" "us @ m @ b = p @ v"
    from left(2) obtain ws where "(us = p @ ws) \<or> (us @ ws = p \<and> m @ b = ws @ v)"
      by (auto simp: append_eq_append_conv2)
    then show ?thesis
    proof (elim disjE conjE)
      assume "us @ ws = p" "m @ b = ws @ v"
      then have "ws = []" using assms(3,4) by (cases ws; cases m) auto
      then have "a = u @ p @ []" using \<open>us @ ws = p\<close> left(1) by simp
      then show ?thesis by (metis infix_of_iff)
    qed (use left(1) in \<open>auto simp: infix_of_iff\<close>)
  next
    assume right: "a @ us = u" "m @ b = us @ p @ v"
    from right(2) obtain ws where "(m = us @ ws \<and> ws @ b = p @ v) \<or> (m @ ws = us \<and> b = ws @ p @ v)"
      by (auto simp: append_eq_append_conv2)
    then show ?thesis
    proof (elim disjE conjE)
      assume "m = us @ ws" "ws @ b = p @ v"
      then have "ws = []" using assms(2,4) by (cases ws; cases p) auto
      then show ?thesis using \<open>ws @ b = p @ v\<close> by (auto simp: infix_of_iff intro: exI [of _ "[]"])
    qed (auto simp: infix_of_iff)
  qed
qed

lemma replace_keeps_absent:
  assumes "p \<noteq> []" "m \<noteq> []" "set p \<inter> set m = {}" "\<not> infix_of p (u @ t)"
  shows "\<not> infix_of p (u @ replace_text s m t)"
  using assms
proof (induction s m t arbitrary: u rule: replace_text.induct)
  case (2 s m c t)
  show ?case
  proof (cases "s \<noteq> [] \<and> startswith (c # t) s")
    case True
    then obtain v where v: "c # t = s @ v" "drop (length s) (c # t) = v" by (auto simp: startswith_split)
    have "\<not> infix_of p u" "\<not> infix_of p v"
      using 2(6) unfolding v(1) infix_of_iff by (metis append.assoc)+
    moreover have "\<not> infix_of p (replace_text s m v)"
      using 2(1) [OF True, of "[]"] 2(3-5) v(2) \<open>\<not> infix_of p v\<close> by simp
    ultimately show ?thesis using True v(2) infix_across 2(3-5) by (simp del: infix_of.simps) blast
  next
    case False
    then show ?thesis using 2(2) [OF False, of "u @ [c]"] 2(3-6) by auto
  qed
qed simp

lemma replace_removes:
  assumes "s \<noteq> []" "m \<noteq> []" "set s \<inter> set m = {}" "\<forall>i < length u. \<not> startswith (drop i (u @ t)) s"
  shows "\<not> infix_of s (u @ replace_text s m t)"
  using assms
proof (induction s m t arbitrary: u rule: replace_text.induct)
  case (1 s m)
  have False if split: "u = a @ s @ b" for a b
  proof -
    have "length a < length u" "startswith (drop (length a) u) s"
      using split 1(1) by (auto simp: startswith_split)
    then show False using 1(4) by auto
  qed
  then show ?case by (auto simp: infix_of_iff)
next
  case (2 s m c t)
  have no_u: "\<not> infix_of s u"
  proof
    assume "infix_of s u"
    then obtain a b where split: "u = a @ s @ b" by (auto simp: infix_of_iff)
    then have "length a < length u" "startswith (drop (length a) (u @ c # t)) s"
      using 2(3) by (auto simp: startswith_split)
    then show False using 2(6) by blast
  qed
  show ?case
  proof (cases "s \<noteq> [] \<and> startswith (c # t) s")
    case True
    have "\<not> infix_of s (replace_text s m (drop (length s) (c # t)))"
      using 2(1) [OF True, of "[]"] 2(3-5) by simp
    then show ?thesis using True no_u infix_across 2(3-5) by (simp del: infix_of.simps) blast
  next
    case False
    have "\<forall>i < length (u @ [c]). \<not> startswith (drop i ((u @ [c]) @ t)) s"
      using 2(6) False 2(3) by (auto simp: less_Suc_eq)
    then show ?thesis using 2(2) [OF False, of "u @ [c]"] 2(3-5) False by auto
  qed
qed

lemma redacted_once: "REDACTED \<noteq> []"
  by (simp add: REDACTED_def)

text \<open>One pass of redaction: a secret stays absent, and the one of the pass becomes absent.\<close>

definition redact_one :: "string \<Rightarrow> string \<Rightarrow> string" where
  "redact_one secret redacted =
     (if secret \<noteq> [] \<and> infix_of secret redacted then replace_text secret REDACTED redacted else redacted)"

lemma redact_step:
  assumes "p \<noteq> []" "set p \<inter> set REDACTED = {}"
  shows "\<not> infix_of p t \<Longrightarrow> \<not> infix_of p (redact_one s t)" "\<not> infix_of p (redact_one p t)"
  using replace_keeps_absent [OF assms(1) redacted_once assms(2), of "[]" t s] replace_removes [OF assms(1) redacted_once assms(2), of "[]" t]
    assms(1) by (auto simp: redact_one_def)

lemma redact_all:
  assumes "p \<noteq> []" "set p \<inter> set REDACTED = {}" "p \<in> set secrets \<or> \<not> infix_of p t"
  shows "\<not> infix_of p (fold redact_one secrets t)"
  using assms(3)
proof (induction secrets arbitrary: t)
  case (Cons s secrets)
  have "p \<in> set secrets \<or> \<not> infix_of p (redact_one s t)"
    using Cons.prems redact_step [OF assms(1,2)] by auto
  then show ?case using Cons.IH by simp
qed simp

lemma redact_fold: "redact_secrets source secrets = fold redact_one secrets source"
  unfolding redact_secrets_def redact_one_def [abs_def] by simp

section \<open>What the verification runs\<close>

text \<open>
  The argument vectors the policy permits: of the entries of the allowlist that no rule refuses, or of any
  command that no rule refuses where the caller opted for an empty allowlist. And an environment without
  the variables of a secret.
\<close>

definition permitted_argv :: "runner \<Rightarrow> string list \<Rightarrow> bool \<Rightarrow> string list \<Rightarrow> bool" where
  "permitted_argv r allowlist opted argv = (\<exists>item. compile_command_argv r item = Inr argv
     \<and> (item \<in> set allowlist \<or> opted \<and> (\<forall>entry \<in> set allowlist. strip entry = []))
     \<and> \<not> has_shell_operators (strip item) \<and> tool_of (command_tokens (strip item)) \<notin> set SHELL_WRAPPERS
     \<and> (tool_of (command_tokens (strip item)) = ''git'' \<longrightarrow> git_verb (command_tokens (strip item)) \<notin> set FORBIDDEN_GIT_MUTATIONS))"

definition secret_free :: "(string \<times> string) list \<Rightarrow> bool" where
  "secret_free env = list_all (\<lambda>(key, _). \<not> startswith key ''AWS_''
     \<and> list_all (\<lambda>mark. \<not> infix_of mark (map upper_char key)) [''SECRET'', ''TOKEN'', ''PASSWORD'', ''API_KEY'']) env"

lemma allowed_on_list:
  assumes "assert_command_allowed command allowlist opted = Inr u"
  shows "(\<exists>item \<in> set allowlist. strip item = strip command) \<or> opted \<and> (\<forall>entry \<in> set allowlist. strip entry = [])"
    "\<not> has_shell_operators (strip command)" "tool_of (command_tokens (strip command)) \<notin> set SHELL_WRAPPERS"
    "tool_of (command_tokens (strip command)) = ''git'' \<Longrightarrow> git_verb (command_tokens (strip command)) \<notin> set FORBIDDEN_GIT_MUTATIONS"
proof -
  show "(\<exists>item \<in> set allowlist. strip item = strip command) \<or> opted \<and> (\<forall>entry \<in> set allowlist. strip entry = [])"
    "\<not> has_shell_operators (strip command)" "tool_of (command_tokens (strip command)) \<notin> set SHELL_WRAPPERS"
    using assms by (auto simp: assert_command_allowed_def unauthorized_def Let_def stripped_allowlist_def filter_empty_conv split: if_splits)
  assume git: "tool_of (command_tokens (strip command)) = ''git''"
  then have "command_tokens (strip command) \<noteq> []" by (auto simp: tool_of_def)
  then show "git_verb (command_tokens (strip command)) \<notin> set FORBIDDEN_GIT_MUTATIONS"
    using assms git by (auto simp: assert_command_allowed_def unauthorized_def runs_git_def Let_def split: if_splits)
qed

lemma compile_strip: "strip item = strip command \<Longrightarrow> compile_command_argv r item = compile_command_argv r command"
  by (simp add: compile_command_argv_def)

lemma runs_permitted:
  assumes "assert_command_allowed command allowlist opted = Inr u" "compile_command_argv r command = Inr argv"
  shows "permitted_argv r allowlist opted argv"
proof -
  from allowed_on_list(1) [OF assms(1)] obtain item where item: "strip item = strip command"
      "item \<in> set allowlist \<or> opted \<and> (\<forall>entry \<in> set allowlist. strip entry = [])" by blast
  then show ?thesis
    unfolding permitted_argv_def using allowed_on_list(2-4) [OF assms(1)] assms(2) compile_strip [OF item(1), of r]
    by (intro exI [of _ item]) simp
qed

lemma inherited_secret_free: "secret_free (cleaned_env r None)"
  by (auto simp: secret_free_def cleaned_env_def secret_name_def list_all_iff list_ex_iff)

lemma process_cong:
  assumes "\<And>argv env seconds. permitted_argv r allowlist opted argv \<Longrightarrow> secret_free env \<Longrightarrow> process r argv env seconds = other argv env seconds"
  shows "run_verification_command r command allowlist timeout secrets check_id None opted
    = run_verification_command (r\<lparr>process := other\<rparr>) command allowlist timeout secrets check_id None opted"
proof (cases "assert_command_allowed command allowlist opted")
  case (Inr u)
  have same: "compile_command_argv (r\<lparr>process := other\<rparr>) command = compile_command_argv r command"
    "cleaned_env (r\<lparr>process := other\<rparr>) = cleaned_env r" "verified_check (r\<lparr>process := other\<rparr>) = verified_check r"
    by (simp_all add: compile_command_argv_def cleaned_env_def verified_check_def fun_eq_iff split: option.split list.split)
  show ?thesis
  proof (cases "compile_command_argv r command")
    case argv_ok: (Inr found)
    then have "process r found (cleaned_env r None) seconds = other found (cleaned_env r None) seconds" for seconds
      using assms runs_permitted [OF Inr] inherited_secret_free by blast
    then show ?thesis unfolding run_verification_command_def same Inr argv_ok by simp
  qed (simp add: run_verification_command_def same Inr)
qed (simp add: run_verification_command_def)

section \<open>Properties\<close>


text \<open>A process that leaks the variable it was given, and one that does nothing but the permitted test run.\<close>

definition leaky_runner :: runner where
  "leaky_runner = \<lparr>interpreter = ''/usr/bin/python'', environment = [(''PATH'', ''/bin''), (''API_TOKEN'', ''t'')],
    process = (\<lambda>argv env seconds. Exited 0 (concat (map snd env)) []), duration_ms = 5, digest = id\<rparr>"

definition guarded_process :: "string list \<Rightarrow> (string \<times> string) list \<Rightarrow> rat \<Rightarrow> run_end" where
  "guarded_process argv env seconds =
     (if argv = [''pytest'', ''-q''] \<and> secret_free env then Exited 0 (concat (map snd env)) [] else Not_Started ''refused'')"


text \<open>
  C26. A secret that shares no character with the mask does not occur in the redacted text, whatever the
  other secrets are and in whatever order they are replaced.
\<close>

theorem redaction_removes_secrets:
  assumes "secret \<in> set secrets" "secret \<noteq> []" "set secret \<inter> set REDACTED = {}"
  shows "\<not> infix_of secret (redact_secrets source secrets)"
  using redact_all assms unfolding redact_fold by blast

theorem redaction_removes_secrets_witness:
  "\<not> infix_of ''hunter2'' (redact_secrets ''pw=hunter2;hunter2'' [''pw'', ''hunter2''])"
proof -
  have "set ''hunter2'' \<inter> set REDACTED = {}" by code_simp
  then show ?thesis by (intro redaction_removes_secrets) simp_all
qed

text \<open>An option before the subcommand hides a git mutation from the rule that refuses it.\<close>

theorem git_option_hides_mutation:
  "assert_command_allowed ''git push'' [''git push''] False
     = Inl (ExecutionGatewayError ''unauthorized_command'' ''git push is forbidden for product agents'' ''command'')
   \<and> assert_command_allowed ''git -C . push'' [''git -C . push''] False = Inr ()"
  by code_simp

end
