(* ===== verification/Candidate.thy ===== *)
theory Candidate
  imports LegacyResult CommandPolicy EffectiveScope WorkQueue
begin

text \<open>
  What the core checks itself about the candidate of an execution: the files it changed and their
  fingerprint, the control plane it must not touch, its artifacts (\<open>core/execution_gateway/evidence.py\<close>), its
  commit, and the lease and claim under which it may be promoted (\<open>transactional.py\<close>). The tree of a
  workspace at one moment is a record of what Git and the file system answer then; the hash is a parameter.
\<close>

section \<open>The tree of a workspace\<close>

record tree =
  control_plane :: "(string \<times> string) list"
  head_sha :: "string res"
  uncommitted :: "string list res"
  changed_files :: "string \<Rightarrow> string \<Rightarrow> string list res"
  children :: "string \<Rightarrow> string list option"
  entry :: "string \<Rightarrow> json"
  outside :: "string \<Rightarrow> bool"
  present :: "string \<Rightarrow> bool"
  link_outside :: "string \<Rightarrow> string option"
  artifact_file :: "string \<Rightarrow> (nat \<times> string) option"

definition fault_at :: "string \<Rightarrow> string \<Rightarrow> string \<Rightarrow> 'a res" where
  "fault_at code path message = Inl (ExecutionGatewayError code message path)"

definition git_path :: "string \<Rightarrow> string" where
  "git_path path = rstrip_char (CHR ''/'') (strip (replace_char backslash (CHR ''/'') path))"

definition is_transaction_metadata :: "string \<Rightarrow> bool" where
  "is_transaction_metadata path = (git_path path = ''.governed-ephemeral.json'' \<or> startswith (git_path path) ''.ai-team/supervisor/'')"

definition is_control_plane_path :: "string \<Rightarrow> bool" where
  "is_control_plane_path path =
     (let normalized = normalize_repo_path path; as_dir = (if endswith normalized ''/'' then normalized else normalized @ ''/'') in
      list_ex (\<lambda>prefix. startswith normalized prefix \<or> startswith as_dir prefix
          \<or> rstrip_char (CHR ''/'') normalized = rstrip_char (CHR ''/'') prefix) CONTROL_PLANE_ONLY_PATH_PREFIXES)"

section \<open>No change of the control plane\<close>

definition changed_entries :: "(string \<times> string) list \<Rightarrow> (string \<times> string) list \<Rightarrow> string list" where
  "changed_entries before current =
     sorted_strs (filter (\<lambda>p. map_of before p = None) (map fst current))
   @ sorted_strs (filter (\<lambda>p. map_of current p = None) (map fst before))
   @ sorted_strs (filter (\<lambda>p. map_of before p \<noteq> None \<and> map_of current p \<noteq> map_of before p) (map fst current))"

definition assert_no_new_control_plane_paths :: "tree \<Rightarrow> (string \<times> string) list \<Rightarrow> unit res" where
  "assert_no_new_control_plane_paths t preexisting = (case changed_entries preexisting (control_plane t) of
     [] \<Rightarrow> Inr ()
   | p # _ \<Rightarrow> fault_at ''forbidden_control_plane_path'' p (''Control Plane path mutation forbidden: '' @ p))"

section \<open>The changed files\<close>

definition counts :: "string \<Rightarrow> bool" where
  "counts path = (\<not> is_transaction_metadata path \<and> \<not> is_build_output_path path \<and> \<not> is_control_plane_path path)"

definition add_new :: "string list \<Rightarrow> string list \<Rightarrow> string list" where
  "add_new paths found = fold (\<lambda>p acc. if p \<in> set acc then acc else acc @ [p]) paths found"

definition inspect_path :: "tree \<Rightarrow> string \<Rightarrow> string list \<Rightarrow> string list" where
  "inspect_path t path cleaned =
     (let normalized = git_path path in
      if \<not> counts normalized then cleaned
      else (case children t normalized of
          Some below \<Rightarrow> add_new (filter counts below) cleaned
        | None \<Rightarrow> add_new [normalized] cleaned))"

text \<open>A Git error while the commits are compared is ignored, one of the status is not.\<close>

definition committed_since :: "tree \<Rightarrow> string \<Rightarrow> string list res" where
  "committed_since t base_sha =
     (case bindR (head_sha t) (\<lambda>current. if current = base_sha then Inr [] else changed_files t base_sha current) of
        Inl (GitWorkspaceError m) \<Rightarrow> Inr [] | r \<Rightarrow> r)"

definition inspect_changed_paths :: "tree \<Rightarrow> string \<Rightarrow> string list res" where
  "inspect_changed_paths t base_sha =
     bindR (uncommitted t) (\<lambda>dirty.
     bindR (committed_since t base_sha) (\<lambda>since.
     Inr (fold (inspect_path t) (sorted_strs (dirty @ since)) [])))"

section \<open>The fingerprint\<close>

definition snapshot_workspace_fingerprint :: "(string \<Rightarrow> string) \<Rightarrow> tree \<Rightarrow> string list \<Rightarrow> obj \<times> string" where
  "snapshot_workspace_fingerprint hash t fs =
     (let entries = set_keys (map (\<lambda>rel. (rel, entry t rel)) fs) [] in
      (entries, ''sha256:'' @ hash (canonical_json (JObj entries))))"

definition covered_by :: "string list \<Rightarrow> string \<Rightarrow> bool" where
  "covered_by fs path =
     (list_ex (\<lambda>child. child = path \<or> startswith child (rstrip_char (CHR ''/'') path @ ''/'')) fs
      \<or> list_ex (\<lambda>parent. startswith path (rstrip_char (CHR ''/'') parent @ ''/'')) fs)"

definition mutated :: "string \<Rightarrow> 'a res" where
  "mutated message = fault_at ''workspace_mutated_after_verification'' ''workspace.diff'' message"

definition assert_fingerprint_unchanged :: "(string \<Rightarrow> string) \<Rightarrow> tree \<Rightarrow> obj \<times> string \<Rightarrow> unit res" where
  "assert_fingerprint_unchanged hash t expected =
     (let fs = map fst (fst expected) in
      bindR (uncommitted t) (\<lambda>listed.
        (let dirty = filter (\<lambda>p. \<not> is_transaction_metadata p \<and> \<not> is_control_plane_path p) (map (replace_char backslash (CHR ''/'')) listed) in
         if filter (\<lambda>p. p \<notin> set fs \<and> \<not> covered_by fs p) dirty \<noteq> [] then mutated ''workspace gained paths after verification''
         else if snd (snapshot_workspace_fingerprint hash t fs) \<noteq> snd expected then mutated ''workspace content changed after verification''
         else Inr ())))"

section \<open>The scope of the changes\<close>

definition validate_paths_against_scope ::
  "tree \<Rightarrow> string list \<Rightarrow> string \<Rightarrow> json \<Rightarrow> string list \<Rightarrow> string list option \<Rightarrow> unit res" where
  "validate_paths_against_scope t fs work_unit_id work_unit allowed_paths role_write_paths =
     bindR (eachR (\<lambda>path. bindR (assert_not_control_plane path) (\<lambda>_.
       bindR (assert_relative_workspace_path (outside t) path) (\<lambda>_.
       assert_no_escaping_link (outside t) (present t) (link_outside t) path))) fs) (\<lambda>_.
     bindR (boundary_error_for_changed_files fs work_unit_id work_unit (map JStr allowed_paths) (map_option (map JStr) role_write_paths)) (\<lambda>error.
     case error of None \<Rightarrow> Inr ()
     | Some (message, stop) \<Rightarrow> fault_at ''scope_violation'' ''workspace.diff'' message))"

section \<open>Artifacts\<close>

definition normalize_digest :: "json \<Rightarrow> string option" where
  "normalize_digest value =
     (if value = JNull then None
      else let s = lower (strip (py_str value)) in
        if s = [] then None
        else if startswith s ''sha256:'' then Some s
        else if length s = 64 \<and> list_all is_hex s then Some (''sha256:'' @ s)
        else Some s)"

definition is_host_absolute_path :: "string \<Rightarrow> bool" where
  "is_host_absolute_path path =
     (let p = strip (replace_char backslash (CHR ''/'') path) in
      startswith p ''/'' \<or> (case p of a # b # c # _ \<Rightarrow> (char_in (CHR ''A'') (CHR ''Z'') a \<or> char_in (CHR ''a'') (CHR ''z'') a)
          \<and> b = CHR '':'' \<and> c = CHR ''/'' | _ \<Rightarrow> False))"

definition verify_artifact :: "tree \<Rightarrow> string \<Rightarrow> json \<Rightarrow> obj res" where
  "verify_artifact t path agent_reported =
     (let rel = replace_char backslash (CHR ''/'') path in
      if is_host_absolute_path path then fault_at ''absolute_path_outside_workspace'' ''artifacts.path'' (''artifact path outside workspace: '' @ path)
      else if ''..'' \<in> set (split_slash rel) then fault_at ''forbidden_path_traversal'' ''artifacts.path'' (''artifact path escapes workspace: '' @ path)
      else if outside t rel then fault_at ''absolute_path_outside_workspace'' ''artifacts.path'' (''artifact path outside workspace: '' @ path)
      else (case artifact_file t rel of
        None \<Rightarrow> fault_at ''artifact_missing'' ''artifacts.path'' (''artifact not found: '' @ rel)
      | Some (bytes, observed) \<Rightarrow>
          if bytes > MAX_ARTIFACT_BYTES then fault_at ''artifact_too_large'' ''artifacts.path''
            (''artifact exceeds max size ('' @ nat_text bytes @ '' > '' @ nat_text MAX_ARTIFACT_BYTES @ '')'')
          else (case normalize_digest agent_reported of
            Some reported \<Rightarrow>
              if reported \<noteq> observed then fault_at ''artifact_hash_mismatch'' ''artifacts.sha256''
                ''agent-reported artifact hash does not match framework recalculation''
              else Inr [(''schema_version'', JInt SCHEMA_VERSION), (''kind'', JStr ''file''), (''path'', JStr rel),
                (''agent_reported_sha256'', JStr reported), (''observed_sha256'', JStr observed), (''trust_level'', JStr ''framework_verified''),
                (''size_bytes'', JInt (int bytes))]
          | None \<Rightarrow> Inr [(''schema_version'', JInt SCHEMA_VERSION), (''kind'', JStr ''file''), (''path'', JStr rel),
                (''agent_reported_sha256'', JNull), (''observed_sha256'', JStr observed), (''trust_level'', JStr ''framework_observed''),
                (''size_bytes'', JInt (int bytes))])))"

definition assert_blocking_check_trust :: "obj \<Rightarrow> bool \<Rightarrow> unit res" where
  "assert_blocking_check_trust check can_verify =
     (if \<not> (if ohas check ''blocking'' then truthy (oget check ''blocking'') else True) then Inr ()
      else if can_verify \<and> py_eq (por (oget check ''trust_level'') (JStr ''agent_reported'')) (JStr ''agent_reported'')
      then fault_at ''insufficient_evidence_trust'' ''checks.trust_level''
        (''blocking check '' @ py_repr (oget check ''canonical_id'') @ '' is only agent_reported; independent verification required'')
      else Inr ())"

section \<open>The commit\<close>

text \<open>What Git answers while the commit is made: the ignored paths, the staged ones, and the resulting head.\<close>

record index =
  ignored_by_git :: "string list res"
  add_paths :: "string list \<Rightarrow> bool \<Rightarrow> unit res"
  staged_names :: "string list \<Rightarrow> string list res"
  unstage :: "string list \<Rightarrow> unit res"
  commit_staged :: "string \<Rightarrow> string res"
  unchanged_head :: "string res"

definition git_add_validated :: "index \<Rightarrow> string list \<Rightarrow> string \<Rightarrow> unit res" where
  "git_add_validated g paths work_unit_id =
     bindR (ignored_by_git g) (\<lambda>ignored.
       (let force = filter (\<lambda>p. p \<in> set ignored \<and> is_governed_output p work_unit_id) paths;
            normal = filter (\<lambda>p. p \<notin> set ignored) paths;
            refused = filter (\<lambda>p. p \<in> set ignored \<and> p \<notin> set force) paths in
        if refused \<noteq> [] then Inl (GitWorkspaceError (''refusing to force-add ignored product paths: '' @ intersperse '', '' refused))
        else bindR (if normal = [] then Inr () else add_paths g normal False) (\<lambda>_.
          if force = [] then Inr () else add_paths g force True)))"

definition validated_paths :: "string list \<Rightarrow> string list" where
  "validated_paths paths = map slashed (filter (\<lambda>p. p \<noteq> [] \<and> \<not> is_transaction_metadata p) paths)"

definition create_governed_commit :: "index \<Rightarrow> string \<Rightarrow> string \<Rightarrow> string list \<Rightarrow> string res" where
  "create_governed_commit g work_unit_id execution_id paths =
     (let validated = validated_paths paths in
      bindR (if validated = [] then Inr () else git_add_validated g validated work_unit_id) (\<lambda>_.
      bindR (staged_names g validated) (\<lambda>staged.
        (let illegal = filter (\<lambda>p. is_transaction_metadata p \<or> p \<notin> set validated) staged in
         if illegal \<noteq> [] then bindR (unstage g illegal) (\<lambda>_.
           fault_at ''illegal_staged_path'' ''workspace.commit'' ''refusing to commit paths outside the validated set'')
         else if staged = [] then unchanged_head g
         else commit_staged g (''feat('' @ work_unit_id @ ''): governed execution '' @ execution_id)))))"

definition mismatch :: "string \<Rightarrow> 'a res" where
  "mismatch message = fault_at ''commit_tree_mismatch'' ''workspace.commit'' message"

text \<open>\<open>blob\<close>: the digest of a file in the commit.\<close>

definition assert_commit_matches_candidate ::
  "tree \<Rightarrow> (string \<Rightarrow> string option) \<Rightarrow> string \<Rightarrow> string \<Rightarrow> string list \<Rightarrow> (string \<times> string) list \<Rightarrow> unit res" where
  "assert_commit_matches_candidate t blob base_sha promoted_sha paths artifact_hashes =
     bindR (changed_files t base_sha promoted_sha) (\<lambda>committed.
       if set committed \<noteq> set (map (replace_char backslash (CHR ''/'')) paths)
       then mismatch ''promoted commit diff does not equal the validated candidate''
       else eachR (\<lambda>(path, expected). case blob path of
           None \<Rightarrow> mismatch (''verified artifact is absent from commit: '' @ path)
         | Some observed \<Rightarrow> if observed \<noteq> expected then mismatch (''committed artifact hash diverges for '' @ path) else Inr ()) artifact_hashes)"

section \<open>The lease of the worker\<close>

definition stale :: "string \<Rightarrow> string \<Rightarrow> 'a res" where
  "stale path message = fault_at ''stale_epoch'' path message"

text \<open>\<open>worker_id and value not in (None, worker_id)\<close>.\<close>

definition other_worker :: "string option \<Rightarrow> json \<Rightarrow> bool" where
  "other_worker worker_id owner = (case worker_id of None \<Rightarrow> False
     | Some w \<Rightarrow> w \<noteq> [] \<and> owner \<noteq> JNull \<and> owner \<noteq> JStr w)"

definition assert_epoch_fencing :: "json \<Rightarrow> json \<Rightarrow> unit res" where
  "assert_epoch_fencing request_epoch result_epoch =
     (case (py_int request_epoch, py_int result_epoch) of
        (Inr left, Inr right) \<Rightarrow> if left \<noteq> right then stale ''epoch''
          (''result epoch '' @ int_text right @ '' does not match request epoch '' @ int_text left) else Inr ()
      | _ \<Rightarrow> stale ''epoch'' ''epoch values are not integers'')"

fun assert_queue_items :: "string \<Rightarrow> int \<Rightarrow> string option \<Rightarrow> obj list \<Rightarrow> json res" where
  "assert_queue_items lease_id epoch worker_id [] =
     Inr (JObj [(''lease_id'', JStr lease_id), (''lease_epoch'', JInt epoch), (''state'', JStr ''untracked'')])"
| "assert_queue_items lease_id epoch worker_id (item # rest) =
     (if oget item ''lease_id'' \<noteq> JStr lease_id then assert_queue_items lease_id epoch worker_id rest
      else bindR (int_field item ''lease_epoch'' 0) (\<lambda>held.
        if held \<noteq> epoch then stale ''epoch'' ''queue lease epoch no longer matches request''
        else bindR (in_strs (oget item ''state'') [''leased'', ''acknowledged'']) (\<lambda>working.
          if \<not> working then stale ''lease_id'' (''queue item state '' @ py_repr (oget item ''state'') @ '' does not allow promotion'')
          else if other_worker worker_id (oget item ''leased_by'') then stale ''lease_id'' ''queue lease owned by a different worker''
          else Inr (JObj item))))"

definition assert_queue_lease :: "wqueue \<Rightarrow> string \<Rightarrow> int \<Rightarrow> string option \<Rightarrow> json res" where
  "assert_queue_lease q lease_id epoch worker_id = assert_queue_items lease_id epoch worker_id (list_items False q)"

text \<open>What the Run still records about the lease of the Work Unit; an unreadable Run records nothing.\<close>

definition assert_run_lease :: "store \<Rightarrow> string \<Rightarrow> string \<Rightarrow> string \<Rightarrow> int \<Rightarrow> unit res" where
  "assert_run_lease s run_id work_unit_id lease_id epoch =
     (if \<not> is_file s (run_path (JStr run_id)) then Inr ()
      else (let run_document = (case read_yaml s (run_path (JStr run_id)) of Inr d \<Rightarrow> por d (JObj []) | Inl _ \<Rightarrow> JObj []) in
        bindR (jget run_document ''leases_by_work_unit'') (\<lambda>leases.
        bindR (jget (por leases (JObj [])) work_unit_id) (\<lambda>found.
        bindR (jget (por found (JObj [])) ''lease_id'') (\<lambda>current_id.
        bindR (jget (por found (JObj [])) ''epoch'') (\<lambda>current_epoch.
        if truthy current_id \<and> current_id \<noteq> JStr lease_id
        then stale ''lease_id'' ''run no longer references this lease_id for the Work Unit''
        else if current_epoch = JNull then Inr ()
        else bindR (py_int current_epoch) (\<lambda>now_at. if now_at \<noteq> epoch then stale ''epoch'' ''run lease epoch no longer matches request''
          else Inr ())))))))"

definition assert_lease_document :: "obj \<Rightarrow> int \<Rightarrow> string option \<Rightarrow> unit res" where
  "assert_lease_document lease epoch worker_id =
     bindR (if oget lease ''status'' = JNull then Inr True else in_strs (oget lease ''status'') [''active'']) (\<lambda>active.
       if \<not> active then stale ''lease_id'' (''lease status '' @ py_repr (oget lease ''status'') @ '' does not allow promotion'')
       else bindR (py_int (por (por (oget lease ''epoch'') (oget lease ''lease_epoch'')) (JInt 0))) (\<lambda>observed.
         if observed \<noteq> 0 \<and> observed \<noteq> epoch
         then stale ''epoch'' (''authoritative lease epoch '' @ int_text observed @ '' != request epoch '' @ int_text epoch)
         else if other_worker worker_id (oget lease ''worker_id'') then stale ''lease_id'' ''lease is owned by a different worker''
         else Inr ()))"

definition assert_authoritative_lease ::
  "store \<Rightarrow> wqueue \<Rightarrow> string \<Rightarrow> string \<Rightarrow> string \<Rightarrow> int \<Rightarrow> string option \<Rightarrow> json res" where
  "assert_authoritative_lease s q run_id work_unit_id lease_id epoch worker_id =
     (if \<not> is_file s (lease_path (JStr lease_id)) then assert_queue_lease q lease_id epoch worker_id
      else (case read_yaml s (lease_path (JStr lease_id)) of
          Inl _ \<Rightarrow> stale ''lease_id'' ''authoritative lease unreadable''
        | Inr document \<Rightarrow> (case por document (JObj []) of
            JObj lease \<Rightarrow> bindR (assert_lease_document lease epoch worker_id) (\<lambda>_.
              bindR (assert_run_lease s run_id work_unit_id lease_id epoch) (\<lambda>_. Inr (JObj lease)))
          | _ \<Rightarrow> stale ''lease_id'' ''authoritative lease is corrupt'')))"

end
