(* ===== verification/AgentExecution.thy ===== *)
theory AgentExecution
  imports Candidate
begin

text \<open>
  The cycle of one governed execution (\<open>AgentExecutionGateway.execute\<close> of \<open>core/execution_gateway/gateway.py\<close>):
  the agent runs, its result is adapted and validated, its changes are inspected twice around the independent
  verification, and only behind the lease and an exclusive claim is the commit made, compared, and promoted.
  The trees of the workspace at the moments of the cycle, the agent and the index are parameters; a claim, an
  evidence file, a promotion, a quarantine and a journal entry are the effects. Whether
  the locks are taken, the promotion is marked and the journal is written are parameters too. Progress events
  and the result shown with a rejection are left out.
\<close>

section \<open>Parameters and effects\<close>

record execution =
  x_request :: obj
  x_work_unit :: json
  x_grant_paths :: "string list"
  x_role_paths :: "string list option"
  x_profile :: json
  x_package :: "obj option"
  x_workspace :: string
  x_ephemeral :: bool
  x_independent :: bool
  x_fenced :: bool
  x_worker :: "string option"

record surroundings =
  agent :: "obj \<Rightarrow> json res"
  workspace_of :: "string res"
  tree_before :: tree
  tree_after :: tree
  tree_verified :: tree
  tree_committed :: tree
  blob_of :: "string \<Rightarrow> string \<Rightarrow> string option"
  git_index :: index
  verifier :: runner
  locks_taken :: "unit res"
  marked :: "unit res"
  journalled :: "unit res"
  documents :: store
  work_queue :: wqueue
  hashed :: "string \<Rightarrow> string"
  draw :: "nat \<Rightarrow> string"
  time_text :: string

datatype gw_effect = Promoted string string | Quarantined string string | Journalled string obj

record gw_state =
  claims :: "(string \<times> json) list"
  evidence_files :: "(string \<times> json) list"
  effects :: "gw_effect list"

datatype verdict = Accepted obj string | Rejected string string string

section \<open>The context package\<close>

definition hash_context_package :: "(string \<Rightarrow> string) \<Rightarrow> obj \<Rightarrow> string" where
  "hash_context_package hash package =
     ''sha256:'' @ hash (canonical_json (JObj (filter (\<lambda>(k, _). k \<noteq> ''context_package_hash'') package)))"

definition assert_context_hash :: "json \<Rightarrow> string \<Rightarrow> unit res" where
  "assert_context_hash result_hash expected_hash =
     (if expected_hash = [] then fault_at ''context_hash_mismatch'' ''context_package_hash'' ''compiled request is missing context_package_hash''
      else if \<not> truthy result_hash \<or> py_str result_hash \<noteq> expected_hash
      then fault_at ''context_hash_mismatch'' ''context_package_hash'' ''result context_package_hash does not match compiled request context''
      else Inr ())"

definition text_field :: "obj \<Rightarrow> string \<Rightarrow> string" where
  "text_field ob field = or_text (oget ob field) []"

section \<open>The result of the agent\<close>

text \<open>The checks of the result alone: its structure, its identity, its context, its status and its commands.\<close>

definition allowlist_of :: "obj \<Rightarrow> string list res" where
  "allowlist_of request =
     bindR (jget (por (oget request ''contract'') (JObj [])) ''allowed_shell_commands'') (\<lambda>given.
     bindR (list_of given) (\<lambda>items. Inr (map py_str items)))"

definition with_defaults :: "obj \<Rightarrow> obj \<Rightarrow> obj" where
  "with_defaults request adapted =
     set_defaults [(''requested_commands'', JList []), (''limitations'', JList []), (''usage'', JObj []), (''provider_metadata'', JObj []),
       (''context_package_hash'', JStr (text_field request ''context_package_hash''))] adapted"

definition canonical_result :: "obj \<Rightarrow> json \<Rightarrow> obj res" where
  "canonical_result request raw =
     bindR (adapt raw request) (\<lambda>adapted.
       (let canonical = with_defaults request adapted in
        bindR (require_valid_result (JObj canonical)) (\<lambda>_.
        bindR (assert_identity_match request canonical) (\<lambda>_.
        bindR (assert_epoch_fencing (oget request ''epoch'') (oget canonical ''epoch'')) (\<lambda>_.
        bindR (jget raw ''context_package_hash'') (\<lambda>raw_hash.
        bindR (assert_context_hash (por (oget canonical ''context_package_hash'') raw_hash) (text_field request ''context_package_hash'')) (\<lambda>_.
        bindR (assert_agent_status_promotable (text_field canonical ''status'')) (\<lambda>_.
        bindR (allowlist_of request) (\<lambda>allowlist.
        bindR (list_of (oget canonical ''requested_commands'')) (\<lambda>commands.
        bindR (assert_requested_commands_allowed commands allowlist) (\<lambda>_. Inr canonical)))))))))))"

definition observed_head :: "tree \<Rightarrow> string res" where
  "observed_head t = (case head_sha t of
     Inl (GitWorkspaceError message) \<Rightarrow> fault_at ''git_head_unreadable'' ''workspace.observed_head_sha'' message | r \<Rightarrow> r)"

definition claimed_sha :: "obj \<Rightarrow> json \<Rightarrow> json res" where
  "claimed_sha canonical raw =
     bindR (jget (por (oget canonical ''workspace'') (JObj [])) ''claimed_result_sha'') (\<lambda>stated.
     if truthy stated then Inr stated
     else bindR (jget raw ''workspace'') (\<lambda>given. jget (por given (JObj [])) ''result_sha''))"

definition assert_claimed_head :: "obj \<Rightarrow> json \<Rightarrow> tree \<Rightarrow> json res" where
  "assert_claimed_head canonical raw t =
     bindR (observed_head t) (\<lambda>observed.
     bindR (claimed_sha canonical raw) (\<lambda>claimed.
     if truthy claimed \<and> py_str claimed \<noteq> observed
     then fault_at ''result_sha_mismatch'' ''workspace.result_sha'' ''claimed result_sha does not match observed HEAD''
     else Inr claimed))"

section \<open>The candidate\<close>

text \<open>The artifacts with a path, in the order of the result.\<close>

definition named_artifacts :: "obj \<Rightarrow> (string \<times> obj) list res" where
  "named_artifacts canonical =
     bindR (list_of (oget canonical ''artifacts'')) (\<lambda>items.
     Inr (filter (\<lambda>(p, _). p \<noteq> []) (map (\<lambda>ob. (text_field ob ''path'', ob)) (objects items))))"

definition verify_artifacts :: "tree \<Rightarrow> obj \<Rightarrow> obj list res" where
  "verify_artifacts t canonical =
     bindR (named_artifacts canonical) (\<lambda>named.
     mapR (\<lambda>(p, ob). verify_artifact t p (por (oget ob ''agent_reported_sha256'') (oget ob ''sha256''))) named)"

definition inspect_candidate :: "execution \<Rightarrow> tree \<Rightarrow> tree \<Rightarrow> string list res" where
  "inspect_candidate x before t =
     bindR (assert_no_new_control_plane_paths t (control_plane before)) (\<lambda>_.
     bindR (inspect_changed_paths t (py_str (oget (x_request x) ''base_sha''))) (\<lambda>changed.
     bindR (validate_paths_against_scope t changed (py_str (oget (x_request x) ''work_unit_id'')) (x_work_unit x) (x_grant_paths x) (x_role_paths x)) (\<lambda>_.
     Inr changed)))"

definition verification_failure :: "obj list \<Rightarrow> 'a res" where
  "verification_failure failed =
     (let excerpts = concat (map (\<lambda>item. case oget item ''limitations'' of
            JList ls \<Rightarrow> map py_str (filter (\<lambda>l. truthy l \<and> l \<noteq> JStr ''non-zero exit'') ls) | _ \<Rightarrow> []) failed) in
      fault_at ''independent_verification_failed'' ''verification''
        (''framework verification runner reported failures'' @ (case excerpts of [] \<Rightarrow> [] | e # _ \<Rightarrow> '': '' @ take 500 e)))"

definition verify_independently :: "execution \<Rightarrow> runner \<Rightarrow> string list \<Rightarrow> obj list res" where
  "verify_independently x r allowlist =
     (if \<not> (x_independent x \<and> truthy (x_profile x)) then Inr []
      else bindR (eachR (\<lambda>command. assert_command_allowed command allowlist False) allowlist) (\<lambda>_.
        bindR (load_profile_commands (x_profile x)) (\<lambda>commands.
        bindR (jget (por (oget (x_request x) ''contract'') (JObj [])) ''timeout_seconds'') (\<lambda>limit.
        bindR (py_float (por limit (JInt 60))) (\<lambda>timeout.
        bindR (jget (por (oget (x_request x) ''contract'') (JObj [])) ''accessible_secrets'') (\<lambda>given.
        bindR (list_of given) (\<lambda>secrets.
        bindR (run_profile_verifications r commands allowlist timeout (map py_str secrets) False) (\<lambda>found.
          (let failed = filter (\<lambda>item. oget item ''status'' \<noteq> JStr ''passed'') found in
           if failed \<noteq> [] then verification_failure failed else Inr found)))))))))"

section \<open>The checks that the result must satisfy\<close>

definition passed_names :: "obj list \<Rightarrow> string list" where
  "passed_names checks = map (\<lambda>c. or_text (por (oget c ''reported_name'') (oget c ''canonical_id'')) [])
     (filter (\<lambda>c. text_field c ''status'' = ''passed'') checks)"

definition assert_required_checks :: "obj \<Rightarrow> obj list \<Rightarrow> obj list \<Rightarrow> unit res" where
  "assert_required_checks request checks verified_checks =
     bindR (jget (por (oget request ''contract'') (JObj [])) ''required_checks'') (\<lambda>given.
     bindR (list_of given) (\<lambda>required.
       (case resolve_required_checks (passed_names checks @ map (\<lambda>c. text_field c ''canonical_id'') verified_checks) (map py_str required) of
          (satisfied, unknown, missing) \<Rightarrow>
            if missing \<noteq> [] then fault_at ''required_checks_unsatisfied'' ''checks'' (''missing required checks: '' @ py_repr (JList (map JStr missing)))
            else Inr ())))"

definition registry_fault :: "string \<Rightarrow> string \<Rightarrow> string \<Rightarrow> check_code \<Rightarrow> 'a res" where
  "registry_fault check_id role_id procedure_id code = (case code of
     check_role_unauthorized \<Rightarrow> fault_at ''check_role_unauthorized'' ''checks'' (''role '' @ repr_str role_id @ '' is not authorized for check '' @ repr_str check_id)
   | check_procedure_mismatch \<Rightarrow> fault_at ''check_procedure_mismatch'' ''checks'' (''procedure '' @ repr_str procedure_id @ '' cannot satisfy check '' @ repr_str check_id)
   | check_evidence_type_mismatch \<Rightarrow> fault_at ''check_evidence_type_mismatch'' ''checks'' []
   | unknown_check_alias \<Rightarrow> fault_at ''unknown_check_alias'' ''checks'' (''check '' @ repr_str check_id @ '' is not registered''))"

definition can_verify_field :: "obj \<Rightarrow> string option \<Rightarrow> bool" where
  "can_verify_field configured field = (case field of None \<Rightarrow> False
     | Some f \<Rightarrow> f \<noteq> [] \<and> (truthy (oget configured f) \<or> (f = ''unit_test'' \<and> truthy (oget configured ''integration_test''))))"

definition assert_check_trusted :: "obj \<Rightarrow> obj \<Rightarrow> string list \<Rightarrow> obj \<Rightarrow> unit res" where
  "assert_check_trusted request configured verified_ids check =
     (let raw_name = or_text (por (oget check ''reported_name'') (oget check ''canonical_id'')) [];
          check_id = (case normalize_check_name raw_name of Some c \<Rightarrow> if c = [] then text_field check ''canonical_id'' else c
            | None \<Rightarrow> text_field check ''canonical_id'');
          role_id = py_str (oget request ''role_id''); procedure_id = py_str (oget request ''procedure_id'') in
      if check_id = [] then Inr ()
      else (case assert_check_authorized check_id role_id procedure_id None of
          Inl code \<Rightarrow> registry_fault check_id role_id procedure_id code
        | Inr registered \<Rightarrow>
            if independent_verification registered = Some ''diff_scope'' then Inr ()
            else if registry_blocking check_id True \<and> can_verify_field configured (independent_verification registered) \<and> check_id \<notin> set verified_ids
            then assert_blocking_check_trust (set_keys [(''canonical_id'', JStr check_id), (''blocking'', JBool True)] check) True
            else Inr ()))"

definition assert_checks :: "execution \<Rightarrow> obj \<Rightarrow> obj list \<Rightarrow> unit res" where
  "assert_checks x canonical verified_checks =
     bindR (list_of (oget canonical ''checks'')) (\<lambda>items.
     bindR (assert_required_checks (x_request x) (objects items) verified_checks) (\<lambda>_.
     bindR (load_profile_commands (por (x_profile x) (JObj []))) (\<lambda>configured.
     eachR (assert_check_trusted (x_request x) configured (map (\<lambda>c. py_str (oget c ''canonical_id'')) verified_checks)) (objects items))))"

section \<open>Judging the run of an agent\<close>

record judged =
  j_result :: obj
  j_claimed :: json
  j_paths :: "string list"
  j_artifacts :: "obj list"
  j_manifests :: "(string \<times> json) list"
  j_checks :: "obj list"

definition build_evidence_manifest :: "execution \<Rightarrow> surroundings \<Rightarrow> nat \<Rightarrow> string \<Rightarrow> obj \<Rightarrow> obj" where
  "build_evidence_manifest x s index artifact_path verified =
     [(''schema_version'', JInt SCHEMA_VERSION), (''evidence_id'', JStr (''EVD-'' @ take 12 (draw s index))), (''source'', JStr ''artifact''),
      (''trust_level'', JStr (or_text (oget verified ''trust_level'') ''framework_observed'')), (''producer'', JStr ''agent''),
      (''verifier'', JStr ''execution_gateway''), (''created_at'', JStr (time_text s)), (''content_hash'', oget verified ''observed_sha256''),
      (''command_digest'', JNull), (''artifact_path'', JStr artifact_path), (''run_id'', JStr (py_str (oget (x_request x) ''run_id''))),
      (''work_unit_id'', JStr (py_str (oget (x_request x) ''work_unit_id''))), (''execution_id'', JStr (py_str (oget (x_request x) ''execution_id''))),
      (''canonical_check_id'', JStr ''implementation'')]"

definition manifest_path :: "obj \<Rightarrow> string" where
  "manifest_path manifest = ''evidence/'' @ or_text (oget manifest ''work_unit_id'') ''_gateway'' @ ''/'' @ py_str (oget manifest ''evidence_id'') @ ''.json''"

definition manifests_of :: "execution \<Rightarrow> surroundings \<Rightarrow> (string \<times> obj) list \<Rightarrow> obj list \<Rightarrow> (string \<times> json) list" where
  "manifests_of x s named verified = map (\<lambda>(index, (p, _), v).
     (let m = build_evidence_manifest x s index p v in (manifest_path m, JObj m))) (enumerate 0 (zip named verified))"

definition agent_request :: "execution \<Rightarrow> string \<Rightarrow> obj" where
  "agent_request x place =
     (let placed = AList.update ''execution_workspace'' (JStr place) (x_request x) in
      case x_package x of None \<Rightarrow> placed | Some p \<Rightarrow> AList.update ''context_package'' (JObj p) placed)"

text \<open>
  From the start of the agent to the last check before the lease: the result, the candidate captured
  and inspected, the independent verification, and the candidate inspected again.
\<close>

definition judge_execution :: "execution \<Rightarrow> surroundings \<Rightarrow> string \<Rightarrow> judged res" where
  "judge_execution x s place =
     bindR (agent s (agent_request x place)) (\<lambda>raw.
     bindR (canonical_result (x_request x) raw) (\<lambda>canonical.
     bindR (assert_claimed_head canonical raw (tree_after s)) (\<lambda>claimed.
     bindR (inspect_candidate x (tree_before s) (tree_after s)) (\<lambda>captured.
     (let fingerprint = snapshot_workspace_fingerprint (hashed s) (tree_after s) captured in
     bindR (verify_artifacts (tree_after s) canonical) (\<lambda>_.
     bindR (allowlist_of (x_request x)) (\<lambda>allowlist.
     bindR (verify_independently x (verifier s) allowlist) (\<lambda>verified_checks.
     bindR (inspect_candidate x (tree_before s) (tree_verified s)) (\<lambda>rechecked.
     bindR (assert_fingerprint_unchanged (hashed s) (tree_verified s) fingerprint) (\<lambda>_.
     if set rechecked \<noteq> set captured then mutated ''changed path set diverged after verification''
     else
       bindR (named_artifacts canonical) (\<lambda>named.
       bindR (verify_artifacts (tree_verified s) canonical) (\<lambda>artifacts.
       bindR (assert_checks x canonical verified_checks) (\<lambda>_.
       Inr \<lparr>j_result = canonical, j_claimed = claimed, j_paths = rechecked, j_artifacts = artifacts,
         j_manifests = manifests_of x s named artifacts, j_checks = verified_checks\<rparr>)))))))))))))"

section \<open>Promotion\<close>

definition lease_of_execution :: "execution \<Rightarrow> surroundings \<Rightarrow> json res" where
  "lease_of_execution x s =
     bindR (py_int (oget (x_request x) ''epoch'')) (\<lambda>epoch.
     assert_authoritative_lease (documents s) (work_queue s) (py_str (oget (x_request x) ''run_id''))
       (py_str (oget (x_request x) ''work_unit_id'')) (py_str (oget (x_request x) ''lease_id'')) epoch (x_worker x))"

definition claim_name :: "execution \<Rightarrow> string" where
  "claim_name x = py_str (oget (x_request x) ''execution_id'') @ ''.json''"

definition claim_document :: "execution \<Rightarrow> json" where
  "claim_document x = JObj [(''execution_id'', JStr (py_str (oget (x_request x) ''execution_id''))),
     (''lease_id'', JStr (py_str (oget (x_request x) ''lease_id''))), (''epoch'', oget (x_request x) ''epoch'')]"

definition cas_promote_guard :: "execution \<Rightarrow> gw_state \<Rightarrow> gw_state res" where
  "cas_promote_guard x g =
     (if map_of (claims g) (claim_name x) \<noteq> None
      then stale ''execution_id'' ''promotion claim already held (concurrent or stale worker)''
      else Inr (g\<lparr>claims := (claim_name x, claim_document x) # claims g\<rparr>))"

text \<open>Both locks are held over the two readings of the lease and the promotion. The flag tells whether the claim is ours.\<close>

definition fence :: "execution \<Rightarrow> surroundings \<Rightarrow> gw_state \<Rightarrow> gw_state \<times> bool \<times> unit res" where
  "fence x s g =
     (if \<not> x_fenced x then (g, False, Inr ())
      else (case bindR (locks_taken s) (\<lambda>_. bindR (lease_of_execution x s) (\<lambda>_. cas_promote_guard x g)) of
          Inl e \<Rightarrow> (g, False, Inl e)
        | Inr g1 \<Rightarrow> (g1, True, bindR (lease_of_execution x s) (\<lambda>_. Inr ()))))"

definition artifact_hashes :: "obj list \<Rightarrow> (string \<times> string) list" where
  "artifact_hashes artifacts = map (\<lambda>a. (py_str (oget a ''path''), py_str (oget a ''observed_sha256'')))
     (filter (\<lambda>a. truthy (oget a ''path'') \<and> truthy (oget a ''observed_sha256'')) artifacts)"

definition commit_candidate :: "execution \<Rightarrow> surroundings \<Rightarrow> judged \<Rightarrow> string res" where
  "commit_candidate x s j =
     bindR (create_governed_commit (git_index s) (py_str (oget (x_request x) ''work_unit_id'')) (py_str (oget (x_request x) ''execution_id'')) (j_paths j)) (\<lambda>promoted.
     bindR (assert_commit_matches_candidate (tree_committed s) (blob_of s promoted) (py_str (oget (x_request x) ''base_sha'')) promoted (j_paths j)
       (artifact_hashes (j_artifacts j))) (\<lambda>_. Inr promoted))"

text \<open>The evidence files that were written, also when one was refused.\<close>

fun persist_evidence :: "(string \<times> json) list \<Rightarrow> string list \<Rightarrow> gw_state \<Rightarrow> gw_state \<times> string list \<times> unit res" where
  "persist_evidence [] written g = (g, written, Inr ())"
| "persist_evidence ((path, manifest) # rest) written g =
     (case bindR (validate_evidence_manifest manifest ''evidence'') raise_first of
        Inl e \<Rightarrow> (g, written, Inl e)
      | Inr _ \<Rightarrow> persist_evidence rest (written @ [path]) (g\<lparr>evidence_files := AList.update path manifest (evidence_files g)\<rparr>))"

definition accepted_result :: "execution \<Rightarrow> judged \<Rightarrow> string \<Rightarrow> obj" where
  "accepted_result x j promoted =
     (let workspace = set_keys [(''schema_version'', JInt SCHEMA_VERSION), (''base_sha'', JStr (py_str (oget (x_request x) ''base_sha''))),
            (''claimed_result_sha'', j_claimed j), (''observed_head_sha'', JStr promoted), (''promoted_sha'', JStr promoted),
            (''trust_level'', JStr ''framework_verified''), (''resumable'', JBool True)] (as_dict (oget (j_result j) ''workspace''));
          placed = set_keys [(''workspace'', JObj workspace), (''artifacts'', JList (map JObj (j_artifacts j)))] (j_result j);
          merged = (if j_checks j = [] then placed
            else AList.update ''checks'' (JList ((case oget placed ''checks'' of JList cs \<Rightarrow> cs | _ \<Rightarrow> []) @ map JObj (j_checks j))) placed) in
      AList.update ''status'' (JStr ''succeeded'') merged)"

definition emit :: "gw_effect \<Rightarrow> gw_state \<Rightarrow> gw_state" where
  "emit e g = g\<lparr>effects := effects g @ [e]\<rparr>"

definition execution_id_of :: "execution \<Rightarrow> string" where
  "execution_id_of x = py_str (oget (x_request x) ''execution_id'')"

text \<open>
  The handler of the source: a structured error takes the evidence and the claim back and quarantines the
  workspace; any other exception leaves as it is.
\<close>

definition handle_fault :: "execution \<Rightarrow> surroundings \<Rightarrow> bool \<Rightarrow> bool \<Rightarrow> string list \<Rightarrow> gw_state \<Rightarrow> pyexc \<Rightarrow> gw_state \<times> verdict res" where
  "handle_fault x s made claimed written g e = (case e of
     ExecutionGatewayError code message path \<Rightarrow>
       (let g1 = g\<lparr>evidence_files := fold AList.delete written (evidence_files g)\<rparr>;
            g2 = (if claimed then g1\<lparr>claims := AList.delete (claim_name x) (claims g1)\<rparr> else g1);
            g3 = (if made then emit (Quarantined (execution_id_of x) message) g2 else g2) in
        (case journalled s of
           Inl broken \<Rightarrow> (g3, Inl broken)
         | Inr _ \<Rightarrow> (emit (Journalled ''execution_rejected'' [(''execution_id'', JStr (execution_id_of x)), (''code'', JStr code)]) g3,
             Inr (Rejected code message path))))
   | _ \<Rightarrow> (g, Inl e))"

definition promote :: "execution \<Rightarrow> surroundings \<Rightarrow> judged \<Rightarrow> gw_state \<Rightarrow> gw_state \<times> verdict res" where
  "promote x s j g =
     (case fence x s g of
        (g1, claimed, Inl e) \<Rightarrow> handle_fault x s (x_ephemeral x) claimed [] g1 e
      | (g1, claimed, Inr _) \<Rightarrow> (case commit_candidate x s j of
          Inl e \<Rightarrow> handle_fault x s (x_ephemeral x) claimed [] g1 e
        | Inr promoted \<Rightarrow> (case persist_evidence (j_manifests j) [] g1 of
            (g2, written, Inl e) \<Rightarrow> handle_fault x s (x_ephemeral x) claimed written g2 e
          | (g2, written, Inr _) \<Rightarrow> (case (if x_ephemeral x then marked s else Inr ()) of
                Inl e \<Rightarrow> handle_fault x s (x_ephemeral x) claimed written g2 e
              | Inr _ \<Rightarrow>
                  (let g3 = (if x_ephemeral x then emit (Promoted (execution_id_of x) promoted) g2 else g2) in
                   (case journalled s of
                      Inl e \<Rightarrow> handle_fault x s (x_ephemeral x) claimed written g3 e
                    | Inr _ \<Rightarrow> (emit (Journalled ''execution_accepted'' [(''execution_id'', JStr (execution_id_of x)), (''promoted_sha'', JStr promoted)]) g3,
                        Inr (Accepted (accepted_result x j promoted) promoted))))))))"

definition execute :: "execution \<Rightarrow> surroundings \<Rightarrow> gw_state \<Rightarrow> gw_state \<times> verdict res" where
  "execute x s g =
     (case require_valid_request (JObj (x_request x)) of
        Inl e \<Rightarrow> (g, Inl e)
      | Inr _ \<Rightarrow>
          if (case x_package x of None \<Rightarrow> False | Some p \<Rightarrow> hash_context_package (hashed s) p \<noteq> text_field (x_request x) ''context_package_hash'')
          then (g, Inr (Rejected ''context_hash_mismatch'' ''transmitted context package hash mismatch'' ''context_package_hash''))
          else (case (if x_ephemeral x then workspace_of s else Inr (x_workspace x)) of
              Inl e \<Rightarrow> handle_fault x s False False [] g e
            | Inr place \<Rightarrow> (case judge_execution x s place of
                Inl e \<Rightarrow> handle_fault x s (x_ephemeral x) False [] g e
              | Inr j \<Rightarrow> promote x s j g)))"

end
