(* ===== verification/AgentSafety.thy ===== *)
theory AgentSafety
  imports AgentExecution
begin

text \<open>
  Properties of the cycle of a governed execution: what an accepted execution went through, that a
  rejected one leaves nothing behind, and that an execution is accepted at most once.
\<close>

section \<open>The steps behind an acceptance\<close>

lemma fault_not_accepted [simp]: "handle_fault x s made claimed written g e \<noteq> (g', Inr (Accepted r p))"
  by (cases e) (simp_all add: handle_fault_def Let_def split: sum.split)

lemma unjournalled [simp]: "journalled s = Inl broken \<Longrightarrow> handle_fault x s made claimed written g e \<noteq> (g', Inr v)"
  by (cases e) (simp_all add: handle_fault_def Let_def)

lemma promote_accepted:
  assumes "promote x s j g = (g', Inr (Accepted result promoted))"
  shows "\<exists>g1 claimed g2 written. fence x s g = (g1, claimed, Inr ()) \<and> commit_candidate x s j = Inr promoted
    \<and> persist_evidence (j_manifests j) [] g1 = (g2, written, Inr ()) \<and> result = accepted_result x j promoted \<and> claims g' = claims g2"
  using assms by (auto simp: promote_def Let_def emit_def split: prod.splits sum.splits if_splits)

lemma cycle_accepted:
  assumes "execute x s g = (g', Inr (Accepted result promoted))"
  shows "require_valid_request (JObj (x_request x)) = Inr () \<and> (\<exists>place j. judge_execution x s place = Inr j \<and> promote x s j g = (g', Inr (Accepted result promoted)))"
  using assms by (auto simp: execute_def split: sum.splits if_splits option.splits)

lemma persist_keeps_claims: "persist_evidence ms written g = (g', rest) \<Longrightarrow> claims g' = claims g \<and> effects g' = effects g"
  by (induction ms written g rule: persist_evidence.induct) (auto split: sum.splits)

lemma fence_passed:
  assumes "fence x s g = (g1, claimed, Inr ())" "x_fenced x"
  shows "claimed \<and> (\<exists>d. lease_of_execution x s = Inr d) \<and> map_of (claims g) (claim_name x) = None
    \<and> claims g1 = (claim_name x, claim_document x) # claims g"
  using assms by (auto simp: fence_def cas_promote_guard_def stale_def fault_at_def split: sum.splits if_splits)

lemma judge_steps:
  assumes "judge_execution x s place = Inr j"
  shows "\<exists>raw claimed captured. canonical_result (x_request x) raw = Inr (j_result j)
      \<and> assert_claimed_head (j_result j) raw (tree_after s) = Inr claimed
      \<and> inspect_candidate x (tree_before s) (tree_after s) = Inr captured
      \<and> inspect_candidate x (tree_before s) (tree_verified s) = Inr (j_paths j) \<and> set (j_paths j) = set captured
      \<and> assert_fingerprint_unchanged (hashed s) (tree_verified s) (snapshot_workspace_fingerprint (hashed s) (tree_after s) captured) = Inr ()
      \<and> verify_artifacts (tree_verified s) (j_result j) = Inr (j_artifacts j)
      \<and> assert_checks x (j_result j) (j_checks j) = Inr ()"
  using assms by (auto simp: judge_execution_def Let_def mutated_def fault_at_def split: if_splits)

lemma canonical_steps:
  assumes "canonical_result request raw = Inr canonical"
  shows "\<exists>adapted. adapt raw request = Inr adapted \<and> canonical = with_defaults request adapted \<and> require_valid_result (JObj canonical) = Inr ()"
    "text_field canonical ''status'' = ''succeeded''"
    "\<exists>allowlist commands. allowlist_of request = Inr allowlist \<and> list_of (oget canonical ''requested_commands'') = Inr commands
       \<and> assert_requested_commands_allowed commands allowlist = Inr ()"
  using assms by (auto simp: canonical_result_def Let_def assert_agent_status_promotable_def)

lemma set_defaults_keeps: "ohas ob k \<Longrightarrow> oget (set_defaults ds ob) k = oget ob k"
proof (induction ds arbitrary: ob)
  case (Cons d ds)
  have "ohas (osetdefault (fst d) (snd d) ob) k" "oget (osetdefault (fst d) (snd d) ob) k = oget ob k"
    using Cons.prems by (auto simp: osetdefault_def ohas_def oget_def map_add_def split: option.splits)
  then show ?case using Cons.IH by (cases d) simp
qed simp

section \<open>What changed and what did not\<close>

lemma changed_entries_Nil: "changed_entries before current = [] \<longleftrightarrow> map_of before = map_of current"
proof
  assume "changed_entries before current = []"
  then have out: "p \<notin> fst ` set before \<Longrightarrow> p \<notin> fst ` set current" and gone: "p \<notin> fst ` set current \<Longrightarrow> p \<notin> fst ` set before"
    and same: "map_of before p \<noteq> None \<Longrightarrow> p \<in> fst ` set current \<Longrightarrow> map_of current p = map_of before p" for p
    by (auto simp: changed_entries_def filter_empty_conv map_of_eq_None_iff)
  show "map_of before = map_of current"
  proof
    fix p
    show "map_of before p = map_of current p"
      by (cases "p \<in> fst ` set current") (metis out gone same map_of_eq_None_iff)+
  qed
next
  assume "map_of before = map_of current"
  then show "changed_entries before current = []"
    by (auto simp: changed_entries_def filter_empty_conv map_of_eq_None_iff) (metis map_of_eq_None_iff image_eqI fst_conv)+
qed

lemma path_checks:
  "assert_not_control_plane p = Inr u \<Longrightarrow> \<not> is_forbidden_governance_mutation p"
  "assert_relative_workspace_path f p = Inr u \<Longrightarrow> \<not> f (slashed p)"
  by (auto simp: assert_not_control_plane_def assert_relative_workspace_path_def path_fault_def Let_def split: if_splits)

lemma inspected:
  assumes "inspect_candidate x before t = Inr changed"
  shows "map_of (control_plane before) = map_of (control_plane t)" "inspect_changed_paths t (py_str (oget (x_request x) ''base_sha'')) = Inr changed"
    "\<forall>p \<in> set changed. \<not> is_forbidden_governance_mutation p \<and> \<not> outside t (slashed p)"
    "boundary_error_for_changed_files changed (py_str (oget (x_request x) ''work_unit_id'')) (x_work_unit x) (map JStr (x_grant_paths x))
       (map_option (map JStr) (x_role_paths x)) = Inr None"
proof -
  have "changed_entries (control_plane before) (control_plane t) = []"
    using assms by (auto simp: inspect_candidate_def assert_no_new_control_plane_paths_def fault_at_def split: list.splits)
  then show "map_of (control_plane before) = map_of (control_plane t)" by (simp add: changed_entries_Nil)
  show "inspect_changed_paths t (py_str (oget (x_request x) ''base_sha'')) = Inr changed"
    using assms by (auto simp: inspect_candidate_def)
  show "\<forall>p \<in> set changed. \<not> is_forbidden_governance_mutation p \<and> \<not> outside t (slashed p)"
    using assms path_checks by (auto simp: inspect_candidate_def validate_paths_against_scope_def)
  show "boundary_error_for_changed_files changed (py_str (oget (x_request x) ''work_unit_id'')) (x_work_unit x) (map JStr (x_grant_paths x))
       (map_option (map JStr) (x_role_paths x)) = Inr None"
    using assms by (auto simp: inspect_candidate_def validate_paths_against_scope_def fault_at_def split: option.splits) (metis not_None_eq surj_pair)
qed

lemma committed:
  assumes "commit_candidate x s j = Inr promoted"
  shows "\<exists>cs. changed_files (tree_committed s) (py_str (oget (x_request x) ''base_sha'')) promoted = Inr cs
      \<and> set cs = replace_char backslash (CHR ''/'') ` set (j_paths j)"
    "(p, h) \<in> set (artifact_hashes (j_artifacts j)) \<Longrightarrow> blob_of s promoted p = Some h"
proof -
  obtain cs where cs: "changed_files (tree_committed s) (py_str (oget (x_request x) ''base_sha'')) promoted = Inr cs"
    and rest: "(if set cs \<noteq> set (map (replace_char backslash (CHR ''/'')) (j_paths j))
       then mismatch ''promoted commit diff does not equal the validated candidate''
       else eachR (\<lambda>(path, expected). case blob_of s promoted path of
           None \<Rightarrow> mismatch (''verified artifact is absent from commit: '' @ path)
         | Some observed \<Rightarrow> if observed \<noteq> expected then mismatch (''committed artifact hash diverges for '' @ path) else Inr ()) (artifact_hashes (j_artifacts j))) = Inr ()"
    using assms by (auto simp: commit_candidate_def assert_commit_matches_candidate_def)
  have same: "set cs = set (map (replace_char backslash (CHR ''/'')) (j_paths j))"
    using rest by (auto simp: mismatch_def fault_at_def split: if_splits)
  then show "\<exists>cs. changed_files (tree_committed s) (py_str (oget (x_request x) ''base_sha'')) promoted = Inr cs
      \<and> set cs = replace_char backslash (CHR ''/'') ` set (j_paths j)" using cs by auto
  assume "(p, h) \<in> set (artifact_hashes (j_artifacts j))"
  then have "(case blob_of s promoted p of None \<Rightarrow> mismatch (''verified artifact is absent from commit: '' @ p)
         | Some observed \<Rightarrow> if observed \<noteq> h then mismatch (''committed artifact hash diverges for '' @ p) else Inr ()) = Inr ()"
    using rest same by auto
  then show "blob_of s promoted p = Some h" by (auto simp: mismatch_def fault_at_def split: option.splits if_splits)
qed

text \<open>An unchanged fingerprint is the one of the same files before the verification.\<close>

lemma set_keys_fresh: "distinct (map fst (acc @ kvs)) \<Longrightarrow> set_keys kvs acc = acc @ kvs"
  by (induction kvs arbitrary: acc) (auto simp: update_fresh)

lemma set_keys_of_function:
  "\<exists>ks. distinct ks \<and> set ks = fst ` set acc \<union> set fs \<and> set_keys (map (\<lambda>p. (p, f p)) fs) acc = map (\<lambda>p. (p, f p)) ks"
  if "distinct (map fst acc)" "acc = map (\<lambda>p. (p, f p)) (map fst acc)" for acc
  using that
proof (induction fs arbitrary: acc)
  case (Cons p fs)
  let ?acc = "AList.update p (f p) acc"
  have "?acc = (if p \<in> fst ` set acc then acc else acc @ [(p, f p)])"
    using Cons.prems(2) by (induction acc) auto
  then have "distinct (map fst ?acc)" "?acc = map (\<lambda>p. (p, f p)) (map fst ?acc)" "fst ` set ?acc = insert p (fst ` set acc)"
    using Cons.prems by auto
  from Cons.IH [OF this(1,2)] this(3) show ?case by auto
next
  case Nil
  then show ?case by (intro exI [of _ "map fst acc"]) simp
qed

lemma unchanged_fingerprint:
  assumes "assert_fingerprint_unchanged h t (snapshot_workspace_fingerprint h t0 fs) = Inr ()"
  shows "\<exists>ks. distinct ks \<and> set ks = set fs \<and> snd (snapshot_workspace_fingerprint h t ks) = snd (snapshot_workspace_fingerprint h t0 ks)"
proof -
  obtain ks where ks: "distinct ks" "set ks = set fs" "set_keys (map (\<lambda>p. (p, entry t0 p)) fs) [] = map (\<lambda>p. (p, entry t0 p)) ks"
    using set_keys_of_function [of "[]" "entry t0" fs] by auto
  obtain ks' where ks': "distinct ks'" "set_keys (map (\<lambda>p. (p, entry t0 p)) ks) [] = map (\<lambda>p. (p, entry t0 p)) ks'"
    using set_keys_of_function [of "[]" "entry t0" ks] by auto
  have "map fst (set_keys (map (\<lambda>p. (p, entry t0 p)) ks) []) = map fst (map (\<lambda>p. (p, entry t0 p)) ks)"
    using ks(1) set_keys_fresh [of "[]" "map (\<lambda>p. (p, entry t0 p)) ks"] by (simp add: comp_def)
  then have "ks' = ks" unfolding ks'(2) by (simp add: comp_def)
  then have "snd (snapshot_workspace_fingerprint h t0 ks) = snd (snapshot_workspace_fingerprint h t0 fs)"
    unfolding snapshot_workspace_fingerprint_def Let_def ks(3) ks'(2) by simp
  moreover have "map fst (fst (snapshot_workspace_fingerprint h t0 fs)) = ks"
    by (simp add: snapshot_workspace_fingerprint_def Let_def ks(3) comp_def)
  ultimately show ?thesis
    using assms ks(1,2) by (auto simp: assert_fingerprint_unchanged_def Let_def mutated_def fault_at_def split: if_splits)
qed

section \<open>The result of an acceptance\<close>

lemma accepted_field:
  assumes "field \<notin> {''workspace'', ''artifacts'', ''checks'', ''status''}"
  shows "oget (accepted_result x j promoted) field = oget (j_result j) field"
  using assms by (auto simp: accepted_result_def Let_def)

lemma valid_has_field: "require_valid_result (JObj result) = Inr () \<Longrightarrow> field \<in> set RESULT_FIELDS \<Longrightarrow> ohas result field"
  using valid_result_parts(1) by (auto simp: result_head_faults_def list_all_iff)

lemma adapted_identity:
  "require_valid_request (JObj request) = Inr () \<Longrightarrow> adapt raw request = Inr result \<Longrightarrow> field \<in> set IDENTITY_FIELDS
     \<Longrightarrow> oget result field = oget request field \<and> ohas result field"
proof -
  assume a: "require_valid_request (JObj request) = Inr ()" "adapt raw request = Inr result" "field \<in> set IDENTITY_FIELDS"
  have set_: "\<not> blank (oget request field)"
    using request_ids [OF a(1)] a(3) by (auto simp: IDENTITY_FIELDS_def ID_FIELDS_def blank_def valid_id_def strip_def)
  then have "oget result field = oget request field" using adapted_forced [OF a(2)] forced_field a(3) by blast
  moreover from this set_ have "ohas result field" by (auto simp: blank_def oget_def ohas_def split: option.splits)
  ultimately show ?thesis by simp
qed

lemma judged_identity:
  assumes "require_valid_request (JObj (x_request x)) = Inr ()" "judge_execution x s place = Inr j" "field \<in> set IDENTITY_FIELDS"
  shows "oget (j_result j) field = oget (x_request x) field"
proof -
  obtain raw where "canonical_result (x_request x) raw = Inr (j_result j)" using judge_steps [OF assms(2)] by blast
  then obtain adapted where a: "adapt raw (x_request x) = Inr adapted" "j_result j = with_defaults (x_request x) adapted"
    using canonical_steps(1) by blast
  note f = adapted_identity [OF assms(1) a(1) assms(3)]
  then show ?thesis unfolding a(2) with_defaults_def by (simp add: set_defaults_keeps del: set_defaults_Cons)
qed

text \<open>What stands on the allowlist, as a command of the result must.\<close>

definition command_listed :: "string list \<Rightarrow> json \<Rightarrow> bool" where
  "command_listed allowlist item = (\<exists>index command. requested_command index item = Inr command
     \<and> (\<exists>entry \<in> set allowlist. strip entry = strip command) \<and> \<not> has_shell_operators (strip command))"

lemma listed_commands:
  assumes "assert_requested_commands_allowed commands allowlist = Inr ()" "item \<in> set commands"
  shows "command_listed allowlist item"
proof -
  obtain index where "(index, item) \<in> set (enumerate 0 commands)" using enumerate_item [OF assms(2)] by blast
  then obtain command where "requested_command index item = Inr command" "assert_command_allowed command allowlist False = Inr ()"
    using assms(1) unfolding assert_requested_commands_allowed_def eachR_eq_Inr by fastforce
  then show ?thesis using allowed_on_list [where opted = False and command = command and allowlist = allowlist] unfolding command_listed_def by blast
qed

lemma judged_commands:
  assumes "judge_execution x s place = Inr j"
  shows "\<exists>allowlist commands. allowlist_of (x_request x) = Inr allowlist
    \<and> list_of (oget (j_result j) ''requested_commands'') = Inr commands \<and> list_all (command_listed allowlist) commands"
proof -
  obtain raw where "canonical_result (x_request x) raw = Inr (j_result j)" using judge_steps [OF assms] by blast
  from canonical_steps(3) [OF this] show ?thesis using listed_commands unfolding list_all_iff by blast
qed

section \<open>Claims and evidence\<close>

lemma delete_absent: "map_of xs k = None \<Longrightarrow> AList.delete k xs = xs"
  by (induction xs) (auto split: if_splits)

lemma fence_claims:
  assumes "fence x s g = (g1, claimed, r)"
  shows "evidence_files g1 = evidence_files g \<and> effects g1 = effects g \<and> (if claimed then map_of (claims g) (claim_name x) = None
      \<and> claims g1 = (claim_name x, claim_document x) # claims g else g1 = g)"
  using assms by (auto simp: fence_def cas_promote_guard_def stale_def fault_at_def split: sum.splits if_splits)

lemma persist_evidence_keys:
  "persist_evidence ms w g = (g', w', r) \<Longrightarrow> \<exists>ps. w' = w @ ps \<and> set ps \<subseteq> fst ` set ms
     \<and> (\<forall>k. k \<notin> set ps \<longrightarrow> map_of (evidence_files g') k = map_of (evidence_files g) k)"
proof (induction ms w g arbitrary: g' w' r rule: persist_evidence.induct)
  case (2 path manifest rest written g)
  show ?case
  proof (cases "bindR (validate_evidence_manifest manifest ''evidence'') raise_first")
    case (Inr u)
    then obtain ps where "w' = (written @ [path]) @ ps" "set ps \<subseteq> fst ` set rest"
        "\<forall>k. k \<notin> set ps \<longrightarrow> map_of (evidence_files g') k = (if k = path then Some manifest else map_of (evidence_files g) k)"
      using 2 by (fastforce split: sum.splits)
    then show ?thesis by (intro exI [of _ "path # ps"]) auto
  qed (use 2(2) in auto)
qed auto

lemma map_of_fold_delete: "map_of (fold AList.delete ks xs) k = (if k \<in> set ks then None else map_of xs k)"
  by (induction ks arbitrary: xs) auto

text \<open>A promotion that is not accepted, and was not interrupted, takes back what it wrote.\<close>

definition is_promotion :: "gw_effect \<Rightarrow> bool" where
  "is_promotion e = (case e of Promoted _ _ \<Rightarrow> True | _ \<Rightarrow> False)"

lemma fault_rejects:
  assumes "handle_fault x s made claimed written g1 e = (g', Inr (Rejected code message path))"
    "claimed \<Longrightarrow> map_of cs (claim_name x) = None \<and> claims g1 = (claim_name x, claim_document x) # cs" "\<not> claimed \<Longrightarrow> claims g1 = cs"
  shows "claims g' = cs \<and> map_of (evidence_files g') = (\<lambda>k. if k \<in> set written then None else map_of (evidence_files g1) k)
    \<and> (\<exists>es. effects g' = effects g1 @ es \<and> list_all (\<lambda>e. \<not> is_promotion e) es)"
  using assms by (cases e) (auto simp: handle_fault_def Let_def emit_def map_of_fold_delete delete_absent is_promotion_def fun_eq_iff split: sum.splits)

lemma promote_rejects:
  assumes "promote x s j g = (g', Inr (Rejected code message path))" "\<forall>p \<in> fst ` set (j_manifests j). map_of (evidence_files g) p = None"
  shows "claims g' = claims g \<and> map_of (evidence_files g') = map_of (evidence_files g)
    \<and> (\<exists>es. effects g' = effects g @ es \<and> list_all (\<lambda>e. \<not> is_promotion e) es)"
proof -
  obtain g1 claimed r where f: "fence x s g = (g1, claimed, r)" by (metis prod_cases3)
  note fc = fence_claims [OF f]
  have held: "claimed \<Longrightarrow> map_of (claims g) (claim_name x) = None \<and> claims g1 = (claim_name x, claim_document x) # claims g"
    "\<not> claimed \<Longrightarrow> claims g1 = claims g" using fc by auto
  obtain g2 written r2 where p: "persist_evidence (j_manifests j) [] g1 = (g2, written, r2)" by (metis prod_cases3)
  obtain ps where ps: "written = ps" "set ps \<subseteq> fst ` set (j_manifests j)"
      "\<forall>k. k \<notin> set ps \<longrightarrow> map_of (evidence_files g2) k = map_of (evidence_files g1) k"
    using persist_evidence_keys [OF p] by auto
  have back_: "map_of (evidence_files g) = (\<lambda>k. if k \<in> set written then None else map_of (evidence_files g2) k)"
    using ps assms(2) fc by fastforce
  have c2: "claims g2 = claims g1" "effects g2 = effects g1" using persist_keeps_claims [OF p] by simp_all
  show ?thesis
  proof (cases "\<exists>e. r = Inl e \<or> commit_candidate x s j = Inl e")
    case True
    then obtain e where "handle_fault x s (x_ephemeral x) claimed [] g1 e = (g', Inr (Rejected code message path))"
      using assms(1) f by (auto simp: promote_def split: sum.splits)
    from fault_rejects [OF this held] show ?thesis using fc by simp
  next
    case False
    then obtain u promoted where ok: "r = Inr u" "commit_candidate x s j = Inr promoted" by (metis sum.exhaust)
    then obtain e where fault: "handle_fault x s (x_ephemeral x) claimed written g2 e = (g', Inr (Rejected code message path))"
      using assms(1) f p by (auto simp: promote_def Let_def split: sum.splits if_splits)
    from fault_rejects [OF fault, of "claims g"] held c2 show ?thesis unfolding back_ using fc by (cases claimed) simp_all
  qed
qed

lemma cycle_rejects:
  assumes "execute x s g = (g', Inr (Rejected code message path))"
    "\<And>place j. judge_execution x s place = Inr j \<Longrightarrow> \<forall>p \<in> fst ` set (j_manifests j). map_of (evidence_files g) p = None"
  shows "claims g' = claims g \<and> map_of (evidence_files g') = map_of (evidence_files g)
    \<and> (\<exists>es. effects g' = effects g @ es \<and> list_all (\<lambda>e. \<not> is_promotion e) es)"
proof (cases "\<exists>place j. judge_execution x s place = Inr j \<and> promote x s j g = (g', Inr (Rejected code message path))")
  case True
  then obtain place j where "judge_execution x s place = Inr j" "promote x s j g = (g', Inr (Rejected code message path))" by blast
  from promote_rejects [OF this(2) assms(2) [OF this(1)]] show ?thesis .
next
  case False
  then have "g' = g \<or> (\<exists>made e. handle_fault x s made False [] g e = (g', Inr (Rejected code message path)))"
    using assms(1) by (auto simp: execute_def split: sum.splits if_splits option.splits)
  then show ?thesis
  proof
    assume "\<exists>made e. handle_fault x s made False [] g e = (g', Inr (Rejected code message path))"
    then obtain made e where "handle_fault x s made False [] g e = (g', Inr (Rejected code message path))" by blast
    from fault_rejects [OF this, of "claims g"] show ?thesis by simp
  qed simp
qed

text \<open>Whatever happens, the claims that were there stay, and at most the one of the execution is added.\<close>

lemma fault_claims:
  assumes "handle_fault x s made claimed written g1 e = (g', v)"
    "claimed \<Longrightarrow> map_of cs (claim_name x) = None \<and> claims g1 = (claim_name x, claim_document x) # cs" "\<not> claimed \<Longrightarrow> claims g1 = cs"
  shows "claims g' = cs \<or> claims g' = claims g1"
  using assms by (cases e) (auto simp: handle_fault_def Let_def emit_def delete_absent split: if_splits sum.splits)

lemma promote_claims:
  assumes "promote x s j g = (g', v)"
  shows "claims g' = claims g \<or> claims g' = (claim_name x, claim_document x) # claims g"
proof -
  obtain g1 claimed r where f: "fence x s g = (g1, claimed, r)" by (metis prod_cases3)
  note fc = fence_claims [OF f]
  obtain g2 written r2 where p: "persist_evidence (j_manifests j) [] g1 = (g2, written, r2)" by (metis prod_cases3)
  have c2: "claims g2 = claims g1" using persist_keeps_claims [OF p] by simp
  have held: "claims g1 = claims g \<or> claims g1 = (claim_name x, claim_document x) # claims g" using fc by (cases claimed) auto
  have "claims g' = claims g1 \<or> (\<exists>g0 w e. claims g0 = claims g1 \<and> handle_fault x s (x_ephemeral x) claimed w g0 e = (g', v))"
    using assms f p c2 by (auto simp: promote_def Let_def emit_def split: sum.splits if_splits)
  then show ?thesis
  proof
    assume "\<exists>g0 w e. claims g0 = claims g1 \<and> handle_fault x s (x_ephemeral x) claimed w g0 e = (g', v)"
    then obtain g0 w e where "claims g0 = claims g1" "handle_fault x s (x_ephemeral x) claimed w g0 e = (g', v)" by blast
    from fault_claims [OF this(2), of "claims g"] this(1) show ?thesis using fc held by (cases claimed) auto
  qed (use held in simp)
qed

lemma execute_claims:
  assumes "execute x s g = (g', v)"
  shows "claims g' = claims g \<or> claims g' = (claim_name x, claim_document x) # claims g"
proof (cases "\<exists>place j. judge_execution x s place = Inr j \<and> promote x s j g = (g', v)")
  case False
  then have "g' = g \<or> (\<exists>made e. handle_fault x s made False [] g e = (g', v))"
    using assms by (auto simp: execute_def split: sum.splits if_splits option.splits)
  then show ?thesis using fault_claims [of x s _ False "[]" g _ g' v "claims g"] by auto
qed (use promote_claims in blast)

fun run_all :: "(execution \<times> surroundings) list \<Rightarrow> gw_state \<Rightarrow> gw_state \<times> verdict res list" where
  "run_all [] g = (g, [])"
| "run_all ((x, s) # runs) g =
     (let (g1, v) = execute x s g; (g2, vs) = run_all runs g1 in (g2, v # vs))"

definition is_accepted :: "verdict res \<Rightarrow> bool" where
  "is_accepted v = (case v of Inr (Accepted _ _) \<Rightarrow> True | _ \<Rightarrow> False)"

definition accepted_ids :: "(execution \<times> surroundings) list \<Rightarrow> verdict res list \<Rightarrow> string list" where
  "accepted_ids runs vs = map (\<lambda>((x, s), v). execution_id_of x) (filter (\<lambda>(_, v). is_accepted v) (zip runs vs))"

lemma accepted_once:
  assumes "list_all (\<lambda>(x, s). x_fenced x) runs" "run_all runs g = (g', vs)"
  shows "distinct (accepted_ids runs vs) \<and> (\<forall>i \<in> set (accepted_ids runs vs). map_of (claims g) (i @ ''.json'') = None)"
  using assms
proof (induction runs arbitrary: g vs)
  case (Cons run runs)
  obtain x s where run: "run = (x, s)" by (cases run)
  obtain g1 v where ex: "execute x s g = (g1, v)" by (cases "execute x s g")
  obtain vs1 where rest: "run_all runs g1 = (g', vs1)" "vs = v # vs1"
    using Cons.prems(2) run ex by (auto simp: Let_def split: prod.splits)
  have fenced: "x_fenced x" "list_all (\<lambda>(x, s). x_fenced x) runs" using Cons.prems(1) run by simp_all
  note ih = Cons.IH [OF fenced(2) rest(1)]
  have later: "map_of (claims g) n = None" if "map_of (claims g1) n = None" for n
    using execute_claims [OF ex] that by (auto split: if_splits)
  show ?case
  proof (cases "is_accepted v")
    case True
    then obtain result promoted where v: "v = Inr (Accepted result promoted)"
      by (auto simp: is_accepted_def split: sum.splits verdict.splits)
    obtain place j where "promote x s j g = (g1, Inr (Accepted result promoted))"
      using cycle_accepted ex v by blast
    from promote_accepted [OF this] obtain h1 claimed h2 written where
      h: "fence x s g = (h1, claimed, Inr ())" "persist_evidence (j_manifests j) [] h1 = (h2, written, Inr ())" "claims g1 = claims h2"
      by blast
    have "map_of (claims g) (claim_name x) = None" "claims g1 = (claim_name x, claim_document x) # claims g"
      using fence_passed [OF h(1) fenced(1)] persist_keeps_claims [OF h(2)] h(3) by auto
    moreover have "claim_name x = execution_id_of x @ ''.json''" by (simp add: claim_name_def execution_id_of_def)
    ultimately show ?thesis using ih later True by (auto simp: accepted_ids_def run rest(2)) force+
  next
    case False
    then show ?thesis using ih later by (auto simp: accepted_ids_def run rest(2))
  qed
qed (simp add: accepted_ids_def)

section \<open>The lease behind a promotion\<close>

lemma lease_superseded:
  assumes "map_of (documents s) (lease_path (JStr (py_str (oget (x_request x) ''lease_id'')))) = Some f"
    "map_of (documents s) (run_path (JStr (py_str (oget (x_request x) ''run_id'')))) = Some (Doc (JObj run))"
    "oget run ''leases_by_work_unit'' = JObj leases" "oget leases (py_str (oget (x_request x) ''work_unit_id'')) = JObj held"
    "truthy (oget held ''lease_id'')" "oget held ''lease_id'' \<noteq> JStr (py_str (oget (x_request x) ''lease_id''))"
  shows "lease_of_execution x s \<noteq> Inr d"
proof -
  have run_ne: "por (JObj run) (JObj []) = JObj run" "por (JObj leases) (JObj []) = JObj leases" "por (JObj held) (JObj []) = JObj held"
    using assms(3-5) by (auto simp: por_def oget_def)
  have "assert_run_lease (documents s) (py_str (oget (x_request x) ''run_id'')) (py_str (oget (x_request x) ''work_unit_id''))
      (py_str (oget (x_request x) ''lease_id'')) epoch \<noteq> Inr ()" for epoch
    using assms run_ne by (simp add: assert_run_lease_def is_file_def read_yaml_def stale_def fault_at_def)
  then show ?thesis
    using assms(1) by (auto simp: lease_of_execution_def assert_authoritative_lease_def is_file_def stale_def fault_at_def split: sum.splits json.splits)
qed

section \<open>An execution\<close>

definition trial_request :: obj where
  "trial_request = sample_request"

definition trial_tree :: tree where
  "trial_tree = \<lparr>control_plane = [(''.ai-team/state.yaml'', ''file:1'')], head_sha = Inr (replicate 40 (CHR ''a'')),
     uncommitted = Inr [''src/app/main.py''], changed_files = (\<lambda>_ _. Inr [''src/app/main.py'']), children = (\<lambda>_. None),
     entry = (\<lambda>_. JNull), outside = (\<lambda>_. False), present = (\<lambda>_. True), link_outside = (\<lambda>_. None), artifact_file = (\<lambda>_. None)\<rparr>"

definition trial_index :: index where
  "trial_index = \<lparr>ignored_by_git = Inr [], add_paths = (\<lambda>_ _. Inr ()), staged_names = Inr, unstage = (\<lambda>_. Inr ()),
     commit_staged = (\<lambda>_. Inr (replicate 40 (CHR ''b''))), unchanged_head = Inr (replicate 40 (CHR ''a''))\<rparr>"

definition trial_store :: "string \<Rightarrow> store" where
  "trial_store holder = [(''runs/leases/L-1.yaml'', Doc (JObj [(''status'', JStr ''active''), (''epoch'', JInt 2)])),
     (''runs/RUN-1.yaml'', Doc (JObj [(''leases_by_work_unit'', JObj [(''WU-1'', JObj [(''lease_id'', JStr holder), (''epoch'', JInt 2)])])]))]"

definition trial_surroundings :: "string \<Rightarrow> index \<Rightarrow> surroundings" where
  "trial_surroundings holder g = \<lparr>agent = (\<lambda>_. Inr (JObj [(''status'', JStr ''succeeded''), (''summary'', JStr ''done''),
       (''requested_commands'', JList [JStr ''pytest''])])),
     workspace_of = Inr ''/w'', tree_before = trial_tree, tree_after = trial_tree, tree_verified = trial_tree, tree_committed = trial_tree,
     blob_of = (\<lambda>_ _. None), git_index = g,
     verifier = \<lparr>interpreter = [], environment = [], process = (\<lambda>_ _ _. Exited 0 [] []), duration_ms = 0, digest = id\<rparr>,
     locks_taken = Inr (), marked = Inr (), journalled = Inr (), documents = trial_store holder, work_queue = \<lparr>q_items = [], q_dead = []\<rparr>, hashed = id, draw = (\<lambda>_. ''abc''), time_text = ''t''\<rparr>"

definition trial_execution :: execution where
  "trial_execution = \<lparr>x_request = trial_request,
     x_work_unit = JObj [(''id'', JStr ''WU-1''), (''scope'', JObj [(''include'', JList [JStr ''src/**'']), (''exclude'', JList [])])],
     x_grant_paths = [''src/**''], x_role_paths = None, x_profile = JNull, x_package = None, x_workspace = [], x_ephemeral = True,
     x_independent = True, x_fenced = True, x_worker = None\<rparr>"

definition no_claims :: gw_state where
  "no_claims = \<lparr>claims = [], evidence_files = [], effects = []\<rparr>"

definition broken_index :: index where
  "broken_index = trial_index\<lparr>commit_staged := (\<lambda>_. Inl (GitWorkspaceError ''index.lock''))\<rparr>"

definition trial_raw :: json where
  "trial_raw = JObj [(''status'', JStr ''succeeded''), (''summary'', JStr ''done''), (''requested_commands'', JList [JStr ''pytest''])]"

definition trial_canonical :: obj where
  "trial_canonical = [(''schema_version'', JInt 1), (''execution_id'', JStr ''EX-1''), (''run_id'', JStr ''RUN-1''), (''work_unit_id'', JStr ''WU-1''),
    (''lease_id'', JStr ''L-1''), (''epoch'', JInt 2), (''role_id'', JStr ''qa-test''), (''procedure_id'', JStr ''webapp-testing''),
    (''status'', JStr ''succeeded''), (''summary'', JStr ''done''), (''checks'', JList []), (''artifacts'', JList []),
    (''requested_commands'', JList [JStr ''pytest'']), (''limitations'', JList []),
    (''workspace'', JObj [(''schema_version'', JInt 1), (''base_sha'', JStr (replicate 40 (CHR ''a''))), (''claimed_result_sha'', JNull),
      (''observed_head_sha'', JNull), (''promoted_sha'', JNull), (''trust_level'', JStr ''agent_reported''), (''resumable'', JBool False)]),
    (''usage'', JObj []), (''provider_metadata'', JObj []), (''context_package_hash'', JStr (''sha256:'' @ replicate 64 (CHR ''0''))), (''errors'', JList [])]"

lemmas trial_data = trial_raw_def trial_request_def sample_request_def trial_canonical_def

lemma trial_rebuilt: "rebuild_legacy [(''status'', JStr ''succeeded''), (''summary'', JStr ''done''), (''requested_commands'', JList [JStr ''pytest''])] trial_request = Inr trial_canonical"
  by (simp add: rebuild_legacy_def trial_data list_of_def por_def or_text_def objects_def as_dict_def dict_of_def legacy_workspace_def List.map_filter_simps SCHEMA_VERSION_def)

lemma trial_identity: "validate_identity trial_canonical trial_request = Inr trial_canonical"
  by (simp add: validate_identity_def IDENTITY_FIELDS_def check_identity_def identity_epoch_def force_identity_def blank_def trial_data SCHEMA_VERSION_def)

lemma trial_adapted: "adapt trial_raw trial_request = Inr trial_canonical"
  using trial_rebuilt trial_identity by (simp add: adapt_def trial_raw_def is_canonical_def check_raw_identity_def IDENTITY_FIELDS_def)

lemma trial_defaults: "with_defaults trial_request trial_canonical = trial_canonical" by (simp add: with_defaults_def trial_canonical_def osetdefault_def)

lemma trial_valid: "require_valid_result (JObj trial_canonical) = Inr ()" by code_simp

lemma trial_matches: "assert_identity_match trial_request trial_canonical = Inr ()" by (simp add: assert_identity_match_def identity_of_def trial_data)

lemma trial_commands: "assert_requested_commands_allowed [JStr ''pytest''] [''pytest''] = Inr ()" by code_simp

lemma trial_allowlist: "allowlist_of trial_request = Inr [''pytest'']"  by (simp add: allowlist_of_def trial_request_def sample_request_def list_of_def por_def)

lemma trial_canonical_result: "canonical_result trial_request trial_raw = Inr trial_canonical"
proof -
  have "oget trial_request ''epoch'' = JInt 2" "oget trial_canonical ''epoch'' = JInt 2" "jget trial_raw ''context_package_hash'' = Inr JNull"
    "text_field trial_canonical ''status'' = ''succeeded''" "list_of (oget trial_canonical ''requested_commands'') = Inr [JStr ''pytest'']"
    by (simp_all add: trial_data text_field_def or_text_def por_def list_of_def)
  moreover have "assert_context_hash (por (oget trial_canonical ''context_package_hash'') JNull) (text_field trial_request ''context_package_hash'') = Inr ()"
    by (simp add: assert_context_hash_def trial_data por_def text_field_def or_text_def)
  moreover have "assert_epoch_fencing (JInt 2) (JInt 2) = Inr ()" by (simp add: assert_epoch_fencing_def)
  ultimately show ?thesis by (simp add: canonical_result_def trial_adapted trial_defaults trial_valid trial_matches trial_commands trial_allowlist assert_agent_status_promotable_def)
qed

lemma trial_claimed: "assert_claimed_head trial_canonical trial_raw trial_tree = Inr JNull"
  by (simp add: assert_claimed_head_def observed_head_def claimed_sha_def trial_canonical_def trial_raw_def trial_tree_def por_def)

lemma trial_artifacts: "verify_artifacts trial_tree trial_canonical = Inr []"  by (simp add: verify_artifacts_def named_artifacts_def trial_canonical_def list_of_def por_def objects_def)

lemma trial_named: "named_artifacts trial_canonical = Inr []"  by (simp add: verify_artifacts_def named_artifacts_def trial_canonical_def list_of_def por_def objects_def)

lemma trial_checks: "assert_checks trial_execution trial_canonical [] = Inr ()"
  by (simp add: assert_checks_def trial_canonical_def list_of_def por_def assert_required_checks_def objects_def trial_execution_def trial_request_def sample_request_def 
   resolve_required_checks_def passed_names_def load_profile_commands_def PROFILE_COMMAND_FIELDS_def List.map_filter_simps)

lemma trial_changed: "inspect_changed_paths trial_tree (replicate 40 (CHR ''a'')) = Inr [''src/app/main.py'']"
proof -
  have "uncommitted trial_tree = Inr [''src/app/main.py'']" by (simp add: trial_tree_def)
  moreover have "committed_since trial_tree (replicate 40 (CHR ''a'')) = Inr []" by code_simp
  moreover have "sorted_strs [''src/app/main.py''] = [''src/app/main.py'']" by code_simp
  moreover have "inspect_path trial_tree ''src/app/main.py'' [] = [''src/app/main.py'']" by code_simp
  ultimately show ?thesis by (simp add: inspect_changed_paths_def)
qed

lemma trial_inspected: "inspect_candidate trial_execution trial_tree trial_tree = Inr [''src/app/main.py'']"
proof -
  have "assert_no_new_control_plane_paths trial_tree (control_plane trial_tree) = Inr ()" by code_simp
  moreover have "validate_paths_against_scope trial_tree [''src/app/main.py''] ''WU-1'' (x_work_unit trial_execution) (x_grant_paths trial_execution)
      (x_role_paths trial_execution) = Inr ()" by code_simp
  moreover have "py_str (oget (x_request trial_execution) ''base_sha'') = replicate 40 (CHR ''a'')" "py_str (oget (x_request trial_execution) ''work_unit_id'') = ''WU-1''"
    by (simp_all add: trial_execution_def trial_request_def sample_request_def)
  ultimately show ?thesis using trial_changed by (simp add: inspect_candidate_def)
qed

definition trial_judged :: judged where
  "trial_judged = \<lparr>j_result = trial_canonical, j_claimed = JNull, j_paths = [''src/app/main.py''], j_artifacts = [], j_manifests = [], j_checks = []\<rparr>"

lemma trial_judge: "judge_execution trial_execution (trial_surroundings holder g) place = Inr trial_judged"
proof -
  have "assert_fingerprint_unchanged id trial_tree (snapshot_workspace_fingerprint id trial_tree [''src/app/main.py'']) = Inr ()" by code_simp
  moreover have "verify_independently trial_execution (verifier (trial_surroundings holder g)) [''pytest''] = Inr []"
    by (simp add: verify_independently_def trial_execution_def)
  moreover have "agent (trial_surroundings holder g) r = Inr trial_raw" for r by (simp add: trial_surroundings_def trial_raw_def)
  moreover have "x_request trial_execution = trial_request" by (simp add: trial_execution_def)
  moreover have "tree_before (trial_surroundings holder g) = trial_tree" "tree_after (trial_surroundings holder g) = trial_tree"
      "tree_verified (trial_surroundings holder g) = trial_tree" "hashed (trial_surroundings holder g) = id"
    by (simp_all add: trial_surroundings_def)
  moreover have "manifests_of trial_execution (trial_surroundings holder g) [] [] = []" by (simp add: manifests_of_def)
  ultimately show ?thesis
    by (simp add: judge_execution_def Let_def trial_canonical_result trial_claimed trial_artifacts trial_named trial_allowlist trial_checks trial_inspected trial_judged_def)
qed

lemma trial_locks [simp]: "locks_taken (trial_surroundings holder g) = Inr ()" "marked (trial_surroundings holder g) = Inr ()"
    "journalled (trial_surroundings holder g) = Inr ()"
  by (simp_all add: trial_surroundings_def)

lemma trial_fence: "fence trial_execution (trial_surroundings ''L-1'' g) no_claims = (no_claims\<lparr>claims := [(''EX-1.json'', claim_document trial_execution)]\<rparr>, True, Inr ())"
proof -
  have "lease_of_execution trial_execution (trial_surroundings ''L-1'' trial_index) = Inr (JObj [(''status'', JStr ''active''), (''epoch'', JInt 2)])" by code_simp
  moreover have "lease_of_execution trial_execution (trial_surroundings ''L-1'' g) = lease_of_execution trial_execution (trial_surroundings ''L-1'' trial_index)"
    by (simp add: lease_of_execution_def trial_surroundings_def)
  moreover have "claim_name trial_execution = ''EX-1.json''" by (simp add: claim_name_def trial_execution_def trial_request_def sample_request_def)
  moreover have "x_fenced trial_execution" by (simp add: trial_execution_def)
  ultimately show ?thesis by (simp add: fence_def cas_promote_guard_def no_claims_def)
qed

lemma trial_execute: "execute trial_execution (trial_surroundings holder g) h = promote trial_execution (trial_surroundings holder g) trial_judged h"
proof -
  have "require_valid_request (JObj (x_request trial_execution)) = Inr ()" by (simp add: trial_execution_def trial_request_def sample_valid)
  moreover have "x_package trial_execution = None" by (simp add: trial_execution_def)
  moreover have "(if x_ephemeral trial_execution then workspace_of (trial_surroundings holder g) else Inr (x_workspace trial_execution)) = Inr ''/w''"
    by (simp add: trial_execution_def trial_surroundings_def)
  ultimately show ?thesis by (simp add: execute_def trial_judge)
qed

lemma trial_commit: "commit_candidate trial_execution (trial_surroundings holder trial_index) trial_judged = Inr (replicate 40 (CHR ''b''))"
proof -
  have "create_governed_commit trial_index ''WU-1'' ''EX-1'' [''src/app/main.py''] = Inr (replicate 40 (CHR ''b''))" by code_simp
  moreover have "assert_commit_matches_candidate trial_tree b (replicate 40 (CHR ''a'')) p [''src/app/main.py''] [] = Inr ()" for b p
  proof -
    have "replace_char backslash (CHR ''/'') ''src/app/main.py'' = ''src/app/main.py''" by code_simp
    then show ?thesis by (simp add: assert_commit_matches_candidate_def trial_tree_def)
  qed
  ultimately show ?thesis
    by (simp add: commit_candidate_def trial_surroundings_def trial_judged_def trial_execution_def trial_request_def sample_request_def artifact_hashes_def)
qed

lemma trial_accepted: "\<exists>g' result. execute trial_execution (trial_surroundings ''L-1'' trial_index) no_claims = (g', Inr (Accepted result (replicate 40 (CHR ''b''))))"
  using trial_commit [of "''L-1''"] trial_fence [of trial_index] unfolding trial_execute promote_def
  by (simp add: trial_judged_def Let_def)

text \<open>The same execution once more, with its claim already there.\<close>

definition held_claim :: gw_state where
  "held_claim = no_claims\<lparr>claims := [(''EX-1.json'', claim_document trial_execution)]\<rparr>"

lemma trial_again: "\<exists>g'. execute trial_execution (trial_surroundings ''L-1'' trial_index) held_claim
    = (g', Inr (Rejected ''stale_epoch'' ''promotion claim already held (concurrent or stale worker)'' ''execution_id''))"
proof -
  have "\<exists>d. lease_of_execution trial_execution (trial_surroundings ''L-1'' trial_index) = Inr d"
    using fence_passed [OF trial_fence [of trial_index]] by (simp add: trial_execution_def)
  moreover have "claim_name trial_execution = ''EX-1.json''" by (simp add: claim_name_def trial_execution_def trial_request_def sample_request_def)
  moreover have "x_fenced trial_execution" by (simp add: trial_execution_def)
  ultimately have "fence trial_execution (trial_surroundings ''L-1'' trial_index) held_claim
      = (held_claim, False, stale ''execution_id'' ''promotion claim already held (concurrent or stale worker)'')"
    by (auto simp: fence_def cas_promote_guard_def held_claim_def stale_def fault_at_def)
  then show ?thesis by (simp add: trial_execute promote_def stale_def fault_at_def handle_fault_def Let_def)
qed

lemma committed_candidate:
  assumes j: "judge_execution x s place = Inr j" and com: "commit_candidate x s j = Inr promoted"
  shows "map_of (control_plane (tree_after s)) = map_of (control_plane (tree_before s))"
    "map_of (control_plane (tree_verified s)) = map_of (control_plane (tree_before s))"
    "\<exists>captured files paths cs. inspect_changed_paths (tree_after s) (py_str (oget (x_request x) ''base_sha'')) = Inr captured
        \<and> inspect_changed_paths (tree_verified s) (py_str (oget (x_request x) ''base_sha'')) = Inr paths
        \<and> set paths = set captured \<and> distinct files \<and> set files = set captured
        \<and> snd (snapshot_workspace_fingerprint (hashed s) (tree_verified s) files) = snd (snapshot_workspace_fingerprint (hashed s) (tree_after s) files)
        \<and> list_all (\<lambda>p. \<not> is_forbidden_governance_mutation p \<and> \<not> outside (tree_verified s) (slashed p)) paths
        \<and> boundary_error_for_changed_files paths (py_str (oget (x_request x) ''work_unit_id'')) (x_work_unit x)
            (map JStr (x_grant_paths x)) (map_option (map JStr) (x_role_paths x)) = Inr None
        \<and> changed_files (tree_committed s) (py_str (oget (x_request x) ''base_sha'')) promoted = Inr cs
        \<and> set cs = replace_char backslash (CHR ''/'') ` set paths"
proof -
  obtain raw captured where i1: "inspect_candidate x (tree_before s) (tree_after s) = Inr captured"
    and i2: "inspect_candidate x (tree_before s) (tree_verified s) = Inr (j_paths j)" and same: "set (j_paths j) = set captured"
    and unchanged: "assert_fingerprint_unchanged (hashed s) (tree_verified s) (snapshot_workspace_fingerprint (hashed s) (tree_after s) captured) = Inr ()"
    and canonical: "canonical_result (x_request x) raw = Inr (j_result j)"
    using judge_steps [OF j] by blast
  obtain files where files: "distinct files" "set files = set captured"
      "snd (snapshot_workspace_fingerprint (hashed s) (tree_verified s) files) = snd (snapshot_workspace_fingerprint (hashed s) (tree_after s) files)"
    using unchanged_fingerprint [OF unchanged] by blast
  obtain cs where cs: "changed_files (tree_committed s) (py_str (oget (x_request x) ''base_sha'')) promoted = Inr cs"
      "set cs = replace_char backslash (CHR ''/'') ` set (j_paths j)"
    using committed(1) [OF com] by blast
  have paths: "list_all (\<lambda>p. \<not> is_forbidden_governance_mutation p \<and> \<not> outside (tree_verified s) (slashed p)) (j_paths j)"
    using inspected(3) [OF i2] by (simp add: list_all_iff)
  show "map_of (control_plane (tree_after s)) = map_of (control_plane (tree_before s))"
    "map_of (control_plane (tree_verified s)) = map_of (control_plane (tree_before s))"
    using inspected(1) [OF i1] inspected(1) [OF i2] by simp_all
  show "\<exists>captured files paths cs. inspect_changed_paths (tree_after s) (py_str (oget (x_request x) ''base_sha'')) = Inr captured
        \<and> inspect_changed_paths (tree_verified s) (py_str (oget (x_request x) ''base_sha'')) = Inr paths
        \<and> set paths = set captured \<and> distinct files \<and> set files = set captured
        \<and> snd (snapshot_workspace_fingerprint (hashed s) (tree_verified s) files) = snd (snapshot_workspace_fingerprint (hashed s) (tree_after s) files)
        \<and> list_all (\<lambda>p. \<not> is_forbidden_governance_mutation p \<and> \<not> outside (tree_verified s) (slashed p)) paths
        \<and> boundary_error_for_changed_files paths (py_str (oget (x_request x) ''work_unit_id'')) (x_work_unit x)
            (map JStr (x_grant_paths x)) (map_option (map JStr) (x_role_paths x)) = Inr None
        \<and> changed_files (tree_committed s) (py_str (oget (x_request x) ''base_sha'')) promoted = Inr cs
        \<and> set cs = replace_char backslash (CHR ''/'') ` set paths"
    by (rule exI [of _ captured], rule exI [of _ files], rule exI [of _ "j_paths j"], rule exI [of _ cs])
      (intro conjI inspected(2) [OF i1] inspected(2) [OF i2] same files paths inspected(4) [OF i2] cs)
qed

section \<open>Properties\<close>

text \<open>
  C8. An accepted execution carries the identity of its request and all but the workspace, artifacts, checks
  and status of a validated result with status succeeded; the commands it requested are on the allowlist; the
  control plane of its workspace is the one before the agent started; the changed files after the
  verification are those before it, with the same fingerprint; every changed file passed the boundary of its
  Work Unit and no control-plane path is among them; the commit that is promoted changes exactly these files
  and holds its artifacts with their observed hashes; and a fenced one holds the lease and the claim, which
  nobody held before.
\<close>

theorem accepted_execution_is_verified:
  assumes "execute x s g = (g', Inr (Accepted result promoted))"
  shows "list_all (\<lambda>field. oget result field = oget (x_request x) field) IDENTITY_FIELDS
    \<and> (\<exists>canonical. require_valid_result (JObj canonical) = Inr () \<and> text_field canonical ''status'' = ''succeeded''
        \<and> list_all (\<lambda>field. field \<in> {''workspace'', ''artifacts'', ''checks'', ''status''} \<or> oget result field = oget canonical field) (map fst result))
    \<and> (\<exists>allowlist commands. allowlist_of (x_request x) = Inr allowlist
        \<and> list_of (oget result ''requested_commands'') = Inr commands \<and> list_all (command_listed allowlist) commands)
    \<and> map_of (control_plane (tree_after s)) = map_of (control_plane (tree_before s))
    \<and> map_of (control_plane (tree_verified s)) = map_of (control_plane (tree_before s))
    \<and> (\<exists>captured files paths cs. inspect_changed_paths (tree_after s) (py_str (oget (x_request x) ''base_sha'')) = Inr captured
        \<and> inspect_changed_paths (tree_verified s) (py_str (oget (x_request x) ''base_sha'')) = Inr paths
        \<and> set paths = set captured \<and> distinct files \<and> set files = set captured
        \<and> snd (snapshot_workspace_fingerprint (hashed s) (tree_verified s) files) = snd (snapshot_workspace_fingerprint (hashed s) (tree_after s) files)
        \<and> list_all (\<lambda>p. \<not> is_forbidden_governance_mutation p \<and> \<not> outside (tree_verified s) (slashed p)) paths
        \<and> boundary_error_for_changed_files paths (py_str (oget (x_request x) ''work_unit_id'')) (x_work_unit x)
            (map JStr (x_grant_paths x)) (map_option (map JStr) (x_role_paths x)) = Inr None
        \<and> changed_files (tree_committed s) (py_str (oget (x_request x) ''base_sha'')) promoted = Inr cs
        \<and> set cs = replace_char backslash (CHR ''/'') ` set paths)
    \<and> (\<exists>artifacts. oget result ''artifacts'' = JList (map JObj artifacts)
        \<and> list_all (\<lambda>(p, h). blob_of s promoted p = Some h) (artifact_hashes artifacts))
    \<and> (x_fenced x \<longrightarrow> (\<exists>d. lease_of_execution x s = Inr d) \<and> map_of (claims g) (claim_name x) = None
        \<and> claims g' = (claim_name x, claim_document x) # claims g)"
proof -
  obtain place j where valid: "require_valid_request (JObj (x_request x)) = Inr ()" and j: "judge_execution x s place = Inr j"
    and promoted: "promote x s j g = (g', Inr (Accepted result promoted))"
    using cycle_accepted [OF assms] by blast
  obtain g1 claimed g2 written where fence: "fence x s g = (g1, claimed, Inr ())" and com: "commit_candidate x s j = Inr promoted"
    and ev: "persist_evidence (j_manifests j) [] g1 = (g2, written, Inr ())" and res: "result = accepted_result x j promoted"
    and cl: "claims g' = claims g2"
    using promote_accepted [OF promoted] by blast
  obtain raw where canonical: "canonical_result (x_request x) raw = Inr (j_result j)" using judge_steps [OF j] by blast
  have "require_valid_result (JObj (j_result j)) = Inr ()" "text_field (j_result j) ''status'' = ''succeeded''"
    using canonical_steps(1,2) [OF canonical] by blast+
  then have valid_result: "\<exists>canonical. require_valid_result (JObj canonical) = Inr () \<and> text_field canonical ''status'' = ''succeeded''
      \<and> list_all (\<lambda>field. field \<in> {''workspace'', ''artifacts'', ''checks'', ''status''} \<or> oget result field = oget canonical field) (map fst result)"
    using accepted_field unfolding res by (intro exI [of _ "j_result j"]) (auto simp: list_all_iff)
  have identity: "list_all (\<lambda>field. oget result field = oget (x_request x) field) IDENTITY_FIELDS"
    using judged_identity [OF valid j] accepted_field unfolding res list_all_iff by (auto simp: IDENTITY_FIELDS_def)
  have "oget result ''requested_commands'' = oget (j_result j) ''requested_commands''"
    unfolding res by (rule accepted_field) simp
  then have commands: "\<exists>allowlist commands. allowlist_of (x_request x) = Inr allowlist
      \<and> list_of (oget result ''requested_commands'') = Inr commands \<and> list_all (command_listed allowlist) commands"
    using judged_commands [OF j] by simp
  have artifacts: "oget result ''artifacts'' = JList (map JObj (j_artifacts j))"
      "list_all (\<lambda>(p, h). blob_of s promoted p = Some h) (artifact_hashes (j_artifacts j))"
    using committed(2) [OF com] by (auto simp: list_all_iff res accepted_result_def Let_def)
  then have produced: "\<exists>artifacts. oget result ''artifacts'' = JList (map JObj artifacts)
      \<and> list_all (\<lambda>(p, h). blob_of s promoted p = Some h) (artifact_hashes artifacts)" by blast
  have "claims g' = claims g1" using cl persist_keeps_claims [OF ev] by simp
  then have fenced: "x_fenced x \<longrightarrow> (\<exists>d. lease_of_execution x s = Inr d) \<and> map_of (claims g) (claim_name x) = None
      \<and> claims g' = (claim_name x, claim_document x) # claims g" using fence_passed [OF fence] by simp
  show ?thesis
    using identity valid_result commands committed_candidate [OF j com] produced fenced
    by (intro conjI)
qed

theorem accepted_execution_is_verified_witness:
  "\<exists>g' result. execute trial_execution (trial_surroundings ''L-1'' trial_index) no_claims = (g', Inr (Accepted result (replicate 40 (CHR ''b''))))
     \<and> oget result ''lease_id'' = JStr ''L-1'' \<and> claims g' = [(''EX-1.json'', claim_document trial_execution)]"
proof -
  obtain g' result where run: "execute trial_execution (trial_surroundings ''L-1'' trial_index) no_claims
      = (g', Inr (Accepted result (replicate 40 (CHR ''b''))))" using trial_accepted by blast
  note verified = accepted_execution_is_verified [OF run]
  have "x_fenced trial_execution" "claim_name trial_execution = ''EX-1.json''" "oget (x_request trial_execution) ''lease_id'' = JStr ''L-1''" "claims no_claims = []"
    by (simp_all add: trial_execution_def claim_name_def trial_request_def sample_request_def no_claims_def)
  then show ?thesis using verified run by (simp add: IDENTITY_FIELDS_def)
qed

text \<open>
  C9. A worker that lost its lease is not promoted: when the Run names another lease for the Work Unit, a
  fenced execution under the old lease, whose document is still there, is never accepted. (Without the
  document the lease is looked up in the queue; see the last theorem for what then happens.)
\<close>

theorem superseded_worker_is_not_promoted:
  assumes "x_fenced x" "map_of (documents s) (lease_path (JStr (py_str (oget (x_request x) ''lease_id'')))) = Some f"
    "map_of (documents s) (run_path (JStr (py_str (oget (x_request x) ''run_id'')))) = Some (Doc (JObj run))"
    "oget run ''leases_by_work_unit'' = JObj leases" "oget leases (py_str (oget (x_request x) ''work_unit_id'')) = JObj held"
    "truthy (oget held ''lease_id'')" "oget held ''lease_id'' \<noteq> JStr (py_str (oget (x_request x) ''lease_id''))"
  shows "execute x s g \<noteq> (g', Inr (Accepted result promoted))"
proof
  assume "execute x s g = (g', Inr (Accepted result promoted))"
  then obtain place j where "promote x s j g = (g', Inr (Accepted result promoted))" using cycle_accepted by blast
  then obtain g1 claimed where "fence x s g = (g1, claimed, Inr ())" using promote_accepted by blast
  then obtain d where "lease_of_execution x s = Inr d" using fence_passed assms(1) by blast
  then show False using lease_superseded [OF assms(2-7)] by blast
qed

theorem superseded_worker_is_not_promoted_witness:
  "\<forall>g' result p. execute trial_execution (trial_surroundings ''L-2'' trial_index) no_claims \<noteq> (g', Inr (Accepted result p))"
proof (intro allI superseded_worker_is_not_promoted)
  show "x_fenced trial_execution" by (simp add: trial_execution_def)
  show "map_of (documents (trial_surroundings ''L-2'' trial_index)) (lease_path (JStr (py_str (oget (x_request trial_execution) ''lease_id''))))
      = Some (Doc (JObj [(''status'', JStr ''active''), (''epoch'', JInt 2)]))"
    by (simp add: trial_execution_def trial_request_def sample_request_def trial_surroundings_def trial_store_def lease_path_def)
  show "map_of (documents (trial_surroundings ''L-2'' trial_index)) (run_path (JStr (py_str (oget (x_request trial_execution) ''run_id''))))
      = Some (Doc (JObj [(''leases_by_work_unit'', JObj [(''WU-1'', JObj [(''lease_id'', JStr ''L-2''), (''epoch'', JInt 2)])])]))"
    by (simp add: trial_execution_def trial_request_def sample_request_def trial_surroundings_def trial_store_def run_path_def)
  show "oget [(''leases_by_work_unit'', JObj [(''WU-1'', JObj [(''lease_id'', JStr ''L-2''), (''epoch'', JInt 2)])])] ''leases_by_work_unit''
      = JObj [(''WU-1'', JObj [(''lease_id'', JStr ''L-2''), (''epoch'', JInt 2)])]" by simp
  show "oget [(''WU-1'', JObj [(''lease_id'', JStr ''L-2''), (''epoch'', JInt 2)])] (py_str (oget (x_request trial_execution) ''work_unit_id''))
      = JObj [(''lease_id'', JStr ''L-2''), (''epoch'', JInt 2)]" by (simp add: trial_execution_def trial_request_def sample_request_def)
qed (simp_all add: trial_execution_def trial_request_def sample_request_def)

text \<open>
  C10. Over any sequence of fenced executions, each execution id is accepted at most once, whatever the
  agents, the workspaces and the leases are at the time.
\<close>

theorem execution_accepted_once:
  assumes "list_all (\<lambda>(x, s). x_fenced x) runs" "run_all runs g = (g', vs)"
  shows "distinct (accepted_ids runs vs)"
  using accepted_once [OF assms] by simp

theorem execution_accepted_once_witness:
  "distinct (accepted_ids [(trial_execution, trial_surroundings ''L-1'' trial_index), (trial_execution, trial_surroundings ''L-1'' trial_index)]
     (snd (run_all [(trial_execution, trial_surroundings ''L-1'' trial_index), (trial_execution, trial_surroundings ''L-1'' trial_index)] no_claims)))"
  by (rule execution_accepted_once [OF _ prod.collapse [symmetric]]) (simp add: trial_execution_def)

text \<open>
  C11. A rejected execution leaves the claims and the evidence as they were and promotes nothing, when the
  evidence ids it drew were new.
\<close>

theorem rejected_execution_leaves_nothing:
  assumes "execute x s g = (g', Inr (Rejected code message path))"
    "\<And>place j. judge_execution x s place = Inr j \<Longrightarrow> \<forall>p \<in> fst ` set (j_manifests j). map_of (evidence_files g) p = None"
  shows "claims g' = claims g \<and> map_of (evidence_files g') = map_of (evidence_files g)
    \<and> (\<exists>es. effects g' = effects g @ es \<and> list_all (\<lambda>e. \<not> is_promotion e) es)"
  using cycle_rejects [OF assms] .

theorem rejected_execution_leaves_nothing_witness:
  "\<exists>g' code message path. execute trial_execution (trial_surroundings ''L-1'' trial_index) held_claim = (g', Inr (Rejected code message path))
     \<and> claims g' = claims held_claim"
proof -
  obtain g' where run: "execute trial_execution (trial_surroundings ''L-1'' trial_index) held_claim
      = (g', Inr (Rejected ''stale_epoch'' ''promotion claim already held (concurrent or stale worker)'' ''execution_id''))" using trial_again by blast
  have "claims g' = claims held_claim"
    using rejected_execution_leaves_nothing [OF run] by (auto simp: trial_judge trial_judged_def)
  then show ?thesis using run by blast
qed

section \<open>Where the code falls short\<close>

text \<open>
  Only a structured error is handled: when Git fails during the commit, the claim stays, nothing is quarantined,
  and the execution cannot be promoted any more.
\<close>

theorem git_fault_keeps_claim:
  "\<exists>g1 g2. execute trial_execution (trial_surroundings ''L-1'' broken_index) no_claims = (g1, Inl (GitWorkspaceError ''index.lock''))
     \<and> effects g1 = [] \<and> execute trial_execution (trial_surroundings ''L-1'' trial_index) g1
       = (g2, Inr (Rejected ''stale_epoch'' ''promotion claim already held (concurrent or stale worker)'' ''execution_id''))"
proof -
  have "create_governed_commit broken_index ''WU-1'' ''EX-1'' [''src/app/main.py''] = Inl (GitWorkspaceError ''index.lock'')" by code_simp
  then have "commit_candidate trial_execution (trial_surroundings ''L-1'' broken_index) trial_judged = Inl (GitWorkspaceError ''index.lock'')"
    by (simp add: commit_candidate_def trial_surroundings_def trial_judged_def trial_execution_def trial_request_def sample_request_def)
  then have "execute trial_execution (trial_surroundings ''L-1'' broken_index) no_claims = (held_claim, Inl (GitWorkspaceError ''index.lock''))"
    using trial_fence [of broken_index] by (simp add: trial_execute promote_def handle_fault_def held_claim_def)
  moreover have "effects held_claim = []" by (simp add: held_claim_def no_claims_def)
  ultimately show ?thesis using trial_again by blast
qed

text \<open>A lease id that neither a document nor a queue item knows passes the fence.\<close>

lemma untracked_items:
  "\<forall>item \<in> set items. oget item ''lease_id'' \<noteq> JStr lease_id
    \<Longrightarrow> assert_queue_items lease_id epoch worker_id items
        = Inr (JObj [(''lease_id'', JStr lease_id), (''lease_epoch'', JInt epoch), (''state'', JStr ''untracked'')])"
  by (induction items) auto

theorem unknown_lease_passes_fence:
  assumes "\<not> is_file s (lease_path (JStr lease_id))" "\<forall>item \<in> set (list_items False q). oget item ''lease_id'' \<noteq> JStr lease_id"
  shows "\<exists>d. assert_authoritative_lease s q run_id work_unit_id lease_id epoch worker_id = Inr d"
  using assms untracked_items by (simp add: assert_authoritative_lease_def assert_queue_lease_def)

end
