(* ===== verification/Spec2Isabelle.thy ===== *)
theory Spec2Isabelle
  imports TickSafety AreaFilter TransactionRecovery CloseSafety PathPolicy GrantSafety GatewaySafety QueueSafety InstanceLock Journal ReconcileSafety SemVer EffectiveScope AgentSafety
begin

text \<open>
  This library models the governance core of the framework: the Python program under
  \<open>src/src/governed_ai/\<close> that lets AI agents work on a product only within what people granted.
  It is written next to the code: a dictionary or YAML document is a \<open>json\<close> value, the documents
  under \<open>.ai-team/\<close> are a \<open>store\<close> (path to document), an exception is the left value of a sum
  (\<open>pyexc\<close>, or a \<open>GatewayError\<close> with its code and JSON pointer), and a function keeps its name.

  The program and how its parts interact. Every change of a governed document is a command: an
  envelope that names an actor, a target and a payload. The gateway validates it, checks who may
  send it, runs the handler of its type on the documents, and commits what the handler planned as
  one transaction, together with a receipt under the idempotency key. A Run is a bounded session
  of agents on a set of Work Units, opened under a grant that a person issued. The scheduler sends
  the commands of a Run, one tick at a time, and has an agent execute one step. The supervisor
  keeps schedulers alive: it holds the instance lock, leases work items, watches the progress of
  Runs, and replaces a Run that broke by a recovery Run, within a bound.

  Foundations. \<open>Prelude\<close>: sums, partial checks, lists and maps. \<open>Errors\<close>: the error codes
  (\<open>core/commands/errors.py\<close>). \<open>PyValue\<close>, \<open>PyText\<close>, \<open>PyTime\<close>, \<open>PyJson\<close>: what the code uses of
  Python values, strings and \<open>fnmatch\<close>, ISO times, and canonical JSON. \<open>Workspace\<close>: the store, the
  environment of one command (clock, identifiers, hash) and the reply of a handler.

  Domain rules (\<open>core/domain/\<close>). \<open>StatusMachine\<close>: the transition tables. \<open>AreaFilter\<close>,
  \<open>ExecutionCeiling\<close>, \<open>Leases\<close>, \<open>Grant\<close>, \<open>AutonomyPolicy\<close>, \<open>PathPolicy\<close>, \<open>Readiness\<close>,
  \<open>MorningReport\<close>, \<open>Ensemble\<close>, \<open>SemVer\<close>.

  Commands (\<open>core/commands/\<close>). \<open>Envelope\<close>, \<open>HumanAuthorization\<close>, \<open>RunAuthorization\<close>, and one
  definition per handler in \<open>LeaseCommands\<close>, \<open>RunCommands\<close>, \<open>AttemptCommands\<close>, \<open>RunLifecycle\<close>,
  \<open>GrantCommands\<close>, \<open>RecordCommands\<close>, \<open>GateDecisions\<close>, \<open>HumanFeedback\<close>, \<open>ProfileCommands\<close>.
  \<open>Transaction\<close> is \<open>core/persistence/transaction.py\<close> with its crash points, \<open>Gateway\<close> is
  \<open>gateway.py\<close>: it runs every modelled handler (\<open>HANDLERS\<close>), those of human feedback and of the
  project profile included, and gets the handlers that are not modelled (observations and
  retrospectives, the design authority, the commands of ensembles) as a parameter
  (\<open>other_handlers\<close>), about which nothing is assumed unless a theorem says so. A handler is a function from
  the documents to its planned writes or an error: what one writes outside of its
  transaction is not representable. The modelled handlers do not do that (they create directories at
  most); \<open>RegisterMember\<close> does (\<open>handlers/ensemble.py:392\<close>), and is not modelled. A rejected command
  leaves the state as it was by construction, and no property claims it.

  Scheduler and agents. \<open>Dispatch\<close> and \<open>Tick\<close>: \<open>core/orchestrator/tick.py\<close>, what it reads and
  the whole tick with every command it sends. \<open>CheckRegistry\<close>, \<open>EffectiveScope\<close>,
  \<open>ResultValidation\<close> and \<open>CommandPolicy\<close>: what the execution gateway (\<open>core/execution_gateway/\<close>)
  decides about the names of checks, the paths an agent may write, the structure of its result and
  the commands that are run to verify it. \<open>LegacyResult\<close> (\<open>legacy.py\<close>), \<open>Candidate\<close>
  (\<open>transactional.py\<close> and \<open>evidence.py\<close>) and \<open>AgentExecution\<close> (\<open>gateway.py\<close>) put them together to
  the cycle of one execution: the agent runs, its result is adapted and validated, its changes are
  inspected before and after the verification, and behind the lease and an exclusive claim they
  are committed, compared with the commit, and promoted. A tree of the workspace is a record of
  what Git and the file system answer at one moment of that cycle. The outcomes of taking the lock, of
  marking the promotion and of writing the journal are parameters too, and their failures are branches.

  Supervisor (\<open>core/supervisor/\<close>). \<open>InstanceLock\<close>, \<open>WorkQueue\<close>, \<open>Journal\<close>, \<open>Progress\<close>
  (\<open>core/orchestrator/progress.py\<close>), \<open>Recovery\<close>, \<open>Reconcile\<close>.

  What the lemmas show. Persistence: a commit is atomic under a crash anywhere, recovery completes
  or undoes it (\<open>TransactionRecovery\<close>), and so is every command, which is also idempotent and
  authorized (\<open>GatewaySafety\<close>). Leases and fencing: a fresh lease excludes, a superseded one cannot
  write (\<open>LeaseCommands\<close>, \<open>CloseSafety\<close>). Limits of what was granted: \<open>GrantSafety\<close>,
  \<open>LifecycleSafety\<close>, \<open>AttemptSafety\<close>, \<open>RunSafety\<close>, \<open>AutonomyPolicy\<close>, \<open>PathPolicy\<close>. The scheduler
  (\<open>TickSafety\<close>): every tick stays within a mandate without human authority, executes at most one
  step and only behind the command that fences it, and merges only behind a heartbeat.
  The boundary to an agent: its scope stays within every axis (\<open>EffectiveScope\<close>), its result carries
  the identity of its request (\<open>ResultValidation\<close>), and the verification runs allowed commands only and
  hides secrets (\<open>CommandPolicy\<close>); what is accepted was verified and is what was committed, is
  accepted once and not under a lost lease, and what is rejected leaves nothing (\<open>AgentSafety\<close>). The
  supervisor: every call of the queue has the effect that a specification gives it at that time for
  that caller (\<open>QueueRefinement\<close>, \<open>QueueSafety\<close>), starts exclude
  one another (\<open>InstanceLock\<close>), recoveries are bounded and end with the Run their accepted command
  opened (\<open>RecoverySafety\<close>), and a cycle acts only on Runs that are active and unattended
  (\<open>ReconcileSafety\<close>). Several theorems state where the code
  falls short of its comments; the manifest lists them as findings.

  Parameters. What is not under the modelled files is an argument: the JSON schema validator, the
  hash, the clock and the identifiers (one reading per command), Git, the operating system's view
  of processes and files, the agent, the documents of the active bundle, and the answers of the
  design authority. To the tick the governed execution is one of these parameters. Nothing is assumed of them except where a theorem says so, as
  of the hash, whose values differ for the texts a theorem compares.

  Bounds and fuel. No definition runs on fuel. Loops are structural recursions over the documents
  or lists the code walks; those that are not (\<open>glob_parse\<close>, \<open>find_year\<close>, \<open>strip_quoted_regions\<close>,
  \<open>replace_text\<close>) have a termination proof. The journal tries eight sequence numbers, as the code does. Integers are Python's, so they
  are unbounded; spend and percentages are exact fractions where the code uses floats. Strings are
  the bytes of their UTF-8 form: lengths count bytes, and \<open>lower\<close> acts on ASCII letters.

  Not modelled. Of the execution gateway: the compilation of a request, the making of a workspace,
  progress events and the declared capabilities; \<open>git_workspace.py\<close>: it drives processes and file
  trees. The design authority, the overlays of
  ensembles and their commands, feedback reports and their export, notifications, adapters,
  installers, scripts, hooks and migrations: input and output around the core, or whole-tree file
  operations that are no documents. File locks are not modelled: they make one call one step.
\<close>

end
